(* ===== verification/Prelude.thy ===== *)
theory Prelude
  imports Main "HOL-Library.Word" "HOL-Library.AList"
begin

text \<open>
  Shared vocabulary of the development: the machine types of Go, the result of a Go
  function that may return an error or panic, the bounds-checked slice and index
  expressions, and Go's built-in map as an association list with distinct keys.  The
  collections \<open>outcome_simps\<close> and \<open>gomap_simps\<close> carry the component proofs.
\<close>

unbundle bit_operations_syntax

named_theorems outcome_simps \<open>evaluation of the outcome monad\<close>
named_theorems gomap_simps \<open>lookup after an update of a Go map\<close>
named_theorems gomap_wf \<open>operations that keep the keys of a Go map distinct\<close>

type_synonym byte = "8 word"
type_synonym u16 = "16 word"
type_synonym u32 = "32 word"
type_synonym u64 = "64 word"
type_synonym bytes = "byte list"

section \<open>Outcomes of Go functions\<close>

text \<open>
  A call returns a value, returns an error value, or panics.  The three are kept apart
  so that the absence of panics can be stated.
\<close>

datatype ('e, 'a) outcome = Ok 'a | Err 'e | Panic

fun bindO :: "('e, 'a) outcome \<Rightarrow> ('a \<Rightarrow> ('e, 'b) outcome) \<Rightarrow> ('e, 'b) outcome" where
  "bindO (Ok x) f = f x"
| "bindO (Err e) f = Err e"
| "bindO Panic f = Panic"

declare bindO.simps [outcome_simps]

lemma bindO_cong [fundef_cong]:
  assumes "m = m'" and "\<And>x. m' = Ok x \<Longrightarrow> f x = g x"
  shows "bindO m f = bindO m' g"
  using assms by (cases m') auto

lemma bindO_eq_Ok_iff: "bindO m f = Ok y \<longleftrightarrow> (\<exists>x. m = Ok x \<and> f x = Ok y)"
  by (cases m) auto

lemma bindO_eq_Err_iff:
  "bindO m f = Err e \<longleftrightarrow> m = Err e \<or> (\<exists>x. m = Ok x \<and> f x = Err e)"
  by (cases m) auto

lemma bindO_eq_Panic_iff:
  "bindO m f = Panic \<longleftrightarrow> m = Panic \<or> (\<exists>x. m = Ok x \<and> f x = Panic)"
  by (cases m) auto

lemma bindO_not_Panic:
  assumes "m \<noteq> Panic" and "\<And>x. m = Ok x \<Longrightarrow> f x \<noteq> Panic"
  shows "bindO m f \<noteq> Panic"
  using assms by (cases m) auto

fun mapO :: "('a \<Rightarrow> 'b) \<Rightarrow> ('e, 'a) outcome \<Rightarrow> ('e, 'b) outcome" where
  "mapO f (Ok x) = Ok (f x)"
| "mapO f (Err e) = Err e"
| "mapO f Panic = Panic"

declare mapO.simps [outcome_simps]

lemma mapO_eq_Ok_iff: "mapO f m = Ok y \<longleftrightarrow> (\<exists>x. m = Ok x \<and> y = f x)"
  by (cases m) auto

lemma mapO_eq_Panic_iff [simp]: "mapO f m = Panic \<longleftrightarrow> m = Panic"
  by (cases m) auto

section \<open>Slices and indexing\<close>

text \<open>
  \<open>xs[i:j]\<close> and \<open>xs[i]\<close> panic out of range.  The bound checked here is the length, where
  Go's slice expression checks the capacity: the model panics whenever Go does.
\<close>

definition go_slice :: "'a list \<Rightarrow> nat \<Rightarrow> nat \<Rightarrow> ('e, 'a list) outcome" where
  "go_slice xs i j = (if i \<le> j \<and> j \<le> length xs then Ok (take (j - i) (drop i xs)) else Panic)"

definition go_index :: "'a list \<Rightarrow> nat \<Rightarrow> ('e, 'a) outcome" where
  "go_index xs i = (if i < length xs then Ok (xs ! i) else Panic)"

lemma go_slice_Ok [outcome_simps]:
  "i \<le> j \<Longrightarrow> j \<le> length xs \<Longrightarrow> go_slice xs i j = Ok (take (j - i) (drop i xs))"
  by (simp add: go_slice_def)

lemma go_index_Ok [outcome_simps]: "i < length xs \<Longrightarrow> go_index xs i = Ok (xs ! i)"
  by (simp add: go_index_def)

lemma go_slice_eq_Ok_iff:
  "go_slice xs i j = Ok ys \<longleftrightarrow> i \<le> j \<and> j \<le> length xs \<and> ys = take (j - i) (drop i xs)"
  by (auto simp: go_slice_def)

lemma go_slice_not_Err [simp]: "go_slice xs i j \<noteq> Err e"
  by (simp add: go_slice_def)

lemma go_index_not_Err [simp]: "go_index xs i \<noteq> Err e"
  by (simp add: go_index_def)

section \<open>Go maps\<close>

text \<open>
  A Go map is an association list whose keys are distinct: lookup, assignment, \<open>delete\<close>
  and \<open>len\<close> compute.  The order of the pairs stands for one iteration order, which Go
  leaves open; no property below depends on it.
\<close>

type_synonym ('k, 'v) gomap = "('k \<times> 'v) list"

definition go_get :: "('k, 'v) gomap \<Rightarrow> 'k \<Rightarrow> 'v option" where
  "go_get m k = map_of m k"

definition go_put :: "'k \<Rightarrow> 'v \<Rightarrow> ('k, 'v) gomap \<Rightarrow> ('k, 'v) gomap" where
  "go_put k v m = AList.update k v m"

definition go_del :: "'k \<Rightarrow> ('k, 'v) gomap \<Rightarrow> ('k, 'v) gomap" where
  "go_del k m = AList.delete k m"

definition go_len :: "('k, 'v) gomap \<Rightarrow> nat" where
  "go_len m = length m"

definition gomap_ok :: "('k, 'v) gomap \<Rightarrow> bool" where
  "gomap_ok m \<longleftrightarrow> distinct (map fst m)"

lemma go_get_Nil [simp, gomap_simps]: "go_get [] k = None"
  by (simp add: go_get_def)

lemma go_get_put [simp, gomap_simps]:
  "go_get (go_put k v m) k' = (if k = k' then Some v else go_get m k')"
  by (simp add: go_get_def go_put_def update_conv')

lemma go_get_del [simp, gomap_simps]:
  "go_get (go_del k m) k' = (if k = k' then None else go_get m k')"
  by (simp add: go_get_def go_del_def delete_conv')

lemma gomap_ok_Nil [simp, gomap_wf]: "gomap_ok []"
  by (simp add: gomap_ok_def)

lemma gomap_ok_put [simp, gomap_wf]: "gomap_ok m \<Longrightarrow> gomap_ok (go_put k v m)"
  by (simp add: gomap_ok_def go_put_def distinct_update)

lemma gomap_ok_del [simp, gomap_wf]: "gomap_ok m \<Longrightarrow> gomap_ok (go_del k m)"
  by (simp add: gomap_ok_def go_del_def distinct_delete)

lemma gomap_ok_filter [gomap_wf]: "gomap_ok m \<Longrightarrow> gomap_ok (filter P m)"
  by (auto simp: gomap_ok_def distinct_map inj_on_def)

lemma go_get_in_set: "go_get m k = Some v \<Longrightarrow> (k, v) \<in> set m"
  by (simp add: go_get_def map_of_SomeD)

lemma go_get_iff_in_set: "gomap_ok m \<Longrightarrow> go_get m k = Some v \<longleftrightarrow> (k, v) \<in> set m"
  by (simp add: gomap_ok_def go_get_def map_of_eq_Some_iff)

lemma go_get_None_iff: "go_get m k = None \<longleftrightarrow> k \<notin> fst ` set m"
  by (simp add: go_get_def map_of_eq_None_iff)

lemma go_len_card: "gomap_ok m \<Longrightarrow> go_len m = card {k. go_get m k \<noteq> None}"
proof -
  assume ok: "gomap_ok m"
  have "{k. go_get m k \<noteq> None} = set (map fst m)"
    by (auto simp: go_get_None_iff image_iff)
  with ok show ?thesis
    by (metis distinct_card go_len_def gomap_ok_def length_map)
qed

lemma go_len_Nil [simp]: "go_len [] = 0"
  by (simp add: go_len_def)

lemma go_len_put: "go_len (go_put k v m) = (if go_get m k = None then Suc (go_len m) else go_len m)"
  by (induction m) (auto simp: go_len_def go_put_def go_get_def)

lemma go_len_del:
  assumes "gomap_ok m"
  shows "go_len (go_del k m) = (if go_get m k = None then go_len m else go_len m - 1)"
proof -
  have "{k'. go_get (go_del k m) k' \<noteq> None} = {k'. go_get m k' \<noteq> None} - {k}"
    by auto
  moreover have "finite {k'. go_get m k' \<noteq> None}"
    using finite_dom_map_of [of m] by (simp add: go_get_def dom_def)
  ultimately show ?thesis
    using assms by (simp add: go_len_card)
qed

lemma go_get_filter:
  "gomap_ok m \<Longrightarrow> go_get (filter (\<lambda>(k, v). P k v) m) k =
     (case go_get m k of None \<Rightarrow> None | Some v \<Rightarrow> if P k v then Some v else None)"
proof (induction m)
  case Nil
  then show ?case by simp
next
  case (Cons p m)
  obtain a b where p: "p = (a, b)" by (cases p)
  from Cons.prems p have ok: "gomap_ok m" and new: "a \<notin> fst ` set m"
    by (simp_all add: gomap_ok_def)
  from new have "go_get m a = None" by (simp add: go_get_None_iff)
  with Cons.IH [OF ok] p show ?case
    by (auto simp: go_get_def split: option.splits)
qed

end
