(* ===== verification/GoIO.thy ===== *)
theory GoIO
  imports Prelude
begin

text \<open>
  The part of Go's standard library that the packet code rests on: \<open>encoding/binary\<close> byte
  orders, \<open>io.ReadFull\<close> on a byte stream, \<open>io.Writer\<close> with an optional \<open>bufio.Writer\<close> in
  front of it, and \<open>time.Time\<close> values.  The contract of a fixed-width byte codec is the
  locale \<open>byte_codec\<close>, interpreted for the three integer widths in both byte orders.
\<close>

section \<open>Byte orders\<close>

datatype byte_order = BigEndian | LittleEndian

text \<open>The \<open>n\<close> low bytes of a word, most significant first, and the word they spell.\<close>

fun be_bytes :: "nat \<Rightarrow> 'a::len word \<Rightarrow> bytes" where
  "be_bytes 0 w = []"
| "be_bytes (Suc n) w = be_bytes n (drop_bit 8 w) @ [ucast w]"

definition be_word :: "bytes \<Rightarrow> 'a::len word" where
  "be_word bs = foldl (\<lambda>w b. push_bit 8 w OR ucast b) 0 bs"

fun order_bytes :: "byte_order \<Rightarrow> bytes \<Rightarrow> bytes" where
  "order_bytes BigEndian bs = bs"
| "order_bytes LittleEndian bs = rev bs"

lemma length_be_bytes [simp]: "length (be_bytes n w) = n"
  by (induction n arbitrary: w) auto

lemma length_order_bytes [simp]: "length (order_bytes ord bs) = length bs"
  by (cases ord) auto

lemma order_bytes_twice [simp]: "order_bytes ord (order_bytes ord bs) = bs"
  by (cases ord) auto

lemma be_word_snoc: "be_word (bs @ [b]) = push_bit 8 (be_word bs) OR ucast b"
  by (simp add: be_word_def)

lemma be_word_bytes: "be_word (be_bytes n w) = take_bit (8 * n) (w :: 'a::len word)"
proof (induction n arbitrary: w)
  case 0
  show ?case by (simp add: be_word_def)
next
  case (Suc n)
  have "push_bit 8 (take_bit (8 * n) (drop_bit 8 w)) OR ucast (ucast w :: byte) = take_bit (8 + 8 * n) w"
    by (rule bit_word_eqI) (auto simp: bit_simps)
  with Suc.IH show ?case by (simp add: be_word_snoc)
qed

text \<open>\<open>order.PutUint16\<close>, \<open>order.Uint16\<close> and their 32 and 64 bit forms.\<close>

definition put_word :: "nat \<Rightarrow> byte_order \<Rightarrow> 'a::len word \<Rightarrow> bytes" where
  "put_word n ord w = order_bytes ord (be_bytes n w)"

definition get_word :: "nat \<Rightarrow> byte_order \<Rightarrow> bytes \<Rightarrow> ('e, 'a::len word) outcome" where
  "get_word n ord bs =
     (if length bs < n then Panic else Ok (be_word (order_bytes ord (take n bs))))"

abbreviation put_uint16 :: "byte_order \<Rightarrow> u16 \<Rightarrow> bytes" where
  "put_uint16 \<equiv> put_word 2"

abbreviation put_uint32 :: "byte_order \<Rightarrow> u32 \<Rightarrow> bytes" where
  "put_uint32 \<equiv> put_word 4"

abbreviation put_uint64 :: "byte_order \<Rightarrow> u64 \<Rightarrow> bytes" where
  "put_uint64 \<equiv> put_word 8"

abbreviation get_uint16 :: "byte_order \<Rightarrow> bytes \<Rightarrow> ('e, u16) outcome" where
  "get_uint16 \<equiv> get_word 2"

abbreviation get_uint32 :: "byte_order \<Rightarrow> bytes \<Rightarrow> ('e, u32) outcome" where
  "get_uint32 \<equiv> get_word 4"

abbreviation get_uint64 :: "byte_order \<Rightarrow> bytes \<Rightarrow> ('e, u64) outcome" where
  "get_uint64 \<equiv> get_word 8"

lemma length_put_word [simp]: "length (put_word n ord w) = n"
  by (simp add: put_word_def)

lemma get_word_not_Err [simp]: "get_word n ord bs \<noteq> Err e"
  by (simp add: get_word_def)

lemma get_word_eq_Panic_iff [simp]: "get_word n ord bs = Panic \<longleftrightarrow> length bs < n"
  by (simp add: get_word_def)

section \<open>The contract of a fixed-width codec\<close>

locale byte_codec =
  fixes enc :: "'v \<Rightarrow> bytes"
    and dec :: "bytes \<Rightarrow> ('e, 'v) outcome"
    and width :: nat
  assumes enc_length: "length (enc v) = width"
    and dec_enc: "dec (enc v @ rest) = Ok v"
    and dec_Panic: "dec bs = Panic \<longleftrightarrow> length bs < width"
begin

lemma dec_enc_exact: "dec (enc v) = Ok v"
  using dec_enc [of v "[]"] by simp

lemma enc_inject: "enc v @ r = enc v' @ r' \<longleftrightarrow> v = v' \<and> r = r'"
  by (metis append_eq_append_conv dec_enc enc_length outcome.inject(1))

lemma take_enc: "take width (enc v @ r) = enc v"
  using enc_length [of v] by simp

lemma drop_enc: "drop width (enc v @ r) = r"
  using enc_length [of v] by simp

lemma dec_field:
  "length p = i \<Longrightarrow> j = i + width \<Longrightarrow> bindO (go_slice (p @ enc v @ r) i j) dec = Ok v"
  using enc_length [of v] by (simp add: go_slice_Ok dec_enc_exact)

end

lemma get_put_word:
  "LENGTH('a) \<le> 8 * n \<Longrightarrow> get_word n ord (put_word n ord w @ r) = Ok (w :: 'a::len word)"
  by (simp add: get_word_def put_word_def be_word_bytes take_bit_word_eq_self)

interpretation c16: byte_codec "put_uint16 ord" "get_uint16 ord" 2 for ord
  by unfold_locales (simp_all add: get_put_word)

interpretation c32: byte_codec "put_uint32 ord" "get_uint32 ord" 4 for ord
  by unfold_locales (simp_all add: get_put_word)

interpretation c64: byte_codec "put_uint64 ord" "get_uint64 ord" 8 for ord
  by unfold_locales (simp_all add: get_put_word)

lemmas codec_simps =
  c16.dec_enc c16.dec_enc_exact c32.dec_enc c32.dec_enc_exact c64.dec_enc c64.dec_enc_exact

text \<open>
  Fields of a fixed-size array (\<open>hdr[4:8]\<close> with constant bounds, which the compiler
  checks) are read without a run-time bound check.
\<close>

definition word_at :: "nat \<Rightarrow> byte_order \<Rightarrow> nat \<Rightarrow> bytes \<Rightarrow> 'a::len word" where
  "word_at n ord i bs = be_word (order_bytes ord (take n (drop i bs)))"

lemma word_at_skip: "length p \<le> i \<Longrightarrow> word_at n ord i (p @ r) = word_at n ord (i - length p) r"
  by (simp add: word_at_def)

lemma word_at_here:
  "LENGTH('a) \<le> 8 * n \<Longrightarrow> word_at n ord 0 (put_word n ord w @ r) = (w :: 'a::len word)"
  by (simp add: word_at_def put_word_def be_word_bytes take_bit_word_eq_self)

lemma word_at_here_exact:
  "LENGTH('a) \<le> 8 * n \<Longrightarrow> word_at n ord 0 (put_word n ord w) = (w :: 'a::len word)"
  using word_at_here [of n ord w "[]"] by simp

lemmas word_at_simps = word_at_skip word_at_here word_at_here_exact

lemma get_word_in_range [outcome_simps]:
  "n \<le> length bs \<Longrightarrow> get_word n ord bs = Ok (word_at n ord 0 bs)"
  by (simp add: get_word_def word_at_def)

lemma word_at_take_drop [outcome_simps]:
  "word_at n ord 0 (take n (drop i bs)) = word_at n ord i bs"
  "word_at n ord 0 (take n bs) = word_at n ord 0 bs"
  "word_at n ord 0 (drop i bs) = word_at n ord i bs"
  by (simp_all add: word_at_def)

section \<open>Readers\<close>

text \<open>
  An \<open>io.Reader\<close> is the bytes it will deliver and the error it then returns.
  \<open>io.ReadFull\<close> does not depend on how the bytes are split over \<open>Read\<close> calls.
\<close>

datatype io_error = EOF | UnexpectedEOF | ShortWrite | DeviceError nat

record stream =
  pending :: bytes
  ending :: io_error

definition read_full :: "nat \<Rightarrow> stream \<Rightarrow> (io_error + bytes) \<times> stream" where
  "read_full n s =
     (if n \<le> length (pending s)
      then (Inr (take n (pending s)), s\<lparr>pending := drop n (pending s)\<rparr>)
      else if pending s = [] then (Inl (ending s), s)
      else (Inl (if ending s = EOF then UnexpectedEOF else ending s), s\<lparr>pending := []\<rparr>))"

lemma read_full_short:
  "pending s \<noteq> [] \<Longrightarrow> length (pending s) < n \<Longrightarrow> ending s = EOF \<Longrightarrow>
     read_full n s = (Inl UnexpectedEOF, s\<lparr>pending := []\<rparr>)"
  by (simp add: read_full_def)

definition bytes_reader :: "bytes \<Rightarrow> stream" where
  "bytes_reader bs = \<lparr>pending = bs, ending = EOF\<rparr>"

lemma read_full_append:
  "length p = n \<Longrightarrow> read_full n \<lparr>pending = p @ r, ending = e\<rparr> = (Inr p, \<lparr>pending = r, ending = e\<rparr>)"
  by (simp add: read_full_def)

lemma read_full_Inr_iff:
  "read_full n s = (Inr bs, s') \<longleftrightarrow>
     n \<le> length (pending s) \<and> bs = take n (pending s) \<and> s' = s\<lparr>pending := drop n (pending s)\<rparr>"
  by (auto simp: read_full_def)

lemma read_full_length: "read_full n s = (Inr bs, s') \<Longrightarrow> length bs = n"
  by (auto simp: read_full_Inr_iff)

lemma read_full_pending: "read_full n s = (r, s') \<Longrightarrow> length (pending s') \<le> length (pending s)"
  by (auto simp: read_full_def split: if_splits)

lemma read_full_progress:
  "read_full n s = (Inr bs, s') \<Longrightarrow> length (pending s') = length (pending s) - n \<and> n \<le> length (pending s)"
  by (auto simp: read_full_Inr_iff)

lemma read_full_ending: "read_full n s = (r, s') \<Longrightarrow> ending s' = ending s"
  by (auto simp: read_full_def split: if_splits)

section \<open>Writers\<close>

text \<open>
  An \<open>io.Writer\<close> keeps what was written to it and fails once its room is used up
  (\<open>None\<close>: it never fails); a failing \<open>Write\<close> stores the part that fits.  \<open>close_result\<close>
  is \<open>None\<close> when the value does not implement \<open>io.Closer\<close>.
\<close>

record sink =
  written :: bytes
  room :: "nat option"
  close_result :: "io_error option option"
  closed :: bool

definition sink_write :: "bytes \<Rightarrow> sink \<Rightarrow> io_error option \<times> nat \<times> sink" where
  "sink_write p s =
     (case room s of
        None \<Rightarrow> (None, length p, s\<lparr>written := written s @ p\<rparr>)
      | Some r \<Rightarrow>
          if length p \<le> r
          then (None, length p, s\<lparr>written := written s @ p, room := Some (r - length p)\<rparr>)
          else (Some (DeviceError 0), r, s\<lparr>written := written s @ take r p, room := Some 0\<rparr>))"

definition sink_close :: "sink \<Rightarrow> io_error option \<times> sink" where
  "sink_close s = (case close_result s of None \<Rightarrow> (None, s) | Some e \<Rightarrow> (e, s\<lparr>closed := True\<rparr>))"

text \<open>An empty file on a device with room, whose \<open>Close\<close> succeeds.\<close>

definition fresh_file :: sink where
  "fresh_file = \<lparr>written = [], room = None, close_result = Some None, closed = False\<rparr>"

text \<open>
  \<open>bufio.Writer\<close>: \<open>bsize\<close> is the capacity of the buffer and \<open>berr\<close> the sticky error.  The
  loop of \<open>Write\<close> runs at most twice (fill and flush, then direct write or copy), so it is
  unrolled.
\<close>

record bufio =
  bsize :: nat
  bbuf :: bytes
  berr :: "io_error option"

record outw =
  dest :: sink
  obuf :: "bufio option"

definition bufio_flush :: "bufio \<Rightarrow> sink \<Rightarrow> io_error option \<times> bufio \<times> sink" where
  "bufio_flush b s =
     (case berr b of
        Some e \<Rightarrow> (Some e, b, s)
      | None \<Rightarrow>
          if bbuf b = [] then (None, b, s)
          else (case sink_write (bbuf b) s of
                  (None, n, s') \<Rightarrow> (None, b\<lparr>bbuf := []\<rparr>, s')
                | (Some e, n, s') \<Rightarrow> (Some e, b\<lparr>bbuf := drop n (bbuf b), berr := Some e\<rparr>, s')))"

definition bufio_direct :: "bytes \<Rightarrow> bufio \<Rightarrow> sink \<Rightarrow> io_error option \<times> bufio \<times> sink" where
  "bufio_direct p b s =
     (if length p \<le> bsize b then (None, b\<lparr>bbuf := p\<rparr>, s)
      else (case sink_write p s of
              (None, n, s') \<Rightarrow> (None, b, s')
            | (Some e, n, s') \<Rightarrow> (Some e, b\<lparr>berr := Some e\<rparr>, s')))"

definition bufio_write :: "bytes \<Rightarrow> bufio \<Rightarrow> sink \<Rightarrow> io_error option \<times> bufio \<times> sink" where
  "bufio_write p b s =
     (case berr b of
        Some e \<Rightarrow> (Some e, b, s)
      | None \<Rightarrow>
          let avail = bsize b - length (bbuf b) in
          if length p \<le> avail then (None, b\<lparr>bbuf := bbuf b @ p\<rparr>, s)
          else if bbuf b = [] then bufio_direct p b s
          else (case bufio_flush (b\<lparr>bbuf := bbuf b @ take avail p\<rparr>) s of
                  (Some e, b', s') \<Rightarrow> (Some e, b', s')
                | (None, b', s') \<Rightarrow> bufio_direct (drop avail p) b' s'))"

text \<open>\<open>w.w.Write(p)\<close> and \<open>Close\<close>, as both capture writers use them.\<close>

definition out_write :: "bytes \<Rightarrow> outw \<Rightarrow> io_error option \<times> outw" where
  "out_write p w =
     (case obuf w of
        None \<Rightarrow> (case sink_write p (dest w) of (e, n, s) \<Rightarrow> (e, w\<lparr>dest := s\<rparr>))
      | Some b \<Rightarrow> (case bufio_write p b (dest w) of (e, b', s) \<Rightarrow> (e, w\<lparr>dest := s, obuf := Some b'\<rparr>)))"

definition out_flush :: "outw \<Rightarrow> io_error option \<times> outw" where
  "out_flush w =
     (case obuf w of
        None \<Rightarrow> (None, w)
      | Some b \<Rightarrow> (case bufio_flush b (dest w) of (e, b', s) \<Rightarrow> (e, w\<lparr>dest := s, obuf := Some b'\<rparr>)))"

definition out_close :: "outw \<Rightarrow> io_error option \<times> outw" where
  "out_close w =
     (case out_flush w of
        (Some e, w') \<Rightarrow> (Some e, w')
      | (None, w') \<Rightarrow> (case sink_close (dest w') of (e, s) \<Rightarrow> (e, w'\<lparr>dest := s\<rparr>)))"

text \<open>The bytes a writer has accepted: on the device, then in the buffer.\<close>

definition accepted :: "outw \<Rightarrow> bytes" where
  "accepted w = written (dest w) @ (case obuf w of None \<Rightarrow> [] | Some b \<Rightarrow> bbuf b)"

text \<open>A writer that cannot fail: unlimited room, no sticky error.\<close>

definition healthy :: "outw \<Rightarrow> bool" where
  "healthy w \<longleftrightarrow> room (dest w) = None \<and>
     (case obuf w of None \<Rightarrow> True | Some b \<Rightarrow> berr b = None)"

lemma out_write_healthy:
  assumes "healthy w"
  shows "\<exists>w'. out_write p w = (None, w') \<and> healthy w' \<and> accepted w' = accepted w @ p
           \<and> (obuf w' = None \<longleftrightarrow> obuf w = None)"
proof (cases "obuf w")
  case None
  with assms show ?thesis
    by (simp add: out_write_def healthy_def sink_write_def accepted_def)
next
  case (Some b)
  with assms show ?thesis
    by (auto simp: out_write_def healthy_def sink_write_def accepted_def bufio_write_def
        bufio_flush_def bufio_direct_def Let_def)
qed

lemma out_flush_healthy:
  assumes "healthy w"
  shows "\<exists>w'. out_flush w = (None, w') \<and> healthy w' \<and> accepted w' = accepted w
           \<and> written (dest w') = accepted w"
  using assms
  by (auto simp: out_flush_def healthy_def sink_write_def accepted_def bufio_flush_def
      split: option.splits)

section \<open>Time values\<close>

text \<open>
  A \<open>time.Time\<close> in UTC: seconds since 1970 and nanoseconds below one second.  The zero
  value is 1 January of the year 1.  Durations are nanoseconds.
\<close>

record gotime =
  unix_sec :: int
  nanosecond :: int

definition zero_time :: gotime where
  "zero_time = \<lparr>unix_sec = -62135596800, nanosecond = 0\<rparr>"

definition time_ok :: "gotime \<Rightarrow> bool" where
  "time_ok t \<longleftrightarrow> 0 \<le> nanosecond t \<and> nanosecond t < 1000000000"

definition time_unix :: "int \<Rightarrow> int \<Rightarrow> gotime" where
  "time_unix s ns =
     \<lparr>unix_sec = s + ns div 1000000000, nanosecond = ns mod 1000000000\<rparr>"

abbreviation Nanosecond :: int where "Nanosecond \<equiv> 1"
abbreviation Microsecond :: int where "Microsecond \<equiv> 1000"
abbreviation Millisecond :: int where "Millisecond \<equiv> 1000000"
abbreviation Second :: int where "Second \<equiv> 1000000000"

definition time_after :: "gotime \<Rightarrow> gotime \<Rightarrow> bool" where
  "time_after t u \<longleftrightarrow> unix_sec u < unix_sec t \<or> (unix_sec u = unix_sec t \<and> nanosecond u < nanosecond t)"

definition time_add :: "gotime \<Rightarrow> int \<Rightarrow> gotime" where
  "time_add t d = time_unix (unix_sec t) (nanosecond t + d)"

definition time_sub :: "gotime \<Rightarrow> gotime \<Rightarrow> int" where
  "time_sub t u = (unix_sec t - unix_sec u) * Second + (nanosecond t - nanosecond u)"

lemma time_ok_unix [simp]: "time_ok (time_unix s ns)"
  by (simp add: time_ok_def time_unix_def)

lemma time_ok_zero [simp]: "time_ok zero_time"
  by (simp add: time_ok_def zero_time_def)

lemma time_unix_id: "time_ok t \<Longrightarrow> time_unix (unix_sec t) (nanosecond t) = t"
  by (cases t) (simp add: time_ok_def time_unix_def)

lemma time_ok_add [simp]: "time_ok (time_add t d)"
  by (simp add: time_add_def)

lemma time_sub_add: "time_ok t \<Longrightarrow> time_sub (time_add t d) t = d"
proof -
  have "(nanosecond t + d) div Second * Second + (nanosecond t + d) mod Second = nanosecond t + d"
    by simp
  then show ?thesis
    by (simp add: time_sub_def time_add_def time_unix_def algebra_simps)
qed

lemma time_after_sub: "time_ok t \<Longrightarrow> time_ok u \<Longrightarrow> time_after t u \<longleftrightarrow> 0 < time_sub t u"
proof -
  assume a: "time_ok t" "time_ok u"
  show ?thesis
  proof (cases "unix_sec t = unix_sec u")
    case True
    then show ?thesis by (simp add: time_after_def time_sub_def)
  next
    case False
    then have "unix_sec t \<le> unix_sec u - 1 \<or> unix_sec u + 1 \<le> unix_sec t" by linarith
    with a False show ?thesis
      by (auto simp: time_after_def time_sub_def time_ok_def)
  qed
qed

text \<open>A time cut to a multiple of \<open>unit\<close> nanoseconds: what a file of that resolution can hold.\<close>

definition trunc_time :: "int \<Rightarrow> gotime \<Rightarrow> gotime" where
  "trunc_time unit t = t\<lparr>nanosecond := nanosecond t - nanosecond t mod unit\<rparr>"

lemma trunc_Nanosecond [simp]: "trunc_time Nanosecond t = t"
  by (simp add: trunc_time_def)

lemma trunc_time_micro:
  "time_ok t \<Longrightarrow> time_unix (unix_sec t) (nanosecond t div 1000 * 1000) = trunc_time Microsecond t"
proof -
  assume t: "time_ok t"
  have e: "nanosecond t div 1000 * 1000 = nanosecond t - nanosecond t mod 1000"
    by (simp add: minus_mod_eq_div_mult)
  define q where "q = nanosecond t div 1000 * 1000"
  have "0 \<le> q" "q < 1000000000"
    using t by (auto simp: time_ok_def q_def)
  then have "time_unix (unix_sec t) q = \<lparr>unix_sec = unix_sec t, nanosecond = q\<rparr>"
    by (simp add: time_unix_def)
  then show ?thesis
    unfolding q_def e by (cases t) (simp add: trunc_time_def)
qed

end
