(* ===== verification/Pcap.thy ===== *)
theory Pcap
  imports GoIO
begin

text \<open>
  The package \<open>gnet/pcap\<close>: file and record headers, the reader, the writer with its
  options, and \<open>FilterCopy\<close>.  A file is the byte string the writer produces; the reader
  works on a \<open>stream\<close> that ends in \<open>io.EOF\<close> or in a device error.
\<close>

section \<open>Headers and packets\<close>

definition MagicNumberMicroseconds :: u32 where
  "MagicNumberMicroseconds = 0xa1b2c3d4"

definition MagicNumberMicrosecondsSwapped :: u32 where
  "MagicNumberMicrosecondsSwapped = 0xd4c3b2a1"

definition MagicNumberNanoseconds :: u32 where
  "MagicNumberNanoseconds = 0xa1b23c4d"

definition MagicNumberNanosecondsSwapped :: u32 where
  "MagicNumberNanosecondsSwapped = 0x4d3cb2a1"

lemmas magic_defs = MagicNumberMicroseconds_def MagicNumberMicrosecondsSwapped_def
  MagicNumberNanoseconds_def MagicNumberNanosecondsSwapped_def

text \<open>\<open>ThisZone\<close> is an \<open>int32\<close>; it is kept as its 32 bits.\<close>

record file_header =
  magic_number :: u32
  version_major :: u16
  version_minor :: u16
  this_zone :: u32
  sig_figs :: u32
  snap_len :: u32
  network :: u32

record packet_header =
  ts_sec :: u32
  ts_usec :: u32
  incl_len :: u32
  orig_len :: u32

record pcap_packet =
  pkt_header :: packet_header
  pkt_data :: bytes
  pkt_timestamp :: gotime

definition is_little_endian :: "file_header \<Rightarrow> bool" where
  "is_little_endian h =
     (if magic_number h = MagicNumberMicrosecondsSwapped
         \<or> magic_number h = MagicNumberNanosecondsSwapped then True
      else if magic_number h = MagicNumberMicroseconds
         \<or> magic_number h = MagicNumberNanoseconds then False
      else False)"

definition header_byte_order :: "file_header \<Rightarrow> byte_order" where
  "header_byte_order h = (if is_little_endian h then LittleEndian else BigEndian)"

definition timestamp_resolution :: "file_header \<Rightarrow> int" where
  "timestamp_resolution h =
     (if magic_number h = MagicNumberNanoseconds
         \<or> magic_number h = MagicNumberNanosecondsSwapped then Nanosecond
      else Microsecond)"

definition get_timestamp :: "packet_header \<Rightarrow> gotime" where
  "get_timestamp h = time_unix (uint (ts_sec h)) (uint (ts_usec h) * 1000)"

definition set_timestamp :: "gotime \<Rightarrow> int \<Rightarrow> packet_header \<Rightarrow> packet_header" where
  "set_timestamp ts resolution h =
     h\<lparr>ts_sec := word_of_int (unix_sec ts),
       ts_usec := (if resolution = Nanosecond then word_of_int (nanosecond ts)
                   else word_of_int (nanosecond ts div 1000))\<rparr>"

definition capture_length :: "pcap_packet \<Rightarrow> nat" where
  "capture_length p = length (pkt_data p)"

definition original_length :: "pcap_packet \<Rightarrow> nat" where
  "original_length p =
     (if orig_len (pkt_header p) = 0 then length (pkt_data p) else unat (orig_len (pkt_header p)))"

datatype pcap_error =
    PcapIO io_error
  | ErrInvalidMagicNumber
  | ErrInvalidPacketHeader
  | CapturedExceedsSnap u32 u32
  | PacketIsNil
  | DataShorterThanCaptured
  | SnapLenNotPositive
  | BufferNotPositive
  | UnsupportedByteOrder
  | UnsupportedResolution int
  | VersionMajorNotPositive
  | BpfError nat

section \<open>Reader\<close>

record pcap_reader =
  rd_stream :: stream
  rd_header :: file_header
  rd_order :: byte_order
  rd_unit :: int

definition known_magic :: "u32 \<Rightarrow> bool" where
  "known_magic m \<longleftrightarrow> m = MagicNumberMicroseconds \<or> m = MagicNumberNanoseconds
     \<or> m = MagicNumberMicrosecondsSwapped \<or> m = MagicNumberNanosecondsSwapped"

definition new_reader :: "stream \<Rightarrow> pcap_error + pcap_reader" where
  "new_reader r =
     (case read_full 24 r of
        (Inl e, _) \<Rightarrow> Inl (PcapIO e)
      | (Inr hdr, r') \<Rightarrow>
          let magic = word_at 4 BigEndian 0 hdr in
          if \<not> known_magic magic then Inl ErrInvalidMagicNumber
          else
            let h0 = \<lparr>magic_number = magic, version_major = 0, version_minor = 0, this_zone = 0,
                      sig_figs = 0, snap_len = 0, network = 0\<rparr>;
                order = header_byte_order h0;
                h = h0\<lparr>version_major := word_at 2 order 4 hdr,
                       version_minor := word_at 2 order 6 hdr,
                       this_zone := word_at 4 order 8 hdr,
                       sig_figs := word_at 4 order 12 hdr,
                       snap_len := word_at 4 order 16 hdr,
                       network := word_at 4 order 20 hdr\<rparr>
            in Inr \<lparr>rd_stream = r', rd_header = h, rd_order = order,
                    rd_unit = timestamp_resolution h\<rparr>)"

definition read_packet :: "pcap_reader \<Rightarrow> (pcap_error + pcap_packet) \<times> pcap_reader" where
  "read_packet r =
     (case read_full 16 (rd_stream r) of
        (Inl e, s) \<Rightarrow>
          (Inl (if e = EOF then PcapIO EOF
                else if e = UnexpectedEOF then ErrInvalidPacketHeader else PcapIO e),
           r\<lparr>rd_stream := s\<rparr>)
      | (Inr hdr, s) \<Rightarrow>
          let h = \<lparr>ts_sec = word_at 4 (rd_order r) 0 hdr, ts_usec = word_at 4 (rd_order r) 4 hdr,
                   incl_len = word_at 4 (rd_order r) 8 hdr, orig_len = word_at 4 (rd_order r) 12 hdr\<rparr>
          in if 0 < snap_len (rd_header r) \<and> snap_len (rd_header r) < incl_len h
             then (Inl (CapturedExceedsSnap (incl_len h) (snap_len (rd_header r))), r\<lparr>rd_stream := s\<rparr>)
             else (case read_full (unat (incl_len h)) s of
                     (Inl e, s') \<Rightarrow>
                       (Inl (if e = EOF \<or> e = UnexpectedEOF then ErrInvalidPacketHeader else PcapIO e),
                        r\<lparr>rd_stream := s'\<rparr>)
                   | (Inr data, s') \<Rightarrow>
                       let sub_second = (if rd_unit r = Microsecond then uint (ts_usec h) * Microsecond
                                         else uint (ts_usec h) * Nanosecond)
                       in (Inr \<lparr>pkt_header = h, pkt_data = data,
                                pkt_timestamp = time_unix (uint (ts_sec h)) sub_second\<rparr>,
                           r\<lparr>rd_stream := s'\<rparr>)))"

section \<open>Writer\<close>

record pcap_config =
  cfg_order :: byte_order
  cfg_resolution :: int
  cfg_major :: u16
  cfg_minor :: u16
  cfg_zone :: u32
  cfg_sigfigs :: u32
  cfg_snaplen :: u32
  cfg_network :: u32
  cfg_buffer :: int

type_synonym pcap_option = "pcap_config \<Rightarrow> pcap_error + pcap_config"

record pcap_writer =
  wr_out :: outw
  wr_header :: file_header
  wr_order :: byte_order
  wr_unit :: int

definition default_config :: pcap_config where
  "default_config = \<lparr>cfg_order = LittleEndian, cfg_resolution = Microsecond, cfg_major = 2,
     cfg_minor = 4, cfg_zone = 0, cfg_sigfigs = 0, cfg_snaplen = 65535, cfg_network = 1,
     cfg_buffer = 0\<rparr>"

fun apply_options :: "pcap_option list \<Rightarrow> pcap_config \<Rightarrow> pcap_error + pcap_config" where
  "apply_options [] cfg = Inr cfg"
| "apply_options (opt # opts) cfg =
     (case opt cfg of Inl e \<Rightarrow> Inl e | Inr cfg' \<Rightarrow> apply_options opts cfg')"

definition select_magic :: "byte_order \<Rightarrow> int \<Rightarrow> u32" where
  "select_magic order resolution =
     (let is_nano = (resolution = Nanosecond) in
      if order = BigEndian
      then (if is_nano then MagicNumberNanoseconds else MagicNumberMicroseconds)
      else (if is_nano then MagicNumberNanosecondsSwapped else MagicNumberMicrosecondsSwapped))"

definition write_header :: "pcap_writer \<Rightarrow> io_error option \<times> pcap_writer" where
  "write_header w =
     (let h = wr_header w; order = wr_order w;
          hdr = put_uint32 BigEndian (magic_number h) @ put_uint16 order (version_major h) @
                put_uint16 order (version_minor h) @ put_uint32 order (this_zone h) @
                put_uint32 order (sig_figs h) @ put_uint32 order (snap_len h) @
                put_uint32 order (network h)
      in case out_write hdr (wr_out w) of (e, out) \<Rightarrow> (e, w\<lparr>wr_out := out\<rparr>))"

definition config_header :: "pcap_config \<Rightarrow> file_header" where
  "config_header cfg =
     \<lparr>magic_number = select_magic (cfg_order cfg) (cfg_resolution cfg),
      version_major = cfg_major cfg, version_minor = cfg_minor cfg, this_zone = cfg_zone cfg,
      sig_figs = cfg_sigfigs cfg, snap_len = cfg_snaplen cfg, network = cfg_network cfg\<rparr>"

definition config_writer :: "pcap_config \<Rightarrow> sink \<Rightarrow> pcap_writer" where
  "config_writer cfg s =
     \<lparr>wr_out = \<lparr>dest = s,
                 obuf = (if 0 < cfg_buffer cfg
                         then Some \<lparr>bsize = nat (cfg_buffer cfg), bbuf = [], berr = None\<rparr>
                         else None)\<rparr>,
      wr_header = config_header cfg, wr_order = cfg_order cfg, wr_unit = cfg_resolution cfg\<rparr>"

text \<open>The sink in the error case is what the failed header write left behind.\<close>

definition new_writer :: "pcap_option list \<Rightarrow> sink \<Rightarrow> (pcap_error \<times> sink) + pcap_writer" where
  "new_writer opts s =
     (case apply_options opts default_config of
        Inl e \<Rightarrow> Inl (e, s)
      | Inr cfg \<Rightarrow>
          (case write_header (config_writer cfg s) of
             (Some e, w) \<Rightarrow> Inl (PcapIO e, dest (wr_out w))
           | (None, w) \<Rightarrow> Inr w))"

text \<open>
  \<open>WritePacket\<close>: \<open>now\<close> is the value of \<open>time.Now()\<close>.  The two writes of header and data are
  separate, so an error of the second leaves the header in the file.
\<close>

definition stamped_header :: "gotime \<Rightarrow> int \<Rightarrow> pcap_packet \<Rightarrow> packet_header" where
  "stamped_header now unit pkt =
     (let h = pkt_header pkt in
      if pkt_timestamp pkt \<noteq> zero_time then set_timestamp (pkt_timestamp pkt) unit h
      else if ts_sec h = 0 \<and> ts_usec h = 0 then set_timestamp now unit h
      else h)"

definition write_packet ::
  "gotime \<Rightarrow> pcap_packet option \<Rightarrow> pcap_writer \<Rightarrow> (pcap_error, unit) outcome \<times> pcap_writer" where
  "write_packet now pkt w =
     (case pkt of
        None \<Rightarrow> (Err PacketIsNil, w)
      | Some p \<Rightarrow>
          let h = stamped_header now (wr_unit w) p;
              len = word_of_nat (length (pkt_data p)) in
          if len < incl_len h then (Err DataShorterThanCaptured, w)
          else
            let h = (if incl_len h = 0 then h\<lparr>incl_len := len\<rparr> else h);
                h = (if orig_len h = 0 then h\<lparr>orig_len := len\<rparr> else h);
                hdr = put_uint32 (wr_order w) (ts_sec h) @ put_uint32 (wr_order w) (ts_usec h) @
                      put_uint32 (wr_order w) (incl_len h) @ put_uint32 (wr_order w) (orig_len h)
            in case out_write hdr (wr_out w) of
                 (Some e, out) \<Rightarrow> (Err (PcapIO e), w\<lparr>wr_out := out\<rparr>)
               | (None, out) \<Rightarrow>
                   (case go_slice (pkt_data p) 0 (unat (incl_len h)) of
                      Ok payload \<Rightarrow>
                        (case out_write payload out of
                           (Some e, out') \<Rightarrow> (Err (PcapIO e), w\<lparr>wr_out := out'\<rparr>)
                         | (None, out') \<Rightarrow> (Ok (), w\<lparr>wr_out := out'\<rparr>))
                    | Err e \<Rightarrow> (Err e, w\<lparr>wr_out := out\<rparr>)
                    | Panic \<Rightarrow> (Panic, w\<lparr>wr_out := out\<rparr>)))"

definition no_header :: packet_header where
  "no_header = \<lparr>ts_sec = 0, ts_usec = 0, incl_len = 0, orig_len = 0\<rparr>"

definition write_packet_data ::
  "gotime \<Rightarrow> bytes \<Rightarrow> gotime \<Rightarrow> pcap_writer \<Rightarrow> (pcap_error, unit) outcome \<times> pcap_writer" where
  "write_packet_data now data ts w =
     write_packet now (Some \<lparr>pkt_header = no_header, pkt_data = data, pkt_timestamp = ts\<rparr>) w"

definition close_writer :: "pcap_writer \<Rightarrow> io_error option \<times> pcap_writer" where
  "close_writer w = (case out_close (wr_out w) of (e, out) \<Rightarrow> (e, w\<lparr>wr_out := out\<rparr>))"

text \<open>The option constructors; an order other than the two of \<open>encoding/binary\<close> is \<open>None\<close>.\<close>

definition with_snap_len :: "u32 \<Rightarrow> pcap_option" where
  "with_snap_len n cfg = (if n = 0 then Inl SnapLenNotPositive else Inr (cfg\<lparr>cfg_snaplen := n\<rparr>))"

definition with_link_type :: "u32 \<Rightarrow> pcap_option" where
  "with_link_type n cfg = Inr (cfg\<lparr>cfg_network := n\<rparr>)"

definition with_buffer :: "int \<Rightarrow> pcap_option" where
  "with_buffer n cfg = (if n \<le> 0 then Inl BufferNotPositive else Inr (cfg\<lparr>cfg_buffer := n\<rparr>))"

definition with_byte_order :: "byte_order option \<Rightarrow> pcap_option" where
  "with_byte_order order cfg =
     (case order of None \<Rightarrow> Inl UnsupportedByteOrder | Some ord \<Rightarrow> Inr (cfg\<lparr>cfg_order := ord\<rparr>))"

definition with_timestamp_resolution :: "int \<Rightarrow> pcap_option" where
  "with_timestamp_resolution res cfg =
     (if res = Microsecond \<or> res = Nanosecond then Inr (cfg\<lparr>cfg_resolution := res\<rparr>)
      else Inl (UnsupportedResolution res))"

definition with_version :: "u16 \<Rightarrow> u16 \<Rightarrow> pcap_option" where
  "with_version major minor cfg =
     (if major = 0 then Inl VersionMajorNotPositive
      else Inr (cfg\<lparr>cfg_major := major, cfg_minor := minor\<rparr>))"

definition with_time_zone :: "u32 \<Rightarrow> pcap_option" where
  "with_time_zone zone cfg = Inr (cfg\<lparr>cfg_zone := zone\<rparr>)"

definition with_sig_figs :: "u32 \<Rightarrow> pcap_option" where
  "with_sig_figs sig cfg = Inr (cfg\<lparr>cfg_sigfigs := sig\<rparr>)"

section \<open>FilterCopy\<close>

lemma read_packet_shrinks:
  "read_packet r = (Inr p, r') \<Longrightarrow> length (pending (rd_stream r')) < length (pending (rd_stream r))"
  by (auto simp: read_packet_def Let_def read_full_Inr_iff split: prod.splits sum.splits if_splits)

text \<open>
  The BPF machine is a third-party package: \<open>new_vm\<close> is \<open>bpf.NewVM\<close> on the program and \<open>run\<close>
  is \<open>vm.Run\<close>, which returns the number of bytes to keep or an error.  \<open>now\<close> is the clock.
\<close>

function filter_loop ::
  "(bytes \<Rightarrow> nat + int) \<Rightarrow> gotime \<Rightarrow> pcap_reader \<Rightarrow> pcap_writer \<Rightarrow> nat \<Rightarrow>
     (nat \<times> (pcap_error, unit) outcome) \<times> pcap_writer" where
  "filter_loop run now r w n =
     (case read_packet r of
        (Inl e, r') \<Rightarrow> (if e = PcapIO EOF then ((n, Ok ()), w) else ((n, Err e), w))
      | (Inr p, r') \<Rightarrow>
          (case run (pkt_data p) of
             Inl e \<Rightarrow> ((n, Err (BpfError e)), w)
           | Inr keep \<Rightarrow>
               if keep \<noteq> 0
               then (case write_packet now (Some p) w of
                       (Ok _, w') \<Rightarrow> filter_loop run now r' w' (n + 1)
                     | (Err e, w') \<Rightarrow> ((n, Err e), w')
                     | (Panic, w') \<Rightarrow> ((n, Panic), w'))
               else filter_loop run now r' w n))"
  by pat_completeness auto
termination
  by (relation "measure (\<lambda>(run, now, r, w, n). length (pending (rd_stream r)))")
     (auto dest: read_packet_shrinks [OF sym])

declare filter_loop.simps [simp del]

definition filter_copy ::
  "('prog \<Rightarrow> nat + (bytes \<Rightarrow> nat + int)) \<Rightarrow> gotime \<Rightarrow> stream \<Rightarrow> sink \<Rightarrow> 'prog \<Rightarrow>
     (nat \<times> (pcap_error, unit) outcome) \<times> sink" where
  "filter_copy new_vm now r s prog =
     (case new_reader r of
        Inl e \<Rightarrow> ((0, Err e), s)
      | Inr reader \<Rightarrow>
          (case new_writer [with_snap_len (snap_len (rd_header reader)),
                            with_link_type (network (rd_header reader))] s of
             Inl (e, s') \<Rightarrow> ((0, Err e), s')
           | Inr writer \<Rightarrow>
               (case new_vm prog of
                  Inl e \<Rightarrow> ((0, Err (BpfError e)), dest (wr_out (snd (close_writer writer))))
                | Inr run \<Rightarrow>
                    (case filter_loop run now reader writer 0 of
                       (res, w) \<Rightarrow> (res, dest (wr_out (snd (close_writer w))))))))"

end
