(* ===== verification/PcapFacts.thy ===== *)
theory PcapFacts
  imports Pcap
begin

text \<open>
  What \<open>gnet/pcap\<close> guarantees: the file layout as a specification (\<open>header_bytes\<close>,
  \<open>rec_bytes\<close>), the reader and the writer as its two directions, the round trip of a
  capture, and what a reader makes of a truncated file.
\<close>

section \<open>The file format\<close>

definition header_bytes :: "file_header \<Rightarrow> bytes" where
  "header_bytes h =
     (let order = header_byte_order h in
      put_uint32 BigEndian (magic_number h) @ put_uint16 order (version_major h) @
      put_uint16 order (version_minor h) @ put_uint32 order (this_zone h) @
      put_uint32 order (sig_figs h) @ put_uint32 order (snap_len h) @ put_uint32 order (network h))"

definition rec_bytes :: "byte_order \<Rightarrow> packet_header \<Rightarrow> bytes \<Rightarrow> bytes" where
  "rec_bytes order h data =
     put_uint32 order (ts_sec h) @ put_uint32 order (ts_usec h) @
     put_uint32 order (incl_len h) @ put_uint32 order (orig_len h) @ data"

lemma length_header_bytes [simp]: "length (header_bytes h) = 24"
  by (simp add: header_bytes_def Let_def)

lemma length_rec_bytes [simp]: "length (rec_bytes order h data) = 16 + length data"
  by (simp add: rec_bytes_def)

section \<open>Reading\<close>

lemma new_reader_header:
  assumes "known_magic (magic_number h)"
  shows "new_reader \<lparr>pending = header_bytes h @ rest, ending = e\<rparr> =
    Inr \<lparr>rd_stream = \<lparr>pending = rest, ending = e\<rparr>, rd_header = h,
         rd_order = header_byte_order h, rd_unit = timestamp_resolution h\<rparr>"
proof -
  have order: "header_byte_order \<lparr>magic_number = magic_number h, version_major = 0,
      version_minor = 0, this_zone = 0, sig_figs = 0, snap_len = 0, network = 0\<rparr> = header_byte_order h"
    by (simp add: header_byte_order_def is_little_endian_def)
  show ?thesis
    unfolding new_reader_def
    by (subst read_full_append, simp)
       (simp add: assms order header_bytes_def Let_def word_at_simps timestamp_resolution_def)
qed

definition record_time :: "int \<Rightarrow> packet_header \<Rightarrow> gotime" where
  "record_time unit h =
     time_unix (uint (ts_sec h)) (if unit = Microsecond then uint (ts_usec h) * 1000 else uint (ts_usec h))"

definition fits_snap :: "file_header \<Rightarrow> packet_header \<Rightarrow> bool" where
  "fits_snap fh h \<longleftrightarrow> snap_len fh = 0 \<or> incl_len h \<le> snap_len fh"

lemma read_packet_rec:
  assumes "rd_stream r = \<lparr>pending = rec_bytes (rd_order r) h data @ rest, ending = e\<rparr>"
    and "length data = unat (incl_len h)"
    and "fits_snap (rd_header r) h"
  shows "read_packet r =
    (Inr \<lparr>pkt_header = h, pkt_data = data, pkt_timestamp = record_time (rd_unit r) h\<rparr>,
     r\<lparr>rd_stream := \<lparr>pending = rest, ending = e\<rparr>\<rparr>)"
proof -
  let ?hdr = "put_uint32 (rd_order r) (ts_sec h) @ put_uint32 (rd_order r) (ts_usec h) @
     put_uint32 (rd_order r) (incl_len h) @ put_uint32 (rd_order r) (orig_len h)"
  have s: "rd_stream r = \<lparr>pending = ?hdr @ (data @ rest), ending = e\<rparr>"
    by (simp add: assms(1) rec_bytes_def)
  have "read_full 16 (rd_stream r) = (Inr ?hdr, \<lparr>pending = data @ rest, ending = e\<rparr>)"
    unfolding s by (rule read_full_append) simp
  moreover have "read_full (unat (incl_len h)) \<lparr>pending = data @ rest, ending = e\<rparr>
      = (Inr data, \<lparr>pending = rest, ending = e\<rparr>)"
    by (rule read_full_append) (simp add: assms(2))
  moreover have "\<not> (0 < snap_len (rd_header r) \<and> snap_len (rd_header r) < incl_len h)"
    using assms(3) by (auto simp: fits_snap_def)
  ultimately show ?thesis
    by (simp add: read_packet_def word_at_simps Let_def record_time_def)
qed

text \<open>Reading packets until the first error, as the clients of the reader do.\<close>

function read_all :: "pcap_reader \<Rightarrow> pcap_packet list \<times> pcap_error" where
  "read_all r =
     (case read_packet r of
        (Inl e, r') \<Rightarrow> ([], e)
      | (Inr p, r') \<Rightarrow> (case read_all r' of (ps, e) \<Rightarrow> (p # ps, e)))"
  by pat_completeness auto
termination
  by (relation "measure (\<lambda>r. length (pending (rd_stream r)))")
     (auto dest: read_packet_shrinks [OF sym])

declare read_all.simps [simp del]

lemma read_all_Inl: "read_packet r = (Inl e, r') \<Longrightarrow> read_all r = ([], e)"
  by (simp add: read_all.simps)

lemma read_all_Inr:
  "read_packet r = (Inr p, r') \<Longrightarrow> read_all r = (p # fst (read_all r'), snd (read_all r'))"
  by (subst read_all.simps) (simp split: prod.splits)

lemma read_packet_at_end:
  "rd_stream r = \<lparr>pending = [], ending = EOF\<rparr> \<Longrightarrow> fst (read_packet r) = Inl (PcapIO EOF)"
  by (simp add: read_packet_def read_full_def)

definition readback :: "int \<Rightarrow> packet_header \<times> bytes \<Rightarrow> pcap_packet" where
  "readback unit c = \<lparr>pkt_header = fst c, pkt_data = snd c, pkt_timestamp = record_time unit (fst c)\<rparr>"

definition rec_ok :: "file_header \<Rightarrow> packet_header \<times> bytes \<Rightarrow> bool" where
  "rec_ok fh c \<longleftrightarrow> length (snd c) = unat (incl_len (fst c)) \<and> fits_snap fh (fst c)"

definition recs_bytes :: "byte_order \<Rightarrow> (packet_header \<times> bytes) list \<Rightarrow> bytes" where
  "recs_bytes order recs = concat (map (\<lambda>(h, d). rec_bytes order h d) recs)"

lemma recs_bytes_simps [simp]:
  "recs_bytes order [] = []"
  "recs_bytes order (c # recs) = rec_bytes order (fst c) (snd c) @ recs_bytes order recs"
  by (auto simp: recs_bytes_def split: prod.splits)

lemma recs_bytes_append: "recs_bytes order (xs @ ys) = recs_bytes order xs @ recs_bytes order ys"
  by (simp add: recs_bytes_def)

lemma read_all_recs:
  assumes "rd_stream r = bytes_reader (recs_bytes (rd_order r) recs)"
    and "\<forall>c \<in> set recs. rec_ok (rd_header r) c"
  shows "read_all r = (map (readback (rd_unit r)) recs, PcapIO EOF)"
  using assms
proof (induction recs arbitrary: r)
  case Nil
  then have "fst (read_packet r) = Inl (PcapIO EOF)"
    by (simp add: read_packet_at_end bytes_reader_def)
  then show ?case by (cases "read_packet r") (simp add: read_all_Inl)
next
  case (Cons c recs)
  let ?r' = "r\<lparr>rd_stream := bytes_reader (recs_bytes (rd_order r) recs)\<rparr>"
  have "read_packet r = (Inr (readback (rd_unit r) c), ?r')"
    using Cons.prems by (simp add: bytes_reader_def readback_def rec_ok_def read_packet_rec)
  moreover have "read_all ?r' = (map (readback (rd_unit r)) recs, PcapIO EOF)"
    using Cons.IH [of ?r'] Cons.prems by simp
  ultimately show ?case by (simp add: read_all_Inr)
qed

section \<open>Truncated captures\<close>

text \<open>The records that lie completely within the first \<open>n\<close> bytes, and whether \<open>n\<close> cuts one.\<close>

fun complete_recs :: "nat \<Rightarrow> (packet_header \<times> bytes) list \<Rightarrow> (packet_header \<times> bytes) list" where
  "complete_recs n [] = []"
| "complete_recs n (c # recs) =
     (if 16 + length (snd c) \<le> n then c # complete_recs (n - (16 + length (snd c))) recs else [])"

fun cut_error :: "nat \<Rightarrow> (packet_header \<times> bytes) list \<Rightarrow> pcap_error" where
  "cut_error n [] = PcapIO EOF"
| "cut_error n (c # recs) =
     (if 16 + length (snd c) \<le> n then cut_error (n - (16 + length (snd c))) recs
      else if n = 0 then PcapIO EOF else ErrInvalidPacketHeader)"

lemma read_packet_cut:
  assumes "rd_stream r = bytes_reader (take n (rec_bytes (rd_order r) h data @ rest))"
    and "n < 16 + length data" and "0 < n"
    and "length data = unat (incl_len h)" and "fits_snap (rd_header r) h"
  shows "fst (read_packet r) = Inl ErrInvalidPacketHeader"
proof -
  let ?hdr = "put_uint32 (rd_order r) (ts_sec h) @ put_uint32 (rd_order r) (ts_usec h) @
     put_uint32 (rd_order r) (incl_len h) @ put_uint32 (rd_order r) (orig_len h)"
  have p: "pending (rd_stream r) = take n (?hdr @ data)" "ending (rd_stream r) = EOF"
    using assms(1,2) by (simp_all add: bytes_reader_def rec_bytes_def take_append)
  show ?thesis
  proof (cases "n < 16")
    case True
    then have "length (pending (rd_stream r)) = n"
      unfolding p(1) by simp
    with True assms(3) have "read_full 16 (rd_stream r) = (Inl UnexpectedEOF, (rd_stream r)\<lparr>pending := []\<rparr>)"
      by (intro read_full_short p(2)) auto
    then show ?thesis
      by (simp add: read_packet_def)
  next
    case False
    then have "pending (rd_stream r) = ?hdr @ take (n - 16) data"
      using p(1) by (simp add: take_append)
    then have s: "rd_stream r = \<lparr>pending = ?hdr @ take (n - 16) data, ending = EOF\<rparr>"
      using p(2) by (cases "rd_stream r") simp
    have "read_full 16 (rd_stream r) = (Inr ?hdr, \<lparr>pending = take (n - 16) data, ending = EOF\<rparr>)"
      unfolding s by (rule read_full_append) simp
    moreover have "\<not> (0 < snap_len (rd_header r) \<and> snap_len (rd_header r) < incl_len h)"
      using assms(5) by (auto simp: fits_snap_def)
    moreover have "\<exists>e s'. read_full (unat (incl_len h)) \<lparr>pending = take (n - 16) data, ending = EOF\<rparr> = (Inl e, s')
        \<and> (e = EOF \<or> e = UnexpectedEOF)"
      using assms(2,4) False by (auto simp: read_full_def)
    ultimately show ?thesis
      by (auto simp: read_packet_def word_at_simps Let_def)
  qed
qed

lemma read_all_cut:
  assumes "rd_stream r = bytes_reader (take n (recs_bytes (rd_order r) recs))"
    and "\<forall>c \<in> set recs. rec_ok (rd_header r) c"
  shows "read_all r = (map (readback (rd_unit r)) (complete_recs n recs), cut_error n recs)"
  using assms
proof (induction recs arbitrary: r n)
  case Nil
  then have "fst (read_packet r) = Inl (PcapIO EOF)"
    by (simp add: read_packet_at_end bytes_reader_def)
  then show ?case by (cases "read_packet r") (simp add: read_all_Inl)
next
  case (Cons c recs)
  let ?l = "16 + length (snd c)"
  show ?case
  proof (cases "?l \<le> n")
    case True
    let ?r' = "r\<lparr>rd_stream := bytes_reader (take (n - ?l) (recs_bytes (rd_order r) recs))\<rparr>"
    have "read_packet r = (Inr (readback (rd_unit r) c), ?r')"
      using Cons.prems True
      by (simp add: bytes_reader_def readback_def rec_ok_def read_packet_rec take_append)
    moreover have "read_all ?r' = (map (readback (rd_unit r)) (complete_recs (n - ?l) recs), cut_error (n - ?l) recs)"
      using Cons.IH [of ?r' "n - ?l"] Cons.prems by simp
    ultimately show ?thesis using True by (simp add: read_all_Inr)
  next
    case False
    have "fst (read_packet r) = Inl (cut_error n (c # recs))"
    proof (cases "n = 0")
      case True
      with Cons.prems False show ?thesis
        by (simp add: read_packet_at_end bytes_reader_def)
    next
      case nz: False
      with Cons.prems False show ?thesis
        by (simp add: rec_ok_def) (rule read_packet_cut; auto)
    qed
    with False show ?thesis by (cases "read_packet r") (simp add: read_all_Inl)
  qed
qed

lemma complete_recs_prefix: "\<exists>rest. recs = complete_recs n recs @ rest"
  by (induction n recs rule: complete_recs.induct) auto

section \<open>Writing\<close>

definition final_header :: "gotime \<Rightarrow> int \<Rightarrow> pcap_packet \<Rightarrow> packet_header" where
  "final_header now unit p =
     (let h = stamped_header now unit p;
          len = word_of_nat (length (pkt_data p));
          h = (if incl_len h = 0 then h\<lparr>incl_len := len\<rparr> else h)
      in if orig_len h = 0 then h\<lparr>orig_len := len\<rparr> else h)"

definition written_record :: "int \<Rightarrow> gotime \<times> pcap_packet \<Rightarrow> packet_header \<times> bytes" where
  "written_record unit np =
     (let h = final_header (fst np) unit (snd np) in (h, take (unat (incl_len h)) (pkt_data (snd np))))"

definition writable :: "pcap_packet \<Rightarrow> bool" where
  "writable p \<longleftrightarrow> incl_len (pkt_header p) \<le> word_of_nat (length (pkt_data p))"

lemma stamped_header_lens [simp]:
  "incl_len (stamped_header now unit p) = incl_len (pkt_header p)"
  "orig_len (stamped_header now unit p) = orig_len (pkt_header p)"
  by (simp_all add: stamped_header_def set_timestamp_def Let_def)

lemma unat_le_length: "w \<le> word_of_nat n \<Longrightarrow> unat (w :: 'a::len word) \<le> n"
proof -
  assume "w \<le> word_of_nat n"
  then have "unat w \<le> unat (word_of_nat n :: 'a word)" by (simp add: word_le_nat_alt)
  also have "\<dots> \<le> n" by (simp add: unat_of_nat)
  finally show ?thesis .
qed

lemma final_incl_len:
  "writable p \<Longrightarrow> unat (incl_len (final_header now unit p)) \<le> length (pkt_data p)"
  by (auto simp: final_header_def writable_def Let_def intro: unat_le_length)

lemma write_packet_eq:
  "write_packet now (Some p) w =
     (if \<not> writable p then (Err DataShorterThanCaptured, w)
      else
        let h = final_header now (wr_unit w) p;
            hdr = put_uint32 (wr_order w) (ts_sec h) @ put_uint32 (wr_order w) (ts_usec h) @
                  put_uint32 (wr_order w) (incl_len h) @ put_uint32 (wr_order w) (orig_len h)
        in case out_write hdr (wr_out w) of
             (Some e, out) \<Rightarrow> (Err (PcapIO e), w\<lparr>wr_out := out\<rparr>)
           | (None, out) \<Rightarrow>
               (case go_slice (pkt_data p) 0 (unat (incl_len h)) of
                  Ok payload \<Rightarrow>
                    (case out_write payload out of
                       (Some e, out') \<Rightarrow> (Err (PcapIO e), w\<lparr>wr_out := out'\<rparr>)
                     | (None, out') \<Rightarrow> (Ok (), w\<lparr>wr_out := out'\<rparr>))
                | Err e \<Rightarrow> (Err e, w\<lparr>wr_out := out\<rparr>)
                | Panic \<Rightarrow> (Panic, w\<lparr>wr_out := out\<rparr>)))"
  by (simp only: write_packet_def final_header_def writable_def Let_def option.case
      stamped_header_lens not_le)

lemma final_payload:
  "writable p \<Longrightarrow> go_slice (pkt_data p) 0 (unat (incl_len (final_header now unit p))) =
     Ok (take (unat (incl_len (final_header now unit p))) (pkt_data p))"
  by (simp add: final_incl_len go_slice_Ok)

lemma write_packet_not_Panic: "fst (write_packet now pkt w) \<noteq> Panic"
proof (cases pkt)
  case None
  then show ?thesis by (simp add: write_packet_def)
next
  case (Some p)
  then show ?thesis
    by (cases "writable p")
       (simp_all add: write_packet_eq final_payload Let_def split: prod.splits option.splits)
qed

lemma write_packet_healthy:
  assumes "healthy (wr_out w)" and "writable p"
  shows "\<exists>out. write_packet now (Some p) w = (Ok (), w\<lparr>wr_out := out\<rparr>) \<and> healthy out \<and>
    accepted out = accepted (wr_out w) @
      (let c = written_record (wr_unit w) (now, p) in rec_bytes (wr_order w) (fst c) (snd c))"
proof -
  let ?h = "final_header now (wr_unit w) p"
  let ?hdr = "put_uint32 (wr_order w) (ts_sec ?h) @ put_uint32 (wr_order w) (ts_usec ?h) @
      put_uint32 (wr_order w) (incl_len ?h) @ put_uint32 (wr_order w) (orig_len ?h)"
  let ?data = "take (unat (incl_len ?h)) (pkt_data p)"
  obtain out1 where o1: "out_write ?hdr (wr_out w) = (None, out1)" "healthy out1"
    "accepted out1 = accepted (wr_out w) @ ?hdr"
    using out_write_healthy [OF assms(1), of ?hdr] by blast
  obtain out2 where o2: "out_write ?data out1 = (None, out2)" "healthy out2"
    "accepted out2 = accepted out1 @ ?data"
    using out_write_healthy [OF o1(2), of ?data] by blast
  have "write_packet now (Some p) w = (Ok (), w\<lparr>wr_out := out2\<rparr>)"
    using o1(1) o2(1) assms(2) by (simp add: write_packet_eq final_payload)
  then show ?thesis
    using o1 o2 by (auto simp: written_record_def rec_bytes_def Let_def)
qed

section \<open>Options and the start of a file\<close>

text \<open>
  The configuration type is private to the package, so these constructors are all the
  options there are.
\<close>

inductive std_option :: "pcap_option \<Rightarrow> bool" where
  snap: "std_option (with_snap_len n)"
| link: "std_option (with_link_type n)"
| buf: "std_option (with_buffer k)"
| ord: "std_option (with_byte_order b)"
| res: "std_option (with_timestamp_resolution d)"
| ver: "std_option (with_version v v')"
| zone: "std_option (with_time_zone n)"
| sig: "std_option (with_sig_figs n)"

lemmas option_defs = with_snap_len_def with_link_type_def with_buffer_def with_byte_order_def
  with_timestamp_resolution_def with_version_def with_time_zone_def with_sig_figs_def

definition config_ok :: "pcap_config \<Rightarrow> bool" where
  "config_ok cfg \<longleftrightarrow> (cfg_resolution cfg = Microsecond \<or> cfg_resolution cfg = Nanosecond)
     \<and> cfg_snaplen cfg \<noteq> 0 \<and> cfg_major cfg \<noteq> 0 \<and> 0 \<le> cfg_buffer cfg"

lemma std_option_config_ok:
  "std_option opt \<Longrightarrow> config_ok cfg \<Longrightarrow> opt cfg = Inr cfg' \<Longrightarrow> config_ok cfg'"
  by (induction rule: std_option.induct)
     (auto simp: option_defs config_ok_def split: if_splits option.splits)

lemma apply_options_config_ok:
  "\<forall>opt \<in> set opts. std_option opt \<Longrightarrow> config_ok cfg \<Longrightarrow> apply_options opts cfg = Inr cfg' \<Longrightarrow> config_ok cfg'"
  by (induction opts arbitrary: cfg) (auto split: sum.splits dest: std_option_config_ok)

lemma default_config_ok: "config_ok default_config"
  by (simp add: config_ok_def default_config_def)

lemma select_magic_facts:
  "known_magic (magic_number (config_header cfg))"
  "header_byte_order (config_header cfg) = cfg_order cfg"
  "config_ok cfg \<Longrightarrow> timestamp_resolution (config_header cfg) = cfg_resolution cfg"
proof -
  show "known_magic (magic_number (config_header cfg))"
    by (simp add: config_header_def select_magic_def known_magic_def Let_def)
  show "header_byte_order (config_header cfg) = cfg_order cfg"
    by (cases "cfg_order cfg")
       (simp_all add: config_header_def select_magic_def header_byte_order_def is_little_endian_def
         magic_defs Let_def)
  show "config_ok cfg \<Longrightarrow> timestamp_resolution (config_header cfg) = cfg_resolution cfg"
    by (cases "cfg_order cfg")
       (auto simp: config_header_def select_magic_def timestamp_resolution_def magic_defs
         config_ok_def Let_def)
qed

lemma config_writer_simps [simp]:
  "wr_header (config_writer cfg s) = config_header cfg"
  "wr_order (config_writer cfg s) = cfg_order cfg"
  "wr_unit (config_writer cfg s) = cfg_resolution cfg"
  "accepted (wr_out (config_writer cfg s)) = written s"
  "healthy (wr_out (config_writer cfg s)) \<longleftrightarrow> room s = None"
  by (simp_all add: config_writer_def accepted_def healthy_def)

lemma new_writer_healthy:
  assumes "apply_options opts default_config = Inr cfg" and "room s = None"
  shows "\<exists>out. new_writer opts s = Inr ((config_writer cfg s)\<lparr>wr_out := out\<rparr>) \<and> healthy out \<and>
    accepted out = written s @ header_bytes (config_header cfg)"
proof -
  let ?w = "config_writer cfg s"
  obtain out where out: "out_write (header_bytes (config_header cfg)) (wr_out ?w) = (None, out)"
    "healthy out" "accepted out = accepted (wr_out ?w) @ header_bytes (config_header cfg)"
    using out_write_healthy [of "wr_out ?w" "header_bytes (config_header cfg)"] assms(2) by auto
  have "write_header ?w = (None, ?w\<lparr>wr_out := out\<rparr>)"
    using out(1) by (simp add: write_header_def header_bytes_def select_magic_facts Let_def)
  with assms(1) out show ?thesis by (auto simp: new_writer_def)
qed

section \<open>Whole sessions\<close>

fun write_packets ::
  "(gotime \<times> pcap_packet) list \<Rightarrow> pcap_writer \<Rightarrow> (pcap_error, unit) outcome \<times> pcap_writer" where
  "write_packets [] w = (Ok (), w)"
| "write_packets ((now, p) # ps) w =
     (case write_packet now (Some p) w of
        (Ok _, w') \<Rightarrow> write_packets ps w'
      | (Err e, w') \<Rightarrow> (Err e, w')
      | (Panic, w') \<Rightarrow> (Panic, w'))"

definition write_capture ::
  "pcap_option list \<Rightarrow> (gotime \<times> pcap_packet) list \<Rightarrow> sink \<Rightarrow> (pcap_error, unit) outcome \<times> sink" where
  "write_capture opts ps s =
     (case new_writer opts s of
        Inl (e, s') \<Rightarrow> (Err e, s')
      | Inr w \<Rightarrow>
          (case write_packets ps w of
             (res, w') \<Rightarrow> (res, dest (wr_out (snd (close_writer w'))))))"

lemma write_packets_healthy:
  assumes "healthy (wr_out w)" and "\<forall>np \<in> set ps. writable (snd np)"
  shows "\<exists>out. write_packets ps w = (Ok (), w\<lparr>wr_out := out\<rparr>) \<and> healthy out \<and>
    accepted out = accepted (wr_out w) @ recs_bytes (wr_order w) (map (written_record (wr_unit w)) ps)"
  using assms
proof (induction ps arbitrary: w)
  case Nil
  then show ?case by (intro exI [of _ "wr_out w"]) simp
next
  case (Cons np ps)
  obtain now p where np: "np = (now, p)" by (cases np)
  let ?c = "written_record (wr_unit w) np"
  obtain out where out: "write_packet now (Some p) w = (Ok (), w\<lparr>wr_out := out\<rparr>)" "healthy out"
    "accepted out = accepted (wr_out w) @ rec_bytes (wr_order w) (fst ?c) (snd ?c)"
    using write_packet_healthy [OF Cons.prems(1), of p now] Cons.prems(2) np
    by (auto simp: Let_def)
  then show ?case
    using Cons.IH [of "w\<lparr>wr_out := out\<rparr>"] Cons.prems(2) np by auto
qed

lemma close_writer_healthy:
  "healthy (wr_out w) \<Longrightarrow> written (dest (wr_out (snd (close_writer w)))) = accepted (wr_out w)"
  using out_flush_healthy [of "wr_out w"]
  by (auto simp: close_writer_def out_close_def sink_close_def split: prod.splits option.splits)

definition capture_bytes :: "pcap_config \<Rightarrow> (gotime \<times> pcap_packet) list \<Rightarrow> bytes" where
  "capture_bytes cfg ps = header_bytes (config_header cfg) @
     recs_bytes (cfg_order cfg) (map (written_record (cfg_resolution cfg)) ps)"

lemma write_capture_bytes:
  assumes "apply_options opts default_config = Inr cfg" and "room s = None"
    and "\<forall>np \<in> set ps. writable (snd np)"
  shows "\<exists>f. write_capture opts ps s = (Ok (), f) \<and> written f = written s @ capture_bytes cfg ps"
proof -
  obtain out where w: "new_writer opts s = Inr ((config_writer cfg s)\<lparr>wr_out := out\<rparr>)" "healthy out"
    "accepted out = written s @ header_bytes (config_header cfg)"
    using new_writer_healthy [OF assms(1,2)] by blast
  let ?w = "(config_writer cfg s)\<lparr>wr_out := out\<rparr>"
  obtain out' where w': "write_packets ps ?w = (Ok (), ?w\<lparr>wr_out := out'\<rparr>)" "healthy out'"
    "accepted out' = accepted out @ recs_bytes (cfg_order cfg) (map (written_record (cfg_resolution cfg)) ps)"
    using write_packets_healthy [of ?w ps] w(2) assms(3) by auto
  show ?thesis
    using w w' close_writer_healthy [of "?w\<lparr>wr_out := out'\<rparr>"]
    by (simp add: write_capture_def capture_bytes_def)
qed

lemma read_capture_bytes:
  assumes "config_ok cfg"
    and "\<forall>np \<in> set ps. rec_ok (config_header cfg) (written_record (cfg_resolution cfg) np)"
  shows "\<exists>r. new_reader (bytes_reader (capture_bytes cfg ps)) = Inr r \<and> rd_header r = config_header cfg \<and>
    read_all r = (map (readback (cfg_resolution cfg) \<circ> written_record (cfg_resolution cfg)) ps, PcapIO EOF)"
proof -
  let ?recs = "map (written_record (cfg_resolution cfg)) ps"
  let ?r = "\<lparr>rd_stream = bytes_reader (recs_bytes (cfg_order cfg) ?recs), rd_header = config_header cfg,
    rd_order = cfg_order cfg, rd_unit = cfg_resolution cfg\<rparr>"
  have "new_reader (bytes_reader (capture_bytes cfg ps)) = Inr ?r"
    using new_reader_header [OF select_magic_facts(1), of cfg] select_magic_facts(2) [of cfg]
      select_magic_facts(3) [OF assms(1)]
    by (simp add: capture_bytes_def bytes_reader_def)
  moreover have "read_all ?r = (map (readback (cfg_resolution cfg)) ?recs, PcapIO EOF)"
    using read_all_recs [of ?r ?recs] assms(2) by simp
  ultimately show ?thesis by simp
qed

section \<open>Frames with a time stamp\<close>

definition stampable :: "gotime \<Rightarrow> bool" where
  "stampable t \<longleftrightarrow> time_ok t \<and> 0 \<le> unix_sec t \<and> unix_sec t < 2 ^ 32"

definition frame :: "bytes \<times> gotime \<Rightarrow> pcap_packet" where
  "frame dt = \<lparr>pkt_header = no_header, pkt_data = fst dt, pkt_timestamp = snd dt\<rparr>"

definition frame_ok :: "u32 \<Rightarrow> bytes \<times> gotime \<Rightarrow> bool" where
  "frame_ok snap dt \<longleftrightarrow> stampable (snd dt) \<and> length (fst dt) \<le> unat snap"

definition frame_header :: "int \<Rightarrow> bytes \<times> gotime \<Rightarrow> packet_header" where
  "frame_header unit dt =
     \<lparr>ts_sec = word_of_int (unix_sec (snd dt)),
      ts_usec = word_of_int (if unit = Nanosecond then nanosecond (snd dt) else nanosecond (snd dt) div 1000),
      incl_len = word_of_nat (length (fst dt)), orig_len = word_of_nat (length (fst dt))\<rparr>"

definition frame_readback :: "int \<Rightarrow> bytes \<times> gotime \<Rightarrow> pcap_packet" where
  "frame_readback unit dt =
     \<lparr>pkt_header = frame_header unit dt, pkt_data = fst dt, pkt_timestamp = trunc_time unit (snd dt)\<rparr>"

lemma record_time_stamp:
  assumes "stampable t" and "unit = Microsecond \<or> unit = Nanosecond"
  shows "record_time unit (set_timestamp t unit h) = trunc_time unit t"
proof -
  have r: "0 \<le> nanosecond t" "nanosecond t < 1000000000" "0 \<le> unix_sec t" "unix_sec t < 2 ^ 32"
    using assms(1) by (simp_all add: stampable_def time_ok_def)
  then have s: "uint (word_of_int (unix_sec t) :: u32) = unix_sec t"
    by (simp add: uint_word_of_int)
  have n: "uint (word_of_int (nanosecond t) :: u32) = nanosecond t"
    using r by (simp add: uint_word_of_int)
  have m: "uint (word_of_int (nanosecond t div 1000) :: u32) = nanosecond t div 1000"
    using r by (simp add: uint_word_of_int)
  have d: "nanosecond t div 1000 * 1000 = nanosecond t - nanosecond t mod 1000"
    by (simp add: minus_mod_eq_div_mult)
  have b: "0 \<le> nanosecond t - nanosecond t mod 1000" "nanosecond t - nanosecond t mod 1000 < 1000000000"
    using r by (simp_all add: minus_mod_eq_div_mult)
  from assms(2) show ?thesis
  proof
    assume u: "unit = Microsecond"
    then have "record_time unit (set_timestamp t unit h) =
        time_unix (unix_sec t) (nanosecond t - nanosecond t mod 1000)"
      by (simp add: record_time_def set_timestamp_def s m d)
    also have "\<dots> = trunc_time unit t"
      using b u by (cases t) (simp add: time_unix_def trunc_time_def)
    finally show ?thesis .
  next
    assume u: "unit = Nanosecond"
    then have "record_time unit (set_timestamp t unit h) = time_unix (unix_sec t) (nanosecond t)"
      by (simp add: record_time_def set_timestamp_def s n)
    with u assms(1) show ?thesis
      by (simp add: time_unix_id trunc_time_def stampable_def)
  qed
qed

lemma stampable_nonzero: "stampable t \<Longrightarrow> t \<noteq> zero_time"
  by (auto simp: stampable_def zero_time_def)

lemma frame_written:
  assumes "frame_ok snap dt"
  shows "final_header now unit (frame dt) = frame_header unit dt"
    and "written_record unit (now, frame dt) = (frame_header unit dt, fst dt)"
    and "unat (incl_len (frame_header unit dt)) = length (fst dt)"
proof -
  have len: "length (fst dt) < 2 ^ 32"
    using assms unsigned_less [of snap, where ?'a = nat] by (simp add: frame_ok_def)
  then show u: "unat (incl_len (frame_header unit dt)) = length (fst dt)"
    by (simp add: frame_header_def unat_of_nat)
  have "pkt_timestamp (frame dt) \<noteq> zero_time"
    using assms by (simp add: frame_def frame_ok_def stampable_nonzero)
  then show f: "final_header now unit (frame dt) = frame_header unit dt"
    by (simp add: final_header_def stamped_header_def frame_def no_header_def set_timestamp_def
        frame_header_def Let_def)
  show "written_record unit (now, frame dt) = (frame_header unit dt, fst dt)"
    using u f by (simp add: written_record_def Let_def) (simp add: frame_def)
qed

lemma frame_writable: "writable (frame dt)"
  by (simp add: writable_def frame_def no_header_def)

lemma frame_rec_ok:
  assumes "frame_ok (snap_len fh) dt"
  shows "rec_ok fh (written_record unit (now, frame dt))"
proof -
  have "unat (incl_len (frame_header unit dt)) \<le> unat (snap_len fh)"
    using assms frame_written(3) [OF assms] by (simp add: frame_ok_def)
  then show ?thesis
    using frame_written [OF assms]
    by (simp add: rec_ok_def fits_snap_def word_le_nat_alt)
qed

lemma readback_frame:
  assumes "frame_ok snap dt" and "unit = Microsecond \<or> unit = Nanosecond"
  shows "readback unit (written_record unit (now, frame dt)) = frame_readback unit dt"
proof -
  have "frame_header unit dt = set_timestamp (snd dt) unit (frame_header unit dt)"
    by (simp add: frame_header_def set_timestamp_def)
  moreover have "stampable (snd dt)" using assms(1) by (simp add: frame_ok_def)
  ultimately have "record_time unit (frame_header unit dt) = trunc_time unit (snd dt)"
    using record_time_stamp [OF _ assms(2)] by metis
  with frame_written(2) [OF assms(1)] show ?thesis
    by (simp add: readback_def frame_readback_def)
qed

section \<open>Properties\<close>

definition write_frames ::
  "pcap_option list \<Rightarrow> (bytes \<times> gotime) list \<Rightarrow> gotime \<Rightarrow> sink \<Rightarrow> (pcap_error, unit) outcome \<times> sink" where
  "write_frames opts frames now s = write_capture opts (map (\<lambda>dt. (now, frame dt)) frames) s"


lemma write_frames_bytes:
  assumes "apply_options opts default_config = Inr cfg"
  shows "fst (write_frames opts frames now fresh_file) = Ok ()"
    and "written (snd (write_frames opts frames now fresh_file)) =
      capture_bytes cfg (map (\<lambda>dt. (now, frame dt)) frames)"
  using write_capture_bytes [OF assms, of fresh_file "map (\<lambda>dt. (now, frame dt)) frames"]
  by (auto simp: write_frames_def frame_writable fresh_file_def)

text \<open>
  C13: a capture survives the file.  For every list of options the package offers and accepts,
  in either byte order and either resolution, buffered or not, writing frames that fit the
  snap length succeeds, and reading the file gives the header and the same frames in order,
  with their time stamps cut to the resolution of the file, and then \<open>io.EOF\<close>.
\<close>

theorem pcap_roundtrip:
  assumes "\<forall>opt \<in> set opts. std_option opt"
    and "apply_options opts default_config = Inr cfg"
    and "\<forall>dt \<in> set frames. frame_ok (cfg_snaplen cfg) dt"
  shows "fst (write_frames opts frames now fresh_file) = Ok () \<and>
    (\<exists>r. new_reader (bytes_reader (written (snd (write_frames opts frames now fresh_file)))) = Inr r \<and>
      rd_header r = config_header cfg \<and>
      read_all r = (map (frame_readback (cfg_resolution cfg)) frames, PcapIO EOF))"
proof -
  let ?u = "cfg_resolution cfg" and ?ps = "map (\<lambda>dt. (now, frame dt)) frames"
  have cfg: "config_ok cfg"
    using apply_options_config_ok [OF assms(1) default_config_ok assms(2)] .
  then have u: "?u = Microsecond \<or> ?u = Nanosecond" by (simp add: config_ok_def)
  have "\<forall>np \<in> set ?ps. rec_ok (config_header cfg) (written_record ?u np)"
    using assms(3) by (auto intro!: frame_rec_ok simp: config_header_def)
  then obtain r where r: "new_reader (bytes_reader (capture_bytes cfg ?ps)) = Inr r"
    "rd_header r = config_header cfg"
    "read_all r = (map (readback ?u \<circ> written_record ?u) ?ps, PcapIO EOF)"
    using read_capture_bytes [OF cfg] by blast
  have "map (readback ?u \<circ> written_record ?u) ?ps = map (frame_readback ?u) frames"
    using assms(3) by (auto intro: readback_frame [OF _ u])
  with r write_frames_bytes [OF assms(2)] show ?thesis by simp
qed

definition demo_frames :: "(bytes \<times> gotime) list" where
  "demo_frames = [([1, 2, 3], \<lparr>unix_sec = 1700000000, nanosecond = 123456789\<rparr>),
                  ([], \<lparr>unix_sec = 1700000001, nanosecond = 5\<rparr>)]"

lemma demo_frames_ok: "\<forall>dt \<in> set demo_frames. frame_ok 64 dt"
  by (simp add: demo_frames_def frame_ok_def stampable_def time_ok_def)

definition demo_config :: pcap_config where
  "demo_config = default_config\<lparr>cfg_snaplen := 64, cfg_order := BigEndian, cfg_buffer := 16\<rparr>"

abbreviation demo_options :: "pcap_option list" where
  "demo_options \<equiv> [with_snap_len 64, with_byte_order (Some BigEndian), with_buffer 16]"

lemma demo_options_std: "\<forall>opt \<in> set demo_options. std_option opt"
  by (simp add: std_option.intros)

lemma demo_options_apply: "apply_options demo_options default_config = Inr demo_config"
  by (simp add: option_defs default_config_def demo_config_def)

theorem pcap_roundtrip_witness:
  "\<exists>r. new_reader (bytes_reader (written (snd (write_frames demo_options demo_frames zero_time fresh_file)))) = Inr r
     \<and> map pkt_timestamp (fst (read_all r)) =
         [\<lparr>unix_sec = 1700000000, nanosecond = 123456000\<rparr>, \<lparr>unix_sec = 1700000001, nanosecond = 0\<rparr>]"
proof -
  have "\<forall>dt \<in> set demo_frames. frame_ok (cfg_snaplen demo_config) dt"
    using demo_frames_ok by (simp add: demo_config_def)
  from pcap_roundtrip [OF demo_options_std demo_options_apply this, of zero_time]
  show ?thesis
    by (auto simp: demo_config_def default_config_def demo_frames_def frame_readback_def trunc_time_def)
qed

text \<open>The bytes of the first \<open>m\<close> records.\<close>

definition recs_size :: "('a \<times> bytes) list \<Rightarrow> nat" where
  "recs_size xs = sum_list (map (\<lambda>c. 16 + length (snd c)) xs)"

lemma recs_size_simps [simp]:
  "recs_size [] = 0" "recs_size (c # xs) = 16 + length (snd c) + recs_size xs"
  by (simp_all add: recs_size_def)

lemma complete_recs_take:
  "\<exists>m \<le> length recs. complete_recs n recs = take m recs \<and> recs_size (take m recs) \<le> n \<and>
     (m < length recs \<longrightarrow> n < recs_size (take (Suc m) recs)) \<and>
     cut_error n recs = (if m = length recs \<or> n = recs_size (take m recs) then PcapIO EOF
                         else ErrInvalidPacketHeader)"
proof (induction n recs rule: complete_recs.induct)
  case (1 n)
  show ?case by simp
next
  case (2 n c recs)
  let ?l = "16 + length (snd c)"
  show ?case
  proof (cases "?l \<le> n")
    case True
    with "2.IH" obtain m where "m \<le> length recs"
      "complete_recs (n - ?l) recs = take m recs" "recs_size (take m recs) \<le> n - ?l"
      "m < length recs \<longrightarrow> n - ?l < recs_size (take (Suc m) recs)"
      "cut_error (n - ?l) recs = (if m = length recs \<or> n - ?l = recs_size (take m recs)
         then PcapIO EOF else ErrInvalidPacketHeader)"
      by blast
    with True show ?thesis by (intro exI [of _ "Suc m"]) auto
  next
    case False
    then show ?thesis by (intro exI [of _ 0]) auto
  qed
qed

lemma read_capture_prefix:
  assumes "config_ok cfg" and "24 \<le> k"
    and "\<forall>np \<in> set ps. rec_ok (config_header cfg) (written_record (cfg_resolution cfg) np)"
  shows "\<exists>r. new_reader (bytes_reader (take k (capture_bytes cfg ps))) = Inr r \<and>
    read_all r = (map (readback (cfg_resolution cfg))
                    (complete_recs (k - 24) (map (written_record (cfg_resolution cfg)) ps)),
                  cut_error (k - 24) (map (written_record (cfg_resolution cfg)) ps))"
proof -
  let ?recs = "map (written_record (cfg_resolution cfg)) ps"
  let ?r = "\<lparr>rd_stream = bytes_reader (take (k - 24) (recs_bytes (cfg_order cfg) ?recs)),
    rd_header = config_header cfg, rd_order = cfg_order cfg, rd_unit = cfg_resolution cfg\<rparr>"
  have "new_reader (bytes_reader (take k (capture_bytes cfg ps))) = Inr ?r"
    using new_reader_header [OF select_magic_facts(1), of cfg] select_magic_facts(2) [of cfg]
      select_magic_facts(3) [OF assms(1)] assms(2)
    by (simp add: capture_bytes_def bytes_reader_def take_append)
  moreover have "read_all ?r =
      (map (readback (cfg_resolution cfg)) (complete_recs (k - 24) ?recs), cut_error (k - 24) ?recs)"
    using read_all_cut [of ?r "k - 24" ?recs] assms(3) by simp
  ultimately show ?thesis by simp
qed

definition frames_size :: "(bytes \<times> gotime) list \<Rightarrow> nat" where
  "frames_size frames = sum_list (map (\<lambda>dt. 16 + length (fst dt)) frames)"

lemma recs_size_frames:
  "\<forall>dt \<in> set frames. frame_ok snap dt \<Longrightarrow>
     recs_size (map (written_record unit) (map (\<lambda>dt. (now, frame dt)) frames)) = frames_size frames"
  by (induction frames) (auto simp: frame_written frames_size_def)

lemma length_recs_bytes: "length (recs_bytes order recs) = recs_size recs"
  by (induction recs) auto

text \<open>
  A truncated capture never yields a made-up packet.  Cutting the file anywhere after the
  file header, the reader returns exactly the frames whose records are complete, then \<open>io.EOF\<close>
  if the cut is at a record boundary and \<open>ErrInvalidPacketHeader\<close> if it is inside a record.
\<close>

theorem pcap_truncated:
  assumes "\<forall>opt \<in> set opts. std_option opt"
    and "apply_options opts default_config = Inr cfg"
    and "\<forall>dt \<in> set frames. frame_ok (cfg_snaplen cfg) dt"
    and "24 \<le> k" and "k \<le> length (written (snd (write_frames opts frames now fresh_file)))"
  shows "\<exists>r m. new_reader (bytes_reader (take k (written (snd (write_frames opts frames now fresh_file))))) = Inr r \<and>
    m \<le> length frames \<and> 24 + frames_size (take m frames) \<le> k \<and>
    (m < length frames \<longrightarrow> k < 24 + frames_size (take (Suc m) frames)) \<and>
    read_all r = (map (frame_readback (cfg_resolution cfg)) (take m frames),
                  if k = 24 + frames_size (take m frames) then PcapIO EOF else ErrInvalidPacketHeader)"
proof -
  let ?u = "cfg_resolution cfg" and ?ps = "map (\<lambda>dt. (now, frame dt)) frames"
  let ?recs = "map (written_record ?u) ?ps"
  note res = write_frames_bytes [OF assms(2), of frames now]
  have cfg: "config_ok cfg"
    using apply_options_config_ok [OF assms(1) default_config_ok assms(2)] .
  then have u: "?u = Microsecond \<or> ?u = Nanosecond" by (simp add: config_ok_def)
  have ok: "\<forall>np \<in> set ?ps. rec_ok (config_header cfg) (written_record ?u np)"
    using assms(3) by (auto intro!: frame_rec_ok simp: config_header_def)
  have sizes: "recs_size (take j ?recs) = frames_size (take j frames)" for j
    using recs_size_frames [of "take j frames" "cfg_snaplen cfg"] assms(3)
    by (auto simp: take_map dest: in_set_takeD)
  have rb: "map (readback ?u) (take j ?recs) = map (frame_readback ?u) (take j frames)" for j
    using assms(3) by (auto simp: take_map dest!: in_set_takeD intro: readback_frame [OF _ u])
  obtain m where m: "m \<le> length frames" "complete_recs (k - 24) ?recs = take m ?recs"
    "frames_size (take m frames) \<le> k - 24"
    "m < length frames \<longrightarrow> k - 24 < frames_size (take (Suc m) frames)"
    "cut_error (k - 24) ?recs = (if m = length frames \<or> k - 24 = frames_size (take m frames)
       then PcapIO EOF else ErrInvalidPacketHeader)"
    using complete_recs_take [of ?recs "k - 24"] unfolding sizes by auto
  have "k - 24 \<le> frames_size frames"
    using assms(5) sizes [of "length frames"] res(2)
    by (simp add: capture_bytes_def length_recs_bytes)
  then have "m = length frames \<Longrightarrow> k - 24 = frames_size (take m frames)"
    using m(3) by simp
  then have e: "cut_error (k - 24) ?recs = (if k = 24 + frames_size (take m frames)
       then PcapIO EOF else ErrInvalidPacketHeader)"
    using m(5) assms(4) by auto
  obtain r where r: "new_reader (bytes_reader (take k (capture_bytes cfg ?ps))) = Inr r"
    "read_all r = (map (readback ?u) (complete_recs (k - 24) ?recs), cut_error (k - 24) ?recs)"
    using read_capture_prefix [OF cfg assms(4) ok] by blast
  have "read_all r = (map (frame_readback ?u) (take m frames),
      if k = 24 + frames_size (take m frames) then PcapIO EOF else ErrInvalidPacketHeader)"
    unfolding r(2) m(2) rb e ..
  with r(1) m(1,3,4) assms(4) show ?thesis
    unfolding res(2) by (intro exI [of _ r] exI [of _ m]) auto
qed

theorem pcap_truncated_witness:
  "\<exists>r m. new_reader (bytes_reader (take 50 (written (snd (write_frames demo_options demo_frames zero_time fresh_file))))) = Inr r
     \<and> m \<le> 2 \<and> read_all r = (map (frame_readback Microsecond) (take m demo_frames), ErrInvalidPacketHeader)"
proof -
  have ok: "\<forall>dt \<in> set demo_frames. frame_ok (cfg_snaplen demo_config) dt"
    using demo_frames_ok by (simp add: demo_config_def)
  have len: "50 \<le> length (written (snd (write_frames demo_options demo_frames zero_time fresh_file)))"
    using demo_frames_ok
    by (simp add: write_frames_bytes [OF demo_options_apply] capture_bytes_def length_recs_bytes
        recs_size_frames [of demo_frames 64, simplified] demo_frames_def frames_size_def)
  have sz: "50 \<noteq> 24 + frames_size (take m demo_frames)" if "m \<le> 2" for m
    using that by (cases m; cases "m - 1") (auto simp: demo_frames_def frames_size_def)
  have u: "cfg_resolution demo_config = Microsecond"
    by (simp add: demo_config_def default_config_def)
  obtain r m where "new_reader (bytes_reader (take 50 (written (snd (write_frames demo_options demo_frames zero_time fresh_file))))) = Inr r"
    and m: "m \<le> length demo_frames"
    and "read_all r = (map (frame_readback Microsecond) (take m demo_frames),
      if 50 = 24 + frames_size (take m demo_frames) then PcapIO EOF else ErrInvalidPacketHeader)"
    using pcap_truncated [OF demo_options_std demo_options_apply ok _ len] unfolding u by auto
  moreover from m have "m \<le> 2" by (simp add: demo_frames_def)
  moreover from this have "50 \<noteq> 24 + frames_size (take m demo_frames)" by (rule sz)
  ultimately show ?thesis by (intro exI [of _ r] exI [of _ m]) simp
qed

text \<open>
  The writer does not enforce the snap length it declares.  A frame longer than the snap
  length is stored in full with no error, and the package's own reader then refuses the file at
  that record.
\<close>

theorem pcap_oversize_unreadable:
  assumes "\<forall>opt \<in> set opts. std_option opt"
    and "apply_options opts default_config = Inr cfg"
    and "stampable ts" and "unat (cfg_snaplen cfg) < length data" and "length data < 2 ^ 32"
  shows "fst (write_frames opts [(data, ts)] now fresh_file) = Ok () \<and>
    (\<exists>r. new_reader (bytes_reader (written (snd (write_frames opts [(data, ts)] now fresh_file)))) = Inr r \<and>
      read_all r = ([], CapturedExceedsSnap (word_of_nat (length data)) (cfg_snaplen cfg)))"
proof -
  let ?u = "cfg_resolution cfg"
  have cfg: "config_ok cfg"
    using apply_options_config_ok [OF assms(1) default_config_ok assms(2)] .
  have fok: "frame_ok 0xffffffff (data, ts)"
    using assms(3,5) by (simp add: frame_ok_def)
  let ?h = "frame_header ?u (data, ts)"
  have long: "cfg_snaplen cfg < incl_len ?h" and pos: "0 < cfg_snaplen cfg"
    using assms(4,5) cfg
    by (simp_all add: word_less_nat_alt frame_header_def unat_of_nat config_ok_def unat_gt_0)
  let ?r = "\<lparr>rd_stream = bytes_reader (rec_bytes (cfg_order cfg) ?h data), rd_header = config_header cfg,
    rd_order = cfg_order cfg, rd_unit = ?u\<rparr>"
  have res: "written (snd (write_frames opts [(data, ts)] now fresh_file)) =
      header_bytes (config_header cfg) @ rec_bytes (cfg_order cfg) ?h data"
    by (simp add: write_frames_bytes [OF assms(2)] capture_bytes_def frame_written(2) [OF fok])
  have "new_reader (bytes_reader (header_bytes (config_header cfg) @ rec_bytes (cfg_order cfg) ?h data)) = Inr ?r"
    using new_reader_header [OF select_magic_facts(1), of cfg] select_magic_facts(2) [of cfg]
      select_magic_facts(3) [OF cfg]
    by (simp add: bytes_reader_def)
  moreover have "fst (read_packet ?r) = Inl (CapturedExceedsSnap (incl_len ?h) (cfg_snaplen cfg))"
    using long pos
    by (simp add: read_packet_def bytes_reader_def rec_bytes_def read_full_def word_at_simps
        config_header_def Let_def)
  then have "read_all ?r = ([], CapturedExceedsSnap (word_of_nat (length data)) (cfg_snaplen cfg))"
    by (cases "read_packet ?r") (simp add: read_all_Inl frame_header_def)
  ultimately show ?thesis
    using res write_frames_bytes(1) [OF assms(2)] by auto
qed

theorem pcap_oversize_unreadable_witness:
  "\<exists>r. new_reader (bytes_reader (written (snd (write_frames [with_snap_len 2]
       [([1, 2, 3], \<lparr>unix_sec = 5, nanosecond = 0\<rparr>)] zero_time fresh_file)))) = Inr r \<and>
      read_all r = ([], CapturedExceedsSnap 3 2)"
proof -
  have "stampable \<lparr>unix_sec = 5, nanosecond = 0\<rparr>" by (simp add: stampable_def time_ok_def)
  with pcap_oversize_unreadable [of "[with_snap_len 2]" "default_config\<lparr>cfg_snaplen := 2\<rparr>"
      "\<lparr>unix_sec = 5, nanosecond = 0\<rparr>" "[1, 2, 3]" zero_time]
  show ?thesis by (simp add: std_option.intros with_snap_len_def)
qed

end
