(* ===== verification/PcapFilter.thy ===== *)
theory PcapFilter
  imports PcapFacts
begin

text \<open>
  Buffering and \<open>FilterCopy\<close> of \<open>gnet/pcap\<close>: a buffered writer produces the same file as an
  unbuffered one, and \<open>FilterCopy\<close> copies exactly the packets the filter keeps.  The BPF
  machine is a parameter (\<open>golang.org/x/net/bpf\<close>); a program that compiles and never faults
  is the hypothesis under which the copy succeeds.
\<close>

section \<open>Buffering\<close>

lemma apply_options_append:
  "apply_options (xs @ ys) cfg =
     (case apply_options xs cfg of Inl e \<Rightarrow> Inl e | Inr cfg' \<Rightarrow> apply_options ys cfg')"
  by (induction xs arbitrary: cfg) (auto split: sum.splits)

text \<open>
  Buffering does not change the file.  Adding \<open>WithBuffer(n)\<close> to any options, every
  sequence of packets the writer accepts leaves the same bytes on the device after \<open>Close\<close>.
\<close>

theorem pcap_buffered_same_file:
  assumes "apply_options opts default_config = Inr cfg" and "0 < n"
    and "room s = None" and "\<forall>np \<in> set ps. writable (snd np)"
  shows "fst (write_capture (opts @ [with_buffer n]) ps s) = fst (write_capture opts ps s) \<and>
    written (snd (write_capture (opts @ [with_buffer n]) ps s)) = written (snd (write_capture opts ps s))"
proof -
  have "apply_options (opts @ [with_buffer n]) default_config = Inr (cfg\<lparr>cfg_buffer := n\<rparr>)"
    using assms(1,2) by (simp add: apply_options_append with_buffer_def)
  from write_capture_bytes [OF this assms(3,4)] write_capture_bytes [OF assms(1,3,4)]
  show ?thesis by (auto simp: capture_bytes_def config_header_def)
qed

theorem pcap_buffered_same_file_witness:
  "written (snd (write_capture ([with_snap_len 64] @ [with_buffer 16])
      [(zero_time, frame ([1, 2, 3], \<lparr>unix_sec = 9, nanosecond = 0\<rparr>))] fresh_file)) =
   written (snd (write_capture [with_snap_len 64]
      [(zero_time, frame ([1, 2, 3], \<lparr>unix_sec = 9, nanosecond = 0\<rparr>))] fresh_file))"
proof -
  have "apply_options [with_snap_len 64] default_config = Inr (default_config\<lparr>cfg_snaplen := 64\<rparr>)"
    by (simp add: with_snap_len_def)
  from pcap_buffered_same_file [OF this, of 16 fresh_file]
  show ?thesis by (auto simp: fresh_file_def frame_writable)
qed

section \<open>FilterCopy\<close>

text \<open>The record \<open>FilterCopy\<close> writes for a packet it has read: microseconds, little endian.\<close>

definition copied :: "gotime \<Rightarrow> pcap_packet \<Rightarrow> packet_header \<times> bytes" where
  "copied now p = written_record Microsecond (now, p)"

lemma readback_writable: "rec_ok fh c \<Longrightarrow> writable (readback unit c)"
  by (simp add: rec_ok_def readback_def writable_def)

lemma filter_loop_recs:
  assumes "rd_stream r = bytes_reader (recs_bytes (rd_order r) recs)"
    and "\<forall>c \<in> set recs. rec_ok (rd_header r) c"
    and "\<forall>c \<in> set recs. run (snd c) = Inr (keep (snd c))"
    and "healthy (wr_out w)"
  shows "\<exists>out. filter_loop run now r w n =
      ((n + length (filter (\<lambda>c. keep (snd c) \<noteq> 0) recs), Ok ()), w\<lparr>wr_out := out\<rparr>) \<and> healthy out \<and>
    accepted out = accepted (wr_out w) @ recs_bytes (wr_order w)
      (map (\<lambda>c. written_record (wr_unit w) (now, readback (rd_unit r) c)) (filter (\<lambda>c. keep (snd c) \<noteq> 0) recs))"
  using assms
proof (induction recs arbitrary: r w n)
  case Nil
  then have "fst (read_packet r) = Inl (PcapIO EOF)"
    by (simp add: read_packet_at_end bytes_reader_def)
  with Nil show ?case
    by (cases "read_packet r") (auto simp: filter_loop.simps intro!: exI [of _ "wr_out w"])
next
  case (Cons c recs)
  let ?p = "readback (rd_unit r) c"
  let ?r' = "r\<lparr>rd_stream := bytes_reader (recs_bytes (rd_order r) recs)\<rparr>"
  have step: "read_packet r = (Inr ?p, ?r')"
    using Cons.prems by (simp add: bytes_reader_def readback_def rec_ok_def read_packet_rec)
  have data: "pkt_data ?p = snd c" by (simp add: readback_def)
  show ?case
  proof (cases "keep (snd c) = 0")
    case True
    then show ?thesis
      using Cons.IH [of ?r' w n] Cons.prems step data by (simp add: filter_loop.simps [of run now r])
  next
    case False
    obtain out where out: "write_packet now (Some ?p) w = (Ok (), w\<lparr>wr_out := out\<rparr>)" "healthy out"
      "accepted out = accepted (wr_out w) @
         (let d = written_record (wr_unit w) (now, ?p) in rec_bytes (wr_order w) (fst d) (snd d))"
      using write_packet_healthy [OF Cons.prems(4) readback_writable] Cons.prems(2) by fastforce
    with False show ?thesis
      using Cons.IH [of ?r' "w\<lparr>wr_out := out\<rparr>" "n + 1"] Cons.prems step data
      by (simp add: filter_loop.simps [of run now r] Let_def)
  qed
qed

definition copy_header :: "file_header \<Rightarrow> file_header" where
  "copy_header fh = config_header (default_config\<lparr>cfg_snaplen := snap_len fh, cfg_network := network fh\<rparr>)"

text \<open>
  \<open>FilterCopy\<close> keeps exactly what the filter keeps.  On a well-formed capture with a
  positive snap length and a program that compiles and does not fault, the count is the number
  of kept packets, and the output is a capture with the input's snap length and link type that
  holds the kept packets in order and nothing else.
\<close>

theorem filter_copy_keeps:
  assumes "known_magic (magic_number fh)" and "snap_len fh \<noteq> 0"
    and "\<forall>c \<in> set recs. rec_ok fh c"
    and "new_vm prog = Inr run" and "\<forall>c \<in> set recs. run (snd c) = Inr (keep (snd c))"
    and "room s = None"
  shows "\<exists>f. filter_copy new_vm now
        (bytes_reader (header_bytes fh @ recs_bytes (header_byte_order fh) recs)) s prog =
      ((length (filter (\<lambda>c. keep (snd c) \<noteq> 0) recs), Ok ()), f) \<and>
    written f = written s @ header_bytes (copy_header fh) @ recs_bytes LittleEndian
      (map (copied now \<circ> readback (timestamp_resolution fh)) (filter (\<lambda>c. keep (snd c) \<noteq> 0) recs))"
proof -
  let ?cfg = "default_config\<lparr>cfg_snaplen := snap_len fh, cfg_network := network fh\<rparr>"
  let ?r = "\<lparr>rd_stream = bytes_reader (recs_bytes (header_byte_order fh) recs), rd_header = fh,
    rd_order = header_byte_order fh, rd_unit = timestamp_resolution fh\<rparr>"
  have reader: "new_reader (bytes_reader (header_bytes fh @ recs_bytes (header_byte_order fh) recs)) = Inr ?r"
    using new_reader_header [OF assms(1)] by (simp add: bytes_reader_def)
  have opts: "apply_options [with_snap_len (snap_len fh), with_link_type (network fh)] default_config = Inr ?cfg"
    using assms(2) by (simp add: with_snap_len_def with_link_type_def)
  obtain out where w: "new_writer [with_snap_len (snap_len fh), with_link_type (network fh)] s =
      Inr ((config_writer ?cfg s)\<lparr>wr_out := out\<rparr>)" "healthy out"
    "accepted out = written s @ header_bytes (copy_header fh)"
    using new_writer_healthy [OF opts assms(6)] by (auto simp: copy_header_def)
  let ?w = "(config_writer ?cfg s)\<lparr>wr_out := out\<rparr>"
  have cw: "wr_order ?w = LittleEndian" "wr_unit ?w = Microsecond"
    by (simp_all add: default_config_def)
  obtain out' where l: "filter_loop run now ?r ?w 0 =
      ((length (filter (\<lambda>c. keep (snd c) \<noteq> 0) recs), Ok ()), ?w\<lparr>wr_out := out'\<rparr>)" "healthy out'"
    "accepted out' = accepted out @ recs_bytes LittleEndian
      (map (\<lambda>c. written_record Microsecond (now, readback (timestamp_resolution fh) c))
        (filter (\<lambda>c. keep (snd c) \<noteq> 0) recs))"
    using filter_loop_recs [of ?r recs run keep ?w now 0] assms(3,5) w(2) unfolding cw by auto
  have "(\<lambda>c. written_record Microsecond (now, readback (timestamp_resolution fh) c)) =
      copied now \<circ> readback (timestamp_resolution fh)"
    by (simp add: copied_def fun_eq_iff)
  then show ?thesis
    using reader w l assms(4) close_writer_healthy [of "?w\<lparr>wr_out := out'\<rparr>"]
    by (simp add: filter_copy_def)
qed

theorem filter_copy_keeps_witness:
  "fst (filter_copy (\<lambda>_::unit. Inr (\<lambda>d. Inr (if d = [65] then 1 else 0))) zero_time
     (bytes_reader (header_bytes (config_header default_config) @ recs_bytes LittleEndian
        [(frame_header Microsecond ([65], zero_time), [65]), (frame_header Microsecond ([66], zero_time), [66])]))
     fresh_file ()) = (1, Ok ())"
proof -
  let ?recs = "[(frame_header Microsecond ([65], zero_time), [65]),
    (frame_header Microsecond ([66], zero_time), [66 :: byte])]"
  have h: "snap_len (config_header default_config) = 65535"
    by (simp add: config_header_def default_config_def)
  have "\<forall>c \<in> set ?recs. rec_ok (config_header default_config) c"
    by (simp add: rec_ok_def fits_snap_def frame_header_def h)
  moreover have "header_byte_order (config_header default_config) = LittleEndian"
    by (simp add: select_magic_facts default_config_def)
  ultimately show ?thesis
    using filter_copy_keeps [OF select_magic_facts(1), of default_config ?recs
        "\<lambda>_::unit. Inr (\<lambda>d. Inr (if d = [65] then 1 else 0))" "()" _ "\<lambda>d. if d = [65] then 1 else 0"
        fresh_file zero_time]
    by (auto simp: h fresh_file_def)
qed

text \<open>
  The copy of a packet from a microsecond capture is the packet: only zero length fields are
  filled in.  A nanosecond capture loses the digits below a microsecond.
\<close>

lemma copied_microseconds:
  assumes "uint (ts_usec (fst c)) < 1000000" and "rec_ok fh c" and "orig_len (fst c) \<noteq> 0"
  shows "copied now (readback Microsecond c) = c"
proof -
  let ?h = "fst c"
  have len: "word_of_nat (length (snd c)) = incl_len ?h"
    using assms(2) by (simp add: rec_ok_def)
  have t: "record_time Microsecond ?h = \<lparr>unix_sec = uint (ts_sec ?h), nanosecond = uint (ts_usec ?h) * 1000\<rparr>"
    using assms(1) by (simp add: record_time_def time_unix_def)
  then have "record_time Microsecond ?h \<noteq> zero_time"
    by (auto simp: zero_time_def) (metis neg_less_0_iff_less not_less uint_ge_0 zero_less_numeral)
  moreover have "set_timestamp (record_time Microsecond ?h) Microsecond ?h = ?h"
    by (simp add: t set_timestamp_def)
  ultimately have "final_header now Microsecond (readback Microsecond c) = ?h"
    using assms(3) len by (simp add: final_header_def stamped_header_def readback_def Let_def)
  then show ?thesis
    using assms(2) by (cases c) (simp add: copied_def written_record_def readback_def rec_ok_def Let_def)
qed

end
