(* ===== verification/Pcapng.thy ===== *)
theory Pcapng
  imports GoIO
begin

text \<open>
  The package \<open>gnet/pcapng\<close>: blocks and options, the reader with its section and interface
  state, the writer with its options, and \<open>FilterCopy\<close>.  Embedded Go structs are record
  extensions; the block kinds of the type switch are the constructors of \<open>ng_block\<close>.
\<close>

section \<open>Blocks\<close>

definition SectionHeaderBlockType :: u32 where
  "SectionHeaderBlockType = 0x0A0D0D0A"

definition InterfaceDescriptionBlockType :: u32 where
  "InterfaceDescriptionBlockType = 0x00000001"

definition EnhancedPacketBlockType :: u32 where
  "EnhancedPacketBlockType = 0x00000006"

definition ByteOrderMagicLittle :: u32 where
  "ByteOrderMagicLittle = 0x1A2B3C4D"

definition ByteOrderMagicBig :: u32 where
  "ByteOrderMagicBig = 0x4D3C2B1A"

lemmas block_types = SectionHeaderBlockType_def InterfaceDescriptionBlockType_def
  EnhancedPacketBlockType_def

lemmas bom_defs = ByteOrderMagicLittle_def ByteOrderMagicBig_def

record ng_option =
  opt_code :: u16
  opt_value :: bytes

record block_header =
  bh_type :: u32
  bh_total :: u32

text \<open>\<open>SectionLength\<close> is an \<open>int64\<close>; it is kept as its 64 bits.\<close>

record section_header_block = block_header +
  shb_magic :: u32
  shb_major :: u16
  shb_minor :: u16
  shb_length :: u64
  shb_options :: "ng_option list"

record interface_block = block_header +
  idb_id :: u32
  idb_link :: u16
  idb_reserved :: u16
  idb_snap :: u32
  idb_options :: "ng_option list"

record packet_block = block_header +
  epb_interface :: u32
  epb_high :: u32
  epb_low :: u32
  epb_captured :: u32
  epb_original :: u32
  epb_data :: bytes
  epb_options :: "ng_option list"

datatype ng_block =
    SectionBlock section_header_block
  | InterfaceBlock interface_block
  | PacketBlock packet_block

fun block_type :: "ng_block \<Rightarrow> u32" where
  "block_type (SectionBlock b) = bh_type b"
| "block_type (InterfaceBlock b) = bh_type b"
| "block_type (PacketBlock b) = bh_type b"

definition epb_timestamp :: "int \<Rightarrow> packet_block \<Rightarrow> gotime" where
  "epb_timestamp resolution b =
     (let combined = (push_bit 32 (ucast (epb_high b)) OR ucast (epb_low b) :: u64) in
      if resolution = Nanosecond
      then time_unix (uint (combined div 1000000000)) (uint (combined mod 1000000000))
      else time_unix (uint (combined div 1000000)) (uint (combined mod 1000000) * 1000))"

datatype ng_error =
    NgIO io_error
  | ErrInvalidBlockLength
  | ErrUnexpectedBlock
  | ErrInvalidSection
  | UnsupportedBlock u32
  | UnknownInterface u32
  | NgUnsupportedResolution int
  | NgUnsupportedDefaultResolution int
  | NgUnsupportedByteOrder
  | SectionMajorNotPositive
  | NgBufferNotPositive
  | NgBpfError nat

section \<open>Options\<close>

definition pad4 :: "nat \<Rightarrow> nat" where
  "pad4 n = (4 - n mod 4) mod 4"

text \<open>\<open>discard\<close> on the bytes left in the \<open>bytes.Reader\<close>.\<close>

definition discard :: "nat \<Rightarrow> bytes \<Rightarrow> ng_error + bytes" where
  "discard n r = (if n = 0 then Inr r
                  else if length r < n then Inl ErrInvalidBlockLength else Inr (drop n r))"

lemma discard_shrinks: "discard n r = Inr r' \<Longrightarrow> length r' \<le> length r"
  by (auto simp: discard_def split: if_splits)

function parse_options :: "byte_order \<Rightarrow> bytes \<Rightarrow> ng_error + ng_option list" where
  "parse_options order data =
     (if length data < 4 then Inr []
      else
        let code = word_at 2 order 0 data; len = unat (word_at 2 order 2 data :: u16);
            rest = drop 4 data in
        if code = 0
        then (case discard (len + pad4 len) rest of Inl e \<Rightarrow> Inl e | Inr _ \<Rightarrow> Inr [])
        else (case read_full len (bytes_reader rest) of
                (Inl e, _) \<Rightarrow> Inl (NgIO e)
              | (Inr v, s) \<Rightarrow>
                  (case discard (pad4 len) (pending s) of
                     Inl e \<Rightarrow> Inl e
                   | Inr rest' \<Rightarrow>
                       (case parse_options order rest' of
                          Inl e \<Rightarrow> Inl e
                        | Inr opts \<Rightarrow> Inr (\<lparr>opt_code = code, opt_value = v\<rparr> # opts)))))"
  by pat_completeness auto
termination
  by (relation "measure (\<lambda>(order, data). length data)")
     (auto dest!: discard_shrinks discard_shrinks [OF sym] simp: read_full_def bytes_reader_def Let_def split: if_splits)

declare parse_options.simps [simp del]

definition parse_timestamp_resolution :: "byte \<Rightarrow> int" where
  "parse_timestamp_resolution raw =
     (if raw AND 0x80 = 0
      then (let power = unat raw in
            if power = 6 then Microsecond
            else if power = 9 then Nanosecond
            else if power \<le> 9 then Second div 10 ^ power
            else Microsecond)
      else (let power = unat (raw AND 0x7f) in
            if power \<le> 30 then Second div 2 ^ power else Microsecond))"

fun extract_timestamp_resolution :: "ng_option list \<Rightarrow> int" where
  "extract_timestamp_resolution [] = 0"
| "extract_timestamp_resolution (opt # opts) =
     (if opt_code opt = 9 \<and> opt_value opt \<noteq> [] then parse_timestamp_resolution (hd (opt_value opt))
      else extract_timestamp_resolution opts)"

section \<open>Reader\<close>

record interface_info =
  ii_block :: interface_block
  ii_res :: int

record ng_reader =
  ngr_stream :: stream
  ngr_order :: "byte_order option"
  ngr_section :: "section_header_block option"
  ngr_interfaces :: "(u32, interface_info) gomap"
  ngr_next :: u32
  ngr_default :: int

record ng_packet =
  ngp_interface :: u32
  ngp_data :: bytes
  ngp_timestamp :: gotime
  ngp_captured :: u32
  ngp_original :: u32
  ngp_options :: "ng_option list"

definition ng_new_reader :: "stream \<Rightarrow> ng_reader" where
  "ng_new_reader r = \<lparr>ngr_stream = r, ngr_order = None, ngr_section = None, ngr_interfaces = [],
     ngr_next = 0, ngr_default = Microsecond\<rparr>"

definition current_section :: "ng_reader \<Rightarrow> section_header_block option" where
  "current_section r = ngr_section r"

definition ng_interface_info :: "u32 \<Rightarrow> ng_reader \<Rightarrow> (u16 \<times> u32 \<times> int) option" where
  "ng_interface_info i r =
     (case go_get (ngr_interfaces r) i of
        None \<Rightarrow> None
      | Some info \<Rightarrow> Some (idb_link (ii_block info), idb_snap (ii_block info), ii_res info))"

definition read_body :: "u32 \<Rightarrow> bytes \<Rightarrow> stream \<Rightarrow> (ng_error + bytes) \<times> stream" where
  "read_body tlen pre s =
     (if tlen < 12 then (Inl ErrInvalidBlockLength, s)
      else if unat tlen - 8 < length pre then (Inl ErrInvalidBlockLength, s)
      else (case read_full (unat tlen - 8 - length pre) s of
              (Inl e, s') \<Rightarrow> (Inl (NgIO e), s')
            | (Inr rest, s') \<Rightarrow> (Inr (pre @ rest), s')))"

text \<open>The trailer of a block repeats its total length.\<close>

definition parse_section_header ::
  "u32 \<Rightarrow> byte_order \<Rightarrow> bytes \<Rightarrow> (ng_error, section_header_block) outcome" where
  "parse_section_header tlen order body =
     (if length body < 20 then Err ErrInvalidBlockLength
      else bindO (bindO (go_slice body (length body - 4) (length body)) (get_uint32 order)) (\<lambda>trailer.
        if trailer \<noteq> tlen then Err ErrInvalidBlockLength
        else bindO (go_slice body 0 (length body - 4)) (\<lambda>payload.
          bindO (bindO (go_slice payload 0 4) (get_uint32 BigEndian)) (\<lambda>magic.
          bindO (bindO (go_slice payload 4 6) (get_uint16 order)) (\<lambda>major.
          bindO (bindO (go_slice payload 6 8) (get_uint16 order)) (\<lambda>minor.
            if length payload < 16 then Err ErrInvalidSection
            else bindO (bindO (go_slice payload 8 16) (get_uint64 order)) (\<lambda>len.
              bindO (go_slice payload 16 (length payload)) (\<lambda>opts_data.
                case parse_options order opts_data of
                  Inl e \<Rightarrow> Err e
                | Inr opts \<Rightarrow>
                    Ok \<lparr>bh_type = SectionHeaderBlockType, bh_total = tlen, shb_magic = magic,
                       shb_major = major, shb_minor = minor, shb_length = len, shb_options = opts\<rparr>))))))))"

definition parse_interface_block ::
  "u32 \<Rightarrow> byte_order \<Rightarrow> bytes \<Rightarrow> (ng_error, interface_block) outcome" where
  "parse_interface_block tlen order body =
     (if length body < 12 then Err ErrInvalidBlockLength
      else bindO (bindO (go_slice body (length body - 4) (length body)) (get_uint32 order)) (\<lambda>trailer.
        if trailer \<noteq> tlen then Err ErrInvalidBlockLength
        else bindO (go_slice body 0 (length body - 4)) (\<lambda>payload.
          if length payload < 8 then Err ErrInvalidBlockLength
          else bindO (bindO (go_slice payload 0 2) (get_uint16 order)) (\<lambda>link.
            bindO (bindO (go_slice payload 2 4) (get_uint16 order)) (\<lambda>reserved.
            bindO (bindO (go_slice payload 4 8) (get_uint32 order)) (\<lambda>snap.
            bindO (go_slice payload 8 (length payload)) (\<lambda>opts_data.
              case parse_options order opts_data of
                Inl e \<Rightarrow> Err e
              | Inr opts \<Rightarrow>
                  Ok \<lparr>bh_type = InterfaceDescriptionBlockType, bh_total = tlen, idb_id = 0,
                     idb_link = link, idb_reserved = reserved, idb_snap = snap, idb_options = opts\<rparr>)))))))"

definition parse_packet_block ::
  "u32 \<Rightarrow> byte_order \<Rightarrow> bytes \<Rightarrow> (ng_error, packet_block) outcome" where
  "parse_packet_block tlen order body =
     (if length body < 24 then Err ErrInvalidBlockLength
      else bindO (bindO (go_slice body (length body - 4) (length body)) (get_uint32 order)) (\<lambda>trailer.
        if trailer \<noteq> tlen then Err ErrInvalidBlockLength
        else bindO (go_slice body 0 (length body - 4)) (\<lambda>payload.
          if length payload < 20 then Err ErrInvalidBlockLength
          else bindO (bindO (go_slice payload 0 4) (get_uint32 order)) (\<lambda>iface.
            bindO (bindO (go_slice payload 4 8) (get_uint32 order)) (\<lambda>high.
            bindO (bindO (go_slice payload 8 12) (get_uint32 order)) (\<lambda>low.
            bindO (bindO (go_slice payload 12 16) (get_uint32 order)) (\<lambda>captured.
            bindO (bindO (go_slice payload 16 20) (get_uint32 order)) (\<lambda>original.
              if length payload - 20 < unat captured then Err ErrInvalidBlockLength
              else bindO (go_slice payload 20 (20 + unat captured)) (\<lambda>data.
                let offset = 20 + unat captured; padding = pad4 (unat captured) in
                if length payload < offset + padding then Err ErrInvalidBlockLength
                else bindO (go_slice payload (offset + padding) (length payload)) (\<lambda>opts_data.
                  case parse_options order opts_data of
                    Inl e \<Rightarrow> Err e
                  | Inr opts \<Rightarrow>
                      Ok \<lparr>bh_type = EnhancedPacketBlockType, bh_total = tlen,
                         epb_interface = iface, epb_high = high, epb_low = low,
                         epb_captured = captured, epb_original = original, epb_data = data,
                         epb_options = opts\<rparr>))))))))))"

text \<open>
  \<open>NextBlock\<close>.  Before the first section header the byte order is unset (\<open>None\<close>) and only
  a section header is accepted; its type is a palindrome, so the little-endian read finds it.
\<close>

definition next_section ::
  "bytes \<Rightarrow> ng_reader \<Rightarrow> (ng_error, ng_block) outcome \<times> ng_reader" where
  "next_section hdr r =
     (case read_full 4 (ngr_stream r) of
        (Inl e, s) \<Rightarrow> (Err (NgIO e), r\<lparr>ngr_stream := s\<rparr>)
      | (Inr bom, s) \<Rightarrow>
          let magic = word_at 4 BigEndian 0 bom in
          if magic \<noteq> ByteOrderMagicLittle \<and> magic \<noteq> ByteOrderMagicBig
          then (Err ErrInvalidSection, r\<lparr>ngr_stream := s\<rparr>)
          else
            let order = (if magic = ByteOrderMagicLittle then LittleEndian else BigEndian);
                tlen = word_at 4 order 4 hdr in
            (case read_body tlen bom s of
               (Inl e, s') \<Rightarrow> (Err e, r\<lparr>ngr_stream := s'\<rparr>)
             | (Inr body, s') \<Rightarrow>
                 (case parse_section_header tlen order body of
                    Ok b \<Rightarrow> (Ok (SectionBlock b),
                      r\<lparr>ngr_stream := s', ngr_order := Some order, ngr_section := Some b,
                        ngr_interfaces := [], ngr_next := 0\<rparr>)
                  | Err e \<Rightarrow> (Err e, r\<lparr>ngr_stream := s'\<rparr>)
                  | Panic \<Rightarrow> (Panic, r\<lparr>ngr_stream := s'\<rparr>))))"

definition next_interface ::
  "byte_order \<Rightarrow> bytes \<Rightarrow> ng_reader \<Rightarrow> (ng_error, ng_block) outcome \<times> ng_reader" where
  "next_interface order hdr r =
     (let tlen = word_at 4 order 4 hdr in
      case read_body tlen [] (ngr_stream r) of
        (Inl e, s) \<Rightarrow> (Err e, r\<lparr>ngr_stream := s\<rparr>)
      | (Inr body, s) \<Rightarrow>
          (case parse_interface_block tlen order body of
             Ok b0 \<Rightarrow>
               let b = b0\<lparr>idb_id := ngr_next r\<rparr>;
                   res = extract_timestamp_resolution (idb_options b);
                   res = (if res = 0 then ngr_default r else res) in
               (Ok (InterfaceBlock b),
                r\<lparr>ngr_stream := s, ngr_next := ngr_next r + 1,
                  ngr_interfaces := go_put (idb_id b) \<lparr>ii_block = b, ii_res = res\<rparr> (ngr_interfaces r)\<rparr>)
           | Err e \<Rightarrow> (Err e, r\<lparr>ngr_stream := s\<rparr>)
           | Panic \<Rightarrow> (Panic, r\<lparr>ngr_stream := s\<rparr>)))"

definition next_packet_block ::
  "byte_order \<Rightarrow> bytes \<Rightarrow> ng_reader \<Rightarrow> (ng_error, ng_block) outcome \<times> ng_reader" where
  "next_packet_block order hdr r =
     (let tlen = word_at 4 order 4 hdr in
      case read_body tlen [] (ngr_stream r) of
        (Inl e, s) \<Rightarrow> (Err e, r\<lparr>ngr_stream := s\<rparr>)
      | (Inr body, s) \<Rightarrow> (mapO PacketBlock (parse_packet_block tlen order body), r\<lparr>ngr_stream := s\<rparr>))"

definition next_block :: "ng_reader \<Rightarrow> (ng_error, ng_block) outcome \<times> ng_reader" where
  "next_block r =
     (case read_full 8 (ngr_stream r) of
        (Inl e, s) \<Rightarrow> (Err (if e = EOF then NgIO EOF else NgIO e), r\<lparr>ngr_stream := s\<rparr>)
      | (Inr hdr, s) \<Rightarrow>
          let r = r\<lparr>ngr_stream := s\<rparr>;
              btype = (case ngr_order r of
                         Some order \<Rightarrow> word_at 4 order 0 hdr
                       | None \<Rightarrow> word_at 4 LittleEndian 0 hdr) in
          if ngr_order r = None \<and> btype \<noteq> SectionHeaderBlockType then (Err ErrInvalidSection, r)
          else if btype = SectionHeaderBlockType then next_section hdr r
          else
            (case ngr_order r of
               None \<Rightarrow> (Panic, r)
             | Some order \<Rightarrow>
                 if btype = InterfaceDescriptionBlockType then next_interface order hdr r
                 else if btype = EnhancedPacketBlockType then next_packet_block order hdr r
                 else
                   (case read_body (word_at 4 order 4 hdr) [] (ngr_stream r) of
                      (Inl e, s) \<Rightarrow> (Err e, r\<lparr>ngr_stream := s\<rparr>)
                    | (Inr _, s) \<Rightarrow> (Err (UnsupportedBlock btype), r\<lparr>ngr_stream := s\<rparr>))))"

lemma read_body_shrinks:
  "read_body tlen pre s = (res, s') \<Longrightarrow> length (pending s') \<le> length (pending s)"
  by (auto simp: read_body_def read_full_def split: if_splits)

lemma next_section_shrinks:
  "next_section hdr r = (res, r') \<Longrightarrow> length (pending (ngr_stream r')) \<le> length (pending (ngr_stream r))"
  by (auto simp: next_section_def Let_def dest!: read_full_pending read_body_shrinks
      split: prod.splits sum.splits if_splits outcome.splits)

lemma next_interface_shrinks:
  "next_interface order hdr r = (res, r') \<Longrightarrow> length (pending (ngr_stream r')) \<le> length (pending (ngr_stream r))"
  by (auto simp: next_interface_def Let_def dest!: read_body_shrinks
      split: prod.splits sum.splits if_splits outcome.splits)

lemma next_packet_block_shrinks:
  "next_packet_block order hdr r = (res, r') \<Longrightarrow> length (pending (ngr_stream r')) \<le> length (pending (ngr_stream r))"
  by (auto simp: next_packet_block_def Let_def dest!: read_body_shrinks
      split: prod.splits sum.splits)

lemma next_block_shrinks:
  assumes "next_block r = (Ok b, r')"
  shows "length (pending (ngr_stream r')) < length (pending (ngr_stream r))"
proof -
  obtain hdr s where h: "read_full 8 (ngr_stream r) = (Inr hdr, s)"
    using assms by (auto simp: next_block_def split: prod.splits sum.splits)
  then have s: "length (pending s) + 8 = length (pending (ngr_stream r))"
    by (auto simp: read_full_Inr_iff)
  have "length (pending (ngr_stream r')) \<le> length (pending s)"
    using assms h
    by (auto simp: next_block_def Let_def split: if_splits option.splits prod.splits sum.splits
        dest!: next_section_shrinks next_interface_shrinks next_packet_block_shrinks)
  with s show ?thesis by simp
qed

definition block_packet :: "ng_reader \<Rightarrow> packet_block \<Rightarrow> ng_packet" where
  "block_packet r b =
     (let res = (case go_get (ngr_interfaces r) (epb_interface b) of
                   None \<Rightarrow> ngr_default r
                 | Some info \<Rightarrow> if ii_res info \<noteq> 0 then ii_res info else ngr_default r) in
      \<lparr>ngp_interface = epb_interface b, ngp_data = epb_data b, ngp_timestamp = epb_timestamp res b,
       ngp_captured = epb_captured b, ngp_original = epb_original b, ngp_options = epb_options b\<rparr>)"

function ng_read_packet :: "ng_reader \<Rightarrow> (ng_error, ng_packet) outcome \<times> ng_reader" where
  "ng_read_packet r =
     (case next_block r of
        (Err e, r') \<Rightarrow> (Err e, r')
      | (Panic, r') \<Rightarrow> (Panic, r')
      | (Ok b, r') \<Rightarrow>
          (case b of PacketBlock p \<Rightarrow> (Ok (block_packet r' p), r') | _ \<Rightarrow> ng_read_packet r'))"
  by pat_completeness auto
termination
  by (relation "measure (\<lambda>r. length (pending (ngr_stream r)))")
     (auto dest: next_block_shrinks [OF sym])

declare ng_read_packet.simps [simp del]

section \<open>Writer\<close>

record ng_config =
  ngc_order :: byte_order
  ngc_major :: u16
  ngc_minor :: u16
  ngc_length :: int
  ngc_options :: "ng_option list"
  ngc_default :: int
  ngc_buffer :: int

type_synonym ng_writer_option = "ng_config \<Rightarrow> ng_error + ng_config"

record writer_interface =
  wi_link :: u16
  wi_snap :: u32
  wi_res :: int

record ng_writer =
  ngw_out :: outw
  ngw_order :: byte_order
  ngw_length :: int
  ngw_options :: "ng_option list"
  ngw_default :: int
  ngw_interfaces :: "(u32, writer_interface) gomap"
  ngw_next :: u32
  ngw_major :: u16
  ngw_minor :: u16

definition ng_default_config :: ng_config where
  "ng_default_config = \<lparr>ngc_order = LittleEndian, ngc_major = 1, ngc_minor = 0, ngc_length = -1,
     ngc_options = [], ngc_default = Microsecond, ngc_buffer = 0\<rparr>"

fun ng_apply_options :: "ng_writer_option list \<Rightarrow> ng_config \<Rightarrow> ng_error + ng_config" where
  "ng_apply_options [] cfg = Inr cfg"
| "ng_apply_options (opt # opts) cfg =
     (case opt cfg of Inl e \<Rightarrow> Inl e | Inr cfg' \<Rightarrow> ng_apply_options opts cfg')"

definition encode_option :: "byte_order \<Rightarrow> ng_option \<Rightarrow> bytes" where
  "encode_option order opt =
     put_uint16 order (opt_code opt) @ put_uint16 order (word_of_nat (length (opt_value opt))) @
     opt_value opt @ replicate (pad4 (length (opt_value opt))) 0"

definition encode_options :: "ng_option list \<Rightarrow> byte_order \<Rightarrow> bytes" where
  "encode_options opts order =
     concat (map (encode_option order) opts) @ put_uint16 order 0 @ put_uint16 order 0"

definition encode_timestamp_resolution :: "int \<Rightarrow> ng_error + byte" where
  "encode_timestamp_resolution d =
     (if d = Nanosecond then Inr 9 else if d = Microsecond then Inr 6
      else Inl (NgUnsupportedResolution d))"

definition encode_timestamp :: "gotime \<Rightarrow> int \<Rightarrow> ng_error + (u32 \<times> u32)" where
  "encode_timestamp ts resolution =
     (let split = (\<lambda>v :: u64. (ucast (drop_bit 32 v), ucast (v AND 0xffffffff))) in
      if resolution = Nanosecond
      then Inr (split (word_of_int (unix_sec ts) * 1000000000 + word_of_int (nanosecond ts)))
      else if resolution = Microsecond
      then Inr (split (word_of_int (unix_sec ts) * 1000000 + word_of_int (nanosecond ts div 1000)))
      else Inl (NgUnsupportedResolution resolution))"

text \<open>One block: the whole of it goes to the writer in a single \<open>Write\<close>.\<close>

definition emit :: "bytes \<Rightarrow> ng_writer \<Rightarrow> io_error option \<times> ng_writer" where
  "emit buf w = (case out_write buf (ngw_out w) of (e, out) \<Rightarrow> (e, w\<lparr>ngw_out := out\<rparr>))"

definition write_section_header :: "ng_writer \<Rightarrow> io_error option \<times> ng_writer" where
  "write_section_header w =
     (let order = ngw_order w;
          options = encode_options (ngw_options w) order;
          payload_len = 4 + 2 + 2 + 8 + length options;
          tlen = word_of_nat (8 + payload_len + 4);
          magic = (if order = BigEndian then ByteOrderMagicBig else ByteOrderMagicLittle);
          section_len = (if 0 \<le> ngw_length w then word_of_int (ngw_length w) else 0xFFFFFFFFFFFFFFFF)
      in emit (put_uint32 order SectionHeaderBlockType @ put_uint32 order tlen @
               put_uint32 BigEndian magic @ put_uint16 order (ngw_major w) @
               put_uint16 order (ngw_minor w) @ put_uint64 order section_len @
               options @ put_uint32 order tlen) w)"

definition ng_config_writer :: "ng_config \<Rightarrow> sink \<Rightarrow> ng_writer" where
  "ng_config_writer cfg s =
     \<lparr>ngw_out = \<lparr>dest = s,
                  obuf = (if 0 < ngc_buffer cfg
                          then Some \<lparr>bsize = nat (ngc_buffer cfg), bbuf = [], berr = None\<rparr>
                          else None)\<rparr>,
      ngw_order = ngc_order cfg, ngw_length = ngc_length cfg, ngw_options = ngc_options cfg,
      ngw_default = ngc_default cfg, ngw_interfaces = [], ngw_next = 0,
      ngw_major = ngc_major cfg, ngw_minor = ngc_minor cfg\<rparr>"

definition ng_new_writer :: "ng_writer_option list \<Rightarrow> sink \<Rightarrow> (ng_error \<times> sink) + ng_writer" where
  "ng_new_writer opts s =
     (case ng_apply_options opts ng_default_config of
        Inl e \<Rightarrow> Inl (e, s)
      | Inr cfg \<Rightarrow>
          (case write_section_header (ng_config_writer cfg s) of
             (Some e, w) \<Rightarrow> Inl (NgIO e, dest (ngw_out w))
           | (None, w) \<Rightarrow> Inr w))"

record interface_config =
  ic_options :: "ng_option list"
  ic_res :: int
  ic_has_ts :: bool

type_synonym interface_option = "interface_config \<Rightarrow> ng_error + interface_config"

fun apply_interface_options ::
  "interface_option list \<Rightarrow> interface_config \<Rightarrow> ng_error + interface_config" where
  "apply_interface_options [] cfg = Inr cfg"
| "apply_interface_options (opt # opts) cfg =
     (case opt cfg of Inl e \<Rightarrow> Inl e | Inr cfg' \<Rightarrow> apply_interface_options opts cfg')"

definition write_interface_block ::
  "u16 \<Rightarrow> u32 \<Rightarrow> ng_option list \<Rightarrow> ng_writer \<Rightarrow> io_error option \<times> ng_writer" where
  "write_interface_block link snap opts w =
     (let order = ngw_order w;
          options = encode_options opts order;
          payload_len = 2 + 2 + 4 + length options;
          tlen = word_of_nat (8 + payload_len + 4)
      in emit (put_uint32 order InterfaceDescriptionBlockType @ put_uint32 order tlen @
               put_uint16 order link @ put_uint16 order 0 @ put_uint32 order snap @
               options @ put_uint32 order tlen) w)"

definition adds_ts_option :: "interface_config \<Rightarrow> int \<Rightarrow> bool" where
  "adds_ts_option cfg res =
     (if ic_has_ts cfg then False else if ic_res cfg \<noteq> 0 then True else res \<noteq> Microsecond)"

definition add_interface ::
  "u16 \<Rightarrow> u32 \<Rightarrow> interface_option list \<Rightarrow> ng_writer \<Rightarrow> (ng_error + u32) \<times> ng_writer" where
  "add_interface link snap opts w =
     (case apply_interface_options opts \<lparr>ic_options = [], ic_res = 0, ic_has_ts = False\<rparr> of
        Inl e \<Rightarrow> (Inl e, w)
      | Inr cfg \<Rightarrow>
          let res = (if ic_res cfg = 0 then ngw_default w else ic_res cfg) in
          (case (if adds_ts_option cfg res
                 then (case encode_timestamp_resolution res of
                         Inl e \<Rightarrow> Inl e
                       | Inr v \<Rightarrow> Inr (ic_options cfg @ [\<lparr>opt_code = 9, opt_value = [v]\<rparr>]))
                 else Inr (ic_options cfg)) of
             Inl e \<Rightarrow> (Inl e, w)
           | Inr options \<Rightarrow>
               (case write_interface_block link snap options w of
                  (Some e, w') \<Rightarrow> (Inl (NgIO e), w')
                | (None, w') \<Rightarrow>
                    (Inr (ngw_next w'),
                     w'\<lparr>ngw_next := ngw_next w' + 1,
                        ngw_interfaces := go_put (ngw_next w')
                          \<lparr>wi_link = link, wi_snap = snap, wi_res = res\<rparr> (ngw_interfaces w')\<rparr>))))"

definition write_enhanced_packet ::
  "u32 \<Rightarrow> u32 \<Rightarrow> u32 \<Rightarrow> u32 \<Rightarrow> u32 \<Rightarrow> bytes \<Rightarrow> ng_option list \<Rightarrow> ng_writer \<Rightarrow> io_error option \<times> ng_writer" where
  "write_enhanced_packet i high low captured original payload opts w =
     (let order = ngw_order w;
          padding = (4 - (captured mod 4)) mod 4;
          options = encode_options opts order;
          payload_len = 4 + 4 + 4 + 4 + 4 + unat captured + unat padding + length options;
          tlen = word_of_nat (8 + payload_len + 4)
      in emit (put_uint32 order EnhancedPacketBlockType @ put_uint32 order tlen @
               put_uint32 order i @ put_uint32 order high @ put_uint32 order low @
               put_uint32 order captured @ put_uint32 order original @
               payload @ replicate (unat padding) 0 @ options @ put_uint32 order tlen) w)"

definition ng_write_packet ::
  "gotime \<Rightarrow> u32 \<Rightarrow> bytes \<Rightarrow> gotime \<Rightarrow> ng_option list \<Rightarrow> ng_writer \<Rightarrow>
     (ng_error, unit) outcome \<times> ng_writer" where
  "ng_write_packet now i data ts opts w =
     (case go_get (ngw_interfaces w) i of
        None \<Rightarrow> (Err (UnknownInterface i), w)
      | Some info \<Rightarrow>
          let ts = (if ts = zero_time then now else ts);
              res = (if wi_res info = 0 then ngw_default w else wi_res info) in
          (case encode_timestamp ts res of
             Inl e \<Rightarrow> (Err e, w)
           | Inr (high, low) \<Rightarrow>
               let original = word_of_nat (length data);
                   captured = (if 0 < wi_snap info \<and> wi_snap info < original then wi_snap info else original) in
               (case go_slice data 0 (unat captured) of
                  Ok payload \<Rightarrow>
                    (case write_enhanced_packet i high low captured original payload opts w of
                       (Some e, w') \<Rightarrow> (Err (NgIO e), w')
                     | (None, w') \<Rightarrow> (Ok (), w'))
                | Err e \<Rightarrow> (Err e, w)
                | Panic \<Rightarrow> (Panic, w))))"

definition ng_close_writer :: "ng_writer \<Rightarrow> io_error option \<times> ng_writer" where
  "ng_close_writer w = (case out_close (ngw_out w) of (e, out) \<Rightarrow> (e, w\<lparr>ngw_out := out\<rparr>))"

text \<open>Options of an interface and of the writer.\<close>

definition with_interface_option :: "u16 \<Rightarrow> bytes \<Rightarrow> interface_option" where
  "with_interface_option code v cfg =
     (let cfg = cfg\<lparr>ic_options := ic_options cfg @ [\<lparr>opt_code = code, opt_value = v\<rparr>]\<rparr> in
      Inr (if code = 9
           then (let cfg = cfg\<lparr>ic_has_ts := True\<rparr> in
                 if v \<noteq> [] then cfg\<lparr>ic_res := parse_timestamp_resolution (hd v)\<rparr> else cfg)
           else cfg))"

definition with_interface_timestamp_resolution :: "int \<Rightarrow> interface_option" where
  "with_interface_timestamp_resolution res cfg = Inr (cfg\<lparr>ic_res := res\<rparr>)"

definition ng_with_byte_order :: "byte_order option \<Rightarrow> ng_writer_option" where
  "ng_with_byte_order order cfg =
     (case order of None \<Rightarrow> Inl NgUnsupportedByteOrder | Some ord \<Rightarrow> Inr (cfg\<lparr>ngc_order := ord\<rparr>))"

definition with_section_version :: "u16 \<Rightarrow> u16 \<Rightarrow> ng_writer_option" where
  "with_section_version major minor cfg =
     (if major = 0 then Inl SectionMajorNotPositive
      else Inr (cfg\<lparr>ngc_major := major, ngc_minor := minor\<rparr>))"

definition with_section_length :: "int \<Rightarrow> ng_writer_option" where
  "with_section_length n cfg = Inr (cfg\<lparr>ngc_length := n\<rparr>)"

definition with_section_option :: "ng_option \<Rightarrow> ng_writer_option" where
  "with_section_option opt cfg = Inr (cfg\<lparr>ngc_options := ngc_options cfg @ [opt]\<rparr>)"

definition with_default_timestamp_resolution :: "int \<Rightarrow> ng_writer_option" where
  "with_default_timestamp_resolution res cfg =
     (if res = Microsecond \<or> res = Nanosecond then Inr (cfg\<lparr>ngc_default := res\<rparr>)
      else Inl (NgUnsupportedDefaultResolution res))"

definition ng_with_buffer :: "int \<Rightarrow> ng_writer_option" where
  "ng_with_buffer n cfg = (if n \<le> 0 then Inl NgBufferNotPositive else Inr (cfg\<lparr>ngc_buffer := n\<rparr>))"

section \<open>FilterCopy\<close>

lemma ng_read_packet_shrinks:
  "ng_read_packet r = (Ok p, r') \<Longrightarrow> length (pending (ngr_stream r')) < length (pending (ngr_stream r))"
proof (induction r rule: ng_read_packet.induct)
  case (1 r)
  obtain res r1 where b: "next_block r = (res, r1)" by (cases "next_block r")
  with "1.prems" obtain blk where res: "res = Ok blk"
    by (subst (asm) ng_read_packet.simps) (auto split: outcome.splits)
  then have less: "length (pending (ngr_stream r1)) < length (pending (ngr_stream r))"
    using b next_block_shrinks by simp
  show ?case
  proof (cases "\<exists>q. blk = PacketBlock q")
    case True
    with b res "1.prems" less show ?thesis
      by (subst (asm) ng_read_packet.simps) auto
  next
    case False
    then have "ng_read_packet r1 = (Ok p, r')"
      using b res "1.prems" by (subst (asm) ng_read_packet.simps) (auto split: ng_block.splits)
    with "1.IH" b res False less show ?thesis
      by (cases blk) fastforce+
  qed
qed

definition copy_interface ::
  "u32 \<Rightarrow> ng_reader \<Rightarrow> ng_writer \<Rightarrow> (ng_error + u32) \<times> ng_writer" where
  "copy_interface i r w =
     (case ng_interface_info i r of
        None \<Rightarrow> add_interface 1 65535 [with_interface_timestamp_resolution Microsecond] w
      | Some (link, snap, res) \<Rightarrow>
          add_interface link snap
            [with_interface_timestamp_resolution (if res = 0 then Microsecond else res)] w)"

function ng_filter_loop ::
  "(bytes \<Rightarrow> nat + int) \<Rightarrow> gotime \<Rightarrow> ng_reader \<Rightarrow> ng_writer \<Rightarrow> (u32, u32) gomap \<Rightarrow> nat \<Rightarrow>
     (nat \<times> (ng_error, unit) outcome) \<times> ng_writer" where
  "ng_filter_loop run now r w ids n =
     (case ng_read_packet r of
        (Err e, r') \<Rightarrow> (if e = NgIO EOF then ((n, Ok ()), w) else ((n, Err e), w))
      | (Panic, r') \<Rightarrow> ((n, Panic), w)
      | (Ok p, r') \<Rightarrow>
          (case (case go_get ids (ngp_interface p) of
                   Some new_id \<Rightarrow> (Inr new_id, w)
                 | None \<Rightarrow> copy_interface (ngp_interface p) r' w) of
             (Inl e, w') \<Rightarrow> ((n, Err e), w')
           | (Inr new_id, w') \<Rightarrow>
               let ids' = go_put (ngp_interface p) new_id ids in
               (case run (ngp_data p) of
                  Inl e \<Rightarrow> ((n, Err (NgBpfError e)), w')
                | Inr keep \<Rightarrow>
                    if keep = 0 then ng_filter_loop run now r' w' ids' n
                    else (case ng_write_packet now new_id (ngp_data p) (ngp_timestamp p) [] w' of
                            (Ok _, w'') \<Rightarrow> ng_filter_loop run now r' w'' ids' (n + 1)
                          | (Err e, w'') \<Rightarrow> ((n, Err e), w'')
                          | (Panic, w'') \<Rightarrow> ((n, Panic), w'')))))"
  by pat_completeness auto
termination
  by (relation "measure (\<lambda>(run, now, r, w, ids, n). length (pending (ngr_stream r)))")
     (auto dest: ng_read_packet_shrinks [OF sym])

declare ng_filter_loop.simps [simp del]

definition ng_filter_copy ::
  "('prog \<Rightarrow> nat + (bytes \<Rightarrow> nat + int)) \<Rightarrow> gotime \<Rightarrow> stream \<Rightarrow> sink \<Rightarrow> 'prog \<Rightarrow>
     (nat \<times> (ng_error, unit) outcome) \<times> sink" where
  "ng_filter_copy new_vm now r s prog =
     (case ng_new_writer [] s of
        Inl (e, s') \<Rightarrow> ((0, Err e), s')
      | Inr writer \<Rightarrow>
          (case new_vm prog of
             Inl e \<Rightarrow> ((0, Err (NgBpfError e)), dest (ngw_out (snd (ng_close_writer writer))))
           | Inr run \<Rightarrow>
               (case ng_filter_loop run now (ng_new_reader r) writer [] 0 of
                  (res, w) \<Rightarrow> (res, dest (ngw_out (snd (ng_close_writer w)))))))"

end
