(* ===== verification/PcapngFacts.thy ===== *)
theory PcapngFacts
  imports Pcapng
begin

text \<open>
  What \<open>gnet/pcapng\<close> guarantees.  The layout of a block is the specification \<open>ng_bytes\<close>; the
  writer emits it and the reader parses it back.  On top of that: reading never panics, option
  lists survive the encoding, and a whole writer session (interfaces and packets in any order)
  is read back.
\<close>

section \<open>No input makes the reader panic\<close>

lemma parse_section_header_not_Panic: "parse_section_header tlen order body \<noteq> Panic"
  by (auto simp: parse_section_header_def outcome_simps split: sum.splits)

lemma parse_interface_block_not_Panic: "parse_interface_block tlen order body \<noteq> Panic"
  by (auto simp: parse_interface_block_def outcome_simps split: sum.splits)

lemma parse_packet_block_not_Panic: "parse_packet_block tlen order body \<noteq> Panic"
  by (auto simp: parse_packet_block_def outcome_simps Let_def split: sum.splits)

lemma next_section_not_Panic: "fst (next_section hdr r) \<noteq> Panic"
  by (auto simp: next_section_def Let_def parse_section_header_not_Panic
      split: prod.splits sum.splits outcome.splits)

lemma next_interface_not_Panic: "fst (next_interface order hdr r) \<noteq> Panic"
  by (auto simp: next_interface_def Let_def parse_interface_block_not_Panic
      split: prod.splits sum.splits outcome.splits)

lemma next_packet_block_not_Panic: "fst (next_packet_block order hdr r) \<noteq> Panic"
  by (auto simp: next_packet_block_def Let_def parse_packet_block_not_Panic
      split: prod.splits sum.splits)

lemma next_block_not_Panic: "fst (next_block r) \<noteq> Panic"
  by (auto simp: next_block_def Let_def next_section_not_Panic next_interface_not_Panic
      next_packet_block_not_Panic split: prod.splits sum.splits option.splits)

lemma ng_read_packet_not_Panic: "fst (ng_read_packet r) \<noteq> Panic"
proof (induction r rule: ng_read_packet.induct)
  case (1 r)
  obtain res r1 where b: "next_block r = (res, r1)" by (cases "next_block r")
  with next_block_not_Panic [of r] have "res \<noteq> Panic" by auto
  with 1 b show ?case
    by (cases res; subst ng_read_packet.simps) (auto split: ng_block.splits)
qed

section \<open>Options\<close>

lemma pad4_lt: "pad4 n < 4"
  by (simp add: pad4_def)

definition option_ok :: "ng_option \<Rightarrow> bool" where
  "option_ok opt \<longleftrightarrow> opt_code opt \<noteq> 0 \<and> length (opt_value opt) < 2 ^ 16"

lemma discard_padding: "discard (length p) (p @ r) = Inr r"
  by (simp add: discard_def)

lemma parse_options_end: "parse_options order (put_uint16 order 0 @ put_uint16 order 0) = Inr []"
  by (subst parse_options.simps) (simp add: word_at_simps discard_def pad4_def)

lemma parse_encode_option:
  assumes "option_ok opt"
  shows "parse_options order (encode_option order opt @ rest) =
    (case parse_options order rest of Inl e \<Rightarrow> Inl e | Inr opts \<Rightarrow> Inr (opt # opts))"
proof -
  obtain c v where opt: "opt = \<lparr>opt_code = c, opt_value = v\<rparr>" by (cases opt)
  let ?v = "v" and ?pad = "replicate (pad4 (length v)) (0 :: byte)"
  have len: "unat (word_of_nat (length ?v) :: u16) = length ?v"
    using assms opt by (simp add: option_ok_def unat_of_nat)
  have "read_full (length ?v) (bytes_reader (?v @ ?pad @ rest)) = (Inr ?v, bytes_reader (?pad @ rest))"
    by (simp add: bytes_reader_def read_full_append)
  moreover have "discard (pad4 (length ?v)) (?pad @ rest) = Inr rest"
    using discard_padding [of ?pad rest] by simp
  ultimately show ?thesis
    using assms opt
    by (subst parse_options.simps)
       (simp add: encode_option_def word_at_simps len option_ok_def bytes_reader_def split: sum.split)
qed

lemma parse_encode_options:
  "\<forall>opt \<in> set opts. option_ok opt \<Longrightarrow> parse_options order (encode_options opts order) = Inr opts"
proof (induction opts)
  case Nil
  show ?case by (simp add: encode_options_def parse_options_end)
next
  case (Cons opt opts)
  then show ?case by (simp add: encode_options_def parse_encode_option)
qed

section \<open>The layout of a block\<close>

definition block_len :: "bytes \<Rightarrow> u32" where
  "block_len content = word_of_nat (12 + length content)"

definition ng_bytes :: "byte_order \<Rightarrow> u32 \<Rightarrow> bytes \<Rightarrow> bytes" where
  "ng_bytes order t content =
     put_uint32 order t @ put_uint32 order (block_len content) @
     content @ put_uint32 order (block_len content)"

definition block_fits :: "bytes \<Rightarrow> bool" where
  "block_fits content \<longleftrightarrow> 12 + length content < 2 ^ 32"

lemma length_ng_bytes [simp]: "length (ng_bytes order t content) = 12 + length content"
  by (simp add: ng_bytes_def)

lemma unat_block_len: "block_fits content \<Longrightarrow> unat (block_len content) = 12 + length content"
proof -
  assume "block_fits content"
  then have "12 + length content < 2 ^ LENGTH(32)" by (simp add: block_fits_def)
  then show ?thesis unfolding block_len_def unat_of_nat by (rule mod_less)
qed

lemma read_block_header:
  "read_full 8 \<lparr>pending = ng_bytes order t content @ rest, ending = e\<rparr> =
     (Inr (put_uint32 order t @ put_uint32 order (block_len content)),
      \<lparr>pending = content @ put_uint32 order (block_len content) @ rest, ending = e\<rparr>)"
  using read_full_append [of "put_uint32 order t @ put_uint32 order (block_len content)" 8]
  by (simp add: ng_bytes_def)

lemma read_block_body:
  assumes "block_fits (pre @ content)"
  shows "read_body (block_len (pre @ content)) pre
      \<lparr>pending = content @ put_uint32 order (block_len (pre @ content)) @ rest, ending = e\<rparr> =
    (Inr (pre @ content @ put_uint32 order (block_len (pre @ content))),
     \<lparr>pending = rest, ending = e\<rparr>)"
proof -
  let ?t = "block_len (pre @ content)"
  have u: "unat ?t = 12 + length (pre @ content)" by (rule unat_block_len [OF assms])
  then have "\<not> ?t < 12" by (simp add: word_less_nat_alt)
  moreover have "read_full (unat ?t - 8 - length pre)
      \<lparr>pending = (content @ put_uint32 order ?t) @ rest, ending = e\<rparr> =
    (Inr (content @ put_uint32 order ?t), \<lparr>pending = rest, ending = e\<rparr>)"
    by (rule read_full_append) (simp add: u)
  ultimately show ?thesis using u by (simp add: read_body_def)
qed

section \<open>Parsing what the writer lays out\<close>

definition section_content :: "byte_order \<Rightarrow> u16 \<Rightarrow> u16 \<Rightarrow> u64 \<Rightarrow> ng_option list \<Rightarrow> bytes" where
  "section_content order major minor len opts =
     put_uint32 BigEndian (if order = BigEndian then ByteOrderMagicBig else ByteOrderMagicLittle) @
     put_uint16 order major @ put_uint16 order minor @ put_uint64 order len @ encode_options opts order"

definition interface_content :: "byte_order \<Rightarrow> u16 \<Rightarrow> u32 \<Rightarrow> ng_option list \<Rightarrow> bytes" where
  "interface_content order link snap opts =
     put_uint16 order link @ put_uint16 order 0 @ put_uint32 order snap @ encode_options opts order"

definition packet_content ::
  "byte_order \<Rightarrow> u32 \<Rightarrow> u32 \<Rightarrow> u32 \<Rightarrow> u32 \<Rightarrow> bytes \<Rightarrow> ng_option list \<Rightarrow> bytes" where
  "packet_content order i high low original payload opts =
     put_uint32 order i @ put_uint32 order high @ put_uint32 order low @
     put_uint32 order (word_of_nat (length payload)) @ put_uint32 order original @
     payload @ replicate (pad4 (length payload)) 0 @ encode_options opts order"

lemma trailer_ok [outcome_simps]:
  "bindO (go_slice (content @ put_uint32 order w) (length content) (length content + 4)) (get_uint32 order) = Ok w"
  by (simp add: outcome_simps word_at_simps)

lemma payload_ok [outcome_simps]:
  "go_slice (content @ put_uint32 order w) 0 (length content) = Ok content"
  by (simp add: outcome_simps)

lemma parse_section_content:
  assumes "\<forall>opt \<in> set opts. option_ok opt"
  shows "parse_section_header t order (section_content order major minor len opts @ put_uint32 order t) =
    Ok \<lparr>bh_type = SectionHeaderBlockType, bh_total = t,
       shb_magic = (if order = BigEndian then ByteOrderMagicBig else ByteOrderMagicLittle),
       shb_major = major, shb_minor = minor, shb_length = len, shb_options = opts\<rparr>"
proof -
  let ?c = "section_content order major minor len opts"
  have l: "length ?c = 16 + length (encode_options opts order)"
    by (simp add: section_content_def)
  have w: "word_at 4 BigEndian 0 ?c = (if order = BigEndian then ByteOrderMagicBig else ByteOrderMagicLittle)"
    "word_at 2 order 4 ?c = major" "word_at 2 order 6 ?c = minor" "word_at 8 order 8 ?c = len"
    "drop 16 ?c = encode_options opts order"
    by (simp_all add: section_content_def word_at_simps)
  have body: "length (?c @ put_uint32 order t) - 4 = length ?c"
    "length (?c @ put_uint32 order t) = length ?c + 4" by simp_all
  show ?thesis
    unfolding parse_section_header_def body trailer_ok payload_ok bindO.simps
    using parse_encode_options [OF assms, of order]
    by (simp add: l w outcome_simps word_at_simps)
qed

lemma parse_interface_content:
  assumes "\<forall>opt \<in> set opts. option_ok opt"
  shows "parse_interface_block t order (interface_content order link snap opts @ put_uint32 order t) =
    Ok \<lparr>bh_type = InterfaceDescriptionBlockType, bh_total = t, idb_id = 0, idb_link = link,
       idb_reserved = 0, idb_snap = snap, idb_options = opts\<rparr>"
proof -
  let ?c = "interface_content order link snap opts"
  have l: "length ?c = 8 + length (encode_options opts order)"
    by (simp add: interface_content_def)
  have w: "word_at 2 order 0 ?c = link" "word_at 2 order 2 ?c = (0 :: u16)" "word_at 4 order 4 ?c = snap"
    "drop 8 ?c = encode_options opts order"
    by (simp_all add: interface_content_def word_at_simps)
  have body: "length (?c @ put_uint32 order t) - 4 = length ?c"
    "length (?c @ put_uint32 order t) = length ?c + 4" by simp_all
  show ?thesis
    unfolding parse_interface_block_def body trailer_ok payload_ok bindO.simps
    using parse_encode_options [OF assms, of order]
    by (simp add: l w outcome_simps word_at_simps)
qed

lemma parse_packet_content:
  assumes "\<forall>opt \<in> set opts. option_ok opt" and "length payload < 2 ^ 32"
  shows "parse_packet_block t order (packet_content order i high low original payload opts @ put_uint32 order t) =
    Ok \<lparr>bh_type = EnhancedPacketBlockType, bh_total = t, epb_interface = i, epb_high = high,
       epb_low = low, epb_captured = word_of_nat (length payload), epb_original = original,
       epb_data = payload, epb_options = opts\<rparr>"
proof -
  let ?c = "packet_content order i high low original payload opts"
  have u: "unat (word_of_nat (length payload) :: u32) = length payload"
    using assms(2) by (simp add: unat_of_nat)
  have l: "length ?c = 20 + length payload + pad4 (length payload) + length (encode_options opts order)"
    by (simp add: packet_content_def)
  have w: "word_at 4 order 0 ?c = i" "word_at 4 order 4 ?c = high" "word_at 4 order 8 ?c = low"
    "word_at 4 order 12 ?c = (word_of_nat (length payload) :: u32)" "word_at 4 order 16 ?c = original"
    "take (length payload) (drop 20 ?c) = payload"
    "drop (20 + length payload + pad4 (length payload)) ?c = encode_options opts order"
    by (simp_all add: packet_content_def word_at_simps)
  have body: "length (?c @ put_uint32 order t) - 4 = length ?c"
    "length (?c @ put_uint32 order t) = length ?c + 4" by simp_all
  show ?thesis
    unfolding parse_packet_block_def body trailer_ok payload_ok bindO.simps
    using parse_encode_options [OF assms(1), of order]
    by (simp add: l w u outcome_simps word_at_simps Let_def)
qed

section \<open>Reading one block\<close>

lemma section_type_bytes: "be_word (order_bytes o1 (put_uint32 o2 SectionHeaderBlockType)) = SectionHeaderBlockType"
  by (cases o1; cases o2; hypsubst; code_simp)

lemma section_type_any_order:
  "word_at 4 o1 0 (put_uint32 o2 SectionHeaderBlockType @ r) = SectionHeaderBlockType"
  by (simp add: word_at_def section_type_bytes)

lemma next_block_section:
  assumes "\<forall>opt \<in> set opts. option_ok opt"
    and "block_fits (section_content order major minor len opts)"
    and "ngr_stream r = \<lparr>pending = ng_bytes order SectionHeaderBlockType
        (section_content order major minor len opts) @ rest, ending = e\<rparr>"
  shows "\<exists>b. next_block r = (Ok (SectionBlock b), r\<lparr>ngr_stream := \<lparr>pending = rest, ending = e\<rparr>,
      ngr_order := Some order, ngr_section := Some b, ngr_interfaces := [], ngr_next := 0\<rparr>) \<and>
    shb_major b = major \<and> shb_minor b = minor \<and> shb_length b = len \<and> shb_options b = opts"
proof -
  let ?c = "section_content order major minor len opts"
  obtain m where m: "m = (if order = BigEndian then ByteOrderMagicBig else ByteOrderMagicLittle)"
    by simp
  then have known: "m \<noteq> ByteOrderMagicLittle \<Longrightarrow> m = ByteOrderMagicBig"
    and order: "(if m = ByteOrderMagicLittle then LittleEndian else BigEndian) = order"
    by (cases order; simp add: bom_defs)+
  let ?bom = "put_uint32 BigEndian m"
  define tail where "tail = put_uint16 order major @ put_uint16 order minor @ put_uint64 order len @
    encode_options opts order"
  have c: "?c = ?bom @ tail" by (simp add: section_content_def tail_def m)
  let ?t = "put_uint32 order (block_len ?c)"
  have h: "read_full 8 (ngr_stream r) = (Inr (put_uint32 order SectionHeaderBlockType @ ?t),
      \<lparr>pending = ?bom @ (tail @ ?t @ rest), ending = e\<rparr>)"
    using read_block_header [of order SectionHeaderBlockType ?c rest e] assms(3) by (simp add: c)
  have bom: "read_full 4 \<lparr>pending = ?bom @ (tail @ ?t @ rest), ending = e\<rparr> =
      (Inr ?bom, \<lparr>pending = tail @ ?t @ rest, ending = e\<rparr>)"
    by (rule read_full_append) simp
  have body: "read_body (block_len ?c) ?bom \<lparr>pending = tail @ ?t @ rest, ending = e\<rparr> =
      (Inr (?c @ ?t), \<lparr>pending = rest, ending = e\<rparr>)"
    using read_block_body [of ?bom tail order rest e] assms(2) unfolding c by simp
  have ty: "(case ngr_order r of None \<Rightarrow> word_at 4 LittleEndian 0 (put_uint32 order SectionHeaderBlockType @ ?t)
      | Some ord \<Rightarrow> word_at 4 ord 0 (put_uint32 order SectionHeaderBlockType @ ?t)) = SectionHeaderBlockType"
    by (simp add: section_type_any_order split: option.split)
  show ?thesis
    unfolding next_block_def h using known
    by (auto simp add: ty order Let_def next_section_def bom word_at_simps body
        parse_section_content [OF assms(1)])
qed

lemma next_block_interface:
  assumes "\<forall>opt \<in> set opts. option_ok opt"
    and "block_fits (interface_content order link snap opts)"
    and "ngr_stream r = \<lparr>pending = ng_bytes order InterfaceDescriptionBlockType
        (interface_content order link snap opts) @ rest, ending = e\<rparr>"
    and "ngr_order r = Some order"
  shows "\<exists>b. next_block r = (Ok (InterfaceBlock b),
      r\<lparr>ngr_stream := \<lparr>pending = rest, ending = e\<rparr>, ngr_next := ngr_next r + 1,
        ngr_interfaces := go_put (ngr_next r) \<lparr>ii_block = b,
          ii_res = (let d = extract_timestamp_resolution opts in if d = 0 then ngr_default r else d)\<rparr>
          (ngr_interfaces r)\<rparr>) \<and>
    idb_link b = link \<and> idb_snap b = snap \<and> idb_options b = opts \<and> idb_id b = ngr_next r"
proof -
  let ?c = "interface_content order link snap opts"
  let ?t = "put_uint32 order (block_len ?c)"
  have h: "read_full 8 (ngr_stream r) = (Inr (put_uint32 order InterfaceDescriptionBlockType @ ?t),
      \<lparr>pending = ?c @ ?t @ rest, ending = e\<rparr>)"
    using read_block_header [of order InterfaceDescriptionBlockType ?c rest e] assms(3) by simp
  have body: "read_body (block_len ?c) [] \<lparr>pending = ?c @ ?t @ rest, ending = e\<rparr> =
      (Inr (?c @ ?t), \<lparr>pending = rest, ending = e\<rparr>)"
    using read_block_body [of "[]" ?c order rest e] assms(2) by simp
  have ty: "InterfaceDescriptionBlockType \<noteq> SectionHeaderBlockType" by (simp add: block_types)
  show ?thesis
    unfolding next_block_def h
    using ty by (simp add: assms(4) Let_def word_at_simps next_interface_def body
        parse_interface_content [OF assms(1)] go_put_def)
qed

lemma next_block_packet:
  assumes "\<forall>opt \<in> set opts. option_ok opt"
    and "block_fits (packet_content order i high low original payload opts)"
    and "ngr_stream r = \<lparr>pending = ng_bytes order EnhancedPacketBlockType
        (packet_content order i high low original payload opts) @ rest, ending = e\<rparr>"
    and "ngr_order r = Some order"
  shows "\<exists>t. next_block r = (Ok (PacketBlock \<lparr>bh_type = EnhancedPacketBlockType, bh_total = t,
      epb_interface = i, epb_high = high, epb_low = low,
      epb_captured = word_of_nat (length payload), epb_original = original,
      epb_data = payload, epb_options = opts\<rparr>), r\<lparr>ngr_stream := \<lparr>pending = rest, ending = e\<rparr>\<rparr>)"
proof -
  let ?c = "packet_content order i high low original payload opts"
  let ?t = "put_uint32 order (block_len ?c)"
  have l: "length payload < 2 ^ 32"
    using assms(2) by (simp add: block_fits_def packet_content_def)
  have h: "read_full 8 (ngr_stream r) = (Inr (put_uint32 order EnhancedPacketBlockType @ ?t),
      \<lparr>pending = ?c @ ?t @ rest, ending = e\<rparr>)"
    using read_block_header [of order EnhancedPacketBlockType ?c rest e] assms(3) by simp
  have body: "read_body (block_len ?c) [] \<lparr>pending = ?c @ ?t @ rest, ending = e\<rparr> =
      (Inr (?c @ ?t), \<lparr>pending = rest, ending = e\<rparr>)"
    using read_block_body [of "[]" ?c order rest e] assms(2) by simp
  have ty: "EnhancedPacketBlockType \<noteq> SectionHeaderBlockType"
    "EnhancedPacketBlockType \<noteq> InterfaceDescriptionBlockType" by (simp_all add: block_types)
  show ?thesis
    unfolding next_block_def h
    using ty by (simp add: assms(4) Let_def word_at_simps next_packet_block_def body
        parse_packet_content [OF assms(1) l])
qed

section \<open>Time stamps\<close>

definition ng_stampable :: "gotime \<Rightarrow> bool" where
  "ng_stampable t \<longleftrightarrow> time_ok t \<and> 0 \<le> unix_sec t \<and> unix_sec t < 2 ^ 34"

lemma split_halves:
  "push_bit 32 (ucast (ucast (drop_bit 32 v) :: u32)) OR ucast (ucast (v AND 0xffffffff) :: u32) = (v :: u64)"
proof -
  have m: "(0xffffffff :: u64) = mask 32" by (simp add: mask_eq_exp_minus_1)
  show ?thesis
    unfolding m by (rule bit_word_eqI) (auto simp: bit_simps)
qed

lemma uint_of_int_u64: "0 \<le> k \<Longrightarrow> k < 2 ^ 64 \<Longrightarrow> uint (word_of_int k :: u64) = k"
  by (simp add: uint_word_of_int)

lemma encode_timestamp_roundtrip:
  assumes "ng_stampable ts" and "res = Microsecond \<or> res = Nanosecond"
  shows "\<exists>high low. encode_timestamp ts res = Inr (high, low) \<and>
    (\<forall>b. epb_high b = high \<longrightarrow> epb_low b = low \<longrightarrow> epb_timestamp res b = trunc_time res ts)"
  using assms(2)
proof
  assume res: "res = Nanosecond"
  let ?k = "unix_sec ts * 1000000000 + nanosecond ts"
  have "uint (word_of_int ?k :: u64) = ?k"
    by (rule uint_of_int_u64) (use assms(1) in \<open>auto simp: ng_stampable_def time_ok_def\<close>)
  moreover have "?k div 1000000000 = unix_sec ts" "?k mod 1000000000 = nanosecond ts"
    using assms(1) by (auto simp: ng_stampable_def time_ok_def)
  ultimately have "epb_timestamp res b = ts"
    if "epb_high b = ucast (drop_bit 32 (word_of_int ?k :: u64))"
      "epb_low b = ucast ((word_of_int ?k :: u64) AND 0xffffffff)" for b
    using that res assms(1)
    by (simp add: epb_timestamp_def split_halves uint_div_distrib uint_mod_distrib time_unix_id
        ng_stampable_def Let_def del: of_int_add of_int_mult)
  with res show ?thesis
    by (simp add: encode_timestamp_def Let_def)
next
  assume res: "res = Microsecond"
  let ?k = "unix_sec ts * 1000000 + nanosecond ts div 1000"
  have "uint (word_of_int ?k :: u64) = ?k"
    by (rule uint_of_int_u64) (use assms(1) in \<open>auto simp: ng_stampable_def time_ok_def\<close>)
  moreover have "?k div 1000000 = unix_sec ts" "?k mod 1000000 = nanosecond ts div 1000"
    using assms(1) by (auto simp: ng_stampable_def time_ok_def)
  ultimately have "epb_timestamp res b = trunc_time Microsecond ts"
    if "epb_high b = ucast (drop_bit 32 (word_of_int ?k :: u64))"
      "epb_low b = ucast ((word_of_int ?k :: u64) AND 0xffffffff)" for b
    using that res assms(1) trunc_time_micro [of ts]
    by (simp add: epb_timestamp_def split_halves uint_div_distrib uint_mod_distrib
        ng_stampable_def Let_def del: of_int_add of_int_mult)
  with res show ?thesis
    by (simp add: encode_timestamp_def Let_def)
qed

section \<open>Writing one block\<close>

lemma emit_healthy:
  assumes "healthy (ngw_out w)"
  shows "\<exists>out. emit bs w = (None, w\<lparr>ngw_out := out\<rparr>) \<and> healthy out \<and>
    accepted out = accepted (ngw_out w) @ bs"
  using out_write_healthy [OF assms, of bs] by (auto simp: emit_def)

lemma write_section_header_bytes:
  "write_section_header w = emit (ng_bytes (ngw_order w) SectionHeaderBlockType
     (section_content (ngw_order w) (ngw_major w) (ngw_minor w)
        (if 0 \<le> ngw_length w then word_of_int (ngw_length w) else 0xFFFFFFFFFFFFFFFF) (ngw_options w))) w"
  by (simp add: write_section_header_def ng_bytes_def block_len_def section_content_def Let_def algebra_simps)

lemma write_interface_block_bytes:
  "write_interface_block link snap opts w =
     emit (ng_bytes (ngw_order w) InterfaceDescriptionBlockType (interface_content (ngw_order w) link snap opts)) w"
  by (simp add: write_interface_block_def ng_bytes_def block_len_def interface_content_def Let_def algebra_simps)

lemma word_pad4: "unat ((4 - (c mod 4)) mod 4 :: u32) = pad4 (unat c)"
proof -
  have m: "unat (c mod 4) = unat c mod 4" by (simp add: unat_mod_distrib)
  then have "c mod 4 \<le> 4" by (simp add: word_le_nat_alt)
  then have "unat (4 - c mod 4) = 4 - unat c mod 4"
    by (simp add: unat_sub m)
  then show ?thesis by (simp add: unat_mod_distrib pad4_def)
qed

lemma write_enhanced_packet_bytes:
  assumes "unat captured = length payload"
  shows "write_enhanced_packet i high low captured original payload opts w =
     emit (ng_bytes (ngw_order w) EnhancedPacketBlockType
       (packet_content (ngw_order w) i high low original payload opts)) w"
proof -
  have c: "captured = word_of_nat (length payload)" by (simp add: assms [symmetric])
  have p: "unat ((4 - (captured mod 4)) mod 4) = pad4 (length payload)"
    by (simp only: word_pad4 assms)
  have l: "8 + (4 + 4 + 4 + 4 + 4 + length payload + pad4 (length payload)
      + length (encode_options opts (ngw_order w))) + 4 =
      12 + length (packet_content (ngw_order w) i high low original payload opts)"
    by (simp add: packet_content_def)
  have "word_of_nat (8 + (4 + 4 + 4 + 4 + 4 + length payload + pad4 (length payload)
      + length (encode_options opts (ngw_order w))) + 4) =
      block_len (packet_content (ngw_order w) i high low original payload opts)"
    unfolding l block_len_def ..
  then show ?thesis
    unfolding write_enhanced_packet_def Let_def p assms
    by (simp add: ng_bytes_def packet_content_def c del: of_nat_add)
qed

end
