(* ===== verification/PcapngSession.thy ===== *)
theory PcapngSession
  imports PcapngFacts
begin

text \<open>
  Whole sessions of the \<open>gnet/pcapng\<close> writer: interfaces and packets in any order, read back by
  its reader; what happens to a file that ends inside a block; and the properties of the package.
\<close>

section \<open>The size of an option list\<close>

definition options_size :: "ng_option list \<Rightarrow> nat" where
  "options_size opts =
     sum_list (map (\<lambda>opt. 4 + length (opt_value opt) + pad4 (length (opt_value opt))) opts) + 4"

lemma length_encode_option:
  "length (encode_option order opt) = 4 + length (opt_value opt) + pad4 (length (opt_value opt))"
  by (simp add: encode_option_def)

lemma length_encode_options [simp]: "length (encode_options opts order) = options_size opts"
  by (simp add: encode_options_def options_size_def length_concat length_encode_option comp_def)

lemma options_size_append: "options_size (a @ b) + 4 = options_size a + options_size b"
  by (simp add: options_size_def)

section \<open>A session\<close>





function ng_read_all :: "ng_reader \<Rightarrow> ng_packet list \<times> (ng_error, unit) outcome \<times> ng_reader" where
  "ng_read_all r =
     (case ng_read_packet r of
        (Err e, r') \<Rightarrow> ([], Err e, r')
      | (Panic, r') \<Rightarrow> ([], Panic, r')
      | (Ok p, r') \<Rightarrow> (case ng_read_all r' of (ps, rest) \<Rightarrow> (p # ps, rest)))"
  by pat_completeness auto
termination
  by (relation "measure (\<lambda>r. length (pending (ngr_stream r)))")
     (auto dest: ng_read_packet_shrinks [OF sym])

declare ng_read_all.simps [simp del]

section \<open>What a session means\<close>








section \<open>The bytes of a session\<close>






section \<open>The writer produces them\<close>




lemma opt_eta [simp]: "\<lparr>opt_code = opt_code a, opt_value = opt_value a\<rparr> = a"
  by (cases a) simp






section \<open>The reader gives them back\<close>










lemma ng_read_all_packet:
  "ng_read_packet r = (Ok p, r') \<Longrightarrow> ng_read_all r = (p # fst (ng_read_all r'), snd (ng_read_all r'))"
  by (subst ng_read_all.simps) (simp split: prod.split)



section \<open>A file from start to end\<close>













section \<open>Arbitrary input\<close>

lemma next_packet_block_uses:
  assumes "next_packet_block order hdr r = (Ok b, r')"
  shows "length (pending (ngr_stream r')) + 24 \<le> length (pending (ngr_stream r))"
proof -
  obtain body s where body: "read_body (word_at 4 order 4 hdr) [] (ngr_stream r) = (Inr body, s)"
    and p: "mapO PacketBlock (parse_packet_block (word_at 4 order 4 hdr) order body) = Ok b"
    and r': "r' = r\<lparr>ngr_stream := s\<rparr>"
    using assms by (auto simp: next_packet_block_def Let_def split: prod.splits sum.splits)
  have "24 \<le> length body"
    using p by (auto simp: parse_packet_block_def split: if_splits)
  moreover have "length (pending s) + length body = length (pending (ngr_stream r))"
    using body by (auto simp: read_body_def read_full_Inr_iff split: if_splits prod.splits sum.splits)
  ultimately show ?thesis using r' by simp
qed

lemma next_block_packet_uses:
  assumes "next_block r = (Ok (PacketBlock p), r')"
  shows "length (pending (ngr_stream r')) + 32 \<le> length (pending (ngr_stream r))"
proof -
  obtain hdr s where h: "read_full 8 (ngr_stream r) = (Inr hdr, s)"
    using assms by (auto simp: next_block_def split: prod.splits sum.splits)
  have sec: "next_section hdr q \<noteq> (Ok (PacketBlock p), r')" for q
    by (auto simp: next_section_def Let_def split: prod.splits sum.splits outcome.splits)
  have idb: "next_interface order hdr q \<noteq> (Ok (PacketBlock p), r')" for order q
    by (auto simp: next_interface_def Let_def split: prod.splits sum.splits outcome.splits)
  obtain order where "next_packet_block order hdr (r\<lparr>ngr_stream := s\<rparr>) = (Ok (PacketBlock p), r')"
    using assms h
    by (auto simp: sec idb next_block_def Let_def split: if_splits option.splits prod.splits sum.splits)
  from next_packet_block_uses [OF this] h show ?thesis
    by (auto simp: read_full_Inr_iff)
qed

lemma ng_read_packet_uses:
  "ng_read_packet r = (Ok p, r') \<Longrightarrow>
     length (pending (ngr_stream r')) + 32 \<le> length (pending (ngr_stream r))"
proof (induction r rule: ng_read_packet.induct)
  case (1 r)
  obtain res r1 where b: "next_block r = (res, r1)" by (cases "next_block r")
  with "1.prems" obtain blk where res: "res = Ok blk"
    by (subst (asm) ng_read_packet.simps) (auto split: outcome.splits)
  show ?case
  proof (cases blk)
    case (PacketBlock q)
    with b res next_block_packet_uses [of r q r1] "1.prems" show ?thesis
      by (subst (asm) ng_read_packet.simps) auto
  next
    case (SectionBlock q)
    with b res "1.prems" have "ng_read_packet r1 = (Ok p, r')"
      by (subst (asm) ng_read_packet.simps) auto
    with "1.IH"(1) [OF b [symmetric] res SectionBlock] next_block_shrinks [of r blk r1] b res show ?thesis
      by simp
  next
    case (InterfaceBlock q)
    with b res "1.prems" have "ng_read_packet r1 = (Ok p, r')"
      by (subst (asm) ng_read_packet.simps) auto
    with "1.IH"(2) [OF b [symmetric] res InterfaceBlock] next_block_shrinks [of r blk r1] b res show ?thesis
      by simp
  qed
qed

text \<open>
  No input makes the pcapng reader panic or loop.  On any bytes, in any state, with any
  way for the stream to end, reading on until the first error ends with an error value, never
  with an index out of range, and yields at most one packet per 32 bytes of input.
\<close>

theorem ng_reader_total:
  "(\<exists>e. fst (snd (ng_read_all r)) = Err e) \<and>
   32 * length (fst (ng_read_all r)) \<le> length (pending (ngr_stream r))"
proof (induction r rule: ng_read_all.induct)
  case (1 r)
  obtain res r1 where p: "ng_read_packet r = (res, r1)" by (cases "ng_read_packet r")
  with ng_read_packet_not_Panic [of r] have np: "res \<noteq> Panic" by auto
  show ?case
  proof (cases res)
    case (Ok q)
    with "1.IH" [OF p [symmetric] Ok] ng_read_packet_uses [of r q r1] p show ?thesis
      by (simp add: ng_read_all_packet)
  next
    case (Err e)
    with p show ?thesis by (simp add: ng_read_all.simps [of r])
  qed (use np in simp)
qed

section \<open>Byte-order magic\<close>

text \<open>
  A section header without options as the pcapng specification has it: the byte-order magic
  \<open>0x1A2B3C4D\<close> is written in the byte order of the section.
\<close>

definition standard_section :: "byte_order \<Rightarrow> u16 \<Rightarrow> u16 \<Rightarrow> u64 \<Rightarrow> bytes" where
  "standard_section order major minor len = ng_bytes order SectionHeaderBlockType
     (put_uint32 order 0x1A2B3C4D @ put_uint16 order major @ put_uint16 order minor @ put_uint64 order len)"

lemma standard_magic:
  "(if word_at 4 BigEndian 0 (put_uint32 order (0x1A2B3C4D :: u32)) = ByteOrderMagicLittle
    then LittleEndian else BigEndian) = (if order = BigEndian then LittleEndian else BigEndian)"
  "word_at 4 BigEndian 0 (put_uint32 order (0x1A2B3C4D :: u32)) \<in> {ByteOrderMagicLittle, ByteOrderMagicBig}"
  by (cases order; hypsubst; code_simp)+

lemma swapped_length:
  "word_at 4 (if order = BigEndian then LittleEndian else BigEndian) 0 (put_uint32 order (28 :: u32)) = (0x1C000000 :: u32)"
  by (cases order; hypsubst; code_simp)

text \<open>
  The byte-order magic is inverted.  A section header written as the specification says, in
  either byte order, is never accepted: the reader takes the opposite byte order, reads the
  block length \<open>28\<close> as \<open>0x1C000000\<close>, and runs into the end of any ordinary file.
\<close>

theorem standard_section_rejected:
  assumes "length rest < 400000000"
  shows "fst (next_block (ng_new_reader (bytes_reader (standard_section order major minor len @ rest)))) =
    Err (NgIO UnexpectedEOF)"
proof -
  let ?other = "if order = BigEndian then LittleEndian else BigEndian"
  let ?content = "put_uint32 order (0x1A2B3C4D :: u32) @ put_uint16 order major @ put_uint16 order minor @
    put_uint64 order len"
  have len: "block_len ?content = 28" by (simp add: block_len_def)
  define body where "body = put_uint16 order major @ put_uint16 order minor @ put_uint64 order len @
    put_uint32 order (28 :: u32) @ rest"
  let ?hdr = "put_uint32 order SectionHeaderBlockType @ put_uint32 order (28 :: u32)"
  have h: "read_full 8 (bytes_reader (standard_section order major minor len @ rest)) =
      (Inr ?hdr, bytes_reader (put_uint32 order (0x1A2B3C4D :: u32) @ body))"
    using read_block_header [of order SectionHeaderBlockType ?content rest EOF] len
    by (simp add: standard_section_def bytes_reader_def body_def)
  have bom: "read_full 4 (bytes_reader (put_uint32 order (0x1A2B3C4D :: u32) @ body)) =
      (Inr (put_uint32 order 0x1A2B3C4D), bytes_reader body)"
    unfolding bytes_reader_def by (rule read_full_append) simp
  have tlen: "word_at 4 ?other 4 ?hdr = (0x1C000000 :: u32)"
    using swapped_length [of order] by (simp add: word_at_skip)
  have "body \<noteq> []"
    by (rule notI, drule arg_cong [of _ _ length]) (simp add: body_def)
  moreover have "length body < 0x1C000000 - 12"
    using assms by (simp add: body_def)
  ultimately have "read_body 0x1C000000 (put_uint32 order (0x1A2B3C4D :: u32)) (bytes_reader body) =
      (Inl (NgIO UnexpectedEOF), bytes_reader [])"
    by (simp add: read_body_def read_full_def bytes_reader_def)
  then show ?thesis
    using standard_magic [of order]
    by (simp add: next_block_def ng_new_reader_def h section_type_any_order Let_def next_section_def bom tlen
        del: if_split)
qed

theorem standard_section_rejected_witness:
  "fst (next_block (ng_new_reader (bytes_reader (standard_section LittleEndian 1 0 0xFFFFFFFFFFFFFFFF @ [])))) =
    Err (NgIO UnexpectedEOF)"
  by (rule standard_section_rejected) simp

section \<open>A file that ends inside a block\<close>

text \<open>
  A capture cut off right after a block header looks complete.  When the eight bytes of a
  block header are the last ones of the file, \<open>NextBlock\<close> reports the same clean \<open>io.EOF\<close> as
  at the end of a whole file, and \<open>FilterCopy\<close> therefore succeeds on it; one byte more and the
  cut is reported as \<open>io.ErrUnexpectedEOF\<close>.
\<close>

theorem ng_cut_after_header:
  assumes "ngr_order r = Some order"
    and "word_at 4 order 0 hdr \<noteq> SectionHeaderBlockType" and "length hdr = 8"
    and "12 < (word_at 4 order 4 hdr :: u32)"
    and "ngr_stream r = bytes_reader (hdr @ rest)" and "length rest + 8 < unat (word_at 4 order 4 hdr :: u32)"
  shows "fst (ng_read_packet r) = Err (NgIO (if rest = [] then EOF else UnexpectedEOF))"
proof -
  let ?e = "if rest = [] then EOF else UnexpectedEOF"
  have h: "read_full 8 (bytes_reader (hdr @ rest)) = (Inr hdr, bytes_reader rest)"
    unfolding bytes_reader_def by (rule read_full_append) (rule assms(3))
  have "\<not> (word_at 4 order 4 hdr :: u32) < 12" using assms(4) by simp
  then have "read_body (word_at 4 order 4 hdr) [] (bytes_reader rest) = (Inl (NgIO ?e), bytes_reader [])"
    using assms(6) by (auto simp: read_body_def read_full_def bytes_reader_def)
  then have "fst (next_block r) = Err (NgIO ?e)"
    using assms(1,2,5)
    by (simp add: next_block_def h Let_def next_interface_def next_packet_block_def)
  then show ?thesis
    by (cases "next_block r") (subst ng_read_packet.simps, simp)
qed

theorem ng_cut_after_header_witness:
  "fst (ng_read_packet ((ng_new_reader (bytes_reader [6, 0, 0, 0, 32, 0, 0, 0]))\<lparr>ngr_order := Some LittleEndian\<rparr>)) =
     Err (NgIO EOF)"
proof -
  have "word_at 4 LittleEndian 0 [6, 0, 0, 0, 32, 0, 0, 0] \<noteq> SectionHeaderBlockType"
    "12 < (word_at 4 LittleEndian 4 [6, 0, 0, 0, 32, 0, 0, 0] :: u32)"
    "8 < unat (word_at 4 LittleEndian 4 [6, 0, 0, 0, 32, 0, 0, 0] :: u32)"
    by code_simp+
  then show ?thesis
    using ng_cut_after_header [of "(ng_new_reader (bytes_reader [6, 0, 0, 0, 32, 0, 0, 0]))\<lparr>ngr_order := Some LittleEndian\<rparr>"
      LittleEndian "[6, 0, 0, 0, 32, 0, 0, 0]" "[]"]
    by (simp add: ng_new_reader_def)
qed

end
