(* ===== verification/GoStrings.thy ===== *)
theory GoStrings
  imports Prelude
begin

text \<open>
  The functions of Go's packages \<open>strings\<close> and \<open>path\<close> the router uses, on strings as lists of
  bytes: \<open>strings.Trim\<close>, \<open>Split\<close> and \<open>Join\<close> with the separator \<open>/\<close>, \<open>HasPrefix\<close>, and
  \<open>path.Clean\<close> and \<open>path.Join\<close> on two elements, as their documentation states them.
\<close>

abbreviation slash :: char where "slash \<equiv> CHR ''/''"

definition trim_slashes :: "string \<Rightarrow> string" where
  "trim_slashes s = rev (dropWhile (\<lambda>c. c = slash) (rev (dropWhile (\<lambda>c. c = slash) s)))"

fun split_on :: "char \<Rightarrow> string \<Rightarrow> string list" where
  "split_on c [] = [[]]"
| "split_on c (x # xs) =
     (if x = c then [] # split_on c xs
      else (case split_on c xs of [] \<Rightarrow> [[x]] | w # ws \<Rightarrow> (x # w) # ws))"

fun join_with :: "char \<Rightarrow> string list \<Rightarrow> string" where
  "join_with c [] = []"
| "join_with c [w] = w"
| "join_with c (w # v # ws) = w @ c # join_with c (v # ws)"

definition has_prefix :: "string \<Rightarrow> string \<Rightarrow> bool" where
  "has_prefix s p \<longleftrightarrow> take (length p) s = p"

definition has_suffix :: "string \<Rightarrow> string \<Rightarrow> bool" where
  "has_suffix s w \<longleftrightarrow> has_prefix (rev s) (rev w)"

lemma split_on_not_Nil [simp]: "split_on c s \<noteq> []"
  by (induction s) (auto split: list.split)

lemma length_split_on: "length (split_on c s) = Suc (count_list s c)"
  by (induction s) (auto split: list.split)

lemma split_on_no_sep: "w \<in> set (split_on c s) \<Longrightarrow> c \<notin> set w"
  by (induction s arbitrary: w) (auto split: list.splits if_splits)

lemma join_split: "join_with c (split_on c s) = s"
proof (induction s)
  case (Cons x xs)
  obtain w ws where "split_on c xs = w # ws" by (cases "split_on c xs") auto
  with Cons show ?case by (cases ws) auto
qed simp

lemma split_word: "c \<notin> set w \<Longrightarrow> split_on c w = [w]"
  by (induction w) auto

lemma split_append_sep: "c \<notin> set w \<Longrightarrow> split_on c (w @ c # s) = w # split_on c s"
  by (induction w) auto

lemma split_join:
  "ws \<noteq> [] \<Longrightarrow> \<forall>w \<in> set ws. c \<notin> set w \<Longrightarrow> split_on c (join_with c ws) = ws"
  by (induction c ws rule: join_with.induct) (auto simp: split_word split_append_sep)

lemma split_append: "split_on c (a @ c # b) = split_on c a @ split_on c b"
  by (induction a) (auto split: list.split)

lemma split_replicate_front: "split_on c (replicate i c @ s) = replicate i [] @ split_on c s"
  by (induction i) auto

lemma split_replicate_back: "split_on c (s @ replicate j c) = split_on c s @ replicate j []"
proof (induction j)
  case (Suc j)
  have "s @ replicate (Suc j) c = (s @ replicate j c) @ c # []"
    by (simp add: replicate_append_same)
  with Suc show ?case
    by (simp only: split_append) (simp add: replicate_append_same)
qed simp

section \<open>Trimming\<close>

lemma trim_slashes_Nil [simp]: "trim_slashes [] = []"
  by (simp add: trim_slashes_def)

lemma cut_end: "rev (dropWhile P (rev t)) @ rev (takeWhile P (rev t)) = t"
  by (simp only: rev_append [symmetric] takeWhile_dropWhile_id rev_rev_ident)

lemma takeWhile_eq_replicate: "takeWhile (\<lambda>x. x = c) t = replicate (length (takeWhile (\<lambda>x. x = c) t)) c"
  by (induction t) auto

lemma trim_slashes_decomp:
  "\<exists>i j. s = replicate i slash @ trim_slashes s @ replicate j slash"
proof -
  let ?P = "\<lambda>c. c = slash" and ?t = "dropWhile (\<lambda>c. c = slash) s"
  have "s = takeWhile ?P s @ trim_slashes s @ rev (takeWhile ?P (rev ?t))"
    unfolding trim_slashes_def using cut_end [of ?P ?t] by simp
  then have "s = replicate (length (takeWhile ?P s)) slash @ trim_slashes s @
      replicate (length (takeWhile ?P (rev ?t))) slash"
    using takeWhile_eq_replicate [of slash s] takeWhile_eq_replicate [of slash "rev ?t"] rev_replicate
    by metis
  then show ?thesis by blast
qed

lemma trim_slashes_ends:
  assumes "trim_slashes s \<noteq> []"
  shows "hd (trim_slashes s) \<noteq> slash" and "last (trim_slashes s) \<noteq> slash"
proof -
  let ?P = "\<lambda>c. c = slash" and ?t = "dropWhile (\<lambda>c. c = slash) s"
  have ne: "dropWhile ?P (rev ?t) \<noteq> []" using assms by (simp add: trim_slashes_def)
  from hd_dropWhile [OF ne] show "last (trim_slashes s) \<noteq> slash"
    unfolding trim_slashes_def by (simp only: last_rev not_False_eq_True)
  from ne have "?t \<noteq> []"
    by (rule contrapos_nn) (simp only: rev.simps dropWhile.simps)
  then have "hd ?t \<noteq> slash" using hd_dropWhile [of ?P s] by simp
  moreover have "hd (trim_slashes s) = hd ?t"
  proof -
    have "?t = trim_slashes s @ rev (takeWhile ?P (rev ?t))"
      unfolding trim_slashes_def by (rule cut_end [symmetric])
    then show ?thesis using assms by (metis hd_append2)
  qed
  ultimately show "hd (trim_slashes s) \<noteq> slash" by simp
qed

section \<open>\<open>path.Clean\<close> and \<open>path.Join\<close>\<close>

fun clean_step :: "bool \<Rightarrow> string list \<Rightarrow> string \<Rightarrow> string list" where
  "clean_step rooted acc w =
     (if w = [] \<or> w = ''.'' then acc
      else if w = ''..'' then
        (if acc \<noteq> [] \<and> last acc \<noteq> ''..'' then butlast acc
         else if rooted then acc else acc @ [w])
      else acc @ [w])"

definition path_clean :: "string \<Rightarrow> string" where
  "path_clean p =
     (let rooted = (p \<noteq> [] \<and> hd p = slash);
          ws = foldl (clean_step rooted) [] (split_on slash p);
          out = (if rooted then [slash] else []) @ join_with slash ws
      in if out = [] then ''.'' else out)"

definition path_join :: "string \<Rightarrow> string \<Rightarrow> string" where
  "path_join a b =
     (if a = [] \<and> b = [] then []
      else if a = [] then path_clean b
      else if b = [] then path_clean a
      else path_clean (a @ slash # b))"

lemma path_clean_not_Nil [simp]: "path_clean p \<noteq> []"
  by (simp add: path_clean_def Let_def)

lemma path_join_not_Nil: "b \<noteq> [] \<Longrightarrow> path_join a b \<noteq> []"
  by (simp add: path_join_def)

lemma path_clean_rooted: "p \<noteq> [] \<Longrightarrow> hd p = slash \<Longrightarrow> hd (path_clean p) = slash"
  by (simp add: path_clean_def Let_def)

lemma path_join_rooted: "a \<noteq> [] \<Longrightarrow> hd a = slash \<Longrightarrow> hd (path_join a b) = slash"
  by (auto simp: path_join_def intro: path_clean_rooted)

text \<open>A cleaned path never ends in a slash, except the root.\<close>

definition plain_word :: "string \<Rightarrow> bool" where
  "plain_word w \<longleftrightarrow> w \<noteq> [] \<and> slash \<notin> set w"

lemma clean_step_plain:
  assumes "\<forall>w \<in> set acc. plain_word w" and "slash \<notin> set w"
  shows "\<forall>v \<in> set (clean_step rooted acc w). plain_word v"
  using assms by (auto simp: plain_word_def dest: in_set_butlastD)

lemma clean_words_plain:
  "\<forall>w \<in> set acc. plain_word w \<Longrightarrow> \<forall>w \<in> set ws. slash \<notin> set w \<Longrightarrow>
     \<forall>w \<in> set (foldl (clean_step rooted) acc ws). plain_word w"
proof (induction ws arbitrary: acc)
  case (Cons w ws)
  have "\<forall>v \<in> set (clean_step rooted acc w). plain_word v"
    by (rule clean_step_plain) (use Cons.prems in auto)
  with Cons show ?case by simp
qed simp

lemma join_with_last:
  "ws \<noteq> [] \<Longrightarrow> \<forall>w \<in> set ws. plain_word w \<Longrightarrow> join_with slash ws \<noteq> [] \<and> last (join_with slash ws) \<noteq> slash"
proof (induction slash ws rule: join_with.induct)
  case (2 w)
  then show ?case by (auto simp: plain_word_def) (metis last_in_set)
next
  case (3 w v ws)
  then show ?case by simp
qed simp

lemma path_clean_last: "last (path_clean p) = slash \<Longrightarrow> path_clean p = ''/''"
proof -
  let ?rooted = "p \<noteq> [] \<and> hd p = slash"
  let ?ws = "foldl (clean_step ?rooted) [] (split_on slash p)"
  assume a: "last (path_clean p) = slash"
  have plain: "\<forall>w \<in> set ?ws. plain_word w"
    by (rule clean_words_plain) (auto dest: split_on_no_sep)
  show ?thesis
  proof (cases "?ws = []")
    case True
    with a show ?thesis by (auto simp: path_clean_def Let_def split: if_splits)
  next
    case False
    with join_with_last [OF False plain] a show ?thesis
      by (auto simp: path_clean_def Let_def split: if_splits)
  qed
qed

end
