(* ===== verification/Radix.thy ===== *)
theory Radix
  imports GoStrings
begin

text \<open>
  \<open>ghttp/gserver/radix.go\<close> and the route entries of \<open>matcher.go\<close>: the routing tree over path
  segments, with insertion, removal and lookup.  A node of the tree is a constructor term, the
  pointers of the code never being shared between trees; the parameter map, which lookups fill
  and clear while they backtrack, is threaded (\<open>None\<close> is Go's nil map).
\<close>

section \<open>Route entries\<close>

definition split_path_segments :: "string \<Rightarrow> string list" where
  "split_path_segments path =
     (let trimmed = trim_slashes path in if trimmed = [] then [] else split_on slash trimmed)"

fun segment_names :: "string list \<Rightarrow> string list" where
  "segment_names [] = []"
| "segment_names ([] # segs) = segment_names segs"
| "segment_names ((c # name) # segs) =
     (if c = CHR '':'' \<or> c = CHR ''*'' then name # segment_names segs else segment_names segs)"

definition extract_param_names :: "string \<Rightarrow> string list" where
  "extract_param_names path =
     (let trimmed = trim_slashes path in
      if trimmed = [] then [] else segment_names (split_on slash trimmed))"

record 'h route_entry =
  re_path :: string
  re_handlers :: "'h list"
  re_params :: "string list"

definition new_route_entry :: "string \<Rightarrow> 'h list \<Rightarrow> 'h route_entry" where
  "new_route_entry path hs = \<lparr>re_path = path, re_handlers = hs, re_params = extract_param_names path\<rparr>"

type_synonym params = "(string, string) gomap option"

record 'h match_result =
  mr_path :: string
  mr_handlers :: "'h list"
  mr_params :: params

definition to_result :: "'h route_entry \<Rightarrow> params \<Rightarrow> 'h match_result" where
  "to_result r ps = \<lparr>mr_path = re_path r, mr_handlers = re_handlers r, mr_params = ps\<rparr>"

datatype route_error =
    NilRouteEntry
  | DuplicateRoute string
  | CatchAllNotLast string
  | EmptyTree
  | RouteNotFound
  | DuplicateStaticRoute string
  | StaticRouteNotFound string
  | NoRoutesFor string

section \<open>The tree\<close>

datatype 'h radix_node =
  RadixNode (children: "(string \<times> 'h radix_node) list") (param_child: "'h radix_node option")
    (wildcard_child: "'h radix_node option") (param_name: string) (node_entry: "'h route_entry option")

definition new_radix_node :: "string \<Rightarrow> 'h radix_node" where
  "new_radix_node name = RadixNode [] None None name None"

definition node_is_empty :: "'h radix_node \<Rightarrow> bool" where
  "node_is_empty n \<longleftrightarrow> node_entry n = None \<and> go_len (children n) = 0 \<and> param_child n = None \<and>
     wildcard_child n = None"

fun set_entry :: "'h route_entry option \<Rightarrow> 'h radix_node \<Rightarrow> 'h radix_node" where
  "set_entry e (RadixNode cs p w name _) = RadixNode cs p w name e"

fun set_child :: "string \<Rightarrow> 'h radix_node option \<Rightarrow> 'h radix_node \<Rightarrow> 'h radix_node" where
  "set_child s (Some c) (RadixNode cs p w name e) = RadixNode (go_put s c cs) p w name e"
| "set_child s None (RadixNode cs p w name e) = RadixNode (go_del s cs) p w name e"

fun set_param_child :: "'h radix_node option \<Rightarrow> 'h radix_node \<Rightarrow> 'h radix_node" where
  "set_param_child c (RadixNode cs _ w name e) = RadixNode cs c w name e"

fun set_wildcard_child :: "'h radix_node option \<Rightarrow> 'h radix_node \<Rightarrow> 'h radix_node" where
  "set_wildcard_child c (RadixNode cs p _ name e) = RadixNode cs p c name e"

record 'h radix_tree =
  rt_root :: "'h radix_node option"
  rt_size :: int

definition new_radix_tree :: "'h radix_tree" where
  "new_radix_tree = \<lparr>rt_root = Some (new_radix_node []), rt_size = 0\<rparr>"

definition route_count :: "'h radix_tree \<Rightarrow> int" where
  "route_count t = rt_size t"

section \<open>Insertion\<close>

text \<open>The walk of \<open>insert\<close> from the node \<open>current\<close>; nodes made on the way stay after an error.\<close>

fun insert_segments ::
  "'h route_entry \<Rightarrow> string list \<Rightarrow> 'h radix_node \<Rightarrow> route_error option \<times> 'h radix_node" where
  "insert_segments e [] n =
     (if node_entry n \<noteq> None then (Some (DuplicateRoute (re_path e)), n)
      else (None, set_entry (Some e) n))"
| "insert_segments e ([] # rest) n = insert_segments e rest n"
| "insert_segments e ((c # name) # rest) n =
     (if c = CHR '':'' then
        (let child = (case param_child n of None \<Rightarrow> new_radix_node name | Some p \<Rightarrow> p) in
         case insert_segments e rest child of
           (err, child') \<Rightarrow> (err, set_param_child (Some child') n))
      else if c = CHR ''*'' then
        (if rest \<noteq> [] then (Some (CatchAllNotLast (re_path e)), n)
         else
           (let child = (case wildcard_child n of None \<Rightarrow> new_radix_node name | Some w \<Rightarrow> w) in
            if node_entry child \<noteq> None
            then (Some (DuplicateRoute (re_path e)), set_wildcard_child (Some child) n)
            else (None, set_wildcard_child (Some (set_entry (Some e) child)) n)))
      else
        (let child = (case go_get (children n) (c # name) of None \<Rightarrow> new_radix_node [] | Some k \<Rightarrow> k) in
         case insert_segments e rest child of
           (err, child') \<Rightarrow> (err, set_child (c # name) (Some child') n)))"

definition radix_insert ::
  "'h route_entry option \<Rightarrow> 'h radix_tree \<Rightarrow> route_error option \<times> 'h radix_tree" where
  "radix_insert entry t =
     (case entry of
        None \<Rightarrow> (Some NilRouteEntry, t)
      | Some e \<Rightarrow>
          (let root = (case rt_root t of None \<Rightarrow> new_radix_node [] | Some n \<Rightarrow> n) in
           case insert_segments e (split_path_segments (re_path e)) root of
             (None, root') \<Rightarrow> (None, t\<lparr>rt_root := Some root', rt_size := rt_size t + 1\<rparr>)
           | (Some err, root') \<Rightarrow> (Some err, t\<lparr>rt_root := Some root'\<rparr>)))"

section \<open>Removal\<close>

text \<open>The results are \<open>removed\<close> and \<open>prune\<close>; the third one of the code, an error, is always nil.\<close>

fun remove_segments :: "string list \<Rightarrow> 'h radix_node \<Rightarrow> bool \<times> bool \<times> 'h radix_node" where
  "remove_segments [] n =
     (if node_entry n = None then (False, False, n)
      else (let n' = set_entry None n in (True, node_is_empty n', n')))"
| "remove_segments ([] # rest) n = (False, False, n)"
| "remove_segments ((c # name) # rest) n =
     (if c \<noteq> CHR '':'' \<and> c \<noteq> CHR ''*'' then
        (case go_get (children n) (c # name) of
           None \<Rightarrow> (False, False, n)
         | Some child \<Rightarrow>
             (case remove_segments rest child of
                (True, prune, child') \<Rightarrow>
                  (let n' = set_child (c # name) (if prune then None else Some child') n in
                   (True, node_is_empty n', n'))
              | (False, _, child') \<Rightarrow> (False, False, set_child (c # name) (Some child') n)))
      else if c = CHR '':'' then
        (case param_child n of
           None \<Rightarrow> (False, False, n)
         | Some child \<Rightarrow>
             (case remove_segments rest child of
                (True, prune, child') \<Rightarrow>
                  (let n' = set_param_child (if prune then None else Some child') n in
                   (True, node_is_empty n', n'))
              | (False, _, child') \<Rightarrow> (False, False, set_param_child (Some child') n)))
      else
        (case wildcard_child n of
           None \<Rightarrow> (False, False, n)
         | Some w \<Rightarrow>
             (if rest = [] \<and> param_name w = name \<and> node_entry w \<noteq> None then
                (let w' = set_entry None w;
                     n' = set_wildcard_child (if node_is_empty w' then None else Some w') n in
                 (True, node_is_empty n', n'))
              else (False, False, n))))"

definition radix_remove :: "string \<Rightarrow> 'h radix_tree \<Rightarrow> route_error option \<times> 'h radix_tree" where
  "radix_remove path t =
     (case rt_root t of
        None \<Rightarrow> (Some EmptyTree, t)
      | Some n \<Rightarrow>
          (case remove_segments (split_path_segments path) n of
             (True, _, n') \<Rightarrow> (None, t\<lparr>rt_root := Some n', rt_size := rt_size t - 1\<rparr>)
           | (False, _, n') \<Rightarrow> (Some RouteNotFound, t\<lparr>rt_root := Some n'\<rparr>)))"

section \<open>Lookup\<close>

definition ensure_params :: "params \<Rightarrow> (string, string) gomap" where
  "ensure_params ps = (case ps of None \<Rightarrow> [] | Some m \<Rightarrow> m)"

definition find_wildcard ::
  "'h radix_node \<Rightarrow> string \<Rightarrow> params \<Rightarrow> 'h route_entry option \<times> params" where
  "find_wildcard n v ps =
     (case wildcard_child n of
        None \<Rightarrow> (None, ps)
      | Some w \<Rightarrow>
          (case node_entry w of
             None \<Rightarrow> (None, ps)
           | Some e \<Rightarrow> (Some e, Some (go_put (param_name w) v (ensure_params ps)))))"

fun find_node :: "string list \<Rightarrow> 'h radix_node \<Rightarrow> params \<Rightarrow> 'h route_entry option \<times> params" where
  "find_node [] n ps =
     (case node_entry n of
        Some e \<Rightarrow> (Some e, ps)
      | None \<Rightarrow> find_wildcard n [] ps)"
| "find_node (seg # rest) n ps =
     (case (if seg = [] then (None, ps)
            else (case go_get (children n) seg of
                    None \<Rightarrow> (None, ps)
                  | Some child \<Rightarrow> find_node rest child ps)) of
        (Some e, ps1) \<Rightarrow> (Some e, ps1)
      | (None, ps1) \<Rightarrow>
          (case (if seg = [] then (None, ps1)
                 else (case param_child n of
                         None \<Rightarrow> (None, ps1)
                       | Some child \<Rightarrow>
                           (case find_node rest child (Some (go_put (param_name child) seg (ensure_params ps1))) of
                              (Some e, ps2) \<Rightarrow> (Some e, ps2)
                            | (None, ps2) \<Rightarrow> (None, Some (go_del (param_name child) (ensure_params ps2)))))) of
             (Some e, ps3) \<Rightarrow> (Some e, ps3)
           | (None, ps3) \<Rightarrow> find_wildcard n (join_with slash (seg # rest)) ps3))"

declare find_node.simps(2) [simp del]

definition radix_search :: "string \<Rightarrow> 'h radix_tree \<Rightarrow> 'h match_result option" where
  "radix_search path t =
     (case rt_root t of
        None \<Rightarrow> None
      | Some n \<Rightarrow>
          (case find_node (split_path_segments path) n None of
             (None, _) \<Rightarrow> None
           | (Some e, ps) \<Rightarrow> Some (to_result e ps)))"

definition radix_search_into ::
  "string \<Rightarrow> (string, string) gomap \<Rightarrow> 'h radix_tree \<Rightarrow> 'h route_entry option \<times> (string, string) gomap" where
  "radix_search_into path dst t =
     (case rt_root t of
        None \<Rightarrow> (None, dst)
      | Some n \<Rightarrow>
          (case find_node (split_path_segments path) n (Some dst) of (e, ps) \<Rightarrow> (e, ensure_params ps)))"

end
