(* ===== verification/RadixFacts.thy ===== *)
theory RadixFacts
  imports Radix
begin

text \<open>
  The routing tree implements a finite map from route patterns to entries.  \<open>tree_get\<close> is the
  abstraction: it reads the map off the tree.  Insertion and removal are point updates of it,
  and lookup returns the best of the patterns that match the request.
\<close>

section \<open>The map a tree stands for\<close>

datatype seg_key = Static string | Param | CatchAll

fun seg_kind :: "char \<Rightarrow> string \<Rightarrow> seg_key" where
  "seg_kind c name = (if c = CHR '':'' then Param else if c = CHR ''*'' then CatchAll else Static (c # name))"

fun pattern_key :: "string list \<Rightarrow> seg_key list" where
  "pattern_key [] = []"
| "pattern_key ([] # rest) = pattern_key rest"
| "pattern_key ((c # name) # rest) = seg_kind c name # pattern_key rest"

fun child_at :: "'h radix_node \<Rightarrow> seg_key \<Rightarrow> 'h radix_node option" where
  "child_at n (Static s) = go_get (children n) s"
| "child_at n Param = param_child n"
| "child_at n CatchAll = wildcard_child n"

fun tree_get :: "'h radix_node \<Rightarrow> seg_key list \<Rightarrow> 'h route_entry option" where
  "tree_get n [] = node_entry n"
| "tree_get n (k # ks) = (case child_at n k of None \<Rightarrow> None | Some c \<Rightarrow> tree_get c ks)"

definition sub_get :: "'h radix_node option \<Rightarrow> seg_key list \<Rightarrow> 'h route_entry option" where
  "sub_get c ks = (case c of None \<Rightarrow> None | Some n \<Rightarrow> tree_get n ks)"

lemma sub_get_simps [simp]: "sub_get None ks = None" "sub_get (Some n) ks = tree_get n ks"
  by (simp_all add: sub_get_def)

lemma tree_get_Cons: "tree_get n (k # ks) = sub_get (child_at n k) ks"
  by (simp add: sub_get_def)

declare tree_get.simps(2) [simp del]
declare tree_get_Cons [simp]

lemma tree_get_new [simp]: "tree_get (new_radix_node name) ks = None"
  by (cases ks; cases "hd ks") (auto simp: new_radix_node_def)

lemma node_parts [simp]:
  "children (set_entry e n) = children n" "param_child (set_entry e n) = param_child n"
  "wildcard_child (set_entry e n) = wildcard_child n" "node_entry (set_entry e n) = e"
  "param_name (set_entry e n) = param_name n"
  "children (set_param_child c n) = children n" "param_child (set_param_child c n) = c"
  "wildcard_child (set_param_child c n) = wildcard_child n" "node_entry (set_param_child c n) = node_entry n"
  "param_name (set_param_child c n) = param_name n"
  "children (set_wildcard_child c n) = children n" "param_child (set_wildcard_child c n) = param_child n"
  "wildcard_child (set_wildcard_child c n) = c" "node_entry (set_wildcard_child c n) = node_entry n"
  "param_name (set_wildcard_child c n) = param_name n"
  "param_child (set_child s c n) = param_child n" "wildcard_child (set_child s c n) = wildcard_child n"
  "node_entry (set_child s c n) = node_entry n" "param_name (set_child s c n) = param_name n"
  by (cases n; cases c; simp)+

lemma children_set_child [simp]:
  "go_get (children (set_child s c n)) t = (if t = s then c else go_get (children n) t)"
  by (cases n; cases c) auto

lemma child_at_set [simp]:
  "child_at (set_entry e n) k = child_at n k"
  "child_at (set_param_child c n) k = (if k = Param then c else child_at n k)"
  "child_at (set_wildcard_child c n) k = (if k = CatchAll then c else child_at n k)"
  "child_at (set_child s c n) k = (if k = Static s then c else child_at n k)"
  by (cases k; simp)+

lemma tree_get_set_entry: "tree_get (set_entry e n) = (tree_get n)([] := e)"
proof
  fix ks show "tree_get (set_entry e n) ks = ((tree_get n)([] := e)) ks" by (cases ks) simp_all
qed

text \<open>Replacing the child below \<open>k\<close> changes the map below \<open>k\<close> only.\<close>

lemma tree_get_below:
  assumes "\<And>j. child_at n' j = (if j = k then c' else child_at n j)" and "node_entry n' = node_entry n"
  shows "sub_get c' = (sub_get (child_at n k))(ks := v) \<Longrightarrow> tree_get n' = (tree_get n)(k # ks := v)"
    and "sub_get c' = sub_get (child_at n k) \<Longrightarrow> tree_get n' = tree_get n"
proof -
  have "tree_get n' js = (if js \<noteq> [] \<and> hd js = k then sub_get c' (tl js) else tree_get n js)" for js
    using assms by (cases js) simp_all
  then have *: "tree_get n' = (\<lambda>js. if js \<noteq> [] \<and> hd js = k then sub_get c' (tl js) else tree_get n js)" ..
  show "sub_get c' = (sub_get (child_at n k))(ks := v) \<Longrightarrow> tree_get n' = (tree_get n)(k # ks := v)"
    unfolding * by (rule ext, rename_tac js, case_tac js) auto
  show "sub_get c' = sub_get (child_at n k) \<Longrightarrow> tree_get n' = tree_get n"
    unfolding * by (rule ext, rename_tac js, case_tac js) auto
qed

lemma sub_get_default:
  "sub_get (Some (case c of None \<Rightarrow> new_radix_node name | Some d \<Rightarrow> d)) = sub_get c"
  by (rule ext) (simp split: option.split)

lemma node_is_empty_get: "node_is_empty n \<Longrightarrow> tree_get n ks = None"
  by (cases ks; cases "hd ks") (auto simp: node_is_empty_def go_len_def)

section \<open>Insertion\<close>

text \<open>A pattern as routes have it: nothing follows a catch-all.\<close>

fun catch_all_last :: "string list \<Rightarrow> bool" where
  "catch_all_last [] \<longleftrightarrow> True"
| "catch_all_last ([] # rest) \<longleftrightarrow> catch_all_last rest"
| "catch_all_last ((c # name) # rest) \<longleftrightarrow> (c = CHR ''*'' \<longrightarrow> rest = []) \<and> catch_all_last rest"

lemma insert_segments_get:
  assumes "insert_segments e segs n = (err, n')"
  shows "(err = None \<longrightarrow> tree_get n (pattern_key segs) = None \<and>
            tree_get n' = (tree_get n)(pattern_key segs := Some e)) \<and>
         (err \<noteq> None \<longrightarrow> tree_get n' = tree_get n)"
  using assms
proof (induction e segs n arbitrary: err n' rule: insert_segments.induct)
  case (1 e n)
  then show ?case by (auto simp: tree_get_set_entry split: if_splits)
next
  case (2 e rest n)
  then show ?case by simp
next
  case (3 e c name rest n)
  let ?param = "case param_child n of None \<Rightarrow> new_radix_node name | Some p \<Rightarrow> p"
  let ?wild = "case wildcard_child n of None \<Rightarrow> new_radix_node name | Some w \<Rightarrow> w"
  let ?static = "case go_get (children n) (c # name) of None \<Rightarrow> new_radix_node [] | Some k \<Rightarrow> k"
  consider (param) "c = CHR '':''" | (wild) "c = CHR ''*''" | (static) "c \<noteq> CHR '':''" "c \<noteq> CHR ''*''"
    by blast
  then show ?case
  proof cases
    case param
    obtain child' where ins: "insert_segments e rest ?param = (err, child')"
      and n': "n' = set_param_child (Some child') n"
      using "3.prems" param by (auto split: prod.splits)
    have IH: "(err = None \<longrightarrow> sub_get (child_at n Param) (pattern_key rest) = None \<and>
         sub_get (Some child') = (sub_get (child_at n Param))(pattern_key rest := Some e)) \<and>
       (err \<noteq> None \<longrightarrow> sub_get (Some child') = sub_get (child_at n Param))"
      using "3.IH"(1) [OF param refl ins] sub_get_default [where c = "param_child n" and name = name] by (simp add: fun_eq_iff)
    show ?thesis
      using IH tree_get_below [of n' Param "Some child'" n] param n' by auto
  next
    case wild
    show ?thesis
    proof (cases "rest = [] \<and> node_entry ?wild = None")
      case True
      then have err: "err = None" and n': "n' = set_wildcard_child (Some (set_entry (Some e) ?wild)) n"
        using "3.prems" wild by (auto simp: Let_def)
      have "sub_get (child_at n CatchAll) [] = None"
        using True by (cases "wildcard_child n") simp_all
      moreover have "sub_get (Some (set_entry (Some e) ?wild)) = (sub_get (child_at n CatchAll))([] := Some e)"
        using sub_get_default [where c = "wildcard_child n" and name = name] by (simp add: fun_eq_iff tree_get_set_entry)
      ultimately show ?thesis
        using tree_get_below(1) [of n' CatchAll "Some (set_entry (Some e) ?wild)" n "[]" "Some e"] n' wild err True
        by simp
    next
      case False
      then have err: "err \<noteq> None" and n': "n' = n \<or> n' = set_wildcard_child (Some ?wild) n"
        using "3.prems" wild by (auto simp: Let_def split: if_splits)
      have "tree_get (set_wildcard_child (Some ?wild) n) = tree_get n"
        using sub_get_default [where c = "wildcard_child n" and name = name]
        by (intro tree_get_below(2) [of _ CatchAll "Some ?wild"]) auto
      with err n' show ?thesis by auto
    qed
  next
    case static
    obtain child' where ins: "insert_segments e rest ?static = (err, child')"
      and n': "n' = set_child (c # name) (Some child') n"
      using "3.prems" static by (auto split: prod.splits)
    let ?k = "Static (c # name)"
    have IH: "(err = None \<longrightarrow> sub_get (child_at n ?k) (pattern_key rest) = None \<and>
         sub_get (Some child') = (sub_get (child_at n ?k))(pattern_key rest := Some e)) \<and>
       (err \<noteq> None \<longrightarrow> sub_get (Some child') = sub_get (child_at n ?k))"
      using "3.IH"(2) [OF static refl ins] sub_get_default [where c = "go_get (children n) (c # name)" and name = "[]"]
      by (simp add: fun_eq_iff)
    show ?thesis
      using IH tree_get_below [of n' ?k "Some child'" n] static n' by auto
  qed
qed

lemma default_get:
  "tree_get (case p of None \<Rightarrow> new_radix_node name | Some d \<Rightarrow> d) ks = sub_get p ks"
  "node_entry (case p of None \<Rightarrow> new_radix_node name | Some d \<Rightarrow> d) = sub_get p []"
proof -
  show "tree_get (case p of None \<Rightarrow> new_radix_node name | Some d \<Rightarrow> d) ks = sub_get p ks"
    by (cases p) simp_all
  show "node_entry (case p of None \<Rightarrow> new_radix_node name | Some d \<Rightarrow> d) = sub_get p []"
    by (cases p) (simp_all add: new_radix_node_def)
qed

lemma insert_segments_error:
  assumes "insert_segments e segs n = (Some err, n')"
  shows "(err = DuplicateRoute (re_path e) \<and> (catch_all_last segs \<longrightarrow> tree_get n (pattern_key segs) \<noteq> None)) \<or>
    (err = CatchAllNotLast (re_path e) \<and> \<not> catch_all_last segs)"
  using assms
proof (induction e segs n arbitrary: n' rule: insert_segments.induct)
  case (3 e c name rest n)
  consider (param) "c = CHR '':''" | (wild) "c = CHR ''*''" | (static) "c \<noteq> CHR '':''" "c \<noteq> CHR ''*''"
    by blast
  then show ?case
  proof cases
    case param
    with 3 show ?thesis by (auto simp: Let_def split: prod.splits simp: default_get)
  next
    case wild
    with 3 show ?thesis by (auto simp: Let_def split: if_splits simp: default_get)
  next
    case static
    with 3 show ?thesis by (auto simp: Let_def split: prod.splits simp: default_get)
  qed
qed (auto split: if_splits)

section \<open>Removal\<close>

lemma remove_below:
  assumes "\<And>d j. child_at (put d n) j = (if j = k then d else child_at n j)"
    and "\<And>d. node_entry (put d n) = node_entry n" and "child_at n k = Some child"
    and "(removed \<longrightarrow> tree_get child ks \<noteq> None \<and> tree_get child' = (tree_get child)(ks := None)) \<and>
      (\<not> removed \<longrightarrow> tree_get child' = tree_get child) \<and> (prune \<longrightarrow> removed \<and> node_is_empty child')"
  shows "(removed \<longrightarrow> tree_get n (k # ks) \<noteq> None \<and>
        tree_get (put (if prune then None else Some child') n) = (tree_get n)(k # ks := None)) \<and>
    (\<not> removed \<longrightarrow> tree_get (put (Some child') n) = tree_get n)"
proof -
  have "sub_get (if prune then None else Some child') = tree_get child'"
    using assms(4) by (auto simp: fun_eq_iff node_is_empty_get)
  moreover have "sub_get (child_at n k) = tree_get child"
    using assms(3) by (simp add: fun_eq_iff)
  moreover have "sub_get (Some child') = tree_get child'"
    by (simp add: fun_eq_iff)
  ultimately show ?thesis
    using assms(3,4)
      tree_get_below(1) [where n' = "put (if prune then None else Some child') n" and k = k and n = n
        and c' = "if prune then None else Some child'" and ks = ks and v = None, OF assms(1,2)]
      tree_get_below(2) [where n' = "put (Some child') n" and k = k and n = n and c' = "Some child'", OF assms(1,2)]
    by auto
qed

lemma remove_segments_get:
  assumes "remove_segments segs n = (removed, prune, n')"
  shows "(removed \<longrightarrow> tree_get n (pattern_key segs) \<noteq> None \<and> tree_get n' = (tree_get n)(pattern_key segs := None)) \<and>
    (\<not> removed \<longrightarrow> tree_get n' = tree_get n) \<and> (prune \<longrightarrow> removed \<and> node_is_empty n')"
  using assms
proof (induction segs n arbitrary: removed prune n' rule: remove_segments.induct)
  case (1 n)
  then show ?case by (auto simp: tree_get_set_entry Let_def split: if_splits)
next
  case (2 rest n)
  then show ?case by simp
next
  case (3 c name rest n)
  consider (param) "c = CHR '':''" | (wild) "c = CHR ''*''" | (static) "c \<noteq> CHR '':''" "c \<noteq> CHR ''*''"
    by blast
  then show ?case
  proof cases
    case param
    show ?thesis
    proof (cases "param_child n")
      case None
      then show ?thesis using "3.prems" param by auto
    next
      case (Some child)
      obtain r p child' where rec: "remove_segments rest child = (r, p, child')"
        by (cases "remove_segments rest child") auto
      have "\<not> (c \<noteq> CHR '':'' \<and> c \<noteq> CHR ''*'')" by (simp add: param)
      from "3.IH"(2) [OF this param Some rec]
      have IH: "(r \<longrightarrow> tree_get child (pattern_key rest) \<noteq> None \<and>
            tree_get child' = (tree_get child)(pattern_key rest := None)) \<and>
          (\<not> r \<longrightarrow> tree_get child' = tree_get child) \<and> (p \<longrightarrow> r \<and> node_is_empty child')" .
      have "(r \<longrightarrow> tree_get n (Param # pattern_key rest) \<noteq> None \<and>
            tree_get (set_param_child (if p then None else Some child') n) = (tree_get n)(Param # pattern_key rest := None)) \<and>
          (\<not> r \<longrightarrow> tree_get (set_param_child (Some child') n) = tree_get n)"
        by (rule remove_below [OF _ _ _ IH]) (simp_all add: Some)
      then show ?thesis
        using "3.prems" param Some rec by (cases r) (auto simp: Let_def)
    qed
  next
    case static
    let ?s = "c # name"
    show ?thesis
    proof (cases "go_get (children n) ?s")
      case None
      then show ?thesis using "3.prems" static by auto
    next
      case (Some child)
      obtain r p child' where rec: "remove_segments rest child = (r, p, child')"
        by (cases "remove_segments rest child") auto
      have "c \<noteq> CHR '':'' \<and> c \<noteq> CHR ''*''" using static by simp
      from "3.IH"(1) [OF this Some rec]
      have IH: "(r \<longrightarrow> tree_get child (pattern_key rest) \<noteq> None \<and>
            tree_get child' = (tree_get child)(pattern_key rest := None)) \<and>
          (\<not> r \<longrightarrow> tree_get child' = tree_get child) \<and> (p \<longrightarrow> r \<and> node_is_empty child')" .
      have "(r \<longrightarrow> tree_get n (Static ?s # pattern_key rest) \<noteq> None \<and>
            tree_get (set_child ?s (if p then None else Some child') n) = (tree_get n)(Static ?s # pattern_key rest := None)) \<and>
          (\<not> r \<longrightarrow> tree_get (set_child ?s (Some child') n) = tree_get n)"
        by (rule remove_below [OF _ _ _ IH]) (simp_all add: Some)
      then show ?thesis
        using "3.prems" static Some rec by (cases r) (auto simp: Let_def)
    qed
  next
    case wild
    show ?thesis
    proof (cases "\<exists>w. wildcard_child n = Some w \<and> rest = [] \<and> param_name w = name \<and> node_entry w \<noteq> None")
      case False
      then show ?thesis using "3.prems" wild by (auto split: option.splits if_splits)
    next
      case True
      then obtain w where w: "wildcard_child n = Some w" "rest = []" "param_name w = name" "node_entry w \<noteq> None"
        by blast
      let ?w = "set_entry None w"
      have IH: "(True \<longrightarrow> tree_get w [] \<noteq> None \<and> tree_get ?w = (tree_get w)([] := None)) \<and>
          (\<not> True \<longrightarrow> tree_get ?w = tree_get w) \<and> (node_is_empty ?w \<longrightarrow> True \<and> node_is_empty ?w)"
        using w by (simp add: tree_get_set_entry)
      have "(True \<longrightarrow> tree_get n (CatchAll # []) \<noteq> None \<and>
            tree_get (set_wildcard_child (if node_is_empty ?w then None else Some ?w) n) = (tree_get n)(CatchAll # [] := None)) \<and>
          (\<not> True \<longrightarrow> tree_get (set_wildcard_child (Some ?w) n) = tree_get n)"
        by (rule remove_below [OF _ _ _ IH]) (simp_all add: w)
      with "3.prems" w wild show ?thesis by (auto simp: Let_def)
    qed
  qed
qed

section \<open>Lookup: the best matching pattern\<close>

fun key_matches :: "seg_key list \<Rightarrow> string list \<Rightarrow> bool" where
  "key_matches [] [] \<longleftrightarrow> True"
| "key_matches (CatchAll # ks) segs \<longleftrightarrow> ks = []"
| "key_matches (Static s # ks) (seg # rest) \<longleftrightarrow> seg = s \<and> seg \<noteq> [] \<and> key_matches ks rest"
| "key_matches (Param # ks) (seg # rest) \<longleftrightarrow> seg \<noteq> [] \<and> key_matches ks rest"
| "key_matches _ _ \<longleftrightarrow> False"

fun key_rank :: "seg_key \<Rightarrow> nat" where
  "key_rank (Static s) = 0" | "key_rank Param = 1" | "key_rank CatchAll = 2"

text \<open>
  The order of preference, segment by segment: a static segment before a parameter before a
  catch-all, and the pattern that ends before the one that continues with a catch-all.
\<close>

fun prefers :: "seg_key list \<Rightarrow> seg_key list \<Rightarrow> bool" where
  "prefers [] ks \<longleftrightarrow> True"
| "prefers (k # ks) [] \<longleftrightarrow> False"
| "prefers (k # ks) (k' # ks') \<longleftrightarrow> key_rank k < key_rank k' \<or> k = k' \<and> prefers ks ks'"

lemma prefers_refl [simp]: "prefers ks ks"
  by (induction ks) auto

definition best_at :: "'h radix_node \<Rightarrow> string list \<Rightarrow> seg_key list \<Rightarrow> 'h route_entry \<Rightarrow> bool" where
  "best_at n segs ks e \<longleftrightarrow> key_matches ks segs \<and> tree_get n ks = Some e \<and>
     (\<forall>ks'. key_matches ks' segs \<and> tree_get n ks' \<noteq> None \<longrightarrow> prefers ks ks')"

definition no_match :: "'h radix_node option \<Rightarrow> string list \<Rightarrow> bool" where
  "no_match c segs \<longleftrightarrow> (\<forall>ks. key_matches ks segs \<longrightarrow> sub_get c ks = None)"

definition best_match :: "'h radix_node \<Rightarrow> string list \<Rightarrow> 'h route_entry option \<Rightarrow> bool" where
  "best_match n segs res \<longleftrightarrow>
     (case res of None \<Rightarrow> no_match (Some n) segs | Some e \<Rightarrow> \<exists>ks. best_at n segs ks e)"

lemma key_matches_Nil: "key_matches ks [] \<longleftrightarrow> ks = [] \<or> ks = [CatchAll]"
  by (cases ks; cases "hd ks") auto

lemma key_matches_Cons:
  "key_matches ks (seg # rest) \<longleftrightarrow>
     (seg \<noteq> [] \<and> (\<exists>ks'. (ks = Static seg # ks' \<or> ks = Param # ks') \<and> key_matches ks' rest)) \<or> ks = [CatchAll]"
  by (cases ks; cases "hd ks") auto

lemma fst_find_wildcard: "fst (find_wildcard n v ps) = tree_get n [CatchAll]"
  by (auto simp: find_wildcard_def split: option.split)

text \<open>One step of the search.\<close>

lemma best_at_static:
  assumes "best_at c rest ks e" and "go_get (children n) seg = Some c" and "seg \<noteq> []"
  shows "best_at n (seg # rest) (Static seg # ks) e"
  using assms by (auto simp: best_at_def key_matches_Cons)

lemma best_at_param:
  assumes "best_at c rest ks e" and "param_child n = Some c" and "seg \<noteq> []"
    and "no_match (go_get (children n) seg) rest"
  shows "best_at n (seg # rest) (Param # ks) e"
  using assms by (auto simp: best_at_def key_matches_Cons no_match_def)

lemma best_at_wildcard:
  assumes "tree_get n [CatchAll] = Some e"
    and "seg \<noteq> [] \<Longrightarrow> no_match (go_get (children n) seg) rest \<and> no_match (param_child n) rest"
  shows "best_at n (seg # rest) [CatchAll] e"
  using assms by (auto simp: best_at_def key_matches_Cons no_match_def)

lemma no_match_Cons:
  assumes "tree_get n [CatchAll] = None"
    and "seg \<noteq> [] \<Longrightarrow> no_match (go_get (children n) seg) rest \<and> no_match (param_child n) rest"
  shows "no_match (Some n) (seg # rest)"
  using assms by (auto simp: no_match_def key_matches_Cons)

lemma no_match_None [simp]: "no_match None segs"
  by (simp add: no_match_def)

lemma best_match_Nil:
  "best_match n [] (case node_entry n of Some e \<Rightarrow> Some e | None \<Rightarrow> tree_get n [CatchAll])"
  by (auto simp: best_match_def best_at_def no_match_def key_matches_Nil split: option.split)

lemma best_match_wildcard:
  assumes "seg \<noteq> [] \<Longrightarrow> no_match (go_get (children n) seg) rest \<and> no_match (param_child n) rest"
  shows "best_match n (seg # rest) (tree_get n [CatchAll])"
proof (cases "tree_get n [CatchAll]")
  case None
  with no_match_Cons [OF None assms] show ?thesis by (simp add: best_match_def)
next
  case (Some e)
  with best_at_wildcard [OF Some assms] show ?thesis by (auto simp: best_match_def)
qed

lemma best_match_Cons:
  assumes "\<And>c. go_get (children n) seg = Some c \<Longrightarrow> best_match c rest s"
    and "go_get (children n) seg = None \<Longrightarrow> s = None"
    and "\<And>c. param_child n = Some c \<Longrightarrow> best_match c rest p"
    and "param_child n = None \<Longrightarrow> p = None" and "seg \<noteq> []"
  shows "best_match n (seg # rest)
    (case s of Some e \<Rightarrow> Some e | None \<Rightarrow> (case p of Some e \<Rightarrow> Some e | None \<Rightarrow> tree_get n [CatchAll]))"
proof (cases s)
  case (Some e)
  with assms show ?thesis
    by (cases "go_get (children n) seg") (auto simp: best_match_def intro: best_at_static)
next
  case s: None
  then have no: "no_match (go_get (children n) seg) rest"
    using assms(1) by (cases "go_get (children n) seg") (auto simp: best_match_def)
  show ?thesis
  proof (cases p)
    case (Some e)
    with s no assms show ?thesis
      by (cases "param_child n") (auto simp: best_match_def intro: best_at_param)
  next
    case None
    then have "no_match (param_child n) rest"
      using assms(3) by (cases "param_child n") (auto simp: best_match_def)
    with no have "best_match n (seg # rest) (tree_get n [CatchAll])"
      by (intro best_match_wildcard) simp
    with s None show ?thesis by simp
  qed
qed

lemma best_match_empty_segment: "best_match n ([] # rest) (tree_get n [CatchAll])"
  by (rule best_match_wildcard) simp

lemma find_node_best: "best_match n segs (fst (find_node segs n ps))"
proof (induction segs arbitrary: n ps)
  case Nil
  have "fst (find_node [] n ps) = (case node_entry n of Some e \<Rightarrow> Some e | None \<Rightarrow> tree_get n [CatchAll])"
    by (auto simp: fst_find_wildcard split: option.split)
  then show ?case using best_match_Nil [of n] by simp
next
  case (Cons seg rest)
  show ?case
  proof (cases "seg = []")
    case True
    then show ?thesis using best_match_empty_segment [of n rest]
      by (simp add: fst_find_wildcard find_node.simps(2))
  next
    case False
    define s where "s = (case go_get (children n) seg of None \<Rightarrow> (None, ps) | Some child \<Rightarrow> find_node rest child ps)"
    define p where "p = (case param_child n of
        None \<Rightarrow> (None, snd s)
      | Some child \<Rightarrow>
          (case find_node rest child (Some (go_put (param_name child) seg (ensure_params (snd s)))) of
             (Some e, ps2) \<Rightarrow> (Some e, ps2)
           | (None, ps2) \<Rightarrow> (None, Some (go_del (param_name child) (ensure_params ps2)))))"
    have "fst p = (case param_child n of None \<Rightarrow> None
        | Some child \<Rightarrow> fst (find_node rest child (Some (go_put (param_name child) seg (ensure_params (snd s))))))"
      by (auto simp: p_def split: option.split prod.split)
    then have "best_match n (seg # rest)
        (case fst s of Some e \<Rightarrow> Some e | None \<Rightarrow> (case fst p of Some e \<Rightarrow> Some e | None \<Rightarrow> tree_get n [CatchAll]))"
      using False Cons by (intro best_match_Cons) (auto simp: s_def)
    moreover have "fst (find_node (seg # rest) n ps) =
        (case fst s of Some e \<Rightarrow> Some e | None \<Rightarrow> (case fst p of Some e \<Rightarrow> Some e | None \<Rightarrow> tree_get n [CatchAll]))"
      using False by (auto simp: find_node.simps(2) s_def [symmetric] p_def fst_find_wildcard split: option.split prod.split)
    ultimately show ?thesis by simp
  qed
qed

section \<open>Lookup: the parameters\<close>

fun captures :: "seg_key list \<Rightarrow> string list \<Rightarrow> string list" where
  "captures [] segs = []"
| "captures (CatchAll # ks) segs = [join_with slash segs]"
| "captures (k # ks) [] = []"
| "captures (Static s # ks) (seg # rest) = captures ks rest"
| "captures (Param # ks) (seg # rest) = seg # captures ks rest"

text \<open>The parameter names the nodes below a pattern carry.\<close>

fun tree_names :: "'h radix_node \<Rightarrow> seg_key list \<Rightarrow> string list" where
  "tree_names n [] = []"
| "tree_names n (k # ks) =
     (case child_at n k of
        None \<Rightarrow> []
      | Some c \<Rightarrow> (case k of Static _ \<Rightarrow> tree_names c ks | _ \<Rightarrow> param_name c # tree_names c ks))"

definition names_fresh :: "'h radix_node \<Rightarrow> (string, string) gomap \<Rightarrow> bool" where
  "names_fresh n m \<longleftrightarrow>
     (\<forall>ks. distinct (tree_names n ks) \<and> (\<forall>x \<in> set (tree_names n ks). go_get m x = None))"

definition same_params :: "params \<Rightarrow> params \<Rightarrow> bool" where
  "same_params ps ps' \<longleftrightarrow> (\<forall>x. go_get (ensure_params ps') x = go_get (ensure_params ps) x)"

definition binds :: "string list \<Rightarrow> string list \<Rightarrow> params \<Rightarrow> params \<Rightarrow> bool" where
  "binds names vals ps ps' \<longleftrightarrow>
     (\<forall>x. go_get (ensure_params ps') x =
       (case map_of (zip names vals) x of Some v \<Rightarrow> Some v | None \<Rightarrow> go_get (ensure_params ps) x))"

lemma same_params_refl [simp]: "same_params ps ps"
  by (simp add: same_params_def)

lemma names_fresh_same: "same_params ps ps' \<Longrightarrow> names_fresh n (ensure_params ps') = names_fresh n (ensure_params ps)"
  by (simp add: names_fresh_def same_params_def)

lemma binds_same: "same_params ps ps1 \<Longrightarrow> binds names vals ps1 ps' \<Longrightarrow> binds names vals ps ps'"
  by (simp add: binds_def same_params_def split: option.split)

lemma names_fresh_static:
  assumes "names_fresh n m" and "go_get (children n) seg = Some c"
  shows "names_fresh c m"
  using assms(1) [unfolded names_fresh_def, rule_format, of "Static seg # _"] assms(2)
  by (simp add: names_fresh_def)

lemma names_fresh_param:
  assumes "names_fresh n m" and "param_child n = Some c"
  shows "go_get m (param_name c) = None" and "names_fresh c (go_put (param_name c) v m)"
  using assms(1) [unfolded names_fresh_def, rule_format, of "Param # _"] assms(2)
  by (fastforce simp: names_fresh_def)+

lemma find_wildcard_params:
  assumes "find_wildcard n v ps = (res, ps')"
  shows "case res of
      None \<Rightarrow> ps' = ps
    | Some e \<Rightarrow> tree_get n [CatchAll] = Some e \<and> binds (tree_names n [CatchAll]) [v] ps ps'"
proof (cases "wildcard_child n")
  case None
  with assms show ?thesis by (auto simp: find_wildcard_def)
next
  case (Some w)
  show ?thesis
  proof (cases "node_entry w")
    case None
    with assms Some show ?thesis by (auto simp: find_wildcard_def)
  next
    case (Some e)
    with assms \<open>wildcard_child n = Some w\<close>
    have "res = Some e" "ps' = Some (go_put (param_name w) v (ensure_params ps))"
      by (simp_all add: find_wildcard_def)
    then show ?thesis
      using Some \<open>wildcard_child n = Some w\<close> by (simp add: binds_def ensure_params_def)
  qed
qed

lemma same_params_trans: "same_params ps ps1 \<Longrightarrow> same_params ps1 ps2 \<Longrightarrow> same_params ps ps2"
  by (simp add: same_params_def)

lemma binds_param:
  assumes "binds names vals (Some (go_put x v (ensure_params ps))) ps'" and "x \<notin> set names"
  shows "binds (x # names) (v # vals) ps ps'"
proof -
  have "map_of (zip names vals) x = None"
    using assms(2) by (auto simp: map_of_eq_None_iff dest: set_zip_leftD)
  with assms(1) show ?thesis
    by (auto simp: binds_def ensure_params_def split: option.split)
qed

lemma same_params_undo:
  "same_params (Some (go_put x v (ensure_params ps))) ps' \<Longrightarrow> go_get (ensure_params ps) x = None \<Longrightarrow>
     same_params ps (Some (go_del x (ensure_params ps')))"
  by (auto simp: same_params_def ensure_params_def)

text \<open>What a lookup that starts with the parameters \<open>ps\<close> does.\<close>

definition found :: "'h radix_node \<Rightarrow> string list \<Rightarrow> params \<Rightarrow> 'h route_entry option \<Rightarrow> params \<Rightarrow> bool" where
  "found n segs ps res ps' \<longleftrightarrow>
     (case res of
        None \<Rightarrow> no_match (Some n) segs \<and> same_params ps ps'
      | Some e \<Rightarrow> \<exists>ks. best_at n segs ks e \<and> binds (tree_names n ks) (captures ks segs) ps ps')"

definition find_static :: "string \<Rightarrow> string list \<Rightarrow> 'h radix_node \<Rightarrow> params \<Rightarrow> 'h route_entry option \<times> params" where
  "find_static seg rest n ps =
     (if seg = [] then (None, ps)
      else (case go_get (children n) seg of None \<Rightarrow> (None, ps) | Some c \<Rightarrow> find_node rest c ps))"

definition find_param :: "string \<Rightarrow> string list \<Rightarrow> 'h radix_node \<Rightarrow> params \<Rightarrow> 'h route_entry option \<times> params" where
  "find_param seg rest n ps =
     (if seg = [] then (None, ps)
      else (case param_child n of
              None \<Rightarrow> (None, ps)
            | Some c \<Rightarrow>
                (case find_node rest c (Some (go_put (param_name c) seg (ensure_params ps))) of
                   (Some e, ps2) \<Rightarrow> (Some e, ps2)
                 | (None, ps2) \<Rightarrow> (None, Some (go_del (param_name c) (ensure_params ps2))))))"

lemma find_node_Cons:
  "find_node (seg # rest) n ps =
     (case find_static seg rest n ps of
        (Some e, ps1) \<Rightarrow> (Some e, ps1)
      | (None, ps1) \<Rightarrow>
          (case find_param seg rest n ps1 of
             (Some e, ps2) \<Rightarrow> (Some e, ps2)
           | (None, ps2) \<Rightarrow> find_wildcard n (join_with slash (seg # rest)) ps2))"
  unfolding find_static_def find_param_def find_node.simps ..

lemma find_static_found:
  assumes "\<And>c. go_get (children n) seg = Some c \<Longrightarrow> found c rest ps (fst (find_node rest c ps)) (snd (find_node rest c ps))"
    and "find_static seg rest n ps = (res, ps1)"
  shows "case res of
      None \<Rightarrow> (seg \<noteq> [] \<longrightarrow> no_match (go_get (children n) seg) rest) \<and> same_params ps ps1
    | Some e \<Rightarrow> found n (seg # rest) ps res ps1"
proof (cases "seg = [] \<or> go_get (children n) seg = None")
  case True
  with assms(2) show ?thesis by (auto simp: find_static_def split: if_splits)
next
  case False
  then obtain c where c: "go_get (children n) seg = Some c" "seg \<noteq> []" by auto
  with assms have f: "found c rest ps res ps1" by (simp add: find_static_def)
  show ?thesis
  proof (cases res)
    case None
    with f c show ?thesis by (simp add: found_def)
  next
    case (Some e)
    with f obtain ks where "best_at c rest ks e" "binds (tree_names c ks) (captures ks rest) ps ps1"
      by (auto simp: found_def)
    with c best_at_static [OF _ c] Some show ?thesis
      by (auto simp: found_def intro!: exI [of _ "Static seg # ks"])
  qed
qed

lemma find_param_found:
  assumes "\<And>c. param_child n = Some c \<Longrightarrow>
      found c rest (Some (go_put (param_name c) seg (ensure_params ps)))
        (fst (find_node rest c (Some (go_put (param_name c) seg (ensure_params ps)))))
        (snd (find_node rest c (Some (go_put (param_name c) seg (ensure_params ps)))))"
    and "seg \<noteq> [] \<Longrightarrow> no_match (go_get (children n) seg) rest" and "names_fresh n (ensure_params ps)"
    and "find_param seg rest n ps = (res, ps1)"
  shows "case res of
      None \<Rightarrow> (seg \<noteq> [] \<longrightarrow> no_match (param_child n) rest) \<and> same_params ps ps1
    | Some e \<Rightarrow> found n (seg # rest) ps res ps1"
proof (cases "seg = [] \<or> param_child n = None")
  case True
  with assms(4) show ?thesis by (auto simp: find_param_def split: if_splits)
next
  case False
  then obtain c where c: "param_child n = Some c" "seg \<noteq> []" by auto
  let ?put = "Some (go_put (param_name c) seg (ensure_params ps))"
  obtain res' ps2 where n: "find_node rest c ?put = (res', ps2)" by (cases "find_node rest c ?put")
  with assms(1) c have f: "found c rest ?put res' ps2" by simp
  show ?thesis
  proof (cases res')
    case None
    with f c n assms(4) have "res = None" "ps1 = Some (go_del (param_name c) (ensure_params ps2))"
      "no_match (Some c) rest" "same_params ?put ps2"
      by (auto simp: found_def find_param_def)
    with c same_params_undo names_fresh_param(1) [OF assms(3) c(1)] show ?thesis by auto
  next
    case (Some e)
    with n c assms(4) have r: "res = Some e" "ps1 = ps2" by (auto simp: find_param_def)
    from f Some obtain ks where ks: "best_at c rest ks e" "binds (tree_names c ks) (captures ks rest) ?put ps2"
      by (auto simp: found_def)
    have "param_name c \<notin> set (tree_names c ks)"
      using assms(3) [unfolded names_fresh_def, rule_format, of "Param # ks"] c(1) by simp
    with binds_param [OF ks(2)] best_at_param [OF ks(1) c(1,2) assms(2)] c r show ?thesis
      by (auto simp: found_def intro!: exI [of _ "Param # ks"])
  qed
qed

lemma found_same: "same_params ps ps1 \<Longrightarrow> found n segs ps1 res ps' \<Longrightarrow> found n segs ps res ps'"
  by (auto simp: found_def intro: same_params_trans binds_same split: option.splits)

lemma find_wildcard_found:
  assumes "seg \<noteq> [] \<Longrightarrow> no_match (go_get (children n) seg) rest \<and> no_match (param_child n) rest"
    and "find_wildcard n (join_with slash (seg # rest)) ps = (res, ps')"
  shows "found n (seg # rest) ps res ps'"
proof (cases res)
  case None
  with find_wildcard_params [OF assms(2)] fst_find_wildcard [of n _ ps] assms(2)
  have "ps' = ps" "tree_get n [CatchAll] = None" by (auto dest: arg_cong [of _ _ fst])
  with no_match_Cons [OF _ assms(1)] None show ?thesis by (simp add: found_def)
next
  case (Some e)
  with find_wildcard_params [OF assms(2)] best_at_wildcard [OF _ assms(1)] show ?thesis
    by (auto simp: found_def intro!: exI [of _ "[CatchAll]"])
qed

lemma find_node_found:
  assumes "names_fresh n (ensure_params ps)"
  shows "found n segs ps (fst (find_node segs n ps)) (snd (find_node segs n ps))"
  using assms
proof (induction segs arbitrary: n ps)
  case Nil
  show ?case
  proof (cases "node_entry n")
    case (Some e)
    then show ?thesis by (auto simp: found_def best_at_def binds_def intro!: exI [of _ "[]"])
  next
    case None
    obtain res ps' where w: "find_wildcard n [] ps = (res, ps')" by (cases "find_wildcard n [] ps")
    with find_wildcard_params [OF w] None fst_find_wildcard [of n "[]" ps] show ?thesis
      by (cases res) (auto simp: found_def no_match_def best_at_def key_matches_Nil intro!: exI [of _ "[CatchAll]"])
  qed
next
  case (Cons seg rest)
  obtain r1 ps1 where s: "find_static seg rest n ps = (r1, ps1)" by (cases "find_static seg rest n ps")
  from find_static_found [OF _ s] Cons.IH names_fresh_static [OF Cons.prems]
  have f1: "case r1 of
      None \<Rightarrow> (seg \<noteq> [] \<longrightarrow> no_match (go_get (children n) seg) rest) \<and> same_params ps ps1
    | Some e \<Rightarrow> found n (seg # rest) ps r1 ps1" by blast
  show ?case
  proof (cases r1)
    case (Some e)
    with f1 s show ?thesis by (simp add: find_node_Cons)
  next
    case r1: None
    with f1 have no: "seg \<noteq> [] \<Longrightarrow> no_match (go_get (children n) seg) rest" and same: "same_params ps ps1"
      by simp_all
    have fresh: "names_fresh n (ensure_params ps1)" using names_fresh_same [OF same, of n] Cons.prems by simp
    obtain r2 ps2 where p: "find_param seg rest n ps1 = (r2, ps2)" by (cases "find_param seg rest n ps1")
    have IH: "found c rest (Some (go_put (param_name c) seg (ensure_params ps1)))
        (fst (find_node rest c (Some (go_put (param_name c) seg (ensure_params ps1)))))
        (snd (find_node rest c (Some (go_put (param_name c) seg (ensure_params ps1)))))"
      if "param_child n = Some c" for c
      by (rule Cons.IH) (use names_fresh_param(2) [OF fresh that] in \<open>simp add: ensure_params_def\<close>)
    from find_param_found [OF IH no fresh p]
    have f2: "case r2 of
        None \<Rightarrow> (seg \<noteq> [] \<longrightarrow> no_match (param_child n) rest) \<and> same_params ps1 ps2
      | Some e \<Rightarrow> found n (seg # rest) ps1 r2 ps2" .
    show ?thesis
    proof (cases r2)
      case (Some e)
      with f2 found_same [OF same] have "found n (seg # rest) ps r2 ps2" by simp
      with s p r1 Some show ?thesis by (simp add: find_node_Cons)
    next
      case None
      let ?w = "find_wildcard n (join_with slash (seg # rest)) ps2"
      have "found n (seg # rest) ps2 (fst ?w) (snd ?w)"
        by (rule find_wildcard_found) (use no f2 None in auto)
      with same f2 None have "found n (seg # rest) ps (fst ?w) (snd ?w)"
        by (auto intro: found_same same_params_trans)
      with s p r1 None show ?thesis by (simp add: find_node_Cons)
    qed
  qed
qed

section \<open>What removal finds\<close>

lemma tree_names_wild:
  "CatchAll \<in> set ks \<Longrightarrow> tree_get n ks = Some e \<Longrightarrow> tree_names n ks \<noteq> []"
proof (induction ks arbitrary: n)
  case (Cons k ks)
  then show ?case
    by (cases k) (auto simp: sub_get_def split: option.splits)
qed simp

lemma wild_in_pattern: "CatchAll \<in> set (pattern_key segs) \<Longrightarrow> segs \<noteq> []"
  by auto

lemma remove_segments_removed:
  assumes "[] \<notin> set segs"
  shows "fst (remove_segments segs n) \<longleftrightarrow>
    catch_all_last segs \<and> tree_get n (pattern_key segs) \<noteq> None \<and>
    (CatchAll \<in> set (pattern_key segs) \<longrightarrow> last (tree_names n (pattern_key segs)) = tl (last segs))"
  using assms
proof (induction segs n rule: remove_segments.induct)
  case (1 n)
  then show ?case by (simp add: Let_def)
next
  case (2 rest n)
  then show ?case by simp
next
  case (3 c name rest n)
  have last: "CatchAll \<in> set (pattern_key rest) \<Longrightarrow> last ((c # name) # rest) = last rest"
    using wild_in_pattern by auto
  consider (param) "c = CHR '':''" | (wild) "c = CHR ''*''" | (static) "c \<noteq> CHR '':''" "c \<noteq> CHR ''*''"
    by blast
  then show ?case
  proof cases
    case param
    show ?thesis
    proof (cases "param_child n")
      case (Some child)
      have "fst (remove_segments ((c # name) # rest) n) = fst (remove_segments rest child)"
        using param Some by (auto simp: Let_def split: prod.split bool.split)
      moreover have "\<not> (c \<noteq> CHR '':'' \<and> c \<noteq> CHR ''*'')" by (simp add: param)
      ultimately show ?thesis
        using "3.IH"(2) [OF _ param Some] "3.prems" Some param last tree_names_wild [of "pattern_key rest" child]
        by (auto simp: sub_get_def)
    qed (simp add: param)
  next
    case static
    show ?thesis
    proof (cases "go_get (children n) (c # name)")
      case (Some child)
      have "fst (remove_segments ((c # name) # rest) n) = fst (remove_segments rest child)"
        using static Some by (auto simp: Let_def split: prod.split bool.split)
      moreover have "c \<noteq> CHR '':'' \<and> c \<noteq> CHR ''*''" using static by simp
      ultimately show ?thesis
        using "3.IH"(1) [OF _ Some] "3.prems" Some static last
        by (auto simp: sub_get_def)
    qed (simp add: static)
  next
    case wild
    then show ?thesis
      by (cases "wildcard_child n") (auto simp: Let_def sub_get_def)
  qed
qed

end
