(* ===== verification/Matcher.thy ===== *)
theory Matcher
  imports Radix
begin

text \<open>
  The rest of the request router of \<open>ghttp/gserver\<close>: path utilities (\<open>util.go\<close>), the matcher
  of one method with its three tables (\<open>method_matcher.go\<close>), the matcher of the server
  (\<open>matcher.go\<close>), router groups (\<open>routergroup.go\<close>) and the routing part of \<open>FastHandler\<close>
  (\<open>server.go\<close>).  A Go panic is \<open>Panic\<close>; the locks serialise the operations and carry no state.
\<close>

section \<open>Path utilities\<close>

fun longest_common_prefix :: "string \<Rightarrow> string \<Rightarrow> nat" where
  "longest_common_prefix (a # as) (b # bs) = (if a \<noteq> b then 0 else Suc (longest_common_prefix as bs))"
| "longest_common_prefix _ _ = 0"

definition last_char :: "string \<Rightarrow> ('e, char) outcome" where
  "last_char s = (if s = [] then Panic else Ok (last s))"

definition join_paths :: "string \<Rightarrow> string \<Rightarrow> ('e, string) outcome" where
  "join_paths absolute relative =
     (if relative = [] then Ok absolute
      else
        let final = path_join absolute relative in
        bindO (last_char relative) (\<lambda>r.
          if r = slash
          then bindO (last_char final) (\<lambda>f. if f \<noteq> slash then Ok (final @ [slash]) else Ok final)
          else Ok final))"

text \<open>The loop over the name of a parameter: up to the next slash, no second wildcard.\<close>

fun param_name_ok :: "string \<Rightarrow> bool" where
  "param_name_ok [] \<longleftrightarrow> True"
| "param_name_ok (c # cs) \<longleftrightarrow>
     (if c = slash then True else if c = CHR '':'' \<or> c = CHR ''*'' then False else param_name_ok cs)"

text \<open>The loop over the path; \<open>prev\<close> is the byte before, \<open>None\<close> at index 0.\<close>

fun check_path_from :: "char option \<Rightarrow> string \<Rightarrow> bool" where
  "check_path_from prev [] \<longleftrightarrow> True"
| "check_path_from prev (c # rest) \<longleftrightarrow>
     (if c = CHR '':'' then
        (if (rest \<noteq> [] \<and> hd rest = slash) \<or> rest = [] then False
         else if \<not> param_name_ok rest then False
         else check_path_from (Some c) rest)
      else if c = CHR ''*'' then
        (if rest = [] then False
         else if prev \<noteq> None \<and> prev \<noteq> Some slash then False
         else if slash \<in> set (c # rest) then False
         else check_path_from (Some c) rest)
      else if c = CHR ''?'' then False
      else check_path_from (Some c) rest)"

definition check_path_valid :: "string \<Rightarrow> ('e, unit) outcome" where
  "check_path_valid path =
     (if path = [] then Panic
      else if hd path \<noteq> slash then Panic
      else if check_path_from None path then Ok () else Panic)"

definition parse_http_version :: "string \<Rightarrow> int \<times> int \<times> bool" where
  "parse_http_version vers =
     (if vers = ''HTTP/1.1'' then (1, 1, True)
      else if vers = ''HTTP/1.0'' then (1, 0, True)
      else if vers = ''HTTP/2'' \<or> vers = ''HTTP/2.0'' then (2, 0, True)
      else (0, 0, False))"

section \<open>The matcher of one method\<close>

record path_feature =
  pf_length :: nat
  pf_segments :: nat
  pf_param :: bool
  pf_wild :: bool

definition feature_step :: "path_feature \<Rightarrow> string \<Rightarrow> path_feature" where
  "feature_step f seg =
     (let f = (if has_prefix seg '':'' then f\<lparr>pf_param := True\<rparr> else f)
      in if has_prefix seg ''*'' then f\<lparr>pf_wild := True\<rparr> else f)"

definition extract_path_feature :: "string \<Rightarrow> path_feature" where
  "extract_path_feature path =
     (let segs = split_path_segments path in
      foldl feature_step
        \<lparr>pf_length = length path, pf_segments = length segs, pf_param = False, pf_wild = False\<rparr> segs)"

record 'h method_matcher =
  mm_static :: "(string, 'h route_entry) gomap"
  mm_segments :: "(nat, 'h radix_tree) gomap"
  mm_radix :: "'h radix_tree"

definition new_method_matcher :: "'h method_matcher" where
  "new_method_matcher = \<lparr>mm_static = [], mm_segments = [], mm_radix = new_radix_tree\<rparr>"

definition err_outcome :: "route_error option \<Rightarrow> (route_error, unit) outcome" where
  "err_outcome e = (case e of None \<Rightarrow> Ok () | Some err \<Rightarrow> Err err)"

definition mm_add_route ::
  "string \<Rightarrow> 'h list \<Rightarrow> 'h method_matcher \<Rightarrow> (route_error, unit) outcome \<times> 'h method_matcher" where
  "mm_add_route path hs m =
     (case (check_path_valid path :: (route_error, unit) outcome) of
        Ok _ \<Rightarrow>
          (let e = new_route_entry path hs; f = extract_path_feature path in
           if \<not> pf_param f \<and> \<not> pf_wild f then
             (if go_get (mm_static m) path \<noteq> None then (Err (DuplicateStaticRoute path), m)
              else (Ok (), m\<lparr>mm_static := go_put path e (mm_static m)\<rparr>))
           else if pf_wild f then
             (case radix_insert (Some e) (mm_radix m) of
                (err, t) \<Rightarrow> (err_outcome err, m\<lparr>mm_radix := t\<rparr>))
           else
             (let t = (case go_get (mm_segments m) (pf_segments f) of None \<Rightarrow> new_radix_tree | Some t \<Rightarrow> t) in
              case radix_insert (Some e) t of
                (err, t') \<Rightarrow> (err_outcome err, m\<lparr>mm_segments := go_put (pf_segments f) t' (mm_segments m)\<rparr>)))
      | _ \<Rightarrow> (Panic, m))"

text \<open>\<open>pathSegmentCount\<close>, with its three index loops.\<close>

function skip_front :: "string \<Rightarrow> nat \<Rightarrow> nat \<Rightarrow> nat" where
  "skip_front p i j = (if i < j \<and> p ! i = slash then skip_front p (i + 1) j else i)"
  by pat_completeness auto
termination by (relation "measure (\<lambda>(p, i, j). j - i)") auto

function skip_back :: "string \<Rightarrow> nat \<Rightarrow> nat \<Rightarrow> nat" where
  "skip_back p i j = (if i < j \<and> p ! (j - 1) = slash then skip_back p i (j - 1) else j)"
  by pat_completeness auto
termination by (relation "measure (\<lambda>(p, i, j). j - i)") auto

function count_slashes :: "string \<Rightarrow> nat \<Rightarrow> nat \<Rightarrow> nat" where
  "count_slashes p k j =
     (if k < j then (if p ! k = slash then 1 else 0) + count_slashes p (k + 1) j else 0)"
  by pat_completeness auto
termination by (relation "measure (\<lambda>(p, k, j). j - k)") auto

declare skip_front.simps [simp del] skip_back.simps [simp del] count_slashes.simps [simp del]

definition path_segment_count :: "string \<Rightarrow> nat" where
  "path_segment_count path =
     (if path = [] then 0
      else
        (let i = skip_front path 0 (length path); j = skip_back path i (length path) in
         if j \<le> i then 0 else 1 + count_slashes path i j))"

definition mm_match :: "string \<Rightarrow> 'h method_matcher \<Rightarrow> 'h match_result option" where
  "mm_match path m =
     (case go_get (mm_static m) path of
        Some e \<Rightarrow> Some \<lparr>mr_path = path, mr_handlers = re_handlers e, mr_params = None\<rparr>
      | None \<Rightarrow>
          (case (case go_get (mm_segments m) (path_segment_count path) of
                   None \<Rightarrow> None
                 | Some t \<Rightarrow> radix_search path t) of
             Some r \<Rightarrow> Some r
           | None \<Rightarrow> radix_search path (mm_radix m)))"

definition mm_match_into ::
  "string \<Rightarrow> (string, string) gomap \<Rightarrow> 'h method_matcher \<Rightarrow> 'h route_entry option \<times> (string, string) gomap" where
  "mm_match_into path dst m =
     (let dst = (if go_len dst \<noteq> 0 then [] else dst) in
      case go_get (mm_static m) path of
        Some e \<Rightarrow> (Some e, dst)
      | None \<Rightarrow>
          (case (case go_get (mm_segments m) (path_segment_count path) of
                   None \<Rightarrow> (None, dst)
                 | Some t \<Rightarrow> radix_search_into path dst t) of
             (Some e, dst') \<Rightarrow> (Some e, dst')
           | (None, dst') \<Rightarrow> radix_search_into path dst' (mm_radix m)))"

definition mm_remove_route ::
  "string \<Rightarrow> 'h method_matcher \<Rightarrow> (route_error, unit) outcome \<times> 'h method_matcher" where
  "mm_remove_route path m =
     (let f = extract_path_feature path in
      if \<not> pf_param f \<and> \<not> pf_wild f then
        (if go_get (mm_static m) path \<noteq> None
         then (Ok (), m\<lparr>mm_static := go_del path (mm_static m)\<rparr>)
         else (Err (StaticRouteNotFound path), m))
      else if pf_wild f then
        (case radix_remove path (mm_radix m) of (err, t) \<Rightarrow> (err_outcome err, m\<lparr>mm_radix := t\<rparr>))
      else
        (case go_get (mm_segments m) (pf_segments f) of
           None \<Rightarrow> (Panic, m)
         | Some t \<Rightarrow>
             (case radix_remove path t of
                (err, t') \<Rightarrow> (err_outcome err, m\<lparr>mm_segments := go_put (pf_segments f) t' (mm_segments m)\<rparr>))))"

section \<open>The matcher of the server\<close>

type_synonym 'h server_matcher = "(string, 'h method_matcher) gomap"

definition new_server_matcher :: "'h server_matcher" where
  "new_server_matcher = []"

definition lookup_route :: "string \<Rightarrow> string \<Rightarrow> 'h server_matcher \<Rightarrow> 'h match_result option" where
  "lookup_route meth path s = (case go_get s meth of None \<Rightarrow> None | Some m \<Rightarrow> mm_match path m)"

text \<open>The results are the handlers and the path of the route, then \<open>dstParams\<close> as it is left.\<close>

definition lookup_into ::
  "string \<Rightarrow> string \<Rightarrow> (string, string) gomap \<Rightarrow> 'h server_matcher \<Rightarrow>
     ('h list \<times> string) option \<times> (string, string) gomap" where
  "lookup_into meth path dst s =
     (case go_get s meth of
        None \<Rightarrow> (None, dst)
      | Some m \<Rightarrow>
          (case mm_match_into path dst m of
             (None, dst') \<Rightarrow> (None, dst')
           | (Some e, dst') \<Rightarrow> (Some (re_handlers e, re_path e), dst')))"

definition add_route ::
  "string \<Rightarrow> string \<Rightarrow> 'h list \<Rightarrow> 'h server_matcher \<Rightarrow> (route_error, unit) outcome \<times> 'h server_matcher" where
  "add_route meth path hs s =
     (let m = (case go_get s meth of None \<Rightarrow> new_method_matcher | Some m \<Rightarrow> m) in
      case mm_add_route path hs m of (res, m') \<Rightarrow> (res, go_put meth m' s))"

definition remove_route ::
  "string \<Rightarrow> string \<Rightarrow> 'h server_matcher \<Rightarrow> (route_error, unit) outcome \<times> 'h server_matcher" where
  "remove_route meth path s =
     (case go_get s meth of
        None \<Rightarrow> (Err (NoRoutesFor meth), s)
      | Some m \<Rightarrow> (case mm_remove_route path m of (res, m') \<Rightarrow> (res, go_put meth m' s)))"

section \<open>Router groups\<close>

record 'h router_group =
  rg_handlers :: "'h list"
  rg_path :: string
  rg_root :: bool

definition root_group :: "'h router_group" where
  "root_group = \<lparr>rg_handlers = [], rg_path = ''/'', rg_root = True\<rparr>"

definition absolute_path :: "string \<Rightarrow> 'h router_group \<Rightarrow> ('e, string) outcome" where
  "absolute_path relative g = join_paths (rg_path g) relative"

definition combine_handlers :: "'h list \<Rightarrow> 'h router_group \<Rightarrow> 'h list" where
  "combine_handlers hs g =
     (if length (rg_handlers g) + length hs = 0 then [] else rg_handlers g @ hs)"

definition sub_group :: "string \<Rightarrow> 'h list \<Rightarrow> 'h router_group \<Rightarrow> ('e, 'h router_group) outcome" where
  "sub_group relative hs g =
     bindO (absolute_path relative g) (\<lambda>p.
       Ok \<lparr>rg_handlers = combine_handlers hs g, rg_path = p, rg_root = False\<rparr>)"

definition group_use :: "'h list \<Rightarrow> 'h router_group \<Rightarrow> 'h router_group" where
  "group_use hs g = g\<lparr>rg_handlers := rg_handlers g @ hs\<rparr>"

definition method_ok :: "string \<Rightarrow> bool" where
  "method_ok m \<longleftrightarrow> m \<noteq> [] \<and> (\<forall>c \<in> set m. of_char CHR ''A'' \<le> (of_char c :: nat) \<and> (of_char c :: nat) \<le> of_char CHR ''Z'')"

text \<open>\<open>Server.addRoute\<close>: every error of the matcher is turned into a panic.\<close>

definition server_add_route ::
  "string \<Rightarrow> string \<Rightarrow> 'h list \<Rightarrow> 'h server_matcher \<Rightarrow> (route_error, unit) outcome \<times> 'h server_matcher" where
  "server_add_route meth path hs s =
     (if meth = [] then (Panic, s)
      else if length hs = 0 then (Panic, s)
      else (case (check_path_valid path :: (route_error, unit) outcome) of
              Ok _ \<Rightarrow>
                (case add_route meth path hs s of
                   (Ok _, s') \<Rightarrow> (Ok (), s')
                 | (_, s') \<Rightarrow> (Panic, s'))
            | _ \<Rightarrow> (Panic, s)))"

definition group_add_route ::
  "string \<Rightarrow> string \<Rightarrow> 'h list \<Rightarrow> 'h router_group \<Rightarrow> 'h server_matcher \<Rightarrow>
     (route_error, unit) outcome \<times> 'h server_matcher" where
  "group_add_route meth path hs g s =
     (if \<not> method_ok meth then (Panic, s)
      else (case (absolute_path path g :: (route_error, string) outcome) of
              Ok p \<Rightarrow> server_add_route meth p (combine_handlers hs g) s
            | _ \<Rightarrow> (Panic, s)))"

definition any_methods :: "string list" where
  "any_methods = [''GET'', ''POST'', ''PUT'', ''PATCH'', ''HEAD'', ''OPTIONS'', ''DELETE'', ''CONNECT'', ''TRACE'']"

fun group_match ::
  "string list \<Rightarrow> string \<Rightarrow> 'h list \<Rightarrow> 'h router_group \<Rightarrow> 'h server_matcher \<Rightarrow>
     (route_error, unit) outcome \<times> 'h server_matcher" where
  "group_match [] path hs g s = (Ok (), s)"
| "group_match (m # ms) path hs g s =
     (case group_add_route m path hs g s of
        (Ok _, s') \<Rightarrow> group_match ms path hs g s'
      | (res, s') \<Rightarrow> (res, s'))"

definition group_any ::
  "string \<Rightarrow> 'h list \<Rightarrow> 'h router_group \<Rightarrow> 'h server_matcher \<Rightarrow>
     (route_error, unit) outcome \<times> 'h server_matcher" where
  "group_any path hs g s = group_match any_methods path hs g s"

section \<open>Dispatch\<close>

text \<open>
  The routing of \<open>FastHandler\<close>.  What \<open>fasthttp\<close> supplies is an argument: the path as sent
  (\<open>PathOriginal\<close>), the normalised one (\<open>Path\<close>), and the request URI.
\<close>

definition contains_dotdot :: "string \<Rightarrow> bool" where
  "contains_dotdot s = list_ex (\<lambda>i. take 2 (drop i s) = ''..'') [0 ..< length s]"

definition route_path :: "bool \<Rightarrow> string \<Rightarrow> string \<Rightarrow> string" where
  "route_path use_raw original normalised =
     (let p = (if original = [] then normalised else original);
          p = (if \<not> use_raw \<and> p \<noteq> [] \<and> \<not> contains_dotdot p then path_clean p else p)
      in if p = [] then ''/'' else p)"

datatype 'h dispatch =
    BadRequest
  | NotFound
  | Run "'h list" string "(string, string) gomap"

definition fast_handler ::
  "bool \<Rightarrow> string \<Rightarrow> string \<Rightarrow> string \<Rightarrow> string \<Rightarrow> 'h server_matcher \<Rightarrow> 'h dispatch" where
  "fast_handler use_raw meth original normalised uri s =
     (if contains_dotdot uri then BadRequest
      else (case lookup_into meth (route_path use_raw original normalised) [] s of
              (None, _) \<Rightarrow> NotFound
            | (Some (hs, full), ps) \<Rightarrow> Run hs full ps))"

end
