(* ===== verification/RouterFacts.thy ===== *)
theory RouterFacts
  imports RadixFacts Matcher
begin

text \<open>
  What the router of \<open>ghttp/gserver\<close> guarantees: the tree refines a finite map from patterns to
  routes, lookups find the preferred match with its parameters, the two lookup functions agree,
  and registered routes are served; and the places where it does not behave as it reads.
\<close>

section \<open>The tree as a map\<close>

definition tree_map :: "'h radix_tree \<Rightarrow> seg_key list \<Rightarrow> 'h route_entry option" where
  "tree_map t = sub_get (rt_root t)"

definition path_key :: "string \<Rightarrow> seg_key list" where
  "path_key path = pattern_key (split_path_segments path)"

definition radix_ok :: "'h radix_tree \<Rightarrow> bool" where
  "radix_ok t \<longleftrightarrow> finite (dom (tree_map t)) \<and> route_count t = int (card (dom (tree_map t)))"

lemma tree_map_new: "tree_map new_radix_tree = (\<lambda>_. None)"
  by (simp add: tree_map_def new_radix_tree_def fun_eq_iff)

lemma radix_ok_new: "radix_ok new_radix_tree"
  by (simp add: radix_ok_def tree_map_new dom_def) (simp add: new_radix_tree_def route_count_def)

lemma radix_insert_get:
  assumes "radix_insert (Some e) t = (err, t')"
  shows "(err = None \<longrightarrow> tree_map t (path_key (re_path e)) = None \<and>
            tree_map t' = (tree_map t)(path_key (re_path e) := Some e) \<and> route_count t' = route_count t + 1) \<and>
    (err \<noteq> None \<longrightarrow> tree_map t' = tree_map t \<and> route_count t' = route_count t)"
proof -
  let ?root = "case rt_root t of None \<Rightarrow> new_radix_node [] | Some n \<Rightarrow> n"
  have root: "tree_get ?root = tree_map t"
    by (simp add: tree_map_def fun_eq_iff default_get)
  obtain er root' where ins: "insert_segments e (split_path_segments (re_path e)) ?root = (er, root')"
    by (cases "insert_segments e (split_path_segments (re_path e)) ?root")
  have sub: "sub_get (Some root') = tree_get root'" by (simp add: fun_eq_iff)
  show ?thesis
    using assms ins insert_segments_get [OF ins] root sub
    by (cases er) (auto simp: radix_insert_def Let_def path_key_def tree_map_def route_count_def)
qed

lemma radix_insert_error:
  assumes "radix_insert (Some e) t = (Some err, t')" and "catch_all_last (split_path_segments (re_path e))"
  shows "err = DuplicateRoute (re_path e) \<and> tree_map t (path_key (re_path e)) \<noteq> None"
proof -
  let ?root = "case rt_root t of None \<Rightarrow> new_radix_node [] | Some n \<Rightarrow> n"
  have root: "tree_get ?root = tree_map t"
    by (simp add: tree_map_def fun_eq_iff default_get)
  obtain er root' where ins: "insert_segments e (split_path_segments (re_path e)) ?root = (er, root')"
    by (cases "insert_segments e (split_path_segments (re_path e)) ?root")
  with assms(1) have "er = Some err" by (cases er) (auto simp: radix_insert_def Let_def)
  with insert_segments_error [of e _ ?root err root'] ins assms(2) root show ?thesis
    by (auto simp: path_key_def)
qed

text \<open>
  C36: insertion into the routing tree is an update of the map of patterns.  A new pattern is
  added, counted, and changes nothing else; a pattern that is taken, whatever the names of its
  parameters, is refused with the duplicate error and changes nothing.
\<close>

theorem radix_insert_refines:
  assumes "catch_all_last (split_path_segments (re_path e))"
  shows "case tree_map t (path_key (re_path e)) of
      None \<Rightarrow> fst (radix_insert (Some e) t) = None \<and>
        tree_map (snd (radix_insert (Some e) t)) = (tree_map t)(path_key (re_path e) := Some e) \<and>
        route_count (snd (radix_insert (Some e) t)) = route_count t + 1
    | Some _ \<Rightarrow> fst (radix_insert (Some e) t) = Some (DuplicateRoute (re_path e)) \<and>
        tree_map (snd (radix_insert (Some e) t)) = tree_map t \<and>
        route_count (snd (radix_insert (Some e) t)) = route_count t"
proof -
  obtain err t' where ins: "radix_insert (Some e) t = (err, t')" by (cases "radix_insert (Some e) t")
  show ?thesis
    using ins radix_insert_get [OF ins] radix_insert_error [OF _ assms, of t _ t']
    by (cases err) (auto split: option.split)
qed

definition demo_route :: "nat route_entry" where
  "demo_route = new_route_entry ''/u/:id'' [7]"

theorem radix_insert_refines_witness:
  "tree_map (snd (radix_insert (Some demo_route) new_radix_tree)) [Static ''u'', Param] = Some demo_route"
proof -
  have segs: "split_path_segments (re_path demo_route) = [''u'', '':id'']"
    by (simp add: demo_route_def new_route_entry_def split_path_segments_def trim_slashes_def)
  then show ?thesis
    using radix_insert_refines [of demo_route new_radix_tree] by (simp add: path_key_def tree_map_new)
qed

lemma radix_remove_get:
  assumes "radix_remove path t = (err, t')"
  shows "(err = None \<longrightarrow> tree_map t (path_key path) \<noteq> None \<and>
            tree_map t' = (tree_map t)(path_key path := None) \<and> route_count t' = route_count t - 1) \<and>
    (err \<noteq> None \<longrightarrow> tree_map t' = tree_map t \<and> route_count t' = route_count t)"
proof (cases "rt_root t")
  case None
  with assms show ?thesis by (auto simp: radix_remove_def)
next
  case (Some n)
  obtain r p n' where rem: "remove_segments (split_path_segments path) n = (r, p, n')"
    by (cases "remove_segments (split_path_segments path) n") auto
  have sub: "sub_get (Some m) = tree_get m" for m :: "'a radix_node" by (simp add: fun_eq_iff)
  show ?thesis
    using assms Some rem remove_segments_get [OF rem] sub
    by (cases r) (auto simp: radix_remove_def path_key_def tree_map_def route_count_def)
qed

text \<open>The name the tree keeps for the catch-all of a pattern.\<close>

definition wild_name :: "'h radix_tree \<Rightarrow> seg_key list \<Rightarrow> string" where
  "wild_name t ks = (case rt_root t of None \<Rightarrow> [] | Some n \<Rightarrow> last (tree_names n ks))"

text \<open>
  Removal from the routing tree deletes the route of that pattern and nothing else, keeps
  the count, and reports a pattern that is not there.  The names of parameters play no part (a
  route is removed by a pattern with other names); only the name of a catch-all is compared.
\<close>

theorem radix_remove_refines:
  assumes "[] \<notin> set (split_path_segments path)"
  shows "if catch_all_last (split_path_segments path) \<and> tree_map t (path_key path) \<noteq> None \<and>
        (CatchAll \<in> set (path_key path) \<longrightarrow> wild_name t (path_key path) = tl (last (split_path_segments path)))
    then fst (radix_remove path t) = None \<and>
      tree_map (snd (radix_remove path t)) = (tree_map t)(path_key path := None) \<and>
      route_count (snd (radix_remove path t)) = route_count t - 1
    else fst (radix_remove path t) \<noteq> None \<and> tree_map (snd (radix_remove path t)) = tree_map t \<and>
      route_count (snd (radix_remove path t)) = route_count t"
proof -
  obtain err t' where rem: "radix_remove path t = (err, t')" by (cases "radix_remove path t")
  have "err = None \<longleftrightarrow> catch_all_last (split_path_segments path) \<and> tree_map t (path_key path) \<noteq> None \<and>
      (CatchAll \<in> set (path_key path) \<longrightarrow> wild_name t (path_key path) = tl (last (split_path_segments path)))"
  proof (cases "rt_root t")
    case None
    with rem show ?thesis by (auto simp: radix_remove_def tree_map_def)
  next
    case (Some n)
    have "err = None \<longleftrightarrow> fst (remove_segments (split_path_segments path) n)"
      using rem Some by (auto simp: radix_remove_def split: prod.splits bool.splits)
    with remove_segments_removed [OF assms, of n] Some show ?thesis
      by (simp add: tree_map_def path_key_def wild_name_def)
  qed
  with rem radix_remove_get [OF rem] show ?thesis by auto
qed

theorem radix_remove_refines_witness:
  "fst (radix_remove ''/u/:name'' (snd (radix_insert (Some demo_route) new_radix_tree))) = None"
proof -
  have segs: "split_path_segments ''/u/:name'' = [''u'', '':name'']"
    and segs': "split_path_segments (re_path demo_route) = [''u'', '':id'']"
    by (simp_all add: demo_route_def new_route_entry_def split_path_segments_def trim_slashes_def)
  obtain err t' where ins: "radix_insert (Some demo_route) new_radix_tree = (err, t')"
    by (cases "radix_insert (Some demo_route) new_radix_tree")
  have "err = None"
    using radix_insert_error [of demo_route new_radix_tree _ t'] ins segs' by (cases err) (auto simp: tree_map_new)
  with radix_insert_get [OF ins] segs' have "tree_map t' [Static ''u'', Param] = Some demo_route"
    by (simp add: path_key_def)
  then show ?thesis
    using radix_remove_refines [of "''/u/:name''" t'] segs ins by (simp add: path_key_def)
qed

section \<open>Counting the segments of a path\<close>

lemma skip_front_takeWhile:
  "j \<le> length p \<Longrightarrow> skip_front p i j = i + length (takeWhile (\<lambda>c. c = slash) (take (j - i) (drop i p)))"
proof (induction p i j rule: skip_front.induct)
  case (1 p i j)
  show ?case
  proof (cases "i < j")
    case True
    then have "take (j - i) (drop i p) = p ! i # take (j - Suc i) (drop (Suc i) p)"
      using "1.prems" by (metis Cons_nth_drop_Suc Suc_diff_Suc order_less_le_trans take_Suc_Cons)
    with 1 True show ?thesis by (simp add: skip_front.simps [of p i j])
  qed (simp add: skip_front.simps [of p i j])
qed

lemma skip_back_takeWhile:
  "j \<le> length p \<Longrightarrow> skip_back p i j = j - length (takeWhile (\<lambda>c. c = slash) (rev (take (j - i) (drop i p))))"
proof (induction p i j rule: skip_back.induct)
  case (1 p i j)
  show ?case
  proof (cases "i < j")
    case True
    then have "rev (take (j - i) (drop i p)) = p ! (j - 1) # rev (take (j - 1 - i) (drop i p))"
      using "1.prems" take_Suc_conv_app_nth [of "j - 1 - i" "drop i p"] by (simp add: Suc_diff_Suc)
    with 1 True show ?thesis by (simp add: skip_back.simps [of p i j])
  qed (simp add: skip_back.simps [of p i j])
qed

lemma count_slashes_count_list:
  "j \<le> length p \<Longrightarrow> count_slashes p k j = count_list (take (j - k) (drop k p)) slash"
proof (induction p k j rule: count_slashes.induct)
  case (1 p k j)
  show ?case
  proof (cases "k < j")
    case True
    then have "take (j - k) (drop k p) = p ! k # take (j - Suc k) (drop (Suc k) p)"
      using "1.prems" by (metis Cons_nth_drop_Suc Suc_diff_Suc order_less_le_trans take_Suc_Cons)
    with 1 True show ?thesis by (simp add: count_slashes.simps [of p k j])
  qed (simp add: count_slashes.simps [of p k j])
qed

text \<open>
  \<open>pathSegmentCount\<close>, the loop the lookup uses to avoid allocations, counts the segments
  that \<open>splitPathSegments\<close> yields and registration counts, for every path.
\<close>

theorem path_segment_count_correct:
  "path_segment_count path = length (split_path_segments path)"
proof -
  let ?P = "\<lambda>c. c = slash"
  define a where "a = length (takeWhile ?P path)"
  define b where "b = length (takeWhile ?P (rev (drop a path)))"
  have a: "skip_front path 0 (length path) = a"
    by (simp add: skip_front_takeWhile a_def)
  have j: "skip_back path a (length path) = length path - b"
    by (simp add: skip_back_takeWhile b_def)
  have drop: "dropWhile ?P path = drop a path"
    by (simp add: a_def dropWhile_eq_drop)
  have b: "b \<le> length path - a"
    unfolding b_def by (metis length_drop length_rev length_takeWhile_le)
  have trim: "trim_slashes path = take (length path - b - a) (drop a path)"
  proof -
    have "dropWhile ?P (rev (drop a path)) = drop b (rev (drop a path))"
      unfolding b_def by (rule dropWhile_eq_drop)
    moreover have "rev (drop b (rev ys)) = take (length ys - b) ys" for ys :: string
      using rev_drop [of b "rev ys"] by simp
    ultimately show ?thesis
      unfolding trim_slashes_def drop by (simp only: length_drop diff_commute [of _ a b])
  qed
  have le: "a \<le> length path" by (simp add: a_def length_takeWhile_le)
  show ?thesis
  proof (cases "length path - b \<le> a")
    case True
    then show ?thesis
      using trim by (simp add: path_segment_count_def a j split_path_segments_def Let_def)
  next
    case False
    then have "trim_slashes path \<noteq> []" using trim le by auto
    moreover have "count_slashes path a (length path - b) = count_list (trim_slashes path) slash"
      by (simp add: count_slashes_count_list trim)
    ultimately show ?thesis
      using False by (auto simp: path_segment_count_def a j split_path_segments_def length_split_on Let_def)
  qed
qed

section \<open>Searching\<close>







definition agree :: "'a \<times> params \<Rightarrow> 'a \<times> params \<Rightarrow> bool" where
  "agree a b \<longleftrightarrow> fst a = fst b \<and> ensure_params (snd a) = ensure_params (snd b)"

lemma agree_find_wildcard:
  "ensure_params ps = ensure_params ps' \<Longrightarrow> agree (find_wildcard n v ps) (find_wildcard n v ps')"
  by (auto simp: agree_def find_wildcard_def split: option.split)

lemma agree_find_param:
  "ensure_params ps = ensure_params ps' \<Longrightarrow> agree (find_param seg rest n ps) (find_param seg rest n ps')"
  by (simp add: agree_def find_param_def split: option.split)

lemma agree_find_node:
  "ensure_params ps = ensure_params ps' \<Longrightarrow> agree (find_node segs n ps) (find_node segs n ps')"
proof (induction segs arbitrary: n ps ps')
  case Nil
  then show ?case
    using agree_find_wildcard [OF Nil, of n "[]"]
    by (cases "node_entry n") (simp_all add: agree_def)
next
  case (Cons seg rest)
  obtain r ps1 where s: "find_static seg rest n ps = (r, ps1)" by (cases "find_static seg rest n ps")
  obtain r' ps1' where s': "find_static seg rest n ps' = (r', ps1')" by (cases "find_static seg rest n ps'")
  have 1: "r' = r \<and> ensure_params ps1' = ensure_params ps1"
  proof (cases "seg = [] \<or> go_get (children n) seg = None")
    case True
    with s s' Cons.prems show ?thesis by (auto simp: find_static_def split: if_splits)
  next
    case False
    then obtain c where "go_get (children n) seg = Some c" by auto
    with s s' False Cons.IH [OF Cons.prems, of c] show ?thesis by (simp add: find_static_def agree_def)
  qed
  obtain q ps2 where p: "find_param seg rest n ps1 = (q, ps2)" by (cases "find_param seg rest n ps1")
  obtain q' ps2' where p': "find_param seg rest n ps1' = (q', ps2')" by (cases "find_param seg rest n ps1'")
  have 2: "q' = q \<and> ensure_params ps2' = ensure_params ps2"
    using agree_find_param [of ps1 ps1' seg rest n] 1 p p' by (simp add: agree_def)
  show ?case
    using 1 2 agree_find_wildcard [of ps2 ps2' n "join_with slash (seg # rest)"]
    unfolding find_node_Cons s s' by (cases r; cases q) (simp_all add: p p' agree_def)
qed

text \<open>A search that fails leaves no parameter behind.\<close>

definition param_keys :: "params \<Rightarrow> string set" where
  "param_keys ps = fst ` set (ensure_params ps)"

lemma param_keys_put: "param_keys (Some (go_put x v (ensure_params ps))) = insert x (param_keys ps)"
  by (auto simp: param_keys_def ensure_params_def go_put_def dom_update)

lemma param_keys_del: "param_keys (Some (go_del x (ensure_params ps))) = param_keys ps - {x}"
  using arg_cong [OF delete_keys [of x "ensure_params ps"], of set]
  by (simp add: param_keys_def ensure_params_def go_del_def)

lemma failed_wildcard_keys: "find_wildcard n v ps = (None, ps') \<Longrightarrow> ps' = ps"
  by (auto simp: find_wildcard_def split: option.splits)

lemma failed_search_keys:
  "find_node segs n ps = (None, ps') \<Longrightarrow> param_keys ps' \<subseteq> param_keys ps"
proof (induction segs arbitrary: n ps ps')
  case Nil
  then show ?case by (auto dest: failed_wildcard_keys split: option.splits)
next
  case (Cons seg rest)
  obtain ps1 where s: "find_static seg rest n ps = (None, ps1)"
    using Cons.prems by (auto simp: find_node_Cons split: prod.splits option.splits)
  obtain ps2 where p: "find_param seg rest n ps1 = (None, ps2)"
    using Cons.prems s by (auto simp: find_node_Cons split: prod.splits option.splits)
  have w: "ps' = ps2"
    using Cons.prems s p by (auto simp: find_node_Cons dest: failed_wildcard_keys)
  have "param_keys ps1 \<subseteq> param_keys ps"
    using s Cons.IH by (auto simp: find_static_def split: if_splits option.splits)
  moreover have "param_keys ps2 \<subseteq> param_keys ps1"
  proof (cases "seg = [] \<or> param_child n = None")
    case True
    with p show ?thesis by (auto simp: find_param_def split: if_splits)
  next
    case False
    then obtain c where c: "param_child n = Some c" by auto
    let ?put = "Some (go_put (param_name c) seg (ensure_params ps1))"
    obtain ps3 where n: "find_node rest c ?put = (None, ps3)"
      "ps2 = Some (go_del (param_name c) (ensure_params ps3))"
      using p False c by (auto simp: find_param_def split: prod.splits option.splits)
    with Cons.IH [OF n(1)] show ?thesis by (auto simp: param_keys_put param_keys_del)
  qed
  ultimately show ?case using w by auto
qed

section \<open>The two lookups\<close>

lemma param_keys_empty: "param_keys ps = {} \<longleftrightarrow> ensure_params ps = []"
  by (simp add: param_keys_def)

lemma search_into_search:
  assumes "radix_search_into path [] t = (res, dst)"
  shows "case radix_search path t of
      None \<Rightarrow> res = None \<and> dst = []
    | Some r \<Rightarrow> \<exists>e. res = Some e \<and> mr_handlers r = re_handlers e \<and> mr_path r = re_path e \<and>
        ensure_params (mr_params r) = dst"
proof (cases "rt_root t")
  case None
  with assms show ?thesis by (simp add: radix_search_def radix_search_into_def)
next
  case (Some n)
  let ?segs = "split_path_segments path"
  obtain r1 p1 where 1: "find_node ?segs n None = (r1, p1)" by (cases "find_node ?segs n None")
  obtain r2 p2 where 2: "find_node ?segs n (Some []) = (r2, p2)" by (cases "find_node ?segs n (Some [])")
  have eq: "r2 = r1 \<and> ensure_params p2 = ensure_params p1"
    using agree_find_node [of None "Some []" ?segs n] 1 2 by (simp add: agree_def ensure_params_def)
  have "r2 = None \<Longrightarrow> ensure_params p2 = []"
    using failed_search_keys [of ?segs n "Some []" p2] 2 param_keys_empty [of p2]
    by (simp add: param_keys_def ensure_params_def [of "Some []"])
  with 1 2 eq Some assms show ?thesis
    by (cases r1) (auto simp: radix_search_def radix_search_into_def to_result_def)
qed

text \<open>The states of the matcher that routes can be added to and removed from.\<close>

inductive router_reachable :: "'h server_matcher \<Rightarrow> bool" where
  fresh: "router_reachable new_server_matcher"
| added: "router_reachable s \<Longrightarrow> router_reachable (snd (add_route meth path hs s))"
| removed: "router_reachable s \<Longrightarrow> router_reachable (snd (remove_route meth path s))"

definition static_ok :: "'h method_matcher \<Rightarrow> bool" where
  "static_ok m \<longleftrightarrow> (\<forall>k e. go_get (mm_static m) k = Some e \<longrightarrow> re_path e = k)"

lemma static_ok_new: "static_ok new_method_matcher"
  by (simp add: static_ok_def new_method_matcher_def)

lemma static_ok_add: "static_ok m \<Longrightarrow> static_ok (snd (mm_add_route path hs m))"
  by (auto simp: static_ok_def mm_add_route_def Let_def new_route_entry_def split: outcome.split prod.split)

lemma static_ok_remove: "static_ok m \<Longrightarrow> static_ok (snd (mm_remove_route path m))"
  by (auto simp: static_ok_def mm_remove_route_def Let_def split: option.split prod.split)

lemma snd_add_route:
  "snd (add_route meth path hs s) =
     go_put meth (snd (mm_add_route path hs (case go_get s meth of None \<Rightarrow> new_method_matcher | Some m \<Rightarrow> m))) s"
  by (simp add: add_route_def Let_def split: prod.split)

lemma snd_remove_route:
  "snd (remove_route meth path s) =
     (case go_get s meth of None \<Rightarrow> s | Some m \<Rightarrow> go_put meth (snd (mm_remove_route path m)) s)"
  by (simp add: remove_route_def split: prod.split option.split)

lemma reachable_static_ok:
  "router_reachable s \<Longrightarrow> go_get s meth = Some m \<Longrightarrow> static_ok m"
proof (induction arbitrary: meth m rule: router_reachable.induct)
  case fresh
  then show ?case by (simp add: new_server_matcher_def)
next
  case (added s meth' path hs)
  have "static_ok (case go_get s meth' of None \<Rightarrow> new_method_matcher | Some m \<Rightarrow> m)"
    using added.IH by (simp add: static_ok_new split: option.split)
  with added.IH added.prems show ?case
    by (auto simp: snd_add_route static_ok_add split: if_splits)
next
  case (removed s meth' path)
  then show ?case
    by (auto simp: snd_remove_route static_ok_remove split: if_splits option.splits)
qed

lemma mm_match_into_clears: "mm_match_into path dst m = mm_match_into path [] m"
  by (cases dst) (simp_all add: mm_match_into_def go_len_def)

lemma mm_match_into_match:
  assumes "static_ok m" and "mm_match_into path dst m = (res, dst')"
  shows "case mm_match path m of
      None \<Rightarrow> res = None
    | Some r \<Rightarrow> \<exists>e. res = Some e \<and> mr_handlers r = re_handlers e \<and> mr_path r = re_path e \<and>
        ensure_params (mr_params r) = dst'"
proof -
  have into: "mm_match_into path [] m = (res, dst')"
    using assms(2) mm_match_into_clears [of path dst m] by simp
  show ?thesis
  proof (cases "go_get (mm_static m) path")
    case (Some e)
    with into have "res = Some e" "dst' = []"
      by (simp_all add: mm_match_into_def Let_def)
    moreover have "re_path e = path" using assms(1) Some by (simp add: static_ok_def)
    ultimately show ?thesis
      by (simp add: mm_match_def Some ensure_params_def)
  next
    case None
    let ?t = "go_get (mm_segments m) (path_segment_count path)"
    let ?seg = "case ?t of None \<Rightarrow> None | Some t \<Rightarrow> radix_search path t"
    let ?into = "case ?t of None \<Rightarrow> (None, []) | Some t \<Rightarrow> radix_search_into path [] t"
    have seg: "case ?seg of
        None \<Rightarrow> ?into = (None, [])
      | Some r \<Rightarrow> \<exists>e. fst ?into = Some e \<and> mr_handlers r = re_handlers e \<and> mr_path r = re_path e \<and>
          ensure_params (mr_params r) = snd ?into"
    proof (cases ?t)
      case (Some t)
      obtain a b where "radix_search_into path [] t = (a, b)" by (cases "radix_search_into path [] t")
      with Some search_into_search [OF this] show ?thesis by (auto split: option.splits)
    qed simp
    show ?thesis
    proof (cases ?seg)
      case (Some r)
      with seg obtain e where e: "fst ?into = Some e" "mr_handlers r = re_handlers e" "mr_path r = re_path e"
        "ensure_params (mr_params r) = snd ?into" by auto
      then obtain d where d: "?into = (Some e, d)" by (metis prod.collapse)
      with into None have "res = Some e \<and> dst' = d"
        by (simp add: mm_match_into_def Let_def)
      with e d show ?thesis
        using None Some by (simp add: mm_match_def)
    next
      case none: None
      with seg have "?into = (None, [])" by simp
      with into None have "radix_search_into path [] (mm_radix m) = (res, dst')"
        by (simp add: mm_match_into_def Let_def)
      from search_into_search [OF this] none None show ?thesis
        by (auto simp: mm_match_def split: option.splits)
    qed
  qed
qed

text \<open>
  The fast lookup is the lookup.  In every state routes can be added to or removed from,
  whatever the map it is given holds, \<open>LookupInto\<close> finds a route exactly when \<open>Lookup\<close> does,
  with the same handlers, the same full path, and in the map exactly the same parameters.
\<close>

theorem lookup_into_agrees:
  assumes "router_reachable s"
  shows "case lookup_route meth path s of
      None \<Rightarrow> fst (lookup_into meth path dst s) = None
    | Some r \<Rightarrow> fst (lookup_into meth path dst s) = Some (mr_handlers r, mr_path r) \<and>
        snd (lookup_into meth path dst s) = ensure_params (mr_params r)"
proof (cases "go_get s meth")
  case None
  then show ?thesis by (simp add: lookup_route_def lookup_into_def)
next
  case (Some m)
  obtain res dst' where i: "mm_match_into path dst m = (res, dst')" by (cases "mm_match_into path dst m")
  from mm_match_into_match [OF reachable_static_ok [OF assms Some] i] Some i show ?thesis
    by (auto simp: lookup_route_def lookup_into_def split: option.splits)
qed

theorem lookup_into_agrees_witness:
  "fst (lookup_into ''GET'' ''/u/9'' [(''old'', ''x'')] (snd (add_route ''GET'' ''/u/:id'' [1 :: nat] new_server_matcher))) =
     Some ([1], ''/u/:id'')"
proof -
  have "lookup_route ''GET'' ''/u/9'' (snd (add_route ''GET'' ''/u/:id'' [1 :: nat] new_server_matcher)) =
      Some \<lparr>mr_path = ''/u/:id'', mr_handlers = [1], mr_params = Some [(''id'', ''9'')]\<rparr>"
    by code_simp
  then show ?thesis
    using lookup_into_agrees [OF router_reachable.added
        [OF router_reachable.fresh, where meth = "''GET''" and path = "''/u/:id''" and hs = "[1 :: nat]"],
      where meth = "''GET''" and path = "''/u/9''" and dst = "[(''old'', ''x'')]"] by simp
qed

section \<open>Valid patterns\<close>

lemma catch_all_last_append: "catch_all_last (xs @ ys) \<Longrightarrow> catch_all_last xs"
  by (induction xs rule: catch_all_last.induct) auto

lemma catch_all_last_skip: "catch_all_last (replicate i [] @ xs) \<longleftrightarrow> catch_all_last xs"
  by (induction i) auto

lemma catch_all_last_split: "check_path_from prev p \<Longrightarrow> catch_all_last (split_on slash p)"
proof (induction prev p rule: check_path_from.induct)
  case (2 prev c rest)
  have IH: "catch_all_last (split_on slash rest)"
    using 2 by (cases "c = CHR '':''"; cases "c = CHR ''*''") (auto split: if_splits)
  show ?case
  proof (cases "c = slash")
    case False
    obtain w ws where w: "split_on slash rest = w # ws" by (cases "split_on slash rest") auto
    have "catch_all_last ws" using IH w by (cases w) auto
    moreover have "c = CHR ''*'' \<Longrightarrow> ws = []"
      using "2.prems" w by (auto simp: split_word split: if_splits)
    ultimately show ?thesis using False w by simp
  qed (use IH in simp)
qed simp

lemma valid_catch_all_last:
  assumes "check_path_valid path = Ok ()"
  shows "catch_all_last (split_path_segments path)"
proof -
  obtain i j where p: "path = replicate i slash @ trim_slashes path @ replicate j slash"
    using trim_slashes_decomp by blast
  have "catch_all_last (split_on slash path)"
    using assms catch_all_last_split by (auto simp: check_path_valid_def split: if_splits)
  then have "catch_all_last (split_on slash (trim_slashes path))"
    by (subst (asm) p)
       (auto simp: split_replicate_front split_replicate_back catch_all_last_skip dest: catch_all_last_append)
  then show ?thesis by (simp add: split_path_segments_def Let_def)
qed

section \<open>Registering and serving\<close>

lemma has_prefix_char: "has_prefix seg [c] \<longleftrightarrow> (\<exists>name. seg = c # name)"
  by (cases seg) (auto simp: has_prefix_def)

lemma path_feature_foldl:
  "(pf_param (foldl feature_step f0 segs) \<longleftrightarrow> pf_param f0 \<or> Param \<in> set (pattern_key segs)) \<and>
   (pf_wild (foldl feature_step f0 segs) \<longleftrightarrow> pf_wild f0 \<or> CatchAll \<in> set (pattern_key segs)) \<and>
   pf_segments (foldl feature_step f0 segs) = pf_segments f0"
proof (induction segs arbitrary: f0)
  case (Cons seg segs)
  have "(pf_param (feature_step f0 seg) \<longleftrightarrow> pf_param f0 \<or> Param \<in> set (pattern_key [seg])) \<and>
      (pf_wild (feature_step f0 seg) \<longleftrightarrow> pf_wild f0 \<or> CatchAll \<in> set (pattern_key [seg])) \<and>
      pf_segments (feature_step f0 seg) = pf_segments f0"
    by (cases seg) (auto simp: feature_step_def has_prefix_char Let_def)
  moreover have "set (pattern_key (seg # segs)) = set (pattern_key [seg]) \<union> set (pattern_key segs)"
    by (cases seg) auto
  ultimately show ?case using Cons.IH [of "feature_step f0 seg"] by auto
qed simp

lemma path_feature [simp]:
  "pf_param (extract_path_feature path) \<longleftrightarrow> Param \<in> set (path_key path)"
  "pf_wild (extract_path_feature path) \<longleftrightarrow> CatchAll \<in> set (path_key path)"
  "pf_segments (extract_path_feature path) = length (split_path_segments path)"
  by (simp_all add: extract_path_feature_def Let_def path_feature_foldl path_key_def)

lemma radix_search_None:
  "radix_search path t = None \<longleftrightarrow> no_match (rt_root t) (split_path_segments path)"
proof (cases "rt_root t")
  case None
  then show ?thesis by (simp add: radix_search_def)
next
  case (Some n)
  obtain res ps where f: "find_node (split_path_segments path) n None = (res, ps)"
    by (cases "find_node (split_path_segments path) n None")
  with find_node_best [of n "split_path_segments path" None]
  have b: "best_match n (split_path_segments path) res" by simp
  have "no_match (Some n) (split_path_segments path) \<longleftrightarrow> res = None"
    using b by (cases res) (auto simp: best_match_def best_at_def no_match_def)
  with Some f show ?thesis by (cases res) (simp_all add: radix_search_def)
qed

text \<open>A request some table serves.\<close>

definition mm_serves :: "string \<Rightarrow> 'h method_matcher \<Rightarrow> bool" where
  "mm_serves req m \<longleftrightarrow>
     go_get (mm_static m) req \<noteq> None \<or>
     (\<exists>t. go_get (mm_segments m) (length (split_path_segments req)) = Some t \<and>
        \<not> no_match (rt_root t) (split_path_segments req)) \<or>
     \<not> no_match (rt_root (mm_radix m)) (split_path_segments req)"

lemma mm_match_serves: "mm_match req m \<noteq> None \<longleftrightarrow> mm_serves req m"
  by (auto simp: mm_match_def mm_serves_def path_segment_count_correct radix_search_None [symmetric]
      split: option.splits)

lemma no_match_tree_map: "no_match (rt_root t) segs \<longleftrightarrow> (\<forall>ks. key_matches ks segs \<longrightarrow> tree_map t ks = None)"
  by (simp add: no_match_def tree_map_def)

lemma insert_keeps_matches:
  assumes "radix_insert (Some e) t = (err, t')" and "\<not> no_match (rt_root t) segs"
  shows "\<not> no_match (rt_root t') segs"
proof -
  obtain ks where ks: "key_matches ks segs" "tree_map t ks \<noteq> None"
    using assms(2) by (auto simp: no_match_tree_map)
  with radix_insert_get [OF assms(1)] have "tree_map t' ks \<noteq> None"
    by (cases err) auto
  with ks show ?thesis by (auto simp: no_match_tree_map)
qed

lemma mm_add_route_keeps:
  assumes "mm_serves req m"
  shows "mm_serves req (snd (mm_add_route path hs m))"
proof (cases "check_path_valid path :: (route_error, unit) outcome")
  case (Ok u)
  let ?e = "new_route_entry path hs" and ?n = "length (split_path_segments path)"
  let ?t = "case go_get (mm_segments m) ?n of None \<Rightarrow> new_radix_tree | Some t \<Rightarrow> t"
  obtain e1 t1 where i1: "radix_insert (Some ?e) (mm_radix m) = (e1, t1)"
    by (cases "radix_insert (Some ?e) (mm_radix m)")
  obtain e2 t2 where i2: "radix_insert (Some ?e) ?t = (e2, t2)" by (cases "radix_insert (Some ?e) ?t")
  have keep: "go_get (mm_segments m) ?n = Some t \<Longrightarrow> \<not> no_match (rt_root t) segs \<Longrightarrow> \<not> no_match (rt_root t2) segs" for t segs
    using insert_keeps_matches [OF i2] by simp
  show ?thesis
    using assms Ok i1 i2 insert_keeps_matches [OF i1] keep
    by (auto simp: mm_add_route_def Let_def mm_serves_def)
qed (use assms in \<open>auto simp: mm_add_route_def\<close>)

lemma key_matches_self:
  "[] \<notin> set segs \<Longrightarrow> catch_all_last segs \<Longrightarrow> key_matches (pattern_key segs) segs"
  by (induction segs rule: pattern_key.induct) auto

lemma key_matches_length:
  "key_matches ks segs \<Longrightarrow> CatchAll \<notin> set ks \<Longrightarrow> length segs = length ks"
  by (induction ks segs rule: key_matches.induct) auto

lemma length_pattern_key: "[] \<notin> set segs \<Longrightarrow> length (pattern_key segs) = length segs"
  by (induction segs rule: pattern_key.induct) auto

text \<open>The requests a pattern is for.\<close>

definition request_fits :: "string \<Rightarrow> string \<Rightarrow> bool" where
  "request_fits path req \<longleftrightarrow>
     req = path \<or>
     (Param \<in> set (path_key path) \<or> CatchAll \<in> set (path_key path)) \<and>
     key_matches (path_key path) (split_path_segments req)"

lemma mm_add_route_serves:
  assumes "mm_add_route path hs m = (Ok (), m')" and "[] \<notin> set (split_path_segments path)"
    and "request_fits path req"
  shows "mm_serves req m'"
proof -
  let ?e = "new_route_entry path hs" and ?key = "path_key path"
  have valid: "check_path_valid path = (Ok () :: (route_error, unit) outcome)"
    using assms(1) by (auto simp: mm_add_route_def split: outcome.splits)
  have e: "re_path ?e = path" by (simp add: new_route_entry_def)
  have last: "catch_all_last (split_path_segments path)"
    using valid_catch_all_last [OF valid] .
  have fits: "key_matches ?key (split_path_segments req)" if "Param \<in> set ?key \<or> CatchAll \<in> set ?key"
    using assms(3) that key_matches_self [OF assms(2) last] by (auto simp: request_fits_def path_key_def)
  show ?thesis
  proof (cases "CatchAll \<in> set ?key")
    case True
    obtain t where t: "radix_insert (Some ?e) (mm_radix m) = (None, t)" "m' = m\<lparr>mm_radix := t\<rparr>"
      using assms(1) valid True
      by (auto simp: mm_add_route_def Let_def err_outcome_def split: prod.splits option.splits)
    then have "tree_map t ?key = Some ?e" using radix_insert_get [OF t(1)] e by simp
    with fits True t(2) show ?thesis by (auto simp: mm_serves_def no_match_tree_map)
  next
    case wild: False
    show ?thesis
    proof (cases "Param \<in> set ?key")
      case True
      let ?n = "length (split_path_segments path)"
      let ?t = "case go_get (mm_segments m) ?n of None \<Rightarrow> new_radix_tree | Some t \<Rightarrow> t"
      obtain t where t: "radix_insert (Some ?e) ?t = (None, t)"
        "m' = m\<lparr>mm_segments := go_put ?n t (mm_segments m)\<rparr>"
        using assms(1) valid True wild
        by (auto simp: mm_add_route_def Let_def err_outcome_def split: prod.splits option.splits)
      then have "tree_map t ?key = Some ?e" using radix_insert_get [OF t(1)] e by simp
      moreover have "length (split_path_segments req) = ?n"
        using key_matches_length [OF fits wild] True length_pattern_key [OF assms(2)]
        by (simp add: path_key_def)
      ultimately show ?thesis
        using fits True t(2) by (auto simp: mm_serves_def no_match_tree_map)
    next
      case False
      then have "req = path" using assms(3) wild by (simp add: request_fits_def)
      with assms(1) valid wild False show ?thesis
        by (auto simp: mm_add_route_def mm_serves_def Let_def split: if_splits)
    qed
  qed
qed

text \<open>Any further registrations, whether they succeed or not.\<close>

fun add_routes :: "(string \<times> string \<times> 'h list) list \<Rightarrow> 'h server_matcher \<Rightarrow> 'h server_matcher" where
  "add_routes [] s = s"
| "add_routes ((meth, path, hs) # rs) s = add_routes rs (snd (add_route meth path hs s))"

definition serves :: "string \<Rightarrow> string \<Rightarrow> 'h server_matcher \<Rightarrow> bool" where
  "serves meth req s \<longleftrightarrow> (case go_get s meth of None \<Rightarrow> False | Some m \<Rightarrow> mm_serves req m)"

lemma lookup_serves: "lookup_route meth req s \<noteq> None \<longleftrightarrow> serves meth req s"
  using mm_match_serves by (auto simp: lookup_route_def serves_def split: option.split)

lemma add_routes_keeps: "serves meth req s \<Longrightarrow> serves meth req (add_routes rs s)"
proof (induction rs s rule: add_routes.induct)
  case (2 meth' path hs rs s)
  then have "serves meth req (snd (add_route meth' path hs s))"
    using mm_add_route_keeps [of req _ path hs]
    by (auto simp: serves_def snd_add_route split: option.splits)
  with 2 show ?case by simp
qed simp

text \<open>
  C17: a registered route is served.  Once \<open>AddRoute\<close> has accepted a pattern without empty
  segments, every request that fits it (the same path, or for a pattern with parameters or a
  catch-all any path with segments for them) is found for that method, and stays so whatever is
  registered afterwards, for any method, successfully or not.
\<close>

theorem added_route_is_served:
  assumes "add_route meth path hs s = (Ok (), s')"
    and "[] \<notin> set (split_path_segments path)" and "request_fits path req"
  shows "lookup_route meth req (add_routes rs s') \<noteq> None"
proof -
  let ?m = "case go_get s meth of None \<Rightarrow> new_method_matcher | Some m \<Rightarrow> m"
  obtain m' where "mm_add_route path hs ?m = (Ok (), m')" "s' = go_put meth m' s"
    using assms(1) by (auto simp: add_route_def Let_def split: prod.splits)
  with mm_add_route_serves [OF _ assms(2,3)] have "serves meth req s'"
    by (simp add: serves_def)
  then show ?thesis using add_routes_keeps lookup_serves by blast
qed

theorem added_route_is_served_witness:
  "lookup_route ''GET'' ''/u/9'' (add_routes [(''GET'', ''/u/me'', [2]), (''GET'', ''/u/:name'', [3])]
     (snd (add_route ''GET'' ''/u/:id'' [1 :: nat] new_server_matcher))) \<noteq> None"
proof -
  have ok: "fst (add_route ''GET'' ''/u/:id'' [1 :: nat] new_server_matcher) = Ok ()"
    and segs: "[] \<notin> set (split_path_segments ''/u/:id'')"
    and fits: "request_fits ''/u/:id'' ''/u/9''"
    by code_simp+
  show ?thesis
    by (rule added_route_is_served [OF _ segs fits]) (use ok in \<open>simp add: prod_eq_iff\<close>)
qed

text \<open>
  \<open>CheckPathValid\<close> guards the tree.  \<open>AddRoute\<close> never reports a catch-all that is not the
  last segment: such paths are rejected by the validation before they reach the tree, so the
  only errors it returns are the two for duplicate routes.
\<close>

theorem add_route_errors:
  "fst (add_route meth path hs s) \<in>
     {Ok (), Panic, Err (DuplicateRoute path), Err (DuplicateStaticRoute path)}"
proof -
  let ?m = "case go_get s meth of None \<Rightarrow> new_method_matcher | Some m \<Rightarrow> m"
  have res: "fst (add_route meth path hs s) = fst (mm_add_route path hs ?m)"
    by (simp add: add_route_def Let_def split: prod.split)
  show ?thesis
  proof (cases "check_path_valid path :: (route_error, unit) outcome")
    case (Ok u)
    let ?e = "new_route_entry path hs"
    have e: "re_path ?e = path" by (simp add: new_route_entry_def)
    have "check_path_valid path = (Ok () :: (route_error, unit) outcome)" using Ok by simp
    from valid_catch_all_last [OF this] have last: "catch_all_last (split_path_segments path)" .
    have dup: "err = DuplicateRoute path" if "radix_insert (Some ?e) t = (Some err, t')" for err t t'
      using radix_insert_error [OF that] last e by simp
    show ?thesis
      unfolding res using Ok
      by (auto simp: mm_add_route_def Let_def err_outcome_def dest!: dup split: prod.split option.split)
  qed (unfold res, auto simp: mm_add_route_def)
qed

lemma combine_handlers_append [simp]: "combine_handlers hs g = rg_handlers g @ hs"
  by (simp add: combine_handlers_def)

text \<open>
  Groups compose.  A plain route registered through a nested group is found under the
  joined path, and runs the handlers of the outer group, then those of the inner one, then its
  own; nothing registered before can take its place.
\<close>

theorem group_route_runs_middleware:
  assumes "sub_group prefix mws g = Ok g'"
    and "absolute_path path g' = (Ok full :: (route_error, string) outcome)"
    and "Param \<notin> set (path_key full)" and "CatchAll \<notin> set (path_key full)"
    and "group_add_route meth path hs g' s = (Ok (), s')"
  shows "lookup_route meth full s' = Some \<lparr>mr_path = full, mr_handlers = rg_handlers g @ mws @ hs, mr_params = None\<rparr>"
proof -
  let ?m = "case go_get s meth of None \<Rightarrow> new_method_matcher | Some m \<Rightarrow> m"
  let ?hs = "rg_handlers g @ mws @ hs"
  have g': "rg_handlers g' = rg_handlers g @ mws"
    using assms(1) by (auto simp: sub_group_def bindO_eq_Ok_iff)
  have "add_route meth full ?hs s = (Ok (), s')"
    using assms(2,5) g'
    by (auto simp: group_add_route_def server_add_route_def split: if_splits outcome.splits prod.splits)
  then have "mm_add_route full ?hs ?m = (Ok (), the (go_get s' meth))" "go_get s' meth \<noteq> None"
    by (auto simp: add_route_def Let_def split: prod.splits)
  then show ?thesis
    using assms(3,4)
    by (auto simp: mm_add_route_def Let_def lookup_route_def mm_match_def new_route_entry_def
        split: outcome.splits if_splits)
qed

theorem group_route_runs_middleware_witness:
  "lookup_route ''GET'' ''/api/v1/users'' (snd (group_add_route ''GET'' ''users'' [3]
     \<lparr>rg_handlers = [1, 2 :: nat], rg_path = ''/api/v1'', rg_root = False\<rparr> new_server_matcher)) =
   Some \<lparr>mr_path = ''/api/v1/users'', mr_handlers = [1, 2, 3], mr_params = None\<rparr>"
proof -
  let ?g = "\<lparr>rg_handlers = [1 :: nat], rg_path = ''/api'', rg_root = False\<rparr>"
  let ?g' = "\<lparr>rg_handlers = [1, 2 :: nat], rg_path = ''/api/v1'', rg_root = False\<rparr>"
  have 1: "sub_group ''v1/..//v1'' [2] ?g = (Ok ?g' :: (route_error, nat router_group) outcome)"
    and 2: "absolute_path ''users'' ?g' = (Ok ''/api/v1/users'' :: (route_error, string) outcome)"
    and 3: "path_key ''/api/v1/users'' = [Static ''api'', Static ''v1'', Static ''users'']"
    and 4: "fst (group_add_route ''GET'' ''users'' [3] ?g' new_server_matcher) = Ok ()"
    by code_simp+
  from group_route_runs_middleware [OF 1 2, of "''GET''" "[3]" new_server_matcher] 3 4
  show ?thesis by (simp add: prod_eq_iff)
qed

section \<open>Where the router surprises\<close>

text \<open>
  Removing a route with parameters panics when none of that many segments was registered.
  \<open>RemoveRoute\<close> looks the tree of that segment count up and calls a method on the nil pointer it
  gets, instead of reporting that the route is not there.
\<close>

theorem remove_missing_route_panics:
  assumes "go_get s meth = Some m" and "Param \<in> set (path_key path)" and "CatchAll \<notin> set (path_key path)"
    and "go_get (mm_segments m) (length (split_path_segments path)) = None"
  shows "fst (remove_route meth path s) = Panic"
  using assms by (simp add: remove_route_def mm_remove_route_def)

theorem remove_missing_route_panics_witness:
  "fst (remove_route ''GET'' ''/u/:id'' (add_routes [(''GET'', ''/'', [1 :: nat])] new_server_matcher)) = Panic"
proof -
  have s: "add_routes [(''GET'', ''/'', [1 :: nat])] new_server_matcher =
      [(''GET'', new_method_matcher\<lparr>mm_static := [(''/'', new_route_entry ''/'' [1])]\<rparr>)]"
    by code_simp
  have "path_key ''/u/:id'' = [Static ''u'', Param]" by code_simp
  then show ?thesis
    unfolding s
    by (intro remove_missing_route_panics [where m = "new_method_matcher\<lparr>mm_static := [(''/'', new_route_entry ''/'' [1])]\<rparr>"])
       (simp_all add: go_get_def new_method_matcher_def)
qed

text \<open>
  The names of the parameters are those of the first route registered at a position, not
  those of the route that matches: the handlers of \<open>/u/:name/y\<close> run without a value for
  \<open>name\<close>, and with one for the \<open>id\<close> of another route.
\<close>

theorem parameter_named_by_other_route:
  "lookup_route ''GET'' ''/u/7/y''
     (add_routes [(''GET'', ''/u/:id/x'', [1 :: nat]), (''GET'', ''/u/:name/y'', [2])] new_server_matcher) =
   Some \<lparr>mr_path = ''/u/:name/y'', mr_handlers = [2], mr_params = Some [(''id'', ''7'')]\<rparr>"
  by code_simp

lemma pattern_key_shorter: "[] \<in> set segs \<Longrightarrow> length (pattern_key segs) < length segs"
proof (induction segs rule: pattern_key.induct)
  case (2 rest)
  have "length (pattern_key rest) \<le> length rest"
    by (induction rest rule: pattern_key.induct) auto
  then show ?case by simp
qed auto

text \<open>
  A pattern with a parameter and an empty segment (\<open>/a//:id\<close>) is accepted and never
  served.  It is filed under the number of its segments, the empty one included, but its nodes
  skip the empty one, so that no path of that many segments can match: a server with this route
  only finds nothing, whatever the request.
\<close>

theorem empty_segment_route_unreachable:
  assumes "[] \<in> set (split_path_segments path)" and "Param \<in> set (path_key path)"
    and "CatchAll \<notin> set (path_key path)" and "check_path_valid path = (Ok () :: (route_error, unit) outcome)"
  shows "fst (add_route meth path hs new_server_matcher) = Ok () \<and>
    lookup_route meth' req (snd (add_route meth path hs new_server_matcher)) = None"
proof -
  let ?e = "new_route_entry path hs" and ?n = "length (split_path_segments path)"
  obtain err t where ins: "radix_insert (Some ?e) new_radix_tree = (err, t)"
    by (cases "radix_insert (Some ?e) new_radix_tree")
  have e: "re_path ?e = path" by (simp add: new_route_entry_def)
  have "err = None"
    using radix_insert_error [of ?e new_radix_tree _ t] ins valid_catch_all_last [OF assms(4)] e
    by (cases err) (auto simp: tree_map_new)
  with radix_insert_get [OF ins] e have t: "tree_map t = [path_key path \<mapsto> ?e]"
    by (simp add: tree_map_new)
  let ?m = "new_method_matcher\<lparr>mm_segments := [(?n, t)]\<rparr>"
  have add: "mm_add_route path hs new_method_matcher = (Ok (), ?m)"
    using assms ins \<open>err = None\<close>
    by (simp add: mm_add_route_def Let_def err_outcome_def new_method_matcher_def go_put_def)
  have "\<not> mm_serves req ?m"
  proof -
    have "no_match (rt_root t) (split_path_segments req)" if "length (split_path_segments req) = ?n"
      using key_matches_length [OF _ assms(3)] that pattern_key_shorter [OF assms(1)]
      by (auto simp: no_match_tree_map t path_key_def)
    then show ?thesis
      by (auto simp: mm_serves_def new_method_matcher_def no_match_tree_map tree_map_new go_get_def
          split: if_splits)
  qed
  then have "mm_match req ?m = None" using mm_match_serves by blast
  with add show ?thesis
    by (simp add: add_route_def new_server_matcher_def lookup_route_def split: option.split)
qed

theorem empty_segment_route_unreachable_witness:
  "lookup_route ''GET'' ''/a/b/7'' (snd (add_route ''GET'' ''/a//:id'' [1 :: nat] new_server_matcher)) = None"
proof -
  have "[] \<in> set (split_path_segments ''/a//:id'')" "path_key ''/a//:id'' = [Static ''a'', Param]"
    "check_path_valid ''/a//:id'' = (Ok () :: (route_error, unit) outcome)"
    by code_simp+
  then show ?thesis by (intro conjunct2 [OF empty_segment_route_unreachable]) simp_all
qed

text \<open>
  A plain route that ends in a slash is never served.  The dispatcher cleans the path of
  the request first, which drops the final slash, while the table keeps the route as written:
  on a server with this route only, every request without \<open>..\<close> in it gets a 404.
\<close>

theorem trailing_slash_route_unreachable:
  assumes "path \<noteq> ''/''" and "last path = slash"
    and "Param \<notin> set (path_key path)" and "CatchAll \<notin> set (path_key path)"
    and "original \<noteq> []" and "\<not> contains_dotdot original" and "\<not> contains_dotdot uri"
  shows "fast_handler False meth original normalised uri (snd (add_route meth' path hs new_server_matcher)) = NotFound"
proof -
  have "route_path False original normalised = path_clean original"
    using assms(5,6) by (simp add: route_path_def Let_def)
  then have ne: "route_path False original normalised \<noteq> path"
    using path_clean_last [of original] assms(1,2) by auto
  have static: "go_get (mm_static (snd (mm_add_route path hs new_method_matcher))) r = None" if "r \<noteq> path" for r
    using assms(3,4) that by (auto simp: mm_add_route_def Let_def new_method_matcher_def split: outcome.split)
  have rest: "mm_segments (snd (mm_add_route path hs new_method_matcher)) = []"
    "mm_radix (snd (mm_add_route path hs new_method_matcher)) = new_radix_tree"
    using assms(3,4) by (auto simp: mm_add_route_def Let_def new_method_matcher_def split: outcome.split)
  have "fst (lookup_into meth (route_path False original normalised) [] (snd (add_route meth' path hs new_server_matcher))) = None"
    using lookup_into_agrees [of "snd (add_route meth' path hs new_server_matcher)" meth "route_path False original normalised" "[]"]
      router_reachable.added [OF router_reachable.fresh, of meth' path hs]
      static [OF ne] rest
      mm_match_serves [of "route_path False original normalised" "snd (mm_add_route path hs new_method_matcher)"]
    by (auto simp: lookup_route_def snd_add_route new_server_matcher_def mm_serves_def no_match_tree_map tree_map_new
        split: option.splits if_splits)
  with assms(7) show ?thesis
    by (auto simp: fast_handler_def split: prod.split option.split)
qed

theorem trailing_slash_route_unreachable_witness:
  "fast_handler False ''GET'' ''/docs/'' ''/docs/'' ''/docs/''
     (snd (add_route ''GET'' ''/docs/'' [1 :: nat] new_server_matcher)) = NotFound"
proof -
  have "path_key ''/docs/'' = [Static ''docs'']" "\<not> contains_dotdot ''/docs/''"
    by code_simp+
  then show ?thesis by (intro trailing_slash_route_unreachable) simp_all
qed

end
