(* ===== verification/BoundedCache.thy ===== *)
theory BoundedCache
  imports Prelude
begin

text \<open>
  The contract shared by the bounded caches of \<open>gcache\<close>: what a client may rely on after any
  sequence of \<open>Get\<close> and \<open>Set\<close> calls, whatever the eviction policy.  \<open>peek\<close> is the map a state
  stands for; the laws are what each cache has to provide.
\<close>

datatype 'v cache_op = GetOp string | PutOp string 'v

fun cache_run ::
  "(string \<Rightarrow> 's \<Rightarrow> 'v option \<times> 's) \<Rightarrow> (string \<Rightarrow> 'v \<Rightarrow> 's \<Rightarrow> 's) \<Rightarrow> 'v cache_op list \<Rightarrow> 's \<Rightarrow> 's" where
  "cache_run get put [] s = s"
| "cache_run get put (GetOp k # ops) s = cache_run get put ops (snd (get k s))"
| "cache_run get put (PutOp k v # ops) s = cache_run get put ops (put k v s)"

text \<open>The value last stored under a key, and the keys stored.\<close>

fun last_put :: "'v cache_op list \<Rightarrow> (string \<Rightarrow> 'v option) \<Rightarrow> string \<Rightarrow> 'v option" where
  "last_put [] m = m"
| "last_put (GetOp k # ops) m = last_put ops m"
| "last_put (PutOp k v # ops) m = last_put ops (m(k \<mapsto> v))"

fun put_keys :: "'v cache_op list \<Rightarrow> string set" where
  "put_keys [] = {}"
| "put_keys (GetOp k # ops) = put_keys ops"
| "put_keys (PutOp k v # ops) = insert k (put_keys ops)"

lemma finite_put_keys [simp]: "finite (put_keys ops)"
  by (induction ops rule: put_keys.induct) auto

locale bounded_cache =
  fixes inv :: "'s \<Rightarrow> bool"
    and peek :: "'s \<Rightarrow> string \<Rightarrow> 'v option"
    and get :: "string \<Rightarrow> 's \<Rightarrow> 'v option \<times> 's"
    and put :: "string \<Rightarrow> 'v \<Rightarrow> 's \<Rightarrow> 's"
    and len :: "'s \<Rightarrow> nat"
    and cap :: "'s \<Rightarrow> nat"
  assumes get_peek: "inv s \<Longrightarrow> fst (get k s) = peek s k"
    and get_keeps: "inv s \<Longrightarrow> inv (snd (get k s)) \<and> peek (snd (get k s)) = peek s \<and> cap (snd (get k s)) = cap s"
    and put_inv: "inv s \<Longrightarrow> inv (put k v s)"
    and put_cap: "inv s \<Longrightarrow> cap (put k v s) = cap s"
    and put_here: "inv s \<Longrightarrow> peek (put k v s) k = Some v"
    and put_other: "inv s \<Longrightarrow> k' \<noteq> k \<Longrightarrow> peek (put k v s) k' = None \<or> peek (put k v s) k' = peek s k'"
    and put_room: "inv s \<Longrightarrow> peek s k \<noteq> None \<or> len s < cap s \<Longrightarrow> k' \<noteq> k \<Longrightarrow> peek (put k v s) k' = peek s k'"
    and finite_peek: "inv s \<Longrightarrow> finite (dom (peek s))"
    and len_card: "inv s \<Longrightarrow> len s = card (dom (peek s))"
    and len_cap: "inv s \<Longrightarrow> len s \<le> cap s"
begin

lemma run_inv: "inv s \<Longrightarrow> inv (cache_run get put ops s) \<and> cap (cache_run get put ops s) = cap s"
proof (induction ops arbitrary: s)
  case (Cons op ops)
  then show ?case by (cases op) (simp_all add: get_keeps put_inv put_cap)
qed simp

lemma run_bound: "inv s \<Longrightarrow> len (cache_run get put ops s) \<le> cap s"
  using run_inv len_cap by metis

lemma run_never_stale:
  assumes "inv s" and "\<And>k. peek s k = None \<or> peek s k = m k"
  shows "peek (cache_run get put ops s) k = None \<or> peek (cache_run get put ops s) k = last_put ops m k"
  using assms
proof (induction ops arbitrary: s m)
  case (Cons op ops)
  show ?case
  proof (cases op)
    case (GetOp k')
    with Cons get_keeps [OF Cons.prems(1), of k'] show ?thesis by simp
  next
    case (PutOp k' v)
    have "peek (put k' v s) j = None \<or> peek (put k' v s) j = (m(k' \<mapsto> v)) j" for j
      using put_here [OF Cons.prems(1), of k' v] put_other [OF Cons.prems(1), of j k' v] Cons.prems(2) [of j]
      by (cases "j = k'") auto
    from Cons.IH [OF put_inv [OF Cons.prems(1)] this] show ?thesis
      by (simp add: PutOp del: fun_upd_apply)
  qed
qed simp

lemma run_exact:
  assumes "inv s" and "card (dom (peek s) \<union> put_keys ops) \<le> cap s"
  shows "peek (cache_run get put ops s) = last_put ops (peek s)"
  using assms
proof (induction ops arbitrary: s)
  case (Cons op ops)
  show ?case
  proof (cases op)
    case (GetOp k)
    with Cons get_keeps [OF Cons.prems(1), of k] show ?thesis by simp
  next
    case (PutOp k v)
    have fin: "finite (dom (peek s) \<union> put_keys (op # ops))"
      using finite_peek [OF Cons.prems(1)] by simp
    have room: "peek s k \<noteq> None \<or> len s < cap s"
    proof (rule ccontr)
      assume no: "\<not> ?thesis"
      then have "k \<notin> dom (peek s)" by auto
      moreover have "insert k (dom (peek s)) \<subseteq> dom (peek s) \<union> put_keys (op # ops)"
        by (simp add: PutOp subset_insertI2)
      ultimately have "Suc (card (dom (peek s))) \<le> cap s"
        using card_mono [OF fin] finite_peek [OF Cons.prems(1)] Cons.prems(2)
        by (metis card_insert_disjoint le_trans)
      with no len_card [OF Cons.prems(1)] show False by simp
    qed
    have p: "peek (put k v s) = (peek s)(k \<mapsto> v)"
      using put_here [OF Cons.prems(1)] put_room [OF Cons.prems(1) room] by (auto simp: fun_eq_iff)
    then have "card (dom (peek (put k v s)) \<union> put_keys ops) \<le> cap (put k v s)"
      using Cons.prems by (simp add: PutOp put_cap)
    from Cons.IH [OF put_inv [OF Cons.prems(1)] this] p show ?thesis
      by (simp add: PutOp del: fun_upd_apply)
  qed
qed simp

end

end
