(* ===== verification/LRU.thy ===== *)
theory LRU
  imports BoundedCache
begin

text \<open>
  \<open>gcache/lru.go\<close>.  The elements of the linked list are allocated in a heap (a list, an element
  being its index), the list of \<open>container/list\<close> is the list of its elements, front first, and
  the map goes from keys to elements.  The specification is the list of the entries in order of
  recency.
\<close>

section \<open>\<open>container/list\<close>\<close>

definition list_remove :: "nat \<Rightarrow> nat list \<Rightarrow> nat list" where
  "list_remove e ll = remove1 e ll"

definition move_to_front :: "nat \<Rightarrow> nat list \<Rightarrow> nat list" where
  "move_to_front e ll = (if e \<in> set ll then e # remove1 e ll else ll)"

definition push_front :: "nat \<Rightarrow> nat list \<Rightarrow> nat list" where
  "push_front e ll = e # ll"

section \<open>The cache\<close>

record 'v lru_entry =
  le_key :: string
  le_value :: 'v

record 'v lru =
  lru_capacity :: int
  lru_heap :: "'v lru_entry list"
  lru_ll :: "nat list"
  lru_cache :: "(string, nat) gomap"

definition new_lru :: "int \<Rightarrow> 'v lru" where
  "new_lru capacity =
     \<lparr>lru_capacity = (if capacity \<le> 0 then 1 else capacity), lru_heap = [], lru_ll = [], lru_cache = []\<rparr>"

definition lru_get :: "string \<Rightarrow> 'v lru \<Rightarrow> 'v option \<times> 'v lru" where
  "lru_get key l =
     (case go_get (lru_cache l) key of
        Some e \<Rightarrow> (Some (le_value (lru_heap l ! e)), l\<lparr>lru_ll := move_to_front e (lru_ll l)\<rparr>)
      | None \<Rightarrow> (None, l))"

definition lru_evict :: "'v lru \<Rightarrow> 'v lru" where
  "lru_evict l =
     (if int (length (lru_ll l)) \<ge> lru_capacity l then
        (if lru_ll l = [] then l
         else (let back = last (lru_ll l) in
               l\<lparr>lru_ll := list_remove back (lru_ll l),
                 lru_cache := go_del (le_key (lru_heap l ! back)) (lru_cache l)\<rparr>))
      else l)"

definition lru_set :: "string \<Rightarrow> 'v \<Rightarrow> 'v lru \<Rightarrow> 'v lru" where
  "lru_set key v l =
     (case go_get (lru_cache l) key of
        Some e \<Rightarrow>
          l\<lparr>lru_ll := move_to_front e (lru_ll l),
            lru_heap := (lru_heap l)[e := (lru_heap l ! e)\<lparr>le_value := v\<rparr>]\<rparr>
      | None \<Rightarrow>
          (let l = lru_evict l; e = length (lru_heap l) in
           l\<lparr>lru_heap := lru_heap l @ [\<lparr>le_key = key, le_value = v\<rparr>],
             lru_ll := push_front e (lru_ll l),
             lru_cache := go_put key e (lru_cache l)\<rparr>))"

definition lru_len :: "'v lru \<Rightarrow> nat" where
  "lru_len l = length (lru_ll l)"

text \<open>The thread-safe wrapper: a lock around each operation.\<close>

definition ts_new_lru :: "int \<Rightarrow> 'v lru" where
  "ts_new_lru capacity = new_lru capacity"

definition ts_lru_get :: "string \<Rightarrow> 'v lru \<Rightarrow> 'v option \<times> 'v lru" where
  "ts_lru_get key c = lru_get key c"

definition ts_lru_set :: "string \<Rightarrow> 'v \<Rightarrow> 'v lru \<Rightarrow> 'v lru" where
  "ts_lru_set key v c = lru_set key v c"

definition ts_lru_len :: "'v lru \<Rightarrow> nat" where
  "ts_lru_len c = lru_len c"

section \<open>The recency list\<close>

definition recency_get :: "string \<Rightarrow> (string \<times> 'v) list \<Rightarrow> 'v option \<times> (string \<times> 'v) list" where
  "recency_get k xs =
     (case map_of xs k of
        None \<Rightarrow> (None, xs)
      | Some v \<Rightarrow> (Some v, (k, v) # filter (\<lambda>p. fst p \<noteq> k) xs))"

definition recency_set :: "nat \<Rightarrow> string \<Rightarrow> 'v \<Rightarrow> (string \<times> 'v) list \<Rightarrow> (string \<times> 'v) list" where
  "recency_set c k v xs =
     (if k \<in> fst ` set xs then (k, v) # filter (\<lambda>p. fst p \<noteq> k) xs
      else (k, v) # (if length xs \<ge> c then butlast xs else xs))"

definition lru_item :: "'v lru_entry list \<Rightarrow> nat \<Rightarrow> string \<times> 'v" where
  "lru_item h e = (le_key (h ! e), le_value (h ! e))"

definition lru_items :: "'v lru \<Rightarrow> (string \<times> 'v) list" where
  "lru_items l = map (lru_item (lru_heap l)) (lru_ll l)"

definition lru_ok :: "'v lru \<Rightarrow> bool" where
  "lru_ok l \<longleftrightarrow>
     1 \<le> lru_capacity l \<and> int (length (lru_ll l)) \<le> lru_capacity l \<and>
     distinct (lru_ll l) \<and> (\<forall>e \<in> set (lru_ll l). e < length (lru_heap l)) \<and>
     (\<forall>k e. go_get (lru_cache l) k = Some e \<longleftrightarrow> e \<in> set (lru_ll l) \<and> le_key (lru_heap l ! e) = k)"

lemma fst_lru_item [simp]: "fst (lru_item h e) = le_key (h ! e)"
  by (simp add: lru_item_def)

lemma lru_okD:
  assumes "lru_ok l"
  shows "distinct (lru_ll l)" and "1 \<le> lru_capacity l" and "int (length (lru_ll l)) \<le> lru_capacity l"
    and "e \<in> set (lru_ll l) \<Longrightarrow> e < length (lru_heap l)"
    and "go_get (lru_cache l) k = Some e \<longleftrightarrow> e \<in> set (lru_ll l) \<and> le_key (lru_heap l ! e) = k"
  using assms by (simp_all add: lru_ok_def)

lemma lru_ok_keys:
  assumes "lru_ok l" and "e \<in> set (lru_ll l)" and "e' \<in> set (lru_ll l)"
    and "le_key (lru_heap l ! e) = le_key (lru_heap l ! e')"
  shows "e = e'"
proof -
  have "go_get (lru_cache l) (le_key (lru_heap l ! e)) = Some e"
    "go_get (lru_cache l) (le_key (lru_heap l ! e)) = Some e'"
    using assms by (simp_all add: lru_okD(5))
  then show ?thesis by simp
qed

lemma lru_items_distinct: "lru_ok l \<Longrightarrow> distinct (map fst (lru_items l))"
  by (auto simp: lru_items_def distinct_map lru_okD(1) inj_on_def intro: lru_ok_keys)

lemma lru_ok_new: "lru_ok (new_lru c)"
  by (simp add: lru_ok_def new_lru_def)

lemma lru_items_filter:
  assumes "lru_ok l" and "go_get (lru_cache l) k = Some e"
  shows "map (lru_item (lru_heap l)) (remove1 e (lru_ll l)) = filter (\<lambda>p. fst p \<noteq> k) (lru_items l)"
proof -
  have "remove1 e (lru_ll l) = filter (\<lambda>x. x \<noteq> e) (lru_ll l)"
    using assms(1) by (simp add: lru_ok_def distinct_remove1_removeAll removeAll_filter_not_eq eq_commute)
  also have "\<dots> = filter (\<lambda>x. le_key (lru_heap l ! x) \<noteq> k) (lru_ll l)"
    using assms(2) lru_ok_keys [OF assms(1)] by (intro filter_cong) (auto simp: lru_okD(5) [OF assms(1)])
  finally show ?thesis
    by (simp add: lru_items_def filter_map comp_def)
qed

lemma map_of_lru_items:
  assumes "lru_ok l"
  shows "map_of (lru_items l) k = map_option (\<lambda>e. le_value (lru_heap l ! e)) (go_get (lru_cache l) k)"
proof (cases "go_get (lru_cache l) k")
  case None
  then have "k \<notin> fst ` set (lru_items l)"
    using lru_okD(5) [OF assms, of k] by (simp add: lru_items_def image_iff) blast
  with None show ?thesis by (simp add: map_of_eq_None_iff)
next
  case (Some e)
  with assms have "(k, le_value (lru_heap l ! e)) \<in> set (lru_items l)"
    by (auto simp: lru_okD(5) lru_items_def lru_item_def image_iff)
  with lru_items_distinct [OF assms] Some show ?thesis by simp
qed

lemma lru_get_ok:
  assumes "lru_ok l"
  shows "lru_ok (snd (lru_get k l)) \<and> lru_capacity (snd (lru_get k l)) = lru_capacity l \<and>
    (fst (lru_get k l), lru_items (snd (lru_get k l))) = recency_get k (lru_items l)"
proof (cases "go_get (lru_cache l) k")
  case None
  with assms map_of_lru_items [OF assms, of k] show ?thesis by (simp add: lru_get_def recency_get_def)
next
  case (Some e)
  with assms have e: "e \<in> set (lru_ll l)" "le_key (lru_heap l ! e) = k" by (auto simp: lru_ok_def)
  let ?l = "snd (lru_get k l)"
  have l: "lru_ll ?l = e # remove1 e (lru_ll l)" "lru_heap ?l = lru_heap l" "lru_cache ?l = lru_cache l"
    "lru_capacity ?l = lru_capacity l"
    using Some e by (simp_all add: lru_get_def move_to_front_def)
  have "set (lru_ll ?l) = set (lru_ll l)" "distinct (lru_ll ?l)" "length (lru_ll ?l) = length (lru_ll l)"
    using assms e by (auto simp: l lru_ok_def length_remove1 dest: length_pos_if_in_set)
  with assms l have "lru_ok ?l" by (simp add: lru_ok_def)
  moreover have "lru_items ?l = (k, le_value (lru_heap l ! e)) # filter (\<lambda>p. fst p \<noteq> k) (lru_items l)"
    unfolding lru_items_def [of ?l] l using lru_items_filter [OF assms Some] e by (simp add: lru_item_def)
  ultimately show ?thesis
    using map_of_lru_items [OF assms, of k] Some l by (simp add: lru_get_def recency_get_def)
qed

lemma lru_evict_ok:
  assumes "lru_ok l"
  shows "lru_ok (lru_evict l) \<and> int (length (lru_ll (lru_evict l))) < lru_capacity (lru_evict l) \<and>
    lru_capacity (lru_evict l) = lru_capacity l \<and> lru_heap (lru_evict l) = lru_heap l \<and>
    (\<forall>k. go_get (lru_cache l) k = None \<longrightarrow> go_get (lru_cache (lru_evict l)) k = None) \<and>
    lru_items (lru_evict l) =
      (if length (lru_items l) \<ge> nat (lru_capacity l) then butlast (lru_items l) else lru_items l)"
proof (cases "int (length (lru_ll l)) \<ge> lru_capacity l")
  case False
  then have "\<not> nat (lru_capacity l) \<le> length (lru_items l)"
    by (simp add: lru_items_def nat_le_iff)
  with False assms show ?thesis by (simp add: lru_evict_def)
next
  case True
  then have ne: "lru_ll l \<noteq> []" using lru_okD(2) [OF assms] by auto
  define oldest where "oldest = last (lru_ll l)"
  let ?l = "lru_evict l"
  have ll: "lru_ll l = butlast (lru_ll l) @ [oldest]" using ne by (simp add: oldest_def)
  have d: "distinct (butlast (lru_ll l) @ [oldest])" using lru_okD(1) [OF assms] ll by simp
  have "remove1 oldest (butlast (lru_ll l) @ [oldest]) = butlast (lru_ll l)"
    using d by (simp add: remove1_append)
  then have l: "lru_ll ?l = butlast (lru_ll l)" "lru_heap ?l = lru_heap l"
    "lru_cache ?l = go_del (le_key (lru_heap l ! oldest)) (lru_cache l)" "lru_capacity ?l = lru_capacity l"
    using True ne ll by (simp_all add: lru_evict_def list_remove_def oldest_def [symmetric] Let_def)
  have in_ll: "oldest \<in> set (lru_ll l)" using ne by (simp add: oldest_def)
  have set: "set (lru_ll l) = insert oldest (set (butlast (lru_ll l)))"
    using arg_cong [OF ll, of set] by auto
  have "e \<in> set (butlast (lru_ll l)) \<longleftrightarrow> e \<in> set (lru_ll l) \<and> e \<noteq> oldest" for e
    using d set by auto
  then have "lru_ok ?l"
    using lru_okD [OF assms] d lru_ok_keys [OF assms _ in_ll]
    by (auto simp: lru_ok_def l split: if_splits)
  moreover have "lru_items ?l = butlast (lru_items l)"
    by (simp add: lru_items_def l map_butlast)
  moreover have "int (length (lru_ll ?l)) < lru_capacity ?l"
    using lru_okD(2,3) [OF assms] ne by (cases "lru_ll l") (simp_all add: l)
  moreover have "nat (lru_capacity l) \<le> length (lru_items l)"
    using True by (simp add: lru_items_def nat_le_iff)
  moreover have "\<forall>k. go_get (lru_cache l) k = None \<longrightarrow> go_get (lru_cache ?l) k = None"
    by (simp add: l)
  ultimately show ?thesis using l(2,4) by simp
qed

lemma lru_set_ok:
  assumes "lru_ok l"
  shows "lru_ok (lru_set k v l) \<and> lru_capacity (lru_set k v l) = lru_capacity l \<and>
    lru_items (lru_set k v l) = recency_set (nat (lru_capacity l)) k v (lru_items l)"
proof (cases "go_get (lru_cache l) k")
  case (Some e)
  with assms have e: "e \<in> set (lru_ll l)" "le_key (lru_heap l ! e) = k" "e < length (lru_heap l)"
    using lru_okD [OF assms] by auto
  let ?h = "(lru_heap l)[e := (lru_heap l ! e)\<lparr>le_value := v\<rparr>]" and ?l = "lru_set k v l"
  have l: "lru_ll ?l = e # remove1 e (lru_ll l)" "lru_heap ?l = ?h" "lru_cache ?l = lru_cache l"
    "lru_capacity ?l = lru_capacity l"
    using Some e by (simp_all add: lru_set_def move_to_front_def)
  have key: "le_key (?h ! x) = le_key (lru_heap l ! x)" for x
    using e by (cases "x = e") auto
  have "set (lru_ll ?l) = set (lru_ll l)" "distinct (lru_ll ?l)" "length (lru_ll ?l) = length (lru_ll l)"
    using lru_okD [OF assms] e by (auto simp: l length_remove1 dest: length_pos_if_in_set)
  with assms l key have "lru_ok ?l" by (simp add: lru_ok_def)
  moreover have "map (lru_item ?h) (remove1 e (lru_ll l)) = map (lru_item (lru_heap l)) (remove1 e (lru_ll l))"
    using lru_okD(1) [OF assms] by (auto simp: lru_item_def)
  then have "lru_items ?l = (k, v) # filter (\<lambda>p. fst p \<noteq> k) (lru_items l)"
    unfolding lru_items_def [of ?l] l using lru_items_filter [OF assms Some] e by (simp add: lru_item_def)
  moreover have "k \<in> fst ` set (lru_items l)"
    using e by (force simp: lru_items_def)
  ultimately show ?thesis using l by (simp add: recency_set_def)
next
  case None
  let ?x = "lru_evict l" and ?l = "lru_set k v l"
  note ev = lru_evict_ok [OF assms]
  let ?e = "length (lru_heap l)"
  have l: "lru_ll ?l = ?e # lru_ll ?x" "lru_heap ?l = lru_heap l @ [\<lparr>le_key = k, le_value = v\<rparr>]"
    "lru_cache ?l = go_put k ?e (lru_cache ?x)" "lru_capacity ?l = lru_capacity l"
    using None ev by (simp_all add: lru_set_def push_front_def Let_def)
  have old: "e < ?e" if "e \<in> set (lru_ll ?x)" for e
    using ev lru_okD(4) [of ?x e] that by simp
  have fresh: "go_get (lru_cache ?x) k = None" using ev None by simp
  have nth: "(lru_heap l @ [\<lparr>le_key = k, le_value = v\<rparr>]) ! e = lru_heap l ! e" if "e \<in> set (lru_ll ?x)" for e
    using old [OF that] by (simp add: nth_append)
  have keys: "le_key (lru_heap l ! e) \<noteq> k" if "e \<in> set (lru_ll ?x)" for e
    using lru_okD(5) [of ?x "le_key (lru_heap l ! e)" e] ev that fresh by auto
  have "go_get (lru_cache ?l) j = Some e \<longleftrightarrow> e \<in> set (lru_ll ?l) \<and> le_key (lru_heap ?l ! e) = j" for j e
    using lru_okD(5) [of ?x j e] ev nth [of e] keys [of e] old [of e] fresh by (auto simp: l)
  moreover have "distinct (lru_ll ?l)" "\<forall>e \<in> set (lru_ll ?l). e < length (lru_heap ?l)"
    using ev old lru_okD(1) [of ?x] by (auto simp: l less_Suc_eq)
  moreover have "1 \<le> lru_capacity ?l" "int (length (lru_ll ?l)) \<le> lru_capacity ?l"
    using ev lru_okD(2) [OF assms] by (simp_all add: l)
  ultimately have "lru_ok ?l" by (simp add: lru_ok_def)
  moreover have "lru_items ?l = (k, v) # lru_items ?x"
    using nth ev by (simp add: lru_items_def l lru_item_def)
  moreover have "k \<notin> fst ` set (lru_items l)"
    using None lru_okD(5) [OF assms, of k] by (simp add: lru_items_def image_iff) blast
  ultimately show ?thesis using ev l by (simp add: recency_set_def)
qed

section \<open>The contract\<close>

definition lru_peek :: "'v lru \<Rightarrow> string \<Rightarrow> 'v option" where
  "lru_peek l = map_of (lru_items l)"

definition lru_cap :: "'v lru \<Rightarrow> nat" where
  "lru_cap l = nat (lru_capacity l)"

lemma map_of_filter_key: "map_of (filter (\<lambda>p. fst p \<noteq> k) xs) = (map_of xs)(k := None)"
  by (induction xs) auto

lemma recency_get_peek:
  "fst (recency_get k xs) = map_of xs k" "map_of (snd (recency_get k xs)) = map_of xs"
  by (auto simp: recency_get_def map_of_filter_key fun_eq_iff split: option.split)

lemma map_of_butlast_keys:
  "distinct (map fst xs) \<Longrightarrow> map_of (butlast xs) k = None \<or> map_of (butlast xs) k = map_of xs k"
proof (induction xs)
  case (Cons x xs)
  then show ?case by (cases xs) auto
qed simp

lemma recency_set_peek:
  assumes "distinct (map fst xs)"
  shows "map_of (recency_set c k v xs) k = Some v"
    and "j \<noteq> k \<Longrightarrow> map_of (recency_set c k v xs) j = None \<or> map_of (recency_set c k v xs) j = map_of xs j"
    and "map_of xs k \<noteq> None \<or> length xs < c \<Longrightarrow> j \<noteq> k \<Longrightarrow> map_of (recency_set c k v xs) j = map_of xs j"
proof -
  show "map_of (recency_set c k v xs) k = Some v" by (simp add: recency_set_def)
  show "j \<noteq> k \<Longrightarrow> map_of (recency_set c k v xs) j = None \<or> map_of (recency_set c k v xs) j = map_of xs j"
    using map_of_butlast_keys [OF assms, of j] by (auto simp: recency_set_def map_of_filter_key)
  show "map_of xs k \<noteq> None \<or> length xs < c \<Longrightarrow> j \<noteq> k \<Longrightarrow> map_of (recency_set c k v xs) j = map_of xs j"
    by (auto simp: recency_set_def map_of_filter_key dest!: map_of_SomeD) (force dest: map_of_SomeD)
qed

lemma length_lru_items: "length (lru_items l) = lru_len l"
  by (simp add: lru_items_def lru_len_def)

interpretation lru: bounded_cache lru_ok lru_peek lru_get lru_set lru_len lru_cap
proof unfold_locales
  fix l :: "'a lru" and k k' :: string and v :: 'a
  assume ok: "lru_ok l"
  have get: "fst (lru_get k l) = fst (recency_get k (lru_items l))"
    "lru_items (snd (lru_get k l)) = snd (recency_get k (lru_items l))"
    using lru_get_ok [OF ok, of k] by (auto dest: arg_cong [of _ _ fst] arg_cong [of _ _ snd])
  show "fst (lru_get k l) = lru_peek l k"
    by (simp add: get lru_peek_def recency_get_peek)
  show "lru_ok (snd (lru_get k l)) \<and> lru_peek (snd (lru_get k l)) = lru_peek l \<and> lru_cap (snd (lru_get k l)) = lru_cap l"
    using lru_get_ok [OF ok, of k] by (simp add: get lru_peek_def recency_get_peek lru_cap_def)
  note set = lru_set_ok [OF ok, of k v]
  show "lru_ok (lru_set k v l)" "lru_cap (lru_set k v l) = lru_cap l"
    using set by (simp_all add: lru_cap_def)
  note peek = recency_set_peek [OF lru_items_distinct [OF ok]]
  show "lru_peek (lru_set k v l) k = Some v"
    using set peek(1) by (simp add: lru_peek_def)
  show "k' \<noteq> k \<Longrightarrow> lru_peek (lru_set k v l) k' = None \<or> lru_peek (lru_set k v l) k' = lru_peek l k'"
    using set peek(2) by (simp add: lru_peek_def)
  show "lru_peek l k \<noteq> None \<or> lru_len l < lru_cap l \<Longrightarrow> k' \<noteq> k \<Longrightarrow> lru_peek (lru_set k v l) k' = lru_peek l k'"
    using set peek(3) [of k "nat (lru_capacity l)" k' v] by (simp add: lru_peek_def lru_cap_def length_lru_items)
  show "finite (dom (lru_peek l))"
    by (simp add: lru_peek_def finite_dom_map_of)
  show "lru_len l = card (dom (lru_peek l))"
    using distinct_card [OF lru_items_distinct [OF ok]]
    by (simp add: lru_peek_def dom_map_of_conv_image_fst length_lru_items)
  show "lru_len l \<le> lru_cap l"
    using lru_okD(3) [OF ok] by (simp add: lru_len_def lru_cap_def)
qed

lemma lru_items_new: "lru_items (new_lru c) = []"
  by (simp add: lru_items_def new_lru_def)

lemma lru_peek_new: "lru_peek (new_lru c) = Map.empty" "lru_cap (new_lru c) = nat (max 1 c)"
  by (auto simp: lru_peek_def lru_items_def new_lru_def lru_cap_def max_def)

text \<open>
  The LRU cache is a list in order of recency.  After any sequence of calls, its entries
  are those of the plain list on which \<open>Get\<close> moves the entry to the front and \<open>Set\<close> puts it in
  front and drops the last one when a new key would exceed the capacity (at least one), and a
  \<open>Get\<close> returns what that list holds.
\<close>

theorem lru_is_recency_list:
  "lru_items (cache_run lru_get lru_set ops (new_lru c)) =
     cache_run recency_get (recency_set (nat (max 1 c))) ops [] \<and>
   fst (lru_get k (cache_run lru_get lru_set ops (new_lru c))) =
     map_of (cache_run recency_get (recency_set (nat (max 1 c))) ops []) k"
proof -
  have run: "lru_items (cache_run lru_get lru_set ops l) =
      cache_run recency_get (recency_set (lru_cap l)) ops (lru_items l)" if "lru_ok l" for ops and l :: "'a lru"
    using that
  proof (induction ops arbitrary: l)
    case (Cons op ops)
    show ?case
    proof (cases op)
      case (GetOp j)
      have "lru_items (snd (lru_get j l)) = snd (recency_get j (lru_items l))" "lru_cap (snd (lru_get j l)) = lru_cap l"
        using lru_get_ok [OF Cons.prems, of j] by (auto simp: lru_cap_def dest: arg_cong [of _ _ snd])
      with Cons.IH [of "snd (lru_get j l)"] lru_get_ok [OF Cons.prems, of j] GetOp show ?thesis by simp
    next
      case (PutOp j v)
      with Cons.IH [of "lru_set j v l"] lru_set_ok [OF Cons.prems, of j v] show ?thesis
        by (simp add: lru_cap_def)
    qed
  qed simp
  let ?l = "cache_run lru_get lru_set ops (new_lru c)"
  have items: "lru_items ?l = cache_run recency_get (recency_set (nat (max 1 c))) ops []"
    using run [OF lru_ok_new, of ops c] by (simp add: lru_items_new lru_peek_new)
  have "fst (lru_get k ?l) = lru_peek ?l k"
    using lru.get_peek lru.run_inv lru_ok_new by blast
  with items show ?thesis by (simp add: lru_peek_def)
qed

text \<open>
  C34: the LRU cache never returns a stale value and never overfills.  After any sequence of
  calls, \<open>Get\<close> of a key returns the value last stored under it or nothing, there are at most
  \<open>capacity\<close> entries, and when no more than that many different keys were stored, nothing is lost.
\<close>

theorem lru_contract:
  "fst (ts_lru_get k (cache_run ts_lru_get ts_lru_set ops (ts_new_lru c))) \<in> {None, last_put ops Map.empty k} \<and>
   ts_lru_len (cache_run ts_lru_get ts_lru_set ops (ts_new_lru c)) \<le> nat (max 1 c) \<and>
   (card (put_keys ops) \<le> nat (max 1 c) \<longrightarrow>
      fst (ts_lru_get k (cache_run ts_lru_get ts_lru_set ops (ts_new_lru c))) = last_put ops Map.empty k)"
proof -
  have ts: "ts_lru_get = (lru_get :: string \<Rightarrow> 'a lru \<Rightarrow> _)" "ts_lru_set = (lru_set :: string \<Rightarrow> 'a \<Rightarrow> _)"
    "ts_new_lru c = (new_lru c :: 'a lru)" "ts_lru_len = (lru_len :: 'a lru \<Rightarrow> nat)"
    by (simp_all add: ts_lru_get_def ts_lru_set_def ts_new_lru_def ts_lru_len_def fun_eq_iff)
  let ?l = "cache_run lru_get lru_set ops (new_lru c) :: 'a lru"
  have get: "fst (lru_get k ?l) = lru_peek ?l k"
    using lru.get_peek lru.run_inv lru_ok_new by blast
  show ?thesis
    unfolding ts get
    using lru.run_never_stale [OF lru_ok_new, of c Map.empty ops k] lru.run_bound [OF lru_ok_new, of ops c]
      lru.run_exact [OF lru_ok_new, of c ops] by (auto simp: lru_peek_new)
qed

theorem lru_contract_witness:
  "fst (ts_lru_get ''a'' (cache_run ts_lru_get ts_lru_set [PutOp ''a'' (1 :: nat), PutOp ''b'' 2, GetOp ''a'', PutOp ''b'' 3]
     (ts_new_lru 2))) = Some 1"
  using lru_contract [of "''a''" "[PutOp ''a'' (1 :: nat), PutOp ''b'' 2, GetOp ''a'', PutOp ''b'' 3]" 2]
  by simp

end
