(* ===== verification/LFU.thy ===== *)
theory LFU
  imports LRU
begin

text \<open>
  \<open>gcache/lfu.go\<close>.  Entries and list elements live in two heaps (indices stand for pointers):
  an element holds a pointer to its entry, and moving an entry to the next frequency removes its
  element and allocates a new one.  \<open>freqToList\<close> maps a frequency to the elements of its list,
  front first.  A nil list reads as the empty one; the invariant shows that no operation meets it
  where the code would dereference it.
\<close>

section \<open>The cache\<close>

record 'v lfu_entry =
  fe_key :: string
  fe_value :: 'v
  fe_freq :: int

record 'v lfu =
  lfu_capacity :: int
  lfu_min :: int
  lfu_heap :: "'v lfu_entry list"
  lfu_elems :: "nat list"
  lfu_cache :: "(string, nat) gomap"
  lfu_lists :: "(int, nat list) gomap"

definition new_lfu :: "int \<Rightarrow> 'v lfu" where
  "new_lfu capacity =
     \<lparr>lfu_capacity = (if capacity \<le> 0 then 1 else capacity), lfu_min = 0, lfu_heap = [], lfu_elems = [],
      lfu_cache = [], lfu_lists = []\<rparr>"

definition lfu_list :: "(int, nat list) gomap \<Rightarrow> int \<Rightarrow> nat list" where
  "lfu_list m f = (case go_get m f of None \<Rightarrow> [] | Some xs \<Rightarrow> xs)"

definition lfu_entry_of :: "'v lfu \<Rightarrow> nat \<Rightarrow> 'v lfu_entry" where
  "lfu_entry_of l e = lfu_heap l ! (lfu_elems l ! e)"

definition lfu_increment :: "nat \<Rightarrow> 'v lfu \<Rightarrow> 'v lfu" where
  "lfu_increment e l =
     (let i = lfu_elems l ! e;
          entry = lfu_heap l ! i;
          current = list_remove e (lfu_list (lfu_lists l) (fe_freq entry));
          lists = go_put (fe_freq entry) current (lfu_lists l);
          minimum = (if length current = 0 \<and> fe_freq entry = lfu_min l then lfu_min l + 1 else lfu_min l);
          new_freq = fe_freq entry + 1;
          new_elem = length (lfu_elems l)
      in l\<lparr>lfu_min := minimum,
           lfu_heap := (lfu_heap l)[i := entry\<lparr>fe_freq := new_freq\<rparr>],
           lfu_elems := lfu_elems l @ [i],
           lfu_lists := go_put new_freq (push_front new_elem (lfu_list lists new_freq)) lists,
           lfu_cache := go_put (fe_key entry) new_elem (lfu_cache l)\<rparr>)"

definition lfu_get :: "string \<Rightarrow> 'v lfu \<Rightarrow> 'v option \<times> 'v lfu" where
  "lfu_get key l =
     (case go_get (lfu_cache l) key of
        None \<Rightarrow> (None, l)
      | Some e \<Rightarrow> (Some (fe_value (lfu_entry_of (lfu_increment e l) e)), lfu_increment e l))"

definition lfu_evict :: "'v lfu \<Rightarrow> 'v lfu" where
  "lfu_evict l =
     (case go_get (lfu_lists l) (lfu_min l) of
        None \<Rightarrow> l
      | Some xs \<Rightarrow>
          (if length xs = 0 then l
           else (let e = last xs in
                 l\<lparr>lfu_lists := go_put (lfu_min l) (list_remove e xs) (lfu_lists l),
                   lfu_cache := go_del (fe_key (lfu_entry_of l e)) (lfu_cache l)\<rparr>)))"

definition lfu_insert :: "string \<Rightarrow> 'v \<Rightarrow> 'v lfu \<Rightarrow> 'v lfu" where
  "lfu_insert key v l =
     (let e = length (lfu_elems l) in
      l\<lparr>lfu_heap := lfu_heap l @ [\<lparr>fe_key = key, fe_value = v, fe_freq = 1\<rparr>],
        lfu_elems := lfu_elems l @ [length (lfu_heap l)],
        lfu_lists := go_put 1 (push_front e (lfu_list (lfu_lists l) 1)) (lfu_lists l),
        lfu_cache := go_put key e (lfu_cache l),
        lfu_min := 1\<rparr>)"

definition lfu_set :: "string \<Rightarrow> 'v \<Rightarrow> 'v lfu \<Rightarrow> 'v lfu" where
  "lfu_set key v l =
     (if lfu_capacity l \<le> 0 then l
      else (case go_get (lfu_cache l) key of
        Some e \<Rightarrow>
          (let i = lfu_elems l ! e in
           lfu_increment e (l\<lparr>lfu_heap := (lfu_heap l)[i := (lfu_heap l ! i)\<lparr>fe_value := v\<rparr>]\<rparr>))
      | None \<Rightarrow>
          lfu_insert key v (if int (go_len (lfu_cache l)) \<ge> lfu_capacity l then lfu_evict l else l)))"

definition lfu_len :: "'v lfu \<Rightarrow> nat" where
  "lfu_len l = go_len (lfu_cache l)"

text \<open>The thread-safe wrapper: a lock around each operation.\<close>

definition ts_new_lfu :: "int \<Rightarrow> 'v lfu" where
  "ts_new_lfu capacity = new_lfu capacity"

definition ts_lfu_get :: "string \<Rightarrow> 'v lfu \<Rightarrow> 'v option \<times> 'v lfu" where
  "ts_lfu_get key c = lfu_get key c"

definition ts_lfu_set :: "string \<Rightarrow> 'v \<Rightarrow> 'v lfu \<Rightarrow> 'v lfu" where
  "ts_lfu_set key v c = lfu_set key v c"

definition ts_lfu_len :: "'v lfu \<Rightarrow> nat" where
  "ts_lfu_len c = lfu_len c"

section \<open>The invariant\<close>

abbreviation lfu_key :: "'v lfu \<Rightarrow> nat \<Rightarrow> string" where
  "lfu_key l e \<equiv> fe_key (lfu_entry_of l e)"

abbreviation lfu_freq :: "'v lfu \<Rightarrow> nat \<Rightarrow> int" where
  "lfu_freq l e \<equiv> fe_freq (lfu_entry_of l e)"

text \<open>The lists hold exactly the live elements, each in the list of its frequency.\<close>

definition lfu_lists_ok :: "'v lfu \<Rightarrow> bool" where
  "lfu_lists_ok l \<longleftrightarrow>
     (\<forall>f. distinct (lfu_list (lfu_lists l) f)) \<and>
     (\<forall>f e. e \<in> set (lfu_list (lfu_lists l) f) \<longrightarrow> go_get (lfu_cache l) (lfu_key l e) = Some e \<and> lfu_freq l e = f) \<and>
     (\<forall>k e. go_get (lfu_cache l) k = Some e \<longrightarrow>
        lfu_key l e = k \<and> e < length (lfu_elems l) \<and> lfu_elems l ! e < length (lfu_heap l) \<and>
        e \<in> set (lfu_list (lfu_lists l) (lfu_freq l e)))"

definition lfu_min_ok :: "'v lfu \<Rightarrow> bool" where
  "lfu_min_ok l \<longleftrightarrow>
     (\<forall>k e. go_get (lfu_cache l) k = Some e \<longrightarrow>
        lfu_list (lfu_lists l) (lfu_min l) \<noteq> [] \<and> lfu_min l \<le> lfu_freq l e)"

definition lfu_ok :: "'v lfu \<Rightarrow> bool" where
  "lfu_ok l \<longleftrightarrow> 1 \<le> lfu_capacity l \<and> gomap_ok (lfu_cache l) \<and> int (go_len (lfu_cache l)) \<le> lfu_capacity l \<and>
     (\<forall>k e. go_get (lfu_cache l) k = Some e \<longrightarrow> 1 \<le> lfu_freq l e) \<and> lfu_lists_ok l \<and> lfu_min_ok l"

definition lfu_peek :: "'v lfu \<Rightarrow> string \<Rightarrow> 'v option" where
  "lfu_peek l k = map_option (\<lambda>e. fe_value (lfu_entry_of l e)) (go_get (lfu_cache l) k)"

lemma lfu_list_put [simp]: "lfu_list (go_put f xs m) g = (if f = g then xs else lfu_list m g)"
  by (simp add: lfu_list_def)

lemma lfu_listsD:
  assumes "lfu_lists_ok l"
  shows "distinct (lfu_list (lfu_lists l) f)"
    and "e \<in> set (lfu_list (lfu_lists l) f) \<Longrightarrow> go_get (lfu_cache l) (lfu_key l e) = Some e \<and> lfu_freq l e = f"
    and "go_get (lfu_cache l) k = Some e \<Longrightarrow> lfu_key l e = k"
    and "go_get (lfu_cache l) k = Some e \<Longrightarrow> e < length (lfu_elems l)"
    and "go_get (lfu_cache l) k = Some e \<Longrightarrow> lfu_elems l ! e < length (lfu_heap l)"
    and "go_get (lfu_cache l) k = Some e \<Longrightarrow> e \<in> set (lfu_list (lfu_lists l) (lfu_freq l e))"
  using assms by (simp_all add: lfu_lists_ok_def)

text \<open>Live elements do not share an entry.\<close>

lemma lfu_entry_inj:
  assumes "lfu_lists_ok l" and "go_get (lfu_cache l) k = Some e" and "go_get (lfu_cache l) j = Some x"
    and "lfu_elems l ! x = lfu_elems l ! e"
  shows "x = e"
proof -
  have "lfu_key l x = lfu_key l e" using assms(4) by (simp add: lfu_entry_of_def)
  then show ?thesis
    using lfu_listsD(3) [OF assms(1,2)] lfu_listsD(3) [OF assms(1,3)] assms(2,3) by simp
qed

lemma lfu_ok_new: "lfu_ok (new_lfu c)"
  by (simp add: lfu_ok_def new_lfu_def lfu_lists_ok_def lfu_min_ok_def lfu_list_def)

section \<open>Increment\<close>

text \<open>The parts of the state after \<open>incrementFrequency\<close>.\<close>

lemma lfu_increment_parts:
  fixes l :: "'v lfu" and e :: nat
  defines "l' \<equiv> lfu_increment e l" and "f \<equiv> lfu_freq l e" and "new \<equiv> length (lfu_elems l)"
  shows "lfu_capacity l' = lfu_capacity l"
    and "lfu_cache l' = go_put (lfu_key l e) new (lfu_cache l)"
    and "lfu_list (lfu_lists l') g =
      (if g = f + 1 then new # lfu_list (lfu_lists l) (f + 1)
       else if g = f then remove1 e (lfu_list (lfu_lists l) f) else lfu_list (lfu_lists l) g)"
    and "lfu_min l' = (if remove1 e (lfu_list (lfu_lists l) f) = [] \<and> f = lfu_min l then lfu_min l + 1 else lfu_min l)"
    and "length (lfu_elems l') = Suc new" and "length (lfu_heap l') = length (lfu_heap l)"
    and "x < new \<Longrightarrow> lfu_elems l' ! x = lfu_elems l ! x" and "lfu_elems l' ! new = lfu_elems l ! e"
    and "lfu_elems l ! e < length (lfu_heap l) \<Longrightarrow> lfu_entry_of l' new = (lfu_entry_of l e)\<lparr>fe_freq := f + 1\<rparr>"
    and "x < new \<Longrightarrow> lfu_elems l ! x \<noteq> lfu_elems l ! e \<Longrightarrow> lfu_entry_of l' x = lfu_entry_of l x"
    and "x < new \<Longrightarrow> lfu_elems l ! e < length (lfu_heap l) \<Longrightarrow> lfu_elems l ! x = lfu_elems l ! e \<Longrightarrow>
      lfu_entry_of l' x = (lfu_entry_of l e)\<lparr>fe_freq := f + 1\<rparr>"
  by (simp_all add: l'_def f_def new_def lfu_increment_def Let_def lfu_entry_of_def list_remove_def
      push_front_def nth_append)

lemma inc_key:
  assumes "lfu_lists_ok l" and "go_get (lfu_cache l) k = Some e"
  shows "lfu_key l e = k" and "e < length (lfu_elems l)" and "lfu_elems l ! e < length (lfu_heap l)"
  using lfu_listsD(3-5) [OF assms] by auto

lemma inc_other:
  assumes "lfu_lists_ok l" and "go_get (lfu_cache l) k = Some e" and "go_get (lfu_cache l) j = Some x" and "j \<noteq> k"
  shows "x < length (lfu_elems l)" and "lfu_elems l ! x \<noteq> lfu_elems l ! e" and "x \<noteq> e"
    and "lfu_entry_of (lfu_increment e l) x = lfu_entry_of l x"
proof -
  show x: "x < length (lfu_elems l)" using lfu_listsD(4) [OF assms(1,3)] .
  show "x \<noteq> e" using lfu_listsD(3) [OF assms(1,3)] inc_key [OF assms(1,2)] assms(4) by auto
  then show ne: "lfu_elems l ! x \<noteq> lfu_elems l ! e"
    using lfu_entry_inj [OF assms(1-3)] by auto
  show "lfu_entry_of (lfu_increment e l) x = lfu_entry_of l x"
    using lfu_increment_parts(10) [OF x ne] .
qed

lemma inc_cache:
  assumes "lfu_lists_ok l" and "go_get (lfu_cache l) k = Some e"
  shows "go_get (lfu_cache (lfu_increment e l)) j =
    (if j = k then Some (length (lfu_elems l)) else go_get (lfu_cache l) j)"
  by (simp add: lfu_increment_parts(2) inc_key [OF assms])

lemma inc_entry_new:
  assumes "lfu_lists_ok l" and "go_get (lfu_cache l) k = Some e"
  shows "lfu_entry_of (lfu_increment e l) (length (lfu_elems l)) = (lfu_entry_of l e)\<lparr>fe_freq := lfu_freq l e + 1\<rparr>"
  using lfu_increment_parts(9) [OF inc_key(3) [OF assms]] .

text \<open>The members of the lists afterwards: the new element, and the old ones but the one moved.\<close>

lemma inc_member:
  assumes "lfu_lists_ok l" and "x \<in> set (lfu_list (lfu_lists (lfu_increment e l)) g)" and "x \<noteq> length (lfu_elems l)"
  shows "x \<in> set (lfu_list (lfu_lists l) g) \<and> x \<noteq> e"
proof -
  let ?f = "lfu_freq l e"
  have only: "e \<in> set (lfu_list (lfu_lists l) g') \<Longrightarrow> g' = ?f" for g'
    using lfu_listsD(2) [OF assms(1)] by blast
  consider (up) "g = ?f + 1" | (same) "g = ?f" | (rest) "g \<noteq> ?f" "g \<noteq> ?f + 1" by blast
  then show ?thesis
  proof cases
    case up
    with assms(2,3) only [of "?f + 1"] show ?thesis by (auto simp: lfu_increment_parts(3))
  next
    case same
    with assms(2,3) lfu_listsD(1) [OF assms(1), of ?f] show ?thesis by (simp add: lfu_increment_parts(3))
  next
    case rest
    with assms(2,3) only [of g] show ?thesis by (auto simp: lfu_increment_parts(3))
  qed
qed

lemma inc_new_member:
  assumes "lfu_lists_ok l" and "length (lfu_elems l) \<in> set (lfu_list (lfu_lists (lfu_increment e l)) g)"
  shows "g = lfu_freq l e + 1"
proof -
  have new: "length (lfu_elems l) \<notin> set (lfu_list (lfu_lists l) h)" for h
    using lfu_listsD(2,4) [OF assms(1)] by blast
  with assms(2) show ?thesis
    by (simp add: lfu_increment_parts(3) split: if_splits)
qed

lemma inc_lists_ok:
  assumes "lfu_lists_ok l" and "go_get (lfu_cache l) k = Some e"
  shows "lfu_lists_ok (lfu_increment e l)"
proof -
  let ?l = "lfu_increment e l" and ?f = "lfu_freq l e" and ?new = "length (lfu_elems l)"
  note key = inc_key [OF assms]
  have new: "?new \<notin> set (lfu_list (lfu_lists l) g)" for g
    using lfu_listsD(2,4) [OF assms(1)] by blast
  have d: "distinct (lfu_list (lfu_lists ?l) g)" for g
    using lfu_listsD(1) [OF assms(1)] new by (simp add: lfu_increment_parts(3))
  have member: "go_get (lfu_cache ?l) (lfu_key ?l x) = Some x \<and> lfu_freq ?l x = g"
    if x: "x \<in> set (lfu_list (lfu_lists ?l) g)" for g x
  proof (cases "x = ?new")
    case True
    with x inc_new_member [OF assms(1)] show ?thesis
      by (simp add: inc_entry_new [OF assms] inc_cache [OF assms] key)
  next
    case False
    from inc_member [OF assms(1) x False] have old: "go_get (lfu_cache l) (lfu_key l x) = Some x"
      "lfu_freq l x = g" "lfu_key l x \<noteq> k"
      using lfu_listsD(2) [OF assms(1)] assms(2) by force+
    show ?thesis
      using inc_other(4) [OF assms old(1,3)] old by (simp add: inc_cache [OF assms])
  qed
  have live: "lfu_key ?l x = j \<and> x < length (lfu_elems ?l) \<and> lfu_elems ?l ! x < length (lfu_heap ?l) \<and>
      x \<in> set (lfu_list (lfu_lists ?l) (lfu_freq ?l x))" if c: "go_get (lfu_cache ?l) j = Some x" for j x
  proof (cases "j = k")
    case True
    with c have "x = ?new" by (simp add: inc_cache [OF assms])
    then show ?thesis
      using key True by (simp add: inc_entry_new [OF assms] lfu_increment_parts(3,5,6,8))
  next
    case False
    with c have x: "go_get (lfu_cache l) j = Some x" by (simp add: inc_cache [OF assms])
    note oth = inc_other [OF assms x False]
    have "x \<in> set (lfu_list (lfu_lists l) (lfu_freq l x))" using lfu_listsD(6) [OF assms(1) x] .
    then have "x \<in> set (lfu_list (lfu_lists ?l) (lfu_freq l x))"
      using oth(3) by (auto simp: lfu_increment_parts(3))
    then show ?thesis
      using oth lfu_listsD(3,4,5) [OF assms(1) x]
      by (simp add: lfu_increment_parts(5,6,7))
  qed
  show ?thesis
    unfolding lfu_lists_ok_def using d member live by blast
qed

lemma inc_min_ok:
  assumes "lfu_lists_ok l" and "go_get (lfu_cache l) k = Some e" and "lfu_min_ok l"
  shows "lfu_min_ok (lfu_increment e l)"
proof -
  let ?l = "lfu_increment e l" and ?f = "lfu_freq l e" and ?rest = "remove1 e (lfu_list (lfu_lists l) (lfu_freq l e))"
  have old: "lfu_list (lfu_lists l) (lfu_min l) \<noteq> []" "lfu_min l \<le> ?f"
    "go_get (lfu_cache l) j = Some x \<Longrightarrow> lfu_min l \<le> lfu_freq l x" for j x
    using assms(2,3) unfolding lfu_min_ok_def by blast+
  have freq: "lfu_freq ?l x = (if j = k then ?f + 1 else lfu_freq l x)"
    if "go_get (lfu_cache ?l) j = Some x" for j x
    using that inc_other(4) [OF assms(1,2)] by (auto simp: inc_cache [OF assms(1,2)] inc_entry_new [OF assms(1,2)] split: if_splits)
  show ?thesis
  proof (cases "?rest = [] \<and> ?f = lfu_min l")
    case True
    have "lfu_min ?l = lfu_min l + 1"
      unfolding lfu_increment_parts(4) by (rule if_P [OF True])
    with True have min: "lfu_min ?l = ?f + 1" by simp
    have "?f + 1 \<le> lfu_freq ?l x" if c: "go_get (lfu_cache ?l) j = Some x" for j x
    proof (cases "j = k")
      case False
      then have x: "go_get (lfu_cache l) j = Some x" using c by (simp add: inc_cache [OF assms(1,2)])
      have "lfu_freq l x \<noteq> ?f"
      proof
        assume "lfu_freq l x = ?f"
        with lfu_listsD(6) [OF assms(1) x] inc_other(3) [OF assms(1,2) x False] have "x \<in> set ?rest" by simp
        moreover have "?rest = []" using True by (rule conjunct1)
        ultimately show False by (metis list.set(1) emptyE)
      qed
      with old(3) [OF x] True freq [OF c] False show ?thesis by simp
    qed (use freq [OF c] in simp)
    moreover have "lfu_list (lfu_lists ?l) (?f + 1) \<noteq> []"
      by (simp add: lfu_increment_parts(3))
    ultimately show ?thesis
      unfolding lfu_min_ok_def min by blast
  next
    case False
    then have min: "lfu_min ?l = lfu_min l" by (auto simp: lfu_increment_parts(4))
    have "lfu_list (lfu_lists ?l) (lfu_min l) \<noteq> []"
      using False old(1) by (auto simp: lfu_increment_parts(3))
    moreover have "lfu_min l \<le> lfu_freq ?l x" if c: "go_get (lfu_cache ?l) j = Some x" for j x
      using freq [OF c] old(2,3) c by (auto simp: inc_cache [OF assms(1,2)] split: if_splits)
    ultimately show ?thesis unfolding lfu_min_ok_def min by blast
  qed
qed

lemma inc_freqs:
  assumes "lfu_lists_ok l" and "go_get (lfu_cache l) k = Some e" and "go_get (lfu_cache (lfu_increment e l)) j = Some x"
  shows "\<exists>y. go_get (lfu_cache l) j = Some y \<and> lfu_freq (lfu_increment e l) x = lfu_freq l y + (if j = k then 1 else 0)"
  using assms inc_other(4) [OF assms(1,2)]
  by (cases "j = k") (auto simp: inc_cache [OF assms(1,2)] inc_entry_new [OF assms(1,2)])

lemma inc_ok:
  assumes "lfu_ok l" and "go_get (lfu_cache l) k = Some e"
  shows "lfu_ok (lfu_increment e l)"
proof -
  have l: "lfu_lists_ok l" "lfu_min_ok l" using assms(1) by (simp_all add: lfu_ok_def)
  have "go_len (lfu_cache (lfu_increment e l)) = go_len (lfu_cache l)"
    using assms(2) by (simp add: lfu_increment_parts(2) inc_key [OF l(1) assms(2)] go_len_put)
  moreover have "1 \<le> lfu_freq (lfu_increment e l) x" if "go_get (lfu_cache (lfu_increment e l)) j = Some x" for j x
    using inc_freqs [OF l(1) assms(2) that] assms(1) unfolding lfu_ok_def by force
  ultimately show ?thesis
    using assms inc_lists_ok [OF l(1) assms(2)] inc_min_ok [OF l(1) assms(2) l(2)]
    by (simp add: lfu_ok_def lfu_increment_parts(1,2))
qed

lemma inc_peek:
  assumes "lfu_lists_ok l" and "go_get (lfu_cache l) k = Some e"
  shows "lfu_peek (lfu_increment e l) = lfu_peek l"
proof
  fix j show "lfu_peek (lfu_increment e l) j = lfu_peek l j"
    using assms(2) inc_other(4) [OF assms]
    by (cases "j = k"; cases "go_get (lfu_cache l) j")
       (auto simp: lfu_peek_def inc_cache [OF assms] inc_entry_new [OF assms])
qed

section \<open>Eviction and insertion\<close>

lemma evict_ok:
  assumes "lfu_lists_ok l" and "lfu_min_ok l" and "lfu_cache l \<noteq> []"
  shows "\<exists>k e. go_get (lfu_cache l) k = Some e \<and> lfu_freq l e = lfu_min l \<and>
    e = last (lfu_list (lfu_lists l) (lfu_min l)) \<and>
    (\<forall>j x. go_get (lfu_cache l) j = Some x \<longrightarrow> lfu_freq l e \<le> lfu_freq l x) \<and>
    lfu_lists_ok (lfu_evict l) \<and> lfu_cache (lfu_evict l) = go_del k (lfu_cache l) \<and>
    lfu_heap (lfu_evict l) = lfu_heap l \<and> lfu_elems (lfu_evict l) = lfu_elems l \<and>
    lfu_capacity (lfu_evict l) = lfu_capacity l"
proof -
  obtain j0 x0 rest where "lfu_cache l = (j0, x0) # rest"
    using assms(3) by (metis list.exhaust surj_pair)
  then have "go_get (lfu_cache l) j0 = Some x0" by (simp add: go_get_def)
  then have ne: "lfu_list (lfu_lists l) (lfu_min l) \<noteq> []"
    using assms(2) by (auto simp: lfu_min_ok_def)
  then obtain xs where xs: "go_get (lfu_lists l) (lfu_min l) = Some xs" "xs \<noteq> []"
    "lfu_list (lfu_lists l) (lfu_min l) = xs"
    by (auto simp: lfu_list_def split: option.splits)
  let ?e = "last xs" and ?k = "lfu_key l (last xs)" and ?l = "lfu_evict l"
  have e: "go_get (lfu_cache l) ?k = Some ?e" "lfu_freq l ?e = lfu_min l"
    using lfu_listsD(2) [OF assms(1), of ?e "lfu_min l"] xs by auto
  have l: "lfu_lists ?l = go_put (lfu_min l) (remove1 ?e xs) (lfu_lists l)"
    "lfu_cache ?l = go_del ?k (lfu_cache l)" "lfu_heap ?l = lfu_heap l" "lfu_elems ?l = lfu_elems l"
    "lfu_capacity ?l = lfu_capacity l" "lfu_min ?l = lfu_min l"
    using xs by (simp_all add: lfu_evict_def list_remove_def Let_def)
  have ent: "lfu_entry_of ?l x = lfu_entry_of l x" for x
    by (simp add: lfu_entry_of_def l)
  have d: "distinct xs" using lfu_listsD(1) [OF assms(1), of "lfu_min l"] xs by simp
  have member: "x \<in> set (lfu_list (lfu_lists ?l) g) \<longleftrightarrow> x \<in> set (lfu_list (lfu_lists l) g) \<and> x \<noteq> ?e" for x g
    using d xs(2,3) lfu_listsD(2) [OF assms(1), of ?e g] e by (auto simp: l)
  have "lfu_lists_ok ?l"
    unfolding lfu_lists_ok_def ent
  proof (intro conjI allI impI)
    show "distinct (lfu_list (lfu_lists ?l) f)" for f
      using lfu_listsD(1) [OF assms(1)] d by (simp add: l)
  next
    fix f x assume "x \<in> set (lfu_list (lfu_lists ?l) f)"
    then have x: "go_get (lfu_cache l) (lfu_key l x) = Some x" "lfu_freq l x = f" "x \<noteq> ?e"
      using member lfu_listsD(2) [OF assms(1)] by auto
    with e show "go_get (lfu_cache ?l) (lfu_key l x) = Some x" and "lfu_freq l x = f"
      by (auto simp: l)
  next
    fix j x assume c: "go_get (lfu_cache ?l) j = Some x"
    then have x: "go_get (lfu_cache l) j = Some x" "j \<noteq> ?k" by (auto simp: l split: if_splits)
    note live = lfu_listsD(3-6) [OF assms(1) x(1)]
    show "lfu_key l x = j" "x < length (lfu_elems ?l)" "lfu_elems ?l ! x < length (lfu_heap ?l)"
      using live by (simp_all add: l)
    show "x \<in> set (lfu_list (lfu_lists ?l) (lfu_freq l x))"
      using live x member by auto
  qed
  moreover have "\<forall>j x. go_get (lfu_cache l) j = Some x \<longrightarrow> lfu_freq l ?e \<le> lfu_freq l x"
    using assms(2) e(2) unfolding lfu_min_ok_def by auto
  ultimately show ?thesis using e l xs(3) by (intro exI [of _ ?k] exI [of _ ?e]) simp
qed

lemma insert_parts:
  fixes l :: "'v lfu" and k :: string and v :: 'v
  defines "l' \<equiv> lfu_insert k v l" and "new \<equiv> length (lfu_elems l)"
  shows "lfu_capacity l' = lfu_capacity l" and "lfu_cache l' = go_put k new (lfu_cache l)" and "lfu_min l' = 1"
    and "lfu_list (lfu_lists l') g = (if g = 1 then new # lfu_list (lfu_lists l) 1 else lfu_list (lfu_lists l) g)"
    and "length (lfu_elems l') = Suc new" and "length (lfu_heap l') = Suc (length (lfu_heap l))"
    and "x < new \<Longrightarrow> lfu_elems l' ! x = lfu_elems l ! x" and "lfu_elems l' ! new = length (lfu_heap l)"
    and "lfu_entry_of l' new = \<lparr>fe_key = k, fe_value = v, fe_freq = 1\<rparr>"
    and "x < new \<Longrightarrow> lfu_elems l ! x < length (lfu_heap l) \<Longrightarrow> lfu_entry_of l' x = lfu_entry_of l x"
  by (simp_all add: l'_def new_def lfu_insert_def Let_def push_front_def lfu_entry_of_def nth_append)

lemma insert_ok:
  assumes "lfu_lists_ok l" and "go_get (lfu_cache l) k = None" and "gomap_ok (lfu_cache l)"
    and "\<forall>j x. go_get (lfu_cache l) j = Some x \<longrightarrow> 1 \<le> lfu_freq l x"
    and "1 \<le> lfu_capacity l" and "int (go_len (lfu_cache l)) < lfu_capacity l"
  shows "lfu_ok (lfu_insert k v l)" and "lfu_peek (lfu_insert k v l) = (lfu_peek l)(k \<mapsto> v)"
    and "go_get (lfu_cache l) j = Some x \<Longrightarrow> go_get (lfu_cache (lfu_insert k v l)) j = Some x \<and>
      lfu_entry_of (lfu_insert k v l) x = lfu_entry_of l x"
proof -
  let ?l = "lfu_insert k v l" and ?new = "length (lfu_elems l)"
  have old: "x < ?new" "lfu_entry_of ?l x = lfu_entry_of l x" "lfu_elems ?l ! x = lfu_elems l ! x"
    "lfu_elems l ! x < length (lfu_heap l)" "j \<noteq> k" if "go_get (lfu_cache l) j = Some x" for j x
  proof -
    show "x < ?new" "lfu_elems l ! x < length (lfu_heap l)" using lfu_listsD(4,5) [OF assms(1) that] .
    then show "lfu_entry_of ?l x = lfu_entry_of l x" "lfu_elems ?l ! x = lfu_elems l ! x"
      by (simp_all add: insert_parts(7,10))
    show "j \<noteq> k" using that assms(2) by auto
  qed
  have cache: "go_get (lfu_cache ?l) j = (if j = k then Some ?new else go_get (lfu_cache l) j)" for j
    by (simp add: insert_parts(2))
  show keep: "go_get (lfu_cache l) j = Some x \<Longrightarrow> go_get (lfu_cache ?l) j = Some x \<and>
      lfu_entry_of ?l x = lfu_entry_of l x" for j x
    using old by (simp add: cache)
  show "lfu_peek ?l = (lfu_peek l)(k \<mapsto> v)"
  proof
    fix j show "lfu_peek ?l j = ((lfu_peek l)(k \<mapsto> v)) j"
      using old(2) by (cases "go_get (lfu_cache l) j") (auto simp: lfu_peek_def cache insert_parts(9))
  qed
  have new: "?new \<notin> set (lfu_list (lfu_lists l) g)" for g
    using lfu_listsD(2,4) [OF assms(1)] by blast
  have "lfu_lists_ok ?l"
    unfolding lfu_lists_ok_def
  proof (intro conjI allI impI)
    show "distinct (lfu_list (lfu_lists ?l) f)" for f
      using lfu_listsD(1) [OF assms(1)] new by (simp add: insert_parts(4))
  next
    fix f x assume "x \<in> set (lfu_list (lfu_lists ?l) f)"
    then consider "x = ?new" "f = 1" | "x \<in> set (lfu_list (lfu_lists l) f)"
      by (auto simp: insert_parts(4) split: if_splits)
    then have "go_get (lfu_cache ?l) (lfu_key ?l x) = Some x \<and> lfu_freq ?l x = f"
    proof cases
      case 1
      then show ?thesis by (simp add: insert_parts(9) cache)
    next
      case 2
      then have x: "go_get (lfu_cache l) (lfu_key l x) = Some x" "lfu_freq l x = f"
        using lfu_listsD(2) [OF assms(1)] by auto
      with old [OF x(1)] show ?thesis by (simp add: cache)
    qed
    then show "go_get (lfu_cache ?l) (lfu_key ?l x) = Some x" and "lfu_freq ?l x = f" by auto
  next
    fix j x assume c: "go_get (lfu_cache ?l) j = Some x"
    have "lfu_key ?l x = j \<and> x < length (lfu_elems ?l) \<and> lfu_elems ?l ! x < length (lfu_heap ?l) \<and>
        x \<in> set (lfu_list (lfu_lists ?l) (lfu_freq ?l x))"
    proof (cases "j = k")
      case True
      with c have "x = ?new" by (simp add: cache)
      with True show ?thesis by (simp add: insert_parts(4,5,6,8,9))
    next
      case False
      with c have x: "go_get (lfu_cache l) j = Some x" by (simp add: cache)
      with old [OF x] lfu_listsD(3,6) [OF assms(1) x] show ?thesis
        by (auto simp: insert_parts(4,5,6))
    qed
    then show "lfu_key ?l x = j" "x < length (lfu_elems ?l)" "lfu_elems ?l ! x < length (lfu_heap ?l)"
      "x \<in> set (lfu_list (lfu_lists ?l) (lfu_freq ?l x))" by auto
  qed
  moreover have freq: "1 \<le> lfu_freq ?l x" if "go_get (lfu_cache ?l) j = Some x" for j x
    using that old(2) assms(4) by (cases "j = k") (auto simp: cache insert_parts(9))
  moreover have "lfu_min_ok ?l"
    using freq by (auto simp: lfu_min_ok_def insert_parts(3,4))
  ultimately show "lfu_ok ?l"
    using assms(2,3,5,6) by (simp add: lfu_ok_def insert_parts(1,2) go_len_put)
qed

section \<open>Set\<close>

text \<open>\<open>Set\<close> of a present key stores the value in the entry, then counts the access.\<close>

definition lfu_store :: "nat \<Rightarrow> 'v \<Rightarrow> 'v lfu \<Rightarrow> 'v lfu" where
  "lfu_store e v l =
     l\<lparr>lfu_heap := (lfu_heap l)[lfu_elems l ! e := (lfu_heap l ! (lfu_elems l ! e))\<lparr>fe_value := v\<rparr>]\<rparr>"

lemma store_simps [simp]:
  "lfu_cache (lfu_store e v l) = lfu_cache l" "lfu_lists (lfu_store e v l) = lfu_lists l"
  "lfu_elems (lfu_store e v l) = lfu_elems l" "lfu_min (lfu_store e v l) = lfu_min l"
  "lfu_capacity (lfu_store e v l) = lfu_capacity l" "length (lfu_heap (lfu_store e v l)) = length (lfu_heap l)"
  by (simp_all add: lfu_store_def)

lemma store_entry:
  assumes "lfu_elems l ! e < length (lfu_heap l)"
  shows "lfu_entry_of (lfu_store e v l) x =
    (if lfu_elems l ! x = lfu_elems l ! e then (lfu_entry_of l x)\<lparr>fe_value := v\<rparr> else lfu_entry_of l x)"
  using assms by (simp add: lfu_entry_of_def lfu_store_def)

lemma lfu_store_ok:
  assumes "lfu_ok l" and "go_get (lfu_cache l) k = Some e"
  shows "lfu_ok (lfu_store e v l)" and "lfu_peek (lfu_store e v l) = (lfu_peek l)(k \<mapsto> v)"
    and "lfu_key (lfu_store e v l) x = lfu_key l x" and "lfu_freq (lfu_store e v l) x = lfu_freq l x"
proof -
  have ok: "lfu_lists_ok l" using assms(1) by (simp add: lfu_ok_def)
  note ent = store_entry [OF inc_key(3) [OF ok assms(2)]]
  show kf: "lfu_key (lfu_store e v l) x = lfu_key l x" "lfu_freq (lfu_store e v l) x = lfu_freq l x" for x
    by (simp_all add: ent)
  show "lfu_ok (lfu_store e v l)"
    using assms(1) by (simp add: lfu_ok_def lfu_lists_ok_def lfu_min_ok_def kf)
  show "lfu_peek (lfu_store e v l) = (lfu_peek l)(k \<mapsto> v)"
  proof
    fix j
    have "j = k \<Longrightarrow> lfu_peek (lfu_store e v l) j = Some v"
      using assms(2) by (simp add: lfu_peek_def ent)
    moreover have "j \<noteq> k \<Longrightarrow> lfu_peek (lfu_store e v l) j = lfu_peek l j"
      using inc_other(2) [OF ok assms(2)] by (cases "go_get (lfu_cache l) j") (auto simp: lfu_peek_def ent)
    ultimately show "lfu_peek (lfu_store e v l) j = ((lfu_peek l)(k \<mapsto> v)) j" by simp
  qed
qed

lemma lfu_set_present:
  assumes "1 \<le> lfu_capacity l" and "go_get (lfu_cache l) k = Some e"
  shows "lfu_set k v l = lfu_increment e (lfu_store e v l)"
  using assms by (simp add: lfu_set_def lfu_store_def Let_def)

lemma lfu_okD:
  assumes "lfu_ok l"
  shows "1 \<le> lfu_capacity l" and "gomap_ok (lfu_cache l)" and "int (go_len (lfu_cache l)) \<le> lfu_capacity l"
    and "lfu_lists_ok l" and "lfu_min_ok l" and "\<forall>j x. go_get (lfu_cache l) j = Some x \<longrightarrow> 1 \<le> lfu_freq l x"
  using assms by (simp_all add: lfu_ok_def)

text \<open>A new key goes in after an eviction if there is no room.\<close>

definition lfu_room :: "'v lfu \<Rightarrow> 'v lfu" where
  "lfu_room l = (if int (go_len (lfu_cache l)) \<ge> lfu_capacity l then lfu_evict l else l)"

lemma lfu_set_new:
  assumes "lfu_ok l" and "go_get (lfu_cache l) k = None"
  shows "lfu_set k v l = lfu_insert k v (lfu_room l)"
  using lfu_okD(1) [OF assms(1)] assms(2) by (simp add: lfu_set_def lfu_room_def)

lemma lfu_room_parts:
  assumes "lfu_ok l"
  shows "lfu_lists_ok (lfu_room l)" and "gomap_ok (lfu_cache (lfu_room l))"
    and "int (go_len (lfu_cache (lfu_room l))) < lfu_capacity l" and "lfu_capacity (lfu_room l) = lfu_capacity l"
    and "lfu_entry_of (lfu_room l) = lfu_entry_of l"
    and "go_get (lfu_cache (lfu_room l)) j = None \<or> go_get (lfu_cache (lfu_room l)) j = go_get (lfu_cache l) j"
    and "int (go_len (lfu_cache l)) < lfu_capacity l \<Longrightarrow> lfu_room l = l"
proof -
  note ok = lfu_okD [OF assms]
  have "lfu_lists_ok (lfu_room l) \<and> gomap_ok (lfu_cache (lfu_room l)) \<and>
      int (go_len (lfu_cache (lfu_room l))) < lfu_capacity l \<and> lfu_capacity (lfu_room l) = lfu_capacity l \<and>
      lfu_entry_of (lfu_room l) = lfu_entry_of l \<and>
      (\<forall>j. go_get (lfu_cache (lfu_room l)) j = None \<or> go_get (lfu_cache (lfu_room l)) j = go_get (lfu_cache l) j)"
  proof (cases "int (go_len (lfu_cache l)) \<ge> lfu_capacity l")
    case False
    then have "lfu_room l = l" by (simp add: lfu_room_def)
    with False ok show ?thesis by simp
  next
    case True
    with ok(1) have ne: "lfu_cache l \<noteq> []" by auto
    obtain d e where d: "go_get (lfu_cache l) d = Some e" "lfu_lists_ok (lfu_evict l)"
      "lfu_cache (lfu_evict l) = go_del d (lfu_cache l)" "lfu_heap (lfu_evict l) = lfu_heap l"
      "lfu_elems (lfu_evict l) = lfu_elems l" "lfu_capacity (lfu_evict l) = lfu_capacity l"
      using evict_ok [OF ok(4,5) ne] by blast
    have room: "lfu_room l = lfu_evict l" using True by (simp add: lfu_room_def)
    have "0 < go_len (lfu_cache l)" using ne by (simp add: go_len_def)
    then have "int (go_len (go_del d (lfu_cache l))) < lfu_capacity l"
      using d(1) ok(2,3) by (simp add: go_len_del)
    then show ?thesis unfolding room
      using d(2-6) ok(2) by (simp add: lfu_entry_of_def fun_eq_iff)
  qed
  then show "lfu_lists_ok (lfu_room l)" "gomap_ok (lfu_cache (lfu_room l))"
    "int (go_len (lfu_cache (lfu_room l))) < lfu_capacity l" "lfu_capacity (lfu_room l) = lfu_capacity l"
    "lfu_entry_of (lfu_room l) = lfu_entry_of l"
    "go_get (lfu_cache (lfu_room l)) j = None \<or> go_get (lfu_cache (lfu_room l)) j = go_get (lfu_cache l) j"
    by blast+
  show "int (go_len (lfu_cache l)) < lfu_capacity l \<Longrightarrow> lfu_room l = l" by (simp add: lfu_room_def)
qed

lemma lfu_set_ok:
  assumes "lfu_ok l"
  shows "lfu_ok (lfu_set k v l) \<and> lfu_capacity (lfu_set k v l) = lfu_capacity l \<and>
    (\<exists>m. lfu_peek (lfu_set k v l) = m(k \<mapsto> v) \<and> (\<forall>j. m j = None \<or> m j = lfu_peek l j) \<and>
      (lfu_peek l k \<noteq> None \<or> int (lfu_len l) < lfu_capacity l \<longrightarrow> m = lfu_peek l))"
proof -
  note ok = lfu_okD [OF assms]
  show ?thesis
  proof (cases "go_get (lfu_cache l) k")
    case (Some e)
    note st = lfu_store_ok [OF assms Some]
    have e: "go_get (lfu_cache (lfu_store e v l)) k = Some e" using Some by simp
    have "lfu_peek (lfu_set k v l) = (lfu_peek l)(k \<mapsto> v)"
      unfolding lfu_set_present [OF ok(1) Some] inc_peek [OF lfu_okD(4) [OF st(1)] e] st(2) ..
    moreover have "lfu_ok (lfu_set k v l)" "lfu_capacity (lfu_set k v l) = lfu_capacity l"
      using inc_ok [OF st(1) e] by (simp_all add: lfu_set_present [OF ok(1) Some] lfu_increment_parts(1))
    ultimately show ?thesis by blast
  next
    case None
    note room = lfu_room_parts [OF assms]
    have set: "lfu_set k v l = lfu_insert k v (lfu_room l)" using lfu_set_new [OF assms None] .
    have new: "go_get (lfu_cache (lfu_room l)) k = None" using room(6) [of k] None by simp
    have freq: "\<forall>j x. go_get (lfu_cache (lfu_room l)) j = Some x \<longrightarrow> 1 \<le> lfu_freq (lfu_room l) x"
    proof (intro allI impI)
      fix j x assume "go_get (lfu_cache (lfu_room l)) j = Some x"
      with room(6) [of j] ok(6) room(5) show "1 \<le> lfu_freq (lfu_room l) x" by simp
    qed
    have cap: "1 \<le> lfu_capacity (lfu_room l)" "int (go_len (lfu_cache (lfu_room l))) < lfu_capacity (lfu_room l)"
      using ok(1) room(3,4) by simp_all
    note ins = insert_ok [OF room(1) new room(2) freq cap]
    have "lfu_peek (lfu_room l) j = None \<or> lfu_peek (lfu_room l) j = lfu_peek l j" for j
      using room(6) [of j] by (auto simp: lfu_peek_def room(5))
    moreover have "lfu_peek l k \<noteq> None \<or> int (lfu_len l) < lfu_capacity l \<longrightarrow> lfu_peek (lfu_room l) = lfu_peek l"
      using room(7) None by (auto simp: lfu_len_def lfu_peek_def)
    moreover have "lfu_capacity (lfu_insert k v (lfu_room l)) = lfu_capacity l"
      using room(4) by (simp add: insert_parts(1))
    ultimately show ?thesis
      unfolding set using ins(1) [of v] ins(2) [of v] by blast
  qed
qed

section \<open>The contract\<close>

definition lfu_cap :: "'v lfu \<Rightarrow> nat" where
  "lfu_cap l = nat (lfu_capacity l)"

lemma dom_lfu_peek: "dom (lfu_peek l) = {k. go_get (lfu_cache l) k \<noteq> None}"
  by (auto simp: lfu_peek_def dom_def)

lemma lfu_get_ok:
  assumes "lfu_ok l"
  shows "fst (lfu_get k l) = lfu_peek l k" and "lfu_ok (snd (lfu_get k l))"
    and "lfu_peek (snd (lfu_get k l)) = lfu_peek l" and "lfu_capacity (snd (lfu_get k l)) = lfu_capacity l"
proof -
  note ok = lfu_okD [OF assms]
  have "fst (lfu_get k l) = lfu_peek l k \<and> lfu_ok (snd (lfu_get k l)) \<and>
      lfu_peek (snd (lfu_get k l)) = lfu_peek l \<and> lfu_capacity (snd (lfu_get k l)) = lfu_capacity l"
  proof (cases "go_get (lfu_cache l) k")
    case None
    with assms show ?thesis by (simp add: lfu_get_def lfu_peek_def)
  next
    case (Some e)
    note live = inc_key [OF ok(4) Some]
    have "lfu_entry_of (lfu_increment e l) e = (lfu_entry_of l e)\<lparr>fe_freq := lfu_freq l e + 1\<rparr>"
      using lfu_increment_parts(11) [OF live(2,3) refl] .
    with Some inc_ok [OF assms Some] inc_peek [OF ok(4) Some] show ?thesis
      by (simp add: lfu_get_def lfu_peek_def lfu_increment_parts(1))
  qed
  then show "fst (lfu_get k l) = lfu_peek l k" "lfu_ok (snd (lfu_get k l))"
    "lfu_peek (snd (lfu_get k l)) = lfu_peek l" "lfu_capacity (snd (lfu_get k l)) = lfu_capacity l" by auto
qed

interpretation lfu: bounded_cache lfu_ok lfu_peek lfu_get lfu_set lfu_len lfu_cap
proof unfold_locales
  fix l :: "'a lfu" and k k' :: string and v :: 'a
  assume ok: "lfu_ok l"
  show "fst (lfu_get k l) = lfu_peek l k" using lfu_get_ok(1) [OF ok] .
  show "lfu_ok (snd (lfu_get k l)) \<and> lfu_peek (snd (lfu_get k l)) = lfu_peek l \<and> lfu_cap (snd (lfu_get k l)) = lfu_cap l"
    using lfu_get_ok [OF ok] by (simp add: lfu_cap_def)
  from lfu_set_ok [OF ok, of k v] obtain m where
    m: "lfu_ok (lfu_set k v l)" "lfu_capacity (lfu_set k v l) = lfu_capacity l"
      "lfu_peek (lfu_set k v l) = m(k \<mapsto> v)" "\<And>j. m j = None \<or> m j = lfu_peek l j"
      "lfu_peek l k \<noteq> None \<or> int (lfu_len l) < lfu_capacity l \<Longrightarrow> m = lfu_peek l" by blast
  show "lfu_ok (lfu_set k v l)" "lfu_cap (lfu_set k v l) = lfu_cap l"
    using m by (simp_all add: lfu_cap_def)
  show "lfu_peek (lfu_set k v l) k = Some v" using m(3) by simp
  show "k' \<noteq> k \<Longrightarrow> lfu_peek (lfu_set k v l) k' = None \<or> lfu_peek (lfu_set k v l) k' = lfu_peek l k'"
    using m(3,4) by simp
  show "lfu_peek l k \<noteq> None \<or> lfu_len l < lfu_cap l \<Longrightarrow> k' \<noteq> k \<Longrightarrow> lfu_peek (lfu_set k v l) k' = lfu_peek l k'"
    using m(3,5) by (auto simp: lfu_cap_def zless_nat_eq_int_zless)
  show "lfu_len l = card (dom (lfu_peek l))"
    using go_len_card [OF lfu_okD(2) [OF ok]] by (simp add: dom_lfu_peek lfu_len_def)
  show "finite (dom (lfu_peek l))"
    unfolding dom_lfu_peek using finite_dom_map_of [of "lfu_cache l"] by (simp add: go_get_def dom_def)
  show "lfu_len l \<le> lfu_cap l"
    using lfu_okD(3) [OF ok] by (simp add: lfu_len_def lfu_cap_def)
qed

lemma lfu_peek_new: "lfu_peek (new_lfu c) = Map.empty" "lfu_cap (new_lfu c) = nat (max 1 c)"
  by (auto simp: lfu_peek_def new_lfu_def lfu_cap_def max_def fun_eq_iff)

text \<open>
  C35: the LFU cache keeps the same contract.  After any sequence of calls, \<open>Get\<close> of a key
  returns the value last stored under it or nothing, there are at most \<open>capacity\<close> entries, and
  when no more than that many different keys were stored, nothing is lost.
\<close>

theorem lfu_contract:
  "fst (ts_lfu_get k (cache_run ts_lfu_get ts_lfu_set ops (ts_new_lfu c))) \<in> {None, last_put ops Map.empty k} \<and>
   ts_lfu_len (cache_run ts_lfu_get ts_lfu_set ops (ts_new_lfu c)) \<le> nat (max 1 c) \<and>
   (card (put_keys ops) \<le> nat (max 1 c) \<longrightarrow>
      fst (ts_lfu_get k (cache_run ts_lfu_get ts_lfu_set ops (ts_new_lfu c))) = last_put ops Map.empty k)"
proof -
  have ts: "ts_lfu_get = (lfu_get :: string \<Rightarrow> 'a lfu \<Rightarrow> _)" "ts_lfu_set = (lfu_set :: string \<Rightarrow> 'a \<Rightarrow> _)"
    "ts_new_lfu c = (new_lfu c :: 'a lfu)" "ts_lfu_len = (lfu_len :: 'a lfu \<Rightarrow> nat)"
    by (simp_all add: ts_lfu_get_def ts_lfu_set_def ts_new_lfu_def ts_lfu_len_def fun_eq_iff)
  let ?l = "cache_run lfu_get lfu_set ops (new_lfu c) :: 'a lfu"
  have get: "fst (lfu_get k ?l) = lfu_peek ?l k"
    using lfu.get_peek lfu.run_inv lfu_ok_new by blast
  show ?thesis
    unfolding ts get
    using lfu.run_never_stale [OF lfu_ok_new, of c Map.empty ops k] lfu.run_bound [OF lfu_ok_new, of ops c]
      lfu.run_exact [OF lfu_ok_new, of c ops] by (auto simp: lfu_peek_new)
qed

theorem lfu_contract_witness:
  "fst (ts_lfu_get ''a'' (cache_run ts_lfu_get ts_lfu_set [PutOp ''a'' (1 :: nat), GetOp ''a'', PutOp ''b'' 2, PutOp ''b'' 3]
     (ts_new_lfu 2))) = Some 1"
  using lfu_contract [of "''a''" "[PutOp ''a'' (1 :: nat), GetOp ''a'', PutOp ''b'' 2, PutOp ''b'' 3]" 2]
  by simp

text \<open>
  Eviction takes the least used entry.  Storing a new key in a full cache, after any sequence
  of calls, drops exactly one entry, which no entry has been used less often than (and which is the
  one at the end of the list of its frequency), and keeps the value of every other.
\<close>

theorem lfu_evicts_least:
  fixes ops :: "'v cache_op list"
  assumes "l = cache_run lfu_get lfu_set ops (new_lfu c)"
    and "go_get (lfu_cache l) k = None" and "int (lfu_len l) = lfu_capacity l"
  shows "\<exists>d e. go_get (lfu_cache l) d = Some e \<and> e = last (lfu_list (lfu_lists l) (lfu_freq l e)) \<and>
    (\<forall>j x. go_get (lfu_cache l) j = Some x \<longrightarrow> lfu_freq l e \<le> lfu_freq l x) \<and>
    lfu_peek (lfu_set k v l) = (lfu_peek l)(d := None, k \<mapsto> v)"
proof -
  have inv: "lfu_ok l"
    unfolding assms(1) using lfu.run_inv [OF lfu_ok_new] by blast
  note ok = lfu_okD [OF inv] and room = lfu_room_parts [OF inv]
  have r: "lfu_room l = lfu_evict l" using assms(3) by (simp add: lfu_room_def lfu_len_def)
  have ne: "lfu_cache l \<noteq> []" using assms(3) ok(1) by (auto simp: lfu_len_def)
  obtain d e where d: "go_get (lfu_cache l) d = Some e" "lfu_freq l e = lfu_min l"
    "e = last (lfu_list (lfu_lists l) (lfu_min l))"
    "\<forall>j x. go_get (lfu_cache l) j = Some x \<longrightarrow> lfu_freq l e \<le> lfu_freq l x"
    "lfu_cache (lfu_evict l) = go_del d (lfu_cache l)"
    using evict_ok [OF ok(4,5) ne] by blast
  have new: "go_get (lfu_cache (lfu_room l)) k = None" using room(6) [of k] assms(2) by auto
  have freq: "\<forall>j x. go_get (lfu_cache (lfu_room l)) j = Some x \<longrightarrow> 1 \<le> lfu_freq (lfu_room l) x"
  proof (intro allI impI)
    fix j x assume "go_get (lfu_cache (lfu_room l)) j = Some x"
    with room(6) [of j] ok(6) room(5) show "1 \<le> lfu_freq (lfu_room l) x" by simp
  qed
  have "lfu_peek (lfu_insert k v (lfu_room l)) = (lfu_peek (lfu_room l))(k \<mapsto> v)"
    using insert_ok(2) [OF room(1) new room(2) freq, of v] room(3,4) ok(1) by simp
  moreover have "lfu_peek (lfu_room l) = (lfu_peek l)(d := None)"
    using room(5) unfolding lfu_peek_def r d(5) by (auto simp: fun_eq_iff)
  ultimately have "lfu_peek (lfu_set k v l) = (lfu_peek l)(d := None, k \<mapsto> v)"
    using lfu_set_new [OF inv assms(2), of v] by simp
  with d show ?thesis by metis
qed

theorem lfu_evicts_least_witness:
  "\<exists>d. lfu_peek (lfu_set ''c'' (3 :: nat) (cache_run lfu_get lfu_set [PutOp ''a'' 1, PutOp ''b'' 2, GetOp ''b''] (new_lfu 2))) =
     (lfu_peek (cache_run lfu_get lfu_set [PutOp ''a'' 1, PutOp ''b'' 2, GetOp ''b''] (new_lfu 2)))(d := None, ''c'' \<mapsto> 3)"
proof -
  define l where "l = cache_run lfu_get lfu_set [PutOp ''a'' (1 :: nat), PutOp ''b'' 2, GetOp ''b''] (new_lfu 2)"
  have n: "go_get (lfu_cache l) ''c'' = None" unfolding l_def by code_simp
  have f: "int (lfu_len l) = lfu_capacity l" unfolding l_def by code_simp
  from lfu_evicts_least [OF l_def n f, of 3] show ?thesis unfolding l_def by metis
qed

end
