(* ===== verification/TtlContract.thy ===== *)
theory TtlContract
  imports Prelude
begin

text \<open>
  The contract shared by the caches of \<open>gcache\<close> whose entries expire.  An instant is the number
  of nanoseconds since the zero \<open>time.Time\<close>, so that \<open>IsZero\<close>, \<open>Add\<close> and \<open>After\<close> are a test
  for 0, an addition and a comparison; the instant of a call is the one \<open>time.Now\<close> returns in it,
  and the clock does not run backwards.  \<open>view t s\<close> is what a state shows at \<open>t\<close>.
\<close>

type_synonym instant = int

definition deadline :: "instant \<Rightarrow> int \<Rightarrow> instant" where
  "deadline now ttl = (if ttl > 0 then now + ttl else 0)"

definition expired :: "instant \<Rightarrow> instant \<Rightarrow> bool" where
  "expired now d \<longleftrightarrow> d \<noteq> 0 \<and> d < now"

lemma expired_deadline: "0 < now \<Longrightarrow> expired t (deadline now ttl) \<longleftrightarrow> 0 < ttl \<and> now + ttl < t"
  by (auto simp: expired_def deadline_def)

lemma expired_later: "expired now d \<Longrightarrow> now \<le> t \<Longrightarrow> expired t d"
  by (auto simp: expired_def)

datatype 'v ttl_op = TGet string | TSet string 'v int | TDelete string | TSweep

fun ttl_run ::
  "(instant \<Rightarrow> string \<Rightarrow> 's \<Rightarrow> 'v option \<times> 's) \<Rightarrow> (instant \<Rightarrow> string \<Rightarrow> 'v \<Rightarrow> int \<Rightarrow> 's \<Rightarrow> 's) \<Rightarrow>
   (string \<Rightarrow> 's \<Rightarrow> 's) \<Rightarrow> (instant \<Rightarrow> 's \<Rightarrow> 's) \<Rightarrow> (instant \<times> 'v ttl_op) list \<Rightarrow> 's \<Rightarrow> 's" where
  "ttl_run get put del sweep [] s = s"
| "ttl_run get put del sweep ((now, op) # ops) s =
     ttl_run get put del sweep ops
       (case op of TGet k \<Rightarrow> snd (get now k s) | TSet k v ttl \<Rightarrow> put now k v ttl s
        | TDelete k \<Rightarrow> del k s | TSweep \<Rightarrow> sweep now s)"

text \<open>The last \<open>Set\<close> of a key that no \<open>Delete\<close> followed, and what it lets a reader see at \<open>t\<close>.\<close>

fun last_set ::
  "(instant \<times> 'v ttl_op) list \<Rightarrow> (string \<Rightarrow> ('v \<times> instant \<times> int) option) \<Rightarrow> string \<Rightarrow> ('v \<times> instant \<times> int) option" where
  "last_set [] m = m"
| "last_set ((now, TGet k) # ops) m = last_set ops m"
| "last_set ((now, TSet k v ttl) # ops) m = last_set ops (m(k \<mapsto> (v, now, ttl)))"
| "last_set ((now, TDelete k) # ops) m = last_set ops (m(k := None))"
| "last_set ((now, TSweep) # ops) m = last_set ops m"

definition in_force :: "instant \<Rightarrow> ('v \<times> instant \<times> int) option \<Rightarrow> 'v option" where
  "in_force t e =
     (case e of None \<Rightarrow> None
      | Some (v, now, ttl) \<Rightarrow> (if ttl \<le> 0 \<or> t \<le> now + ttl then Some v else None))"

locale expiring_cache =
  fixes inv :: "'s \<Rightarrow> bool"
    and view :: "instant \<Rightarrow> 's \<Rightarrow> string \<Rightarrow> 'v option"
    and get :: "instant \<Rightarrow> string \<Rightarrow> 's \<Rightarrow> 'v option \<times> 's"
    and put :: "instant \<Rightarrow> string \<Rightarrow> 'v \<Rightarrow> int \<Rightarrow> 's \<Rightarrow> 's"
    and del :: "string \<Rightarrow> 's \<Rightarrow> 's"
    and sweep :: "instant \<Rightarrow> 's \<Rightarrow> 's"
  assumes get_view: "inv s \<Longrightarrow> fst (get now k s) = view now s k"
    and get_inv: "inv s \<Longrightarrow> inv (snd (get now k s))"
    and get_keeps: "inv s \<Longrightarrow> now \<le> t \<Longrightarrow> view t (snd (get now k s)) = view t s"
    and put_inv: "inv s \<Longrightarrow> inv (put now k v ttl s)"
    and put_view: "inv s \<Longrightarrow> 0 < now \<Longrightarrow>
      view t (put now k v ttl s) = (view t s)(k := in_force t (Some (v, now, ttl)))"
    and del_inv: "inv s \<Longrightarrow> inv (del k s)"
    and del_view: "inv s \<Longrightarrow> view t (del k s) = (view t s)(k := None)"
    and sweep_inv: "inv s \<Longrightarrow> inv (sweep now s)"
    and sweep_view: "inv s \<Longrightarrow> now \<le> t \<Longrightarrow> view t (sweep now s) = view t s"
begin

lemma ttl_run_inv: "inv s \<Longrightarrow> inv (ttl_run get put del sweep ops s)"
proof (induction ops arbitrary: s)
  case (Cons p ops)
  obtain now op where "p = (now, op)" by (cases p)
  with Cons show ?case by (cases op) (simp_all add: get_inv put_inv del_inv sweep_inv)
qed simp

lemma ttl_run_view:
  assumes "inv s" and "sorted (map fst ops)" and "\<forall>u \<in> fst ` set ops. 0 < u \<and> u \<le> t"
    and "view t s = (\<lambda>k. in_force t (m k))"
  shows "view t (ttl_run get put del sweep ops s) = (\<lambda>k. in_force t (last_set ops m k))"
  using assms
proof (induction ops arbitrary: s m)
  case (Cons p ops)
  obtain now op where p: "p = (now, op)" by (cases p)
  let ?s = "case op of TGet k \<Rightarrow> snd (get now k s) | TSet k v ttl \<Rightarrow> put now k v ttl s
        | TDelete k \<Rightarrow> del k s | TSweep \<Rightarrow> sweep now s"
  have now: "0 < now" "now \<le> t" using Cons.prems(3) p by auto
  have inv: "inv ?s"
    using Cons.prems(1) by (cases op) (simp_all add: get_inv put_inv del_inv sweep_inv)
  have rest: "sorted (map fst ops)" "\<forall>u \<in> fst ` set ops. 0 < u \<and> u \<le> t"
    using Cons.prems(2,3) by auto
  have "view t ?s = (\<lambda>k. in_force t ((case op of TGet j \<Rightarrow> m | TSet j v ttl \<Rightarrow> m(j \<mapsto> (v, now, ttl))
      | TDelete j \<Rightarrow> m(j := None) | TSweep \<Rightarrow> m) k))"
    using Cons.prems(1,4) now
    by (cases op) (auto simp: get_keeps put_view del_view sweep_view in_force_def fun_eq_iff)
  from Cons.IH [OF inv rest this] show ?case
    by (cases op) (simp_all add: p del: fun_upd_apply)
qed simp

text \<open>What a reader sees after any history of calls.\<close>

lemma ttl_run_get:
  assumes "inv s" and "view t s = Map.empty"
    and "sorted (map fst ops @ [t])" and "\<forall>u \<in> fst ` set ops. 0 < u"
  shows "fst (get t k (ttl_run get put del sweep ops s)) = in_force t (last_set ops Map.empty k)"
proof -
  have "view t (ttl_run get put del sweep ops s) = (\<lambda>k. in_force t (last_set ops Map.empty k))"
    by (rule ttl_run_view) (use assms in \<open>auto simp: sorted_append in_force_def\<close>)
  then show ?thesis
    using get_view [OF ttl_run_inv [OF assms(1)]] by simp
qed

end

end
