(* ===== verification/TimedCache.thy ===== *)
theory TimedCache
  imports TtlContract
begin

text \<open>
  \<open>gcache/timed.go\<close>: the map of timed entries with its operations, each under the lock, and the
  cleanup goroutine as a state machine whose steps interleave with \<open>Close\<close>.
\<close>

section \<open>The cache\<close>

record 'v timed_entry =
  te_value :: 'v
  te_expires :: instant

record 'v timed_cache =
  tc_cache :: "(string, 'v timed_entry) gomap"
  tc_stop :: "nat option"

text \<open>\<open>stop\<close> is nil or the channel made by the constructor, numbered 0.\<close>

definition new_timed_cache :: "int \<Rightarrow> 'v timed_cache" where
  "new_timed_cache interval = \<lparr>tc_cache = [], tc_stop = (if interval > 0 then Some 0 else None)\<rparr>"

definition timed_get :: "instant \<Rightarrow> string \<Rightarrow> 'v timed_cache \<Rightarrow> 'v option" where
  "timed_get now key c =
     (case go_get (tc_cache c) key of
        None \<Rightarrow> None
      | Some entry \<Rightarrow> (if expired now (te_expires entry) then None else Some (te_value entry)))"

definition timed_set :: "instant \<Rightarrow> string \<Rightarrow> 'v \<Rightarrow> int \<Rightarrow> 'v timed_cache \<Rightarrow> 'v timed_cache" where
  "timed_set now key v ttl c =
     c\<lparr>tc_cache := go_put key \<lparr>te_value = v, te_expires = deadline now ttl\<rparr> (tc_cache c)\<rparr>"

definition timed_delete :: "string \<Rightarrow> 'v timed_cache \<Rightarrow> 'v timed_cache" where
  "timed_delete key c = c\<lparr>tc_cache := go_del key (tc_cache c)\<rparr>"

definition timed_len :: "'v timed_cache \<Rightarrow> nat" where
  "timed_len c = go_len (tc_cache c)"

definition evict_expired :: "instant \<Rightarrow> 'v timed_cache \<Rightarrow> 'v timed_cache" where
  "evict_expired now c = c\<lparr>tc_cache := filter (\<lambda>(key, entry). \<not> expired now (te_expires entry)) (tc_cache c)\<rparr>"

section \<open>The contract\<close>

definition timed_ok :: "'v timed_cache \<Rightarrow> bool" where
  "timed_ok c \<longleftrightarrow> gomap_ok (tc_cache c)"

lemma timed_get_evict:
  assumes "timed_ok c" and "now \<le> t"
  shows "timed_get t k (evict_expired now c) = timed_get t k c"
  using assms expired_later
  by (fastforce simp: timed_ok_def timed_get_def evict_expired_def go_get_filter split: option.splits)

interpretation timed: expiring_cache timed_ok "\<lambda>t c k. timed_get t k c" "\<lambda>now k c. (timed_get now k c, c)"
    timed_set timed_delete evict_expired
proof unfold_locales
  fix c :: "'v timed_cache" and now t ttl :: int and k :: string and v :: 'v
  assume ok: "timed_ok c"
  show "timed_ok (timed_set now k v ttl c)" "timed_ok (timed_delete k c)" "timed_ok (evict_expired now c)"
    using ok by (simp_all add: timed_ok_def timed_set_def timed_delete_def evict_expired_def gomap_ok_filter)
  show "0 < now \<Longrightarrow> (\<lambda>j. timed_get t j (timed_set now k v ttl c)) =
      (\<lambda>j. timed_get t j c)(k := in_force t (Some (v, now, ttl)))"
    by (auto simp: timed_get_def timed_set_def expired_deadline in_force_def fun_eq_iff)
  show "(\<lambda>j. timed_get t j (timed_delete k c)) = (\<lambda>j. timed_get t j c)(k := None)"
    by (auto simp: timed_get_def timed_delete_def fun_eq_iff)
  show "now \<le> t \<Longrightarrow> (\<lambda>j. timed_get t j (evict_expired now c)) = (\<lambda>j. timed_get t j c)"
    using timed_get_evict [OF ok] by simp
qed simp_all

text \<open>
  A timed cache serves a value until its time is up.  After any history of calls and cleanup
  passes at nondecreasing instants, \<open>Get\<close> at a later instant returns the value of the last \<open>Set\<close>
  of the key not followed by a \<open>Delete\<close>, as long as its lifetime (unlimited when not positive)
  has not passed, and nothing otherwise; when the cleanup runs makes no difference.
\<close>

theorem timed_contract:
  assumes "sorted (map fst ops @ [t])" and "\<forall>u \<in> fst ` set ops. 0 < u"
  shows "timed_get t k (ttl_run (\<lambda>now k c. (timed_get now k c, c)) timed_set timed_delete evict_expired ops
      (new_timed_cache interval)) = in_force t (last_set ops Map.empty k)"
  using timed.ttl_run_get [OF _ _ assms, of "new_timed_cache interval" k]
  by (simp add: timed_ok_def new_timed_cache_def timed_get_def)

theorem timed_contract_witness:
  "timed_get 9 ''k'' (ttl_run (\<lambda>now k c. (timed_get now k c, c)) timed_set timed_delete evict_expired
     [(1, TSet ''k'' (7 :: nat) 4), (2, TSet ''k'' 8 7), (6, TSweep)] (new_timed_cache 1)) = Some 8"
  using timed_contract [of "[(1, TSet ''k'' (7 :: nat) 4), (2, TSet ''k'' 8 7), (6, TSweep)]" 9 "''k''" 1]
  by (simp add: in_force_def)

section \<open>The cleanup goroutine\<close>

text \<open>
  The goroutine enters its \<open>select\<close> with the channel it reads from \<open>c.stop\<close> at that moment, waits
  there, and runs \<open>evictExpired\<close> after a tick.  A receive from a nil channel never returns.
\<close>

datatype loop_pc = Selecting | Waiting "nat option" | Evicting | Returned

record 'v timed_system =
  ts_cache :: "'v timed_cache"
  ts_closed :: "nat set"
  ts_pc :: loop_pc

definition timed_close :: "'v timed_system \<Rightarrow> 'v timed_system" where
  "timed_close s =
     (case tc_stop (ts_cache s) of
        None \<Rightarrow> s
      | Some ch \<Rightarrow> s\<lparr>ts_closed := insert ch (ts_closed s), ts_cache := (ts_cache s)\<lparr>tc_stop := None\<rparr>\<rparr>)"

inductive cleanup_step :: "'v timed_system \<Rightarrow> 'v timed_system \<Rightarrow> bool" where
  enter: "ts_pc s = Selecting \<Longrightarrow> cleanup_step s (s\<lparr>ts_pc := Waiting (tc_stop (ts_cache s))\<rparr>)"
| tick: "ts_pc s = Waiting ch \<Longrightarrow> cleanup_step s (s\<lparr>ts_pc := Evicting\<rparr>)"
| stopped: "ts_pc s = Waiting (Some ch) \<Longrightarrow> ch \<in> ts_closed s \<Longrightarrow> cleanup_step s (s\<lparr>ts_pc := Returned\<rparr>)"
| evict: "ts_pc s = Evicting \<Longrightarrow>
    cleanup_step s (s\<lparr>ts_cache := evict_expired now (ts_cache s), ts_pc := Selecting\<rparr>)"

inductive_cases cleanup_stepE: "cleanup_step s s'"

text \<open>The clients' calls and the goroutine's steps, in any order.\<close>

inductive system_step :: "'v timed_system \<Rightarrow> 'v timed_system \<Rightarrow> bool" where
  cleanup: "cleanup_step s s' \<Longrightarrow> system_step s s'"
| set_call: "system_step s (s\<lparr>ts_cache := timed_set now k v ttl (ts_cache s)\<rparr>)"
| delete_call: "system_step s (s\<lparr>ts_cache := timed_delete k (ts_cache s)\<rparr>)"
| close_call: "system_step s (timed_close s)"

inductive_cases system_stepE: "system_step s s'"

lemma tc_stop_ops [simp]:
  "tc_stop (timed_set now k v ttl c) = tc_stop c" "tc_stop (timed_delete k c) = tc_stop c"
  "tc_stop (evict_expired now c) = tc_stop c"
  by (simp_all add: timed_set_def timed_delete_def evict_expired_def)

definition lost_stop :: "'v timed_system \<Rightarrow> bool" where
  "lost_stop s \<longleftrightarrow> tc_stop (ts_cache s) = None \<and> ts_pc s \<in> {Selecting, Evicting, Waiting None}"

lemma lost_stop_step: "system_step s s' \<Longrightarrow> lost_stop s \<Longrightarrow> lost_stop s'"
  by (auto simp: lost_stop_def timed_close_def elim!: system_stepE cleanup_stepE)

text \<open>
  \<open>Close\<close> does not reach a cleanup goroutine that is not waiting at its \<open>select\<close>.  Because
  \<open>Close\<close> sets \<open>c.stop\<close> to nil and the loop reads \<open>c.stop\<close> each time round, a goroutine that is
  evicting (or about to select) when \<open>Close\<close> runs never returns, whatever happens afterwards.
\<close>

theorem close_may_miss_cleanup:
  assumes "ts_pc s = Evicting \<or> ts_pc s = Selecting" and "system_step\<^sup>*\<^sup>* (timed_close s) s'"
  shows "ts_pc s' \<noteq> Returned"
proof -
  have start: "lost_stop (timed_close s)"
    using assms(1) by (auto simp: lost_stop_def timed_close_def split: option.splits)
  have "lost_stop s'"
    using assms(2) by (induction rule: rtranclp_induct) (use start lost_stop_step in blast)+
  then show ?thesis by (auto simp: lost_stop_def)
qed

definition start_system :: "int \<Rightarrow> 'v timed_system" where
  "start_system interval = \<lparr>ts_cache = new_timed_cache interval, ts_closed = {}, ts_pc = Selecting\<rparr>"

definition evicting_system :: "nat timed_system" where
  "evicting_system = (start_system 1)\<lparr>ts_pc := Evicting\<rparr>"

theorem close_may_miss_cleanup_witness:
  "system_step\<^sup>*\<^sup>* (start_system 1) evicting_system \<and>
   \<not> system_step\<^sup>*\<^sup>* (timed_close evicting_system) ((timed_close evicting_system)\<lparr>ts_pc := Returned\<rparr>)"
proof
  let ?w = "(start_system 1)\<lparr>ts_pc := Waiting (Some 0)\<rparr> :: nat timed_system"
  have "cleanup_step (start_system 1) ?w"
    using cleanup_step.enter [of "start_system 1 :: nat timed_system"] by (simp add: start_system_def new_timed_cache_def)
  moreover have "cleanup_step ?w evicting_system"
    using cleanup_step.tick [of ?w "Some 0"] by (simp add: evicting_system_def)
  ultimately show "system_step\<^sup>*\<^sup>* (start_system 1) evicting_system"
    by (meson system_step.cleanup r_into_rtranclp rtranclp.rtrancl_into_rtrancl)
  have "ts_pc evicting_system = Evicting" by (simp add: evicting_system_def)
  then show "\<not> system_step\<^sup>*\<^sup>* (timed_close evicting_system) ((timed_close evicting_system)\<lparr>ts_pc := Returned\<rparr>)"
    using close_may_miss_cleanup [of evicting_system] by fastforce
qed

text \<open>In contrast, a goroutine waiting at its \<open>select\<close> sees the channel closed.\<close>

lemma close_reaches_waiting:
  assumes "ts_pc s = Waiting (tc_stop (ts_cache s))" and "tc_stop (ts_cache s) \<noteq> None"
  shows "cleanup_step (timed_close s) ((timed_close s)\<lparr>ts_pc := Returned\<rparr>)"
  using assms by (auto simp: timed_close_def intro!: cleanup_step.stopped)

end
