(* ===== verification/Strconv.thy ===== *)
theory Strconv
  imports Prelude
begin

text \<open>
  The part of Go's \<open>strconv\<close> the counters use: \<open>ParseInt(s, 10, 64)\<close> and \<open>FormatInt(i, 10)\<close> on
  byte strings, with their range checks, and the round trip between them.
\<close>

datatype parse_error = ErrSyntax | ErrRange

definition max_uint64 :: nat where
  "max_uint64 = 2 ^ 64 - 1"

fun parse_digits :: "nat \<Rightarrow> bytes \<Rightarrow> (parse_error, nat) outcome" where
  "parse_digits n [] = Ok n"
| "parse_digits n (c # cs) =
     (if 48 \<le> unat c \<and> unat c \<le> 57 then
        (if n * 10 + (unat c - 48) > max_uint64 then Err ErrRange
         else parse_digits (n * 10 + (unat c - 48)) cs)
      else Err ErrSyntax)"

definition parse_uint :: "bytes \<Rightarrow> (parse_error, nat) outcome" where
  "parse_uint s = (if s = [] then Err ErrSyntax else parse_digits 0 s)"

definition parse_int :: "bytes \<Rightarrow> (parse_error, int) outcome" where
  "parse_int s =
     (case s of [] \<Rightarrow> Err ErrSyntax
      | c # cs \<Rightarrow>
          (let neg = (c = 45); rest = (if c = 43 \<or> c = 45 then cs else s) in
           bindO (parse_uint rest) (\<lambda>un.
             if \<not> neg \<and> un \<ge> 2 ^ 63 then Err ErrRange
             else if neg \<and> un > 2 ^ 63 then Err ErrRange
             else Ok (if neg then - int un else int un))))"

fun format_uint :: "nat \<Rightarrow> bytes" where
  "format_uint n =
     (if n < 10 then [of_nat (48 + n)] else format_uint (n div 10) @ [of_nat (48 + n mod 10)])"

declare format_uint.simps [simp del]

definition format_int :: "int \<Rightarrow> bytes" where
  "format_int i = (if i < 0 then 45 # format_uint (nat (- i)) else format_uint (nat i))"

text \<open>The decimal form as a string.\<close>

definition decimal :: "int \<Rightarrow> string" where
  "decimal i = map (\<lambda>b. char_of (unat b)) (format_int i)"

text \<open>\<open>Atoi\<close> of a string; \<open>int\<close> has 64 bits.\<close>

definition atoi :: "string \<Rightarrow> (parse_error, int) outcome" where
  "atoi s = parse_int (map of_char s)"

lemma unat_digit: "d < 10 \<Longrightarrow> unat (of_nat (48 + d) :: byte) = 48 + d"
  by (simp add: unat_of_nat take_bit_eq_mod del: of_nat_add)

lemma parse_digits_append:
  "parse_digits n (xs @ ys) = bindO (parse_digits n xs) (\<lambda>m. parse_digits m ys)"
  by (induction xs arbitrary: n) auto

lemma parse_digit: "d < 10 \<Longrightarrow> n * 10 + d \<le> max_uint64 \<Longrightarrow> parse_digits n [of_nat (48 + d)] = Ok (n * 10 + d)"
  unfolding parse_digits.simps unat_digit by simp

lemma parse_format_uint: "n \<le> max_uint64 \<Longrightarrow> parse_digits 0 (format_uint n) = Ok n"
proof (induction n rule: format_uint.induct)
  case (1 n)
  show ?case
  proof (cases "n < 10")
    case True
    with 1(2) parse_digit [of n 0] show ?thesis by (subst format_uint.simps) simp
  next
    case False
    with 1 have "parse_digits 0 (format_uint (n div 10)) = Ok (n div 10)" by simp
    moreover have "parse_digits (n div 10) [of_nat (48 + n mod 10)] = Ok n"
      using parse_digit [of "n mod 10" "n div 10"] 1(2) by simp
    ultimately show ?thesis
      using False by (subst format_uint.simps) (simp add: parse_digits_append)
  qed
qed

lemma format_uint_head: "\<exists>c cs. format_uint n = c # cs \<and> c \<noteq> 43 \<and> c \<noteq> 45"
proof (induction n rule: format_uint.induct)
  case (1 n)
  have d: "(of_nat (48 + d) :: byte) \<noteq> 43 \<and> (of_nat (48 + d) :: byte) \<noteq> 45" if "d < 10" for d
  proof -
    have "unat (43 :: byte) \<noteq> 48 + d" "unat (45 :: byte) \<noteq> 48 + d" by simp_all
    with unat_digit [OF that] show ?thesis by metis
  qed
  show ?case
  proof (cases "n < 10")
    case True
    with d [of n] show ?thesis by (subst format_uint.simps) simp
  next
    case False
    with 1 show ?thesis by (subst format_uint.simps) auto
  qed
qed

text \<open>Every 64-bit integer survives formatting and parsing.\<close>

lemma parse_format_int:
  assumes "- (2 ^ 63) \<le> i" and "i < 2 ^ 63"
  shows "parse_int (format_int i) = Ok i"
proof -
  obtain c cs where c: "format_uint (nat \<bar>i\<bar>) = c # cs" "c \<noteq> 43" "c \<noteq> 45"
    using format_uint_head by blast
  have "nat \<bar>i\<bar> \<le> max_uint64" using assms by (simp add: max_uint64_def)
  then have p: "parse_uint (c # cs) = Ok (nat \<bar>i\<bar>)"
    using parse_format_uint c(1) by (metis list.distinct(1) parse_uint_def)
  show ?thesis
  proof (cases "i < 0")
    case True
    with assms p c show ?thesis by (simp add: format_int_def parse_int_def Let_def nat_le_iff)
  next
    case False
    with assms p c show ?thesis by (simp add: format_int_def parse_int_def Let_def nat_less_iff)
  qed
qed

end
