(* ===== verification/MemoryCache.thy ===== *)
theory MemoryCache
  imports TtlContract Strconv
begin

text \<open>
  \<open>gcache/memory.go\<close> and the options of \<open>gcache/cache.go\<close>.  The map holds pointers, so items live
  in a heap (a list, a pointer being an index): \<open>Expire\<close> changes an item in place.  A value is a
  byte slice or nil (\<open>None\<close>); \<open>cloneBytes\<close> makes the stored bytes independent of the caller's, so
  values are passed by value.  A call runs in one step except \<open>Get\<close>, whose lookup and deletion
  are two critical sections: they are two definitions.
\<close>

section \<open>Options\<close>

record cache_options =
  co_address :: string
  co_password :: string
  co_db :: int
  co_pool_size :: int
  co_min_idle :: int
  co_dial_timeout :: int
  co_read_timeout :: int
  co_write_timeout :: int
  co_max_retries :: int
  co_cleanup_interval :: int

datatype cache_option =
    WithAddress string | WithPassword string | WithDB int | WithPoolSize int | WithMinIdleConns int
  | WithDialTimeout int | WithReadTimeout int | WithWriteTimeout int | WithMaxRetries int
  | WithCleanupInterval int

fun apply_option :: "cache_option \<Rightarrow> cache_options \<Rightarrow> cache_options" where
  "apply_option (WithAddress a) opts = opts\<lparr>co_address := a\<rparr>"
| "apply_option (WithPassword p) opts = opts\<lparr>co_password := p\<rparr>"
| "apply_option (WithDB d) opts = opts\<lparr>co_db := d\<rparr>"
| "apply_option (WithPoolSize n) opts = opts\<lparr>co_pool_size := n\<rparr>"
| "apply_option (WithMinIdleConns n) opts = opts\<lparr>co_min_idle := n\<rparr>"
| "apply_option (WithDialTimeout d) opts = opts\<lparr>co_dial_timeout := d\<rparr>"
| "apply_option (WithReadTimeout d) opts = opts\<lparr>co_read_timeout := d\<rparr>"
| "apply_option (WithWriteTimeout d) opts = opts\<lparr>co_write_timeout := d\<rparr>"
| "apply_option (WithMaxRetries n) opts = opts\<lparr>co_max_retries := n\<rparr>"
| "apply_option (WithCleanupInterval d) opts = opts\<lparr>co_cleanup_interval := d\<rparr>"

definition default_options :: cache_options where
  "default_options =
     \<lparr>co_address = [], co_password = [], co_db = 0, co_pool_size = 0, co_min_idle = 0, co_dial_timeout = 0,
      co_read_timeout = 0, co_write_timeout = 0, co_max_retries = 0, co_cleanup_interval = 60 * 10 ^ 9\<rparr>"

section \<open>The cache\<close>

record memory_item =
  mi_value :: "bytes option"
  mi_expires :: instant

record memory_cache =
  mem_heap :: "memory_item list"
  mem_items :: "(string, nat) gomap"
  mem_interval :: int
  mem_stopped :: bool

datatype mem_error = CacheMiss | NotSupported | BadNumber parse_error

definition new_memory_cache :: "cache_option list \<Rightarrow> memory_cache" where
  "new_memory_cache opts =
     \<lparr>mem_heap = [], mem_items = [],
      mem_interval = co_cleanup_interval (fold apply_option opts default_options), mem_stopped = False\<rparr>"

text \<open>The goroutine starts with \<open>time.NewTicker\<close>, which panics unless the interval is positive.\<close>

definition cleanup_start :: "memory_cache \<Rightarrow> (mem_error, int) outcome" where
  "cleanup_start m = (if mem_interval m > 0 then Ok (mem_interval m) else Panic)"

definition clone_bytes :: "bytes option \<Rightarrow> bytes option" where
  "clone_bytes b = (case b of None \<Rightarrow> None | Some bs \<Rightarrow> Some bs)"

definition is_expired :: "instant \<Rightarrow> nat option \<Rightarrow> memory_cache \<Rightarrow> bool" where
  "is_expired now item m =
     (case item of None \<Rightarrow> True
      | Some i \<Rightarrow> (if mi_expires (mem_heap m ! i) = 0 then False else mi_expires (mem_heap m ! i) < now))"

text \<open>\<open>m.items[key] = &memoryItem{...}\<close>.\<close>

definition mem_store :: "string \<Rightarrow> memory_item \<Rightarrow> memory_cache \<Rightarrow> memory_cache" where
  "mem_store key item m =
     m\<lparr>mem_heap := mem_heap m @ [item], mem_items := go_put key (length (mem_heap m)) (mem_items m)\<rparr>"

definition mem_delete :: "string \<Rightarrow> memory_cache \<Rightarrow> memory_cache" where
  "mem_delete key m = m\<lparr>mem_items := go_del key (mem_items m)\<rparr>"

definition mem_get_lookup :: "string \<Rightarrow> memory_cache \<Rightarrow> nat option" where
  "mem_get_lookup key m = go_get (mem_items m) key"

definition mem_get_finish ::
  "instant \<Rightarrow> string \<Rightarrow> nat option \<Rightarrow> memory_cache \<Rightarrow> (mem_error, bytes option) outcome \<times> memory_cache" where
  "mem_get_finish now key item m =
     (case item of None \<Rightarrow> (Err CacheMiss, mem_delete key m)
      | Some i \<Rightarrow>
          (if is_expired now (Some i) m then (Err CacheMiss, mem_delete key m)
           else (Ok (clone_bytes (mi_value (mem_heap m ! i))), m)))"

definition mem_get :: "instant \<Rightarrow> string \<Rightarrow> memory_cache \<Rightarrow> (mem_error, bytes option) outcome \<times> memory_cache" where
  "mem_get now key m = mem_get_finish now key (mem_get_lookup key m) m"

definition mem_set :: "instant \<Rightarrow> string \<Rightarrow> bytes option \<Rightarrow> int \<Rightarrow> memory_cache \<Rightarrow> memory_cache" where
  "mem_set now key v expiration m =
     mem_store key \<lparr>mi_value = clone_bytes v, mi_expires = (if expiration > 0 then now + expiration else 0)\<rparr> m"

definition mem_exists :: "instant \<Rightarrow> string \<Rightarrow> memory_cache \<Rightarrow> bool" where
  "mem_exists now key m =
     (case go_get (mem_items m) key of None \<Rightarrow> False | Some i \<Rightarrow> \<not> is_expired now (Some i) m)"

definition mem_expire :: "instant \<Rightarrow> string \<Rightarrow> int \<Rightarrow> memory_cache \<Rightarrow> mem_error option \<times> memory_cache" where
  "mem_expire now key expiration m =
     (if expiration \<le> 0 then (None, m)
      else (case go_get (mem_items m) key of
        None \<Rightarrow> (Some CacheMiss, mem_delete key m)
      | Some i \<Rightarrow>
          (if is_expired now (Some i) m then (Some CacheMiss, mem_delete key m)
           else (None, m\<lparr>mem_heap := (mem_heap m)[i := (mem_heap m ! i)\<lparr>mi_expires := now + expiration\<rparr>]\<rparr>))))"

text \<open>\<open>time.Until\<close> saturates at the bounds of a 64-bit duration.\<close>

definition time_until :: "instant \<Rightarrow> instant \<Rightarrow> int" where
  "time_until d now = max (- (2 ^ 63)) (min (2 ^ 63 - 1) (d - now))"

definition mem_ttl :: "instant \<Rightarrow> string \<Rightarrow> memory_cache \<Rightarrow> (mem_error, int) outcome" where
  "mem_ttl now key m =
     (case go_get (mem_items m) key of
        None \<Rightarrow> Err CacheMiss
      | Some i \<Rightarrow>
          (if is_expired now (Some i) m then Err CacheMiss
           else if mi_expires (mem_heap m ! i) = 0 then Ok (- 1)
           else Ok (time_until (mi_expires (mem_heap m ! i)) now)))"

text \<open>\<open>string(item.value)\<close> of a nil slice is empty.\<close>

definition text_of :: "bytes option \<Rightarrow> bytes" where
  "text_of b = (case b of None \<Rightarrow> [] | Some bs \<Rightarrow> bs)"

definition mem_add :: "instant \<Rightarrow> string \<Rightarrow> 64 word \<Rightarrow> memory_cache \<Rightarrow> (mem_error, 64 word) outcome \<times> memory_cache" where
  "mem_add now key delta m =
     (let put = (\<lambda>current expires.
            (Ok (current + delta),
             mem_store key \<lparr>mi_value = Some (format_int (sint (current + delta))), mi_expires = expires\<rparr> m))
      in case go_get (mem_items m) key of
        None \<Rightarrow> put 0 0
      | Some i \<Rightarrow>
          (if is_expired now (Some i) m then put 0 0
           else (case parse_int (text_of (mi_value (mem_heap m ! i))) of
                   Ok n \<Rightarrow> put (word_of_int n) (mi_expires (mem_heap m ! i))
                 | Err e \<Rightarrow> (Err (BadNumber e), m)
                 | Panic \<Rightarrow> (Panic, m))))"

definition mem_increment :: "instant \<Rightarrow> string \<Rightarrow> 64 word \<Rightarrow> memory_cache \<Rightarrow> (mem_error, 64 word) outcome \<times> memory_cache" where
  "mem_increment now key v m = mem_add now key v m"

definition mem_decrement :: "instant \<Rightarrow> string \<Rightarrow> 64 word \<Rightarrow> memory_cache \<Rightarrow> (mem_error, 64 word) outcome \<times> memory_cache" where
  "mem_decrement now key v m = mem_add now key (- v) m"

definition mem_close :: "memory_cache \<Rightarrow> memory_cache" where
  "mem_close m = m\<lparr>mem_stopped := True\<rparr>"

definition cleanup_expired :: "instant \<Rightarrow> memory_cache \<Rightarrow> memory_cache" where
  "cleanup_expired now m =
     m\<lparr>mem_items := filter (\<lambda>(key, i). \<not> (mi_expires (mem_heap m ! i) \<noteq> 0 \<and> mi_expires (mem_heap m ! i) < now)) (mem_items m)\<rparr>"

text \<open>The hash, list and set operations are stubs.\<close>

datatype mem_stub_call =
    HashSet | HashGet | HashGetAll | HashDelete | ListPush | ListPop | ListRange | SetAdd | SetMembers | SetIsMember

definition mem_stub :: "mem_stub_call \<Rightarrow> mem_error option" where
  "mem_stub call = Some NotSupported"

end
