(* ===== verification/MemoryFacts.thy ===== *)
theory MemoryFacts
  imports MemoryCache
begin

text \<open>
  What the memory cache promises: the contract of an expiring cache, counters, expiry times, and
  the schedule on which its two-step \<open>Get\<close> loses another client's \<open>Set\<close>.
\<close>

section \<open>The map a state stands for\<close>

definition mem_item :: "memory_cache \<Rightarrow> string \<Rightarrow> memory_item option" where
  "mem_item m k = map_option (\<lambda>i. mem_heap m ! i) (go_get (mem_items m) k)"

definition mem_ok :: "memory_cache \<Rightarrow> bool" where
  "mem_ok m \<longleftrightarrow> gomap_ok (mem_items m) \<and>
     (\<forall>k i. go_get (mem_items m) k = Some i \<longrightarrow> i < length (mem_heap m)) \<and>
     (\<forall>k j i. go_get (mem_items m) k = Some i \<longrightarrow> go_get (mem_items m) j = Some i \<longrightarrow> k = j)"

definition live_item :: "instant \<Rightarrow> memory_item option \<Rightarrow> memory_item option" where
  "live_item t e = (case e of None \<Rightarrow> None | Some it \<Rightarrow> (if expired t (mi_expires it) then None else Some it))"

definition mem_view :: "instant \<Rightarrow> memory_cache \<Rightarrow> string \<Rightarrow> bytes option option" where
  "mem_view t m k = map_option mi_value (live_item t (mem_item m k))"

lemma mem_okD:
  assumes "mem_ok m"
  shows "gomap_ok (mem_items m)" and "go_get (mem_items m) k = Some i \<Longrightarrow> i < length (mem_heap m)"
    and "go_get (mem_items m) k = Some i \<Longrightarrow> go_get (mem_items m) j = Some i \<Longrightarrow> k = j"
  using assms unfolding mem_ok_def by blast+

lemma mem_ok_new: "mem_ok (new_memory_cache opts)" "mem_item (new_memory_cache opts) k = None"
  by (simp_all add: mem_ok_def new_memory_cache_def mem_item_def)

lemma clone_id [simp]: "clone_bytes b = b"
  by (simp add: clone_bytes_def split: option.splits)

lemma is_expired_iff:
  "is_expired now (go_get (mem_items m) k) m \<longleftrightarrow> live_item now (mem_item m k) = None"
  by (auto simp: is_expired_def live_item_def mem_item_def expired_def split: option.splits)

lemma store_ok:
  assumes "mem_ok m"
  shows "mem_ok (mem_store k it m)" and "mem_item (mem_store k it m) = (mem_item m)(k \<mapsto> it)"
proof -
  have old: "i < length (mem_heap m)" if "go_get (mem_items m) j = Some i" for i j
    using mem_okD(2) [OF assms that] .
  show "mem_ok (mem_store k it m)"
    unfolding mem_ok_def mem_store_def
    using mem_okD(1,3) [OF assms] by (auto split: if_splits dest: old)
  show "mem_item (mem_store k it m) = (mem_item m)(k \<mapsto> it)"
  proof
    fix j show "mem_item (mem_store k it m) j = ((mem_item m)(k \<mapsto> it)) j"
      using old by (cases "go_get (mem_items m) j") (auto simp: mem_item_def mem_store_def nth_append)
  qed
qed

lemma delete_ok:
  assumes "mem_ok m"
  shows "mem_ok (mem_delete k m)" and "mem_item (mem_delete k m) = (mem_item m)(k := None)"
proof -
  show "mem_ok (mem_delete k m)"
    unfolding mem_ok_def mem_delete_def using mem_okD [OF assms] by (auto split: if_splits)
  show "mem_item (mem_delete k m) = (mem_item m)(k := None)"
    by (auto simp: mem_item_def mem_delete_def)
qed

lemma cleanup_ok:
  assumes "mem_ok m"
  shows "mem_ok (cleanup_expired now m)" and "mem_item (cleanup_expired now m) k = live_item now (mem_item m k)"
proof -
  let ?P = "\<lambda>key i. \<not> (mi_expires (mem_heap m ! i) \<noteq> 0 \<and> mi_expires (mem_heap m ! i) < now)"
  have get: "go_get (mem_items (cleanup_expired now m)) j =
      (case go_get (mem_items m) j of None \<Rightarrow> None | Some i \<Rightarrow> if ?P j i then Some i else None)" for j
    using go_get_filter [OF mem_okD(1) [OF assms], of ?P j] by (simp add: cleanup_expired_def)
  have sub: "go_get (mem_items (cleanup_expired now m)) j = Some i \<Longrightarrow> go_get (mem_items m) j = Some i" for j i
    by (auto simp: get split: option.splits if_splits)
  have heap: "mem_heap (cleanup_expired now m) = mem_heap m"
    by (simp add: cleanup_expired_def)
  have "gomap_ok (mem_items (cleanup_expired now m))"
    using gomap_ok_filter [OF mem_okD(1) [OF assms]] by (simp add: cleanup_expired_def)
  then show "mem_ok (cleanup_expired now m)"
    unfolding mem_ok_def heap using mem_okD(2,3) [OF assms] sub by blast
  show "mem_item (cleanup_expired now m) k = live_item now (mem_item m k)"
    by (auto simp: mem_item_def get heap live_item_def expired_def split: option.splits)
qed

lemma live_item_later: "now \<le> t \<Longrightarrow> live_item t (live_item now e) = live_item t e"
  using expired_later by (auto simp: live_item_def split: option.splits)

lemma mem_get_cases:
  assumes "mem_ok m"
  shows "mem_get now k m =
    (case live_item now (mem_item m k) of
       None \<Rightarrow> (Err CacheMiss, mem_delete k m)
     | Some it \<Rightarrow> (Ok (mi_value it), m))"
  by (auto simp: mem_get_def mem_get_finish_def mem_get_lookup_def is_expired_def live_item_def mem_item_def
      expired_def split: option.splits)

section \<open>The contract of an expiring cache\<close>

definition ok_of :: "('e, 'a) outcome \<Rightarrow> 'a option" where
  "ok_of r = (case r of Ok x \<Rightarrow> Some x | _ \<Rightarrow> None)"


lemma mem_view_delete: "mem_ok m \<Longrightarrow> mem_view t (mem_delete k m) = (mem_view t m)(k := None)"
  by (auto simp: mem_view_def delete_ok live_item_def)

interpretation mem: expiring_cache mem_ok mem_view "\<lambda>now k m. (ok_of (fst (mem_get now k m)), snd (mem_get now k m))"
    mem_set mem_delete cleanup_expired
proof unfold_locales
  fix m :: memory_cache and now t ttl :: int and k :: string and v :: "bytes option"
  assume ok: "mem_ok m"
  note get = mem_get_cases [OF ok]
  show "fst (ok_of (fst (mem_get now k m)), snd (mem_get now k m)) = mem_view now m k"
    by (simp add: get mem_view_def ok_of_def split: option.splits)
  show "mem_ok (snd (ok_of (fst (mem_get now k m)), snd (mem_get now k m)))"
    using ok delete_ok by (simp add: get split: option.splits)
  have "mem_view t m k = None" if "live_item now (mem_item m k) = None" "now \<le> t"
    using live_item_later [OF that(2), of "mem_item m k"] that(1) by (simp add: mem_view_def live_item_def)
  then show "now \<le> t \<Longrightarrow> mem_view t (snd (ok_of (fst (mem_get now k m)), snd (mem_get now k m))) = mem_view t m"
    by (auto simp: get mem_view_delete [OF ok] fun_eq_iff split: option.splits)
  show "mem_ok (mem_set now k v ttl m)" "mem_ok (mem_delete k m)" "mem_ok (cleanup_expired now m)"
    using ok by (simp_all add: mem_set_def store_ok delete_ok cleanup_ok)
  show "0 < now \<Longrightarrow> mem_view t (mem_set now k v ttl m) = (mem_view t m)(k := in_force t (Some (v, now, ttl)))"
    by (auto simp: mem_view_def mem_set_def store_ok [OF ok] live_item_def expired_def in_force_def fun_eq_iff)
  show "mem_view t (mem_delete k m) = (mem_view t m)(k := None)"
    using mem_view_delete [OF ok] .
  show "now \<le> t \<Longrightarrow> mem_view t (cleanup_expired now m) = mem_view t m"
    by (simp add: mem_view_def cleanup_ok [OF ok] live_item_later fun_eq_iff)
qed



section \<open>Counters\<close>

lemma mem_add_cases:
  "mem_add now k d m =
    (case live_item now (mem_item m k) of
       None \<Rightarrow> (Ok d, mem_store k \<lparr>mi_value = Some (format_int (sint d)), mi_expires = 0\<rparr> m)
     | Some it \<Rightarrow>
         (case parse_int (text_of (mi_value it)) of
            Ok n \<Rightarrow> (Ok (word_of_int n + d),
              mem_store k \<lparr>mi_value = Some (format_int (sint (word_of_int n + d :: 64 word))), mi_expires = mi_expires it\<rparr> m)
          | Err e \<Rightarrow> (Err (BadNumber e), m)
          | Panic \<Rightarrow> (Panic, m)))"
  by (auto simp: mem_add_def Let_def is_expired_def live_item_def mem_item_def expired_def
      split: option.splits outcome.splits)

datatype counter_call = Incr "64 word" | Decr "64 word"

fun counter_step :: "instant \<Rightarrow> string \<Rightarrow> counter_call \<Rightarrow> memory_cache \<Rightarrow> (mem_error, 64 word) outcome \<times> memory_cache" where
  "counter_step now k (Incr d) m = mem_increment now k d m"
| "counter_step now k (Decr d) m = mem_decrement now k d m"

fun counter_run :: "(instant \<times> string \<times> counter_call) list \<Rightarrow> memory_cache \<Rightarrow> memory_cache" where
  "counter_run [] m = m"
| "counter_run ((now, k, call) # calls) m = counter_run calls (snd (counter_step now k call m))"

text \<open>The mathematical value of a counter.\<close>

fun call_delta :: "counter_call \<Rightarrow> int" where
  "call_delta (Incr d) = sint d"
| "call_delta (Decr d) = - sint d"

definition counter_total :: "(instant \<times> string \<times> counter_call) list \<Rightarrow> string \<Rightarrow> int" where
  "counter_total calls k = (\<Sum>(now, j, call) \<leftarrow> calls. if j = k then call_delta call else 0)"

definition counted :: "(instant \<times> string \<times> counter_call) list \<Rightarrow> string set" where
  "counted calls = (\<lambda>(now, j, call). j) ` set calls"

definition counter_item :: "int \<Rightarrow> memory_item" where
  "counter_item n = \<lparr>mi_value = Some (format_int (sint (word_of_int n :: 64 word))), mi_expires = 0\<rparr>"

lemma parse_counter: "parse_int (format_int (sint (w :: 64 word))) = Ok (sint w)"
  by (rule parse_format_int) (use sint_range_size [of w] in \<open>simp_all add: word_size\<close>)

lemma counter_step_parts:
  assumes "mem_ok m" and "mem_item m k = (if b then Some (counter_item n) else None)" and "b \<or> n = 0"
  shows "fst (counter_step now k call m) = Ok (word_of_int (n + call_delta call))"
    and "mem_ok (snd (counter_step now k call m))"
    and "mem_item (snd (counter_step now k call m)) = (mem_item m)(k \<mapsto> counter_item (n + call_delta call))"
proof -
  have add: "mem_add now k d m = (Ok (word_of_int (n + sint d)), mem_store k (counter_item (n + sint d)) m)" for d :: "64 word"
    using assms(2,3)
    by (auto simp: mem_add_cases live_item_def counter_item_def expired_def text_of_def parse_counter)
  have neg: "word_of_int (n + sint (- d)) = (word_of_int (n - sint d) :: 64 word)" for d :: "64 word"
    by simp
  have call: "counter_step now k call m =
      (Ok (word_of_int (n + call_delta call)), mem_store k (counter_item (n + call_delta call)) m)"
    by (cases call) (simp_all add: mem_increment_def mem_decrement_def add counter_item_def)
  then show "fst (counter_step now k call m) = Ok (word_of_int (n + call_delta call))"
    "mem_ok (snd (counter_step now k call m))"
    "mem_item (snd (counter_step now k call m)) = (mem_item m)(k \<mapsto> counter_item (n + call_delta call))"
    using store_ok [OF assms(1)] by simp_all
qed

lemma counter_run_items:
  assumes "mem_ok m" and "\<forall>k. mem_item m k = (if k \<in> ks then Some (counter_item (n k)) else None) \<and> (k \<in> ks \<or> n k = 0)"
  shows "mem_ok (counter_run calls m) \<and>
    mem_item (counter_run calls m) k =
      (if k \<in> ks \<union> counted calls then Some (counter_item (n k + counter_total calls k)) else None)"
  using assms
proof (induction calls arbitrary: m ks n)
  case Nil
  then show ?case by (simp add: counted_def counter_total_def)
next
  case (Cons p calls)
  obtain now j call where p: "p = (now, j, call)" by (cases p)
  let ?m = "snd (counter_step now j call m)" and ?n = "n(j := n j + call_delta call)"
  have b: "mem_item m j = (if j \<in> ks then Some (counter_item (n j)) else None)" "j \<in> ks \<or> n j = 0"
    using Cons.prems(2) by auto
  note st = counter_step_parts [OF Cons.prems(1) b]
  have "\<forall>k. mem_item ?m k = (if k \<in> insert j ks then Some (counter_item (?n k)) else None) \<and>
      (k \<in> insert j ks \<or> ?n k = 0)"
    unfolding st(3) using Cons.prems(2) by auto
  from Cons.IH [OF st(2) this] show ?case
    by (auto simp: p counted_def counter_total_def algebra_simps)
qed

text \<open>
  Counters add up.  After any sequence of \<open>Increment\<close> and \<open>Decrement\<close> calls on any keys, a
  further call on a key returns the sum of its deltas with the wrap-around of 64-bit integers, and
  \<open>Get\<close> returns its decimal representation (a cache miss if the key was never counted).
\<close>

theorem memory_counter_sums:
  "fst (counter_step t k call (counter_run calls (new_memory_cache opts))) =
     Ok (word_of_int (counter_total calls k + call_delta call)) \<and>
   fst (mem_get t k (counter_run calls (new_memory_cache opts))) =
     (if k \<in> counted calls then Ok (Some (format_int (signed_take_bit 63 (counter_total calls k)))) else Err CacheMiss)"
proof -
  let ?m = "counter_run calls (new_memory_cache opts)"
  have run: "mem_ok ?m \<and> mem_item ?m k = (if k \<in> counted calls then Some (counter_item (counter_total calls k)) else None)"
    using counter_run_items [of "new_memory_cache opts" "{}" "\<lambda>_. 0" calls k] mem_ok_new by simp
  have zero: "k \<in> counted calls \<or> counter_total calls k = 0"
    unfolding counted_def counter_total_def by (induction calls) auto
  have "sint (word_of_int n :: 64 word) = signed_take_bit 63 n" for n
    by (simp add: signed_of_int)
  then show ?thesis
    using counter_step_parts(1) [OF conjunct1 [OF run] conjunct2 [OF run] zero] run
    by (auto simp: mem_get_cases live_item_def expired_def counter_item_def)
qed

section \<open>Expiry times\<close>

lemma mem_exists_iff: "mem_exists t k m \<longleftrightarrow> live_item t (mem_item m k) \<noteq> None"
  using is_expired_iff [of t m k] by (auto simp: mem_exists_def live_item_def mem_item_def split: option.splits)

lemma mem_ttl_cases:
  "mem_ttl t k m =
    (case live_item t (mem_item m k) of
       None \<Rightarrow> Err CacheMiss
     | Some it \<Rightarrow> (if mi_expires it = 0 then Ok (- 1) else Ok (time_until (mi_expires it) t)))"
  by (auto simp: mem_ttl_def is_expired_def live_item_def mem_item_def expired_def split: option.splits)

lemma expire_item:
  assumes "mem_ok m" and "0 < e" and "live_item now (mem_item m k) = Some it"
  shows "fst (mem_expire now k e m) = None"
    and "mem_item (snd (mem_expire now k e m)) = (mem_item m)(k \<mapsto> it\<lparr>mi_expires := now + e\<rparr>)"
proof -
  obtain i where i: "go_get (mem_items m) k = Some i" "mem_heap m ! i = it" "\<not> is_expired now (Some i) m"
    using assms(3) by (auto simp: live_item_def mem_item_def is_expired_def expired_def split: option.splits if_splits)
  have call: "mem_expire now k e m = (None, m\<lparr>mem_heap := (mem_heap m)[i := it\<lparr>mi_expires := now + e\<rparr>]\<rparr>)"
    using i assms(2) by (simp add: mem_expire_def)
  show "fst (mem_expire now k e m) = None" by (simp add: call)
  show "mem_item (snd (mem_expire now k e m)) = (mem_item m)(k \<mapsto> it\<lparr>mi_expires := now + e\<rparr>)"
  proof
    fix j
    have "go_get (mem_items m) j = Some i' \<Longrightarrow> j \<noteq> k \<Longrightarrow> i' \<noteq> i" for i'
      using mem_okD(3) [OF assms(1)] i(1) by blast
    then show "mem_item (snd (mem_expire now k e m)) j = ((mem_item m)(k \<mapsto> it\<lparr>mi_expires := now + e\<rparr>)) j"
      using mem_okD(2) [OF assms(1) i(1)] i(1) by (cases "go_get (mem_items m) j") (auto simp: mem_item_def call)
  qed
qed

text \<open>
  \<open>Expire\<close> restarts the lifetime of a live entry.  After any history, with a positive
  duration, it succeeds exactly on a key that exists at that instant; then \<open>TTL\<close> returns the time
  left until \<open>now + e\<close> and a cache miss afterwards, the value is kept, and other keys are
  untouched.  On a key that is missing or has expired it returns \<open>ErrCacheMiss\<close>, and the key is
  gone.
\<close>

theorem memory_expire_ttl:
  assumes "m = ttl_run (\<lambda>now k m. (ok_of (fst (mem_get now k m)), snd (mem_get now k m)))
      mem_set mem_delete cleanup_expired ops (new_memory_cache opts)"
    and "mem_expire now k e m = (err, m')" and "0 < now" and "0 < e" and "now \<le> t"
  shows "(err = None \<longleftrightarrow> mem_exists now k m) \<and>
    (err = None \<longrightarrow>
       mem_ttl t k m' = (if t \<le> now + e then Ok (time_until (now + e) t) else Err CacheMiss) \<and>
       fst (mem_get t k m') = (if t \<le> now + e then fst (mem_get now k m) else Err CacheMiss)) \<and>
    (err \<noteq> None \<longrightarrow> err = Some CacheMiss \<and> \<not> mem_exists t k m' \<and> mem_ttl t k m' = Err CacheMiss) \<and>
    (\<forall>j. j \<noteq> k \<longrightarrow> mem_item m' j = mem_item m j)"
proof -
  have ok: "mem_ok m"
    unfolding assms(1) by (rule mem.ttl_run_inv [OF mem_ok_new(1)])
  show ?thesis
  proof (cases "live_item now (mem_item m k)")
    case None
    then have "mem_expire now k e m = (Some CacheMiss, mem_delete k m)"
      using assms(4) by (auto simp: mem_expire_def live_item_def mem_item_def is_expired_def expired_def split: option.splits if_splits)
    with assms(2) None delete_ok [OF ok, of k] show ?thesis
      by (auto simp: mem_exists_iff mem_ttl_cases live_item_def)
  next
    case (Some it)
    note item = expire_item [OF ok assms(4) Some]
    have ok': "mem_ok m'"
      using assms(2) ok mem_okD [OF ok] delete_ok [OF ok]
      by (auto simp: mem_expire_def mem_ok_def split: if_splits option.splits)
    have live: "live_item t (mem_item m' k) = (if t \<le> now + e then Some (it\<lparr>mi_expires := now + e\<rparr>) else None)"
      using item assms(2-5) by (simp add: live_item_def expired_def)
    show ?thesis
      using item assms(2-5) Some live
      by (auto simp: mem_exists_iff mem_ttl_cases mem_get_cases [OF ok] mem_get_cases [OF ok'])
  qed
qed

theorem memory_expire_ttl_witness:
  "mem_ttl 5 ''k'' (snd (mem_expire 3 ''k'' 10 (mem_set 1 ''k'' (Some [7]) 4 (new_memory_cache [])))) = Ok 8"
proof -
  define m where "m = mem_set 1 ''k'' (Some [7]) 4 (new_memory_cache [])"
  have run: "m = ttl_run (\<lambda>now k m. (ok_of (fst (mem_get now k m)), snd (mem_get now k m)))
      mem_set mem_delete cleanup_expired [(1, TSet ''k'' (Some [7]) 4)] (new_memory_cache [])"
    by (simp add: m_def)
  obtain err m' where call: "mem_expire 3 ''k'' 10 m = (err, m')" by (cases "mem_expire 3 ''k'' 10 m")
  have "mem_exists 3 ''k'' m" unfolding m_def by code_simp
  with memory_expire_ttl [OF run call, of 5] have "mem_ttl 5 ''k'' m' = Ok 8"
    by (simp add: time_until_def)
  with call show ?thesis by (simp add: m_def)
qed

section \<open>Two critical sections in Get\<close>

text \<open>
  \<open>Get\<close> can lose another client's \<open>Set\<close>.  It looks the key up under the read lock and
  deletes it under the write lock; if the key is missing at the lookup and another goroutine stores
  it in between, the deletion removes the new entry although nobody deleted it and its time is not
  up.  In either order of the two calls without the interleaving the entry survives.
\<close>

theorem get_can_lose_set:
  assumes "mem_ok m" and "mem_get_lookup k m = None" and "0 < now" and "ttl \<le> 0 \<or> now \<le> t \<and> t \<le> now + ttl"
  shows "\<not> mem_exists t k (snd (mem_get_finish t k (mem_get_lookup k m) (mem_set now k v ttl m))) \<and>
    mem_exists t k (mem_set now k v ttl (snd (mem_get t k m))) \<and>
    mem_exists t k (snd (mem_get t k (mem_set now k v ttl m)))"
proof -
  have ok: "mem_ok (mem_set now k v ttl m)" using store_ok [OF assms(1)] by (simp add: mem_set_def)
  have item: "mem_item (mem_set now k v ttl m') k = Some \<lparr>mi_value = v, mi_expires = (if ttl > 0 then now + ttl else 0)\<rparr>"
    if "mem_ok m'" for m'
    using store_ok [OF that] by (simp add: mem_set_def)
  have live: "live_item t (mem_item (mem_set now k v ttl m') k) \<noteq> None" if "mem_ok m'" for m'
    using item [OF that] assms(3,4) by (auto simp: live_item_def expired_def)
  have "mem_ok (snd (mem_get t k m))"
    using assms(1) delete_ok by (simp add: mem_get_cases split: option.splits)
  then have "mem_exists t k (mem_set now k v ttl (snd (mem_get t k m)))"
    using live by (simp add: mem_exists_iff)
  moreover have "snd (mem_get t k (mem_set now k v ttl m)) = mem_set now k v ttl m"
    using live [OF assms(1)] by (auto simp: mem_get_cases [OF ok])
  moreover have "\<not> mem_exists t k (snd (mem_get_finish t k (mem_get_lookup k m) (mem_set now k v ttl m)))"
    using assms(2) delete_ok [OF ok] by (simp add: mem_get_finish_def mem_exists_iff live_item_def)
  ultimately show ?thesis using live [OF assms(1)] by (simp add: mem_exists_iff)
qed

theorem get_can_lose_set_witness:
  "\<not> mem_exists 2 ''k'' (snd (mem_get_finish 2 ''k'' (mem_get_lookup ''k'' (new_memory_cache []))
     (mem_set 1 ''k'' (Some [7]) 0 (new_memory_cache []))))"
  using get_can_lose_set [OF mem_ok_new(1) [of "[]"], of "''k''" 1 0 2 "Some [7]"]
  by (simp add: mem_get_lookup_def new_memory_cache_def)

text \<open>A cleanup interval that is not positive makes the goroutine of the constructor panic.\<close>

lemma nonpositive_interval_panics:
  "d \<le> 0 \<Longrightarrow> cleanup_start (new_memory_cache (opts @ [WithCleanupInterval d])) = Panic"
  by (simp add: cleanup_start_def new_memory_cache_def)

end
