(* ===== verification/RemoteCache.thy ===== *)
theory RemoteCache
  imports MemoryCache
begin

text \<open>
  \<open>gcache/redis.go\<close> and \<open>gcache/valkey.go\<close>, the caches on a server, and the serializer of
  \<open>gcache/cache.go\<close>.  The client packages are parameters: a client is a record of its calls, each a
  function of a context and of the state of the server, returning what the Go call returns, a value
  and an error.  An error is of any type; \<open>is_nil\<close> tells the one that says that there is no value.  Of
  a call without a context the context is \<open>context.Background()\<close>.  Slices of bytes are values, and
  nil is \<open>None\<close>.
\<close>

section \<open>Errors and answers\<close>

datatype 'e remote_error = RemoteMiss | ClientError 'e

type_synonym ('s, 'e, 'a) answer = "('a \<times> 'e option) \<times> 's"

definition translate_error :: "('e \<Rightarrow> bool) \<Rightarrow> 'e option \<Rightarrow> 'e remote_error option" where
  "translate_error is_nil err =
     (case err of None \<Rightarrow> None | Some e \<Rightarrow> if is_nil e then Some RemoteMiss else Some (ClientError e))"

text \<open>An answer passed on with its error translated; with its error as it is; and as data, nil on an error.\<close>

definition translated :: "('e \<Rightarrow> bool) \<Rightarrow> ('s, 'e, 'a) answer \<Rightarrow> ('s, 'e remote_error, 'a) answer" where
  "translated is_nil a = (case a of ((v, err), s) \<Rightarrow> ((v, translate_error is_nil err), s))"

definition passed_on :: "('s, 'e, 'a) answer \<Rightarrow> ('s, 'e remote_error, 'a) answer" where
  "passed_on a = (case a of ((v, err), s) \<Rightarrow> ((v, map_option ClientError err), s))"

definition data_or_nil :: "('e \<Rightarrow> bool) \<Rightarrow> ('s, 'e, 'a) answer \<Rightarrow> ('s, 'e remote_error, 'a option) answer" where
  "data_or_nil is_nil a =
     (case a of ((v, err), s) \<Rightarrow> (if err \<noteq> None then ((None, translate_error is_nil err), s) else ((Some v, None), s)))"

definition mapped :: "('a \<Rightarrow> 'b) \<Rightarrow> ('s, 'e, 'a) answer \<Rightarrow> ('s, 'e, 'b) answer" where
  "mapped f a = (case a of ((v, err), s) \<Rightarrow> ((f v, err), s))"

text \<open>The loop that copies a map of strings into one of slices.\<close>

definition copy_map :: "(string, bytes) gomap \<Rightarrow> (string, bytes) gomap" where
  "copy_map m = fold (\<lambda>(k, v). go_put k v) m []"

section \<open>Redis\<close>

text \<open>The calls of \<open>*redis.Client\<close> that the cache makes.  Durations and integers have 64 bits.\<close>

record ('x, 's, 'e) redis_client =
  red_get :: "'x \<Rightarrow> string \<Rightarrow> 's \<Rightarrow> ('s, 'e, bytes) answer"
  red_set :: "'x \<Rightarrow> string \<Rightarrow> bytes \<Rightarrow> int \<Rightarrow> 's \<Rightarrow> ('s, 'e, unit) answer"
  red_del :: "'x \<Rightarrow> string \<Rightarrow> 's \<Rightarrow> ('s, 'e, unit) answer"
  red_exists :: "'x \<Rightarrow> string \<Rightarrow> 's \<Rightarrow> ('s, 'e, int) answer"
  red_expire :: "'x \<Rightarrow> string \<Rightarrow> int \<Rightarrow> 's \<Rightarrow> ('s, 'e, unit) answer"
  red_ttl :: "'x \<Rightarrow> string \<Rightarrow> 's \<Rightarrow> ('s, 'e, int) answer"
  red_incr_by :: "'x \<Rightarrow> string \<Rightarrow> int \<Rightarrow> 's \<Rightarrow> ('s, 'e, int) answer"
  red_decr_by :: "'x \<Rightarrow> string \<Rightarrow> int \<Rightarrow> 's \<Rightarrow> ('s, 'e, int) answer"
  red_hset :: "'x \<Rightarrow> string \<Rightarrow> string \<Rightarrow> bytes \<Rightarrow> 's \<Rightarrow> ('s, 'e, unit) answer"
  red_hget :: "'x \<Rightarrow> string \<Rightarrow> string \<Rightarrow> 's \<Rightarrow> ('s, 'e, bytes) answer"
  red_hget_all :: "'x \<Rightarrow> string \<Rightarrow> 's \<Rightarrow> ('s, 'e, (string, bytes) gomap) answer"
  red_hdel :: "'x \<Rightarrow> string \<Rightarrow> string list \<Rightarrow> 's \<Rightarrow> ('s, 'e, unit) answer"
  red_rpush :: "'x \<Rightarrow> string \<Rightarrow> bytes list \<Rightarrow> 's \<Rightarrow> ('s, 'e, unit) answer"
  red_lpop :: "'x \<Rightarrow> string \<Rightarrow> 's \<Rightarrow> ('s, 'e, bytes) answer"
  red_lrange :: "'x \<Rightarrow> string \<Rightarrow> int \<Rightarrow> int \<Rightarrow> 's \<Rightarrow> ('s, 'e, bytes list) answer"
  red_sadd :: "'x \<Rightarrow> string \<Rightarrow> bytes list \<Rightarrow> 's \<Rightarrow> ('s, 'e, unit) answer"
  red_smembers :: "'x \<Rightarrow> string \<Rightarrow> 's \<Rightarrow> ('s, 'e, bytes list) answer"
  red_sismember :: "'x \<Rightarrow> string \<Rightarrow> bytes \<Rightarrow> 's \<Rightarrow> ('s, 'e, bool) answer"
  red_ping :: "'x \<Rightarrow> 's \<Rightarrow> ('s, 'e, unit) answer"
  red_close :: "'s \<Rightarrow> ('s, 'e, unit) answer"

definition redis_get :: "('e \<Rightarrow> bool) \<Rightarrow> ('x, 's, 'e) redis_client \<Rightarrow> 'x \<Rightarrow> string \<Rightarrow> 's \<Rightarrow> ('s, 'e remote_error, bytes option) answer" where
  "redis_get is_nil c ctx key s = data_or_nil is_nil (red_get c ctx key s)"

definition redis_set :: "('x, 's, 'e) redis_client \<Rightarrow> 'x \<Rightarrow> string \<Rightarrow> bytes \<Rightarrow> int \<Rightarrow> 's \<Rightarrow> ('s, 'e remote_error, unit) answer" where
  "redis_set c ctx key v expiration s = passed_on (red_set c ctx key v expiration s)"

definition redis_delete :: "('x, 's, 'e) redis_client \<Rightarrow> 'x \<Rightarrow> string \<Rightarrow> 's \<Rightarrow> ('s, 'e remote_error, unit) answer" where
  "redis_delete c ctx key s = passed_on (red_del c ctx key s)"

definition redis_exists :: "('x, 's, 'e) redis_client \<Rightarrow> 'x \<Rightarrow> string \<Rightarrow> 's \<Rightarrow> ('s, 'e remote_error, bool) answer" where
  "redis_exists c ctx key s = mapped (\<lambda>n. n > 0) (passed_on (red_exists c ctx key s))"

definition redis_expire :: "('x, 's, 'e) redis_client \<Rightarrow> 'x \<Rightarrow> string \<Rightarrow> int \<Rightarrow> 's \<Rightarrow> ('s, 'e remote_error, unit) answer" where
  "redis_expire c ctx key expiration s = passed_on (red_expire c ctx key expiration s)"

definition redis_ttl :: "('x, 's, 'e) redis_client \<Rightarrow> 'x \<Rightarrow> string \<Rightarrow> 's \<Rightarrow> ('s, 'e remote_error, int) answer" where
  "redis_ttl c ctx key s = passed_on (red_ttl c ctx key s)"

definition redis_increment :: "('e \<Rightarrow> bool) \<Rightarrow> ('x, 's, 'e) redis_client \<Rightarrow> 'x \<Rightarrow> string \<Rightarrow> int \<Rightarrow> 's \<Rightarrow> ('s, 'e remote_error, int) answer" where
  "redis_increment is_nil c ctx key n s = translated is_nil (red_incr_by c ctx key n s)"

definition redis_decrement :: "('e \<Rightarrow> bool) \<Rightarrow> ('x, 's, 'e) redis_client \<Rightarrow> 'x \<Rightarrow> string \<Rightarrow> int \<Rightarrow> 's \<Rightarrow> ('s, 'e remote_error, int) answer" where
  "redis_decrement is_nil c ctx key n s = translated is_nil (red_decr_by c ctx key n s)"

definition redis_hash_set :: "('x, 's, 'e) redis_client \<Rightarrow> 'x \<Rightarrow> string \<Rightarrow> string \<Rightarrow> bytes \<Rightarrow> 's \<Rightarrow> ('s, 'e remote_error, unit) answer" where
  "redis_hash_set c ctx key field v s = passed_on (red_hset c ctx key field v s)"

definition redis_hash_get :: "('e \<Rightarrow> bool) \<Rightarrow> ('x, 's, 'e) redis_client \<Rightarrow> 'x \<Rightarrow> string \<Rightarrow> string \<Rightarrow> 's \<Rightarrow> ('s, 'e remote_error, bytes option) answer" where
  "redis_hash_get is_nil c ctx key field s = data_or_nil is_nil (red_hget c ctx key field s)"

definition redis_hash_get_all ::
  "('e \<Rightarrow> bool) \<Rightarrow> ('x, 's, 'e) redis_client \<Rightarrow> 'x \<Rightarrow> string \<Rightarrow> 's \<Rightarrow> ('s, 'e remote_error, (string, bytes) gomap option) answer" where
  "redis_hash_get_all is_nil c ctx key s = mapped (map_option copy_map) (data_or_nil is_nil (red_hget_all c ctx key s))"

definition redis_hash_delete :: "('x, 's, 'e) redis_client \<Rightarrow> 'x \<Rightarrow> string \<Rightarrow> string list \<Rightarrow> 's \<Rightarrow> ('s, 'e remote_error, unit) answer" where
  "redis_hash_delete c ctx key names s = passed_on (red_hdel c ctx key names s)"

definition redis_list_push :: "('x, 's, 'e) redis_client \<Rightarrow> 'x \<Rightarrow> string \<Rightarrow> bytes list \<Rightarrow> 's \<Rightarrow> ('s, 'e remote_error, unit) answer" where
  "redis_list_push c ctx key vs s = passed_on (red_rpush c ctx key vs s)"

definition redis_list_pop :: "('e \<Rightarrow> bool) \<Rightarrow> ('x, 's, 'e) redis_client \<Rightarrow> 'x \<Rightarrow> string \<Rightarrow> 's \<Rightarrow> ('s, 'e remote_error, bytes option) answer" where
  "redis_list_pop is_nil c ctx key s = data_or_nil is_nil (red_lpop c ctx key s)"

definition redis_list_range ::
  "('e \<Rightarrow> bool) \<Rightarrow> ('x, 's, 'e) redis_client \<Rightarrow> 'x \<Rightarrow> string \<Rightarrow> int \<Rightarrow> int \<Rightarrow> 's \<Rightarrow> ('s, 'e remote_error, bytes list option) answer" where
  "redis_list_range is_nil c ctx key start stop s = data_or_nil is_nil (red_lrange c ctx key start stop s)"

definition redis_set_add :: "('x, 's, 'e) redis_client \<Rightarrow> 'x \<Rightarrow> string \<Rightarrow> bytes list \<Rightarrow> 's \<Rightarrow> ('s, 'e remote_error, unit) answer" where
  "redis_set_add c ctx key members s = passed_on (red_sadd c ctx key members s)"

definition redis_set_members ::
  "('e \<Rightarrow> bool) \<Rightarrow> ('x, 's, 'e) redis_client \<Rightarrow> 'x \<Rightarrow> string \<Rightarrow> 's \<Rightarrow> ('s, 'e remote_error, bytes list option) answer" where
  "redis_set_members is_nil c ctx key s = data_or_nil is_nil (red_smembers c ctx key s)"

definition redis_set_is_member :: "('e \<Rightarrow> bool) \<Rightarrow> ('x, 's, 'e) redis_client \<Rightarrow> 'x \<Rightarrow> string \<Rightarrow> bytes \<Rightarrow> 's \<Rightarrow> ('s, 'e remote_error, bool) answer" where
  "redis_set_is_member is_nil c ctx key member s = translated is_nil (red_sismember c ctx key member s)"

definition redis_ping :: "('x, 's, 'e) redis_client \<Rightarrow> 'x \<Rightarrow> 's \<Rightarrow> ('s, 'e remote_error, unit) answer" where
  "redis_ping c ctx s = passed_on (red_ping c ctx s)"

definition redis_close :: "('x, 's, 'e) redis_client \<Rightarrow> 's \<Rightarrow> ('s, 'e remote_error, unit) answer" where
  "redis_close c s = passed_on (red_close c s)"

text \<open>What is passed to \<open>redis.NewClient\<close>; all other fields stay zero.\<close>

record redis_options =
  ro_addr :: string
  ro_password :: string
  ro_db :: int
  ro_pool_size :: int
  ro_min_idle :: int
  ro_dial_timeout :: int
  ro_read_timeout :: int
  ro_write_timeout :: int
  ro_max_retries :: int

definition zero_options :: cache_options where
  "zero_options =
     \<lparr>co_address = [], co_password = [], co_db = 0, co_pool_size = 0, co_min_idle = 0, co_dial_timeout = 0,
      co_read_timeout = 0, co_write_timeout = 0, co_max_retries = 0, co_cleanup_interval = 0\<rparr>"

definition redis_options_of :: "cache_options \<Rightarrow> redis_options" where
  "redis_options_of opts =
     \<lparr>ro_addr = co_address opts, ro_password = co_password opts, ro_db = co_db opts, ro_pool_size = co_pool_size opts,
      ro_min_idle = co_min_idle opts, ro_dial_timeout = co_dial_timeout opts, ro_read_timeout = co_read_timeout opts,
      ro_write_timeout = co_write_timeout opts, ro_max_retries = co_max_retries opts\<rparr>"

text \<open>\<open>after n\<close> is a context that is done after \<open>n\<close> nanoseconds.\<close>

definition new_redis_cache ::
  "(redis_options \<Rightarrow> 's \<Rightarrow> ('x, 's, 'e) redis_client \<times> 's) \<Rightarrow> (int \<Rightarrow> 'x) \<Rightarrow> cache_option list \<Rightarrow> 's
     \<Rightarrow> ('e remote_error + ('x, 's, 'e) redis_client) \<times> 's" where
  "new_redis_cache new_client after opts s =
     (case new_client (redis_options_of (fold apply_option opts zero_options)) s of
        (c, s) \<Rightarrow>
          (case redis_ping c (after (5 * 10 ^ 9)) s of
             ((_, Some e), s) \<Rightarrow> (Inl e, s)
           | ((_, None), s) \<Rightarrow> (Inr c, s)))"

section \<open>Valkey\<close>

text \<open>
  The commands the cache builds; \<open>Ex\<close> is given the duration, \<open>Seconds\<close> a number of seconds.
  A client sends a command and reads the answer as the type asked for.
\<close>

datatype valkey_command =
    VGet string | VSetEx string bytes int | VDel string | VExists string | VExpire string int | VTtl string
  | VIncrby string int | VDecrby string int | VHset string "(string \<times> bytes) list" | VHget string string
  | VHgetall string | VHdel string "string list" | VRpush string "bytes list" | VLpop string
  | VLrange string int int | VSadd string "bytes list" | VSmembers string | VSismember string bytes | VPing

record ('x, 's, 'e) valkey_client =
  vk_error :: "'x \<Rightarrow> valkey_command \<Rightarrow> 's \<Rightarrow> ('s, 'e, unit) answer"
  vk_bytes :: "'x \<Rightarrow> valkey_command \<Rightarrow> 's \<Rightarrow> ('s, 'e, bytes) answer"
  vk_int64 :: "'x \<Rightarrow> valkey_command \<Rightarrow> 's \<Rightarrow> ('s, 'e, 64 word) answer"
  vk_str_map :: "'x \<Rightarrow> valkey_command \<Rightarrow> 's \<Rightarrow> ('s, 'e, (string, bytes) gomap) answer"
  vk_str_slice :: "'x \<Rightarrow> valkey_command \<Rightarrow> 's \<Rightarrow> ('s, 'e, bytes list) answer"
  vk_close :: "'s \<Rightarrow> 's"

definition valkey_get :: "('e \<Rightarrow> bool) \<Rightarrow> ('x, 's, 'e) valkey_client \<Rightarrow> 'x \<Rightarrow> string \<Rightarrow> 's \<Rightarrow> ('s, 'e remote_error, bytes option) answer" where
  "valkey_get is_nil c ctx key s = data_or_nil is_nil (vk_bytes c ctx (VGet key) s)"

definition valkey_set :: "('x, 's, 'e) valkey_client \<Rightarrow> 'x \<Rightarrow> string \<Rightarrow> bytes \<Rightarrow> int \<Rightarrow> 's \<Rightarrow> ('s, 'e remote_error, unit) answer" where
  "valkey_set c ctx key v expiration s = passed_on (vk_error c ctx (VSetEx key v expiration) s)"

definition valkey_delete :: "('x, 's, 'e) valkey_client \<Rightarrow> 'x \<Rightarrow> string \<Rightarrow> 's \<Rightarrow> ('s, 'e remote_error, unit) answer" where
  "valkey_delete c ctx key s = passed_on (vk_error c ctx (VDel key) s)"

definition valkey_exists :: "('x, 's, 'e) valkey_client \<Rightarrow> 'x \<Rightarrow> string \<Rightarrow> 's \<Rightarrow> ('s, 'e remote_error, bool) answer" where
  "valkey_exists c ctx key s = mapped (\<lambda>n. sint n > 0) (passed_on (vk_int64 c ctx (VExists key) s))"

text \<open>\<open>whole_seconds\<close> is \<open>int64(expiration.Seconds())\<close>, a conversion from \<open>float64\<close>.\<close>

definition valkey_expire ::
  "(int \<Rightarrow> int) \<Rightarrow> ('x, 's, 'e) valkey_client \<Rightarrow> 'x \<Rightarrow> string \<Rightarrow> int \<Rightarrow> 's \<Rightarrow> ('s, 'e remote_error, unit) answer" where
  "valkey_expire whole_seconds c ctx key expiration s = passed_on (vk_error c ctx (VExpire key (whole_seconds expiration)) s)"

definition valkey_ttl :: "('x, 's, 'e) valkey_client \<Rightarrow> 'x \<Rightarrow> string \<Rightarrow> 's \<Rightarrow> ('s, 'e remote_error, 64 word) answer" where
  "valkey_ttl c ctx key s = mapped (\<lambda>n. n * 1000000000) (passed_on (vk_int64 c ctx (VTtl key) s))"

definition valkey_increment :: "('e \<Rightarrow> bool) \<Rightarrow> ('x, 's, 'e) valkey_client \<Rightarrow> 'x \<Rightarrow> string \<Rightarrow> int \<Rightarrow> 's \<Rightarrow> ('s, 'e remote_error, 64 word) answer" where
  "valkey_increment is_nil c ctx key n s = translated is_nil (vk_int64 c ctx (VIncrby key n) s)"

definition valkey_decrement :: "('e \<Rightarrow> bool) \<Rightarrow> ('x, 's, 'e) valkey_client \<Rightarrow> 'x \<Rightarrow> string \<Rightarrow> int \<Rightarrow> 's \<Rightarrow> ('s, 'e remote_error, 64 word) answer" where
  "valkey_decrement is_nil c ctx key n s = translated is_nil (vk_int64 c ctx (VDecrby key n) s)"

definition valkey_hash_set :: "('x, 's, 'e) valkey_client \<Rightarrow> 'x \<Rightarrow> string \<Rightarrow> string \<Rightarrow> bytes \<Rightarrow> 's \<Rightarrow> ('s, 'e remote_error, unit) answer" where
  "valkey_hash_set c ctx key field v s = passed_on (vk_error c ctx (VHset key [(field, v)]) s)"

definition valkey_hash_get :: "('e \<Rightarrow> bool) \<Rightarrow> ('x, 's, 'e) valkey_client \<Rightarrow> 'x \<Rightarrow> string \<Rightarrow> string \<Rightarrow> 's \<Rightarrow> ('s, 'e remote_error, bytes option) answer" where
  "valkey_hash_get is_nil c ctx key field s = data_or_nil is_nil (vk_bytes c ctx (VHget key field) s)"

definition valkey_hash_get_all ::
  "('e \<Rightarrow> bool) \<Rightarrow> ('x, 's, 'e) valkey_client \<Rightarrow> 'x \<Rightarrow> string \<Rightarrow> 's \<Rightarrow> ('s, 'e remote_error, (string, bytes) gomap option) answer" where
  "valkey_hash_get_all is_nil c ctx key s = mapped (map_option copy_map) (data_or_nil is_nil (vk_str_map c ctx (VHgetall key) s))"

definition valkey_hash_delete :: "('x, 's, 'e) valkey_client \<Rightarrow> 'x \<Rightarrow> string \<Rightarrow> string list \<Rightarrow> 's \<Rightarrow> ('s, 'e remote_error, unit) answer" where
  "valkey_hash_delete c ctx key names s = passed_on (vk_error c ctx (VHdel key names) s)"

definition valkey_list_push :: "('x, 's, 'e) valkey_client \<Rightarrow> 'x \<Rightarrow> string \<Rightarrow> bytes list \<Rightarrow> 's \<Rightarrow> ('s, 'e remote_error, unit) answer" where
  "valkey_list_push c ctx key vs s = passed_on (vk_error c ctx (VRpush key vs) s)"

definition valkey_list_pop :: "('e \<Rightarrow> bool) \<Rightarrow> ('x, 's, 'e) valkey_client \<Rightarrow> 'x \<Rightarrow> string \<Rightarrow> 's \<Rightarrow> ('s, 'e remote_error, bytes option) answer" where
  "valkey_list_pop is_nil c ctx key s = data_or_nil is_nil (vk_bytes c ctx (VLpop key) s)"

definition valkey_list_range ::
  "('e \<Rightarrow> bool) \<Rightarrow> ('x, 's, 'e) valkey_client \<Rightarrow> 'x \<Rightarrow> string \<Rightarrow> int \<Rightarrow> int \<Rightarrow> 's \<Rightarrow> ('s, 'e remote_error, bytes list option) answer" where
  "valkey_list_range is_nil c ctx key start stop s = data_or_nil is_nil (vk_str_slice c ctx (VLrange key start stop) s)"

definition valkey_set_add :: "('x, 's, 'e) valkey_client \<Rightarrow> 'x \<Rightarrow> string \<Rightarrow> bytes list \<Rightarrow> 's \<Rightarrow> ('s, 'e remote_error, unit) answer" where
  "valkey_set_add c ctx key members s = passed_on (vk_error c ctx (VSadd key members) s)"

definition valkey_set_members ::
  "('e \<Rightarrow> bool) \<Rightarrow> ('x, 's, 'e) valkey_client \<Rightarrow> 'x \<Rightarrow> string \<Rightarrow> 's \<Rightarrow> ('s, 'e remote_error, bytes list option) answer" where
  "valkey_set_members is_nil c ctx key s = data_or_nil is_nil (vk_str_slice c ctx (VSmembers key) s)"

definition valkey_set_is_member :: "('e \<Rightarrow> bool) \<Rightarrow> ('x, 's, 'e) valkey_client \<Rightarrow> 'x \<Rightarrow> string \<Rightarrow> bytes \<Rightarrow> 's \<Rightarrow> ('s, 'e remote_error, bool) answer" where
  "valkey_set_is_member is_nil c ctx key member s =
     (case vk_int64 c ctx (VSismember key member) s of
        ((n, err), s) \<Rightarrow> (if err \<noteq> None then ((False, translate_error is_nil err), s) else ((n = 1, None), s)))"

definition valkey_ping :: "('x, 's, 'e) valkey_client \<Rightarrow> 'x \<Rightarrow> 's \<Rightarrow> ('s, 'e remote_error, unit) answer" where
  "valkey_ping c ctx s = passed_on (vk_error c ctx VPing s)"

definition valkey_close :: "('x, 's, 'e) valkey_client \<Rightarrow> 's \<Rightarrow> ('s, 'e remote_error, unit) answer" where
  "valkey_close c s = (((), None), vk_close c s)"

record valkey_options =
  vo_init_address :: "string list"
  vo_password :: string
  vo_select_db :: int
  vo_pool_size :: int
  vo_pool_min_size :: int
  vo_dial_timeout :: int
  vo_write_timeout :: int
  vo_disable_retry :: bool

definition valkey_options_of :: "cache_options \<Rightarrow> valkey_options" where
  "valkey_options_of opts =
     \<lparr>vo_init_address = [co_address opts], vo_password = co_password opts, vo_select_db = co_db opts,
      vo_pool_size = co_pool_size opts, vo_pool_min_size = co_min_idle opts, vo_dial_timeout = co_dial_timeout opts,
      vo_write_timeout = co_write_timeout opts, vo_disable_retry = (co_max_retries opts \<le> 0)\<rparr>"

definition new_valkey_cache ::
  "(valkey_options \<Rightarrow> 's \<Rightarrow> ('e + ('x, 's, 'e) valkey_client) \<times> 's) \<Rightarrow> (int \<Rightarrow> 'x) \<Rightarrow> cache_option list \<Rightarrow> 's
     \<Rightarrow> ('e remote_error + ('x, 's, 'e) valkey_client) \<times> 's" where
  "new_valkey_cache new_client after opts s =
     (case new_client (valkey_options_of (fold apply_option opts zero_options)) s of
        (Inl e, s) \<Rightarrow> (Inl (ClientError e), s)
      | (Inr c, s) \<Rightarrow>
          (case valkey_ping c (after (5 * 10 ^ 9)) s of
             ((_, Some e), s) \<Rightarrow> (Inl e, s)
           | ((_, None), s) \<Rightarrow> (Inr c, s)))"

section \<open>The serializer\<close>

text \<open>\<open>JSONSerializer\<close>: nil has no bytes, and no bytes leave the target as it is.\<close>

definition json_serialize :: "('v \<Rightarrow> 'e + bytes) \<Rightarrow> 'v option \<Rightarrow> 'e + bytes option" where
  "json_serialize marshal v = (case v of None \<Rightarrow> Inr None | Some v \<Rightarrow> map_sum id Some (marshal v))"

definition json_deserialize :: "(bytes \<Rightarrow> 'v \<Rightarrow> 'e option \<times> 'v) \<Rightarrow> bytes \<Rightarrow> 'v \<Rightarrow> 'e option \<times> 'v" where
  "json_deserialize unmarshal data target = (if length data = 0 then (None, target) else unmarshal data target)"

section \<open>Facts\<close>

lemmas answer_simps = translated_def passed_on_def data_or_nil_def mapped_def translate_error_def

text \<open>Where a value is fetched, a missing one is a cache miss and every other error is the client's.\<close>

lemma missing_is_miss:
  "is_nil e \<Longrightarrow> data_or_nil is_nil ((v, Some e), s) = ((None, Some RemoteMiss), s)"
  "\<not> is_nil e \<Longrightarrow> data_or_nil is_nil ((v, Some e), s) = ((None, Some (ClientError e)), s)"
  "data_or_nil is_nil ((v, None), s) = ((Some v, None), s)"
  by (simp_all add: answer_simps)

lemma copy_map_same: "gomap_ok m \<Longrightarrow> go_get (copy_map m) k = go_get m k"
proof -
  have "gomap_ok m \<Longrightarrow> go_get (fold (\<lambda>(k, v). go_put k v) m acc) k = (case go_get m k of None \<Rightarrow> go_get acc k | Some v \<Rightarrow> Some v)" for acc
  proof (induction m arbitrary: acc)
    case (Cons p m)
    obtain k' v where p: "p = (k', v)" by (cases p)
    have "go_get m k' = None" using Cons.prems p by (auto simp: gomap_ok_def go_get_def map_of_eq_None_iff)
    moreover have "go_get (p # m) k = (if k = k' then Some v else go_get m k)" by (simp add: go_get_def p)
    moreover have "gomap_ok m" using Cons.prems by (simp add: gomap_ok_def)
    ultimately show ?case using Cons.IH p by (simp split: option.split)
  qed simp
  then show "gomap_ok m \<Longrightarrow> go_get (copy_map m) k = go_get m k" by (simp add: copy_map_def split: option.split)
qed

text \<open>
  A store is served when \<open>Get\<close> shows it and \<open>Set\<close> and \<open>Delete\<close> change it; \<open>view\<close> is what the server
  holds.
\<close>

definition serves ::
  "('s \<Rightarrow> string \<Rightarrow> bytes option) \<Rightarrow> (string \<Rightarrow> 's \<Rightarrow> ('s, 'e remote_error, bytes option) answer) \<Rightarrow>
   (string \<Rightarrow> bytes \<Rightarrow> 's \<Rightarrow> ('s, 'e remote_error, unit) answer) \<Rightarrow> (string \<Rightarrow> 's \<Rightarrow> ('s, 'e remote_error, unit) answer) \<Rightarrow> bool" where
  "serves view get put del \<longleftrightarrow>
     (\<forall>k s. fst (get k s) = (view s k, if view s k = None then Some RemoteMiss else None) \<and> view (snd (get k s)) = view s) \<and>
     (\<forall>k v s. snd (fst (put k v s)) = None \<and> view (snd (put k v s)) = (view s)(k \<mapsto> v)) \<and>
     (\<forall>k s. snd (fst (del k s)) = None \<and> view (snd (del k s)) = (view s)(k := None))"

text \<open>What a client promises of the three commands, under one context and one expiration.\<close>

definition redis_holds :: "('e \<Rightarrow> bool) \<Rightarrow> ('s \<Rightarrow> string \<Rightarrow> bytes option) \<Rightarrow> ('x, 's, 'e) redis_client \<Rightarrow> 'x \<Rightarrow> int \<Rightarrow> bool" where
  "redis_holds is_nil view c ctx ttl \<longleftrightarrow>
     (\<forall>k s. view (snd (red_get c ctx k s)) = view s \<and>
        (case view s k of
           Some v \<Rightarrow> fst (red_get c ctx k s) = (v, None)
         | None \<Rightarrow> (\<exists>e. snd (fst (red_get c ctx k s)) = Some e \<and> is_nil e))) \<and>
     (\<forall>k v s. snd (fst (red_set c ctx k v ttl s)) = None \<and> view (snd (red_set c ctx k v ttl s)) = (view s)(k \<mapsto> v)) \<and>
     (\<forall>k s. snd (fst (red_del c ctx k s)) = None \<and> view (snd (red_del c ctx k s)) = (view s)(k := None))"

definition valkey_holds :: "('e \<Rightarrow> bool) \<Rightarrow> ('s \<Rightarrow> string \<Rightarrow> bytes option) \<Rightarrow> ('x, 's, 'e) valkey_client \<Rightarrow> 'x \<Rightarrow> int \<Rightarrow> bool" where
  "valkey_holds is_nil view c ctx ttl \<longleftrightarrow>
     (\<forall>k s. view (snd (vk_bytes c ctx (VGet k) s)) = view s \<and>
        (case view s k of
           Some v \<Rightarrow> fst (vk_bytes c ctx (VGet k) s) = (v, None)
         | None \<Rightarrow> (\<exists>e. snd (fst (vk_bytes c ctx (VGet k) s)) = Some e \<and> is_nil e))) \<and>
     (\<forall>k v s. snd (fst (vk_error c ctx (VSetEx k v ttl) s)) = None \<and>
        view (snd (vk_error c ctx (VSetEx k v ttl) s)) = (view s)(k \<mapsto> v)) \<and>
     (\<forall>k s. snd (fst (vk_error c ctx (VDel k) s)) = None \<and> view (snd (vk_error c ctx (VDel k) s)) = (view s)(k := None))"

lemma data_or_nil_view:
  assumes "case w of Some v \<Rightarrow> fst a = (v, None) | None \<Rightarrow> \<exists>e. snd (fst a) = Some e \<and> is_nil e"
  shows "fst (data_or_nil is_nil a) = (w, if w = None then Some RemoteMiss else None)" "snd (data_or_nil is_nil a) = snd a"
  using assms by (auto simp: answer_simps split: option.splits prod.splits)

lemma passed_on_parts: "snd (fst (passed_on a)) = map_option ClientError (snd (fst a))" "snd (passed_on a) = snd a"
  by (simp_all add: passed_on_def split: prod.split)

lemma redis_serves:
  assumes "redis_holds is_nil view c ctx ttl"
  shows "serves view (redis_get is_nil c ctx) (\<lambda>k v. redis_set c ctx k v ttl) (redis_delete c ctx)"
proof -
  have g: "case view s k of Some v \<Rightarrow> fst (red_get c ctx k s) = (v, None)
      | None \<Rightarrow> \<exists>e. snd (fst (red_get c ctx k s)) = Some e \<and> is_nil e" for k s
    using assms by (simp add: redis_holds_def)
  show ?thesis
    using assms data_or_nil_view [OF g]
    by (simp add: serves_def redis_holds_def redis_get_def redis_set_def redis_delete_def passed_on_parts)
qed

lemma valkey_serves:
  assumes "valkey_holds is_nil view c ctx ttl"
  shows "serves view (valkey_get is_nil c ctx) (\<lambda>k v. valkey_set c ctx k v ttl) (valkey_delete c ctx)"
proof -
  have g: "case view s k of Some v \<Rightarrow> fst (vk_bytes c ctx (VGet k) s) = (v, None)
      | None \<Rightarrow> \<exists>e. snd (fst (vk_bytes c ctx (VGet k) s)) = Some e \<and> is_nil e" for k s
    using assms by (simp add: valkey_holds_def)
  show ?thesis
    using assms data_or_nil_view [OF g]
    by (simp add: serves_def valkey_holds_def valkey_get_def valkey_set_def valkey_delete_def passed_on_parts)
qed

text \<open>A history of calls, and what its reads give on a plain map.\<close>

datatype kv_op = KGet string | KSet string bytes | KDelete string

fun kv_run ::
  "(string \<Rightarrow> 's \<Rightarrow> ('s, 'e remote_error, bytes option) answer) \<Rightarrow> (string \<Rightarrow> bytes \<Rightarrow> 's \<Rightarrow> ('s, 'e remote_error, unit) answer) \<Rightarrow>
   (string \<Rightarrow> 's \<Rightarrow> ('s, 'e remote_error, unit) answer) \<Rightarrow> kv_op list \<Rightarrow> 's \<Rightarrow> (bytes option \<times> 'e remote_error option) list" where
  "kv_run get put del [] s = []"
| "kv_run get put del (KGet k # ops) s = fst (get k s) # kv_run get put del ops (snd (get k s))"
| "kv_run get put del (KSet k v # ops) s = kv_run get put del ops (snd (put k v s))"
| "kv_run get put del (KDelete k # ops) s = kv_run get put del ops (snd (del k s))"

fun map_run :: "kv_op list \<Rightarrow> (string \<Rightarrow> bytes option) \<Rightarrow> (bytes option \<times> 'e remote_error option) list" where
  "map_run [] m = []"
| "map_run (KGet k # ops) m = (m k, if m k = None then Some RemoteMiss else None) # map_run ops m"
| "map_run (KSet k v # ops) m = map_run ops (m(k \<mapsto> v))"
| "map_run (KDelete k # ops) m = map_run ops (m(k := None))"

lemma serves_run: "serves view get put del \<Longrightarrow> kv_run get put del ops s = map_run ops (view s)"
proof (induction ops arbitrary: s)
  case (Cons op ops)
  then show ?case by (cases op) (simp_all add: serves_def)
qed simp

text \<open>Over servers that hold the same the two caches answer every history alike.\<close>

lemma remote_caches_agree:
  fixes view :: "'s \<Rightarrow> string \<Rightarrow> bytes option" and view' :: "'t \<Rightarrow> string \<Rightarrow> bytes option"
  assumes "redis_holds is_nil view c ctx ttl" and "valkey_holds is_nil' view' d ctx' ttl'" and "view s = view' t"
  shows "(kv_run (redis_get is_nil c ctx) (\<lambda>k v. redis_set c ctx k v ttl) (redis_delete c ctx) ops s
            :: (bytes option \<times> 'e remote_error option) list) =
         kv_run (valkey_get is_nil' d ctx') (\<lambda>k v. valkey_set d ctx' k v ttl') (valkey_delete d ctx') ops t"
  using serves_run [OF redis_serves [OF assms(1)]] serves_run [OF valkey_serves [OF assms(2)]] assms(3) by simp

text \<open>Of a key without an expiration the server answers -1: that is one second here, a nanosecond in the others.\<close>

lemma ttl_without_expiration:
  "vk_int64 c ctx (VTtl key) s = ((- 1, None), s') \<Longrightarrow> valkey_ttl c ctx key s = ((- 1000000000, None), s')"
  by (simp add: valkey_ttl_def answer_simps)

lemma ttl_of_missing_key:
  "vk_int64 c ctx (VTtl key) s = ((- 2, None), s') \<Longrightarrow> snd (fst (valkey_ttl c ctx key s)) = None"
  "red_ttl r ctx key s = ((- 2, None), s') \<Longrightarrow> redis_ttl r ctx key s = ((- 2, None), s')"
  by (simp_all add: valkey_ttl_def redis_ttl_def answer_simps)

text \<open>An expiration below a second is sent as 0, which makes a server delete the key.\<close>

lemma short_expiration_is_zero:
  "whole_seconds 500000000 = 0 \<Longrightarrow>
     valkey_expire whole_seconds c ctx key 500000000 s = passed_on (vk_error c ctx (VExpire key 0) s)"
  by (simp add: valkey_expire_def)

text \<open>A read timeout is not passed to Valkey, nor is the number of retries.\<close>

lemma read_timeout_ignored: "valkey_options_of (apply_option (WithReadTimeout d) opts) = valkey_options_of opts"
  by (simp add: valkey_options_of_def)

lemma retries_not_counted:
  "0 < n \<Longrightarrow> 0 < m \<Longrightarrow> valkey_options_of (apply_option (WithMaxRetries n) opts) = valkey_options_of (apply_option (WithMaxRetries m) opts)"
  by (simp add: valkey_options_of_def)

text \<open>When the server does not answer, the client just made is left open: nothing is called after the ping.\<close>

lemma failed_ping_leaves_client_open:
  "new_client (redis_options_of (fold apply_option opts zero_options)) s = (c, s1) \<Longrightarrow>
     red_ping c (after 5000000000) s1 = (((), Some e), s2) \<Longrightarrow> new_redis_cache new_client after opts s = (Inl (ClientError e), s2)"
  "new_vk (valkey_options_of (fold apply_option opts zero_options)) s = (Inr d, s1) \<Longrightarrow>
     vk_error d (after 5000000000) VPing s1 = (((), Some e), s2) \<Longrightarrow> new_valkey_cache new_vk after opts s = (Inl (ClientError e), s2)"
  by (simp_all add: new_redis_cache_def new_valkey_cache_def redis_ping_def valkey_ping_def answer_simps)

text \<open>What is serialized comes back, but nil leaves the target as it was.\<close>

lemma serialized_comes_back:
  assumes "marshal v = Inr bs" and "bs \<noteq> []" and "unmarshal bs t = (None, v)"
  shows "json_serialize marshal (Some v) = Inr (Some bs) \<and> json_deserialize unmarshal bs t = (None, v)"
  using assms by (simp add: json_serialize_def json_deserialize_def)

lemma nil_not_deserialized: "json_serialize marshal None = Inr None" "json_deserialize unmarshal [] t = (None, t)"
  by (simp_all add: json_serialize_def json_deserialize_def)

end
