(* ===== verification/Layers.thy ===== *)
theory Layers
  imports GoIO
begin

text \<open>
  The packages \<open>gnet/layers\<close> and \<open>gnet/packet\<close>: the protocol decoders, their registry, and the
  loop that decodes a frame layer by layer.  Every slice and index expression of the code is one
  that may panic.  An empty list also stands for a nil slice of options.  A layer of a decoder
  registered by a user is \<open>OtherLayer\<close>.
\<close>

section \<open>Layers\<close>

type_synonym layer_type = int

abbreviation LayerTypeEthernet :: layer_type where "LayerTypeEthernet \<equiv> 0"
abbreviation LayerTypeIPv4 :: layer_type where "LayerTypeIPv4 \<equiv> 1"
abbreviation LayerTypeIPv6 :: layer_type where "LayerTypeIPv6 \<equiv> 2"
abbreviation LayerTypeARP :: layer_type where "LayerTypeARP \<equiv> 3"
abbreviation LayerTypeTCP :: layer_type where "LayerTypeTCP \<equiv> 4"
abbreviation LayerTypeUDP :: layer_type where "LayerTypeUDP \<equiv> 5"
abbreviation LayerTypeICMP :: layer_type where "LayerTypeICMP \<equiv> 6"

record base_layer =
  contents :: bytes
  payload_data :: bytes

record ethernet = base_layer +
  src_mac :: bytes
  dst_mac :: bytes
  ether_type :: u16
  vlan_ids :: "u16 list"

record ipv4 = base_layer +
  ip4_version :: byte
  ip4_ihl :: byte
  ip4_tos :: byte
  ip4_total_length :: u16
  ip4_id :: u16
  ip4_flags :: byte
  ip4_frag_offset :: u16
  ip4_ttl :: byte
  ip4_protocol :: byte
  ip4_checksum :: u16
  ip4_src :: bytes
  ip4_dst :: bytes
  ip4_options :: bytes

record ipv6 = base_layer +
  ip6_version :: byte
  ip6_traffic_class :: byte
  ip6_flow_label :: u32
  ip6_payload_len :: u16
  ip6_next_header :: byte
  ip6_hop_limit :: byte
  ip6_src :: bytes
  ip6_dst :: bytes

record tcp = base_layer +
  tcp_src_port :: u16
  tcp_dst_port :: u16
  tcp_seq :: u32
  tcp_ack :: u32
  tcp_data_offset :: byte
  tcp_flags :: u16
  tcp_window :: u16
  tcp_checksum :: u16
  tcp_urgent :: u16
  tcp_options :: bytes

record udp = base_layer +
  udp_src_port :: u16
  udp_dst_port :: u16
  udp_length :: u16
  udp_checksum :: u16

record icmp = base_layer +
  icmp_type :: byte
  icmp_code :: byte
  icmp_checksum :: u16
  icmp_rest :: bytes

datatype layer =
    EthernetLayer ethernet | IPv4Layer ipv4 | IPv6Layer ipv6 | TCPLayer tcp | UDPLayer udp | ICMPLayer icmp
  | OtherLayer layer_type base_layer

fun layer_type_of :: "layer \<Rightarrow> layer_type" where
  "layer_type_of (EthernetLayer l) = LayerTypeEthernet"
| "layer_type_of (IPv4Layer l) = LayerTypeIPv4"
| "layer_type_of (IPv6Layer l) = LayerTypeIPv6"
| "layer_type_of (TCPLayer l) = LayerTypeTCP"
| "layer_type_of (UDPLayer l) = LayerTypeUDP"
| "layer_type_of (ICMPLayer l) = LayerTypeICMP"
| "layer_type_of (OtherLayer t l) = t"

fun layer_contents :: "layer \<Rightarrow> bytes" where
  "layer_contents (EthernetLayer l) = contents l"
| "layer_contents (IPv4Layer l) = contents l"
| "layer_contents (IPv6Layer l) = contents l"
| "layer_contents (TCPLayer l) = contents l"
| "layer_contents (UDPLayer l) = contents l"
| "layer_contents (ICMPLayer l) = contents l"
| "layer_contents (OtherLayer t l) = contents l"

definition layer_length :: "layer \<Rightarrow> nat" where
  "layer_length l = length (layer_contents l)"

fun layer_payload :: "layer \<Rightarrow> bytes" where
  "layer_payload (EthernetLayer l) = payload_data l"
| "layer_payload (IPv4Layer l) = payload_data l"
| "layer_payload (IPv6Layer l) = payload_data l"
| "layer_payload (TCPLayer l) = payload_data l"
| "layer_payload (UDPLayer l) = payload_data l"
| "layer_payload (ICMPLayer l) = payload_data l"
| "layer_payload (OtherLayer t l) = payload_data l"

datatype layer_error =
    DecoderNotFound layer_type
  | EthernetTooShort nat | TruncatedVlan | MalformedEthernet
  | IPv4TooShort nat | IPv4BadVersion byte | IPv4BadHeaderLength nat | IPv4TotalTooSmall
  | IPv6TooShort | IPv6BadVersion byte
  | TCPTooShort nat | TCPBadHeaderLength nat
  | UDPTooShort nat | ICMPTooShort nat
  | NoPayload

type_synonym decoder = "bytes \<Rightarrow> (layer_error, layer) outcome"

text \<open>\<open>binary.BigEndian.Uint16(data[i:i+2])\<close> and its 32-bit form.\<close>

definition u16_at :: "nat \<Rightarrow> bytes \<Rightarrow> (layer_error, u16) outcome" where
  "u16_at i data = bindO (go_slice data i (i + 2)) (get_uint16 BigEndian)"

definition u32_at :: "nat \<Rightarrow> bytes \<Rightarrow> (layer_error, u32) outcome" where
  "u32_at i data = bindO (go_slice data i (i + 4)) (get_uint32 BigEndian)"

section \<open>Ethernet\<close>

abbreviation EthernetTypeIPv4 :: u16 where "EthernetTypeIPv4 \<equiv> 0x0800"
abbreviation EthernetTypeIPv6 :: u16 where "EthernetTypeIPv6 \<equiv> 0x86DD"
abbreviation EthernetTypeVLAN :: u16 where "EthernetTypeVLAN \<equiv> 0x8100"
abbreviation EthernetTypeQinQ :: u16 where "EthernetTypeQinQ \<equiv> 0x88A8"

function vlan_loop :: "bytes \<Rightarrow> nat \<Rightarrow> u16 \<Rightarrow> u16 list \<Rightarrow> (layer_error, nat \<times> u16 \<times> u16 list) outcome" where
  "vlan_loop data offset eth_type ids =
     (if eth_type = EthernetTypeVLAN \<or> eth_type = EthernetTypeQinQ then
        (if length data < offset + 4 then Err TruncatedVlan
         else bindO (u16_at offset data) (\<lambda>tci.
              bindO (u16_at (offset + 2) data) (\<lambda>eth_type'.
              vlan_loop data (offset + 4) eth_type' (ids @ [tci AND 0x0FFF]))))
      else Ok (offset, eth_type, ids))"
  by pat_completeness auto
termination
  by (relation "measure (\<lambda>(data, offset, eth_type, ids). length data - offset)") auto

declare vlan_loop.simps [simp del]

definition decode_ethernet :: decoder where
  "decode_ethernet data =
     (if length data < 14 then Err (EthernetTooShort (length data))
      else
        bindO (go_slice data 0 6) (\<lambda>dst.
        bindO (go_slice data 6 12) (\<lambda>src.
        bindO (u16_at 12 data) (\<lambda>t.
        bindO (vlan_loop data 14 t []) (\<lambda>(offset, eth_type, ids).
          if length data < offset then Err MalformedEthernet
          else
            bindO (go_slice data 0 offset) (\<lambda>header.
            bindO (go_slice data offset (length data)) (\<lambda>payload.
              Ok (EthernetLayer \<lparr>contents = header, payload_data = payload, src_mac = src, dst_mac = dst,
                ether_type = eth_type, vlan_ids = ids\<rparr>))))))))"

section \<open>IP\<close>

abbreviation ProtocolICMP :: byte where "ProtocolICMP \<equiv> 1"
abbreviation ProtocolTCP :: byte where "ProtocolTCP \<equiv> 6"
abbreviation ProtocolUDP :: byte where "ProtocolUDP \<equiv> 17"

definition ip4_header_length :: "ipv4 \<Rightarrow> nat" where
  "ip4_header_length ip = unat (ip4_ihl ip) * 4"

definition slice_if :: "bool \<Rightarrow> bytes \<Rightarrow> nat \<Rightarrow> nat \<Rightarrow> (layer_error, bytes) outcome" where
  "slice_if b data i j = (if b then go_slice data i j else Ok [])"

text \<open>The assembly of the \<open>IPv4\<close> value once the lengths have been checked.\<close>

definition ipv4_fields :: "bytes \<Rightarrow> byte \<Rightarrow> byte \<Rightarrow> nat \<Rightarrow> nat \<Rightarrow> (layer_error, layer) outcome" where
  "ipv4_fields data version ihl header_len total_len =
     bindO (u16_at 6 data) (\<lambda>flags_frag.
     bindO (slice_if (header_len - 20 > 0) data 20 header_len) (\<lambda>options.
     bindO (go_slice data header_len total_len) (\<lambda>payload.
     bindO (go_slice data 12 16) (\<lambda>src.
     bindO (go_slice data 16 20) (\<lambda>dst.
     bindO (go_slice data 0 header_len) (\<lambda>header.
     bindO (go_index data 1) (\<lambda>tos.
     bindO (u16_at 4 data) (\<lambda>ident.
     bindO (go_index data 8) (\<lambda>ttl.
     bindO (go_index data 9) (\<lambda>protocol.
     bindO (u16_at 10 data) (\<lambda>checksum.
       Ok (IPv4Layer \<lparr>contents = header, payload_data = payload, ip4_version = version, ip4_ihl = ihl,
         ip4_tos = tos, ip4_total_length = of_nat total_len, ip4_id = ident,
         ip4_flags = ucast (drop_bit 13 flags_frag), ip4_frag_offset = flags_frag AND 0x1FFF,
         ip4_ttl = ttl, ip4_protocol = protocol, ip4_checksum = checksum, ip4_src = src, ip4_dst = dst,
         ip4_options = options\<rparr>))))))))))))"

definition decode_ipv4 :: decoder where
  "decode_ipv4 data =
     (if length data < 20 then Err (IPv4TooShort (length data))
      else
        bindO (go_index data 0) (\<lambda>version_ihl.
          let version = drop_bit 4 version_ihl;
              ihl = version_ihl AND 0x0F
          in if version \<noteq> 4 then Err (IPv4BadVersion version)
          else
            let header_len = unat ihl * 4
            in if header_len < 20 \<or> length data < header_len then Err (IPv4BadHeaderLength header_len)
            else
              bindO (u16_at 2 data) (\<lambda>total.
                let total_len = (if unat total > length data then length data else unat total)
                in if total_len < header_len then Err IPv4TotalTooSmall
                else ipv4_fields data version ihl header_len total_len)))"

definition decode_ipv6 :: decoder where
  "decode_ipv6 data =
     (if length data < 40 then Err IPv6TooShort
      else
        bindO (go_index data 0) (\<lambda>b0.
        if drop_bit 4 b0 \<noteq> 6 then Err (IPv6BadVersion (drop_bit 4 b0))
        else
          bindO (go_index data 1) (\<lambda>b1.
          bindO (go_index data 2) (\<lambda>b2.
          bindO (go_index data 3) (\<lambda>b3.
          bindO (u16_at 4 data) (\<lambda>payload_len.
          bindO (go_index data 6) (\<lambda>next_header.
          bindO (go_index data 7) (\<lambda>hop_limit.
          bindO (go_slice data 8 24) (\<lambda>src.
          bindO (go_slice data 24 40) (\<lambda>dst.
            let expected = 40 + unat payload_len;
                expected = (if expected > length data then length data else expected)
            in
            bindO (go_slice data 0 40) (\<lambda>header.
            bindO (go_slice data 40 expected) (\<lambda>payload.
              Ok (IPv6Layer \<lparr>contents = header, payload_data = payload, ip6_version = drop_bit 4 b0,
                ip6_traffic_class = push_bit 4 (b0 AND 0x0F) OR drop_bit 4 b1,
                ip6_flow_label = push_bit 16 (ucast (b1 AND 0x0F)) OR push_bit 8 (ucast b2) OR ucast b3,
                ip6_payload_len = payload_len, ip6_next_header = next_header, ip6_hop_limit = hop_limit,
                ip6_src = src, ip6_dst = dst\<rparr>)))))))))))))"

section \<open>Transport\<close>

definition tcp_header_length :: "tcp \<Rightarrow> nat" where
  "tcp_header_length t = unat (tcp_data_offset t) * 4"

definition tcp_has_flag :: "tcp \<Rightarrow> u16 \<Rightarrow> bool" where
  "tcp_has_flag t flag \<longleftrightarrow> tcp_flags t AND flag \<noteq> 0"

definition tcp_fields :: "bytes \<Rightarrow> byte \<Rightarrow> byte \<Rightarrow> nat \<Rightarrow> (layer_error, layer) outcome" where
  "tcp_fields data b12 data_offset header_len =
     bindO (go_index data 13) (\<lambda>b13.
     bindO (slice_if (header_len - 20 > 0) data 20 header_len) (\<lambda>options.
     bindO (go_slice data header_len (length data)) (\<lambda>payload.
     bindO (go_slice data 0 header_len) (\<lambda>header.
     bindO (u16_at 0 data) (\<lambda>src_port.
     bindO (u16_at 2 data) (\<lambda>dst_port.
     bindO (u32_at 4 data) (\<lambda>seq.
     bindO (u32_at 8 data) (\<lambda>ack.
     bindO (u16_at 14 data) (\<lambda>window.
     bindO (u16_at 16 data) (\<lambda>checksum.
     bindO (u16_at 18 data) (\<lambda>urgent.
       Ok (TCPLayer \<lparr>contents = header, payload_data = payload, tcp_src_port = src_port,
         tcp_dst_port = dst_port, tcp_seq = seq, tcp_ack = ack, tcp_data_offset = data_offset,
         tcp_flags = push_bit 8 (ucast (b12 AND 0x01)) OR ucast b13, tcp_window = window,
         tcp_checksum = checksum, tcp_urgent = urgent, tcp_options = options\<rparr>))))))))))))"

definition decode_tcp :: decoder where
  "decode_tcp data =
     (if length data < 20 then Err (TCPTooShort (length data))
      else
        bindO (go_index data 12) (\<lambda>b12.
          let data_offset = drop_bit 4 b12;
              header_len = unat data_offset * 4
          in if header_len < 20 \<or> length data < header_len then Err (TCPBadHeaderLength header_len)
          else tcp_fields data b12 data_offset header_len))"

definition decode_udp :: decoder where
  "decode_udp data =
     (if length data < 8 then Err (UDPTooShort (length data))
      else
        bindO (u16_at 4 data) (\<lambda>len.
          let payload_end = (if 8 \<le> len \<and> unat len \<le> length data then unat len else length data);
              payload_end = (if payload_end < 8 then 8 else payload_end)
          in
          bindO (go_slice data 8 payload_end) (\<lambda>payload.
          bindO (go_slice data 0 8) (\<lambda>header.
          bindO (u16_at 0 data) (\<lambda>src_port.
          bindO (u16_at 2 data) (\<lambda>dst_port.
          bindO (u16_at 6 data) (\<lambda>checksum.
            Ok (UDPLayer \<lparr>contents = header, payload_data = payload, udp_src_port = src_port,
              udp_dst_port = dst_port, udp_length = len, udp_checksum = checksum\<rparr>))))))))"

definition decode_icmp :: decoder where
  "decode_icmp data =
     (if length data < 4 then Err (ICMPTooShort (length data))
      else
        bindO (go_slice data 4 (length data)) (\<lambda>rest.
        bindO (go_slice data 0 4) (\<lambda>header.
        bindO (go_index data 0) (\<lambda>typ.
        bindO (go_index data 1) (\<lambda>code.
        bindO (u16_at 2 data) (\<lambda>checksum.
          Ok (ICMPLayer \<lparr>contents = header, payload_data = rest, icmp_type = typ, icmp_code = code,
            icmp_checksum = checksum, icmp_rest = rest\<rparr>)))))))"

section \<open>The registry and the decoding loop\<close>

type_synonym registry = "(layer_type, decoder) gomap"

definition register_layer_decoder :: "layer_type \<Rightarrow> decoder \<Rightarrow> registry \<Rightarrow> registry" where
  "register_layer_decoder t d reg = go_put t d reg"

text \<open>The registry after the \<open>init\<close> functions of the package, in the order of its files.\<close>

definition builtin_decoders :: registry where
  "builtin_decoders =
     register_layer_decoder LayerTypeUDP decode_udp (
     register_layer_decoder LayerTypeTCP decode_tcp (
     register_layer_decoder LayerTypeIPv6 decode_ipv6 (
     register_layer_decoder LayerTypeIPv4 decode_ipv4 (
     register_layer_decoder LayerTypeICMP decode_icmp (
     register_layer_decoder LayerTypeEthernet decode_ethernet [])))))"

definition decode_layer :: "registry \<Rightarrow> layer_type \<Rightarrow> bytes \<Rightarrow> (layer_error, layer) outcome" where
  "decode_layer reg t data =
     (case go_get reg t of None \<Rightarrow> Err (DecoderNotFound t) | Some d \<Rightarrow> d data)"

definition by_protocol :: "byte \<Rightarrow> bytes \<Rightarrow> (layer_type \<times> bytes) option" where
  "by_protocol p payload =
     (if p = ProtocolTCP then Some (LayerTypeTCP, payload)
      else if p = ProtocolUDP then Some (LayerTypeUDP, payload)
      else if p = ProtocolICMP then Some (LayerTypeICMP, payload)
      else None)"

fun next_layer :: "layer \<Rightarrow> (layer_type \<times> bytes) option" where
  "next_layer (EthernetLayer l) =
     (if ether_type l = EthernetTypeIPv4 then Some (LayerTypeIPv4, payload_data l)
      else if ether_type l = EthernetTypeIPv6 then Some (LayerTypeIPv6, payload_data l)
      else None)"
| "next_layer (IPv4Layer l) = by_protocol (ip4_protocol l) (payload_data l)"
| "next_layer (IPv6Layer l) = by_protocol (ip6_next_header l) (payload_data l)"
| "next_layer l = None"

text \<open>
  The loop of \<open>DecodeFrom\<close>: \<open>None\<close> if it never returns (a registered decoder may return its own
  input as payload), otherwise the layers decoded so far and the error, or a panic.
\<close>

partial_function (option) decode_loop ::
  "registry \<Rightarrow> layer_type \<Rightarrow> bytes \<Rightarrow> layer list \<Rightarrow> (layer_error, layer list \<times> layer_error option) outcome option" where
  "decode_loop reg t payload result =
     (case decode_layer reg t payload of
        Panic \<Rightarrow> Some Panic
      | Err e \<Rightarrow> Some (Ok (result, Some e))
      | Ok l \<Rightarrow>
          (case next_layer l of
             None \<Rightarrow> Some (Ok (result @ [l], None))
           | Some (t', payload') \<Rightarrow>
               (if length payload' = 0 then Some (Ok (result @ [l], None))
                else decode_loop reg t' payload' (result @ [l]))))"

definition decode_from ::
  "registry \<Rightarrow> layer_type \<Rightarrow> bytes \<Rightarrow> (layer_error, layer list \<times> layer_error option) outcome option" where
  "decode_from reg t data = decode_loop reg t data []"

definition decode_frame ::
  "registry \<Rightarrow> bytes \<Rightarrow> (layer_error, layer list \<times> layer_error option) outcome option" where
  "decode_frame reg data = decode_from reg LayerTypeEthernet data"

section \<open>Parsed frames\<close>

record parsed =
  ps_layers :: "layer list"
  ps_ether :: "ethernet option"
  ps_ipv4 :: "ipv4 option"
  ps_ipv6 :: "ipv6 option"
  ps_tcp :: "tcp option"
  ps_udp :: "udp option"
  ps_final :: "layer option"

fun parsed_add :: "layer \<Rightarrow> parsed \<Rightarrow> parsed" where
  "parsed_add (EthernetLayer v) p = p\<lparr>ps_ether := Some v, ps_final := Some (EthernetLayer v)\<rparr>"
| "parsed_add (IPv4Layer v) p = p\<lparr>ps_ipv4 := Some v, ps_final := Some (IPv4Layer v)\<rparr>"
| "parsed_add (IPv6Layer v) p = p\<lparr>ps_ipv6 := Some v, ps_final := Some (IPv6Layer v)\<rparr>"
| "parsed_add (TCPLayer v) p = p\<lparr>ps_tcp := Some v, ps_final := Some (TCPLayer v)\<rparr>"
| "parsed_add (UDPLayer v) p = p\<lparr>ps_udp := Some v, ps_final := Some (UDPLayer v)\<rparr>"
| "parsed_add l p = p\<lparr>ps_final := Some l\<rparr>"

definition parsed_of :: "layer list \<Rightarrow> parsed" where
  "parsed_of ls =
     fold parsed_add ls
       \<lparr>ps_layers = ls, ps_ether = None, ps_ipv4 = None, ps_ipv6 = None, ps_tcp = None, ps_udp = None, ps_final = None\<rparr>"

definition parse_from :: "registry \<Rightarrow> layer_type \<Rightarrow> bytes \<Rightarrow> (layer_error, parsed) outcome option" where
  "parse_from reg start data =
     (case decode_from reg start data of
        None \<Rightarrow> None
      | Some Panic \<Rightarrow> Some Panic
      | Some (Err e) \<Rightarrow> Some (Err e)
      | Some (Ok (ls, Some e)) \<Rightarrow> Some (Err e)
      | Some (Ok (ls, None)) \<Rightarrow> Some (Ok (parsed_of ls)))"

definition parse_frame :: "registry \<Rightarrow> bytes \<Rightarrow> (layer_error, parsed) outcome option" where
  "parse_frame reg data = parse_from reg LayerTypeEthernet data"

definition parsed_payload :: "parsed option \<Rightarrow> (layer_error, bytes) outcome" where
  "parsed_payload p =
     (case p of
        None \<Rightarrow> Err NoPayload
      | Some p \<Rightarrow> (case ps_final p of None \<Rightarrow> Err NoPayload | Some l \<Rightarrow> Ok (layer_payload l)))"

end
