(* ===== verification/FrameFormat.thy ===== *)
theory FrameFormat
  imports LayerFacts
begin

text \<open>
  The wire format of the protocols the decoders read, written independently of them: a header is
  the bytes of its fields in network order.  Decoding what the format prescribes gives the fields
  back, whatever padding follows.
\<close>

section \<open>Bit fields\<close>

lemma join_bits:
  fixes x y :: "'a::len word"
  assumes "n < LENGTH('a)" and "x < 2 ^ (LENGTH('a) - n)" and "y < 2 ^ n"
  shows "drop_bit n (push_bit n x OR y) = x" and "(push_bit n x OR y) AND mask n = y"
proof -
  have x: "take_bit (LENGTH('a) - n) x = x" and y: "take_bit n y = y"
    using assms by (simp_all add: take_bit_eq_mask less_mask_eq)
  have bitx: "bit x k \<Longrightarrow> k < LENGTH('a) - n" for k
    using x by (metis bit_take_bit_iff)
  have bity: "bit y k \<Longrightarrow> k < n" for k
    using y by (metis bit_take_bit_iff)
  show "drop_bit n (push_bit n x OR y) = x"
    by (rule bit_word_eqI) (auto simp: bit_simps dest: bitx bity)
  show "(push_bit n x OR y) AND mask n = y"
    by (rule bit_word_eqI) (auto simp: bit_simps dest: bity)
qed

text \<open>Two and four bytes in network order.\<close>

definition hi8 :: "u16 \<Rightarrow> byte" where "hi8 w = ucast (drop_bit 8 w)"
definition lo8 :: "u16 \<Rightarrow> byte" where "lo8 w = ucast w"
definition q8 :: "nat \<Rightarrow> u32 \<Rightarrow> byte" where "q8 n w = ucast (drop_bit (8 * n) w)"

definition be16 :: "u16 \<Rightarrow> bytes" where "be16 w = [hi8 w, lo8 w]"
definition be32 :: "u32 \<Rightarrow> bytes" where "be32 w = [q8 3 w, q8 2 w, q8 1 w, q8 0 w]"

lemma be_word_be16 [simp]: "be_word [hi8 w, lo8 w] = w"
proof -
  have "put_uint16 BigEndian w = [hi8 w, lo8 w]"
    by (simp add: put_word_def numeral_2_eq_2 hi8_def lo8_def)
  then show ?thesis
    using c16.dec_enc_exact [of BigEndian w] by (simp add: get_word_def)
qed

lemma be_word_be32 [simp]: "be_word [q8 3 w, q8 2 w, q8 1 w, q8 0 w] = w"
proof -
  have "put_uint32 BigEndian w = [q8 3 w, q8 2 w, q8 1 w, q8 0 w]"
    by (simp add: put_word_def eval_nat_numeral q8_def drop_bit_drop_bit)
  then show ?thesis
    using c32.dec_enc_exact [of BigEndian w] by (simp add: get_word_def)
qed

section \<open>Headers\<close>

definition ipv4_wire :: "ipv4 \<Rightarrow> bytes" where
  "ipv4_wire r =
     [push_bit 4 (ip4_version r) OR ip4_ihl r, ip4_tos r] @ be16 (ip4_total_length r) @ be16 (ip4_id r) @
     be16 (push_bit 13 (ucast (ip4_flags r)) OR ip4_frag_offset r) @ [ip4_ttl r, ip4_protocol r] @
     be16 (ip4_checksum r) @ ip4_src r @ ip4_dst r @ ip4_options r"

definition ipv4_wf :: "ipv4 \<Rightarrow> bool" where
  "ipv4_wf r \<longleftrightarrow> ip4_version r = 4 \<and> 5 \<le> ip4_ihl r \<and> ip4_ihl r < 16 \<and> ip4_flags r < 8 \<and>
     ip4_frag_offset r < 2 ^ 13 \<and> length (ip4_src r) = 4 \<and> length (ip4_dst r) = 4 \<and>
     length (ip4_options r) = unat (ip4_ihl r) * 4 - 20 \<and> contents r = ipv4_wire r \<and>
     unat (ip4_total_length r) = unat (ip4_ihl r) * 4 + length (payload_data r)"

definition tcp_wire :: "tcp \<Rightarrow> bytes" where
  "tcp_wire r =
     be16 (tcp_src_port r) @ be16 (tcp_dst_port r) @ be32 (tcp_seq r) @ be32 (tcp_ack r) @
     [push_bit 4 (tcp_data_offset r) OR hi8 (tcp_flags r), lo8 (tcp_flags r)] @ be16 (tcp_window r) @
     be16 (tcp_checksum r) @ be16 (tcp_urgent r) @ tcp_options r"

definition tcp_wf :: "tcp \<Rightarrow> bool" where
  "tcp_wf r \<longleftrightarrow> 5 \<le> tcp_data_offset r \<and> tcp_data_offset r < 16 \<and> tcp_flags r < 2 ^ 9 \<and>
     length (tcp_options r) = unat (tcp_data_offset r) * 4 - 20 \<and> contents r = tcp_wire r"

definition udp_wire :: "udp \<Rightarrow> bytes" where
  "udp_wire r = be16 (udp_src_port r) @ be16 (udp_dst_port r) @ be16 (udp_length r) @ be16 (udp_checksum r)"

definition udp_wf :: "udp \<Rightarrow> bool" where
  "udp_wf r \<longleftrightarrow> contents r = udp_wire r \<and> unat (udp_length r) = 8 + length (payload_data r)"

lemma unat_word_of_unat [simp]: "word_of_nat (unat w) = w"
  by simp

lemma decode_ipv4_wire:
  assumes "ipv4_wf r"
  shows "decode_ipv4 (ipv4_wire r @ payload_data r @ padding) = Ok (IPv4Layer r)"
proof -
  note wf = assms [unfolded ipv4_wf_def]
  have b0: "drop_bit 4 (push_bit 4 (ip4_version r) OR ip4_ihl r) = ip4_version r"
    "(push_bit 4 (ip4_version r) OR ip4_ihl r) AND mask 4 = ip4_ihl r"
    by (rule join_bits; use wf in simp)+
  have "unat (ip4_flags r) < 8" using wf by (simp add: word_less_nat_alt)
  then have flags: "(ucast (ip4_flags r) :: u16) < 8"
    by (simp add: word_less_nat_alt unsigned_ucast_eq take_bit_nat_eq_self)
  have b6: "drop_bit 13 (push_bit 13 (ucast (ip4_flags r) :: u16) OR ip4_frag_offset r) = ucast (ip4_flags r)"
    "(push_bit 13 (ucast (ip4_flags r) :: u16) OR ip4_frag_offset r) AND mask 13 = ip4_frag_offset r"
    by (rule join_bits; use wf flags in simp)+
  obtain s1 s2 s3 s4 d1 d2 d3 d4 where a: "ip4_src r = [s1, s2, s3, s4]" "ip4_dst r = [d1, d2, d3, d4]"
    using wf by (auto simp: length_Suc_conv eval_nat_numeral)
  define data where "data = ipv4_wire r @ payload_data r @ padding"
  define hl tl where "hl = unat (ip4_ihl r) * 4" and "tl = unat (ip4_total_length r)"
  have hl: "20 \<le> hl" using wf by (simp add: hl_def word_le_nat_alt)
  have wire: "length (ipv4_wire r) = hl" using wf hl by (simp add: ipv4_wire_def be16_def hl_def)
  have tl: "tl = hl + length (payload_data r)" using wf by (simp add: hl_def tl_def)
  have len: "length data = tl + length padding" using wire tl by (simp add: data_def)
  have slices: "go_slice data 0 hl = Ok (contents r)" "go_slice data hl tl = Ok (payload_data r)"
    using wire tl wf by (simp_all add: data_def go_slice_def)
  obtain rest where d: "data = (push_bit 4 (ip4_version r) OR ip4_ihl r) # ip4_tos r # hi8 (ip4_total_length r) #
      lo8 (ip4_total_length r) # hi8 (ip4_id r) # lo8 (ip4_id r) #
      hi8 (push_bit 13 (ucast (ip4_flags r)) OR ip4_frag_offset r) #
      lo8 (push_bit 13 (ucast (ip4_flags r)) OR ip4_frag_offset r) # ip4_ttl r # ip4_protocol r #
      hi8 (ip4_checksum r) # lo8 (ip4_checksum r) # s1 # s2 # s3 # s4 # d1 # d2 # d3 # d4 # ip4_options r @ rest"
    by (simp add: data_def ipv4_wire_def be16_def a)
  have options: "slice_if (hl - 20 > 0) data 20 hl = Ok (ip4_options r)"
    using wf len tl hl unfolding d by (auto simp: slice_if_def go_slice_def hl_def)
  have fields: "go_index data 0 = Ok (push_bit 4 (ip4_version r) OR ip4_ihl r)" "go_index data 1 = Ok (ip4_tos r)"
    "u16_at 2 data = Ok (ip4_total_length r)" "u16_at 4 data = Ok (ip4_id r)"
    "u16_at 6 data = Ok (push_bit 13 (ucast (ip4_flags r)) OR ip4_frag_offset r)"
    "go_index data 8 = Ok (ip4_ttl r)" "go_index data 9 = Ok (ip4_protocol r)" "u16_at 10 data = Ok (ip4_checksum r)"
    "go_slice data 12 16 = Ok (ip4_src r)" "go_slice data 16 20 = Ok (ip4_dst r)"
    unfolding d by (simp_all add: go_index_def u16_at_eq go_slice_def a)
  have mask: "(0x0F :: byte) = mask 4" "(0x1FFF :: u16) = mask 13" by (simp_all add: mask_eq_decr_exp)
  have cond: "\<not> length data < 20" "\<not> (hl < 20 \<or> length data < hl)" "\<not> tl > length data" "\<not> tl < hl"
    using len tl hl by simp_all
  have again: "(of_nat tl :: u16) = ip4_total_length r" "(ucast (ucast (ip4_flags r) :: u16) :: byte) = ip4_flags r"
    by (simp add: tl_def, rule bit_word_eqI) (auto simp: bit_simps)
  have "ipv4_fields data (ip4_version r) (ip4_ihl r) hl tl = Ok (IPv4Layer r)"
    unfolding ipv4_fields_def fields slices options bindO.simps mask b6 again by (cases r) simp
  then have "decode_ipv4 data = Ok (IPv4Layer r)"
    unfolding decode_ipv4_def fields bindO.simps mask b0 Let_def hl_def [symmetric] tl_def [symmetric]
    using cond wf by simp
  then show ?thesis by (simp add: data_def)
qed

lemma hi_lo: "push_bit 8 (ucast (hi8 w)) OR ucast (lo8 w) = w"
  by (rule bit_word_eqI) (auto simp: hi8_def lo8_def bit_simps)

lemma hi8_small: "f < 2 ^ 9 \<Longrightarrow> hi8 f < 2"
proof -
  assume "f < 2 ^ 9"
  then have "unat f < 512" by (simp add: word_less_nat_alt)
  moreover have "unat (hi8 f) \<le> unat (f div 256)"
    unfolding hi8_def unsigned_ucast_eq by (simp add: drop_bit_eq_div take_bit_nat_less_eq_self)
  then have "unat (hi8 f) \<le> unat f div 256" by (simp add: unat_div)
  ultimately show ?thesis by (simp add: word_less_nat_alt)
qed

lemma decode_tcp_wire:
  assumes "tcp_wf r"
  shows "decode_tcp (tcp_wire r @ payload_data r) = Ok (TCPLayer r)"
proof -
  note wf = assms [unfolded tcp_wf_def]
  define b12 where "b12 = push_bit 4 (tcp_data_offset r) OR hi8 (tcp_flags r)"
  have small: "hi8 (tcp_flags r) < 2" using wf hi8_small by blast
  then have small': "hi8 (tcp_flags r) < 16" by (simp add: word_less_nat_alt)
  have b: "drop_bit 4 b12 = tcp_data_offset r" "b12 AND mask 4 = hi8 (tcp_flags r)"
    unfolding b12_def by (rule join_bits; use wf small' in simp)+
  have "b12 AND 1 = (b12 AND mask 4) AND mask 1"
    by (rule bit_word_eqI) (auto simp: bit_simps)
  also have "\<dots> = hi8 (tcp_flags r)"
    unfolding b by (rule less_mask_eq) (use small in simp)
  finally have ns: "b12 AND 1 = hi8 (tcp_flags r)" .
  define data where "data = tcp_wire r @ payload_data r"
  define hl where "hl = unat (tcp_data_offset r) * 4"
  have hl: "20 \<le> hl" using wf by (simp add: hl_def word_le_nat_alt)
  have wire: "length (tcp_wire r) = hl" using wf hl by (simp add: tcp_wire_def be16_def be32_def hl_def)
  have len: "length data = hl + length (payload_data r)" using wire by (simp add: data_def)
  have slices: "go_slice data 0 hl = Ok (contents r)" "go_slice data hl (length data) = Ok (payload_data r)"
    using wire wf by (simp_all add: data_def go_slice_def)
  obtain rest where d: "data = hi8 (tcp_src_port r) # lo8 (tcp_src_port r) # hi8 (tcp_dst_port r) # lo8 (tcp_dst_port r) #
      q8 3 (tcp_seq r) # q8 2 (tcp_seq r) # q8 1 (tcp_seq r) # q8 0 (tcp_seq r) #
      q8 3 (tcp_ack r) # q8 2 (tcp_ack r) # q8 1 (tcp_ack r) # q8 0 (tcp_ack r) # b12 # lo8 (tcp_flags r) #
      hi8 (tcp_window r) # lo8 (tcp_window r) # hi8 (tcp_checksum r) # lo8 (tcp_checksum r) #
      hi8 (tcp_urgent r) # lo8 (tcp_urgent r) # tcp_options r @ rest"
    by (simp add: data_def tcp_wire_def be16_def be32_def b12_def)
  have options: "slice_if (hl - 20 > 0) data 20 hl = Ok (tcp_options r)"
    using wf len hl unfolding d by (auto simp: slice_if_def go_slice_def hl_def)
  have fields: "go_index data 12 = Ok b12" "go_index data 13 = Ok (lo8 (tcp_flags r))"
    "u16_at 0 data = Ok (tcp_src_port r)" "u16_at 2 data = Ok (tcp_dst_port r)" "u32_at 4 data = Ok (tcp_seq r)"
    "u32_at 8 data = Ok (tcp_ack r)" "u16_at 14 data = Ok (tcp_window r)" "u16_at 16 data = Ok (tcp_checksum r)"
    "u16_at 18 data = Ok (tcp_urgent r)"
    unfolding d by (simp_all add: go_index_def u16_at_eq u32_at_eq del: One_nat_def)
  have "tcp_fields data b12 (tcp_data_offset r) hl = Ok (TCPLayer r)"
    unfolding tcp_fields_def fields slices options bindO.simps ns hi_lo by (cases r) simp
  then have "decode_tcp data = Ok (TCPLayer r)"
    unfolding decode_tcp_def fields bindO.simps b Let_def hl_def [symmetric] using len hl by simp
  then show ?thesis by (simp add: data_def)
qed

lemma decode_udp_wire:
  assumes "udp_wf r"
  shows "decode_udp (udp_wire r @ payload_data r @ padding) = Ok (UDPLayer r)"
proof -
  note wf = assms [unfolded udp_wf_def]
  have "8 \<le> udp_length r" using wf by (simp add: word_le_nat_alt)
  then show ?thesis
    using wf by (cases r) (simp add: decode_udp_def udp_wire_def be16_def field_simps Let_def)
qed

section \<open>IPv6, ICMP and Ethernet\<close>

text \<open>The first word of an IPv6 header: version, traffic class, flow label.\<close>

definition ipv6_word :: "ipv6 \<Rightarrow> u32" where
  "ipv6_word r = push_bit 28 (ucast (ip6_version r)) OR push_bit 20 (ucast (ip6_traffic_class r)) OR ip6_flow_label r"

definition ipv6_wire :: "ipv6 \<Rightarrow> bytes" where
  "ipv6_wire r = be32 (ipv6_word r) @ be16 (ip6_payload_len r) @ [ip6_next_header r, ip6_hop_limit r] @
     ip6_src r @ ip6_dst r"

definition ipv6_wf :: "ipv6 \<Rightarrow> bool" where
  "ipv6_wf r \<longleftrightarrow> ip6_version r = 6 \<and> ip6_flow_label r < 2 ^ 20 \<and> length (ip6_src r) = 16 \<and>
     length (ip6_dst r) = 16 \<and> contents r = ipv6_wire r \<and> unat (ip6_payload_len r) = length (payload_data r)"

lemma ipv6_word_bits:
  assumes "ipv6_wf r"
  defines "b0 \<equiv> q8 3 (ipv6_word r)" and "b1 \<equiv> q8 2 (ipv6_word r)" and "b2 \<equiv> q8 1 (ipv6_word r)" and "b3 \<equiv> q8 0 (ipv6_word r)"
  shows "drop_bit 4 b0 = 6"
    and "push_bit 4 (b0 AND 0x0F) OR drop_bit 4 b1 = ip6_traffic_class r"
    and "push_bit 16 (ucast (b1 AND 0x0F)) OR push_bit 8 (ucast b2) OR ucast b3 = ip6_flow_label r"
proof -
  have "take_bit 20 (ip6_flow_label r) = ip6_flow_label r"
    using assms(1) by (simp add: ipv6_wf_def take_bit_eq_mask less_mask_eq)
  moreover have "take_bit 4 (ip6_version r) = ip6_version r"
    using assms(1) by (simp add: ipv6_wf_def take_bit_eq_mask mask_eq_decr_exp)
  ultimately have flow: "bit (ip6_flow_label r) k \<Longrightarrow> k < 20" and ver: "bit (ip6_version r) k \<Longrightarrow> k < 4" for k
    by (metis bit_take_bit_iff)+
  have tc: "bit (ip6_traffic_class r) k \<Longrightarrow> k < 8" for k
    using bit_imp_le_length [of "ip6_traffic_class r" k] by simp
  have mask: "(0x0F :: byte) = mask 4" by (simp add: mask_eq_decr_exp)
  have "drop_bit 4 b0 = ip6_version r"
    unfolding b0_def q8_def ipv6_word_def
    by (rule bit_word_eqI) (auto simp: bit_simps dest: flow ver tc)
  then show "drop_bit 4 b0 = 6" using assms(1) by (simp add: ipv6_wf_def)
  show "push_bit 4 (b0 AND 0x0F) OR drop_bit 4 b1 = ip6_traffic_class r"
    unfolding b0_def b1_def q8_def ipv6_word_def mask
    by (rule bit_word_eqI) (auto simp: bit_simps dest: flow ver tc)
  show "push_bit 16 (ucast (b1 AND 0x0F)) OR push_bit 8 (ucast b2) OR ucast b3 = ip6_flow_label r"
    unfolding b1_def b2_def b3_def q8_def ipv6_word_def mask
    by (rule bit_word_eqI) (auto simp: bit_simps dest: flow ver tc)
qed

lemma decode_ipv6_wire:
  assumes "ipv6_wf r"
  shows "decode_ipv6 (ipv6_wire r @ payload_data r @ padding) = Ok (IPv6Layer r)"
proof -
  note wf = assms [unfolded ipv6_wf_def]
  define b0 b1 b2 b3 where b: "b0 = q8 3 (ipv6_word r)" "b1 = q8 2 (ipv6_word r)" "b2 = q8 1 (ipv6_word r)" "b3 = q8 0 (ipv6_word r)"
  note bits = ipv6_word_bits [OF assms, folded b]
  define data where "data = ipv6_wire r @ payload_data r @ padding"
  define pl where "pl = unat (ip6_payload_len r)"
  have wire: "length (ipv6_wire r) = 40" using wf by (simp add: ipv6_wire_def be16_def be32_def)
  have pl: "pl = length (payload_data r)" using wf by (simp add: pl_def)
  have len: "length data = 40 + pl + length padding" using wire pl by (simp add: data_def)
  have slices: "go_slice data 0 40 = Ok (contents r)" "go_slice data 40 (40 + pl) = Ok (payload_data r)"
    using wire pl wf by (simp_all add: data_def go_slice_def)
  have d: "data = b0 # b1 # b2 # b3 # hi8 (ip6_payload_len r) # lo8 (ip6_payload_len r) # ip6_next_header r #
      ip6_hop_limit r # ip6_src r @ ip6_dst r @ payload_data r @ padding"
    by (simp add: data_def ipv6_wire_def be16_def be32_def b)
  have fields: "go_index data 0 = Ok b0" "go_index data 1 = Ok b1" "go_index data 2 = Ok b2" "go_index data 3 = Ok b3"
    "u16_at 4 data = Ok (ip6_payload_len r)" "go_index data 6 = Ok (ip6_next_header r)"
    "go_index data 7 = Ok (ip6_hop_limit r)" "go_slice data 8 24 = Ok (ip6_src r)" "go_slice data 24 40 = Ok (ip6_dst r)"
    using wf unfolding d by (simp_all add: go_index_def u16_at_eq go_slice_def)
  have "decode_ipv6 data = Ok (IPv6Layer r)"
    unfolding decode_ipv6_def fields bindO.simps bits Let_def pl_def [symmetric]
    using len wf by (cases r) (simp add: slices [simplified])
  then show ?thesis by (simp add: data_def)
qed

definition icmp_wire :: "icmp \<Rightarrow> bytes" where
  "icmp_wire r = [icmp_type r, icmp_code r] @ be16 (icmp_checksum r)"

definition icmp_wf :: "icmp \<Rightarrow> bool" where
  "icmp_wf r \<longleftrightarrow> contents r = icmp_wire r \<and> icmp_rest r = payload_data r"

lemma decode_icmp_wire:
  assumes "icmp_wf r"
  shows "decode_icmp (icmp_wire r @ payload_data r) = Ok (ICMPLayer r)"
  using assms by (cases r) (simp add: icmp_wf_def decode_icmp_def icmp_wire_def be16_def field_simps)

text \<open>The EtherType, after any number of VLAN tags (their EtherType and control information).\<close>

fun tag_bytes :: "(u16 \<times> u16) list \<Rightarrow> u16 \<Rightarrow> bytes" where
  "tag_bytes [] t = be16 t"
| "tag_bytes ((tpid, tci) # tags) t = be16 tpid @ be16 tci @ tag_bytes tags t"

fun first_type :: "(u16 \<times> u16) list \<Rightarrow> u16 \<Rightarrow> u16" where
  "first_type [] t = t"
| "first_type ((tpid, tci) # tags) t = tpid"

definition vlan_type :: "u16 \<Rightarrow> bool" where
  "vlan_type t \<longleftrightarrow> t = EthernetTypeVLAN \<or> t = EthernetTypeQinQ"

definition ethernet_wf :: "(u16 \<times> u16) list \<Rightarrow> ethernet \<Rightarrow> bool" where
  "ethernet_wf tags r \<longleftrightarrow> length (dst_mac r) = 6 \<and> length (src_mac r) = 6 \<and>
     (\<forall>(tpid, tci) \<in> set tags. vlan_type tpid) \<and> \<not> vlan_type (ether_type r) \<and>
     vlan_ids r = map (\<lambda>(tpid, tci). tci AND 0x0FFF) tags \<and>
     contents r = dst_mac r @ src_mac r @ tag_bytes tags (ether_type r)"

lemma length_tag_bytes: "length (tag_bytes tags t) = 2 + 4 * length tags"
  by (induction tags t rule: tag_bytes.induct) (simp_all add: be16_def)

lemma tag_bytes_first: "\<exists>bs. tag_bytes tags t = be16 (first_type tags t) @ bs"
  by (cases "(tags, t)" rule: tag_bytes.cases) auto

lemma vlan_loop_tags:
  assumes "drop off data = drop 2 (tag_bytes tags t @ rest)" and "off + 4 * length tags \<le> length data"
    and "\<forall>(tpid, tci) \<in> set tags. vlan_type tpid" and "\<not> vlan_type t"
  shows "vlan_loop data off (first_type tags t) ids =
    Ok (off + 4 * length tags, t, ids @ map (\<lambda>(tpid, tci). tci AND 0x0FFF) tags)"
  using assms
proof (induction tags arbitrary: off ids)
  case Nil
  then show ?case by (subst vlan_loop.simps) (simp add: vlan_type_def)
next
  case (Cons tag tags)
  obtain tpid tci where tag: "tag = (tpid, tci)" by (cases tag)
  obtain bs where bs: "tag_bytes tags t = be16 (first_type tags t) @ bs" using tag_bytes_first by blast
  have d: "drop off data = hi8 tci # lo8 tci # hi8 (first_type tags t) # lo8 (first_type tags t) # bs @ rest"
    using Cons.prems(1) by (simp add: tag be16_def bs)
  have d2: "drop (off + 2) data = hi8 (first_type tags t) # lo8 (first_type tags t) # bs @ rest"
    using arg_cong [OF d, of "drop 2"] by (simp add: add.commute)
  have d4: "drop (off + 4) data = drop 2 (tag_bytes tags t @ rest)"
    using arg_cong [OF d, of "drop 4"] by (simp add: add.commute bs be16_def)
  have len: "off + 4 \<le> length data" using Cons.prems(2) by simp
  have u: "u16_at off data = Ok tci" "u16_at (off + 2) data = Ok (first_type tags t)"
    using len by (simp_all add: u16_at_eq d d2 del: add_2_eq_Suc')
  have "vlan_loop data off tpid ids = vlan_loop data (off + 4) (first_type tags t) (ids @ [tci AND 0x0FFF])"
    using len Cons.prems(3) by (subst vlan_loop.simps) (simp add: u tag vlan_type_def del: add_2_eq_Suc')
  also have "\<dots> = Ok (off + 4 + 4 * length tags, t, (ids @ [tci AND 0x0FFF]) @ map (\<lambda>(tpid, tci). tci AND 0x0FFF) tags)"
    by (rule Cons.IH [OF d4]) (use Cons.prems in auto)
  finally show ?case by (simp add: tag)
qed

lemma decode_ethernet_wire:
  assumes "ethernet_wf tags r"
  shows "decode_ethernet (contents r @ payload_data r) = Ok (EthernetLayer r)"
proof -
  note wf = assms [unfolded ethernet_wf_def]
  define data where "data = contents r @ payload_data r"
  have len: "length (contents r) = 14 + 4 * length tags"
    using wf by (simp add: length_tag_bytes)
  then have "\<not> length data < 14" by (simp add: data_def)
  note eq = decode_ethernet_eq [OF this]
  obtain bs where bs: "tag_bytes tags (ether_type r) = be16 (first_type tags (ether_type r)) @ bs"
    using tag_bytes_first by blast
  have macs: "take 6 data = dst_mac r" "take 6 (drop 6 data) = src_mac r"
    "be_word (take 2 (drop 12 data)) = first_type tags (ether_type r)"
    "drop 14 data = drop 2 (tag_bytes tags (ether_type r) @ payload_data r)"
    using wf by (simp_all add: data_def bs be16_def)
  have "vlan_loop data 14 (first_type tags (ether_type r)) [] = Ok (14 + 4 * length tags, ether_type r, vlan_ids r)"
    using vlan_loop_tags [OF macs(4), of "[]"] len wf by (simp add: data_def)
  then have "decode_ethernet data = Ok (EthernetLayer r)"
    unfolding eq macs using len by (cases r) (simp add: data_def)
  then show ?thesis by (simp add: data_def)
qed

section \<open>Whole frames\<close>

fun layer_wf :: "layer \<Rightarrow> bool" where
  "layer_wf (IPv4Layer r) = ipv4_wf r"
| "layer_wf (IPv6Layer r) = ipv6_wf r"
| "layer_wf (TCPLayer r) = tcp_wf r"
| "layer_wf (UDPLayer r) = udp_wf r"
| "layer_wf (ICMPLayer r) = icmp_wf r"
| "layer_wf _ = False"

lemma decode_contents:
  "ipv4_wf r4 \<Longrightarrow> decode_ipv4 (contents r4 @ payload_data r4 @ padding) = Ok (IPv4Layer r4)"
  "ipv6_wf r6 \<Longrightarrow> decode_ipv6 (contents r6 @ payload_data r6 @ padding) = Ok (IPv6Layer r6)"
  "tcp_wf t \<Longrightarrow> decode_tcp (contents t @ payload_data t) = Ok (TCPLayer t)"
  "udp_wf u \<Longrightarrow> decode_udp (contents u @ payload_data u) = Ok (UDPLayer u)"
  "icmp_wf i \<Longrightarrow> decode_icmp (contents i @ payload_data i) = Ok (ICMPLayer i)"
  using decode_ipv4_wire [of r4 padding] decode_ipv6_wire [of r6 padding] decode_tcp_wire [of t]
    decode_udp_wire [of u "[]"] decode_icmp_wire [of i]
  by (simp_all add: ipv4_wf_def ipv6_wf_def tcp_wf_def udp_wf_def icmp_wf_def)

lemma decode_network:
  assumes "layer_wf n" and "is_ip n"
  shows "decode_layer builtin_decoders (layer_type_of n) (layer_contents n @ layer_payload n @ padding) = Ok n"
  using assms
  by (cases n) (simp_all add: decode_layer_def builtin_decoders_def register_layer_decoder_def decode_contents)

lemma decode_transport:
  assumes "layer_wf t" and "is_transport t"
  shows "decode_layer builtin_decoders (layer_type_of t) (layer_contents t @ layer_payload t) = Ok t"
  using assms
  by (cases t) (simp_all add: decode_layer_def builtin_decoders_def register_layer_decoder_def decode_contents)

text \<open>
  C15: a well-formed frame decodes to the fields it carries.  For an Ethernet header with any number
  of VLAN tags, an IPv4 or IPv6 header (with options) announcing the exact length of its payload, and
  a TCP, UDP or ICMP header, all laid out as the protocols prescribe, \<open>Decode\<close> returns exactly these
  three layers with every field, and no padding of the frame shows up in a payload.
\<close>

theorem frame_decoded:
  assumes "ethernet_wf tags e" and "layer_wf n" and "is_ip n" and "layer_wf t" and "is_transport t"
    and "next_layer (EthernetLayer e) = Some (layer_type_of n, layer_contents n @ layer_payload n @ padding)"
    and "next_layer n = Some (layer_type_of t, layer_contents t @ layer_payload t)"
  shows "decode_frame builtin_decoders (contents e @ payload_data e) = Some (Ok ([EthernetLayer e, n, t], None))"
proof -
  have ne: "layer_contents n \<noteq> []" "layer_contents t \<noteq> []"
    using decode_layer_builtin decode_network [OF assms(2,3), of "[]"] decode_transport [OF assms(4,5)]
    unfolding splits_def by blast+
  have e: "decode_layer builtin_decoders LayerTypeEthernet (contents e @ payload_data e) = Ok (EthernetLayer e)"
    using decode_ethernet_wire [OF assms(1)] by (simp add: decode_layer_def builtin_decoders_def register_layer_decoder_def)
  have t: "next_layer t = None" using assms(5) by (cases t) simp_all
  have "decode_loop builtin_decoders (layer_type_of t) (layer_contents t @ layer_payload t) ls = Some (Ok (ls @ [t], None))" for ls
    by (simp add: decode_loop.simps [of _ "layer_type_of t"] decode_transport [OF assms(4,5)] t)
  then have "decode_loop builtin_decoders (layer_type_of n) (layer_contents n @ layer_payload n @ padding) ls =
      Some (Ok (ls @ [n, t], None))" for ls
    using ne by (simp add: decode_loop.simps [of _ "layer_type_of n"] decode_network [OF assms(2,3)] assms(7))
  then show ?thesis
    using ne by (simp add: decode_frame_def decode_from_def decode_loop.simps [of _ LayerTypeEthernet] e assms(6) del: next_layer.simps)
qed

definition sample_tcp :: tcp where
  "sample_tcp =
     \<lparr>contents = [0x04, 0xD2, 0, 80, 0, 0, 0, 1, 0, 0, 0, 0, 0x50, 0x18, 0x04, 0, 0, 0, 0, 0],
      payload_data = [0x61, 0x62, 0x63], tcp_src_port = 1234, tcp_dst_port = 80, tcp_seq = 1, tcp_ack = 0,
      tcp_data_offset = 5, tcp_flags = 0x18, tcp_window = 1024, tcp_checksum = 0, tcp_urgent = 0, tcp_options = []\<rparr>"

definition sample_ipv4 :: ipv4 where
  "sample_ipv4 =
     \<lparr>contents = [0x45, 0, 0, 43, 0x12, 0x34, 0x40, 0, 64, 6, 0, 0, 192, 168, 1, 1, 192, 168, 1, 2],
      payload_data = contents sample_tcp @ payload_data sample_tcp, ip4_version = 4, ip4_ihl = 5, ip4_tos = 0,
      ip4_total_length = 43, ip4_id = 0x1234, ip4_flags = 2, ip4_frag_offset = 0, ip4_ttl = 64, ip4_protocol = 6,
      ip4_checksum = 0, ip4_src = [192, 168, 1, 1], ip4_dst = [192, 168, 1, 2], ip4_options = []\<rparr>"

definition sample_ethernet :: ethernet where
  "sample_ethernet =
     \<lparr>contents = [0x66, 0x77, 0x88, 0x99, 0xAA, 0xBB, 0, 0x11, 0x22, 0x33, 0x44, 0x55, 0x81, 0, 0x20, 5, 8, 0],
      payload_data = contents sample_ipv4 @ payload_data sample_ipv4 @ [0, 0, 0],
      src_mac = [0, 0x11, 0x22, 0x33, 0x44, 0x55], dst_mac = [0x66, 0x77, 0x88, 0x99, 0xAA, 0xBB],
      ether_type = 0x0800, vlan_ids = [5]\<rparr>"

theorem frame_decoded_witness:
  "decode_frame builtin_decoders (contents sample_ethernet @ payload_data sample_ethernet) =
     Some (Ok ([EthernetLayer sample_ethernet, IPv4Layer sample_ipv4, TCPLayer sample_tcp], None))"
proof (rule frame_decoded)
  show "ethernet_wf [(0x8100, 0x2005)] sample_ethernet" by code_simp
  show "layer_wf (IPv4Layer sample_ipv4)" by code_simp
  show "layer_wf (TCPLayer sample_tcp)" by code_simp
  show "next_layer (EthernetLayer sample_ethernet) = Some (layer_type_of (IPv4Layer sample_ipv4),
      layer_contents (IPv4Layer sample_ipv4) @ layer_payload (IPv4Layer sample_ipv4) @ [0, 0, 0])"
    by (simp add: sample_ethernet_def)
  show "next_layer (IPv4Layer sample_ipv4) = Some (layer_type_of (TCPLayer sample_tcp),
      layer_contents (TCPLayer sample_tcp) @ layer_payload (TCPLayer sample_tcp))"
    by (simp add: sample_ipv4_def by_protocol_def)
qed simp_all

section \<open>Fragments\<close>

text \<open>
  Fragments are decoded as if they were whole.  The fragment offset plays no part: the payload of
  any IPv4 fragment, also one from the middle of a datagram, is handed to the decoder of its protocol,
  which reads a TCP header from bytes that are data.
\<close>

theorem fragment_read_as_segment:
  assumes "ipv4_wf ip" and "ip4_protocol ip = ProtocolTCP" and "0 < ip4_frag_offset ip"
    and "tcp_wf t" and "payload_data ip = contents t @ payload_data t"
  shows "decode_from builtin_decoders LayerTypeIPv4 (contents ip @ payload_data ip) =
    Some (Ok ([IPv4Layer ip, TCPLayer t], None))"
proof -
  have ne: "contents t \<noteq> []" using assms(4) by (simp add: tcp_wf_def tcp_wire_def be16_def)
  have "decode_layer builtin_decoders LayerTypeIPv4 (contents ip @ payload_data ip) = Ok (IPv4Layer ip)"
    using decode_network [of "IPv4Layer ip" "[]"] assms(1) by simp
  moreover have "decode_layer builtin_decoders LayerTypeTCP (contents t @ payload_data t) = Ok (TCPLayer t)"
    using decode_transport [of "TCPLayer t"] assms(4) by simp
  ultimately show ?thesis
    using ne assms(2,5)
    by (simp add: decode_from_def decode_loop.simps [of _ LayerTypeIPv4] decode_loop.simps [of _ LayerTypeTCP] by_protocol_def)
qed

definition sample_fragment :: ipv4 where
  "sample_fragment =
     \<lparr>contents = [0x45, 0, 0, 43, 0x12, 0x34, 0, 100, 64, 6, 0, 0, 192, 168, 1, 1, 192, 168, 1, 2],
      payload_data = contents sample_tcp @ payload_data sample_tcp, ip4_version = 4, ip4_ihl = 5, ip4_tos = 0,
      ip4_total_length = 43, ip4_id = 0x1234, ip4_flags = 0, ip4_frag_offset = 100, ip4_ttl = 64, ip4_protocol = 6,
      ip4_checksum = 0, ip4_src = [192, 168, 1, 1], ip4_dst = [192, 168, 1, 2], ip4_options = []\<rparr>"

theorem fragment_read_as_segment_witness:
  "decode_from builtin_decoders LayerTypeIPv4 (contents sample_fragment @ payload_data sample_fragment) =
     Some (Ok ([IPv4Layer sample_fragment, TCPLayer sample_tcp], None))"
proof (rule fragment_read_as_segment)
  show "ipv4_wf sample_fragment" "tcp_wf sample_tcp" by code_simp+
qed (simp_all add: sample_fragment_def)

end
