(* ===== verification/LoadBalancer.thy ===== *)
theory LoadBalancer
  imports Prelude
begin

text \<open>
  The package \<open>glb\<close>: the four strategies and the load balancer that filters the instances of a
  service and hands them to a strategy.  A strategy answers with an error or with an instance,
  which may be nil (\<open>None\<close>).  The random source and the service discovery are parameters.
  Weights and counters are Go's \<open>int\<close>, taken to stay within 64 bits.
\<close>

section \<open>Instances and strategies\<close>

record lb_instance =
  in_address :: string
  in_healthy :: bool
  in_weight :: int
  in_metadata :: "(string, string) gomap"

datatype lb_error = NoInstances | NoAvailable | DiscoveryError nat

type_synonym 's strategy = "lb_instance list \<Rightarrow> 's \<Rightarrow> (lb_error, lb_instance option) outcome \<times> 's"

text \<open>A Go map read at a key that may be absent.\<close>

definition go_get_or :: "'v \<Rightarrow> ('k, 'v) gomap \<Rightarrow> 'k \<Rightarrow> 'v" where
  "go_get_or d m k = (case go_get m k of None \<Rightarrow> d | Some v \<Rightarrow> v)"

lemma go_get_or_put [simp]: "go_get_or d (go_put k v m) j = (if k = j then v else go_get_or d m j)"
  by (simp add: go_get_or_def)

lemma go_get_or_Nil [simp]: "go_get_or d [] k = d"
  by (simp add: go_get_or_def)

text \<open>\<open>intn n r\<close> is \<open>Intn(n)\<close> of the random source in state \<open>r\<close>.\<close>

definition random_next :: "(nat \<Rightarrow> 'r \<Rightarrow> nat \<times> 'r) \<Rightarrow> 'r strategy" where
  "random_next intn xs r =
     (if length xs = 0 then (Err NoInstances, r)
      else (mapO Some (go_index xs (fst (intn (length xs) r))), snd (intn (length xs) r)))"

type_synonym round_robin = "(string, int) gomap"

definition new_round_robin :: round_robin where
  "new_round_robin = []"

definition rr_next :: "round_robin strategy" where
  "rr_next xs s =
     (if length xs = 0 then (Err NoInstances, s)
      else
        (let key = in_address (hd xs);
             index = go_get_or 0 s key
         in (mapO Some (go_index xs (nat (index mod int (length xs)))),
             go_put key ((index + 1) mod int (length xs)) s)))"

type_synonym weighted = "(string, int) gomap"

definition new_weighted :: weighted where
  "new_weighted = []"

definition total_weight :: "lb_instance list \<Rightarrow> int" where
  "total_weight xs = foldl (\<lambda>total i. total + in_weight i) 0 xs"

fun wrr_select :: "int \<Rightarrow> lb_instance list \<Rightarrow> lb_instance option" where
  "wrr_select current [] = None"
| "wrr_select current (i # xs) =
     (if current < in_weight i then Some i else wrr_select (current - in_weight i) xs)"

definition wrr_next :: "weighted strategy" where
  "wrr_next xs s =
     (if length xs = 0 then (Err NoInstances, s)
      else
        (let key = in_address (hd xs);
             total = total_weight xs;
             s = (if go_get_or 0 s key \<ge> total then go_put key 0 s else s);
             current = go_get_or 0 s key
         in (Ok (wrr_select current xs), go_put key (go_get_or 0 s key + 1) s)))"

type_synonym connections = "(string, int) gomap"

definition new_connections :: connections where
  "new_connections = []"

definition lc_step :: "connections \<Rightarrow> lb_instance option \<times> int \<Rightarrow> lb_instance \<Rightarrow> lb_instance option \<times> int" where
  "lc_step s best i =
     (let conns = go_get_or 0 s (in_address i) in
      if snd best = - 1 \<or> conns < snd best then (Some i, conns) else best)"

definition lc_next :: "connections strategy" where
  "lc_next xs s =
     (if length xs = 0 then (Err NoInstances, s)
      else (Ok (fst (foldl (lc_step s) (None, - 1) xs)), s))"

definition increase_connections :: "string \<Rightarrow> connections \<Rightarrow> connections" where
  "increase_connections address s = go_put address (go_get_or 0 s address + 1) s"

definition decrease_connections :: "string \<Rightarrow> connections \<Rightarrow> connections" where
  "decrease_connections address s =
     (if go_get_or 0 s address > 0 then go_put address (go_get_or 0 s address - 1) s else s)"

section \<open>The load balancer\<close>

type_synonym discovery = "string \<Rightarrow> lb_error + lb_instance list"

record 's balancer =
  lb_strategy :: 's
  lb_instances :: "(string, lb_instance list) gomap"

definition new_balancer :: "'s \<Rightarrow> 's balancer" where
  "new_balancer s = \<lparr>lb_strategy = s, lb_instances = []\<rparr>"

definition refresh_instances :: "discovery \<Rightarrow> string \<Rightarrow> 's balancer \<Rightarrow> lb_error option \<times> 's balancer" where
  "refresh_instances discovery service lb =
     (case discovery service of
        Inl e \<Rightarrow> (Some e, lb)
      | Inr xs \<Rightarrow> (None, lb\<lparr>lb_instances := go_put service xs (lb_instances lb)\<rparr>))"

definition healthy_instances ::
  "discovery \<Rightarrow> string \<Rightarrow> 's balancer \<Rightarrow> (lb_error, lb_instance list) outcome \<times> 's balancer" where
  "healthy_instances discovery service lb =
     (case go_get (lb_instances lb) service of
        Some xs \<Rightarrow> (Ok (filter in_healthy xs), lb)
      | None \<Rightarrow>
          (case refresh_instances discovery service lb of
             (Some e, lb') \<Rightarrow> (Err e, lb')
           | (None, lb') \<Rightarrow> (Ok (filter in_healthy (go_get_or [] (lb_instances lb') service)), lb')))"

definition get_instance ::
  "discovery \<Rightarrow> 's strategy \<Rightarrow> string \<Rightarrow> 's balancer \<Rightarrow> (lb_error, lb_instance option) outcome \<times> 's balancer" where
  "get_instance discovery next_instance service lb =
     (case healthy_instances discovery service lb of
        (Ok xs, lb') \<Rightarrow>
          (if length xs = 0 then (Err NoAvailable, lb')
           else (case next_instance xs (lb_strategy lb') of (r, s) \<Rightarrow> (r, lb'\<lparr>lb_strategy := s\<rparr>)))
      | (Err e, lb') \<Rightarrow> (Err e, lb')
      | (Panic, lb') \<Rightarrow> (Panic, lb'))"

text \<open>The watching goroutine stores each list the discovery sends.\<close>

definition watch_update :: "string \<Rightarrow> lb_instance list \<Rightarrow> 's balancer \<Rightarrow> 's balancer" where
  "watch_update service xs lb = lb\<lparr>lb_instances := go_put service xs (lb_instances lb)\<rparr>"

section \<open>The contract of a strategy\<close>

text \<open>
  What the balancer relies on: a strategy given at least one instance answers without an error or a
  panic, with one of the instances given, or with nil if it may \<open>abstain\<close>.
\<close>

locale strategy_contract =
  fixes inv :: "'s \<Rightarrow> bool"
    and next_instance :: "'s strategy"
    and abstain :: "lb_instance list \<Rightarrow> bool"
  assumes next_ok: "inv s \<Longrightarrow> xs \<noteq> [] \<Longrightarrow> \<exists>r. fst (next_instance xs s) = Ok r \<and>
      (case r of None \<Rightarrow> abstain xs | Some i \<Rightarrow> i \<in> set xs)"
    and next_inv: "inv s \<Longrightarrow> inv (snd (next_instance xs s))"
begin

lemma get_instance_ok:
  assumes "inv (lb_strategy lb)" and "go_get (lb_instances lb) service = Some xs" and "\<exists>i \<in> set xs. in_healthy i"
    and "\<not> abstain (filter in_healthy xs)"
  shows "\<exists>i \<in> set xs. in_healthy i \<and> fst (get_instance discovery next_instance service lb) = Ok (Some i)"
proof -
  have ne: "filter in_healthy xs \<noteq> []" using assms(3) by (simp add: filter_empty_conv)
  obtain r where r: "fst (next_instance (filter in_healthy xs) (lb_strategy lb)) = Ok r"
    "case r of None \<Rightarrow> abstain (filter in_healthy xs) | Some i \<Rightarrow> i \<in> set (filter in_healthy xs)"
    using next_ok [OF assms(1) ne] by blast
  with assms(4) obtain i where i: "r = Some i" "i \<in> set xs" "in_healthy i" by (cases r) auto
  with r ne assms(2) show ?thesis
    by (intro bexI [of _ i]) (simp_all add: get_instance_def healthy_instances_def split_beta)
qed

lemma get_instance_inv:
  "inv (lb_strategy lb) \<Longrightarrow> inv (lb_strategy (snd (get_instance discovery next_instance service lb)))"
  by (auto simp: get_instance_def healthy_instances_def refresh_instances_def Let_def dest: next_inv
      split: option.splits sum.splits outcome.splits prod.splits) (metis next_inv snd_conv)+

end

end
