(* ===== verification/BalancerFacts.thy ===== *)
theory BalancerFacts
  imports LoadBalancer
begin

text \<open>
  What the strategies promise over a history of calls, also with calls for other services between
  them, and what the load balancer makes of any of them.
\<close>

section \<open>Histories\<close>

fun run_calls :: "'s strategy \<Rightarrow> lb_instance list list \<Rightarrow> 's \<Rightarrow> 's" where
  "run_calls next_instance [] s = s"
| "run_calls next_instance (xs # calls) s = run_calls next_instance calls (snd (next_instance xs s))"

lemma run_calls_snoc: "run_calls f (calls @ [xs]) s = snd (f xs (run_calls f calls s))"
  by (induction calls arbitrary: s) auto

text \<open>The calls between do not concern the list if their first instance is another one.\<close>

definition apart :: "lb_instance list \<Rightarrow> lb_instance list \<Rightarrow> bool" where
  "apart xs ys \<longleftrightarrow> ys = [] \<or> in_address (hd ys) \<noteq> in_address (hd xs)"

definition times_called :: "lb_instance list \<Rightarrow> lb_instance list list \<Rightarrow> nat" where
  "times_called xs calls = length (filter (\<lambda>ys. ys = xs) calls)"

lemma times_called_snoc [simp]:
  "times_called xs (calls @ [ys]) = (if ys = xs then Suc (times_called xs calls) else times_called xs calls)"
  by (simp add: times_called_def)

lemma times_called_Nil [simp]: "times_called xs [] = 0"
  by (simp add: times_called_def)

section \<open>Round robin\<close>

lemma rr_next_get:
  "go_get_or 0 (snd (rr_next xs s)) k =
     (if xs \<noteq> [] \<and> in_address (hd xs) = k then (go_get_or 0 s k + 1) mod int (length xs) else go_get_or 0 s k)"
  by (simp add: rr_next_def Let_def)

lemma rr_index:
  assumes "xs \<noteq> []" and "\<forall>ys \<in> set calls. ys = xs \<or> apart xs ys"
  shows "go_get_or 0 (run_calls rr_next calls new_round_robin) (in_address (hd xs)) =
    int (times_called xs calls mod length xs)"
  using assms
proof (induction calls rule: rev_induct)
  case Nil
  show ?case by (simp add: new_round_robin_def)
next
  case (snoc ys calls)
  let ?s = "run_calls rr_next calls new_round_robin" and ?n = "times_called xs calls"
  have IH: "go_get_or 0 ?s (in_address (hd xs)) = int (?n mod length xs)" using snoc by simp
  show ?case
  proof (cases "ys = xs")
    case True
    have "(int (?n mod length xs) + 1) mod int (length xs) = int (Suc ?n mod length xs)"
      using mod_add_left_eq [of "int ?n" "int (length xs)" 1] by (simp add: zmod_int add.commute)
    then show ?thesis
      using True snoc.prems(1) IH by (simp add: run_calls_snoc rr_next_get)
  next
    case False
    with snoc.prems(2) have "apart xs ys" by simp
    then show ?thesis
      using False IH by (auto simp: run_calls_snoc rr_next_get apart_def)
  qed
qed

text \<open>
  Round robin takes the instances in turn.  For one and the same list of instances, the call
  after \<open>n\<close> others returns the instance at position \<open>n\<close> modulo the length, whatever calls for lists
  with another first instance come between.
\<close>

theorem round_robin_in_turn:
  assumes "xs \<noteq> []" and "\<forall>ys \<in> set calls. ys = xs \<or> apart xs ys"
  shows "fst (rr_next xs (run_calls rr_next calls new_round_robin)) =
    Ok (Some (xs ! (times_called xs calls mod length xs)))"
  using assms by (simp add: rr_next_def Let_def rr_index go_index_def)

definition sample_instance :: "string \<Rightarrow> int \<Rightarrow> lb_instance" where
  "sample_instance a w = \<lparr>in_address = a, in_healthy = True, in_weight = w, in_metadata = []\<rparr>"

theorem round_robin_in_turn_witness:
  "fst (rr_next [sample_instance ''a'' 1, sample_instance ''b'' 1]
     (run_calls rr_next [[sample_instance ''a'' 1, sample_instance ''b'' 1], [sample_instance ''c'' 1]] new_round_robin)) =
   Ok (Some (sample_instance ''b'' 1))"
  using round_robin_in_turn [of "[sample_instance ''a'' 1, sample_instance ''b'' 1]"
      "[[sample_instance ''a'' 1, sample_instance ''b'' 1], [sample_instance ''c'' 1]]"]
  by (simp add: apart_def times_called_def sample_instance_def)

section \<open>Weighted round robin\<close>

text \<open>An instance of weight \<open>w\<close> owns \<open>w\<close> consecutive places of a round.\<close>

definition places :: "lb_instance list \<Rightarrow> lb_instance list" where
  "places xs = concat (map (\<lambda>i. replicate (nat (in_weight i)) i) xs)"

lemma total_weight_sum: "total_weight xs = (\<Sum>i \<leftarrow> xs. in_weight i)"
proof -
  have "foldl (\<lambda>total i. total + in_weight i) a xs = a + (\<Sum>i \<leftarrow> xs. in_weight i)" for a
    by (induction xs arbitrary: a) auto
  then show ?thesis by (simp add: total_weight_def)
qed

lemma length_places: "\<forall>i \<in> set xs. 0 \<le> in_weight i \<Longrightarrow> int (length (places xs)) = total_weight xs"
  by (induction xs) (simp_all add: places_def total_weight_sum)

lemma wrr_select_place:
  assumes "\<forall>i \<in> set xs. 0 \<le> in_weight i" and "n < length (places xs)"
  shows "wrr_select (int n) xs = Some (places xs ! n)"
  using assms
proof (induction xs arbitrary: n)
  case (Cons i xs)
  show ?case
  proof (cases "int n < in_weight i")
    case True
    then show ?thesis by (simp add: places_def nth_append)
  next
    case False
    define m where "m = n - nat (in_weight i)"
    have n: "n = nat (in_weight i) + m" using False by (simp add: m_def)
    have "m < length (places xs)" using Cons.prems(2) by (simp add: places_def n)
    with Cons have "wrr_select (int m) xs = Some (places xs ! m)" by simp
    moreover have "int n - in_weight i = int m" using Cons.prems(1) by (simp add: n)
    ultimately show ?thesis
      using False by (simp add: places_def nth_append n)
  qed
qed (simp add: places_def)

lemma wrr_counter:
  assumes "xs \<noteq> []" and "0 < total_weight xs" and "\<forall>ys \<in> set calls. ys = xs \<or> apart xs ys"
  shows "\<exists>c. go_get_or 0 (run_calls wrr_next calls new_weighted) (in_address (hd xs)) = c \<and>
    (if c \<ge> total_weight xs then 0 else c) = int (times_called xs calls) mod total_weight xs \<and> 0 \<le> c \<and> c \<le> total_weight xs"
  using assms
proof (induction calls rule: rev_induct)
  case Nil
  then show ?case by (simp add: new_weighted_def)
next
  case (snoc ys calls)
  let ?s = "run_calls wrr_next calls new_weighted" and ?n = "int (times_called xs calls)" and ?t = "total_weight xs"
  obtain c where c: "go_get_or 0 ?s (in_address (hd xs)) = c" "(if c \<ge> ?t then 0 else c) = ?n mod ?t" "0 \<le> c" "c \<le> ?t"
    using snoc by auto
  show ?case
  proof (cases "ys = xs")
    case True
    let ?d = "?n mod ?t"
    have d: "0 \<le> ?d" "?d < ?t" using snoc.prems(2) by simp_all
    have "(if ?d + 1 \<ge> ?t then 0 else ?d + 1) = (?n + 1) mod ?t"
    proof (cases "?d + 1 \<ge> ?t")
      case True
      with d have "?d + 1 = ?t" by linarith
      then show ?thesis using mod_add_left_eq [of ?n ?t 1] by simp
    next
      case False
      with d have "(?d + 1) mod ?t = ?d + 1" by simp
      with False show ?thesis using mod_add_left_eq [of ?n ?t 1] by simp
    qed
    moreover have "go_get_or 0 (snd (wrr_next xs ?s)) (in_address (hd xs)) = ?d + 1"
      using c snoc.prems(1) by (auto simp: wrr_next_def Let_def)
    ultimately have "go_get_or 0 (snd (wrr_next xs ?s)) (in_address (hd xs)) = ?d + 1"
      "(if ?d + 1 \<ge> ?t then 0 else ?d + 1) = int (Suc (times_called xs calls)) mod ?t" by (simp_all add: add.commute)
    then show ?thesis
      using True d by (auto simp: run_calls_snoc simp del: of_nat_Suc)
  next
    case False
    with snoc.prems(3) have "apart xs ys" by simp
    then have "go_get_or 0 (snd (wrr_next ys ?s)) (in_address (hd xs)) = c"
      using c(1) by (auto simp: wrr_next_def Let_def apart_def)
    with False c show ?thesis
      by (simp add: run_calls_snoc)
  qed
qed

text \<open>
  Weighted round robin shares the calls by weight.  With non-negative weights of positive sum
  \<open>t\<close>, the call after \<open>n\<close> others for the same list returns the instance that owns place \<open>n\<close> modulo
  \<open>t\<close> of a round, in which every instance owns as many consecutive places as its weight; so any \<open>t\<close>
  calls in a row give each instance exactly its weight.
\<close>

theorem weighted_shares:
  assumes "\<forall>i \<in> set xs. 0 \<le> in_weight i" and "0 < total_weight xs" and "\<forall>ys \<in> set calls. ys = xs \<or> apart xs ys"
  shows "fst (wrr_next xs (run_calls wrr_next calls new_weighted)) =
    Ok (Some (places xs ! (times_called xs calls mod nat (total_weight xs)))) \<and> length (places xs) = nat (total_weight xs)"
proof -
  have ne: "xs \<noteq> []" using assms(2) by (auto simp: total_weight_def)
  let ?n = "times_called xs calls" and ?t = "total_weight xs"
  have len: "length (places xs) = nat ?t" using length_places [OF assms(1)] by simp
  have m: "int ?n mod ?t = int (?n mod nat ?t)" using assms(2) by (simp add: zmod_int)
  have "wrr_select (int ?n mod ?t) xs = Some (places xs ! (?n mod nat ?t))"
    unfolding m by (rule wrr_select_place [OF assms(1)]) (use assms(2) len in simp)
  moreover obtain c where "go_get_or 0 (run_calls wrr_next calls new_weighted) (in_address (hd xs)) = c"
    "(if c \<ge> ?t then 0 else c) = int ?n mod ?t"
    using wrr_counter [OF ne assms(2,3)] by blast
  ultimately show ?thesis
    using ne len by (auto simp: wrr_next_def Let_def split: if_splits)
qed

theorem weighted_shares_witness:
  "fst (wrr_next [sample_instance ''a'' 2, sample_instance ''b'' 1]
     (run_calls wrr_next [[sample_instance ''a'' 2, sample_instance ''b'' 1], [sample_instance ''a'' 2, sample_instance ''b'' 1]]
       new_weighted)) = Ok (Some (sample_instance ''b'' 1))"
proof -
  let ?xs = "[sample_instance ''a'' 2, sample_instance ''b'' 1]"
  have w: "\<forall>i \<in> set ?xs. 0 \<le> in_weight i" by (simp add: sample_instance_def)
  have t: "total_weight ?xs = 3" by (simp add: sample_instance_def total_weight_def)
  have p: "places ?xs ! 2 = sample_instance ''b'' 1"
    by (simp add: sample_instance_def places_def eval_nat_numeral)
  have n: "times_called ?xs [?xs, ?xs] = 2" by (simp add: times_called_def)
  from weighted_shares [OF w, of "[?xs, ?xs]"] show ?thesis by (simp only: t n) (simp add: p)
qed

lemma wrr_nonneg: "0 \<le> go_get_or 0 (run_calls wrr_next calls new_weighted) k"
proof (induction calls rule: rev_induct)
  case (snoc ys calls)
  have "0 \<le> go_get_or 0 s k \<Longrightarrow> 0 \<le> go_get_or 0 (snd (wrr_next ys s)) k" for s
    by (auto simp: wrr_next_def Let_def)
  with snoc show ?case by (simp add: run_calls_snoc)
qed (simp add: new_weighted_def)

lemma wrr_select_none: "\<forall>i \<in> set xs. in_weight i \<le> 0 \<Longrightarrow> 0 \<le> c \<Longrightarrow> wrr_select c xs = None"
  by (induction xs arbitrary: c) auto

text \<open>
  Weighted round robin returns nil without an error when no weight is positive.  For a non-empty
  list of such instances (the zero value of \<open>Weight\<close>, for example) every call, after any history,
  returns a nil instance and a nil error, so a caller that checks only the error dereferences nil.
\<close>

theorem weighted_nil_instance:
  assumes "xs \<noteq> []" and "\<forall>i \<in> set xs. in_weight i \<le> 0"
  shows "fst (wrr_next xs (run_calls wrr_next calls new_weighted)) = Ok None"
proof -
  let ?c = "go_get_or 0 (run_calls wrr_next calls new_weighted) (in_address (hd xs))"
  have "total_weight xs \<le> 0"
    unfolding total_weight_sum using assms(2) by (induction xs) (auto simp: add_nonpos_nonpos)
  with wrr_nonneg [of calls "in_address (hd xs)"] have "?c \<ge> total_weight xs" by linarith
  then show ?thesis
    using assms wrr_select_none [OF assms(2), of 0] by (simp add: wrr_next_def Let_def)
qed

theorem weighted_nil_instance_witness:
  "fst (wrr_next [sample_instance ''a'' 0] (run_calls wrr_next [] new_weighted)) = Ok None"
  using weighted_nil_instance [of "[sample_instance ''a'' 0]" "[]"] by (simp add: sample_instance_def)

section \<open>Least connections\<close>

datatype connection_event = Opened string | Closed string

fun track :: "connection_event \<Rightarrow> connections \<Rightarrow> connections" where
  "track (Opened a) s = increase_connections a s"
| "track (Closed a) s = decrease_connections a s"

text \<open>The number of connections open after a history, in which a close too many has no effect.\<close>

fun open_after :: "connection_event list \<Rightarrow> string \<Rightarrow> nat \<Rightarrow> nat" where
  "open_after [] a n = n"
| "open_after (Opened b # evs) a n = open_after evs a (if a = b then Suc n else n)"
| "open_after (Closed b # evs) a n = open_after evs a (if a = b then n - 1 else n)"

lemma track_counts:
  "go_get_or 0 s a = int n \<Longrightarrow> go_get_or 0 (fold track evs s) a = int (open_after evs a n)"
  by (induction evs a n arbitrary: s rule: open_after.induct)
     (auto simp: increase_connections_def decrease_connections_def)

lemma lc_fold:
  assumes "\<forall>a. 0 \<le> go_get_or 0 s a" and "xs \<noteq> []"
  shows "\<exists>ps x qs. xs = ps @ x # qs \<and>
    foldl (lc_step s) (None, - 1) xs = (Some x, go_get_or 0 s (in_address x)) \<and>
    (\<forall>p \<in> set ps. go_get_or 0 s (in_address x) < go_get_or 0 s (in_address p)) \<and>
    (\<forall>q \<in> set qs. go_get_or 0 s (in_address x) \<le> go_get_or 0 s (in_address q))"
  using assms(2)
proof (induction xs rule: rev_induct)
  case (snoc y xs)
  let ?n = "\<lambda>i. go_get_or 0 s (in_address i)"
  show ?case
  proof (cases "xs = []")
    case True
    then show ?thesis
      by (intro exI [of _ "[]"] exI [of _ y]) (simp add: lc_step_def Let_def)
  next
    case False
    from snoc.IH [OF False] obtain ps x qs where x: "xs = ps @ x # qs" "foldl (lc_step s) (None, - 1) xs = (Some x, ?n x)"
      "\<forall>p \<in> set ps. ?n x < ?n p" "\<forall>q \<in> set qs. ?n x \<le> ?n q" by blast
    have pos: "0 \<le> ?n x" using assms(1) by blast
    show ?thesis
    proof (cases "?n y < ?n x")
      case True
      then have "foldl (lc_step s) (None, - 1) (xs @ [y]) = (Some y, ?n y)" using x(2) by (simp add: lc_step_def Let_def)
      moreover have "\<forall>p \<in> set xs. ?n y < ?n p" using x True by auto
      ultimately show ?thesis by (intro exI [of _ xs] exI [of _ y] exI [of _ "[]"]) simp
    next
      case False
      then have "foldl (lc_step s) (None, - 1) (xs @ [y]) = (Some x, ?n x)"
        using x(2) pos by (simp add: lc_step_def Let_def)
      with x False show ?thesis by (intro exI [of _ ps] exI [of _ x] exI [of _ "qs @ [y]"]) auto
    qed
  qed
qed simp

text \<open>
  Least connections picks the least loaded instance.  After any history of \<open>IncreaseConnections\<close>
  and \<open>DecreaseConnections\<close> calls, the instance returned has the smallest number of open
  connections, and among those it is the first of the list; a count never becomes negative.
\<close>

theorem least_connections_least:
  assumes "xs \<noteq> []"
  shows "\<exists>ps x qs. xs = ps @ x # qs \<and> fst (lc_next xs (fold track evs new_connections)) = Ok (Some x) \<and>
    (\<forall>p \<in> set ps. open_after evs (in_address x) 0 < open_after evs (in_address p) 0) \<and>
    (\<forall>q \<in> set qs. open_after evs (in_address x) 0 \<le> open_after evs (in_address q) 0)"
proof -
  have n: "go_get_or 0 (fold track evs new_connections) a = int (open_after evs a 0)" for a
    by (rule track_counts) (simp add: new_connections_def)
  then have "\<forall>a. 0 \<le> go_get_or 0 (fold track evs new_connections) a" by simp
  from lc_fold [OF this assms] obtain ps x qs where x: "xs = ps @ x # qs"
    "fst (foldl (lc_step (fold track evs new_connections)) (None, - 1) xs) = Some x"
    "\<forall>p \<in> set ps. open_after evs (in_address x) 0 < open_after evs (in_address p) 0"
    "\<forall>q \<in> set qs. open_after evs (in_address x) 0 \<le> open_after evs (in_address q) 0"
    unfolding n by auto
  then have "fst (lc_next xs (fold track evs new_connections)) = Ok (Some x)"
    using assms by (simp add: lc_next_def)
  with x show ?thesis by blast
qed

theorem least_connections_least_witness:
  "\<exists>ps x qs. [sample_instance ''a'' 1, sample_instance ''b'' 1] = ps @ x # qs \<and>
     fst (lc_next [sample_instance ''a'' 1, sample_instance ''b'' 1] (fold track [Opened ''a''] new_connections)) = Ok (Some x)"
  using least_connections_least [of "[sample_instance ''a'' 1, sample_instance ''b'' 1]" "[Opened ''a'']"] by blast

section \<open>The load balancer\<close>

interpretation rr: strategy_contract "\<lambda>s. True" rr_next "\<lambda>xs. False"
proof unfold_locales
  fix xs :: "lb_instance list" and s
  assume "xs \<noteq> []"
  then show "\<exists>r. fst (rr_next xs s) = Ok r \<and> (case r of None \<Rightarrow> False | Some i \<Rightarrow> i \<in> set xs)"
    by (simp add: rr_next_def Let_def go_index_def nat_less_iff)
qed simp

lemma wrr_select_member: "wrr_select c xs = Some i \<Longrightarrow> i \<in> set xs"
  by (induction c xs rule: wrr_select.induct) (auto split: if_splits)

lemma wrr_select_some: "0 \<le> c \<Longrightarrow> c < total_weight xs \<Longrightarrow> wrr_select c xs \<noteq> None"
proof (induction c xs rule: wrr_select.induct)
  case (2 c i xs)
  show ?case
  proof (cases "c < in_weight i")
    case False
    then have "0 \<le> c - in_weight i" by simp
    moreover have "c - in_weight i < total_weight xs" using 2(3) by (simp add: total_weight_sum)
    ultimately show ?thesis using 2(1) False by simp
  qed simp
qed (simp add: total_weight_def)

interpretation wrr: strategy_contract "\<lambda>s. \<forall>k. 0 \<le> go_get_or 0 s k" wrr_next "\<lambda>xs. total_weight xs \<le> 0"
proof unfold_locales
  fix xs :: "lb_instance list" and s :: weighted
  assume inv: "\<forall>k. 0 \<le> go_get_or 0 s k"
  show "\<forall>k. 0 \<le> go_get_or 0 (snd (wrr_next xs s)) k"
    using inv by (auto simp: wrr_next_def Let_def)
  assume ne: "xs \<noteq> []"
  define c where "c = (if go_get_or 0 s (in_address (hd xs)) \<ge> total_weight xs then 0 else go_get_or 0 s (in_address (hd xs)))"
  have r: "fst (wrr_next xs s) = Ok (wrr_select c xs)"
    using ne by (simp add: wrr_next_def Let_def c_def)
  have "0 \<le> c" "0 < total_weight xs \<Longrightarrow> c < total_weight xs" using inv by (auto simp: c_def)
  then have "wrr_select c xs = None \<Longrightarrow> total_weight xs \<le> 0" using wrr_select_some by fastforce
  with r show "\<exists>r. fst (wrr_next xs s) = Ok r \<and>
      (case r of None \<Rightarrow> total_weight xs \<le> 0 | Some i \<Rightarrow> i \<in> set xs)"
    by (auto dest: wrr_select_member split: option.split)
qed

interpretation lc: strategy_contract "\<lambda>s. \<forall>a. 0 \<le> go_get_or 0 s a" lc_next "\<lambda>xs. False"
proof unfold_locales
  fix xs :: "lb_instance list" and s :: connections
  assume inv: "\<forall>a. 0 \<le> go_get_or 0 s a" and ne: "xs \<noteq> []"
  from lc_fold [OF this] ne
  show "\<exists>r. fst (lc_next xs s) = Ok r \<and> (case r of None \<Rightarrow> False | Some i \<Rightarrow> i \<in> set xs)"
    by (auto simp: lc_next_def)
qed (simp add: lc_next_def)

lemma random_member:
  "xs \<noteq> [] \<Longrightarrow> fst (intn (length xs) r) < length xs \<Longrightarrow> \<exists>i \<in> set xs. fst (random_next intn xs r) = Ok (Some i)"
  by (simp add: random_next_def go_index_def)

lemma get_instance_held:
  assumes "go_get (lb_instances lb) service = Some xs" and "filter in_healthy xs \<noteq> []"
  shows "fst (get_instance discovery next_instance service lb) = fst (next_instance (filter in_healthy xs) (lb_strategy lb))"
  using assms by (simp add: get_instance_def healthy_instances_def split_beta)

lemma no_healthy_instance:
  assumes "go_get (lb_instances lb) service = Some xs" and "\<not> (\<exists>i \<in> set xs. in_healthy i)"
  shows "get_instance discovery next_instance service lb = (Err NoAvailable, lb)"
  using assms by (auto simp: get_instance_def healthy_instances_def filter_empty_conv)

text \<open>A service the discovery knows nothing of is asked about once: the empty list is kept.\<close>

lemma empty_list_is_kept:
  assumes "go_get (lb_instances lb) service = None" and "discovery service = Inr []"
  shows "get_instance discovery' next_instance service (snd (get_instance discovery next_instance service lb)) =
    (Err NoAvailable, snd (get_instance discovery next_instance service lb))"
  using assms
  by (simp add: get_instance_def healthy_instances_def refresh_instances_def go_get_or_def)

text \<open>
  The load balancer serves healthy instances.  As long as the list it holds for a service has a
  healthy instance, \<open>GetInstance\<close> returns a healthy instance of that list and no error: with round
  robin and least connections in any state they reach, with a random selection whose source keeps its
  range, and with weighted round robin if the weights of the healthy instances have a positive sum.
\<close>

theorem balancer_serves_healthy:
  assumes "go_get held service = Some xs" and "\<exists>i \<in> set xs. in_healthy i"
    and "\<And>n r. 0 < n \<Longrightarrow> fst (intn n r) < n" and "0 < total_weight (filter in_healthy xs)"
  shows "\<exists>a \<in> set xs. \<exists>b \<in> set xs. \<exists>c \<in> set xs. \<exists>d \<in> set xs.
    in_healthy a \<and> in_healthy b \<and> in_healthy c \<and> in_healthy d \<and>
    fst (get_instance discovery rr_next service \<lparr>lb_strategy = s, lb_instances = held\<rparr>) = Ok (Some a) \<and>
    fst (get_instance discovery lc_next service
      \<lparr>lb_strategy = fold track evs new_connections, lb_instances = held\<rparr>) = Ok (Some b) \<and>
    fst (get_instance discovery (random_next intn) service \<lparr>lb_strategy = r, lb_instances = held\<rparr>) = Ok (Some c) \<and>
    fst (get_instance discovery wrr_next service
      \<lparr>lb_strategy = run_calls wrr_next calls new_weighted, lb_instances = held\<rparr>) = Ok (Some d)"
proof -
  have ne: "filter in_healthy xs \<noteq> []" using assms(2) by (simp add: filter_empty_conv)
  have counts: "\<forall>a. 0 \<le> go_get_or 0 (fold track evs new_connections) a"
    using track_counts [of new_connections _ 0 evs] by (simp add: new_connections_def)
  obtain a where a: "a \<in> set xs" "in_healthy a"
    "fst (get_instance discovery rr_next service \<lparr>lb_strategy = s, lb_instances = held\<rparr>) = Ok (Some a)"
    using rr.get_instance_ok [of "\<lparr>lb_strategy = s, lb_instances = held\<rparr>" service xs discovery] assms(1,2) by auto
  obtain b where b: "b \<in> set xs" "in_healthy b"
    "fst (get_instance discovery lc_next service \<lparr>lb_strategy = fold track evs new_connections, lb_instances = held\<rparr>) = Ok (Some b)"
    using lc.get_instance_ok [of "\<lparr>lb_strategy = fold track evs new_connections, lb_instances = held\<rparr>" service xs discovery]
      assms(1,2) counts by auto
  obtain c where c: "c \<in> set xs" "in_healthy c"
    "fst (get_instance discovery (random_next intn) service \<lparr>lb_strategy = r, lb_instances = held\<rparr>) = Ok (Some c)"
    using random_member [OF ne, of intn r] assms(3) [of "length (filter in_healthy xs)" r] get_instance_held [of "\<lparr>lb_strategy = r, lb_instances = held\<rparr>" service xs discovery "random_next intn"]
      assms(1) ne by auto
  obtain d where d: "d \<in> set xs" "in_healthy d"
    "fst (get_instance discovery wrr_next service \<lparr>lb_strategy = run_calls wrr_next calls new_weighted, lb_instances = held\<rparr>) = Ok (Some d)"
    using wrr.get_instance_ok [of "\<lparr>lb_strategy = run_calls wrr_next calls new_weighted, lb_instances = held\<rparr>" service xs discovery]
      assms(1,2,4) wrr_nonneg [of calls] by auto
  from a b c d show ?thesis by blast
qed

theorem balancer_serves_healthy_witness:
  "\<exists>a. fst (get_instance (\<lambda>service. Inr []) rr_next ''web'' \<lparr>lb_strategy = new_round_robin,
     lb_instances = [(''web'', [sample_instance ''a'' 1])]\<rparr>) = Ok (Some a)"
  using balancer_serves_healthy [where held = "[(''web'', [sample_instance ''a'' 1])]" and service = "''web''"
      and xs = "[sample_instance ''a'' 1]" and intn = "\<lambda>n r. (n - 1, r)" and discovery = "\<lambda>service. Inr []"
      and s = new_round_robin and evs = "[]" and r = "0 :: nat" and calls = "[]"]
  by (auto simp: go_get_def sample_instance_def total_weight_def)

end
