(* ===== verification/Retry.thy ===== *)
theory Retry
  imports Complex_Main Prelude
begin

text \<open>
  The package \<open>gretry\<close>: options, delays and the loop of \<open>Do\<close>.  Time is counted in nanoseconds and
  passes where the code waits: in \<open>runAttempt\<close> and between attempts.  An operation is given by
  what its attempts do, a context by the instant at which it is done and the error it then has, and
  \<open>select\<close> on two channels that are ready at the same instant by a choice per attempt.  A call that
  never returns is \<open>None\<close>.  The callbacks return at once; the model keeps the list of their calls.
  The three expressions computed with \<open>float64\<close> and \<open>math/rand\<close> are parameters.
\<close>

section \<open>Options\<close>

type_synonym duration = "64 word"

datatype retry_error = Canceled | DeadlineExceeded | RetryFailed | OperationError nat

datatype retry_strategy =
    RetryStrategyExponential | RetryStrategyLinear | RetryStrategyFixed | RetryStrategyRandom
  | OtherStrategy string

datatype jitter_type = JitterNone | JitterFull | JitterEqual | JitterDecorrelated | OtherJitter string

text \<open>A callback is nil or a function, numbered; \<open>ShouldRetry\<close> is applied to the error of an attempt.\<close>

record retry_options =
  MaxRetries :: int
  RetryDelay :: duration
  MaxRetryDelay :: duration
  RetryStrategy :: retry_strategy
  BackoffMultiplier :: rat
  JitterType :: jitter_type
  JitterFactor :: rat
  TransientErrors :: "string list"
  ShouldRetry :: "(retry_error option \<Rightarrow> bool) option"
  Timeout :: duration
  HealthCheckInterval :: duration
  OnRetry :: "nat option"
  OnSuccess :: "nat option"
  OnFailed :: "nat option"

definition second :: duration where
  "second = 1000000000"

definition default_should_retry :: "retry_error option \<Rightarrow> bool" where
  "default_should_retry err = (if err = None then False else True)"

definition DefaultErrorHandlingOptions :: retry_options where
  "DefaultErrorHandlingOptions =
     \<lparr>MaxRetries = 3, RetryDelay = 1 * second, MaxRetryDelay = 30 * second,
      RetryStrategy = RetryStrategyExponential, BackoffMultiplier = 2,
      JitterType = JitterNone, JitterFactor = 0,
      TransientErrors = [''connection refused'', ''timeout'', ''unavailable'',
                         ''etcdserver: leader changed''],
      ShouldRetry = Some default_should_retry, Timeout = 0, HealthCheckInterval = 30 * second,
      OnRetry = None, OnSuccess = None, OnFailed = None\<rparr>"

datatype retry_option =
    WithMaxRetries int
  | WithRetryDelay duration
  | WithMaxRetryDelay duration
  | WithRetryStrategy retry_strategy
  | WithBackoffMultiplier rat
  | WithJitter jitter_type rat
  | WithTransientErrors "string list"
  | WithShouldRetry "(retry_error option \<Rightarrow> bool) option"
  | WithTimeout duration
  | WithOnRetry "nat option"
  | WithOnSuccess "nat option"
  | WithOnFailed "nat option"

fun apply_retry_option :: "retry_option \<Rightarrow> retry_options \<Rightarrow> retry_options" where
  "apply_retry_option (WithMaxRetries n) opts = opts\<lparr>MaxRetries := n\<rparr>"
| "apply_retry_option (WithRetryDelay d) opts = opts\<lparr>RetryDelay := d\<rparr>"
| "apply_retry_option (WithMaxRetryDelay d) opts = opts\<lparr>MaxRetryDelay := d\<rparr>"
| "apply_retry_option (WithRetryStrategy s) opts = opts\<lparr>RetryStrategy := s\<rparr>"
| "apply_retry_option (WithBackoffMultiplier m) opts = opts\<lparr>BackoffMultiplier := m\<rparr>"
| "apply_retry_option (WithJitter j f) opts = opts\<lparr>JitterType := j, JitterFactor := f\<rparr>"
| "apply_retry_option (WithTransientErrors es) opts = opts\<lparr>TransientErrors := es\<rparr>"
| "apply_retry_option (WithShouldRetry p) opts = opts\<lparr>ShouldRetry := p\<rparr>"
| "apply_retry_option (WithTimeout d) opts = opts\<lparr>Timeout := d\<rparr>"
| "apply_retry_option (WithOnRetry f) opts = opts\<lparr>OnRetry := f\<rparr>"
| "apply_retry_option (WithOnSuccess f) opts = opts\<lparr>OnSuccess := f\<rparr>"
| "apply_retry_option (WithOnFailed f) opts = opts\<lparr>OnFailed := f\<rparr>"

text \<open>A nil option is \<open>None\<close> and is skipped.\<close>

definition new_retry_options :: "retry_option option list \<Rightarrow> retry_options" where
  "new_retry_options opts =
     fold (\<lambda>opt options. case opt of None \<Rightarrow> options | Some f \<Rightarrow> apply_retry_option f options)
       opts DefaultErrorHandlingOptions"

section \<open>Delays\<close>

text \<open>
  \<open>float_exp\<close> is \<open>time.Duration(float64(d) * math.Pow(m, float64(attempt)))\<close>, \<open>float_random\<close> the
  random duration between two bounds, \<open>float_jitter\<close> the random duration of a jitter type.
\<close>

record float_delays =
  float_exp :: "duration \<Rightarrow> rat \<Rightarrow> int \<Rightarrow> duration"
  float_random :: "duration \<Rightarrow> duration \<Rightarrow> duration"
  float_jitter :: "jitter_type \<Rightarrow> duration \<Rightarrow> duration"

definition apply_jitter :: "float_delays \<Rightarrow> duration \<Rightarrow> retry_options \<Rightarrow> duration" where
  "apply_jitter fl delay options =
     (if JitterType options = JitterNone \<or> JitterFactor options \<le> 0 then delay
      else (case JitterType options of
              JitterFull \<Rightarrow> float_jitter fl JitterFull delay
            | JitterEqual \<Rightarrow> float_jitter fl JitterEqual delay
            | JitterDecorrelated \<Rightarrow> float_jitter fl JitterDecorrelated delay
            | _ \<Rightarrow> delay))"

definition strategy_delay :: "float_delays \<Rightarrow> int \<Rightarrow> retry_options \<Rightarrow> duration" where
  "strategy_delay fl attempt options =
     (case RetryStrategy options of
        RetryStrategyExponential \<Rightarrow> float_exp fl (RetryDelay options) (BackoffMultiplier options) attempt
      | RetryStrategyLinear \<Rightarrow> RetryDelay options * word_of_int (attempt + 1)
      | RetryStrategyFixed \<Rightarrow> RetryDelay options
      | RetryStrategyRandom \<Rightarrow> float_random fl (RetryDelay options) (MaxRetryDelay options)
      | OtherStrategy _ \<Rightarrow> RetryDelay options)"

definition calculate_delay :: "float_delays \<Rightarrow> int \<Rightarrow> retry_options \<Rightarrow> duration" where
  "calculate_delay fl attempt options =
     (let delay = strategy_delay fl attempt options;
          delay = (if sint (MaxRetryDelay options) < sint delay \<and> 0 < sint (MaxRetryDelay options)
                   then MaxRetryDelay options else delay)
      in apply_jitter fl delay options)"

section \<open>Waiting\<close>

type_synonym retry_context = "(int \<times> retry_error) option"

definition ctx_err :: "retry_context \<Rightarrow> int \<Rightarrow> retry_error option" where
  "ctx_err ctx now =
     (case ctx of None \<Rightarrow> None | Some (t, e) \<Rightarrow> if t \<le> now then Some e else None)"

definition with_timeout :: "int \<Rightarrow> retry_context \<Rightarrow> duration \<Rightarrow> retry_context" where
  "with_timeout now ctx d =
     (case ctx of
        None \<Rightarrow> Some (now + sint d, DeadlineExceeded)
      | Some (t, e) \<Rightarrow> if t \<le> now + sint d then ctx else Some (now + sint d, DeadlineExceeded))"

text \<open>
  What the operation does when it is called: it returns after some time with an error or nil, or
  never.  \<open>select_first\<close> is a \<open>select\<close> over \<open>ctx.Done()\<close> and a channel that is ready at the instant
  \<open>ready\<close>, if any: the instant at which it proceeds and the value of the channel (\<open>Inr\<close>) or the
  error of the context.
\<close>

type_synonym operation = "int \<Rightarrow> (nat \<times> retry_error option) option"

definition select_first ::
  "retry_context \<Rightarrow> int \<Rightarrow> (int \<times> 'a) option \<Rightarrow> bool \<Rightarrow> (int \<times> (retry_error + 'a)) option" where
  "select_first ctx now ready tie =
     (case (ctx, ready) of
        (None, None) \<Rightarrow> None
      | (None, Some (r, v)) \<Rightarrow> Some (max now r, Inr v)
      | (Some (t, e), None) \<Rightarrow> Some (max now t, Inl e)
      | (Some (t, e), Some (r, v)) \<Rightarrow>
          if max now t < max now r \<or> (max now t = max now r \<and> tie) then Some (max now t, Inl e)
          else Some (max now r, Inr v))"

definition run_attempt ::
  "retry_context \<Rightarrow> int \<Rightarrow> (nat \<times> retry_error option) option \<Rightarrow> bool \<Rightarrow> (int \<times> retry_error option) option" where
  "run_attempt ctx now fn tie =
     (case select_first ctx now (map_option (\<lambda>(d, err). (now + int d, err)) fn) tie of
        None \<Rightarrow> None
      | Some (now', Inl e) \<Rightarrow> Some (now', Some e)
      | Some (now', Inr err) \<Rightarrow> Some (now', err))"

definition wait_delay ::
  "retry_context \<Rightarrow> int \<Rightarrow> duration \<Rightarrow> bool \<Rightarrow> (int \<times> (retry_error + unit)) option" where
  "wait_delay ctx now delay tie = select_first ctx now (Some (now + sint delay, ())) tie"

section \<open>Do\<close>

record retry_result =
  Attempts :: int
  Elapsed :: int
  ResultError :: "retry_error option"
  Success :: bool

datatype callback =
    RetryCall nat int duration retry_error
  | SuccessCall nat int int
  | FailedCall nat int int "retry_error option"

definition call_if :: "nat option \<Rightarrow> (nat \<Rightarrow> callback) \<Rightarrow> callback list \<Rightarrow> callback list" where
  "call_if f c calls = (case f of None \<Rightarrow> calls | Some k \<Rightarrow> calls @ [c k])"

definition failed ::
  "retry_options \<Rightarrow> int \<Rightarrow> int \<Rightarrow> retry_error option \<Rightarrow> callback list \<Rightarrow> retry_result \<times> callback list" where
  "failed options attempts elapsed err calls =
     (\<lparr>Attempts = attempts, Elapsed = elapsed, ResultError = err, Success = False\<rparr>,
      call_if (OnFailed options) (\<lambda>f. FailedCall f attempts elapsed err) calls)"

definition succeeded ::
  "retry_options \<Rightarrow> int \<Rightarrow> int \<Rightarrow> callback list \<Rightarrow> retry_result \<times> callback list" where
  "succeeded options attempts elapsed calls =
     (\<lparr>Attempts = attempts, Elapsed = elapsed, ResultError = None, Success = True\<rparr>,
      call_if (OnSuccess options) (\<lambda>f. SuccessCall f attempts elapsed) calls)"

definition give_up ::
  "retry_context \<Rightarrow> retry_options \<Rightarrow> int \<Rightarrow> int \<Rightarrow> int \<Rightarrow> retry_error option \<Rightarrow> callback list
     \<Rightarrow> retry_result \<times> callback list" where
  "give_up ctx options start now attempts last_err calls =
     (let final = (if ctx_err ctx now \<noteq> None then ctx_err ctx now else last_err);
          final = (if final = None then Some RetryFailed else final)
      in failed options attempts (now - start) final calls)"

text \<open>What surrounds a call: the operation, the choices of \<open>select\<close> and the random delays.\<close>

record surroundings =
  operation :: operation
  attempt_tie :: "int \<Rightarrow> bool"
  delay_tie :: "int \<Rightarrow> bool"
  delays :: "int \<Rightarrow> float_delays"

text \<open>One pass of the loop: \<open>Do\<close> returns, blocks, or goes on with the next attempt.\<close>

datatype pass_outcome =
    Returns "retry_result \<times> callback list"
  | Blocks
  | Again int retry_error "callback list"

definition after_failure ::
  "surroundings \<Rightarrow> retry_context \<Rightarrow> retry_options \<Rightarrow> (retry_error option \<Rightarrow> bool) \<Rightarrow> int
     \<Rightarrow> int \<Rightarrow> int \<Rightarrow> int \<Rightarrow> retry_error \<Rightarrow> callback list \<Rightarrow> pass_outcome" where
  "after_failure env ctx options should start attempt attempts now err calls =
     (if attempt = MaxRetries options \<or> \<not> should (Some err)
      then Returns (give_up ctx options start now attempts (Some err) calls)
      else
        (let delay = calculate_delay (delays env attempt) attempt options;
             calls = call_if (OnRetry options) (\<lambda>f. RetryCall f attempts delay err) calls
         in (case wait_delay ctx now delay (delay_tie env attempt) of
               None \<Rightarrow> Blocks
             | Some (now, Inl c) \<Rightarrow> Returns (failed options attempts (now - start) (Some c) calls)
             | Some (now, Inr _) \<Rightarrow> Again now err calls)))"

definition retry_pass ::
  "surroundings \<Rightarrow> retry_context \<Rightarrow> retry_options \<Rightarrow> (retry_error option \<Rightarrow> bool) \<Rightarrow> int
     \<Rightarrow> int \<Rightarrow> int \<Rightarrow> int \<Rightarrow> callback list \<Rightarrow> pass_outcome" where
  "retry_pass env ctx options should start attempt attempts now calls =
     (case ctx_err ctx now of
        Some e \<Rightarrow> Returns (failed options attempt (now - start) (Some e) calls)
      | None \<Rightarrow>
          (case run_attempt ctx now (operation env attempt) (attempt_tie env attempt) of
             None \<Rightarrow> Blocks
           | Some (now, err) \<Rightarrow>
               (let err = (if err = None \<and> ctx_err ctx now \<noteq> None then ctx_err ctx now else err)
                in (case err of
                      None \<Rightarrow> Returns (succeeded options (attempts + 1) (now - start) calls)
                    | Some e \<Rightarrow>
                        after_failure env ctx options should start attempt (attempts + 1) now e calls))))"

function retry_loop ::
  "surroundings \<Rightarrow> retry_context \<Rightarrow> retry_options \<Rightarrow> (retry_error option \<Rightarrow> bool) \<Rightarrow> int
     \<Rightarrow> int \<Rightarrow> int \<Rightarrow> int \<Rightarrow> retry_error option \<Rightarrow> callback list
     \<Rightarrow> (retry_result \<times> callback list) option" where
  "retry_loop env ctx options should start attempt attempts now last_err calls =
     (if MaxRetries options < attempt then Some (give_up ctx options start now attempts last_err calls)
      else (case retry_pass env ctx options should start attempt attempts now calls of
              Returns r \<Rightarrow> Some r
            | Blocks \<Rightarrow> None
            | Again now err calls \<Rightarrow>
                retry_loop env ctx options should start (attempt + 1) (attempts + 1) now (Some err) calls))"
  by pat_completeness auto
termination
  by (relation "measure (\<lambda>(env, ctx, options, should, start, attempt, rest).
                          nat (MaxRetries options - attempt + 1))") auto

declare retry_loop.simps [simp del]

definition retry_do ::
  "surroundings \<Rightarrow> int \<Rightarrow> retry_context \<Rightarrow> retry_options \<Rightarrow> (retry_result \<times> callback list) option" where
  "retry_do env now ctx options =
     (let should = (case ShouldRetry options of None \<Rightarrow> default_should_retry | Some p \<Rightarrow> p);
          ctx = (if 0 < sint (Timeout options) then with_timeout now ctx (Timeout options) else ctx)
      in retry_loop env ctx options should now 0 0 now None [])"

definition do_with_default ::
  "surroundings \<Rightarrow> int \<Rightarrow> retry_context \<Rightarrow> (retry_result \<times> callback list) option" where
  "do_with_default env now ctx = retry_do env now ctx DefaultErrorHandlingOptions"

end
