(* ===== verification/RetryFacts.thy ===== *)
theory RetryFacts
  imports Retry
begin

text \<open>
  What \<open>Do\<close> promises: how many attempts it makes and why it stops, that a timeout bounds the call
  whatever the operation does, that every call ends with exactly one final callback, and the
  delays between attempts.
\<close>

section \<open>Waiting\<close>

lemma ctx_err_Some_iff: "ctx_err ctx now = Some e \<longleftrightarrow> (\<exists>t. ctx = Some (t, e) \<and> t \<le> now)"
  by (auto simp: ctx_err_def split: option.splits if_splits)

lemma ctx_err_None_iff: "ctx_err ctx now = None \<longleftrightarrow> (\<forall>t e. ctx = Some (t, e) \<longrightarrow> now < t)"
  by (auto simp: ctx_err_def split: option.splits if_splits)

lemma ctx_err_background [simp]: "ctx_err None now = None"
  by (simp add: ctx_err_def)

lemma select_first_later: "select_first ctx now ready tie = Some (now', v) \<Longrightarrow> now \<le> now'"
  by (auto simp: select_first_def split: option.splits if_splits)

text \<open>A context that will be done ends the wait by then.\<close>

lemma select_first_by_done:
  "\<exists>now' v. select_first (Some (t, e)) now ready tie = Some (now', v) \<and> now \<le> now' \<and> now' \<le> max now t"
  by (auto simp: select_first_def split: option.splits)

lemma run_attempt_by_done:
  "\<exists>now' err. run_attempt (Some (t, e)) now fn tie = Some (now', err) \<and> now \<le> now' \<and> now' \<le> max now t"
  using select_first_by_done [of t e now "map_option (\<lambda>(d, err). (now + int d, err)) fn" tie]
  by (auto simp: run_attempt_def split: option.splits sum.splits)

lemma wait_delay_by_done:
  "\<exists>now' v. wait_delay (Some (t, e)) now delay tie = Some (now', v) \<and> now \<le> now' \<and> now' \<le> max now t"
  unfolding wait_delay_def by (rule select_first_by_done)

lemma run_attempt_later: "run_attempt ctx now fn tie = Some (now', err) \<Longrightarrow> now \<le> now'"
  by (auto simp: run_attempt_def split: option.splits sum.splits dest: select_first_later)

lemma wait_delay_later: "wait_delay ctx now delay tie = Some (now', v) \<Longrightarrow> now \<le> now'"
  unfolding wait_delay_def by (rule select_first_later)

lemma run_attempt_background:
  "run_attempt None now (Some (d, err)) tie = Some (now + int d, err)"
  by (simp add: run_attempt_def select_first_def)

lemma wait_delay_background:
  "wait_delay None now delay tie = Some (max now (now + sint delay), Inr ())"
  by (simp add: wait_delay_def select_first_def)

section \<open>The loop\<close>

text \<open>The results of the three ways out of the loop.\<close>

definition final_calls :: "callback list \<Rightarrow> callback list" where
  "final_calls calls = filter (\<lambda>c. case c of RetryCall _ _ _ _ \<Rightarrow> False | _ \<Rightarrow> True) calls"

definition retry_numbers :: "callback list \<Rightarrow> int list" where
  "retry_numbers calls = concat (map (\<lambda>c. case c of RetryCall _ n _ _ \<Rightarrow> [n] | _ \<Rightarrow> []) calls)"

definition finishes :: "retry_options \<Rightarrow> retry_result \<Rightarrow> callback list \<Rightarrow> bool" where
  "finishes options res calls \<longleftrightarrow>
     (Success res \<longleftrightarrow> ResultError res = None) \<and>
     final_calls calls =
       (if Success res
        then call_if (OnSuccess options) (\<lambda>f. SuccessCall f (Attempts res) (Elapsed res)) []
        else call_if (OnFailed options) (\<lambda>f. FailedCall f (Attempts res) (Elapsed res) (ResultError res)) [])"

lemma final_calls_call_if:
  "final_calls (call_if f c calls) =
     (case f of None \<Rightarrow> final_calls calls | Some k \<Rightarrow> final_calls calls @ final_calls [c k])"
  by (simp add: call_if_def final_calls_def split: option.splits)

lemma finishes_failed:
  "final_calls calls = [] \<Longrightarrow> failed options n t (Some e) calls = (res, calls') \<Longrightarrow>
   finishes options res calls' \<and> Attempts res = n \<and> Elapsed res = t \<and> ResultError res = Some e"
  by (auto simp: failed_def finishes_def final_calls_call_if split: option.splits)
     (auto simp: call_if_def final_calls_def split: option.splits)

lemma finishes_succeeded:
  "final_calls calls = [] \<Longrightarrow> succeeded options n t calls = (res, calls') \<Longrightarrow>
   finishes options res calls' \<and> Attempts res = n \<and> Elapsed res = t \<and> ResultError res = None"
  by (auto simp: succeeded_def finishes_def final_calls_call_if split: option.splits)
     (auto simp: call_if_def final_calls_def split: option.splits)

lemma give_up_failed:
  "\<exists>e. give_up ctx options start now n err calls = failed options n (now - start) (Some e) calls
       \<and> (ctx_err ctx now = None \<longrightarrow> err \<noteq> None \<longrightarrow> Some e = err)"
  by (auto simp: give_up_def Let_def)

lemma final_calls_retry:
  "final_calls calls = [] \<Longrightarrow> final_calls (call_if f (\<lambda>k. RetryCall k n d e) calls) = []"
  by (auto simp: call_if_def final_calls_def split: option.splits)

text \<open>Every way out of the loop finishes the call, after at most \<open>MaxRetries + 1\<close> attempts.\<close>

definition ends_well :: "retry_options \<Rightarrow> int \<Rightarrow> retry_result \<Rightarrow> callback list \<Rightarrow> bool" where
  "ends_well options n res calls \<longleftrightarrow>
     finishes options res calls \<and> n \<le> Attempts res \<and> Attempts res \<le> max n (MaxRetries options + 1) \<and>
     0 \<le> Elapsed res"

lemma ends_well_failed:
  "failed options m t (Some e) calls = (res, calls') \<Longrightarrow> final_calls calls = [] \<Longrightarrow> n \<le> m \<Longrightarrow>
   m \<le> max n (MaxRetries options + 1) \<Longrightarrow> 0 \<le> t \<Longrightarrow> ends_well options n res calls'"
  by (auto simp: ends_well_def dest: finishes_failed)

lemma ends_well_give_up:
  assumes "give_up ctx options start now m err calls = (res, calls')"
  and "final_calls calls = []" and "n \<le> m" and "m \<le> max n (MaxRetries options + 1)" and "start \<le> now"
  shows "ends_well options n res calls'"
proof -
  obtain e where "failed options m (now - start) (Some e) calls = (res, calls')"
    using give_up_failed[of ctx options start now m err calls] assms(1) by auto
  then show ?thesis
    using assms by (intro ends_well_failed) auto
qed

lemma ends_well_mono:
  "ends_well options (n + 1) res calls \<Longrightarrow> n < MaxRetries options \<Longrightarrow> ends_well options n res calls"
  by (auto simp: ends_well_def)

lemma after_failure_ends_well:
  assumes "after_failure env ctx options should start n (n + 1) now err calls = Returns (res, calls')"
  and "final_calls calls = []" and "n \<le> MaxRetries options" and "start \<le> now"
  shows "ends_well options n res calls'"
proof (cases "n = MaxRetries options \<or> \<not> should (Some err)")
  case True
  then show ?thesis
    using assms by (auto simp: after_failure_def intro: ends_well_give_up)
next
  case False
  define delay where "delay = calculate_delay (delays env n) n options"
  define calls1 where "calls1 = call_if (OnRetry options) (\<lambda>f. RetryCall f (n + 1) delay err) calls"
  obtain now' c where wait: "wait_delay ctx now delay (delay_tie env n) = Some (now', Inl c)"
    and "failed options (n + 1) (now' - start) (Some c) calls1 = (res, calls')"
    using assms(1) False
    by (auto simp: after_failure_def delay_def[symmetric] calls1_def[symmetric] Let_def
             split: option.splits sum.splits)
  then show ?thesis
    using wait_delay_later[OF wait] assms final_calls_retry by (auto simp: calls1_def intro: ends_well_failed)
qed

lemma after_failure_again:
  "after_failure env ctx options should start attempt m now err calls = Again now' err' calls' \<Longrightarrow>
   attempt \<noteq> MaxRetries options \<and> should (Some err') \<and> now \<le> now' \<and>
   calls' = call_if (OnRetry options)
     (\<lambda>f. RetryCall f m (calculate_delay (delays env attempt) attempt options) err') calls"
  by (auto simp: after_failure_def Let_def dest!: wait_delay_later split: if_splits option.splits sum.splits)

lemma retry_pass_returns:
  assumes "retry_pass env ctx options should start n n now calls = Returns (res, calls')"
  and "final_calls calls = []" and "n \<le> MaxRetries options" and "start \<le> now"
  shows "ends_well options n res calls'"
proof (cases "ctx_err ctx now")
  case (Some e)
  then show ?thesis
    using assms by (auto simp: retry_pass_def intro: ends_well_failed)
next
  case None
  then obtain now1 err1
    where run: "run_attempt ctx now (operation env n) (attempt_tie env n) = Some (now1, err1)"
    using assms(1) by (auto simp: retry_pass_def split: option.splits)
  define err2 where "err2 = (if err1 = None \<and> ctx_err ctx now1 \<noteq> None then ctx_err ctx now1 else err1)"
  have now1: "start \<le> now1"
    using run_attempt_later[OF run] assms(4) by simp
  have pass: "(case err2 of None \<Rightarrow> Returns (succeeded options (n + 1) (now1 - start) calls)
      | Some e \<Rightarrow> after_failure env ctx options should start n (n + 1) now1 e calls) = Returns (res, calls')"
    using assms(1) None run by (simp add: retry_pass_def err2_def)
  then show ?thesis
    using finishes_succeeded[OF assms(2)] after_failure_ends_well assms(2,3) now1
    by (cases err2) (fastforce simp: ends_well_def)+
qed

lemma retry_pass_again:
  "retry_pass env ctx options should start attempt n now calls = Again now' err calls' \<Longrightarrow>
   attempt \<noteq> MaxRetries options \<and> should (Some err) \<and> now \<le> now' \<and>
   calls' = call_if (OnRetry options)
     (\<lambda>f. RetryCall f (n + 1) (calculate_delay (delays env attempt) attempt options) err) calls"
  by (auto simp: retry_pass_def Let_def split: option.splits if_splits
           dest!: run_attempt_later after_failure_again)

lemma retry_loop_over:
  "MaxRetries options < attempt \<Longrightarrow>
   retry_loop env ctx options should start attempt n now err calls = Some (give_up ctx options start now n err calls)"
  by (subst retry_loop.simps) simp

lemma retry_loop_pass:
  assumes "attempt \<le> MaxRetries options"
  shows "retry_pass env ctx options should start attempt n now calls = Returns r \<Longrightarrow>
         retry_loop env ctx options should start attempt n now err calls = Some r"
    and "retry_pass env ctx options should start attempt n now calls = Blocks \<Longrightarrow>
         retry_loop env ctx options should start attempt n now err calls = None"
    and "retry_pass env ctx options should start attempt n now calls = Again now' e calls' \<Longrightarrow>
         retry_loop env ctx options should start attempt n now err calls =
         retry_loop env ctx options should start (attempt + 1) (n + 1) now' (Some e) calls'"
  using assms by (simp_all add: retry_loop.simps[of _ _ _ _ _ attempt])

lemma retry_loop_ends_well:
  "retry_loop env ctx options should start attempt n now err calls = Some (res, calls') \<Longrightarrow>
   final_calls calls = [] \<Longrightarrow> n = attempt \<Longrightarrow> start \<le> now \<Longrightarrow>
   ends_well options attempt res calls'"
proof (induction env ctx options should start attempt n now err calls rule: retry_loop.induct)
  case (1 env ctx options should start attempt n now err calls)
  note prems = "1.prems"
  show ?case
  proof (cases "MaxRetries options < attempt")
    case True
    then show ?thesis
      using prems by (auto simp: retry_loop_over intro: ends_well_give_up)
  next
    case le: False
    show ?thesis
    proof (cases "retry_pass env ctx options should start attempt n now calls")
      case (Returns r)
      then show ?thesis
        using prems le by (auto simp: retry_loop_pass(1) intro: retry_pass_returns)
    next
      case Blocks
      then show ?thesis
        using prems le by (simp add: retry_loop_pass(2))
    next
      case (Again now' err' calls1)
      note again = retry_pass_again[OF Again]
      have "retry_loop env ctx options should start (attempt + 1) (n + 1) now' (Some err') calls1
            = Some (res, calls')"
        using prems(1) le by (simp add: retry_loop_pass(3)[OF _ Again])
      then have "ends_well options (attempt + 1) res calls'"
        using "1.IH"[OF le Again] prems again by (simp add: final_calls_retry)
      then show ?thesis
        using again le ends_well_mono by auto
    qed
  qed
qed

text \<open>
  However \<open>Do\<close> ends, it has made between none and \<open>MaxRetries + 1\<close> attempts, it reports
  success exactly when its result carries no error, and it has called one final callback, the one
  of its outcome with the numbers of its result.
\<close>
theorem retry_do_ends_well:
  assumes "retry_do env now ctx options = Some (res, calls)"
  shows "0 \<le> Attempts res \<and> Attempts res \<le> max 0 (MaxRetries options + 1) \<and> 0 \<le> Elapsed res \<and>
    (Success res \<longleftrightarrow> ResultError res = None) \<and>
    final_calls calls =
      (if Success res
       then call_if (OnSuccess options) (\<lambda>f. SuccessCall f (Attempts res) (Elapsed res)) []
       else call_if (OnFailed options) (\<lambda>f. FailedCall f (Attempts res) (Elapsed res) (ResultError res)) [])"
proof -
  have "ends_well options 0 res calls"
    using assms by (auto simp: retry_do_def Let_def final_calls_def intro: retry_loop_ends_well)
  then show ?thesis
    by (auto simp: ends_well_def finishes_def)
qed

lemma retry_do_ends_well_witness:
  "\<exists>res calls. retry_do \<lparr>operation = (\<lambda>_. Some (5, Some (OperationError 7))), attempt_tie = (\<lambda>_. False),
       delay_tie = (\<lambda>_. False), delays = (\<lambda>_. \<lparr>float_exp = (\<lambda>d _ _. d), float_random = (\<lambda>d _. d),
       float_jitter = (\<lambda>_ d. d)\<rparr>)\<rparr> 0 None (DefaultErrorHandlingOptions\<lparr>MaxRetries := 0, OnFailed := Some 4\<rparr>)
     = Some (res, calls) \<and> final_calls calls = [FailedCall 4 1 5 (Some (OperationError 7))]"
proof -
  let ?opts = "DefaultErrorHandlingOptions\<lparr>MaxRetries := 0, OnFailed := Some 4\<rparr>"
  let ?env = "\<lparr>operation = (\<lambda>_. Some (5, Some (OperationError 7))), attempt_tie = (\<lambda>_. False),
       delay_tie = (\<lambda>_. False), delays = (\<lambda>_. \<lparr>float_exp = (\<lambda>d _ _. d), float_random = (\<lambda>d _. d),
       float_jitter = (\<lambda>_ d. d)\<rparr>)\<rparr>"
  let ?res = "\<lparr>Attempts = 1, Elapsed = 5, ResultError = Some (OperationError 7), Success = False\<rparr>"
  have "retry_do ?env 0 None ?opts = Some (?res, [FailedCall 4 1 5 (Some (OperationError 7))])"
    by (subst retry_do_def, subst retry_loop.simps)
       (simp add: DefaultErrorHandlingOptions_def retry_pass_def run_attempt_background after_failure_def
                  give_up_def failed_def call_if_def Let_def)
  from this retry_do_ends_well[OF this] show ?thesis
    by (intro exI[of _ ?res] exI) (simp add: call_if_def DefaultErrorHandlingOptions_def)
qed

section \<open>Timeout\<close>

text \<open>A context that will be done bounds the loop, whatever the operation and the options are.\<close>

lemma retry_pass_by_done:
  assumes "ctx = Some (t, e)" and "start \<le> now" and "now \<le> max start t"
  shows "case retry_pass env ctx options should start attempt n now calls of
      Returns (res, calls') \<Rightarrow> Elapsed res \<le> max 0 (t - start)
    | Blocks \<Rightarrow> False
    | Again now' err' calls' \<Rightarrow> start \<le> now' \<and> now' \<le> max start t"
proof -
  obtain now1 err1 where run: "run_attempt ctx now (operation env attempt) (attempt_tie env attempt) = Some (now1, err1)"
    and now1: "now \<le> now1" "now1 \<le> max now t"
    using run_attempt_by_done assms(1) by blast
  have failure: "case after_failure env ctx options should start attempt m now1 err calls of
      Returns (res, calls') \<Rightarrow> Elapsed res \<le> max 0 (t - start)
    | Blocks \<Rightarrow> False
    | Again now' err' calls' \<Rightarrow> start \<le> now' \<and> now' \<le> max start t" for m err
  proof -
    obtain now2 v where "wait_delay ctx now1 (calculate_delay (delays env attempt) attempt options)
        (delay_tie env attempt) = Some (now2, v)" and "now1 \<le> now2" "now2 \<le> max now1 t"
      using wait_delay_by_done assms(1) by blast
    then show ?thesis
      using assms now1
      by (auto simp: after_failure_def give_up_def failed_def Let_def split: sum.splits)
  qed
  show ?thesis
    using assms(2,3) run now1 failure
    by (auto simp: retry_pass_def failed_def succeeded_def Let_def split: option.split)
qed

lemma retry_loop_by_done:
  "ctx = Some (t, e) \<Longrightarrow> start \<le> now \<Longrightarrow> now \<le> max start t \<Longrightarrow>
   \<exists>res calls'. retry_loop env ctx options should start attempt n now err calls = Some (res, calls') \<and>
     Elapsed res \<le> max 0 (t - start)"
proof (induction env ctx options should start attempt n now err calls rule: retry_loop.induct)
  case (1 env ctx options should start attempt n now err calls)
  note pass = retry_pass_by_done[OF "1.prems", of env options should attempt n calls]
  show ?case
  proof (cases "MaxRetries options < attempt")
    case True
    then show ?thesis
      using "1.prems" by (auto simp: retry_loop_over give_up_def failed_def Let_def)
  next
    case le: False
    show ?thesis
    proof (cases "retry_pass env ctx options should start attempt n now calls")
      case (Returns r)
      then show ?thesis
        using pass le by (cases r) (simp add: retry_loop_pass(1))
    next
      case Blocks
      then show ?thesis
        using pass by simp
    next
      case (Again now' err' calls1)
      then show ?thesis
        using "1.IH"[OF le Again "1.prems"(1)] pass le by (simp add: retry_loop_pass(3)[OF _ Again])
    qed
  qed
qed

text \<open>
  With a timeout set, \<open>Do\<close> returns within the timeout, also when an attempt never returns,
  when the delays are longer and when the context it was given is never done.
\<close>
theorem retry_do_returns_in_time:
  assumes "0 < sint (Timeout options)"
  shows "\<exists>res calls. retry_do env now ctx options = Some (res, calls) \<and>
           Elapsed res \<le> sint (Timeout options)"
proof -
  have "\<exists>t e. with_timeout now ctx (Timeout options) = Some (t, e) \<and> t \<le> now + sint (Timeout options)"
    by (cases ctx) (auto simp: with_timeout_def)
  then obtain t e where "with_timeout now ctx (Timeout options) = Some (t, e)"
    and "t \<le> now + sint (Timeout options)" by blast
  then show ?thesis
    using assms retry_loop_by_done[OF refl, of now now t env e options _ 0 0 None "[]"]
    by (fastforce simp: retry_do_def Let_def)
qed

lemma retry_do_returns_in_time_witness:
  "\<exists>res calls. retry_do \<lparr>operation = (\<lambda>_. None), attempt_tie = (\<lambda>_. False),
       delay_tie = (\<lambda>_. False), delays = (\<lambda>_. \<lparr>float_exp = (\<lambda>d _ _. d), float_random = (\<lambda>d _. d),
       float_jitter = (\<lambda>_ d. d)\<rparr>)\<rparr> 0 None (DefaultErrorHandlingOptions\<lparr>Timeout := 30\<rparr>)
     = Some (res, calls) \<and> Elapsed res \<le> 30"
  using retry_do_returns_in_time[of "DefaultErrorHandlingOptions\<lparr>Timeout := 30\<rparr>" _ 0 None]
  by (simp add: DefaultErrorHandlingOptions_def)

section \<open>Attempts\<close>

definition may_retry :: "retry_options \<Rightarrow> retry_error option \<Rightarrow> bool" where
  "may_retry options err =
     (case ShouldRetry options of None \<Rightarrow> err \<noteq> None | Some p \<Rightarrow> p err)"

text \<open>Without a context to end it, a pass of the loop depends on the attempt alone.\<close>

lemma retry_pass_background:
  assumes "operation env attempt = Some (d, r)"
  shows "retry_pass env None options should start attempt n now calls =
    (case r of
       None \<Rightarrow> Returns (succeeded options (n + 1) (now + int d - start) calls)
     | Some e \<Rightarrow>
         if attempt = MaxRetries options \<or> \<not> should (Some e)
         then Returns (failed options (n + 1) (now + int d - start) (Some e) calls)
         else Again (max (now + int d) (now + int d + sint (calculate_delay (delays env attempt) attempt options))) e
           (call_if (OnRetry options)
              (\<lambda>f. RetryCall f (n + 1) (calculate_delay (delays env attempt) attempt options) e) calls))"
  using assms
  by (simp add: retry_pass_def run_attempt_background after_failure_def give_up_def wait_delay_background
                Let_def split: option.splits)

lemma retry_numbers_call_if:
  "retry_numbers (call_if f (\<lambda>k. RetryCall k n d e) calls) = retry_numbers calls @ (if f = None then [] else [n])"
  by (auto simp: call_if_def retry_numbers_def split: option.splits)

lemma retry_numbers_failed: "retry_numbers (snd (failed options n t err calls)) = retry_numbers calls"
  and retry_numbers_succeeded: "retry_numbers (snd (succeeded options n t calls)) = retry_numbers calls"
  by (auto simp: failed_def succeeded_def call_if_def retry_numbers_def split: option.splits)

lemma upto_step: "(a::int) \<le> b \<Longrightarrow> [a..b] = a # [a + 1..b]"
  by (rule upto_rec1)

lemma retry_loop_settles:
  assumes "attempt \<le> k" and "k \<le> MaxRetries options"
  and "\<And>i. attempt \<le> i \<Longrightarrow> i < k \<Longrightarrow> \<exists>d e. operation env i = Some (d, Some e) \<and> should (Some e)"
  and "operation env k = Some (d, r)" and "r = None \<or> k = MaxRetries options \<or> \<not> should r"
  shows "\<exists>res calls'. retry_loop env None options should start attempt attempt now err calls = Some (res, calls') \<and>
    Attempts res = k + 1 \<and> ResultError res = r \<and> (Success res \<longleftrightarrow> r = None) \<and>
    retry_numbers calls' = retry_numbers calls @ (if OnRetry options = None then [] else [attempt + 1..k])"
  using assms
proof (induction "nat (k - attempt)" arbitrary: attempt now err calls)
  case 0
  then have [simp]: "attempt = k" by simp
  show ?case
    using "0.prems" retry_numbers_failed[of options "k + 1"] retry_numbers_succeeded[of options "k + 1"]
    by (cases r) (auto simp: retry_loop.simps[of _ _ _ _ _ k] retry_pass_background[of env k] failed_def succeeded_def)
next
  case (Suc x)
  then have lt: "attempt < k" by simp
  then obtain d' e where op: "operation env attempt = Some (d', Some e)" "should (Some e)"
    using Suc.prems(3)[of attempt] by auto
  define delay where "delay = calculate_delay (delays env attempt) attempt options"
  define calls1 where "calls1 = call_if (OnRetry options) (\<lambda>f. RetryCall f (attempt + 1) delay e) calls"
  define now1 where "now1 = max (now + int d') (now + int d' + sint delay)"
  have step: "retry_loop env None options should start attempt attempt now err calls =
      retry_loop env None options should start (attempt + 1) (attempt + 1) now1 (Some e) calls1"
    using lt Suc.prems(2) op
    by (subst retry_loop_pass(3)) (auto simp: retry_pass_background delay_def calls1_def now1_def)
  have "retry_numbers calls1 = retry_numbers calls @ (if OnRetry options = None then [] else [attempt + 1])"
    by (simp add: calls1_def retry_numbers_call_if)
  moreover have "[attempt + 1..k] = (attempt + 1) # [attempt + 1 + 1..k]"
    using lt by (intro upto_step) simp
  ultimately show ?case
    using Suc.hyps(1)[of "attempt + 1" now1 "Some e" calls1] Suc.hyps(2) Suc.prems lt unfolding step by auto
qed

text \<open>
  C33: in a context that is not cancelled and without a timeout, \<open>Do\<close> calls the operation until an
  attempt succeeds, fails with an error that is not to be retried, or is the last one allowed: the
  result tells the number and the outcome of that attempt, and \<open>OnRetry\<close> was called once for each
  attempt before it, in order.
\<close>
theorem retry_do_settles:
  assumes "0 \<le> k" and "k \<le> MaxRetries options" and "sint (Timeout options) \<le> 0"
  and "\<And>i. 0 \<le> i \<Longrightarrow> i < k \<Longrightarrow> \<exists>d e. operation env i = Some (d, Some e) \<and> may_retry options (Some e)"
  and "operation env k = Some (d, r)" and "r = None \<or> k = MaxRetries options \<or> \<not> may_retry options r"
  shows "\<exists>res calls. retry_do env now None options = Some (res, calls) \<and>
    Attempts res = k + 1 \<and> ResultError res = r \<and> (Success res \<longleftrightarrow> r = None) \<and>
    retry_numbers calls = (if OnRetry options = None then [] else [1..k])"
proof -
  have should: "(case ShouldRetry options of None \<Rightarrow> default_should_retry | Some p \<Rightarrow> p) = may_retry options"
    by (auto simp: may_retry_def default_should_retry_def fun_eq_iff split: option.splits)
  have "retry_numbers [] = []"
    by (simp add: retry_numbers_def)
  then show ?thesis
    using retry_loop_settles[of 0 k options env "may_retry options" d r now now None "[]"] assms
    by (simp add: retry_do_def should del: if_split cong: if_cong)
qed

lemma retry_do_settles_witness:
  "\<exists>res calls. retry_do \<lparr>operation = (\<lambda>i. Some (5, if i = 0 then Some Canceled else None)),
       attempt_tie = (\<lambda>_. False), delay_tie = (\<lambda>_. False),
       delays = (\<lambda>_. \<lparr>float_exp = (\<lambda>d _ _. d), float_random = (\<lambda>d _. d), float_jitter = (\<lambda>_ d. d)\<rparr>)\<rparr>
       0 None (DefaultErrorHandlingOptions\<lparr>OnRetry := Some 1\<rparr>) = Some (res, calls) \<and>
     Attempts res = 1 + 1 \<and> ResultError res = None \<and> (Success res \<longleftrightarrow> None = (None::nat option)) \<and>
     retry_numbers calls = [1..1]"
  using retry_do_settles[of 1 "DefaultErrorHandlingOptions\<lparr>OnRetry := Some 1\<rparr>"
     "\<lparr>operation = (\<lambda>i. Some (5, if i = 0 then Some Canceled else None)),
       attempt_tie = (\<lambda>_. False), delay_tie = (\<lambda>_. False),
       delays = (\<lambda>_. \<lparr>float_exp = (\<lambda>d _ _. d), float_random = (\<lambda>d _. d), float_jitter = (\<lambda>_ d. d)\<rparr>)\<rparr>" 5 None 0]
  by (simp add: DefaultErrorHandlingOptions_def may_retry_def default_should_retry_def)

section \<open>Delays\<close>

text \<open>The cap applies before the jitter, to whatever the strategy computes.\<close>

lemma delay_capped:
  "0 < sint (MaxRetryDelay options) \<Longrightarrow> JitterType options = JitterNone \<or> JitterFactor options \<le> 0 \<Longrightarrow>
   sint (calculate_delay fl attempt options) \<le> sint (MaxRetryDelay options)"
  by (auto simp: calculate_delay_def apply_jitter_def Let_def)

lemma sint_mult_small:
  fixes d :: duration
  assumes "0 \<le> sint d" and "0 \<le> n" and "sint d * n < 2 ^ 63"
  shows "sint (d * word_of_int n) = sint d * n"
proof -
  have "d * word_of_int n = word_of_int (sint d * n)"
    by simp
  then have "sint (d * word_of_int n) = signed_take_bit 63 (sint d * n)"
    by (simp only: sint_sbintrunc') simp
  moreover have "0 \<le> sint d * n"
    using assms by simp
  then have "signed_take_bit 63 (sint d * n) = sint d * n"
    using assms by (intro signed_take_bit_int_eq_self) linarith+
  ultimately show ?thesis
    by simp
qed

text \<open>
  The linear strategy waits \<open>RetryDelay\<close> times the number of the attempt, capped, as long as
  the product is a \<open>Duration\<close>.
\<close>
theorem linear_delay_bounds:
  assumes "RetryStrategy options = RetryStrategyLinear" and "JitterType options = JitterNone"
  and "0 \<le> sint (RetryDelay options)" and "0 \<le> attempt"
  and "sint (RetryDelay options) * (attempt + 1) < 2 ^ 63"
  shows "sint (calculate_delay fl attempt options) =
    (if 0 < sint (MaxRetryDelay options)
     then min (sint (MaxRetryDelay options)) (sint (RetryDelay options) * (attempt + 1))
     else sint (RetryDelay options) * (attempt + 1))"
  using assms sint_mult_small[of "RetryDelay options" "attempt + 1"]
  by (auto simp: calculate_delay_def strategy_delay_def apply_jitter_def Let_def min_def)

lemma linear_delay_bounds_witness:
  "sint (calculate_delay \<lparr>float_exp = (\<lambda>d _ _. d), float_random = (\<lambda>d _. d), float_jitter = (\<lambda>_ d. d)\<rparr> 2
     (DefaultErrorHandlingOptions\<lparr>RetryStrategy := RetryStrategyLinear\<rparr>)) = 3000000000"
  by (subst linear_delay_bounds) (simp_all add: DefaultErrorHandlingOptions_def second_def)

text \<open>Beyond that bound the product wraps around: the delay is negative and escapes the cap.\<close>

lemma linear_delay_wraps:
  "sint (calculate_delay fl 1 (DefaultErrorHandlingOptions\<lparr>RetryStrategy := RetryStrategyLinear,
      RetryDelay := 0x4000000000000000\<rparr>)) = - 9223372036854775808"
  by (simp add: calculate_delay_def strategy_delay_def apply_jitter_def DefaultErrorHandlingOptions_def second_def)

end
