(* ===== verification/SqlBuilder.thy ===== *)
theory SqlBuilder
  imports Strconv GoStrings
begin

text \<open>
  \<open>gsql/builder.go\<close> and \<open>gsql/dialect.go\<close>: the statement builder and the dialects.  A builder is
  the record of its clauses with the arguments of its \<open>?\<close> placeholders, one of which may be
  another builder (a subquery; a builder that contains itself is left out, \<open>ToSQL\<close> does not
  return on it).  The values stay opaque; \<open>None\<close> is a nil value.
\<close>

section \<open>Dialects\<close>

datatype dialect = MysqlDialect | PostgresDialect | SqliteDialect | GenericDialect

definition new_dialect :: "string \<Rightarrow> dialect" where
  "new_dialect driver =
     (if driver = ''mysql'' then MysqlDialect
      else if driver = ''postgres'' then PostgresDialect
      else if driver = ''sqlite3'' then SqliteDialect
      else GenericDialect)"

definition itoa :: "int \<Rightarrow> string" where
  "itoa i = map (\<lambda>b. char_of (unat b)) (format_int i)"

definition placeholder :: "dialect \<Rightarrow> nat \<Rightarrow> string" where
  "placeholder d i = (if d = PostgresDialect then CHR ''$'' # itoa (int i + 1) else ''?'')"

text \<open>\<open>PlaceholderSQL\<close> numbers the placeholders of a whole statement, from 1.\<close>

fun number_placeholders :: "nat \<Rightarrow> string \<Rightarrow> string" where
  "number_placeholders i [] = []"
| "number_placeholders i (r # sql) =
     (if r = CHR ''?'' then CHR ''$'' # itoa (int i) @ number_placeholders (Suc i) sql
      else r # number_placeholders i sql)"

definition placeholder_sql :: "dialect \<Rightarrow> string \<Rightarrow> string" where
  "placeholder_sql d sql = (if d = PostgresDialect then number_placeholders 1 sql else sql)"

definition supports_savepoint :: "dialect \<Rightarrow> bool" where
  "supports_savepoint d \<longleftrightarrow> d \<noteq> GenericDialect"

text \<open>The Go types the dialects tell apart: a kind, two named structs, anything else.\<close>

datatype go_type =
    BoolType | IntType | Int8Type | Int16Type | Int32Type | Int64Type
  | UintType | Uint8Type | Uint16Type | Uint32Type | Uint64Type
  | Float32Type | Float64Type | StringType | TimeType | NullStringType | OtherType

definition small_int :: "go_type \<Rightarrow> bool" where
  "small_int t \<longleftrightarrow> t \<in> {IntType, Int8Type, Int16Type, Int32Type, UintType, Uint8Type, Uint16Type, Uint32Type}"

fun data_type_of :: "dialect \<Rightarrow> go_type \<Rightarrow> string" where
  "data_type_of MysqlDialect t =
     (if t = BoolType then ''BOOLEAN''
      else if small_int t then ''INT''
      else if t \<in> {Int64Type, Uint64Type} then ''BIGINT''
      else if t \<in> {Float32Type, Float64Type} then ''DOUBLE''
      else if t = StringType then ''VARCHAR(255)''
      else if t = TimeType then ''DATETIME''
      else if t = NullStringType then ''VARCHAR(255)''
      else ''TEXT'')"
| "data_type_of PostgresDialect t =
     (if t = BoolType then ''BOOLEAN''
      else if small_int t then ''INTEGER''
      else if t \<in> {Int64Type, Uint64Type} then ''BIGINT''
      else if t \<in> {Float32Type, Float64Type} then ''DOUBLE PRECISION''
      else if t = StringType then ''VARCHAR(255)''
      else if t = TimeType then ''TIMESTAMPTZ''
      else ''TEXT'')"
| "data_type_of SqliteDialect t =
     (if t = BoolType \<or> small_int t \<or> t \<in> {Int64Type, Uint64Type} then ''INTEGER''
      else if t \<in> {Float32Type, Float64Type} then ''REAL''
      else if t = StringType then ''TEXT''
      else if t = TimeType then ''TIMESTAMP''
      else ''TEXT'')"
| "data_type_of GenericDialect t =
     (if t = BoolType then ''BOOLEAN''
      else if t \<in> {IntType, Int32Type, Int64Type} then ''BIGINT''
      else if t \<in> {Float32Type, Float64Type} then ''DOUBLE''
      else if t = StringType then ''VARCHAR(255)''
      else if t = TimeType then ''TIMESTAMP''
      else ''TEXT'')"

definition auto_increment :: "dialect \<Rightarrow> string" where
  "auto_increment d =
     (case d of MysqlDialect \<Rightarrow> ''AUTO_INCREMENT'' | PostgresDialect \<Rightarrow> ''''
      | SqliteDialect \<Rightarrow> ''PRIMARY KEY AUTOINCREMENT'' | GenericDialect \<Rightarrow> ''AUTO_INCREMENT'')"

definition primary_key_str :: "dialect \<Rightarrow> string" where
  "primary_key_str d = (if d = SqliteDialect then ''TEXT'' else ''VARCHAR(255)'')"

section \<open>Builders\<close>

datatype sql_operation = OpSelect | OpInsert | OpUpdate | OpDelete

text \<open>
  The data of an insert or update: nil, the entries of a map in the order its iteration yields
  them, the fields of a struct, or a value of another type.
\<close>

record 'v struct_field =
  field_exported :: bool
  field_tag :: string
  field_value :: "'v option"

datatype 'v sql_values =
    NoValues
  | MapValues "(string \<times> 'v option) list"
  | StructValues "'v struct_field list"
  | OtherValues

record 'v statement =
  st_dialect :: dialect
  st_table :: string
  st_operation :: sql_operation
  st_columns :: "string list"
  st_values :: "'v sql_values"
  st_joins :: "string list"
  st_where :: "string list"
  st_order_by :: "string list"
  st_group_by :: "string list"
  st_having :: string
  st_limit :: "int option"
  st_offset :: "int option"

text \<open>
  \<open>spare\<close> is the unused capacity of the slice of arguments: a slice expression may reach into it
  and reads nil there.  How \<open>append\<close> grows a slice is left to the runtime: the capacity it
  leaves unused is an argument of the operations that append.
\<close>

datatype 'v sql_arg =
    NilArg
  | ScalarArg 'v
  | SliceArg "'v option list"
  | SubArg "'v builder"
and 'v builder = Builder (stmt: "'v statement") (sql_args: "'v sql_arg list") (spare: nat)

definition new_builder :: "dialect \<Rightarrow> 'v builder" where
  "new_builder d =
     Builder \<lparr>st_dialect = d, st_table = '''', st_operation = OpSelect, st_columns = [],
        st_values = NoValues, st_joins = [], st_where = [], st_order_by = [], st_group_by = [],
        st_having = '''', st_limit = None, st_offset = None\<rparr> [] 0"

definition with_stmt :: "('v statement \<Rightarrow> 'v statement) \<Rightarrow> 'v builder \<Rightarrow> 'v builder" where
  "with_stmt f b = Builder (f (stmt b)) (sql_args b) (spare b)"

definition append_args :: "nat \<Rightarrow> 'v sql_arg list \<Rightarrow> 'v builder \<Rightarrow> 'v builder" where
  "append_args grown xs b =
     Builder (stmt b) (sql_args b @ xs)
       (if length xs \<le> spare b then spare b - length xs else grown)"

definition from_table :: "string \<Rightarrow> 'v builder \<Rightarrow> 'v builder" where
  "from_table table = with_stmt (\<lambda>s. s\<lparr>st_table := table, st_operation := OpSelect\<rparr>)"

definition select_columns :: "string list \<Rightarrow> 'v builder \<Rightarrow> 'v builder" where
  "select_columns columns =
     with_stmt (\<lambda>s. s\<lparr>st_columns := (if length columns = 0 then [''*''] else columns)\<rparr>)"

definition insert_into :: "string \<Rightarrow> 'v sql_values \<Rightarrow> 'v builder \<Rightarrow> 'v builder" where
  "insert_into table data =
     with_stmt (\<lambda>s. s\<lparr>st_table := table, st_operation := OpInsert, st_values := data\<rparr>)"

definition update_table :: "string \<Rightarrow> 'v sql_values \<Rightarrow> 'v builder \<Rightarrow> 'v builder" where
  "update_table table data =
     with_stmt (\<lambda>s. s\<lparr>st_table := table, st_operation := OpUpdate, st_values := data\<rparr>)"

definition delete_from :: "string \<Rightarrow> 'v builder \<Rightarrow> 'v builder" where
  "delete_from table = with_stmt (\<lambda>s. s\<lparr>st_table := table, st_operation := OpDelete\<rparr>)"

definition add_where :: "nat \<Rightarrow> string \<Rightarrow> 'v sql_arg list \<Rightarrow> 'v builder \<Rightarrow> 'v builder" where
  "add_where grown query xs b =
     append_args grown xs (with_stmt (\<lambda>s. s\<lparr>st_where := st_where s @ [query]\<rparr>) b)"

definition add_join :: "string \<Rightarrow> 'v builder \<Rightarrow> 'v builder" where
  "add_join join = with_stmt (\<lambda>s. s\<lparr>st_joins := st_joins s @ [''JOIN '' @ join]\<rparr>)"

definition add_left_join :: "string \<Rightarrow> 'v builder \<Rightarrow> 'v builder" where
  "add_left_join join = with_stmt (\<lambda>s. s\<lparr>st_joins := st_joins s @ [''LEFT JOIN '' @ join]\<rparr>)"

definition add_right_join :: "string \<Rightarrow> 'v builder \<Rightarrow> 'v builder" where
  "add_right_join join = with_stmt (\<lambda>s. s\<lparr>st_joins := st_joins s @ [''RIGHT JOIN '' @ join]\<rparr>)"

definition order_by :: "string list \<Rightarrow> 'v builder \<Rightarrow> 'v builder" where
  "order_by columns = with_stmt (\<lambda>s. s\<lparr>st_order_by := columns\<rparr>)"

definition group_by :: "string list \<Rightarrow> 'v builder \<Rightarrow> 'v builder" where
  "group_by columns = with_stmt (\<lambda>s. s\<lparr>st_group_by := columns\<rparr>)"

definition set_having :: "nat \<Rightarrow> string \<Rightarrow> 'v sql_arg list \<Rightarrow> 'v builder \<Rightarrow> 'v builder" where
  "set_having grown query xs b =
     append_args grown xs (with_stmt (\<lambda>s. s\<lparr>st_having := query\<rparr>) b)"

definition set_limit :: "int \<Rightarrow> 'v builder \<Rightarrow> 'v builder" where
  "set_limit n = with_stmt (\<lambda>s. s\<lparr>st_limit := Some n\<rparr>)"

definition set_offset :: "int \<Rightarrow> 'v builder \<Rightarrow> 'v builder" where
  "set_offset n = with_stmt (\<lambda>s. s\<lparr>st_offset := Some n\<rparr>)"

section \<open>The where clause\<close>

datatype sql_error =
    NoTable | InsertNoValues | UpdateNoValues | UnsafeUpdate | UnsafeDelete | UnsupportedData
  | SubqueryFailed sql_error

type_synonym 'v sql = "(sql_error, string \<times> 'v option list) outcome"

text \<open>An argument as the where clause sees it: the statement of a subquery is built on demand.\<close>

datatype 'v rendered =
    Plain "'v option"
  | Expanded "'v option list"
  | Subquery "'v sql"

fun replace_first :: "string \<Rightarrow> string \<Rightarrow> string" where
  "replace_first new [] = []"
| "replace_first new (c # cs) = (if c = CHR ''?'' then new @ cs else c # replace_first new cs)"

definition count_placeholders :: "string \<Rightarrow> nat" where
  "count_placeholders s = count_list s (CHR ''?'')"

fun join_strings :: "string \<Rightarrow> string list \<Rightarrow> string" where
  "join_strings sep [] = []"
| "join_strings sep [w] = w"
| "join_strings sep (w # v # ws) = w @ sep @ join_strings sep (v # ws)"

text \<open>The inner loop over the elements of a slice; \<open>finalArgs\<close> grows while it runs.\<close>

fun expand_slice :: "dialect \<Rightarrow> nat \<Rightarrow> 'v option list \<Rightarrow> 'v option list \<Rightarrow> string list \<times> 'v option list" where
  "expand_slice d j [] final = ([], final)"
| "expand_slice d j (x # xs) final =
     (let p = placeholder d (length final + j);
          (ps, final) = expand_slice d (Suc j) xs (final @ [x])
      in (p # ps, final))"

fun fill_part :: "dialect \<Rightarrow> 'v rendered list \<Rightarrow> string \<Rightarrow> 'v option list \<Rightarrow> 'v sql" where
  "fill_part d [] part final = Ok (part, final)"
| "fill_part d (Subquery r # rest) part final =
     (case r of
        Panic \<Rightarrow> Panic
      | Err e \<Rightarrow> Err (SubqueryFailed e)
      | Ok (sub, sub_args) \<Rightarrow>
          fill_part d rest (replace_first (''('' @ sub @ '')'') part) (final @ sub_args))"
| "fill_part d (Expanded xs # rest) part final =
     (if length xs = 0 then fill_part d rest (replace_first ''(NULL)'' part) final
      else
        (let (ps, final) = expand_slice d 0 xs final
         in fill_part d rest (replace_first (''('' @ join_strings '', '' ps @ '')'') part) final))"
| "fill_part d (Plain v # rest) part final =
     fill_part d rest (replace_first (placeholder d (length final)) part) (final @ [v])"

fun where_loop ::
  "dialect \<Rightarrow> 'v rendered list \<Rightarrow> string list \<Rightarrow> nat \<Rightarrow> string list \<Rightarrow> 'v option list \<Rightarrow> 'v sql" where
  "where_loop d xs [] offset wheres final = Ok (join_strings '' AND '' wheres, final)"
| "where_loop d xs (part # parts) offset wheres final =
     (let n = count_placeholders part in
      if n = 0 then where_loop d xs parts offset (wheres @ [part]) final
      else
        bindO (go_slice xs offset (offset + n)) (\<lambda>part_args.
        bindO (fill_part d part_args part final) (\<lambda>(new_part, final).
          where_loop d xs parts (offset + n) (wheres @ [new_part]) final)))"

definition where_clause :: "'v statement \<Rightarrow> 'v rendered list \<Rightarrow> 'v sql" where
  "where_clause s xs =
     (if length (st_where s) = 0 then Ok ('''', [])
      else where_loop (st_dialect s) xs (st_where s) 0 [] [])"

section \<open>Statements\<close>

definition clause :: "string \<Rightarrow> string \<Rightarrow> string list \<Rightarrow> string" where
  "clause keyword sep xs = (if length xs > 0 then keyword @ join_strings sep xs else '''')"

definition where_text :: "string \<Rightarrow> string" where
  "where_text w = (if w \<noteq> '''' then '' WHERE '' @ w else '''')"

definition having_text :: "'v statement \<Rightarrow> string" where
  "having_text s = (if st_having s \<noteq> '''' then '' HAVING '' @ st_having s else '''')"

definition number_clause :: "string \<Rightarrow> int option \<Rightarrow> string" where
  "number_clause keyword n = (case n of None \<Rightarrow> '''' | Some i \<Rightarrow> keyword @ itoa i)"

definition select_sql :: "'v statement \<Rightarrow> 'v rendered list \<Rightarrow> 'v sql" where
  "select_sql s xs =
     bindO (where_clause s xs) (\<lambda>(w, where_args).
       Ok (''SELECT '' @ (if length (st_columns s) = 0 then ''*'' else join_strings '', '' (st_columns s))
           @ '' FROM '' @ st_table s @ clause '' '' '' '' (st_joins s) @ where_text w
           @ clause '' GROUP BY '' '', '' (st_group_by s) @ having_text s
           @ clause '' ORDER BY '' '', '' (st_order_by s)
           @ number_clause '' LIMIT '' (st_limit s) @ number_clause '' OFFSET '' (st_offset s),
           where_args))"

definition count_sql :: "'v statement \<Rightarrow> 'v rendered list \<Rightarrow> 'v sql" where
  "count_sql s xs =
     bindO (where_clause s xs) (\<lambda>(w, where_args).
       Ok (''SELECT COUNT(1) FROM '' @ st_table s @ clause '' '' '' '' (st_joins s) @ where_text w
           @ clause '' GROUP BY '' '', '' (st_group_by s) @ having_text s,
           where_args))"

definition columns_and_values :: "'v sql_values \<Rightarrow> (sql_error, string list \<times> 'v option list) outcome" where
  "columns_and_values values =
     (case values of
        NoValues \<Rightarrow> Ok ([], [])
      | MapValues kvs \<Rightarrow> Ok (map fst kvs, map snd kvs)
      | StructValues fs \<Rightarrow>
          (let used = filter (\<lambda>f. field_exported f \<and> \<not> (field_tag f = '''' \<or> field_tag f = ''-'')) fs
           in Ok (map field_tag used, map field_value used))
      | OtherValues \<Rightarrow> Err UnsupportedData)"

definition insert_sql :: "'v statement \<Rightarrow> 'v sql" where
  "insert_sql s =
     bindO (columns_and_values (st_values s)) (\<lambda>(cols, vals).
       if length cols = 0 then Err InsertNoValues
       else Ok (''INSERT INTO '' @ st_table s @ '' ('' @ join_strings '', '' cols @ '') VALUES (''
                @ join_strings '', '' (map (placeholder (st_dialect s)) [0..<length vals]) @ '')'', vals))"

definition update_sql :: "'v statement \<Rightarrow> 'v rendered list \<Rightarrow> 'v sql" where
  "update_sql s xs =
     bindO (columns_and_values (st_values s)) (\<lambda>(cols, vals).
       if length cols = 0 then Err UpdateNoValues
       else
         bindO (where_clause s xs) (\<lambda>(w, where_args).
           if w \<noteq> '''' then
             Ok (''UPDATE '' @ st_table s @ '' SET ''
                 @ join_strings '', '' (map (\<lambda>(i, col). col @ '' = '' @ placeholder (st_dialect s) i)
                                       (enumerate 0 cols))
                 @ '' WHERE '' @ w, vals @ where_args)
           else Err UnsafeUpdate))"

definition delete_sql :: "'v statement \<Rightarrow> 'v rendered list \<Rightarrow> 'v sql" where
  "delete_sql s xs =
     bindO (where_clause s xs) (\<lambda>(w, where_args).
       if w \<noteq> '''' then Ok (''DELETE FROM '' @ st_table s @ '' WHERE '' @ w, where_args)
       else Err UnsafeDelete)"

definition statement_sql :: "'v statement \<Rightarrow> 'v rendered list \<Rightarrow> 'v sql" where
  "statement_sql s xs =
     (if st_table s = '''' then Err NoTable
      else (case st_operation s of
              OpSelect \<Rightarrow> select_sql s xs
            | OpInsert \<Rightarrow> insert_sql s
            | OpUpdate \<Rightarrow> update_sql s xs
            | OpDelete \<Rightarrow> delete_sql s xs))"

text \<open>\<open>ToSQL\<close>; the arguments a slice expression reaches in the unused capacity are nil.\<close>

fun render_arg :: "'v sql_arg \<Rightarrow> 'v rendered" and to_sql :: "'v builder \<Rightarrow> 'v sql" where
  "render_arg NilArg = Plain None"
| "render_arg (ScalarArg v) = Plain (Some v)"
| "render_arg (SliceArg xs) = Expanded xs"
| "render_arg (SubArg b) = Subquery (to_sql b)"
| "to_sql (Builder s xs k) = statement_sql s (map render_arg xs @ replicate k (Plain None))"

definition rendered_args :: "'v builder \<Rightarrow> 'v rendered list" where
  "rendered_args b = map render_arg (sql_args b) @ replicate (spare b) (Plain None)"

definition to_count_sql :: "'v builder \<Rightarrow> 'v sql" where
  "to_count_sql b = count_sql (stmt b) (rendered_args b)"

abbreviation quote :: char where "quote \<equiv> CHR 0x27"

text \<open>\<open>ToRawSQL\<close>, with the verb \<open>%v\<close> of \<open>fmt\<close> as a parameter.\<close>

definition to_raw_sql :: "('v option \<Rightarrow> string) \<Rightarrow> 'v builder \<Rightarrow> (sql_error, string) outcome" where
  "to_raw_sql format b =
     mapO (\<lambda>(query, xs). fold (\<lambda>x q. replace_first (quote # format x @ [quote]) q) xs query) (to_sql b)"

text \<open>Execution: the executor of the builder is a parameter that gets the statement and its arguments.\<close>

definition exec_context ::
  "(string \<Rightarrow> 'v option list \<Rightarrow> (sql_error, 'r) outcome) \<Rightarrow> 'v builder \<Rightarrow> (sql_error, 'r) outcome" where
  "exec_context exec b = bindO (to_sql b) (\<lambda>(query, xs). exec query xs)"

definition get_context ::
  "(string \<Rightarrow> 'v option list \<Rightarrow> (sql_error, 'r) outcome) \<Rightarrow> 'v builder
     \<Rightarrow> (sql_error, 'r) outcome \<times> 'v builder" where
  "get_context exec b =
     (let b = with_stmt (\<lambda>s. s\<lparr>st_operation := OpSelect\<rparr>) b
      in (bindO (to_sql b) (\<lambda>(query, xs). exec query xs), b))"

definition count_context ::
  "(string \<Rightarrow> 'v option list \<Rightarrow> (sql_error, 'r) outcome) \<Rightarrow> 'v builder \<Rightarrow> (sql_error, 'r) outcome" where
  "count_context exec b = bindO (to_count_sql b) (\<lambda>(query, xs). exec query xs)"

end
