(* ===== verification/SqlFacts.thy ===== *)
theory SqlFacts
  imports SqlBuilder
begin

text \<open>
  What the statement builder promises: as many placeholders as arguments, the same statement for
  every dialect up to the numbering of its placeholders, and no update or delete without a
  condition; and where it does not number them as the dialect wants.
\<close>

section \<open>Placeholders in strings\<close>

lemma marks_append [simp]: "count_placeholders (a @ b) = count_placeholders a + count_placeholders b"
  by (simp add: count_placeholders_def)

lemma marks_Nil [simp]: "count_placeholders [] = 0"
  by (simp add: count_placeholders_def)

lemma marks_Cons [simp]:
  "count_placeholders (c # s) = (if c = CHR ''?'' then Suc (count_placeholders s) else count_placeholders s)"
  by (simp add: count_placeholders_def)

lemma marks_0_iff: "count_placeholders s = 0 \<longleftrightarrow> CHR ''?'' \<notin> set s"
  by (simp add: count_placeholders_def count_list_0_iff)

lemma digit_word_not_mark: "d < 10 \<Longrightarrow> word_of_nat (48 + d) \<noteq> (63::byte)"
proof
  assume "d < 10" "word_of_nat (48 + d) = (63::byte)"
  then have "unat (of_nat (48+d) :: byte) = unat (63::byte)" by (simp only:)
  with unat_digit[OF \<open>d<10\<close>] show False by (simp only:) (use \<open>d < 10\<close> in simp)
qed
lemma digit_not_mark: "b \<in> set (format_uint n) \<Longrightarrow> b \<noteq> 63"
proof (induction n rule: format_uint.induct)
  case (1 n)
  from "1.prems" have "b \<in> set (if n < 10 then [of_nat (48 + n)] else format_uint (n div 10) @ [of_nat (48 + n mod 10)])"
    by (subst (asm) format_uint.simps)
  then show ?case
    using "1.IH" digit_word_not_mark[of n] digit_word_not_mark[of "n mod 10"] by (auto split: if_splits simp del: of_nat_add)
qed
lemma itoa_no_mark: "CHR ''?'' \<notin> set (itoa i)"
proof
  assume "CHR ''?'' \<in> set (itoa i)"
  then obtain b where b: "b \<in> set (format_int i)" "char_of (unat b) = CHR ''?''"
    by (auto simp: itoa_def)
  from b(2) have "(of_char (char_of (unat b)) :: nat) = of_char (CHR ''?'')" by simp
  moreover have "unat b < 2 ^ LENGTH(8)" by (rule unsigned_less)
  ultimately have "unat b = 63" by simp
  then have "b = 63" by (simp add: word_unat_eq_iff)
  with b(1) show False using digit_not_mark by (auto simp: format_int_def split: if_splits)
qed

lemma marks_itoa [simp]: "count_placeholders (itoa i) = 0"
  by (simp add: marks_0_iff itoa_no_mark)

lemma marks_placeholder [simp]: "count_placeholders (placeholder d i) = (if d = PostgresDialect then 0 else 1)"
  by (simp add: placeholder_def)

lemma marks_join:
  "count_placeholders (join_strings sep ws) =
     sum_list (map count_placeholders ws) + (length ws - 1) * count_placeholders sep"
  by (induction sep ws rule: join_strings.induct) (simp_all add: algebra_simps)

lemma marks_replace_first:
  "0 < count_placeholders s \<Longrightarrow>
   Suc (count_placeholders (replace_first new s)) = count_placeholders new + count_placeholders s"
  by (induction s) auto

lemma replace_first_prefix:
  "CHR ''?'' \<notin> set u \<Longrightarrow> replace_first new (u @ CHR ''?'' # s) = u @ new @ s"
  by (induction u) auto

section \<open>As many placeholders as arguments\<close>

text \<open>
  The dialects whose placeholder is \<open>?\<close>, and the builders whose other clauses have none.
\<close>

definition no_marks :: "string list \<Rightarrow> bool" where
  "no_marks ws \<longleftrightarrow> list_all (\<lambda>w. count_placeholders w = 0) ws"

definition column_names :: "'v sql_values \<Rightarrow> string list" where
  "column_names vs = (case columns_and_values vs of Ok (cols, _) \<Rightarrow> cols | _ \<Rightarrow> [])"

definition question_statement :: "'v statement \<Rightarrow> bool" where
  "question_statement s \<longleftrightarrow> st_dialect s \<noteq> PostgresDialect \<and>
     no_marks (st_table s # st_having s # st_columns s @ st_joins s @ st_group_by s @ st_order_by s
               @ column_names (st_values s))"

fun question_arg :: "'v sql_arg \<Rightarrow> bool" and question_builder :: "'v builder \<Rightarrow> bool" where
  "question_arg NilArg = True"
| "question_arg (ScalarArg v) = True"
| "question_arg (SliceArg xs) = True"
| "question_arg (SubArg b) = question_builder b"
| "question_builder (Builder s xs k) = (question_statement s \<and> list_all question_arg xs)"

definition balanced :: "'v sql \<Rightarrow> bool" where
  "balanced r \<longleftrightarrow> (case r of Ok (sql, xs) \<Rightarrow> count_placeholders sql = length xs | _ \<Rightarrow> True)"

definition balanced_arg :: "'v rendered \<Rightarrow> bool" where
  "balanced_arg x \<longleftrightarrow> (case x of Subquery r \<Rightarrow> balanced r | _ \<Rightarrow> True)"

lemma sum_marks_no_marks: "no_marks ws \<Longrightarrow> sum_list (map count_placeholders ws) = 0"
  by (induction ws) (auto simp: no_marks_def)

lemma marks_expand_slice:
  "d \<noteq> PostgresDialect \<Longrightarrow> expand_slice d j xs final = (ps, final') \<Longrightarrow>
   final' = final @ xs \<and> length ps = length xs \<and> sum_list (map count_placeholders ps) = length xs"
  by (induction d j xs final arbitrary: ps final' rule: expand_slice.induct)
     (fastforce simp: Let_def split: prod.splits)+

lemma fill_part_balanced:
  "fill_part d xs part final = Ok (part', final') \<Longrightarrow> d \<noteq> PostgresDialect \<Longrightarrow>
   list_all balanced_arg xs \<Longrightarrow> length xs \<le> count_placeholders part \<Longrightarrow>
   count_placeholders part' + length xs + length final = count_placeholders part + length final'"
proof (induction d xs part final arbitrary: part' final' rule: fill_part.induct)
  case (2 d r rest part final)
  then obtain sub sub_args where r: "r = Ok (sub, sub_args)"
    by (auto split: outcome.splits)
  let ?new = "''('' @ sub @ '')''"
  have "Suc (count_placeholders (replace_first ?new part)) = length sub_args + count_placeholders part"
    using 2(4,5) marks_replace_first[of part ?new] by (simp add: r balanced_arg_def balanced_def)
  then show ?case
    using "2.IH"[OF r refl] 2(2-5) by (simp add: r)
next
  case (3 d xs rest part final)
  show ?case
  proof (cases "xs = []")
    case True
    have "Suc (count_placeholders (replace_first ''(NULL)'' part)) = count_placeholders part"
      using 3(6) marks_replace_first[of part "''(NULL)''"] by simp
    then show ?thesis
      using 3 True by fastforce
  next
    case False
    obtain ps fin where exp: "expand_slice d 0 xs final = (ps, fin)" by fastforce
    let ?new = "''('' @ join_strings '', '' ps @ '')''"
    note ex = marks_expand_slice[OF 3(4) exp]
    have "Suc (count_placeholders (replace_first ?new part)) = length xs + count_placeholders part"
      using 3(6) ex marks_replace_first[of part ?new] by (simp add: marks_join)
    then show ?thesis
      using 3 False exp ex by fastforce
  qed
next
  case (4 d v rest part final)
  have "Suc (count_placeholders (replace_first (placeholder d (length final)) part)) = 1 + count_placeholders part"
    using 4(3,5) marks_replace_first[of part] by simp
  then show ?case
    using 4 by fastforce
qed auto

lemma list_all_slice: "list_all P xs \<Longrightarrow> go_slice xs i j = Ok ys \<Longrightarrow> list_all P ys \<and> length ys = j - i"
  by (auto simp: go_slice_def list_all_iff dest: in_set_takeD in_set_dropD split: if_splits)

lemma where_loop_balanced:
  "where_loop d xs parts offset wheres final = Ok (w, final') \<Longrightarrow> d \<noteq> PostgresDialect \<Longrightarrow>
   list_all balanced_arg xs \<Longrightarrow> sum_list (map count_placeholders wheres) = length final \<Longrightarrow>
   count_placeholders w = length final'"
proof (induction d xs parts offset wheres final arbitrary: w final' rule: where_loop.induct)
  case (1 d xs offset wheres final)
  then show ?case
    by (auto simp: marks_join)
next
  case (2 d xs part parts offset wheres final)
  show ?case
  proof (cases "count_placeholders part = 0")
    case True
    show ?thesis
      by (rule "2.IH"(1)[OF refl True]) (use 2(3-6) True in simp_all)
  next
    case False
    then obtain ys p fin
      where ys: "(go_slice xs offset (offset + count_placeholders part) :: (sql_error, _) outcome) = Ok ys"
      and fill: "fill_part d ys part final = Ok (p, fin)"
      and rest: "where_loop d xs parts (offset + count_placeholders part) (wheres @ [p]) fin = Ok (w, final')"
      using 2(3) by (auto simp: Let_def bindO_eq_Ok_iff)
    have "list_all balanced_arg ys" and len: "length ys = count_placeholders part"
      using list_all_slice[OF 2(5) ys] by auto
    then have "sum_list (map count_placeholders (wheres @ [p])) = length fin"
      using fill_part_balanced[OF fill 2(4)] 2(6) by simp
    then show ?thesis
      using "2.IH"(2)[OF refl False ys fill refl rest 2(4,5)] by simp
  qed
qed

lemma where_clause_balanced:
  "where_clause s xs = Ok (w, ys) \<Longrightarrow> question_statement s \<Longrightarrow> list_all balanced_arg xs \<Longrightarrow>
   count_placeholders w = length ys"
  by (auto simp: where_clause_def question_statement_def split: if_splits intro: where_loop_balanced)

lemma marks_clause: "no_marks xs \<Longrightarrow> count_placeholders keyword = 0 \<Longrightarrow> count_placeholders sep = 0 \<Longrightarrow>
  count_placeholders (clause keyword sep xs) = 0"
  by (simp add: clause_def marks_join sum_marks_no_marks)

lemma marks_where_text [simp]: "count_placeholders (where_text w) = count_placeholders w"
  by (simp add: where_text_def)

lemma marks_number_clause: "count_placeholders keyword = 0 \<Longrightarrow> count_placeholders (number_clause keyword n) = 0"
  by (simp add: number_clause_def split: option.split)

lemma question_statementD:
  assumes "question_statement s"
  shows "count_placeholders (st_table s) = 0" and "count_placeholders (having_text s) = 0"
    and "no_marks (st_columns s)" and "no_marks (st_joins s)" and "no_marks (st_group_by s)"
    and "no_marks (st_order_by s)" and "no_marks (column_names (st_values s))"
    and "st_dialect s \<noteq> PostgresDialect"
  using assms by (simp_all add: question_statement_def no_marks_def having_text_def)

lemma marks_columns: "no_marks ws \<Longrightarrow> count_placeholders (join_strings '', '' ws) = 0"
  by (simp add: marks_join sum_marks_no_marks)

lemma marks_set_clause:
  "no_marks cols \<Longrightarrow> d \<noteq> PostgresDialect \<Longrightarrow>
   count_placeholders (join_strings '', '' (map (\<lambda>(i, col). col @ '' = '' @ placeholder d i) (enumerate k cols)))
     = length cols"
  by (induction cols arbitrary: k) (auto simp: marks_join no_marks_def)

lemma columns_and_values_length: "columns_and_values vs = Ok (cols, vals) \<Longrightarrow> length cols = length vals"
  by (auto simp: columns_and_values_def Let_def split: sql_values.splits)

lemmas question_simps = marks_clause marks_number_clause marks_columns question_statementD

lemma statement_balanced:
  assumes "question_statement s" and "list_all balanced_arg xs"
  shows "balanced (statement_sql s xs)"
proof (cases "statement_sql s xs")
  case (Ok r)
  obtain sql ys where r: "r = (sql, ys)" by fastforce
  note q = question_statementD[OF assms(1)] and w = where_clause_balanced[OF _ assms]
  have "count_placeholders sql = length ys"
  proof (cases "st_operation s")
    case OpSelect
    then show ?thesis
      using Ok r q
      by (auto simp: statement_sql_def select_sql_def bindO_eq_Ok_iff marks_clause marks_number_clause
                     marks_columns w split: if_splits)
  next
    case OpInsert
    then obtain cols where "columns_and_values (st_values s) = Ok (cols, ys)"
      and sql: "sql = ''INSERT INTO '' @ st_table s @ '' ('' @ join_strings '', '' cols @ '') VALUES (''
                @ join_strings '', '' (map (placeholder (st_dialect s)) [0..<length ys]) @ '')''"
      using Ok r by (auto simp: statement_sql_def insert_sql_def bindO_eq_Ok_iff split: if_splits)
    then have "no_marks cols"
      using q(7) by (simp add: column_names_def)
    then show ?thesis
      using q by (simp add: sql marks_join comp_def sum_list_triv sum_marks_no_marks)
  next
    case OpUpdate
    then obtain cols vals wh zs where cols: "columns_and_values (st_values s) = Ok (cols, vals)"
      and wh: "where_clause s xs = Ok (wh, zs)" and ys: "ys = vals @ zs"
      and sql: "sql = ''UPDATE '' @ st_table s @ '' SET ''
                 @ join_strings '', '' (map (\<lambda>(i, col). col @ '' = '' @ placeholder (st_dialect s) i)
                                       (enumerate 0 cols)) @ '' WHERE '' @ wh"
      using Ok r by (auto simp: statement_sql_def update_sql_def bindO_eq_Ok_iff split: if_splits)
    then have "no_marks cols"
      using q(7) by (simp add: column_names_def)
    then show ?thesis
      using q w[OF wh] columns_and_values_length[OF cols] marks_set_clause[of cols "st_dialect s" 0]
      by (simp add: sql ys)
  next
    case OpDelete
    then show ?thesis
      using Ok r q
      by (auto simp: statement_sql_def delete_sql_def bindO_eq_Ok_iff w split: if_splits)
  qed
  then show ?thesis
    by (simp add: Ok r balanced_def)
qed (simp_all add: balanced_def)

lemma render_arg_balanced: "question_arg (x :: 'v sql_arg) \<Longrightarrow> balanced_arg (render_arg x)"
  and to_sql_balanced: "question_builder (b :: 'v builder) \<Longrightarrow> balanced (to_sql b)"
proof (induction x and b rule: render_arg_to_sql.induct)
  case (5 s xs k)
  then have "list_all balanced_arg (map render_arg xs @ replicate k (Plain None))"
    by (auto simp: list_all_iff balanced_arg_def)
  with 5 show ?case
    unfolding to_sql.simps by (intro statement_balanced) simp_all
qed (simp_all add: balanced_arg_def)

text \<open>
  C32: with a dialect whose placeholder is a question mark, a statement has as many placeholders as
  arguments, subqueries, lists and empty lists included, provided its other clauses contain no
  question mark.
\<close>
theorem placeholders_match_args:
  assumes "question_builder b" and "to_sql b = Ok (sql, xs)"
  shows "count_placeholders sql = length xs"
  using to_sql_balanced[OF assms(1)] assms(2) by (simp add: balanced_def)

lemma placeholders_match_args_witness:
  "count_placeholders ''SELECT * FROM t WHERE a = ? AND b IN (?, ?)'' = length [Some 1, Some 2, Some (3::int)]"
proof -
  let ?b = "add_where 0 ''b IN ?'' [SliceArg [Some 2, Some (3::int)]]
              (add_where 0 ''a = ?'' [ScalarArg 1] (from_table ''t'' (new_builder MysqlDialect)))"
  have "question_builder ?b" by code_simp
  moreover have "to_sql ?b = Ok (''SELECT * FROM t WHERE a = ? AND b IN (?, ?)'', [Some 1, Some 2, Some 3])"
    by code_simp
  ultimately show ?thesis by (rule placeholders_match_args)
qed

section \<open>One statement for every dialect\<close>

lemma number_append:
  "number_placeholders i (a @ b) = number_placeholders i a @ number_placeholders (i + count_placeholders a) b"
  by (induction a arbitrary: i) auto

lemma number_no_marks: "count_placeholders a = 0 \<Longrightarrow> number_placeholders i a = a"
  by (induction a arbitrary: i) (auto split: if_splits)

lemma number_Nil_iff [simp]: "number_placeholders i a = [] \<longleftrightarrow> a = []"
  by (cases a) auto

lemma number_where_text: "number_placeholders i (where_text w) = where_text (number_placeholders i w)"
  by (auto simp: where_text_def number_append number_no_marks)

lemma fill_plain_question:
  "d \<noteq> PostgresDialect \<Longrightarrow> fill_part d (map Plain vs) part final = Ok (part, final @ vs)"
proof (induction vs arbitrary: final)
  case (Cons v vs)
  have "replace_first ''?'' s = s" for s
    by (induction s) auto
  with Cons show ?case
    by (simp add: placeholder_def)
qed simp

lemma fill_plain_postgres:
  "count_placeholders u = 0 \<Longrightarrow> length vs = count_placeholders part \<Longrightarrow>
   fill_part PostgresDialect (map Plain vs) (u @ part) final =
     Ok (u @ number_placeholders (Suc (length final)) part, final @ vs)"
proof (induction vs arbitrary: u part final)
  case Nil
  then show ?case by (simp add: number_no_marks)
next
  case (Cons v vs)
  then have "CHR ''?'' \<in> set part"
    using Cons.prems(2) marks_0_iff[of part] by auto
  then obtain pre post where part: "part = pre @ CHR ''?'' # post" and pre: "CHR ''?'' \<notin> set pre"
    by (meson split_list_first)
  let ?p = "placeholder PostgresDialect (length final)"
  have "replace_first ?p (u @ part) = (u @ pre @ ?p) @ post"
    using replace_first_prefix[of "u @ pre"] Cons.prems(1) pre by (simp add: part marks_0_iff)
  moreover have "count_placeholders (u @ pre @ ?p) = 0" and "length vs = count_placeholders post"
    using Cons.prems pre marks_0_iff[of pre] by (simp_all add: part)
  ultimately have "fill_part PostgresDialect (map Plain (v # vs)) (u @ part) final =
      Ok ((u @ pre @ ?p) @ number_placeholders (Suc (length (final @ [v]))) post, (final @ [v]) @ vs)"
    using Cons.IH[of "u @ pre @ ?p" post "final @ [v]"] by simp
  then show ?case
    using pre marks_0_iff[of pre]
    by (simp add: part number_append number_no_marks placeholder_def add.commute)
qed

lemma join_snoc: "join_strings sep (ws @ [w]) = (if ws = [] then w else join_strings sep ws @ sep @ w)"
  by (induction sep ws rule: join_strings.induct) auto

lemma where_loop_numbered:
  assumes "d \<noteq> PostgresDialect"
  shows "length ws' = length ws \<Longrightarrow> join_strings '' AND '' ws' = number_placeholders 1 (join_strings '' AND '' ws) \<Longrightarrow>
    count_placeholders (join_strings '' AND '' ws) = length final \<Longrightarrow>
    where_loop PostgresDialect (map Plain ys) parts offset ws' final =
    mapO (\<lambda>(w, xs). (number_placeholders 1 w, xs)) (where_loop d (map Plain ys) parts offset ws final)"
proof (induction parts arbitrary: offset ws ws' final)
  case (Cons part parts)
  define n where "n = count_placeholders part"
  have snoc: "join_strings '' AND '' (ws' @ [number_placeholders (Suc (length final)) part]) =
      number_placeholders 1 (join_strings '' AND '' (ws @ [part]))"
    and marks: "count_placeholders (join_strings '' AND '' (ws @ [part])) = length final + n"
    using Cons.prems by (auto simp: join_snoc number_append n_def)
  show ?case
  proof (cases "n = 0")
    case True
    then have "number_placeholders (Suc (length final)) part = part"
      by (simp add: n_def number_no_marks)
    then show ?thesis
      using Cons.IH[of "ws' @ [part]" "ws @ [part]" final offset] Cons.prems(1) snoc marks True
      by (simp add: n_def)
  next
    case False
    show ?thesis
    proof (cases "offset + n \<le> length ys")
      case True
      define vs where "vs = take n (drop offset ys)"
      have slice: "(go_slice (map Plain ys) offset (offset + n) :: (sql_error, _) outcome) = Ok (map Plain vs)"
        and len: "length vs = n"
        using True by (simp_all add: go_slice_def vs_def take_map drop_map)
      have "fill_part PostgresDialect (map Plain vs) part final =
          Ok (number_placeholders (Suc (length final)) part, final @ vs)"
        using fill_plain_postgres[of "[]"] len by (simp add: n_def)
      then show ?thesis
        using False slice Cons.IH[of "ws' @ [number_placeholders (Suc (length final)) part]" "ws @ [part]"
            "final @ vs" "offset + n"] Cons.prems(1) snoc marks len
        by (simp add: n_def[symmetric] Let_def fill_plain_question[OF assms])
    next
      case outside: False
      then have "go_slice (map Plain ys) offset (offset + n) = (Panic :: (sql_error, 'a rendered list) outcome)"
        by (simp add: go_slice_def)
      then show ?thesis
        using False by (simp add: n_def[symmetric] Let_def)
    qed
  qed
qed simp

lemma where_clause_numbered:
  "st_dialect s \<noteq> PostgresDialect \<Longrightarrow>
   where_clause (s\<lparr>st_dialect := PostgresDialect\<rparr>) (map Plain ys) =
   mapO (\<lambda>(w, xs). (number_placeholders 1 w, xs)) (where_clause s (map Plain ys))"
  using where_loop_numbered[of "st_dialect s" "[]" "[]" "[]" ys "st_where s" 0]
  by (simp add: where_clause_def)

lemma number_values:
  "number_placeholders (Suc k) (join_strings '', '' (map (\<lambda>_. ''?'') [k..<k + n])) =
   join_strings '', '' (map (placeholder PostgresDialect) [k..<k + n])"
proof (induction n arbitrary: k)
  case (Suc n)
  show ?case
  proof (cases n)
    case 0
    then show ?thesis by (simp add: placeholder_def add.commute)
  next
    case (Suc m)
    then have upt: "[k..<k + Suc n] = k # Suc k # [Suc (Suc k)..<k + Suc n]"
      by (simp add: upt_rec)
    have "[Suc k..<Suc k + n] = Suc k # [Suc (Suc k)..<k + Suc n]"
      using Suc by (simp add: upt_rec)
    then show ?thesis
      using Suc.IH[of "Suc k"] unfolding upt by (simp add: placeholder_def add.commute)
  qed
qed simp

definition plain_arg :: "'v sql_arg \<Rightarrow> bool" where
  "plain_arg x \<longleftrightarrow> (case x of NilArg \<Rightarrow> True | ScalarArg _ \<Rightarrow> True | _ \<Rightarrow> False)"

lemma plain_args: "list_all plain_arg xs \<Longrightarrow> \<exists>ys. map render_arg xs = map Plain ys"
proof (induction xs)
  case (Cons x xs)
  then obtain ys where "map render_arg xs = map Plain ys" by auto
  moreover obtain y where "render_arg x = Plain y"
    using Cons.prems by (cases x) (auto simp: plain_arg_def)
  ultimately have "map render_arg (x # xs) = map Plain (y # ys)" by simp
  then show ?case by blast
qed simp

lemma having_text_dialect: "having_text (s\<lparr>st_dialect := d\<rparr>) = having_text s"
  by (simp add: having_text_def)

lemma statement_numbered:
  assumes "question_statement s" and "st_operation s \<noteq> OpUpdate"
  shows "statement_sql (s\<lparr>st_dialect := PostgresDialect\<rparr>) (map Plain ys) =
    mapO (\<lambda>(q, xs). (number_placeholders 1 q, xs)) (statement_sql s (map Plain ys))"
proof -
  note q = question_statementD[OF assms(1)]
  note num = where_clause_numbered[OF q(8), of ys] and parts = marks_clause[OF q(4)] marks_clause[OF q(5)]
    marks_clause[OF q(6)] marks_columns[OF q(3)] marks_number_clause q(1,2)
  show ?thesis
  proof (cases "st_operation s")
    case OpSelect
    then show ?thesis
      by (cases "where_clause s (map Plain ys)")
         (auto simp: statement_sql_def select_sql_def having_text_dialect num
             number_append number_no_marks number_where_text parts)
  next
    case OpInsert
    show ?thesis
    proof (cases "columns_and_values (st_values s)")
      case (Ok r)
      obtain cols vals where r: "r = (cols, vals)" by fastforce
      have "no_marks cols"
        using q(7) Ok r by (simp add: column_names_def)
      moreover have "placeholder (st_dialect s) = (\<lambda>_. ''?'')"
        using q(8) by (simp add: placeholder_def fun_eq_iff)
      ultimately show ?thesis
        using OpInsert Ok r q(1) number_values[of 0 "length vals"]
        by (simp add: statement_sql_def insert_sql_def number_append number_no_marks marks_columns)
    qed (use OpInsert in \<open>simp_all add: statement_sql_def insert_sql_def\<close>)
  next
    case OpDelete
    then show ?thesis
      by (cases "where_clause s (map Plain ys)")
         (auto simp: statement_sql_def delete_sql_def num number_append number_no_marks parts)
  qed (use assms in simp)
qed

text \<open>
  When the arguments are single values, the select, insert and delete statements for
  PostgreSQL are those of the other dialects with their placeholders numbered from 1, that is what
  \<open>PlaceholderSQL\<close> makes of them; the arguments are the same and so are the errors and panics.
\<close>
theorem postgres_statement_is_numbered:
  assumes "question_builder b" and "list_all plain_arg (sql_args b)"
  and "st_operation (stmt b) \<noteq> OpUpdate"
  shows "to_sql (with_stmt (\<lambda>s. s\<lparr>st_dialect := PostgresDialect\<rparr>) b) =
    mapO (\<lambda>(q, xs). (placeholder_sql PostgresDialect q, xs)) (to_sql b)"
proof -
  obtain ys where "map render_arg (sql_args b) = map Plain ys"
    using plain_args[OF assms(2)] by blast
  then have args: "map render_arg (sql_args b) @ replicate (spare b) (Plain None) =
      map Plain (ys @ replicate (spare b) None)"
    by simp
  obtain s xs k where b: "b = Builder s xs k" by (cases b)
  show ?thesis
    using statement_numbered[of s "ys @ replicate k None"] assms args
    by (simp add: b with_stmt_def placeholder_sql_def)
qed

lemma postgres_statement_is_numbered_witness:
  "to_sql (add_where 0 ''a = ? OR b = ?'' [ScalarArg 1, ScalarArg (2::int)]
      (from_table ''t'' (new_builder PostgresDialect))) =
   mapO (\<lambda>(q, xs). (placeholder_sql PostgresDialect q, xs))
     (to_sql (add_where 0 ''a = ? OR b = ?'' [ScalarArg 1, ScalarArg 2] (from_table ''t'' (new_builder MysqlDialect))))"
proof -
  let ?b = "add_where 0 ''a = ? OR b = ?'' [ScalarArg 1, ScalarArg (2::int)] (from_table ''t'' (new_builder MysqlDialect))"
  have "question_builder ?b" by code_simp
  moreover have "list_all plain_arg (sql_args ?b)" by code_simp
  moreover have "st_operation (stmt ?b) \<noteq> OpUpdate" by code_simp
  ultimately have "to_sql (with_stmt (\<lambda>s. s\<lparr>st_dialect := PostgresDialect\<rparr>) ?b) =
      mapO (\<lambda>(q, xs). (placeholder_sql PostgresDialect q, xs)) (to_sql ?b)"
    by (rule postgres_statement_is_numbered)
  then show ?thesis
    by (simp add: with_stmt_def add_where_def append_args_def from_table_def new_builder_def)
qed

section \<open>No update or delete without a condition\<close>

text \<open>
  C38: whatever a builder has been through, an update or delete statement it yields carries a
  condition that is not empty, the one its \<open>Where\<close> calls describe.
\<close>
theorem no_unsafe_statement:
  assumes "to_sql b = Ok (sql, xs)" and "st_operation (stmt b) = OpUpdate \<or> st_operation (stmt b) = OpDelete"
  shows "\<exists>command w ws. sql = command @ '' WHERE '' @ w \<and> w \<noteq> '''' \<and>
    where_clause (stmt b) (rendered_args b) = Ok (w, ws) \<and> st_where (stmt b) \<noteq> []"
proof -
  obtain s ys k where b: "b = Builder s ys k" by (cases b)
  let ?xs = "map render_arg ys @ replicate k (Plain None)"
  have "\<exists>w ws command. where_clause s ?xs = Ok (w, ws) \<and> w \<noteq> '''' \<and> sql = command @ '' WHERE '' @ w"
  proof (cases "st_operation s = OpDelete")
    case True
    then show ?thesis
      using assms(1) unfolding b
      by (fastforce simp: statement_sql_def delete_sql_def bindO_eq_Ok_iff split: if_splits)
  next
    case False
    then show ?thesis
      using assms unfolding b
      by (fastforce simp: statement_sql_def update_sql_def bindO_eq_Ok_iff split: if_splits
                    simp flip: append_assoc)
  qed
  then obtain w ws command where w: "where_clause s ?xs = Ok (w, ws)" "w \<noteq> ''''"
    and "sql = command @ '' WHERE '' @ w" by blast
  moreover have "st_where s \<noteq> []"
    using w by (auto simp: where_clause_def)
  ultimately show ?thesis
    unfolding b rendered_args_def builder.sel by blast
qed

lemma no_unsafe_statement_witness:
  "\<exists>command w ws. ''DELETE FROM t WHERE id = ?'' = command @ '' WHERE '' @ w \<and> w \<noteq> '''' \<and>
    where_clause (stmt (add_where 0 ''id = ?'' [ScalarArg (5::int)] (delete_from ''t'' (new_builder MysqlDialect))))
      (rendered_args (add_where 0 ''id = ?'' [ScalarArg (5::int)] (delete_from ''t'' (new_builder MysqlDialect))))
      = Ok (w, ws) \<and>
    st_where (stmt (add_where 0 ''id = ?'' [ScalarArg (5::int)] (delete_from ''t'' (new_builder MysqlDialect)))) \<noteq> []"
proof (rule no_unsafe_statement)
  show "to_sql (add_where 0 ''id = ?'' [ScalarArg (5::int)] (delete_from ''t'' (new_builder MysqlDialect)))
      = Ok (''DELETE FROM t WHERE id = ?'', [Some 5])" by code_simp
  show "st_operation (stmt (add_where 0 ''id = ?'' [ScalarArg (5::int)] (delete_from ''t'' (new_builder MysqlDialect))))
      = OpUpdate \<or>
    st_operation (stmt (add_where 0 ''id = ?'' [ScalarArg (5::int)] (delete_from ''t'' (new_builder MysqlDialect))))
      = OpDelete" by code_simp
qed

section \<open>Where the placeholders go wrong\<close>

text \<open>
  For PostgreSQL the placeholders of a list are numbered in steps of two, because the position
  of an element is added to a length that already counts the elements before it: a list of three
  values at the start of a statement becomes \<open>($1, $3, $5)\<close> with three arguments.
\<close>
theorem postgres_list_skips_numbers:
  "expand_slice PostgresDialect 0 xs final =
     (map (\<lambda>i. CHR ''$'' # itoa (int (length final + 2 * i + 1))) [0..<length xs], final @ xs)"
proof -
  have "expand_slice PostgresDialect j xs final =
      (map (\<lambda>i. CHR ''$'' # itoa (int (length final + j + 2 * i + 1))) [0..<length xs], final @ xs)" for j
  proof (induction xs arbitrary: j final)
    case (Cons x xs)
    have upt: "[0..<length (x # xs)] = 0 # map Suc [0..<length xs]"
      by (simp add: upt_conv_Cons map_Suc_upt del: upt_Suc)
    have "length (final @ [x]) + Suc j + 2 * i + 1 = length final + j + 2 * Suc i + 1" for i
      by simp
    then show ?case
      using Cons[of "Suc j" "final @ [x]"] unfolding upt by (simp add: placeholder_def comp_def add.commute)
  qed simp
  from this[of 0] show ?thesis by simp
qed

text \<open>
  An update numbers the placeholders of its condition from 1 again; a list after a single value
  takes the value's place in the dialects with question marks; the arguments of \<open>Having\<close> are lost.
\<close>

lemma update_reuses_numbers:
  "to_sql (add_where 0 ''id = ?'' [ScalarArg (9::int)]
      (update_table ''t'' (MapValues [(''x'', Some 3)]) (new_builder PostgresDialect)))
     = Ok (''UPDATE t SET x = $1 WHERE id = $1'', [Some 3, Some 9])"
  by code_simp

lemma list_takes_place_of_value:
  "to_sql (add_where 0 ''b = ? AND a IN ?'' [ScalarArg (1::int), SliceArg [Some 5, Some 6]]
      (from_table ''t'' (new_builder MysqlDialect)))
     = Ok (''SELECT * FROM t WHERE b = (?, ?) AND a IN ?'', [Some 1, Some 5, Some 6])"
  by code_simp

lemma having_arguments_lost:
  "to_sql (set_having 0 ''COUNT(1) > ?'' [ScalarArg (9::int)] (from_table ''t'' (new_builder MysqlDialect)))
     = Ok (''SELECT * FROM t HAVING COUNT(1) > ?'', [])"
  by code_simp

end
