(* ===== verification/SqlTx.thy ===== *)
theory SqlTx
  imports SqlBuilder "HOL-Library.List_Lexorder" "HOL-Library.Char_ord"
begin

text \<open>
  \<open>gsql/db.go\<close>, \<open>gsql/tx.go\<close> and \<open>gsql/migrate.go\<close>: transactions, nested transactions over
  savepoints, and the migrator.  The database is a parameter: it answers each command with an error
  or with rows, depending on all the commands it has got so far.  What a caller does inside a
  transaction is a program: it sends statements and opens nested transactions, and sees the answer
  of each before it goes on.
\<close>

section \<open>Commands and programs\<close>

datatype command =
    BeginTx
  | CommitTx
  | RollbackTx
  | Savepoint string
  | RollbackTo string
  | Release string
  | Statement string "string list"

text \<open>What the code sends for a savepoint command.\<close>

fun command_text :: "command \<Rightarrow> string" where
  "command_text (Savepoint n) = ''SAVEPOINT '' @ n"
| "command_text (RollbackTo n) = ''ROLLBACK TO SAVEPOINT '' @ n"
| "command_text (Release n) = ''RELEASE SAVEPOINT '' @ n"
| "command_text (Statement q xs) = q"
| "command_text _ = ''''"

datatype tx_error =
    DbError nat
  | NestedDisabled string
  | UnknownStrategy
  | CreateSavepointFailed tx_error
  | ReleaseSavepointFailed tx_error
  | CannotCommitNested
  | CannotRollbackNested
  | CommitFailed tx_error
  | UserError nat
  | CollectFailed nat
  | RecorderInitFailed tx_error
  | AppliedQueryFailed tx_error
  | NoUpFunction string
  | ApplyFailed string tx_error
  | RecordFailed string tx_error
  | StructStatementFailed string tx_error

type_synonym result = "(tx_error, unit) outcome"

type_synonym answer = "nat + string list"

type_synonym database = "command list \<Rightarrow> command \<Rightarrow> answer"

datatype program =
    Finish result
  | Send string "string list" "answer \<Rightarrow> program"
  | Nested program "result \<Rightarrow> program"

text \<open>The commands sent to a connection, each with the answer it got.\<close>

type_synonym session = "(command \<times> answer) list"

definition send :: "database \<Rightarrow> command \<Rightarrow> session \<Rightarrow> answer \<times> session" where
  "send db c s = (let a = db (map fst s) c in (a, s @ [(c, a)]))"

section \<open>Transactions\<close>

datatype nested_strategy = NestedSavepoint | NestedReuse | NestedError | NestedDialect | OtherStrategyValue

record db =
  db_dialect :: dialect
  db_driver :: string
  db_nested :: nested_strategy

record tx_options =
  to_nested :: nested_strategy
  to_namer :: "(nat \<Rightarrow> string) option"

record tx =
  tx_db :: db
  tx_nested :: nested_strategy
  tx_level :: nat
  tx_namer :: "nat \<Rightarrow> string"

definition default_savepoint_namer :: "nat \<Rightarrow> string" where
  "default_savepoint_namer level = ''gsql_sp_'' @ itoa (int level)"

definition wrap_db :: "string \<Rightarrow> (db \<Rightarrow> db) list \<Rightarrow> db" where
  "wrap_db driver opts =
     fold (\<lambda>opt d. opt d) opts
       \<lparr>db_dialect = new_dialect driver, db_driver = driver, db_nested = NestedSavepoint\<rparr>"

definition with_db_nested_strategy :: "nested_strategy \<Rightarrow> db \<Rightarrow> db" where
  "with_db_nested_strategy s d = d\<lparr>db_nested := s\<rparr>"

definition default_tx_options :: "db \<Rightarrow> tx_options" where
  "default_tx_options d = \<lparr>to_nested = db_nested d, to_namer = Some default_savepoint_namer\<rparr>"

datatype tx_option = WithTxNestedStrategy nested_strategy | WithTxSavepointNamer "(nat \<Rightarrow> string) option"

fun apply_tx_option :: "tx_option \<Rightarrow> tx_options \<Rightarrow> tx_options" where
  "apply_tx_option (WithTxNestedStrategy s) opts = opts\<lparr>to_nested := s\<rparr>"
| "apply_tx_option (WithTxSavepointNamer namer) opts =
     (case namer of None \<Rightarrow> opts | Some f \<Rightarrow> opts\<lparr>to_namer := Some f\<rparr>)"

definition new_tx :: "db \<Rightarrow> nat \<Rightarrow> tx_options \<Rightarrow> tx" where
  "new_tx d level opts =
     \<lparr>tx_db = d, tx_nested = to_nested opts, tx_level = level,
      tx_namer = (case to_namer opts of None \<Rightarrow> default_savepoint_namer | Some f \<Rightarrow> f)\<rparr>"

definition effective_strategy :: "tx \<Rightarrow> nested_strategy" where
  "effective_strategy t =
     (if tx_nested t = NestedDialect then
        (if supports_savepoint (db_dialect (tx_db t)) then NestedSavepoint else NestedError)
      else tx_nested t)"

definition nested_tx :: "tx \<Rightarrow> tx" where
  "nested_tx t = new_tx (tx_db t) (tx_level t + 1) \<lparr>to_nested = tx_nested t, to_namer = Some (tx_namer t)\<rparr>"

text \<open>
  \<open>NestedTxContext\<close> with the function it is given: a panic of the function is passed on after the
  rollback to the savepoint, as is its error.
\<close>

definition nested_tx_context ::
  "database \<Rightarrow> tx \<Rightarrow> (tx \<Rightarrow> session \<Rightarrow> result \<times> session) \<Rightarrow> session \<Rightarrow> result \<times> session" where
  "nested_tx_context db t fn s =
     (let nested = nested_tx t in
      case effective_strategy t of
        NestedReuse \<Rightarrow> fn nested s
      | NestedError \<Rightarrow> (Err (NestedDisabled (db_driver (tx_db t))), s)
      | NestedSavepoint \<Rightarrow>
          (let name = tx_namer t (tx_level t + 1); (a, s) = send db (Savepoint name) s in
           case a of
             Inl e \<Rightarrow> (Err (CreateSavepointFailed (DbError e)), s)
           | Inr _ \<Rightarrow>
               (let (r, s) = fn nested s in
                case r of
                  Panic \<Rightarrow> (Panic, snd (send db (RollbackTo name) s))
                | Err e \<Rightarrow> (Err e, snd (send db (RollbackTo name) s))
                | Ok _ \<Rightarrow>
                    (let (a, s) = send db (Release name) s in
                     case a of
                       Inl e \<Rightarrow> (Err (ReleaseSavepointFailed (DbError e)), s)
                     | Inr _ \<Rightarrow> (Ok (), s))))
      | _ \<Rightarrow> (Err UnknownStrategy, s))"

primrec run_program :: "database \<Rightarrow> program \<Rightarrow> tx \<Rightarrow> session \<Rightarrow> result \<times> session" where
  "run_program db (Finish r) = (\<lambda>t s. (r, s))"
| "run_program db (Send q xs k) =
     (\<lambda>t s. let (a, s) = send db (Statement q xs) s in run_program db (k a) t s)"
| "run_program db (Nested p k) =
     (\<lambda>t s. let (r, s) = nested_tx_context db t (run_program db p) s in run_program db (k r) t s)"

definition tx_commit :: "database \<Rightarrow> tx \<Rightarrow> session \<Rightarrow> result \<times> session" where
  "tx_commit db t s =
     (if tx_level t > 0 then (Err CannotCommitNested, s)
      else (let (a, s) = send db CommitTx s
            in (case a of Inl e \<Rightarrow> (Err (DbError e), s) | Inr _ \<Rightarrow> (Ok (), s))))"

definition tx_rollback :: "database \<Rightarrow> tx \<Rightarrow> session \<Rightarrow> result \<times> session" where
  "tx_rollback db t s =
     (if tx_level t > 0 then (Err CannotRollbackNested, s)
      else (let (a, s) = send db RollbackTx s
            in (case a of Inl e \<Rightarrow> (Err (DbError e), s) | Inr _ \<Rightarrow> (Ok (), s))))"

text \<open>\<open>DB.TxContext\<close>; the deferred function rolls back or commits.\<close>

definition tx_context ::
  "database \<Rightarrow> db \<Rightarrow> tx_option list \<Rightarrow> program \<Rightarrow> session \<Rightarrow> result \<times> session" where
  "tx_context db d opts p s =
     (let tx_opts = fold apply_tx_option opts (default_tx_options d);
          (a, s) = send db BeginTx s
      in case a of
           Inl e \<Rightarrow> (Err (DbError e), s)
         | Inr _ \<Rightarrow>
             (let (r, s) = run_program db p (new_tx d 0 tx_opts) s in
              case r of
                Panic \<Rightarrow> (Panic, snd (send db RollbackTx s))
              | Err e \<Rightarrow> (Err e, snd (send db RollbackTx s))
              | Ok _ \<Rightarrow>
                  (let (a, s) = send db CommitTx s in
                   case a of
                     Inl e \<Rightarrow> (Err (CommitFailed (DbError e)), s)
                   | Inr _ \<Rightarrow> (Ok (), s))))"

section \<open>Migrations\<close>

text \<open>Running one program and then another, which sees the result of the first.\<close>

primrec and_then :: "program \<Rightarrow> (result \<Rightarrow> program) \<Rightarrow> program" where
  "and_then (Finish r) = (\<lambda>k. k r)"
| "and_then (Send q xs f) = (\<lambda>k. Send q xs (\<lambda>a. and_then (f a) k))"
| "and_then (Nested p f) = (\<lambda>k. Nested p (\<lambda>r. and_then (f r) k))"

text \<open>Go on with \<open>k\<close> on success, otherwise fail with the error wrapped by \<open>f\<close>.\<close>

definition check :: "(tx_error \<Rightarrow> tx_error) \<Rightarrow> program \<Rightarrow> result \<Rightarrow> program" where
  "check f k r = (case r of Ok _ \<Rightarrow> k | Err e \<Rightarrow> Finish (Err (f e)) | Panic \<Rightarrow> Finish Panic)"

definition exec_only :: "string \<Rightarrow> string list \<Rightarrow> program" where
  "exec_only q xs = Send q xs (\<lambda>a. Finish (case a of Inl e \<Rightarrow> Err (DbError e) | Inr _ \<Rightarrow> Ok ()))"

record migration =
  mig_id :: string
  mig_name :: string
  mig_up :: "program option"
  mig_up_with_context :: "program option"

text \<open>
  The interface \<open>Recorder\<close>: what it does to initialise, to record an identifier, and to ask for the
  recorded ones, whose set the rest of a program gets.
\<close>

record recorder =
  rec_init :: program
  rec_record :: "string \<Rightarrow> program"
  rec_applied :: "(string list \<Rightarrow> program) \<Rightarrow> program"

definition db_recorder :: "string \<Rightarrow> dialect \<Rightarrow> (string \<Rightarrow> string) \<Rightarrow> recorder" where
  "db_recorder table d now =
     \<lparr>rec_init = exec_only (''CREATE TABLE IF NOT EXISTS '' @ table @ '' (id '' @ primary_key_str d
                   @ '' PRIMARY KEY, applied_at '' @ data_type_of d TimeType @ '')'') [],
      rec_record = (\<lambda>ident. exec_only
                   (placeholder_sql d (''INSERT INTO '' @ table @ '' (id, applied_at) VALUES (?, ?)'')) [ident, now ident]),
      rec_applied = (\<lambda>k. Send (''SELECT id FROM '' @ table) []
                   (\<lambda>a. case a of Inl e \<Rightarrow> Finish (Err (AppliedQueryFailed (DbError e))) | Inr ids \<Rightarrow> k ids))\<rparr>"

definition log_recorder :: recorder where
  "log_recorder =
     \<lparr>rec_init = Finish (Ok ()), rec_record = (\<lambda>ident. Finish (Ok ())), rec_applied = (\<lambda>k. k [])\<rparr>"

fun apply_migrations :: "recorder \<Rightarrow> string list \<Rightarrow> migration list \<Rightarrow> program" where
  "apply_migrations rec applied [] = Finish (Ok ())"
| "apply_migrations rec applied (mig # migs) =
     (if mig_id mig \<in> set applied then apply_migrations rec applied migs
      else
        (let run_up = (if mig_up_with_context mig \<noteq> None then mig_up_with_context mig else mig_up mig) in
         case run_up of
           None \<Rightarrow> Finish (Err (NoUpFunction (mig_name mig)))
         | Some up \<Rightarrow>
             and_then up (check (ApplyFailed (mig_name mig))
               (and_then (rec_record rec (mig_id mig)) (check (RecordFailed (mig_name mig))
                 (apply_migrations rec applied migs))))))"

definition migration_program :: "recorder \<Rightarrow> migration list \<Rightarrow> program" where
  "migration_program rec migs =
     and_then (rec_init rec) (check RecorderInitFailed
       (rec_applied rec (\<lambda>applied. apply_migrations rec applied migs)))"

fun collect_migrations :: "(nat + migration list) list \<Rightarrow> nat + migration list" where
  "collect_migrations [] = Inr []"
| "collect_migrations (source # sources) =
     (case source of
        Inl e \<Rightarrow> Inl e
      | Inr migs \<Rightarrow>
          (case collect_migrations sources of Inl e \<Rightarrow> Inl e | Inr rest \<Rightarrow> Inr (migs @ rest)))"

text \<open>
  \<open>Migrator.Run\<close>.  Strings are compared byte by byte; \<open>sort.Slice\<close> leaves the order of migrations
  with equal identifiers open, here they keep theirs.
\<close>

definition migrator_run ::
  "database \<Rightarrow> db \<Rightarrow> recorder \<Rightarrow> (nat + migration list) list \<Rightarrow> session \<Rightarrow> result \<times> session" where
  "migrator_run db d rec sources s =
     (case collect_migrations sources of
        Inl e \<Rightarrow> (Err (CollectFailed e), s)
      | Inr migs \<Rightarrow> tx_context db d [] (migration_program rec (sort_key mig_id migs)) s)"

text \<open>A migration whose \<open>Up\<close> sends one statement, as the SQL directory sources make them.\<close>

definition sql_migration :: "string \<Rightarrow> string \<Rightarrow> string \<Rightarrow> migration" where
  "sql_migration ident name up =
     \<lparr>mig_id = ident, mig_name = name, mig_up = Some (exec_only up []),
      mig_up_with_context = Some (exec_only up [])\<rparr>"

end
