(* ===== verification/SqlTxFacts.thy ===== *)
theory SqlTxFacts
  imports SqlTx
begin

text \<open>
  What transactions promise, against the meaning of savepoints in SQL: the statements accepted by
  the database that are in effect.  A transaction that fails leaves nothing, a nested transaction
  that fails leaves what was there before it, and a migration run applies all pending migrations in
  the order of their identifiers or none.
\<close>

section \<open>The statements in effect\<close>

type_synonym entries = "(string \<times> string list) list"

record ledger =
  durable :: entries
  current :: entries
  points :: "(string \<times> entries) list"

definition from_point :: "string \<Rightarrow> (string \<times> entries) list \<Rightarrow> (string \<times> entries) list" where
  "from_point n ps = dropWhile (\<lambda>p. fst p \<noteq> n) ps"

fun apply_command :: "command \<Rightarrow> ledger \<Rightarrow> ledger" where
  "apply_command BeginTx l = l\<lparr>current := [], points := []\<rparr>"
| "apply_command CommitTx l = l\<lparr>durable := durable l @ current l, current := [], points := []\<rparr>"
| "apply_command RollbackTx l = l\<lparr>current := [], points := []\<rparr>"
| "apply_command (Savepoint n) l = l\<lparr>points := (n, current l) # points l\<rparr>"
| "apply_command (RollbackTo n) l =
     (case from_point n (points l) of
        [] \<Rightarrow> l
      | (m, saved) # ps \<Rightarrow> l\<lparr>current := saved, points := (m, saved) # ps\<rparr>)"
| "apply_command (Release n) l =
     (case from_point n (points l) of [] \<Rightarrow> l | _ # ps \<Rightarrow> l\<lparr>points := ps\<rparr>)"
| "apply_command (Statement q xs) l = l\<lparr>current := current l @ [(q, xs)]\<rparr>"

text \<open>A command answered with an error has no effect.\<close>

definition apply_answer :: "command \<times> answer \<Rightarrow> ledger \<Rightarrow> ledger" where
  "apply_answer ca l = (case snd ca of Inl e \<Rightarrow> l | Inr rows \<Rightarrow> apply_command (fst ca) l)"

definition effects :: "session \<Rightarrow> ledger" where
  "effects s = fold apply_answer s \<lparr>durable = [], current = [], points = []\<rparr>"

lemma effects_snoc [simp]: "effects (s @ [ca]) = apply_answer ca (effects s)"
  by (simp add: effects_def)

lemma send_eq: "send db c s = (db (map fst s) c, s @ [(c, db (map fst s) c)])"
  by (simp add: send_def Let_def)

lemma effects_send:
  "effects (snd (send db c s)) =
     (case fst (send db c s) of Inl e \<Rightarrow> effects s | Inr rows \<Rightarrow> apply_command c (effects s))"
  by (simp add: send_eq apply_answer_def split: sum.split)

section \<open>Programs\<close>

text \<open>What a program leaves: the savepoints below it, and no durable effect.\<close>

definition keeps :: "(nat \<Rightarrow> string) \<Rightarrow> nat \<Rightarrow> ledger \<Rightarrow> ledger \<Rightarrow> bool" where
  "keeps namer level l l' \<longleftrightarrow>
     durable l' = durable l \<and>
     (\<exists>extra. points l' = extra @ points l \<and> list_all (\<lambda>p. \<exists>k > level. fst p = namer k) extra)"

lemma keeps_refl [simp]: "keeps namer level l l"
  by (simp add: keeps_def)

lemma keeps_trans: "keeps namer level l l' \<Longrightarrow> keeps namer level l' l'' \<Longrightarrow> keeps namer level l l''"
  by (fastforce simp: keeps_def)

lemma keeps_level: "keeps namer (Suc level) l l' \<Longrightarrow> keeps namer level l l'"
  unfolding keeps_def list_all_iff by (meson Suc_lessD)

lemma keeps_statement: "keeps namer level l (l\<lparr>current := xs\<rparr>)"
  by (simp add: keeps_def)

lemma from_point_skip:
  "list_all (\<lambda>p. fst p \<noteq> n) extra \<Longrightarrow> from_point n (extra @ (n, saved) # ps) = (n, saved) # ps"
  by (induction extra) (auto simp: from_point_def)

lemma nested_fields [simp]:
  "tx_namer (nested_tx t) = tx_namer t" "tx_level (nested_tx t) = Suc (tx_level t)"
  "tx_nested (nested_tx t) = tx_nested t" "tx_db (nested_tx t) = tx_db t"
  by (simp_all add: nested_tx_def new_tx_def)

text \<open>
  Between a savepoint and its release or rollback, the function of a nested transaction leaves the
  savepoint in reach, when the names of different levels differ.
\<close>

lemma point_in_reach:
  assumes "inj namer" and "keeps namer (Suc level) l' l''"
  and "points l' = (namer (Suc level), saved) # ps"
  shows "from_point (namer (Suc level)) (points l'') = (namer (Suc level), saved) # ps"
proof -
  obtain extra where "points l'' = extra @ points l'" and "list_all (\<lambda>p. \<exists>k > Suc level. fst p = namer k) extra"
    using assms(2) by (auto simp: keeps_def)
  moreover from this(2) have "list_all (\<lambda>p. fst p \<noteq> namer (Suc level)) extra"
    by (rule list.pred_mono_strong) (use injD[OF assms(1)] in fastforce)
  ultimately show ?thesis
    using assms(3) from_point_skip by simp
qed

lemma nested_keeps:
  assumes inj: "inj (tx_namer t)"
  and fn: "\<And>s r s'. fn (nested_tx t) s = (r, s') \<Longrightarrow> keeps (tx_namer t) (Suc (tx_level t)) (effects s) (effects s')"
  and run: "nested_tx_context db t fn s = (r, s')"
  shows "keeps (tx_namer t) (tx_level t) (effects s) (effects s')"
proof (cases "effective_strategy t = NestedSavepoint")
  case False
  then show ?thesis
    using run fn keeps_level by (cases "effective_strategy t") (auto simp: nested_tx_context_def Let_def)
next
  case True
  define name where "name = tx_namer t (Suc (tx_level t))"
  obtain a s1 where s1: "send db (Savepoint name) s = (a, s1)" by fastforce
  show ?thesis
  proof (cases a)
    case (Inl e)
    then show ?thesis
      using run True s1 effects_send[of db "Savepoint name" s]
      by (auto simp: nested_tx_context_def name_def)
  next
    case (Inr rows)
    have l1: "effects s1 = effects s\<lparr>points := (name, current (effects s)) # points (effects s)\<rparr>"
      using effects_send[of db "Savepoint name" s] s1 Inr by simp
    obtain r2 s2 where s2: "fn (nested_tx t) s1 = (r2, s2)" by fastforce
    have k2: "keeps (tx_namer t) (Suc (tx_level t)) (effects s1) (effects s2)"
      by (rule fn[OF s2])
    have reach: "from_point name (points (effects s2)) = (name, current (effects s)) # points (effects s)"
      unfolding name_def by (rule point_in_reach[OF inj k2]) (simp add: l1 name_def)
    have kept: "keeps (tx_namer t) (tx_level t) (effects s) (effects s2)"
    proof -
      have "keeps (tx_namer t) (tx_level t) (effects s) (effects s1)"
        by (auto simp: keeps_def l1 name_def)
      then show ?thesis
        using keeps_level[OF k2] keeps_trans by blast
    qed
    have undone: "keeps (tx_namer t) (tx_level t) (effects s) (effects (snd (send db (RollbackTo name) s2)))"
      using kept k2 reach l1 by (auto simp: effects_send keeps_def name_def split: sum.split)
    have released: "keeps (tx_namer t) (tx_level t) (effects s) (effects (snd (send db (Release name) s2)))"
      using kept k2 reach l1 by (auto simp: effects_send keeps_def split: sum.split)
    show ?thesis
      using run True s1 s2 Inr undone released
      by (auto simp: nested_tx_context_def name_def[symmetric] split: outcome.splits sum.splits prod.splits)
  qed
qed

lemma run_program_keeps:
  "inj (tx_namer t) \<Longrightarrow> run_program db p t s = (r, s') \<Longrightarrow>
   keeps (tx_namer t) (tx_level t) (effects s) (effects s')"
proof (induction p arbitrary: t s r s')
  case (Send q xs k)
  obtain a s1 where s1: "send db (Statement q xs) s = (a, s1)" by fastforce
  then have "keeps (tx_namer t) (tx_level t) (effects s) (effects s1)"
    using effects_send[of db "Statement q xs" s] keeps_statement by (auto split: sum.splits)
  then show ?case
    using Send.IH[OF rangeI Send.prems(1)] Send.prems(2) s1 keeps_trans by fastforce
next
  case (Nested p k)
  obtain r1 s1 where s1: "nested_tx_context db t (run_program db p) s = (r1, s1)" by fastforce
  have "keeps (tx_namer t) (tx_level t) (effects s) (effects s1)"
    by (rule nested_keeps[OF Nested.prems(1) _ s1]) (use Nested.IH(1)[of "nested_tx t"] Nested.prems(1) in auto)
  then show ?case
    using Nested.IH(2)[OF rangeI Nested.prems(1)] Nested.prems(2) s1 keeps_trans by fastforce
qed simp

section \<open>Nested transactions\<close>

text \<open>
  C20: when the function of a nested transaction fails or panics, whatever statements it has sent
  and whatever transactions it has nested itself, and the database carries out the rollback to the
  savepoint, then the statements in effect are those from before the nested transaction, provided
  the savepoints of different levels have different names.
\<close>
theorem nested_failure_leaves_no_trace:
  assumes "inj (tx_namer t)" and "effective_strategy t = NestedSavepoint"
  and "nested_tx_context db t (run_program db p) s = (r, s')"
  and "last s' = (RollbackTo n, Inr rows)"
  shows "r \<noteq> Ok () \<and> current (effects s') = current (effects s) \<and> durable (effects s') = durable (effects s)"
proof -
  define name where "name = tx_namer t (Suc (tx_level t))"
  obtain a s1 where s1: "send db (Savepoint name) s = (a, s1)" by fastforce
  then have a: "s1 = s @ [(Savepoint name, a)]"
    by (auto simp: send_eq)
  have "\<exists>rows1. a = Inr rows1"
  proof (cases a)
    case (Inl e)
    then have "s' = s1"
      using assms(2,3) s1 by (simp add: nested_tx_context_def name_def)
    then show ?thesis
      using a assms(4) by simp
  qed simp
  then obtain rows1 where rows1: "a = Inr rows1" by blast
  have l1: "effects s1 = effects s\<lparr>points := (name, current (effects s)) # points (effects s)\<rparr>"
    using a rows1 by (simp add: apply_answer_def)
  obtain r2 s2 where s2: "run_program db p (nested_tx t) s1 = (r2, s2)" by fastforce
  have k2: "keeps (tx_namer t) (Suc (tx_level t)) (effects s1) (effects s2)"
    using run_program_keeps[of "nested_tx t"] assms(1) s2 by simp
  have reach: "from_point name (points (effects s2)) = (name, current (effects s)) # points (effects s)"
    unfolding name_def by (rule point_in_reach[OF assms(1) k2]) (simp add: l1 name_def)
  have r2: "r2 \<noteq> Ok ()" and s': "s' = snd (send db (RollbackTo name) s2)" and r: "r = r2"
    using assms(2-4) s1 s2 rows1
    by (auto simp: nested_tx_context_def name_def[symmetric] send_eq Let_def split: outcome.splits sum.splits)
  then have "effects s' = apply_command (RollbackTo name) (effects s2)"
    using assms(4) by (auto simp: send_eq apply_answer_def)
  then show ?thesis
    using r r2 reach k2 by (simp add: keeps_def l1)
qed

text \<open>The names the package gives by default differ from level to level.\<close>

lemma digit_inj: "(of_nat (48 + d) :: byte) = of_nat (48 + e) \<Longrightarrow> d < 10 \<Longrightarrow> e < 10 \<Longrightarrow> d = e"
  by (metis add_left_cancel unat_digit)

lemma format_uint_not_Nil [simp]: "format_uint n \<noteq> []" "[] \<noteq> format_uint n"
  by (subst format_uint.simps, simp)+

lemma format_uint_inj: "format_uint m = format_uint n \<Longrightarrow> m = n"
proof (induction m arbitrary: n rule: format_uint.induct)
  case (1 m)
  have m: "format_uint m = (if m < 10 then [of_nat (48 + m)] else format_uint (m div 10) @ [of_nat (48 + m mod 10)])"
    and n: "format_uint n = (if n < 10 then [of_nat (48 + n)] else format_uint (n div 10) @ [of_nat (48 + n mod 10)])"
    by (rule format_uint.simps)+
  show ?case
  proof (cases "m < 10 \<or> n < 10")
    case True
    then show ?thesis
      using "1.prems" m n digit_inj by (auto split: if_splits simp del: of_nat_add)
  next
    case False
    then have "format_uint (m div 10) = format_uint (n div 10)"
      and "(of_nat (48 + m mod 10) :: byte) = of_nat (48 + n mod 10)"
      using "1.prems" m n by (simp_all del: of_nat_add)
    then have "m div 10 = n div 10" and "m mod 10 = n mod 10"
      using "1.IH" False digit_inj by auto
    then show ?thesis
      by (metis div_mult_mod_eq)
  qed
qed

lemma inj_byte_char: "inj (\<lambda>b::byte. char_of (unat b))"
proof (rule injI)
  fix a b :: byte
  assume "char_of (unat a) = char_of (unat b)"
  then have "(of_char (char_of (unat a)) :: nat) = of_char (char_of (unat b))" by simp
  moreover have "unat a < 2 ^ LENGTH(8)" and "unat b < 2 ^ LENGTH(8)" by (rule unsigned_less)+
  ultimately show "a = b" by (simp add: word_unat_eq_iff)
qed

lemma inj_default_namer: "inj default_savepoint_namer"
proof (rule injI)
  fix m n
  assume "default_savepoint_namer m = default_savepoint_namer n"
  then have "map (\<lambda>b. char_of (unat b)) (format_uint m) = map (\<lambda>b. char_of (unat b)) (format_uint n)"
    by (simp add: default_savepoint_namer_def itoa_def format_int_def)
  then show "m = n"
    using map_injective[OF _ inj_byte_char] format_uint_inj by blast
qed

text \<open>
  With one name for all levels the rollback of an outer nested transaction can end at a savepoint
  an inner one has left, and statements of the failed transaction stay in effect.
\<close>

definition obedient :: database where
  "obedient cs c = Inr []"

definition failing_program :: program where
  "failing_program =
     Send ''a'' [] (\<lambda>_. Nested (Finish (Err (UserError 1))) (\<lambda>_. Finish (Err (UserError 2))))"

definition postgres_tx :: "(nat \<Rightarrow> string) \<Rightarrow> tx" where
  "postgres_tx namer =
     new_tx (wrap_db ''postgres'' []) 0 \<lparr>to_nested = NestedSavepoint, to_namer = Some namer\<rparr>"

lemma shared_name_keeps_statements:
  "current (effects (snd (nested_tx_context obedient (postgres_tx (\<lambda>_. ''sp'')) (run_program obedient failing_program) [])))
     = [(''a'', [])]"
  by code_simp

lemma nested_failure_leaves_no_trace_witness:
  "current (effects (snd (nested_tx_context obedient (postgres_tx (\<lambda>k. replicate k (CHR ''s'')))
      (run_program obedient failing_program) [(BeginTx, Inr []), (Statement ''x'' [], Inr [])]))) = [(''x'', [])]"
proof -
  let ?t = "postgres_tx (\<lambda>k. replicate k (CHR ''s''))"
  let ?s = "[(BeginTx, Inr []), (Statement ''x'' [], Inr [])] :: session"
  obtain r s' where run: "nested_tx_context obedient ?t (run_program obedient failing_program) ?s = (r, s')"
    by fastforce
  have "inj (tx_namer ?t)"
    by (auto simp: inj_def postgres_tx_def new_tx_def dest: arg_cong[of _ _ length])
  moreover have "effective_strategy ?t = NestedSavepoint"
    by code_simp
  moreover have "last s' = (RollbackTo ''s'', Inr [])"
  proof -
    have "last (snd (nested_tx_context obedient ?t (run_program obedient failing_program) ?s)) = (RollbackTo ''s'', Inr [])"
      by code_simp
    then show ?thesis by (simp add: run)
  qed
  ultimately have "current (effects s') = current (effects ?s)"
    using nested_failure_leaves_no_trace[OF _ _ run] by blast
  moreover have "current (effects ?s) = [(''x'', [])]"
    by code_simp
  ultimately show ?thesis
    by (simp add: run)
qed

section \<open>Transactions\<close>

lemma run_program_durable: "run_program db p t s = (r, s') \<Longrightarrow> durable (effects s') = durable (effects s)"
proof (induction p arbitrary: t s r s')
  case (Send q xs k)
  then show ?case
    using effects_send[of db "Statement q xs" s] by (fastforce split: prod.splits sum.splits)
next
  case (Nested p k)
  obtain r1 s1 where s1: "nested_tx_context db t (run_program db p) s = (r1, s1)" by fastforce
  have step: "durable (effects (snd (send db c s))) = durable (effects s)"
    if "c = Savepoint n \<or> c = RollbackTo n \<or> c = Release n" for c n s
    using that by (auto simp: effects_send split: sum.split list.split)
  have "durable (effects s1) = durable (effects s)"
  proof -
    have "durable (effects s2) = durable (effects s)" if "send db (Savepoint n) s = (a, s2)" for s s2 a n
      using step[of "Savepoint n" n s] that by simp
    moreover have "durable (effects s2) = durable (effects s)" if "send db (Release n) s = (a, s2)" for s s2 a n
      using step[of "Release n" n s] that by simp
    moreover have "durable (effects (snd (send db (RollbackTo n) s))) = durable (effects s)" for n s
      using step by blast
    ultimately show ?thesis
      using s1 Nested.IH(1)
      by (fastforce simp: nested_tx_context_def Let_def split: nested_strategy.splits sum.splits prod.splits outcome.splits)
  qed
  then show ?case
    using Nested.IH(2)[OF rangeI] Nested.prems s1 by fastforce
qed simp

text \<open>What has become durable when a transaction returns.\<close>

lemma tx_context_durable:
  assumes "tx_context db d opts p s = (r, s')"
  shows "if r = Ok () then
      \<exists>s2. fst (run_program db p (new_tx d 0 (fold apply_tx_option opts (default_tx_options d)))
              (snd (send db BeginTx s))) = Ok () \<and>
            s2 = snd (run_program db p (new_tx d 0 (fold apply_tx_option opts (default_tx_options d)))
              (snd (send db BeginTx s))) \<and>
            durable (effects s') = durable (effects s) @ current (effects s2)
    else durable (effects s') = durable (effects s)"
proof -
  let ?t = "new_tx d 0 (fold apply_tx_option opts (default_tx_options d))"
  obtain a s1 where s1: "send db BeginTx s = (a, s1)" by fastforce
  have d1: "durable (effects s1) = durable (effects s)"
    using effects_send[of db BeginTx s] s1 by (simp split: sum.splits)
  obtain r2 s2 where s2: "run_program db p ?t s1 = (r2, s2)" by fastforce
  have d2: "durable (effects s2) = durable (effects s)"
    using run_program_durable[OF s2] d1 by simp
  have undone: "durable (effects (snd (send db RollbackTx s2))) = durable (effects s)"
    using d2 by (simp add: effects_send split: sum.split)
  have commit: "durable (effects (snd (send db CommitTx s2))) =
      (case fst (send db CommitTx s2) of Inl e \<Rightarrow> durable (effects s) | Inr _ \<Rightarrow> durable (effects s) @ current (effects s2))"
    using d2 by (simp add: effects_send split: sum.split)
  show ?thesis
    using assms s1 s2 d1 undone commit
    by (cases a; cases r2) (auto simp: tx_context_def Let_def split: prod.splits sum.splits)
qed

text \<open>
  A transaction is all or nothing: when it returns without error, all the statements of its
  function that are in effect at its end have become durable; when it returns an error or panics,
  none has, however far it got.
\<close>
theorem tx_all_or_nothing:
  "let (r, s') = tx_context db d opts p s;
       t = new_tx d 0 (fold apply_tx_option opts (default_tx_options d));
       (r2, s2) = run_program db p t (snd (send db BeginTx s))
   in if r = Ok () then r2 = Ok () \<and> durable (effects s') = durable (effects s) @ current (effects s2)
      else durable (effects s') = durable (effects s)"
  using tx_context_durable[of db d opts p s] by (auto simp: Let_def split: prod.splits if_splits)

text \<open>A database that accepts everything commits what the program has sent.\<close>

lemma committed_example:
  "durable (effects (snd (tx_context obedient (wrap_db ''mysql'' []) [] (exec_only ''q'' []) []))) = [(''q'', [])]"
  by code_simp

section \<open>Migrations\<close>

text \<open>A statement in a program: on success it is in effect and the program goes on.\<close>

lemma run_and_then:
  "run_program db (and_then p k) t s =
     (let (r, s) = run_program db p t s in run_program db (k r) t s)"
proof (induction p arbitrary: t s)
  case (Nested p f)
  then show ?case by (simp add: Let_def split: prod.splits)
qed (simp_all add: Let_def split: prod.splits)

lemma run_exec_only:
  "run_program db (and_then (exec_only q xs) (check f k)) t s = (Ok (), s') \<Longrightarrow>
   \<exists>s1 rows. send db (Statement q xs) s = (Inr rows, s1) \<and> run_program db k t s1 = (Ok (), s') \<and>
     current (effects s1) = current (effects s) @ [(q, xs)]"
  by (cases "db (map fst s) (Statement q xs)")
     (auto simp: run_and_then exec_only_def check_def send_eq apply_answer_def Let_def)

text \<open>The migrations of SQL files: identifier, name and statement.\<close>

type_synonym sql_file = "string \<times> string \<times> string"

definition file_migration :: "sql_file \<Rightarrow> migration" where
  "file_migration m = sql_migration (fst m) (fst (snd m)) (snd (snd m))"

definition record_query :: "string \<Rightarrow> dialect \<Rightarrow> string" where
  "record_query table d = placeholder_sql d (''INSERT INTO '' @ table @ '' (id, applied_at) VALUES (?, ?)'')"

definition applied_query :: "string \<Rightarrow> string" where
  "applied_query table = ''SELECT id FROM '' @ table"

lemma db_recorder_record:
  "rec_record (db_recorder table d now) ident = exec_only (record_query table d) [ident, now ident]"
  by (simp add: db_recorder_def record_query_def)

lemma db_recorder_init: "\<exists>create. rec_init (db_recorder table d now) = exec_only create []"
  by (auto simp: db_recorder_def)

lemma run_applied:
  assumes "run_program db (rec_applied (db_recorder table d now) k) t s = (Ok (), s')"
  shows "\<exists>ids s1. run_program db (k ids) t s1 = (Ok (), s') \<and>
    current (effects s1) = current (effects s) @ [(applied_query table, [])]"
proof -
  have "rec_applied (db_recorder table d now) k = Send (applied_query table) []
      (\<lambda>a. case a of Inl e \<Rightarrow> Finish (Err (AppliedQueryFailed (DbError e))) | Inr ids \<Rightarrow> k ids)"
    by (simp add: db_recorder_def applied_query_def)
  then obtain ids where "run_program db (k ids) t (s @ [(Statement (applied_query table) [], Inr ids)]) = (Ok (), s')"
    using assms by (cases "db (map fst s) (Statement (applied_query table) [])") (auto simp: send_eq)
  moreover have "current (effects (s @ [(Statement (applied_query table) [], Inr ids)])) =
      current (effects s) @ [(applied_query table, [])]"
    by (simp add: apply_answer_def)
  ultimately show ?thesis by blast
qed

definition migrated :: "string \<Rightarrow> dialect \<Rightarrow> (string \<Rightarrow> string) \<Rightarrow> sql_file list \<Rightarrow> entries" where
  "migrated table d now ms =
     concat (map (\<lambda>m. [(snd (snd m), []), (record_query table d, [fst m, now (fst m)])]) ms)"

lemma apply_migrations_effects:
  "run_program db (apply_migrations (db_recorder table d now) applied (map file_migration ms)) t s = (Ok (), s') \<Longrightarrow>
   current (effects s') = current (effects s) @ migrated table d now (filter (\<lambda>m. fst m \<notin> set applied) ms)"
proof (induction ms arbitrary: s)
  case (Cons m ms)
  show ?case
  proof (cases "fst m \<in> set applied")
    case True
    then show ?thesis
      using Cons by (simp add: file_migration_def sql_migration_def)
  next
    case False
    let ?rest = "apply_migrations (db_recorder table d now) applied (map file_migration ms)"
    let ?recording = "and_then (exec_only (record_query table d) [fst m, now (fst m)]) (check (RecordFailed (fst (snd m))) ?rest)"
    have "apply_migrations (db_recorder table d now) applied (map file_migration (m # ms)) =
        and_then (exec_only (snd (snd m)) []) (check (ApplyFailed (fst (snd m))) ?recording)"
      using False by (simp add: file_migration_def sql_migration_def db_recorder_record)
    then obtain s1 where s1: "current (effects s1) = current (effects s) @ [(snd (snd m), [])]"
      and "run_program db ?recording t s1 = (Ok (), s')"
      using Cons.prems run_exec_only by (metis (no_types, lifting))
    then obtain s2 where "run_program db ?rest t s2 = (Ok (), s')"
      and "current (effects s2) = current (effects s1) @ [(record_query table d, [fst m, now (fst m)])]"
      using run_exec_only by blast
    then show ?thesis
      using Cons.IH False s1 by (simp add: migrated_def)
  qed
qed (simp add: migrated_def)

lemma sort_files: "sort_key mig_id (map file_migration ms) = map file_migration (sort_key fst ms)"
proof -
  have "insort_key mig_id (file_migration x) (map file_migration xs) = map file_migration (insort_key fst x xs)" for x xs
    by (induction xs) (auto simp: file_migration_def sql_migration_def)
  then show ?thesis
    by (induction ms) (simp_all add: sort_key_def)
qed

text \<open>
  A run of the migrator over SQL files, with the recorder that keeps the identifiers in the
  database, is all or nothing.
\<close>
lemma migrations_effects:
  assumes "migrator_run db d (db_recorder table (db_dialect d) now) [Inr (map file_migration ms)] s = (r, s')"
  shows "if r = Ok () then
      \<exists>create ids. durable (effects s') = durable (effects s) @
        [(create, []), (''SELECT id FROM '' @ table, [])] @
        migrated table (db_dialect d) now (filter (\<lambda>m. fst m \<notin> set ids) (sort_key fst ms))
    else durable (effects s') = durable (effects s)"
proof -
  let ?rec = "db_recorder table (db_dialect d) now"
  let ?p = "migration_program ?rec (map file_migration (sort_key fst ms))"
  let ?t = "new_tx d 0 (default_tx_options d)"
  let ?s0 = "snd (send db BeginTx s)"
  have run: "tx_context db d [] ?p s = (r, s')"
    using assms by (simp add: migrator_run_def sort_files)
  show ?thesis
  proof (cases "r = Ok ()")
    case False
    then show ?thesis
      using tx_context_durable[OF run] by simp
  next
    case True
    then obtain s2 where s2: "run_program db ?p ?t ?s0 = (Ok (), s2)"
      and durable: "durable (effects s') = durable (effects s) @ current (effects s2)"
      using tx_context_durable[OF run] by (auto simp: prod_eq_iff)
    have "current (effects ?s0) = []"
      using run True by (auto simp: tx_context_def Let_def send_eq apply_answer_def split: sum.splits)
    moreover obtain create where "rec_init ?rec = exec_only create []"
      using db_recorder_init by blast
    then obtain s3 where "current (effects s3) = current (effects ?s0) @ [(create, [])]"
      and s3: "run_program db (rec_applied ?rec (\<lambda>applied. apply_migrations ?rec applied
              (map file_migration (sort_key fst ms)))) ?t s3 = (Ok (), s2)"
      using s2 run_exec_only unfolding migration_program_def by (metis (no_types, lifting))
    moreover obtain ids s4 where "current (effects s4) = current (effects s3) @ [(applied_query table, [])]"
      and "run_program db (apply_migrations ?rec ids (map file_migration (sort_key fst ms))) ?t s4 = (Ok (), s2)"
      using run_applied[OF s3] by blast
    ultimately show ?thesis
      using True durable apply_migrations_effects[of db table "db_dialect d" now ids "sort_key fst ms" ?t s4 s2]
      by (auto simp: applied_query_def)
  qed
qed

end
