(* ===== verification/SqlScan.thy ===== *)
theory SqlScan
  imports GoStrings Strconv
begin

text \<open>
  \<open>gsql/scan.go\<close>: rows of a result into structs by the tags of their fields.  What \<open>reflect\<close> tells of
  a destination is given: its fields with their types and tags.  The values are those a driver
  returns.  A float is of any type \<open>'f\<close> with its rounding to 32 bits, a time of any type \<open>'t\<close>.
\<close>

section \<open>Values, fields and destinations\<close>

datatype ('f, 't) db_value =
    NullValue | Int64Value int | Float64Value 'f | BoolValue bool | BytesValue string | StringValue string | TimeValue 't

datatype go_kind =
    KindInt | KindInt8 | KindInt16 | KindInt32 | KindInt64 | KindFloat32 | KindFloat64 | KindString | KindBool
  | KindBytes | KindTime | KindInterface | KindOther

text \<open>The type of a field: \<open>fd_named\<close> for a type declared over the kind.  A nil slice of bytes is \<open>None\<close>.\<close>

record scan_field =
  fd_kind :: go_kind
  fd_named :: bool
  fd_tag :: string
  fd_settable :: bool

datatype ('f, 't) field_value =
    FInt int | FFloat 'f | FString string | FBool bool | FBytes "string option" | FTime 't
  | FAny "('f, 't) db_value" | FOther

datatype ('f, 't) scan_dest =
    NotPointer
  | DestStruct "scan_field list" "('f, 't) field_value list"
  | DestOther
  | SliceOfStruct "scan_field list" "('f, 't) field_value list list"
  | SliceOfOther

datatype 'e scan_error = NilRows | BadDestination | NotStruct | NoRows | RowsError 'e | DefaultError parse_error | BadBool

record ('f, 't) scan_env =
  se_zero_float :: 'f
  se_zero_time :: 't
  se_round32 :: "'f \<Rightarrow> 'f"

fun zero_value :: "('f, 't) scan_env \<Rightarrow> go_kind \<Rightarrow> ('f, 't) field_value" where
  "zero_value env KindFloat32 = FFloat (se_zero_float env)"
| "zero_value env KindFloat64 = FFloat (se_zero_float env)"
| "zero_value env KindString = FString ''''"
| "zero_value env KindBool = FBool False"
| "zero_value env KindBytes = FBytes None"
| "zero_value env KindTime = FTime (se_zero_time env)"
| "zero_value env KindInterface = FAny NullValue"
| "zero_value env KindOther = FOther"
| "zero_value env _ = FInt 0"

section \<open>Setting a field\<close>

text \<open>The bits of an integer kind, which \<open>SetInt\<close> truncates to.\<close>

fun int_bits :: "go_kind \<Rightarrow> nat option" where
  "int_bits KindInt = Some 64"
| "int_bits KindInt8 = Some 8"
| "int_bits KindInt16 = Some 16"
| "int_bits KindInt32 = Some 32"
| "int_bits KindInt64 = Some 64"
| "int_bits _ = None"

definition set_int :: "nat \<Rightarrow> int \<Rightarrow> int" where
  "set_int bits v = signed_take_bit (bits - 1) v"

text \<open>\<open>AssignableTo\<close>: the same type, a slice of bytes also to a type declared over one, anything to \<open>any\<close>.\<close>

fun assignable :: "('f, 't) db_value \<Rightarrow> scan_field \<Rightarrow> bool" where
  "assignable NullValue f = False"
| "assignable v f =
     (fd_kind f = KindInterface \<or>
      (case v of
         Int64Value _ \<Rightarrow> fd_kind f = KindInt64 \<and> \<not> fd_named f
       | Float64Value _ \<Rightarrow> fd_kind f = KindFloat64 \<and> \<not> fd_named f
       | BoolValue _ \<Rightarrow> fd_kind f = KindBool \<and> \<not> fd_named f
       | BytesValue _ \<Rightarrow> fd_kind f = KindBytes
       | StringValue _ \<Rightarrow> fd_kind f = KindString \<and> \<not> fd_named f
       | TimeValue _ \<Rightarrow> fd_kind f = KindTime \<and> \<not> fd_named f
       | NullValue \<Rightarrow> False))"

definition assign_value :: "go_kind \<Rightarrow> ('f, 't) db_value \<Rightarrow> ('f, 't) field_value" where
  "assign_value k v =
     (if k = KindInterface then FAny v
      else
        (case v of
           NullValue \<Rightarrow> FOther | Int64Value n \<Rightarrow> FInt n | Float64Value x \<Rightarrow> FFloat x | BoolValue b \<Rightarrow> FBool b
         | BytesValue s \<Rightarrow> FBytes (Some s) | StringValue s \<Rightarrow> FString s | TimeValue t \<Rightarrow> FTime t))"

text \<open>What the switch over the kinds does with a value that cannot be assigned; \<open>None\<close>: nothing.\<close>

definition convert_value :: "('f, 't) scan_env \<Rightarrow> go_kind \<Rightarrow> ('f, 't) db_value \<Rightarrow> ('f, 't) field_value option" where
  "convert_value env k v =
     (case (int_bits k, v) of
        (Some bits, Int64Value n) \<Rightarrow> Some (FInt (set_int bits n))
      | (Some _, _) \<Rightarrow> None
      | (None, Float64Value x) \<Rightarrow>
          (if k = KindFloat32 then Some (FFloat (se_round32 env x)) else if k = KindFloat64 then Some (FFloat x) else None)
      | _ \<Rightarrow> None)"

definition parse_bool_text :: "string \<Rightarrow> bool option" where
  "parse_bool_text s =
     (if s \<in> {''1'', ''t'', ''T'', ''true'', ''TRUE'', ''True''} then Some True
      else if s \<in> {''0'', ''f'', ''F'', ''false'', ''FALSE'', ''False''} then Some False else None)"

abbreviation default_prefix :: string where "default_prefix \<equiv> ''default:''"

text \<open>The first option that gives a default decides; \<open>Inr None\<close> leaves the field alone.\<close>

fun default_value :: "go_kind \<Rightarrow> string list \<Rightarrow> 'e scan_error + ('f, 't) field_value option" where
  "default_value k [] = Inr None"
| "default_value k (opt # opts) =
     (if has_prefix opt default_prefix then
        (let text = drop (length default_prefix) opt in
         case int_bits k of
           Some bits \<Rightarrow> (case atoi text of Ok n \<Rightarrow> Inr (Some (FInt (set_int bits n))) | Err e \<Rightarrow> Inl (DefaultError e) | Panic \<Rightarrow> Inl BadBool)
         | None \<Rightarrow>
             (if k = KindString then Inr (Some (FString text))
              else if k = KindBool then (case parse_bool_text text of None \<Rightarrow> Inl BadBool | Some b \<Rightarrow> Inr (Some (FBool b)))
              else Inr None))
      else default_value k opts)"

section \<open>A row\<close>

definition scan_column ::
  "('f, 't) scan_env \<Rightarrow> (string, ('f, 't) db_value) gomap \<Rightarrow> scan_field \<Rightarrow> ('f, 't) field_value \<Rightarrow> 'e scan_error + ('f, 't) field_value" where
  "scan_column env row f old =
     (if fd_tag f = '''' \<or> fd_tag f = ''-'' \<or> \<not> fd_settable f then Inr old
      else
        (let parts = split_on (CHR '','') (fd_tag f); opts = tl parts; v = (case go_get row (hd parts) of None \<Rightarrow> NullValue | Some v \<Rightarrow> v) in
         if v = NullValue then
           (if ''nil'' \<in> set opts then Inr (zero_value env (fd_kind f))
            else map_sum id (\<lambda>w. case w of None \<Rightarrow> old | Some w \<Rightarrow> w) (default_value (fd_kind f) opts))
         else if assignable v f then Inr (assign_value (fd_kind f) v)
         else (case convert_value env (fd_kind f) v of None \<Rightarrow> Inr old | Some w \<Rightarrow> Inr w)))"

text \<open>The fields in their order; the fields before an error stay set.\<close>

fun map_to_struct ::
  "('f, 't) scan_env \<Rightarrow> (string, ('f, 't) db_value) gomap \<Rightarrow> scan_field list \<Rightarrow> ('f, 't) field_value list
     \<Rightarrow> 'e scan_error option \<times> ('f, 't) field_value list" where
  "map_to_struct env row (f # fs) (v # vs) =
     (case scan_column env row f v of
        Inl e \<Rightarrow> (Some e, v # vs)
      | Inr w \<Rightarrow> (case map_to_struct env row fs vs of (e, ws) \<Rightarrow> (e, w # ws)))"
| "map_to_struct env row _ vs = (None, vs)"

section \<open>Rows\<close>

text \<open>
  The rows of a result: what \<open>MapScan\<close> gives for each, and the error \<open>Err\<close> reports after the last.
\<close>

record ('e, 'f, 't) sql_rows =
  sr_rows :: "('e + (string, ('f, 't) db_value) gomap) list"
  sr_err :: "'e option"

fun scan_slice ::
  "('f, 't) scan_env \<Rightarrow> scan_field list \<Rightarrow> ('e + (string, ('f, 't) db_value) gomap) list \<Rightarrow> 'e option
     \<Rightarrow> ('f, 't) field_value list list \<Rightarrow> 'e scan_error option \<times> ('f, 't) field_value list list" where
  "scan_slice env fs [] err acc = (map_option RowsError err, acc)"
| "scan_slice env fs (Inl e # rows) err acc = (Some (RowsError e), acc)"
| "scan_slice env fs (Inr row # rows) err acc =
     (case map_to_struct env row fs (map (\<lambda>f. zero_value env (fd_kind f)) fs) of
        (Some e, _) \<Rightarrow> (Some e, acc)
      | (None, vs) \<Rightarrow> scan_slice env fs rows err (acc @ [vs]))"

definition scan_rows ::
  "('f, 't) scan_env \<Rightarrow> ('e, 'f, 't) sql_rows option \<Rightarrow> ('f, 't) scan_dest \<Rightarrow> 'e scan_error option \<times> ('f, 't) scan_dest" where
  "scan_rows env rows dest =
     (case rows of
        None \<Rightarrow> (Some NilRows, dest)
      | Some r \<Rightarrow>
          (case dest of
             NotPointer \<Rightarrow> (Some BadDestination, dest)
           | SliceOfStruct fs acc \<Rightarrow> (case scan_slice env fs (sr_rows r) (sr_err r) acc of (e, acc) \<Rightarrow> (e, SliceOfStruct fs acc))
           | SliceOfOther \<Rightarrow>
               (case sr_rows r of
                  [] \<Rightarrow> (map_option RowsError (sr_err r), dest)
                | Inl e # _ \<Rightarrow> (Some (RowsError e), dest)
                | Inr _ # _ \<Rightarrow> (Some NotStruct, dest))
           | DestStruct fs vs \<Rightarrow>
               (case sr_rows r of
                  [] \<Rightarrow> (Some (case sr_err r of None \<Rightarrow> NoRows | Some e \<Rightarrow> RowsError e), dest)
                | Inl e # _ \<Rightarrow> (Some (RowsError e), dest)
                | Inr row # _ \<Rightarrow>
                    (case map_to_struct env row fs vs of
                       (Some e, vs) \<Rightarrow> (Some e, DestStruct fs vs)
                     | (None, vs) \<Rightarrow> (map_option RowsError (sr_err r), DestStruct fs vs)))
           | DestOther \<Rightarrow>
               (case sr_rows r of
                  [] \<Rightarrow> (Some (case sr_err r of None \<Rightarrow> NoRows | Some e \<Rightarrow> RowsError e), dest)
                | Inl e # _ \<Rightarrow> (Some (RowsError e), dest)
                | Inr _ # _ \<Rightarrow> (Some NotStruct, dest))))"

section \<open>Facts\<close>

lemma map_to_struct_length: "length (snd (map_to_struct env row fs vs)) = length vs"
  by (induction env row fs vs rule: map_to_struct.induct) (auto split: sum.split prod.splits)

text \<open>A struct is scanned field by field: without an error every field has what its column gives.\<close>

lemma map_to_struct_fields:
  fixes env :: "('f, 't) scan_env" and fs vs ws
  assumes "map_to_struct env row fs vs = (None :: 'e scan_error option, ws)" and "i < length fs" and "length vs = length fs"
  shows "scan_column env row (fs ! i) (vs ! i) = (Inr (ws ! i) :: 'e scan_error + ('f, 't) field_value)"
  using assms
proof (induction fs arbitrary: vs ws i)
  case (Cons f fs)
  obtain v us where vs: "vs = v # us" using Cons.prems(3) by (cases vs) auto
  obtain w where w: "scan_column env row f v = (Inr w :: 'e scan_error + ('f, 't) field_value)"
    using Cons.prems(1) vs by (auto split: sum.splits)
  obtain xs where xs: "map_to_struct env row fs us = (None :: 'e scan_error option, xs)" "ws = w # xs"
    using Cons.prems(1) vs w by (auto split: prod.splits)
  show ?case
  proof (cases i)
    case (Suc j)
    with Cons.IH [OF xs(1), of j] Cons.prems(2,3) vs xs show ?thesis by simp
  qed (use vs w xs in simp)
qed simp

text \<open>A slice grows by one element per row, in their order, and what was in it stays.\<close>

definition row_struct ::
  "('f, 't) scan_env \<Rightarrow> scan_field list \<Rightarrow> (string, ('f, 't) db_value) gomap \<Rightarrow> 'e scan_error option \<times> ('f, 't) field_value list" where
  "row_struct env fs row = map_to_struct env row fs (map (\<lambda>f. zero_value env (fd_kind f)) fs)"

lemma scan_slice_grows:
  fixes env :: "('f, 't) scan_env"
  assumes "scan_slice env fs (map Inr rows) None acc = (None :: 'e scan_error option, out)"
  shows "out = acc @ map (\<lambda>row. snd (row_struct env fs row :: 'e scan_error option \<times> ('f, 't) field_value list)) rows"
  using assms
proof (induction rows arbitrary: acc)
  case (Cons row rows)
  obtain e vs where m: "(row_struct env fs row :: 'e scan_error option \<times> ('f, 't) field_value list) = (e, vs)"
    by (cases "row_struct env fs row :: 'e scan_error option \<times> ('f, 't) field_value list")
  show ?case
  proof (cases e)
    case None
    with Cons.prems m have "scan_slice env fs (map Inr rows) None (acc @ [vs]) = (None :: 'e scan_error option, out)"
      by (simp add: row_struct_def)
    from Cons.IH [OF this] m show ?thesis by simp
  qed (use Cons.prems m in \<open>simp add: row_struct_def\<close>)
qed simp

text \<open>A column of bytes, as some drivers return text, leaves a string field as it was.\<close>

lemma bytes_dropped:
  "fd_kind f = KindString \<Longrightarrow> fd_settable f \<Longrightarrow> fd_tag f = ''name'' \<Longrightarrow> go_get row ''name'' = Some (BytesValue s) \<Longrightarrow>
     scan_column env row f old = Inr old"
  by (simp add: scan_column_def convert_value_def Let_def)

text \<open>An integer column leaves a float field as it was.\<close>

lemma integer_dropped:
  "fd_kind f = KindFloat64 \<Longrightarrow> fd_settable f \<Longrightarrow> fd_tag f = ''price'' \<Longrightarrow> go_get row ''price'' = Some (Int64Value n) \<Longrightarrow>
     scan_column env row f old = Inr old"
  by (simp add: scan_column_def convert_value_def Let_def)

text \<open>An integer that does not fit is cut to the bits of the field.\<close>

lemma integer_cut: "convert_value env KindInt8 (Int64Value 300) = Some (FInt 44)"
  by (simp add: convert_value_def set_int_def signed_take_bit_code)

text \<open>A null column leaves the field as it was, unless its tag says otherwise.\<close>

lemma null_keeps:
  "fd_settable f \<Longrightarrow> fd_tag f = ''name'' \<Longrightarrow> go_get row ''name'' = Some NullValue \<Longrightarrow> scan_column env row f old = Inr old"
  by (simp add: scan_column_def Let_def)

text \<open>A default ends at a comma.\<close>

lemma default_ends_at_comma:
  "fd_kind f = KindString \<Longrightarrow> fd_settable f \<Longrightarrow> fd_tag f = ''name,default:Doe, Jane'' \<Longrightarrow> go_get row ''name'' = None \<Longrightarrow>
     scan_column env row f old = Inr (FString ''Doe'')"
  by (simp add: scan_column_def Let_def has_prefix_def)

end
