(* ===== verification/HttpText.thy ===== *)
theory HttpText
  imports GoStrings "HOL-Library.List_Lexorder" "HOL-Library.Char_ord"
begin

text \<open>
  The functions on text that the HTTP packages use: the canonical form of header keys
  (\<open>net/textproto\<close>) and the operations on headers, \<open>strings.TrimSpace\<close>, and the escaping of
  \<open>net/url\<close>.
\<close>

abbreviation newline :: char where "newline \<equiv> CHR 0x0A"

abbreviation carriage_return :: char where "carriage_return \<equiv> CHR 0x0D"

section \<open>Header keys\<close>

text \<open>The canonical form of a header key (\<open>net/textproto\<close>): \<open>x-request-id\<close> becomes \<open>X-Request-Id\<close>.\<close>

definition token_char :: "char \<Rightarrow> bool" where
  "token_char c \<longleftrightarrow>
     (let n = of_char c :: nat in
      48 \<le> n \<and> n \<le> 57 \<or> 65 \<le> n \<and> n \<le> 90 \<or> 97 \<le> n \<and> n \<le> 122
      \<or> c \<in> set ''!#$%&*+-.^_|~'' \<or> n = 39 \<or> n = 96)"

definition upper_char :: "char \<Rightarrow> char" where
  "upper_char c = (let n = of_char c :: nat in if 97 \<le> n \<and> n \<le> 122 then char_of (n - 32) else c)"

definition lower_char :: "char \<Rightarrow> char" where
  "lower_char c = (let n = of_char c :: nat in if 65 \<le> n \<and> n \<le> 90 then char_of (n + 32) else c)"

fun canonical_from :: "bool \<Rightarrow> string \<Rightarrow> string" where
  "canonical_from upper [] = []"
| "canonical_from upper (c # cs) =
     (if upper then upper_char c else lower_char c) # canonical_from (c = CHR ''-'') cs"

definition canonical_key :: "string \<Rightarrow> string" where
  "canonical_key k = (if list_all token_char k then canonical_from True k else k)"

section \<open>Trimming\<close>

text \<open>The white space of \<open>strings.TrimSpace\<close>: the encodings of the characters of \<open>unicode.IsSpace\<close>.\<close>

definition utf8_3 :: "nat \<Rightarrow> nat \<Rightarrow> nat \<Rightarrow> string" where
  "utf8_3 a b c = [char_of a, char_of b, char_of c]"

definition space_codes :: "string list" where
  "space_codes =
     [[CHR 0x09], [CHR 0x0A], [CHR 0x0B], [CHR 0x0C], [CHR 0x0D], [CHR 0x20],
      [CHR 0xC2, CHR 0x85], [CHR 0xC2, CHR 0xA0], utf8_3 0xE1 0x9A 0x80] @
     map (utf8_3 0xE2 0x80) [0x80..<0x8B] @
     [utf8_3 0xE2 0x80 0xA8, utf8_3 0xE2 0x80 0xA9, utf8_3 0xE2 0x80 0xAF,
      utf8_3 0xE2 0x81 0x9F, utf8_3 0xE3 0x80 0x80]"

text \<open>The codes of a list that are a prefix of the string are dropped as long as there are any.\<close>

function trim_codes :: "string list \<Rightarrow> string \<Rightarrow> string" where
  "trim_codes codes s =
     (case find (\<lambda>w. w \<noteq> [] \<and> has_prefix s w) codes of
        None \<Rightarrow> s
      | Some w \<Rightarrow> trim_codes codes (drop (length w) s))"
  by pat_completeness auto
termination
proof (relation "measure (\<lambda>(codes, s). length s)")
  fix codes and s w :: string
  assume "find (\<lambda>w. w \<noteq> [] \<and> has_prefix s w) codes = Some w"
  then have w: "w \<noteq> []" "take (length w) s = w"
    by (auto simp: find_Some_iff has_prefix_def)
  have "length (take (length w) s) \<le> length s" by simp
  with w have "0 < length w" and "length w \<le> length s" by simp_all
  then have "length (drop (length w) s) < length s" unfolding length_drop by linarith
  then show "((codes, drop (length w) s), (codes, s)) \<in> measure (\<lambda>(codes, s). length s)"
    by simp
qed simp

declare trim_codes.simps [simp del]

definition trim_space :: "string \<Rightarrow> string" where
  "trim_space s = rev (trim_codes (map rev space_codes) (rev (trim_codes space_codes s)))"

lemma trim_codes_step:
  assumes "w \<in> set codes" and "w \<noteq> []" and "\<And>v. v \<in> set codes \<Longrightarrow> v \<noteq> [] \<Longrightarrow> has_prefix (w @ s) v \<Longrightarrow> v = w"
  shows "trim_codes codes (w @ s) = trim_codes codes s"
proof -
  have "has_prefix (w @ s) w" by (simp add: has_prefix_def)
  then obtain v where v: "find (\<lambda>v. v \<noteq> [] \<and> has_prefix (w @ s) v) codes = Some v"
    using assms(1,2) by (cases "find (\<lambda>v. v \<noteq> [] \<and> has_prefix (w @ s) v) codes") (auto simp: find_None_iff)
  then have "v = w" using assms(3) by (auto simp: find_Some_iff)
  with v show ?thesis by (subst trim_codes.simps) simp
qed

lemma trim_codes_stop:
  "\<forall>w \<in> set codes. w \<noteq> [] \<longrightarrow> \<not> has_prefix s w \<Longrightarrow> trim_codes codes s = s"
  by (subst trim_codes.simps) (auto simp: find_Some_iff split: option.split)

lemma trim_codes_drop: "\<exists>k. trim_codes codes s = drop k s"
proof (induction codes s rule: trim_codes.induct)
  case (1 codes s)
  show ?case
  proof (cases "find (\<lambda>w. w \<noteq> [] \<and> has_prefix s w) codes")
    case None
    then show ?thesis by (intro exI[of _ 0]) (simp add: trim_codes.simps)
  next
    case (Some w)
    with 1 obtain k where "trim_codes codes (drop (length w) s) = drop k (drop (length w) s)" by blast
    with Some show ?thesis by (subst trim_codes.simps) auto
  qed
qed

lemma trim_codes_shorter: "length (trim_codes codes s) \<le> length s"
  using trim_codes_drop[of codes s] by auto

lemma trim_codes_strict:
  assumes "w \<in> set codes" and "w \<noteq> []" and "has_prefix s w"
  shows "length (trim_codes codes s) < length s"
proof -
  obtain v where v: "find (\<lambda>w. w \<noteq> [] \<and> has_prefix s w) codes = Some v"
    using assms by (cases "find (\<lambda>w. w \<noteq> [] \<and> has_prefix s w) codes") (auto simp: find_None_iff)
  then have "v \<noteq> []" and "take (length v) s = v" by (auto simp: find_Some_iff has_prefix_def)
  then have "0 < length v" and "0 < length s" by (auto intro: gr_zeroI)
  then have "length (drop (length v) s) < length s" unfolding length_drop by linarith
  with v show ?thesis
    using trim_codes_shorter[of codes "drop (length v) s"] by (subst trim_codes.simps) simp
qed

text \<open>A leading space is dropped, and a trimmed text does not end in a carriage return.\<close>

lemma space_heads:
  "list_all (\<lambda>v. case v of [] \<Rightarrow> False | c # cs \<Rightarrow> c = CHR '' '' \<longrightarrow> cs = []) space_codes"
  by code_simp

lemma space_prefix:
  assumes "v \<in> set space_codes" and "has_prefix (CHR '' '' # s) v"
  shows "v = '' ''"
proof -
  have "case v of [] \<Rightarrow> False | c # cs \<Rightarrow> c = CHR '' '' \<longrightarrow> cs = []"
    using assms(1) space_heads unfolding list_all_iff by blast
  with assms(2) show ?thesis by (cases v) (auto simp: has_prefix_def)
qed

lemma space_members: "'' '' \<in> set space_codes" "[carriage_return] \<in> set space_codes"
  by (simp_all add: space_codes_def)

lemma trim_leading_space: "trim_space (CHR '' '' # s) = trim_space s"
proof -
  have "trim_codes space_codes ('' '' @ s) = trim_codes space_codes s"
    by (rule trim_codes_step) (simp_all add: space_members space_prefix)
  then show ?thesis by (simp add: trim_space_def)
qed

lemma trimmed_last:
  assumes "trim_space v = v" and "v \<noteq> []"
  shows "last v \<noteq> carriage_return"
proof
  let ?codes = "map rev space_codes"
  assume "last v = carriage_return"
  then obtain u where u: "v = u @ [carriage_return]"
    using assms(2) by (metis append_butlast_last_id)
  obtain k where k: "trim_codes space_codes v = drop k v" using trim_codes_drop by blast
  have "length v \<le> length (trim_codes space_codes v)"
    using assms(1) trim_codes_shorter[of ?codes "rev (trim_codes space_codes v)"]
    by (metis length_rev trim_space_def)
  moreover have "0 < length v" using assms(2) by blast
  ultimately have "k = 0" unfolding k length_drop by linarith
  with k have "trim_codes space_codes v = v" by simp
  then have "length (trim_codes ?codes (rev v)) = length v"
    using assms(1) by (metis length_rev trim_space_def)
  moreover have "length (trim_codes ?codes (rev v)) < length (rev v)"
    by (rule trim_codes_strict[of "[carriage_return]"])
       (use space_members(2) in \<open>force simp: u has_prefix_def\<close>)+
  ultimately show False by simp
qed

lemma trim_nothing [simp]: "trim_space '''' = ''''"
proof -
  have "trim_codes codes '''' = ''''" for codes
    by (rule trim_codes_stop) (simp add: has_prefix_def)
  then show ?thesis by (simp add: trim_space_def)
qed

definition is_digit :: "char \<Rightarrow> bool" where
  "is_digit c \<longleftrightarrow> (of_char c :: nat) \<ge> 48 \<and> (of_char c :: nat) \<le> 57"

text \<open>Text that begins and ends with one of these characters has no white space around it.\<close>

definition plain_char :: "char \<Rightarrow> bool" where
  "plain_char c \<longleftrightarrow> 32 < (of_char c :: nat) \<and> (of_char c :: nat) < 127"

lemma digit_plain: "is_digit c \<Longrightarrow> plain_char c"
  by (simp add: is_digit_def plain_char_def)

lemma space_codes_plain:
  "list_all (\<lambda>w. w \<noteq> [] \<and> \<not> plain_char (hd w) \<and> \<not> plain_char (last w)) space_codes"
  by (simp add: space_codes_def utf8_3_def plain_char_def upt_rec)

lemma trim_plain:
  assumes "v \<noteq> []" and "plain_char (hd v)" and "plain_char (last v)"
  shows "trim_space v = v"
proof -
  have ends: "w \<noteq> [] \<and> \<not> plain_char (hd w) \<and> \<not> plain_char (last w)" if "w \<in> set space_codes" for w
    using space_codes_plain that by (simp add: list_all_iff)
  have stop: "\<not> has_prefix s w" if "s \<noteq> []" "w \<noteq> []" "hd w \<noteq> hd s" for s w :: string
    using that by (cases s; cases w) (auto simp: has_prefix_def)
  have "trim_codes space_codes v = v"
    using ends assms stop by (intro trim_codes_stop) metis
  moreover have "trim_codes (map rev space_codes) (rev v) = rev v"
  proof (rule trim_codes_stop, intro ballI impI)
    fix u assume "u \<in> set (map rev space_codes)"
    then obtain w where "w \<in> set space_codes" and "u = rev w" by auto
    then show "\<not> has_prefix (rev v) u"
      using ends[of w] stop[of "rev v" u] assms by (metis hd_rev rev_is_Nil_conv)
  qed
  ultimately show ?thesis by (simp add: trim_space_def)
qed

lemma trim_word: "list_all plain_char s \<Longrightarrow> trim_space s = s"
  using trim_plain[of s] trim_nothing by (cases "s = []") (auto simp: list_all_iff)

section \<open>Lines\<close>

text \<open>
  \<open>bufio.Scanner\<close> with \<open>ScanLines\<close>: a line ends with a newline or where the text ends, and loses a
  carriage return at its end.  When the buffer, of \<open>limit\<close> bytes, is full and holds no newline the
  scanner gives up, which the flag tells.
\<close>

definition drop_cr :: "string \<Rightarrow> string" where
  "drop_cr l = (if l \<noteq> [] \<and> last l = carriage_return then butlast l else l)"

definition line_of :: "string \<Rightarrow> string" where
  "line_of s = takeWhile (\<lambda>c. c \<noteq> newline) s"

function scan_lines_upto :: "nat \<Rightarrow> string \<Rightarrow> string list \<times> bool" where
  "scan_lines_upto limit s =
     (if limit \<le> length (line_of s) then ([], True)
      else
        (case dropWhile (\<lambda>c. c \<noteq> newline) s of
           [] \<Rightarrow> (if s = [] then [] else [drop_cr (line_of s)], False)
         | _ # rest \<Rightarrow> (let (ls, long) = scan_lines_upto limit rest in (drop_cr (line_of s) # ls, long))))"
  by pat_completeness auto
termination
proof (relation "measure (\<lambda>(limit, s). length s)")
  fix limit :: nat and s rest :: string and c
  assume "dropWhile (\<lambda>c. c \<noteq> newline) s = c # rest"
  then have "Suc (length rest) \<le> length s"
    by (metis length_Cons length_dropWhile_le)
  then show "((limit, rest), (limit, s)) \<in> measure (\<lambda>(limit, s). length s)" by simp
qed simp

declare scan_lines_upto.simps [simp del]

section \<open>Headers and values\<close>

type_synonym http_header = "(string, string list) gomap"

type_synonym url_values = "(string, string list) gomap"

definition header_get :: "http_header \<Rightarrow> string \<Rightarrow> string" where
  "header_get h k = (case go_get h (canonical_key k) of Some (v # _) \<Rightarrow> v | _ \<Rightarrow> '''')"

definition header_set :: "string \<Rightarrow> string \<Rightarrow> http_header \<Rightarrow> http_header" where
  "header_set k v h = go_put (canonical_key k) [v] h"

definition values_add :: "string \<Rightarrow> string \<Rightarrow> url_values \<Rightarrow> url_values" where
  "values_add k v m = go_put k ((case go_get m k of None \<Rightarrow> [] | Some vs \<Rightarrow> vs) @ [v]) m"

definition header_add :: "string \<Rightarrow> string \<Rightarrow> http_header \<Rightarrow> http_header" where
  "header_add k v h = values_add (canonical_key k) v h"

definition values_set :: "string \<Rightarrow> string \<Rightarrow> url_values \<Rightarrow> url_values" where
  "values_set k v m = go_put k [v] m"

text \<open>All pairs of a map, in the order of its iteration, with repeated keys.\<close>

definition all_values :: "url_values \<Rightarrow> (string \<times> string) list" where
  "all_values m = concat (map (\<lambda>(k, vs). map (Pair k) vs) m)"

definition add_all :: "(string \<times> string) list \<Rightarrow> url_values \<Rightarrow> url_values" where
  "add_all kvs m = fold (\<lambda>(k, v). values_add k v) kvs m"

section \<open>Escaping\<close>

definition hex_digit :: "nat \<Rightarrow> char" where
  "hex_digit n = char_of (if n < 10 then 48 + n else 55 + n)"

definition percent :: "char \<Rightarrow> string" where
  "percent c = (let n = of_char c :: nat in [CHR ''%'', hex_digit (n div 16), hex_digit (n mod 16)])"

definition unreserved :: "char \<Rightarrow> bool" where
  "unreserved c \<longleftrightarrow>
     (let n = of_char c :: nat in
      48 \<le> n \<and> n \<le> 57 \<or> 65 \<le> n \<and> n \<le> 90 \<or> 97 \<le> n \<and> n \<le> 122 \<or> c \<in> set ''-_.~'')"

definition query_escape :: "string \<Rightarrow> string" where
  "query_escape s =
     concat (map (\<lambda>c. if unreserved c then [c] else if c = CHR '' '' then ''+'' else percent c) s)"

definition path_escape :: "string \<Rightarrow> string" where
  "path_escape s = concat (map (\<lambda>c. if unreserved c \<or> c \<in> set ''$&+:=@'' then [c] else percent c) s)"

text \<open>\<open>url.Values.Encode\<close> sorts the keys.\<close>

definition encode_values :: "url_values \<Rightarrow> string" where
  "encode_values m =
     join_with (CHR ''&'') (map (\<lambda>(k, v). query_escape k @ ''='' @ query_escape v) (all_values (sort_key fst m)))"

text \<open>\<open>strings.ReplaceAll\<close> with a pattern that is not empty.\<close>

function replace_all :: "string \<Rightarrow> string \<Rightarrow> string \<Rightarrow> string" where
  "replace_all pat new s =
     (if s = [] \<or> pat = [] then s
      else if has_prefix s pat then new @ replace_all pat new (drop (length pat) s)
      else hd s # replace_all pat new (tl s))"
  by pat_completeness auto
termination
proof (relation "measure (\<lambda>(pat, new, s). length s)")
  fix pat new s :: string
  assume "\<not> (s = [] \<or> pat = [])"
  then have "0 < length pat" and "0 < length s" by auto
  then have "length (drop (length pat) s) < length s" unfolding length_drop by linarith
  then show "((pat, new, drop (length pat) s), (pat, new, s)) \<in> measure (\<lambda>(pat, new, s). length s)" by simp
qed auto

declare replace_all.simps [simp del]

text \<open>Base64, for the header of basic authentication.\<close>

definition base64_digit :: "nat \<Rightarrow> char" where
  "base64_digit n =
     ''ABCDEFGHIJKLMNOPQRSTUVWXYZabcdefghijklmnopqrstuvwxyz0123456789+/'' ! (n mod 64)"

fun base64 :: "string \<Rightarrow> string" where
  "base64 [] = []"
| "base64 [a] =
     (let n = of_char a * 65536 :: nat
      in [base64_digit (n div 262144), base64_digit (n div 4096), CHR ''='', CHR ''=''])"
| "base64 [a, b] =
     (let n = of_char a * 65536 + of_char b * 256 :: nat
      in [base64_digit (n div 262144), base64_digit (n div 4096), base64_digit (n div 64), CHR ''=''])"
| "base64 (a # b # c # s) =
     (let n = of_char a * 65536 + of_char b * 256 + of_char c :: nat
      in [base64_digit (n div 262144), base64_digit (n div 4096), base64_digit (n div 64), base64_digit n] @ base64 s)"

end
