(* ===== verification/ServerContext.thy ===== *)
theory ServerContext
  imports HttpText Strconv
begin

text \<open>
  \<open>ghttp/gserver\<close>, the handling of one request: the response writer (\<open>writer.go\<close>), the context
  with its chain of handlers (\<open>context.go\<close>), the results a handler can return (\<open>result.go\<close>,
  \<open>handler.go\<close>) and the middleware (\<open>middleware.go\<close>).  The response of \<open>fasthttp\<close> is a third-party
  object: the model keeps the list of the calls made on it.  A handler is a program over the
  context; the request's headers, the encoders and \<open>fmt\<close> are parameters.
\<close>

section \<open>Response writers\<close>

text \<open>The calls on the response of \<open>fasthttp\<close>.\<close>

datatype resp_call = AddHeader string string | SetStatusCode int | WriteBody string

text \<open>
  \<open>rw_ctx\<close> is nil or the response.  A nil map of headers reads as an empty one and is allocated
  before it is written to: both are the empty list.
\<close>

record resp_writer =
  rw_ctx :: "resp_call list option"
  rw_header :: http_header
  rw_wrote_header :: bool
  rw_status_code :: int
  rw_size :: int

definition new_resp_writer :: resp_writer where
  "new_resp_writer =
     \<lparr>rw_ctx = None, rw_header = [], rw_wrote_header = False, rw_status_code = 0, rw_size = 0\<rparr>"

abbreviation StatusOK :: int where "StatusOK \<equiv> 200"
abbreviation StatusNoContent :: int where "StatusNoContent \<equiv> 204"
abbreviation StatusFound :: int where "StatusFound \<equiv> 302"
abbreviation StatusNotFound :: int where "StatusNotFound \<equiv> 404"
abbreviation StatusInternalServerError :: int where "StatusInternalServerError \<equiv> 500"

text \<open>A call on a nil response panics: \<open>None\<close>.\<close>

definition on_response :: "resp_call list \<Rightarrow> resp_writer \<Rightarrow> resp_writer option" where
  "on_response cs r =
     (case rw_ctx r of None \<Rightarrow> None | Some calls \<Rightarrow> Some (r\<lparr>rw_ctx := Some (calls @ cs)\<rparr>))"

definition header_calls :: "http_header \<Rightarrow> resp_call list" where
  "header_calls h = concat (map (\<lambda>(k, vs). map (AddHeader k) vs) h)"

definition resp_write_header :: "int \<Rightarrow> resp_writer \<Rightarrow> resp_writer option" where
  "resp_write_header code r =
     (let code = (if code \<le> 0 then StatusOK else code);
          r = r\<lparr>rw_status_code := code\<rparr>;
          calls = header_calls (rw_header r)
      in map_option (\<lambda>r. r\<lparr>rw_wrote_header := True\<rparr>)
           (on_response (calls @ [SetStatusCode code]) (r\<lparr>rw_header := []\<rparr>)))"

definition resp_write :: "string \<Rightarrow> resp_writer \<Rightarrow> resp_writer option" where
  "resp_write data r =
     (case (if \<not> rw_wrote_header r then resp_write_header StatusOK r else Some r) of
        None \<Rightarrow> None
      | Some r \<Rightarrow>
          if length data = 0 then Some r
          else on_response [WriteBody data] (r\<lparr>rw_size := rw_size r + int (length data)\<rparr>))"

definition resp_status :: "resp_writer \<Rightarrow> int" where
  "resp_status r = (if rw_status_code r = 0 then StatusOK else rw_status_code r)"

definition resp_written :: "resp_writer \<Rightarrow> bool" where
  "resp_written r \<longleftrightarrow> rw_wrote_header r \<or> rw_size r > 0"

definition resp_reset :: "resp_writer \<Rightarrow> resp_writer" where
  "resp_reset r =
     r\<lparr>rw_ctx := None, rw_header := [], rw_wrote_header := False,
       rw_status_code := 0, rw_size := 0\<rparr>"

text \<open>The wrapper of a writer of \<open>net/http\<close>, whose calls are kept in the same way.\<close>

record std_writer =
  sw_calls :: "resp_call list"
  sw_status :: int
  sw_wrote_header :: bool
  sw_size :: int

definition wrap_std_writer :: std_writer where
  "wrap_std_writer = \<lparr>sw_calls = [], sw_status = StatusOK, sw_wrote_header = False, sw_size = 0\<rparr>"

definition std_write_header :: "int \<Rightarrow> std_writer \<Rightarrow> std_writer" where
  "std_write_header code w =
     (let code = (if code \<le> 0 then StatusOK else code) in
      if \<not> sw_wrote_header w then
        w\<lparr>sw_status := code, sw_calls := sw_calls w @ [SetStatusCode code], sw_wrote_header := True\<rparr>
      else w\<lparr>sw_status := code\<rparr>)"

definition std_write :: "string \<Rightarrow> std_writer \<Rightarrow> std_writer" where
  "std_write data w =
     (let w = (if \<not> sw_wrote_header w then std_write_header StatusOK w else w)
      in w\<lparr>sw_calls := sw_calls w @ [WriteBody data], sw_size := sw_size w + int (length data)\<rparr>)"

definition std_status :: "std_writer \<Rightarrow> int" where
  "std_status w = (if sw_status w = 0 then StatusOK else sw_status w)"

definition std_written :: "std_writer \<Rightarrow> bool" where
  "std_written w \<longleftrightarrow> sw_wrote_header w \<or> sw_size w > 0"

section \<open>Contexts and handlers\<close>

text \<open>A request: its method and path, and its headers, empty where there is none.\<close>

record request =
  rq_method :: string
  rq_path :: string
  rq_header :: "string \<Rightarrow> string"

text \<open>
  What a handler sees of the context.  The keys of \<open>values\<close> are strings, a nil map is the empty one; \<open>cx_logged\<close> are the lines
  of the request logger, with the method, path and status.
\<close>

record 'v view =
  cx_writer :: "resp_writer option"
  cx_request :: "request option"
  cx_params :: "(string, string) gomap option"
  cx_full_path :: string
  cx_values :: "(string, 'v) gomap"
  cx_logger :: bool
  cx_logged :: "(string \<times> string \<times> int) list"
  cx_index :: int
  cx_count :: nat

datatype 'v action =
    Status int
  | Header string string
  | WriteData string
  | SetValue string 'v
  | AddParam string string
  | LogRequest

text \<open>
  \<open>Recover\<close> is a function whose deferred call recovers from a panic of its body and runs the
  second program.
\<close>

datatype 'v handler =
    Return
  | Crash
  | Act "'v action" "'v handler"
  | Look "'v view \<Rightarrow> 'v handler"
  | Next "'v handler"
  | Abort "'v handler"
  | Recover "'v handler" "'v handler"

record 'v http_context = "'v view" +
  cx_handlers :: "'v handler option list"
  cx_entered :: "nat list"

text \<open>The handlers entered so far are kept for the statements about the chain.\<close>

definition on_writer :: "(resp_writer \<Rightarrow> resp_writer option) \<Rightarrow> 'v http_context \<Rightarrow> 'v http_context option" where
  "on_writer f c =
     (case cx_writer c of
        None \<Rightarrow> None
      | Some w \<Rightarrow> map_option (\<lambda>w. c\<lparr>cx_writer := Some w\<rparr>) (f w))"

definition set_header :: "string \<Rightarrow> string \<Rightarrow> resp_writer \<Rightarrow> resp_writer option" where
  "set_header key val r =
     Some (r\<lparr>rw_header := (if val = '''' then go_del (canonical_key key) (rw_header r)
                            else go_put (canonical_key key) [val] (rw_header r))\<rparr>)"

definition log_request :: "'v http_context \<Rightarrow> 'v http_context" where
  "log_request c =
     (if \<not> cx_logger c then c
      else
        (let (m, p) = (case cx_request c of None \<Rightarrow> ('''', '''') | Some r \<Rightarrow> (rq_method r, rq_path r));
             status = (case cx_writer c of None \<Rightarrow> StatusOK | Some w \<Rightarrow> resp_status w)
         in c\<lparr>cx_logged := cx_logged c @ [(m, p, status)]\<rparr>))"

definition set_value :: "string \<Rightarrow> 'v \<Rightarrow> 'v http_context \<Rightarrow> 'v http_context" where
  "set_value k v c = c\<lparr>cx_values := go_put k v (cx_values c)\<rparr>"

definition add_param :: "string \<Rightarrow> string \<Rightarrow> 'v http_context \<Rightarrow> 'v http_context option" where
  "add_param k v c =
     (case cx_params c of None \<Rightarrow> None | Some m \<Rightarrow> Some (c\<lparr>cx_params := Some (go_put k v m)\<rparr>))"

definition context_status :: "int \<Rightarrow> 'v http_context \<Rightarrow> 'v http_context option" where
  "context_status code c = on_writer (resp_write_header code) c"

fun perform :: "'v action \<Rightarrow> 'v http_context \<Rightarrow> 'v http_context option" where
  "perform (Status code) c = context_status code c"
| "perform (Header k v) c = on_writer (set_header k v) c"
| "perform (WriteData s) c = on_writer (resp_write s) c"
| "perform (SetValue k v) c = Some (set_value k v c)"
| "perform (AddParam k v) c = add_param k v c"
| "perform LogRequest c = Some (log_request c)"

text \<open>The result of running code: it returns, it panics, or the fuel was not enough.\<close>

datatype run_result = Returned | Panicked | OutOfFuel

primrec run_handler ::
  "('v http_context \<Rightarrow> run_result \<times> 'v http_context) \<Rightarrow> 'v handler \<Rightarrow> 'v http_context \<Rightarrow> run_result \<times> 'v http_context" where
  "run_handler next Return = (\<lambda>c. (Returned, c))"
| "run_handler next Crash = (\<lambda>c. (Panicked, c))"
| "run_handler next (Act a k) =
     (\<lambda>c. case perform a c of None \<Rightarrow> (Panicked, c) | Some c \<Rightarrow> run_handler next k c)"
| "run_handler next (Look f) = (\<lambda>c. run_handler next (f (view.truncate c)) c)"
| "run_handler next (Next k) =
     (\<lambda>c. let (r, c) = next c in if r = Returned then run_handler next k c else (r, c))"
| "run_handler next (Abort k) = (\<lambda>c. run_handler next k (c\<lparr>cx_index := int (length (cx_handlers c))\<rparr>))"
| "run_handler next (Recover body rescue) =
     (\<lambda>c. let (r, c) = run_handler next body c
          in if r = Panicked then run_handler next rescue c else (r, c))"

text \<open>
  The loop of \<open>Context.Next\<close>.  A handler may itself call \<open>Next\<close>; the fuel bounds the handlers still
  to be entered.
\<close>

fun next_loop :: "nat \<Rightarrow> 'v http_context \<Rightarrow> run_result \<times> 'v http_context" where
  "next_loop fuel c =
     (if int (length (cx_handlers c)) \<le> cx_index c then (Returned, c)
      else
        (case fuel of
           0 \<Rightarrow> (OutOfFuel, c)
         | Suc fuel \<Rightarrow>
             (case cx_handlers c ! nat (cx_index c) of
                None \<Rightarrow> next_loop fuel (c\<lparr>cx_index := cx_index c + 1\<rparr>)
              | Some h \<Rightarrow>
                  (let (r, c) = run_handler (\<lambda>c. next_loop fuel (c\<lparr>cx_index := cx_index c + 1\<rparr>)) h
                                  (c\<lparr>cx_entered := cx_entered c @ [nat (cx_index c)]\<rparr>)
                   in if r = Returned then next_loop fuel (c\<lparr>cx_index := cx_index c + 1\<rparr>) else (r, c)))))"

declare next_loop.simps [simp del]

definition context_next :: "'v http_context \<Rightarrow> run_result \<times> 'v http_context" where
  "context_next c = next_loop (length (cx_handlers c)) (c\<lparr>cx_index := cx_index c + 1\<rparr>)"

definition is_aborted :: "'v http_context \<Rightarrow> bool" where
  "is_aborted c \<longleftrightarrow> int (length (cx_handlers c)) \<le> cx_index c"

definition new_context :: "'v http_context" where
  "new_context =
     \<lparr>cx_writer = None, cx_request = None, cx_params = Some [], cx_full_path = '''', cx_values = [],
      cx_logger = False, cx_logged = [], cx_index = -1, cx_count = 0, cx_handlers = [], cx_entered = []\<rparr>"

definition context_reset :: "'v http_context \<Rightarrow> 'v http_context" where
  "context_reset c =
     c\<lparr>cx_writer := None, cx_request := None, cx_handlers := [], cx_index := -1, cx_count := 0,
       cx_logger := False, cx_full_path := '''', cx_params := Some [],
       cx_values := [], cx_logged := [], cx_entered := []\<rparr>"

text \<open>Reading values and parameters.\<close>

definition get_value :: "string \<Rightarrow> ('v, 'm) view_scheme \<Rightarrow> 'v option" where
  "get_value k c = go_get (cx_values c) k"

definition value_or_parent :: "(string \<Rightarrow> 'v option) \<Rightarrow> string \<Rightarrow> ('v, 'm) view_scheme \<Rightarrow> 'v option" where
  "value_or_parent parent k c = (case get_value k c of Some v \<Rightarrow> Some v | None \<Rightarrow> parent k)"

definition get_param :: "string \<Rightarrow> ('v, 'm) view_scheme \<Rightarrow> string" where
  "get_param k c =
     (case cx_params c of None \<Rightarrow> '''' | Some m \<Rightarrow> (case go_get m k of None \<Rightarrow> '''' | Some v \<Rightarrow> v))"

text \<open>\<open>QueryMap\<close> and \<open>PostFormMap\<close>: the arguments of the form \<open>key[sub]\<close>, in the order of the arguments.\<close>

definition bracket_key :: "string \<Rightarrow> string \<Rightarrow> string option" where
  "bracket_key key s =
     (if length s > length key + 2 \<and> take (length key) s = key \<and> s ! length key = CHR ''[''
         \<and> s ! (length s - 1) = CHR '']''
      then Some (take (length s - 1 - (length key + 1)) (drop (length key + 1) s))
      else None)"

definition bracket_map :: "string \<Rightarrow> (string \<times> string) list \<Rightarrow> (string, string) gomap" where
  "bracket_map key xs =
     fold (\<lambda>(k, v) m. case bracket_key key k of None \<Rightarrow> m | Some sub \<Rightarrow> go_put sub v m) xs []"

definition or_default :: "string \<Rightarrow> string \<Rightarrow> string" where
  "or_default default_value val = (if val = '''' then default_value else val)"

section \<open>Results\<close>

text \<open>
  The encoders panic in the handler when they fail.  \<open>sprintf\<close> is \<open>fmt.Sprintf\<close>; a reader is the
  list of chunks it yields; \<open>enc_html\<close> is the HTML renderer of the server, if it has one.
\<close>

record 'd encoders =
  enc_json :: "'d \<Rightarrow> string option"
  enc_xml :: "'d \<Rightarrow> string option"
  enc_sprintf :: "string \<Rightarrow> 'd list \<Rightarrow> string"
  enc_bytes :: "'d \<Rightarrow> string option"
  enc_reader :: "'d \<Rightarrow> string list option"
  enc_status_text :: "int \<Rightarrow> string"
  enc_html :: "(string \<Rightarrow> 'd \<Rightarrow> string list option) option"

definition write_or_crash :: "string option \<Rightarrow> 'v handler" where
  "write_or_crash s = (case s of None \<Rightarrow> Crash | Some x \<Rightarrow> Act (WriteData x) Return)"

definition write_chunks :: "string list \<Rightarrow> 'v handler" where
  "write_chunks xs = foldr (\<lambda>x k. Act (WriteData x) k) xs Return"

definition content_type :: string where
  "content_type = ''Content-Type''"

definition context_json :: "'d encoders \<Rightarrow> int \<Rightarrow> 'd \<Rightarrow> 'v handler" where
  "context_json enc code x =
     Act (Header content_type ''application/json'') (Act (Status code) (write_or_crash (enc_json enc x)))"

definition context_xml :: "'d encoders \<Rightarrow> int \<Rightarrow> 'd \<Rightarrow> 'v handler" where
  "context_xml enc code x =
     Act (Header content_type ''application/xml'') (Act (Status code) (write_or_crash (enc_xml enc x)))"

definition context_string :: "'d encoders \<Rightarrow> int \<Rightarrow> string \<Rightarrow> 'd list \<Rightarrow> 'v handler" where
  "context_string enc code fmt xs =
     Act (Header content_type ''text/plain; charset=utf-8'') (Act (Status code)
       (Act (WriteData (if length xs > 0 then enc_sprintf enc fmt xs else fmt)) Return))"

definition context_data :: "int \<Rightarrow> string \<Rightarrow> string \<Rightarrow> 'v handler" where
  "context_data code ctype data =
     Act (Header content_type ctype) (Act (Status code) (Act (WriteData data) Return))"

definition context_html :: "'d encoders \<Rightarrow> int \<Rightarrow> string \<Rightarrow> 'd option \<Rightarrow> 'v handler" where
  "context_html enc code name x =
     Act (Header content_type ''text/html; charset=utf-8'') (Act (Status code)
       (case (enc_html enc, x) of
          (Some render, Some d) \<Rightarrow>
            (case render name d of None \<Rightarrow> Crash | Some chunks \<Rightarrow> write_chunks chunks)
        | _ \<Rightarrow> Act (WriteData name) Return))"

definition or_code :: "int \<Rightarrow> int \<Rightarrow> int" where
  "or_code default_code code = (if code = 0 then default_code else code)"

text \<open>\<open>strings.Contains\<close> of the lowercase forms.\<close>

fun has_substring :: "string \<Rightarrow> string \<Rightarrow> bool" where
  "has_substring [] sub = (sub = [])"
| "has_substring (c # cs) sub = (take (length sub) (c # cs) = sub \<or> has_substring cs sub)"

definition contains_fold :: "string \<Rightarrow> string \<Rightarrow> bool" where
  "contains_fold s sub = has_substring (map lower_char s) (map lower_char sub)"

datatype stat_result = NotExist | StatFailed | Unreadable string | Readable string string

datatype ('d, 'v) go_result =
    AutoResult 'd int "(string \<times> string) list" "('d \<Rightarrow> (string \<times> string) option) option"
  | JSONResult 'd int
  | XMLResult 'd int
  | HTMLResult string "'d option" int
  | StringResult string "'d list" int
  | DataResult string string int
  | RedirectResult string int
  | ErrorResult "string option" int string
  | NoContentResult
  | StreamResult "string list" string int
  | FileResult stat_result

definition auto_marshal :: "'d encoders \<Rightarrow> 'd \<Rightarrow> int \<Rightarrow> string \<Rightarrow> 'v handler" where
  "auto_marshal enc x code accept =
     (let accept = (if accept = '''' then ''*/*'' else accept) in
      if contains_fold accept ''application/json'' \<or> accept = ''*/*'' then context_json enc code x
      else if contains_fold accept ''application/xml'' \<or> contains_fold accept ''text/xml''
      then context_xml enc code x
      else if contains_fold accept ''text/plain'' then context_string enc code ''%v'' [x]
      else if contains_fold accept ''application/octet-stream'' then
        (case enc_bytes enc x of
           Some data \<Rightarrow> context_data code ''application/octet-stream'' data
         | None \<Rightarrow>
             (case enc_reader enc x of
                Some chunks \<Rightarrow>
                  Act (Header content_type ''application/octet-stream'') (Act (Status code) (write_chunks chunks))
              | None \<Rightarrow> Crash))
      else context_json enc code x)"

definition execute_auto ::
  "'d encoders \<Rightarrow> 'd \<Rightarrow> int \<Rightarrow> (string \<times> string) list \<Rightarrow> ('d \<Rightarrow> (string \<times> string) option) option \<Rightarrow> 'v handler" where
  "execute_auto enc x code headers marshal =
     (let code = or_code StatusOK code in
      foldr (\<lambda>(k, v) rest. Act (Header k v) rest) headers
        (case marshal of
           Some f \<Rightarrow>
             (case f x of
                None \<Rightarrow> Crash
              | Some (body, ctype) \<Rightarrow>
                  Act (Header content_type ctype) (Act (Status code) (Act (WriteData body) Return)))
         | None \<Rightarrow>
             Look (\<lambda>c. case cx_request c of
                         None \<Rightarrow> Crash
                       | Some rq \<Rightarrow> auto_marshal enc x code (rq_header rq ''Accept''))))"

definition execute_redirect :: "string \<Rightarrow> int \<Rightarrow> 'v handler" where
  "execute_redirect url code =
     Act (Header ''Location'' url) (Act (Status (or_code StatusFound code)) Return)"

definition execute_error :: "'d encoders \<Rightarrow> string option \<Rightarrow> int \<Rightarrow> string \<Rightarrow> 'v handler" where
  "execute_error enc err code msg =
     (let code = or_code StatusInternalServerError code;
          msg = (if msg = '''' then (case err of Some e \<Rightarrow> e | None \<Rightarrow> msg) else msg);
          msg = (if msg = '''' then enc_status_text enc code else msg)
      in Act (Header content_type ''text/plain; charset=utf-8'') (Act (Status code) (Act (WriteData msg) Return)))"

definition execute_no_content :: "'v handler" where
  "execute_no_content =
     Look (\<lambda>c. case cx_writer c of
                 None \<Rightarrow> Return
               | Some w \<Rightarrow> if \<not> resp_written w then Act (Status StatusNoContent) Return else Return)"

definition execute_stream :: "string list \<Rightarrow> string \<Rightarrow> int \<Rightarrow> 'v handler" where
  "execute_stream chunks ctype code =
     Act (Header content_type (if ctype = '''' then ''application/octet-stream'' else ctype))
       (Act (Status (or_code StatusOK code)) (write_chunks chunks))"

definition execute_file :: "stat_result \<Rightarrow> 'v handler" where
  "execute_file st =
     (case st of
        NotExist \<Rightarrow> Act (Status StatusNotFound) Return
      | StatFailed \<Rightarrow> Act (Status StatusInternalServerError) Return
      | Unreadable ctype \<Rightarrow>
          Act (Header content_type (or_default ''application/octet-stream'' ctype)) (Act (Status StatusOK)
            (Act (Status StatusInternalServerError) Return))
      | Readable ctype data \<Rightarrow>
          Act (Header content_type (or_default ''application/octet-stream'' ctype)) (Act (Status StatusOK)
            (Act (WriteData data) Return)))"

fun execute_result :: "'d encoders \<Rightarrow> ('d, 'v) go_result \<Rightarrow> 'v handler" where
  "execute_result enc (AutoResult x code headers marshal) = execute_auto enc x code headers marshal"
| "execute_result enc (JSONResult x code) = context_json enc (or_code StatusOK code) x"
| "execute_result enc (XMLResult x code) = context_xml enc (or_code StatusOK code) x"
| "execute_result enc (HTMLResult name x code) = context_html enc (or_code StatusOK code) name x"
| "execute_result enc (StringResult fmt xs code) = context_string enc (or_code StatusOK code) fmt xs"
| "execute_result enc (DataResult data ctype code) = context_data (or_code StatusOK code) ctype data"
| "execute_result enc (RedirectResult url code) = execute_redirect url code"
| "execute_result enc (ErrorResult err code msg) = execute_error enc err code msg"
| "execute_result enc NoContentResult = execute_no_content"
| "execute_result enc (StreamResult chunks ctype code) = execute_stream chunks ctype code"
| "execute_result enc (FileResult st) = execute_file st"

definition wrap_result :: "'d encoders \<Rightarrow> ('v view \<Rightarrow> ('d, 'v) go_result option) \<Rightarrow> 'v handler" where
  "wrap_result enc f =
     Look (\<lambda>c. case f c of None \<Rightarrow> Return | Some r \<Rightarrow> execute_result enc r)"

section \<open>Middleware\<close>

definition recovery :: "'v handler" where
  "recovery =
     Recover (Next Return)
       (Look (\<lambda>c. case cx_writer c of
                    Some w \<Rightarrow> if \<not> resp_written w
                              then Act (Status StatusInternalServerError) (Abort Return) else Abort Return
                  | None \<Rightarrow> Abort Return))"

definition request_logger :: "'v handler" where
  "request_logger = Next (Act LogRequest Return)"

record request_id_config =
  ri_header_name :: string
  ri_disable_incoming :: bool
  ri_disable_response_header :: bool

text \<open>\<open>fresh\<close> is the identifier \<open>newRequestID\<close> makes of the clock and a counter.\<close>

definition request_id :: "request_id_config \<Rightarrow> (string \<Rightarrow> 'v) \<Rightarrow> string \<Rightarrow> 'v handler" where
  "request_id cfg as_value fresh =
     (let name = or_default ''X-Request-ID'' (ri_header_name cfg) in
      Look (\<lambda>c. case cx_request c of
        None \<Rightarrow> Next Return
      | Some rq \<Rightarrow>
          (let ident = (if \<not> ri_disable_incoming cfg then rq_header rq name else '''');
               ident = (if ident = '''' then fresh else ident)
           in Act (SetValue ''requestIDKey'' (as_value ident))
                (if \<not> ri_disable_response_header cfg then Act (Header name ident) (Next Return)
                 else Next Return))))"

record cors_config =
  co_allow_origins :: "string list"
  co_allow_origin_func :: "(string \<Rightarrow> bool) option"
  co_allow_methods :: string
  co_allow_headers :: string
  co_expose_headers :: string
  co_allow_credentials :: bool
  co_max_age :: int

definition origin_allowed :: "cors_config \<Rightarrow> string \<Rightarrow> bool" where
  "origin_allowed cfg origin =
     (case co_allow_origin_func cfg of
        Some f \<Rightarrow> f origin
      | None \<Rightarrow> if length (co_allow_origins cfg) = 0 then True else origin \<in> set (co_allow_origins cfg))"

definition cors_origin_header :: string where
  "cors_origin_header = ''Access-Control-Allow-Origin''"

definition set_if :: "bool \<Rightarrow> string \<Rightarrow> string \<Rightarrow> 'v handler \<Rightarrow> 'v handler" where
  "set_if b key val k = (if b then Act (Header key val) k else k)"

definition max_age_text :: "int \<Rightarrow> string" where
  "max_age_text age = (if age > 0 then map (\<lambda>b. char_of (unat b)) (format_int (age div 1000000000)) else '''')"

definition cors :: "cors_config \<Rightarrow> 'v handler" where
  "cors cfg =
     (let allow_methods = or_default ''GET,POST,PUT,PATCH,DELETE,HEAD,OPTIONS'' (co_allow_methods cfg);
          allow_headers = or_default ''Content-Type,Authorization'' (co_allow_headers cfg);
          max_age = max_age_text (co_max_age cfg)
      in Look (\<lambda>c. case cx_request c of
           None \<Rightarrow> Next Return
         | Some rq \<Rightarrow>
             (let origin = rq_header rq ''Origin'' in
              if origin = '''' then Next Return
              else if \<not> origin_allowed cfg origin then Next Return
              else
                Act (Header cors_origin_header origin)
                  (set_if (co_allow_credentials cfg) ''Access-Control-Allow-Credentials'' ''true''
                  (set_if (co_expose_headers cfg \<noteq> '''') ''Access-Control-Expose-Headers'' (co_expose_headers cfg)
                    (if rq_method rq = ''OPTIONS'' \<and> rq_header rq ''Access-Control-Request-Method'' \<noteq> '''' then
                       Act (Header ''Access-Control-Allow-Methods'' allow_methods)
                       (Act (Header ''Access-Control-Allow-Headers'' allow_headers)
                       (set_if (max_age \<noteq> '''') ''Access-Control-Max-Age'' max_age
                         (Act (Status StatusNoContent) (Abort Return))))
                     else Next Return))))))"

section \<open>A request\<close>

text \<open>
  The part of \<open>FastHandler\<close> around the routing: a context and a writer from the pools, the matched
  handlers or the status for no match, and the reset of both.  The result is the list of calls on
  the response of \<open>fasthttp\<close>, and the objects that go back to the pools.
\<close>

definition handle_request ::
  "request \<Rightarrow> bool \<Rightarrow> ('v handler option list \<times> string \<times> (string, string) gomap) option
     \<Rightarrow> 'v http_context \<Rightarrow> resp_writer \<Rightarrow> run_result \<times> resp_call list \<times> 'v http_context \<times> resp_writer" where
  "handle_request rq logger match c w =
     (let w = w\<lparr>rw_ctx := Some []\<rparr>;
          c = c\<lparr>cx_request := Some rq, cx_logger := logger, cx_writer := Some w\<rparr>;
          (r, c) = (case match of
                      None \<Rightarrow> (case perform (Status StatusNotFound) c of
                                 None \<Rightarrow> (Panicked, c) | Some c \<Rightarrow> (Returned, c))
                    | Some (hs, full, params) \<Rightarrow>
                        context_next (c\<lparr>cx_full_path := full, cx_params := Some params,
                                        cx_handlers := cx_handlers c @ hs,
                                        cx_count := length (cx_handlers c @ hs)\<rparr>));
          w = (case cx_writer c of None \<Rightarrow> w | Some w \<Rightarrow> w)
      in (r, (case rw_ctx w of None \<Rightarrow> [] | Some calls \<Rightarrow> calls), context_reset c, resp_reset w))"

section \<open>Building results\<close>

text \<open>The constructors of \<open>result.go\<close> and the methods of \<open>AutoResult\<close> that return it changed.\<close>

definition new_auto_result :: "'d \<Rightarrow> ('d, 'v) go_result" where
  "new_auto_result x = AutoResult x StatusOK [] None"

fun auto_set_code :: "int \<Rightarrow> ('d, 'v) go_result \<Rightarrow> ('d, 'v) go_result" where
  "auto_set_code code (AutoResult x _ hs m) = AutoResult x code hs m"
| "auto_set_code code r = r"

fun auto_set_header :: "string \<Rightarrow> string \<Rightarrow> ('d, 'v) go_result \<Rightarrow> ('d, 'v) go_result" where
  "auto_set_header k v (AutoResult x code hs m) = AutoResult x code (go_put k v hs) m"
| "auto_set_header k v r = r"

fun auto_set_headers :: "(string, string) gomap \<Rightarrow> ('d, 'v) go_result \<Rightarrow> ('d, 'v) go_result" where
  "auto_set_headers kvs (AutoResult x code hs m) = AutoResult x code (fold (\<lambda>(k, v). go_put k v) kvs hs) m"
| "auto_set_headers kvs r = r"

fun auto_set_marshal :: "('d \<Rightarrow> (string \<times> string) option) option \<Rightarrow> ('d, 'v) go_result \<Rightarrow> ('d, 'v) go_result" where
  "auto_set_marshal f (AutoResult x code hs _) = AutoResult x code hs f"
| "auto_set_marshal f r = r"

definition auto_code :: "'d \<Rightarrow> int \<Rightarrow> ('d, 'v) go_result" where
  "auto_code x code = auto_set_code code (new_auto_result x)"

definition auto_with_headers :: "'d \<Rightarrow> (string, string) gomap \<Rightarrow> ('d, 'v) go_result" where
  "auto_with_headers x kvs = auto_set_headers kvs (new_auto_result x)"

definition auto_custom :: "'d \<Rightarrow> ('d \<Rightarrow> (string \<times> string) option) option \<Rightarrow> ('d, 'v) go_result" where
  "auto_custom x f = auto_set_marshal f (new_auto_result x)"

definition json_result :: "'d \<Rightarrow> ('d, 'v) go_result" where
  "json_result x = JSONResult x StatusOK"

definition xml_result :: "'d \<Rightarrow> ('d, 'v) go_result" where
  "xml_result x = XMLResult x StatusOK"

definition html_result :: "string \<Rightarrow> 'd option \<Rightarrow> ('d, 'v) go_result" where
  "html_result template x = HTMLResult template x StatusOK"

definition string_result :: "string \<Rightarrow> 'd list \<Rightarrow> ('d, 'v) go_result" where
  "string_result fmt xs = StringResult fmt xs StatusOK"

definition data_result :: "string \<Rightarrow> string \<Rightarrow> ('d, 'v) go_result" where
  "data_result ctype data = DataResult data ctype StatusOK"

definition redirect_result :: "string \<Rightarrow> ('d, 'v) go_result" where
  "redirect_result url = RedirectResult url StatusFound"

definition error_result :: "string option \<Rightarrow> ('d, 'v) go_result" where
  "error_result err = ErrorResult err StatusInternalServerError (case err of None \<Rightarrow> '''' | Some m \<Rightarrow> m)"

definition error_msg :: "string \<Rightarrow> ('d, 'v) go_result" where
  "error_msg msg = ErrorResult None StatusInternalServerError msg"

definition error_code :: "string option \<Rightarrow> int \<Rightarrow> ('d, 'v) go_result" where
  "error_code err code = ErrorResult err code (case err of None \<Rightarrow> '''' | Some m \<Rightarrow> m)"

definition error_status_code :: "int \<Rightarrow> string \<Rightarrow> ('d, 'v) go_result" where
  "error_status_code code msg = ErrorResult None code msg"

definition stream_result :: "string list \<Rightarrow> ('d, 'v) go_result" where
  "stream_result chunks = StreamResult chunks '''' StatusOK"

definition stream_with_type :: "string list \<Rightarrow> string \<Rightarrow> ('d, 'v) go_result" where
  "stream_with_type chunks ctype = StreamResult chunks ctype StatusOK"

section \<open>Reading the request\<close>

text \<open>
  The arguments of the query and of a form are lists of pairs in their order, as \<open>fasthttp\<close> keeps
  them; \<open>Peek\<close> gives the first value of a key, nil when there is none.
\<close>

type_synonym fast_args = "(string \<times> string) list"

definition peek_arg :: "string \<Rightarrow> fast_args \<Rightarrow> string option" where
  "peek_arg key xs = map_of xs key"

definition arg_string :: "string \<Rightarrow> fast_args \<Rightarrow> string" where
  "arg_string key xs = (case peek_arg key xs of None \<Rightarrow> '''' | Some v \<Rightarrow> v)"

definition get_arg :: "string \<Rightarrow> fast_args \<Rightarrow> string \<times> bool" where
  "get_arg key xs = (case peek_arg key xs of None \<Rightarrow> ('''', False) | Some v \<Rightarrow> (v, True))"

definition arg_default :: "string \<Rightarrow> string \<Rightarrow> fast_args \<Rightarrow> string" where
  "arg_default key default_value xs = or_default default_value (arg_string key xs)"

definition arg_array :: "string \<Rightarrow> fast_args \<Rightarrow> string list" where
  "arg_array key xs = map snd (filter (\<lambda>(k, _). k = key) xs)"

text \<open>
  \<open>strings.EqualFold\<close> against a text of ASCII letters: beside the two cases, the long s (U+017F) and
  the sign of Kelvin (U+212A) fold to letters.
\<close>

definition fold_text :: "string \<Rightarrow> string" where
  "fold_text s =
     map lower_char (replace_all (map char_of [226, 132, 170 :: nat]) ''k''
       (replace_all (map char_of [197, 191 :: nat]) ''s'' s))"

definition equal_fold :: "string \<Rightarrow> string \<Rightarrow> bool" where
  "equal_fold s ascii \<longleftrightarrow> fold_text s = map lower_char ascii"

definition is_websocket :: "(string \<Rightarrow> string) \<Rightarrow> bool" where
  "is_websocket header \<longleftrightarrow> equal_fold (header ''Upgrade'') ''websocket''"

definition abort_with_status :: "int \<Rightarrow> 'v handler" where
  "abort_with_status code = Act (Status code) (Abort Return)"

definition abort_with_json :: "'d encoders \<Rightarrow> int \<Rightarrow> 'd \<Rightarrow> 'v handler" where
  "abort_with_json enc code x =
     Act (Header content_type ''application/json'') (Act (Status code)
       (case enc_json enc x of None \<Rightarrow> Crash | Some s \<Rightarrow> Act (WriteData s) (Abort Return)))"

text \<open>
  The codecs of the server (\<open>codec.go\<close>), by the normalised content type; content types are ASCII.
  A codec is the function \<open>EncodeBytes\<close>.
\<close>

datatype codec_error = ErrInvalidCodec | ErrAlreadyRegistered

definition server_content_type :: "string \<Rightarrow> string" where
  "server_content_type ct = takeWhile (\<lambda>c. c \<notin> set '';,'') (trim_space (map lower_char ct))"

definition factory_get :: "string \<Rightarrow> (string, 'c) gomap \<Rightarrow> 'c option" where
  "factory_get name m = go_get m (server_content_type name)"

definition factory_register :: "string \<Rightarrow> 'c option \<Rightarrow> (string, 'c) gomap \<Rightarrow> codec_error option \<times> (string, 'c) gomap" where
  "factory_register name c m =
     (case c of
        None \<Rightarrow> (Some ErrInvalidCodec, m)
      | Some c \<Rightarrow>
          (let key = server_content_type name in
           if go_get m key \<noteq> None then (Some ErrAlreadyRegistered, m) else (None, go_put key c m)))"

definition new_codec_factory :: "'c \<Rightarrow> 'c \<Rightarrow> 'c \<Rightarrow> (string, 'c) gomap" where
  "new_codec_factory json xml yaml =
     fold (\<lambda>(name, c) m. snd (factory_register name (Some c) m))
       [(''application/json'', json), (''application/xml'', xml), (''text/xml'', xml),
        (''application/x-yaml'', yaml), (''application/yaml'', yaml), (''text/yaml'', yaml)] []"

text \<open>\<open>RespAuto\<close> calls the codec for the header \<open>Accept\<close>; a nil codec panics.\<close>

definition resp_auto :: "(string, 'd \<Rightarrow> string option) gomap \<Rightarrow> string \<Rightarrow> 'd \<Rightarrow> 'v handler" where
  "resp_auto codecs accept x =
     (case factory_get (if accept = '''' then ''application/json'' else accept) codecs of
        None \<Rightarrow> Crash
      | Some encode \<Rightarrow> write_or_crash (encode x))"

lemma registered_codec_found:
  "factory_register name (Some c) m = (None, m') \<Longrightarrow>
     factory_get other m' = (if server_content_type other = server_content_type name then Some c else factory_get other m)"
  by (auto simp: factory_register_def factory_get_def Let_def split: if_splits)

text \<open>A client that accepts anything makes \<open>RespAuto\<close> panic.\<close>

lemma accept_anything_panics: "resp_auto (new_codec_factory j x y) ''*/*'' d = Crash"
proof -
  have words: "list_all (\<lambda>s. list_all plain_char s)
      [''*/*'', ''application/json'', ''application/xml'', ''text/xml'', ''application/x-yaml'', ''application/yaml'', ''text/yaml'']"
    by (simp add: plain_char_def)
  have "server_content_type s = s" if "s \<in> set [''*/*'', ''application/json'', ''application/xml'', ''text/xml'', ''application/x-yaml'', ''application/yaml'', ''text/yaml'']" for s
  proof -
    from words that have "list_all plain_char s" unfolding list_all_iff [where xs = "_ # _"] by blast
    then have "trim_space s = s" by (rule trim_word)
    moreover from that have "map lower_char s = s" and "takeWhile (\<lambda>c. c \<notin> set '';,'') s = s"
      by (auto simp: lower_char_def)
    ultimately show ?thesis by (simp add: server_content_type_def)
  qed
  then show ?thesis
    by (simp add: resp_auto_def factory_get_def new_codec_factory_def factory_register_def Let_def)
qed

definition context_render :: "('d \<Rightarrow> string list option) option \<Rightarrow> 'd \<Rightarrow> 'v handler" where
  "context_render render x =
     (case render of
        None \<Rightarrow> Crash
      | Some f \<Rightarrow> (case f x of None \<Rightarrow> Crash | Some chunks \<Rightarrow> write_chunks chunks))"

lemma arg_default_value: "arg_default key d xs = '''' \<Longrightarrow> d = ''''"
  by (simp add: arg_default_def or_default_def split: if_splits)

lemma arg_array_first: "arg_array key xs = [] \<longleftrightarrow> peek_arg key xs = None"
  by (induction xs) (auto simp: arg_array_def peek_arg_def)

lemma arg_array_head: "peek_arg key xs = Some v \<Longrightarrow> \<exists>vs. arg_array key xs = v # vs"
  by (induction xs) (auto simp: arg_array_def peek_arg_def split: if_splits)

end
