(* ===== verification/ServerContextFacts.thy ===== *)
theory ServerContextFacts
  imports ServerContext
begin

text \<open>
  What the handling of a request promises: the chain of handlers ends, enters every handler at most
  once and in order and none after an abort; recovery contains panics; the calls on the response
  are in order; and nothing of a request reaches the next one.
\<close>

section \<open>Progress of the chain\<close>

definition pos :: "'v http_context \<Rightarrow> int" where
  "pos c = min (cx_index c) (int (length (cx_handlers c)))"

text \<open>A response whose writer can be used.\<close>

definition live :: "'v http_context \<Rightarrow> bool" where
  "live c \<longleftrightarrow> (case cx_writer c of None \<Rightarrow> False | Some w \<Rightarrow> rw_ctx w \<noteq> None)"

text \<open>
  What running code leaves of the chain: the same handlers, a position that has not moved back, and
  some more handlers entered, in order, each beyond \<open>low\<close> and none beyond the new position.
\<close>

definition entered_from :: "int \<Rightarrow> 'v http_context \<Rightarrow> 'v http_context \<Rightarrow> bool" where
  "entered_from low c c' \<longleftrightarrow>
     cx_handlers c' = cx_handlers c \<and> pos c \<le> pos c' \<and> (live c \<longrightarrow> live c') \<and>
     (\<exists>xs. cx_entered c' = cx_entered c @ xs \<and> sorted_wrt (<) xs \<and>
        (\<forall>x \<in> set xs. low \<le> int x \<and> int x \<le> pos c' \<and> int x < int (length (cx_handlers c))))"

lemma entered_from_refl: "entered_from low c c"
  by (simp add: entered_from_def)

lemma entered_from_trans:
  assumes "entered_from low c c'" and "entered_from low' c' c''" and "low \<le> low'"
  and "low' = pos c' + 1 \<or> int (length (cx_handlers c)) \<le> low'"
  shows "entered_from low c c''"
proof -
  obtain xs where xs: "cx_entered c' = cx_entered c @ xs" "sorted_wrt (<) xs"
    "\<forall>x \<in> set xs. low \<le> int x \<and> int x \<le> pos c' \<and> int x < int (length (cx_handlers c))"
    using assms(1) by (auto simp: entered_from_def)
  obtain ys where ys: "cx_entered c'' = cx_entered c' @ ys" "sorted_wrt (<) ys"
    "\<forall>y \<in> set ys. low' \<le> int y \<and> int y \<le> pos c'' \<and> int y < int (length (cx_handlers c'))"
    using assms(2) by (auto simp: entered_from_def)
  have same: "cx_handlers c' = cx_handlers c" "cx_handlers c'' = cx_handlers c" "pos c \<le> pos c'" "pos c' \<le> pos c''"
    "live c \<longrightarrow> live c''"
    using assms(1,2) by (auto simp: entered_from_def)
  have "\<forall>x \<in> set xs. \<forall>y \<in> set ys. x < y"
    using xs(3) ys(3) assms(4) same(1) by fastforce
  then have "sorted_wrt (<) (xs @ ys)"
    using xs(2) ys(2) by (simp add: sorted_wrt_append)
  moreover have "\<forall>x \<in> set (xs @ ys). low \<le> int x \<and> int x \<le> pos c'' \<and> int x < int (length (cx_handlers c))"
    using xs(3) ys(3) same assms(3) by fastforce
  ultimately show ?thesis
    using xs(1) ys(1) same unfolding entered_from_def by (metis append_assoc order_trans)
qed

lemma on_response_ctx: "on_response cs w = Some w' \<Longrightarrow> rw_ctx w \<noteq> None \<and> rw_ctx w' \<noteq> None"
  by (auto simp: on_response_def split: option.splits)

lemma perform_keeps:
  assumes "perform a c = Some c'"
  shows "cx_handlers c' = cx_handlers c" and "cx_index c' = cx_index c" and "cx_entered c' = cx_entered c"
    and "live c \<Longrightarrow> live c'"
proof -
  have "cx_handlers c' = cx_handlers c \<and> cx_index c' = cx_index c \<and> cx_entered c' = cx_entered c \<and> (live c \<longrightarrow> live c')"
    using assms
    by (cases a)
       (auto simp: on_writer_def context_status_def set_value_def add_param_def live_def set_header_def resp_write_header_def resp_write_def log_request_def Let_def
             dest!: on_response_ctx split: option.splits if_splits prod.splits)
  then show "cx_handlers c' = cx_handlers c" and "cx_index c' = cx_index c" and "cx_entered c' = cx_entered c"
    and "live c \<Longrightarrow> live c'"
    by auto
qed

definition enters :: "'v http_context \<Rightarrow> 'v http_context \<Rightarrow> bool" where
  "enters c c' \<longleftrightarrow> entered_from (pos c + 1) c c'"

lemma enters_refl [simp]: "enters c c"
  by (simp add: enters_def entered_from_refl)

lemma enters_trans: "enters c c' \<Longrightarrow> enters c' c'' \<Longrightarrow> enters c c''"
  unfolding enters_def
  by (rule entered_from_trans[where low' = "pos c' + 1"]) (auto simp: entered_from_def)

lemma perform_enters: "perform a c = Some c' \<Longrightarrow> enters c c'"
  by (auto simp: enters_def entered_from_def pos_def perform_keeps)

lemma abort_enters: "enters c (c\<lparr>cx_index := int (length (cx_handlers c))\<rparr>)"
  by (simp add: enters_def entered_from_def pos_def live_def)

lemma enters_index: "enters c c' \<Longrightarrow> - 1 \<le> cx_index c \<Longrightarrow> - 1 \<le> cx_index c'"
  by (auto simp: enters_def entered_from_def pos_def)

text \<open>Code that calls \<open>Next\<close> makes progress if \<open>Next\<close> does.\<close>

lemma run_handler_enters:
  assumes step: "\<And>c r c'. next c = (r, c') \<Longrightarrow> - 1 \<le> cx_index c \<Longrightarrow> enters c c'"
  shows "run_handler next h c = (r, c') \<Longrightarrow> - 1 \<le> cx_index c \<Longrightarrow> enters c c'"
proof (induction h arbitrary: c r c')
  case (Look f)
  then show ?case
    using Look.IH[OF rangeI] by simp
next
  case (Act a k)
  show ?case
  proof (cases "perform a c")
    case (Some c1)
    then show ?thesis
      using Act enters_trans[OF perform_enters[OF Some]] by (auto simp: perform_keeps)
  qed (use Act in simp)
next
  case (Next k)
  obtain r1 c1 where n: "next c = (r1, c1)" by fastforce
  note step1 = step[OF n Next.prems(2)]
  show ?case
    using Next.prems n Next.IH[of c1] step1 enters_trans[OF step1] enters_index[OF step1]
    by (auto simp: Let_def split: if_splits)
next
  case (Abort k)
  show ?case
    by (rule enters_trans[OF abort_enters]) (use Abort in auto)
next
  case (Recover body rescue)
  obtain r1 c1 where body: "run_handler next body c = (r1, c1)" by fastforce
  note step1 = Recover.IH(1)[OF body Recover.prems(2)]
  show ?case
    using Recover.prems body Recover.IH(2)[of c1] step1 enters_trans[OF step1] enters_index[OF step1]
    by (auto simp: Let_def split: if_splits)
qed auto

lemma entered_from_step: "entered_from (pos (c\<lparr>cx_index := cx_index c + 1\<rparr>)) (c\<lparr>cx_index := cx_index c + 1\<rparr>) c' \<Longrightarrow>
   enters c c'"
  by (fastforce simp: enters_def entered_from_def pos_def live_def min_def split: if_splits)

lemma next_loop_entered: "next_loop n (c :: 'v http_context) = (r, c') \<Longrightarrow> 0 \<le> cx_index c \<Longrightarrow> entered_from (pos c) c c'"
proof (induction n arbitrary: c r c')
  case 0
  then show ?case
    by (subst (asm) next_loop.simps) (auto simp: entered_from_refl split: if_splits)
next
  case (Suc n)
  note start = Suc.prems(2)
  have again: "enters c c'" if "next_loop n (c\<lparr>cx_index := cx_index c + 1\<rparr>) = (r, c')" and "- 1 \<le> cx_index c"
      for c c' :: "'v http_context" and r
    using Suc.IH[OF that(1)] that(2) by (intro entered_from_step) simp
  show ?case
  proof (cases "int (length (cx_handlers c)) \<le> cx_index c")
    case True
    then show ?thesis
      using Suc.prems by (subst (asm) next_loop.simps) (simp add: entered_from_refl)
  next
    case False
    then have pos: "pos c = cx_index c"
      by (simp add: pos_def)
    define c1 where "c1 = c\<lparr>cx_entered := cx_entered c @ [nat (cx_index c)]\<rparr>"
    show ?thesis
    proof (cases "cx_handlers c ! nat (cx_index c)")
      case None
      then have "enters c c'"
        using Suc.prems False again[of c r c'] by (subst (asm) next_loop.simps) simp
      then show ?thesis
        by (fastforce simp: enters_def entered_from_def)
    next
      case (Some h)
      obtain r2 c2 where run: "run_handler (\<lambda>c. next_loop n (c\<lparr>cx_index := cx_index c + 1\<rparr>)) h c1 = (r2, c2)"
        by fastforce
      have "enters c1 c2"
        by (rule run_handler_enters[OF again run]) (use start in \<open>auto simp: c1_def\<close>)
      moreover from this have "- 1 \<le> cx_index c2"
        by (rule enters_index) (use start in \<open>simp add: c1_def\<close>)
      then have "c' = c2 \<or> enters c2 c'"
        using Suc.prems False Some run again[of c2 r c']
        by (subst (asm) next_loop.simps) (auto simp: c1_def Let_def split: if_splits)
      ultimately have "enters c1 c'"
        using enters_trans by blast
      then obtain xs where "cx_entered c' = cx_entered c1 @ xs" and "sorted_wrt (<) xs" and "pos c1 \<le> pos c'"
        and "\<forall>x \<in> set xs. pos c1 + 1 \<le> int x \<and> int x \<le> pos c' \<and> int x < int (length (cx_handlers c1))"
        and "cx_handlers c' = cx_handlers c1" and "live c1 \<longrightarrow> live c'"
        by (auto simp: enters_def entered_from_def)
      moreover have "pos c1 = pos c" and "live c1 = live c" and "cx_handlers c1 = cx_handlers c"
        by (simp_all add: c1_def pos_def live_def)
      ultimately show ?thesis
        using False pos start unfolding entered_from_def
        by (intro conjI exI[of _ "nat (cx_index c) # xs"]) (auto simp: c1_def)
    qed
  qed
qed

section \<open>The fuel is enough\<close>

lemma enters_pos: "enters c c' \<Longrightarrow> pos c \<le> pos c' \<and> cx_handlers c' = cx_handlers c"
  by (simp add: enters_def entered_from_def)

lemma run_handler_fuel:
  assumes step: "\<And>c r c'. next c = (r, c') \<Longrightarrow> - 1 \<le> cx_index c \<Longrightarrow> enters c c'"
  and fuel: "\<And>c r c'. next c = (r, c') \<Longrightarrow> - 1 \<le> cx_index c \<Longrightarrow> p \<le> pos c \<Longrightarrow> cx_handlers c = hs \<Longrightarrow>
               r \<noteq> OutOfFuel"
  shows "run_handler next h c = (r, c') \<Longrightarrow> - 1 \<le> cx_index c \<Longrightarrow> p \<le> pos c \<Longrightarrow> cx_handlers c = hs \<Longrightarrow>
    r \<noteq> OutOfFuel"
proof (induction h arbitrary: c r c')
  case (Look f)
  then show ?case
    using Look.IH[OF rangeI] by simp
next
  case (Act a k)
  show ?case
  proof (cases "perform a c")
    case (Some c1)
    then show ?thesis
      using Act enters_pos[OF perform_enters[OF Some]] by (auto simp: perform_keeps)
  qed (use Act in auto)
next
  case (Next k)
  obtain r1 c1 where n: "next c = (r1, c1)" by fastforce
  note e = step[OF n Next.prems(2)]
  show ?case
    using Next.prems n fuel[OF n] Next.IH[of c1] enters_pos[OF e] enters_index[OF e]
    by (auto simp: Let_def split: if_splits)
next
  case (Abort k)
  then show ?case
    using enters_pos[OF abort_enters[of c]] by auto
next
  case (Recover body rescue)
  obtain r1 c1 where body: "run_handler next body c = (r1, c1)" by fastforce
  have e: "enters c c1"
    by (rule run_handler_enters[OF step body Recover.prems(2)])
  show ?case
    using Recover.prems body Recover.IH(1)[OF body] Recover.IH(2)[of c1] enters_pos[OF e] enters_index[OF e]
    by (auto simp: Let_def split: if_splits)
qed auto

lemma next_loop_enters:
  assumes "next_loop n (c\<lparr>cx_index := cx_index c + 1\<rparr>) = (r, c')" and "- 1 \<le> cx_index c"
  shows "enters c c'"
  using next_loop_entered[OF assms(1)] assms(2) by (intro entered_from_step) simp

lemma next_loop_fuel:
  "next_loop n (c :: 'v http_context) = (r, c') \<Longrightarrow> 0 \<le> cx_index c \<Longrightarrow> int (length (cx_handlers c)) - cx_index c \<le> int n \<Longrightarrow>
   r \<noteq> OutOfFuel"
proof (induction n arbitrary: c r c')
  case 0
  then show ?case
    by (subst (asm) next_loop.simps) (simp split: if_splits)
next
  case (Suc n)
  let ?next = "\<lambda>c :: 'v http_context. next_loop n (c\<lparr>cx_index := cx_index c + 1\<rparr>)"
  have fuel: "r \<noteq> OutOfFuel"
    if "?next c1 = (r, c')" and "- 1 \<le> cx_index c1" and "pos c \<le> pos c1" and "cx_handlers c1 = cx_handlers c"
    for c1 c' r
    using Suc.IH[OF that(1)] that(2-4) Suc.prems(3) by (auto simp: pos_def min_def split: if_splits)
  show ?case
  proof (cases "int (length (cx_handlers c)) \<le> cx_index c")
    case True
    then show ?thesis
      using Suc.prems(1) by (subst (asm) next_loop.simps) auto
  next
    case False
    define c1 where "c1 = c\<lparr>cx_entered := cx_entered c @ [nat (cx_index c)]\<rparr>"
    have c1: "pos c1 = pos c" "cx_handlers c1 = cx_handlers c" "- 1 \<le> cx_index c1"
      using Suc.prems(2) by (simp_all add: c1_def pos_def)
    show ?thesis
    proof (cases "cx_handlers c ! nat (cx_index c)")
      case None
      then show ?thesis
        using Suc.prems False fuel[of c r c'] by (subst (asm) next_loop.simps) simp
    next
      case (Some h)
      obtain r2 c2 where run: "run_handler ?next h c1 = (r2, c2)"
        by fastforce
      have e: "enters c1 c2"
        by (rule run_handler_enters[OF next_loop_enters run c1(3)])
      have "r2 \<noteq> OutOfFuel"
      proof (rule run_handler_fuel[where p = "pos c" and hs = "cx_handlers c", OF _ _ run c1(3)])
        show "enters c c'" if "?next c = (r, c')" and "- 1 \<le> cx_index c" for c r c'
          using that by (rule next_loop_enters)
        show "r \<noteq> OutOfFuel"
          if "?next c1 = (r, c')" and "- 1 \<le> cx_index c1" and "pos c \<le> pos c1" and "cx_handlers c1 = cx_handlers c"
          for c1 r c'
          using that by (rule fuel)
      qed (use c1 in simp_all)
      moreover have "r \<noteq> OutOfFuel" if "?next c2 = (r, c')"
        using fuel[OF that] enters_pos[OF e] enters_index[OF e c1(3)] c1 by simp
      ultimately show ?thesis
        using Suc.prems(1) False Some run
        by (subst (asm) next_loop.simps) (auto simp: c1_def Let_def split: if_splits)
    qed
  qed
qed

text \<open>
  C19: \<open>Next\<close> ends whatever the handlers do, also when they call \<open>Next\<close> several times or abort: it
  enters handlers of the chain in order, each at most once, and only handlers behind the one that
  called it.
\<close>
theorem chain_enters_in_order:
  assumes "context_next c = (r, c')" and "- 1 \<le> cx_index c"
  shows "r \<noteq> OutOfFuel \<and> cx_handlers c' = cx_handlers c \<and>
    (\<exists>xs. cx_entered c' = cx_entered c @ xs \<and> sorted_wrt (<) xs \<and>
       list_all (\<lambda>x. cx_index c < int x \<and> x < length (cx_handlers c)) xs)"
proof -
  have "r \<noteq> OutOfFuel"
    using next_loop_fuel assms unfolding context_next_def by fastforce
  moreover have "enters c c'"
    using next_loop_enters assms unfolding context_next_def by blast
  then obtain xs where "cx_entered c' = cx_entered c @ xs" and "sorted_wrt (<) xs"
    and xs: "\<forall>x \<in> set xs. pos c + 1 \<le> int x \<and> int x < int (length (cx_handlers c))"
    and "cx_handlers c' = cx_handlers c"
    by (auto simp: enters_def entered_from_def)
  moreover from xs have "list_all (\<lambda>x. cx_index c < int x \<and> x < length (cx_handlers c)) xs"
    by (auto simp: list_all_iff pos_def min_def split: if_splits)
  ultimately show ?thesis by blast
qed

text \<open>A chain of three handlers the second of which aborts.\<close>

definition aborting_context :: "nat http_context" where
  "aborting_context =
     new_context\<lparr>cx_handlers := [Some (Next (Next Return)), Some (Abort (Next Return)), Some Crash]\<rparr>"

lemma chain_enters_in_order_witness:
  "fst (context_next aborting_context) \<noteq> OutOfFuel \<and> cx_entered (snd (context_next aborting_context)) = [0, 1]"
proof -
  obtain r c' where run: "context_next aborting_context = (r, c')" by fastforce
  have "- 1 \<le> cx_index aborting_context"
    by (simp add: aborting_context_def new_context_def)
  moreover have "cx_entered (snd (context_next aborting_context)) = [0, 1]"
    by code_simp
  ultimately show ?thesis
    using chain_enters_in_order[OF run] by (simp add: run)
qed

text \<open>After an abort no handler is entered any more, whatever the rest of the handler does.\<close>

lemma abort_stops_chain:
  assumes "run_handler context_next (Abort k) c = (r, c')" and "- 1 \<le> cx_index c"
  shows "cx_entered c' = cx_entered c"
proof -
  let ?c = "c\<lparr>cx_index := int (length (cx_handlers c))\<rparr>"
  have step: "context_next c = (r, c') \<Longrightarrow> - 1 \<le> cx_index c \<Longrightarrow> enters c c'" for c c' :: "'a http_context" and r
    unfolding context_next_def by (rule next_loop_enters)
  have run: "run_handler context_next k ?c = (r, c')"
    using assms(1) by simp
  have "enters ?c c'"
    by (rule run_handler_enters[OF step run]) simp_all
  then obtain xs where "cx_entered c' = cx_entered c @ xs"
    and xs: "\<forall>x \<in> set xs. pos ?c + 1 \<le> int x \<and> int x < int (length (cx_handlers c))"
    by (auto simp: enters_def entered_from_def)
  moreover have "xs = []"
    using xs by (cases xs) (auto simp: pos_def)
  ultimately show ?thesis by simp
qed

section \<open>Recovery\<close>

lemma next_loop_returned:
  "next_loop n c = (Returned, c') \<Longrightarrow> int (length (cx_handlers c')) \<le> cx_index c'"
proof (induction n arbitrary: c)
  case 0
  then show ?case
    by (subst (asm) next_loop.simps) (auto split: if_splits)
next
  case (Suc n)
  show ?case
  proof (cases "int (length (cx_handlers c)) \<le> cx_index c")
    case True
    then show ?thesis
      using Suc.prems by (subst (asm) next_loop.simps) auto
  next
    case False
    then have "\<exists>c. next_loop n c = (Returned, c')"
      using Suc.prems
      by (subst (asm) next_loop.simps) (auto simp: Let_def split: if_splits option.splits prod.splits)
    then show ?thesis
      using Suc.IH by blast
  qed
qed

lemma status_on_live: "live c \<Longrightarrow> \<exists>c'. perform (Status code) c = Some c' \<and> live c'"
  by (auto simp: live_def on_writer_def context_status_def set_value_def add_param_def resp_write_header_def on_response_def Let_def split: option.splits)

text \<open>
  C37: behind the recovery middleware no panic leaves the chain: whatever the handlers after it do,
  \<open>Next\<close> returns, and the response can still be written.
\<close>
theorem recovery_contains_panics:
  assumes "cx_handlers c = Some recovery # hs" and "cx_index c = - 1" and "live c"
  and "context_next c = (r, c')"
  shows "r = Returned \<and> live c'"
proof -
  define n where "n = length hs"
  let ?next = "\<lambda>c. next_loop n (c\<lparr>cx_index := cx_index c + 1\<rparr>)"
  define c1 where "c1 = c\<lparr>cx_index := 0, cx_entered := cx_entered c @ [0]\<rparr>"
  obtain r2 c2 where run: "run_handler ?next recovery c1 = (r2, c2)" by fastforce
  obtain r1 c0 where body: "?next c1 = (r1, c0)" by fastforce
  have idx: "- 1 \<le> cx_index c1" and l1: "live c1" and hs1: "cx_handlers c1 = Some recovery # hs"
    using assms(1,3) by (simp_all add: c1_def live_def)
  have e: "enters c1 c0"
    by (rule next_loop_enters[OF body idx])
  then have l0: "live c0"
    using l1 by (simp add: enters_def entered_from_def)
  have "r1 \<noteq> OutOfFuel"
    using next_loop_fuel[OF body] by (simp add: c1_def assms(1) n_def)
  then have r2: "r2 = Returned"
    using run body l0 status_on_live[OF l0, of StatusInternalServerError]
    by (cases r1) (auto simp: recovery_def Let_def live_def view.truncate_def split: option.splits if_splits)
  have e2: "enters c1 c2"
    by (rule run_handler_enters[OF next_loop_enters run idx])
  have l2: "live c2"
    using e2 l1 by (simp add: enters_def entered_from_def)
  have len: "int (length (cx_handlers c2)) \<le> cx_index c2"
  proof (cases r1)
    case Returned
    then show ?thesis
      using run body next_loop_returned by (auto simp: recovery_def Let_def)
  next
    case Panicked
    then have "run_handler ?next (Look (\<lambda>c. case cx_writer c of
          Some w \<Rightarrow> if \<not> resp_written w then Act (Status StatusInternalServerError) (Abort Return) else Abort Return
        | None \<Rightarrow> Abort Return)) c0 = (r2, c2)"
      using run body by (simp add: recovery_def Let_def)
    then show ?thesis
      using status_on_live[OF l0, of StatusInternalServerError] r2
      by (auto simp: perform_keeps split: option.splits if_splits)
  qed (use \<open>r1 \<noteq> OutOfFuel\<close> in simp)
  have "context_next c = next_loop (Suc n) (c\<lparr>cx_index := 0\<rparr>)"
    using assms(1,2) by (simp add: context_next_def n_def)
  also have "\<dots> = next_loop n (c2\<lparr>cx_index := cx_index c2 + 1\<rparr>)"
    using assms(1) run r2 by (subst next_loop.simps) (simp add: c1_def Let_def)
  also have "\<dots> = (Returned, c2\<lparr>cx_index := cx_index c2 + 1\<rparr>)"
    using len by (subst next_loop.simps) simp
  finally show ?thesis
    using assms(4) l2 by (auto simp: live_def)
qed

definition panicking_context :: "nat http_context" where
  "panicking_context =
     new_context\<lparr>cx_handlers := [Some recovery, Some Crash, Some (Act (WriteData ''x'') Return)],
       cx_writer := Some (new_resp_writer\<lparr>rw_ctx := Some []\<rparr>)\<rparr>"

lemma recovery_contains_panics_witness:
  "fst (context_next panicking_context) = Returned \<and> live (snd (context_next panicking_context))"
proof -
  obtain r c' where run: "context_next panicking_context = (r, c')" by fastforce
  have "cx_handlers panicking_context = Some recovery # [Some Crash, Some (Act (WriteData ''x'') Return)]"
    and "cx_index panicking_context = - 1" and "live panicking_context"
    by (simp_all add: panicking_context_def live_def new_context_def)
  then show ?thesis
    using recovery_contains_panics[OF _ _ _ run] by (simp add: run)
qed

text \<open>A panic before anything is written is answered with the status 500.\<close>

lemma panic_answered:
  "map_option rw_ctx (cx_writer (snd (context_next panicking_context))) = Some (Some [SetStatusCode 500])"
  by code_simp

section \<open>Invariants of a request\<close>

text \<open>What every action keeps, the whole chain keeps.\<close>

locale chain_invariant =
  fixes P :: "'v http_context \<Rightarrow> bool"
  assumes perform: "P c \<Longrightarrow> perform a c = Some c' \<Longrightarrow> P c'"
  and moved: "P c \<Longrightarrow> P (c\<lparr>cx_index := i\<rparr>)"
  and entered: "P c \<Longrightarrow> P (c\<lparr>cx_entered := e\<rparr>)"
begin

lemma run_handler_keeps:
  assumes step: "\<And>c r c'. next c = (r, c') \<Longrightarrow> P c \<Longrightarrow> P c'"
  shows "run_handler next h c = (r, c') \<Longrightarrow> P c \<Longrightarrow> P c'"
proof (induction h arbitrary: c r c')
  case (Look f)
  then show ?case
    using Look.IH[OF rangeI] by simp
next
  case (Act a k)
  then show ?case
    by (auto split: option.splits dest: perform)
next
  case (Next k)
  then show ?case
    using step by (auto simp: Let_def split: if_splits prod.splits)
next
  case (Abort k)
  then show ?case
    by (auto intro: moved)
next
  case (Recover body rescue)
  obtain r1 c1 where "run_handler next body c = (r1, c1)" by fastforce
  then show ?case
    using Recover by (auto simp: Let_def split: if_splits)
qed auto

lemma next_loop_keeps: "next_loop n c = (r, c') \<Longrightarrow> P c \<Longrightarrow> P c'"
proof (induction n arbitrary: c r c')
  case 0
  then show ?case
    by (subst (asm) next_loop.simps) (auto split: if_splits)
next
  case (Suc n)
  have step: "P c'" if "next_loop n (c\<lparr>cx_index := cx_index c + 1\<rparr>) = (r, c')" and "P c" for c r c'
    using Suc.IH[OF that(1)] moved[OF that(2)] by simp
  show ?case
  proof (cases "int (length (cx_handlers c)) \<le> cx_index c")
    case True
    then show ?thesis
      using Suc.prems by (subst (asm) next_loop.simps) auto
  next
    case False
    show ?thesis
    proof (cases "cx_handlers c ! nat (cx_index c)")
      case None
      then show ?thesis
        using Suc.prems False step[of c r c'] by (subst (asm) next_loop.simps) simp
    next
      case (Some h)
      define c1 where "c1 = c\<lparr>cx_entered := cx_entered c @ [nat (cx_index c)]\<rparr>"
      obtain r2 c2 where run: "run_handler (\<lambda>c. next_loop n (c\<lparr>cx_index := cx_index c + 1\<rparr>)) h c1 = (r2, c2)"
        by fastforce
      have "P c2"
        by (rule run_handler_keeps[OF step run]) (simp_all add: c1_def Suc.prems(2) entered)
      then show ?thesis
        using Suc.prems(1) False Some run step[of c2 r c']
        by (subst (asm) next_loop.simps) (auto simp: c1_def Let_def split: if_splits)
    qed
  qed
qed

lemma context_next_keeps: "context_next c = (r, c') \<Longrightarrow> P c \<Longrightarrow> P c'"
  unfolding context_next_def by (erule next_loop_keeps) (rule moved)

end

text \<open>
  The calls on the response: a status comes before the first body, no body is empty, and the
  writer's size and status are those of the calls.
\<close>

fun calls_ok :: "bool \<Rightarrow> resp_call list \<Rightarrow> bool" where
  "calls_ok seen [] = True"
| "calls_ok seen (AddHeader k v # cs) = calls_ok seen cs"
| "calls_ok seen (SetStatusCode n # cs) = (0 < n \<and> calls_ok True cs)"
| "calls_ok seen (WriteBody d # cs) = (seen \<and> d \<noteq> [] \<and> calls_ok seen cs)"

fun call_status :: "int \<Rightarrow> resp_call list \<Rightarrow> int" where
  "call_status n [] = n"
| "call_status n (SetStatusCode m # cs) = call_status m cs"
| "call_status n (_ # cs) = call_status n cs"

fun call_bytes :: "resp_call list \<Rightarrow> nat" where
  "call_bytes [] = 0"
| "call_bytes (WriteBody d # cs) = length d + call_bytes cs"
| "call_bytes (_ # cs) = call_bytes cs"

definition status_seen :: "resp_call list \<Rightarrow> bool" where
  "status_seen cs \<longleftrightarrow> list_ex (\<lambda>c. case c of SetStatusCode _ \<Rightarrow> True | _ \<Rightarrow> False) cs"

definition writer_fits :: "resp_writer \<Rightarrow> bool" where
  "writer_fits w \<longleftrightarrow>
     (case rw_ctx w of
        None \<Rightarrow> True
      | Some cs \<Rightarrow> calls_ok False cs \<and> rw_size w = int (call_bytes cs) \<and>
          rw_status_code w = call_status 0 cs \<and> (rw_wrote_header w \<longleftrightarrow> status_seen cs))"

lemma call_status_append: "call_status n (a @ b) = call_status (call_status n a) b"
  by (induction n a rule: call_status.induct) auto

lemma call_bytes_append [simp]: "call_bytes (a @ b) = call_bytes a + call_bytes b"
  by (induction a rule: call_bytes.induct) auto

lemma calls_ok_append: "calls_ok b (x @ y) \<longleftrightarrow> calls_ok b x \<and> calls_ok (b \<or> status_seen x) y"
  by (induction b x rule: calls_ok.induct) (auto simp: status_seen_def)

lemma status_seen_simps [simp]:
  "\<not> status_seen []" "status_seen (a @ b) \<longleftrightarrow> status_seen a \<or> status_seen b"
  "status_seen [SetStatusCode n]" "\<not> status_seen [WriteBody d]"
  by (simp_all add: status_seen_def)

lemma header_calls_only:
  "calls_ok b (header_calls h)" "call_status n (header_calls h) = n" "call_bytes (header_calls h) = 0"
proof -
  have "calls_ok b (map (AddHeader k) vs)" "call_status n (map (AddHeader k) vs) = n"
    "call_bytes (map (AddHeader k) vs) = 0" "\<not> status_seen (map (AddHeader k) vs)" for b n k vs
    by (induction vs) (auto simp: status_seen_def)
  then show "calls_ok b (header_calls h)" "call_status n (header_calls h) = n" "call_bytes (header_calls h) = 0"
    by (induction h) (auto simp: header_calls_def calls_ok_append call_status_append)
qed

lemma write_header_fits:
  assumes "writer_fits w" and "resp_write_header code w = Some w'"
  shows "writer_fits w' \<and> rw_wrote_header w'"
proof -
  define n where "n = (if code \<le> 0 then StatusOK else code)"
  have "0 < n" by (simp add: n_def)
  then show ?thesis
    using assms
    by (auto simp: resp_write_header_def n_def[symmetric] on_response_def writer_fits_def Let_def calls_ok_append
        call_status_append header_calls_only split: option.splits)
qed

lemma write_fits: "writer_fits w \<Longrightarrow> resp_write data w = Some w' \<Longrightarrow> writer_fits w'"
proof -
  assume fits: "writer_fits w" and run: "resp_write data w = Some w'"
  then obtain w1 where w1: "writer_fits w1" "rw_wrote_header w1"
    and "(if length data = 0 then Some w1
          else on_response [WriteBody data] (w1\<lparr>rw_size := rw_size w1 + int (length data)\<rparr>)) = Some w'"
    using write_header_fits by (auto simp: resp_write_def split: option.splits if_splits)
  then show ?thesis
    by (auto simp: on_response_def writer_fits_def calls_ok_append call_status_append split: option.splits if_splits)
qed

lemma set_header_fits: "writer_fits w \<Longrightarrow> set_header k v w = Some w' \<Longrightarrow> writer_fits w'"
  by (auto simp: set_header_def writer_fits_def split: option.splits)

definition context_fits :: "'v http_context \<Rightarrow> bool" where
  "context_fits c \<longleftrightarrow> (case cx_writer c of None \<Rightarrow> False | Some w \<Rightarrow> writer_fits w)"

interpretation fits: chain_invariant context_fits
proof
  fix a :: "'v action" and c c' :: "'v http_context"
  assume "context_fits c" and "perform a c = Some c'"
  then show "context_fits c'"
    by (cases a) (auto simp: context_fits_def on_writer_def context_status_def set_value_def add_param_def log_request_def Let_def
        dest: write_header_fits write_fits set_header_fits split: option.splits if_splits prod.splits)
qed (simp_all add: context_fits_def)

lemma new_writer_fits: "writer_fits (new_resp_writer\<lparr>rw_ctx := Some []\<rparr>)"
  by (simp add: writer_fits_def new_resp_writer_def status_seen_def)

section \<open>Requests\<close>

lemma handle_request_resets:
  "handle_request rq logger match c w = (r, calls, c', w') \<Longrightarrow> c' = new_context \<and> w' = new_resp_writer"
  by (auto simp: handle_request_def Let_def context_reset_def new_context_def resp_reset_def new_resp_writer_def
      split: prod.splits)

text \<open>
  The calls a request makes on the response are in order, whatever its handlers do and however
  they end: a status precedes the first byte of the body and no empty body is written.
\<close>
theorem response_in_order:
  assumes "handle_request rq logger match new_context new_resp_writer = (r, calls, c', w')"
  shows "calls_ok False calls"
proof -
  let ?w = "new_resp_writer\<lparr>rw_ctx := Some []\<rparr>"
  let ?c = "new_context\<lparr>cx_request := Some rq, cx_logger := logger, cx_writer := Some ?w\<rparr> :: 'a http_context"
  have c: "context_fits ?c"
    using new_writer_fits by (simp add: context_fits_def)
  have ok: "calls_ok False (case rw_ctx w1 of None \<Rightarrow> [] | Some cs \<Rightarrow> cs)"
    if "context_fits c1" and "cx_writer c1 = Some w1" for c1 :: "'a http_context" and w1
    using that by (auto simp: context_fits_def writer_fits_def split: option.splits)
  show ?thesis
  proof (cases match)
    case None
    obtain c1 where "perform (Status StatusNotFound) ?c = Some c1"
      using status_on_live[of ?c StatusNotFound] by (auto simp: live_def)
    moreover from this have "context_fits c1"
      using fits.perform c by blast
    moreover from this obtain w1 where "cx_writer c1 = Some w1"
      by (auto simp: context_fits_def split: option.splits)
    ultimately show ?thesis
      using assms None ok[of c1 w1] by (simp add: handle_request_def)
  next
    case (Some m)
    obtain hs full params where m: "m = (hs, full, params)" by (cases m)
    define c0 where "c0 = ?c\<lparr>cx_full_path := full, cx_params := Some params,
        cx_handlers := cx_handlers ?c @ hs, cx_count := length (cx_handlers ?c @ hs)\<rparr>"
    obtain r1 c1 where run: "context_next c0 = (r1, c1)" by fastforce
    have "context_fits c0"
      using c by (simp add: c0_def context_fits_def)
    then have "context_fits c1"
      using fits.context_next_keeps[OF run] by simp
    moreover from this obtain w1 where "cx_writer c1 = Some w1"
      by (auto simp: context_fits_def split: option.splits)
    ultimately show ?thesis
      using assms Some m run ok[of c1 w1] by (simp add: handle_request_def c0_def)
  qed
qed

text \<open>A session of requests served one after the other from the same pooled objects.\<close>

fun serve_all ::
  "(request \<times> bool \<times> ('v handler option list \<times> string \<times> (string, string) gomap) option) list
     \<Rightarrow> 'v http_context \<Rightarrow> resp_writer \<Rightarrow> (run_result \<times> resp_call list) list" where
  "serve_all [] c w = []"
| "serve_all ((rq, logger, match) # rest) c w =
     (let (r, calls, c, w) = handle_request rq logger match c w in (r, calls) # serve_all rest c w)"

text \<open>
  C39: requests served with recycled contexts and writers get the responses they would get with new
  ones: parameters, values, headers, handlers and status of a request never reach a later one,
  also when its handlers panicked.
\<close>
theorem recycled_objects_leak_nothing:
  "serve_all rqs new_context new_resp_writer =
     map (\<lambda>(rq, logger, match).
            case handle_request rq logger match new_context new_resp_writer of
              (r, calls, _) \<Rightarrow> (r, calls)) rqs"
proof (induction rqs)
  case (Cons x rqs)
  obtain rq logger match where x: "x = (rq, logger, match)" by (cases x)
  obtain r calls c' w' where h: "handle_request rq logger match new_context new_resp_writer = (r, calls, c', w')"
    by (metis prod_cases4)
  then show ?case
    using Cons handle_request_resets[OF h] by (simp add: x)
qed simp

definition example_request :: request where
  "example_request = \<lparr>rq_method = ''GET'', rq_path = ''/'', rq_header = (\<lambda>_. '''')\<rparr>"

lemma response_in_order_witness:
  "calls_ok False [AddHeader ''X-A'' ''1'', SetStatusCode 200, WriteBody ''hi'']"
proof -
  let ?hs = "[Some (Act (Header ''x-a'' ''1'') (Act (WriteData ''hi'') Return))] :: nat handler option list"
  obtain r calls c' w'
    where h: "handle_request example_request False (Some (?hs, '''', [])) new_context new_resp_writer = (r, calls, c', w')"
    by (metis prod_cases4)
  have "fst (snd (handle_request example_request False (Some (?hs, '''', [])) new_context new_resp_writer))
      = [AddHeader ''X-A'' ''1'', SetStatusCode 200, WriteBody ''hi'']"
    by code_simp
  then show ?thesis
    using response_in_order[OF h] by (simp add: h)
qed

text \<open>
  Headers are sent with the status: those of a handler that writes neither a status nor a body are
  dropped, although the response goes out.
\<close>

lemma headers_without_status_lost:
  "fst (snd (handle_request example_request False (Some ([Some (Act (Header ''X-A'' ''1'') Return)], '''', []))
     (new_context :: nat http_context) new_resp_writer)) = []"
  by code_simp

section \<open>Middleware around handlers\<close>

text \<open>A handler that acts, calls \<open>Next\<close> and acts again.\<close>

definition around :: "'v action \<Rightarrow> 'v action \<Rightarrow> 'v handler" where
  "around before after = Act before (Next (Act after Return))"

fun perform_all :: "'v action list \<Rightarrow> 'v http_context \<Rightarrow> 'v http_context option" where
  "perform_all [] c = Some c"
| "perform_all (a # rest) c = (case perform a c of None \<Rightarrow> None | Some c \<Rightarrow> perform_all rest c)"

lemma perform_all_append:
  "perform_all (xs @ ys) c = (case perform_all xs c of None \<Rightarrow> None | Some c \<Rightarrow> perform_all ys c)"
  by (induction xs arbitrary: c) (auto split: option.split)

lemma moved_writer:
  "c\<lparr>cx_index := i, cx_entered := e, cx_writer := w\<rparr> = c\<lparr>cx_writer := w, cx_index := i, cx_entered := e\<rparr>"
  by (cases c) simp

lemma entered_moved: "c\<lparr>cx_entered := e, cx_index := i\<rparr> = c\<lparr>cx_index := i, cx_entered := e\<rparr>"
  by (cases c) simp

lemma perform_moved:
  "perform a (c\<lparr>cx_index := i, cx_entered := e\<rparr>) =
     map_option (\<lambda>c. c\<lparr>cx_index := i, cx_entered := e\<rparr>) (perform a c)"
  by (cases a) (auto simp: on_writer_def context_status_def set_value_def add_param_def log_request_def Let_def option.map_comp comp_def moved_writer
      split: option.split prod.split)

lemma perform_all_moved:
  "perform_all xs (c\<lparr>cx_index := i, cx_entered := e\<rparr>) =
     map_option (\<lambda>c. c\<lparr>cx_index := i, cx_entered := e\<rparr>) (perform_all xs c)"
  by (induction xs arbitrary: c) (auto simp: perform_moved split: option.split)

lemma perform_all_handlers: "perform_all xs c = Some c' \<Longrightarrow> cx_handlers c' = cx_handlers c"
  by (induction xs arbitrary: c) (auto simp: perform_keeps split: option.splits)

definition around_actions :: "('v action \<times> 'v action) list \<Rightarrow> 'v action list" where
  "around_actions ms = map fst ms @ rev (map snd ms)"

lemma next_loop_over: "int (length (cx_handlers c)) \<le> cx_index c \<Longrightarrow> next_loop n c = (Returned, c)"
  by (subst next_loop.simps) simp

lemma next_loop_around:
  "drop (nat (cx_index c)) (cx_handlers c) = map (\<lambda>(b, a). Some (around b a)) ms \<Longrightarrow> 0 \<le> cx_index c \<Longrightarrow>
   length ms \<le> n \<Longrightarrow> perform_all (around_actions ms) c = Some c' \<Longrightarrow>
   \<exists>i e. next_loop n c = (Returned, c'\<lparr>cx_index := i, cx_entered := e\<rparr>) \<and> int (length (cx_handlers c)) \<le> i"
proof (induction ms arbitrary: n c c')
  case Nil
  then have "next_loop n c = (Returned, c)" and "c' = c"
    by (simp_all add: next_loop_over around_actions_def)
  then have "next_loop n c = (Returned, c'\<lparr>cx_index := cx_index c, cx_entered := cx_entered c\<rparr>)"
    by simp
  then show ?case
    using Nil.prems(1,2) by (intro exI[of _ "cx_index c"] exI[of _ "cx_entered c"]) auto
next
  case (Cons m ms)
  obtain b a where m: "m = (b, a)" by (cases m)
  obtain k where n: "n = Suc k" "length ms \<le> k"
    using Cons.prems(3) by (cases n) auto
  let ?e = "cx_entered c @ [nat (cx_index c)]"
  have at: "cx_index c < int (length (cx_handlers c))" "cx_handlers c ! nat (cx_index c) = Some (around b a)"
    and rest: "drop (nat (cx_index c + 1)) (cx_handlers c) = map (\<lambda>(b, a). Some (around b a)) ms"
    using Cons.prems(1,2) m
    by (cases "nat (cx_index c) < length (cx_handlers c)"; simp add: Cons_nth_drop_Suc[symmetric] nat_add_distrib)+
  obtain c1 c2 where c1: "perform b c = Some c1" and c2: "perform_all (around_actions ms) c1 = Some c2"
    and c': "perform a c2 = Some c'"
    using Cons.prems(4) m by (auto simp: around_actions_def perform_all_append split: option.splits)
  let ?c1 = "c1\<lparr>cx_index := cx_index c + 1, cx_entered := ?e\<rparr>"
  have i1: "cx_index c1 = cx_index c" "cx_handlers c1 = cx_handlers c" "cx_handlers c2 = cx_handlers c" "cx_handlers c' = cx_handlers c"
    using c1 c2 c' perform_all_handlers by (fastforce simp: perform_keeps)+
  have start: "perform b (c\<lparr>cx_entered := ?e\<rparr>) = Some (c1\<lparr>cx_entered := ?e\<rparr>)"
  proof -
    have "c\<lparr>cx_entered := ?e\<rparr> = c\<lparr>cx_index := cx_index c, cx_entered := ?e\<rparr>"
      and "c1\<lparr>cx_entered := ?e\<rparr> = c1\<lparr>cx_index := cx_index c, cx_entered := ?e\<rparr>"
      using i1(1) by (cases c, simp, cases c1, simp)
    then show ?thesis
      using perform_moved[where a = b and c = c and i = "cx_index c" and e = ?e] c1 by simp
  qed
  obtain i e where loop: "next_loop k ?c1 = (Returned, c2\<lparr>cx_index := i, cx_entered := e\<rparr>)" and i: "int (length (cx_handlers c)) \<le> i"
  proof -
    have "perform_all (around_actions ms) ?c1 = Some (c2\<lparr>cx_index := cx_index c + 1, cx_entered := ?e\<rparr>)"
      by (simp add: perform_all_moved c2)
    from Cons.IH[OF _ _ n(2) this] show thesis
      using that rest i1 Cons.prems(2) by fastforce
  qed
  have finish: "perform a (c2\<lparr>cx_index := i, cx_entered := e\<rparr>) = Some (c'\<lparr>cx_index := i, cx_entered := e\<rparr>)"
    by (simp add: perform_moved c')
  have "run_handler (\<lambda>c. next_loop k (c\<lparr>cx_index := cx_index c + 1\<rparr>)) (around b a) (c\<lparr>cx_entered := ?e\<rparr>) =
      (Returned, c'\<lparr>cx_index := i, cx_entered := e\<rparr>)"
    using start loop finish i1(1) by (simp add: around_def Let_def entered_moved)
  then have "next_loop n c = next_loop k (c'\<lparr>cx_index := i + 1, cx_entered := e\<rparr>)"
    using at n(1) by (subst next_loop.simps) (simp add: Let_def entered_moved)
  also have "\<dots> = (Returned, c'\<lparr>cx_index := i + 1, cx_entered := e\<rparr>)"
    using i i1 by (intro next_loop_over) simp
  finally show ?case
    using i by (intro exI[of _ "i + 1"] exI[of _ e]) simp
qed

text \<open>
  Middleware nests: in a chain of handlers that each act, call \<open>Next\<close> and act again, the first
  actions run in the order of the chain and the second ones in the opposite order.
\<close>
theorem middleware_nests:
  assumes "cx_handlers c = map (\<lambda>(b, a). Some (around b a)) ms" and "cx_index c = - 1"
  and "perform_all (map fst ms @ rev (map snd ms)) c = Some c'"
  shows "\<exists>i e. context_next c = (Returned, c'\<lparr>cx_index := i, cx_entered := e\<rparr>)"
proof -
  have moved: "perform_all (around_actions ms) (c\<lparr>cx_index := 0\<rparr>) = Some (c'\<lparr>cx_index := 0, cx_entered := cx_entered c\<rparr>)"
    using perform_all_moved[where xs = "around_actions ms" and c = c and i = 0 and e = "cx_entered c"] assms(3)
    by (simp add: around_actions_def)
  show ?thesis
    using next_loop_around[OF _ _ _ moved, of "length ms"] assms(1,2) by (auto simp: context_next_def)
qed

lemma middleware_nests_witness:
  "\<exists>i e. context_next (new_context\<lparr>cx_handlers := map (\<lambda>(b, a). Some (around b a))
        [(SetValue ''a'' 1, SetValue ''b'' 2), (SetValue ''c'' 3, SetValue ''a'' (4::nat))]\<rparr>) =
     (Returned, new_context\<lparr>cx_handlers := map (\<lambda>(b, a). Some (around b a))
        [(SetValue ''a'' 1, SetValue ''b'' 2), (SetValue ''c'' 3, SetValue ''a'' 4)],
        cx_values := [(''a'', 4), (''c'', 3), (''b'', 2)], cx_index := i, cx_entered := e\<rparr>)"
proof -
  let ?ms = "[(SetValue ''a'' 1, SetValue ''b'' 2), (SetValue ''c'' 3, SetValue ''a'' (4::nat))]"
  let ?c = "new_context\<lparr>cx_handlers := map (\<lambda>(b, a). Some (around b a)) ?ms\<rparr>"
  have "perform_all (map fst ?ms @ rev (map snd ?ms)) ?c =
      Some (?c\<lparr>cx_values := [(''a'', 4), (''c'', 3), (''b'', 2)]\<rparr>)"
    by (simp add: new_context_def go_put_def set_value_def)
  moreover have "cx_index ?c = - 1" by (simp add: new_context_def)
  ultimately show ?thesis
    using middleware_nests[of ?c ?ms] by simp
qed

section \<open>CORS\<close>

lemma run_set_if:
  "live c \<Longrightarrow> run_handler next (set_if b k v h) c =
     (if b then (case perform (Header k v) c of None \<Rightarrow> (Panicked, c) | Some c \<Rightarrow> run_handler next h c)
      else run_handler next h c)"
  by (simp add: set_if_def)

lemma header_on_live: "live c \<Longrightarrow> \<exists>c'. perform (Header k v) c = Some c' \<and> live c' \<and> cx_handlers c' = cx_handlers c"
  by (auto simp: live_def on_writer_def set_header_def split: option.splits)

text \<open>
  A preflight request from an allowed origin is answered by the CORS middleware itself: the
  rest of the chain is not asked, the chain is aborted and the status is 204; a request from an
  origin that is not allowed, or from none, is passed on unchanged.
\<close>
theorem cors_preflight_answered:
  assumes "cx_request c = Some rq" and "live c"
  shows "if rq_header rq ''Origin'' = '''' \<or> \<not> origin_allowed cfg (rq_header rq ''Origin'')
    then run_handler next (cors cfg) c = run_handler next (Next Return) c
    else rq_method rq = ''OPTIONS'' \<and> rq_header rq ''Access-Control-Request-Method'' \<noteq> '''' \<longrightarrow>
      (\<exists>c' w. run_handler next (cors cfg) c = (Returned, c') \<and> is_aborted c' \<and> cx_writer c' = Some w \<and>
        resp_status w = StatusNoContent \<and> rw_wrote_header w)"
proof (cases "rq_header rq ''Origin'' = '''' \<or> \<not> origin_allowed cfg (rq_header rq ''Origin'')")
  case True
  then show ?thesis
    using assms(1) by (auto simp: cors_def Let_def view.truncate_def)
next
  case False
  have step: "\<exists>c'. run_handler next (set_if b k v h) c = run_handler next h c' \<and> live c'"
    if "live c" for b k v h and c :: "'a http_context"
    using header_on_live[OF that, of k v] that by (auto simp: set_if_def)
  have act: "\<exists>c'. run_handler next (Act (Header k v) h) c = run_handler next h c' \<and> live c'"
    if "live c" for k v h and c :: "'a http_context"
    using header_on_live[OF that, of k v] by auto
  have last: "\<exists>c' w. run_handler next (Act (Status StatusNoContent) (Abort Return)) c = (Returned, c') \<and> is_aborted c' \<and>
      cx_writer c' = Some w \<and> resp_status w = StatusNoContent \<and> rw_wrote_header w"
    if "live c" for c :: "'a http_context"
  proof -
    note l = that
    obtain w calls where w: "cx_writer c = Some w" "rw_ctx w = Some calls"
      using l unfolding live_def by (cases "cx_writer c") auto
    obtain w' where w': "resp_write_header StatusNoContent w = Some w'"
      and "resp_status w' = StatusNoContent" and "rw_wrote_header w'"
      using w(2) by (simp add: resp_write_header_def on_response_def resp_status_def)
    then show ?thesis
      using w(1) by (simp add: on_writer_def context_status_def set_value_def add_param_def is_aborted_def)
  qed
  show ?thesis
  proof (cases "rq_method rq = ''OPTIONS'' \<and> rq_header rq ''Access-Control-Request-Method'' \<noteq> ''''")
    case preflight: True
    let ?p = "Act (Status StatusNoContent) (Abort Return)"
    let ?h5 = "set_if (max_age_text (co_max_age cfg) \<noteq> '''') ''Access-Control-Max-Age'' (max_age_text (co_max_age cfg)) ?p"
    let ?h4 = "Act (Header ''Access-Control-Allow-Headers'' (or_default ''Content-Type,Authorization'' (co_allow_headers cfg))) ?h5"
    let ?h3 = "Act (Header ''Access-Control-Allow-Methods'' (or_default ''GET,POST,PUT,PATCH,DELETE,HEAD,OPTIONS'' (co_allow_methods cfg))) ?h4"
    let ?h2 = "set_if (co_expose_headers cfg \<noteq> '''') ''Access-Control-Expose-Headers'' (co_expose_headers cfg) ?h3"
    let ?h1 = "set_if (co_allow_credentials cfg) ''Access-Control-Allow-Credentials'' ''true'' ?h2"
    let ?run = "\<lambda>h. run_handler next h :: 'a http_context \<Rightarrow> _"
    have r0: "?run (cors cfg) c = ?run (Act (Header cors_origin_header (rq_header rq ''Origin'')) ?h1) c"
      using assms(1) False preflight unfolding cors_def Let_def run_handler.simps(4)
      by (simp add: view.truncate_def)
    obtain c1 where r1: "?run (Act (Header cors_origin_header (rq_header rq ''Origin'')) ?h1) c = ?run ?h1 c1" and c1: "live c1"
      using act[OF assms(2)] by blast
    obtain c2 where r2: "?run (?h1) c1 = ?run ?h2 c2" and c2: "live c2"
      using step[OF c1] by blast
    obtain c3 where r3: "?run (?h2) c2 = ?run ?h3 c3" and c3: "live c3"
      using step[OF c2] by blast
    obtain c4 where r4: "?run (?h3) c3 = ?run ?h4 c4" and c4: "live c4"
      using act[OF c3] by blast
    obtain c5 where r5: "?run (?h4) c4 = ?run ?h5 c5" and c5: "live c5"
      using act[OF c4] by blast
    obtain c6 where r6: "?run (?h5) c5 = ?run ?p c6" and c6: "live c6"
      using step[OF c5] by blast
    have "?run (cors cfg) c = ?run ?p c6"
      unfolding r0 r1 r2 r3 r4 r5 r6 ..
    then show ?thesis
      using False preflight last[OF c6] by simp
  qed (use False in auto)
qed

lemma cors_preflight_answered_witness:
  "\<exists>c' w. run_handler context_next (cors \<lparr>co_allow_origins = [''http://a''], co_allow_origin_func = None,
        co_allow_methods = '''', co_allow_headers = '''', co_expose_headers = '''', co_allow_credentials = False,
        co_max_age = 0\<rparr>)
      (new_context\<lparr>cx_request := Some \<lparr>rq_method = ''OPTIONS'', rq_path = ''/'',
          rq_header = (\<lambda>k. if k = ''Origin'' then ''http://a'' else ''GET'')\<rparr>,
        cx_writer := Some (new_resp_writer\<lparr>rw_ctx := Some []\<rparr>)\<rparr> :: nat http_context) = (Returned, c') \<and>
    is_aborted c' \<and> cx_writer c' = Some w \<and> resp_status w = StatusNoContent \<and> rw_wrote_header w"
proof -
  let ?rq = "\<lparr>rq_method = ''OPTIONS'', rq_path = ''/'',
    rq_header = (\<lambda>k. if k = ''Origin'' then ''http://a'' else ''GET'')\<rparr>"
  let ?c = "new_context\<lparr>cx_request := Some ?rq, cx_writer := Some (new_resp_writer\<lparr>rw_ctx := Some []\<rparr>)\<rparr> :: nat http_context"
  have "cx_request ?c = Some ?rq" and "live ?c"
    by (simp_all add: live_def)
  from cors_preflight_answered[OF this, of "\<lparr>co_allow_origins = [''http://a''], co_allow_origin_func = None,
        co_allow_methods = '''', co_allow_headers = '''', co_expose_headers = '''', co_allow_credentials = False,
        co_max_age = 0\<rparr>" context_next]
  show ?thesis
    by (simp add: origin_allowed_def)
qed

section \<open>Results\<close>

definition answered :: "'v http_context \<Rightarrow> bool" where
  "answered c \<longleftrightarrow> (case cx_writer c of None \<Rightarrow> False | Some w \<Rightarrow> rw_wrote_header w)"

lemma write_keeps_wrote: "resp_write d w = Some w' \<Longrightarrow> rw_wrote_header w'"
  by (auto simp: resp_write_def resp_write_header_def on_response_def Let_def split: option.splits if_splits)

lemma write_header_wrote: "resp_write_header n w = Some w' \<Longrightarrow> rw_wrote_header w'"
  by (auto simp: resp_write_header_def Let_def)

lemma set_header_keeps_wrote: "set_header k v w = Some w' \<Longrightarrow> rw_wrote_header w' = rw_wrote_header w"
  by (auto simp: set_header_def)

interpretation answered: chain_invariant answered
proof
  fix a :: "'v action" and c c' :: "'v http_context"
  assume "answered c" and "perform a c = Some c'"
  then show "answered c'"
    by (cases a) (auto simp: answered_def on_writer_def context_status_def set_value_def add_param_def log_request_def Let_def
        dest: write_keeps_wrote write_header_wrote set_header_keeps_wrote split: option.splits if_splits prod.splits)
qed (simp_all add: answered_def)

lemma next_answered: "context_next c = (r, c') \<Longrightarrow> answered c \<Longrightarrow> answered c'"
  by (rule answered.context_next_keeps)

lemma status_answers:
  assumes "run_handler context_next (Act (Status n) h) c = (Returned, c')"
  shows "answered c'"
proof -
  obtain c1 where "perform (Status n) c = Some c1" and run: "run_handler context_next h c1 = (Returned, c')"
    using assms by (auto split: option.splits)
  then have "answered c1"
    by (auto simp: answered_def on_writer_def context_status_def set_value_def add_param_def dest: write_header_wrote split: option.splits)
  then show ?thesis
    using answered.run_handler_keeps[OF _ run] next_answered by blast
qed

lemma header_then:
  "run_handler next (Act (Header k v) h) c = (Returned, c') \<Longrightarrow> \<exists>c1. run_handler next h c1 = (Returned, c')"
  by (auto split: option.splits)

lemma headers_then:
  "run_handler next (foldr (\<lambda>(k, v) rest. Act (Header k v) rest) hs h) c = (Returned, c') \<Longrightarrow>
   \<exists>c1 d. run_handler next h c1 = (Returned, c') \<and> cx_request c1 = d"
proof (induction hs arbitrary: c)
  case (Cons x hs)
  then show ?case by (cases x) (auto split: option.splits)
qed auto

lemma bytes_after_status: "calls_ok b cs \<Longrightarrow> 0 < call_bytes cs \<Longrightarrow> b \<or> status_seen cs"
  by (induction b cs rule: calls_ok.induct) (auto simp: status_seen_def)

lemma written_fits: "writer_fits w \<Longrightarrow> rw_ctx w \<noteq> None \<Longrightarrow> resp_written w \<Longrightarrow> rw_wrote_header w"
  using bytes_after_status by (fastforce simp: writer_fits_def resp_written_def)

text \<open>
  Every result a handler can return answers the request: if executing it returns at all, a
  status has been sent on the response.
\<close>
theorem result_answers_request:
  fixes c c' :: "'v http_context"
  assumes "run_handler context_next (execute_result enc result) c = (Returned, c')"
  and "live c" and "context_fits c"
  shows "answered c'"
proof -
  have simple: "answered c'"
    if "run_handler context_next (Act (Header k v) (Act (Status n) h)) c = (Returned, c')" for k v n h c
    using header_then[OF that] status_answers by blast
  have auto: "answered c'" if "run_handler context_next (auto_marshal enc x n accept) c = (Returned, c')" for x n accept c
    using that simple unfolding auto_marshal_def Let_def context_json_def context_xml_def context_string_def context_data_def
    by (auto split: if_splits option.splits simp del: run_handler.simps(3))
  show ?thesis
  proof (cases result)
    case (AutoResult x code headers marshal)
    define body :: "'v handler" where "body = (case marshal of
           Some f \<Rightarrow>
             (case f x of
                None \<Rightarrow> Crash
              | Some (body, ctype) \<Rightarrow>
                  Act (Header content_type ctype) (Act (Status (or_code StatusOK code)) (Act (WriteData body) Return)))
         | None \<Rightarrow>
             Look (\<lambda>c. case cx_request c of
                         None \<Rightarrow> Crash
                       | Some rq \<Rightarrow> auto_marshal enc x (or_code StatusOK code) (rq_header rq ''Accept'')))"
    obtain c1 where c1: "run_handler context_next body c1 = (Returned, c')"
      using assms(1) headers_then unfolding AutoResult execute_result.simps execute_auto_def Let_def body_def by blast
    show ?thesis
    proof (cases marshal)
      case None
      then show ?thesis
        using c1 auto by (auto simp: body_def view.truncate_def split: option.splits)
    next
      case (Some f)
      then show ?thesis
        using c1 simple by (auto simp: body_def simp del: run_handler.simps(3) split: option.splits)
    qed
  next
    case NoContentResult
    obtain w where w: "cx_writer c = Some w" "resp_written w \<longrightarrow> rw_wrote_header w"
      using assms(2,3) written_fits unfolding live_def context_fits_def by (cases "cx_writer c") auto
    show ?thesis
    proof (cases "resp_written w")
      case True
      then show ?thesis
        using w assms(1) NoContentResult by (simp add: execute_no_content_def view.truncate_def answered_def)
    next
      case False
      then have "run_handler context_next (Act (Status StatusNoContent) Return) c = (Returned, c')"
        using w assms(1) NoContentResult by (simp add: execute_no_content_def view.truncate_def)
      then show ?thesis
        by (rule status_answers)
    qed
  next
    case (FileResult st)
    then show ?thesis
      using assms(1) simple status_answers by (cases st) (auto simp: execute_file_def simp del: run_handler.simps(3))
  qed (use assms(1) simple in \<open>auto simp: context_json_def context_xml_def context_string_def context_data_def context_html_def
    execute_redirect_def execute_error_def execute_stream_def Let_def
                                simp del: run_handler.simps(3)\<close>)
qed

definition example_encoders :: "nat encoders" where
  "example_encoders =
     \<lparr>enc_json = (\<lambda>x. Some ''{}''), enc_xml = (\<lambda>x. None), enc_sprintf = (\<lambda>f xs. f), enc_bytes = (\<lambda>x. None),
      enc_reader = (\<lambda>x. None), enc_status_text = (\<lambda>n. ''error''), enc_html = None\<rparr>"

definition example_context :: "nat http_context" where
  "example_context =
     new_context\<lparr>cx_request := Some example_request, cx_writer := Some (new_resp_writer\<lparr>rw_ctx := Some []\<rparr>)\<rparr>"

lemma result_answers_request_witness:
  "answered (snd (run_handler context_next (execute_result example_encoders (JSONResult 3 0)) example_context))"
proof -
  obtain r c' where run: "run_handler context_next (execute_result example_encoders (JSONResult 3 0)) example_context = (r, c')"
    by fastforce
  have "fst (run_handler context_next (execute_result example_encoders (JSONResult 3 0)) example_context) = Returned"
    by code_simp
  moreover have "live example_context" and "context_fits example_context"
    using new_writer_fits by (simp_all add: example_context_def live_def context_fits_def)
  ultimately show ?thesis
    using result_answers_request[of example_encoders "JSONResult 3 0" example_context c'] run by simp
qed

section \<open>The wrapper of a standard writer\<close>

text \<open>
  The wrapper passes on only the first status, but reports the last one it was given: after the
  header has gone out, \<open>Status\<close> is not what the client got.
\<close>

lemma std_status_differs:
  "sw_calls (std_write_header 500 (std_write ''x'' wrap_std_writer)) = [SetStatusCode 200, WriteBody ''x''] \<and>
   std_status (std_write_header 500 (std_write ''x'' wrap_std_writer)) = 500"
  by code_simp

text \<open>The sub-keys of \<open>QueryMap\<close> are found again.\<close>

lemma bracket_key_found: "sub \<noteq> [] \<Longrightarrow> bracket_key key (key @ CHR ''['' # sub @ [CHR '']'']) = Some sub"
  by (cases sub) (auto simp: bracket_key_def nth_append)

end
