(* ===== verification/Sse.thy ===== *)
theory Sse
  imports HttpText Strconv
begin

text \<open>
  \<open>ghttp/gclient/sse.go\<close>: the parser of an event stream and the loop that connects, reads and
  connects again.  A connection is given by what the server does with it: it fails, or it answers
  with a status and a body that ends or breaks off.  The context is asked whenever the code looks
  at it; the handler and the hooks may answer differently each time they are called.  The model
  keeps the list of what happened: requests, events handed to the handler, calls of hooks.
\<close>

section \<open>Lines\<close>

datatype stream_error =
    StreamCanceled | StreamDeadline | TokenTooLong | ReadFailed nat | ConnectFailed nat
  | UnexpectedStatus int | CallbackFailed nat | HandlerRequired

text \<open>
  The stream is read line by line, with a buffer of \<open>max_token\<close> bytes.
\<close>

definition max_token :: nat where
  "max_token = 512 * 1024"

definition scan_lines :: "string \<Rightarrow> string list \<times> bool" where
  "scan_lines = scan_lines_upto max_token"

lemma scan_lines_step:
  "scan_lines s =
     (if max_token \<le> length (line_of s) then ([], True)
      else
        (case dropWhile (\<lambda>c. c \<noteq> newline) s of
           [] \<Rightarrow> (if s = [] then [] else [drop_cr (line_of s)], False)
         | _ # rest \<Rightarrow> (let (ls, long) = scan_lines rest in (drop_cr (line_of s) # ls, long))))"
  unfolding scan_lines_def by (subst scan_lines_upto.simps) simp

section \<open>Events\<close>

record sse_event =
  ev_id :: string
  ev_event :: string
  ev_data :: string
  ev_retry :: int

definition no_event :: sse_event where
  "no_event = \<lparr>ev_id = '''', ev_event = '''', ev_data = '''', ev_retry = 0\<rparr>"

text \<open>What happened so far.  A request carries a \<open>Last-Event-ID\<close> unless the identifier is empty.\<close>

datatype sse_call =
    Requested "string option"
  | Delivered sse_event
  | CalledOnConnect
  | CalledOnError stream_error
  | CalledOnRetry int stream_error "64 word"
  | ObservedConnect
  | ObservedError stream_error
  | ObservedRetry int stream_error "64 word"
  | ObservedClose "stream_error option"

record sse_state =
  last_event_id :: string
  sse_delay :: "64 word"
  current_event :: sse_event
  happened :: "sse_call list"
  polls :: nat

definition log_call :: "sse_call \<Rightarrow> sse_state \<Rightarrow> sse_state" where
  "log_call c s = s\<lparr>happened := happened s @ [c]\<rparr>"

type_synonym sse_handler = "sse_call list \<Rightarrow> sse_event \<Rightarrow> stream_error option"

type_synonym stream_context = "nat \<Rightarrow> stream_error option"

text \<open>\<open>fmt.Sscanf(value, "%d", &n)\<close>: a sign, digits, and anything after them.\<close>

definition scan_int :: "string \<Rightarrow> int option" where
  "scan_int s =
     (let sign = (case s of c # _ \<Rightarrow> if c = CHR ''+'' \<or> c = CHR ''-'' then [c] else [] | [] \<Rightarrow> []);
          digits = takeWhile is_digit (drop (length sign) s)
      in if digits = [] then None
         else (case parse_int (map of_char (sign @ digits)) of Ok i \<Rightarrow> Some i | _ \<Rightarrow> None))"

definition millisecond :: "64 word" where
  "millisecond = 1000000"

definition append_data :: "string \<Rightarrow> sse_event \<Rightarrow> sse_event" where
  "append_data v e = e\<lparr>ev_data := (if ev_data e \<noteq> '''' then ev_data e @ [newline] else ev_data e) @ v\<rparr>"

definition set_field :: "string \<Rightarrow> string \<Rightarrow> sse_state \<Rightarrow> sse_state" where
  "set_field field v s =
     (let e = current_event s in
      if field = ''id'' then s\<lparr>current_event := e\<lparr>ev_id := v\<rparr>, last_event_id := v\<rparr>
      else if field = ''event'' then s\<lparr>current_event := e\<lparr>ev_event := v\<rparr>\<rparr>
      else if field = ''data'' then s\<lparr>current_event := append_data v e\<rparr>
      else if field = ''retry'' then
        (case scan_int v of
           None \<Rightarrow> s
         | Some n \<Rightarrow>
             (let s = s\<lparr>current_event := e\<lparr>ev_retry := n\<rparr>\<rparr>
              in if n > 0 then s\<lparr>sse_delay := word_of_int n * millisecond\<rparr> else s))
      else s)"

definition field_line :: "string \<Rightarrow> sse_state \<Rightarrow> sse_state" where
  "field_line line s =
     (let name = takeWhile (\<lambda>c. c \<noteq> CHR '':'') line;
          rest = dropWhile (\<lambda>c. c \<noteq> CHR '':'') line
      in set_field (trim_space name) (case rest of [] \<Rightarrow> '''' | _ # v \<Rightarrow> trim_space v) s)"

definition flush :: "sse_handler \<Rightarrow> sse_state \<Rightarrow> stream_error option \<times> sse_state" where
  "flush h s =
     (let e = current_event s in
      if ev_id e = '''' \<and> ev_event e = '''' \<and> ev_data e = '''' \<and> ev_retry e = 0 then (None, s)
      else
        (case h (happened s) e of
           Some err \<Rightarrow> (Some err, log_call (Delivered e) s)
         | None \<Rightarrow> (None, log_call (Delivered e) s\<lparr>current_event := no_event\<rparr>)))"

text \<open>\<open>select\<close> on \<open>ctx.Done()\<close> with a default.\<close>

definition poll :: "stream_context \<Rightarrow> sse_state \<Rightarrow> stream_error option \<times> sse_state" where
  "poll ctx s = (ctx (polls s), s\<lparr>polls := Suc (polls s)\<rparr>)"

text \<open>The loop over the lines: the error it returns with, if it returns.\<close>

fun handle_lines ::
  "sse_handler \<Rightarrow> stream_context \<Rightarrow> string list \<Rightarrow> sse_state \<Rightarrow> stream_error option \<times> sse_state" where
  "handle_lines h ctx [] s = (None, s)"
| "handle_lines h ctx (line # lines) s =
     (case poll ctx s of
        (Some ended, s) \<Rightarrow>
          (case flush h s of (Some err, s) \<Rightarrow> (Some err, s) | (None, s) \<Rightarrow> (Some ended, s))
      | (None, s) \<Rightarrow>
          if line = '''' then
            (case flush h s of (Some err, s) \<Rightarrow> (Some err, s) | (None, s) \<Rightarrow> handle_lines h ctx lines s)
          else if has_prefix line '':'' then handle_lines h ctx lines s
          else handle_lines h ctx lines (field_line line s))"

text \<open>\<open>handleSSEStream\<close> on a body that ends (\<open>None\<close>) or breaks off with an error.\<close>

definition handle_stream ::
  "sse_handler \<Rightarrow> stream_context \<Rightarrow> string \<Rightarrow> stream_error option \<Rightarrow> sse_state
     \<Rightarrow> stream_error option \<times> sse_state" where
  "handle_stream h ctx body broken s =
     (let (ls, long) = scan_lines body;
          (r, s) = handle_lines h ctx ls (s\<lparr>current_event := no_event\<rparr>)
      in case r of
           Some err \<Rightarrow> (Some err, s)
         | None \<Rightarrow>
             if long then (Some TokenTooLong, s)
             else (case broken of Some err \<Rightarrow> (Some err, s) | None \<Rightarrow> flush h s))"

section \<open>Requests\<close>

text \<open>
  The configuration: \<open>sc_handler\<close> and the hooks may be nil; \<open>sc_on_connect\<close> and the observer's
  \<open>OnConnect\<close> are given what has happened before and may refuse the connection.
\<close>

record sse_config =
  sc_handler :: "sse_handler option"
  sc_on_connect :: "(sse_call list \<Rightarrow> stream_error option) option"
  sc_on_retry :: bool
  sc_on_error :: bool
  sc_observer :: "(sse_call list \<Rightarrow> stream_error option) option"
  sc_reconnect :: bool
  sc_max_retries :: int

definition new_sse_config :: sse_config where
  "new_sse_config =
     \<lparr>sc_handler = None, sc_on_connect = None, sc_on_retry = False, sc_on_error = False,
      sc_observer = None, sc_reconnect = True, sc_max_retries = 5\<rparr>"

definition new_sse_state :: sse_state where
  "new_sse_state =
     \<lparr>last_event_id = '''', sse_delay = 3 * 1000 * millisecond, current_event = no_event,
      happened = [], polls = 0\<rparr>"

text \<open>\<open>Filter\<close> and \<open>OnJSON\<close> wrap the handler; the wrapped one sees the events that pass.\<close>

definition event_selected :: "string \<Rightarrow> sse_event \<Rightarrow> bool" where
  "event_selected name e \<longleftrightarrow> name = '''' \<or> ev_event e = name"

definition passing :: "string \<Rightarrow> sse_call list \<Rightarrow> sse_call list" where
  "passing name = filter (\<lambda>c. case c of Delivered e \<Rightarrow> event_selected name e | _ \<Rightarrow> True)"

definition sse_filter :: "string \<Rightarrow> sse_config \<Rightarrow> sse_config" where
  "sse_filter name cfg =
     cfg\<lparr>sc_handler := Some (\<lambda>hist e.
       if event_selected name e
       then (case sc_handler cfg of None \<Rightarrow> None | Some h \<Rightarrow> h (passing name hist) e)
       else None)\<rparr>"

definition on_json ::
  "string \<Rightarrow> (string \<Rightarrow> stream_error + 'j) \<Rightarrow> (sse_call list \<Rightarrow> 'j \<Rightarrow> stream_error option) option
     \<Rightarrow> sse_config \<Rightarrow> sse_config" where
  "on_json name decode handler cfg =
     cfg\<lparr>sc_handler := Some (\<lambda>hist e.
       if \<not> event_selected name e then None
       else (case decode (ev_data e) of
               Inl err \<Rightarrow> Some err
             | Inr v \<Rightarrow> (case handler of None \<Rightarrow> None | Some h \<Rightarrow> h (passing name hist) v)))\<rparr>"

section \<open>Connections\<close>

datatype connection = NotConnected stream_error | Answered int string "stream_error option"

text \<open>
  The surroundings of \<open>Stream\<close>: what the server does with the nth request and what the context
  says when it is asked and while the code sleeps.
\<close>

record sse_env =
  se_server :: "nat \<Rightarrow> connection"
  se_context :: stream_context
  se_sleep :: "nat \<Rightarrow> stream_error option"

definition requests :: "sse_state \<Rightarrow> nat" where
  "requests s = length (filter (\<lambda>c. case c of Requested _ \<Rightarrow> True | _ \<Rightarrow> False) (happened s))"

definition prepare_request :: "sse_state \<Rightarrow> sse_state" where
  "prepare_request s = log_call (Requested (if last_event_id s \<noteq> '''' then Some (last_event_id s) else None)) s"

definition log_if :: "bool \<Rightarrow> sse_call \<Rightarrow> sse_state \<Rightarrow> sse_state" where
  "log_if b c s = (if b then log_call c s else s)"

definition call_on_error :: "sse_config \<Rightarrow> stream_error \<Rightarrow> sse_state \<Rightarrow> sse_state" where
  "call_on_error cfg err s =
     log_if (sc_observer cfg \<noteq> None) (ObservedError err) (log_if (sc_on_error cfg) (CalledOnError err) s)"

definition call_on_retry :: "sse_config \<Rightarrow> int \<Rightarrow> stream_error \<Rightarrow> sse_state \<Rightarrow> sse_state" where
  "call_on_retry cfg attempt err s =
     log_if (sc_observer cfg \<noteq> None) (ObservedRetry attempt err (sse_delay s))
       (log_if (sc_on_retry cfg) (CalledOnRetry attempt err (sse_delay s)) s)"

definition call_on_close :: "sse_config \<Rightarrow> stream_error option \<Rightarrow> sse_state \<Rightarrow> sse_state" where
  "call_on_close cfg err s = log_if (sc_observer cfg \<noteq> None) (ObservedClose err) s"

definition should_reconnect :: "sse_config \<Rightarrow> int \<Rightarrow> bool" where
  "should_reconnect cfg retries \<longleftrightarrow>
     sc_reconnect cfg \<and> (sc_max_retries cfg \<le> 0 \<or> retries < sc_max_retries cfg)"

definition sleep_with_context :: "sse_env \<Rightarrow> sse_state \<Rightarrow> stream_error option" where
  "sleep_with_context env s = (if sint (sse_delay s) \<le> 0 then None else se_sleep env (requests s))"

definition is_ctx_error :: "stream_error \<Rightarrow> bool" where
  "is_ctx_error e \<longleftrightarrow> e = StreamCanceled \<or> e = StreamDeadline"

text \<open>\<open>Stream\<close> returns with an error or nil, or goes on with the next connection.\<close>

type_synonym sse_outcome = "stream_error option \<times> sse_state + sse_state"

definition after_error :: "sse_config \<Rightarrow> sse_env \<Rightarrow> bool \<Rightarrow> int \<Rightarrow> stream_error \<Rightarrow> sse_state \<Rightarrow> sse_outcome" where
  "after_error cfg env close retries err s =
     (let s = call_on_error cfg err s in
      if \<not> should_reconnect cfg retries
      then Inl (Some err, if close then call_on_close cfg (Some err) s else s)
      else
        (let s = call_on_retry cfg (retries + 1) err s in
         case sleep_with_context env s of Some e \<Rightarrow> Inl (Some e, s) | None \<Rightarrow> Inr s))"

definition connect_hooks :: "sse_config \<Rightarrow> sse_state \<Rightarrow> stream_error option \<times> sse_state" where
  "connect_hooks cfg s =
     (let (r, s) = (case sc_on_connect cfg of
                      None \<Rightarrow> (None, s)
                    | Some f \<Rightarrow> (f (happened s), log_call CalledOnConnect s))
      in case r of
           Some err \<Rightarrow> (Some err, s)
         | None \<Rightarrow> (case sc_observer cfg of
                      None \<Rightarrow> (None, s)
                    | Some f \<Rightarrow> (f (happened s), log_call ObservedConnect s)))"

definition sse_pass :: "sse_config \<Rightarrow> sse_handler \<Rightarrow> sse_env \<Rightarrow> int \<Rightarrow> sse_state \<Rightarrow> sse_outcome" where
  "sse_pass cfg h env retries s =
     (let answer = se_server env (requests s); s = prepare_request s in
      case answer of
        NotConnected err \<Rightarrow> after_error cfg env False retries err s
      | Answered status body broken \<Rightarrow>
          if status \<noteq> 200 then after_error cfg env False retries (UnexpectedStatus status) s
          else
            (case connect_hooks cfg s of
               (Some err, s) \<Rightarrow> Inl (Some err, call_on_error cfg err s)
             | (None, s) \<Rightarrow>
                 (case handle_stream h (se_context env) body broken s of
                    (None, s) \<Rightarrow> Inl (None, call_on_close cfg None s)
                  | (Some err, s) \<Rightarrow>
                      if is_ctx_error err then Inl (Some err, call_on_close cfg (Some err) s)
                      else after_error cfg env True retries err s)))"

text \<open>Without a bound on the retries the loop need not end: then its value is \<open>None\<close>.\<close>

partial_function (option) sse_loop ::
  "sse_config \<Rightarrow> sse_handler \<Rightarrow> sse_env \<Rightarrow> int \<Rightarrow> sse_state \<Rightarrow> (stream_error option \<times> sse_state) option" where
  "sse_loop cfg h env retries s =
     (case poll (se_context env) s of
        (Some err, s) \<Rightarrow> Some (Some err, s)
      | (None, s) \<Rightarrow>
          (case sse_pass cfg h env retries s of
             Inl r \<Rightarrow> Some r
           | Inr s \<Rightarrow> sse_loop cfg h env (retries + 1) s))"

definition sse_stream ::
  "sse_config \<Rightarrow> sse_env \<Rightarrow> sse_state \<Rightarrow> (stream_error option \<times> sse_state) option" where
  "sse_stream cfg env s =
     (case sc_handler cfg of
        None \<Rightarrow> Some (Some HandlerRequired, s)
      | Some h \<Rightarrow> sse_loop cfg h env 0 s)"

text \<open>The errors \<open>StreamChannels\<close> passes on when \<open>Stream\<close> has returned.\<close>

definition channel_errors :: "stream_error option \<Rightarrow> stream_error list" where
  "channel_errors r = (case r of None \<Rightarrow> [] | Some e \<Rightarrow> if is_ctx_error e then [] else [e])"

end
