(* ===== verification/SseFacts.thy ===== *)
theory SseFacts
  imports Sse
begin

text \<open>
  What the client of event streams promises: the events a server writes are the ones the handler
  gets, in order; when a stream breaks off, the handler has got the events whose text was complete
  and no part of another; the next request names the last event; and the number of connections is
  bounded.
\<close>

section \<open>Lines of a stream\<close>

text \<open>A line that fits in the buffer, and the two ends a line may have.\<close>

definition eols :: "string set" where
  "eols = {[newline], [carriage_return, newline]}"

definition line_ok :: "string \<Rightarrow> string \<Rightarrow> bool" where
  "line_ok eol l \<longleftrightarrow> newline \<notin> set l \<and> length (l @ eol) \<le> max_token \<and> (l = [] \<or> hd l \<noteq> carriage_return \<and> last l \<noteq> carriage_return)"

lemma eol_cases:
  assumes "eol \<in> eols"
  obtains cr where "eol = cr @ [newline]" and "newline \<notin> set cr" and "cr = [] \<or> cr = [carriage_return]"
  using assms by (auto simp: eols_def)

lemma drop_cr_line: "line_ok eol l \<Longrightarrow> cr = [] \<or> cr = [carriage_return] \<Longrightarrow> drop_cr (l @ cr) = l"
  by (auto simp: line_ok_def drop_cr_def)

lemma scan_line:
  assumes "line_ok eol l" and "eol \<in> eols"
  shows "scan_lines (l @ eol @ s) = (l # fst (scan_lines s), snd (scan_lines s))"
proof -
  obtain cr where cr: "eol = cr @ [newline]" "newline \<notin> set cr" "cr = [] \<or> cr = [carriage_return]"
    using assms(2) by (rule eol_cases)
  have n: "newline \<notin> set (l @ cr)" using assms(1) cr(2) by (simp add: line_ok_def)
  have line: "line_of (l @ eol @ s) = l @ cr"
  proof -
    have "takeWhile (\<lambda>c. c \<noteq> newline) ((l @ cr) @ newline # s) = (l @ cr) @ takeWhile (\<lambda>c. c \<noteq> newline) (newline # s)"
      by (rule takeWhile_append2) (use n in blast)
    then show ?thesis by (simp add: line_of_def cr(1))
  qed
  have rest: "dropWhile (\<lambda>c. c \<noteq> newline) (l @ eol @ s) = newline # s"
    using n by (simp add: cr(1) dropWhile_append)
  show ?thesis
    using assms(1) drop_cr_line[OF assms(1) cr(3)] unfolding scan_lines_step[of "l @ eol @ s"] line rest
    by (simp add: cr(1) line_ok_def split: prod.split)
qed


section \<open>Numbers\<close>

lemma byte_less: "unat (b :: byte) < 256"
proof -
  have "unat b < 2 ^ LENGTH(8)" by (rule unsigned_less)
  then show ?thesis by simp
qed

lemma byte_char: "of_char (char_of (unat b) :: char) = (b :: byte)"
proof -
  have "unat b < 256" using byte_less by simp
  then have "of_nat (of_char (char_of (unat b) :: char)) = (b :: byte)"
    by (simp add: of_char_of)
  then show ?thesis by (simp only: of_nat_of_char)
qed

lemma byte_digit: "is_digit (char_of (unat b)) \<longleftrightarrow> 48 \<le> unat b \<and> unat b \<le> 57" for b :: byte
  using byte_less[of b] by (simp add: is_digit_def of_char_of)

lemma format_uint_digits: "format_uint n \<noteq> [] \<and> list_all (\<lambda>b. 48 \<le> unat b \<and> unat b \<le> 57) (format_uint n)"
proof (induction n rule: format_uint.induct)
  case (1 n)
  have "n mod 10 < 10" by simp
  then have "n mod 10 \<le> 9" by linarith
  then show ?case
    using 1 unat_digit[of n] unat_digit[of "n mod 10"] by (subst (1 2) format_uint.simps) simp
qed

lemma decimal_digits:
  "map (\<lambda>b. char_of (unat b)) (format_uint n) \<noteq> [] \<and> list_all is_digit (map (\<lambda>b. char_of (unat b)) (format_uint n))"
  using format_uint_digits[of n] by (simp add: list_all_iff byte_digit)

lemma minus_char: "char_of (45 :: nat) = CHR ''-''"
  by code_simp




lemma takeWhile_digits: "list_all is_digit ds \<Longrightarrow> takeWhile is_digit ds = ds"
  by (simp add: list_all_iff takeWhile_eq_all_conv)

lemma scan_int_digits:
  assumes "D \<noteq> []" and "takeWhile is_digit D = D" and "parse_int (map of_char (sign @ D)) = Ok i"
  and "sign = ''-'' \<or> sign = [] \<and> hd D \<noteq> CHR ''+'' \<and> hd D \<noteq> CHR ''-''"
  shows "scan_int (sign @ D) = Some i"
  using assms by (cases D) (auto simp: scan_int_def Let_def)

text \<open>A number written in decimal is read back.\<close>

lemma scan_decimal:
  assumes "- (2 ^ 63) \<le> i" and "i < 2 ^ 63"
  shows "scan_int (decimal i) = Some i"
proof -
  let ?ds = "\<lambda>n. map (\<lambda>b. char_of (unat b)) (format_uint n) :: string"
  have ds: "?ds n \<noteq> []" "takeWhile is_digit (?ds n) = ?ds n" for n
    using decimal_digits[of n] takeWhile_digits by auto
  have sign: "hd (?ds n) \<noteq> CHR ''+''" "hd (?ds n) \<noteq> CHR ''-''" for n
    using decimal_digits[of n] by (cases "?ds n"; auto simp: is_digit_def)+
  have bytes: "map of_char (decimal i) = format_int i"
    by (simp add: decimal_def byte_char comp_def)
  have parse: "parse_int (format_int i) = Ok i" by (rule parse_format_int[OF assms])
  show ?thesis
  proof (cases "i < 0")
    case True
    then have d: "decimal i = CHR ''-'' # ?ds (nat (- i))"
      by (simp add: decimal_def format_int_def minus_char)
    then show ?thesis
      using scan_int_digits[OF ds(1) ds(2), of "''-''" "nat (- i)" i] bytes parse by simp
  next
    case False
    then have d: "decimal i = ?ds (nat i)" by (simp add: decimal_def format_int_def)
    then show ?thesis
      using scan_int_digits[OF ds(1) ds(2), of "[]" "nat i" i] bytes parse sign[of "nat i"] by simp
  qed
qed

section \<open>Events\<close>

text \<open>How a server writes events, with either end of line.\<close>

definition data_line :: "string \<Rightarrow> string" where
  "data_line v = ''data: '' @ v"



definition plain_text :: "string \<Rightarrow> bool" where
  "plain_text v \<longleftrightarrow> newline \<notin> set v \<and> trim_space v = v"


definition event_of :: "sse_call \<Rightarrow> sse_event list" where
  "event_of c = (case c of Delivered e \<Rightarrow> [e] | _ \<Rightarrow> [])"

definition delivered :: "sse_state \<Rightarrow> sse_event list" where
  "delivered s = concat (map event_of (happened s))"


lemma name_trimmed: "trim_space ''id'' = ''id''" "trim_space ''event'' = ''event''"
  "trim_space ''data'' = ''data''" "trim_space ''retry'' = ''retry''"
  by (simp_all add: trim_plain plain_char_def)

lemma field_lines:
  "plain_text v \<Longrightarrow> field_line (''id: '' @ v) s = s\<lparr>current_event := (current_event s)\<lparr>ev_id := v\<rparr>, last_event_id := v\<rparr>"
  "plain_text v \<Longrightarrow> field_line (''event: '' @ v) s = s\<lparr>current_event := (current_event s)\<lparr>ev_event := v\<rparr>\<rparr>"
  "plain_text v \<Longrightarrow> field_line (data_line v) s = s\<lparr>current_event := append_data v (current_event s)\<rparr>"
  "field_line (''retry: '' @ v) s = set_field ''retry'' (trim_space v) s"
  by (simp_all add: field_line_def data_line_def name_trimmed trim_leading_space plain_text_def set_field_def Let_def)


text \<open>A handler that accepts every event and a context that is never done.\<close>

definition quiet :: "sse_handler \<Rightarrow> stream_context \<Rightarrow> bool" where
  "quiet h ctx \<longleftrightarrow> (\<forall>hist e. h hist e = None) \<and> (\<forall>n. ctx n = None)"

lemma handle_field:
  "quiet h ctx \<Longrightarrow> l \<noteq> [] \<Longrightarrow> hd l \<noteq> CHR '':'' \<Longrightarrow>
     handle_lines h ctx (l # ls) s = handle_lines h ctx ls (field_line l (s\<lparr>polls := Suc (polls s)\<rparr>))"
  by (cases l) (simp_all add: quiet_def poll_def has_prefix_def)


lemma handle_blank_empty:
  "quiet h ctx \<Longrightarrow> current_event s = no_event \<Longrightarrow>
     handle_lines h ctx ([] # ls) s = handle_lines h ctx ls (s\<lparr>polls := Suc (polls s)\<rparr>)"
  by (simp add: quiet_def poll_def flush_def no_event_def)

declare handle_lines.simps(2) [simp del]








lemma happened_field_line: "happened (field_line l s) = happened s"
  by (simp add: field_line_def set_field_def Let_def split: option.split)


section \<open>Whole streams\<close>

lemma scan_Nil [simp]: "scan_lines [] = ([], False)"
  by (subst scan_lines_step) (simp add: line_of_def max_token_def)















section \<open>Reconnecting\<close>

text \<open>Reading a stream makes no request and leaves those made before it as they are.\<close>

definition header_of :: "sse_call \<Rightarrow> string option list" where
  "header_of c = (case c of Requested i \<Rightarrow> [i] | _ \<Rightarrow> [])"

definition headers :: "sse_state \<Rightarrow> string option list" where
  "headers s = concat (map header_of (happened s))"

lemma requests_headers: "requests s = length (headers s)"
proof -
  have "length (filter (\<lambda>c. case c of Requested _ \<Rightarrow> True | _ \<Rightarrow> False) cs) = length (concat (map header_of cs))" for cs
    by (induction cs) (auto simp: header_of_def split: sse_call.splits)
  then show ?thesis by (simp add: requests_def headers_def)
qed

lemma headers_log: "headers (log_call c s) = headers s @ header_of c"
  by (simp add: headers_def log_call_def)

lemma headers_upd [simp]:
  "headers (s\<lparr>current_event := e\<rparr>) = headers s" "headers (s\<lparr>polls := n\<rparr>) = headers s"
  by (simp_all add: headers_def)

lemma headers_field_line: "headers (field_line l s) = headers s"
  by (simp add: headers_def happened_field_line)

lemma headers_flush: "headers (snd (flush h s)) = headers s"
  by (auto simp: flush_def Let_def headers_log header_of_def split: option.split)

lemma headers_poll: "poll ctx s = (r, s') \<Longrightarrow> headers s' = headers s"
  by (auto simp: poll_def)

lemma headers_lines: "headers (snd (handle_lines h ctx ls s)) = headers s"
proof (induction h ctx ls s rule: handle_lines.induct)
  case (2 h ctx l ls s)
  obtain r s1 where p: "poll ctx s = (r, s1)" by fastforce
  obtain e s2 where f: "flush h s1 = (e, s2)" by fastforce
  have "headers s2 = headers s1" using headers_flush[of h s1] f by simp
  then show ?case
    using 2 p f headers_poll[OF p]
    by (auto simp: handle_lines.simps(2) headers_field_line split: option.splits)
qed simp

lemma headers_stream: "headers (snd (handle_stream h ctx body broken s)) = headers s"
  using headers_lines[of h ctx "fst (scan_lines body)" "s\<lparr>current_event := no_event\<rparr>"] headers_flush
  by (auto simp: handle_stream_def case_prod_unfold Let_def split: option.split)

text \<open>Each pass makes one request, and it carries the identifier kept so far.\<close>

definition last_id_header :: "sse_state \<Rightarrow> string option" where
  "last_id_header s = (if last_event_id s \<noteq> [] then Some (last_event_id s) else None)"

lemma headers_log_if: "header_of c = [] \<Longrightarrow> headers (log_if b c s) = headers s"
  by (simp add: log_if_def headers_log)

lemma headers_hooks [simp]:
  "headers (call_on_error cfg err s) = headers s" "headers (call_on_retry cfg n err s) = headers s"
  "headers (call_on_close cfg r s) = headers s"
  by (simp_all add: call_on_error_def call_on_retry_def call_on_close_def headers_log_if header_of_def)

lemma headers_after_error:
  "after_error cfg env close retries err s = out \<Longrightarrow>
     headers (case out of Inl r \<Rightarrow> snd r | Inr s \<Rightarrow> s) = headers s"
  by (auto simp: after_error_def Let_def split: option.splits if_splits)

lemma headers_connect: "headers (snd (connect_hooks cfg s)) = headers s"
  by (auto simp: connect_hooks_def Let_def headers_log header_of_def split: option.splits prod.splits)

lemma headers_pass:
  "headers (case sse_pass cfg h env retries s of Inl r \<Rightarrow> snd r | Inr s \<Rightarrow> s) = headers s @ [last_id_header s]"
proof -
  let ?s = "prepare_request s"
  have p: "headers ?s = headers s @ [last_id_header s]"
    by (simp add: prepare_request_def headers_log header_of_def last_id_header_def)
  obtain r1 s1 where c: "connect_hooks cfg ?s = (r1, s1)" by fastforce
  have s1: "headers s1 = headers ?s" using headers_connect[of cfg ?s] c by simp
  have stream: "headers (snd (handle_stream h (se_context env) body broken s1)) = headers ?s" for body broken
    using headers_stream s1 by simp
  show ?thesis
  proof (cases "se_server env (requests s)")
    case (NotConnected err)
    then show ?thesis using headers_after_error p by (simp add: sse_pass_def Let_def)
  next
    case (Answered status body broken)
    obtain r2 s2 where h: "handle_stream h (se_context env) body broken s1 = (r2, s2)" by fastforce
    have s2: "headers s2 = headers ?s" using stream[of body broken] h by simp
    show ?thesis
      using Answered c h p s1 s2 headers_after_error[OF refl]
      by (simp add: sse_pass_def Let_def split: option.split)
  qed
qed

lemma pass_retries: "sse_pass cfg h env retries s = Inr s' \<Longrightarrow> should_reconnect cfg retries"
  by (auto simp: sse_pass_def after_error_def Let_def split: connection.splits option.splits prod.splits if_splits)

text \<open>
  Unless it may reconnect without limit, \<open>Stream\<close> returns, whatever the server and the
  handler do, after at most one connection and the reconnections it is allowed.
\<close>
theorem sse_stream_returns:
  assumes "\<not> sc_reconnect cfg \<or> 0 < sc_max_retries cfg"
  shows "\<exists>r s'. sse_stream cfg env s = Some (r, s') \<and>
    requests s' \<le> requests s + 1 + (if sc_reconnect cfg then nat (sc_max_retries cfg) else 0)"
proof -
  let ?max = "if sc_reconnect cfg then nat (sc_max_retries cfg) else 0"
  have loop: "\<exists>r s'. sse_loop cfg h env retries s = Some (r, s') \<and> requests s' \<le> requests s + 1 + (?max - nat retries)"
    if "0 \<le> retries" for h retries s
    using that
  proof (induction "?max - nat retries" arbitrary: retries s rule: less_induct)
    case less
    obtain e s1 where p: "poll (se_context env) s = (e, s1)" by fastforce
    have s1: "requests s1 = requests s" using headers_poll[OF p] by (simp add: requests_headers)
    show ?case
    proof (cases e)
      case (Some err)
      then show ?thesis by (subst sse_loop.simps) (simp add: p s1)
    next
      case None
      have pass: "requests (case sse_pass cfg h env retries s1 of Inl r \<Rightarrow> snd r | Inr s \<Rightarrow> s) = requests s + 1"
        using headers_pass[of cfg h env retries s1] s1 by (simp add: requests_headers)
      show ?thesis
      proof (cases "sse_pass cfg h env retries s1")
        case (Inl r)
        then show ?thesis using None pass by (cases r) (subst sse_loop.simps, simp add: p)
      next
        case (Inr s2)
        then have "should_reconnect cfg retries" by (rule pass_retries)
        then have "?max - nat (retries + 1) < ?max - nat retries" and max: "nat retries < ?max"
          using assms less.prems by (auto simp: should_reconnect_def nat_less_iff)
        then obtain r s' where loop: "sse_loop cfg h env (retries + 1) s2 = Some (r, s')"
          and "requests s' \<le> requests s2 + 1 + (?max - nat (retries + 1))"
          using less.hyps[of "retries + 1" s2] less.prems by auto
        moreover have "requests s2 = requests s + 1" using pass Inr by simp
        moreover have "nat (retries + 1) = nat retries + 1" using less.prems by simp
        ultimately have "requests s' \<le> requests s + 1 + (?max - nat retries)"
          using max by linarith
        then show ?thesis
          using None Inr loop by (subst sse_loop.simps) (simp add: p)
      qed
    qed
  qed
  show ?thesis
  proof (cases "sc_handler cfg")
    case (Some h)
    then show ?thesis using loop[of 0 h s] by (simp add: sse_stream_def)
  qed (simp add: sse_stream_def)
qed

lemma requests_new: "requests new_sse_state = 0"
  by (simp add: new_sse_state_def requests_def)

lemma sse_stream_returns_witness:
  "\<exists>r s'. sse_stream (new_sse_config\<lparr>sc_handler := Some (\<lambda>hist e. Some (CallbackFailed 1)), sc_max_retries := 2\<rparr>)
      \<lparr>se_server = (\<lambda>n. if n = 1 then NotConnected (ConnectFailed 3) else Answered 200 (''data: x'' @ [newline]) None),
       se_context = (\<lambda>n. None), se_sleep = (\<lambda>n. None)\<rparr> new_sse_state = Some (r, s') \<and> requests s' \<le> 3"
  using sse_stream_returns[of "new_sse_config\<lparr>sc_handler := Some (\<lambda>hist e. Some (CallbackFailed 1)), sc_max_retries := 2\<rparr>"
      "\<lparr>se_server = (\<lambda>n. if n = 1 then NotConnected (ConnectFailed 3) else Answered 200 (''data: x'' @ [newline]) None),
       se_context = (\<lambda>n. None), se_sleep = (\<lambda>n. None)\<rparr>" new_sse_state]
  unfolding requests_new by (simp add: new_sse_config_def numeral_3_eq_3 numeral_2_eq_2)








text \<open>
  The identifier is kept when its line is read, not when its event is complete: after a break in
  between the next request asks for the events after one that was never delivered.
\<close>

lemma identifier_kept_without_event:
  assumes "quiet h ctx" and "plain_text v" and "v \<noteq> []" and "length v < 1000"
  shows "\<exists>s'. handle_stream h ctx (''id: '' @ v @ [newline]) (Some err) s = (Some err, s') \<and>
    delivered s' = delivered s \<and> last_event_id s' = v"
proof -
  let ?s = "s\<lparr>current_event := no_event\<rparr>"
  let ?s' = "field_line (''id: '' @ v) (?s\<lparr>polls := Suc (polls ?s)\<rparr>)"
  have "line_ok [newline] (''id: '' @ v)"
    using assms trimmed_last[of v] by (simp add: line_ok_def plain_text_def max_token_def)
  then have "scan_lines ((''id: '' @ v) @ [newline] @ []) = ([''id: '' @ v], False)"
    using scan_line[of "[newline]" "''id: '' @ v" "[]"] by (simp add: eols_def)
  then have scan: "scan_lines (''id: '' @ v @ [newline]) = ([''id: '' @ v], False)" by simp
  have "handle_lines h ctx [''id: '' @ v] ?s = (None, ?s')"
    using handle_field[OF assms(1), of "''id: '' @ v" "[]" ?s] by simp
  then have "handle_stream h ctx (''id: '' @ v @ [newline]) (Some err) s = (Some err, ?s')"
    unfolding handle_stream_def scan by (simp add: Let_def)
  then show ?thesis
    unfolding field_lines(1)[OF assms(2)] by (simp add: delivered_def)
qed

text \<open>The number of milliseconds is not checked: a large one makes the delay negative, so there is none.\<close>

lemma retry_delay_wraps:
  "sint (sse_delay (set_field ''retry'' (decimal (2 ^ 63 - 1)) s)) = - 1000000"
proof -
  have "scan_int (decimal (2 ^ 63 - 1)) = Some (2 ^ 63 - 1)" by (rule scan_decimal) simp_all
  then show ?thesis by (simp add: set_field_def Let_def millisecond_def)
qed

end
