(* ===== verification/CodecManager.thy ===== *)
theory CodecManager
  imports HttpText
begin

text \<open>
  \<open>ghttp/codec/manager.go\<close>: the registry of codecs by content type.  A codec is third-party code
  behind an interface: here any value.
\<close>

record 'c codec_manager =
  cm_codecs :: "(string, 'c) gomap"
  cm_default :: "'c option"

definition new_codec_manager :: "'c codec_manager" where
  "new_codec_manager = \<lparr>cm_codecs = [], cm_default = None\<rparr>"

definition normalize_content_type :: "string \<Rightarrow> string" where
  "normalize_content_type ct =
     takeWhile (\<lambda>c. c \<noteq> CHR '';'' \<and> c \<noteq> CHR '','') (trim_space (map lower_char ct))"

text \<open>A nil codec is \<open>None\<close>.\<close>

definition register_codec :: "string \<Rightarrow> 'c option \<Rightarrow> 'c codec_manager \<Rightarrow> 'c codec_manager" where
  "register_codec content_type c m =
     (case c of
        None \<Rightarrow> m
      | Some cd \<Rightarrow>
          (let ct = normalize_content_type content_type in
           if ct = '''' then m
           else m\<lparr>cm_codecs := go_put ct cd (cm_codecs m),
                  cm_default := (if cm_default m = None then Some cd else cm_default m)\<rparr>))"

definition set_default_codec :: "'c option \<Rightarrow> 'c codec_manager \<Rightarrow> 'c codec_manager" where
  "set_default_codec c m = (case c of None \<Rightarrow> m | Some cd \<Rightarrow> m\<lparr>cm_default := Some cd\<rparr>)"

definition get_codec :: "'c codec_manager \<Rightarrow> string \<Rightarrow> 'c option" where
  "get_codec m content_type =
     (let ct = normalize_content_type content_type in
      if ct = '''' then None else go_get (cm_codecs m) ct)"

text \<open>The codecs of \<open>RegisterDefaults\<close>: JSON, XML, YAML and plain text.\<close>

definition register_defaults :: "'c \<Rightarrow> 'c \<Rightarrow> 'c \<Rightarrow> 'c \<Rightarrow> 'c codec_manager \<Rightarrow> 'c codec_manager" where
  "register_defaults json xml yaml plain m =
     fold (\<lambda>(ct, c). register_codec ct (Some c))
       [(''application/json'', json), (''application/xml'', xml), (''text/xml'', xml),
        (''application/x-yaml'', yaml), (''application/yaml'', yaml), (''text/yaml'', yaml),
        (''text/plain'', plain)] m"

text \<open>The codec a caller uses for a content type: the registered one or the default.\<close>

definition codec_for :: "'c codec_manager \<Rightarrow> string \<Rightarrow> 'c option" where
  "codec_for m content_type =
     (case get_codec m content_type of None \<Rightarrow> cm_default m | Some c \<Rightarrow> Some c)"

section \<open>Facts\<close>

lemma get_registered:
  "get_codec (register_codec ct (Some c) m) ct' =
     (if normalize_content_type ct \<noteq> [] \<and> normalize_content_type ct' = normalize_content_type ct then Some c
      else get_codec m ct')"
  by (auto simp: get_codec_def register_codec_def Let_def)

text \<open>The first codec registered stays the default.\<close>

lemma default_kept:
  "cm_default m \<noteq> None \<Longrightarrow> cm_default (register_codec ct c m) = cm_default m"
  by (auto simp: register_codec_def Let_def split: option.split)

text \<open>
  White space is trimmed before the parameters are cut off: a space in front of the semicolon
  stays, and the content type is not found.
\<close>

lemma space_before_parameters:
  "normalize_content_type ''application/json ; charset=utf-8'' = ''application/json ''"
proof -
  have lower: "map lower_char ''application/json ; charset=utf-8'' = ''application/json ; charset=utf-8''"
    by code_simp
  have "trim_space ''application/json ; charset=utf-8'' = ''application/json ; charset=utf-8''"
    by (rule trim_plain) (simp_all add: plain_char_def is_digit_def)
  then show ?thesis unfolding normalize_content_type_def lower by simp
qed

end
