(* ===== verification/HttpRequest.thy ===== *)
theory HttpRequest
  imports CodecManager
begin

text \<open>
  \<open>ghttp/gclient\<close>, the making of a request: requests and their setters, bodies and the builder of
  the \<open>net/http\<close> request (\<open>request.go\<close>), the settings a client gives to its requests (\<open>client.go\<close>),
  steps, pipelines and endpoints (\<open>pipeline.go\<close>, \<open>steps.go\<close>, \<open>endpoint.go\<close>).  Parsing of URLs and
  the multipart writer are parameters; a Go value that is encoded as a body has any type.
\<close>

section \<open>Requests\<close>

datatype client_error =
    ErrInvalidPath | ErrBaseUrlEmpty | ErrBaseUrlFormat | ErrUrlNotAbs | UrlError | InvalidMethod
  | NoCodecFor string | EncodeError nat | BodyReadError nat | MultipartError nat
  | StepError nat | MiddlewareError nat | CacheEntryError nat | TransportError nat
  | ResponseReadError nat | NilResponse | DecodeError nat | BusinessFailure nat | SaveError nat

text \<open>What the code keeps of a response; \<open>rs_business\<close> is the error of the status checker.\<close>

record http_response =
  rs_status :: int
  rs_header :: http_header
  rs_body :: string
  rs_content_type :: string
  rs_business :: "client_error option"

datatype 'd any_value = DataValue 'd | StringMap "(string, string) gomap"

text \<open>A reader yields its bytes or fails; it is read at most once.\<close>

datatype 'd http_body =
    NoBody
  | BytesBody string
  | StringBody string
  | ReaderBody "nat + string"
  | ValuesBody url_values
  | MapBody "(string, string) gomap"
  | DataBody 'd

record multipart_field =
  mf_name :: string
  mf_file_name :: string
  mf_content_type :: string
  mf_reader :: "(nat + string) option"
  mf_file_path :: string
  mf_values :: "string list"

text \<open>A cookie is the text \<open>name=value\<close> of its header; bytes that are nil are \<open>None\<close>.\<close>

record 'd client_request =
  q_url :: string
  q_method :: string
  q_cookies :: "string list"
  q_header :: http_header
  q_query :: url_values
  q_form :: url_values
  q_path_params :: "(string, string) gomap"
  q_body :: "'d http_body"
  q_body_bytes :: "string option"
  q_multipart :: "multipart_field list"
  q_boundary :: string
  q_cache_key :: string
  q_cache_ttl :: "64 word"
  q_use_cache :: bool
  q_auth_token :: string
  q_auth_scheme :: string
  q_auth_key :: string
  q_basic_user :: string
  q_basic_pass :: string
  q_timeout :: "64 word"
  q_follow :: "bool option"
  q_max_redirects :: int
  q_redirect_handlers :: "(http_response \<Rightarrow> bool) list"
  q_result :: bool
  q_result_error :: bool
  q_unwrapper :: "(http_response \<Rightarrow> client_error option) option"
  q_checker :: "(http_response \<Rightarrow> client_error option) option"
  q_save :: bool
  q_save_name :: string
  q_save_dir :: string

definition new_client_request :: "'d client_request" where
  "new_client_request =
     \<lparr>q_url = '''', q_method = ''GET'', q_cookies = [], q_header = [], q_query = [], q_form = [],
      q_path_params = [], q_body = NoBody, q_body_bytes = None, q_multipart = [], q_boundary = '''',
      q_cache_key = '''', q_cache_ttl = 0, q_use_cache = False, q_auth_token = '''', q_auth_scheme = '''',
      q_auth_key = '''', q_basic_user = '''', q_basic_pass = '''', q_timeout = 0, q_follow = None,
      q_max_redirects = 0, q_redirect_handlers = [], q_result = False, q_result_error = False,
      q_unwrapper = None, q_checker = None, q_save = False, q_save_name = '''', q_save_dir = ''''\<rparr>"

abbreviation header_content_type :: string where "header_content_type \<equiv> ''Content-Type''"
abbreviation content_type_json :: string where "content_type_json \<equiv> ''application/json''"
abbreviation content_type_form :: string where "content_type_form \<equiv> ''application/x-www-form-urlencoded''"
abbreviation content_type_plain :: string where "content_type_plain \<equiv> ''text/plain''"

section \<open>Setters\<close>

definition q_set_url :: "string \<Rightarrow> 'd client_request \<Rightarrow> 'd client_request" where
  "q_set_url u r = r\<lparr>q_url := trim_space u\<rparr>"

definition q_set_method :: "string \<Rightarrow> 'd client_request \<Rightarrow> 'd client_request" where
  "q_set_method m r = (if m = '''' then r else r\<lparr>q_method := map upper_char m\<rparr>)"

definition q_set_header :: "string \<Rightarrow> string \<Rightarrow> 'd client_request \<Rightarrow> 'd client_request" where
  "q_set_header k v r = r\<lparr>q_header := header_set k v (q_header r)\<rparr>"

definition q_add_header :: "string \<Rightarrow> string \<Rightarrow> 'd client_request \<Rightarrow> 'd client_request" where
  "q_add_header k v r = r\<lparr>q_header := header_add k v (q_header r)\<rparr>"

definition q_set_headers :: "(string, string) gomap \<Rightarrow> 'd client_request \<Rightarrow> 'd client_request" where
  "q_set_headers kvs r = fold (\<lambda>(k, v). q_set_header k v) kvs r"

definition q_set_header_values :: "http_header \<Rightarrow> 'd client_request \<Rightarrow> 'd client_request" where
  "q_set_header_values h r = r\<lparr>q_header := fold (\<lambda>(k, vs). go_put k vs) h (q_header r)\<rparr>"

definition q_set_user_agent :: "string \<Rightarrow> 'd client_request \<Rightarrow> 'd client_request" where
  "q_set_user_agent = q_set_header ''User-Agent''"

definition q_set_accept :: "string \<Rightarrow> 'd client_request \<Rightarrow> 'd client_request" where
  "q_set_accept = q_set_header ''Accept''"

definition q_set_content_type :: "string \<Rightarrow> 'd client_request \<Rightarrow> 'd client_request" where
  "q_set_content_type = q_set_header header_content_type"

definition q_add_query :: "string \<Rightarrow> string \<Rightarrow> 'd client_request \<Rightarrow> 'd client_request" where
  "q_add_query k v r = r\<lparr>q_query := values_set k v (q_query r)\<rparr>"

definition q_add_queries :: "(string, string) gomap \<Rightarrow> 'd client_request \<Rightarrow> 'd client_request" where
  "q_add_queries kvs r = r\<lparr>q_query := fold (\<lambda>(k, v). values_set k v) kvs (q_query r)\<rparr>"

definition q_add_query_values :: "url_values \<Rightarrow> 'd client_request \<Rightarrow> 'd client_request" where
  "q_add_query_values m r = r\<lparr>q_query := add_all (all_values m) (q_query r)\<rparr>"

definition q_add_form :: "(string, string) gomap \<Rightarrow> 'd client_request \<Rightarrow> 'd client_request" where
  "q_add_form kvs r = r\<lparr>q_form := fold (\<lambda>(k, v). values_set k v) kvs (q_form r)\<rparr>"

definition q_add_form_values :: "url_values \<Rightarrow> 'd client_request \<Rightarrow> 'd client_request" where
  "q_add_form_values m r = r\<lparr>q_form := add_all (all_values m) (q_form r)\<rparr>"

definition q_set_body :: "'d http_body \<Rightarrow> 'd client_request \<Rightarrow> 'd client_request" where
  "q_set_body b r = r\<lparr>q_body := b, q_body_bytes := None\<rparr>"

definition q_set_json_body :: "'d http_body \<Rightarrow> 'd client_request \<Rightarrow> 'd client_request" where
  "q_set_json_body b r = q_set_body b (q_set_content_type content_type_json r)"

definition q_set_xml_body :: "'d http_body \<Rightarrow> 'd client_request \<Rightarrow> 'd client_request" where
  "q_set_xml_body b r = q_set_body b (q_set_content_type ''application/xml'' r)"

definition q_set_plain_body :: "string \<Rightarrow> 'd client_request \<Rightarrow> 'd client_request" where
  "q_set_plain_body s r =
     q_set_body (StringBody s) (q_set_content_type (content_type_plain @ ''; charset=utf-8'') r)"

text \<open>\<open>append([]byte(nil), xs...)\<close> is nil when there is nothing to append.\<close>

definition copy_bytes :: "string \<Rightarrow> string option" where
  "copy_bytes s = (if s = '''' then None else Some s)"

definition q_set_bytes_body :: "string \<Rightarrow> 'd client_request \<Rightarrow> 'd client_request" where
  "q_set_bytes_body s r = r\<lparr>q_body := BytesBody s, q_body_bytes := copy_bytes s\<rparr>"

definition q_set_reader_body :: "nat + string \<Rightarrow> 'd client_request \<Rightarrow> 'd client_request" where
  "q_set_reader_body x r = r\<lparr>q_body := ReaderBody x, q_body_bytes := None\<rparr>"

definition q_add_cookies :: "string option list \<Rightarrow> 'd client_request \<Rightarrow> 'd client_request" where
  "q_add_cookies cs r = r\<lparr>q_cookies := q_cookies r @ List.map_filter id cs\<rparr>"

definition q_set_path_param :: "string \<Rightarrow> string \<Rightarrow> 'd client_request \<Rightarrow> 'd client_request" where
  "q_set_path_param k v r = r\<lparr>q_path_params := go_put k v (q_path_params r)\<rparr>"

definition q_set_basic_auth :: "string \<Rightarrow> string \<Rightarrow> 'd client_request \<Rightarrow> 'd client_request" where
  "q_set_basic_auth u p r = r\<lparr>q_basic_user := u, q_basic_pass := p\<rparr>"

definition q_set_auth_token :: "string \<Rightarrow> 'd client_request \<Rightarrow> 'd client_request" where
  "q_set_auth_token t r = r\<lparr>q_auth_token := t\<rparr>"

definition q_set_bearer_token :: "string \<Rightarrow> 'd client_request \<Rightarrow> 'd client_request" where
  "q_set_bearer_token t r = r\<lparr>q_auth_scheme := ''Bearer'', q_auth_token := t\<rparr>"

definition q_set_auth_scheme :: "string \<Rightarrow> 'd client_request \<Rightarrow> 'd client_request" where
  "q_set_auth_scheme s r = r\<lparr>q_auth_scheme := (if trim_space s = '''' then ''Bearer'' else s)\<rparr>"

definition q_set_auth_key :: "string \<Rightarrow> 'd client_request \<Rightarrow> 'd client_request" where
  "q_set_auth_key k r = r\<lparr>q_auth_key := (if trim_space k = '''' then ''Authorization'' else k)\<rparr>"

definition q_set_timeout :: "64 word \<Rightarrow> 'd client_request \<Rightarrow> 'd client_request" where
  "q_set_timeout t r = r\<lparr>q_timeout := t\<rparr>"

definition q_set_follow_redirects :: "bool \<Rightarrow> 'd client_request \<Rightarrow> 'd client_request" where
  "q_set_follow_redirects b r = r\<lparr>q_follow := Some b\<rparr>"

definition q_set_max_redirects :: "int \<Rightarrow> 'd client_request \<Rightarrow> 'd client_request" where
  "q_set_max_redirects n r = r\<lparr>q_max_redirects := n\<rparr>"

definition q_add_redirect_handler :: "(http_response \<Rightarrow> bool) option \<Rightarrow> 'd client_request \<Rightarrow> 'd client_request" where
  "q_add_redirect_handler h r =
     (case h of None \<Rightarrow> r | Some f \<Rightarrow> r\<lparr>q_redirect_handlers := q_redirect_handlers r @ [f]\<rparr>)"

definition q_use_cache_key :: "string \<Rightarrow> 64 word \<Rightarrow> 'd client_request \<Rightarrow> 'd client_request" where
  "q_use_cache_key k ttl r = r\<lparr>q_use_cache := True, q_cache_key := k, q_cache_ttl := ttl\<rparr>"

definition q_disable_cache :: "'d client_request \<Rightarrow> 'd client_request" where
  "q_disable_cache r = r\<lparr>q_use_cache := False, q_cache_key := '''', q_cache_ttl := 0\<rparr>"

text \<open>\<open>Clone\<close>: everything is copied but the bytes of an empty body, which become nil.\<close>

definition clone_request :: "'d client_request \<Rightarrow> 'd client_request" where
  "clone_request r =
     r\<lparr>q_body_bytes := (case q_body_bytes r of None \<Rightarrow> None | Some bs \<Rightarrow> copy_bytes bs)\<rparr>"

section \<open>Steps\<close>

type_synonym 'd request_step = "'d client_request \<Rightarrow> client_error option \<times> 'd client_request"

text \<open>\<open>Apply\<close>: nil steps are skipped, the first error stops.\<close>

fun apply_steps :: "'d request_step option list \<Rightarrow> 'd request_step" where
  "apply_steps [] r = (None, r)"
| "apply_steps (None # steps) r = apply_steps steps r"
| "apply_steps (Some step # steps) r =
     (case step r of (Some e, r) \<Rightarrow> (Some e, r) | (None, r) \<Rightarrow> apply_steps steps r)"

definition compose_steps :: "'d request_step option list \<Rightarrow> 'd request_step" where
  "compose_steps steps = (\<lambda>r. apply_steps steps r)"

definition setter_step :: "('d client_request \<Rightarrow> 'd client_request) \<Rightarrow> 'd request_step" where
  "setter_step f = (\<lambda>r. (None, f r))"

section \<open>Clients\<close>

text \<open>
  The retries a client makes; a condition and the backoff may be nil.  The backoff may panic:
  \<open>ExponentialBackoff\<close> asks \<open>math/rand\<close> for a number below half the delay.
\<close>

record retry_config =
  rc_max_retries :: int
  rc_conditions :: "(http_response option \<Rightarrow> client_error option \<Rightarrow> bool) option list"
  rc_backoff :: "(int \<Rightarrow> (client_error, 64 word) outcome) option"
  rc_max_time :: "64 word"

record redirect_config =
  rd_max :: int
  rd_follow :: bool
  rd_handlers :: "(http_response \<Rightarrow> bool) option list"

record 'd codec =
  encode_value :: "'d any_value \<Rightarrow> nat + string"
  decode_value :: "string \<Rightarrow> nat option"

record 'd http_client =
  c_base_url :: string
  c_header :: http_header
  c_query :: url_values
  c_form :: url_values
  c_path_params :: "(string, string) gomap"
  c_timeout :: "64 word"
  c_auth_token :: string
  c_auth_scheme :: string
  c_auth_key :: string
  c_basic_user :: string
  c_basic_pass :: string
  c_cookies :: "string list"
  c_result_error :: bool
  c_unwrapper :: "(http_response \<Rightarrow> client_error option) option"
  c_checker :: "(http_response \<Rightarrow> client_error option) option"
  c_save :: bool
  c_save_dir :: string
  c_codecs :: "'d codec codec_manager"
  c_retry :: "retry_config option"
  c_redirect :: "redirect_config option"
  c_request_mw :: "'d request_step option list"
  c_response_mw :: "(http_response \<Rightarrow> client_error option \<times> http_response) option list"

text \<open>\<open>Client.R\<close>: a request with the settings of its client.\<close>

definition client_r :: "'d http_client \<Rightarrow> 'd client_request" where
  "client_r c =
     new_client_request\<lparr>q_header := c_header c, q_query := c_query c, q_form := c_form c,
       q_timeout := c_timeout c, q_auth_token := c_auth_token c, q_auth_scheme := c_auth_scheme c,
       q_basic_user := c_basic_user c, q_basic_pass := c_basic_pass c, q_auth_key := c_auth_key c,
       q_result_error := c_result_error c, q_unwrapper := c_unwrapper c, q_checker := c_checker c,
       q_save_dir := c_save_dir c, q_save := c_save c, q_path_params := c_path_params c,
       q_cookies := c_cookies c\<rparr>"

text \<open>\<open>SubClient\<close>: a copy of the client with the settings the steps give to a request of it.\<close>

definition sub_client :: "'d request_step option list \<Rightarrow> 'd http_client \<Rightarrow> 'd http_client" where
  "sub_client steps c =
     (if length steps = 0 then c
      else
        (case apply_steps steps (client_r c) of
           (Some _, _) \<Rightarrow> c
         | (None, r) \<Rightarrow>
             c\<lparr>c_header := q_header r, c_query := q_query r, c_form := q_form r,
               c_path_params := q_path_params r, c_timeout := q_timeout r, c_auth_token := q_auth_token r,
               c_auth_scheme := q_auth_scheme r, c_basic_user := q_basic_user r,
               c_basic_pass := q_basic_pass r, c_auth_key := q_auth_key r,
               c_result_error := q_result_error r, c_unwrapper := q_unwrapper r, c_checker := q_checker r,
               c_save_dir := q_save_dir r, c_save := q_save r, c_cookies := q_cookies r\<rparr>))"

definition pipeline_request :: "'d http_client \<Rightarrow> 'd request_step option list \<Rightarrow> client_error + 'd client_request" where
  "pipeline_request c steps =
     (case apply_steps steps (client_r c) of (Some e, _) \<Rightarrow> Inl e | (None, r) \<Rightarrow> Inr r)"

record 'd endpoint =
  ep_client :: "'d http_client"
  ep_method :: string
  ep_url :: string
  ep_steps :: "'d request_step option list"

definition endpoint_request :: "'d endpoint \<Rightarrow> 'd request_step option list \<Rightarrow> client_error + 'd client_request" where
  "endpoint_request e extra =
     (let r = client_r (ep_client e);
          r = (if ep_method e \<noteq> '''' then q_set_method (ep_method e) r else r);
          r = (if ep_url e \<noteq> '''' then q_set_url (ep_url e) r else r)
      in case apply_steps (ep_steps e) r of
           (Some err, _) \<Rightarrow> Inl err
         | (None, r) \<Rightarrow> (case apply_steps extra r of (Some err, _) \<Rightarrow> Inl err | (None, r) \<Rightarrow> Inr r))"

section \<open>URLs\<close>

text \<open>What the code uses of \<open>net/url\<close>, on parsed URLs of any type.\<close>

record 'u url_lib =
  parse_url :: "string \<Rightarrow> 'u option"
  url_abs :: "'u \<Rightarrow> bool"
  url_resolve :: "'u \<Rightarrow> 'u \<Rightarrow> 'u"
  url_text :: "'u \<Rightarrow> string"
  url_query :: "'u \<Rightarrow> url_values"
  url_with_query :: "string \<Rightarrow> 'u \<Rightarrow> 'u"

definition construct_url :: "'u url_lib \<Rightarrow> string \<Rightarrow> string \<Rightarrow> client_error + string" where
  "construct_url lib base path =
     (case parse_url lib path of
        None \<Rightarrow> Inl ErrInvalidPath
      | Some p \<Rightarrow>
          if url_abs lib p then Inr (url_text lib p)
          else if base = '''' then Inl ErrBaseUrlEmpty
          else
            (case parse_url lib base of
               None \<Rightarrow> Inl ErrBaseUrlFormat
             | Some b \<Rightarrow>
                 (let merged = url_resolve lib b p in
                  if \<not> url_abs lib merged then Inl ErrUrlNotAbs else Inr (url_text lib merged))))"

definition replace_path_params :: "string \<Rightarrow> (string, string) gomap \<Rightarrow> string" where
  "replace_path_params path params =
     fold (\<lambda>(k, v) s. replace_all (''{'' @ k @ ''}'') (path_escape v) (replace_all ('':'' @ k) (path_escape v) s))
       params path"

text \<open>\<open>prepareURL\<close>: the URL to ask, and the request, which keeps the key for the cache.\<close>

definition prepare_url ::
  "'u url_lib \<Rightarrow> string \<Rightarrow> 'd client_request \<Rightarrow> client_error + string \<times> 'd client_request" where
  "prepare_url lib base r =
     (let path = (if go_len (q_path_params r) > 0 then replace_path_params (q_url r) (q_path_params r) else q_url r);
          keyed = (\<lambda>full. (full, if q_use_cache r \<and> q_cache_key r = '''' then r\<lparr>q_cache_key := full\<rparr> else r))
      in case construct_url lib base path of
           Inl e \<Rightarrow> Inl e
         | Inr full \<Rightarrow>
             if go_len (q_query r) > 0 then
               (case parse_url lib full of
                  None \<Rightarrow> Inl UrlError
                | Some u \<Rightarrow>
                    Inr (keyed (url_text lib (url_with_query lib
                      (encode_values (add_all (all_values (q_query r)) (url_query lib u))) u))))
             else Inr (keyed full))"

section \<open>Building\<close>

record http_request =
  h_method :: string
  h_url :: string
  h_header :: http_header
  h_body :: "string option"
  h_length :: nat

type_synonym multipart_writer = "string \<Rightarrow> multipart_field list \<Rightarrow> nat + string \<times> string"

text \<open>
  \<open>prepareBody\<close>: the body, nil or bytes, its content type, and the request, which keeps the bytes.
\<close>

definition encode_body ::
  "'d codec codec_manager \<Rightarrow> string \<Rightarrow> 'd any_value \<Rightarrow> client_error + string" where
  "encode_body m ct v =
     (case codec_for m ct of
        None \<Rightarrow> Inl (NoCodecFor ct)
      | Some cd \<Rightarrow> (case encode_value cd v of Inl e \<Rightarrow> Inl (EncodeError e) | Inr data \<Rightarrow> Inr data))"

definition body_bytes ::
  "'d codec codec_manager \<Rightarrow> string \<Rightarrow> 'd http_body \<Rightarrow> client_error + string option \<times> string" where
  "body_bytes m ct body =
     (let or_type = (\<lambda>t. if ct = '''' then t else ct) in
      case body of
        NoBody \<Rightarrow> Inr (None, '''')
      | BytesBody s \<Rightarrow> Inr (copy_bytes s, ct)
      | StringBody s \<Rightarrow> Inr (Some s, or_type (content_type_plain @ ''; charset=utf-8''))
      | ReaderBody x \<Rightarrow> (case x of Inl e \<Rightarrow> Inl (BodyReadError e) | Inr s \<Rightarrow> Inr (Some s, ct))
      | ValuesBody vs \<Rightarrow> Inr (Some (encode_values vs), or_type content_type_form)
      | MapBody kvs \<Rightarrow>
          if has_prefix (map lower_char ct) content_type_json then
            (case encode_body m ct (StringMap kvs) of Inl e \<Rightarrow> Inl e | Inr s \<Rightarrow> Inr (Some s, ct))
          else Inr (Some (encode_values (fold (\<lambda>(k, v). values_set k v) kvs [])), or_type content_type_form)
      | DataBody d \<Rightarrow>
          (case encode_body m (or_type content_type_json) (DataValue d) of
             Inl e \<Rightarrow> Inl e
           | Inr s \<Rightarrow> Inr (Some s, or_type content_type_json)))"

definition prepare_body ::
  "multipart_writer \<Rightarrow> 'd codec codec_manager \<Rightarrow> 'd client_request
     \<Rightarrow> client_error + string option \<times> string \<times> 'd client_request" where
  "prepare_body mw m r =
     (case q_body_bytes r of
        Some bs \<Rightarrow> Inr (Some bs, header_get (q_header r) header_content_type, r)
      | None \<Rightarrow>
          if length (q_multipart r) > 0 then
            (case mw (q_boundary r) (q_multipart r) of
               Inl e \<Rightarrow> Inl (MultipartError e)
             | Inr (bs, ct) \<Rightarrow> Inr (Some bs, ct, r\<lparr>q_body_bytes := copy_bytes bs\<rparr>))
          else if go_len (q_form r) > 0 \<and> q_body r = NoBody then
            (let data = encode_values (q_form r)
             in Inr (Some data, content_type_form, r\<lparr>q_body_bytes := Some data\<rparr>))
          else
            (case body_bytes m (header_get (q_header r) header_content_type) (q_body r) of
               Inl e \<Rightarrow> Inl e
             | Inr (bs, ct) \<Rightarrow> Inr (bs, ct, r\<lparr>q_body_bytes := bs\<rparr>)))"

definition add_cookie :: "string \<Rightarrow> http_header \<Rightarrow> http_header" where
  "add_cookie s h =
     (let c = header_get h ''Cookie''
      in header_set ''Cookie'' (if c \<noteq> '''' then c @ ''; '' @ s else s) h)"

definition auth_headers :: "'d client_request \<Rightarrow> http_header \<Rightarrow> http_header" where
  "auth_headers r h =
     (if q_basic_user r \<noteq> '''' \<or> q_basic_pass r \<noteq> ''''
      then header_set ''Authorization'' (''Basic '' @ base64 (q_basic_user r @ '':'' @ q_basic_pass r)) h
      else if q_auth_token r \<noteq> ''''
      then (let k = (if q_auth_key r = '''' then ''Authorization'' else q_auth_key r);
                s = trim_space (q_auth_scheme r);
                s = (if s = '''' then ''Bearer'' else s)
            in header_set k (s @ '' '' @ q_auth_token r) h)
      else h)"

definition default_ua :: string where
  "default_ua = ''gk/1.0''"

definition build_headers ::
  "'d http_client \<Rightarrow> 'd client_request \<Rightarrow> string option \<Rightarrow> string \<Rightarrow> http_header" where
  "build_headers c r body ct =
     (let h = fold (\<lambda>(k, vs). go_put k vs) (q_header r) (c_header c);
          h = (if ct \<noteq> '''' then header_set header_content_type ct h
               else if header_get h header_content_type = '''' \<and> body \<noteq> None
               then header_set header_content_type content_type_plain h else h);
          h = (if header_get h ''User-Agent'' = '''' then header_set ''User-Agent'' default_ua h else h)
      in auth_headers r (fold add_cookie (c_cookies c @ q_cookies r) h))"

definition valid_method :: "string \<Rightarrow> bool" where
  "valid_method m \<longleftrightarrow> m \<noteq> '''' \<and> list_all token_char m"

text \<open>The builder; the request has kept the bytes of its body also when an error follows.\<close>

definition build_request ::
  "'u url_lib \<Rightarrow> multipart_writer \<Rightarrow> 'd http_client \<Rightarrow> 'd client_request
     \<Rightarrow> (client_error + http_request) \<times> 'd client_request" where
  "build_request lib mw c r =
     (let m = (if q_method r = '''' then ''GET'' else q_method r) in
      case prepare_body mw (c_codecs c) r of
        Inl e \<Rightarrow> (Inl e, r)
      | Inr (body, ct, r) \<Rightarrow>
          if \<not> valid_method m then (Inl InvalidMethod, r)
          else if parse_url lib (q_url r) = None then (Inl UrlError, r)
          else
            (Inr \<lparr>h_method = m, h_url = q_url r, h_header = build_headers c r body ct, h_body = body,
                 h_length = (case q_body_bytes r of None \<Rightarrow> 0 | Some bs \<Rightarrow> length bs)\<rparr>, r))"

end
