(* ===== verification/HttpClient.thy ===== *)
theory HttpClient
  imports Complex_Main HttpRequest
begin

text \<open>
  \<open>ghttp/gclient\<close>, the execution of a request (\<open>client.go\<close>, \<open>response.go\<close>, \<open>retry.go\<close>): middleware,
  cache, attempts with retries and delays, and what is made of a response.  The executor is a
  parameter that answers each attempt; so are the clock, the file system and the JSON form of a
  cache entry.  The model keeps the list of the requests sent.
\<close>

section \<open>Responses\<close>

definition is_success :: "http_response \<Rightarrow> bool" where
  "is_success r \<longleftrightarrow> rs_status r \<ge> 200 \<and> rs_status r < 300"

definition is_failure :: "http_response \<Rightarrow> bool" where
  "is_failure r \<longleftrightarrow> rs_status r \<ge> 400"

definition is_ok :: "http_response \<Rightarrow> bool" where
  "is_ok r \<longleftrightarrow> is_success r \<and> rs_business r = None"

definition or_else :: "'a option \<Rightarrow> 'a option \<Rightarrow> 'a option" where
  "or_else a b = (case a of None \<Rightarrow> b | Some _ \<Rightarrow> a)"

text \<open>\<open>Decode\<close> into a target; without any codec \<open>encoding/json\<close> is used, here the argument.\<close>

definition decode_response :: "(string \<Rightarrow> nat option) \<Rightarrow> 'd codec codec_manager \<Rightarrow> http_response \<Rightarrow> client_error option" where
  "decode_response json m r =
     map_option DecodeError
       (case codec_for m (rs_content_type r) of None \<Rightarrow> json (rs_body r) | Some cd \<Rightarrow> decode_value cd (rs_body r))"

definition bind_result ::
  "(string \<Rightarrow> nat option) \<Rightarrow> 'd http_client \<Rightarrow> 'd client_request \<Rightarrow> http_response
     \<Rightarrow> client_error option \<times> http_response" where
  "bind_result json c q r =
     (let r = (case or_else (q_checker q) (c_checker c) of
                 None \<Rightarrow> r | Some f \<Rightarrow> r\<lparr>rs_business := f r\<rparr>)
      in if length (rs_body r) = 0 then (None, r)
         else if is_ok r \<and> q_result q then
           (case or_else (q_unwrapper q) (c_unwrapper c) of
              Some f \<Rightarrow> (f r, r)
            | None \<Rightarrow> (decode_response json (c_codecs c) r, r))
         else if \<not> is_ok r \<and> q_result_error q then (decode_response json (c_codecs c) r, r)
         else (None, r))"

text \<open>\<open>inferResponseFilename\<close>: the name a server proposes, or the end of the URL's path.\<close>

fun index_of :: "string \<Rightarrow> string \<Rightarrow> nat option" where
  "index_of sub [] = (if sub = [] then Some 0 else None)"
| "index_of sub (c # cs) =
     (if has_prefix (c # cs) sub then Some 0 else map_option Suc (index_of sub cs))"

definition trim_char :: "char \<Rightarrow> string \<Rightarrow> string" where
  "trim_char c s = rev (dropWhile (\<lambda>x. x = c) (rev (dropWhile (\<lambda>x. x = c) s)))"

definition infer_filename :: "(string \<Rightarrow> string option) \<Rightarrow> 'd client_request \<Rightarrow> http_response \<Rightarrow> string" where
  "infer_filename url_base q r =
     (let disposition = header_get (rs_header r) ''Content-Disposition'';
          proposed = (case index_of ''filename='' (map lower_char disposition) of
                        None \<Rightarrow> ''''
                      | Some i \<Rightarrow> trim_char (CHR 0x22) (trim_space (drop (i + length ''filename='') disposition)));
          from_url = (if q_url q \<noteq> '''' then url_base (q_url q) else None)
      in if proposed \<noteq> '''' then proposed
         else case from_url of
                Some base \<Rightarrow> if base \<noteq> '''' \<and> base \<noteq> ''.'' \<and> base \<noteq> ''/'' then base else ''response.body''
              | None \<Rightarrow> ''response.body'')"

text \<open>Where a response is saved, if it is.\<close>

definition save_target :: "(string \<Rightarrow> string option) \<Rightarrow> 'd client_request \<Rightarrow> http_response \<Rightarrow> string option" where
  "save_target url_base q r =
     (if \<not> q_save q then None
      else if trim_space (q_save_name q) \<noteq> '''' then Some (q_save_name q)
      else
        (let target = infer_filename url_base q r; dir = trim_space (q_save_dir q)
         in Some (if dir \<noteq> '''' then path_join dir target else target)))"

section \<open>Surroundings\<close>

datatype exec_result = ExecFailed nat | NoResponse | Answer int http_header string "nat option"

text \<open>
  The executor's answer to attempt \<open>n\<close>; the time since the start when attempt \<open>n\<close> is over; whether
  the request's own context is done before the delay after attempt \<open>n\<close> has passed; writing a file;
  the base name of a URL's path; the JSON form of cache entries.
\<close>

record cache_entry =
  ce_status :: int
  ce_header :: http_header
  ce_body :: string

record surrounding =
  w_do :: "nat \<Rightarrow> http_request \<Rightarrow> exec_result"
  w_elapsed :: "nat \<Rightarrow> int"
  w_done :: "nat \<Rightarrow> bool"
  w_save :: "string \<Rightarrow> string \<Rightarrow> nat option"
  w_url_base :: "string \<Rightarrow> string option"
  w_json :: "string \<Rightarrow> nat option"
  w_encode_entry :: "cache_entry \<Rightarrow> string option"
  w_decode_entry :: "string \<Rightarrow> nat + cache_entry"

definition build_response ::
  "surrounding \<Rightarrow> 'd http_client \<Rightarrow> 'd client_request \<Rightarrow> exec_result
     \<Rightarrow> http_response option \<times> client_error option" where
  "build_response w c q res =
     (case res of
        Answer status h body err \<Rightarrow>
          (case err of
             Some e \<Rightarrow> (None, Some (ResponseReadError e))
           | None \<Rightarrow>
               (let r = \<lparr>rs_status = status, rs_header = h, rs_body = body,
                         rs_content_type = header_get h ''Content-Type'', rs_business = None\<rparr>;
                    (e, r) = bind_result (w_json w) c q r
                in case e of
                     Some e \<Rightarrow> (Some r, Some e)
                   | None \<Rightarrow>
                       (case save_target (w_url_base w) q r of
                          None \<Rightarrow> (Some r, None)
                        | Some path \<Rightarrow> (Some r, map_option SaveError (w_save w path (rs_body r))))))
      | _ \<Rightarrow> (None, Some NilResponse))"

section \<open>Retries\<close>

text \<open>\<open>ExponentialBackoff\<close>; \<open>jitter n\<close> is the random number below \<open>n\<close>, which must be positive.\<close>

definition exponential_backoff :: "(64 word \<Rightarrow> 64 word) \<Rightarrow> 64 word \<Rightarrow> int \<Rightarrow> (client_error, 64 word) outcome" where
  "exponential_backoff jitter base attempt =
     (let delay = base * push_bit (unat (word_of_int attempt :: 64 word)) 1 in
      if sint delay \<le> 1 then Panic
      else Ok (delay + jitter (word_of_int (sint delay div 2))))"

definition default_retry_condition :: "http_response option \<Rightarrow> client_error option \<Rightarrow> bool" where
  "default_retry_condition resp err =
     (if err \<noteq> None then True
      else (case resp of None \<Rightarrow> False | Some r \<Rightarrow> if rs_status r = 429 then True else rs_status r \<ge> 500))"

definition default_retry_config :: "(64 word \<Rightarrow> 64 word) \<Rightarrow> retry_config" where
  "default_retry_config jitter =
     \<lparr>rc_max_retries = 3, rc_conditions = [Some default_retry_condition],
      rc_backoff = Some (exponential_backoff jitter 500000000), rc_max_time = 5000000000\<rparr>"

definition client_should_retry ::
  "'d http_client \<Rightarrow> http_response option \<Rightarrow> client_error option \<Rightarrow> int \<Rightarrow> int \<Rightarrow> bool" where
  "client_should_retry c resp err attempt elapsed =
     (case c_retry c of
        None \<Rightarrow> False
      | Some rc \<Rightarrow>
          \<not> rc_max_retries rc \<le> 0 \<and> \<not> attempt \<ge> rc_max_retries rc \<and>
          \<not> (sint (rc_max_time rc) > 0 \<and> elapsed \<ge> sint (rc_max_time rc)) \<and>
          list_ex (\<lambda>cond. case cond of None \<Rightarrow> False | Some f \<Rightarrow> f resp err) (rc_conditions rc))"

text \<open>
  \<open>retryDelay\<close>: whether to go on.  With a timeout the context it waits on is that of the attempt,
  which has been cancelled after the attempt: it is ready at once, a timer is not.
\<close>

definition client_retry_delay ::
  "surrounding \<Rightarrow> 'd http_client \<Rightarrow> 'd client_request \<Rightarrow> nat \<Rightarrow> (client_error, bool) outcome" where
  "client_retry_delay w c q attempt =
     (case c_retry c of
        None \<Rightarrow> Ok True
      | Some rc \<Rightarrow>
          (case rc_backoff rc of
             None \<Rightarrow> Ok True
           | Some f \<Rightarrow>
               mapO (\<lambda>delay. sint delay \<le> 0 \<or> \<not> (sint (q_timeout q) > 0 \<or> w_done w attempt))
                 (f (int attempt))))"

section \<open>Attempts\<close>

text \<open>What \<open>execute\<close> returns: a response or nil and an error or nil; or it panics.\<close>

datatype exec_outcome = Returns_with "http_response option" "client_error option" | Panics

text \<open>
  One attempt: it ends the loop with a result, ends it and goes on after it, or is to be repeated
  with the response and error so far.
\<close>

datatype attempt_outcome =
    Stop "http_response option" "client_error option"
  | Leave "http_response option"
  | Retry_after "http_response option" "client_error option"

definition judge_attempt ::
  "surrounding \<Rightarrow> 'd http_client \<Rightarrow> 'd client_request \<Rightarrow> http_response option \<Rightarrow> nat \<Rightarrow> exec_result
     \<Rightarrow> attempt_outcome" where
  "judge_attempt w c q resp attempt res =
     (case res of
        ExecFailed e \<Rightarrow>
          (let err = TransportError e in
           if \<not> client_should_retry c None (Some err) (int attempt) (w_elapsed w attempt) then Stop None (Some err)
           else Retry_after resp (Some err))
      | _ \<Rightarrow>
          (case build_response w c q res of
             (resp, Some err) \<Rightarrow>
               if \<not> client_should_retry c resp (Some err) (int attempt) (w_elapsed w attempt)
               then Stop resp (Some err) else Retry_after resp (Some err)
           | (resp, None) \<Rightarrow>
               if client_should_retry c resp None (int attempt) (w_elapsed w attempt)
               then Retry_after resp None else Leave resp))"

text \<open>The loop over the attempts, with the requests sent; it ends because attempts are counted.\<close>

function attempts ::
  "'u url_lib \<Rightarrow> multipart_writer \<Rightarrow> surrounding \<Rightarrow> 'd http_client \<Rightarrow> http_response option \<Rightarrow> nat
     \<Rightarrow> 'd client_request \<Rightarrow> http_request list
     \<Rightarrow> ((client_error, http_response option \<times> client_error option \<times> bool) outcome) \<times> 'd client_request \<times> http_request list" where
  "attempts lib mw w c resp attempt q sent =
     (case build_request lib mw c q of
        (Inl e, q) \<Rightarrow> (Ok (None, Some e, True), q, sent)
      | (Inr h, q) \<Rightarrow>
          (let sent = sent @ [h] in
           case judge_attempt w c q resp attempt (w_do w attempt h) of
             Stop resp err \<Rightarrow> (Ok (resp, err, True), q, sent)
           | Leave resp \<Rightarrow> (Ok (resp, None, False), q, sent)
           | Retry_after resp err \<Rightarrow>
               (case client_retry_delay w c q (Suc attempt) of
                  Ok True \<Rightarrow> attempts lib mw w c resp (Suc attempt) q sent
                | Ok False \<Rightarrow> (Ok (resp, err, err \<noteq> None), q, sent)
                | Err e \<Rightarrow> (Err e, q, sent)
                | Panic \<Rightarrow> (Panic, q, sent))))"
  by pat_completeness auto
termination
proof (relation "measure (\<lambda>(lib, mw, w, c, resp, attempt, q, sent).
          case c_retry c of None \<Rightarrow> 0 | Some rc \<Rightarrow> nat (rc_max_retries rc - int attempt))", goal_cases)
  case 1
  show ?case by simp
next
  case (2 lib mw w c resp attempt q sent b q' h sent' resp' err b')
  then have "judge_attempt w c q' resp attempt (w_do w attempt h) = Retry_after resp' err" by simp
  then have "\<exists>r e. client_should_retry c r e (int attempt) (w_elapsed w attempt)"
    by (auto simp: judge_attempt_def Let_def split: exec_result.splits prod.splits option.splits if_splits)
  then show ?case by (auto simp: client_should_retry_def split: option.splits)
qed

declare attempts.simps [simp del]

section \<open>Middleware and cache\<close>

text \<open>Both kinds of middleware are run in order until one fails; nil ones are skipped.\<close>

definition apply_request_middleware :: "'d http_client \<Rightarrow> 'd request_step" where
  "apply_request_middleware c q = apply_steps (c_request_mw c) q"

fun run_response_middleware ::
  "(http_response \<Rightarrow> client_error option \<times> http_response) option list \<Rightarrow> http_response
     \<Rightarrow> client_error option \<times> http_response" where
  "run_response_middleware [] r = (None, r)"
| "run_response_middleware (None # mws) r = run_response_middleware mws r"
| "run_response_middleware (Some f # mws) r =
     (case f r of (Some e, r) \<Rightarrow> (Some e, r) | (None, r) \<Rightarrow> run_response_middleware mws r)"

text \<open>The cache a client may have: any implementation of the two operations.\<close>

record 's response_cache =
  rc_get :: "string \<Rightarrow> 's \<Rightarrow> string option \<times> 's"
  rc_set :: "string \<Rightarrow> string \<Rightarrow> 64 word \<Rightarrow> 's \<Rightarrow> 's"

definition cacheable :: "'s response_cache option \<Rightarrow> 'd client_request \<Rightarrow> bool" where
  "cacheable cache q \<longleftrightarrow> cache \<noteq> None \<and> q_use_cache q \<and> map lower_char (q_method q) = ''get''"

definition cache_key :: "'d client_request \<Rightarrow> string" where
  "cache_key q = (if q_cache_key q = '''' then q_url q else q_cache_key q)"

definition decode_cache_entry :: "surrounding \<Rightarrow> string \<Rightarrow> client_error + http_response" where
  "decode_cache_entry w data =
     (case w_decode_entry w data of
        Inl e \<Rightarrow> Inl (CacheEntryError e)
      | Inr e \<Rightarrow>
          Inr \<lparr>rs_status = ce_status e, rs_header = ce_header e, rs_body = ce_body e,
               rs_content_type = header_get (ce_header e) ''Content-Type'', rs_business = None\<rparr>)"

definition try_cache_hit ::
  "surrounding \<Rightarrow> 's response_cache option \<Rightarrow> 's \<Rightarrow> 'd client_request
     \<Rightarrow> (client_error + http_response option) \<times> 's" where
  "try_cache_hit w cache s q =
     (if \<not> cacheable cache q then (Inr None, s)
      else
        (case rc_get (the cache) (cache_key q) s of
           (None, s) \<Rightarrow> (Inr None, s)
         | (Some data, s) \<Rightarrow>
             if length data = 0 then (Inr None, s)
             else (case decode_cache_entry w data of Inl e \<Rightarrow> (Inl e, s) | Inr r \<Rightarrow> (Inr (Some r), s))))"

definition store_cache ::
  "surrounding \<Rightarrow> 's response_cache option \<Rightarrow> 's \<Rightarrow> 'd client_request \<Rightarrow> http_response option \<Rightarrow> 's" where
  "store_cache w cache s q resp =
     (case resp of
        None \<Rightarrow> s
      | Some r \<Rightarrow>
          if \<not> cacheable cache q then s
          else
            (case w_encode_entry w \<lparr>ce_status = rs_status r, ce_header = rs_header r, ce_body = rs_body r\<rparr> of
               None \<Rightarrow> s
             | Some data \<Rightarrow> rc_set (the cache) (cache_key q) data (q_cache_ttl q) s))"

section \<open>Execution\<close>

text \<open>\<open>execute\<close>: the result, the cache, the request as it is left and the requests sent.\<close>

definition execute ::
  "'u url_lib \<Rightarrow> multipart_writer \<Rightarrow> surrounding \<Rightarrow> 'd http_client \<Rightarrow> 's response_cache option \<Rightarrow> 's
     \<Rightarrow> 'd client_request \<Rightarrow> exec_outcome \<times> 's \<times> 'd client_request \<times> http_request list" where
  "execute lib mw w c cache s q =
     (case prepare_url lib (c_base_url c) q of
        Inl e \<Rightarrow> (Returns_with None (Some e), s, q, [])
      | Inr (full, q) \<Rightarrow>
          (case apply_request_middleware c (q\<lparr>q_url := full\<rparr>) of
             (Some e, q) \<Rightarrow> (Returns_with None (Some e), s, q, [])
           | (None, q) \<Rightarrow>
               (case try_cache_hit w cache s q of
                  (Inl e, s) \<Rightarrow> (Returns_with None (Some e), s, q, [])
                | (Inr (Some r), s) \<Rightarrow> (Returns_with (Some r) None, s, q, [])
                | (Inr None, s) \<Rightarrow>
                    (case attempts lib mw w c None 0 q [] of
                       (Ok (resp, err, True), q, sent) \<Rightarrow> (Returns_with resp err, s, q, sent)
                     | (Ok (resp, _, False), q, sent) \<Rightarrow>
                         (let (e, resp) = (case resp of
                                 None \<Rightarrow> (None, None)
                               | Some r \<Rightarrow> map_prod id Some (run_response_middleware (c_response_mw c) r))
                          in case e of
                               Some err \<Rightarrow> (Returns_with resp (Some err), s, q, sent)
                             | None \<Rightarrow> (Returns_with resp None, store_cache w cache s q resp, q, sent))
                     | (_, q, sent) \<Rightarrow> (Panics, s, q, sent)))))"

text \<open>\<open>Request.Execute\<close> on a method and a URL.\<close>

definition execute_request ::
  "'u url_lib \<Rightarrow> multipart_writer \<Rightarrow> surrounding \<Rightarrow> 'd http_client \<Rightarrow> 's response_cache option \<Rightarrow> 's
     \<Rightarrow> string \<Rightarrow> string \<Rightarrow> 'd client_request \<Rightarrow> exec_outcome \<times> 's \<times> 'd client_request \<times> http_request list" where
  "execute_request lib mw w c cache s m u q = execute lib mw w c cache s (q_set_url u (q_set_method m q))"

section \<open>Redirects\<close>

text \<open>
  The policy of a request: not to follow, or to follow at most some redirects as long as the
  handlers agree, where a nil handler has no say.
\<close>

definition redirect_policy :: "'d http_client \<Rightarrow> 'd client_request \<Rightarrow> (int \<times> (http_response \<Rightarrow> bool) list) option" where
  "redirect_policy c q =
     (let (follow, limit, handlers) = (case c_redirect c of
             None \<Rightarrow> (True, 10, [])
           | Some rd \<Rightarrow> (rd_follow rd, if rd_max rd > 0 then rd_max rd else 10, List.map_filter id (rd_handlers rd)));
          follow = (case q_follow q of None \<Rightarrow> follow | Some b \<Rightarrow> b);
          limit = (if q_max_redirects q > 0 then q_max_redirects q else limit);
          handlers = handlers @ q_redirect_handlers q
      in if \<not> follow then None else Some (limit, handlers))"

text \<open>\<open>CheckRedirect\<close>: whether to follow the redirect of a response after \<open>via\<close> requests.\<close>

definition check_redirect :: "(int \<times> (http_response \<Rightarrow> bool) list) option \<Rightarrow> nat \<Rightarrow> http_response option \<Rightarrow> bool" where
  "check_redirect policy via resp =
     (case policy of
        None \<Rightarrow> False
      | Some (limit, handlers) \<Rightarrow>
          \<not> int via \<ge> limit \<and> (case resp of None \<Rightarrow> True | Some r \<Rightarrow> list_all (\<lambda>f. f r) handlers))"

section \<open>Envelopes\<close>

text \<open>The values JSON and the configuration of success codes use.\<close>

datatype go_value =
    GoFloat64 rat | GoFloat32 rat | GoInt int | GoInt8 int | GoInt16 int | GoInt32 int | GoInt64 int
  | GoUint int | GoUint8 int | GoUint16 int | GoUint32 int | GoUint64 int | GoString string | GoBool bool | GoNil

fun normalize_envelope_value :: "go_value \<Rightarrow> go_value" where
  "normalize_envelope_value (GoFloat64 q) =
     (if of_int \<lfloor>q\<rfloor> = q \<and> - (2 ^ 63) \<le> q \<and> q < 2 ^ 63 then GoInt64 \<lfloor>q\<rfloor> else GoFloat64 q)"
| "normalize_envelope_value (GoFloat32 q) =
     (if of_int \<lfloor>q\<rfloor> = q \<and> - (2 ^ 63) \<le> q \<and> q < 2 ^ 63 then GoInt64 \<lfloor>q\<rfloor> else GoFloat32 q)"
| "normalize_envelope_value (GoInt i) = GoInt64 i"
| "normalize_envelope_value (GoInt8 i) = GoInt64 i"
| "normalize_envelope_value (GoInt16 i) = GoInt64 i"
| "normalize_envelope_value (GoInt32 i) = GoInt64 i"
| "normalize_envelope_value (GoUint i) = GoUint64 i"
| "normalize_envelope_value (GoUint8 i) = GoUint64 i"
| "normalize_envelope_value (GoUint16 i) = GoUint64 i"
| "normalize_envelope_value (GoUint32 i) = GoUint64 i"
| "normalize_envelope_value v = v"

definition contains_envelope_value :: "go_value list \<Rightarrow> go_value \<Rightarrow> bool" where
  "contains_envelope_value codes v =
     list_ex (\<lambda>x. normalize_envelope_value x = normalize_envelope_value v) codes"

text \<open>An unsigned success code never equals a number of JSON, which is a float.\<close>

lemma unsigned_code_never_matches: "\<not> contains_envelope_value [GoUint i, GoUint32 j, GoUint64 k] (GoFloat64 q)"
  by (simp add: contains_envelope_value_def)

end
