(* ===== verification/HttpClientFacts.thy ===== *)
theory HttpClientFacts
  imports HttpClient
begin

text \<open>
  What the HTTP client promises: how many requests it sends and which result it returns, that every
  attempt carries the same body, how the settings of client and request combine, and what the cache
  answers; and where attempts differ, retries do not happen and file names are not confined.
\<close>

section \<open>Building the same request again\<close>

text \<open>Building a request changes nothing of it but the bytes of its body.\<close>

definition same_but_bytes :: "'d client_request \<Rightarrow> 'd client_request \<Rightarrow> bool" where
  "same_but_bytes q q' \<longleftrightarrow> (\<exists>bs. q' = q\<lparr>q_body_bytes := bs\<rparr>)"

lemma same_but_bytes_fields:
  assumes "same_but_bytes q q'"
  shows "q_url q' = q_url q" "q_method q' = q_method q" "q_header q' = q_header q" "q_timeout q' = q_timeout q"
    "q_use_cache q' = q_use_cache q" "q_cache_key q' = q_cache_key q" "q_cache_ttl q' = q_cache_ttl q"
    "q_checker q' = q_checker q" "q_unwrapper q' = q_unwrapper q" "q_result q' = q_result q"
    "q_result_error q' = q_result_error q" "q_save q' = q_save q" "q_save_name q' = q_save_name q"
    "q_save_dir q' = q_save_dir q" "q_cookies q' = q_cookies q" "q_basic_user q' = q_basic_user q"
    "q_basic_pass q' = q_basic_pass q" "q_auth_token q' = q_auth_token q" "q_auth_key q' = q_auth_key q"
    "q_auth_scheme q' = q_auth_scheme q"
  using assms by (auto simp: same_but_bytes_def)

lemma same_but_bytes_refl [simp]: "same_but_bytes q q"
  unfolding same_but_bytes_def by (intro exI[of _ "q_body_bytes q"]) simp

lemma same_but_bytes_upd [simp]: "same_but_bytes q (q\<lparr>q_body_bytes := bs\<rparr>)"
  by (auto simp: same_but_bytes_def)

lemma same_but_bytes_trans: "same_but_bytes q q1 \<Longrightarrow> same_but_bytes q1 q2 \<Longrightarrow> same_but_bytes q q2"
  by (auto simp: same_but_bytes_def)

lemma prepare_same: "prepare_body mw m q = Inr (body, ct, q') \<Longrightarrow> same_but_bytes q q'"
  by (auto simp: prepare_body_def Let_def split: option.splits if_splits sum.splits prod.splits)

text \<open>Preparing the body of the request that has been prepared gives the same bytes.\<close>

lemma body_bytes_None:
  assumes "body_bytes m ct b = Inr (None, ct')"
  shows "b = NoBody \<and> ct' = '''' \<or> b = BytesBody '''' \<and> ct' = ct"
  using assms by (cases b) (auto simp: body_bytes_def Let_def copy_bytes_def split: if_splits sum.splits)

lemma prepare_again:
  assumes "prepare_body mw m q = Inr (body, ct, q')"
  shows "\<exists>ct'. prepare_body mw m q' = Inr (body, ct', q') \<and>
    (q_body_bytes q' = body \<or> q' = q) \<and> (q_body_bytes q' \<noteq> None \<longrightarrow> ct' = header_get (q_header q) header_content_type) \<and>
    (q_body_bytes q' = None \<longrightarrow> ct' = ct \<and> q' = q)"
proof (cases "q_body_bytes q'")
  case None
  have "q' = q"
    using None assms
    by (cases q) (auto simp: prepare_body_def Let_def copy_bytes_def split: option.splits if_splits sum.splits prod.splits)
  then show ?thesis using assms None by auto
next
  case (Some bs)
  have "body = Some bs"
    using Some assms
    by (auto simp: prepare_body_def Let_def copy_bytes_def split: option.splits if_splits sum.splits prod.splits)
  moreover have "q_header q' = q_header q" by (rule same_but_bytes_fields(3)[OF prepare_same[OF assms]])
  ultimately show ?thesis using Some by (simp add: prepare_body_def)
qed

text \<open>Headers that agree but for the content type.\<close>

definition agree_but_type :: "http_header \<Rightarrow> http_header \<Rightarrow> bool" where
  "agree_but_type h h' \<longleftrightarrow> (\<forall>k. k \<noteq> header_content_type \<longrightarrow> go_get h k = go_get h' k)"

lemma agree_refl [simp]: "agree_but_type h h"
  by (simp add: agree_but_type_def)

lemma agree_trans: "agree_but_type a b \<Longrightarrow> agree_but_type b c \<Longrightarrow> agree_but_type a c"
  by (simp add: agree_but_type_def)

lemma agree_set: "agree_but_type h h' \<Longrightarrow> agree_but_type (header_set k v h) (header_set k v h')"
  by (simp add: agree_but_type_def header_set_def)

lemma canonical_type: "canonical_key header_content_type = header_content_type"
  by code_simp

lemma agree_set_type [simp]:
  "agree_but_type (header_set header_content_type v h) h' = agree_but_type h h'"
  "agree_but_type h (header_set header_content_type v h') = agree_but_type h h'"
  by (auto simp: agree_but_type_def header_set_def canonical_type)

lemma agree_get: "agree_but_type h h' \<Longrightarrow> canonical_key k \<noteq> header_content_type \<Longrightarrow> header_get h k = header_get h' k"
  by (simp add: agree_but_type_def header_get_def)

lemma agree_cookies: "agree_but_type h h' \<Longrightarrow> agree_but_type (fold add_cookie cs h) (fold add_cookie cs h')"
proof (induction cs arbitrary: h h')
  case (Cons c cs)
  have "canonical_key ''Cookie'' \<noteq> header_content_type" by code_simp
  from agree_get[OF Cons.prems this] Cons.prems agree_set have "agree_but_type (add_cookie c h) (add_cookie c h')"
    by (simp add: add_cookie_def Let_def)
  then show ?case using Cons.IH by simp
qed simp

lemma build_headers_agree:
  assumes "same_but_bytes q q'"
  shows "agree_but_type (build_headers c q body ct) (build_headers c q' body' ct')"
proof -
  note same = same_but_bytes_fields[OF assms]
  define typed where "typed h body ct = (if ct \<noteq> '''' then header_set header_content_type ct h
      else if header_get h header_content_type = '''' \<and> body \<noteq> None
      then header_set header_content_type content_type_plain h else h)" for h ct and body :: "string option"
  define agent where "agent h = (if header_get h ''User-Agent'' = '''' then header_set ''User-Agent'' default_ua h else h)" for h
  have "agree_but_type (typed h body ct) (typed h body' ct')" for h
    by (simp add: typed_def)
  moreover have "canonical_key ''User-Agent'' \<noteq> header_content_type" by code_simp
  ultimately have "agree_but_type (agent (typed h body ct)) (agent (typed h body' ct'))" for h
    using agree_get[of "typed h body ct" "typed h body' ct'" "''User-Agent''"] agree_set by (auto simp: agent_def)
  then have "agree_but_type (fold add_cookie cs (agent (typed h body ct))) (fold add_cookie cs (agent (typed h body' ct')))" for h cs
    by (rule agree_cookies)
  moreover have "agree_but_type (auth_headers q h) (auth_headers q' h')" if "agree_but_type h h'" for h h'
    using that agree_set by (auto simp: auth_headers_def same Let_def)
  moreover have "build_headers c r b t = auth_headers r (fold add_cookie (c_cookies c @ q_cookies r)
      (agent (typed (fold (\<lambda>(k, vs). go_put k vs) (q_header r) (c_header c)) b t)))" for r b t
    by (simp only: build_headers_def Let_def typed_def agent_def)
  ultimately show ?thesis
    by (simp add: same del: fold_append)
qed

text \<open>Two requests to send that differ at most in their content type.\<close>

definition same_request :: "http_request \<Rightarrow> http_request \<Rightarrow> bool" where
  "same_request h h' \<longleftrightarrow> h_method h' = h_method h \<and> h_url h' = h_url h \<and> h_body h' = h_body h \<and>
     h_length h' = h_length h \<and> agree_but_type (h_header h) (h_header h')"

lemma build_again:
  assumes "build_request lib mw c q = (Inr h, q1)"
  shows "\<exists>h'. build_request lib mw c q1 = (Inr h', q1) \<and> same_request h h'"
proof -
  obtain body ct where p: "prepare_body mw (c_codecs c) q = Inr (body, ct, q1)"
    using assms by (auto simp: build_request_def Let_def split: sum.splits prod.splits if_splits)
  obtain ct' where again: "prepare_body mw (c_codecs c) q1 = Inr (body, ct', q1)"
    using prepare_again[OF p] by blast
  have same: "same_but_bytes q q1" by (rule prepare_same[OF p])
  show ?thesis
    using assms p again same_but_bytes_fields[OF same] build_headers_agree[of q1 q1 c body ct body ct']
    by (auto simp: build_request_def Let_def same_request_def split: if_splits)
qed

lemma build_request_same: "build_request lib mw c q = (x, q') \<Longrightarrow> same_but_bytes q q'"
  using prepare_same by (fastforce simp: build_request_def Let_def split: sum.splits prod.splits if_splits)

definition max_retries :: "'d http_client \<Rightarrow> nat" where
  "max_retries c = (case c_retry c of None \<Rightarrow> 0 | Some rc \<Rightarrow> nat (rc_max_retries rc))"

lemma retry_within:
  assumes "judge_attempt w c q resp attempt res = Retry_after resp' err"
  shows "attempt < max_retries c"
  using assms
  by (auto simp: judge_attempt_def client_should_retry_def max_retries_def Let_def
      split: exec_result.splits prod.splits option.splits if_splits)

text \<open>An attempt whose request was built ends the loop or leads to the next one.\<close>

lemma attempt_ends_or_repeats:
  assumes "build_request lib mw c q = (Inr h, q1)"
  shows "(\<exists>x. attempts lib mw w c resp attempt q sent = (x, q1, sent @ [h])) \<or>
    (\<exists>resp' err. judge_attempt w c q1 resp attempt (w_do w attempt h) = Retry_after resp' err \<and>
       client_retry_delay w c q1 (Suc attempt) = Ok True \<and>
       attempts lib mw w c resp attempt q sent = attempts lib mw w c resp' (Suc attempt) q1 (sent @ [h]))"
proof (cases "judge_attempt w c q1 resp attempt (w_do w attempt h)")
  case (Retry_after resp' err)
  then have eq: "attempts lib mw w c resp attempt q sent =
      (case client_retry_delay w c q1 (Suc attempt) of
         Ok True \<Rightarrow> attempts lib mw w c resp' (Suc attempt) q1 (sent @ [h])
       | Ok False \<Rightarrow> (Ok (resp', err, err \<noteq> None), q1, sent @ [h])
       | Err e \<Rightarrow> (Err e, q1, sent @ [h]) | Panic \<Rightarrow> (Panic, q1, sent @ [h]))"
    by (subst attempts.simps) (simp add: assms Let_def)
  show ?thesis unfolding eq using Retry_after by (simp split: outcome.split bool.split)
qed (subst attempts.simps, simp add: assms)+

text \<open>The requests sent after some attempt are few, and all like the first of them.\<close>

definition like_the_first :: "nat \<Rightarrow> http_request list \<Rightarrow> bool" where
  "like_the_first n hs \<longleftrightarrow> length hs \<le> Suc n \<and>
     (case hs of [] \<Rightarrow> True | h # hs \<Rightarrow> list_all (same_request h) hs)"

lemma attempts_sent_again:
  assumes "build_request lib mw c q = (Inr h, q)"
  shows "\<exists>hs. snd (snd (attempts lib mw w c resp attempt q sent)) = sent @ hs \<and>
    length hs \<le> Suc (max_retries c - attempt) \<and> hs \<noteq> [] \<and> list_all (\<lambda>h'. h' = h) hs"
proof (induction "max_retries c - attempt" arbitrary: attempt resp sent)
  case 0
  then obtain x where "attempts lib mw w c resp attempt q sent = (x, q, sent @ [h])"
    using attempt_ends_or_repeats[OF assms, of w resp attempt sent] retry_within by fastforce
  then show ?case by (intro exI[of _ "[h]"]) simp
next
  case (Suc n)
  then have IH: "\<exists>hs. snd (snd (attempts lib mw w c resp' (Suc attempt) q sent')) = sent' @ hs \<and>
      length hs \<le> Suc n \<and> hs \<noteq> [] \<and> list_all (\<lambda>h'. h' = h) hs" for resp' sent'
    using Suc(1)[of "Suc attempt" resp' sent'] by (metis diff_Suc diff_Suc_Suc nat.case(2))
  from attempt_ends_or_repeats[OF assms, of w resp attempt sent] show ?case
  proof (elim disjE exE conjE)
    fix x assume "attempts lib mw w c resp attempt q sent = (x, q, sent @ [h])"
    then show ?thesis by (intro exI[of _ "[h]"]) simp
  next
    fix resp' err
    assume "attempts lib mw w c resp attempt q sent = attempts lib mw w c resp' (Suc attempt) q (sent @ [h])"
    with IH[of resp' "sent @ [h]"] obtain hs where
      "snd (snd (attempts lib mw w c resp attempt q sent)) = (sent @ [h]) @ hs" "length hs \<le> Suc n"
      "list_all (\<lambda>h'. h' = h) hs" by auto
    then show ?thesis using Suc(2) by (intro exI[of _ "h # hs"]) simp
  qed
qed

lemma attempts_sent:
  "like_the_first (max_retries c) (snd (snd (attempts lib mw w c None 0 q [])))"
proof (cases "build_request lib mw c q")
  case (Pair x q1)
  show ?thesis
  proof (cases x)
    case (Inl e)
    then show ?thesis by (subst attempts.simps) (simp add: Pair like_the_first_def)
  next
    case (Inr h)
    with Pair have b: "build_request lib mw c q = (Inr h, q1)" by simp
    obtain h1 where again: "build_request lib mw c q1 = (Inr h1, q1)" and same: "same_request h h1"
      using build_again[OF b] by blast
    from attempt_ends_or_repeats[OF b, of w None 0 "[]"] show ?thesis
    proof (elim disjE exE conjE)
      fix x assume "attempts lib mw w c None 0 q [] = (x, q1, [] @ [h])"
      then show ?thesis by (simp add: like_the_first_def)
    next
      fix resp' err
      assume retry: "judge_attempt w c q1 None 0 (w_do w 0 h) = Retry_after resp' err"
        and eq: "attempts lib mw w c None 0 q [] = attempts lib mw w c resp' (Suc 0) q1 ([] @ [h])"
      from attempts_sent_again[OF again, of w resp' "Suc 0" "[] @ [h]"] obtain hs
        where "snd (snd (attempts lib mw w c None 0 q [])) = h # hs" "length hs \<le> Suc (max_retries c - 1)"
          "list_all (\<lambda>h'. h' = h1) hs" by (auto simp: eq)
      moreover have "0 < max_retries c" by (rule retry_within[OF retry])
      ultimately show ?thesis using same by (auto simp: like_the_first_def list_all_iff)
    qed
  qed
qed

text \<open>
  C2: however a server answers, one execution sends at most one request more than the retries the
  client is configured for, and every further attempt repeats the first one: the same method, URL,
  body and length, and the same headers but for the content type.
\<close>

theorem execute_repeats_one_request:
  "let hs = snd (snd (snd (execute lib mw w c cache s q)))
   in length hs \<le> Suc (max_retries c) \<and> list_all (same_request (List.hd hs)) (tl hs)"
proof -
  have first: "like_the_first (max_retries c) hs" if "attempts lib mw w c None 0 q [] = (x, q', hs)" for q x q' hs
    using attempts_sent[of c lib mw w q] that by simp
  have none: "like_the_first (max_retries c) []"
    by (simp add: like_the_first_def)
  have "like_the_first (max_retries c) (snd (snd (snd (execute lib mw w c cache s q))))"
    using none by (auto simp: execute_def Let_def dest!: first split: sum.split prod.split option.split outcome.split bool.split)
  then show ?thesis
    by (simp add: like_the_first_def Let_def split: list.splits)
qed

section \<open>What an execution returns\<close>











definition plain_parts :: multipart_writer where
  "plain_parts boundary parts = Inr (boundary, ''multipart/form-data'')"

definition retrying_client :: "unit http_client" where
  "retrying_client = \<lparr>c_base_url = '''', c_header = [(''X-App'', [''demo''])], c_query = [], c_form = [],
     c_path_params = [], c_timeout = 0, c_auth_token = '''', c_auth_scheme = '''', c_auth_key = '''',
     c_basic_user = '''', c_basic_pass = '''', c_cookies = [''sid=1''], c_result_error = False,
     c_unwrapper = None, c_checker = None, c_save = False, c_save_dir = '''', c_codecs = new_codec_manager,
     c_retry = Some \<lparr>rc_max_retries = 2, rc_conditions = [None, Some default_retry_condition],
       rc_backoff = Some (\<lambda>n. Ok 1000), rc_max_time = 0\<rparr>,
     c_redirect = None, c_request_mw = [], c_response_mw = []\<rparr>"



definition demo_request :: "unit client_request" where
  "demo_request = new_client_request\<lparr>q_url := ''http://h/''\<rparr>"




section \<open>Where retries do not happen\<close>

text \<open>
  With a timeout the delay before a retry waits on the context of the attempt that is over and has
  been cancelled: no request is ever sent again, unless the backoff gives no delay at all.
\<close>

lemma no_retry_with_timeout:
  assumes "c_retry c = Some rc" "rc_backoff rc = Some f" "\<And>n. \<exists>d. f n = Ok d \<and> 0 < sint d"
    and "0 < sint (q_timeout q)"
  shows "length (snd (snd (attempts lib mw w c resp n q []))) \<le> 1"
proof (cases "build_request lib mw c q")
  case (Pair x q1)
  show ?thesis
  proof (cases x)
    case (Inl e)
    then show ?thesis by (subst attempts.simps) (simp add: Pair)
  next
    case (Inr h)
    with Pair have b: "build_request lib mw c q = (Inr h, q1)" by simp
    have "q_timeout q1 = q_timeout q" by (rule same_but_bytes_fields(4)[OF build_request_same[OF b]])
    moreover obtain d where "f (int (Suc n)) = Ok d" "0 < sint d" using assms(3) by blast
    ultimately have "client_retry_delay w c q1 (Suc n) = Ok False"
      using assms by (simp add: client_retry_delay_def)
    then show ?thesis using attempt_ends_or_repeats[OF b, of w resp n "[]"] by auto
  qed
qed

text \<open>
  This is the default: \<open>NewClient\<close> sets a timeout of 30 seconds, and the first delay of the default
  retries is at least a second.
\<close>

lemma default_never_retries:
  assumes "c_retry c = Some (default_retry_config (\<lambda>n. 0))" "q_timeout q = 30000000000"
  shows "client_retry_delay w c q 1 = Ok False"
proof -
  have "exponential_backoff (\<lambda>n. 0) 500000000 1 = Ok 1000000000"
      "sint (1000000000 :: 64 word) = 1000000000" "sint (30000000000 :: 64 word) = 30000000000"
    by code_simp+
  with assms show ?thesis
    by (simp add: client_retry_delay_def default_retry_config_def)
qed

text \<open>A backoff without a base panics: there is no random number below zero.\<close>

lemma zero_backoff_panics: "exponential_backoff jitter 0 n = Panic"
  by (simp add: exponential_backoff_def)

section \<open>The cache\<close>





text \<open>The key does not tell requests with different credentials apart.\<close>

lemma cache_ignores_credentials:
  "cache_key (q_set_auth_token t q) = cache_key q" "cache_key (q_set_header k v q) = cache_key q"
  "cache_key (q_set_basic_auth u p q) = cache_key q"
  by (simp_all add: cache_key_def q_set_auth_token_def q_set_header_def q_set_basic_auth_def)










section \<open>How settings combine\<close>

lemma fold_put_other:
  "k \<notin> fst ` set kvs \<Longrightarrow> go_get (fold (\<lambda>(k, v). go_put k v) kvs m) k = go_get m k"
  by (induction kvs arbitrary: m) (auto simp: split_beta)

lemma go_get_Cons: "go_get ((k', v) # m) k = (if k = k' then Some v else go_get m k)"
  by (simp add: go_get_def)

lemma fold_put_get:
  "distinct (map fst kvs) \<Longrightarrow>
     go_get (fold (\<lambda>(k, v). go_put k v) kvs m) k = (case go_get kvs k of None \<Rightarrow> go_get m k | Some v \<Rightarrow> Some v)"
proof (induction kvs arbitrary: m)
  case (Cons kv kvs)
  obtain k' v' where kv: "kv = (k', v')" by fastforce
  show ?case
  proof (cases "k = k'")
    case True
    with Cons.prems kv have "k \<notin> fst ` set kvs" by auto
    from fold_put_other[OF this, of "go_put k' v' m"] show ?thesis using kv True by (simp add: go_get_Cons)
  next
    case False
    then show ?thesis using Cons kv by (simp add: go_get_Cons cong: option.case_cong)
  qed
qed (simp add: go_get_def)

lemma header_set_other: "canonical_key k \<noteq> k' \<Longrightarrow> go_get (header_set k v h) k' = go_get h k'"
  by (simp add: header_set_def)

lemma cookies_other: "k \<noteq> ''Cookie'' \<Longrightarrow> go_get (fold add_cookie cs h) k = go_get h k"
proof (induction cs arbitrary: h)
  case (Cons c cs)
  have "canonical_key ''Cookie'' = ''Cookie''" by code_simp
  then show ?case using Cons by (simp add: add_cookie_def header_set_other Let_def)
qed simp

text \<open>The header keys the builder writes itself.\<close>

definition builder_keys :: "'d client_request \<Rightarrow> string list" where
  "builder_keys q = [header_content_type, ''User-Agent'', ''Cookie'', ''Authorization'', canonical_key (q_auth_key q)]"

text \<open>
  A header of the request replaces the client's header of the same name, and the client's headers
  that the request does not have are sent as they are; only the content type, the agent, cookies and
  credentials are the builder's.
\<close>

theorem request_headers_first:
  assumes "distinct (map fst (q_header q))" "k \<notin> set (builder_keys q)"
  shows "go_get (build_headers c q body ct) k =
    (case go_get (q_header q) k of None \<Rightarrow> go_get (c_header c) k | Some vs \<Rightarrow> Some vs)"
proof -
  have canonical: "canonical_key ''User-Agent'' = ''User-Agent''" "canonical_key ''Authorization'' = ''Authorization''"
    by code_simp+
  have auth: "go_get (auth_headers q h) k = go_get h k" for h
    using assms(2) canonical by (auto simp: auth_headers_def builder_keys_def header_set_other Let_def)
  have keys: "header_content_type \<noteq> k" "''User-Agent'' \<noteq> k" "k \<noteq> ''Cookie''"
    using assms(2) by (auto simp: builder_keys_def)
  show ?thesis
    by (simp add: build_headers_def Let_def auth cookies_other[OF keys(3)] fold_put_get[OF assms(1)] keys
        header_set_other canonical canonical_type del: fold_append)
qed

lemma request_headers_first_witness:
  "go_get (build_headers retrying_client (demo_request\<lparr>q_header := [(''X-App'', [''other''])]\<rparr>) None '''') ''X-App''
     = Some [''other'']"
proof -
  have "canonical_key '''' = ''''" by code_simp
  then show ?thesis
    using request_headers_first[of "demo_request\<lparr>q_header := [(''X-App'', [''other''])]\<rparr>" "''X-App''" retrying_client None "''''"]
    by (simp add: builder_keys_def demo_request_def new_client_request_def go_get_Cons)
qed

text \<open>
  The cookies of a client are on its requests already when the builder adds them: each is sent
  twice.
\<close>

lemma client_cookies_twice:
  "go_get (build_headers retrying_client (client_r retrying_client) None '''') ''Cookie'' = Some [''sid=1; sid=1'']"
  by code_simp

text \<open>
  The first attempt of a string body says it is UTF-8, and a form says it is a form; a repeated
  attempt finds the bytes and no content type, and sends plain text.
\<close>

lemma retried_form_is_plain_text:
  defines "q \<equiv> demo_request\<lparr>q_form := [(''a'', [''1''])]\<rparr>"
  shows "case prepare_body plain_parts new_codec_manager q of
      Inr (body, ct, q') \<Rightarrow>
        go_get (build_headers retrying_client q body ct) header_content_type = Some [content_type_form] \<and>
        (case prepare_body plain_parts new_codec_manager q' of
           Inr (body', ct', q'') \<Rightarrow> body' = body \<and>
             go_get (build_headers retrying_client q'' body' ct') header_content_type = Some [content_type_plain]
         | Inl _ \<Rightarrow> False)
    | Inl _ \<Rightarrow> False"
  unfolding q_def by code_simp

text \<open>The name a server proposes is joined to the directory as it is: it may leave it.\<close>


lemma proposed_name_leaves_directory:
  assumes "q_save q" "q_save_name q = ''''" "q_save_dir q = ''tmp''"
    and "header_get (rs_header r) ''Content-Disposition'' = ''filename=../../rc''"
  shows "save_target url_base q r = Some ''../rc''"
proof -
  have "trim_space ''../../rc'' = ''../../rc''" "trim_space ''tmp'' = ''tmp''"
    by (rule trim_plain; simp add: plain_char_def)+
  moreover have "map lower_char ''filename=../../rc'' = ''filename=../../rc''"
    "index_of ''filename='' ''filename=../../rc'' = Some 0" "trim_char (CHR 0x22) ''../../rc'' = ''../../rc''"
    "path_join ''tmp'' ''../../rc'' = ''../rc''"
    by code_simp+
  moreover have "trim_space '''' = ''''" by simp
  moreover have "drop (length ''filename='') ''filename=../../rc'' = ''../../rc''" by simp
  ultimately show ?thesis
    using assms unfolding save_target_def infer_filename_def assms(4)
    by (simp del: list.map drop_Suc_Cons)
qed

end
