(* ===== verification/HttpSettings.thy ===== *)
theory HttpSettings
  imports HttpClientFacts
begin

text \<open>
  \<open>ghttp/gclient\<close>, configuration: the defaults of \<open>config.go\<close>, the making of clients and their
  options and setters (\<open>client.go\<close>, \<open>config_methods.go\<close>), the steps of \<open>steps.go\<close>, requests made from
  a \<open>net/http\<close> request, and multipart fields (\<open>multipart.go\<close>).  TLS settings, transports, proxies
  functions, loggers and tracers are passed to \<open>net/http\<close> or third parties and are left out.
\<close>

section \<open>Configuration\<close>

record con_config =
  cc_timeout :: "64 word"
  cc_read_timeout :: "64 word"
  cc_write_timeout :: "64 word"
  cc_keep_alive :: "64 word"
  cc_max_conns :: int
  cc_max_idle :: "64 word"

definition default_timeout :: "64 word" where
  "default_timeout = 30000000000"

abbreviation or_default_time :: "64 word \<Rightarrow> 64 word \<Rightarrow> 64 word" where
  "or_default_time d t \<equiv> (if sint t \<le> 0 then d else t)"

definition con_apply_defaults :: "con_config \<Rightarrow> con_config" where
  "con_apply_defaults cc =
     \<lparr>cc_timeout = or_default_time default_timeout (cc_timeout cc),
      cc_read_timeout = or_default_time default_timeout (cc_read_timeout cc),
      cc_write_timeout = or_default_time 30000000000 (cc_write_timeout cc),
      cc_keep_alive = or_default_time 30000000000 (cc_keep_alive cc),
      cc_max_conns = (if cc_max_conns cc \<le> 0 then 100 else cc_max_conns cc),
      cc_max_idle = or_default_time 90000000000 (cc_max_idle cc)\<rparr>"

text \<open>Pointers that may be nil are options; a proxy is its URL and whether it is switched off.\<close>

record client_config =
  cfg_timeout :: "64 word"
  cfg_con :: "con_config option"
  cfg_proxy :: "(string \<times> bool) option"
  cfg_redirect :: "redirect_config option"
  cfg_upload :: "(int \<times> bool) option"
  cfg_retry :: "retry_config option"
  cfg_dump :: "(bool \<times> bool) option"

definition zero_con_config :: con_config where
  "zero_con_config = \<lparr>cc_timeout = 0, cc_read_timeout = 0, cc_write_timeout = 0, cc_keep_alive = 0,
     cc_max_conns = 0, cc_max_idle = 0\<rparr>"

definition zero_config :: client_config where
  "zero_config = \<lparr>cfg_timeout = 0, cfg_con = None, cfg_proxy = None, cfg_redirect = None,
     cfg_upload = None, cfg_retry = None, cfg_dump = None\<rparr>"

abbreviation or_some :: "'a \<Rightarrow> 'a option \<Rightarrow> 'a option" where
  "or_some d x \<equiv> (case x of None \<Rightarrow> Some d | Some y \<Rightarrow> Some y)"

definition config_apply_defaults :: "(64 word \<Rightarrow> 64 word) \<Rightarrow> client_config \<Rightarrow> client_config" where
  "config_apply_defaults jitter c =
     \<lparr>cfg_timeout = or_default_time default_timeout (cfg_timeout c),
      cfg_con = Some (con_apply_defaults (case cfg_con c of None \<Rightarrow> zero_con_config | Some cc \<Rightarrow> cc)),
      cfg_proxy = or_some ('''', False) (cfg_proxy c),
      cfg_redirect = or_some \<lparr>rd_max = 10, rd_follow = True, rd_handlers = []\<rparr> (cfg_redirect c),
      cfg_upload = or_some (10 * 2 ^ 20, True) (cfg_upload c),
      cfg_retry = or_some (default_retry_config jitter) (cfg_retry c),
      cfg_dump = or_some (False, False) (cfg_dump c)\<rparr>"

definition default_client_config :: "(64 word \<Rightarrow> 64 word) \<Rightarrow> client_config" where
  "default_client_config jitter = config_apply_defaults jitter zero_config"

section \<open>Setters of clients\<close>

definition c_set_base_url :: "string \<Rightarrow> 'd http_client \<Rightarrow> 'd http_client" where
  "c_set_base_url u c = c\<lparr>c_base_url := u\<rparr>"

definition c_set_retry_config :: "(64 word \<Rightarrow> 64 word) \<Rightarrow> retry_config option \<Rightarrow> 'd http_client \<Rightarrow> 'd http_client" where
  "c_set_retry_config jitter cfg c =
     c\<lparr>c_retry := Some (case cfg of None \<Rightarrow> default_retry_config jitter | Some rc \<Rightarrow> rc)\<rparr>"

definition c_set_header :: "string \<Rightarrow> string \<Rightarrow> 'd http_client \<Rightarrow> 'd http_client" where
  "c_set_header k v c = c\<lparr>c_header := header_set k v (c_header c)\<rparr>"

definition c_set_headers :: "(string, string) gomap \<Rightarrow> 'd http_client \<Rightarrow> 'd http_client" where
  "c_set_headers kvs c = fold (\<lambda>(k, v). c_set_header k v) kvs c"

definition c_set_header_values :: "http_header \<Rightarrow> 'd http_client \<Rightarrow> 'd http_client" where
  "c_set_header_values h c = c\<lparr>c_header := fold (\<lambda>(k, vs). go_put k vs) h (c_header c)\<rparr>"

definition c_set_user_agent :: "string \<Rightarrow> 'd http_client \<Rightarrow> 'd http_client" where
  "c_set_user_agent = c_set_header ''User-Agent''"

definition c_set_accept :: "string \<Rightarrow> 'd http_client \<Rightarrow> 'd http_client" where
  "c_set_accept = c_set_header ''Accept''"

text \<open>The timeout of the requests; that of the \<open>net/http\<close> client is not part of the model.\<close>

definition c_set_timeout :: "64 word \<Rightarrow> 'd http_client \<Rightarrow> 'd http_client" where
  "c_set_timeout t c = c\<lparr>c_timeout := t\<rparr>"

definition c_add_cookie :: "string option \<Rightarrow> 'd http_client \<Rightarrow> 'd http_client" where
  "c_add_cookie ck c = (case ck of None \<Rightarrow> c | Some s \<Rightarrow> c\<lparr>c_cookies := c_cookies c @ [s]\<rparr>)"

definition c_set_cookies :: "string option list \<Rightarrow> 'd http_client \<Rightarrow> 'd http_client" where
  "c_set_cookies cks c = fold c_add_cookie cks c"

definition c_set_query_param :: "string \<Rightarrow> string \<Rightarrow> 'd http_client \<Rightarrow> 'd http_client" where
  "c_set_query_param k v c = c\<lparr>c_query := values_set k v (c_query c)\<rparr>"

definition c_set_query_params :: "(string, string) gomap \<Rightarrow> 'd http_client \<Rightarrow> 'd http_client" where
  "c_set_query_params kvs c = fold (\<lambda>(k, v). c_set_query_param k v) kvs c"

definition c_add_query_values :: "url_values \<Rightarrow> 'd http_client \<Rightarrow> 'd http_client" where
  "c_add_query_values vs c = c\<lparr>c_query := add_all (all_values vs) (c_query c)\<rparr>"

definition c_set_form_data :: "(string, string) gomap \<Rightarrow> 'd http_client \<Rightarrow> 'd http_client" where
  "c_set_form_data kvs c = c\<lparr>c_form := fold (\<lambda>(k, v). values_set k v) kvs (c_form c)\<rparr>"

definition c_set_form_values :: "url_values \<Rightarrow> 'd http_client \<Rightarrow> 'd http_client" where
  "c_set_form_values vs c = c\<lparr>c_form := add_all (all_values vs) (c_form c)\<rparr>"

definition c_set_path_param :: "string \<Rightarrow> string \<Rightarrow> 'd http_client \<Rightarrow> 'd http_client" where
  "c_set_path_param k v c = c\<lparr>c_path_params := go_put k v (c_path_params c)\<rparr>"

definition c_set_path_params :: "(string, string) gomap \<Rightarrow> 'd http_client \<Rightarrow> 'd http_client" where
  "c_set_path_params kvs c = fold (\<lambda>(k, v). c_set_path_param k v) kvs c"

definition c_set_basic_auth :: "string \<Rightarrow> string \<Rightarrow> 'd http_client \<Rightarrow> 'd http_client" where
  "c_set_basic_auth u p c = c\<lparr>c_basic_user := u, c_basic_pass := p\<rparr>"

definition c_set_auth_token :: "string \<Rightarrow> 'd http_client \<Rightarrow> 'd http_client" where
  "c_set_auth_token t c = c\<lparr>c_auth_token := t\<rparr>"

definition c_set_auth_scheme :: "string \<Rightarrow> 'd http_client \<Rightarrow> 'd http_client" where
  "c_set_auth_scheme s c = c\<lparr>c_auth_scheme := (if trim_space s = '''' then ''Bearer'' else s)\<rparr>"

definition c_set_auth_key :: "string \<Rightarrow> 'd http_client \<Rightarrow> 'd http_client" where
  "c_set_auth_key k c = c\<lparr>c_auth_key := (if trim_space k = '''' then ''Authorization'' else k)\<rparr>"

definition c_set_result_error :: "bool \<Rightarrow> 'd http_client \<Rightarrow> 'd http_client" where
  "c_set_result_error b c = c\<lparr>c_result_error := b\<rparr>"

definition c_set_save_directory :: "string \<Rightarrow> 'd http_client \<Rightarrow> 'd http_client" where
  "c_set_save_directory d c = c\<lparr>c_save_dir := d\<rparr>"

definition c_set_save_to_file :: "bool \<Rightarrow> 'd http_client \<Rightarrow> 'd http_client" where
  "c_set_save_to_file b c = c\<lparr>c_save := b\<rparr>"

definition c_register_codec :: "string \<Rightarrow> 'd codec option \<Rightarrow> 'd http_client \<Rightarrow> 'd http_client" where
  "c_register_codec ct cd c = c\<lparr>c_codecs := register_codec ct cd (c_codecs c)\<rparr>"

definition c_use_request :: "'d request_step option list \<Rightarrow> 'd http_client \<Rightarrow> 'd http_client" where
  "c_use_request mws c = c\<lparr>c_request_mw := c_request_mw c @ mws\<rparr>"

definition c_use_response ::
  "(http_response \<Rightarrow> client_error option \<times> http_response) option list \<Rightarrow> 'd http_client \<Rightarrow> 'd http_client" where
  "c_use_response mws c = c\<lparr>c_response_mw := c_response_mw c @ mws\<rparr>"

definition c_set_unwrapper :: "(http_response \<Rightarrow> client_error option) option \<Rightarrow> 'd http_client \<Rightarrow> 'd http_client" where
  "c_set_unwrapper f c = c\<lparr>c_unwrapper := f\<rparr>"

definition c_set_checker :: "(http_response \<Rightarrow> client_error option) option \<Rightarrow> 'd http_client \<Rightarrow> 'd http_client" where
  "c_set_checker f c = c\<lparr>c_checker := f\<rparr>"

text \<open>The setters of redirects make a policy that does not follow if there is none.\<close>

definition redirect_or_zero :: "'d http_client \<Rightarrow> redirect_config" where
  "redirect_or_zero c =
     (case c_redirect c of None \<Rightarrow> \<lparr>rd_max = 0, rd_follow = False, rd_handlers = []\<rparr> | Some rd \<Rightarrow> rd)"

definition c_set_follow_redirects :: "bool \<Rightarrow> 'd http_client \<Rightarrow> 'd http_client" where
  "c_set_follow_redirects b c = c\<lparr>c_redirect := Some ((redirect_or_zero c)\<lparr>rd_follow := b\<rparr>)\<rparr>"

definition c_set_max_redirects :: "int \<Rightarrow> 'd http_client \<Rightarrow> 'd http_client" where
  "c_set_max_redirects n c = c\<lparr>c_redirect := Some ((redirect_or_zero c)\<lparr>rd_max := n\<rparr>)\<rparr>"

definition c_add_redirect_handler :: "(http_response \<Rightarrow> bool) option \<Rightarrow> 'd http_client \<Rightarrow> 'd http_client" where
  "c_add_redirect_handler h c =
     (case h of
        None \<Rightarrow> c
      | Some f \<Rightarrow>
          (let rd = redirect_or_zero c
           in c\<lparr>c_redirect := Some (rd\<lparr>rd_handlers := rd_handlers rd @ [Some f]\<rparr>)\<rparr>))"

section \<open>Making clients\<close>

text \<open>A client while it is made: its settings, its configuration and its response cache, if any.\<close>

record 'd client_state =
  cl_settings :: "'d http_client"
  cl_config :: "client_config option"
  cl_executor :: bool
  cl_cached :: bool

type_synonym 'd client_option = "'d client_state \<Rightarrow> 'd client_state"

abbreviation on_settings :: "('d http_client \<Rightarrow> 'd http_client) \<Rightarrow> 'd client_option" where
  "on_settings f s \<equiv> s\<lparr>cl_settings := f (cl_settings s)\<rparr>"

definition with_config :: "client_config option \<Rightarrow> 'd client_option" where
  "with_config cfg s = (case cfg of None \<Rightarrow> s | Some c \<Rightarrow> s\<lparr>cl_config := Some c\<rparr>)"

definition with_executor :: "bool \<Rightarrow> 'd client_option" where
  "with_executor given s = (if given then s\<lparr>cl_executor := True\<rparr> else s)"

definition with_base_url :: "string \<Rightarrow> 'd client_option" where
  "with_base_url u = on_settings (\<lambda>c. c\<lparr>c_base_url := u\<rparr>)"

definition with_cache :: "bool \<Rightarrow> 'd client_option" where
  "with_cache given s = s\<lparr>cl_cached := given\<rparr>"

definition with_retry :: "retry_config option \<Rightarrow> 'd client_option" where
  "with_retry cfg = on_settings (\<lambda>c. case cfg of None \<Rightarrow> c | Some rc \<Rightarrow> c\<lparr>c_retry := Some rc\<rparr>)"

definition with_default_headers :: "http_header \<Rightarrow> 'd client_option" where
  "with_default_headers h = on_settings (\<lambda>c. c\<lparr>c_header := fold (\<lambda>(k, vs). go_put k vs) h (c_header c)\<rparr>)"

definition with_codec_manager :: "'d codec codec_manager option \<Rightarrow> 'd client_option" where
  "with_codec_manager m = on_settings (\<lambda>c. case m of None \<Rightarrow> c | Some cm \<Rightarrow> c\<lparr>c_codecs := cm\<rparr>)"

text \<open>
  \<open>init\<close>, as far as it is not about \<open>net/http\<close>: the redirects of the settings are those of the
  configuration, which requests and the \<open>net/http\<close> client read there.
\<close>

definition init_client :: "(64 word \<Rightarrow> 64 word) \<Rightarrow> 'd client_state \<Rightarrow> 'd client_state" where
  "init_client jitter s =
     (let cfg = config_apply_defaults jitter (case cl_config s of None \<Rightarrow> default_client_config jitter | Some c \<Rightarrow> c);
          retry = (if c_retry (cl_settings s) = None then cfg_retry cfg else c_retry (cl_settings s));
          retry = (if retry = None then Some (default_retry_config jitter) else retry)
      in s\<lparr>cl_config := Some cfg,
           cl_settings := (cl_settings s)\<lparr>c_retry := retry, c_redirect := cfg_redirect cfg\<rparr>,
           cl_executor := True\<rparr>)"

definition fresh_settings :: "(64 word \<Rightarrow> 64 word) \<Rightarrow> 'd codec codec_manager \<Rightarrow> 'd http_client" where
  "fresh_settings jitter codecs =
     \<lparr>c_base_url = '''', c_header = [], c_query = [], c_form = [], c_path_params = [],
      c_timeout = cfg_timeout (default_client_config jitter), c_auth_token = '''', c_auth_scheme = ''Bearer'',
      c_auth_key = ''Authorization'', c_basic_user = '''', c_basic_pass = '''', c_cookies = [],
      c_result_error = False, c_unwrapper = None, c_checker = None, c_save = False, c_save_dir = '''',
      c_codecs = codecs, c_retry = cfg_retry (default_client_config jitter), c_redirect = None,
      c_request_mw = [], c_response_mw = []\<rparr>"

definition make_client ::
  "(64 word \<Rightarrow> 64 word) \<Rightarrow> 'd codec codec_manager \<Rightarrow> 'd client_option option list \<Rightarrow> 'd client_state" where
  "make_client jitter codecs opts =
     init_client jitter
       (fold (\<lambda>opt s. case opt of None \<Rightarrow> s | Some f \<Rightarrow> f s) opts
         \<lparr>cl_settings = fresh_settings jitter codecs, cl_config = Some (default_client_config jitter),
          cl_executor = False, cl_cached = False\<rparr>)"

definition make_client_with_config ::
  "(64 word \<Rightarrow> 64 word) \<Rightarrow> 'd codec codec_manager \<Rightarrow> client_config option \<Rightarrow> 'd client_option option list
     \<Rightarrow> 'd client_state" where
  "make_client_with_config jitter codecs cfg opts = make_client jitter codecs (Some (with_config cfg) # opts)"

text \<open>
  The policy \<open>buildHTTPClient\<close> gives to the \<open>net/http\<close> client; without one (the outer \<open>None\<close>) that
  follows its own rules.
\<close>

definition build_redirect :: "redirect_config option \<Rightarrow> (int \<times> (http_response \<Rightarrow> bool) list) option option" where
  "build_redirect cfg =
     (case cfg of
        None \<Rightarrow> None
      | Some rd \<Rightarrow>
          if \<not> rd_follow rd then Some None
          else if rd_max rd > 0 \<or> length (rd_handlers rd) > 0
          then Some (Some (if rd_max rd \<le> 0 then 10 else rd_max rd, List.map_filter id (rd_handlers rd)))
          else None)"

text \<open>Whether a request needs a \<open>net/http\<close> client of its own, as far as redirects ask for it.\<close>

definition needs_override :: "'d client_request \<Rightarrow> bool" where
  "needs_override q \<longleftrightarrow> q_follow q \<noteq> None \<or> q_max_redirects q > 0 \<or> length (q_redirect_handlers q) > 0"

section \<open>Steps\<close>

definition with_header :: "string \<Rightarrow> string \<Rightarrow> 'd request_step" where
  "with_header k v = setter_step (q_set_header k v)"

definition with_headers :: "(string, string) gomap \<Rightarrow> 'd request_step" where
  "with_headers kvs = setter_step (q_set_headers kvs)"

definition with_query :: "string \<Rightarrow> string \<Rightarrow> 'd request_step" where
  "with_query k v = setter_step (q_add_query k v)"

definition with_query_values :: "url_values \<Rightarrow> 'd request_step" where
  "with_query_values vs = setter_step (q_add_query_values vs)"

definition with_path_param :: "string \<Rightarrow> string \<Rightarrow> 'd request_step" where
  "with_path_param k v = setter_step (q_set_path_param k v)"

definition with_json_body :: "'d http_body \<Rightarrow> 'd request_step" where
  "with_json_body b = setter_step (q_set_json_body b)"

definition q_set_result :: "bool \<Rightarrow> 'd client_request \<Rightarrow> 'd client_request" where
  "q_set_result b r = r\<lparr>q_result := b\<rparr>"

definition q_set_result_error :: "bool \<Rightarrow> 'd client_request \<Rightarrow> 'd client_request" where
  "q_set_result_error b r = r\<lparr>q_result_error := b\<rparr>"

definition with_result :: "bool \<Rightarrow> 'd request_step" where
  "with_result b = setter_step (q_set_result b)"

definition with_result_error :: "bool \<Rightarrow> 'd request_step" where
  "with_result_error b = setter_step (q_set_result_error b)"

definition with_bearer_token :: "string \<Rightarrow> 'd request_step" where
  "with_bearer_token t = setter_step (q_set_bearer_token t)"

definition with_basic_auth :: "string \<Rightarrow> string \<Rightarrow> 'd request_step" where
  "with_basic_auth u p = setter_step (q_set_basic_auth u p)"

definition with_request_timeout :: "64 word \<Rightarrow> 'd request_step" where
  "with_request_timeout t = setter_step (q_set_timeout t)"

definition with_method :: "string \<Rightarrow> 'd request_step" where
  "with_method m = setter_step (q_set_method m)"

definition with_url :: "string \<Rightarrow> 'd request_step" where
  "with_url u = setter_step (q_set_url u)"

definition with_cookie :: "string option \<Rightarrow> 'd request_step" where
  "with_cookie ck = setter_step (q_add_cookies [ck])"

section \<open>Requests from \<open>net/http\<close>\<close>

text \<open>A \<open>net/http\<close> request, with its URL split into what is before the query and the query.\<close>

record net_request =
  nr_method :: string
  nr_url :: "(string \<times> url_values) option"
  nr_header :: http_header
  nr_cookies :: "string list"
  nr_body :: string

definition from_http_request :: "net_request option \<Rightarrow> 'd client_request \<Rightarrow> 'd client_request" where
  "from_http_request req r =
     (case req of
        None \<Rightarrow> r
      | Some n \<Rightarrow>
          (let r = r\<lparr>q_method := nr_method n\<rparr>;
               r = (case nr_url n of None \<Rightarrow> r
                    | Some (u, vs) \<Rightarrow> r\<lparr>q_url := u, q_query := add_all (all_values vs) (q_query r)\<rparr>)
           in r\<lparr>q_header := fold (\<lambda>(k, vs). go_put k vs) (nr_header n) (q_header r),
                q_cookies := q_cookies r @ nr_cookies n\<rparr>))"

text \<open>\<open>BuildHTTPRequest\<close> prepares a clone.\<close>

definition build_http_request ::
  "'u url_lib \<Rightarrow> multipart_writer \<Rightarrow> 'd http_client \<Rightarrow> 'd client_request \<Rightarrow> client_error + http_request" where
  "build_http_request lib mw c r =
     (case prepare_url lib (c_base_url c) (clone_request r) of
        Inl e \<Rightarrow> Inl e
      | Inr (full, r) \<Rightarrow> fst (build_request lib mw c (r\<lparr>q_url := full\<rparr>)))"

definition client_do ::
  "'u url_lib \<Rightarrow> multipart_writer \<Rightarrow> surrounding \<Rightarrow> 'd http_client \<Rightarrow> 's response_cache option \<Rightarrow> 's
     \<Rightarrow> net_request \<Rightarrow> exec_outcome \<times> 's \<times> 'd client_request \<times> http_request list" where
  "client_do lib mw w c cache s n = execute lib mw w c cache s (from_http_request (Some n) (client_r c))"

section \<open>Parts of multipart bodies\<close>

definition q_set_multipart_field ::
  "string \<Rightarrow> string \<Rightarrow> string \<Rightarrow> (nat + string) option \<Rightarrow> 'd client_request \<Rightarrow> 'd client_request" where
  "q_set_multipart_field name file ct rd r =
     r\<lparr>q_multipart := q_multipart r @ [\<lparr>mf_name = name, mf_file_name = file, mf_content_type = ct,
       mf_reader = rd, mf_file_path = '''', mf_values = []\<rparr>]\<rparr>"

definition set_file_path :: "string \<Rightarrow> 'd client_request \<Rightarrow> 'd client_request" where
  "set_file_path p r =
     (if length (q_multipart r) = 0 then r
      else r\<lparr>q_multipart := butlast (q_multipart r) @ [(last (q_multipart r))\<lparr>mf_file_path := p\<rparr>]\<rparr>)"

text \<open>\<open>filepath.Base\<close> is the argument \<open>base\<close>.\<close>

definition q_set_file :: "(string \<Rightarrow> string) \<Rightarrow> string \<Rightarrow> string \<Rightarrow> 'd client_request \<Rightarrow> 'd client_request" where
  "q_set_file base name path r = set_file_path path (q_set_multipart_field name (base path) '''' None r)"

definition q_set_files :: "(string \<Rightarrow> string) \<Rightarrow> (string, string) gomap \<Rightarrow> 'd client_request \<Rightarrow> 'd client_request" where
  "q_set_files base fs r = fold (\<lambda>(name, path). q_set_file base name path) fs r"

definition q_set_multipart_data :: "(string, string) gomap \<Rightarrow> 'd client_request \<Rightarrow> 'd client_request" where
  "q_set_multipart_data kvs r =
     r\<lparr>q_multipart := q_multipart r @ map (\<lambda>(k, v). \<lparr>mf_name = k, mf_file_name = '''', mf_content_type = '''',
       mf_reader = None, mf_file_path = '''', mf_values = [v]\<rparr>) kvs\<rparr>"

definition q_set_multipart_fields :: "multipart_field option list \<Rightarrow> 'd client_request \<Rightarrow> 'd client_request" where
  "q_set_multipart_fields fs r = r\<lparr>q_multipart := q_multipart r @ List.map_filter id fs\<rparr>"

definition q_set_boundary :: "string \<Rightarrow> 'd client_request \<Rightarrow> 'd client_request" where
  "q_set_boundary b r = r\<lparr>q_boundary := b\<rparr>"

text \<open>\<open>resolveMultipartSource\<close>: the data, file name and content type of a part; \<open>open_file\<close> reads a file.\<close>

datatype part_error = MissingFile | OpenError nat | PartReadError nat

definition resolve_multipart_source ::
  "(string \<Rightarrow> nat + string) \<Rightarrow> (string \<Rightarrow> string) \<Rightarrow> multipart_field
     \<Rightarrow> part_error + (nat + string) \<times> string \<times> string" where
  "resolve_multipart_source open_file base f =
     (case mf_reader f of
        Some rd \<Rightarrow> Inr (rd, if mf_file_name f = '''' then mf_name f else mf_file_name f, mf_content_type f)
      | None \<Rightarrow>
          if mf_file_path f = '''' then Inl MissingFile
          else
            (case open_file (mf_file_path f) of
               Inl e \<Rightarrow> Inl (OpenError e)
             | Inr data \<Rightarrow>
                 Inr (Inr data, if mf_file_name f = '''' then base (mf_file_path f) else mf_file_name f,
                      mf_content_type f)))"

text \<open>\<open>writeMultipartField\<close>: the parts it writes, each with its header and data.\<close>

definition part_disposition :: "string \<Rightarrow> string \<Rightarrow> string" where
  "part_disposition name file =
     ''form-data; name='' @ [CHR 0x22] @ name @ [CHR 0x22] @ ''; filename='' @ [CHR 0x22] @ file @ [CHR 0x22]"

datatype body_part = FieldPart string string | FilePart string string string

definition write_multipart_field ::
  "(string \<Rightarrow> nat + string) \<Rightarrow> (string \<Rightarrow> string) \<Rightarrow> multipart_field \<Rightarrow> part_error option \<times> body_part list" where
  "write_multipart_field open_file base f =
     (if length (mf_values f) > 0 then (None, map (FieldPart (mf_name f)) (mf_values f))
      else
        (case resolve_multipart_source open_file base f of
           Inl e \<Rightarrow> (Some e, [])
         | Inr (rd, file, ct) \<Rightarrow>
             (let ct = (if ct = '''' then ''application/octet-stream'' else ct);
                  disposition = part_disposition (mf_name f) file
              in case rd of
                   Inr data \<Rightarrow> (None, [FilePart disposition ct data])
                 | Inl e \<Rightarrow> (Some (PartReadError e), [FilePart disposition ct '''']))))"

section \<open>Facts\<close>

definition con_ready :: "con_config \<Rightarrow> bool" where
  "con_ready cc \<longleftrightarrow> 0 < sint (cc_timeout cc) \<and> 0 < sint (cc_read_timeout cc) \<and> 0 < sint (cc_write_timeout cc) \<and>
     0 < sint (cc_keep_alive cc) \<and> 0 < cc_max_conns cc \<and> 0 < sint (cc_max_idle cc)"

definition config_ready :: "client_config \<Rightarrow> bool" where
  "config_ready c \<longleftrightarrow> 0 < sint (cfg_timeout c) \<and> (case cfg_con c of None \<Rightarrow> False | Some cc \<Rightarrow> con_ready cc) \<and>
     cfg_proxy c \<noteq> None \<and> cfg_redirect c \<noteq> None \<and> cfg_upload c \<noteq> None \<and> cfg_retry c \<noteq> None \<and> cfg_dump c \<noteq> None"

lemma default_times: "0 < sint default_timeout" "0 < sint (30000000000 :: 64 word)" "0 < sint (90000000000 :: 64 word)"
  by code_simp+

lemma con_defaults_ready: "con_ready (con_apply_defaults cc)"
  using default_times by (simp add: con_ready_def con_apply_defaults_def)

lemma or_some_given: "or_some d x \<noteq> None"
  by (cases x) simp_all

lemma defaults_ready: "config_ready (config_apply_defaults jitter c)"
  using default_times con_defaults_ready or_some_given
  unfolding config_ready_def config_apply_defaults_def by (simp add: or_some_given del: not_None_eq)

text \<open>A configuration that is complete is left alone, so defaults may be applied again.\<close>

lemma ready_kept: "config_ready c \<Longrightarrow> config_apply_defaults jitter c = c"
  by (cases c)
    (auto simp: config_ready_def config_apply_defaults_def con_ready_def con_apply_defaults_def split: option.splits)

lemma defaults_idempotent: "config_apply_defaults jitter (config_apply_defaults jitter c) = config_apply_defaults jitter c"
  by (rule ready_kept[OF defaults_ready])


text \<open>
  The retries and the timeout of a configuration that is passed to the constructor are not used: the
  defaults have been taken before the options are applied, and \<open>init\<close> only fills in what is missing.
\<close>

lemma configured_retries_ignored:
  "c_retry (cl_settings (make_client_with_config jitter codecs cfg [])) = Some (default_retry_config jitter)"
  "c_timeout (cl_settings (make_client_with_config jitter codecs cfg [])) = default_timeout"
proof -
  have "cfg_retry (default_client_config jitter) = Some (default_retry_config jitter)"
    "cfg_timeout (default_client_config jitter) = default_timeout"
    by (simp_all add: default_client_config_def config_apply_defaults_def zero_config_def)
  then show "c_retry (cl_settings (make_client_with_config jitter codecs cfg [])) = Some (default_retry_config jitter)"
    "c_timeout (cl_settings (make_client_with_config jitter codecs cfg [])) = default_timeout"
    by (simp_all add: make_client_with_config_def make_client_def init_client_def with_config_def
        fresh_settings_def Let_def split: option.split)
qed

text \<open>Without settings of its own a request is redirected by the rules of its client.\<close>

lemma redirects_agree:
  assumes "build_redirect (c_redirect c) = Some policy" "\<not> needs_override q"
  shows "redirect_policy c q = policy"
  using assms
  by (auto simp: build_redirect_def redirect_policy_def needs_override_def Let_def split: option.splits if_splits)

text \<open>The body of a \<open>net/http\<close> request is not sent, and its cookies are sent twice.\<close>

lemma body_not_sent: "client_do lib mw w c cache s (n\<lparr>nr_body := b\<rparr>) = client_do lib mw w c cache s n"
  by (simp add: client_do_def from_http_request_def)

lemma request_cookies_twice:
  defines "n \<equiv> \<lparr>nr_method = ''GET'', nr_url = None, nr_header = [(''Cookie'', [''a=1''])], nr_cookies = [''a=1''],
    nr_body = ''''\<rparr>"
  shows "go_get (build_headers (retrying_client\<lparr>c_cookies := []\<rparr>)
      (from_http_request (Some n) (client_r (retrying_client\<lparr>c_cookies := []\<rparr>))) None '''') ''Cookie''
    = Some [''a=1; a=1'']"
  unfolding n_def by code_simp

text \<open>Quotes in names are not escaped: a name can contain the file name of its part.\<close>

lemma disposition_ambiguous:
  defines "mid \<equiv> [CHR 0x22] @ ''; filename='' @ [CHR 0x22]"
  shows "part_disposition (n @ mid @ x) y = part_disposition n (x @ mid @ y)"
  by (simp add: part_disposition_def mid_def)

text \<open>One parameter whose name begins another's is put into its place: the result depends on the order.\<close>

lemma path_parameters_overlap:
  "replace_path_params ''/:ab'' [(''a'', ''1''), (''ab'', ''2'')] = ''/1b''"
  "replace_path_params ''/:ab'' [(''ab'', ''2''), (''a'', ''1'')] = ''/2''"
  by code_simp+

end
