(* ===== verification/ClientTransport.thy ===== *)
theory ClientTransport
  imports HttpSettings
begin

text \<open>
  \<open>ghttp/gclient\<close>, what clients share: configurations and clients of \<open>net/http\<close> live in a store, a
  client refers to them by address, and \<open>Clone\<close> copies the references.  Modelled are transports and
  proxies (config.go, config_methods.go), the clients built for \<open>net/http\<close> (client.go, transport.go),
  the flags for dumps (dump.go) and \<open>Clone\<close>.  \<open>url.Parse\<close> is an argument; a proxy function, a TLS
  configuration and an executor are of any type, what \<open>http.Transport\<close> does is its own.
\<close>

section \<open>Objects\<close>

text \<open>\<open>FromEnvironment\<close> is the rule of the default transport.\<close>

datatype 'f proxy_rule = FromEnvironment | NoProxyAtAll | FixedProxy string | ProxyFunction 'f

record ('f, 't, 'x) transport =
  tp_proxy :: "'f proxy_rule"
  tp_tls :: "'t option"
  tp_con :: con_config
  tp_dial :: "'x option"
  tp_dial_tls :: "'x option"

record 'f proxy_config =
  px_url :: string
  px_func :: "'f option"
  px_none :: bool

text \<open>A configuration; the custom functions for dialling are kept beside the numbers of \<open>ConConfig\<close>.\<close>

record ('f, 't, 'x) config_obj =
  ob_timeout :: "64 word"
  ob_con :: con_config
  ob_dial :: "'x option"
  ob_dial_tls :: "'x option"
  ob_proxy :: "'f proxy_config option"
  ob_tls :: "'t option"
  ob_redirect :: "redirect_config option"
  ob_dump :: "(bool \<times> bool) option"
  ob_transport :: "('f, 't, 'x) transport option"

type_synonym policy = "(int \<times> (http_response \<Rightarrow> bool) list) option option"

text \<open>A client of \<open>net/http\<close>; a transport that is not an \<open>http.Transport\<close> is \<open>Inr\<close>.\<close>

record ('f, 't, 'x, 'rt) http_obj =
  ho_timeout :: "64 word"
  ho_transport :: "('f, 't, 'x) transport + 'rt"
  ho_policy :: policy

datatype 'e executor_ref = OwnHttp nat | OtherExecutor 'e

record ('f, 't, 'x, 'rt) store =
  st_configs :: "nat \<Rightarrow> ('f, 't, 'x) config_obj"
  st_https :: "nat \<Rightarrow> ('f, 't, 'x, 'rt) http_obj"
  st_next :: nat

text \<open>A made client: \<open>init\<close> has given it a configuration, a client of \<open>net/http\<close> and an executor.\<close>

record ('d, 'e) client_obj =
  co_name :: string
  co_settings :: "'d http_client"
  co_config :: nat
  co_http :: nat
  co_executor :: "'e executor_ref"
  co_debug :: bool

section \<open>Building\<close>

definition build_transport :: "(string \<Rightarrow> string option) \<Rightarrow> ('f, 't, 'x) config_obj \<Rightarrow> ('f, 't, 'x) transport" where
  "build_transport parse_proxy c =
     \<lparr>tp_proxy =
        (case ob_proxy c of
           None \<Rightarrow> FromEnvironment
         | Some p \<Rightarrow>
             (if px_none p then NoProxyAtAll
              else (case px_func p of
                      Some f \<Rightarrow> ProxyFunction f
                    | None \<Rightarrow>
                        (if px_url p \<noteq> '''' then (case parse_proxy (px_url p) of Some u \<Rightarrow> FixedProxy u | None \<Rightarrow> FromEnvironment)
                         else FromEnvironment)))),
      tp_tls = ob_tls c, tp_con = ob_con c, tp_dial = ob_dial c, tp_dial_tls = ob_dial_tls c\<rparr>"

definition build_http :: "(string \<Rightarrow> string option) \<Rightarrow> ('f, 't, 'x) config_obj \<Rightarrow> ('f, 't, 'x, 'rt) http_obj" where
  "build_http parse_proxy c =
     \<lparr>ho_timeout = ob_timeout c,
      ho_transport = Inl (case ob_transport c of Some t \<Rightarrow> t | None \<Rightarrow> build_transport parse_proxy c),
      ho_policy = build_redirect (ob_redirect c)\<rparr>"

definition on_config ::
  "(('f, 't, 'x) config_obj \<Rightarrow> ('f, 't, 'x) config_obj) \<Rightarrow> ('d, 'e) client_obj \<Rightarrow> ('f, 't, 'x, 'rt) store \<Rightarrow> ('f, 't, 'x, 'rt) store" where
  "on_config f c s = s\<lparr>st_configs := (st_configs s)(co_config c := f (st_configs s (co_config c)))\<rparr>"

definition on_http ::
  "(('f, 't, 'x, 'rt) http_obj \<Rightarrow> ('f, 't, 'x, 'rt) http_obj) \<Rightarrow> ('d, 'e) client_obj \<Rightarrow> ('f, 't, 'x, 'rt) store \<Rightarrow> ('f, 't, 'x, 'rt) store" where
  "on_http f c s = s\<lparr>st_https := (st_https s)(co_http c := f (st_https s (co_http c)))\<rparr>"

definition refresh_transport ::
  "(string \<Rightarrow> string option) \<Rightarrow> ('d, 'e) client_obj \<Rightarrow> ('f, 't, 'x, 'rt) store \<Rightarrow> ('f, 't, 'x, 'rt) store" where
  "refresh_transport parse_proxy c s =
     (let cfg = st_configs s (co_config c);
          t = (case ob_transport cfg of Some t \<Rightarrow> t | None \<Rightarrow> build_transport parse_proxy cfg)
      in on_http (\<lambda>h. h\<lparr>ho_transport := Inl t\<rparr>) c (on_config (\<lambda>cfg. cfg\<lparr>ob_transport := Some t\<rparr>) c s))"

definition refresh_redirects ::
  "(string \<Rightarrow> string option) \<Rightarrow> ('d, 'e) client_obj \<Rightarrow> ('f, 't, 'x, 'rt) store \<Rightarrow> ('f, 't, 'x, 'rt) store" where
  "refresh_redirects parse_proxy c s =
     (let tmp = build_http parse_proxy (st_configs s (co_config c)) :: ('f, 't, 'x, 'rt) http_obj
      in on_http (\<lambda>h. h\<lparr>ho_policy := ho_policy tmp\<rparr>) c s)"

section \<open>Setters that write through the references\<close>

definition proxy_or_zero :: "('f, 't, 'x) config_obj \<Rightarrow> 'f proxy_config" where
  "proxy_or_zero c = (case ob_proxy c of None \<Rightarrow> \<lparr>px_url = '''', px_func = None, px_none = False\<rparr> | Some p \<Rightarrow> p)"

definition k_set_proxy ::
  "(string \<Rightarrow> string option) \<Rightarrow> string \<Rightarrow> ('d, 'e) client_obj \<Rightarrow> ('f, 't, 'x, 'rt) store \<Rightarrow> ('f, 't, 'x, 'rt) store" where
  "k_set_proxy parse_proxy u c s =
     refresh_transport parse_proxy c
       (on_config (\<lambda>cfg. cfg\<lparr>ob_proxy := Some ((proxy_or_zero cfg)\<lparr>px_none := False, px_func := None, px_url := u\<rparr>)\<rparr>) c s)"

definition k_set_proxy_func ::
  "(string \<Rightarrow> string option) \<Rightarrow> 'f option \<Rightarrow> ('d, 'e) client_obj \<Rightarrow> ('f, 't, 'x, 'rt) store \<Rightarrow> ('f, 't, 'x, 'rt) store" where
  "k_set_proxy_func parse_proxy f c s =
     refresh_transport parse_proxy c
       (on_config (\<lambda>cfg. cfg\<lparr>ob_proxy := Some ((proxy_or_zero cfg)\<lparr>px_none := False, px_url := '''', px_func := f\<rparr>)\<rparr>) c s)"

definition k_disable_proxy ::
  "(string \<Rightarrow> string option) \<Rightarrow> ('d, 'e) client_obj \<Rightarrow> ('f, 't, 'x, 'rt) store \<Rightarrow> ('f, 't, 'x, 'rt) store" where
  "k_disable_proxy parse_proxy c s =
     refresh_transport parse_proxy c
       (on_config (\<lambda>cfg. cfg\<lparr>ob_proxy := Some ((proxy_or_zero cfg)\<lparr>px_none := True, px_url := '''', px_func := None\<rparr>)\<rparr>) c s)"

definition k_set_tls ::
  "(string \<Rightarrow> string option) \<Rightarrow> 't option \<Rightarrow> ('d, 'e) client_obj \<Rightarrow> ('f, 't, 'x, 'rt) store \<Rightarrow> ('f, 't, 'x, 'rt) store" where
  "k_set_tls parse_proxy t c s = refresh_transport parse_proxy c (on_config (\<lambda>cfg. cfg\<lparr>ob_tls := t\<rparr>) c s)"

definition k_set_transport ::
  "(('f, 't, 'x) transport + 'rt) option \<Rightarrow> ('d, 'e) client_obj \<Rightarrow> ('f, 't, 'x, 'rt) store \<Rightarrow> ('f, 't, 'x, 'rt) store" where
  "k_set_transport tr c s =
     (case tr of
        None \<Rightarrow> s
      | Some t \<Rightarrow>
          (let s = on_http (\<lambda>h. h\<lparr>ho_transport := t\<rparr>) c s in
           case t of Inl x \<Rightarrow> on_config (\<lambda>cfg. cfg\<lparr>ob_transport := Some x\<rparr>) c s | Inr _ \<Rightarrow> s))"

definition k_transport :: "('d, 'e) client_obj \<Rightarrow> ('f, 't, 'x, 'rt) store \<Rightarrow> ('f, 't, 'x) transport + 'rt" where
  "k_transport c s = ho_transport (st_https s (co_http c))"

definition k_set_follow ::
  "(string \<Rightarrow> string option) \<Rightarrow> bool \<Rightarrow> ('d, 'e) client_obj \<Rightarrow> ('f, 't, 'x, 'rt) store \<Rightarrow> ('f, 't, 'x, 'rt) store" where
  "k_set_follow parse_proxy b c s =
     refresh_redirects parse_proxy c
       (on_config (\<lambda>cfg. cfg\<lparr>ob_redirect := Some (case ob_redirect cfg of
            None \<Rightarrow> \<lparr>rd_max = 0, rd_follow = b, rd_handlers = []\<rparr> | Some rd \<Rightarrow> rd\<lparr>rd_follow := b\<rparr>)\<rparr>) c s)"

definition k_set_max_redirects ::
  "(string \<Rightarrow> string option) \<Rightarrow> int \<Rightarrow> ('d, 'e) client_obj \<Rightarrow> ('f, 't, 'x, 'rt) store \<Rightarrow> ('f, 't, 'x, 'rt) store" where
  "k_set_max_redirects parse_proxy n c s =
     refresh_redirects parse_proxy c
       (on_config (\<lambda>cfg. cfg\<lparr>ob_redirect := Some (case ob_redirect cfg of
            None \<Rightarrow> \<lparr>rd_max = n, rd_follow = False, rd_handlers = []\<rparr> | Some rd \<Rightarrow> rd\<lparr>rd_max := n\<rparr>)\<rparr>) c s)"

text \<open>The flags for dumps: those given change.\<close>

definition set_dumps :: "bool option \<Rightarrow> bool option \<Rightarrow> ('f, 't, 'x) config_obj \<Rightarrow> ('f, 't, 'x) config_obj" where
  "set_dumps req resp cfg =
     (let (q, r) = (case ob_dump cfg of None \<Rightarrow> (False, False) | Some d \<Rightarrow> d)
      in cfg\<lparr>ob_dump := Some (case req of None \<Rightarrow> q | Some b \<Rightarrow> b, case resp of None \<Rightarrow> r | Some b \<Rightarrow> b)\<rparr>)"

definition k_set_debug ::
  "bool \<Rightarrow> ('d, 'e) client_obj \<Rightarrow> ('f, 't, 'x, 'rt) store \<Rightarrow> ('d, 'e) client_obj \<times> ('f, 't, 'x, 'rt) store" where
  "k_set_debug b c s = (c\<lparr>co_debug := b\<rparr>, on_config (set_dumps (Some b) (Some b)) c s)"

definition k_set_dump_request :: "bool \<Rightarrow> ('d, 'e) client_obj \<Rightarrow> ('f, 't, 'x, 'rt) store \<Rightarrow> ('f, 't, 'x, 'rt) store" where
  "k_set_dump_request b c s = on_config (set_dumps (Some b) None) c s"

definition k_set_dump_response :: "bool \<Rightarrow> ('d, 'e) client_obj \<Rightarrow> ('f, 't, 'x, 'rt) store \<Rightarrow> ('f, 't, 'x, 'rt) store" where
  "k_set_dump_response b c s = on_config (set_dumps None (Some b)) c s"

section \<open>Clones\<close>

text \<open>\<open>Clone\<close> copies the settings with their maps and cookies; the references are the same.\<close>

definition clone_client :: "('d, 'e) client_obj option \<Rightarrow> ('d, 'e) client_obj option" where
  "clone_client c =
     (case c of
        None \<Rightarrow> None
      | Some c \<Rightarrow>
          Some \<lparr>co_name = co_name c, co_settings = co_settings c, co_config = co_config c, co_http = co_http c,
                co_executor = co_executor c, co_debug = co_debug c\<rparr>)"

definition k_set_name :: "string \<Rightarrow> ('d, 'e) client_obj \<Rightarrow> ('d, 'e) client_obj" where
  "k_set_name n c = c\<lparr>co_name := n\<rparr>"

text \<open>The client built by \<open>init\<close> and \<open>NewClient\<close> at fresh addresses, when no executor is given.\<close>

definition k_new ::
  "(string \<Rightarrow> string option) \<Rightarrow> 'd http_client \<Rightarrow> ('f, 't, 'x) config_obj \<Rightarrow> ('f, 't, 'x, 'rt) store
     \<Rightarrow> ('d, 'e) client_obj \<times> ('f, 't, 'x, 'rt) store" where
  "k_new parse_proxy settings cfg s =
     (let a = st_next s in
      (\<lparr>co_name = '''', co_settings = settings, co_config = a, co_http = a, co_executor = OwnHttp a, co_debug = False\<rparr>,
       s\<lparr>st_configs := (st_configs s)(a := cfg), st_https := (st_https s)(a := build_http parse_proxy cfg), st_next := a + 1\<rparr>))"

section \<open>What executes a request\<close>

text \<open>What a request asks of its proxy: \<open>disableProxy\<close>, \<open>proxyFunc\<close>, \<open>proxyURL\<close>.\<close>

definition needs_own_client :: "'f proxy_config \<Rightarrow> 'd client_request \<Rightarrow> bool" where
  "needs_own_client p q \<longleftrightarrow> px_none p \<or> px_func p \<noteq> None \<or> trim_space (px_url p) \<noteq> '''' \<or> needs_override q"

definition request_http ::
  "(string \<Rightarrow> string option) \<Rightarrow> 'f proxy_config \<Rightarrow> 'd client_request \<Rightarrow> ('d, 'e) client_obj \<Rightarrow> ('f, 't, 'x, 'rt) store
     \<Rightarrow> ('f, 't, 'x, 'rt) http_obj" where
  "request_http parse_proxy p q c s =
     (let base = st_https s (co_http c);
          tr = (case ho_transport base of
                  Inr t \<Rightarrow> Inr t
                | Inl t \<Rightarrow> Inl
                    (if px_none p then t\<lparr>tp_proxy := NoProxyAtAll\<rparr>
                     else (case px_func p of
                             Some f \<Rightarrow> t\<lparr>tp_proxy := ProxyFunction f\<rparr>
                           | None \<Rightarrow>
                               (if trim_space (px_url p) \<noteq> '''' then
                                  (case parse_proxy (px_url p) of Some u \<Rightarrow> t\<lparr>tp_proxy := FixedProxy u\<rparr> | None \<Rightarrow> t)
                                else t))))
      in base\<lparr>ho_transport := tr,
              ho_policy := Some (redirect_policy ((co_settings c)\<lparr>c_redirect := ob_redirect (st_configs s (co_config c))\<rparr>) q)\<rparr>)"

datatype ('f, 't, 'x, 'rt, 'e) chosen = Shared "'e executor_ref" | Temporary "('f, 't, 'x, 'rt) http_obj"

definition effective_executor ::
  "(string \<Rightarrow> string option) \<Rightarrow> 'f proxy_config \<Rightarrow> 'd client_request \<Rightarrow> ('d, 'e) client_obj \<Rightarrow> ('f, 't, 'x, 'rt) store
     \<Rightarrow> ('f, 't, 'x, 'rt, 'e) chosen" where
  "effective_executor parse_proxy p q c s =
     (if \<not> needs_own_client p q then Shared (co_executor c)
      else (case co_executor c of
              OtherExecutor e \<Rightarrow> Shared (OtherExecutor e)
            | OwnHttp a \<Rightarrow> if a \<noteq> co_http c then Shared (OwnHttp a) else Temporary (request_http parse_proxy p q c s)))"

text \<open>The setters of a request replace one another.\<close>

definition q_set_proxy :: "string \<Rightarrow> 'f proxy_config" where
  "q_set_proxy u = \<lparr>px_url = u, px_func = None, px_none = False\<rparr>"

definition q_set_proxy_func :: "'f option \<Rightarrow> 'f proxy_config" where
  "q_set_proxy_func f = \<lparr>px_url = '''', px_func = f, px_none = False\<rparr>"

definition q_disable_proxy :: "'f proxy_config" where
  "q_disable_proxy = \<lparr>px_url = '''', px_func = None, px_none = True\<rparr>"

text \<open>\<open>RoundTrip\<close> makes a client a transport: a nil client is an error, no response is none.\<close>

datatype 'e trip_result = NilClientError | TripFailed 'e | NoTrip | Trip http_response

definition round_trip :: "bool \<Rightarrow> 'e option \<times> http_response option \<Rightarrow> 'e trip_result" where
  "round_trip nil_client outcome =
     (if nil_client then NilClientError
      else (case outcome of (Some e, _) \<Rightarrow> TripFailed e | (None, None) \<Rightarrow> NoTrip | (None, Some r) \<Rightarrow> Trip r))"

section \<open>Facts\<close>

lemma refresh_transport_simps:
  "ho_transport (st_https (refresh_transport parse_proxy c s) (co_http c)) =
     Inl (case ob_transport (st_configs s (co_config c)) of Some t \<Rightarrow> t | None \<Rightarrow> build_transport parse_proxy (st_configs s (co_config c)))"
  "ob_transport (st_configs (refresh_transport parse_proxy c s) (co_config c)) =
     Some (case ob_transport (st_configs s (co_config c)) of Some t \<Rightarrow> t | None \<Rightarrow> build_transport parse_proxy (st_configs s (co_config c)))"
  by (simp_all add: refresh_transport_def on_http_def on_config_def Let_def)

lemma on_config_same: "st_configs (on_config f c s) (co_config c) = f (st_configs s (co_config c))"
  by (simp add: on_config_def)

lemma on_config_http [simp]: "st_https (on_config f c s) = st_https s"
  by (simp add: on_config_def)

lemma on_http_config [simp]: "st_configs (on_http f c s) = st_configs s"
  by (simp add: on_http_def)

text \<open>The first setting of a proxy on a new client takes effect.\<close>

lemma first_proxy_taken:
  assumes "k_new parse_proxy settings cfg s = (c, s')" and "ob_transport cfg = None" and "u \<noteq> ''''" and "parse_proxy u = Some v"
  shows "\<exists>t. k_transport c (k_set_proxy parse_proxy u c s') = Inl t \<and> tp_proxy t = FixedProxy v \<and> tp_tls t = ob_tls cfg"
proof -
  have cfg: "st_configs s' (co_config c) = cfg" using assms(1) by (auto simp: k_new_def Let_def)
  show ?thesis
    using assms(2-4)
    by (simp add: k_set_proxy_def k_transport_def refresh_transport_simps on_config_same cfg build_transport_def)
qed

text \<open>Every later setting of a proxy or of TLS is ignored: the transport built first stays.\<close>

lemma later_settings_ignored:
  assumes "ob_transport (st_configs s (co_config c)) = Some t"
  shows "k_transport c (k_set_proxy parse_proxy u c s) = Inl t"
    and "k_transport c (k_set_proxy_func parse_proxy f c s) = Inl t"
    and "k_transport c (k_disable_proxy parse_proxy c s) = Inl t"
    and "k_transport c (k_set_tls parse_proxy tls c s) = Inl t"
  using assms
  by (simp_all add: k_set_proxy_def k_set_proxy_func_def k_disable_proxy_def k_set_tls_def k_transport_def
      refresh_transport_simps on_config_same)

lemma proxy_cannot_be_switched_off:
  assumes "k_new parse_proxy settings cfg s = (c, s')" and "ob_transport cfg = None" and "u \<noteq> ''''" and "parse_proxy u = Some v"
  shows "\<exists>t. k_transport c (k_disable_proxy parse_proxy c (k_set_proxy parse_proxy u c s')) = Inl t \<and> tp_proxy t = FixedProxy v"
proof -
  let ?s = "k_set_proxy parse_proxy u c s'"
  obtain t where t: "k_transport c ?s = Inl t" "tp_proxy t = FixedProxy v" using first_proxy_taken [OF assms] by blast
  have "ob_transport (st_configs ?s (co_config c)) = Some t"
    using t(1) by (simp add: k_set_proxy_def k_transport_def refresh_transport_simps)
  from later_settings_ignored(3) [OF this] t(2) show ?thesis by blast
qed

text \<open>What is set on a clone is set on the client it was made from.\<close>

lemma clone_shares_proxy:
  "clone_client (Some c) = Some d \<Longrightarrow> k_transport c (k_set_proxy parse_proxy u d s) = k_transport d (k_set_proxy parse_proxy u d s)"
  by (cases c) (auto simp: clone_client_def)

lemma clone_shares_redirects:
  "clone_client (Some c) = Some d \<Longrightarrow> ob_redirect (st_configs s (co_config c)) = None \<Longrightarrow>
     ho_policy (st_https (k_set_follow parse_proxy False d s) (co_http c)) = Some None"
  by (auto simp: clone_client_def k_set_follow_def refresh_redirects_def on_http_def on_config_same build_http_def
      build_redirect_def Let_def)

text \<open>A request that overrides its proxy or redirects leaves the client's own transport and policy alone,
  and is ignored when the executor is not a client of \<open>net/http\<close>.\<close>

lemma own_executor_ignores_overrides:
  "co_executor c = OtherExecutor e \<Longrightarrow> effective_executor parse_proxy p q c s = Shared (OtherExecutor e)"
  by (simp add: effective_executor_def)

lemma override_taken:
  assumes "co_executor c = OwnHttp (co_http c)" and "ho_transport (st_https s (co_http c)) = Inl t"
  shows "\<exists>h. effective_executor parse_proxy q_disable_proxy q c s = Temporary h \<and> ho_transport h = Inl (t\<lparr>tp_proxy := NoProxyAtAll\<rparr>)"
    and "parse_proxy u = Some v \<Longrightarrow> trim_space u \<noteq> '''' \<Longrightarrow>
      \<exists>h. effective_executor parse_proxy (q_set_proxy u) q c s = Temporary h \<and> ho_transport h = Inl (t\<lparr>tp_proxy := FixedProxy v\<rparr>)"
  using assms
  by (auto simp: effective_executor_def needs_own_client_def request_http_def q_disable_proxy_def q_set_proxy_def Let_def)

text \<open>Clients made one after the other share nothing: what is set on one leaves the other alone.\<close>

lemma writes_elsewhere [simp]:
  "co_http c \<noteq> co_http d \<Longrightarrow> st_https (on_http f c s) (co_http d) = st_https s (co_http d)"
  "co_config c \<noteq> co_config d \<Longrightarrow> st_configs (on_config g c s) (co_config d) = st_configs s (co_config d)"
  by (simp_all add: on_http_def on_config_def)

lemma made_clients_are_apart:
  fixes s s1 s2 :: "('f, 't, 'x, 'rt) store" and c d :: "('d, 'e) client_obj"
  assumes "k_new parse_proxy m cfg s = (c, s1)" and "k_new parse_proxy n cfg' s1 = (d, s2)"
  shows "co_http c \<noteq> co_http d" "co_config c \<noteq> co_config d"
  using assms by (auto simp: k_new_def Let_def)

lemma set_proxy_stays_apart:
  fixes s s1 s2 :: "('f, 't, 'x, 'rt) store" and c d :: "('d, 'e) client_obj"
  assumes "k_new parse_proxy m cfg s = (c, s1)" and "k_new parse_proxy n cfg' s1 = (d, s2)"
  shows "k_transport d (k_set_proxy parse_proxy u c s2) = k_transport d s2"
    and "k_transport d (k_set_transport t c s2) = k_transport d s2"
  using made_clients_are_apart [OF assms]
  by (simp_all add: k_transport_def k_set_proxy_def refresh_transport_def k_set_transport_def Let_def
      split: option.split sum.split)

end
