(* ===== verification/HttpDump.thy ===== *)
theory HttpDump
  imports ClientTransport Strconv
begin

text \<open>
  \<open>ghttp/gclient\<close>, the rest of responses and requests: the text of dumps (dump.go), the conversion of
  responses from and to those of \<open>net/http\<close> and their accessors (response.go), the formatting of
  arguments of any type (request.go), the calls that panic on an error, and the pool of buffers
  (buffer.go).  \<open>http.StatusText\<close> and the formatting of floats are arguments.
\<close>

section \<open>Dumps\<close>

text \<open>\<open>formatHeader\<close>: the keys sorted, the values those \<open>Values\<close> finds under the canonical key.\<close>

definition format_header :: "http_header \<Rightarrow> string" where
  "format_header h =
     concat (map (\<lambda>k. concat (map (\<lambda>v. k @ '': '' @ v @ ''\<newline>'')
         (case go_get h (canonical_key k) of None \<Rightarrow> [] | Some vs \<Rightarrow> vs)))
       (sort_key id (map fst h)))"

text \<open>A body to be dumped is read, and put back; a failing one yields some bytes before its error.\<close>

record dump_request =
  dr_method :: string
  dr_url :: string
  dr_proto :: string
  dr_header :: http_header
  dr_body :: "(string \<times> nat option) option"

definition dump_http_request :: "dump_request option \<Rightarrow> (nat + string) \<times> dump_request option" where
  "dump_http_request req =
     (case req of
        None \<Rightarrow> (Inr '''', None)
      | Some r \<Rightarrow>
          (case dr_body r of
             Some (s, Some e) \<Rightarrow> (Inl e, Some (r\<lparr>dr_body := Some ('''', Some e)\<rparr>))
           | body \<Rightarrow>
               (let bytes = (case body of None \<Rightarrow> '''' | Some (s, _) \<Rightarrow> s)
                in (Inr (dr_method r @ '' '' @ dr_url r @ '' '' @ dr_proto r @ ''\<newline>'' @ format_header (dr_header r) @
                         (if length bytes > 0 then ''\<newline>'' @ bytes else '''')), Some r))))"

record full_response =
  gr_code :: int
  gr_status :: string
  gr_proto :: string
  gr_header :: http_header
  gr_body :: string
  gr_content_type :: string
  gr_business :: "client_error option"

definition status_line :: "(int \<Rightarrow> string) \<Rightarrow> int \<Rightarrow> string" where
  "status_line status_text code = decimal code @ '' '' @ status_text code"

definition dump_http_response :: "(int \<Rightarrow> string) \<Rightarrow> full_response option \<Rightarrow> string" where
  "dump_http_response status_text resp =
     (case resp of
        None \<Rightarrow> ''''
      | Some r \<Rightarrow>
          (let status = trim_space (gr_status r);
               status = (if status = '''' \<and> gr_code r > 0 then status_line status_text (gr_code r) else status)
           in (if gr_proto r \<noteq> '''' then gr_proto r else ''HTTP/1.1'') @
              (if status \<noteq> '''' then '' '' @ status else '''') @ ''\<newline>'' @ format_header (gr_header r) @
              (if length (gr_body r) > 0 then ''\<newline>'' @ gr_body r else '''')))"

section \<open>Responses of \<open>net/http\<close>\<close>

record std_response =
  sx_code :: int
  sx_status :: string
  sx_proto :: string
  sx_header :: http_header
  sx_body :: string
  sx_length :: int

text \<open>
  A response together with the one of \<open>net/http\<close> it was made from.  \<open>full\<close> tells what reading the
  body gives.
\<close>

definition from_http_response ::
  "(std_response \<times> nat option) option \<Rightarrow> nat + (full_response \<times> std_response option) option" where
  "from_http_response resp =
     (case resp of
        None \<Rightarrow> Inr None
      | Some (h, Some e) \<Rightarrow> Inl e
      | Some (h, None) \<Rightarrow>
          Inr (Some (\<lparr>gr_code = sx_code h, gr_status = sx_status h, gr_proto = sx_proto h, gr_header = sx_header h,
                      gr_body = sx_body h, gr_content_type = header_get (sx_header h) ''Content-Type'', gr_business = None\<rparr>,
                     Some (h\<lparr>sx_length := int (length (sx_body h))\<rparr>))))"

definition to_http_response ::
  "(int \<Rightarrow> string) \<Rightarrow> (full_response \<times> std_response option) option \<Rightarrow> std_response option" where
  "to_http_response status_text resp =
     (case resp of
        None \<Rightarrow> None
      | Some (r, Some raw) \<Rightarrow>
          Some (raw\<lparr>sx_header := gr_header r, sx_body := gr_body r, sx_length := int (length (gr_body r))\<rparr>)
      | Some (r, None) \<Rightarrow>
          Some \<lparr>sx_code = gr_code r,
                sx_status = (if gr_status r = '''' \<and> gr_code r > 0 then status_line status_text (gr_code r) else gr_status r),
                sx_proto = gr_proto r, sx_header = gr_header r, sx_body = gr_body r, sx_length = int (length (gr_body r))\<rparr>)"

section \<open>Accessors, also of a nil response\<close>

definition response_bytes :: "full_response option \<Rightarrow> string" where
  "response_bytes r = (case r of None \<Rightarrow> '''' | Some r \<Rightarrow> gr_body r)"

definition response_len :: "full_response option \<Rightarrow> nat" where
  "response_len r = (case r of None \<Rightarrow> 0 | Some r \<Rightarrow> length (gr_body r))"

definition response_header :: "string \<Rightarrow> full_response option \<Rightarrow> string" where
  "response_header k r = (case r of None \<Rightarrow> '''' | Some r \<Rightarrow> header_get (gr_header r) k)"

definition response_status_text :: "(int \<Rightarrow> string) \<Rightarrow> full_response option \<Rightarrow> string" where
  "response_status_text status_text r =
     (case r of None \<Rightarrow> '''' | Some r \<Rightarrow> (let t = status_text (gr_code r) in if t \<noteq> '''' then t else gr_status r))"

datatype response_error = BusinessError client_error | HTTPError int string

definition response_ok :: "full_response option \<Rightarrow> response_error option" where
  "response_ok r =
     (case r of
        None \<Rightarrow> None
      | Some r \<Rightarrow>
          (case gr_business r of
             Some e \<Rightarrow> Some (BusinessError e)
           | None \<Rightarrow> if \<not> (gr_code r \<ge> 200 \<and> gr_code r < 300) then Some (HTTPError (gr_code r) (gr_status r)) else None))"

text \<open>The calls that begin with \<open>Must\<close> panic on an error.\<close>

definition must :: "'e + 'a \<Rightarrow> ('f, 'a) outcome" where
  "must r = (case r of Inl _ \<Rightarrow> Panic | Inr x \<Rightarrow> Ok x)"

definition must_ok :: "full_response option \<Rightarrow> ('f, full_response option) outcome" where
  "must_ok r = must (case response_ok r of Some e \<Rightarrow> Inl e | None \<Rightarrow> Inr r)"

definition must_dump :: "dump_request option \<Rightarrow> ('f, string) outcome" where
  "must_dump r = must (fst (dump_http_request r))"

section \<open>Arguments of any type\<close>

text \<open>
  A value with a method \<open>String\<close> is what it gives.  A time has one, and the text of RFC 3339; a
  duration has one too.
\<close>

datatype any_arg =
    NilArg | StringArg string | StringerArg string | BytesArg string | BoolArg bool | IntArg int | UintArg nat
  | FloatArg nat string | TimeArg string string | DurationArg string | OtherArg string

fun format_any :: "any_arg \<Rightarrow> string" where
  "format_any NilArg = ''''"
| "format_any (StringArg s) = s"
| "format_any (StringerArg s) = s"
| "format_any (TimeArg s rfc) = s"
| "format_any (DurationArg s) = s"
| "format_any (BytesArg s) = s"
| "format_any (BoolArg b) = (if b then ''true'' else ''false'')"
| "format_any (IntArg n) = decimal n"
| "format_any (UintArg n) = decimal (int n)"
| "format_any (FloatArg _ s) = s"
| "format_any (OtherArg s) = s"

definition q_set_header_any :: "string \<Rightarrow> any_arg \<Rightarrow> 'd client_request \<Rightarrow> 'd client_request" where
  "q_set_header_any k v = q_set_header k (format_any v)"

definition q_set_query_any :: "string \<Rightarrow> any_arg \<Rightarrow> 'd client_request \<Rightarrow> 'd client_request" where
  "q_set_query_any k v = q_add_query k (format_any v)"

definition q_set_path_param_any :: "string \<Rightarrow> any_arg \<Rightarrow> 'd client_request \<Rightarrow> 'd client_request" where
  "q_set_path_param_any k v = q_set_path_param k (format_any v)"

definition q_set_path_params :: "(string, string) gomap \<Rightarrow> 'd client_request \<Rightarrow> 'd client_request" where
  "q_set_path_params m = fold (\<lambda>(k, v). q_set_path_param k v) m"

definition q_set_query_string :: "(string \<Rightarrow> url_values option) \<Rightarrow> string \<Rightarrow> 'd client_request \<Rightarrow> 'd client_request" where
  "q_set_query_string parse_query s r =
     (case parse_query (trim_space s) of None \<Rightarrow> r | Some vs \<Rightarrow> q_add_query_values vs r)"

section \<open>The pool of buffers\<close>

text \<open>
  A buffer is its capacity.  A pool keeps those put back; which of them \<open>sync.Pool\<close> hands out, if
  any, is up to the runtime: \<open>pick\<close> gives the position.
\<close>

record buffer_pool =
  bp_size :: nat
  bp_buffers :: "nat list"
  bp_allocs :: nat
  bp_reuses :: nat

definition new_buffer_pools :: "nat list \<Rightarrow> buffer_pool list" where
  "new_buffer_pools sizes =
     map (\<lambda>n. \<lparr>bp_size = n, bp_buffers = [], bp_allocs = 0, bp_reuses = 0\<rparr>)
       (sort (if length sizes = 0 then [1024, 4096, 16384, 65536, 262144] else sizes))"

definition pool_get :: "(nat list \<Rightarrow> nat option) \<Rightarrow> buffer_pool \<Rightarrow> nat \<times> buffer_pool" where
  "pool_get pick p =
     (case pick (bp_buffers p) of
        Some i \<Rightarrow>
          (if i < length (bp_buffers p)
           then (bp_buffers p ! i, p\<lparr>bp_buffers := take i (bp_buffers p) @ drop (Suc i) (bp_buffers p), bp_reuses := bp_reuses p + 1\<rparr>)
           else (bp_size p, p\<lparr>bp_allocs := bp_allocs p + 1, bp_reuses := bp_reuses p + 1\<rparr>))
      | None \<Rightarrow> (bp_size p, p\<lparr>bp_allocs := bp_allocs p + 1, bp_reuses := bp_reuses p + 1\<rparr>))"

fun buffer_get :: "(nat list \<Rightarrow> nat option) \<Rightarrow> nat \<Rightarrow> buffer_pool list \<Rightarrow> nat \<times> buffer_pool list" where
  "buffer_get pick n [] = (n, [])"
| "buffer_get pick n (p # ps) =
     (if bp_size p \<ge> n then (case pool_get pick p of (b, p') \<Rightarrow> (b, p' # ps))
      else (case buffer_get pick n ps of (b, ps') \<Rightarrow> (b, p # ps')))"

fun buffer_put_in :: "nat \<Rightarrow> buffer_pool list \<Rightarrow> buffer_pool list" where
  "buffer_put_in b [] = []"
| "buffer_put_in b (p # ps) =
     (if bp_size p \<ge> b then p\<lparr>bp_buffers := b # bp_buffers p\<rparr> # ps else p # buffer_put_in b ps)"

definition buffer_put :: "nat option \<Rightarrow> buffer_pool list \<Rightarrow> buffer_pool list" where
  "buffer_put buf ps =
     (case buf of None \<Rightarrow> ps | Some b \<Rightarrow> if b > 1024 * 1024 then ps else buffer_put_in b ps)"

definition buffer_stats :: "buffer_pool list \<Rightarrow> (nat \<times> nat \<times> nat) list" where
  "buffer_stats = map (\<lambda>p. (bp_size p, bp_allocs p, bp_reuses p))"

section \<open>Facts\<close>

text \<open>A dump puts the body back.\<close>

lemma dump_keeps_request: "dump_http_request req = (Inr s, req') \<Longrightarrow> req' = req"
  by (auto simp: dump_http_request_def Let_def split: option.splits prod.splits)

text \<open>A response of \<open>net/http\<close> comes back, with the length of its body.\<close>

lemma response_comes_back:
  "from_http_response (Some (h, None)) = Inr r \<Longrightarrow> to_http_response st r = Some (h\<lparr>sx_length := int (length (sx_body h))\<rparr>)"
  by (auto simp: from_http_response_def to_http_response_def)

text \<open>And so does one made without: nothing is lost but the business error and the content type.\<close>

lemma response_made_comes_back:
  assumes "to_http_response st (Some (r, None)) = Some h" and "gr_status r \<noteq> '''' \<or> gr_code r \<le> 0"
  shows "\<exists>r' raw. from_http_response (Some (h, None)) = Inr (Some (r', raw)) \<and> gr_code r' = gr_code r \<and>
    gr_status r' = gr_status r \<and> gr_header r' = gr_header r \<and> gr_body r' = gr_body r"
  using assms by (auto simp: from_http_response_def to_http_response_def)

text \<open>The case for times is never reached, because a time has the method \<open>String\<close>.\<close>

lemma time_not_rfc3339: "format_any (TimeArg s rfc) = s"
  by simp

text \<open>Under a key that is not canonical a dump finds no value.\<close>

lemma odd_key_not_dumped: "format_header [(''x-id'', [''7''])] = ''''"
  by code_simp

text \<open>A pool hands out a buffer that is smaller than asked for.\<close>

lemma small_buffer_handed_out:
  "fst (buffer_get (\<lambda>bs. Some 0) 4000 (buffer_put (Some 1500) (new_buffer_pools []))) = 1500"
  by (simp add: new_buffer_pools_def buffer_put_def pool_get_def)

text \<open>A buffer just made counts as reused.\<close>

lemma allocation_counts_as_reuse:
  "buffer_stats (snd (buffer_get (\<lambda>bs. None) 10 (new_buffer_pools [64]))) = [(64, 1, 1)]"
  by (simp add: new_buffer_pools_def pool_get_def buffer_stats_def)

text \<open>No buffer of a pool is larger than the pool's size.\<close>

definition buffers_fit :: "buffer_pool list \<Rightarrow> bool" where
  "buffers_fit ps \<longleftrightarrow> list_all (\<lambda>p. list_all (\<lambda>b. b \<le> bp_size p) (bp_buffers p)) ps"

lemma new_buffers_fit: "buffers_fit (new_buffer_pools sizes)"
  by (simp add: buffers_fit_def new_buffer_pools_def list_all_iff)

lemma put_fits: "buffers_fit ps \<Longrightarrow> buffers_fit (buffer_put b ps)"
proof -
  have "buffers_fit ps \<Longrightarrow> buffers_fit (buffer_put_in b ps)" for b by (induction ps) (auto simp: buffers_fit_def)
  then show "buffers_fit ps \<Longrightarrow> buffers_fit (buffer_put b ps)" by (simp add: buffer_put_def split: option.split)
qed

lemma get_fits: "buffers_fit ps \<Longrightarrow> buffers_fit (snd (buffer_get pick n ps))"
proof (induction ps)
  case (Cons p ps)
  have "list_all (\<lambda>b. b \<le> bp_size (snd (pool_get pick p))) (bp_buffers (snd (pool_get pick p)))"
    using Cons.prems by (auto simp: pool_get_def buffers_fit_def list_all_iff dest: in_set_takeD in_set_dropD split: option.split)
  with Cons show ?case by (auto simp: buffers_fit_def split: prod.split)
qed simp

end
