(* ===== verification/Curl.thy ===== *)
theory Curl
  imports HttpSettings
begin

text \<open>
  \<open>ghttp/gclient/curl.go\<close>: a request as a command line of \<open>curl\<close>; and that a shell splits the
  command into the words that are meant.
\<close>

section \<open>The command\<close>

text \<open>The characters outside \<open>[^\w@%+=:,./-]\<close>.\<close>

definition bare_char :: "char \<Rightarrow> bool" where
  "bare_char c \<longleftrightarrow>
     (let n = of_char c :: nat in
      48 \<le> n \<and> n \<le> 57 \<or> 65 \<le> n \<and> n \<le> 90 \<or> 97 \<le> n \<and> n \<le> 122 \<or> c \<in> set ''_@%+=:,./-'')"

abbreviation quote_mark :: char where "quote_mark \<equiv> CHR 0x27"
abbreviation double_mark :: char where "double_mark \<equiv> CHR 0x22"

definition escaped_mark :: string where
  "escaped_mark = [quote_mark, double_mark, quote_mark, double_mark, quote_mark]"

definition cmd_quote :: "string \<Rightarrow> string" where
  "cmd_quote s =
     (if length s = 0 then [quote_mark, quote_mark]
      else if \<not> list_all bare_char s then [quote_mark] @ replace_all [quote_mark] escaped_mark s @ [quote_mark]
      else s)"

text \<open>Headers in the order of their keys; \<open>Values\<close> looks the canonical key up.\<close>

definition dump_curl_headers :: "http_header \<Rightarrow> (string \<times> string) list" where
  "dump_curl_headers h =
     concat (map (\<lambda>k. map (Pair k) (case go_get h (canonical_key k) of None \<Rightarrow> [] | Some vs \<Rightarrow> vs))
       (sort (map fst h)))"

text \<open>Cookies are the pairs \<open>net/http\<close> reads from the header.\<close>

fun join_text :: "string \<Rightarrow> string list \<Rightarrow> string" where
  "join_text sep [] = ''''"
| "join_text sep [s] = s"
| "join_text sep (s # t # ss) = s @ sep @ join_text sep (t # ss)"

definition dump_curl_cookies :: "(string \<times> string) list \<Rightarrow> string" where
  "dump_curl_cookies cks =
     (if length cks = 0 then ''''
      else ''Cookie: '' @ join_text ''; '' (map (\<lambda>(k, v). k @ ''='' @ query_escape v) cks))"

record curl_request =
  cr_method :: string
  cr_header :: http_header
  cr_cookies :: "(string \<times> string) list"
  cr_body :: "(nat + string) option"
  cr_url :: string

definition trim_newlines :: "string \<Rightarrow> string" where
  "trim_newlines s = rev (dropWhile (\<lambda>c. c = newline) (rev s))"

definition build_curl_cmd :: "curl_request option \<Rightarrow> nat + string" where
  "build_curl_cmd req =
     (case req of
        None \<Rightarrow> Inr ''curl''
      | Some r \<Rightarrow>
          (let cmd = ''curl -X '' @ cr_method r;
               cmd = cmd @ concat (map (\<lambda>(k, v). '' -H '' @ cmd_quote (k @ '': '' @ v)) (dump_curl_headers (cr_header r)));
               cmd = (if length (cr_cookies r) > 0 then cmd @ '' -H '' @ cmd_quote (dump_curl_cookies (cr_cookies r)) else cmd)
           in case cr_body r of
                Some (Inl e) \<Rightarrow> Inl e
              | Some (Inr body) \<Rightarrow>
                  Inr ((if length body > 0 then cmd @ '' -d '' @ cmd_quote (trim_newlines body) else cmd) @
                    '' '' @ cmd_quote (cr_url r))
              | None \<Rightarrow> Inr (cmd @ '' '' @ cmd_quote (cr_url r))))"

section \<open>Words of a shell\<close>

text \<open>
  How a shell splits a command into words, for commands of bare characters, spaces and quotes; the
  other characters mean something to it, which is not described: for them there is no result.
\<close>

datatype quoting = Unquoted | Single | Double

definition grow :: "string option \<Rightarrow> string \<Rightarrow> string option" where
  "grow w cs = Some ((case w of None \<Rightarrow> '''' | Some s \<Rightarrow> s) @ cs)"

fun shell_words_from :: "quoting \<Rightarrow> string option \<Rightarrow> string \<Rightarrow> string list option" where
  "shell_words_from Unquoted w [] = Some (case w of None \<Rightarrow> [] | Some s \<Rightarrow> [s])"
| "shell_words_from Single w [] = None"
| "shell_words_from Double w [] = None"
| "shell_words_from Unquoted w (c # cs) =
     (if c = CHR '' '' then
        map_option (\<lambda>ws. (case w of None \<Rightarrow> ws | Some s \<Rightarrow> s # ws)) (shell_words_from Unquoted None cs)
      else if c = quote_mark then shell_words_from Single (grow w []) cs
      else if c = double_mark then shell_words_from Double (grow w []) cs
      else if bare_char c then shell_words_from Unquoted (grow w [c]) cs
      else None)"
| "shell_words_from Single w (c # cs) =
     (if c = quote_mark then shell_words_from Unquoted w cs else shell_words_from Single (grow w [c]) cs)"
| "shell_words_from Double w (c # cs) =
     (if c = double_mark then shell_words_from Unquoted w cs
      else if c \<in> {CHR ''$'', CHR 0x60, CHR 0x5C, CHR ''!''} then None
      else shell_words_from Double (grow w [c]) cs)"

definition shell_words :: "string \<Rightarrow> string list option" where
  "shell_words s = shell_words_from Unquoted None s"

text \<open>The words of the command of a request.\<close>

definition curl_words :: "curl_request \<Rightarrow> string \<Rightarrow> string list" where
  "curl_words r body =
     [''curl'', ''-X'', cr_method r] @
     concat (map (\<lambda>(k, v). [''-H'', k @ '': '' @ v]) (dump_curl_headers (cr_header r))) @
     (if cr_cookies r = [] then [] else [''-H'', dump_curl_cookies (cr_cookies r)]) @
     (if body = '''' then [] else [''-d'', trim_newlines body]) @
     [cr_url r]"

section \<open>Quoting\<close>

lemma grow_grow [simp]: "grow (grow w xs) ys = grow w (xs @ ys)"
  by (simp add: grow_def)

lemma bare_not_mark: "bare_char c \<Longrightarrow> c \<noteq> CHR '' '' \<and> c \<noteq> quote_mark \<and> c \<noteq> double_mark"
  by (auto simp: bare_char_def)

lemma bare_word:
  "list_all bare_char s \<Longrightarrow> s \<noteq> [] \<Longrightarrow> shell_words_from Unquoted w (s @ rest) = shell_words_from Unquoted (grow w s) rest"
proof (induction s arbitrary: w)
  case (Cons c s)
  have "shell_words_from Unquoted (grow w [c]) (s @ rest) = shell_words_from Unquoted (grow w (c # s)) rest"
    using Cons by (cases "s = []") simp_all
  then show ?case using Cons.prems bare_not_mark[of c] by simp
qed simp

lemma quoted_text:
  "shell_words_from Single (grow w []) (replace_all [quote_mark] escaped_mark s @ quote_mark # rest) =
     shell_words_from Unquoted (grow w s) rest"
proof (induction s arbitrary: w)
  case Nil
  then show ?case by (simp add: replace_all.simps)
next
  case (Cons c s)
  have again: "shell_words_from Single (grow w [c]) (replace_all [quote_mark] escaped_mark s @ quote_mark # rest) =
      shell_words_from Unquoted (grow w (c # s)) rest"
    using Cons.IH[of "grow w [c]"] by simp
  show ?case
  proof (cases "c = quote_mark")
    case True
    then have "replace_all [quote_mark] escaped_mark (c # s) = escaped_mark @ replace_all [quote_mark] escaped_mark s"
      by (subst replace_all.simps) (simp add: has_prefix_def)
    with True again show ?thesis by (simp add: escaped_mark_def)
  next
    case False
    then have "replace_all [quote_mark] escaped_mark (c # s) = c # replace_all [quote_mark] escaped_mark s"
      by (subst replace_all.simps) (simp add: has_prefix_def)
    with False again show ?thesis by simp
  qed
qed

lemma quoted_word:
  "shell_words_from Unquoted w (cmd_quote s @ rest) = shell_words_from Unquoted (grow w s) rest"
proof (cases "s = []")
  case True
  then show ?thesis by (simp add: cmd_quote_def)
next
  case False
  then show ?thesis using bare_word[of s w rest] quoted_text[of w s rest]
    by (simp add: cmd_quote_def)
qed

text \<open>A word and the space after it.\<close>

lemma word_done:
  "shell_words (cmd_quote s @ CHR '' '' # rest) = map_option ((#) s) (shell_words rest)"
  by (simp add: quoted_word grow_def shell_words_def)






text \<open>
  A method is a token of HTTP, and those may contain characters that mean something to a shell: here
  the end of the command and the start of another.
\<close>

lemma method_read_by_shell:
  "valid_method ''GET|sh''"
  "build_curl_cmd (Some \<lparr>cr_method = ''GET|sh'', cr_header = [], cr_cookies = [], cr_body = None, cr_url = ''http://h/''\<rparr>)
     = Inr ''curl -X GET|sh http://h/''"
  "shell_words ''curl -X GET|sh http://h/'' = None"
  by code_simp+

text \<open>
  The header of the cookies is among the headers already: they are sent twice, and other than they
  were when they need escaping.
\<close>

lemma cookie_header_repeated:
  "curl_words \<lparr>cr_method = ''GET'', cr_header = [(''Cookie'', [''a=x/y''])], cr_cookies = [(''a'', ''x/y'')], cr_body = None,
      cr_url = ''http://h/''\<rparr> ''''
   = [''curl'', ''-X'', ''GET'', ''-H'', ''Cookie: a=x/y'', ''-H'', ''Cookie: a=x%2Fy'', ''http://h/'']"
  by code_simp

end
