(* ===== verification/WebSocket.thy ===== *)
theory WebSocket
  imports HttpText
begin

text \<open>
  \<open>ghttp/gclient/websocket.go\<close>: the settings of a WebSocket request, its dialer, the loop that
  connects, reads and connects again, and the operations on the connection.  What the server does
  with the k-th dial, the answers of the context, of the handler and of the hooks are parameters; a
  connection delivers messages and then an error.  The model keeps what happened: dials, messages
  handed to the handler, calls of hooks, connections opened and closed.
\<close>

section \<open>Errors and messages\<close>

datatype ws_error =
    WsCanceled | WsDeadline | WsHandlerRequired | WsFactoryRequired | NotEstablished
  | UnsupportedScheme string | UrlParseFailed | BuildFailed nat | DialError nat | WsReadFailed nat | WsCallback nat | WsWriteFailed nat
  | CloseFrame int string | WebSocketCloseError int string ws_error

record ws_message =
  wm_type :: int
  wm_data :: string

definition TextMessage :: int where "TextMessage = 1"
definition BinaryMessage :: int where "BinaryMessage = 2"
definition PingMessage :: int where "PingMessage = 9"
definition PongMessage :: int where "PongMessage = 10"

definition normalize_close_error :: "ws_error \<Rightarrow> ws_error" where
  "normalize_close_error e = (case e of CloseFrame code reason \<Rightarrow> WebSocketCloseError code reason e | _ \<Rightarrow> e)"

definition is_context_error :: "ws_error \<Rightarrow> bool" where
  "is_context_error e \<longleftrightarrow> e = WsCanceled \<or> e = WsDeadline"

section \<open>Settings\<close>

datatype ws_proxy = DirectProxy | ProxyFunction nat | ProxyAddress string

record ws_dialer =
  wd_handshake_timeout :: int
  wd_read_buffer :: int
  wd_write_buffer :: int
  wd_subprotocols :: "string list"
  wd_proxy :: ws_proxy
  wd_tls :: "nat option"

datatype ws_call =
    WsDialed string
  | WsOpened nat
  | WsClosed nat
  | WsConnectHook
  | WsObservedConnect
  | WsHandled ws_message
  | WsErrorHook ws_error
  | WsObservedError ws_error
  | WsRetryHook int ws_error int
  | WsObservedRetry int ws_error int
  | WsCloseHook "ws_error option"
  | WsObservedClose "ws_error option"

type_synonym ws_handler = "ws_call list \<Rightarrow> ws_message \<Rightarrow> ws_error option"

record ws_config =
  wc_dialer :: "ws_dialer option"
  wc_handler :: "ws_handler option"
  wc_on_connect :: "(ws_call list \<Rightarrow> ws_error option) option"
  wc_on_close :: bool
  wc_on_retry :: bool
  wc_on_error :: bool
  wc_observer :: "(ws_call list \<Rightarrow> ws_error option) option"
  wc_before_write :: "(int \<Rightarrow> string \<Rightarrow> ws_error option) option"
  wc_reconnect :: bool
  wc_retry_delay :: int
  wc_max_retries :: int
  wc_read_buffer :: int
  wc_write_buffer :: int
  wc_subprotocols :: "string list"
  wc_handshake_timeout :: int
  wc_ping_interval :: int
  wc_pong_wait :: int
  wc_write_wait :: int

definition ws_second :: int where "ws_second = 1000000000"

definition new_websocket_config :: ws_config where
  "new_websocket_config =
     \<lparr>wc_dialer = None, wc_handler = None, wc_on_connect = None, wc_on_close = False, wc_on_retry = False, wc_on_error = False,
      wc_observer = None, wc_before_write = None, wc_reconnect = True, wc_retry_delay = 3 * ws_second, wc_max_retries = 5,
      wc_read_buffer = 1024, wc_write_buffer = 1024, wc_subprotocols = [], wc_handshake_timeout = 45 * ws_second,
      wc_ping_interval = 0, wc_pong_wait = 60 * ws_second, wc_write_wait = 10 * ws_second\<rparr>"

definition ws_set_handler :: "ws_handler option \<Rightarrow> ws_config \<Rightarrow> ws_config" where
  "ws_set_handler h w = w\<lparr>wc_handler := h\<rparr>"

text \<open>\<open>SetJSONHandler\<close>: the factory makes the target that the decoder fills.\<close>

definition ws_set_json_handler ::
  "'t option \<Rightarrow> ('t \<Rightarrow> string \<Rightarrow> ws_error + 't) \<Rightarrow> (ws_call list \<Rightarrow> 't \<Rightarrow> ws_error option) option \<Rightarrow> ws_config \<Rightarrow> ws_config" where
  "ws_set_json_handler factory decode handler w =
     ws_set_handler (Some
       (case factory of
          None \<Rightarrow> (\<lambda>hist m. Some WsFactoryRequired)
        | Some target \<Rightarrow>
            (\<lambda>hist m. case decode target (wm_data m) of
                Inl e \<Rightarrow> Some e
              | Inr v \<Rightarrow> (case handler of None \<Rightarrow> None | Some h \<Rightarrow> h hist v)))) w"

definition ws_set_dialer :: "ws_dialer option \<Rightarrow> ws_config \<Rightarrow> ws_config" where
  "ws_set_dialer d w = w\<lparr>wc_dialer := d\<rparr>"

definition ws_on_connect :: "(ws_call list \<Rightarrow> ws_error option) option \<Rightarrow> ws_config \<Rightarrow> ws_config" where
  "ws_on_connect f w = w\<lparr>wc_on_connect := f\<rparr>"

definition ws_on_close :: "bool \<Rightarrow> ws_config \<Rightarrow> ws_config" where
  "ws_on_close b w = w\<lparr>wc_on_close := b\<rparr>"

definition ws_on_retry :: "bool \<Rightarrow> ws_config \<Rightarrow> ws_config" where
  "ws_on_retry b w = w\<lparr>wc_on_retry := b\<rparr>"

definition ws_on_error :: "bool \<Rightarrow> ws_config \<Rightarrow> ws_config" where
  "ws_on_error b w = w\<lparr>wc_on_error := b\<rparr>"

definition ws_set_observer :: "(ws_call list \<Rightarrow> ws_error option) option \<Rightarrow> ws_config \<Rightarrow> ws_config" where
  "ws_set_observer f w = w\<lparr>wc_observer := f\<rparr>"

definition ws_before_write :: "(int \<Rightarrow> string \<Rightarrow> ws_error option) option \<Rightarrow> ws_config \<Rightarrow> ws_config" where
  "ws_before_write f w = w\<lparr>wc_before_write := f\<rparr>"

definition ws_set_reconnect :: "bool \<Rightarrow> ws_config \<Rightarrow> ws_config" where
  "ws_set_reconnect b w = w\<lparr>wc_reconnect := b\<rparr>"

definition ws_set_retry_delay :: "int \<Rightarrow> ws_config \<Rightarrow> ws_config" where
  "ws_set_retry_delay d w = w\<lparr>wc_retry_delay := d\<rparr>"

definition ws_set_max_retries :: "int \<Rightarrow> ws_config \<Rightarrow> ws_config" where
  "ws_set_max_retries n w = w\<lparr>wc_max_retries := n\<rparr>"

text \<open>The next four also change the dialer that was given, which is shared with the caller.\<close>

definition ws_set_read_buffer_size :: "int \<Rightarrow> ws_config \<Rightarrow> ws_config" where
  "ws_set_read_buffer_size n w =
     w\<lparr>wc_read_buffer := n, wc_dialer := map_option (\<lambda>d. d\<lparr>wd_read_buffer := n\<rparr>) (wc_dialer w)\<rparr>"

definition ws_set_write_buffer_size :: "int \<Rightarrow> ws_config \<Rightarrow> ws_config" where
  "ws_set_write_buffer_size n w =
     w\<lparr>wc_write_buffer := n, wc_dialer := map_option (\<lambda>d. d\<lparr>wd_write_buffer := n\<rparr>) (wc_dialer w)\<rparr>"

definition ws_set_subprotocols :: "string list \<Rightarrow> ws_config \<Rightarrow> ws_config" where
  "ws_set_subprotocols ps w =
     w\<lparr>wc_subprotocols := ps, wc_dialer := map_option (\<lambda>d. d\<lparr>wd_subprotocols := ps\<rparr>) (wc_dialer w)\<rparr>"

definition ws_set_handshake_timeout :: "int \<Rightarrow> ws_config \<Rightarrow> ws_config" where
  "ws_set_handshake_timeout t w =
     w\<lparr>wc_handshake_timeout := t, wc_dialer := map_option (\<lambda>d. d\<lparr>wd_handshake_timeout := t\<rparr>) (wc_dialer w)\<rparr>"

definition ws_set_ping_interval :: "int \<Rightarrow> ws_config \<Rightarrow> ws_config" where
  "ws_set_ping_interval t w = w\<lparr>wc_ping_interval := t\<rparr>"

definition ws_set_pong_wait :: "int \<Rightarrow> ws_config \<Rightarrow> ws_config" where
  "ws_set_pong_wait t w = w\<lparr>wc_pong_wait := t\<rparr>"

definition ws_set_write_wait :: "int \<Rightarrow> ws_config \<Rightarrow> ws_config" where
  "ws_set_write_wait t w = w\<lparr>wc_write_wait := t\<rparr>"

section \<open>The dialer\<close>

text \<open>The proxy settings of the request and of its client; \<open>parses\<close> tells whether \<open>url.Parse\<close> accepts an address.\<close>

record proxy_setting =
  ps_disabled :: bool
  ps_function :: "nat option"
  ps_address :: string

record ws_client_config =
  wk_tls :: "nat option"
  wk_proxy :: "proxy_setting option"

definition apply_proxy :: "(string \<Rightarrow> bool) \<Rightarrow> proxy_setting \<Rightarrow> ws_dialer \<Rightarrow> ws_dialer" where
  "apply_proxy parses p d =
     (if ps_disabled p then d\<lparr>wd_proxy := DirectProxy\<rparr>
      else case ps_function p of
             Some f \<Rightarrow> d\<lparr>wd_proxy := ProxyFunction f\<rparr>
           | None \<Rightarrow>
               if ps_address p \<noteq> '''' \<and> parses (ps_address p) then d\<lparr>wd_proxy := ProxyAddress (ps_address p)\<rparr> else d)"

definition apply_client_dialer_config :: "(string \<Rightarrow> bool) \<Rightarrow> ws_client_config option \<Rightarrow> ws_dialer \<Rightarrow> ws_dialer" where
  "apply_client_dialer_config parses client d =
     (case client of
        None \<Rightarrow> d
      | Some c \<Rightarrow>
          (let d = (case wk_tls c of Some t \<Rightarrow> d\<lparr>wd_tls := Some t\<rparr> | None \<Rightarrow> d)
           in case wk_proxy c of Some p \<Rightarrow> apply_proxy parses p d | None \<Rightarrow> d))"

definition build_dialer :: "(string \<Rightarrow> bool) \<Rightarrow> proxy_setting \<Rightarrow> ws_client_config option \<Rightarrow> ws_config \<Rightarrow> ws_dialer" where
  "build_dialer parses req client w =
     (case wc_dialer w of
        Some d \<Rightarrow>
          (let d = (if wc_handshake_timeout w > 0 then d\<lparr>wd_handshake_timeout := wc_handshake_timeout w\<rparr> else d);
               d = (if wc_read_buffer w > 0 then d\<lparr>wd_read_buffer := wc_read_buffer w\<rparr> else d);
               d = (if wc_write_buffer w > 0 then d\<lparr>wd_write_buffer := wc_write_buffer w\<rparr> else d);
               d = (if wc_subprotocols w \<noteq> [] then d\<lparr>wd_subprotocols := wc_subprotocols w\<rparr> else d)
           in apply_client_dialer_config parses client (apply_proxy parses req d))
      | None \<Rightarrow>
          apply_proxy parses req (apply_client_dialer_config parses client
            \<lparr>wd_handshake_timeout = wc_handshake_timeout w, wd_read_buffer = wc_read_buffer w, wd_write_buffer = wc_write_buffer w,
             wd_subprotocols = wc_subprotocols w, wd_proxy = DirectProxy, wd_tls = None\<rparr>))"

text \<open>A URL is parsed into its scheme, in small letters, and the rest.\<close>

definition to_websocket_url :: "(string \<Rightarrow> (string \<times> string) option) \<Rightarrow> string \<Rightarrow> ws_error + string" where
  "to_websocket_url parse raw =
     (case parse raw of
        None \<Rightarrow> Inl UrlParseFailed
      | Some (scheme, rest) \<Rightarrow>
          if scheme = ''http'' then Inr (''ws'' @ rest)
          else if scheme = ''https'' then Inr (''wss'' @ rest)
          else if scheme = ''ws'' \<or> scheme = ''wss'' then Inr (scheme @ rest)
          else Inl (UnsupportedScheme scheme))"

section \<open>Connecting\<close>

datatype dial_answer = DialRefused ws_error | DialOpened "ws_message list" ws_error

record ws_env =
  we_build :: "nat + string"
  we_parse :: "string \<Rightarrow> (string \<times> string) option"
  we_dial :: "nat \<Rightarrow> dial_answer"
  we_context :: "nat \<Rightarrow> ws_error option"
  we_sleep :: "nat \<Rightarrow> ws_error option"

datatype ws_frame = DataFrame int string | JsonFrame string | ControlFrame int string

record ws_state =
  ws_conn :: "nat option"
  ws_dials :: nat
  ws_polls :: nat
  ws_calls :: "ws_call list"
  ws_wire :: "(nat \<times> ws_frame \<times> int) list"

definition log_ws :: "ws_call \<Rightarrow> ws_state \<Rightarrow> ws_state" where
  "log_ws c s = s\<lparr>ws_calls := ws_calls s @ [c]\<rparr>"

definition log_ws_if :: "bool \<Rightarrow> ws_call \<Rightarrow> ws_state \<Rightarrow> ws_state" where
  "log_ws_if b c s = (if b then log_ws c s else s)"

definition set_conn :: "nat option \<Rightarrow> ws_state \<Rightarrow> ws_state" where
  "set_conn c s = s\<lparr>ws_conn := c\<rparr>"

definition ws_poll :: "ws_env \<Rightarrow> ws_state \<Rightarrow> ws_error option \<times> ws_state" where
  "ws_poll env s = (we_context env (ws_polls s), s\<lparr>ws_polls := ws_polls s + 1\<rparr>)"

definition ws_connect_hooks :: "ws_config \<Rightarrow> ws_state \<Rightarrow> ws_error option \<times> ws_state" where
  "ws_connect_hooks cfg s =
     (let (r, s) = (case wc_on_connect cfg of
                      None \<Rightarrow> (None, s)
                    | Some f \<Rightarrow> (f (ws_calls s), log_ws WsConnectHook s))
      in case r of
           Some e \<Rightarrow> (Some e, s)
         | None \<Rightarrow> (case wc_observer cfg of
                      None \<Rightarrow> (None, s)
                    | Some f \<Rightarrow> (f (ws_calls s), log_ws WsObservedConnect s)))"

text \<open>\<open>Dial\<close>: the connection, by its number, and what it will deliver.\<close>

definition ws_dial :: "ws_config \<Rightarrow> ws_env \<Rightarrow> ws_state \<Rightarrow> (ws_error + nat \<times> ws_message list \<times> ws_error) \<times> ws_state" where
  "ws_dial cfg env s =
     (case we_build env of
        Inl n \<Rightarrow> (Inl (BuildFailed n), s)
      | Inr url \<Rightarrow>
          (case to_websocket_url (we_parse env) url of
             Inl e \<Rightarrow> (Inl e, s)
           | Inr target \<Rightarrow>
               (let k = ws_dials s; s = log_ws (WsDialed target) (s\<lparr>ws_dials := k + 1\<rparr>)
                in case we_dial env k of
                     DialRefused e \<Rightarrow> (Inl e, s)
                   | DialOpened msgs ending \<Rightarrow>
                       (case ws_connect_hooks cfg (set_conn (Some k) (log_ws (WsOpened k) s)) of
                          (Some e, s) \<Rightarrow> (Inl e, set_conn None (log_ws (WsClosed k) s))
                        | (None, s) \<Rightarrow> (Inr (k, msgs, ending), s)))))"

definition ws_call_on_error :: "ws_config \<Rightarrow> ws_error \<Rightarrow> ws_state \<Rightarrow> ws_state" where
  "ws_call_on_error cfg e s =
     log_ws_if (wc_observer cfg \<noteq> None) (WsObservedError e) (log_ws_if (wc_on_error cfg) (WsErrorHook e) s)"

definition ws_call_on_retry :: "ws_config \<Rightarrow> int \<Rightarrow> ws_error \<Rightarrow> ws_state \<Rightarrow> ws_state" where
  "ws_call_on_retry cfg attempt e s =
     log_ws_if (wc_observer cfg \<noteq> None) (WsObservedRetry attempt e (wc_retry_delay cfg))
       (log_ws_if (wc_on_retry cfg) (WsRetryHook attempt e (wc_retry_delay cfg)) s)"

definition ws_call_on_close :: "ws_config \<Rightarrow> ws_error \<Rightarrow> ws_state \<Rightarrow> ws_state" where
  "ws_call_on_close cfg e s =
     log_ws_if (wc_observer cfg \<noteq> None) (WsObservedClose (Some e)) (log_ws_if (wc_on_close cfg) (WsCloseHook (Some e)) s)"

definition ws_should_reconnect :: "ws_config \<Rightarrow> int \<Rightarrow> bool" where
  "ws_should_reconnect cfg retries \<longleftrightarrow> wc_reconnect cfg \<and> (wc_max_retries cfg \<le> 0 \<or> retries < wc_max_retries cfg)"

definition ws_sleep :: "ws_config \<Rightarrow> ws_env \<Rightarrow> ws_state \<Rightarrow> ws_error option" where
  "ws_sleep cfg env s = (if wc_retry_delay cfg \<le> 0 then None else we_sleep env (ws_dials s))"

text \<open>\<open>handleWebSocketConnection\<close> always ends with an error.\<close>

fun handle_websocket :: "ws_handler \<Rightarrow> ws_env \<Rightarrow> ws_message list \<Rightarrow> ws_error \<Rightarrow> ws_state \<Rightarrow> ws_error \<times> ws_state" where
  "handle_websocket h env [] ending s =
     (case ws_poll env s of
        (Some e, s) \<Rightarrow> (e, s)
      | (None, s) \<Rightarrow> (normalize_close_error ending, s))"
| "handle_websocket h env (m # ms) ending s =
     (case ws_poll env s of
        (Some e, s) \<Rightarrow> (e, s)
      | (None, s) \<Rightarrow>
          (case h (ws_calls s) m of
             Some e \<Rightarrow> (e, log_ws (WsHandled m) s)
           | None \<Rightarrow> handle_websocket h env ms ending (log_ws (WsHandled m) s)))"

definition ws_retry :: "ws_config \<Rightarrow> ws_env \<Rightarrow> int \<Rightarrow> ws_error \<Rightarrow> ws_state \<Rightarrow> ws_error \<times> ws_state + ws_state" where
  "ws_retry cfg env retries e s =
     (if \<not> ws_should_reconnect cfg retries then Inl (e, s)
      else
        (let s = ws_call_on_retry cfg (retries + 1) e s
         in case ws_sleep cfg env s of Some e' \<Rightarrow> Inl (e', s) | None \<Rightarrow> Inr s))"

definition ws_pass :: "ws_config \<Rightarrow> ws_handler \<Rightarrow> ws_env \<Rightarrow> int \<Rightarrow> ws_state \<Rightarrow> ws_error \<times> ws_state + ws_state" where
  "ws_pass cfg h env retries s =
     (case ws_dial cfg env s of
        (Inl e, s) \<Rightarrow> ws_retry cfg env retries e (ws_call_on_error cfg e s)
      | (Inr (k, msgs, ending), s) \<Rightarrow>
          (let (e, s) = handle_websocket h env msgs ending s;
               s = log_ws (WsClosed k) (set_conn None s);
               s = (if is_context_error e then s else ws_call_on_error cfg e s);
               s = ws_call_on_close cfg e s
           in if is_context_error e then Inl (e, s) else ws_retry cfg env retries e s))"

text \<open>Without a bound on the retries the loop need not end: then its value is \<open>None\<close>.\<close>

partial_function (option) ws_loop ::
  "ws_config \<Rightarrow> ws_handler \<Rightarrow> ws_env \<Rightarrow> int \<Rightarrow> ws_state \<Rightarrow> (ws_error \<times> ws_state) option" where
  "ws_loop cfg h env retries s =
     (case ws_poll env s of
        (Some e, s) \<Rightarrow> Some (e, s)
      | (None, s) \<Rightarrow>
          (case ws_pass cfg h env retries s of
             Inl r \<Rightarrow> Some r
           | Inr s \<Rightarrow> ws_loop cfg h env (retries + 1) s))"

definition ws_connect :: "ws_config \<Rightarrow> ws_env \<Rightarrow> ws_state \<Rightarrow> (ws_error \<times> ws_state) option" where
  "ws_connect cfg env s =
     (case wc_handler cfg of
        None \<Rightarrow> Some (WsHandlerRequired, s)
      | Some h \<Rightarrow> ws_loop cfg h env 0 s)"

definition new_ws_state :: ws_state where
  "new_ws_state = \<lparr>ws_conn = None, ws_dials = 0, ws_polls = 0, ws_calls = [], ws_wire = []\<rparr>"

section \<open>Operations on the connection\<close>

text \<open>\<open>answer\<close> is what the connection makes of the write; a frame is kept with the time it may take.\<close>

definition write_wait :: "ws_config \<Rightarrow> int" where
  "write_wait cfg = (if wc_write_wait cfg \<le> 0 then 10 * ws_second else wc_write_wait cfg)"

definition put_frame :: "ws_config \<Rightarrow> nat \<Rightarrow> ws_frame \<Rightarrow> ws_error option \<Rightarrow> ws_state \<Rightarrow> ws_error option \<times> ws_state" where
  "put_frame cfg c f answer s =
     (answer, if answer = None then s\<lparr>ws_wire := ws_wire s @ [(c, f, write_wait cfg)]\<rparr> else s)"

definition send_message :: "ws_config \<Rightarrow> int \<Rightarrow> string \<Rightarrow> ws_error option \<Rightarrow> ws_state \<Rightarrow> ws_error option \<times> ws_state" where
  "send_message cfg t data answer s =
     (case ws_conn s of
        None \<Rightarrow> (Some NotEstablished, s)
      | Some c \<Rightarrow>
          (case (case wc_before_write cfg of None \<Rightarrow> None | Some f \<Rightarrow> f t data) of
             Some e \<Rightarrow> (Some e, s)
           | None \<Rightarrow> put_frame cfg c (DataFrame t data) answer s))"

definition ws_write_text :: "ws_config \<Rightarrow> string \<Rightarrow> ws_error option \<Rightarrow> ws_state \<Rightarrow> ws_error option \<times> ws_state" where
  "ws_write_text cfg = send_message cfg TextMessage"

definition ws_write_binary :: "ws_config \<Rightarrow> string \<Rightarrow> ws_error option \<Rightarrow> ws_state \<Rightarrow> ws_error option \<times> ws_state" where
  "ws_write_binary cfg = send_message cfg BinaryMessage"

definition write_json_message :: "ws_config \<Rightarrow> string \<Rightarrow> ws_error option \<Rightarrow> ws_state \<Rightarrow> ws_error option \<times> ws_state" where
  "write_json_message cfg v answer s =
     (case ws_conn s of None \<Rightarrow> (Some NotEstablished, s) | Some c \<Rightarrow> put_frame cfg c (JsonFrame v) answer s)"

definition write_control :: "ws_config \<Rightarrow> nat \<Rightarrow> int \<Rightarrow> string \<Rightarrow> ws_error option \<Rightarrow> ws_state \<Rightarrow> ws_error option \<times> ws_state" where
  "write_control cfg c t data answer s = put_frame cfg c (ControlFrame t data) answer s"

definition ws_ping :: "ws_config \<Rightarrow> ws_error option \<Rightarrow> ws_state \<Rightarrow> ws_error option \<times> ws_state" where
  "ws_ping cfg answer s =
     (case ws_conn s of None \<Rightarrow> (Some NotEstablished, s) | Some c \<Rightarrow> write_control cfg c PingMessage '''' answer s)"

definition write_pong :: "ws_config \<Rightarrow> string \<Rightarrow> ws_error option \<Rightarrow> ws_state \<Rightarrow> ws_error option \<times> ws_state" where
  "write_pong cfg data answer s =
     (case ws_conn s of None \<Rightarrow> (Some NotEstablished, s) | Some c \<Rightarrow> write_control cfg c PongMessage data answer s)"

text \<open>The heartbeat of a connection pings at every tick until the context or the connection is done.\<close>

fun heartbeat :: "ws_config \<Rightarrow> nat \<Rightarrow> ws_error option list \<Rightarrow> ws_state \<Rightarrow> ws_state" where
  "heartbeat cfg c [] s = s"
| "heartbeat cfg c (answer # ticks) s = heartbeat cfg c ticks (snd (write_control cfg c PingMessage '''' answer s))"

definition read_message :: "ws_error + ws_message \<Rightarrow> ws_state \<Rightarrow> ws_error + ws_message" where
  "read_message answer s =
     (case ws_conn s of
        None \<Rightarrow> Inl NotEstablished
      | Some _ \<Rightarrow> (case answer of Inl e \<Rightarrow> Inl (normalize_close_error e) | Inr m \<Rightarrow> Inr m))"

definition read_json :: "(string \<Rightarrow> ws_error + 'j) \<Rightarrow> ws_error + ws_message \<Rightarrow> ws_state \<Rightarrow> ws_error + 'j" where
  "read_json decode answer s = (case read_message answer s of Inl e \<Rightarrow> Inl e | Inr m \<Rightarrow> decode (wm_data m))"

definition ws_close :: "ws_error option \<Rightarrow> ws_state \<Rightarrow> ws_error option \<times> ws_state" where
  "ws_close answer s =
     (case ws_conn s of None \<Rightarrow> (None, s) | Some c \<Rightarrow> (answer, set_conn None (log_ws (WsClosed c) s)))"

end
