(* ===== verification/Grx.thy ===== *)
theory Grx
  imports Prelude
begin

text \<open>
  \<open>grx/reflect.go\<close>: the cache of fields, tags and methods of types, access to fields, empty values,
  assignment and calls of methods by name.  Types and values are trees as \<open>reflect\<close> shows them; which
  types can be assigned or converted to which, and the conversion, are parameters.
\<close>

section \<open>Types and values\<close>

datatype rkind = KBool | KInt | KUint | KFloat | KString | KArray | KSlice | KMap | KInterface | KFunc | KChan | KOther

text \<open>
  A struct type has its identity and its fields: name, tags, whether the field is embedded, type.  A
  map type has the type of its keys.
\<close>

datatype rtype =
    StructType nat "(string \<times> (string, string) gomap \<times> bool \<times> rtype) list"
  | PtrType rtype
  | MapType rtype
  | OtherType rkind nat

abbreviation string_type :: rtype where "string_type \<equiv> OtherType KString 0"

type_synonym rfield = "string \<times> (string, string) gomap \<times> bool \<times> rtype"

text \<open>A value; numbers and lengths by what \<open>IsEmpty\<close> looks at, the entries of a map with string keys.\<close>

datatype rvalue =
    InvalidValue
  | StructValue nat "(string \<times> (string, string) gomap \<times> bool \<times> rtype) list" "rvalue list"
  | PtrValue rtype "rvalue option"
  | MapValue rtype "(string \<times> rvalue) list"
  | NumberValue rkind nat bool
  | SizedValue rkind nat nat
  | RefValue rkind nat bool
  | OtherValue rkind nat

text \<open>\<open>NumberValue\<close> tells whether it is zero, \<open>SizedValue\<close> its length, \<open>RefValue\<close> whether it is nil.\<close>

definition is_empty :: "rvalue \<Rightarrow> bool" where
  "is_empty v =
     (case v of
        InvalidValue \<Rightarrow> True
      | SizedValue k t n \<Rightarrow> k \<in> {KArray, KSlice, KString} \<and> n = 0
      | MapValue t es \<Rightarrow> es = []
      | NumberValue k t zero \<Rightarrow> k \<in> {KBool, KInt, KUint, KFloat} \<and> zero
      | PtrValue t target \<Rightarrow> target = None
      | RefValue k t isnil \<Rightarrow> k = KInterface \<and> isnil
      | _ \<Rightarrow> False)"

section \<open>Fields\<close>

record field_info =
  fi_field :: rfield
  fi_index :: "nat list"

function collect_struct_fields :: "rfield list \<Rightarrow> nat \<Rightarrow> nat list \<Rightarrow> (string, field_info) gomap \<Rightarrow> (string, field_info) gomap" where
  "collect_struct_fields [] i idx m = m"
| "collect_struct_fields ((name, tags, anonymous, t) # fs) i idx m =
     collect_struct_fields fs (Suc i) idx
       (case t of
          StructType n inner \<Rightarrow>
            if anonymous then collect_struct_fields inner 0 (idx @ [i]) m
            else go_put name \<lparr>fi_field = (name, tags, anonymous, t), fi_index = idx @ [i]\<rparr> m
        | _ \<Rightarrow> go_put name \<lparr>fi_field = (name, tags, anonymous, t), fi_index = idx @ [i]\<rparr> m)"
  by pat_completeness auto
termination
  by (relation "measure (\<lambda>(fs, i, idx, m). size_list (size_prod (\<lambda>_. 0) (size_prod (\<lambda>_. 0) (size_prod (\<lambda>_. 0) size))) fs)") auto

fun indirect_struct_type :: "rtype \<Rightarrow> rtype option" where
  "indirect_struct_type (PtrType t) = indirect_struct_type t"
| "indirect_struct_type (StructType n fs) = Some (StructType n fs)"
| "indirect_struct_type _ = None"


section \<open>The cache\<close>

text \<open>
  An entry is initialised once; the tag indexes are made when a tag key is first asked for.  \<open>methods\<close>
  gives the methods of a type: name, the types of the parameters with the receiver first, and the type
  of the elements of the last when it is variadic.
\<close>

record rmethod =
  rm_name :: string
  rm_params :: "rtype list"
  rm_variadic :: "rtype option"

record type_entry =
  ce_fields :: "(string, field_info) gomap option"
  ce_methods :: "rmethod list"
  ce_tags :: "(string, (string, field_info) gomap) gomap"

type_synonym field_cache = "(rtype, type_entry) gomap"

definition init_entry :: "(rtype \<Rightarrow> rmethod list) \<Rightarrow> rtype \<Rightarrow> type_entry" where
  "init_entry methods t =
     \<lparr>ce_fields = (case indirect_struct_type t of
        Some (StructType n fs) \<Rightarrow> Some (collect_struct_fields fs 0 [] [])
      | _ \<Rightarrow> None),
      ce_methods = methods t, ce_tags = []\<rparr>"

definition get_entry :: "(rtype \<Rightarrow> rmethod list) \<Rightarrow> rtype \<Rightarrow> field_cache \<Rightarrow> type_entry \<times> field_cache" where
  "get_entry methods t fc =
     (case go_get fc t of
        Some e \<Rightarrow> (e, fc)
      | None \<Rightarrow> (let e = init_entry methods t in (e, go_put t e fc)))"


text \<open>\<open>getEntry\<close> of a nil type is nil, as of a type that is no struct.\<close>

definition struct_entry :: "(rtype \<Rightarrow> rmethod list) \<Rightarrow> rtype \<Rightarrow> field_cache \<Rightarrow> type_entry option \<times> field_cache" where
  "struct_entry methods t fc =
     (case indirect_struct_type t of
        None \<Rightarrow> (None, fc)
      | Some s \<Rightarrow> (case get_entry methods s fc of (e, fc) \<Rightarrow> (Some e, fc)))"

definition lookup_field_info :: "(rtype \<Rightarrow> rmethod list) \<Rightarrow> rtype \<Rightarrow> string \<Rightarrow> field_cache \<Rightarrow> field_info option \<times> field_cache" where
  "lookup_field_info methods t field fc =
     (case struct_entry methods t fc of
        (Some e, fc) \<Rightarrow> ((case ce_fields e of Some m \<Rightarrow> go_get m field | None \<Rightarrow> None), fc)
      | (None, fc) \<Rightarrow> (None, fc))"






definition find_method :: "rmethod list \<Rightarrow> string \<Rightarrow> rmethod option" where
  "find_method ms name = find (\<lambda>m. rm_name m = name) ms"

definition lookup_method :: "(rtype \<Rightarrow> rmethod list) \<Rightarrow> rtype \<Rightarrow> string \<Rightarrow> field_cache \<Rightarrow> rmethod option \<times> field_cache" where
  "lookup_method methods t name fc =
     (case get_entry methods t fc of (e, fc) \<Rightarrow> (find_method (ce_methods e) name, fc))"



section \<open>Values of fields\<close>

text \<open>\<open>FieldByIndex\<close> follows embedded structs, which the collected indexes never leave through a pointer.\<close>

fun field_by_index :: "rvalue \<Rightarrow> nat list \<Rightarrow> (unit, rvalue) outcome" where
  "field_by_index v [] = Ok v"
| "field_by_index (StructValue n fs vs) (i # is) = (if i < length vs then field_by_index (vs ! i) is else Panic)"
| "field_by_index v (i # is) = Panic"

definition get_struct_field ::
  "(rtype \<Rightarrow> rmethod list) \<Rightarrow> rvalue \<Rightarrow> string \<Rightarrow> field_cache \<Rightarrow> (unit, rvalue option) outcome \<times> field_cache" where
  "get_struct_field methods v field fc =
     (let v = (case v of PtrValue t (Some w) \<Rightarrow> w | PtrValue t None \<Rightarrow> InvalidValue | _ \<Rightarrow> v)
      in case v of
           StructValue n fs vs \<Rightarrow>
             (case get_entry methods (StructType n fs) fc of
                (e, fc) \<Rightarrow>
                  ((case ce_fields e of
                      None \<Rightarrow> Ok None
                    | Some m \<Rightarrow>
                        (case go_get m field of
                           Some info \<Rightarrow> mapO Some (field_by_index v (fi_index info))
                         | None \<Rightarrow> Ok None)), fc))
         | _ \<Rightarrow> (Ok None, fc))"

text \<open>Asking a map for a string panics unless its keys are strings.\<close>

fun get_field_value ::
  "(rtype \<Rightarrow> rmethod list) \<Rightarrow> rvalue \<Rightarrow> string \<Rightarrow> field_cache \<Rightarrow> (unit, rvalue option) outcome \<times> field_cache" where
  "get_field_value methods (StructValue n fs vs) field fc = get_struct_field methods (StructValue n fs vs) field fc"
| "get_field_value methods (PtrValue t None) field fc = (Ok None, fc)"
| "get_field_value methods (PtrValue t (Some v)) field fc = get_field_value methods v field fc"
| "get_field_value methods (MapValue key es) field fc =
     ((if key = string_type \<or> (\<exists>n. key = OtherType KInterface n) then Ok (map_of es field) else Panic), fc)"
| "get_field_value methods v field fc = (Ok None, fc)"

section \<open>Assignment and calls\<close>

record type_rules =
  tr_assignable :: "rtype \<Rightarrow> rtype \<Rightarrow> bool"
  tr_convertible :: "rtype \<Rightarrow> rtype \<Rightarrow> bool"

fun type_of_value :: "rvalue \<Rightarrow> rtype option" where
  "type_of_value InvalidValue = None"
| "type_of_value (StructValue n fs vs) = Some (StructType n fs)"
| "type_of_value (PtrValue t v) = Some (PtrType t)"
| "type_of_value (MapValue t es) = Some (MapType t)"
| "type_of_value (NumberValue k t z) = Some (OtherType k t)"
| "type_of_value (SizedValue k t n) = Some (OtherType k t)"
| "type_of_value (RefValue k t b) = Some (OtherType k t)"
| "type_of_value (OtherValue k t) = Some (OtherType k t)"

datatype stored = Kept | Zeroed | Stored rvalue | Converted rvalue rtype

text \<open>\<open>SetValue\<close>: what the variable of type \<open>t\<close> has afterwards.\<close>

definition set_reflect_value :: "type_rules \<Rightarrow> bool \<Rightarrow> rtype \<Rightarrow> rvalue \<Rightarrow> stored" where
  "set_reflect_value rules can_set t v =
     (if \<not> can_set then Kept
      else (case type_of_value v of
              None \<Rightarrow> Zeroed
            | Some vt \<Rightarrow>
                if tr_assignable rules vt t then Stored v
                else if tr_convertible rules vt t then Converted v t
                else Kept))"

fun is_nilable :: "rtype \<Rightarrow> bool" where
  "is_nilable (PtrType t) = True"
| "is_nilable (MapType t) = True"
| "is_nilable (OtherType k n) = (k \<in> {KInterface, KSlice, KFunc, KChan})"
| "is_nilable (StructType n fs) = False"

datatype call_error =
    NilTarget | MethodNotFound string rtype | WrongArgumentCount string nat nat | BadReceiver rtype rtype
  | NilArgument nat string | BadArgument nat rtype rtype

fun call_arguments :: "type_rules \<Rightarrow> string \<Rightarrow> nat \<Rightarrow> rtype list \<Rightarrow> rvalue list \<Rightarrow> (call_error, stored list) outcome" where
  "call_arguments rules name i (t # ts) (v # vs) =
     (case type_of_value v of
        None \<Rightarrow>
          if is_nilable t then mapO ((#) Zeroed) (call_arguments rules name (Suc i) ts vs) else Err (NilArgument i name)
      | Some vt \<Rightarrow>
          if tr_assignable rules vt t then mapO ((#) (Stored v)) (call_arguments rules name (Suc i) ts vs)
          else if tr_convertible rules vt t then mapO ((#) (Converted v t)) (call_arguments rules name (Suc i) ts vs)
          else Err (BadArgument i vt t))"
| "call_arguments rules name i _ _ = Ok []"

text \<open>
  \<open>reflect.ValueOf\<close> of a target is never addressable, so the second attempt with its address is never
  made.  \<open>Call\<close> of a variadic method takes the arguments of the last parameter one by one: the slice
  given for it is one of them, and panics unless it is an element itself.
\<close>

definition call_method_of ::
  "(rtype \<Rightarrow> rmethod list) \<Rightarrow> type_rules \<Rightarrow> rvalue \<Rightarrow> string \<Rightarrow> rvalue list \<Rightarrow> field_cache \<Rightarrow>
   (call_error, stored list) outcome \<times> field_cache" where
  "call_method_of methods rules target name args fc =
     (case type_of_value target of
        None \<Rightarrow> (Err NilTarget, fc)
      | Some t \<Rightarrow>
          (case lookup_method methods t name fc of
             (None, fc) \<Rightarrow> (Err (MethodNotFound name t), fc)
           | (Some m, fc) \<Rightarrow>
               ((if length (rm_params m) - 1 \<noteq> length args then Err (WrongArgumentCount name (length (rm_params m) - 1) (length args))
                 else if \<not> tr_assignable rules t (hd (rm_params m)) \<and> \<not> tr_convertible rules t (hd (rm_params m))
                 then Err (BadReceiver t (hd (rm_params m)))
                 else
                   (let receiver = (if tr_assignable rules t (hd (rm_params m)) then Stored target else Converted target (hd (rm_params m)))
                    in mapO ((#) receiver)
                         (bindO (call_arguments rules name 0 (tl (rm_params m)) args)
                           (\<lambda>xs. case rm_variadic m of
                               None \<Rightarrow> Ok xs
                             | Some elem \<Rightarrow> if tr_assignable rules (last (rm_params m)) elem then Ok xs else Panic)))), fc)))"

section \<open>The cache is transparent\<close>
























section \<open>What goes wrong\<close>

text \<open>A field of an embedded struct that comes later hides the outer field of the same name; in Go the outer one counts.\<close>

lemma outer_field_hidden:
  "fst (lookup_field_info methods
      (StructType 0 [(''ID'', [], False, OtherType KInt 1), (''Base'', [], True, StructType 1 [(''ID'', [], False, string_type)])])
      ''ID'' []) =
    Some \<lparr>fi_field = (''ID'', [], False, string_type), fi_index = [1, 0]\<rparr>"
  by (simp add: lookup_field_info_def struct_entry_def get_entry_def init_entry_def Let_def)

text \<open>The fields of a struct that is embedded by a pointer are not found.\<close>

lemma embedded_pointer_not_searched:
  "fst (lookup_field_info methods
      (StructType 0 [(''Base'', [], True, PtrType (StructType 1 [(''ID'', [], False, string_type)]))]) ''ID'' []) = None"
  by (simp add: lookup_field_info_def struct_entry_def get_entry_def init_entry_def Let_def)

text \<open>A map whose keys are no strings is not answered with false but panics.\<close>

lemma map_with_other_keys_panics:
  "fst (get_field_value methods (MapValue (OtherType KInt 1) es) f fc) = Panic"
  by simp

text \<open>A variadic method can be called neither with a slice for its last parameter nor with its elements.\<close>

lemma variadic_call_panics:
  assumes "lookup_method methods t name fc = (Some m, fc')" "type_of_value target = Some t"
    and "rm_params m = [t, p]" "rm_variadic m = Some elem" "tr_assignable rules t t" "\<not> tr_assignable rules p elem"
  shows "type_of_value v = Some p \<Longrightarrow> tr_assignable rules p p \<Longrightarrow> fst (call_method_of methods rules target name [v] fc) = Panic"
    "fst (call_method_of methods rules target name [v, w] fc) = Err (WrongArgumentCount name 1 2)"
  using assms by (simp_all add: call_method_of_def)

end
