(* ===== verification/GConfig.thy ===== *)
theory GConfig
  imports Prelude
begin

text \<open>
  \<open>gconfig/config.go\<close>: the options of a configuration, how they become a decoder configuration, and
  the loading that happens once.  viper is a parameter: setting it up is a list of commands, reading
  the file and the remote source give a result, and decoding is a function of the decoder
  configuration.
\<close>

section \<open>Options\<close>

text \<open>Decode hooks and callbacks are numbered.\<close>

record decoder_option =
  dp_tag_name :: string
  dp_weakly_typed :: "bool option"
  dp_error_unused :: "bool option"
  dp_hooks :: "nat list"

definition no_decoder_option :: decoder_option where
  "no_decoder_option = \<lparr>dp_tag_name = '''', dp_weakly_typed = None, dp_error_unused = None, dp_hooks = []\<rparr>"

type_synonym decoder_option_func = "decoder_option \<Rightarrow> decoder_option"

definition with_tag_name :: "string \<Rightarrow> decoder_option_func" where
  "with_tag_name n opt = opt\<lparr>dp_tag_name := n\<rparr>"

definition with_weakly_typed_input :: "bool \<Rightarrow> decoder_option_func" where
  "with_weakly_typed_input b opt = opt\<lparr>dp_weakly_typed := Some b\<rparr>"

definition with_error_unused :: "bool \<Rightarrow> decoder_option_func" where
  "with_error_unused b opt = opt\<lparr>dp_error_unused := Some b\<rparr>"

definition with_decode_hooks :: "nat list \<Rightarrow> decoder_option_func" where
  "with_decode_hooks hooks opt = opt\<lparr>dp_hooks := dp_hooks opt @ hooks\<rparr>"

record config_options =
  co_name :: string
  co_type :: string
  co_paths :: "string list"
  co_file :: string
  co_env_prefix :: string
  co_decoder :: "decoder_option option"
  co_provider :: string
  co_endpoint :: string
  co_remote_path :: string
  co_callback :: "nat option"
  co_logger :: nat

type_synonym config_option = "config_options \<Rightarrow> config_options"

definition with_file :: "string \<Rightarrow> config_option" where "with_file p opts = opts\<lparr>co_file := p\<rparr>"

definition with_config_name :: "string \<Rightarrow> config_option" where "with_config_name n opts = opts\<lparr>co_name := n\<rparr>"

definition with_config_type :: "string \<Rightarrow> config_option" where "with_config_type t opts = opts\<lparr>co_type := t\<rparr>"

definition with_paths :: "string list \<Rightarrow> config_option" where "with_paths ps opts = opts\<lparr>co_paths := co_paths opts @ ps\<rparr>"

definition with_env_prefix :: "string \<Rightarrow> config_option" where "with_env_prefix p opts = opts\<lparr>co_env_prefix := p\<rparr>"

definition with_remote_provider :: "string \<Rightarrow> string \<Rightarrow> string \<Rightarrow> config_option" where
  "with_remote_provider provider endpoint path opts =
     opts\<lparr>co_provider := provider, co_endpoint := endpoint, co_remote_path := path\<rparr>"

definition with_on_change_callback :: "nat option \<Rightarrow> config_option" where
  "with_on_change_callback cb opts = opts\<lparr>co_callback := cb\<rparr>"

definition with_config_logger :: "nat \<Rightarrow> config_option" where "with_config_logger l opts = opts\<lparr>co_logger := l\<rparr>"

definition with_decoder_options :: "decoder_option_func list \<Rightarrow> config_option" where
  "with_decoder_options fs opts =
     opts\<lparr>co_decoder := Some (foldl (\<lambda>opt f. f opt) (case co_decoder opts of Some opt \<Rightarrow> opt | None \<Rightarrow> no_decoder_option) fs)\<rparr>"

definition default_config_options :: config_options where
  "default_config_options =
     \<lparr>co_name = ''config'', co_type = ''yaml'', co_paths = [''.'', ''/etc/yourapp/''], co_file = '''', co_env_prefix = ''APP'',
      co_decoder = Some (no_decoder_option\<lparr>dp_tag_name := ''json''\<rparr>), co_provider = '''', co_endpoint = '''',
      co_remote_path = '''', co_callback = None, co_logger = 0\<rparr>"

section \<open>The decoder configuration\<close>

text \<open>The part of mapstructure's configuration that is set; viper starts with the tag \<open>mapstructure\<close> and weak typing.\<close>

record decoder_config =
  de_tag_name :: string
  de_weakly_typed :: bool
  de_error_unused :: bool
  de_hook :: "nat list"

definition viper_decoder_config :: "nat list \<Rightarrow> decoder_config" where
  "viper_decoder_config hooks =
     \<lparr>de_tag_name = ''mapstructure'', de_weakly_typed = True, de_error_unused = False, de_hook = hooks\<rparr>"

definition collected_config :: "decoder_option \<Rightarrow> decoder_config" where
  "collected_config opt =
     \<lparr>de_tag_name = dp_tag_name opt,
      de_weakly_typed = (case dp_weakly_typed opt of Some b \<Rightarrow> b | None \<Rightarrow> False),
      de_error_unused = (case dp_error_unused opt of Some b \<Rightarrow> b | None \<Rightarrow> False),
      de_hook = dp_hooks opt\<rparr>"

definition build_viper_decoder_options :: "decoder_option option \<Rightarrow> (decoder_config \<Rightarrow> decoder_config) list" where
  "build_viper_decoder_options opt =
     (case opt of
        None \<Rightarrow> []
      | Some opt \<Rightarrow>
          (let t = collected_config opt
           in [\<lambda>cfg.
               let cfg = (if de_tag_name t \<noteq> '''' then cfg\<lparr>de_tag_name := de_tag_name t\<rparr> else cfg);
                   cfg = (if de_weakly_typed t then cfg\<lparr>de_weakly_typed := de_weakly_typed t\<rparr> else cfg);
                   cfg = (if de_error_unused t then cfg\<lparr>de_error_unused := de_error_unused t\<rparr> else cfg)
               in if de_hook t \<noteq> [] then cfg\<lparr>de_hook := de_hook t\<rparr> else cfg]))"

section \<open>Loading\<close>

datatype viper_command =
    SetConfigFile string | SetConfigName string | SetConfigType string | AddConfigPath string
  | SetEnvPrefix string | SetEnvKeyReplacer | AutomaticEnv
  | ReadInConfig | AddRemoteProvider string string string | ReadRemoteConfig | OnConfigChange | WatchConfig | WatchRemote
  | SetDefault string

datatype read_result = ReadOk | ConfigNotFound | ReadBroken nat

datatype config_error = ReadConfigFailed nat | AddProviderFailed nat

record config =
  cf_viper :: "viper_command list"
  cf_options :: config_options
  cf_loaded :: bool
  cf_log :: nat

definition new_config :: "config_option list \<Rightarrow> config" where
  "new_config opts =
     (let options = foldl (\<lambda>o' f. f o') default_config_options opts
      in \<lparr>cf_viper =
            (if co_file options \<noteq> '''' then [SetConfigFile (co_file options)]
             else [SetConfigName (co_name options), SetConfigType (co_type options)] @ map AddConfigPath (co_paths options)) @
            [SetEnvPrefix (co_env_prefix options), SetEnvKeyReplacer, AutomaticEnv],
          cf_options = options, cf_loaded = False, cf_log = 0\<rparr>)"

text \<open>What the surroundings make of reading the file, adding the provider and reading the remote source.\<close>

record viper_env =
  ve_read :: read_result
  ve_add :: "nat option"
  ve_remote :: "nat option"

definition issue :: "viper_command list \<Rightarrow> config \<Rightarrow> config" where
  "issue cs c = c\<lparr>cf_viper := cf_viper c @ cs\<rparr>"

definition log_config :: "config \<Rightarrow> config" where
  "log_config c = c\<lparr>cf_log := cf_log c + 1\<rparr>"

definition watch_config :: "config \<Rightarrow> config" where
  "watch_config c = issue ([OnConfigChange, WatchConfig] @ (if co_provider (cf_options c) \<noteq> '''' then [WatchRemote] else [])) c"

definition load_remote :: "viper_env \<Rightarrow> config \<Rightarrow> config_error option \<times> config" where
  "load_remote env c =
     (let opts = cf_options c
      in if co_provider opts \<noteq> '''' \<and> co_endpoint opts \<noteq> '''' \<and> co_remote_path opts \<noteq> '''' then
           (let c = issue [AddRemoteProvider (co_provider opts) (co_endpoint opts) (co_remote_path opts)] c
            in case ve_add env of
                 Some e \<Rightarrow> (Some (AddProviderFailed e), c)
               | None \<Rightarrow>
                   (let c = issue [SetConfigType (co_type opts), ReadRemoteConfig] c
                    in (None, if ve_remote env \<noteq> None then log_config c else c)))
         else (None, c))"

definition load_config :: "viper_env \<Rightarrow> config \<Rightarrow> config_error option \<times> config" where
  "load_config env c =
     (if cf_loaded c then (None, c)
      else
        (let c = issue [ReadInConfig] c
         in case ve_read env of
              ReadBroken e \<Rightarrow> (Some (ReadConfigFailed e), c)
            | r \<Rightarrow>
                (case load_remote env (if r = ConfigNotFound then log_config c else c) of
                   (Some e, c) \<Rightarrow> (Some e, c)
                 | (None, c) \<Rightarrow> (None, (watch_config c)\<lparr>cf_loaded := True\<rparr>))))"

text \<open>\<open>decode\<close> is what viper makes of the settings and the decoder configuration.\<close>

definition unmarshal_config ::
  "viper_env \<Rightarrow> nat list \<Rightarrow> (viper_command list \<Rightarrow> decoder_config \<Rightarrow> 'e + 't) \<Rightarrow> decoder_option_func list \<Rightarrow> config \<Rightarrow>
   (config_error + ('e + 't)) \<times> config" where
  "unmarshal_config env hooks decode opts c =
     (case (if cf_loaded c then (None, c) else load_config env c) of
        (Some e, c) \<Rightarrow> (Inl e, c)
      | (None, c) \<Rightarrow>
          (let final = foldl (\<lambda>opt f. f opt) (case co_decoder (cf_options c) of Some opt \<Rightarrow> opt | None \<Rightarrow> no_decoder_option) opts;
               cfg = foldl (\<lambda>cfg f. f cfg) (viper_decoder_config hooks) (build_viper_decoder_options (Some final))
           in (Inr (decode (cf_viper c) cfg), c)))"

definition set_default :: "string \<Rightarrow> config \<Rightarrow> config" where
  "set_default key c = issue [SetDefault key] c"

text \<open>
  A change of the local file, and of the remote source: whether the callback is called with the
  configuration, and the number of log lines.  The goroutine that watches the remote source tries
  again at once after an error.
\<close>

definition on_local_change :: "config \<Rightarrow> nat list \<times> config" where
  "on_local_change c = ((case co_callback (cf_options c) of Some cb \<Rightarrow> [cb] | None \<Rightarrow> []), log_config c)"

fun watch_remote :: "nat option list \<Rightarrow> config \<Rightarrow> nat list \<times> config" where
  "watch_remote [] c = ([], c)"
| "watch_remote (Some e # rs) c = watch_remote rs (log_config c)"
| "watch_remote (None # rs) c =
     (let (calls, c) = watch_remote rs (log_config c)
      in ((case co_callback (cf_options c) of Some cb \<Rightarrow> [cb] | None \<Rightarrow> []) @ calls, c))"

section \<open>Lemmas\<close>

text \<open>Loading succeeds at most once: a loaded configuration issues no issue any more.\<close>

lemma load_once:
  assumes "load_config env c = (None, c')"
  shows "cf_loaded c'" "load_config env' c' = (None, c')"
proof -
  show "cf_loaded c'"
    using assms by (auto simp: load_config_def Let_def split: if_splits read_result.splits prod.splits option.splits)
  then show "load_config env' c' = (None, c')" by (simp add: load_config_def)
qed

lemma load_fails_unloaded: "load_config env c = (Some e, c') \<Longrightarrow> \<not> cf_loaded c'"
  by (auto simp: load_config_def Let_def load_remote_def issue_def log_config_def
      split: if_splits read_result.splits prod.splits option.splits)

text \<open>
  The options of one call win over those of the configuration, field by field; the tag and the hooks
  that are given replace those of viper.
\<close>

definition decoder_of :: "nat list \<Rightarrow> decoder_option \<Rightarrow> decoder_config" where
  "decoder_of hooks opt = foldl (\<lambda>cfg f. f cfg) (viper_decoder_config hooks) (build_viper_decoder_options (Some opt))"

lemma decoder_fields:
  "de_tag_name (decoder_of hooks opt) = (if dp_tag_name opt = '''' then ''mapstructure'' else dp_tag_name opt)"
  "de_hook (decoder_of hooks opt) = (if dp_hooks opt = [] then hooks else dp_hooks opt)"
  "de_error_unused (decoder_of hooks opt) = (dp_error_unused opt = Some True)"
  by (auto simp: decoder_of_def build_viper_decoder_options_def collected_config_def viper_decoder_config_def Let_def
      split: option.split)

text \<open>Weak typing cannot be switched off, and a hook of viper's own is lost with the first hook given.\<close>

lemma weak_typing_stays: "de_weakly_typed (decoder_of hooks (with_weakly_typed_input b opt))"
  by (simp add: decoder_of_def build_viper_decoder_options_def collected_config_def viper_decoder_config_def
      with_weakly_typed_input_def Let_def)

lemma own_hooks_lost: "de_hook (decoder_of [1, 2] (with_decode_hooks [7] no_decoder_option)) = [7]"
  by (simp add: decoder_fields with_decode_hooks_def no_decoder_option_def)

text \<open>Paths that are given come after the default ones, which stay.\<close>

lemma default_paths_stay: "take 2 (co_paths (cf_options (new_config [with_paths ps]))) = [''.'', ''/etc/yourapp/'']"
  by (simp add: new_config_def with_paths_def default_config_options_def)

text \<open>A failed load_config has already added the provider: the next attempt adds it again.\<close>

lemma provider_added_twice:
  assumes "ve_read env = ReadOk" "ve_add env = Some e" "\<not> cf_loaded c"
    "co_provider (cf_options c) \<noteq> ''''" "co_endpoint (cf_options c) \<noteq> ''''" "co_remote_path (cf_options c) \<noteq> ''''"
  shows "cf_viper (snd (load_config env (snd (load_config env c)))) =
    cf_viper c @ concat (replicate 2 [ReadInConfig,
      AddRemoteProvider (co_provider (cf_options c)) (co_endpoint (cf_options c)) (co_remote_path (cf_options c))])"
  using assms by (simp add: load_config_def load_remote_def issue_def Let_def numeral_2_eq_2)

end
