(* ===== verification/MigrationSource.thy ===== *)
theory MigrationSource
  imports SqlTx HttpText
begin

text \<open>
  \<open>gsql/migrate_source.go\<close>: the sources a migrator takes its migrations from.  A struct is given by
  its name, its fields and tags and what its \<open>TableName\<close> returns; a directory by the tree of its
  files, in the order of \<open>filepath.WalkDir\<close>.  Names of Go types are taken to be ASCII.
\<close>

section \<open>Names (\<open>migrate.go\<close>)\<close>

definition upper_letter :: "char \<Rightarrow> bool" where
  "upper_letter c \<longleftrightarrow> 65 \<le> (of_char c :: nat) \<and> (of_char c :: nat) \<le> 90"

definition lower_letter :: "char \<Rightarrow> bool" where
  "lower_letter c \<longleftrightarrow> 97 \<le> (of_char c :: nat) \<and> (of_char c :: nat) \<le> 122"

text \<open>The pattern \<open>(.)([A-Z][a-z]+)\<close>: matches from left to right that do not overlap.\<close>

function split_first_cap :: "string \<Rightarrow> string" where
  "split_first_cap s =
     (case s of
        c # d # e # rest \<Rightarrow>
          if c \<noteq> newline \<and> upper_letter d \<and> lower_letter e
          then [c, CHR ''_'', d] @ takeWhile lower_letter (e # rest) @ split_first_cap (dropWhile lower_letter (e # rest))
          else c # split_first_cap (d # e # rest)
      | _ \<Rightarrow> s)"
  by pat_completeness auto
termination
  by (relation "measure length") (auto simp: le_imp_less_Suc length_dropWhile_le less_Suc_eq_le le_SucI)

declare split_first_cap.simps [simp del]

text \<open>The pattern \<open>([a-z0-9])([A-Z])\<close>.\<close>

fun split_all_caps :: "string \<Rightarrow> string" where
  "split_all_caps (c # d # rest) =
     (if (lower_letter c \<or> is_digit c) \<and> upper_letter d then [c, CHR ''_'', d] @ split_all_caps rest
      else c # split_all_caps (d # rest))"
| "split_all_caps s = s"

definition to_snake_case :: "string \<Rightarrow> string" where
  "to_snake_case s = map lower_char (split_all_caps (split_first_cap s))"

section \<open>Structs\<close>

datatype source_error = ExpectedStruct | WalkFailed string | ReadMigrationFailed string | ReadPairFailed string

text \<open>A field with the two tags that are read; a struct with the name its value method \<open>TableName\<close> returns.\<close>

record tagged_field =
  tf_db :: string
  tf_gsql :: string
  tf_type :: go_type

record go_struct =
  gs_type :: string
  gs_name :: string
  gs_table_name :: "string option"
  gs_fields :: "tagged_field list"

text \<open>A nil pointer to a struct has its type, but calling a method of the value panics.\<close>

datatype struct_arg = StructValue go_struct | PointerTo go_struct | NilPointerTo go_struct | OtherValue | NilValue

fun struct_of :: "struct_arg \<Rightarrow> (source_error, go_struct) outcome" where
  "struct_of (StructValue s) = Ok s"
| "struct_of (PointerTo s) = Ok s"
| "struct_of (NilPointerTo s) = (if gs_table_name s = None then Ok s else Panic)"
| "struct_of OtherValue = Err ExpectedStruct"
| "struct_of NilValue = Panic"

definition table_of :: "go_struct \<Rightarrow> string" where
  "table_of s = (case gs_table_name s of Some name \<Rightarrow> name | None \<Rightarrow> to_snake_case (gs_name s))"

definition split_two :: "char \<Rightarrow> string \<Rightarrow> string \<times> string option" where
  "split_two c s =
     (case dropWhile (\<lambda>d. d \<noteq> c) s of [] \<Rightarrow> (s, None) | _ # rest \<Rightarrow> (takeWhile (\<lambda>d. d \<noteq> c) s, Some rest))"

definition tag_map :: "string \<Rightarrow> (string, string) gomap" where
  "tag_map tag =
     foldl (\<lambda>m part. case split_two CHR '':'' part of
              (k, Some v) \<Rightarrow> go_put k v m | (k, None) \<Rightarrow> go_put k ''true'' m) [] (split_on CHR '','' tag)"

definition contains_text :: "string \<Rightarrow> string \<Rightarrow> bool" where
  "contains_text s w = list_ex (\<lambda>i. take (length w) (drop i s) = w) [0..<Suc (length s)]"

definition column_type :: "dialect \<Rightarrow> (string, string) gomap \<Rightarrow> go_type \<Rightarrow> string" where
  "column_type d tags t =
     (let col = data_type_of d t
      in case go_get tags ''size'' of
           Some n \<Rightarrow> if contains_text col ''VARCHAR'' then ''VARCHAR('' @ n @ '')'' else col
         | None \<Rightarrow> col)"

definition column_constraints :: "dialect \<Rightarrow> (string, string) gomap \<Rightarrow> string list" where
  "column_constraints d tags =
     (if go_get tags ''not_null'' \<noteq> None then [''NOT NULL''] else []) @
     (case go_get tags ''default'' of Some v \<Rightarrow> [''DEFAULT '' @ v] | None \<Rightarrow> []) @
     (if go_get tags ''auto_increment'' \<noteq> None then [auto_increment d] else [])"

definition foreign_key_sql :: "string \<Rightarrow> string \<Rightarrow> (string, string) gomap \<Rightarrow> string" where
  "foreign_key_sql table col tags =
     (case go_get tags ''fk'' of
        None \<Rightarrow> ''''
      | Some def \<Rightarrow>
          (case split_on CHR ''.'' def of
             [fk_table, fk_col] \<Rightarrow>
               ''ALTER TABLE '' @ table @ '' ADD CONSTRAINT fk_'' @ table @ ''_'' @ col @ '' FOREIGN KEY ('' @ col @
               '') REFERENCES '' @ fk_table @ ''('' @ fk_col @ '');''
           | _ \<Rightarrow> ''''))"

definition index_sql :: "string \<Rightarrow> string \<Rightarrow> (string, string) gomap \<Rightarrow> string" where
  "index_sql table col tags =
     (if go_get tags ''index'' \<noteq> None
      then ''CREATE INDEX idx_'' @ table @ ''_'' @ col @ '' ON '' @ table @ '' ('' @ col @ '');'' else '''')"

text \<open>The column, whether it is in the primary key, and the statements after the tables.\<close>

definition parse_tagged_field :: "dialect \<Rightarrow> string \<Rightarrow> tagged_field \<Rightarrow> string \<times> bool \<times> string \<times> string" where
  "parse_tagged_field d table f =
     (let tags = tag_map (tf_gsql f);
          col = tf_db f @ '' '' @ column_type d tags (tf_type f) @ '' '' @ join_strings '' '' (column_constraints d tags)
      in (trim_space col, go_get tags ''pk'' \<noteq> None, foreign_key_sql table (tf_db f) tags, index_sql table (tf_db f) tags))"

definition column_fields :: "go_struct \<Rightarrow> tagged_field list" where
  "column_fields s = filter (\<lambda>f. tf_db f \<noteq> '''' \<and> tf_db f \<noteq> ''-'') (gs_fields s)"

definition table_sql :: "dialect \<Rightarrow> string \<Rightarrow> go_struct \<Rightarrow> string" where
  "table_sql d table s =
     (let fs = column_fields s;
          pks = map tf_db (filter (\<lambda>f. fst (snd (parse_tagged_field d table f))) fs)
      in ''CREATE TABLE '' @ table @ '' ('' @ join_strings '', '' (map (\<lambda>f. fst (parse_tagged_field d table f)) fs) @
         (if pks \<noteq> [] then '', PRIMARY KEY ('' @ join_strings '', '' pks @ '')'' else '''') @ '');'')"

definition further_sqls :: "dialect \<Rightarrow> string \<Rightarrow> go_struct \<Rightarrow> string list" where
  "further_sqls d table s =
     concat (map (\<lambda>f. filter (\<lambda>q. q \<noteq> '''') [fst (snd (snd (parse_tagged_field d table f))), snd (snd (snd (parse_tagged_field d table f)))])
       (column_fields s))"

definition drop_sql :: "string \<Rightarrow> string" where
  "drop_sql table = ''DROP TABLE IF EXISTS '' @ table @ '';''"

fun exec_all :: "(string \<Rightarrow> tx_error \<Rightarrow> tx_error) \<Rightarrow> string list \<Rightarrow> program" where
  "exec_all f [] = Finish (Ok ())"
| "exec_all f (q # qs) =
     Send q [] (\<lambda>a. case a of Inl e \<Rightarrow> Finish (Err (f q (DbError e))) | Inr _ \<Rightarrow> exec_all f qs)"

record source_migration = migration +
  sm_down :: "program option"
  sm_down_with_context :: "program option"

fun structs_of :: "struct_arg list \<Rightarrow> (source_error, go_struct list) outcome" where
  "structs_of [] = Ok []"
| "structs_of (a # as) = bindO (struct_of a) (\<lambda>s. mapO ((#) s) (structs_of as))"

text \<open>The names of the tables by the type: structs of one type have the name of the last.\<close>

definition table_names :: "go_struct list \<Rightarrow> (string, string) gomap" where
  "table_names ss = foldl (\<lambda>m s. go_put (gs_type s) (table_of s) m) [] ss"

definition name_of_table :: "go_struct list \<Rightarrow> go_struct \<Rightarrow> string" where
  "name_of_table ss s = (case go_get (table_names ss) (gs_type s) of Some n \<Rightarrow> n | None \<Rightarrow> '''')"

definition up_sqls :: "dialect \<Rightarrow> go_struct list \<Rightarrow> string list" where
  "up_sqls d ss =
     map (\<lambda>s. table_sql d (name_of_table ss s) s) ss @
     concat (map (\<lambda>s. further_sqls d (name_of_table ss s) s) ss)"

definition down_sqls :: "go_struct list \<Rightarrow> string list" where
  "down_sqls ss = rev (sort (map (\<lambda>s. drop_sql (name_of_table ss s)) ss))"

definition structs_migration :: "dialect \<Rightarrow> go_struct list \<Rightarrow> source_migration" where
  "structs_migration d ss =
     (let names = map table_of ss;
          up = exec_all StructStatementFailed (up_sqls d ss); down = exec_all (\<lambda>q e. e) (down_sqls ss)
      in \<lparr>mig_id = ''structs_'' @ map lower_char (join_strings ''_'' names),
          mig_name = ''Create tables from structs: '' @ join_strings '', '' names,
          mig_up = Some up, mig_up_with_context = Some up, sm_down = Some down, sm_down_with_context = Some down\<rparr>)"

definition parse_structs :: "dialect \<Rightarrow> struct_arg list \<Rightarrow> (source_error, source_migration option) outcome" where
  "parse_structs d args =
     (if args = [] then Ok None else mapO (\<lambda>ss. Some (structs_migration d ss)) (structs_of args))"

text \<open>A source of structs with its parser, the default one unless another is given.\<close>

type_synonym struct_parser = "dialect \<Rightarrow> struct_arg list \<Rightarrow> (source_error, source_migration option) outcome"

record struct_source =
  ss_structs :: "struct_arg list"
  ss_dialect :: dialect
  ss_parser :: struct_parser

definition new_struct_source :: "dialect \<Rightarrow> struct_arg list \<Rightarrow> struct_parser option list \<Rightarrow> struct_source" where
  "new_struct_source d args parser =
     \<lparr>ss_structs = args, ss_dialect = d, ss_parser = (case parser of Some p # _ \<Rightarrow> p | _ \<Rightarrow> parse_structs)\<rparr>"

definition struct_source_collect :: "struct_source \<Rightarrow> (source_error, source_migration list) outcome" where
  "struct_source_collect src =
     mapO (\<lambda>m. case m of None \<Rightarrow> [] | Some mig \<Rightarrow> [mig]) (ss_parser src (ss_dialect src) (ss_structs src))"

section \<open>Directories\<close>

text \<open>
  The entries of a directory in the order of their names; \<open>None\<close> is a file or directory that cannot
  be read.  \<open>WalkDir\<close> calls its function for every file, and with an error for a directory that
  cannot be read.
\<close>

datatype fs_tree = FsFile string "string option" | FsDir string "fs_tree list option"

datatype walk_event = WalkFile (wf_path: string) (wf_name: string) (wf_content: "string option") | WalkError string

fun walk_dir :: "string \<Rightarrow> fs_tree \<Rightarrow> walk_event list" where
  "walk_dir path (FsFile name content) = [WalkFile path name content]"
| "walk_dir path (FsDir name None) = [WalkError path]"
| "walk_dir path (FsDir name (Some entries)) =
     concat (map (\<lambda>e. walk_dir (path @ ''/'' @ (case e of FsFile n _ \<Rightarrow> n | FsDir n _ \<Rightarrow> n)) e) entries)"

definition cut_suffix :: "string \<Rightarrow> string \<Rightarrow> string option" where
  "cut_suffix s w = (if has_suffix s w then Some (take (length s - length w) s) else None)"

definition trim_suffix :: "string \<Rightarrow> string \<Rightarrow> string" where
  "trim_suffix s w = (case cut_suffix s w of Some b \<Rightarrow> b | None \<Rightarrow> s)"

text \<open>The sections of a file with comments; the scanner's own limit is 64 KB, and its error is not looked at.\<close>

datatype file_section = NoSection | UpSection | DownSection

definition section_step :: "file_section \<times> string \<times> string \<Rightarrow> string \<Rightarrow> file_section \<times> string \<times> string" where
  "section_step s line =
     (case s of (current, up, down) \<Rightarrow>
        let trimmed = trim_space line
        in if has_prefix trimmed ''-- +gsql Up'' then (UpSection, up, down)
           else if has_prefix trimmed ''-- +gsql Down'' then (DownSection, up, down)
           else (case current of
                   NoSection \<Rightarrow> (current, up, down)
                 | UpSection \<Rightarrow> (current, up @ line @ [newline], down)
                 | DownSection \<Rightarrow> (current, up, down @ line @ [newline])))"

definition scanner_limit :: nat where
  "scanner_limit = 64 * 1024"

definition file_sections :: "string \<Rightarrow> string \<times> string" where
  "file_sections content =
     (case foldl section_step (NoSection, '''', '''') (fst (scan_lines_upto scanner_limit content)) of
        (_, up, down) \<Rightarrow> (trim_space up, trim_space down))"

definition statement_migration :: "string \<Rightarrow> string \<Rightarrow> string \<Rightarrow> string option \<Rightarrow> source_migration" where
  "statement_migration ident name up down =
     \<lparr>mig_id = ident, mig_name = name, mig_up = Some (exec_only up []), mig_up_with_context = Some (exec_only up []),
      sm_down = map_option (\<lambda>q. exec_only q []) down, sm_down_with_context = map_option (\<lambda>q. exec_only q []) down\<rparr>"

definition comment_migration :: "string \<Rightarrow> string \<Rightarrow> source_migration option" where
  "comment_migration name content =
     (case file_sections content of (up, down) \<Rightarrow>
        if up = '''' then None
        else Some (statement_migration name (trim_suffix name ''.sql'') up (if down = '''' then None else Some down)))"

definition whole_file_migration :: "string \<Rightarrow> string \<Rightarrow> source_migration option" where
  "whole_file_migration name content =
     (if trim_space content = '''' then None
      else Some (statement_migration name (trim_suffix name ''.sql'') content None))"

text \<open>The walk of the first two collectors, which read each SQL file as it comes; it ends at the first error.\<close>

fun collect_walk :: "(string \<Rightarrow> string \<Rightarrow> source_migration option) \<Rightarrow> walk_event list \<Rightarrow> source_migration list \<Rightarrow>
    source_migration list \<times> source_error option" where
  "collect_walk build [] migs = (migs, None)"
| "collect_walk build (WalkError path # es) migs = (migs, Some (WalkFailed path))"
| "collect_walk build (WalkFile path name content # es) migs =
     (if \<not> has_suffix name ''.sql'' then collect_walk build es migs
      else (case content of
              None \<Rightarrow> (migs, Some (ReadMigrationFailed path))
            | Some text \<Rightarrow>
                (case build name text of
                   None \<Rightarrow> collect_walk build es migs
                 | Some m \<Rightarrow> collect_walk build es (migs @ [m]))))"

type_synonym sql_collector = "string \<Rightarrow> fs_tree \<Rightarrow> source_migration list \<times> source_error option"

definition comment_collector :: sql_collector where
  "comment_collector dir tree = collect_walk comment_migration (walk_dir dir tree) []"

definition whole_file_collector :: sql_collector where
  "whole_file_collector dir tree = collect_walk whole_file_migration (walk_dir dir tree) []"

text \<open>The third collector first pairs the files by their names, then reads them; the contents stand for the paths.\<close>

record file_pair =
  fp_up :: "walk_event option"
  fp_down :: "walk_event option"

definition pair_file :: "walk_event \<Rightarrow> (string, file_pair) gomap \<Rightarrow> (string, file_pair) gomap" where
  "pair_file e pairs =
     (let pair = (\<lambda>base. case go_get pairs base of Some p \<Rightarrow> p | None \<Rightarrow> \<lparr>fp_up = None, fp_down = None\<rparr>)
      in case cut_suffix (wf_name e) ''_up.sql'' of
           Some base \<Rightarrow> go_put base ((pair base)\<lparr>fp_up := Some e\<rparr>) pairs
         | None \<Rightarrow>
             (case cut_suffix (wf_name e) ''_down.sql'' of
                Some base \<Rightarrow> go_put base ((pair base)\<lparr>fp_down := Some e\<rparr>) pairs
              | None \<Rightarrow> pairs))"

fun pair_walk :: "walk_event list \<Rightarrow> (string, file_pair) gomap \<Rightarrow> (source_error, (string, file_pair) gomap) outcome" where
  "pair_walk [] pairs = Ok pairs"
| "pair_walk (WalkError path # es) pairs = Err (WalkFailed path)"
| "pair_walk (WalkFile path name content # es) pairs =
     pair_walk es (if has_suffix name ''.sql'' then pair_file (WalkFile path name content) pairs else pairs)"

definition read_event :: "walk_event \<Rightarrow> (source_error, string) outcome" where
  "read_event e = (case wf_content e of Some text \<Rightarrow> Ok text | None \<Rightarrow> Err (ReadPairFailed (wf_path e)))"

definition pair_migration :: "string \<times> file_pair \<Rightarrow> (source_error, source_migration list) outcome" where
  "pair_migration bp =
     (case bp of (base, p) \<Rightarrow>
        case fp_up p of
          None \<Rightarrow> Ok []
        | Some u \<Rightarrow>
            bindO (read_event u) (\<lambda>up.
              case fp_down p of
                None \<Rightarrow> Ok [statement_migration base base up None]
              | Some d \<Rightarrow> mapO (\<lambda>down. [statement_migration base base up (Some down)]) (read_event d)))"

fun pair_migrations :: "(string \<times> file_pair) list \<Rightarrow> (source_error, source_migration list) outcome" where
  "pair_migrations [] = Ok []"
| "pair_migrations (bp # bps) = bindO (pair_migration bp) (\<lambda>ms. mapO ((@) ms) (pair_migrations bps))"

definition filename_collector :: sql_collector where
  "filename_collector dir tree =
     (case bindO (pair_walk (walk_dir dir tree) []) pair_migrations of
        Ok ms \<Rightarrow> (ms, None) | Err e \<Rightarrow> ([], Some e) | Panic \<Rightarrow> ([], None))"

record sql_dir_source =
  sq_dir :: string
  sq_collector :: sql_collector

definition new_sql_dir_source :: "string \<Rightarrow> sql_collector option list \<Rightarrow> sql_dir_source" where
  "new_sql_dir_source dir collector =
     \<lparr>sq_dir = dir, sq_collector = (case collector of Some c # _ \<Rightarrow> c | _ \<Rightarrow> comment_collector)\<rparr>"

definition sql_dir_collect :: "sql_dir_source \<Rightarrow> fs_tree \<Rightarrow> source_migration list \<times> source_error option" where
  "sql_dir_collect src tree = sq_collector src (sq_dir src) tree"

text \<open>What a migrator gets: the migrations, or the error under a number.\<close>

definition migrator_source :: "(source_error \<Rightarrow> nat) \<Rightarrow> source_migration list \<times> source_error option \<Rightarrow> nat + migration list" where
  "migrator_source code r =
     (case snd r of Some e \<Rightarrow> Inl (code e) | None \<Rightarrow> Inr (map migration.truncate (fst r)))"

end
