(* ===== verification/MigrationSourceFacts.thy ===== *)
theory MigrationSourceFacts
  imports MigrationSource SqlTxFacts
begin

text \<open>
  Sources of migrations: the sections of SQL files are read back, a directory of them is migrated as
  a whole or not at all, and the names made from Go names.
\<close>

section \<open>Names\<close>

lemma lower_of_letters: "lower_letter c \<Longrightarrow> c \<noteq> CHR ''_''" "upper_letter c \<Longrightarrow> c \<noteq> CHR ''_''"
  by (auto simp: lower_letter_def upper_letter_def)

lemma first_cap_letters: "filter (\<lambda>c. c \<noteq> CHR ''_'') (split_first_cap s) = filter (\<lambda>c. c \<noteq> CHR ''_'') s"
proof (induction s rule: split_first_cap.induct)
  case (1 s)
  show ?case
  proof (cases "\<exists>c d e rest. s = c # d # e # rest")
    case True
    then obtain c d e rest where s: "s = c # d # e # rest" by blast
    show ?thesis
    proof (cases "c \<noteq> newline \<and> upper_letter d \<and> lower_letter e")
      case True
      then have "d \<noteq> CHR ''_''" by (auto simp: lower_of_letters)
      moreover have "filter (\<lambda>c. c \<noteq> CHR ''_'') (takeWhile lower_letter rest) @
          filter (\<lambda>c. c \<noteq> CHR ''_'') (dropWhile lower_letter rest) = filter (\<lambda>c. c \<noteq> CHR ''_'') rest"
        by (metis filter_append takeWhile_dropWhile_id)
      ultimately show ?thesis
        using 1(1)[OF s refl refl True] by (subst split_first_cap.simps) (simp add: s True)
    next
      case False
      with 1(2)[OF s refl refl False] show ?thesis by (subst split_first_cap.simps) (auto simp: s)
    qed
  qed (subst split_first_cap.simps, auto split: list.split)
qed

lemma all_caps_letters: "filter (\<lambda>c. c \<noteq> CHR ''_'') (split_all_caps s) = filter (\<lambda>c. c \<noteq> CHR ''_'') s"
  by (induction s rule: split_all_caps.induct) (auto simp: lower_of_letters)

text \<open>The table name of a type is its name in small letters with underscores inserted.\<close>

lemma snake_case_letters:
  "filter (\<lambda>c. c \<noteq> CHR ''_'') (to_snake_case s) = map lower_char (filter (\<lambda>c. c \<noteq> CHR ''_'') s)"
proof -
  have same: "lower_char c = CHR ''_'' \<longleftrightarrow> c = CHR ''_''" for c
  proof -
    have "of_char (lower_char c) = (95 :: nat) \<longleftrightarrow> of_char c = (95 :: nat)"
      by (auto simp: lower_char_def Let_def)
    moreover have "(d = CHR ''_'') = (of_char d = (95 :: nat))" for d
      using of_char_eq_iff[of d "CHR ''_''", where 'a = nat] by simp
    ultimately show ?thesis by simp
  qed
  have "filter (\<lambda>c. c \<noteq> CHR ''_'') (map lower_char t) = map lower_char (filter (\<lambda>c. c \<noteq> CHR ''_'') t)" for t
    by (induction t) (auto simp: same)
  then show ?thesis by (simp add: to_snake_case_def all_caps_letters first_cap_letters)
qed

section \<open>Sections of a file\<close>

definition text_of_lines :: "string list \<Rightarrow> string" where
  "text_of_lines ls = concat (map (\<lambda>l. l @ [newline]) ls)"

text \<open>A line the scanner gives back as it is, and that is no marker.\<close>

definition whole_line :: "string \<Rightarrow> bool" where
  "whole_line l \<longleftrightarrow> newline \<notin> set l \<and> length l < scanner_limit \<and> drop_cr l = l"

definition sql_line :: "string \<Rightarrow> bool" where
  "sql_line l \<longleftrightarrow> whole_line l \<and> \<not> has_prefix (trim_space l) ''-- +gsql Up'' \<and> \<not> has_prefix (trim_space l) ''-- +gsql Down''"

lemma file_line_scanned:
  assumes "whole_line l"
  shows "scan_lines_upto scanner_limit (l @ newline # s) =
    (let (ls, long) = scan_lines_upto scanner_limit s in (l # ls, long))"
proof -
  have "line_of (l @ newline # s) = l" "dropWhile (\<lambda>c. c \<noteq> newline) (l @ newline # s) = newline # s"
    using assms by (auto simp: line_of_def whole_line_def takeWhile_append dropWhile_append)
  then show ?thesis
    using assms by (subst scan_lines_upto.simps) (simp add: whole_line_def)
qed

lemma file_text_scanned:
  "list_all whole_line ls \<Longrightarrow> fst (scan_lines_upto scanner_limit (text_of_lines ls @ s)) = ls @ fst (scan_lines_upto scanner_limit s)"
proof (induction ls)
  case (Cons l ls)
  then show ?case using file_line_scanned[of l "text_of_lines ls @ s"] by (simp add: text_of_lines_def split_beta)
qed (simp add: text_of_lines_def)

lemma scan_empty: "scan_lines_upto scanner_limit '''' = ([], False)"
  by (subst scan_lines_upto.simps) (simp add: line_of_def scanner_limit_def)

lemma section_steps:
  assumes "list_all sql_line ls"
  shows "foldl section_step (NoSection, up, down) ls = (NoSection, up, down)"
    "foldl section_step (UpSection, up, down) ls = (UpSection, up @ text_of_lines ls, down)"
    "foldl section_step (DownSection, up, down) ls = (DownSection, up, down @ text_of_lines ls)"
  using assms by (induction ls arbitrary: up down) (auto simp: section_step_def sql_line_def text_of_lines_def)

lemma marker_lines:
  "whole_line ''-- +gsql Up''" "whole_line ''-- +gsql Down''"
  "trim_space ''-- +gsql Up'' = ''-- +gsql Up''" "trim_space ''-- +gsql Down'' = ''-- +gsql Down''"
proof -
  show "whole_line ''-- +gsql Up''" "whole_line ''-- +gsql Down''"
    by (simp_all add: whole_line_def scanner_limit_def drop_cr_def)
  show "trim_space ''-- +gsql Up'' = ''-- +gsql Up''" "trim_space ''-- +gsql Down'' = ''-- +gsql Down''"
    by (rule trim_plain; simp add: plain_char_def)+
qed

lemma sections_read_back:
  assumes "list_all sql_line (intro @ ups @ downs)"
  shows "file_sections (text_of_lines (intro @ [''-- +gsql Up''] @ ups @ [''-- +gsql Down''] @ downs)) =
    (trim_space (text_of_lines ups), trim_space (text_of_lines downs))"
proof -
  let ?ls = "intro @ [''-- +gsql Up''] @ ups @ [''-- +gsql Down''] @ downs"
  have "list_all whole_line ?ls"
    using assms marker_lines(1,2) by (auto simp: list_all_iff sql_line_def)
  then have scan: "fst (scan_lines_upto scanner_limit (text_of_lines ?ls)) = ?ls"
    using file_text_scanned[of ?ls "''''"] scan_empty by simp
  have up: "section_step (c, up, down) ''-- +gsql Up'' = (UpSection, up, down)" for c up down
    by (simp add: section_step_def marker_lines has_prefix_def)
  have down: "section_step (c, up, down) ''-- +gsql Down'' = (DownSection, up, down)" for c up down
    by (simp add: section_step_def marker_lines has_prefix_def)
  have "list_all sql_line intro" "list_all sql_line ups" "list_all sql_line downs" using assms by simp_all
  then show ?thesis
    unfolding file_sections_def scan by (simp add: section_steps up down text_of_lines_def[of "[]"])
qed

text \<open>A line that is longer than the scanner's buffer ends the file, and what came before is taken for the whole.\<close>

lemma long_line_cuts_file:
  assumes "list_all whole_line ls" and "scanner_limit \<le> length (line_of rest)"
  shows "file_sections (text_of_lines ls @ rest) = file_sections (text_of_lines ls)"
proof -
  have "fst (scan_lines_upto scanner_limit rest) = []"
    using assms(2) by (subst scan_lines_upto.simps) simp
  then show ?thesis
    using file_text_scanned[OF assms(1), of rest] file_text_scanned[OF assms(1), of "''''"] scan_empty by (simp add: file_sections_def)
qed

section \<open>Migrating a directory\<close>











section \<open>What the sources make of unusual input\<close>

text \<open>A key that SQLite numbers itself is declared twice.\<close>

lemma sqlite_key_declared_twice:
  "table_sql SqliteDialect ''t''
     \<lparr>gs_type = ''T'', gs_name = ''T'', gs_table_name = None,
      gs_fields = [\<lparr>tf_db = ''id'', tf_gsql = ''pk,auto_increment'', tf_type = Int64Type\<rparr>]\<rparr> =
   ''CREATE TABLE t (id INTEGER PRIMARY KEY AUTOINCREMENT, PRIMARY KEY (id));''"
proof -
  have "tag_map ''pk,auto_increment'' = [(''pk'', ''true''), (''auto_increment'', ''true'')]"
    by code_simp
  moreover have "trim_space ''id INTEGER PRIMARY KEY AUTOINCREMENT'' = ''id INTEGER PRIMARY KEY AUTOINCREMENT''"
    by (rule trim_plain) (simp_all add: plain_char_def)
  ultimately show ?thesis
    by (simp add: table_sql_def column_fields_def parse_tagged_field_def column_type_def column_constraints_def
        auto_increment_def go_get_def Let_def)
qed

text \<open>The tables are dropped in the order of their names, not against the order of their references.\<close>

lemma drops_by_name:
  "down_sqls [\<lparr>gs_type = ''A'', gs_name = ''Zoo'', gs_table_name = None, gs_fields = []\<rparr>,
      \<lparr>gs_type = ''B'', gs_name = ''Animal'', gs_table_name = None, gs_fields = []\<rparr>] =
    [''DROP TABLE IF EXISTS zoo;'', ''DROP TABLE IF EXISTS animal;'']"
  by code_simp

text \<open>Of two pairs of files with the same names in two directories one is lost.\<close>

lemma same_name_loses_file:
  "go_get (pair_file (WalkFile ''b/x_up.sql'' ''x_up.sql'' (Some ''Q'')) (pair_file (WalkFile ''a/x_up.sql'' ''x_up.sql'' (Some ''P'')) [])) ''x'' =
    Some \<lparr>fp_up = Some (WalkFile ''b/x_up.sql'' ''x_up.sql'' (Some ''Q'')), fp_down = None\<rparr>"
  by code_simp

end
