(* ===== verification/GoNet.thy ===== *)
theory GoNet
  imports Strconv HttpText
begin

text \<open>
  The functions of the standard library that the network packages use on text: addresses with ports
  (\<open>net.SplitHostPort\<close>, \<open>net.JoinHostPort\<close>), IPv4 addresses, \<open>strings.Fields\<close> and
  \<open>time.ParseDuration\<close>.  Text is a list of bytes.
\<close>

section \<open>Addresses\<close>

datatype host_port_error = MissingPort | TooManyColons | MissingBracket | UnexpectedOpen | UnexpectedClose

definition index_char :: "char \<Rightarrow> string \<Rightarrow> nat option" where
  "index_char c s = (if c \<in> set s then Some (length (takeWhile (\<lambda>d. d \<noteq> c) s)) else None)"

definition last_index_char :: "char \<Rightarrow> string \<Rightarrow> nat option" where
  "last_index_char c s = map_option (\<lambda>i. length s - Suc i) (index_char c (rev s))"

definition split_host_port :: "string \<Rightarrow> host_port_error + string \<times> string" where
  "split_host_port hp =
     (case last_index_char CHR '':'' hp of
        None \<Rightarrow> Inl MissingPort
      | Some i \<Rightarrow>
          (let port = drop (Suc i) hp;
               checked = (\<lambda>host j k.
                 if CHR ''['' \<in> set (drop j hp) then Inl UnexpectedOpen
                 else if CHR '']'' \<in> set (drop k hp) then Inl UnexpectedClose
                 else Inr (host, port))
           in if take 1 hp = ''['' then
                (case index_char CHR '']'' hp of
                   None \<Rightarrow> Inl MissingBracket
                 | Some e \<Rightarrow>
                     if Suc e = length hp then Inl MissingPort
                     else if Suc e = i then checked (take (e - 1) (drop 1 hp)) 1 (Suc e)
                     else if hp ! Suc e = CHR '':'' then Inl TooManyColons
                     else Inl MissingPort)
              else if CHR '':'' \<in> set (take i hp) then Inl TooManyColons
              else checked (take i hp) 0 0))"

definition join_host_port :: "string \<Rightarrow> string \<Rightarrow> string" where
  "join_host_port host port = (if CHR '':'' \<in> set host then ''['' @ host @ '']:'' @ port else host @ '':'' @ port)"

text \<open>The text of the four bytes of an IPv4 address.\<close>

definition ip4_string :: "bytes \<Rightarrow> string" where
  "ip4_string a = join_with CHR ''.'' (map (\<lambda>b. decimal (uint b)) a)"

lemma index_char_None [simp]: "index_char c s = None \<longleftrightarrow> c \<notin> set s"
  by (simp add: index_char_def)

lemma last_index_append: "c \<notin> set t \<Longrightarrow> last_index_char c (s @ c # t) = Some (length s)"
  by (simp add: last_index_char_def index_char_def takeWhile_append takeWhile_eq_all_conv[THEN iffD2])

lemma index_first: "c \<notin> set s \<Longrightarrow> index_char c (s @ c # t) = Some (length s)"
  by (simp add: index_char_def takeWhile_append takeWhile_eq_all_conv[THEN iffD2])

text \<open>What has been joined is split again, for any host without brackets and any plain port.\<close>

lemma split_join_host_port:
  assumes "CHR ''['' \<notin> set host" "CHR '']'' \<notin> set host"
    and "CHR '':'' \<notin> set port" "CHR ''['' \<notin> set port" "CHR '']'' \<notin> set port"
  shows "split_host_port (join_host_port host port) = Inr (host, port)"
proof (cases "CHR '':'' \<in> set host")
  case False
  then have "last_index_char CHR '':'' (host @ '':'' @ port) = Some (length host)"
    using assms(3) last_index_append[of "CHR '':''" port host] by simp
  moreover have "take 1 (host @ '':'' @ port) \<noteq> ''[''"
    using assms(1) by (cases host) auto
  ultimately show ?thesis
    using False assms by (simp add: split_host_port_def join_host_port_def)
next
  case True
  let ?hp = "''['' @ host @ '']:'' @ port"
  have "last_index_char CHR '':'' ?hp = Some (length host + 2)"
    using assms(3) last_index_append[of "CHR '':''" port "''['' @ host @ '']''"] by simp
  moreover have "index_char CHR '']'' ?hp = Some (Suc (length host))"
    using assms(2) index_first[of "CHR '']''" "CHR ''['' # host" "'':'' @ port"] by simp
  ultimately show ?thesis
    using True assms by (simp add: split_host_port_def join_host_port_def)
qed

section \<open>Words\<close>

definition space_ahead :: "string \<Rightarrow> bool" where
  "space_ahead s = list_ex (\<lambda>w. w \<noteq> [] \<and> has_prefix s w) space_codes"

fun take_word :: "string \<Rightarrow> string \<times> string" where
  "take_word [] = ([], [])"
| "take_word (c # cs) =
     (if space_ahead (c # cs) then ([], c # cs) else (let (w, r) = take_word cs in (c # w, r)))"

lemma take_word_parts: "take_word s = (w, r) \<Longrightarrow> s = w @ r"
  by (induction s arbitrary: w r) (auto split: if_splits prod.splits)

lemma trim_codes_done: "\<not> space_ahead (trim_codes space_codes s)"
proof -
  have "list_ex (\<lambda>w. w \<noteq> [] \<and> has_prefix (trim_codes codes s) w) codes = False" for codes
  proof (induction codes s rule: trim_codes.induct)
    case (1 codes s)
    then show ?case
      by (subst trim_codes.simps) (auto simp: find_None_iff list_ex_iff split: option.split)
  qed
  then show ?thesis by (simp add: space_ahead_def)
qed

lemma take_word_shorter:
  assumes "trim_codes space_codes s \<noteq> []"
  shows "length (snd (take_word (trim_codes space_codes s))) < length s"
proof -
  obtain c cs where c: "trim_codes space_codes s = c # cs"
    using assms by (cases "trim_codes space_codes s") auto
  obtain w r where w: "take_word cs = (w, r)" by fastforce
  have "length (c # cs) \<le> length s" using trim_codes_shorter[of space_codes s] by (simp add: c)
  moreover have "length r \<le> length cs" using take_word_parts[OF w] by simp
  ultimately show ?thesis using trim_codes_done[of s] by (simp add: c w)
qed

function go_fields :: "string \<Rightarrow> string list" where
  "go_fields s =
     (let s' = trim_codes space_codes s
      in if s' = [] then [] else fst (take_word s') # go_fields (snd (take_word s')))"
  by pat_completeness auto
termination
  by (relation "measure length") (auto simp: take_word_shorter)

declare go_fields.simps [simp del]

section \<open>Durations\<close>

text \<open>
  \<open>ParseDuration\<close>: decimal numbers with units, in nanoseconds.  The part after a point is computed in
  \<open>float64\<close> and is a parameter: its digits, their number and the unit give nanoseconds.
\<close>

datatype duration_error = InvalidDuration | MissingUnit | UnknownUnit

fun leading_int :: "nat \<Rightarrow> string \<Rightarrow> (nat \<times> string) option" where
  "leading_int x [] = Some (x, [])"
| "leading_int x (c # cs) =
     (if \<not> is_digit c then Some (x, c # cs)
      else if x > 2 ^ 63 div 10 then None
      else (let y = x * 10 + (of_char c - 48) in if y > 2 ^ 63 then None else leading_int y cs))"

fun leading_fraction :: "nat \<Rightarrow> nat \<Rightarrow> bool \<Rightarrow> string \<Rightarrow> nat \<times> nat \<times> string" where
  "leading_fraction x digits overflow [] = (x, digits, [])"
| "leading_fraction x digits overflow (c # cs) =
     (if \<not> is_digit c then (x, digits, c # cs)
      else if overflow \<or> x > (2 ^ 63 - 1) div 10 \<or> x * 10 + (of_char c - 48) > 2 ^ 63 then leading_fraction x digits True cs
      else leading_fraction (x * 10 + (of_char c - 48)) (Suc digits) False cs)"

definition unit_ns :: "string \<Rightarrow> nat option" where
  "unit_ns u =
     (if u = ''ns'' then Some 1
      else if u \<in> {''us'', [char_of (0xC2 :: nat), char_of (0xB5 :: nat), CHR ''s''],
          [char_of (0xCE :: nat), char_of (0xBC :: nat), CHR ''s'']} then Some 1000
      else if u = ''ms'' then Some 1000000
      else if u = ''s'' then Some 1000000000
      else if u = ''m'' then Some 60000000000
      else if u = ''h'' then Some 3600000000000
      else None)"

definition number_char :: "char \<Rightarrow> bool" where
  "number_char c \<longleftrightarrow> c = CHR ''.'' \<or> is_digit c"

definition fraction_part :: "string \<Rightarrow> nat \<times> nat \<times> string \<times> bool" where
  "fraction_part s =
     (if take 1 s = ''.'' then
        (let (f, digits, r) = leading_fraction 0 0 False (drop 1 s) in (f, digits, r, length r \<noteq> length (drop 1 s)))
      else (0, 0, s, False))"

text \<open>One number with its unit and what follows.\<close>

definition duration_part :: "(nat \<Rightarrow> nat \<Rightarrow> nat \<Rightarrow> nat) \<Rightarrow> string \<Rightarrow> duration_error + nat \<times> string" where
  "duration_part frac s =
     (if s = [] \<or> \<not> number_char (hd s) then Inl InvalidDuration
      else
        (case leading_int 0 s of
           None \<Rightarrow> Inl InvalidDuration
         | Some (v, s1) \<Rightarrow>
             (let (f, digits, s2, post) = fraction_part s1;
                  u = takeWhile (\<lambda>c. \<not> number_char c) s2
              in if length s1 = length s \<and> \<not> post then Inl InvalidDuration
                 else if u = [] then Inl MissingUnit
                 else
                   (case unit_ns u of
                      None \<Rightarrow> Inl UnknownUnit
                    | Some k \<Rightarrow>
                        if v > 2 ^ 63 div k then Inl InvalidDuration
                        else
                          (let w = (if f > 0 then (v * k + frac f digits k) mod 2 ^ 64 else v * k)
                           in if f > 0 \<and> w > 2 ^ 63 then Inl InvalidDuration
                              else Inr (w, dropWhile (\<lambda>c. \<not> number_char c) s2))))))"

lemma leading_int_rest: "leading_int x s = Some (v, r) \<Longrightarrow> length r \<le> length s"
  by (induction x s rule: leading_int.induct) (auto split: if_splits simp: Let_def)

lemma leading_fraction_rest: "leading_fraction x n b s = (f, m, r) \<Longrightarrow> length r \<le> length s"
  by (induction x n b s rule: leading_fraction.induct) (auto split: if_splits)

lemma fraction_part_rest: "fraction_part s = (f, n, r, post) \<Longrightarrow> length r \<le> length s"
  using leading_fraction_rest[of 0 0 False "drop 1 s" f n r]
  by (auto simp: fraction_part_def split: if_splits prod.splits)

lemma duration_part_rest:
  assumes "duration_part frac s = Inr (w, r)"
  shows "length r < length s"
proof -
  obtain v s1 where int: "leading_int 0 s = Some (v, s1)"
    using assms by (auto simp: duration_part_def split: if_splits option.splits)
  obtain f digits s2 post where parts: "fraction_part s1 = (f, digits, s2, post)"
    using prod_cases4 by blast
  let ?u = "takeWhile (\<lambda>c. \<not> number_char c) s2"
  have "?u \<noteq> []" and r: "r = dropWhile (\<lambda>c. \<not> number_char c) s2"
    using assms int parts by (auto simp: duration_part_def Let_def split: if_splits option.splits)
  moreover have "length ?u + length r = length s2"
    unfolding r by (metis length_append takeWhile_dropWhile_id)
  ultimately have "length r < length s2" by (metis add_less_same_cancel2 length_greater_0_conv less_add_same_cancel2)
  then show ?thesis
    using leading_int_rest[OF int] fraction_part_rest[OF parts] by simp
qed

function duration_parts :: "(nat \<Rightarrow> nat \<Rightarrow> nat \<Rightarrow> nat) \<Rightarrow> nat \<Rightarrow> string \<Rightarrow> duration_error + nat" where
  "duration_parts frac d s =
     (if s = [] then Inr d
      else
        (case duration_part frac s of
           Inl e \<Rightarrow> Inl e
         | Inr (w, r) \<Rightarrow>
             (let d = (d + w) mod 2 ^ 64
              in if d > 2 ^ 63 then Inl InvalidDuration else duration_parts frac d r)))"
  by pat_completeness auto
termination
  by (relation "measure (\<lambda>(frac, d, s). length s)") (auto simp: duration_part_rest)

declare duration_parts.simps [simp del]

definition parse_duration :: "(nat \<Rightarrow> nat \<Rightarrow> nat \<Rightarrow> nat) \<Rightarrow> string \<Rightarrow> duration_error + int" where
  "parse_duration frac s =
     (let neg = (take 1 s = ''-''); s1 = (if take 1 s = ''-'' \<or> take 1 s = ''+'' then drop 1 s else s)
      in if s1 = ''0'' then Inr 0
         else if s1 = [] then Inl InvalidDuration
         else
           (case duration_parts frac 0 s1 of
              Inl e \<Rightarrow> Inl e
            | Inr d \<Rightarrow>
                if neg then Inr (- int d)
                else if d > 2 ^ 63 - 1 then Inl InvalidDuration
                else Inr (int d)))"

end
