(* ===== verification/Resolver.thy ===== *)
theory Resolver
  imports GoNet
begin

text \<open>
  \<open>gresolver\<close>: the resolvers, their configuration and the exchange with name servers.  Packing and
  unpacking of DNS messages and the check of names (\<open>golang.org/x/net/dns/dnsmessage\<close>) are a
  parameter, and so are the servers: what a datagram sent as the k-th query brings.  Text is ASCII.
\<close>

section \<open>Host names (\<open>resolver.go\<close>)\<close>

definition is_dns_style_domain :: "string \<Rightarrow> bool" where
  "is_dns_style_domain host =
     (if host = '''' then False
      else (case index_char CHR ''.'' host of
              None \<Rightarrow> False
            | Some i \<Rightarrow> i \<noteq> 0 \<and> i \<noteq> length host - 1))"

definition to_dns_style_domain :: "string \<Rightarrow> string" where
  "to_dns_style_domain host =
     (if is_dns_style_domain host then host else if host = '''' then '''' else host @ ''.local'')"

definition to_dns_query_format :: "string \<Rightarrow> string" where
  "to_dns_query_format host =
     (if host = '''' then ''.''
      else if last host = CHR ''.'' then host
      else (if is_dns_style_domain host then host else to_dns_style_domain host) @ ''.'')"

section \<open>Configuration (\<open>parser.go\<close>)\<close>

record dns_config =
  dc_nameservers :: "string list"
  dc_search :: "string list"
  dc_domain :: string
  dc_options :: "string list"
  dc_ndots :: int
  dc_timeout :: int
  dc_attempts :: int

definition default_ns :: "string list" where
  "default_ns = [''127.0.0.1:53'', ''[::1]:53'']"

definition second_ns :: int where "second_ns = 1000000000"

datatype resolve_error = ReadFailed string | LineTooLong

text \<open>The number after the colon of an option; an option that cannot be read is passed over.\<close>

definition option_value :: "string \<Rightarrow> string \<Rightarrow> (string \<Rightarrow> int option) \<Rightarrow> (int \<Rightarrow> dns_config \<Rightarrow> dns_config) \<Rightarrow> dns_config \<Rightarrow> dns_config" where
  "option_value opt name parse store conf =
     (if length opt > length name then
        (case parse (drop (length name) opt) of Some n \<Rightarrow> store n conf | None \<Rightarrow> conf)
      else conf)"

definition atoi_value :: "string \<Rightarrow> int option" where
  "atoi_value s = (case atoi s of Ok n \<Rightarrow> Some n | _ \<Rightarrow> None)"

definition duration_value :: "(nat \<Rightarrow> nat \<Rightarrow> nat \<Rightarrow> nat) \<Rightarrow> string \<Rightarrow> int option" where
  "duration_value frac s = (case parse_duration frac s of Inr d \<Rightarrow> Some d | Inl _ \<Rightarrow> None)"

definition apply_dns_option :: "(nat \<Rightarrow> nat \<Rightarrow> nat \<Rightarrow> nat) \<Rightarrow> string \<Rightarrow> dns_config \<Rightarrow> dns_config" where
  "apply_dns_option frac opt conf =
     (if has_prefix opt ''ndots:'' then option_value opt ''ndots:'' atoi_value (\<lambda>n c. c\<lparr>dc_ndots := n\<rparr>) conf
      else if has_prefix opt ''timeout:'' then
        option_value opt ''timeout:'' (duration_value frac) (\<lambda>n c. c\<lparr>dc_timeout := n\<rparr>) conf
      else if has_prefix opt ''attempts:'' then
        option_value opt ''attempts:'' atoi_value (\<lambda>n c. c\<lparr>dc_attempts := n\<rparr>) conf
      else if has_prefix opt ''edns0'' then conf
      else conf\<lparr>dc_options := dc_options conf @ [opt]\<rparr>)"

definition resolve_line :: "(nat \<Rightarrow> nat \<Rightarrow> nat \<Rightarrow> nat) \<Rightarrow> dns_config \<Rightarrow> string \<Rightarrow> (resolve_error, dns_config) outcome" where
  "resolve_line frac conf raw =
     (let line = map lower_char (trim_space raw)
      in if has_prefix line ''#'' \<or> line = '''' then Ok conf
         else (case go_fields line of
                 [] \<Rightarrow> Panic
               | directive # args \<Rightarrow>
                   Ok (if directive = ''options'' then foldl (\<lambda>c opt. apply_dns_option frac opt c) conf args
                       else conf)))"

fun resolve_lines :: "(nat \<Rightarrow> nat \<Rightarrow> nat \<Rightarrow> nat) \<Rightarrow> dns_config \<Rightarrow> string list \<Rightarrow> (resolve_error, dns_config) outcome" where
  "resolve_lines frac conf [] = Ok conf"
| "resolve_lines frac conf (l # ls) = bindO (resolve_line frac conf l) (\<lambda>c. resolve_lines frac c ls)"

definition parsed_defaults :: dns_config where
  "parsed_defaults =
     \<lparr>dc_nameservers = [], dc_search = [], dc_domain = '''', dc_options = [], dc_ndots = 1,
      dc_timeout = 5 * second_ns, dc_attempts = 2\<rparr>"

text \<open>The file is given by its content or by the error of reading it.\<close>

definition parse_resolve_file :: "(nat \<Rightarrow> nat \<Rightarrow> nat \<Rightarrow> nat) \<Rightarrow> string + string \<Rightarrow> (resolve_error, dns_config) outcome" where
  "parse_resolve_file frac file =
     (case file of
        Inl e \<Rightarrow> Err (ReadFailed e)
      | Inr content \<Rightarrow>
          (case scan_lines_upto (64 * 1024) content of
             (ls, long) \<Rightarrow>
               bindO (resolve_lines frac parsed_defaults ls) (\<lambda>conf. if long then Err LineTooLong else Ok conf)))"

definition validate :: "dns_config \<Rightarrow> dns_config" where
  "validate c =
     (let c = (if dc_nameservers c = [] then c\<lparr>dc_nameservers := default_ns\<rparr> else c);
          c = (if dc_timeout c \<le> 0 then c\<lparr>dc_timeout := 5 * second_ns\<rparr> else c);
          c = (if dc_attempts c \<le> 0 then c\<lparr>dc_attempts := 2\<rparr> else c)
      in if dc_ndots c \<le> 0 then c\<lparr>dc_ndots := 1\<rparr> else c)"

type_synonym dns_setting = "dns_config \<Rightarrow> (resolve_error, dns_config) outcome"

definition with_resolve_file :: "(nat \<Rightarrow> nat \<Rightarrow> nat \<Rightarrow> nat) \<Rightarrow> string + string \<Rightarrow> dns_setting" where
  "with_resolve_file frac file c =
     (case parse_resolve_file frac file of
        Ok conf \<Rightarrow>
          (let conf = validate conf
           in Ok (c\<lparr>dc_nameservers := dc_nameservers conf, dc_search := dc_search conf, dc_domain := dc_domain conf,
                   dc_options := dc_options conf, dc_ndots := dc_ndots conf, dc_timeout := dc_timeout conf,
                   dc_attempts := dc_attempts conf\<rparr>))
      | _ \<Rightarrow> Panic)"

definition with_nameservers :: "string list \<Rightarrow> dns_setting" where
  "with_nameservers ns c = Ok (c\<lparr>dc_nameservers := ns\<rparr>)"

definition with_search :: "string list \<Rightarrow> dns_setting" where
  "with_search search c = Ok (c\<lparr>dc_search := search\<rparr>)"

definition with_domain :: "string \<Rightarrow> dns_setting" where
  "with_domain domain c = Ok (c\<lparr>dc_domain := domain\<rparr>)"

definition with_dns_options :: "string list \<Rightarrow> dns_setting" where
  "with_dns_options opts c = Ok (c\<lparr>dc_options := opts\<rparr>)"

definition with_ndots :: "int \<Rightarrow> dns_setting" where
  "with_ndots n c = Ok (c\<lparr>dc_ndots := n\<rparr>)"

definition with_dns_timeout :: "int \<Rightarrow> dns_setting" where
  "with_dns_timeout t c = Ok (c\<lparr>dc_timeout := t\<rparr>)"

definition with_dns_attempts :: "int \<Rightarrow> dns_setting" where
  "with_dns_attempts n c = Ok (c\<lparr>dc_attempts := n\<rparr>)"

section \<open>The default resolver (\<open>default.go\<close>)\<close>

fun apply_settings :: "dns_setting option list \<Rightarrow> dns_config \<Rightarrow> (resolve_error, dns_config) outcome" where
  "apply_settings [] c = Ok c"
| "apply_settings (None # opts) c = apply_settings opts c"
| "apply_settings (Some f # opts) c = bindO (f c) (apply_settings opts)"

text \<open>The timeout before the settings is 5, that is five nanoseconds.\<close>

definition new_default_resolver :: "dns_setting option list \<Rightarrow> (resolve_error, dns_config) outcome" where
  "new_default_resolver opts =
     mapO validate (apply_settings opts
       \<lparr>dc_nameservers = default_ns, dc_search = [], dc_domain = '''', dc_options = [], dc_ndots = 1,
        dc_timeout = 5, dc_attempts = 2\<rparr>)"

text \<open>Messages, as far as the resolver looks at them.\<close>

datatype dns_type = TypeA | TypeCNAME

datatype dns_resource = AResource bytes | CnameResource string | OtherResource

record dns_message =
  dm_id :: "16 word"
  dm_response :: bool
  dm_recursion_desired :: bool
  dm_questions :: "(string \<times> dns_type) list"
  dm_answers :: "dns_resource list"

datatype dns_cause = InvalidDomainName | NoIPFound | IDMismatch | NoResponse | Cause string | AllFailed dns_error
and dns_error = DNSError (de_op: string) (de_name: string) (de_server: string) (de_err: dns_cause) | InvalidName string

datatype datagram_answer = DialFailed string | WriteFailed string | ReadError string | Datagram bytes

record dns_env =
  dn_check_name :: "string \<Rightarrow> string option"
  dn_pack :: "dns_message \<Rightarrow> string + bytes"
  dn_unpack :: "bytes \<Rightarrow> string + dns_message"
  dn_now :: "nat \<Rightarrow> int"
  dn_answer :: "nat \<Rightarrow> string \<Rightarrow> int \<Rightarrow> int \<Rightarrow> bytes \<Rightarrow> datagram_answer"

definition udp_max_size :: nat where "udp_max_size = 512"

definition server_address :: "string \<Rightarrow> string" where
  "server_address ns = (case split_host_port ns of Inl _ \<Rightarrow> join_host_port ns ''53'' | Inr _ \<Rightarrow> ns)"

definition query_server :: "dns_env \<Rightarrow> dns_config \<Rightarrow> int option \<Rightarrow> 16 word \<Rightarrow> bytes \<Rightarrow> nat \<Rightarrow> string \<Rightarrow> dns_error + dns_message" where
  "query_server env cfg deadline ident packed k ns =
     (let addr = server_address ns;
          until = (case deadline of Some d \<Rightarrow> d | None \<Rightarrow> dn_now env k + dc_timeout cfg)
      in case dn_answer env k addr (dc_timeout cfg) until packed of
           DialFailed e \<Rightarrow> Inl (DNSError ''dial'' '''' addr (Cause e))
         | WriteFailed e \<Rightarrow> Inl (DNSError ''write'' '''' addr (Cause e))
         | ReadError e \<Rightarrow> Inl (DNSError ''read'' '''' addr (Cause e))
         | Datagram bs \<Rightarrow>
             (case dn_unpack env (take udp_max_size bs) of
                Inl e \<Rightarrow> Inl (DNSError ''unpack'' '''' addr (Cause e))
              | Inr response \<Rightarrow>
                  if dm_id response \<noteq> ident then Inl (DNSError ''verify'' '''' addr IDMismatch)
                  else Inr response))"

text \<open>
  One round over the servers, from query \<open>k\<close> on: the response, or the last error and the number of
  the next query.
\<close>

fun ask_round :: "(nat \<Rightarrow> string \<Rightarrow> dns_error + dns_message) \<Rightarrow> nat \<Rightarrow> dns_error option \<Rightarrow> string list \<Rightarrow>
    dns_message + dns_error option \<times> nat" where
  "ask_round query k e [] = Inr (e, k)"
| "ask_round query k e (ns # nss) =
     (case query k ns of Inl e' \<Rightarrow> ask_round query (Suc k) (Some e') nss | Inr m \<Rightarrow> Inl m)"

fun ask_rounds :: "(nat \<Rightarrow> string \<Rightarrow> dns_error + dns_message) \<Rightarrow> nat \<Rightarrow> nat \<Rightarrow> dns_error option \<Rightarrow> string list \<Rightarrow>
    dns_message + dns_error option" where
  "ask_rounds query 0 k e nss = Inr e"
| "ask_rounds query (Suc n) k e nss =
     (case ask_round query k e nss of Inl m \<Rightarrow> Inl m | Inr (e', k') \<Rightarrow> ask_rounds query n k' e' nss)"

definition exchange :: "dns_env \<Rightarrow> dns_config \<Rightarrow> int option \<Rightarrow> dns_message \<Rightarrow> (dns_error, dns_message) outcome" where
  "exchange env cfg deadline msg =
     (case dn_pack env msg of
        Inl e \<Rightarrow> Err (DNSError ''pack'' '''' '''' (Cause e))
      | Inr packed \<Rightarrow>
          (case ask_rounds (query_server env cfg deadline (dm_id msg) packed) (nat (dc_attempts cfg)) 0 None (dc_nameservers cfg) of
             Inl m \<Rightarrow> Ok m
           | Inr (Some e) \<Rightarrow> Err (DNSError ''resolve'' '''' '''' (AllFailed e))
           | Inr None \<Rightarrow> Err (DNSError ''resolve'' '''' '''' NoResponse)))"

definition dns_question :: "int \<Rightarrow> string \<Rightarrow> dns_type \<Rightarrow> dns_message" where
  "dns_question now name t =
     \<lparr>dm_id = word_of_int now, dm_response = False, dm_recursion_desired = True, dm_questions = [(name, t)], dm_answers = []\<rparr>"

fun a_records :: "dns_resource list \<Rightarrow> bytes list" where
  "a_records [] = []"
| "a_records (AResource a # rs) = a # a_records rs"
| "a_records (_ # rs) = a_records rs"

fun first_cname :: "dns_resource list \<Rightarrow> string option" where
  "first_cname [] = None"
| "first_cname (CnameResource c # rs) = Some c"
| "first_cname (_ # rs) = first_cname rs"

text \<open>\<open>now\<close> is the time of the call, from whose low bits the identifier of the question is made.\<close>

definition lookup_ip_addr :: "dns_env \<Rightarrow> dns_config \<Rightarrow> int option \<Rightarrow> int \<Rightarrow> string \<Rightarrow> (dns_error, bytes list) outcome" where
  "lookup_ip_addr env cfg deadline now host =
     (let host = to_dns_query_format host
      in case dn_check_name env host of
           Some _ \<Rightarrow> Err (DNSError ''lookup'' host '''' InvalidDomainName)
         | None \<Rightarrow>
             bindO (exchange env cfg deadline (dns_question now host TypeA)) (\<lambda>resp.
               let addrs = a_records (dm_answers resp)
               in if addrs = [] then Err (DNSError ''lookup'' host '''' NoIPFound) else Ok addrs))"

definition lookup_host :: "dns_env \<Rightarrow> dns_config \<Rightarrow> int option \<Rightarrow> int \<Rightarrow> string \<Rightarrow> (dns_error, string list) outcome" where
  "lookup_host env cfg deadline now host = mapO (map ip4_string) (lookup_ip_addr env cfg deadline now host)"

definition lookup_cname :: "dns_env \<Rightarrow> dns_config \<Rightarrow> int option \<Rightarrow> int \<Rightarrow> string \<Rightarrow> (dns_error, string) outcome" where
  "lookup_cname env cfg deadline now host =
     (let host = to_dns_query_format host
      in case dn_check_name env host of
           Some e \<Rightarrow> Err (InvalidName e)
         | None \<Rightarrow>
             mapO (\<lambda>resp. case first_cname (dm_answers resp) of Some c \<Rightarrow> c | None \<Rightarrow> host)
               (exchange env cfg deadline (dns_question now host TypeCNAME)))"

section \<open>Errors (\<open>error.go\<close>)\<close>

fun cause_text :: "dns_cause \<Rightarrow> string" and dns_error_text :: "dns_error \<Rightarrow> string" where
  "cause_text InvalidDomainName = ''invalid domain name''"
| "cause_text NoIPFound = ''no IP addresses found''"
| "cause_text IDMismatch = ''DNS message ID mismatch''"
| "cause_text NoResponse = ''no DNS servers responded''"
| "cause_text (Cause s) = s"
| "cause_text (AllFailed e) = ''all servers failed: '' @ dns_error_text e"
| "dns_error_text (DNSError op name server e) =
     (if server \<noteq> '''' then ''dns '' @ op @ '' '' @ name @ '' on server '' @ server @ '': '' @ cause_text e
      else ''dns '' @ op @ '' '' @ name @ '': '' @ cause_text e)"
| "dns_error_text (InvalidName s) = ''invalid domain name: '' @ s"

section \<open>The registry of resolvers\<close>

datatype resolver = SystemResolver | PureGoResolver | DefaultResolver dns_config | OtherResolver string

fun scheme :: "resolver \<Rightarrow> string" where
  "scheme SystemResolver = ''system''"
| "scheme PureGoResolver = ''pure-go''"
| "scheme (DefaultResolver c) = ''default''"
| "scheme (OtherResolver s) = s"

datatype registry_error = InvalidResolverName | AlreadyRegistered

type_synonym resolver_factory = "(string, resolver) gomap"

definition register_resolver :: "string \<Rightarrow> resolver \<Rightarrow> resolver_factory \<Rightarrow> registry_error option \<times> resolver_factory" where
  "register_resolver name r f =
     (if name = '''' then (Some InvalidResolverName, f)
      else if go_get f name \<noteq> None then (Some AlreadyRegistered, f)
      else (None, go_put name r f))"

definition get_resolver_by_name :: "string \<Rightarrow> resolver_factory \<Rightarrow> registry_error + resolver" where
  "get_resolver_by_name name f = (case go_get f name of None \<Rightarrow> Inl InvalidResolverName | Some r \<Rightarrow> Inr r)"

definition initial_factory :: "(resolve_error, resolver_factory) outcome" where
  "initial_factory =
     mapO (\<lambda>cfg.
         let add = (\<lambda>r f. snd (register_resolver (scheme r) r f))
         in add (DefaultResolver cfg) (add PureGoResolver (add SystemResolver [])))
       (new_default_resolver [])"

end
