(* ===== verification/ResolverFacts.thy ===== *)
theory ResolverFacts
  imports Resolver
begin

text \<open>
  Resolvers: names in the form of queries, configurations that are always usable, the order in which
  the servers are asked, and what is made of unusual configurations.
\<close>

section \<open>Names\<close>

lemma query_format_ends: "last (to_dns_query_format h) = CHR ''.''" "to_dns_query_format h \<noteq> ''''"
  by (simp_all add: to_dns_query_format_def)

lemma query_format_idempotent: "to_dns_query_format (to_dns_query_format h) = to_dns_query_format h"
  using query_format_ends[of h] by (simp add: to_dns_query_format_def)

section \<open>Configurations\<close>

definition usable :: "dns_config \<Rightarrow> bool" where
  "usable c \<longleftrightarrow> dc_nameservers c \<noteq> [] \<and> 0 < dc_timeout c \<and> 0 < dc_attempts c \<and> 0 < dc_ndots c"


lemma validate_keeps: "usable c \<Longrightarrow> validate c = c"
  by (simp add: usable_def validate_def)


text \<open>The bytes of white space are no letters, so that a trimmed line in small letters begins with a word.\<close>

lemma space_codes_no_letters:
  "list_all (\<lambda>w. list_all (\<lambda>c. \<not> (97 \<le> (of_char c :: nat) \<and> (of_char c :: nat) \<le> 122)) w) space_codes"
  by code_simp

lemma lower_same: "lower_char c = c \<or> 97 \<le> (of_char (lower_char c) :: nat) \<and> (of_char (lower_char c) :: nat) \<le> 122"
  by (auto simp: lower_char_def Let_def)

lemma lower_space_ahead:
  assumes "space_ahead (map lower_char s)"
  shows "space_ahead s"
proof -
  obtain w where w: "w \<in> set space_codes" "w \<noteq> []" "has_prefix (map lower_char s) w"
    using assms by (auto simp: space_ahead_def list_ex_iff)
  then have w_eq: "map lower_char (take (length w) s) = w" by (simp add: has_prefix_def take_map)
  have "list_all (\<lambda>c. \<not> (97 \<le> (of_char c :: nat) \<and> (of_char c :: nat) \<le> 122)) w"
    using w(1) space_codes_no_letters by (simp add: list_all_iff)
  then have "list_all (\<lambda>c. lower_char c = c) (take (length w) s)"
    using lower_same by (subst (asm) w_eq[symmetric]) (auto simp: list_all_iff)
  then have "map lower_char (take (length w) s) = take (length w) s"
    by (simp add: list_all_iff map_idI)
  with w w_eq show ?thesis by (auto simp: space_ahead_def list_ex_iff has_prefix_def)
qed

lemma no_space_trim: "\<not> space_ahead s \<Longrightarrow> trim_codes space_codes s = s"
  by (rule trim_codes_stop) (auto simp: space_ahead_def list_ex_iff)

lemma fields_of_word: "s \<noteq> [] \<Longrightarrow> \<not> space_ahead s \<Longrightarrow> go_fields s \<noteq> []"
  by (subst go_fields.simps) (simp add: no_space_trim Let_def)

lemma trimmed_no_space: "\<not> space_ahead (trim_space s)"
proof -
  let ?t = "trim_codes space_codes s"
  obtain k where k: "trim_codes (map rev space_codes) (rev ?t) = drop k (rev ?t)"
    using trim_codes_drop by blast
  have "has_prefix ?t w" if "has_prefix (trim_space s) w" for w
  proof -
    have "trim_space s = take (length ?t - k) ?t" by (simp add: trim_space_def k rev_drop)
    with that have "take (length w) (take (length ?t - k) ?t) = w" by (simp add: has_prefix_def)
    then show ?thesis by (metis has_prefix_def length_take take_take min.left_idem min.commute)
  qed
  then show ?thesis
    using trim_codes_done[of s] by (auto simp: space_ahead_def list_ex_iff)
qed

lemma resolve_line_Ok: "\<exists>c'. resolve_line frac c l = Ok c'"
proof -
  have "go_fields (map lower_char (trim_space l)) \<noteq> []" if "trim_space l \<noteq> ''''"
    using that trimmed_no_space lower_space_ahead by (intro fields_of_word) auto
  then show ?thesis by (auto simp: resolve_line_def Let_def split: list.split)
qed

lemma resolve_lines_Ok: "\<exists>c'. resolve_lines frac c ls = Ok c'"
proof (induction ls arbitrary: c)
  case (Cons l ls)
  then show ?case using resolve_line_Ok[of frac c l] by auto
qed simp

text \<open>Reading a file never panics: the words of a line are looked at only where there are some.\<close>

lemma parse_file_no_panic: "parse_resolve_file frac file \<noteq> Panic"
  using resolve_lines_Ok[of frac parsed_defaults]
  by (auto simp: parse_resolve_file_def bindO_eq_Panic_iff split: sum.split prod.split)
     (metis outcome.distinct(3) outcome.distinct(5) outcome.distinct(1))

text \<open>Only lines of options count; name servers, domains and search lists are read over.\<close>

lemma apply_option_fixed:
  "dc_nameservers (apply_dns_option frac opt c) = dc_nameservers c"
  "dc_search (apply_dns_option frac opt c) = dc_search c"
  "dc_domain (apply_dns_option frac opt c) = dc_domain c"
  by (auto simp: apply_dns_option_def option_value_def split: option.split)

lemma resolve_lines_fixed:
  "resolve_lines frac c ls = Ok c' \<Longrightarrow>
     dc_nameservers c' = dc_nameservers c \<and> dc_search c' = dc_search c \<and> dc_domain c' = dc_domain c"
proof (induction ls arbitrary: c)
  case (Cons l ls)
  have fold: "dc_nameservers (foldl (\<lambda>c opt. apply_dns_option frac opt c) c opts) = dc_nameservers c \<and>
      dc_search (foldl (\<lambda>c opt. apply_dns_option frac opt c) c opts) = dc_search c \<and>
      dc_domain (foldl (\<lambda>c opt. apply_dns_option frac opt c) c opts) = dc_domain c" for c opts
    by (induction opts arbitrary: c) (simp_all add: apply_option_fixed)
  obtain d where d: "resolve_line frac c l = Ok d" using resolve_line_Ok by blast
  then have "dc_nameservers d = dc_nameservers c \<and> dc_search d = dc_search c \<and> dc_domain d = dc_domain c"
    using fold by (auto simp: resolve_line_def Let_def split: if_splits list.splits)
  then show ?case using Cons d by auto
qed simp

text \<open>Whatever the file says, a resolver made from it asks the default servers.\<close>

lemma file_nameservers_ignored:
  assumes "with_resolve_file frac file c = Ok c'"
  shows "dc_nameservers c' = default_ns \<and> dc_search c' = [] \<and> dc_domain c' = ''''"
proof -
  obtain conf where conf: "parse_resolve_file frac file = Ok conf" and c': "dc_nameservers c' = dc_nameservers (validate conf)"
      "dc_search c' = dc_search (validate conf)" "dc_domain c' = dc_domain (validate conf)"
    using assms by (auto simp: with_resolve_file_def Let_def split: outcome.splits)
  then have "dc_nameservers conf = [] \<and> dc_search conf = [] \<and> dc_domain conf = ''''"
    using resolve_lines_fixed[of frac parsed_defaults]
    by (auto simp: parse_resolve_file_def bindO_eq_Ok_iff parsed_defaults_def split: sum.splits prod.splits if_splits)
  then show ?thesis by (simp add: c' validate_def Let_def)
qed

text \<open>The timeout of a resolver made without settings is five nanoseconds.\<close>

lemma default_timeout_nanoseconds: "\<exists>c. new_default_resolver [] = Ok c \<and> dc_timeout c = 5"
  by (simp add: new_default_resolver_def validate_def Let_def default_ns_def)

text \<open>The timeout that resolver files give in seconds, without a unit, is not read.\<close>

lemma timeout_without_unit_ignored: "apply_dns_option frac ''timeout:3'' c = c"
  "dc_timeout (apply_dns_option frac ''timeout:3s'' c) = 3 * second_ns"
proof -
  have "duration_part frac ''3'' = Inl MissingUnit"
    by (simp add: duration_part_def fraction_part_def is_digit_def number_char_def unit_ns_def)
  moreover have "duration_part frac ''3s'' = Inr (3000000000, '''')"
    by (simp add: duration_part_def fraction_part_def is_digit_def number_char_def unit_ns_def)
  ultimately show "apply_dns_option frac ''timeout:3'' c = c"
    "dc_timeout (apply_dns_option frac ''timeout:3s'' c) = 3 * second_ns"
    by (simp_all add: apply_dns_option_def option_value_def has_prefix_def duration_value_def parse_duration_def
        duration_parts.simps second_ns_def)
qed

section \<open>Asking the servers\<close>







text \<open>What is heard carries the identifier of the question.\<close>

lemma heard_matches: "query_server env cfg deadline ident packed k ns = Inr m \<Longrightarrow> dm_id m = ident"
  by (auto simp: query_server_def Let_def split: datagram_answer.splits sum.splits if_splits)




section \<open>The registry\<close>

lemma registered_is_found:
  "register_resolver name r f = (None, f') \<Longrightarrow> get_resolver_by_name name f' = Inr r"
  by (auto simp: register_resolver_def get_resolver_by_name_def split: if_splits)

lemma register_keeps_others:
  "register_resolver name r f = (e, f') \<Longrightarrow> get_resolver_by_name other f = Inr s \<Longrightarrow> get_resolver_by_name other f' = Inr s"
  by (auto simp: register_resolver_def get_resolver_by_name_def split: if_splits option.splits)

lemma initial_resolvers:
  "\<exists>f c. initial_factory = Ok f \<and> get_resolver_by_name ''system'' f = Inr SystemResolver \<and>
     get_resolver_by_name ''pure-go'' f = Inr PureGoResolver \<and> get_resolver_by_name ''default'' f = Inr (DefaultResolver c)"
  by (simp add: initial_factory_def new_default_resolver_def register_resolver_def get_resolver_by_name_def)

section \<open>Unusual input\<close>

text \<open>An IPv6 address in brackets without a port is not a usable address any more.\<close>

lemma bracketed_address_broken: "server_address ''[::1]'' = ''[[::1]]:53''" "server_address ''::1'' = ''[::1]:53''"
  by code_simp+

text \<open>A name without a dot is looked up under another name, a name with its trailing dot as it is.\<close>

lemma single_label_renamed: "to_dns_query_format ''localhost'' = ''localhost.local.''" "to_dns_query_format ''localhost.'' = ''localhost.''"
  by code_simp+

text \<open>A datagram that only repeats the question is taken for a response.\<close>

lemma echo_is_response:
  "dn_answer env k (server_address ns) (dc_timeout cfg) d packed = Datagram bs \<Longrightarrow>
   dn_unpack env (take udp_max_size bs) = Inr (dns_question now name t) \<Longrightarrow>
   query_server env cfg (Some d) (word_of_int now) packed k ns = Inr (dns_question now name t)"
  by (simp add: query_server_def dns_question_def)

end
