(* ===== verification/StaticFiles.thy ===== *)
theory StaticFiles
  imports ServerContext Matcher GoNet
begin

text \<open>
  The rest of \<open>ghttp/gserver/server.go\<close>: the settings of the server (\<open>config.go\<close>), its address,
  the static files, the routes of \<open>Static\<close> and \<open>StaticFS\<close> with those of the groups, and the
  template renderer (\<open>render.go\<close>).  A file system is a function from names to what \<open>Open\<close> and
  \<open>Stat\<close> give; the calls on it are kept as a list of events.  \<open>http.ServeContent\<close> and the parser of
  templates are arguments.
\<close>

section \<open>Settings\<close>

record ('m, 'c, 'l, 'r) server_config =
  sc_matcher :: "'m option"
  sc_codec :: "'c option"
  sc_logger :: "'l option"
  sc_raw_path :: bool
  sc_render :: "'r option"
  sc_concurrency :: int
  sc_read_buffer :: int
  sc_write_buffer :: int
  sc_read_timeout :: int
  sc_write_timeout :: int
  sc_idle_timeout :: int
  sc_conns_per_ip :: int
  sc_requests_per_conn :: int
  sc_idle_worker :: int
  sc_keepalive_period :: int
  sc_body_size :: int
  sc_no_keepalive :: bool
  sc_tcp_keepalive :: bool
  sc_reduce_memory :: bool
  sc_get_only :: bool
  sc_no_form_parse :: bool
  sc_no_header_names :: bool
  sc_no_server_header :: bool
  sc_no_date :: bool
  sc_no_content_type :: bool
  sc_keep_hijacked :: bool
  sc_close_on_shutdown :: bool
  sc_stream_body :: bool

text \<open>The fields of \<open>fasthttp.Server\<close>; a field \<open>NewServer\<close> does not set has its zero value.\<close>

record fast_server =
  fs_concurrency :: int
  fs_read_buffer :: int
  fs_write_buffer :: int
  fs_read_timeout :: int
  fs_write_timeout :: int
  fs_idle_timeout :: int
  fs_conns_per_ip :: int
  fs_requests_per_conn :: int
  fs_idle_worker :: int
  fs_keepalive_period :: int
  fs_body_size :: int
  fs_no_keepalive :: bool
  fs_tcp_keepalive :: bool
  fs_reduce_memory :: bool
  fs_get_only :: bool
  fs_no_form_parse :: bool
  fs_no_header_names :: bool
  fs_no_server_header :: bool
  fs_no_date :: bool
  fs_no_content_type :: bool
  fs_keep_hijacked :: bool
  fs_close_on_shutdown :: bool
  fs_stream_body :: bool

definition with_matcher ::
  "'m option \<Rightarrow> ('m, 'c, 'l, 'r) server_config \<Rightarrow> ('m, 'c, 'l, 'r) server_config" where
  "with_matcher m c = (if m \<noteq> None then c\<lparr>sc_matcher := m\<rparr> else c)"

definition with_codec ::
  "'c option \<Rightarrow> ('m, 'c, 'l, 'r) server_config \<Rightarrow> ('m, 'c, 'l, 'r) server_config" where
  "with_codec m c = (if m \<noteq> None then c\<lparr>sc_codec := m\<rparr> else c)"

definition with_server_logger ::
  "'l option \<Rightarrow> ('m, 'c, 'l, 'r) server_config \<Rightarrow> ('m, 'c, 'l, 'r) server_config" where
  "with_server_logger m c = (if m \<noteq> None then c\<lparr>sc_logger := m\<rparr> else c)"

definition with_use_raw_path :: "bool \<Rightarrow> ('m, 'c, 'l, 'r) server_config \<Rightarrow> ('m, 'c, 'l, 'r) server_config" where
  "with_use_raw_path use c = c\<lparr>sc_raw_path := use\<rparr>"

definition with_render ::
  "'r option \<Rightarrow> ('m, 'c, 'l, 'r) server_config \<Rightarrow> ('m, 'c, 'l, 'r) server_config" where
  "with_render m c = (if m \<noteq> None then c\<lparr>sc_render := m\<rparr> else c)"

definition base_config :: "'c \<Rightarrow> 'l \<Rightarrow> ('h server_matcher, 'c, 'l, 'r) server_config" where
  "base_config codec logger =
     \<lparr>sc_matcher = Some new_server_matcher, sc_codec = Some codec, sc_logger = Some logger,
      sc_raw_path = False, sc_render = None, sc_concurrency = 0, sc_read_buffer = 0,
      sc_write_buffer = 0, sc_read_timeout = 0, sc_write_timeout = 0, sc_idle_timeout = 0,
      sc_conns_per_ip = 0, sc_requests_per_conn = 0, sc_idle_worker = 0, sc_keepalive_period = 0,
      sc_body_size = 0, sc_no_keepalive = False, sc_tcp_keepalive = False, sc_reduce_memory = False,
      sc_get_only = False, sc_no_form_parse = False, sc_no_header_names = False,
      sc_no_server_header = False, sc_no_date = False, sc_no_content_type = False,
      sc_keep_hijacked = False, sc_close_on_shutdown = False, sc_stream_body = False\<rparr>"

definition fast_settings :: "('m, 'c, 'l, 'r) server_config \<Rightarrow> fast_server" where
  "fast_settings c =
     \<lparr>fs_concurrency = sc_concurrency c, fs_read_buffer = 0, fs_write_buffer = 0, fs_read_timeout = 0,
      fs_write_timeout = 0, fs_idle_timeout = sc_idle_timeout c, fs_conns_per_ip = sc_conns_per_ip c,
      fs_requests_per_conn = sc_requests_per_conn c, fs_idle_worker = sc_idle_worker c,
      fs_keepalive_period = sc_keepalive_period c, fs_body_size = sc_body_size c,
      fs_no_keepalive = sc_no_keepalive c, fs_tcp_keepalive = sc_tcp_keepalive c,
      fs_reduce_memory = sc_reduce_memory c, fs_get_only = False, fs_no_form_parse = sc_no_form_parse c,
      fs_no_header_names = sc_no_header_names c, fs_no_server_header = sc_no_server_header c,
      fs_no_date = sc_no_date c, fs_no_content_type = sc_no_content_type c, fs_keep_hijacked = False,
      fs_close_on_shutdown = False, fs_stream_body = sc_stream_body c\<rparr>"

record ('h, 'c, 'l, 'r) http_server =
  sv_config :: "('h server_matcher, 'c, 'l, 'r) server_config"
  sv_fast :: fast_server
  sv_root :: "'h router_group"
  sv_match :: "'h server_matcher"

definition new_server ::
  "'c \<Rightarrow> 'l \<Rightarrow> (('h server_matcher, 'c, 'l, 'r) server_config \<Rightarrow> ('h server_matcher, 'c, 'l, 'r) server_config) list
     \<Rightarrow> ('h, 'c, 'l, 'r) http_server" where
  "new_server codec logger opts =
     (let c = fold (\<lambda>opt c. opt c) opts (base_config codec logger);
          matcher = (case sc_matcher c of None \<Rightarrow> new_server_matcher | Some m \<Rightarrow> m)
      in \<lparr>sv_config = c, sv_fast = fast_settings c, sv_root = root_group, sv_match = matcher\<rparr>)"

text \<open>The address of \<open>Run\<close>; the environment is an argument.\<close>

definition resolve_address :: "(string \<Rightarrow> string) \<Rightarrow> string list \<Rightarrow> ('e, string) outcome" where
  "resolve_address getenv addr =
     (case addr of
        [] \<Rightarrow> (let port = getenv ''PORT'' in Ok (if port \<noteq> '''' then '':'' @ port else '':8080''))
      | [a] \<Rightarrow> Ok a
      | _ \<Rightarrow> Panic)"

section \<open>Static files\<close>

record file_info =
  fi_name :: string
  fi_mod_time :: int
  fi_dir :: bool

text \<open>What \<open>Open\<close> gives for a name: an error, or a file with the result of its \<open>Stat\<close>.\<close>

type_synonym ('e, 'f) file_system = "string \<Rightarrow> 'e + 'f \<times> ('e + file_info)"

datatype 'e static_error = FileError 'e | ErrNotExist

datatype fs_event = OpenFailed string | Opened string | Shut string

definition open_file :: "('e, 'f) file_system \<Rightarrow> string \<Rightarrow> fs_event" where
  "open_file fs name = (case fs name of Inl _ \<Rightarrow> OpenFailed name | Inr _ \<Rightarrow> Opened name)"

definition open_static_file ::
  "('e, 'f) file_system \<Rightarrow> string \<Rightarrow> ('e static_error + string \<times> 'f \<times> file_info) \<times> fs_event list" where
  "open_static_file fs name =
     (let name = (if name = '''' then ''.'' else name) in
      case fs name of
        Inl e \<Rightarrow> (Inl (FileError e), [open_file fs name])
      | Inr (f, Inl e) \<Rightarrow> (Inl (FileError e), [open_file fs name, Shut name])
      | Inr (f, Inr info) \<Rightarrow>
          (if \<not> fi_dir info then (Inr (name, f, info), [open_file fs name])
           else
             (let index = path_join name ''index.html''; asked = [open_file fs name, Shut name, open_file fs index] in
              case fs index of
                Inl e \<Rightarrow> (Inl (FileError e), asked)
              | Inr (g, Inl e) \<Rightarrow> (Inl (FileError e), asked @ [Shut index])
              | Inr (g, Inr ginfo) \<Rightarrow>
                  (if fi_dir ginfo then (Inl ErrNotExist, asked @ [Shut index])
                   else (Inr (index, g, ginfo), asked)))))"

text \<open>The request of \<open>net/http\<close> the file server reads.\<close>

record std_request =
  sr_method :: string
  sr_header :: http_header
  sr_host :: string
  sr_path :: string
  sr_query :: string

text \<open>What \<open>fasthttp\<close> has of the request beside its method and path: the host, the query, the headers.\<close>

type_synonym request_details = "request \<Rightarrow> string \<times> string \<times> (string \<times> string) list"

definition std_request_of :: "request_details \<Rightarrow> request option \<Rightarrow> std_request option" where
  "std_request_of details rq =
     (case rq of
        None \<Rightarrow> None
      | Some r \<Rightarrow>
          (case details r of (host, query, hs) \<Rightarrow>
            Some \<lparr>sr_method = rq_method r, sr_header = fold (\<lambda>(k, v). header_add k v) hs [], sr_host = host,
                  sr_path = rq_path r, sr_query = query\<rparr>))"

definition trim_slash_prefix :: "string \<Rightarrow> string" where
  "trim_slash_prefix s = (if has_prefix s ''/'' then drop 1 s else s)"

definition served_path :: "string \<Rightarrow> string" where
  "served_path filepath =
     (let p = ''/'' @ trim_slash_prefix filepath in if p = ''/.'' then ''/'' else p)"

text \<open>The handler \<open>None\<close> is the result \<open>false\<close>.\<close>

definition serve_file_from_fs ::
  "(std_request \<Rightarrow> string \<Rightarrow> int \<Rightarrow> 'f \<Rightarrow> 'v handler) \<Rightarrow> std_request \<Rightarrow> ('e, 'f) file_system \<Rightarrow> string
     \<Rightarrow> 'v handler option \<times> fs_event list" where
  "serve_file_from_fs serve_content req fs filepath =
     (case open_static_file fs filepath of
        (Inl _, evs) \<Rightarrow> (None, evs)
      | (Inr (name, f, info), evs) \<Rightarrow>
          (Some (serve_content (req\<lparr>sr_path := served_path filepath\<rparr>) (fi_name info) (fi_mod_time info) f),
           evs @ [Shut name]))"

definition static_name :: "string \<Rightarrow> string" where
  "static_name param =
     (let p = trim_space param in if p = '''' then ''.'' else trim_slash_prefix (path_clean (''/'' @ p)))"

abbreviation StatusBadRequest :: int where "StatusBadRequest \<equiv> 400"

definition static_handler ::
  "(std_request \<Rightarrow> string \<Rightarrow> int \<Rightarrow> 'f \<Rightarrow> 'v handler) \<Rightarrow> request_details \<Rightarrow> ('e, 'f) file_system \<Rightarrow> 'v handler" where
  "static_handler serve_content details fs =
     Look (\<lambda>c.
       let filepath = static_name (get_param ''filepath'' c) in
       if contains_dotdot filepath then Act (Status StatusBadRequest) Return
       else (case (std_request_of details (cx_request c), cx_writer c) of
               (Some req, Some w) \<Rightarrow>
                 (case fst (serve_file_from_fs serve_content req fs filepath) of
                    Some k \<Rightarrow> k
                  | None \<Rightarrow> if \<not> resp_written w then Act (Status StatusNotFound) Return else Return)
             | _ \<Rightarrow> Return))"

text \<open>The events of the handler on the file system, for a parameter with that text.\<close>

definition static_events ::
  "(std_request \<Rightarrow> string \<Rightarrow> int \<Rightarrow> 'f \<Rightarrow> 'v handler) \<Rightarrow> std_request \<Rightarrow> ('e, 'f) file_system \<Rightarrow> string \<Rightarrow> fs_event list" where
  "static_events serve_content req fs param =
     (if contains_dotdot (static_name param) then []
      else snd (serve_file_from_fs serve_content req fs (static_name param)))"

section \<open>The routes of static files\<close>

text \<open>\<open>StaticFS\<close> of the server; \<open>root\<close> is the root group, with the middleware of the server.\<close>

definition static_fs ::
  "string \<Rightarrow> 'h option \<Rightarrow> 'h router_group \<Rightarrow> 'h server_matcher \<Rightarrow> (route_error, unit) outcome \<times> 'h server_matcher" where
  "static_fs relative h root s =
     (case (check_path_valid relative :: (route_error, unit) outcome) of
        Ok _ \<Rightarrow>
          (case h of
             None \<Rightarrow> (Panic, s)
           | Some h \<Rightarrow>
               (case (join_paths relative ''/*filepath'' :: (route_error, string) outcome) of
                  Ok p \<Rightarrow> group_match [''GET'', ''HEAD''] p [h] root s
                | _ \<Rightarrow> (Panic, s)))
      | _ \<Rightarrow> (Panic, s))"

definition static_dir ::
  "(string \<Rightarrow> 'h) \<Rightarrow> string \<Rightarrow> string \<Rightarrow> 'h router_group \<Rightarrow> 'h server_matcher \<Rightarrow> (route_error, unit) outcome \<times> 'h server_matcher" where
  "static_dir handler relative dir root s =
     (if dir = '''' then (Panic, s) else static_fs relative (Some (handler dir)) root s)"

definition group_static_fs ::
  "'h router_group \<Rightarrow> string \<Rightarrow> 'h option \<Rightarrow> 'h router_group \<Rightarrow> 'h server_matcher \<Rightarrow> (route_error, unit) outcome \<times> 'h server_matcher" where
  "group_static_fs g relative h root s =
     (case (absolute_path relative g :: (route_error, string) outcome) of
        Ok p \<Rightarrow> static_fs p h root s
      | _ \<Rightarrow> (Panic, s))"

definition group_static_dir ::
  "'h router_group \<Rightarrow> (string \<Rightarrow> 'h) \<Rightarrow> string \<Rightarrow> string \<Rightarrow> 'h router_group \<Rightarrow> 'h server_matcher \<Rightarrow> (route_error, unit) outcome \<times> 'h server_matcher" where
  "group_static_dir g handler relative dir root s =
     (case (absolute_path relative g :: (route_error, string) outcome) of
        Ok p \<Rightarrow> static_dir handler p dir root s
      | _ \<Rightarrow> (Panic, s))"

section \<open>Templates\<close>

record 't auto_render =
  ar_prefix :: string
  ar_suffix :: string
  ar_ext :: string
  ar_templates :: "(string, 't) gomap"

definition new_auto_render :: "string \<Rightarrow> 't auto_render" where
  "new_auto_render prefix = \<lparr>ar_prefix = prefix, ar_suffix = '''', ar_ext = ''.html'', ar_templates = []\<rparr>"

definition with_suffix :: "string \<Rightarrow> 't auto_render \<Rightarrow> 't auto_render" where
  "with_suffix s a = a\<lparr>ar_suffix := s\<rparr>"

definition with_ext :: "string \<Rightarrow> 't auto_render \<Rightarrow> 't auto_render" where
  "with_ext e a = a\<lparr>ar_ext := e\<rparr>"

definition template_path :: "'t auto_render \<Rightarrow> string \<Rightarrow> string" where
  "template_path a name =
     (let ext = (if ar_ext a = '''' then ''.html'' else ar_ext a);
          ext = (if hd ext \<noteq> CHR ''.'' then ''.'' @ ext else ext);
          file = name @ ar_suffix a @ ext
      in if ar_prefix a = '''' then file else path_join (ar_prefix a) file)"

datatype 'e template_error = EmptyTemplateName | ParseFailed 'e | ExecuteFailed 'e

text \<open>The parser is \<open>template.ParseFiles\<close>; its calls are kept in the third component.\<close>

definition render_template ::
  "(string \<Rightarrow> 'e + 't) \<Rightarrow> string \<Rightarrow> 't auto_render \<Rightarrow> ('e template_error + 't) \<times> 't auto_render \<times> string list" where
  "render_template parse name a =
     (if name = '''' then (Inl EmptyTemplateName, a, [])
      else
        (case go_get (ar_templates a) name of
           Some t \<Rightarrow> (Inr t, a, [])
         | None \<Rightarrow>
             (let p = template_path a name in
              case parse p of
                Inl e \<Rightarrow> (Inl (ParseFailed e), a, [p])
              | Inr t \<Rightarrow> (Inr t, a\<lparr>ar_templates := go_put name t (ar_templates a)\<rparr>, [p]))))"

definition render_html ::
  "(string \<Rightarrow> 'e + 't) \<Rightarrow> ('t \<Rightarrow> 'd \<Rightarrow> 'e + string) \<Rightarrow> string \<Rightarrow> 'd \<Rightarrow> 't auto_render
     \<Rightarrow> ('e template_error + string) \<times> 't auto_render \<times> string list" where
  "render_html parse execute name x a =
     (case render_template parse name a of
        (Inl e, a', ps) \<Rightarrow> (Inl e, a', ps)
      | (Inr t, a', ps) \<Rightarrow>
          (case execute t x of Inl e \<Rightarrow> (Inl (ExecuteFailed e), a', ps) | Inr s \<Rightarrow> (Inr s, a', ps)))"

text \<open>\<open>Render\<close> takes nil, readers, bytes and strings.\<close>

datatype render_data = NilData | ReaderData string | BytesData string | StringData string | OtherData

definition render_data_text :: "render_data \<Rightarrow> string option" where
  "render_data_text x =
     (case x of NilData \<Rightarrow> Some '''' | ReaderData s \<Rightarrow> Some s | BytesData s \<Rightarrow> Some s | StringData s \<Rightarrow> Some s
      | OtherData \<Rightarrow> None)"

end
