(* ===== verification/CleanPaths.thy ===== *)
theory CleanPaths
  imports GoStrings
begin

text \<open>
  Cleaned paths by their elements: which lists of elements \<open>path.Clean\<close> leaves alone, that it yields
  them, and what joining a name to a path does.
\<close>

text \<open>Elements that go up stand in front.\<close>

definition ups_lead :: "string list \<Rightarrow> bool" where
  "ups_lead ws \<longleftrightarrow> ''..'' \<notin> set (dropWhile (\<lambda>w. w = ''..'') ws)"

definition normal_words :: "bool \<Rightarrow> string list \<Rightarrow> bool" where
  "normal_words rooted ws \<longleftrightarrow>
     (\<forall>w \<in> set ws. plain_word w \<and> w \<noteq> ''.'') \<and> (if rooted then ''..'' \<notin> set ws else ups_lead ws)"

lemma ups_lead_append: "ups_lead (xs @ ys) \<longleftrightarrow> (if ''..'' \<in> set ys then set xs \<subseteq> {''..''} \<and> ups_lead ys else ups_lead xs)"
  by (induction xs) (auto simp: ups_lead_def dest: set_dropWhileD)

lemma ups_lead_all: "set xs \<subseteq> {''..''} \<Longrightarrow> ups_lead xs"
  by (induction xs) (auto simp: ups_lead_def)

lemma ups_lead_single [simp]: "ups_lead []" "ups_lead [w]"
  by (simp_all add: ups_lead_def)

lemma ups_lead_prefix: "ups_lead (xs @ ys) \<Longrightarrow> ups_lead xs"
  by (auto simp: ups_lead_append intro: ups_lead_all split: if_splits)

lemma ups_lead_snoc: "ups_lead (xs @ [''..'']) \<longleftrightarrow> set xs \<subseteq> {''..''}"
  by (simp add: ups_lead_append)

lemma normal_prefix: "normal_words rooted (xs @ ys) \<Longrightarrow> normal_words rooted xs"
  by (auto simp: normal_words_def intro: ups_lead_prefix split: if_splits)

lemma normal_butlast: "normal_words rooted ws \<Longrightarrow> normal_words rooted (butlast ws)"
  by (cases ws rule: rev_cases) (auto dest: normal_prefix)

lemma clean_step_normal:
  assumes "normal_words rooted acc" and "slash \<notin> set w"
  shows "normal_words rooted (clean_step rooted acc w)"
proof (cases "w = ''..'' \<and> acc \<noteq> [] \<and> last acc \<noteq> ''..''")
  case True
  then show ?thesis using normal_butlast [OF assms(1)] by simp
next
  case False
  have "set acc \<subseteq> {''..''}" if "w = ''..''" "\<not> rooted"
  proof (cases acc rule: rev_cases)
    case (snoc ys y)
    with False that assms(1) show ?thesis
      using ups_lead_snoc [of ys] by (auto simp: normal_words_def)
  qed simp
  with assms False show ?thesis
    by (auto simp: normal_words_def plain_word_def ups_lead_snoc ups_lead_append)
qed

lemma clean_words_normal:
  "normal_words rooted acc \<Longrightarrow> \<forall>w \<in> set ws. slash \<notin> set w \<Longrightarrow> normal_words rooted (foldl (clean_step rooted) acc ws)"
proof (induction ws arbitrary: acc)
  case (Cons w ws)
  have "normal_words rooted (clean_step rooted acc w)" by (rule clean_step_normal) (use Cons.prems in auto)
  from Cons.IH [OF this] Cons.prems(2) show ?case by (simp del: clean_step.simps)
qed simp

lemma normal_words_Nil [simp]: "normal_words rooted []"
  by (simp add: normal_words_def ups_lead_def)

lemma clean_step_adds:
  assumes "normal_words rooted (acc @ [w])"
  shows "clean_step rooted acc w = acc @ [w]"
proof -
  have w: "w \<noteq> []" "w \<noteq> ''.''" using assms by (auto simp: normal_words_def plain_word_def)
  have "last acc = ''..''" if "w = ''..''" "acc \<noteq> []"
  proof (cases rooted)
    case False
    with assms that ups_lead_snoc [of acc] have "set acc \<subseteq> {''..''}" by (simp add: normal_words_def)
    with last_in_set [OF that(2)] show ?thesis by blast
  qed (use assms that in \<open>simp add: normal_words_def\<close>)
  moreover have "w \<noteq> ''..''" if "rooted" using assms that by (auto simp: normal_words_def)
  ultimately show ?thesis using w by auto
qed

lemma clean_normal: "normal_words rooted (acc @ ws) \<Longrightarrow> foldl (clean_step rooted) acc ws = acc @ ws"
proof (induction ws arbitrary: acc)
  case (Cons w ws)
  have "clean_step rooted acc w = acc @ [w]"
    by (rule clean_step_adds) (use Cons.prems normal_prefix [of rooted "acc @ [w]" ws] in simp)
  with Cons.IH [of "acc @ [w]"] Cons.prems show ?case by (simp del: clean_step.simps)
qed simp

text \<open>A path by its elements, and the elements of a path.\<close>

definition is_rooted :: "string \<Rightarrow> bool" where
  "is_rooted p \<longleftrightarrow> p \<noteq> [] \<and> hd p = slash"

definition words_of :: "string \<Rightarrow> string list" where
  "words_of p = foldl (clean_step (is_rooted p)) [] (split_on slash p)"

definition path_of :: "bool \<Rightarrow> string list \<Rightarrow> string" where
  "path_of rooted ws =
     (let out = (if rooted then [slash] else []) @ join_with slash ws in if out = [] then ''.'' else out)"

lemma path_clean_words: "path_clean p = path_of (is_rooted p) (words_of p)"
  by (simp add: path_clean_def path_of_def words_of_def is_rooted_def Let_def)

lemma words_of_normal: "normal_words (is_rooted p) (words_of p)"
  unfolding words_of_def by (rule clean_words_normal) (auto dest: split_on_no_sep)

lemma normal_no_slash: "normal_words rooted ws \<Longrightarrow> w \<in> set ws \<Longrightarrow> slash \<notin> set w"
  by (auto simp: normal_words_def plain_word_def)

lemma join_words_head:
  assumes "normal_words rooted ws" and "ws \<noteq> []"
  shows "join_with slash ws \<noteq> []" and "hd (join_with slash ws) \<noteq> slash"
proof -
  obtain v vs where ws: "ws = v # vs" using assms(2) by (cases ws) auto
  obtain x xs where x: "v = x # xs" "x \<noteq> slash" "slash \<notin> set xs"
    using assms(1) ws by (cases v) (auto simp: normal_words_def plain_word_def)
  show "join_with slash ws \<noteq> []" by (cases vs) (simp_all add: ws x)
  show "hd (join_with slash ws) \<noteq> slash" by (cases vs) (simp_all add: ws x)
qed

lemma split_path_of:
  assumes "normal_words rooted ws" and "ws \<noteq> []"
  shows "split_on slash (path_of rooted ws) = (if rooted then [] # ws else ws)"
proof -
  have "split_on slash (join_with slash ws) = ws"
    by (rule split_join [OF assms(2)]) (use normal_no_slash [OF assms(1)] in auto)
  with join_words_head [OF assms] show ?thesis by (auto simp: path_of_def Let_def)
qed

lemma is_rooted_path_of: "normal_words rooted ws \<Longrightarrow> is_rooted (path_of rooted ws) = rooted"
  using join_words_head [of rooted ws] by (cases "ws = []") (auto simp: path_of_def is_rooted_def Let_def)

lemma join_append:
  "xs \<noteq> [] \<Longrightarrow> ys \<noteq> [] \<Longrightarrow> join_with c (xs @ ys) = join_with c xs @ c # join_with c ys"
  by (induction c xs rule: join_with.induct) (auto simp: neq_Nil_conv)

lemma path_of_append:
  "xs \<noteq> [] \<Longrightarrow> ys \<noteq> [] \<Longrightarrow> normal_words rooted xs \<Longrightarrow> path_of rooted (xs @ ys) = path_of rooted xs @ slash # join_with slash ys"
  using join_words_head [of rooted xs] by (auto simp: path_of_def Let_def join_append)

lemma path_of_inj:
  assumes "normal_words rooted xs" and "normal_words rooted ys" and "path_of rooted xs = path_of rooted ys"
  shows "xs = ys"
proof (cases "xs = [] \<or> ys = []")
  case True
  have "path_of rooted zs \<noteq> path_of rooted []" if "normal_words rooted zs" "zs \<noteq> []" for zs
  proof -
    obtain v vs where zs: "zs = v # vs" using \<open>zs \<noteq> []\<close> by (cases zs) auto
    have "plain_word v" "v \<noteq> ''.''" using \<open>normal_words rooted zs\<close> zs by (auto simp: normal_words_def)
    then have "join_with slash zs \<noteq> ''.''"
      unfolding zs by (cases vs; cases v) (auto simp: plain_word_def)
    with join_words_head [OF \<open>normal_words rooted zs\<close> \<open>zs \<noteq> []\<close>] show ?thesis by (simp add: path_of_def)
  qed
  with True assms show ?thesis by metis
next
  case False
  with assms show ?thesis by (metis split_path_of list.sel(3))
qed

section \<open>Names that go nowhere up\<close>

text \<open>A relative name, and no element of it goes up.\<close>

definition stays_inside :: "string \<Rightarrow> bool" where
  "stays_inside name \<longleftrightarrow> name \<noteq> '''' \<and> hd name \<noteq> slash \<and> list_all (\<lambda>w. w \<noteq> ''..'') (split_on slash name)"

lemma clean_no_up:
  "''..'' \<notin> set acc \<Longrightarrow> rooted \<or> ''..'' \<notin> set ws \<Longrightarrow> ''..'' \<notin> set (foldl (clean_step rooted) acc ws)"
proof (induction ws arbitrary: acc)
  case (Cons w ws)
  have "''..'' \<notin> set (clean_step rooted acc w)"
    using Cons.prems by (auto dest: in_set_butlastD last_in_set)
  from Cons.IH [OF this] Cons.prems(2) show ?case by (auto simp del: clean_step.simps)
qed simp

lemma joined_inside:
  assumes "ws \<noteq> []" and "\<forall>w \<in> set ws. plain_word w" and "''..'' \<notin> set ws"
  shows "stays_inside (join_with slash ws)"
proof -
  have split: "split_on slash (join_with slash ws) = ws"
    by (rule split_join) (use assms in \<open>auto simp: plain_word_def\<close>)
  obtain v vs where ws: "ws = v # vs" using assms(1) by (cases ws) auto
  have v: "v \<noteq> []" "slash \<notin> set v" using assms(2) ws by (auto simp: plain_word_def)
  obtain x xs where x: "v = x # xs" using v(1) by (cases v) auto
  have "hd (join_with slash ws) = x" and "join_with slash ws \<noteq> []" by (cases vs, simp_all add: ws x)+
  moreover have "x \<noteq> slash" using v(2) x by auto
  moreover have "list_all (\<lambda>w. w \<noteq> ''..'') (split_on slash (join_with slash ws))"
    unfolding split list_all_iff using assms(3) by blast
  ultimately show ?thesis by (simp add: stays_inside_def)
qed

section \<open>Parts of a path\<close>

text \<open>The proper prefixes of a path that end before a slash.\<close>

definition ancestors :: "string \<Rightarrow> string list" where
  "ancestors p = map (\<lambda>i. take i p) (filter (\<lambda>i. p ! i = slash) [1 ..< length p])"

text \<open>\<open>filepath.Dir\<close>.\<close>

definition path_dir :: "string \<Rightarrow> string" where
  "path_dir p = path_clean (rev (dropWhile (\<lambda>c. c \<noteq> slash) (rev p)))"

lemma ancestors_split: "q \<in> set (ancestors p) \<longleftrightarrow> q \<noteq> [] \<and> (\<exists>b. p = q @ slash # b)"
proof
  assume "q \<in> set (ancestors p)"
  then obtain i where i: "q = take i p" "p ! i = slash" "1 \<le> i" "i < length p" by (auto simp: ancestors_def)
  then have "p = q @ slash # drop (Suc i) p" using id_take_nth_drop [of i p] by simp
  with i show "q \<noteq> [] \<and> (\<exists>b. p = q @ slash # b)" by auto
next
  assume "q \<noteq> [] \<and> (\<exists>b. p = q @ slash # b)"
  then obtain b where "q \<noteq> []" "p = q @ slash # b" by blast
  then have "q = take (length q) p" "p ! length q = slash" "length q \<in> set [1 ..< length p]" by (auto simp: Suc_le_eq)
  then show "q \<in> set (ancestors p)" unfolding ancestors_def by (auto intro!: image_eqI [of _ _ "length q"])
qed

lemma split_nonempty: "normal_words rooted ws \<Longrightarrow> (if rooted then [] # ws else ws) = split_on slash q \<Longrightarrow>
    q \<noteq> [] \<Longrightarrow> ws \<noteq> [] \<and> q = path_of rooted ws"
proof -
  assume n: "normal_words rooted ws" and words: "(if rooted then [] # ws else ws) = split_on slash q" and q: "q \<noteq> []"
  have q': "q = join_with slash (if rooted then [] # ws else ws)" unfolding words by (rule join_split [symmetric])
  have "ws \<noteq> []"
  proof
    assume "ws = []"
    with q' have "q = []" by (cases rooted) simp_all
    with q show False by simp
  qed
  moreover from this obtain v vs where "ws = v # vs" by (cases ws) auto
  ultimately show "ws \<noteq> [] \<and> q = path_of rooted ws"
    using q' q by (cases rooted) (auto simp: path_of_def Let_def)
qed

lemma ancestors_path_of:
  assumes "normal_words rooted ws" and "ws \<noteq> []"
  shows "q \<in> set (ancestors (path_of rooted ws)) \<longleftrightarrow> (\<exists>xs ys. ws = xs @ ys \<and> xs \<noteq> [] \<and> ys \<noteq> [] \<and> q = path_of rooted xs)"
proof
  assume "q \<in> set (ancestors (path_of rooted ws))"
  then obtain b where q: "q \<noteq> []" "path_of rooted ws = q @ slash # b" by (auto simp: ancestors_split)
  have words: "(if rooted then [] # ws else ws) = split_on slash q @ split_on slash b"
    using split_path_of [OF assms] q(2) split_append [of slash q b] by simp
  obtain v vs where v: "split_on slash q = v # vs" by (cases "split_on slash q") auto
  show "\<exists>xs ys. ws = xs @ ys \<and> xs \<noteq> [] \<and> ys \<noteq> [] \<and> q = path_of rooted xs"
  proof (cases rooted)
    case True
    with words v have xs: "ws = vs @ split_on slash b" "v = []" by auto
    have "(if rooted then [] # vs else vs) = split_on slash q" using True xs v by simp
    from split_nonempty [OF normal_prefix [of rooted vs "split_on slash b"] this q(1)] assms(1) xs(1)
    show ?thesis by (intro exI [of _ vs] exI [of _ "split_on slash b"]) simp
  next
    case False
    with words have xs: "ws = split_on slash q @ split_on slash b" by simp
    have "(if rooted then [] # split_on slash q else split_on slash q) = split_on slash q" using False by simp
    from split_nonempty [OF normal_prefix [of rooted _ "split_on slash b"] this q(1)] assms(1) xs
    show ?thesis by (intro exI [of _ "split_on slash q"] exI [of _ "split_on slash b"]) simp
  qed
next
  assume "\<exists>xs ys. ws = xs @ ys \<and> xs \<noteq> [] \<and> ys \<noteq> [] \<and> q = path_of rooted xs"
  then obtain xs ys where x: "ws = xs @ ys" "xs \<noteq> []" "ys \<noteq> []" "q = path_of rooted xs" by blast
  have n: "normal_words rooted xs" using assms(1) x(1) by (auto dest: normal_prefix)
  have "q \<noteq> []" using x(4) by (simp add: path_of_def Let_def)
  with path_of_append [OF x(2,3) n] x show "q \<in> set (ancestors (path_of rooted ws))"
    by (auto simp: ancestors_split)
qed

lemma parts_path_of:
  assumes "normal_words rooted ws" and "ws \<noteq> []"
  shows "q \<in> set (ancestors (path_of rooted ws) @ [path_of rooted ws]) \<longleftrightarrow>
    (\<exists>xs ys. ws = xs @ ys \<and> xs \<noteq> [] \<and> q = path_of rooted xs)" (is "?l \<longleftrightarrow> ?r")
proof
  assume ?l
  then consider "q \<in> set (ancestors (path_of rooted ws))" | "q = path_of rooted ws" by auto
  then show ?r
  proof cases
    case 1
    then show ?thesis using ancestors_path_of [OF assms, of q] by blast
  next
    case 2
    with assms(2) show ?thesis by (intro exI [of _ ws] exI [of _ "[]"]) simp
  qed
next
  assume ?r
  then obtain xs ys where x: "ws = xs @ ys" "xs \<noteq> []" "q = path_of rooted xs" by blast
  show ?l
  proof (cases "ys = []")
    case False
    with x ancestors_path_of [OF assms, of q] have "q \<in> set (ancestors (path_of rooted ws))" by blast
    then show ?thesis by simp
  qed (use x in simp)
qed

lemma path_clean_dir:
  assumes "normal_words rooted xs" and "xs \<noteq> []"
  shows "path_clean (path_of rooted xs @ ''/'') = path_of rooted xs"
proof -
  let ?p = "path_of rooted xs @ ''/''"
  have r: "is_rooted ?p = rooted"
    using is_rooted_path_of [OF assms(1)] by (cases "path_of rooted xs") (auto simp: is_rooted_def path_of_def Let_def split: if_splits)
  have "split_on slash ?p = (if rooted then [] # xs else xs) @ [[]]"
    using split_path_of [OF assms] split_append [of slash "path_of rooted xs" "[]"] by simp
  then have "words_of ?p = foldl (clean_step rooted) [] xs" unfolding words_of_def r by (cases rooted) simp_all
  with clean_normal [of rooted "[]" xs] assms(1) have "words_of ?p = xs" by simp
  with r show ?thesis by (simp add: path_clean_words)
qed

lemma path_dir_path_of:
  assumes "normal_words rooted (xs @ [w])"
  shows "path_dir (path_of rooted (xs @ [w])) = path_of rooted xs"
proof -
  have w: "slash \<notin> set w" "w \<noteq> []" and n: "normal_words rooted xs"
    using assms normal_prefix [OF assms] by (auto simp: normal_words_def plain_word_def)
  have cut: "rev (dropWhile (\<lambda>c. c \<noteq> slash) (rev (a @ slash # w))) = a @ ''/''" for a
  proof -
    have "dropWhile (\<lambda>c. c \<noteq> slash) (rev w @ slash # rev a) = slash # rev a"
      using w(1) by (subst dropWhile_append2) auto
    then show ?thesis by simp
  qed
  show ?thesis
  proof (cases "xs = []")
    case True
    have none: "dropWhile (\<lambda>c. c \<noteq> slash) (rev w) = []" using w(1) by (auto simp: dropWhile_eq_Nil_conv)
    have "path_dir w = ''.''" unfolding path_dir_def none by (simp add: path_clean_def)
    moreover have "path_dir (slash # w) = ''/''"
      using cut [of "[]"] by (simp add: path_dir_def path_clean_def)
    ultimately show ?thesis using True w(2) by (cases rooted) (simp_all add: path_of_def)
  next
    case False
    have "path_of rooted (xs @ [w]) = path_of rooted xs @ slash # w"
      using path_of_append [OF False _ n, of "[w]"] by simp
    then show ?thesis unfolding path_dir_def by (simp only: cut path_clean_dir [OF n False])
  qed
qed

text \<open>Joining proper names to a path adds them to its elements.\<close>

definition proper_name :: "string \<Rightarrow> bool" where
  "proper_name w \<longleftrightarrow> plain_word w \<and> w \<noteq> ''.'' \<and> w \<noteq> ''..''"

lemma normal_append:
  "normal_words rooted xs \<Longrightarrow> list_all proper_name us \<Longrightarrow> normal_words rooted (xs @ us)"
  by (auto simp: normal_words_def proper_name_def list_all_iff ups_lead_append)

lemma path_join_names:
  assumes "target \<noteq> []" and "list_all proper_name us" and "us \<noteq> []"
  shows "path_join target (join_with slash us) = path_of (is_rooted target) (words_of target @ us)"
    and "path_join target (join_with slash us @ ''/'') = path_of (is_rooted target) (words_of target @ us)"
proof -
  have n: "normal_words (is_rooted target) (words_of target @ us)"
    by (rule normal_append [OF words_of_normal assms(2)])
  have split: "split_on slash (join_with slash us) = us"
    by (rule split_join [OF assms(3)]) (use assms(2) in \<open>auto simp: list_all_iff proper_name_def plain_word_def\<close>)
  have ne: "join_with slash us \<noteq> []"
    by (rule join_words_head(1) [of False]) (use normal_append [of False "[]" us] assms in auto)
  have rooted: "is_rooted (target @ slash # s) = is_rooted target" for s
    using assms(1) by (simp add: is_rooted_def)
  have words: "words_of (target @ slash # join_with slash us) = words_of target @ us"
    "words_of (target @ slash # join_with slash us @ ''/'') = words_of target @ us"
    using clean_normal [OF n] split split_append [of slash "join_with slash us" "[]"]
    unfolding words_of_def rooted split_append by (simp_all del: clean_step.simps add: clean_step.simps [of _ _ "[]"])
  show "path_join target (join_with slash us) = path_of (is_rooted target) (words_of target @ us)"
    using assms(1) ne by (simp add: path_join_def path_clean_words rooted words)
  show "path_join target (join_with slash us @ ''/'') = path_of (is_rooted target) (words_of target @ us)"
    using assms(1) ne by (simp add: path_join_def path_clean_words rooted words)
qed

end
