(* ===== verification/StaticFacts.thy ===== *)
theory StaticFacts
  imports StaticFiles CleanPaths
begin

text \<open>
  What the static files of \<open>ghttp/gserver\<close> guarantee: no parameter leaves the root of the file
  system, every file opened is closed once; the templates are parsed once; and the places where the
  settings and the middleware of a group are dropped.
\<close>

section \<open>Names that stay inside the root\<close>

fun event_name :: "fs_event \<Rightarrow> string" where
  "event_name (OpenFailed n) = n"
| "event_name (Opened n) = n"
| "event_name (Shut n) = n"

lemma event_name_open [simp]: "event_name (open_file fs n) = n"
  by (simp add: open_file_def split: sum.split)

lemma static_name_inside:
  "static_name p = '''' \<or> stays_inside (static_name p)"
proof -
  let ?q = "trim_space p"
  let ?ws = "foldl (clean_step True) [] (split_on slash (slash # ?q))"
  have plain: "\<forall>w \<in> set ?ws. plain_word w"
    by (rule clean_words_plain) (auto dest: split_on_no_sep)
  have up: "''..'' \<notin> set ?ws" by (rule clean_no_up) simp_all
  have clean: "path_clean (''/'' @ ?q) = slash # join_with slash ?ws"
    by (simp add: path_clean_def Let_def)
  have "stays_inside ''.''" by (simp add: stays_inside_def)
  moreover have "join_with slash ?ws = '''' \<or> stays_inside (join_with slash ?ws)"
    using joined_inside [OF _ plain up] by (cases "?ws = []") auto
  moreover have "static_name p = (if ?q = '''' then ''.'' else join_with slash ?ws)"
    unfolding static_name_def Let_def clean trim_slash_prefix_def by (simp add: has_prefix_def)
  ultimately show ?thesis by (cases "?q = ''''") auto
qed

lemma index_inside:
  assumes "stays_inside name"
  shows "stays_inside (path_join name ''index.html'')"
proof -
  let ?p = "name @ slash # ''index.html''"
  have name: "name \<noteq> []" "hd name \<noteq> slash" "''..'' \<notin> set (split_on slash name)"
    using assms by (auto simp: stays_inside_def list_all_iff)
  let ?ws = "foldl (clean_step False) [] (split_on slash ?p)"
  have words: "split_on slash ?p = split_on slash name @ [''index.html'']"
    by (simp only: split_append) simp
  have plain: "\<forall>w \<in> set ?ws. plain_word w"
    by (rule clean_words_plain) (auto dest: split_on_no_sep)
  have up: "''..'' \<notin> set ?ws"
    by (rule clean_no_up) (use name(3) in \<open>simp_all only: words, auto\<close>)
  have ne: "?ws \<noteq> []" by (simp only: words foldl_append) simp
  have "path_join name ''index.html'' = join_with slash ?ws"
    using name joined_inside [OF ne plain up]
    by (simp add: path_join_def path_clean_def Let_def stays_inside_def)
  with joined_inside [OF ne plain up] show ?thesis by simp
qed

section \<open>Files are closed\<close>

definition opened_names :: "fs_event list \<Rightarrow> string list" where
  "opened_names evs = concat (map (\<lambda>e. case e of Opened n \<Rightarrow> [n] | _ \<Rightarrow> []) evs)"

definition shut_names :: "fs_event list \<Rightarrow> string list" where
  "shut_names evs = concat (map (\<lambda>e. case e of Shut n \<Rightarrow> [n] | _ \<Rightarrow> []) evs)"

lemma opened_simps [simp]:
  "opened_names [] = []" "opened_names (Opened n # es) = n # opened_names es"
  "opened_names (OpenFailed n # es) = opened_names es" "opened_names (Shut n # es) = opened_names es"
  by (simp_all add: opened_names_def)

lemma shut_simps [simp]:
  "shut_names [] = []" "shut_names (Opened n # es) = shut_names es"
  "shut_names (OpenFailed n # es) = shut_names es" "shut_names (Shut n # es) = n # shut_names es"
  by (simp_all add: shut_names_def)

lemma open_static_file_names:
  assumes "name = '''' \<or> stays_inside name"
  shows "list_all (\<lambda>e. stays_inside (event_name e)) (snd (open_static_file fs name))"
    and "open_static_file fs name = (Inr (n, f, i), evs) \<Longrightarrow> stays_inside n"
proof -
  define m where "m = (if name = '''' then ''.'' else name)"
  have m: "stays_inside m" using assms by (auto simp: m_def stays_inside_def)
  note inside = m index_inside [OF m]
  show "list_all (\<lambda>e. stays_inside (event_name e)) (snd (open_static_file fs name))"
    unfolding open_static_file_def m_def [symmetric] Let_def
    by (auto simp: inside split: sum.split prod.split)
  show "open_static_file fs name = (Inr (n, f, i), evs) \<Longrightarrow> stays_inside n"
    unfolding open_static_file_def m_def [symmetric] Let_def
    using inside by (auto split: sum.splits prod.splits if_splits)
qed

lemma open_static_file_closes:
  "open_static_file fs name = (r, evs) \<Longrightarrow>
     opened_names evs = shut_names evs @ (case r of Inl _ \<Rightarrow> [] | Inr (n, _, _) \<Rightarrow> [n])"
  by (auto simp: open_static_file_def open_file_def Let_def split: sum.splits prod.splits if_splits)

lemma shut_append: "shut_names (a @ b) = shut_names a @ shut_names b"
  by (simp add: shut_names_def)

lemma opened_append: "opened_names (a @ b) = opened_names a @ opened_names b"
  by (simp add: opened_names_def)

text \<open>
  C18: whatever text a request gives for the file, the static handler asks the file system only for
  names that are relative and have no element \<open>..\<close>: the file or the index of a directory; and the
  files it opens are the ones it closes, each once, on every path, errors included.
\<close>

theorem static_files_confined:
  "list_all (\<lambda>e. stays_inside (event_name e)) (static_events serve req fs param) \<and>
   opened_names (static_events serve req fs param) = shut_names (static_events serve req fs param)"
proof (cases "contains_dotdot (static_name param)")
  case True
  then show ?thesis by (simp add: static_events_def)
next
  case False
  obtain r evs where r: "open_static_file fs (static_name param) = (r, evs)"
    by (cases "open_static_file fs (static_name param)")
  note names = open_static_file_names [OF static_name_inside, of fs param]
  show ?thesis
  proof (cases r)
    case (Inl e)
    with r False names(1) open_static_file_closes [OF r] show ?thesis
      by (simp add: static_events_def serve_file_from_fs_def)
  next
    case (Inr x)
    obtain n f i where x: "x = (n, f, i)" by (cases x)
    with r Inr False names(1) names(2) [of n f i evs] open_static_file_closes [OF r] show ?thesis
      by (simp add: static_events_def serve_file_from_fs_def shut_append opened_append)
  qed
qed

section \<open>Templates\<close>

text \<open>A template is parsed once: after a success, the renderer keeps it whatever the file becomes.\<close>

lemma template_parsed_once:
  "render_template parse name a = (Inr t, a', ps) \<Longrightarrow> render_template parse' name a' = (Inr t, a', [])"
  by (auto simp: render_template_def Let_def split: if_splits option.splits sum.splits)

lemma template_failure_keeps:
  "render_template parse name a = (Inl e, a', ps) \<Longrightarrow> a' = a"
  by (auto simp: render_template_def Let_def split: if_splits option.splits sum.splits)

section \<open>Where settings and middleware are dropped\<close>

text \<open>The routes of static files of a group run none of the middleware of the group.\<close>

lemma group_static_without_middleware:
  "group_static_fs (g\<lparr>rg_handlers := hs\<rparr>) relative h root s = group_static_fs g relative h root s"
  by (simp add: group_static_fs_def absolute_path_def)

text \<open>The timeouts of the settings never reach the server.\<close>

lemma timeouts_dropped:
  "fs_read_timeout (sv_fast (new_server codec logger opts)) = 0 \<and>
   fs_write_timeout (sv_fast (new_server codec logger opts)) = 0 \<and>
   \<not> fs_get_only (sv_fast (new_server codec logger opts)) \<and>
   \<not> fs_close_on_shutdown (sv_fast (new_server codec logger opts))"
  by (simp add: new_server_def Let_def fast_settings_def)

text \<open>A name with two dots inside is refused, although it stays inside.\<close>

lemma dots_refused: "static_name ''a..b'' = ''a..b'' \<and> stays_inside ''a..b'' \<and> contains_dotdot ''a..b''"
proof -
  have "trim_space ''a..b'' = ''a..b''" by (rule trim_word) (simp add: plain_char_def)
  then show ?thesis
    by (simp add: static_name_def path_clean_def Let_def trim_slash_prefix_def has_prefix_def
        stays_inside_def contains_dotdot_def upt_conv_Cons)
qed

end
