(* ===== verification/HttpBridge.thy ===== *)
theory HttpBridge
  imports StaticFiles
begin

text \<open>
  The conversions of \<open>ghttp/gserver/server.go\<close> between \<open>net/http\<close> and \<open>fasthttp\<close>: \<open>ServeHTTP\<close>
  copies a request into one of \<open>fasthttp\<close>, runs the handler, and copies the response back.  The
  request of \<open>fasthttp\<close> is the list of the calls that build it.  The adapter of
  \<open>gws/adapter/gserver\<close> makes of a request of \<open>fasthttp\<close> one of \<open>net/http\<close>.
\<close>

section \<open>From \<open>net/http\<close>\<close>

text \<open>A URL: its scheme and host, and what \<open>RequestURI\<close> gives for it.\<close>

record std_url =
  su_scheme :: string
  su_host :: string
  su_request_uri :: string

text \<open>A body: the chunks it yields, and whether it fails after them.\<close>

record std_body =
  bd_chunks :: "string list"
  bd_fails :: bool

record server_request =
  sq_method :: string
  sq_proto :: string
  sq_request_uri :: string
  sq_url :: "std_url option"
  sq_tls :: bool
  sq_host :: string
  sq_header :: http_header
  sq_body :: "std_body option"
  sq_close :: bool
  sq_remote :: string

datatype fast_call =
    ResetHeader | ResetBody | SetMethod string | SetProtocol string | SetRequestURI string
  | SetScheme string | SetHeaderHost string | SetURIHost string | AddRequestHeader string string
  | WriteRequestBody string | SetNilBody | SetConnectionClose

definition raw_uri :: "server_request \<Rightarrow> string" where
  "raw_uri src =
     (let u = (if sq_request_uri src = '''' then
                 (case sq_url src of None \<Rightarrow> '''' | Some u \<Rightarrow> su_request_uri u)
               else sq_request_uri src)
      in if u = '''' then ''/'' else u)"

definition request_scheme :: "server_request \<Rightarrow> string" where
  "request_scheme src =
     (case sq_url src of
        Some u \<Rightarrow> (if su_scheme u \<noteq> '''' then su_scheme u else if sq_tls src then ''https'' else ''http'')
      | None \<Rightarrow> if sq_tls src then ''https'' else ''http'')"

definition request_host :: "server_request \<Rightarrow> string" where
  "request_host src =
     (if sq_host src = '''' then (case sq_url src of None \<Rightarrow> '''' | Some u \<Rightarrow> su_host u) else sq_host src)"

definition copy_http_request :: "server_request \<Rightarrow> bool \<times> fast_call list" where
  "copy_http_request src =
     (let start =
            [ResetHeader, ResetBody] @
            (if sq_method src \<noteq> '''' then [SetMethod (sq_method src)] else []) @
            (if sq_proto src \<noteq> '''' then [SetProtocol (sq_proto src)] else []) @
            [SetRequestURI (raw_uri src), SetScheme (request_scheme src)] @
            (if request_host src \<noteq> '''' then [SetHeaderHost (request_host src), SetURIHost (request_host src)]
             else []) @
            map (\<lambda>(k, v). AddRequestHeader k v) (all_values (sq_header src));
          (ok, body) = (case sq_body src of
                          None \<Rightarrow> (True, [SetNilBody])
                        | Some b \<Rightarrow> (\<not> bd_fails b, map WriteRequestBody (bd_chunks b)))
      in (ok, start @ body @ (if ok \<and> sq_close src then [SetConnectionClose] else [])))"

text \<open>The remote address; \<open>net.ParseIP\<close> is an argument.\<close>

definition resolve_remote_addr :: "(string \<Rightarrow> 'ip option) \<Rightarrow> string \<Rightarrow> 'ip option \<times> int" where
  "resolve_remote_addr parse_ip addr =
     (if addr = '''' then (None, 0)
      else
        (case split_host_port addr of
           Inl _ \<Rightarrow> (parse_ip addr, 0)
         | Inr (host, port) \<Rightarrow> (parse_ip host, case atoi port of Ok p \<Rightarrow> p | _ \<Rightarrow> 0)))"

section \<open>The response\<close>

record fast_response =
  fr_status :: int
  fr_header :: "(string \<times> string) list"
  fr_body :: string

text \<open>The writer of \<open>net/http\<close>: its map of headers and the calls on it.\<close>

record http_out =
  ho_header :: http_header
  ho_calls :: "resp_call list"

definition has_content_type :: "(string \<times> string) list \<Rightarrow> bool" where
  "has_content_type hs \<longleftrightarrow> list_ex (\<lambda>(k, _). equal_fold k content_type) hs"

definition write_fast_response :: "(string \<Rightarrow> string) \<Rightarrow> fast_response option \<Rightarrow> http_out \<Rightarrow> http_out" where
  "write_fast_response detect resp w =
     (case resp of
        None \<Rightarrow> w\<lparr>ho_calls := ho_calls w @ [SetStatusCode StatusOK]\<rparr>
      | Some r \<Rightarrow>
          (let header = fold (\<lambda>(k, v). header_add k v) (fr_header r) [];
               status = (if fr_status r = 0 then StatusOK else fr_status r);
               body = fr_body r;
               header = (if \<not> has_content_type (fr_header r) \<and> length body > 0
                         then header_set content_type (detect (take 512 body)) header else header)
           in \<lparr>ho_header = header,
               ho_calls = ho_calls w @ [SetStatusCode status] @ (if length body > 0 then [WriteBody body] else [])\<rparr>))"

text \<open>\<open>http.Error\<close> sets its own headers, then the status and the message with a newline.\<close>

definition http_error :: "string \<Rightarrow> int \<Rightarrow> http_out \<Rightarrow> http_out" where
  "http_error msg code w =
     (let h = go_del ''Content-Length'' (ho_header w);
          h = header_set ''X-Content-Type-Options'' ''nosniff'' (header_set content_type ''text/plain; charset=utf-8'' h)
      in \<lparr>ho_header = h, ho_calls = ho_calls w @ [SetStatusCode code, WriteBody (msg @ ''\<newline>'')]\<rparr>)"

text \<open>
  \<open>handle\<close> is \<open>FastHandler\<close> on the request those calls build, with the remote address; its
  result is the response of the \<open>RequestCtx\<close>, which is there.
\<close>

definition serve_std ::
  "(fast_call list \<Rightarrow> 'ip option \<times> int \<Rightarrow> fast_response) \<Rightarrow> (string \<Rightarrow> 'ip option) \<Rightarrow> (string \<Rightarrow> string)
     \<Rightarrow> server_request \<Rightarrow> http_out \<Rightarrow> http_out" where
  "serve_std handle parse_ip detect r w =
     (case copy_http_request r of
        (False, _) \<Rightarrow> http_error ''failed to convert request'' StatusBadRequest w
      | (True, calls) \<Rightarrow>
          write_fast_response detect (Some (handle calls (resolve_remote_addr parse_ip (sq_remote r)))) w)"

section \<open>The adapter of SOAP services\<close>

text \<open>What the adapter reads of \<open>fasthttp\<close>.\<close>

record fast_view =
  fv_method :: string
  fv_scheme :: string
  fv_uri_host :: string
  fv_host :: string
  fv_path :: string
  fv_query :: string
  fv_proto :: string
  fv_remote :: "string option"
  fv_headers :: "(string \<times> string) list"
  fv_body :: string

record bridged_request =
  br_method :: string
  br_url_scheme :: string
  br_url_host :: string
  br_host :: string
  br_path :: string
  br_query :: string
  br_uri :: string
  br_proto :: string
  br_version :: "int \<times> int"
  br_remote :: string
  br_header :: http_header
  br_body :: string
  br_length :: int

text \<open>
  \<open>parse_version\<close> is \<open>http.ParseHTTPVersion\<close>; \<open>request_uri\<close> is \<open>RequestURI\<close> of a URL with that
  scheme, host, path and query.
\<close>

definition proto_version :: "(string \<Rightarrow> (int \<times> int) option) \<Rightarrow> string \<Rightarrow> int \<times> int" where
  "proto_version parse_version proto = (case parse_version proto of None \<Rightarrow> (0, 0) | Some v \<Rightarrow> v)"

definition empty_bridged :: bridged_request where
  "empty_bridged =
     \<lparr>br_method = ''GET'', br_url_scheme = '''', br_url_host = '''', br_host = '''', br_path = '''', br_query = '''',
      br_uri = '''', br_proto = '''', br_version = (0, 0), br_remote = '''', br_header = [], br_body = '''', br_length = 0\<rparr>"

definition build_bridged ::
  "(string \<Rightarrow> (int \<times> int) option) \<Rightarrow> (string \<Rightarrow> string \<Rightarrow> string \<Rightarrow> string \<Rightarrow> string) \<Rightarrow> fast_view option \<Rightarrow> bridged_request" where
  "build_bridged parse_version request_uri view =
     (case view of
        None \<Rightarrow> empty_bridged
      | Some v \<Rightarrow>
          \<lparr>br_method = (if fv_method v \<noteq> '''' then fv_method v else ''GET''), br_url_scheme = fv_scheme v,
           br_url_host = fv_uri_host v, br_host = fv_host v, br_path = fv_path v, br_query = fv_query v,
           br_uri = request_uri (fv_scheme v) (fv_uri_host v) (fv_path v) (fv_query v), br_proto = fv_proto v,
           br_version = proto_version parse_version (fv_proto v),
           br_remote = (case fv_remote v of None \<Rightarrow> '''' | Some a \<Rightarrow> a),
           br_header = fold (\<lambda>(k, x). header_add k x) (fv_headers v) [],
           br_body = fv_body v, br_length = int (length (fv_body v))\<rparr>)"

section \<open>Facts\<close>

text \<open>One status, and one write of the whole body after it when there is one, whatever the handler does.\<close>

lemma serve_std_answers_once:
  "\<exists>code rest. ho_calls (serve_std handle parse_ip detect r w) = ho_calls w @ SetStatusCode code # rest \<and>
     length rest \<le> 1 \<and> list_all (\<lambda>c. case c of WriteBody d \<Rightarrow> d \<noteq> [] | _ \<Rightarrow> False) rest"
  by (auto simp: serve_std_def write_fast_response_def http_error_def Let_def split: prod.split bool.split)

lemma canonical_content_type: "canonical_key content_type = content_type"
  by (simp add: content_type_def canonical_key_def token_char_def upper_char_def lower_char_def)

text \<open>A body has a content type: that of the response, or the one detected.\<close>

lemma detected_type:
  assumes "\<not> has_content_type (fr_header r)" and "fr_body r \<noteq> []"
  shows "go_get (ho_header (write_fast_response detect (Some r) w)) content_type = Some [detect (take 512 (fr_body r))]"
  using assms by (simp add: write_fast_response_def Let_def header_set_def canonical_content_type)

end
