(* ===== verification/Archive.thy ===== *)
theory Archive
  imports HttpText CleanPaths
begin

text \<open>
  \<open>gcompress\<close>: archives of directory trees (zip.go, tar.go, tgz.go) and the choice of the format
  (auto.go).  The formats themselves are \<open>archive/zip\<close>, \<open>archive/tar\<close> and \<open>compress/gzip\<close>: an archive
  is the list of its entries.  A disk maps cleaned paths to directories and files; permissions and
  links are left out.  The source is a tree, so \<open>filepath.Walk\<close> and \<open>filepath.Rel\<close> are functions of it.
\<close>

section \<open>Disks\<close>

datatype disk_node = DiskDir | DiskFile string

type_synonym disk = "string \<Rightarrow> disk_node option"

definition is_file :: "disk \<Rightarrow> string \<Rightarrow> bool" where
  "is_file d p \<longleftrightarrow> (case d p of Some (DiskFile _) \<Rightarrow> True | _ \<Rightarrow> False)"

text \<open>\<open>os.MkdirAll\<close> fails when a part of the path is a file.\<close>

definition mkdir_all :: "string \<Rightarrow> disk \<Rightarrow> disk option" where
  "mkdir_all p d =
     (let parts = ancestors p @ [p] in
      if list_ex (is_file d) parts then None
      else Some (\<lambda>q. if q \<in> set parts \<and> d q = None then Some DiskDir else d q))"

text \<open>The roots and the directories above the current one are there.\<close>

definition implicit_dir :: "string \<Rightarrow> bool" where
  "implicit_dir p \<longleftrightarrow> p = ''.'' \<or> p = ''/'' \<or> list_all (\<lambda>w. w = ''..'') (split_on slash p)"

text \<open>\<open>os.OpenFile\<close> with creation and truncation, in a directory that is there.\<close>

definition create_file :: "string \<Rightarrow> disk \<Rightarrow> disk option" where
  "create_file p d = (if implicit_dir p \<or> d p = Some DiskDir then None else Some (d(p \<mapsto> DiskFile '''')))"

text \<open>\<open>filepath.Ext\<close>.\<close>

definition path_ext :: "string \<Rightarrow> string" where
  "path_ext p =
     (let r = takeWhile (\<lambda>c. c \<noteq> slash) (rev p); ext = takeWhile (\<lambda>c. c \<noteq> CHR ''.'') r in
      if CHR ''.'' \<in> set r then CHR ''.'' # rev ext else '''')"

section \<open>Entries\<close>

datatype entry_kind = DirEntry | FileEntry | OtherEntry

text \<open>
  An entry of an archive: whether it can be opened, the bytes that come out of it, and whether they
  end without an error.
\<close>

record archive_entry =
  ae_name :: string
  ae_kind :: entry_kind
  ae_opens :: bool
  ae_data :: string
  ae_intact :: bool

definition dir_entry :: "string \<Rightarrow> archive_entry" where
  "dir_entry name = \<lparr>ae_name = name, ae_kind = DirEntry, ae_opens = True, ae_data = '''', ae_intact = True\<rparr>"

definition file_entry :: "string \<Rightarrow> string \<Rightarrow> archive_entry" where
  "file_entry name data = \<lparr>ae_name = name, ae_kind = FileEntry, ae_opens = True, ae_data = data, ae_intact = True\<rparr>"

datatype archive_error =
    CreateFailed | OpenFailed | ReadFailed | WalkFailed | MkdirFailed | CopyFailed | IllegalPath string
  | PlainGzip | UnknownFormat string

section \<open>Making archives\<close>

text \<open>A tree; a file or a directory that cannot be read has no content.\<close>

datatype file_tree = RegularFile "string option" | Directory "(string \<times> file_tree) list option"

datatype walk_item = OnDir | OnFile "string option" | OnError

definition rel_join :: "string \<Rightarrow> string \<Rightarrow> string" where
  "rel_join rel name = (if rel = ''.'' then name else rel @ slash # name)"

text \<open>\<open>filepath.Walk\<close>, with the path relative to the source: a directory, then what it contains by name.\<close>

function walk :: "string \<Rightarrow> file_tree \<Rightarrow> (string \<times> walk_item) list" where
  "walk rel (RegularFile c) = [(rel, OnFile c)]"
| "walk rel (Directory None) = [(rel, OnDir), (rel, OnError)]"
| "walk rel (Directory (Some kids)) =
     (rel, OnDir) # concat (map (\<lambda>(name, t). walk (rel_join rel name) t) (sort_key fst kids))"
  by pat_completeness auto
termination
proof (relation "measure (\<lambda>(rel, t). size t)")
  fix rel kids x name t
  assume "x \<in> set (sort_key fst (kids :: (string \<times> file_tree) list))" and "(name, t) = x"
  then have "(name, t) \<in> set kids" by simp
  then have "size t < Suc (size_list (\<lambda>p. Suc (size (snd p))) kids)"
    by (induction kids) auto
  moreover have "size_list (\<lambda>p. Suc (size (snd p))) kids \<le> size_list (size_prod (\<lambda>x. 0) size) kids"
    by (induction kids) auto
  ultimately show "((rel_join rel name, t), rel, Directory (Some kids)) \<in> measure (\<lambda>(rel, t). size t)" by simp
qed simp

text \<open>The entries written; \<open>suffix\<close> is put after the names of directories.  The root is skipped.\<close>

fun archive_entries :: "string \<Rightarrow> (string \<times> walk_item) list \<Rightarrow> archive_error option \<times> archive_entry list" where
  "archive_entries suffix [] = (None, [])"
| "archive_entries suffix ((rel, it) # rest) =
     (if it = OnError then (Some WalkFailed, [])
      else if rel = ''.'' then archive_entries suffix rest
      else
        (case it of
           OnDir \<Rightarrow> (case archive_entries suffix rest of (e, es) \<Rightarrow> (e, dir_entry (rel @ suffix) # es))
         | OnFile None \<Rightarrow> (Some OpenFailed, [file_entry rel ''''])
         | OnFile (Some s) \<Rightarrow> (case archive_entries suffix rest of (e, es) \<Rightarrow> (e, file_entry rel s # es))
         | OnError \<Rightarrow> (Some WalkFailed, [])))"

text \<open>The source is missing, or a tree; the target can be created or not.\<close>

definition compress_tree :: "string \<Rightarrow> bool \<Rightarrow> file_tree option \<Rightarrow> archive_error option \<times> archive_entry list" where
  "compress_tree suffix created source =
     (if \<not> created then (Some CreateFailed, [])
      else (case source of None \<Rightarrow> (Some WalkFailed, []) | Some t \<Rightarrow> archive_entries suffix (walk ''.'' t)))"

definition zip_compress where "zip_compress = compress_tree ''/''"
definition tar_compress where "tar_compress = compress_tree ''''"
definition tgz_compress where "tgz_compress = compress_tree ''''"

section \<open>Extracting archives\<close>

fun zip_extract :: "string \<Rightarrow> archive_entry list \<Rightarrow> disk \<Rightarrow> archive_error option \<times> disk" where
  "zip_extract target [] d = (None, d)"
| "zip_extract target (e # es) d =
     (let p = path_join target (ae_name e) in
      if \<not> has_prefix p (path_clean target @ ''/'') then (Some (IllegalPath (ae_name e)), d)
      else if ae_kind e = DirEntry then
        (case mkdir_all p d of None \<Rightarrow> (Some MkdirFailed, d) | Some d \<Rightarrow> zip_extract target es d)
      else
        (case mkdir_all (path_dir p) d of
           None \<Rightarrow> (Some MkdirFailed, d)
         | Some d \<Rightarrow>
             (case create_file p d of
                None \<Rightarrow> (Some CreateFailed, d)
              | Some d \<Rightarrow>
                  (if \<not> ae_opens e then (Some OpenFailed, d)
                   else
                     (let d = d(p \<mapsto> DiskFile (ae_data e)) in
                      if \<not> ae_intact e then (Some CopyFailed, d) else zip_extract target es d)))))"

text \<open>\<open>ends\<close> tells whether the reader meets the end of the archive after the entries.\<close>

fun tar_extract :: "string \<Rightarrow> archive_entry list \<Rightarrow> bool \<Rightarrow> disk \<Rightarrow> archive_error option \<times> disk" where
  "tar_extract target [] ends d = (if ends then None else Some ReadFailed, d)"
| "tar_extract target (e # es) ends d =
     (let p = path_join target (ae_name e) in
      case ae_kind e of
        DirEntry \<Rightarrow> (case mkdir_all p d of None \<Rightarrow> (Some MkdirFailed, d) | Some d \<Rightarrow> tar_extract target es ends d)
      | FileEntry \<Rightarrow>
          (case mkdir_all (path_dir p) d of
             None \<Rightarrow> (Some MkdirFailed, d)
           | Some d \<Rightarrow>
               (case create_file p d of
                  None \<Rightarrow> (Some CreateFailed, d)
                | Some d \<Rightarrow>
                    (let d = d(p \<mapsto> DiskFile (ae_data e)) in
                     if \<not> ae_intact e then (Some CopyFailed, d) else tar_extract target es ends d)))
      | OtherEntry \<Rightarrow> tar_extract target es ends d)"

declare zip_extract.simps(2) [simp del] tar_extract.simps(2) [simp del]

definition zip_decompress :: "archive_entry list option \<Rightarrow> string \<Rightarrow> disk \<Rightarrow> archive_error option \<times> disk" where
  "zip_decompress archive target d =
     (case archive of None \<Rightarrow> (Some OpenFailed, d) | Some es \<Rightarrow> zip_extract target es d)"

definition tar_decompress :: "(archive_entry list \<times> bool) option \<Rightarrow> string \<Rightarrow> disk \<Rightarrow> archive_error option \<times> disk" where
  "tar_decompress archive target d =
     (case archive of None \<Rightarrow> (Some OpenFailed, d) | Some (es, ends) \<Rightarrow> tar_extract target es ends d)"

text \<open>The outer option is the file, the inner one the header of the compressed stream.\<close>

definition tgz_decompress ::
  "(archive_entry list \<times> bool) option option \<Rightarrow> string \<Rightarrow> disk \<Rightarrow> archive_error option \<times> disk" where
  "tgz_decompress archive target d =
     (case archive of
        None \<Rightarrow> (Some OpenFailed, d)
      | Some None \<Rightarrow> (Some ReadFailed, d)
      | Some (Some (es, ends)) \<Rightarrow> tar_extract target es ends d)"

definition zip_list_files :: "archive_entry list option \<Rightarrow> archive_error + string list" where
  "zip_list_files archive = (case archive of None \<Rightarrow> Inl OpenFailed | Some es \<Rightarrow> Inr (map ae_name es))"

section \<open>Choosing the format\<close>

datatype archive_format = Zip | Tar | TarGz

definition is_tar_gz :: "string \<Rightarrow> bool" where
  "is_tar_gz name \<longleftrightarrow>
     (let n = map lower_char name in has_suffix n ''.tar.gz'' \<or> has_suffix n ''.tgz'')"

definition auto_compress_format :: "string \<Rightarrow> archive_error + archive_format" where
  "auto_compress_format target =
     (let ext = map lower_char (path_ext target) in
      if ext = ''.zip'' then Inr Zip
      else if ext = ''.tar'' then Inr Tar
      else if ext = ''.gz'' \<or> ext = ''.tgz'' then (if is_tar_gz target then Inr TarGz else Inl PlainGzip)
      else Inl (UnknownFormat ext))"

definition auto_decompress_format :: "string \<Rightarrow> archive_error + archive_format" where
  "auto_decompress_format source =
     (let ext = map lower_char (path_ext source) in
      if ext = ''.zip'' then Inr Zip
      else if ext = ''.tar'' then Inr Tar
      else if ext = ''.gz'' then (if is_tar_gz source then Inr TarGz else Inl PlainGzip)
      else Inl (UnknownFormat ext))"

text \<open>\<open>IsGzipped\<close> of gzip.go looks for the magic bytes.\<close>

definition is_gzipped :: "bytes \<Rightarrow> bool" where
  "is_gzipped data \<longleftrightarrow> (if length data < 2 then False else data ! 0 = 0x1f \<and> data ! 1 = 0x8b)"

end
