(* ===== verification/ArchiveFacts.thy ===== *)
theory ArchiveFacts
  imports Archive
begin

text \<open>
  What \<open>gcompress\<close> guarantees: extracting a zip archive touches nothing outside the target, a tree
  that is archived comes back; and where it does not behave as it reads: tar archives leave the
  target, some targets take nothing, a single file is not archived.
\<close>

section \<open>Extraction stays in the target\<close>

text \<open>Nothing differs but below the target, and the directories that lead to it.\<close>

definition below :: "string \<Rightarrow> string \<Rightarrow> bool" where
  "below target p \<longleftrightarrow> (\<exists>r. p = path_clean target @ ''/'' @ r \<and> stays_inside r)"

definition leads_to :: "string \<Rightarrow> string \<Rightarrow> bool" where
  "leads_to target p \<longleftrightarrow> p \<in> set (ancestors (path_clean target) @ [path_clean target])"

definition only_below :: "string \<Rightarrow> disk \<Rightarrow> disk \<Rightarrow> bool" where
  "only_below target d d' \<longleftrightarrow>
     (\<forall>p. d' p = d p \<or> below target p \<or> leads_to target p \<and> d p = None \<and> d' p = Some DiskDir)"

lemma only_below_refl [simp]: "only_below target d d"
  by (simp add: only_below_def)

lemma only_below_trans: "only_below target d d' \<Longrightarrow> only_below target d' d'' \<Longrightarrow> only_below target d d''"
  unfolding only_below_def by (metis option.distinct(1))

lemma only_below_write: "below target p \<Longrightarrow> only_below target d (d(p := n))"
  by (simp add: only_below_def)

text \<open>The elements of a path the check lets through.\<close>

lemma checked_words:
  assumes "normal_words rooted ws" and "has_prefix (path_of rooted ws) (path_clean target @ ''/'')"
    and "''..'' \<notin> set (split_on slash (path_clean target))"
  shows "rooted = is_rooted target \<and> words_of target \<noteq> [] \<and> (\<exists>us. us \<noteq> [] \<and> ws = words_of target @ us \<and> ''..'' \<notin> set us)"
proof -
  let ?T = "path_clean target" and ?tw = "words_of target"
  note tn = words_of_normal [of target]
  obtain q where q: "path_of rooted ws = ?T @ slash # q"
    using assms(2) by (auto simp: has_prefix_def) (metis append.assoc append_Cons append_Nil append_take_drop_id)
  have ws: "ws \<noteq> []"
  proof
    assume "ws = []"
    with q have "?T @ slash # q = (if rooted then ''/'' else ''.'')" by (simp add: path_of_def Let_def split: if_splits)
    then show False by (cases ?T) (auto split: if_splits)
  qed
  have words: "(if rooted then [] # ws else ws) = split_on slash ?T @ split_on slash q"
    using split_path_of [OF assms(1) ws] q split_append [of slash ?T q] by simp
  have plain: "w \<noteq> [] \<and> w \<noteq> ''.''" if "w \<in> set ws" for w
    using assms(1) that by (auto simp: normal_words_def plain_word_def)
  have tw: "?tw \<noteq> []"
  proof
    assume "?tw = []"
    then have "?T = (if is_rooted target then ''/'' else ''.'')" by (simp add: path_clean_words path_of_def Let_def)
    with words have "(if rooted then [] # ws else ws) = (if is_rooted target then [[], []] else [''.'']) @ split_on slash q"
      by simp
    then have "[] \<in> set ws \<or> ''.'' \<in> set ws" by (cases rooted; cases "is_rooted target") auto
    with plain show False by blast
  qed
  have split_T: "split_on slash ?T = (if is_rooted target then [] # ?tw else ?tw)"
    unfolding path_clean_words by (rule split_path_of [OF tn tw])
  have t_plain: "w \<noteq> []" if "w \<in> set ?tw" for w using tn that by (auto simp: normal_words_def plain_word_def)
  have rooted: "rooted = is_rooted target"
    using words split_T ws tw plain t_plain by (cases ws; cases ?tw) (auto split: if_splits)
  with words split_T have us: "ws = ?tw @ split_on slash q" by (simp split: if_splits)
  have "''..'' \<notin> set ?tw" using assms(3) split_T by (auto split: if_splits)
  then have "''..'' \<notin> set (split_on slash q)"
    using assms(1) us tw ups_lead_append [of ?tw "split_on slash q"] unfolding normal_words_def
    by (cases rooted; cases ?tw) (auto split: if_splits)
  with rooted tw us show ?thesis by (intro conjI exI [of _ "split_on slash q"]) simp_all
qed

text \<open>Where a path of that kind, and the parts of it, lie.\<close>

lemma inside_target:
  assumes "normal_words (is_rooted target) (words_of target @ us)" and "words_of target \<noteq> []"
    and "us \<noteq> []" and "''..'' \<notin> set us"
  shows "below target (path_of (is_rooted target) (words_of target @ us))"
proof -
  have "path_of (is_rooted target) (words_of target @ us) = path_clean target @ slash # join_with slash us"
    using path_of_append [OF assms(2,3) words_of_normal] by (simp add: path_clean_words)
  moreover have "stays_inside (join_with slash us)"
    by (rule joined_inside [OF assms(3)]) (use assms in \<open>auto simp: normal_words_def\<close>)
  ultimately show ?thesis by (auto simp: below_def)
qed

lemma part_of_target:
  assumes n: "normal_words (is_rooted target) (words_of target @ us)" and "words_of target \<noteq> []"
    and "''..'' \<notin> set us" and "words_of target @ us = xs @ ys" and "xs \<noteq> []"
  shows "below target (path_of (is_rooted target) xs) \<or> leads_to target (path_of (is_rooted target) xs)"
proof -
  obtain zs where zs: "words_of target = xs @ zs \<or> xs = words_of target @ zs \<and> us = zs @ ys"
    using assms(4) by (auto simp: append_eq_append_conv2)
  consider (in_us) vs where "xs = words_of target @ vs" "us = vs @ ys" "vs \<noteq> []"
    | (in_target) vs where "words_of target = xs @ vs"
  proof (cases "words_of target = xs @ zs")
    case True
    with that(2) show thesis by blast
  next
    case False
    with zs have "zs \<noteq> []" by auto
    with zs False that(1) show thesis by blast
  qed
  then show ?thesis
  proof cases
    case in_us
    have "below target (path_of (is_rooted target) (words_of target @ vs))"
      by (rule inside_target [OF _ assms(2) in_us(3)])
        (use assms(3,4) n in_us normal_prefix [of _ "words_of target @ vs" ys] in auto)
    with in_us show ?thesis by simp
  next
    case in_target
    then show ?thesis
      using ancestors_path_of [OF words_of_normal assms(2), of "path_of (is_rooted target) xs"] assms(5)
      by (cases "vs = []") (auto simp: leads_to_def path_clean_words)
  qed
qed

lemma mkdir_only_below:
  assumes "normal_words (is_rooted target) (words_of target @ us)" and "words_of target \<noteq> []" and "''..'' \<notin> set us"
    and "mkdir_all (path_of (is_rooted target) (words_of target @ us)) d = Some d'"
  shows "only_below target d d'"
proof -
  let ?ws = "words_of target @ us" and ?path = "path_of (is_rooted target)"
  have ne: "?ws \<noteq> []" using assms(2) by simp
  have part: "below target q \<or> leads_to target q" if "q \<in> set (ancestors (?path ?ws) @ [?path ?ws])" for q
  proof -
    from that obtain xs ys where "?ws = xs @ ys" "xs \<noteq> []" "q = ?path xs"
      using parts_path_of [OF assms(1) ne, of q] by blast
    with part_of_target [OF assms(1,2,3)] show ?thesis by blast
  qed
  have "d' = (\<lambda>q. if q \<in> set (ancestors (?path ?ws) @ [?path ?ws]) \<and> d q = None then Some DiskDir else d q)"
    using assms(4) by (simp add: mkdir_all_def Let_def split: if_splits)
  with part show ?thesis by (auto simp: only_below_def)
qed

lemma create_only_below: "below target p \<Longrightarrow> create_file p d = Some d' \<Longrightarrow> only_below target d d'"
  by (auto simp: create_file_def intro: only_below_write split: if_splits)

lemma zip_extract_only_below:
  assumes "''..'' \<notin> set (split_on slash (path_clean target))"
  shows "only_below target d (snd (zip_extract target es d))"
proof (induction es arbitrary: d)
  case (Cons e es)
  let ?p = "path_join target (ae_name e)"
  show ?case
  proof (cases "has_prefix ?p (path_clean target @ ''/'')")
    case False
    then show ?thesis by (simp add: zip_extract.simps(2) Let_def)
  next
    case checked: True
    obtain x where x: "?p = path_clean x"
      using checked by (auto simp: path_join_def has_prefix_def split: if_splits)
    have clean: "?p = path_of (is_rooted x) (words_of x)" by (simp add: x path_clean_words)
    from checked_words [OF words_of_normal [of x] _ assms] checked clean
    obtain us where us: "is_rooted x = is_rooted target" "words_of target \<noteq> []" "us \<noteq> []"
        "words_of x = words_of target @ us" "''..'' \<notin> set us" by auto
    note n = words_of_normal [of x, unfolded us]
    have p: "?p = path_of (is_rooted target) (words_of target @ us)" using clean us by simp
    have b: "below target ?p" unfolding p by (rule inside_target [OF n us(2,3,5)])
    obtain vs v where v: "us = vs @ [v]" using us(3) by (cases us rule: rev_cases) auto
    have dir: "path_dir ?p = path_of (is_rooted target) (words_of target @ vs)"
      using path_dir_path_of [of "is_rooted target" "words_of target @ vs" v] n p v by simp
    have dir_below: "only_below target d d'" if "mkdir_all (path_dir ?p) d = Some d'" for d d'
      by (rule mkdir_only_below [of target vs])
        (use that n v us normal_prefix [of _ "words_of target @ vs" "[v]"] dir in auto)
    have p_below: "only_below target d d'" if "mkdir_all ?p d = Some d'" for d d'
      by (rule mkdir_only_below [OF n us(2,5)]) (use that p in simp)
    show ?thesis
    proof (cases "ae_kind e = DirEntry")
      case True
      with checked p_below [of d] Cons show ?thesis
        by (simp add: zip_extract.simps(2) Let_def split: option.split) (blast intro: only_below_trans)
    next
      case is_file: False
      show ?thesis
      proof (cases "mkdir_all (path_dir ?p) d")
        case None
        with is_file checked show ?thesis by (simp add: zip_extract.simps(2) Let_def)
      next
        case (Some d1)
        note d1 = dir_below [OF Some]
        show ?thesis
        proof (cases "create_file ?p d1")
          case None
          with is_file checked Some d1 show ?thesis by (simp add: zip_extract.simps(2) Let_def)
        next
          case created: (Some d2)
          let ?d3 = "d2(?p \<mapsto> DiskFile (ae_data e))"
          note d2 = only_below_trans [OF d1 create_only_below [OF b created]]
          note d3 = only_below_trans [OF d2 only_below_write [OF b]]
          show ?thesis
            using is_file checked Some created d2 d3 [of "Some (DiskFile (ae_data e))"]
              only_below_trans [OF d3 Cons.IH, of "Some (DiskFile (ae_data e))"]
            by (simp add: zip_extract.simps(2) Let_def del: fun_upd_apply)
        qed
      qed
    qed
  qed
qed simp

text \<open>
  C23: extracting a zip archive stays in the target.  Whatever names the entries have, and however
  the extraction ends, the disk differs only below the target, where no path goes up again, and in
  directories that lead to the target and were not there; the target itself must not be given by
  going up.
\<close>

theorem zip_stays_in_target:
  assumes "''..'' \<notin> set (split_on slash (path_clean target))"
  shows "snd (zip_decompress archive target d) p = d p \<or> below target p \<or>
    leads_to target p \<and> d p = None \<and> snd (zip_decompress archive target d) p = Some DiskDir"
  using zip_extract_only_below [OF assms, of d] by (auto simp: zip_decompress_def only_below_def split: option.split)

definition evil_archive :: "archive_entry list" where
  "evil_archive = [file_entry ''a.txt'' ''x'', file_entry ''../evil'' ''y'']"

theorem zip_stays_in_target_witness:
  "snd (zip_decompress (Some evil_archive) ''/srv/in'' Map.empty) ''/srv/evil'' = None"
proof -
  have clean: "path_clean ''/srv/in'' = ''/srv/in''" by (simp add: path_clean_def)
  have "\<not> below ''/srv/in'' ''/srv/evil''" by (auto simp: below_def clean)
  moreover have "\<not> leads_to ''/srv/in'' ''/srv/evil''"
    by (simp add: leads_to_def clean ancestors_def upt_conv_Cons)
  ultimately show ?thesis
    using zip_stays_in_target [of "''/srv/in''" "Some evil_archive" Map.empty "''/srv/evil''"]
    by (simp add: clean)
qed

section \<open>Where the code is weaker than it reads\<close>

text \<open>A tar archive writes where it likes.\<close>

lemma tar_escapes:
  "snd (tar_decompress (Some (evil_archive, True)) ''/srv/in'' Map.empty) ''/srv/evil'' = Some (DiskFile ''y'')"
proof -
  have j: "path_join ''/srv/in'' ''a.txt'' = ''/srv/in/a.txt''" "path_join ''/srv/in'' ''../evil'' = ''/srv/evil''"
    by (simp_all add: path_join_def path_clean_def)
  have dirs: "path_dir ''/srv/in/a.txt'' = ''/srv/in''" "path_dir ''/srv/evil'' = ''/srv''"
    by (simp_all add: path_dir_def path_clean_def)
  have anc: "ancestors ''/srv/in'' = [''/srv'']" "ancestors ''/srv'' = []" by (simp_all add: ancestors_def upt_conv_Cons)
  have imp: "\<not> implicit_dir ''/srv/in/a.txt''" "\<not> implicit_dir ''/srv/evil''" by (simp_all add: implicit_dir_def)
  show ?thesis
    by (simp add: tar_decompress_def evil_archive_def tar_extract.simps(2) file_entry_def j dirs mkdir_all_def anc
        Let_def is_file_def create_file_def imp)
qed

text \<open>A target given by going up lets a zip archive go up further.\<close>

lemma zip_escapes_above:
  "snd (zip_decompress (Some [file_entry ''../../evil'' ''y'']) ''..'' Map.empty) ''../../../evil'' = Some (DiskFile ''y'')"
proof -
  have j: "path_join ''..'' ''../../evil'' = ''../../../evil''" "path_clean ''..'' = ''..''"
    by (simp_all add: path_join_def path_clean_def)
  have dir: "path_dir ''../../../evil'' = ''../../..''" by (simp add: path_dir_def path_clean_def)
  have anc: "ancestors ''../../..'' = [''..'', ''../..'']" by (simp add: ancestors_def upt_conv_Cons)
  have imp: "\<not> implicit_dir ''../../../evil''" by (simp add: implicit_dir_def)
  show ?thesis
    by (simp add: zip_decompress_def zip_extract.simps(2) file_entry_def j dir mkdir_all_def anc Let_def is_file_def
        create_file_def imp has_prefix_def)
qed

text \<open>A zip archive cannot be extracted into the current directory, nor into the root.\<close>

lemma current_directory_refused:
  "zip_decompress (Some [file_entry ''a.txt'' ''x'']) ''.'' d = (Some (IllegalPath ''a.txt''), d)"
  by (simp add: zip_decompress_def zip_extract.simps(2) file_entry_def path_join_def path_clean_def has_prefix_def Let_def)

lemma root_refused:
  "zip_decompress (Some [file_entry ''a.txt'' ''x'']) ''/'' d = (Some (IllegalPath ''a.txt''), d)"
  by (simp add: zip_decompress_def zip_extract.simps(2) file_entry_def path_join_def path_clean_def has_prefix_def Let_def)

text \<open>A source that is a single file gives an empty archive.\<close>

lemma single_file_lost: "zip_compress True (Some (RegularFile (Some s))) = (None, [])"
  by (simp add: zip_compress_def compress_tree_def)

text \<open>An archive named \<open>.tgz\<close> is made but not extracted.\<close>

lemma tgz_one_way:
  "auto_compress_format ''a.tgz'' = Inr TarGz \<and> auto_decompress_format ''a.tgz'' = Inl (UnknownFormat ''.tgz'')"
  by (simp add: auto_compress_format_def auto_decompress_format_def path_ext_def is_tar_gz_def has_suffix_def
      has_prefix_def lower_char_def Let_def)

end
