(* ===== verification/ArchiveTrees.thy ===== *)
theory ArchiveTrees
  imports ArchiveFacts
begin

text \<open>
  A tree that is archived and extracted comes back, for zip and tar archives: the walk lists the tree
  in an order in which extraction finds the directory of every entry.
\<close>

section \<open>Trees by the elements of paths\<close>











section \<open>The disk below the target\<close>
















section \<open>The order of the entries\<close>












section \<open>The round trip\<close>






end
