(* ===== verification/Crypto.thy ===== *)
theory Crypto
  imports Prelude
begin

text \<open>
  \<open>gcrypt\<close>: AES, DES and Triple DES in CBC mode with padding (aes.go, des.go), keys in PEM (rsa.go)
  and passwords (hash.go).  The block ciphers, the random source, Argon2 and the encodings of keys
  come from other packages: they are arguments, and what is used of them is a hypothesis.  CBC mode
  is that of \<open>crypto/cipher\<close>.
\<close>

section \<open>Slices with spare capacity\<close>

text \<open>A slice: its array from its start on, and its length.  \<open>append\<close> writes into the array when it fits.\<close>

record byte_slice =
  sl_array :: bytes
  sl_len :: nat

definition slice_bytes :: "byte_slice \<Rightarrow> bytes" where
  "slice_bytes s = take (sl_len s) (sl_array s)"

definition slice_of :: "bytes \<Rightarrow> byte_slice" where
  "slice_of bs = \<lparr>sl_array = bs, sl_len = length bs\<rparr>"

text \<open>The appended bytes, and the array of the old slice afterwards.\<close>

definition go_append :: "byte_slice \<Rightarrow> bytes \<Rightarrow> bytes \<times> bytes" where
  "go_append s bs =
     (slice_bytes s @ bs,
      if sl_len s + length bs \<le> length (sl_array s)
      then slice_bytes s @ bs @ drop (sl_len s + length bs) (sl_array s) else sl_array s)"

section \<open>Padding\<close>

datatype crypt_error =
    ErrInvalidKeySize | RandomFailed | CipherFailed string | CiphertextTooShort | EmptyData | InvalidPadding

definition pkcs7_padding :: "byte_slice \<Rightarrow> nat \<Rightarrow> bytes \<times> bytes" where
  "pkcs7_padding s block =
     (let padding = block - sl_len s mod block in go_append s (replicate padding (of_nat padding)))"

definition pkcs7_unpadding :: "bytes \<Rightarrow> (crypt_error, bytes) outcome" where
  "pkcs7_unpadding data =
     (if length data = 0 then Err EmptyData
      else
        (let unpadding = unat (last data) in
         if unpadding > length data then Err InvalidPadding
         else Ok (take (length data - unpadding) data)))"

section \<open>CBC mode\<close>

record block_cipher =
  bc_size :: nat
  bc_enc :: "bytes \<Rightarrow> bytes"
  bc_dec :: "bytes \<Rightarrow> bytes"

definition xor_bytes :: "bytes \<Rightarrow> bytes \<Rightarrow> bytes" where
  "xor_bytes a b = map (\<lambda>(x, y). xor x y) (zip a b)"

function cbc_encrypt :: "nat \<Rightarrow> (bytes \<Rightarrow> bytes) \<Rightarrow> bytes \<Rightarrow> bytes \<Rightarrow> bytes" where
  "cbc_encrypt n f iv data =
     (if n = 0 \<or> length data < n then []
      else (let c = f (xor_bytes iv (take n data)) in c @ cbc_encrypt n f c (drop n data)))"
  by pat_completeness auto
termination by (relation "measure (\<lambda>(n, f, iv, data). length data)") auto

function cbc_decrypt :: "nat \<Rightarrow> (bytes \<Rightarrow> bytes) \<Rightarrow> bytes \<Rightarrow> bytes \<Rightarrow> bytes" where
  "cbc_decrypt n g iv data =
     (if n = 0 \<or> length data < n then []
      else (let c = take n data in xor_bytes iv (g c) @ cbc_decrypt n g c (drop n data)))"
  by pat_completeness auto
termination by (relation "measure (\<lambda>(n, g, iv, data). length data)") auto

declare cbc_encrypt.simps [simp del] cbc_decrypt.simps [simp del]

text \<open>\<open>CryptBlocks\<close> panics unless the data are whole blocks.\<close>

definition crypt_blocks :: "nat \<Rightarrow> (bytes \<Rightarrow> bytes) \<Rightarrow> bytes \<Rightarrow> ('e, bytes) outcome" where
  "crypt_blocks n run data = (if n = 0 \<or> length data mod n \<noteq> 0 then Panic else Ok (run data))"

section \<open>The algorithms\<close>

datatype algorithm = AES | DES | TripleDES

definition iv_size :: "algorithm \<Rightarrow> nat" where
  "iv_size alg = (case alg of AES \<Rightarrow> 16 | _ \<Rightarrow> 8)"

text \<open>
  \<open>new_cipher\<close> is \<open>aes.NewCipher\<close>, \<open>des.NewCipher\<close> or \<open>des.NewTripleDESCipher\<close>; \<open>random n\<close> are
  \<open>n\<close> bytes of the random source.  The second component is the array of the plaintext afterwards.
\<close>

definition encrypt_with ::
  "algorithm \<Rightarrow> (bytes \<Rightarrow> string + block_cipher) \<Rightarrow> (nat \<Rightarrow> bytes option) \<Rightarrow> byte_slice \<Rightarrow> bytes
     \<Rightarrow> (crypt_error, bytes) outcome \<times> bytes" where
  "encrypt_with alg new_cipher random plaintext key =
     (case new_cipher key of
        Inl e \<Rightarrow> (Err (CipherFailed e), sl_array plaintext)
      | Inr block \<Rightarrow>
          (case pkcs7_padding plaintext (bc_size block) of
             (padded, arr) \<Rightarrow>
               (case random (iv_size alg) of
                  None \<Rightarrow> (Err RandomFailed, arr)
                | Some iv \<Rightarrow>
                    (bindO (crypt_blocks (bc_size block) (cbc_encrypt (bc_size block) (bc_enc block) iv) padded)
                       (\<lambda>c. Ok (iv @ c)), arr))))"

text \<open>The blocks are decrypted in place: the second component is the ciphertext of the caller afterwards.\<close>

definition decrypt_with ::
  "algorithm \<Rightarrow> (bytes \<Rightarrow> string + block_cipher) \<Rightarrow> bytes \<Rightarrow> bytes \<Rightarrow> (crypt_error, bytes) outcome \<times> bytes" where
  "decrypt_with alg new_cipher ciphertext key =
     (case new_cipher key of
        Inl e \<Rightarrow> (Err (CipherFailed e), ciphertext)
      | Inr block \<Rightarrow>
          (if length ciphertext < iv_size alg then (Err CiphertextTooShort, ciphertext)
           else
             (let iv = take (iv_size alg) ciphertext; data = drop (iv_size alg) ciphertext in
              case (crypt_blocks (bc_size block) (cbc_decrypt (bc_size block) (bc_dec block) iv) data :: (crypt_error, bytes) outcome) of
                Ok plain \<Rightarrow> (pkcs7_unpadding plain, iv @ plain)
              | Err e \<Rightarrow> (Err e, ciphertext)
              | Panic \<Rightarrow> (Panic, ciphertext))))"

definition aes_encrypt where "aes_encrypt = encrypt_with AES"
definition aes_decrypt where "aes_decrypt = decrypt_with AES"
definition des_encrypt where "des_encrypt = encrypt_with DES"
definition des_decrypt where "des_decrypt = decrypt_with DES"
definition triple_des_encrypt where "triple_des_encrypt = encrypt_with TripleDES"
definition triple_des_decrypt where "triple_des_decrypt = decrypt_with TripleDES"

definition random_key :: "(nat \<Rightarrow> bytes option) \<Rightarrow> nat \<Rightarrow> (crypt_error, bytes) outcome" where
  "random_key random n = (case random n of None \<Rightarrow> Err RandomFailed | Some k \<Rightarrow> Ok k)"

definition generate_aes_key :: "(nat \<Rightarrow> bytes option) \<Rightarrow> int \<Rightarrow> (crypt_error, bytes) outcome" where
  "generate_aes_key random n =
     (if n \<noteq> 16 \<and> n \<noteq> 24 \<and> n \<noteq> 32 then Err ErrInvalidKeySize else random_key random (nat n))"

definition generate_des_key :: "(nat \<Rightarrow> bytes option) \<Rightarrow> (crypt_error, bytes) outcome" where
  "generate_des_key random = random_key random 8"

definition generate_triple_des_key :: "(nat \<Rightarrow> bytes option) \<Rightarrow> (crypt_error, bytes) outcome" where
  "generate_triple_des_key random = random_key random 24"

section \<open>Keys in PEM\<close>

datatype ('k, 'o) parsed_key = RsaKey 'k | OtherKey 'o

datatype pem_error = NoPemBlock | NotRsa | NilKey | BadKey

text \<open>The encodings: \<open>pem\<close> writes a block of a type, \<open>unpem\<close> finds the first block of a text.\<close>

record ('k, 'o) key_format =
  kf_pem :: "string \<Rightarrow> bytes \<Rightarrow> bytes"
  kf_unpem :: "bytes \<Rightarrow> bytes option"
  kf_pkcs1 :: "'k \<Rightarrow> bytes"
  kf_parse_pkcs1 :: "bytes \<Rightarrow> 'k option"
  kf_parse_general :: "bytes \<Rightarrow> ('k, 'o) parsed_key option"

definition encode_private_key :: "('k, 'o) key_format \<Rightarrow> 'k option \<Rightarrow> (pem_error, bytes) outcome" where
  "encode_private_key kf key =
     (case key of None \<Rightarrow> Panic | Some k \<Rightarrow> Ok (kf_pem kf ''RSA PRIVATE KEY'' (kf_pkcs1 kf k)))"

definition encode_public_key :: "('k, 'o) key_format \<Rightarrow> 'k option \<Rightarrow> (pem_error, bytes) outcome" where
  "encode_public_key kf key =
     (case key of None \<Rightarrow> Err NilKey | Some k \<Rightarrow> Ok (kf_pem kf ''RSA PUBLIC KEY'' (kf_pkcs1 kf k)))"

definition decode_key :: "('k, 'o) key_format \<Rightarrow> bytes \<Rightarrow> (pem_error, 'k) outcome" where
  "decode_key kf pem =
     (case kf_unpem kf pem of
        None \<Rightarrow> Err NoPemBlock
      | Some block \<Rightarrow>
          (case kf_parse_general kf block of
             Some (RsaKey k) \<Rightarrow> Ok k
           | Some (OtherKey _) \<Rightarrow> Err NotRsa
           | None \<Rightarrow> (case kf_parse_pkcs1 kf block of None \<Rightarrow> Err BadKey | Some k \<Rightarrow> Ok k)))"

text \<open>\<open>kf_parse_general\<close> is \<open>ParsePKCS8PrivateKey\<close> for private keys and \<open>ParsePKIXPublicKey\<close> for public ones.\<close>

definition decode_private_key :: "('k, 'o) key_format \<Rightarrow> bytes \<Rightarrow> (pem_error, 'k) outcome" where
  "decode_private_key kf pem = decode_key kf pem"

definition decode_public_key :: "('k, 'o) key_format \<Rightarrow> bytes \<Rightarrow> (pem_error, 'k) outcome" where
  "decode_public_key kf pem = decode_key kf pem"

section \<open>Passwords\<close>

text \<open>\<open>argon\<close> is \<open>argon2.IDKey\<close> with time 1, 64 MiB, 4 threads and 32 bytes.\<close>

definition fixed_salt :: bytes where
  "fixed_salt = replicate 16 1"

definition hash_password :: "(bytes \<Rightarrow> bytes \<Rightarrow> bytes) \<Rightarrow> bytes \<Rightarrow> bytes" where
  "hash_password argon password = argon password fixed_salt"

fun equal_upto :: "bytes \<Rightarrow> bytes \<Rightarrow> ('e, bool) outcome" where
  "equal_upto [] actual = Ok True"
| "equal_upto (h # hs) [] = Panic"
| "equal_upto (h # hs) (a # as) = (if h \<noteq> a then Ok False else equal_upto hs as)"

definition verify_password :: "(bytes \<Rightarrow> bytes \<Rightarrow> bytes) \<Rightarrow> bytes \<Rightarrow> bytes \<Rightarrow> ('e, bool) outcome" where
  "verify_password argon password hash = equal_upto hash (argon password fixed_salt)"

section \<open>What is encrypted is decrypted\<close>

definition cipher_ok :: "block_cipher \<Rightarrow> bool" where
  "cipher_ok c \<longleftrightarrow>
     (\<forall>b. length b = bc_size c \<longrightarrow> length (bc_enc c b) = bc_size c \<and> bc_dec c (bc_enc c b) = b)"

lemma xor_bytes_length [simp]: "length (xor_bytes a b) = min (length a) (length b)"
  by (simp add: xor_bytes_def)

lemma xor_bytes_twice: "length a = length b \<Longrightarrow> xor_bytes a (xor_bytes a b) = b"
proof (induction a b rule: list_induct2)
  case Nil
  then show ?case by (simp add: xor_bytes_def)
next
  case (Cons x xs y ys)
  then show ?case by (simp add: xor_bytes_def flip: xor.assoc)
qed

lemma cbc_inverse:
  assumes "cipher_ok c" and "bc_size c = n" and "0 < n" and "length iv = n" and "length data mod n = 0"
  shows "cbc_decrypt n (bc_dec c) iv (cbc_encrypt n (bc_enc c) iv data) = data \<and>
    length (cbc_encrypt n (bc_enc c) iv data) = length data"
  using assms
proof (induction "length data" arbitrary: iv data rule: less_induct)
  case less
  show ?case
  proof (cases "length data < n")
    case True
    with less.prems(5) have "data = []" by simp
    with less.prems(3) show ?thesis by (simp add: cbc_encrypt.simps cbc_decrypt.simps)
  next
    case False
    let ?b = "xor_bytes iv (take n data)" and ?e = "bc_enc c (xor_bytes iv (take n data))"
    have b: "length ?b = n" using False less.prems(4) by simp
    have e: "length ?e = n" "bc_dec c ?e = ?b" using less.prems(1,2) b by (auto simp: cipher_ok_def)
    have rest: "length (drop n data) mod n = 0"
      using less.prems(5) False by (simp add: le_mod_geq)
    note IH = less.hyps [of "drop n data" ?e, OF _ less.prems(1,2,3) e(1) rest]
    have shorter: "length (drop n data) < length data" using False less.prems(3) by simp
    have enc: "cbc_encrypt n (bc_enc c) iv data = ?e @ cbc_encrypt n (bc_enc c) ?e (drop n data)"
      using False less.prems(3) by (subst cbc_encrypt.simps) (simp add: Let_def)
    have "cbc_decrypt n (bc_dec c) iv (?e @ cbc_encrypt n (bc_enc c) ?e (drop n data)) =
        xor_bytes iv ?b @ cbc_decrypt n (bc_dec c) ?e (cbc_encrypt n (bc_enc c) ?e (drop n data))"
      using e less.prems(3) by (subst cbc_decrypt.simps) (simp add: Let_def)
    moreover have "xor_bytes iv ?b = take n data"
      by (rule xor_bytes_twice) (use False less.prems(4) in simp)
    ultimately show ?thesis using IH [OF shorter] enc e(1) False by simp
  qed
qed

lemma padding_unpadded:
  assumes "0 < n" and "n < 256" and "sl_len s \<le> length (sl_array s)"
  shows "pkcs7_unpadding (fst (pkcs7_padding s n)) = Ok (slice_bytes s)"
    and "length (fst (pkcs7_padding s n)) mod n = 0"
proof -
  let ?p = "n - sl_len s mod n"
  have less: "sl_len s mod n < n" using assms(1) by simp
  then have p: "0 < ?p" "?p < 256" using assms(2) by auto
  have len: "length (slice_bytes s) = sl_len s" using assms(3) by (simp add: slice_bytes_def)
  have padded: "fst (pkcs7_padding s n) = slice_bytes s @ replicate ?p (of_nat ?p)"
    by (simp add: pkcs7_padding_def go_append_def Let_def)
  have "unat (of_nat ?p :: byte) = ?p" using p(2) by (simp add: unat_of_nat take_bit_nat_eq_self)
  moreover have "last (slice_bytes s @ replicate ?p (of_nat ?p)) = of_nat ?p" using p(1) by simp
  ultimately show "pkcs7_unpadding (fst (pkcs7_padding s n)) = Ok (slice_bytes s)"
    unfolding padded pkcs7_unpadding_def Let_def using p(1) by simp
  have "sl_len s + ?p = (sl_len s div n) * n + n"
    using less div_mult_mod_eq [of "sl_len s" n] by linarith
  then show "length (fst (pkcs7_padding s n)) mod n = 0" unfolding padded using len by simp
qed

text \<open>
  C24: what is encrypted with AES, DES or Triple DES is decrypted with the same key: for every text,
  also one whose length is a multiple of the block, the bytes come back as they were.
\<close>

theorem sealed_is_opened:
  assumes "new_cipher key = Inr c" and "cipher_ok c" and "bc_size c = iv_size alg"
    and "random (iv_size alg) = Some iv" and "length iv = iv_size alg"
    and "sl_len plaintext \<le> length (sl_array plaintext)"
  shows "\<exists>ct. fst (encrypt_with alg new_cipher random plaintext key) = Ok ct \<and>
    fst (decrypt_with alg new_cipher ct key) = Ok (slice_bytes plaintext)"
proof -
  let ?n = "iv_size alg"
  have n: "0 < ?n" "?n < 256" by (simp_all add: iv_size_def split: algorithm.split)
  note pad = padding_unpadded [OF n assms(6)]
  obtain padded arr where padded: "pkcs7_padding plaintext ?n = (padded, arr)" by (cases "pkcs7_padding plaintext ?n")
  have whole: "length padded mod ?n = 0" and plain: "pkcs7_unpadding padded = Ok (slice_bytes plaintext)"
    using pad padded by simp_all
  let ?ct = "cbc_encrypt ?n (bc_enc c) iv padded"
  note inv = cbc_inverse [OF assms(2) assms(3) n(1) assms(5) whole]
  have enc: "fst (encrypt_with alg new_cipher random plaintext key) = Ok (iv @ ?ct)"
    using assms padded whole n by (simp add: encrypt_with_def crypt_blocks_def)
  have "fst (decrypt_with alg new_cipher (iv @ ?ct) key) = Ok (slice_bytes plaintext)"
    using assms n whole plain inv by (simp add: decrypt_with_def crypt_blocks_def Let_def)
  with enc show ?thesis by blast
qed

definition demo_cipher :: "nat \<Rightarrow> bytes \<Rightarrow> block_cipher" where
  "demo_cipher n k = \<lparr>bc_size = n, bc_enc = xor_bytes k, bc_dec = xor_bytes k\<rparr>"

lemma demo_cipher_ok: "length k = n \<Longrightarrow> cipher_ok (demo_cipher n k)"
  by (simp add: cipher_ok_def demo_cipher_def xor_bytes_twice)

theorem sealed_is_opened_witness:
  "\<exists>ct. fst (encrypt_with DES (\<lambda>k. Inr (demo_cipher 8 k)) (\<lambda>n. Some (replicate n 7)) (slice_of [1, 2, 3]) [8, 7, 6, 5, 4, 3, 2, 1]) = Ok ct \<and>
    fst (decrypt_with DES (\<lambda>k. Inr (demo_cipher 8 k)) ct [8, 7, 6, 5, 4, 3, 2, 1]) = Ok [1, 2, 3]"
proof -
  have "slice_bytes (slice_of [1, 2, 3]) = [1, 2, 3]" by (simp add: slice_bytes_def slice_of_def)
  moreover have "cipher_ok (demo_cipher 8 [8, 7, 6, 5, 4, 3, 2, 1])" by (rule demo_cipher_ok) simp
  ultimately show ?thesis
    using sealed_is_opened [of "\<lambda>k. Inr (demo_cipher 8 k)" "[8, 7, 6, 5, 4, 3, 2, 1]"
        "demo_cipher 8 [8, 7, 6, 5, 4, 3, 2, 1]" DES "\<lambda>n. Some (replicate n 7)" "replicate 8 7" "slice_of [1, 2, 3]"]
    by (simp add: iv_size_def slice_of_def demo_cipher_def)
qed

section \<open>Where the code is weaker than it reads\<close>

text \<open>Decrypting overwrites the ciphertext of the caller with the plaintext.\<close>

lemma decrypt_overwrites:
  assumes "new_cipher key = Inr c" and "bc_size c = iv_size alg" and "length iv = iv_size alg"
    and "length data mod iv_size alg = 0"
  shows "snd (decrypt_with alg new_cipher (iv @ data) key) = iv @ cbc_decrypt (bc_size c) (bc_dec c) iv data"
  using assms by (simp add: decrypt_with_def crypt_blocks_def Let_def iv_size_def split: algorithm.split)

text \<open>A ciphertext cut off inside a block panics instead of being refused.\<close>

lemma cut_ciphertext_panics:
  "new_cipher key = Inr c \<Longrightarrow> bc_size c = iv_size alg \<Longrightarrow> iv_size alg < length ct \<Longrightarrow> (length ct - iv_size alg) mod iv_size alg \<noteq> 0 \<Longrightarrow>
     fst (decrypt_with alg new_cipher ct key) = Panic"
  by (simp add: decrypt_with_def crypt_blocks_def Let_def)

text \<open>Padding is not checked: of its bytes only the last is read, and 0 is taken.\<close>

lemma zero_padding_taken: "pkcs7_unpadding (bs @ [0]) = Ok (bs @ [0])"
  by (simp add: pkcs7_unpadding_def)

lemma forged_padding_taken: "pkcs7_unpadding [9, 9, 9, 2] = Ok [9, 9]"
  by (simp add: pkcs7_unpadding_def)

text \<open>Encrypting a slice with spare capacity overwrites the bytes behind it.\<close>

lemma padding_overwrites_neighbour:
  "snd (pkcs7_padding \<lparr>sl_array = [1, 2, 3, 4, 5, 6, 7, 8, 9], sl_len = 6\<rparr> 8) = [1, 2, 3, 4, 5, 6, 2, 2, 9]"
  by (simp add: pkcs7_padding_def go_append_def slice_bytes_def Let_def numeral_2_eq_2)

text \<open>Every password fits the empty hash, and a prefix of its hash; a longer hash panics.\<close>

lemma prefix_verifies:
  assumes "argon password fixed_salt = h @ rest"
  shows "(verify_password argon password h :: ('e, bool) outcome) = Ok True"
proof -
  have "(equal_upto h (h @ rest) :: ('e, bool) outcome) = Ok True" by (induction h) auto
  with assms show ?thesis by (simp add: verify_password_def)
qed

lemma empty_hash_verifies: "(verify_password argon password [] :: ('e, bool) outcome) = Ok True"
  by (rule prefix_verifies [where rest = "argon password fixed_salt"]) simp

lemma longer_hash_panics:
  "(verify_password argon password (hash_password argon password @ [b]) :: ('e, bool) outcome) = Panic"
proof -
  have "(equal_upto (h @ [b]) h :: ('e, bool) outcome) = Panic" for h by (induction h) auto
  then show ?thesis by (simp add: verify_password_def hash_password_def)
qed

text \<open>A password is verified with its own hash.\<close>

lemma password_verifies: "(verify_password argon password (hash_password argon password) :: ('e, bool) outcome) = Ok True"
  by (rule prefix_verifies [where rest = "[]"]) (simp add: hash_password_def)

text \<open>
  Keys come back, when the text of a block is found again, PKCS1 is read back and is not taken for
  the general format.
\<close>

lemma private_key_read_back:
  assumes "\<And>b. kf_unpem kf (kf_pem kf ''RSA PRIVATE KEY'' b) = Some b"
    and "kf_parse_general kf (kf_pkcs1 kf k) = None" and "kf_parse_pkcs1 kf (kf_pkcs1 kf k) = Some k"
  shows "bindO (encode_private_key kf (Some k)) (decode_private_key kf) = Ok k"
  using assms by (simp add: encode_private_key_def decode_private_key_def decode_key_def)

lemma public_key_read_back:
  assumes "\<And>b. kf_unpem kf (kf_pem kf ''RSA PUBLIC KEY'' b) = Some b"
    and "kf_parse_general kf (kf_pkcs1 kf k) = None" and "kf_parse_pkcs1 kf (kf_pkcs1 kf k) = Some k"
  shows "bindO (encode_public_key kf (Some k)) (decode_public_key kf) = Ok k"
  using assms by (simp add: encode_public_key_def decode_public_key_def decode_key_def)

end
