(* ===== verification/TcpForward.thy ===== *)
theory TcpForward
  imports GoIO "HOL-Library.Sublist"
begin

text \<open>
  \<open>gnet/forward/tcp.go\<close>: a bridge between two connections with a handler for the data, as a step
  relation over its two pumps and a caller that closes it.  A connection is the bytes its peer has
  still to be read of and what was written to it; a read returns any part of them that fits in the
  buffer.  Handlers are functions of the data; logging is left out.
\<close>

section \<open>Handlers\<close>

datatype direction = LocalToRemote | RemoteToLocal

record protocol_handler =
  ph_should_process :: "bytes \<Rightarrow> bool"
  ph_process_data :: "bytes \<Rightarrow> direction \<Rightarrow> bytes"

record simple_handler =
  sh_local_order :: byte_order
  sh_remote_order :: byte_order

definition convert_byte_order :: "bytes \<Rightarrow> byte_order \<Rightarrow> byte_order \<Rightarrow> bytes" where
  "convert_byte_order data src dst =
     (if src = dst then data
      else if length data \<ge> 6 then
        put_uint16 dst (word_at 2 src 0 data) @ put_uint32 dst (word_at 4 src 2 data) @ drop 6 data
      else data)"

definition simple_process_data :: "simple_handler \<Rightarrow> bytes \<Rightarrow> direction \<Rightarrow> bytes" where
  "simple_process_data h data d =
     (if length data < 2 then data
      else (case d of
              LocalToRemote \<Rightarrow> convert_byte_order data (sh_local_order h) (sh_remote_order h)
            | RemoteToLocal \<Rightarrow> convert_byte_order data (sh_remote_order h) (sh_local_order h)))"

definition simple_protocol_handler :: "byte_order \<Rightarrow> byte_order \<Rightarrow> protocol_handler" where
  "simple_protocol_handler local_order remote_order =
     \<lparr>ph_should_process = (\<lambda>data. length data \<ge> 2),
      ph_process_data = simple_process_data \<lparr>sh_local_order = local_order, sh_remote_order = remote_order\<rparr>\<rparr>"

section \<open>The bridge\<close>

record tcp_config =
  tg_buffer_size :: int
  tg_timeout :: int

record bridge_settings =
  bs_buffer_size :: nat
  bs_timeout :: int
  bs_handler :: "protocol_handler option"

text \<open>The handler comes from the byte-order configuration; the byte orders in it are not used.\<close>

definition new_protocol_aware_bridge :: "tcp_config \<Rightarrow> protocol_handler option option \<Rightarrow> bridge_settings" where
  "new_protocol_aware_bridge config order_config =
     \<lparr>bs_buffer_size = (if tg_buffer_size config \<le> 0 then 4096 else nat (tg_buffer_size config)),
      bs_timeout = tg_timeout config,
      bs_handler = (case order_config of Some h \<Rightarrow> h | None \<Rightarrow> None)\<rparr>"

definition processed :: "protocol_handler option \<Rightarrow> direction \<Rightarrow> bytes \<Rightarrow> bytes" where
  "processed h d data =
     (case h of
        None \<Rightarrow> data
      | Some h \<Rightarrow> if ph_should_process h data then ph_process_data h data d else data)"

text \<open>Where a pump is: before it looks whether the bridge is closed, at its read, at its write, returned.\<close>

datatype pump = Looking | AtRead | AtWrite bytes | Returned

record bridge =
  br_closed :: bool
  br_pump :: "direction \<Rightarrow> pump"
  br_pending :: "direction \<Rightarrow> bytes"
  br_ended :: "direction \<Rightarrow> bool"
  br_written :: "direction \<Rightarrow> bytes"
  br_sent :: "direction \<Rightarrow> bytes"
  br_read :: "direction \<Rightarrow> bytes list"
  br_failed :: "direction \<Rightarrow> bool"

text \<open>
  \<open>br_ended d\<close> tells that the peer that sends in direction \<open>d\<close> has closed its side; \<open>br_sent\<close> keeps
  what that peer has sent, \<open>br_read\<close> the chunks as they were read and \<open>br_failed\<close> whether a write has
  failed, for the statements below.
\<close>

definition start_bridge :: "(direction \<Rightarrow> bytes) \<Rightarrow> bridge" where
  "start_bridge input =
     \<lparr>br_closed = False, br_pump = (\<lambda>_. Looking), br_pending = input, br_ended = (\<lambda>_. False),
      br_written = (\<lambda>_. []), br_sent = input, br_read = (\<lambda>_. []), br_failed = (\<lambda>_. False)\<rparr>"

definition set_pump :: "direction \<Rightarrow> pump \<Rightarrow> bridge \<Rightarrow> bridge" where
  "set_pump d p b = b\<lparr>br_pump := (br_pump b)(d := p)\<rparr>"

definition look_closed :: "direction \<Rightarrow> bridge \<Rightarrow> bridge" where
  "look_closed d b = set_pump d (if br_closed b then Returned else AtRead) b"

definition take_chunk :: "bridge_settings \<Rightarrow> direction \<Rightarrow> nat \<Rightarrow> bridge \<Rightarrow> bridge" where
  "take_chunk cfg d n b =
     (let chunk = take n (br_pending b d)
      in set_pump d (AtWrite (processed (bs_handler cfg) d chunk))
           (b\<lparr>br_pending := (br_pending b)(d := drop n (br_pending b d)),
              br_read := (br_read b)(d := br_read b d @ [chunk])\<rparr>))"

definition write_chunk :: "direction \<Rightarrow> bytes \<Rightarrow> bridge \<Rightarrow> bridge" where
  "write_chunk d data b = set_pump d Looking (b\<lparr>br_written := (br_written b)(d := br_written b d @ data)\<rparr>)"

definition fail_write :: "direction \<Rightarrow> bytes \<Rightarrow> bridge \<Rightarrow> bridge" where
  "fail_write d part b =
     set_pump d Returned (b\<lparr>br_written := (br_written b)(d := br_written b d @ part), br_failed := (br_failed b)(d := True)\<rparr>)"

definition close_bridge :: "bridge \<Rightarrow> bridge" where
  "close_bridge b = b\<lparr>br_closed := True\<rparr>"

definition peer_sends :: "direction \<Rightarrow> bytes \<Rightarrow> bridge \<Rightarrow> bridge" where
  "peer_sends d data b =
     b\<lparr>br_pending := (br_pending b)(d := br_pending b d @ data), br_sent := (br_sent b)(d := br_sent b d @ data)\<rparr>"

text \<open>
  A read may time out when a timeout is set, give data, find the end or fail; a write is complete or
  fails after a part of the data.  On connections that are open a read fails only at its own fault,
  so that both are always possible.  The bridge is closed by a caller at any time, or by \<open>Start\<close> when
  both pumps have returned.
\<close>

inductive bridge_step :: "bridge_settings \<Rightarrow> bridge \<Rightarrow> bridge \<Rightarrow> bool" for cfg where
  step_look: "br_pump b d = Looking \<Longrightarrow> bridge_step cfg b (look_closed d b)"
| step_timeout: "br_pump b d = AtRead \<Longrightarrow> 0 < bs_timeout cfg \<Longrightarrow> bridge_step cfg b (set_pump d Looking b)"
| step_read: "br_pump b d = AtRead \<Longrightarrow> \<not> br_closed b \<Longrightarrow> 0 < n \<Longrightarrow> n \<le> bs_buffer_size cfg \<Longrightarrow>
    n \<le> length (br_pending b d) \<Longrightarrow> bridge_step cfg b (take_chunk cfg d n b)"
| step_empty: "br_pump b d = AtRead \<Longrightarrow> bridge_step cfg b (set_pump d Looking b)"
| step_end: "br_pump b d = AtRead \<Longrightarrow> br_ended b d \<Longrightarrow> br_pending b d = [] \<Longrightarrow> bridge_step cfg b (set_pump d Returned b)"
| step_read_error: "br_pump b d = AtRead \<Longrightarrow> bridge_step cfg b (set_pump d Returned b)"
| step_write: "br_pump b d = AtWrite data \<Longrightarrow> \<not> br_closed b \<Longrightarrow> bridge_step cfg b (write_chunk d data b)"
| step_write_error: "br_pump b d = AtWrite (part @ rest) \<Longrightarrow> bridge_step cfg b (fail_write d part b)"
| step_peer: "bridge_step cfg b (b\<lparr>br_ended := (br_ended b)(d := True)\<rparr>)"
| step_send: "\<not> br_ended b d \<Longrightarrow> bridge_step cfg b (peer_sends d data b)"
| step_close: "bridge_step cfg b (close_bridge b)"

text \<open>What \<open>Start\<close> and \<open>Close\<close> report; both connections are closed once, and the first error is returned.\<close>

datatype start_result = ErrClosedPipe | Running

definition start_result_of :: "bool \<Rightarrow> start_result" where
  "start_result_of is_closed = (if is_closed then ErrClosedPipe else Running)"

definition close_result :: "bridge \<Rightarrow> string option \<Rightarrow> string option \<Rightarrow> string option" where
  "close_result b local_err remote_err =
     (if br_closed b then None else case local_err of Some e \<Rightarrow> Some e | None \<Rightarrow> remote_err)"

section \<open>Byte orders\<close>

lemma be_bytes_low:
  "take_bit (8 * n) w = take_bit (8 * n) v \<Longrightarrow> be_bytes n w = be_bytes n (v :: 'a::len word)"
proof (induction n arbitrary: w v)
  case (Suc n)
  have "take_bit 8 (take_bit (8 * Suc n) u) = take_bit 8 u" for u :: "'a word"
    by (rule bit_word_eqI) (auto simp: bit_simps)
  with Suc.prems have low: "take_bit 8 w = take_bit 8 v" by metis
  have "ucast u = (ucast (take_bit 8 u) :: byte)" for u :: "'a word"
    by (rule bit_word_eqI) (auto simp: bit_simps)
  with low have "(ucast w :: byte) = ucast v" by metis
  moreover have "take_bit (8 * n) (drop_bit 8 u) = drop_bit 8 (take_bit (8 * Suc n) u)" for u :: "'a word"
    by (rule bit_word_eqI) (auto simp: bit_simps)
  then have "take_bit (8 * n) (drop_bit 8 w) = take_bit (8 * n) (drop_bit 8 v)" using Suc.prems by simp
  then have "be_bytes n (drop_bit 8 w) = be_bytes n (drop_bit 8 v)" by (rule Suc.IH)
  ultimately show ?case by simp
qed simp

lemma be_bytes_word:
  "length bs = n \<Longrightarrow> 8 * n \<le> LENGTH('a) \<Longrightarrow> be_bytes n (be_word bs :: 'a::len word) = bs"
proof (induction bs arbitrary: n rule: rev_induct)
  case (snoc b bs)
  then obtain m where n: "n = Suc m" by (cases n) auto
  let ?w = "push_bit 8 (be_word bs) OR ucast b :: 'a word"
  have "ucast ?w = b"
    using snoc.prems(2) by (intro bit_word_eqI) (auto simp: n bit_simps)
  moreover have "take_bit (8 * m) (drop_bit 8 ?w) = take_bit (8 * m) (be_word bs :: 'a word)"
    using snoc.prems(2) by (intro bit_word_eqI) (auto simp: n bit_simps dest: bit_imp_le_length)
  then have "be_bytes m (drop_bit 8 ?w) = be_bytes m (be_word bs :: 'a word)"
    by (rule be_bytes_low)
  ultimately show ?case using snoc by (simp add: n be_word_snoc)
qed (simp add: be_word_def)

lemma put_word_at:
  "i + n \<le> length bs \<Longrightarrow> 8 * n \<le> LENGTH('a) \<Longrightarrow> put_word n ord (word_at n ord i bs :: 'a::len word) = take n (drop i bs)"
  by (simp add: put_word_def word_at_def be_bytes_word)

text \<open>Converting to the other byte order and back gives the data back.\<close>

lemma convert_back: "convert_byte_order (convert_byte_order data src dst) dst src = data"
proof (cases "src \<noteq> dst \<and> length data \<ge> 6")
  case True
  have "take 2 data @ take 4 (drop 2 data) @ drop 6 data = data"
    using take_add[of 2 4 data] append_take_drop_id[of 6 data] by simp
  moreover have "4 \<le> length data - 2" using True by linarith
  ultimately show ?thesis
    using True by (simp add: convert_byte_order_def word_at_simps put_word_at)
next
  case False
  then show ?thesis by (auto simp: convert_byte_order_def)
qed

lemma convert_length [simp]: "length (convert_byte_order data src dst) = length data"
  by (auto simp: convert_byte_order_def)

lemma simple_handler_back:
  "simple_process_data h (simple_process_data h data LocalToRemote) RemoteToLocal = data"
  "simple_process_data h (simple_process_data h data RemoteToLocal) LocalToRemote = data"
  by (simp_all add: simple_process_data_def convert_back)

section \<open>What is delivered\<close>

text \<open>What the chunks that were read become.\<close>

definition due :: "bridge_settings \<Rightarrow> direction \<Rightarrow> bytes list \<Rightarrow> bytes" where
  "due cfg d chunks = concat (map (processed (bs_handler cfg) d) chunks)"

definition chunks_ok :: "bridge_settings \<Rightarrow> direction \<Rightarrow> pump \<Rightarrow> bytes \<Rightarrow> bytes \<Rightarrow> bytes \<Rightarrow> bytes list \<Rightarrow> bool \<Rightarrow> bool" where
  "chunks_ok cfg d p unread out sent chunks failed \<longleftrightarrow>
     concat chunks @ unread = sent \<and>
     list_all (\<lambda>c. c \<noteq> [] \<and> length c \<le> bs_buffer_size cfg) chunks \<and>
     (case p of
        AtWrite data \<Rightarrow> out @ data = due cfg d chunks \<and> \<not> failed
      | Returned \<Rightarrow> if failed then prefix out (due cfg d chunks) else out = due cfg d chunks
      | _ \<Rightarrow> out = due cfg d chunks \<and> \<not> failed)"

definition pump_ok :: "bridge_settings \<Rightarrow> bridge \<Rightarrow> direction \<Rightarrow> bool" where
  "pump_ok cfg b d \<longleftrightarrow>
     chunks_ok cfg d (br_pump b d) (br_pending b d) (br_written b d) (br_sent b d) (br_read b d) (br_failed b d)"

lemmas pump_updates = set_pump_def look_closed_def take_chunk_def write_chunk_def fail_write_def close_bridge_def
  peer_sends_def

lemma pump_ok_start: "pump_ok cfg (start_bridge input) d"
  by (simp add: pump_ok_def chunks_ok_def start_bridge_def due_def)

lemma pump_ok_step:
  assumes "bridge_step cfg b b'" and ok: "pump_ok cfg b d"
  shows "pump_ok cfg b' d"
  using assms(1)
proof cases
  case (step_look e)
  then show ?thesis using ok by (cases "d = e") (auto simp: pump_ok_def pump_updates chunks_ok_def)
next
  case (step_timeout e)
  then show ?thesis using ok by (cases "d = e") (auto simp: pump_ok_def pump_updates chunks_ok_def)
next
  case (step_read e n)
  show ?thesis
  proof (cases "d = e")
    case True
    with step_read have "br_pending b d \<noteq> []" by auto
    with True step_read ok show ?thesis by (simp add: pump_ok_def pump_updates due_def Let_def chunks_ok_def)
  next
    case False
    with step_read ok show ?thesis by (simp add: pump_ok_def pump_updates Let_def)
  qed
next
  case (step_empty e)
  then show ?thesis using ok by (cases "d = e") (auto simp: pump_ok_def pump_updates chunks_ok_def)
next
  case (step_end e)
  then show ?thesis using ok by (cases "d = e") (auto simp: pump_ok_def pump_updates chunks_ok_def)
next
  case (step_read_error e)
  then show ?thesis using ok by (cases "d = e") (auto simp: pump_ok_def pump_updates chunks_ok_def)
next
  case (step_write e data)
  then show ?thesis using ok by (cases "d = e") (auto simp: pump_ok_def pump_updates chunks_ok_def)
next
  case (step_write_error e part rest)
  then show ?thesis using ok
    by (cases "d = e") (auto simp: pump_ok_def pump_updates chunks_ok_def intro!: prefixI[of _ _ rest])
next
  case (step_send e data)
  then show ?thesis using ok
    by (cases "d = e") (auto simp: pump_ok_def pump_updates chunks_ok_def append_assoc[symmetric] simp del: append_assoc)
qed (use ok in \<open>simp_all add: pump_ok_def pump_updates\<close>)

lemma pump_ok_reachable: "(bridge_step cfg)\<^sup>*\<^sup>* (start_bridge input) b \<Longrightarrow> pump_ok cfg b d"
  by (induction rule: rtranclp_induct) (auto intro: pump_ok_start pump_ok_step)

lemma due_plain: "bs_handler cfg = None \<Longrightarrow> due cfg d chunks = concat chunks"
  by (simp add: due_def processed_def cong: map_cong)

text \<open>
  C26: in every state a TCP bridge can reach, however its pumps, its peers and a caller that closes it
  interleave, what it has written in a direction is a prefix of the handled chunks of what was sent in
  that direction, the chunks being read in order, none empty and none longer than the buffer: nothing
  is reordered, repeated or made up.  It is all of them while the pump is between two chunks, and
  without a handler it is a prefix of the very bytes that were sent.
\<close>
theorem bridge_delivers_in_order:
  assumes "(bridge_step cfg)\<^sup>*\<^sup>* (start_bridge input) b"
  shows "\<exists>chunks. concat chunks @ br_pending b d = br_sent b d \<and>
      list_all (\<lambda>c. c \<noteq> [] \<and> length c \<le> bs_buffer_size cfg) chunks \<and>
      prefix (br_written b d) (concat (map (processed (bs_handler cfg) d) chunks)) \<and>
      (br_pump b d \<in> {Looking, AtRead} \<longrightarrow> br_written b d = concat (map (processed (bs_handler cfg) d) chunks)) \<and>
      (bs_handler cfg = None \<longrightarrow> prefix (br_written b d) (br_sent b d))"
proof -
  have ok: "pump_ok cfg b d" by (rule pump_ok_reachable[OF assms])
  then have written: "prefix (br_written b d) (due cfg d (br_read b d))"
    by (cases "br_pump b d") (auto simp: pump_ok_def chunks_ok_def split: if_splits intro: prefixI[OF sym])
  have "br_sent b d = concat (br_read b d) @ br_pending b d" using ok by (simp add: pump_ok_def chunks_ok_def)
  then have "bs_handler cfg = None \<longrightarrow> prefix (br_written b d) (br_sent b d)"
    using written by (auto simp: due_plain intro: prefix_prefix)
  with ok written show ?thesis
    by (intro exI[of _ "br_read b d"]) (auto simp: pump_ok_def chunks_ok_def due_def)
qed

definition two_byte_bridge :: bridge_settings where
  "two_byte_bridge = \<lparr>bs_buffer_size = 2, bs_timeout = 0, bs_handler = None\<rparr>"

lemma bridge_delivers_in_order_witness:
  "\<exists>b chunks. (bridge_step two_byte_bridge)\<^sup>*\<^sup>* (start_bridge (\<lambda>_. [1, 2, 3])) b \<and>
     br_written b LocalToRemote = [1, 2] \<and> concat chunks @ br_pending b LocalToRemote = [1, 2, 3] \<and>
     br_written b LocalToRemote = concat (map (processed None LocalToRemote) chunks)"
proof -
  let ?d = LocalToRemote
  let ?b0 = "start_bridge (\<lambda>_. [1, 2, 3])"
  let ?b1 = "look_closed ?d ?b0"
  let ?b2 = "take_chunk two_byte_bridge ?d 2 ?b1"
  let ?b3 = "write_chunk ?d [1, 2] ?b2"
  have "bridge_step two_byte_bridge ?b0 ?b1"
    by (rule step_look) (simp add: start_bridge_def)
  moreover have "bridge_step two_byte_bridge ?b1 ?b2"
    by (rule step_read) (simp_all add: start_bridge_def pump_updates two_byte_bridge_def)
  moreover have "bridge_step two_byte_bridge ?b2 ?b3"
    by (rule step_write) (simp_all add: start_bridge_def pump_updates two_byte_bridge_def processed_def Let_def)
  ultimately have run: "(bridge_step two_byte_bridge)\<^sup>*\<^sup>* ?b0 ?b3"
    by (meson converse_rtranclp_into_rtranclp rtranclp.rtrancl_refl)
  have "br_pump ?b3 ?d = Looking" "br_written ?b3 ?d = [1, 2]" "br_sent ?b3 ?d = [1, 2, 3]"
      "bs_handler two_byte_bridge = None"
    by (simp_all add: start_bridge_def pump_updates two_byte_bridge_def Let_def)
  then show ?thesis
    using bridge_delivers_in_order[OF run, of ?d] run by (intro exI[of _ ?b3]) auto
qed

section \<open>What goes wrong\<close>

text \<open>
  The simple handler takes the start of every chunk for the start of a message, so what is delivered
  depends on how the bytes were split by the reads.
\<close>

lemma conversion_depends_on_chunks:
  "due (cfg\<lparr>bs_handler := Some (simple_protocol_handler LittleEndian BigEndian)\<rparr>) LocalToRemote [[1, 2, 3, 4, 5, 6]] = [2, 1, 6, 5, 4, 3]"
  "due (cfg\<lparr>bs_handler := Some (simple_protocol_handler LittleEndian BigEndian)\<rparr>) LocalToRemote [[1, 2, 3], [4, 5, 6]] = [1, 2, 3, 4, 5, 6]"
proof -
  have "convert_byte_order [1, 2, 3, 4, 5, 6] LittleEndian BigEndian = [2, 1, 6, 5, 4, 3]"
    by code_simp
  then show "due (cfg\<lparr>bs_handler := Some (simple_protocol_handler LittleEndian BigEndian)\<rparr>) LocalToRemote [[1, 2, 3, 4, 5, 6]] = [2, 1, 6, 5, 4, 3]"
    "due (cfg\<lparr>bs_handler := Some (simple_protocol_handler LittleEndian BigEndian)\<rparr>) LocalToRemote [[1, 2, 3], [4, 5, 6]] = [1, 2, 3, 4, 5, 6]"
    by (simp_all add: due_def processed_def simple_protocol_handler_def simple_process_data_def convert_byte_order_def)
qed

text \<open>The end of one side is not passed on: nothing but a caller closes a bridge while a pump still runs.\<close>

lemma only_caller_closes:
  assumes "bridge_step cfg b b'" and "br_closed b' \<noteq> br_closed b"
  shows "b' = close_bridge b"
  using assms by cases (auto simp: pump_updates Let_def)

end
