(* ===== verification/UdpForward.thy ===== *)
theory UdpForward
  imports GoIO "HOL-Library.Multiset"
begin

text \<open>
  \<open>gnet/forward/udp.go\<close>: the UDP bridge as a step relation over its goroutines: the receive loop, one
  goroutine per datagram, one receiver per session, the cleaner and a caller of \<open>Close\<close>.  Each step
  is one critical section or one operation on a channel or the socket.  Sessions are numbered in the
  order of their creation; a session stays in the store after it has left the map, as its goroutines
  still hold it.  Addresses are given by their text; logging is left out.
\<close>

section \<open>State\<close>

record udp_session =
  us_local :: string
  us_last_active :: int
  us_data :: "bytes list"
  us_closed :: bool
  us_receiving :: bool

record udp_bridge =
  ub_remote :: string
  ub_buffer_size :: nat
  ub_session_ttl :: int
  ub_closed :: bool
  ub_sessions :: "(string, nat) gomap"
  ub_store :: "udp_session list"

record udp_config =
  uc_buffer_size :: int
  uc_session_ttl :: int

definition new_udp_bridge :: "(string \<Rightarrow> string + string) \<Rightarrow> string \<Rightarrow> udp_config list \<Rightarrow> string + udp_bridge" where
  "new_udp_bridge resolve remote config =
     (case resolve remote of
        Inl e \<Rightarrow> Inl (''failed to resolve remote address: '' @ e)
      | Inr addr \<Rightarrow>
          Inr \<lparr>ub_remote = addr,
               ub_buffer_size = (case config of c # _ \<Rightarrow> if uc_buffer_size c > 0 then nat (uc_buffer_size c) else 4096 | [] \<Rightarrow> 4096),
               ub_session_ttl = (case config of c # _ \<Rightarrow> if uc_session_ttl c > 0 then uc_session_ttl c else 300000000000 | [] \<Rightarrow> 300000000000),
               ub_closed = False, ub_sessions = [], ub_store = []\<rparr>)"

definition session_key :: "udp_bridge \<Rightarrow> string \<Rightarrow> string" where
  "session_key b client = client @ ''->'' @ ub_remote b"

definition data_capacity :: nat where "data_capacity = 100"

definition update_session :: "nat \<Rightarrow> (udp_session \<Rightarrow> udp_session) \<Rightarrow> udp_bridge \<Rightarrow> udp_bridge" where
  "update_session i f b = b\<lparr>ub_store := (ub_store b)[i := f (ub_store b ! i)]\<rparr>"

section \<open>Operations\<close>

text \<open>The critical section of \<open>handleIncomingData\<close>: the session and whether it existed.\<close>

definition find_session :: "int \<Rightarrow> string \<Rightarrow> udp_bridge \<Rightarrow> nat \<times> bool \<times> udp_bridge" where
  "find_session now client b =
     (case go_get (ub_sessions b) (session_key b client) of
        Some i \<Rightarrow> (i, True, update_session i (\<lambda>s. s\<lparr>us_last_active := now\<rparr>) b)
      | None \<Rightarrow>
          (let i = length (ub_store b)
           in (i, False,
               b\<lparr>ub_sessions := go_put (session_key b client) i (ub_sessions b),
                 ub_store := ub_store b @
                   [\<lparr>us_local = client, us_last_active = now, us_data = [], us_closed = False, us_receiving = True\<rparr>]\<rparr>)))"

definition queue_data :: "nat \<Rightarrow> bytes \<Rightarrow> udp_bridge \<Rightarrow> udp_bridge" where
  "queue_data i data b =
     (if length (us_data (ub_store b ! i)) < data_capacity then
        update_session i (\<lambda>s. s\<lparr>us_data := us_data s @ [data]\<rparr>) b
      else b)"

text \<open>Closing the channel of a session; a second time is a panic.\<close>

definition close_session :: "nat \<Rightarrow> udp_bridge \<Rightarrow> udp_bridge option" where
  "close_session i b =
     (if us_closed (ub_store b ! i) then None else Some (update_session i (\<lambda>s. s\<lparr>us_closed := True\<rparr>) b))"

definition session_expired :: "int \<Rightarrow> udp_bridge \<Rightarrow> nat \<Rightarrow> bool" where
  "session_expired now b i \<longleftrightarrow> now - us_last_active (ub_store b ! i) > ub_session_ttl b"

text \<open>A tick of a session's receiver: the new state, with the receiver returned when the session has expired.\<close>

definition receiver_tick :: "int \<Rightarrow> nat \<Rightarrow> udp_bridge \<Rightarrow> udp_bridge option" where
  "receiver_tick now i b =
     (if session_expired now b i then
        map_option (update_session i (\<lambda>s. s\<lparr>us_receiving := False\<rparr>))
          (close_session i (b\<lparr>ub_sessions := go_del (session_key b (us_local (ub_store b ! i))) (ub_sessions b)\<rparr>))
      else Some b)"

fun close_all :: "nat list \<Rightarrow> udp_bridge \<Rightarrow> udp_bridge option" where
  "close_all [] b = Some b"
| "close_all (i # is) b = (case close_session i b of None \<Rightarrow> None | Some b \<Rightarrow> close_all is b)"

definition clean_sessions :: "int \<Rightarrow> udp_bridge \<Rightarrow> udp_bridge option" where
  "clean_sessions now b =
     (let gone = filter (\<lambda>(key, i). session_expired now b i) (ub_sessions b)
      in map_option (\<lambda>b. b\<lparr>ub_sessions := filter (\<lambda>(key, i). key \<notin> fst ` set gone) (ub_sessions b)\<rparr>)
           (close_all (map snd gone) b))"

definition close_udp :: "udp_bridge \<Rightarrow> udp_bridge option" where
  "close_udp b =
     (if ub_closed b then Some b
      else map_option (\<lambda>b. b\<lparr>ub_sessions := []\<rparr>) (close_all (map snd (ub_sessions b)) (b\<lparr>ub_closed := True\<rparr>)))"

definition get_active_sessions :: "udp_bridge \<Rightarrow> nat" where
  "get_active_sessions b = go_len (ub_sessions b)"

section \<open>Goroutines\<close>

text \<open>
  Besides the bridge: datagrams a goroutine was started for, data that found its session and is to be
  queued, data to be sent at once, what was written to the socket, what was received, the clock, and
  whether the cleaner runs.
\<close>

record udp_world =
  uw_bridge :: udp_bridge
  uw_now :: int
  uw_incoming :: "(bytes \<times> string) multiset"
  uw_found :: "(bytes \<times> nat) multiset"
  uw_sending :: "bytes multiset"
  uw_written :: "(bytes \<times> string) list"
  uw_received :: "bytes multiset"
  uw_cleaning :: bool

datatype world = Alive udp_world | Panicked

text \<open>\<open>forwardToRemote\<close>: the write may fail.\<close>

definition forward_to_remote :: "bytes \<Rightarrow> bool \<Rightarrow> udp_world \<Rightarrow> udp_world" where
  "forward_to_remote data sent w =
     (if sent then w\<lparr>uw_written := uw_written w @ [(data, ub_remote (uw_bridge w))]\<rparr> else w)"

definition on_bridge :: "(udp_bridge \<Rightarrow> udp_bridge option) \<Rightarrow> udp_world \<Rightarrow> world" where
  "on_bridge f w = (case f (uw_bridge w) of None \<Rightarrow> Panicked | Some b \<Rightarrow> Alive (w\<lparr>uw_bridge := b\<rparr>))"

definition handle_incoming :: "bytes \<Rightarrow> string \<Rightarrow> udp_world \<Rightarrow> udp_world" where
  "handle_incoming data client w =
     (case find_session (uw_now w) client (uw_bridge w) of
        (i, True, b) \<Rightarrow>
          w\<lparr>uw_bridge := b, uw_incoming := uw_incoming w - {#(data, client)#}, uw_found := add_mset (data, i) (uw_found w)\<rparr>
      | (i, False, b) \<Rightarrow>
          w\<lparr>uw_bridge := b, uw_incoming := uw_incoming w - {#(data, client)#}, uw_sending := add_mset data (uw_sending w)\<rparr>)"

definition receiver_forward :: "nat \<Rightarrow> bytes \<Rightarrow> bytes list \<Rightarrow> bool \<Rightarrow> udp_world \<Rightarrow> udp_world" where
  "receiver_forward i data rest sent w =
     (let w = forward_to_remote data sent w
      in w\<lparr>uw_bridge := update_session i (\<lambda>s. s\<lparr>us_data := rest, us_last_active := uw_now w\<rparr>) (uw_bridge w)\<rparr>)"

definition start_udp :: "udp_bridge \<Rightarrow> int \<Rightarrow> world" where
  "start_udp b now =
     Alive \<lparr>uw_bridge = b, uw_now = now, uw_incoming = {#}, uw_found = {#}, uw_sending = {#}, uw_written = [],
       uw_received = {#}, uw_cleaning = True\<rparr>"

inductive udp_step :: "world \<Rightarrow> world \<Rightarrow> bool" where
  udp_receive: "\<not> ub_closed (uw_bridge w) \<Longrightarrow> data \<noteq> [] \<Longrightarrow> length data \<le> ub_buffer_size (uw_bridge w) \<Longrightarrow>
    udp_step (Alive w) (Alive (w\<lparr>uw_incoming := add_mset (data, client) (uw_incoming w), uw_received := add_mset data (uw_received w)\<rparr>))"
| udp_handle: "(data, client) \<in># uw_incoming w \<Longrightarrow> udp_step (Alive w) (Alive (handle_incoming data client w))"
| udp_queue: "(data, i) \<in># uw_found w \<Longrightarrow>
    udp_step (Alive w) (Alive (w\<lparr>uw_bridge := queue_data i data (uw_bridge w), uw_found := uw_found w - {#(data, i)#}\<rparr>))"
| udp_send: "data \<in># uw_sending w \<Longrightarrow>
    udp_step (Alive w) (Alive (forward_to_remote data sent (w\<lparr>uw_sending := uw_sending w - {#data#}\<rparr>)))"
| udp_forward: "i < length (ub_store (uw_bridge w)) \<Longrightarrow> us_receiving (ub_store (uw_bridge w) ! i) \<Longrightarrow>
    us_data (ub_store (uw_bridge w) ! i) = data # rest \<Longrightarrow> udp_step (Alive w) (Alive (receiver_forward i data rest sent w))"
| udp_tick: "i < length (ub_store (uw_bridge w)) \<Longrightarrow> us_receiving (ub_store (uw_bridge w) ! i) \<Longrightarrow>
    udp_step (Alive w) (on_bridge (receiver_tick (uw_now w) i) w)"
| udp_stop: "i < length (ub_store (uw_bridge w)) \<Longrightarrow> us_receiving (ub_store (uw_bridge w) ! i) \<Longrightarrow>
    us_closed (ub_store (uw_bridge w) ! i) \<Longrightarrow>
    udp_step (Alive w) (on_bridge (\<lambda>b. Some (update_session i (\<lambda>s. s\<lparr>us_receiving := False\<rparr>) b)) w)"
| udp_clean: "uw_cleaning w \<Longrightarrow> \<not> ub_closed (uw_bridge w) \<Longrightarrow> udp_step (Alive w) (on_bridge (clean_sessions (uw_now w)) w)"
| udp_cleaner_ends: "uw_cleaning w \<Longrightarrow> ub_closed (uw_bridge w) \<Longrightarrow> udp_step (Alive w) (Alive (w\<lparr>uw_cleaning := False\<rparr>))"
| udp_close: "udp_step (Alive w) (on_bridge close_udp w)"
| udp_time: "uw_now w \<le> t \<Longrightarrow> udp_step (Alive w) (Alive (w\<lparr>uw_now := t\<rparr>))"

end
