(* ===== verification/UdpForwardFacts.thy ===== *)
theory UdpForwardFacts
  imports UdpForward
begin

text \<open>
  The UDP bridge in every reachable state: what is written to the socket was received, is written at
  most once and goes to the remote address; the sessions of the map are the open ones; the only panic
  is a receiver that comes late for a session that was closed.
\<close>

lemmas session_updates = update_session_def queue_data_def receiver_forward_def forward_to_remote_def handle_incoming_def
  find_session_def

section \<open>Sessions\<close>

definition sessions_ok :: "udp_bridge \<Rightarrow> bool" where
  "sessions_ok b \<longleftrightarrow> gomap_ok (ub_sessions b) \<and>
     (\<forall>k i. go_get (ub_sessions b) k = Some i \<longleftrightarrow>
        i < length (ub_store b) \<and> \<not> us_closed (ub_store b ! i) \<and> k = session_key b (us_local (ub_store b ! i)))"

lemma session_key_update [simp]:
  "session_key (b\<lparr>ub_sessions := m\<rparr>) c = session_key b c" "session_key (b\<lparr>ub_store := st\<rparr>) c = session_key b c"
  "session_key (b\<lparr>ub_closed := x\<rparr>) c = session_key b c"
  by (simp_all add: session_key_def)

lemma sessions_ok_start: "new_udp_bridge resolve remote config = Inr b \<Longrightarrow> sessions_ok b"
  by (auto simp: new_udp_bridge_def sessions_ok_def split: sum.splits)

lemma sessions_ok_update:
  assumes "sessions_ok b" and "\<And>s. us_closed (f s) = us_closed s" and "\<And>s. us_local (f s) = us_local s"
  shows "sessions_ok (update_session i f b)"
proof -
  have same: "us_closed ((ub_store b)[i := f (ub_store b ! i)] ! j) = us_closed (ub_store b ! j)"
    "us_local ((ub_store b)[i := f (ub_store b ! i)] ! j) = us_local (ub_store b ! j)" for j
    by (cases "i = j"; cases "j < length (ub_store b)"; simp add: assms(2,3) list_update_beyond)+
  show ?thesis using assms(1) by (simp add: sessions_ok_def update_session_def same)
qed

lemma sessions_ok_find:
  assumes "sessions_ok b" and "find_session now client b = (i, found, b')"
  shows "sessions_ok b'"
proof (cases "go_get (ub_sessions b) (session_key b client)")
  case (Some j)
  with assms show ?thesis by (auto simp: find_session_def intro!: sessions_ok_update)
next
  case None
  let ?n = "length (ub_store b)"
  let ?s = "\<lparr>us_local = client, us_last_active = now, us_data = [], us_closed = False, us_receiving = True\<rparr>"
  have b': "b' = b\<lparr>ub_sessions := go_put (session_key b client) ?n (ub_sessions b), ub_store := ub_store b @ [?s]\<rparr>"
    using assms(2) None by (auto simp: find_session_def Let_def)
  have old: "go_get (ub_sessions b) k = Some j \<longleftrightarrow>
      j < ?n \<and> \<not> us_closed (ub_store b ! j) \<and> k = session_key b (us_local (ub_store b ! j))" for k j
    using assms(1) by (simp add: sessions_ok_def)
  have "go_get (go_put (session_key b client) ?n (ub_sessions b)) k = Some j \<longleftrightarrow>
      j < Suc ?n \<and> \<not> us_closed ((ub_store b @ [?s]) ! j) \<and> k = session_key b (us_local ((ub_store b @ [?s]) ! j))" for k j
  proof (cases "j < ?n")
    case True
    then show ?thesis using old[of k j] None by (auto simp: nth_append)
  next
    case False
    then show ?thesis using old[of k j] by (auto simp: nth_append less_Suc_eq)
  qed
  then show ?thesis
    using assms(1) by (simp add: b' sessions_ok_def)
qed

lemma sessions_ok_open:
  "sessions_ok b \<Longrightarrow> (key, i) \<in> set (ub_sessions b) \<Longrightarrow>
     i < length (ub_store b) \<and> \<not> us_closed (ub_store b ! i) \<and> key = session_key b (us_local (ub_store b ! i))"
  using go_get_iff_in_set by (fastforce simp: sessions_ok_def)

lemma sessions_ok_distinct:
  assumes "sessions_ok b"
  shows "distinct (map snd (ub_sessions b))"
proof -
  have "distinct (ub_sessions b)"
    using assms by (auto simp: sessions_ok_def gomap_ok_def distinct_map)
  moreover have "inj_on snd (set (ub_sessions b))"
    using sessions_ok_open[OF assms] by (intro inj_onI) (metis prod.collapse)
  ultimately show ?thesis by (simp add: distinct_map)
qed

text \<open>Closing sessions that are open and different succeeds and changes nothing else.\<close>

lemma close_all_open:
  assumes "distinct is" and "list_all (\<lambda>i. i < length (ub_store b) \<and> \<not> us_closed (ub_store b ! i)) is"
  shows "\<exists>st. close_all is b = Some (b\<lparr>ub_store := st\<rparr>) \<and> length st = length (ub_store b) \<and>
    (\<forall>j < length st. st ! j = (if j \<in> set is then (ub_store b ! j)\<lparr>us_closed := True\<rparr> else ub_store b ! j))"
  using assms
proof (induction "is" arbitrary: b)
  case Nil
  then show ?case by (intro exI[of _ "ub_store b"]) simp
next
  case (Cons i "is")
  let ?st = "(ub_store b)[i := (ub_store b ! i)\<lparr>us_closed := True\<rparr>]"
  let ?b = "b\<lparr>ub_store := ?st\<rparr>"
  have close: "close_session i b = Some ?b"
    using Cons.prems by (simp add: close_session_def update_session_def)
  have "list_all (\<lambda>i. i < length (ub_store ?b) \<and> \<not> us_closed (ub_store ?b ! i)) is"
    using Cons.prems by (auto simp: list_all_iff nth_list_update)
  then obtain st where st: "close_all is ?b = Some (?b\<lparr>ub_store := st\<rparr>)" "length st = length ?st"
      "\<forall>j < length st. st ! j = (if j \<in> set is then (?st ! j)\<lparr>us_closed := True\<rparr> else ?st ! j)"
    using Cons.IH[of ?b] Cons.prems by auto
  have "st ! j = (if j \<in> set (i # is) then (ub_store b ! j)\<lparr>us_closed := True\<rparr> else ub_store b ! j)"
    if "j < length st" for j
    using st(2,3) that Cons.prems by (auto simp: nth_list_update)
  with st show ?case by (intro exI[of _ st]) (simp add: close)
qed

lemma sessions_ok_tick:
  assumes "sessions_ok b" and "i < length (ub_store b)" and "receiver_tick now i b = Some b'"
  shows "sessions_ok b'"
proof (cases "session_expired now b i")
  case False
  with assms show ?thesis by (simp add: receiver_tick_def)
next
  case True
  let ?key = "session_key b (us_local (ub_store b ! i))"
  let ?b = "b\<lparr>ub_sessions := go_del ?key (ub_sessions b), ub_store := (ub_store b)[i := (ub_store b ! i)\<lparr>us_closed := True\<rparr>]\<rparr>"
  have b': "b' = update_session i (\<lambda>s. s\<lparr>us_receiving := False\<rparr>) ?b" and opened: "\<not> us_closed (ub_store b ! i)"
    using assms(3) True by (auto simp: receiver_tick_def close_session_def update_session_def split: if_splits)
  have old: "go_get (ub_sessions b) k = Some j \<longleftrightarrow>
      j < length (ub_store b) \<and> \<not> us_closed (ub_store b ! j) \<and> k = session_key b (us_local (ub_store b ! j))" for k j
    using assms(1) by (simp add: sessions_ok_def)
  have "go_get (go_del ?key (ub_sessions b)) k = Some j \<longleftrightarrow>
      j < length (ub_store ?b) \<and> \<not> us_closed (ub_store ?b ! j) \<and> k = session_key b (us_local (ub_store ?b ! j))" for k j
  proof (cases "j = i")
    case True
    then show ?thesis using old[of k i] assms(2) by auto
  next
    case False
    then have "ub_store ?b ! j = ub_store b ! j" by simp
    moreover have "k \<noteq> ?key" if "go_get (ub_sessions b) k = Some j"
      using old[of ?key i] opened assms(2) that False by auto
    ultimately show ?thesis using old[of k j] by auto
  qed
  then have "sessions_ok ?b"
    using assms(1) by (simp add: sessions_ok_def)
  then show ?thesis unfolding b' by (rule sessions_ok_update) simp_all
qed

lemma sessions_ok_clean:
  assumes "sessions_ok b"
  shows "\<exists>b'. clean_sessions now b = Some b' \<and> sessions_ok b' \<and> ub_remote b' = ub_remote b \<and>
    map us_data (ub_store b') = map us_data (ub_store b)"
proof -
  let ?gone = "filter (\<lambda>(key, i). session_expired now b i) (ub_sessions b)"
  let ?is = "map snd ?gone"
  have "distinct ?is"
    using sessions_ok_distinct[OF assms] by (rule distinct_map_filter)
  moreover have "list_all (\<lambda>i. i < length (ub_store b) \<and> \<not> us_closed (ub_store b ! i)) ?is"
    using sessions_ok_open[OF assms] by (auto simp: list_all_iff)
  ultimately obtain st where st: "close_all ?is b = Some (b\<lparr>ub_store := st\<rparr>)" "length st = length (ub_store b)"
      "\<forall>j < length st. st ! j = (if j \<in> set ?is then (ub_store b ! j)\<lparr>us_closed := True\<rparr> else ub_store b ! j)"
    using close_all_open by blast
  let ?b = "b\<lparr>ub_store := st, ub_sessions := filter (\<lambda>(key, i). key \<notin> fst ` set ?gone) (ub_sessions b)\<rparr>"
  have clean: "clean_sessions now b = Some ?b"
    using st(1) by (simp add: clean_sessions_def Let_def)
  have old: "go_get (ub_sessions b) k = Some j \<longleftrightarrow>
      j < length (ub_store b) \<and> \<not> us_closed (ub_store b ! j) \<and> k = session_key b (us_local (ub_store b ! j))" for k j
    using assms by (simp add: sessions_ok_def)
  have ok: "gomap_ok (ub_sessions b)" using assms by (simp add: sessions_ok_def)
  have gone: "k \<in> fst ` set ?gone \<longleftrightarrow> j \<in> set ?is" if "go_get (ub_sessions b) k = Some j" for k j
  proof -
    have member: "(k', j') \<in> set (ub_sessions b) \<longleftrightarrow> go_get (ub_sessions b) k' = Some j'" for k' j'
      using go_get_iff_in_set[OF ok] by blast
    have "k \<in> fst ` set ?gone \<longleftrightarrow> session_expired now b j"
      using that by (force simp: member)
    moreover have "j \<in> set ?is \<longleftrightarrow> session_expired now b j"
      using that by (force simp: member)
    ultimately show ?thesis by simp
  qed
  have "go_get (ub_sessions ?b) k = Some j \<longleftrightarrow>
      j < length st \<and> \<not> us_closed (st ! j) \<and> k = session_key b (us_local (st ! j))" for k j
  proof -
    have "go_get (ub_sessions ?b) k = Some j \<longleftrightarrow> go_get (ub_sessions b) k = Some j \<and> k \<notin> fst ` set ?gone"
      using go_get_filter[OF ok, of "\<lambda>k i. k \<notin> fst ` set ?gone" k] by (auto split: option.splits)
    also have "\<dots> \<longleftrightarrow> go_get (ub_sessions b) k = Some j \<and> j \<notin> set ?is"
      using gone by blast
    also have "\<dots> \<longleftrightarrow> j < length st \<and> \<not> us_closed (st ! j) \<and> k = session_key b (us_local (st ! j))"
      unfolding old using st(2,3) by (cases "j < length st") auto
    finally show ?thesis .
  qed
  then have "sessions_ok ?b" using ok by (simp add: sessions_ok_def gomap_ok_filter)
  moreover have "map us_data st = map us_data (ub_store b)"
    using st(2,3) by (auto intro: nth_equalityI)
  ultimately show ?thesis using clean by auto
qed

lemma sessions_ok_close:
  assumes "sessions_ok b"
  shows "\<exists>b'. close_udp b = Some b' \<and> sessions_ok b' \<and> ub_remote b' = ub_remote b \<and>
    map us_data (ub_store b') = map us_data (ub_store b)"
proof (cases "ub_closed b")
  case True
  with assms show ?thesis by (simp add: close_udp_def)
next
  case False
  let ?is = "map snd (ub_sessions b)" and ?b0 = "b\<lparr>ub_closed := True\<rparr>"
  have "list_all (\<lambda>i. i < length (ub_store ?b0) \<and> \<not> us_closed (ub_store ?b0 ! i)) ?is"
    using sessions_ok_open[OF assms] by (auto simp: list_all_iff)
  then obtain st where st: "close_all ?is ?b0 = Some (?b0\<lparr>ub_store := st\<rparr>)" "length st = length (ub_store b)"
      "\<forall>j < length st. st ! j = (if j \<in> set ?is then (ub_store b ! j)\<lparr>us_closed := True\<rparr> else ub_store b ! j)"
    using close_all_open[of ?is ?b0] sessions_ok_distinct[OF assms] by auto
  have "us_closed (st ! j)" if j: "j < length st" for j
  proof (cases "us_closed (ub_store b ! j)")
    case False
    then have "go_get (ub_sessions b) (session_key b (us_local (ub_store b ! j))) = Some j"
      using assms j st(2) by (simp add: sessions_ok_def)
    then have "j \<in> set ?is" using go_get_in_set by force
    with st(3) j show ?thesis by simp
  qed (use st(3) j in auto)
  then have "sessions_ok (?b0\<lparr>ub_store := st, ub_sessions := []\<rparr>)"
    by (simp add: sessions_ok_def)
  moreover have "map us_data st = map us_data (ub_store b)"
    using st(2,3) by (auto intro: nth_equalityI)
  ultimately show ?thesis using False st(1) by (simp add: close_udp_def)
qed

section \<open>Data\<close>

definition queued :: "udp_bridge \<Rightarrow> bytes multiset" where
  "queued b = mset (concat (map us_data (ub_store b)))"

lemma queued_list_update:
  "i < length st \<Longrightarrow> mset (concat (map us_data (st[i := s]))) + mset (us_data (st ! i)) =
     mset (concat (map us_data st)) + mset (us_data s)"
proof (induction st arbitrary: i)
  case (Cons t st)
  then show ?case by (cases i) (simp_all add: add_ac)
qed simp

lemma queued_update:
  "i < length (ub_store b) \<Longrightarrow>
     queued (update_session i f b) + mset (us_data (ub_store b ! i)) = queued b + mset (us_data (f (ub_store b ! i)))"
  by (simp add: queued_def update_session_def queued_list_update)

lemma queued_same: "(\<And>s. us_data (f s) = us_data s) \<Longrightarrow> queued (update_session i f b) = queued b"
  using queued_update[of i b f] by (cases "i < length (ub_store b)") (simp_all add: update_session_def list_update_beyond queued_def)

lemma queued_map: "map us_data (ub_store b') = map us_data (ub_store b) \<Longrightarrow> queued b' = queued b"
  by (simp add: queued_def)

lemma queued_queue: "queued (queue_data i data b) \<subseteq># add_mset data (queued b)"
proof (cases "i < length (ub_store b)")
  case True
  then show ?thesis
    using queued_update[of i b "\<lambda>s. s\<lparr>us_data := us_data s @ [data]\<rparr>"] by (auto simp: queue_data_def)
next
  case False
  then show ?thesis by (simp add: queue_data_def update_session_def list_update_beyond queued_def)
qed

lemma queued_find: "find_session now client b = (i, found, b') \<Longrightarrow> queued b' = queued b"
  by (auto simp: find_session_def Let_def queued_same split: option.splits) (simp add: queued_def)

lemma queued_tick: "i < length (ub_store b) \<Longrightarrow> receiver_tick now i b = Some b' \<Longrightarrow> queued b' = queued b"
  by (auto simp: receiver_tick_def close_session_def queued_same split: if_splits) (simp add: queued_def update_session_def)?

lemma remote_fixed:
  "ub_remote (update_session i f b) = ub_remote b" "ub_remote (queue_data i data b) = ub_remote b"
  "find_session now client b = (j, found, b') \<Longrightarrow> ub_remote b' = ub_remote b"
  "receiver_tick now i b = Some b' \<Longrightarrow> ub_remote b' = ub_remote b"
  by (auto simp: update_session_def queue_data_def find_session_def receiver_tick_def close_session_def Let_def
      split: option.splits if_splits)

section \<open>Reachable states\<close>

definition in_flight :: "udp_world \<Rightarrow> bytes multiset" where
  "in_flight w = image_mset fst (uw_incoming w) + image_mset fst (uw_found w) + uw_sending w + queued (uw_bridge w)"

fun world_ok :: "string \<Rightarrow> world \<Rightarrow> bool" where
  "world_ok remote Panicked = True"
| "world_ok remote (Alive w) \<longleftrightarrow>
     sessions_ok (uw_bridge w) \<and> ub_remote (uw_bridge w) = remote \<and>
     list_all (\<lambda>(data, addr). addr = remote) (uw_written w) \<and>
     mset (map fst (uw_written w)) + in_flight w \<subseteq># uw_received w"

lemma world_ok_start:
  "new_udp_bridge resolve remote config = Inr b \<Longrightarrow> world_ok (ub_remote b) (start_udp b now)"
  using sessions_ok_start[of resolve remote config b]
  by (auto simp: start_udp_def in_flight_def queued_def new_udp_bridge_def split: sum.splits)

text \<open>A change of the bridge that keeps its data keeps the invariant.\<close>

lemma world_ok_bridge:
  assumes "world_ok remote (Alive w)" and "sessions_ok b" and "ub_remote b = ub_remote (uw_bridge w)"
    and "queued b = queued (uw_bridge w)"
  shows "world_ok remote (Alive (w\<lparr>uw_bridge := b\<rparr>))"
  using assms by (simp add: in_flight_def)

lemma flow_less:
  fixes a q :: "'a multiset"
  shows "q' \<subseteq># q \<Longrightarrow> a + (c + q) \<subseteq># r \<Longrightarrow> a + (c + q') \<subseteq># r"
  by (meson subset_mset.add_left_mono subset_mset.order_trans)

lemma world_ok_step:
  assumes "udp_step v v'" and ok: "world_ok remote v"
  shows "world_ok remote v'"
  using assms
proof (induction rule: udp_step.induct)
  case (udp_receive w data client)
  then show ?case by (simp add: in_flight_def add_ac)
next
  case (udp_handle data client w)
  obtain i found b where find: "find_session (uw_now w) client (uw_bridge w) = (i, found, b)"
    using prod_cases3 by blast
  obtain rest where rest: "uw_incoming w = add_mset (data, client) rest"
    using udp_handle.hyps by (meson multi_member_split)
  show ?case
    using udp_handle.prems sessions_ok_find[OF _ find] queued_find[OF find] remote_fixed(3)[OF find]
    by (cases found) (simp_all add: handle_incoming_def find rest in_flight_def)
next
  case (udp_queue data i w)
  obtain rest where rest: "uw_found w = add_mset (data, i) rest"
    using udp_queue.hyps by (meson multi_member_split)
  have "sessions_ok (queue_data i data (uw_bridge w))"
    using udp_queue.prems by (auto simp: queue_data_def intro!: sessions_ok_update)
  moreover have "mset (map fst (uw_written w)) + (image_mset fst (uw_incoming w) + image_mset fst rest + uw_sending w +
      queued (queue_data i data (uw_bridge w))) \<subseteq># uw_received w"
    using udp_queue.prems queued_queue[of i data "uw_bridge w"]
    by (rule_tac flow_less[where q = "add_mset data (queued (uw_bridge w))"]) (simp_all add: in_flight_def rest add_ac)
  ultimately show ?case
    using udp_queue.prems by (simp add: in_flight_def rest remote_fixed)
next
  case (udp_send data w sent)
  obtain rest where rest: "uw_sending w = add_mset data rest"
    using udp_send.hyps by (meson multi_member_split)
  then show ?case
    using udp_send.prems by (auto simp: forward_to_remote_def in_flight_def subset_mset.less_imp_le dest: mset_subset_eq_insertD)
next
  case (udp_forward i w data rest sent)
  let ?f = "\<lambda>s. s\<lparr>us_data := rest, us_last_active := uw_now w\<rparr>"
  have q: "add_mset data (queued (update_session i ?f (uw_bridge w))) = queued (uw_bridge w)"
    using queued_update[OF udp_forward.hyps(1), of ?f] udp_forward.hyps(3) by simp
  have ok': "sessions_ok (update_session i ?f (uw_bridge w))"
    using udp_forward.prems by (auto intro!: sessions_ok_update)
  let ?q = "queued (update_session i ?f (uw_bridge w))"
  let ?in = "image_mset fst (uw_incoming w) + image_mset fst (uw_found w) + uw_sending w"
  have flow: "mset (map fst (uw_written w)) + (?in + add_mset data ?q) \<subseteq># uw_received w"
    using udp_forward.prems by (simp add: in_flight_def q)
  then have "mset (map fst (uw_written w)) + (?in + ?q) \<subseteq># uw_received w"
    by (rule flow_less[rotated]) simp
  moreover have "receiver_forward i data rest sent w =
      (let w' = w\<lparr>uw_bridge := update_session i ?f (uw_bridge w)\<rparr>
       in if sent then w'\<lparr>uw_written := uw_written w @ [(data, ub_remote (uw_bridge w))]\<rparr> else w')"
    by (cases sent) (simp_all add: receiver_forward_def forward_to_remote_def Let_def)
  ultimately show ?case
    using udp_forward.prems ok' flow
    by (cases sent) (simp_all only: world_ok.simps in_flight_def remote_fixed(1) Let_def if_True if_False udp_world.simps
        map_append list.map fst_conv mset_append mset.simps list_all_append list.pred_inject, simp_all add: remote_fixed(1))
next
  case (udp_tick i w)
  show ?case
  proof (cases "receiver_tick (uw_now w) i (uw_bridge w)")
    case None
    then show ?thesis by (simp add: on_bridge_def)
  next
    case (Some b)
    have "sessions_ok (uw_bridge w)" using udp_tick.prems by simp
    then have "sessions_ok b" using udp_tick.hyps(1) Some by (rule sessions_ok_tick)
    then have "world_ok remote (Alive (w\<lparr>uw_bridge := b\<rparr>))"
      using world_ok_bridge[OF udp_tick.prems] remote_fixed(4)[OF Some] queued_tick[OF udp_tick.hyps(1) Some] by blast
    then show ?thesis by (simp only: on_bridge_def Some option.case)
  qed
next
  case (udp_stop i w)
  let ?b = "update_session i (\<lambda>s. s\<lparr>us_receiving := False\<rparr>) (uw_bridge w)"
  have "sessions_ok ?b" using udp_stop.prems by (auto intro!: sessions_ok_update)
  moreover have "queued ?b = queued (uw_bridge w)" by (rule queued_same) simp
  ultimately have "world_ok remote (Alive (w\<lparr>uw_bridge := ?b\<rparr>))"
    using world_ok_bridge[OF udp_stop.prems] remote_fixed(1) by blast
  then show ?case by (simp only: on_bridge_def option.case)
next
  case (udp_clean w)
  have "sessions_ok (uw_bridge w)" using udp_clean.prems by simp
  then obtain b where b: "clean_sessions (uw_now w) (uw_bridge w) = Some b" "sessions_ok b"
      "ub_remote b = ub_remote (uw_bridge w)" and same: "map us_data (ub_store b) = map us_data (ub_store (uw_bridge w))"
    using sessions_ok_clean[of "uw_bridge w" "uw_now w"] by blast
  from b queued_map[OF same] have "world_ok remote (Alive (w\<lparr>uw_bridge := b\<rparr>))"
    using world_ok_bridge[OF udp_clean.prems] by blast
  then show ?case by (simp only: on_bridge_def b option.case)
next
  case (udp_cleaner_ends w)
  then show ?case by (simp add: in_flight_def)
next
  case (udp_close w)
  have "sessions_ok (uw_bridge w)" using udp_close.prems by simp
  then obtain b where b: "close_udp (uw_bridge w) = Some b" "sessions_ok b"
      "ub_remote b = ub_remote (uw_bridge w)" and same: "map us_data (ub_store b) = map us_data (ub_store (uw_bridge w))"
    using sessions_ok_close[of "uw_bridge w"] by blast
  from b queued_map[OF same] have "world_ok remote (Alive (w\<lparr>uw_bridge := b\<rparr>))"
    using world_ok_bridge[OF udp_close.prems] by blast
  then show ?case by (simp only: on_bridge_def b option.case)
next
  case (udp_time w t)
  then show ?case by (simp add: in_flight_def)
qed

lemma world_ok_reachable:
  "new_udp_bridge resolve remote config = Inr b \<Longrightarrow> udp_step\<^sup>*\<^sup>* (start_udp b now) v \<Longrightarrow> world_ok (ub_remote b) v"
  by (rule rtranclp_induct[of udp_step]) (auto intro: world_ok_start world_ok_step)


text \<open>
  C27: the only panic of a UDP bridge is the late tick of a receiver: in every reachable state, a step
  that panics is the tick of a receiver that still runs although the channel of its session has been
  closed, by the cleaner or by Close, and whose session has expired.  In particular neither the
  cleaner nor Close ever closes a channel a second time, because the sessions of the map are exactly
  the open ones.
\<close>
theorem only_late_tick_panics:
  assumes "new_udp_bridge resolve remote config = Inr b" and "udp_step\<^sup>*\<^sup>* (start_udp b now) (Alive w)"
    and "udp_step (Alive w) Panicked"
  shows "\<exists>i. i < length (ub_store (uw_bridge w)) \<and> us_receiving (ub_store (uw_bridge w) ! i) \<and>
    us_closed (ub_store (uw_bridge w) ! i) \<and> session_expired (uw_now w) (uw_bridge w) i"
proof -
  have ok: "sessions_ok (uw_bridge w)" using world_ok_reachable[OF assms(1,2)] by simp
  show ?thesis
    using assms(3)
  proof cases
    case (udp_tick i)
    then have "receiver_tick (uw_now w) i (uw_bridge w) = None"
      by (auto simp: on_bridge_def split: option.splits)
    then have "us_closed (ub_store (uw_bridge w) ! i)" "session_expired (uw_now w) (uw_bridge w) i"
      by (auto simp: receiver_tick_def close_session_def split: if_splits)
    with udp_tick show ?thesis by blast
  next
    case udp_clean
    then show ?thesis using sessions_ok_clean[OF ok, of "uw_now w"] by (auto simp: on_bridge_def)
  next
    case udp_close
    then show ?thesis using sessions_ok_close[OF ok] by (auto simp: on_bridge_def)
  qed (auto simp: on_bridge_def)
qed

section \<open>A run\<close>

text \<open>
  A client sends a datagram, which is passed on; much later the cleaner closes its session, and the
  receiver of the session, which has both a tick and the closed channel to look at, takes the tick.
\<close>

definition sample_bridge :: udp_bridge where
  "sample_bridge = \<lparr>ub_remote = ''r'', ub_buffer_size = 4096, ub_session_ttl = 300000000000, ub_closed = False,
     ub_sessions = [], ub_store = []\<rparr>"

definition sample_session :: udp_session where
  "sample_session = \<lparr>us_local = ''c'', us_last_active = 0, us_data = [], us_closed = False, us_receiving = True\<rparr>"

definition sample_world :: "int \<Rightarrow> (string, nat) gomap \<Rightarrow> udp_session list \<Rightarrow> (bytes \<times> string) multiset \<Rightarrow> bytes multiset \<Rightarrow>
    (bytes \<times> string) list \<Rightarrow> udp_world" where
  "sample_world now sessions st incoming sending out =
     \<lparr>uw_bridge = sample_bridge\<lparr>ub_sessions := sessions, ub_store := st\<rparr>, uw_now = now, uw_incoming = incoming, uw_found = {#},
      uw_sending = sending, uw_written = out, uw_received = {#[7]#}, uw_cleaning = True\<rparr>"

lemma sample_made: "new_udp_bridge Inr ''r'' [] = Inr sample_bridge"
  by (simp add: new_udp_bridge_def sample_bridge_def)

lemma sample_sent:
  "udp_step\<^sup>*\<^sup>* (start_udp sample_bridge 0) (Alive (sample_world 0 [(''c->r'', 0)] [sample_session] {#} {#} [([7], ''r'')]))"
proof -
  have "udp_step (start_udp sample_bridge 0) (Alive (sample_world 0 [] [] {#([7], ''c'')#} {#} []))"
  proof -
    let ?w = "\<lparr>uw_bridge = sample_bridge, uw_now = 0, uw_incoming = {#}, uw_found = {#}, uw_sending = {#}, uw_written = [],
       uw_received = {#}, uw_cleaning = True\<rparr>"
    have "udp_step (Alive ?w) (Alive (?w\<lparr>uw_incoming := add_mset ([7], ''c'') (uw_incoming ?w), uw_received := add_mset [7] (uw_received ?w)\<rparr>))"
      by (rule udp_receive) (simp_all add: sample_bridge_def)
    then show ?thesis by (simp add: start_udp_def sample_world_def sample_bridge_def)
  qed
  moreover have "udp_step (Alive (sample_world 0 [] [] {#([7], ''c'')#} {#} []))
      (Alive (sample_world 0 [(''c->r'', 0)] [sample_session] {#} {#[7]#} []))"
    using udp_handle[of "[7]" "''c''" "sample_world 0 [] [] {#([7], ''c'')#} {#} []"]
    by (simp add: sample_world_def handle_incoming_def find_session_def session_key_def sample_bridge_def sample_session_def
        go_put_def go_get_def)
  moreover have "udp_step (Alive (sample_world 0 [(''c->r'', 0)] [sample_session] {#} {#[7]#} []))
      (Alive (sample_world 0 [(''c->r'', 0)] [sample_session] {#} {#} [([7], ''r'')]))"
    using udp_send[of "[7]" "sample_world 0 [(''c->r'', 0)] [sample_session] {#} {#[7]#} []" True]
    by (simp add: sample_world_def forward_to_remote_def sample_bridge_def)
  ultimately show ?thesis
    by (meson converse_rtranclp_into_rtranclp rtranclp.rtrancl_refl)
qed


text \<open>The run goes on to the panic.\<close>

lemma sample_cleaned:
  "udp_step\<^sup>*\<^sup>* (start_udp sample_bridge 0)
     (Alive (sample_world 300000000001 [] [sample_session\<lparr>us_closed := True\<rparr>] {#} {#} [([7], ''r'')]))"
proof -
  let ?t = "300000000001 :: int"
  have "udp_step (Alive (sample_world 0 [(''c->r'', 0)] [sample_session] {#} {#} [([7], ''r'')]))
      (Alive (sample_world ?t [(''c->r'', 0)] [sample_session] {#} {#} [([7], ''r'')]))"
    using udp_time[of "sample_world 0 [(''c->r'', 0)] [sample_session] {#} {#} [([7], ''r'')]" ?t] by (simp add: sample_world_def)
  moreover have "udp_step (Alive (sample_world ?t [(''c->r'', 0)] [sample_session] {#} {#} [([7], ''r'')]))
      (Alive (sample_world ?t [] [sample_session\<lparr>us_closed := True\<rparr>] {#} {#} [([7], ''r'')]))"
    using udp_clean[of "sample_world ?t [(''c->r'', 0)] [sample_session] {#} {#} [([7], ''r'')]"]
    by (simp add: sample_world_def on_bridge_def clean_sessions_def session_expired_def sample_session_def sample_bridge_def
        close_session_def update_session_def)
  ultimately show ?thesis using sample_sent by (meson rtranclp.rtrancl_into_rtrancl)
qed

lemma late_tick_panics:
  "udp_step (Alive (sample_world 300000000001 [] [sample_session\<lparr>us_closed := True\<rparr>] {#} {#} [([7], ''r'')])) Panicked"
  using udp_tick[of 0 "sample_world 300000000001 [] [sample_session\<lparr>us_closed := True\<rparr>] {#} {#} [([7], ''r'')]"]
  by (simp add: sample_world_def on_bridge_def receiver_tick_def session_expired_def sample_session_def sample_bridge_def
      close_session_def session_key_def)

lemma only_late_tick_panics_witness:
  "\<exists>i. i < length [sample_session] \<and>
     session_expired 300000000001 (sample_bridge\<lparr>ub_store := [sample_session\<lparr>us_closed := True\<rparr>]\<rparr>) i"
  using only_late_tick_panics[OF sample_made sample_cleaned late_tick_panics]
  by (auto simp: sample_world_def session_expired_def sample_bridge_def)

end
