(* ===== verification/Gsd.thy ===== *)
theory Gsd
  imports Complex_Main Strconv GoStrings
begin

text \<open>
  The package \<open>gsd\<close>, service discovery: retries (\<open>retry.go\<close>); balancers, health checks, clients and
  managers of services (\<open>servicediscovery.go\<close>); the registry kept in etcd (\<open>etcd.go\<close>).  What is
  called over the network, etcd and services that are checked, has a state of its own and is a
  parameter; so are the product computed with \<open>float64\<close>, random numbers and the JSON form of a
  service.
\<close>

section \<open>Services and options\<close>

type_synonym duration64 = "64 word"

record service_info =
  si_name :: string
  si_address :: string
  si_port :: int
  si_metadata :: "(string, string) gomap"
  si_timestamp :: int
  si_status :: string

abbreviation status_healthy :: string where "status_healthy \<equiv> ''healthy''"

text \<open>Errors; \<open>OperationFailed\<close> and the ones below it wrap the error that caused them.\<close>

datatype gsd_error =
    CallError nat
  | StatusCode int
  | OperationFailed int "gsd_error option"
  | NoInstances string
  | NoHealthyInstances string
  | MarshalError
  | GrantError nat
  | PutError nat
  | DeleteError nat
  | GetError nat
  | KeepAliveError nat
  | RegisterFailed gsd_error
  | UnregisterFailed gsd_error
  | DiscoverFailed gsd_error

datatype gsd_strategy = Exponential | Linear | Fixed | UnknownStrategy string

record gsd_options =
  go_max_retries :: int
  go_retry_delay :: duration64
  go_max_delay :: duration64
  go_strategy :: gsd_strategy
  go_multiplier :: rat
  go_transient :: "string list"
  go_should_retry :: "(gsd_error \<Rightarrow> bool) option"
  go_timeout :: duration64
  go_health_interval :: duration64

definition default_gsd_options :: gsd_options where
  "default_gsd_options =
     \<lparr>go_max_retries = 3, go_retry_delay = 1000000000, go_max_delay = 30000000000,
      go_strategy = Exponential, go_multiplier = 2,
      go_transient = [''connection refused'', ''timeout'', ''unavailable'', ''etcdserver: leader changed''],
      go_should_retry = Some (\<lambda>e. False), go_timeout = 10000000000, go_health_interval = 30000000000\<rparr>"

type_synonym gsd_modifier = "gsd_options \<Rightarrow> gsd_options"

definition with_retry_option :: "gsd_options \<Rightarrow> gsd_modifier" where
  "with_retry_option options opts = options"

definition with_max_retries :: "int \<Rightarrow> gsd_modifier" where
  "with_max_retries n opts = opts\<lparr>go_max_retries := n\<rparr>"

definition with_retry_delay :: "duration64 \<Rightarrow> gsd_modifier" where
  "with_retry_delay d opts = opts\<lparr>go_retry_delay := d\<rparr>"

definition with_retry_strategy :: "gsd_strategy \<Rightarrow> gsd_modifier" where
  "with_retry_strategy s opts = opts\<lparr>go_strategy := s\<rparr>"

definition build_gsd_options :: "gsd_modifier list \<Rightarrow> gsd_options" where
  "build_gsd_options modifiers = fold (\<lambda>f opts. f opts) modifiers default_gsd_options"

section \<open>Retries\<close>

text \<open>
  \<open>gs_power d m n\<close> is the duration \<open>d\<close> times the \<open>n\<close>-th power of \<open>m\<close>, computed with \<open>float64\<close>;
  \<open>gs_random n\<close> is \<open>rand.Int63n\<close> of a positive number.
\<close>

record gsd_numbers =
  gs_power :: "duration64 \<Rightarrow> rat \<Rightarrow> int \<Rightarrow> duration64"
  gs_random :: "int \<Rightarrow> duration64"

definition gsd_strategy_delay :: "gsd_numbers \<Rightarrow> int \<Rightarrow> gsd_options \<Rightarrow> duration64" where
  "gsd_strategy_delay nums attempt options =
     (case go_strategy options of
        Exponential \<Rightarrow> gs_power nums (go_retry_delay options) (go_multiplier options) attempt
      | Linear \<Rightarrow> go_retry_delay options * word_of_int (attempt + 1)
      | Fixed \<Rightarrow> go_retry_delay options
      | UnknownStrategy _ \<Rightarrow> go_retry_delay options)"

text \<open>\<open>Int63n\<close> panics unless its argument is positive, that is unless the delay is at least two.\<close>

definition gsd_delay :: "gsd_numbers \<Rightarrow> int \<Rightarrow> gsd_options \<Rightarrow> (gsd_error, duration64) outcome" where
  "gsd_delay nums attempt options =
     (let delay = gsd_strategy_delay nums attempt options;
          delay = (if sint delay > sint (go_max_delay options) then go_max_delay options else delay)
      in if sint delay \<le> 1 then Panic else Ok (delay + gs_random nums (sint delay div 2)))"

text \<open>
  \<open>retryWithBackoff\<close>, from some attempt on; the function that is tried changes a state, and the
  delays that were slept are returned too.
\<close>

type_synonym 's gsd_call = "'s \<Rightarrow> (gsd_error, unit) outcome \<times> 's"

function gsd_retry_from ::
  "gsd_numbers \<Rightarrow> gsd_options \<Rightarrow> 's gsd_call \<Rightarrow> int \<Rightarrow> gsd_error option \<Rightarrow> 's
     \<Rightarrow> (gsd_error, unit) outcome \<times> 's \<times> duration64 list" where
  "gsd_retry_from nums options f attempt last_err s =
     (if attempt \<le> go_max_retries options then
        (case f s of
           (Ok _, s) \<Rightarrow> (Ok (), s, [])
         | (Panic, s) \<Rightarrow> (Panic, s, [])
         | (Err e, s) \<Rightarrow>
             (let failed = Err (OperationFailed (go_max_retries options + 1) (Some e)) in
              if attempt = go_max_retries options then (failed, s, [])
              else
                (case go_should_retry options of
                   None \<Rightarrow> (Panic, s, [])
                 | Some p \<Rightarrow>
                     if \<not> p e then (failed, s, [])
                     else
                       (case gsd_delay nums attempt options of
                          Ok d \<Rightarrow>
                            (case gsd_retry_from nums options f (attempt + 1) (Some e) s of
                               (r, s, ds) \<Rightarrow> (r, s, d # ds))
                        | _ \<Rightarrow> (Panic, s, [])))))
      else (Err (OperationFailed (go_max_retries options + 1) last_err), s, []))"
  by pat_completeness auto
termination
  by (relation "measure (\<lambda>(nums, options, f, attempt, e, s). nat (go_max_retries options - attempt))") auto

declare gsd_retry_from.simps [simp del]

definition gsd_retry ::
  "gsd_numbers \<Rightarrow> gsd_options \<Rightarrow> 's gsd_call \<Rightarrow> 's \<Rightarrow> (gsd_error, unit) outcome \<times> 's \<times> duration64 list" where
  "gsd_retry nums options f s = gsd_retry_from nums options f 0 None s"

section \<open>Balancers\<close>

text \<open>
  A balancer is one of the two of the package or any other implementation, which has a state and is
  given by the function \<open>other\<close>.  The counter of the round robin is an \<open>int\<close> and wraps.
\<close>

datatype 'b gsd_balancer = RandomBalancer | RoundRobinBalancer "64 word" | OtherBalancer 'b

definition new_rr_balancer :: "'b gsd_balancer" where
  "new_rr_balancer = RoundRobinBalancer 0"

type_synonym 'b other_balancer = "'b \<Rightarrow> service_info list \<Rightarrow> service_info option \<times> 'b"

definition round_robin_select :: "64 word \<Rightarrow> service_info list \<Rightarrow> (gsd_error, service_info option) outcome \<times> 64 word" where
  "round_robin_select current services =
     (if length services = 0 then (Ok None, current)
      else if sint current < 0 \<and> sint current mod int (length services) \<noteq> 0 then (Panic, current)
      else (Ok (Some (services ! nat (sint current mod int (length services)))), current + 1))"

definition random_select :: "(nat \<Rightarrow> nat) \<Rightarrow> service_info list \<Rightarrow> service_info option" where
  "random_select pick services =
     (if length services = 0 then None else Some (services ! pick (length services)))"

fun balancer_select ::
  "(nat \<Rightarrow> nat) \<Rightarrow> 'b other_balancer \<Rightarrow> 'b gsd_balancer \<Rightarrow> service_info list
     \<Rightarrow> (gsd_error, service_info option) outcome \<times> 'b gsd_balancer" where
  "balancer_select pick other RandomBalancer services = (Ok (random_select pick services), RandomBalancer)"
| "balancer_select pick other (RoundRobinBalancer n) services =
     map_prod id RoundRobinBalancer (round_robin_select n services)"
| "balancer_select pick other (OtherBalancer b) services = map_prod Ok OtherBalancer (other b services)"

section \<open>Health checks\<close>

type_synonym 's health_checker = "service_info \<Rightarrow> 's \<Rightarrow> (gsd_error, bool) outcome \<times> 's"

record http_checker =
  hc_timeout :: duration64
  hc_options :: gsd_options

definition new_http_checker :: "duration64 \<Rightarrow> gsd_options \<Rightarrow> http_checker" where
  "new_http_checker timeout options =
     (let timeout = (if sint timeout \<le> 0 then 5000000000 else timeout);
          client = (if sint (go_timeout options) > 0 then go_timeout options else timeout)
      in \<lparr>hc_timeout = client, hc_options = options\<rparr>)"

definition health_url :: "service_info \<Rightarrow> string" where
  "health_url si = ''http://'' @ si_address si @ '':'' @ decimal (si_port si) @ ''/health''"

text \<open>\<open>http_get\<close> answers with a status code or an error; \<open>success\<close> is the variable of the closure.\<close>

definition http_check ::
  "gsd_numbers \<Rightarrow> (string \<Rightarrow> 's \<Rightarrow> (nat + int) \<times> 's) \<Rightarrow> http_checker \<Rightarrow> 's health_checker" where
  "http_check nums http_get h si s =
     (let check = (\<lambda>(s, success).
            case http_get (health_url si) s of
              (Inl e, s) \<Rightarrow> (Err (CallError e), s, success)
            | (Inr code, s) \<Rightarrow> if code \<noteq> 200 then (Err (StatusCode code), s, success) else (Ok (), s, True))
      in case gsd_retry nums (hc_options h) check (s, False) of
           (Ok _, (s, success), _) \<Rightarrow> (Ok success, s)
         | (Err _, (s, _), _) \<Rightarrow> (Ok False, s)
         | (Panic, (s, _), _) \<Rightarrow> (Panic, s))"

fun filter_healthy ::
  "'s health_checker \<Rightarrow> service_info list \<Rightarrow> 's \<Rightarrow> (gsd_error, service_info list) outcome \<times> 's" where
  "filter_healthy check [] s = (Ok [], s)"
| "filter_healthy check (x # xs) s =
     (case check x s of
        (Ok b, s) \<Rightarrow>
          (case filter_healthy check xs s of
             (Ok ys, s) \<Rightarrow> (Ok (if b then x # ys else ys), s)
           | (r, s) \<Rightarrow> (r, s))
      | (Err e, s) \<Rightarrow> (Err e, s)
      | (Panic, s) \<Rightarrow> (Panic, s))"

section \<open>Clients\<close>

text \<open>
  A client of services: the registrar and the discovery it calls, on a common state, and its
  options.  \<open>GetService\<close> of a discovery returns services and an error at once.
\<close>

record 's service_client =
  sv_register :: "service_info \<Rightarrow> 's gsd_call"
  sv_unregister :: "service_info \<Rightarrow> 's gsd_call"
  sv_get :: "string \<Rightarrow> 's \<Rightarrow> service_info list \<times> gsd_error option \<times> 's"
  sv_close_registry :: "('s \<Rightarrow> gsd_error option \<times> 's) option"
  sv_close_discovery :: "('s \<Rightarrow> gsd_error option \<times> 's) option"
  sv_options :: gsd_options

definition client_register :: "gsd_numbers \<Rightarrow> 's service_client \<Rightarrow> service_info \<Rightarrow> 's gsd_call" where
  "client_register nums c si s = (case gsd_retry nums (sv_options c) (sv_register c si) s of (r, s, _) \<Rightarrow> (r, s))"

definition client_unregister :: "gsd_numbers \<Rightarrow> 's service_client \<Rightarrow> service_info \<Rightarrow> 's gsd_call" where
  "client_unregister nums c si s = (case gsd_retry nums (sv_options c) (sv_unregister c si) s of (r, s, _) \<Rightarrow> (r, s))"

text \<open>The closure that keeps the services of the last call, whether it failed or not.\<close>

definition keep_services ::
  "(string \<Rightarrow> 's \<Rightarrow> service_info list \<times> gsd_error option \<times> 's) \<Rightarrow> string \<Rightarrow> ('s \<times> service_info list) gsd_call" where
  "keep_services get name = (\<lambda>(s, _).
     case get name s of (services, err, s) \<Rightarrow> (case err of None \<Rightarrow> Ok () | Some e \<Rightarrow> Err e, s, services))"

definition client_get_service ::
  "gsd_numbers \<Rightarrow> 's service_client \<Rightarrow> string \<Rightarrow> 's \<Rightarrow> service_info list \<times> (gsd_error, unit) outcome \<times> 's" where
  "client_get_service nums c name s =
     (case gsd_retry nums (sv_options c) (keep_services (sv_get c) name) (s, []) of
        (r, (s, services), _) \<Rightarrow> (services, r, s))"

definition client_select_service ::
  "(nat \<Rightarrow> nat) \<Rightarrow> 'b other_balancer \<Rightarrow> gsd_numbers \<Rightarrow> 's service_client \<Rightarrow> string \<Rightarrow> 'b gsd_balancer option \<Rightarrow> 's
     \<Rightarrow> (gsd_error, service_info option) outcome \<times> 'b gsd_balancer option \<times> 's" where
  "client_select_service pick other nums c name lb s =
     (case client_get_service nums c name s of
        (_, Err e, s) \<Rightarrow> (Err e, lb, s)
      | (_, Panic, s) \<Rightarrow> (Panic, lb, s)
      | (services, Ok _, s) \<Rightarrow>
          if length services = 0 then (Err (NoInstances name), lb, s)
          else
            (case balancer_select pick other (case lb of None \<Rightarrow> new_rr_balancer | Some b \<Rightarrow> b) services of
               (r, b) \<Rightarrow> (r, map_option (\<lambda>_. b) lb, s)))"

definition client_close :: "'s service_client \<Rightarrow> 's \<Rightarrow> gsd_error option \<times> 's" where
  "client_close c s =
     (let (registry_err, s) = (case sv_close_registry c of None \<Rightarrow> (None, s) | Some f \<Rightarrow> f s);
          (discovery_err, s) = (case sv_close_discovery c of None \<Rightarrow> (None, s) | Some f \<Rightarrow> f s)
      in (case registry_err of Some e \<Rightarrow> Some e | None \<Rightarrow> discovery_err, s))"

section \<open>Managers\<close>

record ('s, 'b) service_manager =
  sm_client :: "'s service_client"
  sm_checker :: "'s health_checker option"
  sm_balancer :: "'b gsd_balancer option"
  sm_services :: "(string, service_info list) gomap"
  sm_options :: gsd_options

definition new_service_manager ::
  "'s service_client \<Rightarrow> 's health_checker option \<Rightarrow> 'b gsd_balancer option \<Rightarrow> gsd_options \<Rightarrow> ('s, 'b) service_manager" where
  "new_service_manager c checker lb options =
     \<lparr>sm_client = c, sm_checker = checker, sm_balancer = lb, sm_services = [], sm_options = options\<rparr>"

definition manager_register :: "gsd_numbers \<Rightarrow> ('s, 'b) service_manager \<Rightarrow> service_info \<Rightarrow> 's gsd_call" where
  "manager_register nums m = client_register nums (sm_client m)"

definition manager_unregister :: "gsd_numbers \<Rightarrow> ('s, 'b) service_manager \<Rightarrow> service_info \<Rightarrow> 's gsd_call" where
  "manager_unregister nums m = client_unregister nums (sm_client m)"

definition discover_and_cache ::
  "gsd_numbers \<Rightarrow> ('s, 'b) service_manager \<Rightarrow> string \<Rightarrow> 's
     \<Rightarrow> (gsd_error, unit) outcome \<times> ('s, 'b) service_manager \<times> 's" where
  "discover_and_cache nums m name s =
     (let discover = (\<lambda>(s, _). case client_get_service nums (sm_client m) name s of (services, r, s) \<Rightarrow> (r, s, services))
      in case gsd_retry nums (sm_options m) discover (s, []) of
           (Ok _, (s, services), _) \<Rightarrow> (Ok (), m\<lparr>sm_services := go_put name services (sm_services m)\<rparr>, s)
         | (Err e, (s, _), _) \<Rightarrow> (Err e, m, s)
         | (Panic, (s, _), _) \<Rightarrow> (Panic, m, s))"

definition get_cached_service :: "('s, 'b) service_manager \<Rightarrow> string \<Rightarrow> service_info list \<times> bool" where
  "get_cached_service m name =
     (case go_get (sm_services m) name of None \<Rightarrow> ([], False) | Some services \<Rightarrow> (services, True))"

text \<open>The selection once the services are known: the healthy ones, if there is a checker, are balanced.\<close>

definition select_known ::
  "(nat \<Rightarrow> nat) \<Rightarrow> 'b other_balancer \<Rightarrow> ('s, 'b) service_manager \<Rightarrow> string \<Rightarrow> service_info list \<Rightarrow> 's
     \<Rightarrow> (gsd_error, service_info option) outcome \<times> ('s, 'b) service_manager \<times> 's" where
  "select_known pick other m name services s =
     (case (case sm_checker m of None \<Rightarrow> (Ok services, s) | Some check \<Rightarrow> filter_healthy check services s) of
        (Ok services, s) \<Rightarrow>
          if length services = 0 then (Err (NoHealthyInstances name), m, s)
          else
            (let lb = (case sm_balancer m of None \<Rightarrow> new_rr_balancer | Some b \<Rightarrow> b);
                 (r, lb) = balancer_select pick other lb services
             in (r, m\<lparr>sm_balancer := Some lb\<rparr>, s))
      | (Err e, s) \<Rightarrow> (Err e, m, s)
      | (Panic, s) \<Rightarrow> (Panic, m, s))"

definition select_with_health_check ::
  "(nat \<Rightarrow> nat) \<Rightarrow> 'b other_balancer \<Rightarrow> gsd_numbers \<Rightarrow> ('s, 'b) service_manager \<Rightarrow> string \<Rightarrow> 's
     \<Rightarrow> (gsd_error, service_info option) outcome \<times> ('s, 'b) service_manager \<times> 's" where
  "select_with_health_check pick other nums m name s =
     (case get_cached_service m name of
        (services, True) \<Rightarrow> select_known pick other m name services s
      | (_, False) \<Rightarrow>
          (case discover_and_cache nums m name s of
             (Ok _, m, s) \<Rightarrow> select_known pick other m name (fst (get_cached_service m name)) s
           | (Err e, m, s) \<Rightarrow> (Err e, m, s)
           | (Panic, m, s) \<Rightarrow> (Panic, m, s)))"

definition manager_close :: "('s, 'b) service_manager \<Rightarrow> 's \<Rightarrow> gsd_error option \<times> 's" where
  "manager_close m = client_close (sm_client m)"

section \<open>Custom services\<close>

record custom_service =
  cu_name :: string
  cu_address :: string
  cu_port :: int
  cu_version :: string
  cu_weight :: int
  cu_timestamp :: int
  cu_status :: string

definition custom_metadata :: "custom_service \<Rightarrow> (string, string) gomap" where
  "custom_metadata c = [(''version'', cu_version c), (''weight'', decimal (cu_weight c))]"

definition to_service_info :: "custom_service \<Rightarrow> service_info" where
  "to_service_info c =
     \<lparr>si_name = cu_name c, si_address = cu_address c, si_port = cu_port c, si_metadata = custom_metadata c,
      si_timestamp = cu_timestamp c, si_status = cu_status c\<rparr>"

section \<open>The registry in etcd\<close>

text \<open>
  What the code uses of etcd, with the errors it may give: leases, put, delete and the values under a
  prefix.  \<open>et_now\<close> is the clock, the last two are the JSON form of services.
\<close>

record 's etcd =
  et_grant :: "int \<Rightarrow> 's \<Rightarrow> (nat + int) \<times> 's"
  et_put :: "string \<Rightarrow> string \<Rightarrow> int \<Rightarrow> 's \<Rightarrow> nat option \<times> 's"
  et_delete :: "string \<Rightarrow> 's \<Rightarrow> nat option \<times> 's"
  et_keep_alive :: "int \<Rightarrow> 's \<Rightarrow> nat option \<times> 's"
  et_get_prefix :: "string \<Rightarrow> 's \<Rightarrow> (nat + string list) \<times> 's"
  et_now :: "'s \<Rightarrow> int"
  et_marshal :: "service_info \<Rightarrow> string option"
  et_unmarshal :: "string \<Rightarrow> service_info option"

record registry_config =
  rg_lease_ttl :: int
  rg_options :: gsd_options
  rg_prefix :: string

definition default_key_prefix :: "string \<Rightarrow> string" where
  "default_key_prefix prefix = (if prefix = '''' then ''/services'' else prefix)"

definition format_key :: "string \<Rightarrow> service_info \<Rightarrow> string" where
  "format_key prefix si =
     prefix @ ''/'' @ si_name si @ ''/'' @ si_address si @ '':'' @ decimal (si_port si)"

text \<open>A new lease, and the service put under its key with it.\<close>

definition grant_and_put :: "'s etcd \<Rightarrow> registry_config \<Rightarrow> string \<Rightarrow> string \<Rightarrow> 's \<Rightarrow> (gsd_error, int) outcome \<times> 's" where
  "grant_and_put et cfg key v s =
     (case et_grant et (rg_lease_ttl cfg) s of
        (Inl e, s) \<Rightarrow> (Err (GrantError e), s)
      | (Inr lease, s) \<Rightarrow>
          (case et_put et key v lease s of (Some e, s) \<Rightarrow> (Err (PutError e), s) | (None, s) \<Rightarrow> (Ok lease, s)))"

definition stamp_service :: "int \<Rightarrow> service_info \<Rightarrow> service_info" where
  "stamp_service now si =
     si\<lparr>si_timestamp := now, si_status := (if si_status si = '''' then status_healthy else si_status si)\<rparr>"

definition etcd_register :: "gsd_numbers \<Rightarrow> 's etcd \<Rightarrow> registry_config \<Rightarrow> service_info \<Rightarrow> 's gsd_call" where
  "etcd_register nums et cfg si s =
     (let si = stamp_service (et_now et s) si; key = format_key (rg_prefix cfg) si in
      case et_marshal et si of
        None \<Rightarrow> (Err MarshalError, s)
      | Some v \<Rightarrow>
          (case gsd_retry nums (rg_options cfg) (\<lambda>s. map_prod (mapO (\<lambda>_. ())) id (grant_and_put et cfg key v s)) s of
             (Ok _, s, _) \<Rightarrow> (Ok (), s)
           | (Err e, s, _) \<Rightarrow> (Err (RegisterFailed e), s)
           | (Panic, s, _) \<Rightarrow> (Panic, s)))"

definition etcd_unregister :: "gsd_numbers \<Rightarrow> 's etcd \<Rightarrow> registry_config \<Rightarrow> service_info \<Rightarrow> 's gsd_call" where
  "etcd_unregister nums et cfg si s =
     (let key = format_key (rg_prefix cfg) si;
          unregister = (\<lambda>s. case et_delete et key s of (Some e, s) \<Rightarrow> (Err (DeleteError e), s) | (None, s) \<Rightarrow> (Ok (), s))
      in case gsd_retry nums (rg_options cfg) unregister s of
           (Ok _, s, _) \<Rightarrow> (Ok (), s)
         | (Err e, s, _) \<Rightarrow> (Err (UnregisterFailed e), s)
         | (Panic, s, _) \<Rightarrow> (Panic, s))"

definition etcd_discover ::
  "gsd_numbers \<Rightarrow> 's etcd \<Rightarrow> registry_config \<Rightarrow> string \<Rightarrow> 's \<Rightarrow> (gsd_error, service_info list) outcome \<times> 's" where
  "etcd_discover nums et cfg name s =
     (let prefix = rg_prefix cfg @ ''/'' @ name @ ''/'';
          discover = (\<lambda>(s, services).
            case et_get_prefix et prefix s of
              (Inl e, s) \<Rightarrow> (Err (GetError e), s, services)
            | (Inr vs, s) \<Rightarrow> (Ok (), s, List.map_filter (et_unmarshal et) vs))
      in case gsd_retry nums (rg_options cfg) discover (s, []) of
           (Ok _, (s, services), _) \<Rightarrow> (Ok services, s)
         | (Err e, (s, _), _) \<Rightarrow> (Err (DiscoverFailed e), s)
         | (Panic, (s, _), _) \<Rightarrow> (Panic, s))"

text \<open>
  \<open>keepAlive\<close>: the service is put again with a lease that is kept alive; when the channel of the
  lease closes, and only then, this is repeated, until the registry is closed.  What the loop wakes
  up for is a list.
\<close>

datatype wake_up = LeaseKept | LeaseLost | RegistryClosed

definition establish_lease :: "'s etcd \<Rightarrow> registry_config \<Rightarrow> string \<Rightarrow> string \<Rightarrow> 's \<Rightarrow> (gsd_error, int) outcome \<times> 's" where
  "establish_lease et cfg key v s =
     (case et_unmarshal et v of
        None \<Rightarrow> (Err MarshalError, s)
      | Some _ \<Rightarrow>
          (case grant_and_put et cfg key v s of
             (Ok lease, s) \<Rightarrow>
               (case et_keep_alive et lease s of (Some e, s) \<Rightarrow> (Err (KeepAliveError e), s) | (None, s) \<Rightarrow> (Ok lease, s))
           | (r, s) \<Rightarrow> (r, s)))"

fun keep_alive_loop :: "'s etcd \<Rightarrow> registry_config \<Rightarrow> string \<Rightarrow> string \<Rightarrow> wake_up list \<Rightarrow> 's \<Rightarrow> 's" where
  "keep_alive_loop et cfg key v [] s = s"
| "keep_alive_loop et cfg key v (LeaseKept # ws) s = keep_alive_loop et cfg key v ws s"
| "keep_alive_loop et cfg key v (LeaseLost # ws) s =
     keep_alive_loop et cfg key v ws (snd (establish_lease et cfg key v s))"
| "keep_alive_loop et cfg key v (RegistryClosed # ws) s = s"

definition keep_alive :: "'s etcd \<Rightarrow> registry_config \<Rightarrow> string \<Rightarrow> string \<Rightarrow> wake_up list \<Rightarrow> 's \<Rightarrow> 's" where
  "keep_alive et cfg key v ws s =
     (case establish_lease et cfg key v s of
        (Ok _, s) \<Rightarrow> keep_alive_loop et cfg key v ws s
      | (_, s) \<Rightarrow> s)"

text \<open>
  \<open>Watch\<close>: the calls of the handler.  Each watch channel is the list of its responses; after a
  channel the next one is opened unless the registry is closed, that is unless there is no further
  one.  A panic ends the program, and nothing follows.
\<close>

datatype watch_response = WatchCanceled | WatchEvents

definition notify ::
  "gsd_numbers \<Rightarrow> 's etcd \<Rightarrow> registry_config \<Rightarrow> string
     \<Rightarrow> ('s \<Rightarrow> service_info list list \<times> 's) \<Rightarrow> 's \<Rightarrow> service_info list list \<times> 's" where
  "notify nums et cfg name rest s =
     (case etcd_discover nums et cfg name s of
        (Ok services, s) \<Rightarrow> map_prod ((#) services) id (rest s)
      | (Err _, s) \<Rightarrow> rest s
      | (Panic, s) \<Rightarrow> ([], s))"

fun watch_responses ::
  "gsd_numbers \<Rightarrow> 's etcd \<Rightarrow> registry_config \<Rightarrow> string \<Rightarrow> watch_response list
     \<Rightarrow> ('s \<Rightarrow> service_info list list \<times> 's) \<Rightarrow> 's \<Rightarrow> service_info list list \<times> 's" where
  "watch_responses nums et cfg name [] rest s = rest s"
| "watch_responses nums et cfg name (WatchCanceled # rs) rest s = rest s"
| "watch_responses nums et cfg name (WatchEvents # rs) rest s =
     notify nums et cfg name (watch_responses nums et cfg name rs rest) s"

definition etcd_watch ::
  "gsd_numbers \<Rightarrow> 's etcd \<Rightarrow> registry_config \<Rightarrow> string \<Rightarrow> watch_response list list \<Rightarrow> 's
     \<Rightarrow> service_info list list \<times> 's" where
  "etcd_watch nums et cfg name channels s =
     notify nums et cfg name (foldr (watch_responses nums et cfg name) channels (\<lambda>s. ([], s))) s"

end
