(* ===== verification/GsdFacts.thy ===== *)
theory GsdFacts
  imports Gsd
begin

text \<open>
  What service discovery promises: how often a call is tried and with which result, that managers
  hand out healthy services in turn, and that a registered service is discovered; and where delays
  panic, nothing is retried, services come back and names run into each other.
\<close>

section \<open>Retries\<close>

text \<open>The state after some calls, and the results of the calls.\<close>

definition state_after :: "'s gsd_call \<Rightarrow> nat \<Rightarrow> 's \<Rightarrow> 's" where
  "state_after f n s = ((\<lambda>s. snd (f s)) ^^ n) s"

abbreviation call_result :: "'s gsd_call \<Rightarrow> nat \<Rightarrow> 's \<Rightarrow> (gsd_error, unit) outcome" where
  "call_result f n s \<equiv> fst (f (state_after f n s))"

lemma state_after_0 [simp]: "state_after f 0 s = s"
  by (simp add: state_after_def)

lemma state_after_Suc: "state_after f (Suc n) s = state_after f n (snd (f s))"
  by (simp add: state_after_def funpow_Suc_right del: funpow.simps)

text \<open>Whether the error of an attempt leads to a further one.\<close>

definition tried_again :: "gsd_options \<Rightarrow> int \<Rightarrow> gsd_error \<Rightarrow> bool" where
  "tried_again options attempt e \<longleftrightarrow>
     attempt \<noteq> go_max_retries options \<and> (case go_should_retry options of None \<Rightarrow> False | Some p \<Rightarrow> p e)"

lemma retry_step:
  assumes "attempt \<le> go_max_retries options"
  shows "gsd_retry_from nums options f attempt last_err s =
    (case f s of
       (Ok _, s) \<Rightarrow> (Ok (), s, [])
     | (Panic, s) \<Rightarrow> (Panic, s, [])
     | (Err e, s) \<Rightarrow>
         if tried_again options attempt e then
           (case gsd_delay nums attempt options of
              Ok d \<Rightarrow> (case gsd_retry_from nums options f (attempt + 1) (Some e) s of (r, s, ds) \<Rightarrow> (r, s, d # ds))
            | _ \<Rightarrow> (Panic, s, []))
         else if attempt \<noteq> go_max_retries options \<and> go_should_retry options = None then (Panic, s, [])
         else (Err (OperationFailed (go_max_retries options + 1) (Some e)), s, []))"
  using assms
  by (subst gsd_retry_from.simps)
    (auto simp: tried_again_def Let_def split: prod.split outcome.split option.split)

text \<open>A call that settles after \<open>k\<close> attempts that are tried again.\<close>

lemma retry_settles_from:
  assumes "\<And>i. i < k \<Longrightarrow> \<exists>e. call_result f i s = Err e \<and> tried_again options (attempt + int i) e"
    and "\<And>i. i < k \<Longrightarrow> gsd_delay nums (attempt + int i) options = Ok (delay (attempt + int i))"
    and "attempt + int k \<le> go_max_retries options"
    and "case call_result f k s of Ok u \<Rightarrow> r = Ok u
      | Err e \<Rightarrow> \<not> tried_again options (attempt + int k) e \<and> go_should_retry options \<noteq> None \<and>
          r = Err (OperationFailed (go_max_retries options + 1) (Some e))
      | Panic \<Rightarrow> r = Panic"
  shows "gsd_retry_from nums options f attempt last_err s =
    (r, state_after f (Suc k) s, map (\<lambda>i. delay (attempt + int i)) [0..<k])"
  using assms
proof (induction k arbitrary: attempt last_err s)
  case 0
  then show ?case
    by (subst retry_step) (auto simp: state_after_Suc split: prod.split outcome.splits)
next
  case (Suc k)
  obtain e where e: "fst (f s) = Err e" "tried_again options attempt e"
    using Suc.prems(1)[of 0] by auto
  have d: "gsd_delay nums attempt options = Ok (delay attempt)" using Suc.prems(2)[of 0] by simp
  have IH: "gsd_retry_from nums options f (attempt + 1) (Some e) (snd (f s)) =
      (r, state_after f (Suc k) (snd (f s)), map (\<lambda>i. delay (attempt + 1 + int i)) [0..<k])"
  proof (rule Suc.IH)
    fix i assume "i < k"
    then show "\<exists>e. call_result f i (snd (f s)) = Err e \<and> tried_again options (attempt + 1 + int i) e"
      using Suc.prems(1)[of "Suc i"] by (simp add: state_after_Suc add_ac)
    show "gsd_delay nums (attempt + 1 + int i) options = Ok (delay (attempt + 1 + int i))"
      using Suc.prems(2)[of "Suc i"] \<open>i < k\<close> by (simp add: add_ac)
  next
    show "attempt + 1 + int k \<le> go_max_retries options" using Suc.prems(3) by simp
    show "case call_result f k (snd (f s)) of Ok u \<Rightarrow> r = Ok u
      | Err e \<Rightarrow> \<not> tried_again options (attempt + 1 + int k) e \<and> go_should_retry options \<noteq> None \<and>
          r = Err (OperationFailed (go_max_retries options + 1) (Some e))
      | Panic \<Rightarrow> r = Panic"
      using Suc.prems(4) by (simp add: state_after_Suc add_ac cong: outcome.case_cong)
  qed
  have "map (\<lambda>i. delay (attempt + int i)) [0..<Suc k] = delay attempt # map (\<lambda>i. delay (attempt + 1 + int i)) [0..<k]"
    by (simp add: map_upt_Suc add_ac del: upt_Suc)
  moreover obtain t where "f s = (Err e, t)" using e(1) by (cases "f s") auto
  ultimately show ?case
    using Suc.prems(3) e(2) d IH by (subst retry_step) (simp_all add: state_after_Suc del: upt_Suc)
qed

text \<open>
  A call is tried until it succeeds, panics, fails with an error that is not to be retried, or has
  been tried once more than the retries allowed; its last result is returned, wrapped if it is an
  error, and the delays of the failed attempts have been slept in between.
\<close>

theorem gsd_retry_settles:
  assumes "\<And>i. i < k \<Longrightarrow> \<exists>e. call_result f i s = Err e \<and> tried_again options (int i) e"
    and "\<And>i. i < k \<Longrightarrow> gsd_delay nums (int i) options = Ok (delay (int i))"
    and "int k \<le> go_max_retries options"
    and "case call_result f k s of Ok u \<Rightarrow> r = Ok u
      | Err e \<Rightarrow> \<not> tried_again options (int k) e \<and> go_should_retry options \<noteq> None \<and>
          r = Err (OperationFailed (go_max_retries options + 1) (Some e))
      | Panic \<Rightarrow> r = Panic"
  shows "gsd_retry nums options f s = (r, state_after f (Suc k) s, map (\<lambda>i. delay (int i)) [0..<k])"
proof -
  have "gsd_retry_from nums options f 0 None s = (r, state_after f (Suc k) s, map (\<lambda>i. delay (0 + int i)) [0..<k])"
    by (rule retry_settles_from) (use assms in \<open>simp_all cong: outcome.case_cong\<close>)
  then show ?thesis by (simp add: gsd_retry_def)
qed

text \<open>A call that fails until the second retry, with delays of a second plus jitter.\<close>

definition demo_numbers :: gsd_numbers where
  "demo_numbers = \<lparr>gs_power = (\<lambda>d m n. d), gs_random = (\<lambda>n. 7)\<rparr>"

definition demo_call :: "nat gsd_call" where
  "demo_call n = (if n < 2 then Err (CallError n) else Ok (), Suc n)"

lemma demo_state: "state_after demo_call n s = s + n"
  by (induction n arbitrary: s) (simp_all add: state_after_Suc demo_call_def)

lemma gsd_retry_settles_witness:
  "gsd_retry demo_numbers (default_gsd_options\<lparr>go_should_retry := Some (\<lambda>e. True)\<rparr>) demo_call 0 =
     (Ok (), state_after demo_call (Suc 2) 0, map (\<lambda>i. (\<lambda>n. 1000000007) (int i)) [0..<2])"
proof (rule gsd_retry_settles)
  fix i :: nat assume "i < 2"
  then show "\<exists>e. call_result demo_call i 0 = Err e \<and>
      tried_again (default_gsd_options\<lparr>go_should_retry := Some (\<lambda>e. True)\<rparr>) (int i) e"
    by (simp add: demo_state demo_call_def tried_again_def default_gsd_options_def)
  have "sint (1000000000 :: 64 word) = 1000000000" "sint (30000000000 :: 64 word) = 30000000000"
    by code_simp+
  then show "gsd_delay demo_numbers (int i) (default_gsd_options\<lparr>go_should_retry := Some (\<lambda>e. True)\<rparr>) = Ok 1000000007"
    by (simp add: gsd_delay_def gsd_strategy_delay_def default_gsd_options_def demo_numbers_def)
next
  have "call_result demo_call 2 0 = Ok ()" unfolding demo_state by (simp add: demo_call_def)
  then show "case call_result demo_call 2 0 of Ok u \<Rightarrow> Ok () = Ok u
      | Err e \<Rightarrow> \<not> tried_again (default_gsd_options\<lparr>go_should_retry := Some (\<lambda>e. True)\<rparr>) (int 2) e \<and>
          go_should_retry (default_gsd_options\<lparr>go_should_retry := Some (\<lambda>e. True)\<rparr>) \<noteq> None \<and>
          Ok () = Err (OperationFailed (go_max_retries (default_gsd_options\<lparr>go_should_retry := Some (\<lambda>e. True)\<rparr>) + 1) (Some e))
      | Panic \<Rightarrow> Ok () = Panic"
    by (simp only: outcome.case)
qed (simp add: default_gsd_options_def)

text \<open>
  With the default options nothing is ever tried again: the function that decides says no to every
  error.
\<close>

lemma default_options_never_retry:
  "gsd_retry nums default_gsd_options f s =
     (case f s of
        (Ok _, s) \<Rightarrow> (Ok (), s, [])
      | (Panic, s) \<Rightarrow> (Panic, s, [])
      | (Err e, s) \<Rightarrow> (Err (OperationFailed 4 (Some e)), s, []))"
  unfolding gsd_retry_def
  by (subst retry_step) (simp_all add: default_gsd_options_def tried_again_def split: outcome.split prod.split)

text \<open>Fewer than zero retries: the function is not called at all, and the error wraps nil.\<close>

lemma negative_retries_call_nothing:
  "go_max_retries options < 0 \<Longrightarrow>
     gsd_retry nums options f s = (Err (OperationFailed (go_max_retries options + 1) None), s, [])"
  unfolding gsd_retry_def by (subst gsd_retry_from.simps) simp

text \<open>Options without a function that decides, or without a delay, panic at the first error.\<close>

lemma no_delay_panics:
  assumes "0 < go_max_retries options" "fst (f s) = Err e"
    and "go_should_retry options = None \<or> go_strategy options = Fixed \<and> go_retry_delay options = 0 \<and> 0 \<le> sint (go_max_delay options) \<and>
      tried_again options 0 e"
  shows "fst (gsd_retry nums options f s) = Panic"
proof -
  obtain t where f: "f s = (Err e, t)" using assms(2) by (cases "f s") auto
  show ?thesis
    using assms(1,3) unfolding gsd_retry_def
    by (subst retry_step)
      (auto simp: f tried_again_def gsd_delay_def gsd_strategy_delay_def split: option.splits)
qed

section \<open>Managers\<close>

lemma filter_healthy_pure:
  assumes "\<And>x s. check x s = (Ok (ok x), s)"
  shows "filter_healthy check services s = (Ok (filter ok services), s)"
  by (induction services) (simp_all add: assms)

text \<open>The services a manager hands out in some calls.\<close>

fun select_times ::
  "nat \<Rightarrow> (nat \<Rightarrow> nat) \<Rightarrow> 'b other_balancer \<Rightarrow> gsd_numbers \<Rightarrow> ('s, 'b) service_manager \<Rightarrow> string \<Rightarrow> 's
     \<Rightarrow> (gsd_error, service_info option) outcome list \<times> ('s, 'b) service_manager" where
  "select_times 0 pick other nums m name s = ([], m)"
| "select_times (Suc n) pick other nums m name s =
     (case select_with_health_check pick other nums m name s of
        (r, m, s) \<Rightarrow> map_prod ((#) r) id (select_times n pick other nums m name s))"

lemma select_round_robin:
  assumes "go_get (sm_services m) name = Some services"
    and "sm_checker m = Some check" and "\<And>x s. check x s = (Ok (ok x), s)"
    and "sm_balancer m = Some (RoundRobinBalancer i)" and "0 \<le> sint i"
    and "filter ok services \<noteq> []"
  shows "select_with_health_check pick other nums m name s =
    (Ok (Some (filter ok services ! nat (sint i mod int (length (filter ok services))))),
     m\<lparr>sm_balancer := Some (RoundRobinBalancer (i + 1))\<rparr>, s)"
  using assms
  by (simp add: select_with_health_check_def get_cached_service_def select_known_def
      filter_healthy_pure[where ok = ok] round_robin_select_def Let_def)

text \<open>
  A manager that knows the instances of a service and balances them in turn hands out the
  instances that pass its health check, and only those, one after the other and from the beginning
  again, as long as the counter does not overflow.
\<close>

theorem manager_hands_out_in_turn:
  assumes "go_get (sm_services m) name = Some services"
    and "sm_checker m = Some check" and "\<And>x s. check x s = (Ok (ok x), s)"
    and "sm_balancer m = Some (RoundRobinBalancer i)" and "0 \<le> sint i" and "sint i + int n < 2 ^ 63"
    and "filter ok services \<noteq> []"
  shows "fst (select_times n pick other nums m name s) =
    map (\<lambda>j. Ok (Some (filter ok services ! nat ((sint i + int j) mod int (length (filter ok services)))))) [0..<n]"
  using assms(1,2,4,5,6)
proof (induction n arbitrary: m i)
  case (Suc n)
  let ?m = "m\<lparr>sm_balancer := Some (RoundRobinBalancer (i + 1))\<rparr>"
  have next_count: "sint (i + 1) = sint i + 1"
    using Suc.prems(4,5) by (simp add: sint_word_add signed_take_bit_int_eq_self)
  have sel: "select_with_health_check pick other nums m name s =
      (Ok (Some (filter ok services ! nat (sint i mod int (length (filter ok services))))), ?m, s)"
    by (rule select_round_robin[OF Suc.prems(1,2) assms(3) Suc.prems(3,4) assms(7)])
  have "fst (select_times n pick other nums ?m name s) =
      map (\<lambda>j. Ok (Some (filter ok services ! nat ((sint (i + 1) + int j) mod int (length (filter ok services)))))) [0..<n]"
    using Suc.prems next_count by (intro Suc.IH) simp_all
  moreover have "sint i + int (Suc j) = sint (i + 1) + int j" for j using next_count by simp
  ultimately show ?case
    by (simp add: sel map_upt_Suc del: upt_Suc of_nat_Suc)
qed simp

definition demo_service :: "nat \<Rightarrow> service_info" where
  "demo_service n = \<lparr>si_name = ''db'', si_address = ''10.0.0.1'', si_port = int n, si_metadata = [], si_timestamp = 0,
     si_status = status_healthy\<rparr>"

definition demo_manager :: "(unit, unit) service_manager" where
  "demo_manager =
     (new_service_manager
        \<lparr>sv_register = (\<lambda>si s. (Ok (), s)), sv_unregister = (\<lambda>si s. (Ok (), s)), sv_get = (\<lambda>n s. ([], None, s)),
         sv_close_registry = None, sv_close_discovery = None, sv_options = default_gsd_options\<rparr>
        (Some (\<lambda>si s. (Ok (si_port si \<noteq> 2), s))) (Some (RoundRobinBalancer 0)) default_gsd_options)
     \<lparr>sm_services := [(''db'', [demo_service 1, demo_service 2, demo_service 3])]\<rparr>"

lemma manager_hands_out_in_turn_witness:
  "fst (select_times 3 id (\<lambda>b xs. (None, b)) demo_numbers demo_manager ''db'' ()) =
     map (\<lambda>j. Ok (Some (filter (\<lambda>si. si_port si \<noteq> 2) [demo_service 1, demo_service 2, demo_service 3] !
       nat ((sint (0 :: 64 word) + int j) mod
         int (length (filter (\<lambda>si. si_port si \<noteq> 2) [demo_service 1, demo_service 2, demo_service 3])))))) [0..<3]"
  by (rule manager_hands_out_in_turn[where i = 0])
    (simp_all add: demo_manager_def new_service_manager_def demo_service_def go_get_def)

text \<open>
  Without a balancer a client makes a new one for every selection: it always selects the first
  instance, although the comment says one at random.
\<close>

lemma client_selects_first:
  assumes "client_get_service nums c name s = (x # xs, Ok (), s')"
  shows "client_select_service pick other nums c name None s = (Ok (Some x), None, s')"
  using assms by (simp add: client_select_service_def new_rr_balancer_def round_robin_select_def)

text \<open>
  A manager asks for the instances of a service only as long as it does not know any list: what was
  registered or removed since is not seen by its selections.
\<close>

lemma known_services_are_kept:
  assumes "go_get (sm_services m) name = Some services"
  shows "select_with_health_check pick other nums m name s = select_known pick other m name services s"
    and "sm_services (fst (snd (select_known pick other m name services s))) = sm_services m"
  using assms
  by (simp_all add: select_with_health_check_def get_cached_service_def select_known_def Let_def
      split: outcome.split prod.split option.split)

section \<open>The registry\<close>

text \<open>A call that succeeds in the end has succeeded in some state, and was not tried after.\<close>

lemma retry_succeeded:
  "gsd_retry_from nums options f attempt e s = (Ok u, s', ds) \<Longrightarrow> \<exists>t. f t = (Ok (), s')"
proof (induction "nat (go_max_retries options - attempt)" arbitrary: attempt e s ds)
  case (0 attempt)
  then show ?case
    by (cases "attempt = go_max_retries options")
      (auto simp: retry_step tried_again_def gsd_retry_from.simps split: outcome.splits prod.splits if_splits)
next
  case (Suc n)
  then have le: "attempt \<le> go_max_retries options" and n: "n = nat (go_max_retries options - (attempt + 1))" by linarith+
  show ?case
  proof (cases "\<exists>e' t d. f s = (Err e', t) \<and> tried_again options attempt e' \<and> gsd_delay nums attempt options = Ok d")
    case True
    then obtain e' t d where again: "f s = (Err e', t)" "tried_again options attempt e'" "gsd_delay nums attempt options = Ok d"
      by blast
    obtain r s1 ds1 where next_try: "gsd_retry_from nums options f (attempt + 1) (Some e') t = (r, s1, ds1)"
      by (metis prod_cases3)
    then have "r = Ok u" "s1 = s'" using Suc.prems le again by (simp_all add: retry_step)
    with Suc(1)[OF n] next_try show ?thesis by blast
  next
    case False
    then show ?thesis
      using Suc.prems le by (auto simp: retry_step split: outcome.splits prod.splits if_splits)
  qed
qed

lemma put_granted:
  "grant_and_put et cfg key v t = (Ok lease, s') \<Longrightarrow> \<exists>l t. et_put et key v l t = (None, s')"
  by (auto simp: grant_and_put_def split: prod.splits sum.splits option.splits)

lemma has_prefix_append [simp]: "has_prefix (p @ s) p"
  by (simp add: has_prefix_def)

lemma key_has_prefix: "has_prefix (format_key prefix si) (prefix @ ''/'' @ si_name si @ ''/'')"
  unfolding format_key_def using has_prefix_append[of "prefix @ ''/'' @ si_name si @ ''/''"] by simp

text \<open>
  A service that has been registered is discovered under its name, with the time of its
  registration and the status healthy unless it came with another.  What is relied on is that etcd
  lists under a prefix what was put last under a key with that prefix, and that the JSON form of the
  service is read back.
\<close>

theorem registered_service_is_discovered:
  assumes "etcd_register nums et cfg si s = (Ok (), s')"
    and "et_marshal et (stamp_service (et_now et s) si) = Some v"
    and "et_unmarshal et v = Some (stamp_service (et_now et s) si)"
    and "\<And>key lease t t' prefix. et_put et key v lease t = (None, t') \<Longrightarrow> has_prefix key prefix \<Longrightarrow>
      \<exists>vs t''. et_get_prefix et prefix t' = (Inr vs, t'') \<and> v \<in> set vs"
    and "0 \<le> go_max_retries (rg_options cfg)"
  shows "\<exists>services t. etcd_discover nums et cfg (si_name si) s' = (Ok services, t) \<and>
    stamp_service (et_now et s) si \<in> set services"
proof -
  define stamped where "stamped = stamp_service (et_now et s) si"
  define key where "key = format_key (rg_prefix cfg) stamped"
  define call where "call = (\<lambda>s. map_prod (mapO (\<lambda>_. ())) id (grant_and_put et cfg key v s))"
  have "fst (gsd_retry nums (rg_options cfg) call s) = Ok ()" "fst (snd (gsd_retry nums (rg_options cfg) call s)) = s'"
    using assms(1,2)
    by (auto simp: etcd_register_def stamped_def[symmetric] key_def[symmetric] call_def[symmetric] Let_def
        split: prod.splits outcome.splits)
  then have "\<exists>t. call t = (Ok (), s')"
    unfolding gsd_retry_def by (metis retry_succeeded prod.collapse)
  then obtain t where "call t = (Ok (), s')" by blast
  then obtain lease0 where "grant_and_put et cfg key v t = (Ok lease0, s')"
    by (cases "grant_and_put et cfg key v t") (auto simp: call_def mapO_eq_Ok_iff)
  from put_granted[OF this] obtain lease t1 where "et_put et key v lease t1 = (None, s')" by blast
  moreover have "has_prefix key (rg_prefix cfg @ ''/'' @ si_name si @ ''/'')"
    using key_has_prefix[of "rg_prefix cfg" stamped] by (simp add: key_def stamped_def stamp_service_def)
  ultimately obtain vs t'' where get: "et_get_prefix et (rg_prefix cfg @ ''/'' @ si_name si @ ''/'') s' = (Inr vs, t'')"
      and v: "v \<in> set vs" using assms(4) by blast
  define services where "services = List.map_filter (et_unmarshal et) vs"
  have "etcd_discover nums et cfg (si_name si) s' = (Ok services, t'')"
    using get assms(5) by (simp add: etcd_discover_def gsd_retry_def retry_step services_def Let_def)
  moreover have "stamped \<in> set services"
    using v assms(3) by (force simp: services_def stamped_def List.map_filter_def)
  ultimately show ?thesis by (auto simp: stamped_def)
qed

text \<open>An etcd that keeps a map of keys, for one service.\<close>

definition demo_etcd :: "service_info \<Rightarrow> (string, string) gomap etcd" where
  "demo_etcd si = \<lparr>et_grant = (\<lambda>ttl s. (Inr 1, s)), et_put = (\<lambda>k v l s. (None, go_put k v s)),
     et_delete = (\<lambda>k s. (None, go_del k s)), et_keep_alive = (\<lambda>l s. (None, s)),
     et_get_prefix = (\<lambda>p s. (Inr (map snd (filter (\<lambda>(k, v). has_prefix k p) s)), s)), et_now = (\<lambda>s. 5),
     et_marshal = (\<lambda>si. Some ''x''), et_unmarshal = (\<lambda>v. if v = ''x'' then Some si else None)\<rparr>"

definition demo_registry :: registry_config where
  "demo_registry = \<lparr>rg_lease_ttl = 10, rg_options = default_gsd_options, rg_prefix = ''/services''\<rparr>"

abbreviation stamped_demo :: service_info where
  "stamped_demo \<equiv> stamp_service 5 (demo_service 1)"

lemma registered_service_is_discovered_witness:
  "\<exists>services t. etcd_discover demo_numbers (demo_etcd stamped_demo) demo_registry (si_name (demo_service 1))
      [(format_key ''/services'' stamped_demo, ''x'')] = (Ok services, t) \<and>
    stamp_service (et_now (demo_etcd stamped_demo) []) (demo_service 1) \<in> set services"
proof (rule registered_service_is_discovered)
  show "etcd_register demo_numbers (demo_etcd stamped_demo) demo_registry (demo_service 1) [] =
      (Ok (), [(format_key ''/services'' stamped_demo, ''x'')])"
    by (simp add: etcd_register_def demo_etcd_def demo_registry_def gsd_retry_def retry_step default_gsd_options_def
        grant_and_put_def go_put_def Let_def)
  fix key lease t t' prefix
  assume "et_put (demo_etcd stamped_demo) key ''x'' lease t = (None, t')" "has_prefix key prefix"
  moreover from this have "go_get t' key = Some ''x''" by (auto simp: demo_etcd_def)
  ultimately show "\<exists>vs t''. et_get_prefix (demo_etcd stamped_demo) prefix t' = (Inr vs, t'') \<and> ''x'' \<in> set vs"
    by (auto simp: demo_etcd_def image_iff dest!: go_get_in_set)
qed (simp_all add: demo_etcd_def demo_registry_def default_gsd_options_def)

text \<open>The name of a service is not escaped: one with a slash is listed under the part before it.\<close>

lemma names_run_together:
  assumes "si_name si = name @ ''/'' @ tail"
  shows "has_prefix (format_key prefix si) (prefix @ ''/'' @ name @ ''/'')"
  unfolding format_key_def assms
  using has_prefix_append[of "prefix @ ''/'' @ name @ ''/''" "tail @ ''/'' @ si_address si @ '':'' @ decimal (si_port si)"]
  by simp

text \<open>
  Removing a service does not end the goroutine that keeps it alive: when its lease is lost the
  service is put again, with the lease that is granted then.
\<close>

lemma removed_service_returns:
  assumes "et_unmarshal et v \<noteq> None" "et_grant et (rg_lease_ttl cfg) s = (Inr lease, s1)"
    and "et_put et key v lease s1 = (None, s2)" "snd (et_keep_alive et lease s2) = s2"
  shows "keep_alive_loop et cfg key v [LeaseKept, LeaseLost] s = s2"
  using assms by (auto simp: establish_lease_def grant_and_put_def split: option.splits prod.split)

lemma removed_service_returns_example:
  defines "et \<equiv> demo_etcd stamped_demo" and "key \<equiv> format_key ''/services'' stamped_demo"
  shows "let s = snd (etcd_unregister demo_numbers et demo_registry stamped_demo [(key, ''x'')])
    in s = [] \<and> keep_alive_loop et demo_registry key ''x'' [LeaseLost] s = [(key, ''x'')]"
  by (simp add: et_def key_def etcd_unregister_def gsd_retry_def retry_step default_gsd_options_def demo_registry_def
      demo_etcd_def go_del_def establish_lease_def grant_and_put_def go_put_def Let_def)

text \<open>Watching calls the handler at least once if the first discovery succeeds.\<close>

lemma watch_notifies_first:
  assumes "etcd_discover nums et cfg name s = (Ok services, t)"
  shows "\<exists>more. fst (etcd_watch nums et cfg name channels s) = services # more"
  using assms by (auto simp: etcd_watch_def notify_def)

end
