(* ===== verification/Wsdl.thy ===== *)
theory Wsdl
  imports HttpText Strconv
begin

text \<open>
  The model of a WSDL file (\<open>gws/internal/model\<close>) and its parser (\<open>gws/internal/wsdl\<close>: parser.go,
  loader.go, assets.go).  A file is given by the tokens \<open>encoding/xml\<close> reads from it and the error
  after them; files, the working directory and \<open>url.Parse\<close> are a parameter, the environment.
  Imports may be cyclic: a path that has been loaded is not loaded again.
\<close>

section \<open>The model\<close>

record qname =
  qn_space :: string
  qn_local :: string

abbreviation no_qname :: qname where
  "no_qname \<equiv> \<lparr>qn_space = '''', qn_local = ''''\<rparr>"

definition MaxOccursUnbounded :: int where
  "MaxOccursUnbounded = -1"

record xsd_element =
  el_name :: string
  el_type :: qname

record xsd_field =
  fd_name :: string
  fd_type :: qname
  fd_min_occurs :: int
  fd_max_occurs :: int
  fd_nillable :: bool

record complex_type =
  ct_name :: string
  ct_fields :: "xsd_field list"

text \<open>The parser sets only the first two; the facets and the list flag keep their zero values.\<close>

record simple_type =
  sy_name :: string
  sy_base :: qname
  sy_enums :: "string list"
  sy_pattern :: string
  sy_min_length :: "int option"
  sy_max_length :: "int option"
  sy_min_value :: "int option"
  sy_max_value :: "int option"
  sy_is_list :: bool

record schema =
  sc_target :: string
  sc_elements :: "xsd_element list"
  sc_complex :: "complex_type list"
  sc_simple :: "simple_type list"

record message_part =
  mp_name :: string
  mp_element :: qname
  mp_type :: qname

record wsdl_message =
  ms_name :: string
  ms_parts :: "message_part list"

record binding_operation =
  bo_name :: string
  bo_action :: string
  bo_style :: string
  bo_input :: qname
  bo_output :: qname
  bo_input_use :: string
  bo_output_use :: string
  bo_input_namespace :: string

record wsdl_binding =
  bi_name :: string
  bi_type :: qname
  bi_transport :: string
  bi_style :: string
  bi_operations :: "binding_operation list"

record wsdl_port =
  po_name :: string
  po_binding :: qname
  po_address :: string

record wsdl_service =
  sv_name :: string
  sv_ports :: "wsdl_port list"

record wsdl_model =
  wm_target :: string
  wm_schemas :: "schema list"
  wm_messages :: "wsdl_message list"
  wm_bindings :: "wsdl_binding list"
  wm_services :: "wsdl_service list"

definition model_service :: "wsdl_model \<Rightarrow> string \<Rightarrow> wsdl_service option" where
  "model_service m name = find (\<lambda>s. sv_name s = name) (wm_services m)"

definition model_binding :: "wsdl_model \<Rightarrow> string \<Rightarrow> wsdl_binding option" where
  "model_binding m name = find (\<lambda>b. bi_name b = name) (wm_bindings m)"

definition binding_operation_named :: "wsdl_binding \<Rightarrow> string \<Rightarrow> binding_operation option" where
  "binding_operation_named b name = find (\<lambda>p. bo_name p = name) (bi_operations b)"

section \<open>Errors and the environment\<close>

datatype wsdl_error =
    ReadFile string
  | XmlSyntax
  | EmptyDocument
  | ParseXml wsdl_error
  | InvalidRoot string
  | UnsupportedNamespace string
  | UnsupportedBindingStyle string
  | UnsupportedXSDChoice
  | UndefinedPrefix string string
  | InvalidOccurs string parse_error
  | InvalidMaxOccurs string parse_error
  | EmptySchemaLocation
  | NonLocalSchemaLocation string
  | ResolvePath string
  | ReadSchema string
  | ImportedXml string wsdl_error
  | NotASchema string
  | LoadSchema string wsdl_error
  | LoadAsset string wsdl_error
  | AssetsXml wsdl_error
  | FuelUsedUp

record xml_name =
  xn_space :: string
  xn_local :: string

record xml_attr =
  xa_name :: xml_name
  xa_value :: string

text \<open>
  The tokens of \<open>xml.Decoder.Token\<close>; the parser looks at the two that open and close an element.
  The flag of a document tells that the decoder fails after the tokens.
\<close>

datatype xml_token = StartElement xml_name "xml_attr list" | EndElement | OtherToken

type_synonym xml_document = "xml_token list \<times> bool"

record wsdl_env =
  we_files :: "(string, xml_document) gomap"
  we_cwd :: "string option"
  we_url :: "string \<Rightarrow> (string \<times> string) option"

section \<open>The tree of a document\<close>

datatype xml_node =
  Node (nd_name: xml_name) (nd_attrs: "xml_attr list") (nd_ns: "(string, string) gomap") (nd_children: "xml_node list")

definition apply_namespace_decl :: "(string, string) gomap \<Rightarrow> xml_attr list \<Rightarrow> (string, string) gomap" where
  "apply_namespace_decl =
     foldl (\<lambda>target a.
       if xn_space (xa_name a) = ''xmlns'' then go_put (xn_local (xa_name a)) (xa_value a) target
       else if xn_space (xa_name a) = '''' \<and> xn_local (xa_name a) = ''xmlns'' then go_put '''' (xa_value a) target
       else target)"

definition append_child :: "xml_node \<Rightarrow> xml_node \<Rightarrow> xml_node" where
  "append_child parent node = Node (nd_name parent) (nd_attrs parent) (nd_ns parent) (nd_children parent @ [node])"

text \<open>
  The stack of open elements, the innermost first.  The code appends an element to its parent when
  it is opened and fills it later, through the pointer; here it is appended when it is closed, or at
  the end of the document.
\<close>

fun close_element :: "xml_node option \<times> xml_node list \<Rightarrow> xml_node option \<times> xml_node list" where
  "close_element (root, []) = (root, [])"
| "close_element (root, [node]) = (Some node, [])"
| "close_element (root, node # parent # stack) = (root, append_child parent node # stack)"

fun token_step :: "xml_node option \<times> xml_node list \<Rightarrow> xml_token \<Rightarrow> xml_node option \<times> xml_node list" where
  "token_step (root, stack) (StartElement name attrs) =
     (let ns = (case stack of [] \<Rightarrow> [] | parent # _ \<Rightarrow> nd_ns parent)
      in (root, Node name attrs (apply_namespace_decl ns attrs) [] # stack))"
| "token_step s EndElement = close_element s"
| "token_step s OtherToken = s"

definition parse_xml_node :: "xml_document \<Rightarrow> (wsdl_error, xml_node) outcome" where
  "parse_xml_node doc =
     (if snd doc then Err XmlSyntax
      else (let s = foldl token_step (None, []) (fst doc)
            in case fst ((close_element ^^ length (snd s)) s) of None \<Rightarrow> Err EmptyDocument | Some root \<Rightarrow> Ok root))"

section \<open>Reading a node\<close>

definition wsdl_namespace :: string where
  "wsdl_namespace = ''http://schemas.xmlsoap.org/wsdl/''"

definition xsd_namespace :: string where
  "xsd_namespace = ''http://www.w3.org/2001/XMLSchema''"

definition soap_namespace :: string where
  "soap_namespace = ''http://schemas.xmlsoap.org/wsdl/soap/''"

definition has_name :: "string \<Rightarrow> string \<Rightarrow> xml_node \<Rightarrow> bool" where
  "has_name namespace local node \<longleftrightarrow>
     xn_local (nd_name node) = local \<and> (namespace = '''' \<or> xn_space (nd_name node) = namespace)"

definition first_child :: "xml_node \<Rightarrow> string \<Rightarrow> string \<Rightarrow> xml_node option" where
  "first_child node namespace local = find (has_name namespace local) (nd_children node)"

definition attr :: "xml_node \<Rightarrow> string \<Rightarrow> string" where
  "attr node key =
     (case find (\<lambda>a. xn_space (xa_name a) = '''' \<and> xn_local (xa_name a) = key) (nd_attrs node) of
        Some a \<Rightarrow> trim_space (xa_value a) | None \<Rightarrow> '''')"

definition parse_qname :: "string \<Rightarrow> (string, string) gomap \<Rightarrow> string \<Rightarrow> (wsdl_error, qname) outcome" where
  "parse_qname value ns fallback =
     (let value = trim_space value; parts = (takeWhile (\<lambda>c. c \<noteq> CHR '':'') value, dropWhile (\<lambda>c. c \<noteq> CHR '':'') value)
      in if value = '''' then Ok no_qname
         else if snd parts \<noteq> [] then
           (let prefix = trim_space (fst parts); local = trim_space (tl (snd parts))
            in case go_get ns prefix of
                 None \<Rightarrow> Err (UndefinedPrefix prefix value)
               | Some namespace \<Rightarrow> Ok \<lparr>qn_space = namespace, qn_local = local\<rparr>)
         else
           (case go_get ns '''' of
              Some namespace \<Rightarrow>
                if namespace \<noteq> '''' then Ok \<lparr>qn_space = namespace, qn_local = value\<rparr>
                else Ok \<lparr>qn_space = fallback, qn_local = value\<rparr>
            | None \<Rightarrow> Ok \<lparr>qn_space = fallback, qn_local = value\<rparr>))"

definition parse_occurs :: "string \<Rightarrow> int \<Rightarrow> (wsdl_error, int) outcome" where
  "parse_occurs value default_value =
     (let v = trim_space value
      in if v = '''' then Ok default_value
         else (case atoi v of Ok n \<Rightarrow> Ok n | Err e \<Rightarrow> Err (InvalidOccurs value e) | Panic \<Rightarrow> Panic))"

definition parse_max_occurs :: "string \<Rightarrow> (wsdl_error, int) outcome" where
  "parse_max_occurs value =
     (let v = trim_space value
      in if v = '''' then Ok 1
         else if v = ''unbounded'' then Ok MaxOccursUnbounded
         else (case atoi v of Ok n \<Rightarrow> Ok n | Err e \<Rightarrow> Err (InvalidMaxOccurs value e) | Panic \<Rightarrow> Panic))"

definition parse_bool :: "string \<Rightarrow> bool" where
  "parse_bool value = (let v = trim_space (map lower_char value) in v = ''true'' \<or> v = ''1'')"

text \<open>A loop over nodes that stops at the first error.\<close>

fun collect :: "('a \<Rightarrow> ('e, 'b) outcome) \<Rightarrow> 'a list \<Rightarrow> ('e, 'b list) outcome" where
  "collect f [] = Ok []"
| "collect f (x # xs) = bindO (f x) (\<lambda>y. mapO ((#) y) (collect f xs))"

section \<open>Schemas\<close>

definition parse_element :: "xml_node \<Rightarrow> (wsdl_error, xsd_element) outcome" where
  "parse_element node =
     mapO (\<lambda>t. \<lparr>el_name = attr node ''name'', el_type = t\<rparr>) (parse_qname (attr node ''type'') (nd_ns node) '''')"

definition parse_field :: "xml_node \<Rightarrow> (wsdl_error, xsd_field) outcome" where
  "parse_field node =
     bindO (parse_qname (attr node ''type'') (nd_ns node) '''') (\<lambda>t.
     bindO (parse_occurs (attr node ''minOccurs'') 1) (\<lambda>least.
     bindO (parse_max_occurs (attr node ''maxOccurs'')) (\<lambda>most.
       Ok \<lparr>fd_name = attr node ''name'', fd_type = t, fd_min_occurs = least, fd_max_occurs = most,
           fd_nillable = parse_bool (attr node ''nillable'')\<rparr>)))"

definition parse_sequence_fields :: "xml_node \<Rightarrow> (wsdl_error, xsd_field list) outcome" where
  "parse_sequence_fields node =
     mapO concat (collect (\<lambda>child.
       if has_name xsd_namespace ''choice'' child then Err UnsupportedXSDChoice
       else if has_name xsd_namespace ''element'' child then mapO (\<lambda>f. [f]) (parse_field child)
       else Ok []) (nd_children node))"

definition parse_complex_type :: "xml_node \<Rightarrow> (wsdl_error, complex_type) outcome" where
  "parse_complex_type node =
     mapO (\<lambda>fs. \<lparr>ct_name = attr node ''name'', ct_fields = concat fs\<rparr>) (collect (\<lambda>child.
       if has_name xsd_namespace ''choice'' child then Err UnsupportedXSDChoice
       else if has_name xsd_namespace ''sequence'' child then parse_sequence_fields child
       else Ok []) (nd_children node))"

definition named_simple_type :: "string \<Rightarrow> qname \<Rightarrow> simple_type" where
  "named_simple_type name base =
     \<lparr>sy_name = name, sy_base = base, sy_enums = [], sy_pattern = '''', sy_min_length = None,
      sy_max_length = None, sy_min_value = None, sy_max_value = None, sy_is_list = False\<rparr>"

definition parse_simple_type :: "xml_node \<Rightarrow> (wsdl_error, simple_type) outcome" where
  "parse_simple_type node =
     (case first_child node xsd_namespace ''restriction'' of
        None \<Rightarrow> Ok (named_simple_type (attr node ''name'') no_qname)
      | Some restriction \<Rightarrow>
          mapO (named_simple_type (attr node ''name''))
            (parse_qname (attr restriction ''base'') (nd_ns restriction) ''''))"

section \<open>Loading files\<close>

definition is_abs :: "string \<Rightarrow> bool" where
  "is_abs path \<longleftrightarrow> has_prefix path ''/''"

definition file_dir :: "string \<Rightarrow> string" where
  "file_dir path = path_clean (rev (dropWhile (\<lambda>c. c \<noteq> slash) (rev path)))"

definition file_abs :: "wsdl_env \<Rightarrow> string \<Rightarrow> string option" where
  "file_abs env path = (if is_abs path then Some (path_clean path) else map_option (\<lambda>wd. path_join wd path) (we_cwd env))"

definition is_remote_location :: "wsdl_env \<Rightarrow> string \<Rightarrow> bool" where
  "is_remote_location env location =
     (case we_url env location of None \<Rightarrow> False | Some (scheme, host) \<Rightarrow> scheme \<noteq> '''' \<or> host \<noteq> '''')"

text \<open>The visited paths are the state of the loader; the flag of the result tells whether the file has been read now.\<close>

type_synonym visited = "string list"

definition new_local_loader :: visited where
  "new_local_loader = []"

definition load :: "wsdl_env \<Rightarrow> string \<Rightarrow> string \<Rightarrow> visited \<Rightarrow>
    (wsdl_error, xml_document option \<times> string) outcome \<times> visited" where
  "load env base_dir location seen =
     (let loc = trim_space location
      in if loc = '''' then (Err EmptySchemaLocation, seen)
         else if is_remote_location env loc then (Err (NonLocalSchemaLocation location), seen)
         else
           (let path = path_clean (if is_abs loc then loc else path_join base_dir loc)
            in case file_abs env path of
                 None \<Rightarrow> (Err (ResolvePath location), seen)
               | Some abs_path \<Rightarrow>
                   if abs_path \<in> set seen then (Ok (None, file_dir abs_path), seen)
                   else
                     (case go_get (we_files env) abs_path of
                        None \<Rightarrow> (Err (ReadSchema abs_path), seen)
                      | Some data \<Rightarrow> (Ok (Some data, file_dir abs_path), abs_path # seen))))"

section \<open>Schemas and their imports\<close>

definition empty_schema :: "string \<Rightarrow> schema" where
  "empty_schema target = \<lparr>sc_target = target, sc_elements = [], sc_complex = [], sc_simple = []\<rparr>"

text \<open>
  The loop over the children of a schema; \<open>imports\<close> is the loading of an imported schema, with the
  visited paths as its state.
\<close>

type_synonym schema_loader = "string \<Rightarrow> visited \<Rightarrow> (wsdl_error, schema list) outcome \<times> visited"

fun schema_children :: "schema_loader \<Rightarrow> xml_node list \<Rightarrow> schema \<Rightarrow> schema list \<Rightarrow> visited \<Rightarrow>
    (wsdl_error, schema list) outcome \<times> visited" where
  "schema_children imports [] sc imported seen = (Ok (sc # imported), seen)"
| "schema_children imports (child # children) sc imported seen =
     (if has_name xsd_namespace ''element'' child then
        (case parse_element child of
           Ok e \<Rightarrow> schema_children imports children (sc\<lparr>sc_elements := sc_elements sc @ [e]\<rparr>) imported seen
         | Err e \<Rightarrow> (Err e, seen) | Panic \<Rightarrow> (Panic, seen))
      else if has_name xsd_namespace ''complexType'' child then
        (case parse_complex_type child of
           Ok t \<Rightarrow> schema_children imports children (sc\<lparr>sc_complex := sc_complex sc @ [t]\<rparr>) imported seen
         | Err e \<Rightarrow> (Err e, seen) | Panic \<Rightarrow> (Panic, seen))
      else if has_name xsd_namespace ''simpleType'' child then
        (case parse_simple_type child of
           Ok t \<Rightarrow> schema_children imports children (sc\<lparr>sc_simple := sc_simple sc @ [t]\<rparr>) imported seen
         | Err e \<Rightarrow> (Err e, seen) | Panic \<Rightarrow> (Panic, seen))
      else if has_name xsd_namespace ''include'' child \<or> has_name xsd_namespace ''import'' child then
        (let location = attr child ''schemaLocation''
         in if trim_space location = '''' then schema_children imports children sc imported seen
            else (case imports location seen of
                    (Ok scs, seen) \<Rightarrow> schema_children imports children sc (imported @ scs) seen
                  | (Err e, seen) \<Rightarrow> (Err e, seen) | (Panic, seen) \<Rightarrow> (Panic, seen)))
      else schema_children imports children sc imported seen)"

definition parse_schema_node :: "(string \<Rightarrow> schema_loader) \<Rightarrow> string \<Rightarrow> xml_node \<Rightarrow> visited \<Rightarrow>
    (wsdl_error, schema list) outcome \<times> visited" where
  "parse_schema_node imports base_dir node seen =
     schema_children (imports base_dir) (nd_children node) (empty_schema (attr node ''targetNamespace'')) [] seen"

text \<open>The fuel bounds the depth of the imports; the number of files is always enough.\<close>

fun parse_imported_schema :: "nat \<Rightarrow> wsdl_env \<Rightarrow> string \<Rightarrow> schema_loader" where
  "parse_imported_schema 0 env base_dir location seen = (Err FuelUsedUp, seen)"
| "parse_imported_schema (Suc fuel) env base_dir location seen =
     (case load env base_dir location seen of
        (Err e, seen) \<Rightarrow> (Err (LoadSchema location e), seen)
      | (Panic, seen) \<Rightarrow> (Panic, seen)
      | (Ok (None, next_base), seen) \<Rightarrow> (Ok [], seen)
      | (Ok (Some data, next_base), seen) \<Rightarrow>
          (case parse_xml_node data of
             Err e \<Rightarrow> (Err (ImportedXml location e), seen)
           | Panic \<Rightarrow> (Panic, seen)
           | Ok root \<Rightarrow>
               if \<not> has_name xsd_namespace ''schema'' root then (Err (NotASchema location), seen)
               else parse_schema_node (parse_imported_schema fuel env) next_base root seen))"

definition import_fuel :: "wsdl_env \<Rightarrow> nat" where
  "import_fuel env = Suc (length (we_files env))"

definition schema_nodes :: "xml_node \<Rightarrow> xml_node list" where
  "schema_nodes root =
     concat (map (\<lambda>types. filter (has_name xsd_namespace ''schema'') (nd_children types))
       (filter (has_name wsdl_namespace ''types'') (nd_children root)))"

fun parse_schemas :: "wsdl_env \<Rightarrow> string \<Rightarrow> xml_node list \<Rightarrow> visited \<Rightarrow> (wsdl_error, schema list) outcome \<times> visited" where
  "parse_schemas env base_dir [] seen = (Ok [], seen)"
| "parse_schemas env base_dir (node # nodes) seen =
     (case parse_schema_node (parse_imported_schema (import_fuel env) env) base_dir node seen of
        (Ok scs, seen) \<Rightarrow> map_prod (mapO ((@) scs)) id (parse_schemas env base_dir nodes seen)
      | (Err e, seen) \<Rightarrow> (Err e, seen) | (Panic, seen) \<Rightarrow> (Panic, seen))"

definition parse_types :: "wsdl_env \<Rightarrow> string \<Rightarrow> xml_node \<Rightarrow> (wsdl_error, schema list) outcome" where
  "parse_types env base_dir root = fst (parse_schemas env base_dir (schema_nodes root) new_local_loader)"

definition merge_step :: "(string, nat) gomap \<times> schema list \<Rightarrow> schema \<Rightarrow> (string, nat) gomap \<times> schema list" where
  "merge_step s sc =
     (let (places, merged) = s
      in case go_get places (sc_target sc) of
           None \<Rightarrow> (go_put (sc_target sc) (length merged) places, merged @ [sc])
         | Some i \<Rightarrow>
             (places, merged[i := (merged ! i)\<lparr>sc_elements := sc_elements (merged ! i) @ sc_elements sc,
                sc_complex := sc_complex (merged ! i) @ sc_complex sc, sc_simple := sc_simple (merged ! i) @ sc_simple sc\<rparr>]))"

definition merge_schemas :: "schema list \<Rightarrow> schema list" where
  "merge_schemas scs = snd (foldl merge_step ([], []) scs)"

section \<open>Messages, port types, bindings and services\<close>

definition children_named :: "string \<Rightarrow> string \<Rightarrow> xml_node \<Rightarrow> xml_node list" where
  "children_named namespace local node = filter (has_name namespace local) (nd_children node)"

definition parse_part :: "string \<Rightarrow> xml_node \<Rightarrow> (wsdl_error, message_part) outcome" where
  "parse_part target node =
     bindO (parse_qname (attr node ''element'') (nd_ns node) target) (\<lambda>e.
     bindO (parse_qname (attr node ''type'') (nd_ns node) target) (\<lambda>t.
       Ok \<lparr>mp_name = attr node ''name'', mp_element = e, mp_type = t\<rparr>))"

definition parse_messages :: "xml_node \<Rightarrow> string \<Rightarrow> (wsdl_error, wsdl_message list) outcome" where
  "parse_messages root target =
     collect (\<lambda>node. mapO (\<lambda>parts. \<lparr>ms_name = attr node ''name'', ms_parts = parts\<rparr>)
         (collect (parse_part target) (children_named wsdl_namespace ''part'' node)))
       (children_named wsdl_namespace ''message'' root)"

record port_type_operation =
  pt_input :: qname
  pt_output :: qname

type_synonym port_operations = "(string, port_type_operation) gomap"

definition qname_key :: "qname \<Rightarrow> string" where
  "qname_key q = qn_space q @ ''|'' @ qn_local q"

definition message_of :: "xml_node option \<Rightarrow> string \<Rightarrow> (wsdl_error, qname) outcome" where
  "message_of node target =
     (case node of None \<Rightarrow> Ok no_qname | Some n \<Rightarrow> parse_qname (attr n ''message'') (nd_ns n) target)"

definition parse_port_type_operation :: "string \<Rightarrow> xml_node \<Rightarrow> (wsdl_error, string \<times> port_type_operation) outcome" where
  "parse_port_type_operation target node =
     bindO (message_of (first_child node wsdl_namespace ''input'') target) (\<lambda>inp.
     bindO (message_of (first_child node wsdl_namespace ''output'') target) (\<lambda>out.
       Ok (attr node ''name'', \<lparr>pt_input = inp, pt_output = out\<rparr>)))"

fun port_types_loop :: "string \<Rightarrow> xml_node list \<Rightarrow> (string, port_operations) gomap \<Rightarrow>
    (wsdl_error, (string, port_operations) gomap) outcome" where
  "port_types_loop target [] result = Ok result"
| "port_types_loop target (node # nodes) result =
     (let key = qname_key \<lparr>qn_space = target, qn_local = attr node ''name''\<rparr>;
          known = (case go_get result key of None \<Rightarrow> [] | Some ops \<Rightarrow> ops)
      in bindO (collect (parse_port_type_operation target) (children_named wsdl_namespace ''operation'' node)) (\<lambda>ops.
           port_types_loop target nodes (go_put key (foldl (\<lambda>m (name, p). go_put name p m) known ops) result)))"

definition parse_port_type_operations :: "xml_node \<Rightarrow> string \<Rightarrow> (wsdl_error, (string, port_operations) gomap) outcome" where
  "parse_port_type_operations root target =
     port_types_loop target (children_named wsdl_namespace ''portType'' root) []"

definition find_port_type_operations :: "(string, port_operations) gomap \<Rightarrow> qname \<Rightarrow> port_operations" where
  "find_port_type_operations all q =
     (case go_get all (qname_key q) of
        Some ops \<Rightarrow> ops
      | None \<Rightarrow>
          (case find (\<lambda>(key, ops). has_prefix (rev key) (rev (''|'' @ qn_local q))) all of
             Some (key, ops) \<Rightarrow> ops
           | None \<Rightarrow> []))"

definition soap_body :: "xml_node \<Rightarrow> string \<Rightarrow> xml_node option" where
  "soap_body node direction =
     (case first_child node wsdl_namespace direction of
        None \<Rightarrow> None | Some n \<Rightarrow> first_child n soap_namespace ''body'')"

definition attr_of :: "xml_node option \<Rightarrow> string \<Rightarrow> string" where
  "attr_of node key = (case node of None \<Rightarrow> '''' | Some n \<Rightarrow> attr n key)"

definition default_text :: "string \<Rightarrow> string \<Rightarrow> string" where
  "default_text s d = (if s = '''' then d else s)"

definition parse_binding_operation :: "string \<Rightarrow> port_operations \<Rightarrow> xml_node \<Rightarrow>
    (wsdl_error, binding_operation) outcome" where
  "parse_binding_operation parent_style ops node =
     (let name = attr node ''name'';
          msgs = (case go_get ops name of
                    Some p \<Rightarrow> (pt_input p, pt_output p) | None \<Rightarrow> (no_qname, no_qname));
          soap = first_child node soap_namespace ''operation'';
          style = default_text (default_text (attr_of soap ''style'') parent_style) ''document''
      in if style \<noteq> ''document'' then Err (UnsupportedBindingStyle style)
         else Ok \<lparr>bo_name = name, bo_action = attr_of soap ''soapAction'', bo_style = style,
                  bo_input = fst msgs, bo_output = snd msgs,
                  bo_input_use = attr_of (soap_body node ''input'') ''use'',
                  bo_output_use = attr_of (soap_body node ''output'') ''use'',
                  bo_input_namespace = attr_of (soap_body node ''input'') ''namespace''\<rparr>)"

definition parse_binding :: "string \<Rightarrow> (string, port_operations) gomap \<Rightarrow> xml_node \<Rightarrow>
    (wsdl_error, wsdl_binding) outcome" where
  "parse_binding target all node =
     bindO (parse_qname (attr node ''type'') (nd_ns node) target) (\<lambda>t.
       let soap = first_child node soap_namespace ''binding'';
           style = default_text (attr_of soap ''style'') ''document''
       in if style \<noteq> ''document'' then Err (UnsupportedBindingStyle style)
          else mapO (\<lambda>ops. \<lparr>bi_name = attr node ''name'', bi_type = t,
                            bi_transport = attr_of soap ''transport'', bi_style = style, bi_operations = ops\<rparr>)
                 (collect (parse_binding_operation style (find_port_type_operations all t))
                   (children_named wsdl_namespace ''operation'' node)))"

definition parse_bindings :: "xml_node \<Rightarrow> string \<Rightarrow> (string, port_operations) gomap \<Rightarrow>
    (wsdl_error, wsdl_binding list) outcome" where
  "parse_bindings root target all = collect (parse_binding target all) (children_named wsdl_namespace ''binding'' root)"

definition parse_port :: "string \<Rightarrow> xml_node \<Rightarrow> (wsdl_error, wsdl_port) outcome" where
  "parse_port target node =
     mapO (\<lambda>b. \<lparr>po_name = attr node ''name'', po_binding = b,
                po_address = attr_of (first_child node soap_namespace ''address'') ''location''\<rparr>)
       (parse_qname (attr node ''binding'') (nd_ns node) target)"

definition parse_services :: "xml_node \<Rightarrow> string \<Rightarrow> (wsdl_error, wsdl_service list) outcome" where
  "parse_services root target =
     collect (\<lambda>node. mapO (\<lambda>ports. \<lparr>sv_name = attr node ''name'', sv_ports = ports\<rparr>)
         (collect (parse_port target) (children_named wsdl_namespace ''port'' node)))
       (children_named wsdl_namespace ''service'' root)"

section \<open>Parsing a file\<close>

definition parse_definitions :: "wsdl_env \<Rightarrow> string \<Rightarrow> xml_node \<Rightarrow> (wsdl_error, wsdl_model) outcome" where
  "parse_definitions env base_dir root =
     (let target = attr root ''targetNamespace''
      in bindO (parse_types env base_dir root) (\<lambda>scs.
         bindO (parse_port_type_operations root target) (\<lambda>all.
         bindO (parse_messages root target) (\<lambda>msgs.
         bindO (parse_bindings root target all) (\<lambda>bs.
         bindO (parse_services root target) (\<lambda>svs.
           Ok \<lparr>wm_target = target, wm_schemas = merge_schemas scs, wm_messages = msgs,
               wm_bindings = bs, wm_services = svs\<rparr>))))))"

definition parse_wsdl :: "wsdl_env \<Rightarrow> xml_document \<Rightarrow> string \<Rightarrow> (wsdl_error, wsdl_model) outcome" where
  "parse_wsdl env data base_dir =
     (case parse_xml_node data of
        Err e \<Rightarrow> Err (ParseXml e)
      | Panic \<Rightarrow> Panic
      | Ok root \<Rightarrow>
          if xn_local (nd_name root) \<noteq> ''definitions'' then Err (InvalidRoot (xn_local (nd_name root)))
          else if xn_space (nd_name root) \<noteq> '''' \<and> xn_space (nd_name root) \<noteq> wsdl_namespace
          then Err (UnsupportedNamespace (xn_space (nd_name root)))
          else parse_definitions env base_dir root)"

text \<open>A path of the process is resolved against the working directory.\<close>

definition read_file :: "wsdl_env \<Rightarrow> string \<Rightarrow> xml_document option" where
  "read_file env path = (case file_abs env path of None \<Rightarrow> None | Some p \<Rightarrow> go_get (we_files env) p)"

definition parse_file :: "wsdl_env \<Rightarrow> string \<Rightarrow> (wsdl_error, wsdl_model) outcome" where
  "parse_file env path =
     (case read_file env path of None \<Rightarrow> Err (ReadFile path) | Some data \<Rightarrow> parse_wsdl env data (file_dir path))"

section \<open>Collecting the files of a WSDL\<close>

text \<open>
  \<open>LoadLocalAssets\<close> keeps the files a WSDL imports by the location written in the import.  The state
  is the visited paths and the files collected; fuel bounds the depth of the imports as above.
\<close>

type_synonym asset_state = "visited \<times> (string, xml_document) gomap"

type_synonym asset_step = "asset_state \<Rightarrow> wsdl_error option \<times> asset_state"

fun collect_node :: "(string \<Rightarrow> asset_step) \<Rightarrow> xml_node \<Rightarrow> asset_step"
  and collect_nodes :: "(string \<Rightarrow> asset_step) \<Rightarrow> xml_node list \<Rightarrow> asset_step" where
  "collect_node follow (Node name attrs ns children) s =
     (let location = attr (Node name attrs ns children) ''schemaLocation''
      in if location = '''' then collect_nodes follow children s
         else (case follow location s of (Some e, s) \<Rightarrow> (Some e, s) | (None, s) \<Rightarrow> collect_nodes follow children s))"
| "collect_nodes follow [] s = (None, s)"
| "collect_nodes follow (node # nodes) s =
     (case collect_node follow node s of (Some e, s) \<Rightarrow> (Some e, s) | (None, s) \<Rightarrow> collect_nodes follow nodes s)"

fun collect_assets :: "nat \<Rightarrow> wsdl_env \<Rightarrow> string \<Rightarrow> xml_document \<Rightarrow> asset_step" where
  "collect_assets 0 env base_dir data s = (Some FuelUsedUp, s)"
| "collect_assets (Suc fuel) env base_dir data s =
     (case parse_xml_node data of
        Err e \<Rightarrow> (Some (AssetsXml e), s)
      | Panic \<Rightarrow> (None, s)
      | Ok root \<Rightarrow>
          collect_node (\<lambda>location (seen, xsd).
            (case load env base_dir location seen of
               (Err e, seen) \<Rightarrow> (Some (LoadAsset location e), (seen, xsd))
             | (Panic, seen) \<Rightarrow> (None, (seen, xsd))
             | (Ok (None, next_base), seen) \<Rightarrow> (None, (seen, xsd))
             | (Ok (Some d, next_base), seen) \<Rightarrow>
                 collect_assets fuel env next_base d (seen, go_put location d xsd))) root s)"

definition load_local_assets :: "wsdl_env \<Rightarrow> string \<Rightarrow>
    (wsdl_error, xml_document \<times> (string, xml_document) gomap) outcome" where
  "load_local_assets env path =
     (case read_file env path of
        None \<Rightarrow> Err (ReadFile path)
      | Some data \<Rightarrow>
          (case collect_assets (Suc (import_fuel env)) env (file_dir path) data (new_local_loader, []) of
             (Some e, _) \<Rightarrow> Err e
           | (None, (seen, xsd)) \<Rightarrow> Ok (data, xsd)))"

end
