(* ===== verification/GoUnicode.thy ===== *)
theory GoUnicode
  imports HttpText
begin

text \<open>
  Go's \<open>unicode/utf8\<close> and \<open>strconv.Quote\<close>: the runes of a string, which is a list of bytes, and the
  bytes of a rune.  The tables of package \<open>unicode\<close> are a parameter; \<open>ascii_tables\<close> states them for
  the first 128 code points.
\<close>

type_synonym rune = nat

record unicode_tables =
  ut_letter :: "rune \<Rightarrow> bool"
  ut_digit :: "rune \<Rightarrow> bool"
  ut_upper :: "rune \<Rightarrow> bool"
  ut_lower :: "rune \<Rightarrow> bool"
  ut_print :: "rune \<Rightarrow> bool"
  ut_to_upper :: "rune \<Rightarrow> rune"
  ut_to_lower :: "rune \<Rightarrow> rune"

definition ascii_lower :: "rune \<Rightarrow> bool" where
  "ascii_lower r \<longleftrightarrow> 97 \<le> r \<and> r \<le> 122"

definition ascii_upper :: "rune \<Rightarrow> bool" where
  "ascii_upper r \<longleftrightarrow> 65 \<le> r \<and> r \<le> 90"

definition ascii_digit :: "rune \<Rightarrow> bool" where
  "ascii_digit r \<longleftrightarrow> 48 \<le> r \<and> r \<le> 57"

definition ascii_tables :: "unicode_tables \<Rightarrow> bool" where
  "ascii_tables u \<longleftrightarrow> (\<forall>r < 128.
     ut_letter u r = (ascii_lower r \<or> ascii_upper r) \<and> ut_digit u r = ascii_digit r \<and>
     ut_upper u r = ascii_upper r \<and> ut_lower u r = ascii_lower r \<and> ut_print u r = (32 \<le> r \<and> r < 127) \<and>
     ut_to_upper u r = (if ascii_lower r then r - 32 else r) \<and>
     ut_to_lower u r = (if ascii_upper r then r + 32 else r))"

section \<open>UTF-8\<close>

definition rune_error :: rune where
  "rune_error = 0xFFFD"

text \<open>The rune at the beginning of a list of bytes and the number of its bytes.\<close>

definition continues :: "nat \<Rightarrow> nat \<Rightarrow> nat list \<Rightarrow> bool" where
  "continues lo hi bs \<longleftrightarrow> (case bs of [] \<Rightarrow> False | b # _ \<Rightarrow> lo \<le> b \<and> b \<le> hi)"

definition decode_rune :: "nat list \<Rightarrow> rune \<times> nat" where
  "decode_rune bs =
     (case bs of
        [] \<Rightarrow> (rune_error, 0)
      | b0 # r1 \<Rightarrow>
          if b0 < 0x80 then (b0, 1)
          else if 0xC2 \<le> b0 \<and> b0 \<le> 0xDF then
            (if continues 0x80 0xBF r1 then ((b0 mod 32) * 64 + r1 ! 0 mod 64, 2) else (rune_error, 1))
          else if 0xE0 \<le> b0 \<and> b0 \<le> 0xEF then
            (if continues (if b0 = 0xE0 then 0xA0 else 0x80) (if b0 = 0xED then 0x9F else 0xBF) r1 \<and>
                continues 0x80 0xBF (tl r1)
             then ((b0 mod 16) * 4096 + (r1 ! 0 mod 64) * 64 + r1 ! 1 mod 64, 3) else (rune_error, 1))
          else if 0xF0 \<le> b0 \<and> b0 \<le> 0xF4 then
            (if continues (if b0 = 0xF0 then 0x90 else 0x80) (if b0 = 0xF4 then 0x8F else 0xBF) r1 \<and>
                continues 0x80 0xBF (tl r1) \<and> continues 0x80 0xBF (tl (tl r1))
             then ((b0 mod 8) * 262144 + (r1 ! 0 mod 64) * 4096 + (r1 ! 1 mod 64) * 64 + r1 ! 2 mod 64, 4)
             else (rune_error, 1))
          else (rune_error, 1))"

function decode_bytes :: "nat list \<Rightarrow> rune list" where
  "decode_bytes bs =
     (if bs = [] then [] else (case decode_rune bs of (r, n) \<Rightarrow> r # decode_bytes (drop (max 1 n) bs)))"
  by pat_completeness auto
termination
  by (relation "measure length") auto

declare decode_bytes.simps [simp del]

definition runes :: "string \<Rightarrow> rune list" where
  "runes s = decode_bytes (map of_char s)"

definition encode_rune :: "rune \<Rightarrow> string" where
  "encode_rune r =
     map char_of
       (if r < 0x80 then [r]
        else if r < 0x800 then [0xC0 + r div 64, 0x80 + r mod 64]
        else if r > 0x10FFFF \<or> 0xD800 \<le> r \<and> r \<le> 0xDFFF then [0xEF, 0xBF, 0xBD]
        else if r < 0x10000 then [0xE0 + r div 4096, 0x80 + r div 64 mod 64, 0x80 + r mod 64]
        else [0xF0 + r div 262144, 0x80 + r div 4096 mod 64, 0x80 + r div 64 mod 64, 0x80 + r mod (64 :: nat)])"

definition of_runes :: "rune list \<Rightarrow> string" where
  "of_runes rs = concat (map encode_rune rs)"

lemma ascii_step: "b < 0x80 \<Longrightarrow> decode_bytes (b # bs) = b # decode_bytes bs"
  by (subst decode_bytes.simps) (simp add: decode_rune_def)

lemma decode_Nil [simp]: "decode_bytes [] = []"
  by (simp add: decode_bytes.simps)

lemma runes_ascii: "list_all (\<lambda>c. of_char c < (0x80 :: nat)) s \<Longrightarrow> runes s = map of_char s"
  by (induction s) (simp_all add: runes_def ascii_step)

section \<open>Quoting\<close>

definition hex_lower :: "nat \<Rightarrow> char" where
  "hex_lower n = ''0123456789abcdef'' ! n"

definition hex_digits :: "nat \<Rightarrow> nat \<Rightarrow> string" where
  "hex_digits k n = map (\<lambda>i. hex_lower (n div 16 ^ i mod 16)) (rev [0..<k])"

definition backslash :: char where
  "backslash = CHR 0x5C"

definition double_quote :: char where
  "double_quote = CHR 0x22"

definition quote_rune :: "unicode_tables \<Rightarrow> rune \<Rightarrow> string" where
  "quote_rune u r =
     (if r = 0x22 \<or> r = 0x5C then [backslash, char_of r]
      else if ut_print u r then encode_rune r
      else (case map_of [(7, CHR ''a''), (8, CHR ''b''), (12, CHR ''f''), (10, CHR ''n''), (13, CHR ''r''),
                         (9, CHR ''t''), (11, CHR ''v'')] r of
              Some c \<Rightarrow> [backslash, c]
            | None \<Rightarrow>
                if r < 32 \<or> r = 0x7F then [backslash, CHR ''x''] @ hex_digits 2 r
                else if r < 0x10000 then [backslash, CHR ''u''] @ hex_digits 4 r
                else [backslash, CHR ''U''] @ hex_digits 8 r))"

function quote_bytes :: "unicode_tables \<Rightarrow> nat list \<Rightarrow> string" where
  "quote_bytes u bs =
     (if bs = [] then ''''
      else (case decode_rune bs of (r, n) \<Rightarrow>
              (if n = 1 \<and> r = rune_error then [backslash, CHR ''x''] @ hex_digits 2 (bs ! 0) else quote_rune u r)
              @ quote_bytes u (drop (max 1 n) bs)))"
  by pat_completeness auto
termination
  by (relation "measure (\<lambda>(u, bs). length bs)") auto

declare quote_bytes.simps [simp del]

text \<open>\<open>strconv.Quote\<close>, the verb \<open>%q\<close>.\<close>

definition go_quote :: "unicode_tables \<Rightarrow> string \<Rightarrow> string" where
  "go_quote u s = [double_quote] @ quote_bytes u (map of_char s) @ [double_quote]"

end
