(* ===== verification/WsdlCodegen.thy ===== *)
theory WsdlCodegen
  imports Wsdl GoUnicode
begin

text \<open>
  \<open>gws/internal/codegen\<close>: the Go files made from the model of a WSDL file.  A file is a string; the
  tables of package \<open>unicode\<close> and \<open>go/format\<close> are parameters.
\<close>

section \<open>Names (\<open>names.go\<close>)\<close>

definition has_lower :: "unicode_tables \<Rightarrow> rune list \<Rightarrow> bool" where
  "has_lower u rs = list_ex (ut_lower u) rs"

definition flush_word :: "rune list list \<times> rune list \<Rightarrow> rune list list \<times> rune list" where
  "flush_word s = (case s of (parts, current) \<Rightarrow> (if current = [] then parts else parts @ [current], []))"

definition word_step :: "unicode_tables \<Rightarrow> rune list list \<times> rune list \<Rightarrow> rune \<Rightarrow> rune list list \<times> rune list" where
  "word_step u s r =
     (if ut_letter u r \<or> ut_digit u r then
        (case if snd s \<noteq> [] \<and> ut_upper u r \<and> has_lower u (snd s) then flush_word s else s of
           (parts, current) \<Rightarrow> (parts, current @ [r]))
      else flush_word s)"

definition split_identifier_words :: "unicode_tables \<Rightarrow> rune list \<Rightarrow> rune list list" where
  "split_identifier_words u value = fst (flush_word (foldl (word_step u) ([], []) value))"

definition map_head :: "('a \<Rightarrow> 'a) \<Rightarrow> 'a list \<Rightarrow> 'a list" where
  "map_head f xs = (case xs of [] \<Rightarrow> [] | x # ys \<Rightarrow> f x # ys)"

definition capitalise :: "unicode_tables \<Rightarrow> rune list \<Rightarrow> rune list" where
  "capitalise u part = map_head (ut_to_upper u) (map (ut_to_lower u) part)"

definition type_name :: "unicode_tables \<Rightarrow> string \<Rightarrow> string \<Rightarrow> string" where
  "type_name u name prefix =
     of_runes (concat (map (capitalise u) (split_identifier_words u (runes (prefix @ '' '' @ name)))))"

definition service_asset_var_name :: "unicode_tables \<Rightarrow> string \<Rightarrow> string" where
  "service_asset_var_name u service_name =
     (let go_name = type_name u service_name ''''
      in if go_name = '''' then ''serviceWSDL''
         else of_runes (map_head (ut_to_lower u) (runes go_name)) @ ''WSDL'')"

section \<open>Rendering (\<open>render.go\<close>, \<open>file.go\<close>)\<close>

datatype codegen_error =
    EmptyPackage
  | ServiceNotFound string
  | PortNotFound string
  | BindingNotFound string
  | MessageNotFound string
  | MessageHasNoParts string
  | PartHasNoElement string
  | FormatSource
  | Generating string codegen_error

record codegen_env =
  ce_unicode :: unicode_tables
  ce_format :: "string \<Rightarrow> string option"

definition tab :: char where
  "tab = CHR 0x09"

definition dq :: "string \<Rightarrow> string" where
  "dq s = [double_quote] @ s @ [double_quote]"

text \<open>Lines of a file, each with the number of tabs before it.\<close>

definition text_lines :: "(nat \<times> string) list \<Rightarrow> string" where
  "text_lines ls = concat (map (\<lambda>(n, s). replicate n tab @ s @ [newline]) ls)"

definition unique_step :: "string list \<Rightarrow> string \<Rightarrow> string list" where
  "unique_step items value = (if value \<in> set items then items else items @ [value])"

definition string_le :: "string \<Rightarrow> string \<Rightarrow> bool" where
  "string_le a b \<longleftrightarrow> a = b \<or> (map of_char a, map of_char b) \<in> lexord {(m, n). m < (n :: nat)}"

text \<open>\<open>sort.Strings\<close>: byte order.\<close>

fun insert_string :: "string \<Rightarrow> string list \<Rightarrow> string list" where
  "insert_string s [] = [s]"
| "insert_string s (t # ts) = (if string_le s t then s # t # ts else t # insert_string s ts)"

definition sort_strings :: "string list \<Rightarrow> string list" where
  "sort_strings ss = foldr insert_string ss []"

definition unique_sorted :: "string list \<Rightarrow> string list" where
  "unique_sorted values = sort_strings (foldl unique_step [] values)"

definition generated_code_header :: string where
  "generated_code_header = ''// Code generated by gksoap. DO NOT EDIT.''"

definition import_lines :: "codegen_env \<Rightarrow> string list \<Rightarrow> (nat \<times> string) list" where
  "import_lines env imports =
     (case unique_sorted imports of
        [] \<Rightarrow> []
      | [p] \<Rightarrow> [(0, ''''), (0, ''import '' @ go_quote (ce_unicode env) p)]
      | ps \<Rightarrow> [(0, ''''), (0, ''import ('')] @ map (\<lambda>p. (1, go_quote (ce_unicode env) p)) ps @ [(0, '')'')])"

definition render_go_file :: "codegen_env \<Rightarrow> string \<Rightarrow> string list \<Rightarrow> string \<Rightarrow> (codegen_error, string) outcome" where
  "render_go_file env pkg imports body =
     (if trim_space pkg = '''' then Err EmptyPackage
      else
        (let trimmed = trim_space body;
             buf = text_lines ([(0, generated_code_header), (0, ''''), (0, ''package '' @ pkg)] @ import_lines env imports @
                     (if trimmed \<noteq> '''' then [(0, ''''), (0, trimmed)] else []))
         in case ce_format env buf of None \<Rightarrow> Err FormatSource | Some source \<Rightarrow> Ok source))"

record generated_file =
  gf_name :: string
  gf_path :: string
  gf_source :: string

definition new_generated_file :: "string \<Rightarrow> string \<Rightarrow> string \<Rightarrow> generated_file" where
  "new_generated_file output_dir name source =
     \<lparr>gf_name = name, gf_path = (if output_dir \<noteq> '''' then path_join output_dir name else name), gf_source = source\<rparr>"

record codegen_config =
  cg_package :: string
  cg_output_dir :: string
  cg_type_prefix :: string
  cg_service :: string
  cg_port :: string
  cg_client :: bool
  cg_server :: bool
  cg_embed :: bool
  cg_explicit :: bool
  cg_wsdl :: string
  cg_xsd :: "(string, string) gomap"

section \<open>Selecting a service (\<open>generator.go\<close>)\<close>

definition normalize_config :: "codegen_config \<Rightarrow> codegen_config" where
  "normalize_config cfg =
     (let cfg = (if \<not> cg_explicit cfg then cfg\<lparr>cg_client := True, cg_server := True, cg_embed := True\<rparr> else cfg)
      in if cg_server cfg then
           (if \<not> cg_explicit cfg \<and> \<not> cg_embed cfg then cfg\<lparr>cg_embed := True\<rparr> else cfg)
         else cfg\<lparr>cg_embed := False\<rparr>)"

definition select_service :: "wsdl_model \<Rightarrow> string \<Rightarrow> (codegen_error, wsdl_service) outcome" where
  "select_service m name =
     (case wm_services m of
        [] \<Rightarrow> Err (ServiceNotFound '''')
      | s # ss \<Rightarrow>
          if name = '''' then Ok s
          else (case find (\<lambda>s. sv_name s = name) (s # ss) of Some s \<Rightarrow> Ok s | None \<Rightarrow> Err (ServiceNotFound name)))"

definition select_port :: "wsdl_service \<Rightarrow> string \<Rightarrow> (codegen_error, wsdl_port) outcome" where
  "select_port s name =
     (case sv_ports s of
        [] \<Rightarrow> Err (PortNotFound '''')
      | p # ps \<Rightarrow>
          if name = '''' then Ok p
          else (case find (\<lambda>p. po_name p = name) (p # ps) of Some p \<Rightarrow> Ok p | None \<Rightarrow> Err (PortNotFound name)))"

definition select_binding :: "wsdl_model \<Rightarrow> qname \<Rightarrow> (codegen_error, wsdl_binding) outcome" where
  "select_binding m name =
     (case find (\<lambda>b. bi_name b = qn_local name) (wm_bindings m) of
        Some b \<Rightarrow> Ok b | None \<Rightarrow> Err (BindingNotFound (qn_local name)))"

definition select_model :: "wsdl_model \<Rightarrow> codegen_config \<Rightarrow> (codegen_error, wsdl_model) outcome" where
  "select_model m cfg =
     bindO (select_service m (cg_service cfg)) (\<lambda>s.
     bindO (select_port s (cg_port cfg)) (\<lambda>p.
     bindO (select_binding m (po_binding p)) (\<lambda>b.
       Ok (m\<lparr>wm_services := [s\<lparr>sv_ports := [p]\<rparr>], wm_bindings := [b]\<rparr>))))"

section \<open>Types (\<open>types.go\<close>)\<close>

definition map_xsd_type :: "string \<Rightarrow> string" where
  "map_xsd_type name =
     (case map_of
        [(''string'', ''string''), (''token'', ''string''), (''normalizedString'', ''string''),
         (''boolean'', ''bool''), (''byte'', ''int8''), (''short'', ''int16''), (''int'', ''int32''),
         (''integer'', ''int32''), (''long'', ''int64''), (''float'', ''float32''), (''double'', ''float64''),
         (''decimal'', ''string''), (''date'', ''time.Time''), (''time'', ''time.Time''),
         (''dateTime'', ''time.Time''), (''base64Binary'', ''[]byte'')] (trim_space name) of
        Some t \<Rightarrow> t | None \<Rightarrow> '''')"

definition apply_type_modifiers :: "string \<Rightarrow> bool \<Rightarrow> bool \<Rightarrow> string" where
  "apply_type_modifiers base optional repeated =
     (if repeated then (if has_prefix base ''[]'' then base else ''[]'' @ base)
      else if optional \<and> \<not> has_prefix base ''[]'' then ''*'' @ base
      else base)"

definition is_optional_field :: "xsd_field \<Rightarrow> bool" where
  "is_optional_field f \<longleftrightarrow> fd_min_occurs f = 0 \<or> fd_nillable f"

definition is_repeated_field :: "xsd_field \<Rightarrow> bool" where
  "is_repeated_field f \<longleftrightarrow> fd_max_occurs f = MaxOccursUnbounded \<or> fd_max_occurs f > 1"

definition go_type_for_xsd :: "string \<Rightarrow> bool \<Rightarrow> bool \<Rightarrow> string" where
  "go_type_for_xsd t optional repeated =
     (let base = map_xsd_type (trim_space t)
      in apply_type_modifiers (if base = '''' then ''string'' else base) optional repeated)"

record type_index =
  ti_complex :: "(string, complex_type) gomap"
  ti_simple :: "(string, simple_type) gomap"

definition index_schema :: "type_index \<Rightarrow> schema \<Rightarrow> type_index" where
  "index_schema ix sc =
     \<lparr>ti_complex = foldl (\<lambda>m t. go_put (qname_key \<lparr>qn_space = sc_target sc, qn_local = ct_name t\<rparr>) t m)
                    (ti_complex ix) (sc_complex sc),
      ti_simple = foldl (\<lambda>m t. go_put (qname_key \<lparr>qn_space = sc_target sc, qn_local = sy_name t\<rparr>) t m)
                    (ti_simple ix) (sc_simple sc)\<rparr>"

definition build_type_index :: "wsdl_model \<Rightarrow> type_index" where
  "build_type_index m = foldl index_schema \<lparr>ti_complex = [], ti_simple = []\<rparr> (wm_schemas m)"

definition go_type_for_qname :: "unicode_tables \<Rightarrow> qname \<Rightarrow> bool \<Rightarrow> bool \<Rightarrow> string \<Rightarrow> type_index \<Rightarrow> string" where
  "go_type_for_qname u name optional repeated prefix ix =
     (let builtin = (if qn_space name = xsd_namespace \<or> qn_space name = '''' then map_xsd_type (qn_local name) else '''')
      in if builtin \<noteq> '''' then apply_type_modifiers builtin optional repeated
         else
           (let base = type_name u (qn_local name) prefix;
                base = (if base = '''' then ''string'' else base)
            in if go_get (ti_simple ix) (qname_key name) \<noteq> None then apply_type_modifiers base optional repeated
               else if go_get (ti_complex ix) (qname_key name) \<noteq> None then apply_type_modifiers base optional repeated
               else apply_type_modifiers base optional repeated))"

definition simple_type_text :: "unicode_tables \<Rightarrow> codegen_config \<Rightarrow> type_index \<Rightarrow> simple_type \<Rightarrow> string" where
  "simple_type_text u cfg ix t =
     (let base = go_type_for_qname u (sy_base t) False False (cg_type_prefix cfg) ix;
          base = (if base = '''' then ''string'' else base)
      in text_lines [(0, ''type '' @ type_name u (sy_name t) (cg_type_prefix cfg) @ '' '' @ base), (0, '''')])"

definition field_text :: "unicode_tables \<Rightarrow> codegen_config \<Rightarrow> type_index \<Rightarrow> xsd_field \<Rightarrow> nat \<times> string" where
  "field_text u cfg ix f =
     (1, type_name u (fd_name f) '''' @ '' '' @
         go_type_for_qname u (fd_type f) (is_optional_field f) (is_repeated_field f) (cg_type_prefix cfg) ix @
         '' `xml:'' @ dq (fd_name f @ (if is_optional_field f \<or> is_repeated_field f then '',omitempty'' else '''')) @ ''`'')"

definition struct_text :: "unicode_tables \<Rightarrow> string \<Rightarrow> qname \<Rightarrow> xsd_field list \<Rightarrow> codegen_config \<Rightarrow> type_index \<Rightarrow> string" where
  "struct_text u go_name name fs cfg ix =
     text_lines
       ([(0, ''type '' @ go_name @ '' struct {'')] @
        (if qn_local name \<noteq> '''' then [(1, ''XMLName xml.Name `xml:'' @ dq (qn_space name @ '' '' @ qn_local name) @ ''`'')] else []) @
        map (field_text u cfg ix) fs @
        [(0, ''}''), (0, '''')])"

definition fields_for_element :: "xsd_element \<Rightarrow> type_index \<Rightarrow> xsd_field list" where
  "fields_for_element e ix =
     (case go_get (ti_complex ix) (qname_key (el_type e)) of Some t \<Rightarrow> ct_fields t | None \<Rightarrow> [])"

definition complex_type_text :: "unicode_tables \<Rightarrow> codegen_config \<Rightarrow> type_index \<Rightarrow> complex_type \<Rightarrow> string" where
  "complex_type_text u cfg ix t = struct_text u (type_name u (ct_name t) (cg_type_prefix cfg)) no_qname (ct_fields t) cfg ix"

definition element_text :: "unicode_tables \<Rightarrow> codegen_config \<Rightarrow> type_index \<Rightarrow> string \<Rightarrow> xsd_element \<Rightarrow> string" where
  "element_text u cfg ix target e =
     struct_text u (type_name u (el_name e) (cg_type_prefix cfg)) \<lparr>qn_space = target, qn_local = el_name e\<rparr>
       (fields_for_element e ix) cfg ix"

definition has_element_types :: "wsdl_model \<Rightarrow> bool" where
  "has_element_types m = list_ex (\<lambda>sc. sc_elements sc \<noteq> []) (wm_schemas m)"

definition uses_time_types :: "wsdl_model \<Rightarrow> bool" where
  "uses_time_types m =
     list_ex (\<lambda>sc. list_ex (\<lambda>t. map_xsd_type (qn_local (sy_base t)) = ''time.Time'') (sc_simple sc) \<or>
       list_ex (\<lambda>t. list_ex (\<lambda>f. map_xsd_type (qn_local (fd_type f)) = ''time.Time'') (ct_fields t)) (sc_complex sc))
     (wm_schemas m)"

definition collect_type_imports :: "wsdl_model \<Rightarrow> string list" where
  "collect_type_imports m =
     (if has_element_types m then [''encoding/xml''] else []) @ (if uses_time_types m then [''time''] else [])"

definition generate_types_file :: "codegen_env \<Rightarrow> wsdl_model \<Rightarrow> codegen_config \<Rightarrow> (codegen_error, string) outcome" where
  "generate_types_file env m cfg =
     (let u = ce_unicode env; ix = build_type_index m
      in render_go_file env (cg_package cfg) (collect_type_imports m)
           (concat (map (\<lambda>sc. concat (map (simple_type_text u cfg ix) (sc_simple sc))) (wm_schemas m)) @
            concat (map (\<lambda>sc. concat (map (complex_type_text u cfg ix) (sc_complex sc))) (wm_schemas m)) @
            concat (map (\<lambda>sc. concat (map (element_text u cfg ix (sc_target sc)) (sc_elements sc))) (wm_schemas m))))"

section \<open>Operations (\<open>operations.go\<close>)\<close>

definition find_message :: "wsdl_model \<Rightarrow> qname \<Rightarrow> (codegen_error, wsdl_message) outcome" where
  "find_message m name =
     (case find (\<lambda>msg. ms_name msg = qn_local name) (wm_messages m) of
        Some msg \<Rightarrow> Ok msg | None \<Rightarrow> Err (MessageNotFound (qn_local name)))"

definition first_message_element :: "wsdl_message \<Rightarrow> (codegen_error, qname) outcome" where
  "first_message_element msg =
     (case ms_parts msg of
        [] \<Rightarrow> Err (MessageHasNoParts (ms_name msg))
      | p # _ \<Rightarrow>
          if qn_local (mp_element p) = '''' then Err (PartHasNoElement (ms_name msg)) else Ok (mp_element p))"

definition find_operation_wrappers :: "wsdl_model \<Rightarrow> binding_operation \<Rightarrow> (codegen_error, qname \<times> qname) outcome" where
  "find_operation_wrappers m p =
     bindO (find_message m (bo_input p)) (\<lambda>inp.
     bindO (find_message m (bo_output p)) (\<lambda>out.
     bindO (first_message_element inp) (\<lambda>request.
     bindO (first_message_element out) (\<lambda>response.
       Ok (request, response)))))"

record operation_metadata =
  om_name :: string
  om_request :: qname
  om_response :: qname

text \<open>
  The loop over the operations of all bindings that skips a name it has seen.  The names seen are
  those of the operations listed so far.
\<close>

fun operations_loop :: "wsdl_model \<Rightarrow> binding_operation list \<Rightarrow> operation_metadata list \<Rightarrow>
    (codegen_error, operation_metadata list) outcome" where
  "operations_loop m [] seen = Ok seen"
| "operations_loop m (p # ps) seen =
     (if bo_name p \<in> om_name ` set seen then operations_loop m ps seen
      else bindO (find_operation_wrappers m p) (\<lambda>(request, response).
             operations_loop m ps (seen @ [\<lparr>om_name = bo_name p, om_request = request, om_response = response\<rparr>])))"

definition list_operations :: "wsdl_model \<Rightarrow> (codegen_error, operation_metadata list) outcome" where
  "list_operations m = operations_loop m (concat (map bi_operations (wm_bindings m))) []"

definition wrapper_text :: "unicode_tables \<Rightarrow> qname \<Rightarrow> string" where
  "wrapper_text u q = ''xml.Name{Space: '' @ go_quote u (qn_space q) @ '', Local: '' @ go_quote u (qn_local q) @ ''}''"

definition operation_text :: "unicode_tables \<Rightarrow> string \<Rightarrow> string \<Rightarrow> qname \<Rightarrow> qname \<Rightarrow> string" where
  "operation_text u name action request response =
     (let go_name = type_name u name ''''
      in text_lines
           [(0, ''var op'' @ go_name @ '' = gws.Operation{''),
            (1, ''Name:            '' @ go_quote u name @ '',''),
            (1, ''Action:          '' @ go_quote u action @ '',''),
            (1, ''RequestWrapper:  '' @ wrapper_text u request @ '',''),
            (1, ''ResponseWrapper: '' @ wrapper_text u response @ '',''),
            (1, ''SOAPVersion:     gws.SOAP11,''),
            (0, ''}''), (0, ''''),
            (0, ''func '' @ go_name @ ''Operation() gws.Operation {''),
            (1, ''return op'' @ go_name),
            (0, ''}''), (0, '''')])"

fun operation_texts :: "unicode_tables \<Rightarrow> wsdl_model \<Rightarrow> binding_operation list \<Rightarrow> string list \<Rightarrow> string \<Rightarrow>
    (codegen_error, string) outcome" where
  "operation_texts u m [] seen body = Ok body"
| "operation_texts u m (p # ps) seen body =
     (if bo_name p \<in> set seen then operation_texts u m ps seen body
      else bindO (find_operation_wrappers m p) (\<lambda>(request, response).
             operation_texts u m ps (bo_name p # seen)
               (body @ operation_text u (bo_name p) (bo_action p) request response)))"

definition generate_operations_file :: "codegen_env \<Rightarrow> wsdl_model \<Rightarrow> codegen_config \<Rightarrow> (codegen_error, string) outcome" where
  "generate_operations_file env m cfg =
     bindO (select_model m cfg) (\<lambda>selected.
     bindO (operation_texts (ce_unicode env) selected (concat (map bi_operations (wm_bindings selected))) [] '''') (\<lambda>body.
       render_go_file env (cg_package cfg) [''encoding/xml'', ''github.com/sofiworker/gk/gws''] body))"

definition primary_service_name :: "wsdl_model \<Rightarrow> string" where
  "primary_service_name m =
     (if wm_services m \<noteq> [] \<and> trim_space (sv_name (hd (wm_services m))) \<noteq> '''' then sv_name (hd (wm_services m))
      else if wm_bindings m \<noteq> [] \<and> trim_space (bi_name (hd (wm_bindings m))) \<noteq> '''' then bi_name (hd (wm_bindings m))
      else ''Service'')"

section \<open>The client (\<open>client.go\<close>)\<close>

definition client_struct_text :: "string \<Rightarrow> string" where
  "client_struct_text client =
     text_lines
       [(0, ''type '' @ client @ '' struct {''), (1, ''client   *gws.Client''), (1, ''endpoint string''), (0, ''}''), (0, ''''),
        (0, ''func New'' @ client @ ''(endpoint string, opts ...gws.ClientOption) *'' @ client @ '' {''),
        (1, ''return &'' @ client @ ''{''), (2, ''client:   gws.NewClient(opts...),''), (2, ''endpoint: endpoint,''), (1, ''}''),
        (0, ''}''), (0, ''''),
        (0, ''func (c *'' @ client @ '') Client() *gws.Client {''),
        (1, ''if c == nil {''), (2, ''return nil''), (1, ''}''), (1, ''return c.client''), (0, ''}''), (0, ''''),
        (0, ''func (c *'' @ client @ '') Endpoint() string {''),
        (1, ''if c == nil {''), (2, ''return '' @ dq ''''), (1, ''}''), (1, ''return c.endpoint''), (0, ''}''), (0, ''''),
        (0, ''func (c *'' @ client @ '') SetEndpoint(endpoint string) *'' @ client @ '' {''),
        (1, ''if c == nil {''), (2, ''return nil''), (1, ''}''), (1, ''c.endpoint = endpoint''), (1, ''return c''),
        (0, ''}''), (0, '''')]"

definition client_method_text :: "unicode_tables \<Rightarrow> codegen_config \<Rightarrow> string \<Rightarrow> operation_metadata \<Rightarrow> string" where
  "client_method_text u cfg client p =
     (let request = type_name u (qn_local (om_request p)) (cg_type_prefix cfg);
          response = type_name u (qn_local (om_response p)) (cg_type_prefix cfg);
          m = type_name u (om_name p) ''''
      in text_lines
           [(0, ''func (c *'' @ client @ '') New'' @ m @ ''Request(ctx context.Context, in *'' @ request @ '') (*gws.Request, error) {''),
            (1, ''req := gws.NewRequest(ctx, c.endpoint, '' @ m @ ''Operation())''),
            (1, ''req.SetBody(in)''), (1, ''return req, nil''), (0, ''}''), (0, ''''),
            (0, ''func (c *'' @ client @ '') '' @ m @ ''Raw(ctx context.Context, in *'' @ request @ '') ([]byte, error) {''),
            (1, ''req, err := c.New'' @ m @ ''Request(ctx, in)''),
            (1, ''if err != nil {''), (2, ''return nil, err''), (1, ''}''),
            (1, ''return c.client.DoRaw(req)''), (0, ''}''), (0, ''''),
            (0, ''func (c *'' @ client @ '') '' @ m @ ''(ctx context.Context, in *'' @ request @ '') (*'' @ response @ '', error) {''),
            (1, ''req, err := c.New'' @ m @ ''Request(ctx, in)''),
            (1, ''if err != nil {''), (2, ''return nil, err''), (1, ''}''),
            (1, ''out := &'' @ response @ ''{}''),
            (1, ''if err := c.client.Do(req, out); err != nil {''), (2, ''return nil, err''), (1, ''}''),
            (1, ''return out, nil''), (0, ''}''), (0, '''')])"

definition generate_client_file :: "codegen_env \<Rightarrow> wsdl_model \<Rightarrow> codegen_config \<Rightarrow> (codegen_error, string) outcome" where
  "generate_client_file env m cfg =
     bindO (select_model m cfg) (\<lambda>selected.
       let client = type_name (ce_unicode env) (primary_service_name selected) '''' @ ''Client''
       in bindO (list_operations selected) (\<lambda>operations.
            render_go_file env (cg_package cfg) [''context'', ''github.com/sofiworker/gk/gws'']
              (client_struct_text client @ concat (map (client_method_text (ce_unicode env) cfg client) operations))))"

section \<open>The handler (\<open>handler.go\<close>)\<close>

definition interface_method_text :: "unicode_tables \<Rightarrow> codegen_config \<Rightarrow> operation_metadata \<Rightarrow> nat \<times> string" where
  "interface_method_text u cfg p =
     (1, type_name u (om_name p) '''' @ ''(ctx context.Context, req *'' @
         type_name u (qn_local (om_request p)) (cg_type_prefix cfg) @ '') (*'' @
         type_name u (qn_local (om_response p)) (cg_type_prefix cfg) @ '', error)'')"

definition operation_desc_text :: "unicode_tables \<Rightarrow> codegen_config \<Rightarrow> operation_metadata \<Rightarrow> (nat \<times> string) list" where
  "operation_desc_text u cfg p =
     [(3, ''{''),
      (4, ''Operation: '' @ type_name u (om_name p) '''' @ ''Operation(),''),
      (4, ''NewRequest: func() any { return &'' @ type_name u (qn_local (om_request p)) (cg_type_prefix cfg) @ ''{} },''),
      (4, ''NewResponse: func() any { return &'' @ type_name u (qn_local (om_response p)) (cg_type_prefix cfg) @ ''{} },''),
      (3, ''},'')]"

definition invoke_text :: "unicode_tables \<Rightarrow> codegen_config \<Rightarrow> nat \<times> operation_metadata \<Rightarrow> (nat \<times> string) list" where
  "invoke_text u cfg ip =
     (case ip of (i, p) \<Rightarrow>
        [(1, ''desc.Operations['' @ decimal (int i) @ ''].Invoke = func(ctx context.Context, _ any, req any) (any, error) {''),
         (2, ''typedReq, _ := req.(*'' @ type_name u (qn_local (om_request p)) (cg_type_prefix cfg) @ '')''),
         (2, ''return impl.'' @ type_name u (om_name p) '''' @ ''(ctx, typedReq)''),
         (1, ''}'')])"

definition handler_text :: "unicode_tables \<Rightarrow> codegen_config \<Rightarrow> string \<Rightarrow> operation_metadata list \<Rightarrow> string" where
  "handler_text u cfg service_name operations =
     (let server = type_name u service_name '''' @ ''Server'';
          desc = type_name u service_name '''' @ ''Desc''
      in text_lines
           ([(0, ''type '' @ server @ '' interface {'')] @
            map (interface_method_text u cfg) operations @
            [(0, ''}''), (0, ''''),
             (0, ''func '' @ desc @ ''() *gws.ServiceDesc {''),
             (1, ''return &gws.ServiceDesc{''),
             (2, ''Name: '' @ go_quote u service_name @ '','')] @
            (if cg_embed cfg then [(2, ''WSDL: '' @ service_asset_var_name u service_name @ '','')] else []) @
            [(2, ''Operations: []gws.OperationDesc{'')] @
            concat (map (operation_desc_text u cfg) operations) @
            [(2, ''},''), (1, ''}''), (0, ''}''), (0, ''''),
             (0, ''func New'' @ type_name u service_name '''' @ ''Handler(impl '' @ server @
                 '', opts ...gws.ServiceOption) (http.Handler, error) {''),
             (1, ''desc := '' @ desc @ ''()'')] @
            concat (map (invoke_text u cfg) (zip [0..<length operations] operations)) @
            [(1, ''return gws.NewHandler(desc, impl, opts...)''), (0, ''}'')]))"

definition generate_handler_file :: "codegen_env \<Rightarrow> wsdl_model \<Rightarrow> codegen_config \<Rightarrow> (codegen_error, string) outcome" where
  "generate_handler_file env m cfg =
     bindO (select_model m cfg) (\<lambda>selected.
     bindO (list_operations selected) (\<lambda>operations.
       render_go_file env (cg_package cfg) [''context'', ''net/http'', ''github.com/sofiworker/gk/gws'']
         (handler_text (ce_unicode env) cfg (primary_service_name selected) operations)))"

section \<open>Registration and assets (\<open>gserver.go\<close>, \<open>wsdl.go\<close>)\<close>

definition gserver_text :: "unicode_tables \<Rightarrow> string \<Rightarrow> string" where
  "gserver_text u service_name =
     (let go_name = type_name u service_name ''''
      in text_lines
           [(0, ''func Register'' @ go_name @ ''Server(s *httpserver.Server, path string, impl '' @ go_name @
                ''Server, opts ...gws.ServiceOption) error {''),
            (1, ''h, err := New'' @ go_name @ ''Handler(impl, opts...)''),
            (1, ''if err != nil {''), (2, ''return err''), (1, ''}''),
            (1, ''return adaptergserver.Register(s, path, h)''), (0, ''}'')])"

definition generate_gserver_file :: "codegen_env \<Rightarrow> wsdl_model \<Rightarrow> codegen_config \<Rightarrow> (codegen_error, string) outcome" where
  "generate_gserver_file env m cfg =
     bindO (select_model m cfg) (\<lambda>selected.
       mapO (\<lambda>source.
           let gserver = dq ''github.com/sofiworker/gk/ghttp/gserver''; adapter = dq ''github.com/sofiworker/gk/gws/adapter/gserver''
           in replace_all adapter (''adaptergserver '' @ adapter) (replace_all gserver (''httpserver '' @ gserver) source))
         (render_go_file env (cg_package cfg)
            [''github.com/sofiworker/gk/ghttp/gserver'', ''github.com/sofiworker/gk/gws'', ''github.com/sofiworker/gk/gws/adapter/gserver'']
            (gserver_text (ce_unicode env) (primary_service_name selected))))"

definition wsdl_text :: "unicode_tables \<Rightarrow> codegen_config \<Rightarrow> string \<Rightarrow> string" where
  "wsdl_text u cfg service_name =
     text_lines
       ([(0, ''var '' @ service_asset_var_name u service_name @ '' = &gws.WSDLAssetSet{''),
         (1, ''Main: []byte('' @ go_quote u (cg_wsdl cfg) @ ''),''),
         (1, ''XSD: map[string][]byte{'')] @
        map (\<lambda>name. (2, go_quote u name @ '': []byte('' @
               go_quote u (case go_get (cg_xsd cfg) name of None \<Rightarrow> '''' | Some d \<Rightarrow> d) @ ''),''))
          (sort_strings (map fst (cg_xsd cfg))) @
        [(1, ''},''), (0, ''}'')])"

definition generate_wsdl_file :: "codegen_env \<Rightarrow> wsdl_model \<Rightarrow> codegen_config \<Rightarrow> (codegen_error, string) outcome" where
  "generate_wsdl_file env m cfg =
     bindO (select_model m cfg) (\<lambda>selected.
       render_go_file env (cg_package cfg) [''github.com/sofiworker/gk/gws'']
         (wsdl_text (ce_unicode env) cfg (primary_service_name selected)))"

section \<open>All files (\<open>generator.go\<close>)\<close>

type_synonym file_renderer = "codegen_env \<Rightarrow> wsdl_model \<Rightarrow> codegen_config \<Rightarrow> (codegen_error, string) outcome"

definition file_builders :: "codegen_config \<Rightarrow> (string \<times> file_renderer) list" where
  "file_builders cfg =
     [(''types_gen.go'', generate_types_file), (''operations_gen.go'', generate_operations_file)] @
     (if cg_client cfg then [(''client_gen.go'', generate_client_file)] else []) @
     (if cg_server cfg then
        [(''handler_gen.go'', generate_handler_file), (''gserver_gen.go'', generate_gserver_file)] @
        (if cg_embed cfg then [(''wsdl_gen.go'', generate_wsdl_file)] else [])
      else [])"

definition build_file :: "codegen_env \<Rightarrow> wsdl_model \<Rightarrow> codegen_config \<Rightarrow> string \<times> file_renderer \<Rightarrow>
    (codegen_error, generated_file) outcome" where
  "build_file env m cfg builder =
     (case snd builder env m cfg of
        Ok rendered \<Rightarrow> Ok (new_generated_file (cg_output_dir cfg) (fst builder) rendered)
      | Err e \<Rightarrow> Err (Generating (fst builder) e)
      | Panic \<Rightarrow> Panic)"

definition generate_files :: "codegen_env \<Rightarrow> wsdl_model \<Rightarrow> codegen_config \<Rightarrow> (codegen_error, generated_file list) outcome" where
  "generate_files env m cfg =
     (if cg_package cfg = '''' then Err EmptyPackage
      else (let cfg = normalize_config cfg in collect (build_file env m cfg) (file_builders cfg)))"

definition stub_file_renderer :: "string \<Rightarrow> file_renderer" where
  "stub_file_renderer subject env m cfg =
     render_go_file env (cg_package cfg) []
       (if wm_target m \<noteq> '''' then ''// '' @ subject @ '' for '' @ go_quote (ce_unicode env) (wm_target m) @ ''.''
        else ''// '' @ subject @ ''.'')"

end
