(* ===== verification/WsdlFacts.thy ===== *)
theory WsdlFacts
  imports Wsdl
begin

text \<open>
  The parser of WSDL files: the tree read from the tokens of a document and the scopes of its
  namespace prefixes, the end of cyclic imports, and the merging of schemas.
\<close>

section \<open>Documents\<close>

datatype xml_tree = Elem xml_name "xml_attr list" "xml_tree list"

fun tree_tokens :: "xml_tree \<Rightarrow> xml_token list" where
  "tree_tokens (Elem name attrs ts) = StartElement name attrs # concat (map tree_tokens ts) @ [EndElement]"

fun annotate :: "(string, string) gomap \<Rightarrow> xml_tree \<Rightarrow> xml_node" where
  "annotate ns (Elem name attrs ts) =
     Node name attrs (apply_namespace_decl ns attrs) (map (annotate (apply_namespace_decl ns attrs)) ts)"

lemma other_tokens_skipped:
  "foldl token_step s toks = foldl token_step s (filter (\<lambda>t. t \<noteq> OtherToken) toks)"
proof (induction toks arbitrary: s)
  case (Cons t toks)
  then show ?case by (cases s; cases t) simp_all
qed simp

lemma append_child_simps [simp]:
  "append_child (Node name attrs ns cs) c = Node name attrs ns (cs @ [c])"
  by (simp add: append_child_def)

lemma tree_read:
  "foldl token_step (root, stack) (tree_tokens t) =
     (case stack of
        [] \<Rightarrow> (Some (annotate [] t), [])
      | parent # rest \<Rightarrow> (root, append_child parent (annotate (nd_ns parent) t) # rest))"
proof (induction t arbitrary: root stack)
  case (Elem name attrs ts)
  define ns where "ns = apply_namespace_decl (case stack of [] \<Rightarrow> [] | p # _ \<Rightarrow> nd_ns p) attrs"
  have children: "foldl token_step (root, Node name attrs ns cs # stack) (concat (map tree_tokens us)) =
      (root, Node name attrs ns (cs @ map (annotate ns) us) # stack)" if "set us \<subseteq> set ts" for us cs
    using that by (induction us arbitrary: cs) (simp_all add: Elem.IH)
  have "foldl token_step (root, stack) (tree_tokens (Elem name attrs ts)) =
      close_element (root, Node name attrs ns (map (annotate ns) ts) # stack)"
    using children[of ts "[]"] by (simp add: ns_def[symmetric] Let_def)
  then show ?case by (cases stack) (simp_all add: ns_def)
qed

lemma tree_parsed:
  assumes "filter (\<lambda>t. t \<noteq> OtherToken) toks = tree_tokens t"
  shows "parse_xml_node (toks, False) = Ok (annotate [] t)"
  using assms tree_read[of None "[]" t] by (simp add: parse_xml_node_def other_tokens_skipped[of _ toks])

text \<open>The innermost declaration of a prefix, given the attributes of the elements around, the innermost first.\<close>

definition declares :: "string \<Rightarrow> xml_attr \<Rightarrow> bool" where
  "declares p a \<longleftrightarrow>
     (xn_space (xa_name a) = ''xmlns'' \<and> xn_local (xa_name a) = p) \<or>
     (p = '''' \<and> xn_space (xa_name a) = '''' \<and> xn_local (xa_name a) = ''xmlns'')"

fun scoped_namespace :: "xml_attr list list \<Rightarrow> string \<Rightarrow> string option" where
  "scoped_namespace [] p = None"
| "scoped_namespace (attrs # around) p =
     (case find (declares p) (rev attrs) of Some a \<Rightarrow> Some (xa_value a) | None \<Rightarrow> scoped_namespace around p)"

lemma declared_lookup:
  "go_get (apply_namespace_decl ns attrs) p =
     (case find (declares p) (rev attrs) of Some a \<Rightarrow> Some (xa_value a) | None \<Rightarrow> go_get ns p)"
proof (induction attrs rule: rev_induct)
  case (snoc a attrs)
  then show ?case by (auto simp: apply_namespace_decl_def declares_def)
qed (simp add: apply_namespace_decl_def)

text \<open>The subtree at a path of child positions, and the attributes along the path.\<close>

fun subtree_at :: "xml_tree \<Rightarrow> nat list \<Rightarrow> xml_tree option" where
  "subtree_at t [] = Some t"
| "subtree_at (Elem name attrs ts) (i # is) = (if i < length ts then subtree_at (ts ! i) is else None)"

fun attrs_along :: "xml_tree \<Rightarrow> nat list \<Rightarrow> xml_attr list list" where
  "attrs_along (Elem name attrs ts) [] = [attrs]"
| "attrs_along (Elem name attrs ts) (i # is) = (if i < length ts then attrs_along (ts ! i) is @ [attrs] else [])"

fun node_at :: "xml_node \<Rightarrow> nat list \<Rightarrow> xml_node option" where
  "node_at node [] = Some node"
| "node_at node (i # is) = (if i < length (nd_children node) then node_at (nd_children node ! i) is else None)"

lemma scoped_append:
  "scoped_namespace (as @ bs) p = (case scoped_namespace as p of Some v \<Rightarrow> Some v | None \<Rightarrow> scoped_namespace bs p)"
  by (induction as) (auto split: option.splits)

lemma node_scopes:
  "subtree_at t path = Some (Elem name attrs ts) \<Longrightarrow>
     \<exists>node. node_at (annotate ns t) path = Some node \<and> nd_name node = name \<and> nd_attrs node = attrs \<and>
       (\<forall>p. go_get (nd_ns node) p =
          (case scoped_namespace (attrs_along t path) p of Some v \<Rightarrow> Some v | None \<Rightarrow> go_get ns p))"
proof (induction path arbitrary: t ns)
  case Nil
  then show ?case by (auto simp: declared_lookup split: option.splits)
next
  case (Cons i path)
  obtain name' attrs' us where t: "t = Elem name' attrs' us" by (cases t)
  with Cons.prems have i: "i < length us" and sub: "subtree_at (us ! i) path = Some (Elem name attrs ts)"
    by (simp_all split: if_splits)
  from Cons.IH[OF sub, of "apply_namespace_decl ns attrs'"] obtain node where
    node: "node_at (annotate (apply_namespace_decl ns attrs') (us ! i)) path = Some node"
      "nd_name node = name" "nd_attrs node = attrs"
    and ns: "\<And>p. go_get (nd_ns node) p = (case scoped_namespace (attrs_along (us ! i) path) p of
        Some v \<Rightarrow> Some v | None \<Rightarrow> go_get (apply_namespace_decl ns attrs') p)" by blast
  have "go_get (nd_ns node) p =
      (case scoped_namespace (attrs_along t (i # path)) p of Some v \<Rightarrow> Some v | None \<Rightarrow> go_get ns p)" for p
    using i by (simp add: ns t declared_lookup scoped_append split: option.split)
  with node i show ?case by (simp add: t)
qed

text \<open>
  C31: a document whose tokens, apart from text and comments, are those of a tree of elements is read
  as that tree: every element has its name and attributes, and the namespace a prefixed name stands
  for at an element is the one of the innermost declaration of the prefix among the element and those
  around it, the last of its attributes taking precedence; a prefix nobody declares is an error.
\<close>

theorem names_resolved_by_scope:
  assumes "filter (\<lambda>t. t \<noteq> OtherToken) toks = tree_tokens t"
    and "subtree_at t path = Some (Elem name attrs ts)"
    and "trim_space (p @ '':'' @ l) = p @ '':'' @ l" and "trim_space p = p" and "trim_space l = l"
    and "CHR '':'' \<notin> set p"
  shows "\<exists>root node. parse_xml_node (toks, False) = Ok root \<and> node_at root path = Some node \<and>
    nd_name node = name \<and> nd_attrs node = attrs \<and>
    parse_qname (p @ '':'' @ l) (nd_ns node) fallback =
      (case scoped_namespace (attrs_along t path) p of
         Some v \<Rightarrow> Ok \<lparr>qn_space = v, qn_local = l\<rparr>
       | None \<Rightarrow> Err (UndefinedPrefix p (p @ '':'' @ l)))"
proof -
  from node_scopes[OF assms(2), of "[]"] obtain node where
    node: "node_at (annotate [] t) path = Some node" "nd_name node = name" "nd_attrs node = attrs"
    and ns: "go_get (nd_ns node) p = scoped_namespace (attrs_along t path) p"
    by (fastforce split: option.splits)
  have "takeWhile (\<lambda>c. c \<noteq> CHR '':'') (p @ '':'' @ l) = p"
    and "dropWhile (\<lambda>c. c \<noteq> CHR '':'') (p @ '':'' @ l) = '':'' @ l"
    using assms(6) by (auto simp: takeWhile_append dropWhile_append)
  then have "parse_qname (p @ '':'' @ l) (nd_ns node) fallback =
      (case scoped_namespace (attrs_along t path) p of
         Some v \<Rightarrow> Ok \<lparr>qn_space = v, qn_local = l\<rparr>
       | None \<Rightarrow> Err (UndefinedPrefix p (p @ '':'' @ l)))"
    using assms(3-5) by (cases "scoped_namespace (attrs_along t path) p") (simp_all add: parse_qname_def ns Let_def)
  then show ?thesis using node tree_parsed[OF assms(1)] by blast
qed

definition demo_decl :: "string \<Rightarrow> string \<Rightarrow> xml_attr" where
  "demo_decl p v = \<lparr>xa_name = \<lparr>xn_space = ''xmlns'', xn_local = p\<rparr>, xa_value = v\<rparr>"

definition demo_name :: xml_name where
  "demo_name = \<lparr>xn_space = '''', xn_local = ''x''\<rparr>"

definition demo_document :: xml_tree where
  "demo_document = Elem demo_name [demo_decl ''p'' ''a'']
     [Elem demo_name [demo_decl ''q'' ''b''] [], Elem demo_name [demo_decl ''p'' ''c''] []]"

lemma names_resolved_by_scope_witness:
  "\<exists>root node. parse_xml_node (OtherToken # tree_tokens demo_document, False) = Ok root \<and> node_at root [1] = Some node \<and>
     nd_name node = demo_name \<and> nd_attrs node = [demo_decl ''p'' ''c''] \<and>
     parse_qname (''p'' @ '':'' @ ''l'') (nd_ns node) '''' = Ok \<lparr>qn_space = ''c'', qn_local = ''l''\<rparr>"
proof -
  have trims: "trim_space (''p'' @ '':'' @ ''l'') = ''p'' @ '':'' @ ''l''" "trim_space ''p'' = ''p''" "trim_space ''l'' = ''l''"
    by (rule trim_word, simp add: plain_char_def)+
  have "(case scoped_namespace (attrs_along demo_document [1]) ''p'' of
         Some v \<Rightarrow> Ok \<lparr>qn_space = v, qn_local = ''l''\<rparr>
       | None \<Rightarrow> Err (UndefinedPrefix ''p'' (''p'' @ '':'' @ ''l''))) = Ok \<lparr>qn_space = ''c'', qn_local = ''l''\<rparr>"
    by (simp add: demo_document_def declares_def demo_decl_def)
  moreover have "filter (\<lambda>t. t \<noteq> OtherToken) (OtherToken # tree_tokens demo_document) = tree_tokens demo_document"
    and "subtree_at demo_document [1] = Some (Elem demo_name [demo_decl ''p'' ''c''] [])"
    by (simp_all add: demo_document_def)
  ultimately show ?thesis
    using names_resolved_by_scope[of "OtherToken # tree_tokens demo_document" demo_document "[1]" demo_name
        "[demo_decl ''p'' ''c'']" "[]" "''p''" "''l''" "''''"] trims by simp
qed

section \<open>Imports end\<close>

text \<open>An answer of the parser itself: a value or an error other than the end of the fuel.\<close>

fun proper :: "(wsdl_error, 'a) outcome \<Rightarrow> bool" where
  "proper (Ok _) = True"
| "proper (Err e) = (e \<noteq> FuelUsedUp)"
| "proper Panic = False"

lemma proper_bind: "proper m \<Longrightarrow> (\<And>x. proper (f x)) \<Longrightarrow> proper (bindO m f)"
  by (cases m) auto

lemma proper_map [simp]: "proper (mapO f m) = proper m"
  by (cases m) auto

lemma proper_collect: "(\<And>x. proper (f x)) \<Longrightarrow> proper (collect f xs)"
  by (induction xs) (auto intro: proper_bind)

lemma proper_qname [simp]: "proper (parse_qname v ns fb)"
  by (auto simp: parse_qname_def Let_def split: option.split)

lemma proper_xml_node [simp]: "proper (parse_xml_node d)"
  by (auto simp: parse_xml_node_def Let_def split: option.split)

lemma parse_digits_not_Panic: "parse_digits n s \<noteq> Panic"
  by (induction n s rule: parse_digits.induct) auto

lemma parse_int_not_Panic: "parse_int s \<noteq> Panic"
  by (auto simp: parse_int_def parse_uint_def parse_digits_not_Panic bindO_eq_Panic_iff Let_def split: list.split)

lemma proper_occurs [simp]: "proper (parse_occurs v n)" "proper (parse_max_occurs v)"
  using parse_int_not_Panic
  by (auto simp: parse_occurs_def parse_max_occurs_def atoi_def Let_def split: outcome.split)

lemma proper_declarations [simp]:
  "proper (parse_element node)" "proper (parse_field node)" "proper (parse_sequence_fields node)"
  "proper (parse_complex_type node)" "proper (parse_simple_type node)"
proof -
  show field: "proper (parse_field node)" for node
    by (simp add: parse_field_def proper_bind)
  show seq: "proper (parse_sequence_fields node)" for node
    by (simp add: parse_sequence_fields_def proper_collect field)
  show "proper (parse_complex_type node)"
    by (simp add: parse_complex_type_def proper_collect seq)
qed (simp_all add: parse_element_def parse_simple_type_def split: option.split)

text \<open>The files that have not been loaded.\<close>

definition unloaded :: "wsdl_env \<Rightarrow> visited \<Rightarrow> nat" where
  "unloaded env seen = length (filter (\<lambda>(path, d). path \<notin> set seen) (we_files env))"

lemma filter_shorter: "(\<And>x. P x \<Longrightarrow> Q x) \<Longrightarrow> length (filter P xs) \<le> length (filter Q xs)"
  by (induction xs) (auto intro: le_SucI)

lemma unloaded_mono: "set seen \<subseteq> set seen' \<Longrightarrow> unloaded env seen' \<le> unloaded env seen"
  unfolding unloaded_def by (rule filter_shorter) auto

lemma unloaded_less:
  assumes "go_get (we_files env) p = Some d" and "p \<notin> set seen"
  shows "unloaded env (p # seen) < unloaded env seen"
proof -
  have "length (filter (\<lambda>(q, d). q \<notin> set (p # seen)) fs) < length (filter (\<lambda>(q, d). q \<notin> set seen) fs)"
    if "(p, d) \<in> set fs" for fs
    using that
  proof (induction fs)
    case (Cons x fs)
    have "length (filter (\<lambda>(q, d). q \<notin> set (p # seen)) fs) \<le> length (filter (\<lambda>(q, d). q \<notin> set seen) fs)"
      by (rule filter_shorter) auto
    with Cons assms(2) show ?case by (cases x) auto
  qed simp
  with assms(1) show ?thesis by (simp add: unloaded_def go_get_in_set)
qed

lemma load_result:
  assumes "load env base_dir location seen = (r, seen')"
  shows "proper r \<and> set seen \<subseteq> set seen' \<and>
    (\<forall>d next. r = Ok (Some d, next) \<longrightarrow> unloaded env seen' < unloaded env seen)"
  using assms by (auto simp: load_def Let_def unloaded_less split: if_splits option.splits)

text \<open>\<open>f\<close> is a loader that ends when at most \<open>n\<close> files are left, and \<open>g\<close> agrees with it then.\<close>

definition settles :: "wsdl_env \<Rightarrow> nat \<Rightarrow> schema_loader \<Rightarrow> schema_loader \<Rightarrow> bool" where
  "settles env n f g \<longleftrightarrow> (\<forall>location seen. unloaded env seen < n \<longrightarrow>
     proper (fst (f location seen)) \<and> set seen \<subseteq> set (snd (f location seen)) \<and> g location seen = f location seen)"

lemma settles_children:
  assumes "settles env n f g" and "unloaded env seen < n"
  shows "proper (fst (schema_children f children sc imported seen)) \<and>
    set seen \<subseteq> set (snd (schema_children f children sc imported seen)) \<and>
    schema_children g children sc imported seen = schema_children f children sc imported seen"
  using assms(2)
proof (induction children arbitrary: sc imported seen)
  case (Cons child children)
  note IH = Cons.IH[OF Cons.prems]
  consider (element) "has_name xsd_namespace ''element'' child"
    | (complex) "\<not> has_name xsd_namespace ''element'' child" "has_name xsd_namespace ''complexType'' child"
    | (other) "\<not> has_name xsd_namespace ''element'' child" "\<not> has_name xsd_namespace ''complexType'' child"
    by blast
  then show ?case
  proof cases
    case element
    then show ?thesis using IH proper_declarations(1)[of child]
      by (auto simp del: proper_declarations split: outcome.split)
  next
    case complex
    then show ?thesis using IH proper_declarations(4)[of child]
      by (auto simp del: proper_declarations split: outcome.split)
  next
    case other
    define loc where "loc = attr child ''schemaLocation''"
    obtain r seen' where f: "f loc seen = (r, seen')" by fastforce
    from assms(1) Cons.prems f have "proper r" "set seen \<subseteq> set seen'" "g loc seen = (r, seen')"
      unfolding settles_def by (metis fst_conv snd_conv)+
    moreover from this have less: "unloaded env seen' < n"
      using Cons.prems unloaded_mono le_less_trans by blast
    moreover have "set seen \<subseteq> set (snd (schema_children f children sc imported seen'))" for sc imported
      using Cons.IH[OF less] \<open>set seen \<subseteq> set seen'\<close> by blast
    ultimately show ?thesis
      using other IH Cons.IH[OF less] f proper_declarations(5)[of child]
      by (auto simp: loc_def[symmetric] Let_def simp del: proper_declarations split: outcome.split)
  qed
qed simp

lemma settles_imports: "settles env n (parse_imported_schema n env base_dir) (parse_imported_schema (n + k) env base_dir)"
proof (induction n arbitrary: base_dir)
  case (Suc n)
  have "proper (fst (parse_imported_schema (Suc n) env base_dir location seen)) \<and>
      set seen \<subseteq> set (snd (parse_imported_schema (Suc n) env base_dir location seen)) \<and>
      parse_imported_schema (Suc n + k) env base_dir location seen =
        parse_imported_schema (Suc n) env base_dir location seen"
    if less: "unloaded env seen < Suc n" for location seen
  proof -
    obtain r seen' where l: "load env base_dir location seen = (r, seen')" by fastforce
    from load_result[OF l] have r: "proper r" "set seen \<subseteq> set seen'"
      and drop: "\<And>d next. r = Ok (Some d, next) \<Longrightarrow> unloaded env seen' < n"
      using less by auto
    show ?thesis
    proof (cases r)
      case (Ok p)
      obtain data base where p: "p = (data, base)" by (cases p)
      show ?thesis
      proof (cases data)
        case None
        then show ?thesis using l Ok p r by simp
      next
        case (Some d)
        with drop Ok p have "unloaded env seen' < n" by simp
        note inner = settles_children[OF Suc.IH this]
        show ?thesis
        proof (cases "parse_xml_node d")
          case (Ok root)
          from inner[of base "nd_children root" "empty_schema (attr root ''targetNamespace'')" "[]"] r(2)
          show ?thesis using l \<open>r = _\<close> p Some Ok by (auto simp: parse_schema_node_def)
        qed (use l Ok p Some r proper_xml_node[of d] in \<open>auto simp del: proper_xml_node\<close>)
      qed
    qed (use l r in auto)
  qed
  then show ?case by (simp add: settles_def)
qed (simp add: settles_def)

lemma imports_settle:
  "proper (fst (parse_imported_schema (import_fuel env) env base_dir location seen)) \<and>
   parse_imported_schema (import_fuel env + k) env base_dir location seen =
     parse_imported_schema (import_fuel env) env base_dir location seen"
proof -
  have "unloaded env seen < import_fuel env"
    by (simp add: unloaded_def import_fuel_def le_imp_less_Suc)
  with settles_imports[of env "import_fuel env" base_dir k] show ?thesis
    by (simp add: settles_def)
qed

lemma proper_schemas: "proper (fst (parse_schemas env base_dir nodes seen))"
proof (induction nodes arbitrary: seen)
  case (Cons node nodes)
  have "settles env (import_fuel env) (parse_imported_schema (import_fuel env) env base_dir)
      (parse_imported_schema (import_fuel env) env base_dir)"
    using settles_imports[of env "import_fuel env" base_dir 0] by simp
  then have "proper (fst (parse_schema_node (parse_imported_schema (import_fuel env) env) base_dir node seen))"
    unfolding parse_schema_node_def
    by (rule settles_children[THEN conjunct1]) (simp add: unloaded_def import_fuel_def le_imp_less_Suc)
  with Cons show ?case by (auto split: outcome.splits prod.splits)
qed simp

lemma proper_port_types: "proper (port_types_loop target nodes result)"
proof (induction nodes arbitrary: result)
  case (Cons node nodes)
  have "proper (parse_port_type_operation target n)" for n
    by (simp add: parse_port_type_operation_def message_of_def proper_bind split: option.split)
  with Cons show ?case by (auto simp: Let_def intro!: proper_bind proper_collect)
qed simp

lemma proper_binding: "proper (parse_binding target all node)"
proof -
  have "proper (parse_binding_operation style ops n)" for style ops n
    by (simp add: parse_binding_operation_def Let_def)
  then show ?thesis by (auto simp: parse_binding_def Let_def intro!: proper_bind proper_collect)
qed

lemma proper_definitions: "proper (parse_definitions env base_dir root)"
proof -
  have part: "proper (parse_part target n)" for target n
    by (simp add: parse_part_def proper_bind)
  have port: "proper (parse_port target n)" for target n
    by (simp add: parse_port_def)
  show ?thesis
    unfolding parse_definitions_def Let_def parse_types_def parse_port_type_operations_def parse_messages_def
      parse_bindings_def parse_services_def
    by (auto intro!: proper_bind proper_collect part port proper_schemas proper_port_types proper_binding)
qed

text \<open>
  C30: parsing a WSDL file returns: whatever the document and the files it imports, be they imported
  in a cycle, the answer is a model or an error of the parser; it does not panic, and the fuel the
  model gives to the imports, one more than there are files, is never used up and any more of it
  gives the same answer, so that the answer is that of the unbounded recursion of the code.
\<close>

theorem wsdl_parsing_ends:
  "parse_wsdl env data base_dir \<noteq> Panic \<and> parse_wsdl env data base_dir \<noteq> Err FuelUsedUp \<and>
   fst (parse_imported_schema (import_fuel env) env dir location seen) \<noteq> Err FuelUsedUp \<and>
   parse_imported_schema (import_fuel env + k) env dir location seen =
     parse_imported_schema (import_fuel env) env dir location seen"
proof -
  have "proper (parse_wsdl env data base_dir)"
    using proper_definitions[of env base_dir] proper_xml_node[of data]
    by (auto simp: parse_wsdl_def simp del: proper_xml_node split: outcome.split)
  then have "parse_wsdl env data base_dir \<noteq> Panic" "parse_wsdl env data base_dir \<noteq> Err FuelUsedUp" by auto
  moreover have "fst (parse_imported_schema (import_fuel env) env dir location seen) \<noteq> Err FuelUsedUp"
    using imports_settle[of env dir location seen 0] by auto
  ultimately show ?thesis using imports_settle by blast
qed

section \<open>Merging schemas\<close>

text \<open>What a merge is to give: for each namespace, in the order of first mention, all that is declared in it.\<close>

definition first_targets :: "schema list \<Rightarrow> string list" where
  "first_targets scs = rev (remdups (rev (map sc_target scs)))"

definition merged_of :: "schema list \<Rightarrow> string \<Rightarrow> schema" where
  "merged_of scs t =
     (let own = filter (\<lambda>sc. sc_target sc = t) scs
      in \<lparr>sc_target = t, sc_elements = concat (map sc_elements own),
          sc_complex = concat (map sc_complex own), sc_simple = concat (map sc_simple own)\<rparr>)"

lemma first_targets_snoc:
  "first_targets (scs @ [sc]) =
     (if sc_target sc \<in> set (first_targets scs) then first_targets scs else first_targets scs @ [sc_target sc])"
  by (auto simp: first_targets_def)

lemma merged_of_snoc:
  "merged_of (scs @ [sc]) t =
     (if sc_target sc = t
      then (merged_of scs t)\<lparr>sc_elements := sc_elements (merged_of scs t) @ sc_elements sc,
             sc_complex := sc_complex (merged_of scs t) @ sc_complex sc,
             sc_simple := sc_simple (merged_of scs t) @ sc_simple sc\<rparr>
      else merged_of scs t)"
  by (simp add: merged_of_def Let_def)

lemma merged_of_new: "t \<notin> set (first_targets scs) \<Longrightarrow> merged_of scs t = empty_schema t"
proof -
  assume "t \<notin> set (first_targets scs)"
  then have "filter (\<lambda>sc. sc_target sc = t) scs = []" by (auto simp: first_targets_def filter_empty_conv)
  then show ?thesis by (simp add: merged_of_def empty_schema_def)
qed

lemma merged_target [simp]: "sc_target (merged_of scs t) = t"
  by (simp add: merged_of_def Let_def)

lemma merge_invariant:
  "snd (foldl merge_step ([], []) scs) = map (merged_of scs) (first_targets scs) \<and>
   (\<forall>t i. go_get (fst (foldl merge_step ([], []) scs)) t = Some i \<longleftrightarrow>
      i < length (first_targets scs) \<and> first_targets scs ! i = t)"
proof (induction scs rule: rev_induct)
  case Nil
  then show ?case by (simp add: first_targets_def)
next
  case (snoc sc scs)
  define t where "t = sc_target sc"
  obtain places merged where s: "foldl merge_step ([], []) scs = (places, merged)" by fastforce
  with snoc have merged: "merged = map (merged_of scs) (first_targets scs)"
    and places: "\<And>u i. go_get places u = Some i \<longleftrightarrow> i < length (first_targets scs) \<and> first_targets scs ! i = u"
    by auto
  have step: "foldl merge_step ([], []) (scs @ [sc]) = merge_step (places, merged) sc" by (simp add: s)
  have d: "distinct (first_targets scs)" by (simp add: first_targets_def)
  show ?case
  proof (cases "go_get places t")
    case None
    then have new: "t \<notin> set (first_targets scs)"
      using places[of t] by (metis in_set_conv_nth option.distinct(1))
    have "sc = (merged_of (scs @ [sc]) t)"
      using merged_of_new[OF new] by (simp add: merged_of_snoc t_def empty_schema_def)
    moreover have "map (merged_of scs) (first_targets scs) = map (merged_of (scs @ [sc])) (first_targets scs)"
      using new by (auto simp: merged_of_snoc t_def)
    ultimately show ?thesis
      unfolding step
      using None new places by (auto simp: merge_step_def merged first_targets_snoc t_def[symmetric] nth_append less_Suc_eq)
  next
    case (Some i)
    with places have i: "i < length (first_targets scs)" "first_targets scs ! i = t" by auto
    then have old: "t \<in> set (first_targets scs)" by auto
    have other: "first_targets scs ! j \<noteq> t" if "j < length (first_targets scs)" "j \<noteq> i" for j
      using that i d by (metis nth_eq_iff_index_eq)
    have same: "merged_of (scs @ [sc]) (first_targets scs ! j) = merged_of scs (first_targets scs ! j)"
      if "j < length (first_targets scs)" "j \<noteq> i" for j
      using other[OF that] by (simp add: merged_of_snoc t_def)
    have "(map (merged_of scs) (first_targets scs))[i := merged_of (scs @ [sc]) t] =
        map (merged_of (scs @ [sc])) (first_targets scs)"
      using i by (intro nth_equalityI) (auto simp: nth_list_update same)
    then have "merge_step (places, merged) sc = (places, map (merged_of (scs @ [sc])) (first_targets scs))"
      using Some i by (simp add: merge_step_def merged t_def[symmetric] merged_of_snoc)
    then show ?thesis
      unfolding step using old places by (simp add: first_targets_snoc t_def[symmetric])
  qed
qed

text \<open>
  Merging the schemas of a file gives one schema for each namespace, in the order in which the
  namespaces are first met, with all the elements, complex and simple types declared in it in any
  of its schemas and in their order.
\<close>

theorem schemas_merged_by_namespace:
  "merge_schemas scs = map (merged_of scs) (first_targets scs) \<and> distinct (map sc_target (merge_schemas scs))"
  using merge_invariant[of scs] by (simp add: merge_schemas_def comp_def first_targets_def)

section \<open>What the model leaves out\<close>

text \<open>
  An element whose type is written inside of it is read as an element without a type, and a field
  that refers to a global element as a field with neither name nor type.
\<close>

lemma inline_type_is_lost:
  "attr node ''type'' = '''' \<Longrightarrow> parse_element node = Ok \<lparr>el_name = attr node ''name'', el_type = no_qname\<rparr>"
  by (simp add: parse_element_def parse_qname_def Let_def)

lemma reference_is_lost:
  assumes "attr node ''name'' = ''''" and "attr node ''type'' = ''''" and "parse_field node = Ok f"
  shows "fd_name f = '''' \<and> fd_type f = no_qname"
  using assms by (auto simp: parse_field_def parse_qname_def bindO_eq_Ok_iff Let_def)

text \<open>
  Of a complex type only sequences directly below it are read: with \<open>xsd:all\<close>, a group or
  \<open>xsd:complexContent\<close> it has no fields, and a choice inside of these is not reported.
\<close>

lemma only_sequences_are_read:
  assumes "list_all (\<lambda>c. \<not> has_name xsd_namespace ''choice'' c \<and> \<not> has_name xsd_namespace ''sequence'' c) (nd_children node)"
  shows "parse_complex_type node = Ok \<lparr>ct_name = attr node ''name'', ct_fields = []\<rparr>"
proof -
  have "collect (\<lambda>child. if has_name xsd_namespace ''choice'' child then Err UnsupportedXSDChoice
      else if has_name xsd_namespace ''sequence'' child then parse_sequence_fields child else Ok []) cs =
      Ok (replicate (length cs) [])"
    if "list_all (\<lambda>c. \<not> has_name xsd_namespace ''choice'' c \<and> \<not> has_name xsd_namespace ''sequence'' c) cs" for cs
    using that by (induction cs) auto
  from this[OF assms] show ?thesis by (simp add: parse_complex_type_def)
qed

text \<open>A binding to a port type of another namespace gets the operations of the port type with that local name.\<close>

lemma other_namespace_is_taken:
  "find_port_type_operations [(''urn:here|Echo'', ops)] \<lparr>qn_space = ''urn:there'', qn_local = ''Echo''\<rparr> = ops"
  by (simp add: find_port_type_operations_def qname_key_def has_prefix_def go_get_def)

end
