(* ===== verification/CodegenFacts.thy ===== *)
theory CodegenFacts
  imports WsdlCodegen WsdlFacts
begin

text \<open>
  The code generator: the identifiers made from names of a WSDL file, the operations that the
  generated files have in common, and the files that are generated.
\<close>

section \<open>Identifiers\<close>

definition alnum :: "unicode_tables \<Rightarrow> rune \<Rightarrow> bool" where
  "alnum u r \<longleftrightarrow> ut_letter u r \<or> ut_digit u r"

definition words_text :: "rune list list \<times> rune list \<Rightarrow> rune list" where
  "words_text s = concat (fst s) @ snd s"

lemma flush_text [simp]: "words_text (flush_word s) = words_text s"
  by (cases s) (simp add: flush_word_def words_text_def)

lemma word_step_text: "words_text (word_step u s r) = words_text s @ filter (alnum u) [r]"
proof (cases "ut_letter u r \<or> ut_digit u r")
  case True
  define s' where "s' = (if snd s \<noteq> [] \<and> ut_upper u r \<and> has_lower u (snd s) then flush_word s else s)"
  have "words_text s' = words_text s" by (simp add: s'_def)
  moreover have "word_step u s r = (fst s', snd s' @ [r])"
    using True by (simp add: word_step_def s'_def case_prod_beta)
  ultimately show ?thesis using True by (simp add: words_text_def alnum_def)
qed (simp add: word_step_def alnum_def)

lemma words_fold_text: "words_text (foldl (word_step u) s rs) = words_text s @ filter (alnum u) rs"
  by (induction rs arbitrary: s) (simp_all add: word_step_text)

lemma flush_done: "snd (flush_word s) = []"
  by (cases s) (simp add: flush_word_def)

lemma words_concat: "concat (split_identifier_words u rs) = filter (alnum u) rs"
  using words_fold_text[of u "([], [])" rs] flush_text[of "foldl (word_step u) ([], []) rs"]
    flush_done[of "foldl (word_step u) ([], []) rs"]
  by (simp add: split_identifier_words_def words_text_def)

definition words_ok :: "rune list list \<times> rune list \<Rightarrow> bool" where
  "words_ok s \<longleftrightarrow> [] \<notin> set (fst s)"

lemma words_ok_flush: "words_ok s \<Longrightarrow> words_ok (flush_word s)"
  by (cases s) (auto simp: words_ok_def flush_word_def)

lemma words_ok_step: "words_ok s \<Longrightarrow> words_ok (word_step u s r)"
  using words_ok_flush[of s] by (auto simp: word_step_def words_ok_def split: prod.splits)

lemma words_nonempty: "[] \<notin> set (split_identifier_words u rs)"
proof -
  have "words_ok (foldl (word_step u) s rs)" if "words_ok s" for s
    using that by (induction rs arbitrary: s) (simp_all add: words_ok_step)
  from words_ok_flush[OF this[of "([], [])"]] show ?thesis
    by (simp add: words_ok_def split_identifier_words_def)
qed

text \<open>With the tables of ASCII, on runes below 128.\<close>

definition ascii_alnum :: "rune \<Rightarrow> bool" where
  "ascii_alnum r \<longleftrightarrow> ascii_lower r \<or> ascii_upper r \<or> ascii_digit r"

definition lower_rune :: "rune \<Rightarrow> rune" where
  "lower_rune r = (if ascii_upper r then r + 32 else r)"

lemmas ascii_defs = ascii_alnum_def ascii_lower_def ascii_upper_def ascii_digit_def lower_rune_def

lemma ascii_alnum_small: "ascii_alnum r \<Longrightarrow> r < 128"
  by (auto simp: ascii_defs)

lemma capitalised_word:
  assumes "ascii_tables u" and "w \<noteq> []" and "\<forall>r\<in>set w. ascii_alnum r"
  shows "\<exists>r rs. capitalise u w = r # rs \<and> \<not> ascii_lower r \<and> ascii_alnum r \<and> (\<forall>q\<in>set rs. ascii_alnum q \<and> \<not> ascii_upper q) \<and>
    map lower_rune (capitalise u w) = map lower_rune w"
proof -
  obtain a as where w: "w = a # as" using assms(2) by (cases w) auto
  have low: "ut_to_lower u q = lower_rune q \<and> ascii_alnum (lower_rune q) \<and> \<not> ascii_upper (lower_rune q)" if "ascii_alnum q" for q
  proof -
    have "q < 128" using that by (auto simp: ascii_defs)
    with assms(1) that show ?thesis by (auto simp: ascii_tables_def ascii_defs)
  qed
  have up: "ut_to_upper u q = (if ascii_lower q then q - 32 else q)" if "ascii_alnum q" for q
  proof -
    have "q < 128" using that by (auto simp: ascii_defs)
    with assms(1) show ?thesis by (auto simp: ascii_tables_def)
  qed
  have same: "lower_rune (lower_rune q) = lower_rune q" for q
    by (auto simp: ascii_defs)
  have a: "ascii_alnum a" and as: "\<forall>r\<in>set as. ascii_alnum r" using assms(3) w by auto
  have head: "ut_to_upper u (ut_to_lower u a) = (if ascii_lower (lower_rune a) then lower_rune a - 32 else lower_rune a)"
    using low[OF a] up[of "lower_rune a"] by simp
  have tail: "map (ut_to_lower u) as = map lower_rune as" using as low by simp
  have "capitalise u w = ut_to_upper u (ut_to_lower u a) # map lower_rune as"
    by (simp add: capitalise_def w map_head_def tail)
  moreover have "\<not> ascii_lower (ut_to_upper u (ut_to_lower u a)) \<and> ascii_alnum (ut_to_upper u (ut_to_lower u a)) \<and>
      lower_rune (ut_to_upper u (ut_to_lower u a)) = lower_rune a"
    unfolding head using low[OF a] by (auto simp: ascii_defs)
  moreover have "\<forall>q\<in>set (map lower_rune as). ascii_alnum q \<and> \<not> ascii_upper q" using as low by auto
  ultimately show ?thesis by (simp add: w same comp_def)
qed

lemma of_runes_ascii: "\<forall>r\<in>set rs. r < 128 \<Longrightarrow> map of_char (of_runes rs) = rs"
  by (induction rs) (simp_all add: of_runes_def encode_rune_def)

lemma alnum_ascii: "ascii_tables u \<Longrightarrow> r < 128 \<Longrightarrow> alnum u r = ascii_alnum r"
  by (auto simp: alnum_def ascii_tables_def ascii_alnum_def)

definition ascii_text :: "string \<Rightarrow> bool" where
  "ascii_text s \<longleftrightarrow> list_all (\<lambda>c. of_char c < (128 :: nat)) s"

text \<open>
  The Go name made from a name and a prefix in ASCII consists of their letters and digits in
  order, with nothing changed but the case, and does not begin with a small letter; so it is empty
  just when there is no letter or digit, and it is an exported identifier unless it begins with a digit.
\<close>

theorem generated_names:
  assumes "ascii_tables u" and "ascii_text prefix" and "ascii_text name"
  shows "let n = map of_char (type_name u name prefix)
    in map lower_rune n = map lower_rune (filter ascii_alnum (map of_char (prefix @ name))) \<and>
       (n = [] \<or> ascii_upper (hd n) \<or> ascii_digit (hd n))"
proof -
  define rs where "rs = map (of_char :: char \<Rightarrow> nat) (prefix @ '' '' @ name)"
  define ws where "ws = split_identifier_words u rs"
  have ascii: "\<forall>r\<in>set rs. r < 128" using assms(2,3) by (auto simp: rs_def ascii_text_def list_all_iff)
  have runes: "runes (prefix @ '' '' @ name) = rs"
    unfolding rs_def by (rule runes_ascii) (use assms(2,3) in \<open>simp add: ascii_text_def\<close>)
  have joined: "concat ws = filter ascii_alnum rs"
    using ascii alnum_ascii[OF assms(1)] by (auto simp: ws_def words_concat intro!: filter_cong)
  have "\<not> ascii_alnum 32" by (simp add: ascii_defs)
  then have rs: "filter ascii_alnum rs = filter ascii_alnum (map of_char (prefix @ name))"
    by (simp add: rs_def)
  have word: "w \<noteq> [] \<and> (\<forall>r\<in>set w. ascii_alnum r)" if "w \<in> set ws" for w
  proof -
    have "set w \<subseteq> set (concat ws)" using that by auto
    with that words_nonempty[of u rs] show ?thesis unfolding joined by (auto simp: ws_def)
  qed
  define out where "out = concat (map (capitalise u) ws)"
  have lower: "map lower_rune (concat (map (capitalise u) vs)) = map lower_rune (concat vs)" if "set vs \<subseteq> set ws" for vs
    using that
  proof (induction vs)
    case (Cons v vs)
    then show ?case using capitalised_word[OF assms(1)] word[of v] by auto
  qed simp
  have "\<forall>r\<in>set (capitalise u w). ascii_alnum r" if "w \<in> set ws" for w
    using capitalised_word[OF assms(1), of w] word[OF that] by auto
  then have chars: "\<forall>r\<in>set out. ascii_alnum r" by (auto simp: out_def)
  then have small: "\<forall>r\<in>set out. r < 128" using ascii_alnum_small by blast
  have name: "map of_char (type_name u name prefix) = out"
    unfolding type_name_def runes ws_def[symmetric] out_def[symmetric] by (rule of_runes_ascii[OF small])
  have "out = [] \<or> ascii_upper (hd out) \<or> ascii_digit (hd out)"
  proof (cases ws)
    case (Cons v vs)
    with word[of v] capitalised_word[OF assms(1), of v] obtain r qs
      where "capitalise u v = r # qs" "\<not> ascii_lower r" "ascii_alnum r" by auto
    then show ?thesis by (simp add: out_def Cons ascii_alnum_def)
  qed (simp add: out_def)
  moreover have "map lower_rune out = map lower_rune (filter ascii_alnum (map of_char (prefix @ name)))"
    using lower[of ws] joined rs by (simp add: out_def)
  ultimately show ?thesis by (simp add: name Let_def)
qed

definition demo_tables :: unicode_tables where
  "demo_tables =
     \<lparr>ut_letter = (\<lambda>r. ascii_lower r \<or> ascii_upper r), ut_digit = ascii_digit, ut_upper = ascii_upper,
      ut_lower = ascii_lower, ut_print = (\<lambda>r. 32 \<le> r \<and> r < 127),
      ut_to_upper = (\<lambda>r. if ascii_lower r then r - 32 else r),
      ut_to_lower = (\<lambda>r. if ascii_upper r then r + 32 else r)\<rparr>"

lemma demo_tables_ascii: "ascii_tables demo_tables"
  by (simp add: ascii_tables_def demo_tables_def)

lemma generated_names_witness:
  "type_name demo_tables ''get_userName'' ''API'' = ''ApiGetUserName'' \<and>
   map lower_rune (map of_char (type_name demo_tables ''get_userName'' ''API'')) =
     map lower_rune (filter ascii_alnum (map of_char (''API'' @ ''get_userName'')))"
proof -
  have "type_name demo_tables ''get_userName'' ''API'' = ''ApiGetUserName''" by code_simp
  moreover have "ascii_text ''API''" "ascii_text ''get_userName''" by (simp_all add: ascii_text_def)
  ultimately show ?thesis using generated_names[OF demo_tables_ascii, of "''API''" "''get_userName''"]
    by (simp add: Let_def)
qed

text \<open>
  Names that differ in case or punctuation only become the same Go name, and the generated files
  then do not compile; a name that begins with a digit becomes no identifier at all.
\<close>

lemma names_collide:
  "type_name demo_tables ''fooBar'' '''' = type_name demo_tables ''foo-bar'' ''''"
  "type_name demo_tables ''2fa'' '''' = ''2fa''"
  by code_simp+

section \<open>The operations of the generated files\<close>

text \<open>The first operation of each name, other than the names seen.\<close>

fun first_operations :: "string set \<Rightarrow> binding_operation list \<Rightarrow> binding_operation list" where
  "first_operations seen [] = []"
| "first_operations seen (p # ps) =
     (if bo_name p \<in> seen then first_operations seen ps else p # first_operations (insert (bo_name p) seen) ps)"

lemma first_operations_names: "bo_name ` set (first_operations seen ps) = bo_name ` set ps - seen"
  by (induction seen ps rule: first_operations.induct) auto

lemma first_operations_distinct: "distinct (map bo_name (first_operations seen ps))"
proof (induction seen ps rule: first_operations.induct)
  case (2 seen p ps)
  have "bo_name p \<notin> bo_name ` set (first_operations (insert (bo_name p) seen) ps)"
    by (simp only: first_operations_names) simp
  with 2 show ?case by auto
qed simp

definition metadata :: "wsdl_model \<Rightarrow> binding_operation \<Rightarrow> (codegen_error, operation_metadata) outcome" where
  "metadata m p =
     mapO (\<lambda>(request, response). \<lparr>om_name = bo_name p, om_request = request, om_response = response\<rparr>)
       (find_operation_wrappers m p)"

definition descriptor :: "unicode_tables \<Rightarrow> wsdl_model \<Rightarrow> binding_operation \<Rightarrow> (codegen_error, string) outcome" where
  "descriptor u m p =
     mapO (\<lambda>(request, response). operation_text u (bo_name p) (bo_action p) request response) (find_operation_wrappers m p)"

lemma mapO_mapO: "mapO f (mapO g m) = mapO (\<lambda>x. f (g x)) m"
  by (cases m) auto

lemma operations_loop_collect:
  "operations_loop m ps seen = mapO ((@) seen) (collect (metadata m) (first_operations (om_name ` set seen) ps))"
proof (induction ps arbitrary: seen)
  case (Cons p ps)
  show ?case
  proof (cases "find_operation_wrappers m p")
    case (Ok w)
    obtain request response where "w = (request, response)" by (cases w)
    with Ok Cons show ?thesis by (simp add: metadata_def mapO_mapO)
  qed (simp_all add: Cons metadata_def)
qed simp

lemma operation_texts_collect:
  "operation_texts u m ps seen body =
     mapO (\<lambda>ts. body @ concat ts) (collect (descriptor u m) (first_operations (set seen) ps))"
proof (induction ps arbitrary: seen body)
  case (Cons p ps)
  show ?case
  proof (cases "find_operation_wrappers m p")
    case (Ok w)
    obtain request response where "w = (request, response)" by (cases w)
    with Ok Cons show ?thesis by (simp add: descriptor_def mapO_mapO)
  qed (simp_all add: Cons descriptor_def)
qed simp

lemma collect_Ok: "collect f xs = Ok ys \<Longrightarrow> length ys = length xs \<and> (\<forall>i<length xs. f (xs ! i) = Ok (ys ! i))"
proof (induction xs arbitrary: ys)
  case (Cons x xs)
  then obtain y zs where "f x = Ok y" "collect f xs = Ok zs" "ys = y # zs"
    by (auto simp: bindO_eq_Ok_iff mapO_eq_Ok_iff)
  with Cons.IH[of zs] show ?case by (auto simp: nth_Cons split: nat.split)
qed simp

lemma collect_same_error:
  assumes "\<And>x. f x = mapO (h x) (w x)" and "\<And>x. g x = mapO (k x) (w x)"
  shows "(\<exists>ys. collect f xs = Ok ys) \<longleftrightarrow> (\<exists>zs. collect g xs = Ok zs)"
proof (induction xs)
  case (Cons x xs)
  then show ?case by (auto simp: assms bindO_eq_Ok_iff mapO_eq_Ok_iff)
qed simp

text \<open>
  The operations file on one side, client and handler on the other collect the operations of the
  bindings separately, but from the same list: the first operation of each name, every name once.
  Either both fail or both succeed, and then the operations file has a descriptor for exactly the
  operations the client and the handler mention, in the same order and with the same wrappers, which
  are the elements of the first parts of the messages.
\<close>

theorem one_list_of_operations:
  "let ps = concat (map bi_operations (wm_bindings m)); firsts = first_operations {} ps
   in list_operations m = collect (metadata m) firsts \<and>
      operation_texts u m ps [] '''' = mapO concat (collect (descriptor u m) firsts) \<and>
      ((\<exists>operations. list_operations m = Ok operations) = (\<exists>body. operation_texts u m ps [] '''' = Ok body)) \<and>
      distinct (map bo_name firsts) \<and> bo_name ` set firsts = bo_name ` set ps"
proof -
  define ps where "ps = concat (map bi_operations (wm_bindings m))"
  define firsts where "firsts = first_operations {} ps"
  have list: "list_operations m = collect (metadata m) firsts"
    by (simp add: list_operations_def operations_loop_collect ps_def firsts_def)
      (cases "collect (metadata m) (first_operations {} (concat (map bi_operations (wm_bindings m))))"; simp)
  have texts: "operation_texts u m ps [] '''' = mapO concat (collect (descriptor u m) firsts)"
    by (simp add: operation_texts_collect firsts_def)
  have "(\<exists>ys. collect (metadata m) firsts = Ok ys) = (\<exists>zs. collect (descriptor u m) firsts = Ok zs)"
    by (rule collect_same_error[OF metadata_def descriptor_def])
  then have "(\<exists>operations. list_operations m = Ok operations) = (\<exists>body. operation_texts u m ps [] '''' = Ok body)"
    by (auto simp: list texts mapO_eq_Ok_iff)
  with list texts show ?thesis
    using first_operations_names[of "{}" ps] first_operations_distinct[of "{}" ps]
    by (simp add: Let_def ps_def[symmetric] firsts_def[symmetric])
qed

section \<open>Types declared twice, imports without use\<close>

text \<open>An element and a complex type of one name, which XML schema allows, are both declared under it.\<close>

lemma element_and_type_declared:
  assumes "ct_name t = el_name e"
  shows "let declaration = ''type '' @ type_name u (el_name e) (cg_type_prefix cfg) @ '' struct {''
    in has_prefix (complex_type_text u cfg ix t) declaration \<and> has_prefix (element_text u cfg ix target e) declaration"
  using assms by (simp add: complex_type_text_def element_text_def struct_text_def text_lines_def has_prefix_def Let_def)

text \<open>A field whose type is a declared type named \<open>date\<close> makes the types file import \<open>time\<close>, which it does not use.\<close>

lemma time_imported_in_vain:
  "let f = \<lparr>fd_name = ''on'', fd_type = \<lparr>qn_space = ''urn:x'', qn_local = ''date''\<rparr>, fd_min_occurs = 1,
            fd_max_occurs = 1, fd_nillable = False\<rparr>;
       sc = (empty_schema ''urn:x'')\<lparr>sc_complex := [\<lparr>ct_name = ''T'', ct_fields = [f]\<rparr>]\<rparr>;
       m = \<lparr>wm_target = '''', wm_schemas = [sc], wm_messages = [], wm_bindings = [], wm_services = []\<rparr>
   in collect_type_imports m = [''time''] \<and>
      go_type_for_qname demo_tables (fd_type f) False False '''' (build_type_index m) = ''Date''"
proof -
  have trims: "trim_space ''date'' = ''date''" by (rule trim_word) (simp add: plain_char_def)
  have name: "type_name demo_tables ''date'' '''' = ''Date''" by code_simp
  have differ: "xsd_namespace \<noteq> ''urn:x''" by (simp add: xsd_namespace_def)
  show ?thesis
    using differ
    by (simp add: collect_type_imports_def has_element_types_def uses_time_types_def empty_schema_def map_xsd_type_def
        go_type_for_qname_def name trims apply_type_modifiers_def has_prefix_def Let_def)
qed

text \<open>The type \<open>integer\<close>, which has no bound, becomes \<open>int32\<close>, and the unsigned types become names that are not declared.\<close>

lemma numbers_narrowed:
  "map_xsd_type ''integer'' = ''int32''" "map_xsd_type ''unsignedInt'' = ''''"
proof -
  have "trim_space ''integer'' = ''integer''" "trim_space ''unsignedInt'' = ''unsignedInt''"
    by (rule trim_word, simp add: plain_char_def)+
  then show "map_xsd_type ''integer'' = ''int32''" "map_xsd_type ''unsignedInt'' = ''''"
    by (simp_all add: map_xsd_type_def)
qed

end
