(* ===== verification/Soap.thy ===== *)
theory Soap
  imports Wsdl GoUnicode Matcher
begin

text \<open>
  \<open>gws\<close>: SOAP envelopes and faults (\<open>soap.go\<close>, \<open>envelope.go\<close>, \<open>codec.go\<close>, \<open>errors.go\<close>), requests and
  the client (\<open>request.go\<close>, \<open>client.go\<close>, \<open>options.go\<close>), services and their handler (\<open>service.go\<close>,
  \<open>handler.go\<close>), and the registration of a handler with \<open>gserver\<close> (\<open>adapter/gserver\<close>).

  A Go value of type \<open>any\<close> has type \<open>'v\<close>, \<open>nil\<close> being \<open>None\<close>.  \<open>encoding/xml\<close>, the parser of URLs and
  the tables of package \<open>unicode\<close> are the parameter \<open>soap_xml\<close>; an error of theirs is its text.  The
  implementation of a service, and the network, have a state \<open>'s\<close>.
\<close>

section \<open>Versions, names and faults\<close>

definition SOAP11 :: string where
  "SOAP11 = ''1.1''"

definition SOAP11EnvelopeNamespace :: string where
  "SOAP11EnvelopeNamespace = ''http://schemas.xmlsoap.org/soap/envelope/''"

definition SOAP11EncodingNamespace :: string where
  "SOAP11EncodingNamespace = ''http://schemas.xmlsoap.org/soap/encoding/''"

definition soap_namespaces :: "string \<Rightarrow> string \<times> string" where
  "soap_namespaces version =
     (if version = SOAP11 \<or> version = '''' then (SOAP11EnvelopeNamespace, SOAP11EncodingNamespace) else ('''', ''''))"

record soap_operation =
  so_name :: string
  so_action :: string
  so_request :: xml_name
  so_response :: xml_name
  so_version :: string

datatype 'v fault_detail = NoDetail | DetailText string | DetailValue 'v

record 'v soap_fault =
  ft_code :: string
  ft_string :: string
  ft_actor :: string
  ft_detail :: "'v fault_detail"

text \<open>The fault on the wire: its detail is the text between the tags, if there is an element.\<close>

record envelope_fault =
  ef_code :: string
  ef_string :: string
  ef_actor :: string
  ef_detail :: "string option"

record 'v soap_envelope =
  ev_namespace :: string
  ev_header :: "'v option"
  ev_content :: "'v option"
  ev_fault :: "envelope_fault option"

datatype 'v soap_error =
    EmptyEnvelopeData
  | XmlError string
  | UnsupportedSOAPVersion string
  | RequestWrapperMismatch xml_name xml_name
  | ResponseWrapperMismatch xml_name xml_name
  | FaultNotFound
  | NilRequest
  | NilHTTPRequest
  | EmptyEndpoint
  | EncodeRequestXml "'v soap_error"
  | BuildHTTPRequest string
  | SendRequest string
  | ReadResponseBody string
  | RemoteFault nat "'v soap_fault"
  | ExtractFaultError "'v soap_error"
  | DecodeResponse "'v soap_error"
  | NilServiceDesc

record 'v soap_xml =
  sx_marshal :: "'v \<Rightarrow> string + string"
  sx_marshal_envelope :: "'v soap_envelope \<Rightarrow> string + string"
  sx_unmarshal_envelope :: "string \<Rightarrow> string + (string \<times> envelope_fault option)"
  sx_unmarshal_body :: "string \<Rightarrow> string + string"
  sx_unmarshal :: "string \<Rightarrow> 'v \<Rightarrow> string + 'v"
  sx_tokens :: "string \<Rightarrow> xml_token list \<times> string option"
  sx_new_request :: "string \<Rightarrow> string option"
  sx_unicode :: unicode_tables

definition is_zero_xml_name :: "xml_name \<Rightarrow> bool" where
  "is_zero_xml_name n \<longleftrightarrow> xn_local n = '''' \<and> xn_space n = ''''"

abbreviation no_xml_name :: xml_name where
  "no_xml_name \<equiv> \<lparr>xn_space = '''', xn_local = ''''\<rparr>"

definition format_xml_name :: "xml_name \<Rightarrow> string" where
  "format_xml_name n =
     (if is_zero_xml_name n then ''<empty>''
      else if xn_space n = '''' then xn_local n
      else ''{'' @ xn_space n @ ''}'' @ xn_local n)"

text \<open>The texts of the errors; those of a fault value and of a fault from a remote endpoint are methods.\<close>

definition fault_text :: "'v soap_fault \<Rightarrow> string" where
  "fault_text f =
     (if ft_code f = '''' then ft_string f else ''soap fault (code='' @ ft_code f @ ''): '' @ ft_string f)"

definition remote_fault_text :: "nat \<Rightarrow> 'v soap_fault \<Rightarrow> string" where
  "remote_fault_text status f =
     (if status > 0
      then ''soap fault (status='' @ decimal (int status) @ '', code='' @ ft_code f @ ''): '' @ ft_string f
      else ''soap fault (code='' @ ft_code f @ ''): '' @ ft_string f)"

fun soap_error_text :: "unicode_tables \<Rightarrow> 'v soap_error \<Rightarrow> string" where
  "soap_error_text u EmptyEnvelopeData = ''empty SOAP envelope data''"
| "soap_error_text u (XmlError e) = e"
| "soap_error_text u (UnsupportedSOAPVersion v) = ''unsupported SOAP version: '' @ go_quote u v"
| "soap_error_text u (RequestWrapperMismatch want got) =
     ''request wrapper mismatch: want='' @ format_xml_name want @ '' got='' @ format_xml_name got"
| "soap_error_text u (ResponseWrapperMismatch want got) =
     ''response wrapper mismatch: want='' @ format_xml_name want @ '' got='' @ format_xml_name got"
| "soap_error_text u FaultNotFound = ''SOAP fault not found''"
| "soap_error_text u NilRequest = ''nil request''"
| "soap_error_text u NilHTTPRequest = ''nil http request''"
| "soap_error_text u EmptyEndpoint = ''empty endpoint''"
| "soap_error_text u (EncodeRequestXml e) = ''encode request xml: '' @ soap_error_text u e"
| "soap_error_text u (BuildHTTPRequest e) = ''build http request: '' @ e"
| "soap_error_text u (SendRequest e) = ''send request: '' @ e"
| "soap_error_text u (ReadResponseBody e) = ''read response body: '' @ e"
| "soap_error_text u (RemoteFault status f) = remote_fault_text status f"
| "soap_error_text u (ExtractFaultError e) = ''extract fault: '' @ soap_error_text u e"
| "soap_error_text u (DecodeResponse e) = ''decode response: '' @ soap_error_text u e"
| "soap_error_text u NilServiceDesc = ''nil service desc''"

definition resolve_envelope_namespace :: "string \<Rightarrow> ('v soap_error, string) outcome" where
  "resolve_envelope_namespace version =
     (if version = '''' then Ok SOAP11EnvelopeNamespace
      else (let ns = fst (soap_namespaces version)
            in if ns = '''' then Err (UnsupportedSOAPVersion version) else Ok ns))"

section \<open>Envelopes (\<open>envelope.go\<close>, \<open>codec.go\<close>)\<close>

fun lift_sum :: "string + 'a \<Rightarrow> ('v soap_error, 'a) outcome" where
  "lift_sum (Inl e) = Err (XmlError e)"
| "lift_sum (Inr x) = Ok x"

definition marshal_envelope :: "'v soap_xml \<Rightarrow> 'v soap_envelope \<Rightarrow> ('v soap_error, string) outcome" where
  "marshal_envelope sx env =
     lift_sum (sx_marshal_envelope sx
       (if ev_namespace env = '''' then env\<lparr>ev_namespace := fst (soap_namespaces SOAP11)\<rparr> else env))"

definition unmarshal_envelope :: "'v soap_xml \<Rightarrow> string \<Rightarrow> ('v soap_error, string \<times> envelope_fault option) outcome" where
  "unmarshal_envelope sx data =
     (if trim_space data = '''' then Err EmptyEnvelopeData
      else mapO (\<lambda>(ns, fault). (if ns = '''' then SOAP11EnvelopeNamespace else ns, fault))
             (lift_sum (sx_unmarshal_envelope sx data)))"

definition marshal_fault_detail :: "'v soap_xml \<Rightarrow> 'v fault_detail \<Rightarrow> string" where
  "marshal_fault_detail sx d =
     (case d of
        NoDetail \<Rightarrow> ''''
      | DetailText s \<Rightarrow> trim_space s
      | DetailValue v \<Rightarrow> (case sx_marshal sx v of Inl _ \<Rightarrow> '''' | Inr data \<Rightarrow> trim_space data))"

definition marshal_fault_envelope :: "'v soap_xml \<Rightarrow> 'v soap_fault \<Rightarrow> string \<Rightarrow> ('v soap_error, string) outcome" where
  "marshal_fault_envelope sx fault version =
     bindO (resolve_envelope_namespace version) (\<lambda>ns.
       let detail = marshal_fault_detail sx (ft_detail fault)
       in marshal_envelope sx
            \<lparr>ev_namespace = ns, ev_header = None, ev_content = None,
             ev_fault = Some \<lparr>ef_code = default_text (ft_code fault) ''soap:Server'',
                              ef_string = default_text (ft_string fault) ''internal error'',
                              ef_actor = ft_actor fault,
                              ef_detail = (if detail \<noteq> '''' then Some detail else None)\<rparr>\<rparr>)"

definition extract_fault :: "'v soap_xml \<Rightarrow> string \<Rightarrow> ('v soap_error, 'v soap_fault) outcome" where
  "extract_fault sx data =
     bindO (unmarshal_envelope sx data) (\<lambda>(ns, fault).
       case fault of
         None \<Rightarrow> Err FaultNotFound
       | Some f \<Rightarrow>
           Ok \<lparr>ft_code = ef_code f, ft_string = ef_string f, ft_actor = ef_actor f,
               ft_detail = (case ef_detail f of
                  None \<Rightarrow> NoDetail
                | Some d \<Rightarrow> if trim_space d \<noteq> '''' then DetailText (trim_space d) else NoDetail)\<rparr>)"

fun first_start :: "xml_token list \<Rightarrow> xml_name option" where
  "first_start [] = None"
| "first_start (StartElement name attrs # ts) = Some name"
| "first_start (_ # ts) = first_start ts"

definition first_element_name :: "'v soap_xml \<Rightarrow> string \<Rightarrow> ('v soap_error, xml_name) outcome" where
  "first_element_name sx data =
     (case sx_tokens sx data of
        (ts, err) \<Rightarrow>
          (case first_start ts of
             Some name \<Rightarrow> Ok name
           | None \<Rightarrow> (case err of None \<Rightarrow> Ok no_xml_name | Some e \<Rightarrow> Err (XmlError e))))"

definition decode_body_payload :: "'v soap_xml \<Rightarrow> string \<Rightarrow> ('v soap_error, string \<times> xml_name) outcome" where
  "decode_body_payload sx data =
     (if trim_space data = '''' then Ok ('''', no_xml_name)
      else bindO (lift_sum (sx_unmarshal_body sx data)) (\<lambda>inner.
             let payload = trim_space inner
             in if payload = '''' then Ok ('''', no_xml_name)
                else mapO (\<lambda>name. (payload, name)) (first_element_name sx payload)))"

definition check_response_wrapper :: "xml_name \<Rightarrow> xml_name \<Rightarrow> ('v soap_error, unit) outcome" where
  "check_response_wrapper want got =
     (if is_zero_xml_name want then Ok () else if want = got then Ok () else Err (ResponseWrapperMismatch want got))"

text \<open>The value \<open>out\<close> points to, before and after.\<close>

definition unmarshal_body :: "'v soap_xml \<Rightarrow> string \<Rightarrow> xml_name \<Rightarrow> 'v \<Rightarrow> ('v soap_error, 'v) outcome" where
  "unmarshal_body sx data want out =
     bindO (decode_body_payload sx data) (\<lambda>(payload, got).
     bindO (check_response_wrapper want got) (\<lambda>_.
       if payload = '''' then Ok out else lift_sum (sx_unmarshal sx payload out)))"

section \<open>Requests (\<open>request.go\<close>)\<close>

record 'v soap_request =
  rq_endpoint :: string
  rq_operation :: soap_operation
  rq_header :: http_header
  rq_soap_header :: "'v option"
  rq_body :: "'v option"
  rq_envelope :: "'v soap_envelope option"

definition new_soap_request :: "string \<Rightarrow> soap_operation \<Rightarrow> 'v soap_request" where
  "new_soap_request endpoint p =
     \<lparr>rq_endpoint = endpoint, rq_operation = p, rq_header = [], rq_soap_header = None, rq_body = None, rq_envelope = None\<rparr>"

definition request_with_options ::
  "string \<Rightarrow> soap_operation \<Rightarrow> http_header \<Rightarrow> 'v option \<Rightarrow> 'v option \<Rightarrow> 'v soap_request" where
  "request_with_options endpoint p header soap_header body =
     \<lparr>rq_endpoint = endpoint, rq_operation = p,
      rq_header = foldl (\<lambda>h (k, v). header_add k v h) [] (all_values header),
      rq_soap_header = soap_header, rq_body = body, rq_envelope = None\<rparr>"

definition soap_set_header :: "string \<Rightarrow> string \<Rightarrow> 'v soap_request \<Rightarrow> 'v soap_request" where
  "soap_set_header k v r = r\<lparr>rq_header := header_set k v (rq_header r)\<rparr>"

definition set_soap_header :: "'v option \<Rightarrow> 'v soap_request \<Rightarrow> 'v soap_request" where
  "set_soap_header v r = r\<lparr>rq_soap_header := v\<rparr>"

definition set_endpoint :: "string \<Rightarrow> 'v soap_request \<Rightarrow> 'v soap_request" where
  "set_endpoint e r = r\<lparr>rq_endpoint := e\<rparr>"

definition soap_set_body :: "'v option \<Rightarrow> 'v soap_request \<Rightarrow> 'v soap_request" where
  "soap_set_body v r = r\<lparr>rq_body := v, rq_envelope := None\<rparr>"

definition set_envelope :: "'v soap_envelope \<Rightarrow> 'v soap_request \<Rightarrow> 'v soap_request" where
  "set_envelope env r = r\<lparr>rq_envelope := Some env\<rparr>"

definition body_wrapper_name :: "'v soap_xml \<Rightarrow> 'v option \<Rightarrow> ('v soap_error, xml_name) outcome" where
  "body_wrapper_name sx v =
     (case v of
        None \<Rightarrow> Ok no_xml_name
      | Some x \<Rightarrow> bindO (lift_sum (sx_marshal sx x)) (first_element_name sx))"

definition validate_request_wrapper :: "'v soap_xml \<Rightarrow> xml_name \<Rightarrow> 'v option \<Rightarrow> ('v soap_error, unit) outcome" where
  "validate_request_wrapper sx want body =
     (if is_zero_xml_name want then Ok ()
      else bindO (body_wrapper_name sx body) (\<lambda>got.
             if want = got then Ok () else Err (RequestWrapperMismatch want got)))"

definition request_envelope :: "'v soap_xml \<Rightarrow> 'v soap_request \<Rightarrow> ('v soap_error, 'v soap_envelope) outcome" where
  "request_envelope sx r =
     (case rq_envelope r of
        Some env \<Rightarrow>
          if ev_namespace env = '''' then
            mapO (\<lambda>ns. env\<lparr>ev_namespace := ns\<rparr>) (resolve_envelope_namespace (so_version (rq_operation r)))
          else Ok env
      | None \<Rightarrow>
          bindO (validate_request_wrapper sx (so_request (rq_operation r)) (rq_body r)) (\<lambda>_.
          bindO (resolve_envelope_namespace (so_version (rq_operation r))) (\<lambda>ns.
            Ok \<lparr>ev_namespace = ns, ev_header = rq_soap_header r, ev_content = rq_body r, ev_fault = None\<rparr>)))"

definition xml_bytes :: "'v soap_xml \<Rightarrow> 'v soap_request \<Rightarrow> ('v soap_error, string) outcome" where
  "xml_bytes sx r = bindO (request_envelope sx r) (marshal_envelope sx)"

record soap_http_request =
  sh_endpoint :: string
  sh_header :: http_header
  sh_body :: string

definition quote_soap_action :: "unicode_tables \<Rightarrow> string \<Rightarrow> string" where
  "quote_soap_action u action =
     (if length action \<ge> 2 \<and> hd action = double_quote \<and> last action = double_quote then action
      else go_quote u action)"

definition xml_content_type :: string where
  "xml_content_type = ''text/xml; charset=utf-8''"

definition build_soap_request :: "'v soap_xml \<Rightarrow> 'v soap_request \<Rightarrow> ('v soap_error, soap_http_request) outcome" where
  "build_soap_request sx r =
     (let endpoint = trim_space (rq_endpoint r)
      in if endpoint = '''' then Err EmptyEndpoint
         else
           (case xml_bytes sx r of
              Err e \<Rightarrow> Err (EncodeRequestXml e)
            | Panic \<Rightarrow> Panic
            | Ok data \<Rightarrow>
                (case sx_new_request sx endpoint of
                   Some e \<Rightarrow> Err (BuildHTTPRequest e)
                 | None \<Rightarrow>
                     (let h = foldl (\<lambda>h (k, v). header_add k v h) [] (all_values (rq_header r));
                          h = (if header_get h ''Content-Type'' = '''' then header_set ''Content-Type'' xml_content_type h else h);
                          action = trim_space (so_action (rq_operation r));
                          h = (if action \<noteq> '''' then header_set ''SOAPAction'' (quote_soap_action (sx_unicode sx) action) h else h)
                      in Ok \<lparr>sh_endpoint = endpoint, sh_header = h, sh_body = data\<rparr>))))"

section \<open>The client (\<open>client.go\<close>, \<open>options.go\<close>)\<close>

text \<open>The network: an error, or a status and the body of the response, which may fail to be read.\<close>

type_synonym 's soap_network = "soap_http_request \<Rightarrow> 's \<Rightarrow> (string + (nat \<times> (string + string))) \<times> 's"

text \<open>Options are functions; a nil option is skipped.  The HTTP client is the network.\<close>

definition apply_soap_options :: "'o \<Rightarrow> ('o \<Rightarrow> 'o) option list \<Rightarrow> 'o" where
  "apply_soap_options defaults opts = foldl (\<lambda>o' f. case f of None \<Rightarrow> o' | Some g \<Rightarrow> g o') defaults opts"

record 's client_options =
  co_version :: string
  co_network :: "'s soap_network option"

definition default_client_options :: "'s soap_network \<Rightarrow> 's client_options" where
  "default_client_options default_net = \<lparr>co_version = SOAP11, co_network = Some default_net\<rparr>"

definition with_client_version :: "string \<Rightarrow> 's client_options \<Rightarrow> 's client_options" where
  "with_client_version v c = c\<lparr>co_version := v\<rparr>"

definition with_http_client :: "'s soap_network option \<Rightarrow> 's client_options \<Rightarrow> 's client_options" where
  "with_http_client n c = c\<lparr>co_network := n\<rparr>"

record 's soap_client =
  sl_network :: "'s soap_network"
  sl_version :: string

definition new_soap_client :: "'s soap_network \<Rightarrow> ('s client_options \<Rightarrow> 's client_options) option list \<Rightarrow> 's soap_client" where
  "new_soap_client default_net opts =
     (let c = apply_soap_options (default_client_options default_net) opts
      in \<lparr>sl_network = (case co_network c of None \<Rightarrow> default_net | Some n \<Rightarrow> n), sl_version = co_version c\<rparr>)"

definition do_http_raw :: "'v soap_xml \<Rightarrow> 's soap_client \<Rightarrow> soap_http_request \<Rightarrow> 's \<Rightarrow>
    ('v soap_error, string) outcome \<times> 's" where
  "do_http_raw sx c req s =
     (case sl_network c req s of
        (Inl e, s) \<Rightarrow> (Err (SendRequest e), s)
      | (Inr (status, Inl e), s) \<Rightarrow> (Err (ReadResponseBody e), s)
      | (Inr (status, Inr data), s) \<Rightarrow>
          (case extract_fault sx data of
             Ok fault \<Rightarrow> (Err (RemoteFault status fault), s)
           | Err FaultNotFound \<Rightarrow> (Ok data, s)
           | Err e \<Rightarrow> (Err (ExtractFaultError e), s)
           | Panic \<Rightarrow> (Panic, s)))"

definition validate_response_wrapper :: "'v soap_xml \<Rightarrow> string \<Rightarrow> xml_name \<Rightarrow> ('v soap_error, unit) outcome" where
  "validate_response_wrapper sx data want =
     (if is_zero_xml_name want then Ok ()
      else bindO (decode_body_payload sx data) (\<lambda>(payload, got). check_response_wrapper want got))"

text \<open>The result is the value of \<open>out\<close>, which may be nil.\<close>

definition do_http :: "'v soap_xml \<Rightarrow> 's soap_client \<Rightarrow> soap_http_request \<Rightarrow> soap_operation \<Rightarrow> 'v option \<Rightarrow> 's \<Rightarrow>
    ('v soap_error, 'v option) outcome \<times> 's" where
  "do_http sx c req p out s =
     (case do_http_raw sx c req s of
        (Err e, s) \<Rightarrow> (Err e, s)
      | (Panic, s) \<Rightarrow> (Panic, s)
      | (Ok data, s) \<Rightarrow>
          (case out of
             None \<Rightarrow> (mapO (\<lambda>_. None) (validate_response_wrapper sx data (so_response p)), s)
           | Some x \<Rightarrow>
               (case unmarshal_body sx data (so_response p) x of
                  Ok y \<Rightarrow> (Ok (Some y), s)
                | Err e \<Rightarrow> (Err (DecodeResponse e), s)
                | Panic \<Rightarrow> (Panic, s))))"

definition with_default_version :: "'s soap_client \<Rightarrow> soap_operation \<Rightarrow> soap_operation" where
  "with_default_version c p =
     (if so_version p = '''' then p\<lparr>so_version := (if sl_version c = '''' then SOAP11 else sl_version c)\<rparr> else p)"

definition soap_do :: "'v soap_xml \<Rightarrow> 's soap_client \<Rightarrow> 'v soap_request option \<Rightarrow> 'v option \<Rightarrow> 's \<Rightarrow>
    ('v soap_error, 'v option) outcome \<times> 's" where
  "soap_do sx c req out s =
     (case req of
        None \<Rightarrow> (Err NilRequest, s)
      | Some r \<Rightarrow>
          (let p = with_default_version c (rq_operation r)
           in case build_soap_request sx (r\<lparr>rq_operation := p\<rparr>) of
                Err e \<Rightarrow> (Err e, s) | Panic \<Rightarrow> (Panic, s) | Ok h \<Rightarrow> do_http sx c h p out s))"

definition soap_do_raw :: "'v soap_xml \<Rightarrow> 's soap_client \<Rightarrow> 'v soap_request option \<Rightarrow> 's \<Rightarrow>
    ('v soap_error, string) outcome \<times> 's" where
  "soap_do_raw sx c req s =
     (case req of
        None \<Rightarrow> (Err NilRequest, s)
      | Some r \<Rightarrow>
          (case build_soap_request sx (r\<lparr>rq_operation := with_default_version c (rq_operation r)\<rparr>) of
             Err e \<Rightarrow> (Err e, s) | Panic \<Rightarrow> (Panic, s) | Ok h \<Rightarrow> do_http_raw sx c h s))"

section \<open>Services (\<open>service.go\<close>)\<close>

record wsdl_assets =
  wa_main :: string
  wa_xsd :: "(string, string) gomap"

text \<open>An error of an implementation: one that is or wraps a fault, or another with its text.\<close>

datatype 'v invoke_error = FaultValue "'v soap_fault" | OtherError string

type_synonym ('v, 's) invoker = "'v option \<Rightarrow> 's \<Rightarrow> ('v invoke_error + 'v option) \<times> 's"

record ('v, 's) operation_desc =
  od_operation :: soap_operation
  od_new_request :: "'v option"
  od_new_response :: "'v option"
  od_invoke :: "('v, 's) invoker option"

record ('v, 's) service_desc =
  sd_name :: string
  sd_wsdl :: "wsdl_assets option"
  sd_operations :: "('v, 's) operation_desc list"

definition find_operation_by_wrapper :: "('v, 's) service_desc \<Rightarrow> xml_name \<Rightarrow> ('v, 's) operation_desc option" where
  "find_operation_by_wrapper d wrapper = find (\<lambda>p. so_request (od_operation p) = wrapper) (sd_operations d)"

definition wsdl_asset :: "('v, 's) service_desc \<Rightarrow> string option" where
  "wsdl_asset d =
     (case sd_wsdl d of None \<Rightarrow> None | Some a \<Rightarrow> if wa_main a = '''' then None else Some (wa_main a))"

definition xsd_asset :: "('v, 's) service_desc \<Rightarrow> string \<Rightarrow> string option" where
  "xsd_asset d name =
     (case sd_wsdl d of
        None \<Rightarrow> None
      | Some a \<Rightarrow>
          (case go_get (wa_xsd a) (trim_space name) of
             None \<Rightarrow> None | Some data \<Rightarrow> if data = '''' then None else Some data))"

text \<open>The factory of an operation makes a value, or there is none; an implementation may have an \<open>Invoke\<close> of its own.\<close>

definition new_request_value :: "('v, 's) operation_desc \<Rightarrow> 'v option" where
  "new_request_value p = od_new_request p"

definition new_response_value :: "('v, 's) operation_desc \<Rightarrow> 'v option" where
  "new_response_value p = od_new_response p"

definition invoke_operation :: "('v, 's) operation_desc \<Rightarrow> (string \<Rightarrow> ('v, 's) invoker) option \<Rightarrow> ('v, 's) invoker" where
  "invoke_operation p impl req s =
     (case od_invoke p of
        Some f \<Rightarrow> f req s
      | None \<Rightarrow>
          (case impl of
             None \<Rightarrow> (Inl (OtherError ''operation invoker not found''), s)
           | Some f \<Rightarrow> f (so_name (od_operation p)) req s))"

section \<open>The handler (\<open>handler.go\<close>)\<close>

definition default_service_version :: string where
  "default_service_version = SOAP11"

definition with_service_version :: "string \<Rightarrow> string \<Rightarrow> string" where
  "with_service_version v old = v"

record ('v, 's) soap_handler =
  hd_desc :: "('v, 's) service_desc"
  hd_impl :: "(string \<Rightarrow> ('v, 's) invoker) option"
  hd_version :: string

definition new_handler :: "('v, 's) service_desc option \<Rightarrow> (string \<Rightarrow> ('v, 's) invoker) option \<Rightarrow>
    (string \<Rightarrow> string) option list \<Rightarrow> ('v soap_error, ('v, 's) soap_handler) outcome" where
  "new_handler desc impl opts =
     (case desc of
        None \<Rightarrow> Err NilServiceDesc
      | Some d \<Rightarrow>
          (let v = apply_soap_options default_service_version opts
           in Ok \<lparr>hd_desc = d, hd_impl = impl, hd_version = (if v = '''' then SOAP11 else v)\<rparr>))"

record http_answer =
  an_status :: nat
  an_type :: string
  an_body :: string

record soap_http_incoming =
  in_method :: string
  in_query :: url_values
  in_body :: "string + string"

definition write_xml :: "nat \<Rightarrow> string \<Rightarrow> http_answer" where
  "write_xml status data = \<lparr>an_status = status, an_type = xml_content_type, an_body = data\<rparr>"

definition write_text :: "nat \<Rightarrow> string \<Rightarrow> http_answer" where
  "write_text status message =
     \<lparr>an_status = status, an_type = ''text/plain; charset=utf-8'', an_body = message @ [newline]\<rparr>"

definition not_allowed :: http_answer where
  "not_allowed = \<lparr>an_status = 405, an_type = '''', an_body = ''''\<rparr>"

definition handler_namespace :: "('v, 's) soap_handler \<Rightarrow> string \<Rightarrow> ('v soap_error, string) outcome" where
  "handler_namespace h version = resolve_envelope_namespace (if version = '''' then hd_version h else version)"

definition write_fault :: "'v soap_xml \<Rightarrow> ('v, 's) soap_handler \<Rightarrow> 'v soap_fault \<Rightarrow> string \<Rightarrow> http_answer" where
  "write_fault sx h fault version =
     (let fault = fault\<lparr>ft_code := default_text (ft_code fault) ''soap:Server'',
                        ft_string := default_text (ft_string fault) ''internal error''\<rparr>;
          version = (case handler_namespace h version :: ('v soap_error, string) outcome of Ok _ \<Rightarrow> version | _ \<Rightarrow> SOAP11)
      in case marshal_fault_envelope sx fault version of
           Ok data \<Rightarrow> write_xml 500 data
         | Err e \<Rightarrow> write_text 500 (soap_error_text (sx_unicode sx) e)
         | Panic \<Rightarrow> write_text 500 '''')"

definition plain_fault :: "string \<Rightarrow> string \<Rightarrow> 'v soap_fault" where
  "plain_fault code message = \<lparr>ft_code = code, ft_string = message, ft_actor = '''', ft_detail = NoDetail\<rparr>"

definition write_client_fault :: "'v soap_xml \<Rightarrow> ('v, 's) soap_handler \<Rightarrow> string \<Rightarrow> http_answer" where
  "write_client_fault sx h message = write_fault sx h (plain_fault ''soap:Client'' message) (hd_version h)"

definition write_server_fault :: "'v soap_xml \<Rightarrow> ('v, 's) soap_handler \<Rightarrow> string \<Rightarrow> string \<Rightarrow> http_answer" where
  "write_server_fault sx h message version = write_fault sx h (plain_fault ''soap:Server'' message) version"

definition write_invoke_fault :: "'v soap_xml \<Rightarrow> ('v, 's) soap_handler \<Rightarrow> 'v invoke_error \<Rightarrow> string \<Rightarrow> http_answer" where
  "write_invoke_fault sx h e version =
     (case e of FaultValue f \<Rightarrow> write_fault sx h f version | OtherError message \<Rightarrow> write_server_fault sx h message version)"

definition validate_operation_response :: "'v soap_xml \<Rightarrow> xml_name \<Rightarrow> 'v option \<Rightarrow> ('v soap_error, unit) outcome" where
  "validate_operation_response sx want resp = bindO (body_wrapper_name sx resp) (check_response_wrapper want)"

definition operation_response :: "'v soap_xml \<Rightarrow> ('v, 's) soap_handler \<Rightarrow> soap_operation \<Rightarrow> 'v option \<Rightarrow>
    ('v soap_error, http_answer) outcome" where
  "operation_response sx h p resp =
     bindO (validate_operation_response sx (so_response p) resp) (\<lambda>_.
     bindO (handler_namespace h (so_version p)) (\<lambda>ns.
       mapO (write_xml 200)
         (marshal_envelope sx \<lparr>ev_namespace = ns, ev_header = None, ev_content = resp, ev_fault = None\<rparr>)))"

definition serve_get :: "('v, 's) soap_handler \<Rightarrow> soap_http_incoming \<Rightarrow> http_answer" where
  "serve_get h r =
     (let found = (\<lambda>data. case data of None \<Rightarrow> write_text 404 ''404 page not found'' | Some d \<Rightarrow> write_xml 200 d);
          xsd = trim_space (case go_get (in_query r) ''xsd'' of Some (v # _) \<Rightarrow> v | _ \<Rightarrow> '''')
      in if go_get (in_query r) ''wsdl'' \<noteq> None then found (wsdl_asset (hd_desc h))
         else if xsd \<noteq> '''' then found (xsd_asset (hd_desc h) xsd)
         else not_allowed)"

text \<open>The request an operation is invoked with: the decoded payload, or the value of the factory when there is none.\<close>

definition decode_operation_request :: "'v soap_xml \<Rightarrow> ('v, 's) operation_desc \<Rightarrow> string \<Rightarrow> string + 'v option" where
  "decode_operation_request sx p payload =
     (let has_payload = (trim_space payload \<noteq> '''')
      in case new_request_value p of
           None \<Rightarrow> if has_payload then Inl ''missing request factory'' else Inr None
         | Some req \<Rightarrow>
             if has_payload then
               (case sx_unmarshal sx payload req of
                  Inl e \<Rightarrow> Inl (''decode operation request: '' @ e) | Inr v \<Rightarrow> Inr (Some v))
             else Inr (Some req))"

definition serve_post :: "'v soap_xml \<Rightarrow> ('v, 's) soap_handler \<Rightarrow> soap_http_incoming \<Rightarrow> 's \<Rightarrow> http_answer \<times> 's" where
  "serve_post sx h r s =
     (case in_body r of
        Inl e \<Rightarrow> (write_client_fault sx h (''read request body: '' @ e), s)
      | Inr data \<Rightarrow>
          (case decode_body_payload sx data of
             Panic \<Rightarrow> (not_allowed, s)
           | Err e \<Rightarrow> (write_client_fault sx h (''decode soap body: '' @ soap_error_text (sx_unicode sx) e), s)
           | Ok (payload, wrapper) \<Rightarrow>
               (case find_operation_by_wrapper (hd_desc h) wrapper of
                  None \<Rightarrow> (write_fault sx h (plain_fault ''soap:Client'' ''operation not found'') (hd_version h), s)
                | Some p \<Rightarrow>
                    (case decode_operation_request sx p payload of
                       Inl message \<Rightarrow> (write_client_fault sx h message, s)
                     | Inr req \<Rightarrow>
                         (case invoke_operation p (hd_impl h) req s of
                            (Inl e, s) \<Rightarrow> (write_invoke_fault sx h e (so_version (od_operation p)), s)
                          | (Inr resp, s) \<Rightarrow>
                              (case operation_response sx h (od_operation p) resp of
                                 Ok answer \<Rightarrow> (answer, s)
                               | Err e \<Rightarrow>
                                   (write_server_fault sx h (''encode operation response: '' @ soap_error_text (sx_unicode sx) e)
                                      (so_version (od_operation p)), s)
                               | Panic \<Rightarrow> (not_allowed, s)))))))"

definition serve_http :: "'v soap_xml \<Rightarrow> ('v, 's) soap_handler \<Rightarrow> soap_http_incoming \<Rightarrow> 's \<Rightarrow> http_answer \<times> 's" where
  "serve_http sx h r s =
     (if in_method r = ''GET'' then (serve_get h r, s)
      else if in_method r = ''POST'' then serve_post sx h r s
      else (not_allowed, s))"

section \<open>Registration with a server (\<open>adapter/gserver\<close>)\<close>

datatype adapter_error = NilServer | NilHandler | EmptyPath | InvalidAdapterPath

definition validate_adapter_path :: "string \<Rightarrow> adapter_error option" where
  "validate_adapter_path path =
     (if \<not> has_prefix path ''/'' then Some InvalidAdapterPath
      else if CHR ''?'' \<in> set path then Some InvalidAdapterPath
      else None)"

text \<open>A panic of the registration becomes an error; routes registered before it stay.\<close>

definition register_any :: "string \<Rightarrow> 'h \<Rightarrow> 'h router_group \<Rightarrow> 'h server_matcher \<Rightarrow> adapter_error option \<times> 'h server_matcher" where
  "register_any path handler g s =
     (case group_any path [handler] g s of
        (Panic, s) \<Rightarrow> (Some InvalidAdapterPath, s)
      | (_, s) \<Rightarrow> (None, s))"

definition register_handler :: "string \<Rightarrow> 'h option \<Rightarrow> ('h router_group \<times> 'h server_matcher) option \<Rightarrow>
    adapter_error option \<times> ('h router_group \<times> 'h server_matcher) option" where
  "register_handler path handler server =
     (case server of
        None \<Rightarrow> (Some NilServer, None)
      | Some (g, s) \<Rightarrow>
          (case handler of
             None \<Rightarrow> (Some NilHandler, server)
           | Some h \<Rightarrow>
               (let path = trim_space path
                in if path = '''' then (Some EmptyPath, server)
                   else (case validate_adapter_path path of
                           Some e \<Rightarrow> (Some e, server)
                         | None \<Rightarrow> map_prod id (\<lambda>s. Some (g, s)) (register_any path h g s)))))"

end
