(* ===== verification/SoapFacts.thy ===== *)
theory SoapFacts
  imports Soap
begin

text \<open>
  A SOAP call from end to end: what a client sends reaches the operation of its wrapper, and the
  answer or the fault of the operation reaches the client; what a handler may do to the state of its
  implementation.
\<close>

section \<open>The handler\<close>

lemma lift_sum_Ok_iff [simp]: "lift_sum x = Ok y \<longleftrightarrow> x = Inr y"
  by (cases x) auto

lemma lift_sum_not_Panic [simp]: "lift_sum x \<noteq> Panic"
  by (cases x) auto

lemma first_element_not_Panic: "first_element_name sx data \<noteq> Panic"
  by (simp add: first_element_name_def split: prod.split option.split)

lemma decode_body_not_Panic: "decode_body_payload sx data \<noteq> Panic"
  by (auto simp: decode_body_payload_def bindO_eq_Panic_iff first_element_not_Panic Let_def)

lemma resolve_not_Panic: "resolve_envelope_namespace v \<noteq> Panic"
  by (simp add: resolve_envelope_namespace_def Let_def)

lemma operation_response_not_Panic: "operation_response sx h p resp \<noteq> Panic"
  by (auto simp: operation_response_def validate_operation_response_def body_wrapper_name_def bindO_eq_Panic_iff
      first_element_not_Panic check_response_wrapper_def handler_namespace_def resolve_not_Panic marshal_envelope_def
      split: option.split)

lemma write_fault_status [simp]: "an_status (write_fault sx h f v) = 500"
  by (simp add: write_fault_def write_xml_def write_text_def Let_def split: outcome.split)

lemma fault_statuses [simp]:
  "an_status (write_client_fault sx h m) = 500" "an_status (write_server_fault sx h m v) = 500"
  "an_status (write_invoke_fault sx h e v) = 500"
  by (simp_all add: write_client_fault_def write_server_fault_def write_invoke_fault_def split: invoke_error.split)

lemma operation_response_status: "operation_response sx h p resp = Ok a \<Longrightarrow> an_status a = 200"
  by (auto simp: operation_response_def bindO_eq_Ok_iff mapO_eq_Ok_iff write_xml_def)

text \<open>What a handler does with a request: nothing to its implementation, or one call of one operation.\<close>

definition calls_operation :: "'v soap_xml \<Rightarrow> ('v, 's) soap_handler \<Rightarrow> soap_http_incoming \<Rightarrow>
    ('v, 's) operation_desc \<Rightarrow> 'v option \<Rightarrow> bool" where
  "calls_operation sx h r p req \<longleftrightarrow>
     in_method r = ''POST'' \<and>
     (\<exists>data payload wrapper. in_body r = Inr data \<and> decode_body_payload sx data = Ok (payload, wrapper) \<and>
        find_operation_by_wrapper (hd_desc h) wrapper = Some p \<and> decode_operation_request sx p payload = Inr req)"

text \<open>
  C9: a handler answers every request once.  It leaves the state of its implementation alone and
  answers 405, 404, 500 or, to a GET request, 200; or the request is a POST whose body has the
  request wrapper of a declared operation, that operation is invoked once with the decoded request,
  and the answer is 200 just when the operation returned a value that has the response wrapper and
  can be encoded, and a fault with status 500 otherwise.
\<close>

theorem handler_invokes_once:
  "let (a, s') = serve_http sx h r s
   in (s' = s \<and> an_status a \<in> (if in_method r = ''GET'' then {200, 404, 405} else {405, 500})) \<or>
      (\<exists>p req. calls_operation sx h r p req \<and> s' = snd (invoke_operation p (hd_impl h) req s) \<and>
         (case fst (invoke_operation p (hd_impl h) req s) of
            Inl e \<Rightarrow> a = write_invoke_fault sx h e (so_version (od_operation p)) \<and> an_status a = 500
          | Inr resp \<Rightarrow>
              (case operation_response sx h (od_operation p) resp of
                 Ok answer \<Rightarrow> a = answer \<and> an_status a = 200
               | _ \<Rightarrow> an_status a = 500)))"
proof -
  obtain a s' where result: "serve_http sx h r s = (a, s')" by fastforce
  consider (get) "in_method r = ''GET''" | (post) "in_method r = ''POST''"
    | (other) "in_method r \<noteq> ''GET''" "in_method r \<noteq> ''POST''" by blast
  then show ?thesis
  proof cases
    case get
    with result show ?thesis
      by (auto simp: serve_http_def serve_get_def Let_def write_text_def write_xml_def not_allowed_def
          split: option.splits if_splits)
  next
    case other
    with result show ?thesis by (auto simp: serve_http_def not_allowed_def)
  next
    case post
    then have r: "serve_post sx h r s = (a, s')" using result by (simp add: serve_http_def)
    show ?thesis
    proof (cases "\<exists>p req. calls_operation sx h r p req")
      case True
      then obtain p req data payload wrapper where
        data: "in_body r = Inr data" "decode_body_payload sx data = Ok (payload, wrapper)"
          "find_operation_by_wrapper (hd_desc h) wrapper = Some p" "decode_operation_request sx p payload = Inr req"
        by (auto simp: calls_operation_def)
      then have call: "calls_operation sx h r p req" using post by (simp add: calls_operation_def)
      obtain ans s1 where inv: "invoke_operation p (hd_impl h) req s = (ans, s1)" by fastforce
      have "s' = s1 \<and>
         (case ans of
            Inl e \<Rightarrow> a = write_invoke_fault sx h e (so_version (od_operation p)) \<and> an_status a = 500
          | Inr resp \<Rightarrow>
              (case operation_response sx h (od_operation p) resp of
                 Ok answer \<Rightarrow> a = answer \<and> an_status a = 200
               | _ \<Rightarrow> an_status a = 500))"
        using r data inv operation_response_not_Panic[of sx h "od_operation p"]
        by (auto simp: serve_post_def operation_response_status split: sum.splits outcome.splits)
      with call inv show ?thesis unfolding result by fastforce
    next
      case False
      then have "s' = s \<and> an_status a = 500"
        using r post decode_body_not_Panic[of sx]
        by (auto simp: serve_post_def calls_operation_def split: sum.splits outcome.splits option.splits prod.splits)
      with post show ?thesis unfolding result by simp
    qed
  qed
qed

section \<open>A call over the network\<close>

text \<open>A network that takes a request to a handler and its answer back.\<close>

definition soap_wire :: "'v soap_xml \<Rightarrow> ('v, 's) soap_handler \<Rightarrow> 's soap_network" where
  "soap_wire sx h req s =
     (case serve_http sx h \<lparr>in_method = ''POST'', in_query = [], in_body = Inr (sh_body req)\<rparr> s of
        (a, s) \<Rightarrow> (Inr (an_status a, Inr (an_body a)), s))"

text \<open>
  What is relied on of \<open>encoding/xml\<close> for a value: it is encoded as an element of the given name, and
  an envelope with it as its content is decoded to that text and no fault.
\<close>

definition sends :: "'v soap_xml \<Rightarrow> 'v \<Rightarrow> xml_name \<Rightarrow> string \<Rightarrow> bool" where
  "sends sx v name t \<longleftrightarrow>
     sx_marshal sx v = Inr t \<and> t \<noteq> '''' \<and> trim_space t = t \<and> first_element_name sx t = Ok name \<and>
     (\<forall>env. ev_content env = Some v \<longrightarrow> ev_fault env = None \<longrightarrow>
        (\<exists>data ns. sx_marshal_envelope sx env = Inr data \<and> trim_space data \<noteq> '''' \<and>
           sx_unmarshal_body sx data = Inr t \<and> sx_unmarshal_envelope sx data = Inr (ns, None)))"

definition version_ok :: "string \<Rightarrow> bool" where
  "version_ok v \<longleftrightarrow> v = '''' \<or> v = SOAP11"

lemma namespace_not_empty [simp]: "SOAP11EnvelopeNamespace \<noteq> ''''"
  by (simp add: SOAP11EnvelopeNamespace_def)

lemma resolve_ok: "version_ok v \<Longrightarrow> resolve_envelope_namespace v = Ok SOAP11EnvelopeNamespace"
  by (auto simp: resolve_envelope_namespace_def version_ok_def soap_namespaces_def)

lemma sends_envelope:
  assumes "sends sx v name t" and "ns \<noteq> ''''"
  obtains data ns' where
    "marshal_envelope sx \<lparr>ev_namespace = ns, ev_header = hdr, ev_content = Some v, ev_fault = None\<rparr> = Ok data"
    "trim_space data \<noteq> ''''" "decode_body_payload sx data = Ok (t, name)"
    "unmarshal_envelope sx data = Ok (ns', None)"
proof -
  let ?env = "\<lparr>ev_namespace = ns, ev_header = hdr, ev_content = Some v, ev_fault = None\<rparr>"
  have "\<exists>data ns0. sx_marshal_envelope sx ?env = Inr data \<and> trim_space data \<noteq> '''' \<and>
      sx_unmarshal_body sx data = Inr t \<and> sx_unmarshal_envelope sx data = Inr (ns0, None)"
    using assms(1) unfolding sends_def by (elim conjE allE[of _ ?env]) simp
  moreover have t: "t \<noteq> ''''" "trim_space t = t" "first_element_name sx t = Ok name"
    using assms(1) unfolding sends_def by blast+
  ultimately obtain data ns0 where d: "sx_marshal_envelope sx ?env = Inr data" "trim_space data \<noteq> ''''"
    "sx_unmarshal_body sx data = Inr t" "sx_unmarshal_envelope sx data = Inr (ns0, None)" by blast
  show thesis
  proof (rule that)
    show "marshal_envelope sx ?env = Ok data" using d assms(2) by (simp add: marshal_envelope_def)
    show "decode_body_payload sx data = Ok (t, name)" using d t by (simp add: decode_body_payload_def)
    show "unmarshal_envelope sx data = Ok (if ns0 = '''' then SOAP11EnvelopeNamespace else ns0, None)"
      using d by (simp add: unmarshal_envelope_def)
  qed (rule d(2))
qed

text \<open>The request the client sends for a body.\<close>

lemma request_built:
  assumes "sends sx v (so_request p) t" and "version_ok (so_version p)"
    and "trim_space endpoint \<noteq> ''''" and "sx_new_request sx (trim_space endpoint) = None"
  obtains req ns where
    "build_soap_request sx (soap_set_body (Some v) (new_soap_request endpoint p)) = Ok req"
    "trim_space (sh_body req) \<noteq> ''''" "decode_body_payload sx (sh_body req) = Ok (t, so_request p)"
    "unmarshal_envelope sx (sh_body req) = Ok (ns, None)"
proof -
  obtain data ns where
    d: "marshal_envelope sx \<lparr>ev_namespace = SOAP11EnvelopeNamespace, ev_header = None, ev_content = Some v, ev_fault = None\<rparr> = Ok data"
      "trim_space data \<noteq> ''''" "decode_body_payload sx data = Ok (t, so_request p)"
      "unmarshal_envelope sx data = Ok (ns, None)"
    by (rule sends_envelope[OF assms(1) namespace_not_empty, where hdr = None])
  have "body_wrapper_name sx (Some v) = Ok (so_request p)"
    using assms(1) by (simp add: body_wrapper_name_def sends_def)
  then have "xml_bytes sx (soap_set_body (Some v) (new_soap_request endpoint p)) = Ok data"
    using d(1)
    by (simp add: resolve_ok[OF assms(2)] xml_bytes_def request_envelope_def soap_set_body_def new_soap_request_def validate_request_wrapper_def)
  then show thesis
    using that[of "case build_soap_request sx (soap_set_body (Some v) (new_soap_request endpoint p)) of Ok r \<Rightarrow> r"] assms(3,4) d
    by (simp add: build_soap_request_def soap_set_body_def new_soap_request_def Let_def)
qed

lemma with_version_simps [simp]:
  "so_request (with_default_version c p) = so_request p" "so_response (with_default_version c p) = so_response p"
  by (simp_all add: with_default_version_def)

lemma with_version_ok: "version_ok (so_version p) \<Longrightarrow> version_ok (sl_version c) \<Longrightarrow> version_ok (so_version (with_default_version c p))"
  by (auto simp: with_default_version_def version_ok_def)

lemma versioned_request:
  "(soap_set_body b (new_soap_request endpoint p))\<lparr>rq_operation := q\<rparr> = soap_set_body b (new_soap_request endpoint q)"
  by (simp add: soap_set_body_def new_soap_request_def)

text \<open>An operation that a handler serves and a client calls, and the request as the operation gets it.\<close>

definition callable :: "'v soap_xml \<Rightarrow> ('v, 's) soap_handler \<Rightarrow> 's soap_client \<Rightarrow> string \<Rightarrow>
    ('v, 's) operation_desc \<Rightarrow> 'v \<Rightarrow> 'v \<Rightarrow> bool" where
  "callable sx h c endpoint p v v' \<longleftrightarrow>
     find_operation_by_wrapper (hd_desc h) (so_request (od_operation p)) = Some p \<and>
     (\<exists>t z. sends sx v (so_request (od_operation p)) t \<and> new_request_value p = Some z \<and> sx_unmarshal sx t z = Inr v') \<and>
     version_ok (so_version (od_operation p)) \<and> version_ok (hd_version h) \<and> version_ok (sl_version c) \<and>
     trim_space endpoint \<noteq> '''' \<and> sx_new_request sx (trim_space endpoint) = None \<and>
     sl_network c = soap_wire sx h"

text \<open>The call as it reaches the handler, and what the network brings back.\<close>

definition served_answer :: "'v soap_xml \<Rightarrow> ('v, 's) soap_handler \<Rightarrow> ('v, 's) operation_desc \<Rightarrow>
    'v invoke_error + 'v option \<Rightarrow> 's \<Rightarrow> (string + (nat \<times> (string + string))) \<times> 's" where
  "served_answer sx h p ans s' =
     (case ans of
          Inl e \<Rightarrow> (let a = write_invoke_fault sx h e (so_version (od_operation p)) in (Inr (500, Inr (an_body a)), s'))
        | Inr resp \<Rightarrow>
            (case operation_response sx h (od_operation p) resp of
               Ok a \<Rightarrow> (Inr (200, Inr (an_body a)), s')
             | Err e \<Rightarrow> (let a = write_server_fault sx h (''encode operation response: '' @ soap_error_text (sx_unicode sx) e)
                                 (so_version (od_operation p))
                        in (Inr (500, Inr (an_body a)), s'))
             | Panic \<Rightarrow> (Inr (405, Inr ''''), s')))"

lemma call_served:
  assumes "callable sx h c endpoint p v v'"
    and "invoke_operation p (hd_impl h) (Some v') s = (ans, s')"
  obtains req where
    "build_soap_request sx (soap_set_body (Some v) (new_soap_request endpoint (with_default_version c (od_operation p)))) = Ok req"
    "sl_network c req s = served_answer sx h p ans s'"
proof -
  define q where "q = with_default_version c (od_operation p)"
  obtain t z where t: "sends sx v (so_request q) t" "new_request_value p = Some z" "sx_unmarshal sx t z = Inr v'"
    using assms(1) by (auto simp: callable_def q_def)
  have "version_ok (so_version q)" "trim_space endpoint \<noteq> ''''" "sx_new_request sx (trim_space endpoint) = None"
    using assms(1) with_version_ok by (auto simp: callable_def q_def)
  from request_built[OF t(1) this] obtain req ns where
    req: "build_soap_request sx (soap_set_body (Some v) (new_soap_request endpoint q)) = Ok req"
      "decode_body_payload sx (sh_body req) = Ok (t, so_request q)" by metis
  have "t \<noteq> ''''" "trim_space t = t" using t(1) by (simp_all add: sends_def)
  then have dec: "decode_operation_request sx p t = Inr (Some v')"
    using t(2,3) by (simp add: decode_operation_request_def)
  have "find_operation_by_wrapper (hd_desc h) (so_request q) = Some p" "sl_network c = soap_wire sx h"
    using assms(1) by (simp_all add: callable_def q_def)
  then show thesis
    using that[OF req(1)[unfolded q_def]] req(2) dec assms(2)
    by (auto simp: served_answer_def soap_wire_def serve_http_def serve_post_def not_allowed_def operation_response_status Let_def
        split: sum.splits outcome.splits)
qed

text \<open>
  C7: a call made with the client over the network reaches the operation whose request wrapper the
  body has; the operation is invoked with the decoded body, and what it returns, if it has the
  response wrapper, is decoded into the value the caller gave.  Of \<open>encoding/xml\<close> it is relied on
  that the two values can be encoded as elements with the names of the wrappers, that an envelope
  gives back its content, and on what decoding yields for them.
\<close>

theorem soap_call_answered:
  assumes "callable sx h c endpoint p v v'"
    and "invoke_operation p (hd_impl h) (Some v') s = (Inr (Some w), s')"
    and "sends sx w (so_response (od_operation p)) t" and "sx_unmarshal sx t out = Inr w'"
  shows "soap_do sx c (Some (soap_set_body (Some v) (new_soap_request endpoint (od_operation p)))) (Some out) s =
    (Ok (Some w'), s')"
proof -
  define q where "q = od_operation p"
  obtain req where
    req: "build_soap_request sx (soap_set_body (Some v) (new_soap_request endpoint (with_default_version c q))) = Ok req"
    and net: "sl_network c req s = served_answer sx h p (Inr (Some w)) s'"
    by (rule call_served[OF assms(1,2), folded q_def])
  have "handler_namespace h (so_version q) = Ok SOAP11EnvelopeNamespace"
    unfolding handler_namespace_def using assms(1) by (intro resolve_ok) (auto simp: callable_def q_def)
  moreover obtain data ns where d:
    "marshal_envelope sx \<lparr>ev_namespace = SOAP11EnvelopeNamespace, ev_header = None, ev_content = Some w, ev_fault = None\<rparr> = Ok data"
    "decode_body_payload sx data = Ok (t, so_response q)" "unmarshal_envelope sx data = Ok (ns, None)"
    by (rule sends_envelope[OF assms(3)[folded q_def] namespace_not_empty, where hdr = None])
  moreover have "body_wrapper_name sx (Some w) = Ok (so_response q)"
    using assms(3) by (simp add: body_wrapper_name_def sends_def q_def)
  ultimately have "operation_response sx h q (Some w) = Ok (write_xml 200 data)"
    by (simp add: operation_response_def validate_operation_response_def check_response_wrapper_def)
  then have "sl_network c req s = (Inr (200, Inr data), s')" using net by (simp add: served_answer_def q_def write_xml_def)
  moreover have "extract_fault sx data = Err FaultNotFound" using d(3) by (simp add: extract_fault_def)
  moreover have "unmarshal_body sx data (so_response q) out = Ok w'"
    using d(2) assms(3,4) by (simp add: unmarshal_body_def check_response_wrapper_def sends_def)
  ultimately show ?thesis
    using req by (simp add: soap_do_def versioned_request do_http_def do_http_raw_def q_def Let_def new_soap_request_def soap_set_body_def)
qed

text \<open>The fault on the wire, and as the client reports it.\<close>

definition wire_fault :: "'v soap_xml \<Rightarrow> 'v soap_fault \<Rightarrow> envelope_fault" where
  "wire_fault sx f =
     \<lparr>ef_code = default_text (ft_code f) ''soap:Server'', ef_string = default_text (ft_string f) ''internal error'',
      ef_actor = ft_actor f,
      ef_detail = (if marshal_fault_detail sx (ft_detail f) \<noteq> '''' then Some (marshal_fault_detail sx (ft_detail f)) else None)\<rparr>"

definition reported_fault :: "envelope_fault \<Rightarrow> 'v soap_fault" where
  "reported_fault ef =
     \<lparr>ft_code = ef_code ef, ft_string = ef_string ef, ft_actor = ef_actor ef,
      ft_detail = (case ef_detail ef of
         None \<Rightarrow> NoDetail | Some d \<Rightarrow> if trim_space d \<noteq> '''' then DetailText (trim_space d) else NoDetail)\<rparr>"

lemma default_text_twice [simp]: "default_text (default_text s d) d = default_text s d"
  by (simp add: default_text_def)

lemma fault_written:
  assumes "version_ok v" and "version_ok (hd_version h)"
    and "sx_marshal_envelope sx \<lparr>ev_namespace = SOAP11EnvelopeNamespace, ev_header = None, ev_content = None,
      ev_fault = Some (wire_fault sx f)\<rparr> = Inr data"
  shows "write_fault sx h f v = write_xml 500 data"
proof -
  have "handler_namespace h v = Ok SOAP11EnvelopeNamespace"
    unfolding handler_namespace_def using assms(1,2) by (intro resolve_ok) auto
  then show ?thesis
    using assms(3)
    by (cases "marshal_fault_detail sx (ft_detail f) = ''''")
      (simp_all add: write_fault_def marshal_fault_envelope_def marshal_envelope_def wire_fault_def Let_def resolve_ok[OF assms(1)])
qed

text \<open>
  C8: when the operation returns a fault, the client's call returns that fault with status 500: its
  code and text, with the defaults for empty ones, its actor, and its detail as text.  Of
  \<open>encoding/xml\<close> it is relied on that the envelope with this fault is decoded to the same fault.
\<close>

theorem soap_fault_reported:
  assumes "callable sx h c endpoint p v v'"
    and "invoke_operation p (hd_impl h) (Some v') s = (Inl (FaultValue f), s')"
    and "sx_marshal_envelope sx \<lparr>ev_namespace = SOAP11EnvelopeNamespace, ev_header = None, ev_content = None,
      ev_fault = Some (wire_fault sx f)\<rparr> = Inr data"
    and "trim_space data \<noteq> ''''" and "sx_unmarshal_envelope sx data = Inr (ns, Some (wire_fault sx f))"
  shows "soap_do sx c (Some (soap_set_body (Some v) (new_soap_request endpoint (od_operation p)))) out s =
    (Err (RemoteFault 500 (reported_fault (wire_fault sx f))), s')"
proof -
  define q where "q = od_operation p"
  obtain req where
    req: "build_soap_request sx (soap_set_body (Some v) (new_soap_request endpoint (with_default_version c q))) = Ok req"
    and net: "sl_network c req s = served_answer sx h p (Inl (FaultValue f)) s'"
    by (rule call_served[OF assms(1,2), folded q_def])
  have "version_ok (so_version q)" "version_ok (hd_version h)"
    using assms(1) by (simp_all add: callable_def q_def)
  from fault_written[OF this assms(3)] have "sl_network c req s = (Inr (500, Inr data), s')"
    using net by (simp add: served_answer_def write_invoke_fault_def q_def write_xml_def Let_def)
  moreover have "extract_fault sx data = Ok (reported_fault (wire_fault sx f))"
    using assms(4,5) by (simp add: extract_fault_def unmarshal_envelope_def reported_fault_def)
  ultimately show ?thesis
    using req by (simp add: soap_do_def versioned_request do_http_def do_http_raw_def q_def Let_def new_soap_request_def soap_set_body_def)
qed

section \<open>An example service\<close>

text \<open>
  Values are strings and their own encoding; an envelope is the letter \<open>E\<close> or \<open>F\<close> and its content.
\<close>

definition demo_element :: xml_name where
  "demo_element = \<lparr>xn_space = ''urn:echo'', xn_local = ''Echo''\<rparr>"

definition demo_xml :: "string soap_xml" where
  "demo_xml =
     \<lparr>sx_marshal = Inr,
      sx_marshal_envelope = (\<lambda>env. case ev_fault env of
         Some f \<Rightarrow> Inr (''F'' @ ef_string f)
       | None \<Rightarrow> (case ev_content env of None \<Rightarrow> Inr ''E'' | Some v \<Rightarrow> Inr (''E'' @ v))),
      sx_unmarshal_envelope = (\<lambda>data. if hd data = CHR ''F''
         then Inr ('''', Some \<lparr>ef_code = ''soap:Client'', ef_string = tl data, ef_actor = '''', ef_detail = None\<rparr>)
         else Inr ('''', None)),
      sx_unmarshal_body = (\<lambda>data. Inr (tl data)),
      sx_unmarshal = (\<lambda>t z. Inr t),
      sx_tokens = (\<lambda>t. ([StartElement demo_element [], EndElement], None)),
      sx_new_request = (\<lambda>e. None),
      sx_unicode = \<lparr>ut_letter = (\<lambda>r. False), ut_digit = (\<lambda>r. False), ut_upper = (\<lambda>r. False), ut_lower = (\<lambda>r. False),
        ut_print = (\<lambda>r. True), ut_to_upper = id, ut_to_lower = id\<rparr>\<rparr>"

text \<open>The operation counts its calls and answers with the request twice, or refuses the request \<open>no\<close>.\<close>

definition demo_operation :: "(string, nat) operation_desc" where
  "demo_operation =
     \<lparr>od_operation = \<lparr>so_name = ''Echo'', so_action = '''', so_request = demo_element, so_response = demo_element, so_version = ''''\<rparr>,
      od_new_request = Some '''', od_new_response = Some '''',
      od_invoke = Some (\<lambda>req s. case req of
         None \<Rightarrow> (Inr None, s)
       | Some t \<Rightarrow> if t = ''no'' then (Inl (FaultValue (plain_fault ''soap:Client'' ''refused'')), s + 1)
                   else (Inr (Some (t @ t)), s + 1))\<rparr>"

definition demo_handler :: "(string, nat) soap_handler" where
  "demo_handler = \<lparr>hd_desc = \<lparr>sd_name = ''Echo'', sd_wsdl = None, sd_operations = [demo_operation]\<rparr>,
     hd_impl = None, hd_version = SOAP11\<rparr>"

definition demo_client :: "nat soap_client" where
  "demo_client = \<lparr>sl_network = soap_wire demo_xml demo_handler, sl_version = SOAP11\<rparr>"

lemma plain_trim: "list_all plain_char s \<Longrightarrow> trim_space s = s"
  by (rule trim_word)

lemma demo_sends:
  assumes "list_all plain_char t" and "t \<noteq> ''''"
  shows "sends demo_xml t demo_element t"
proof -
  have "trim_space t = t" "trim_space (CHR ''E'' # t) = CHR ''E'' # t"
    using assms by (simp_all add: plain_trim plain_char_def)
  with assms show ?thesis
    by (simp add: sends_def demo_xml_def first_element_name_def)
qed

lemma demo_callable:
  assumes "list_all plain_char t" and "t \<noteq> ''''"
  shows "callable demo_xml demo_handler demo_client ''/'' demo_operation t t"
proof -
  have "sends demo_xml t demo_element t" by (rule demo_sends[OF assms])
  moreover have "trim_space ''/'' = ''/''" by (rule plain_trim) (simp add: plain_char_def)
  ultimately show ?thesis
    by (auto simp: callable_def find_operation_by_wrapper_def demo_handler_def demo_operation_def new_request_value_def
        demo_client_def version_ok_def demo_xml_def)
qed

lemma soap_call_answered_witness:
  "soap_do demo_xml demo_client
     (Some (soap_set_body (Some ''hi'') (new_soap_request ''/'' (od_operation demo_operation)))) (Some '''') 4 =
   (Ok (Some ''hihi''), 5)"
proof (rule soap_call_answered)
  show "callable demo_xml demo_handler demo_client ''/'' demo_operation ''hi'' ''hi''"
    by (rule demo_callable) (simp_all add: plain_char_def)
  show "invoke_operation demo_operation (hd_impl demo_handler) (Some ''hi'') 4 = (Inr (Some ''hihi''), 5)"
    by (simp add: invoke_operation_def demo_operation_def)
  have "sends demo_xml ''hihi'' demo_element ''hihi''"
    by (rule demo_sends) (simp_all add: plain_char_def)
  then show "sends demo_xml ''hihi'' (so_response (od_operation demo_operation)) ''hihi''"
    by (simp add: demo_operation_def)
qed (simp add: demo_xml_def)

lemma soap_fault_reported_witness:
  "soap_do demo_xml demo_client
     (Some (soap_set_body (Some ''no'') (new_soap_request ''/'' (od_operation demo_operation)))) (Some '''') 4 =
   (Err (RemoteFault 500 (reported_fault (wire_fault demo_xml (plain_fault ''soap:Client'' ''refused'')))), 5)"
proof (rule soap_fault_reported)
  show "callable demo_xml demo_handler demo_client ''/'' demo_operation ''no'' ''no''"
    by (rule demo_callable) (simp_all add: plain_char_def)
  show "invoke_operation demo_operation (hd_impl demo_handler) (Some ''no'') 4 =
      (Inl (FaultValue (plain_fault ''soap:Client'' ''refused'')), 5)"
    by (simp add: invoke_operation_def demo_operation_def)
  show "sx_marshal_envelope demo_xml \<lparr>ev_namespace = SOAP11EnvelopeNamespace, ev_header = None, ev_content = None,
      ev_fault = Some (wire_fault demo_xml (plain_fault ''soap:Client'' ''refused''))\<rparr> = Inr ''Frefused''"
    by (simp add: demo_xml_def wire_fault_def plain_fault_def default_text_def)
  have "trim_space ''Frefused'' = ''Frefused''" by (rule plain_trim) (simp add: plain_char_def)
  then show "trim_space ''Frefused'' \<noteq> ''''" by simp
  show "sx_unmarshal_envelope demo_xml ''Frefused'' =
      Inr ('''', Some (wire_fault demo_xml (plain_fault ''soap:Client'' ''refused'')))"
    by (simp add: demo_xml_def wire_fault_def plain_fault_def default_text_def marshal_fault_detail_def)
qed

section \<open>Behaviour of note\<close>

text \<open>An answer without a body, as to a one-way operation, is an error; the status of an answer is not looked at.\<close>

lemma empty_answer_rejected:
  assumes "sl_network c req s = (Inr (status, Inr data), s')" and "trim_space data = ''''"
  shows "do_http_raw sx c req s = (Err (ExtractFaultError EmptyEnvelopeData), s')"
  using assms by (simp add: do_http_raw_def extract_fault_def unmarshal_envelope_def)

lemma status_not_looked_at:
  assumes "sl_network c req s = (Inr (status, Inr data), s')" and "extract_fault sx data = Err FaultNotFound"
  shows "do_http_raw sx c req s = (Ok data, s')"
  using assms by (simp add: do_http_raw_def)

text \<open>With an envelope given the header of the request is dropped and the wrapper of the body is not checked.\<close>

lemma pinned_envelope_as_it_is:
  "ev_namespace env \<noteq> '''' \<Longrightarrow> request_envelope sx (set_soap_header hdr (set_envelope env r)) = Ok env"
  by (simp add: request_envelope_def set_soap_header_def set_envelope_def)

text \<open>A registration that fails has registered some methods: here \<open>GET\<close>, as \<open>POST\<close> was taken.\<close>

lemma failed_registration_leaves_routes:
  "let s = snd (group_add_route ''POST'' ''/x'' [0 :: nat] root_group new_server_matcher);
       (e, s') = register_any ''/x'' 1 root_group s
   in e = Some InvalidAdapterPath \<and> lookup_route ''GET'' ''/x'' s' \<noteq> None \<and> lookup_route ''PUT'' ''/x'' s' = None"
  by code_simp

end
